(* ===== verification/Prelude.thy ===== *)
theory Prelude
  imports
    Complex_Main
    "HOL-Library.List_Lexorder"
    "HOL-Library.Char_ord"
    "HOL-Library.Product_Lexorder"
    "HOL-Library.Multiset"
begin

text \<open>
  Shared vocabulary of the development.  Go strings are byte strings and are
  modelled as \<^typ>\<open>string\<close>; Go's string order is the byte-wise lexicographic
  one, which \<^theory_text>\<open>List_Lexorder\<close> and \<^theory_text>\<open>Char_ord\<close> provide.
  The theory holds the part of Go's \<^verbatim>\<open>strings\<close>, \<^verbatim>\<open>strconv\<close> and
  \<^verbatim>\<open>sort\<close> packages the program uses, the decoded YAML/JSON values the program
  walks, association lists standing for Go maps, the order-preserving
  de-duplication loop that occurs throughout the code, and the generic lemmas
  about them.
\<close>

named_theorems go_str \<open>facts about the string operations\<close>
named_theorems go_map \<open>lookup in the association lists that stand for Go maps\<close>
named_theorems go_sort \<open>facts about sort.Slice with a key-induced comparison\<close>

section \<open>Go's string operations\<close>

definition HasPrefix :: "string \<Rightarrow> string \<Rightarrow> bool" where
  "HasPrefix s p = (take (length p) s = p)"

definition HasSuffix :: "string \<Rightarrow> string \<Rightarrow> bool" where
  "HasSuffix s p = (length p \<le> length s \<and> drop (length s - length p) s = p)"

definition TrimPrefix :: "string \<Rightarrow> string \<Rightarrow> string" where
  "TrimPrefix s p = (if HasPrefix s p then drop (length p) s else s)"

definition TrimSuffix :: "string \<Rightarrow> string \<Rightarrow> string" where
  "TrimSuffix s p = (if HasSuffix s p then take (length s - length p) s else s)"

text \<open>\<open>Index s sub\<close> is \<^verbatim>\<open>strings.Index\<close>, with \<^verbatim>\<open>-1\<close> as \<^const>\<open>None\<close>.\<close>

fun Index :: "string \<Rightarrow> string \<Rightarrow> nat option" where
  "Index [] sub = (if sub = [] then Some 0 else None)"
| "Index (c # s) sub =
     (if HasPrefix (c # s) sub then Some 0 else map_option Suc (Index s sub))"

definition Contains :: "string \<Rightarrow> string \<Rightarrow> bool" where
  "Contains s sub = (Index s sub \<noteq> None)"

text \<open>\<open>LastIndexByte s c\<close> is the position of the last occurrence of a byte.\<close>

fun LastIndexByte :: "string \<Rightarrow> char \<Rightarrow> nat option" where
  "LastIndexByte [] c = None"
| "LastIndexByte (d # s) c =
     (case LastIndexByte s c of
        Some i \<Rightarrow> Some (Suc i)
      | None \<Rightarrow> if d = c then Some 0 else None)"

lemma HasPrefix_Nil [simp]: "HasPrefix s []"
  by (simp add: HasPrefix_def)

lemma HasPrefix_append [simp]: "HasPrefix (p @ s) p"
  by (simp add: HasPrefix_def)

lemma HasPrefix_iff: "HasPrefix s p \<longleftrightarrow> (\<exists>r. s = p @ r)"
  unfolding HasPrefix_def by (metis append_eq_conv_conj)

lemma HasPrefixE [elim]:
  assumes "HasPrefix s p" obtains r where "s = p @ r"
  using assms HasPrefix_iff by blast

lemma HasPrefix_length: "HasPrefix s p \<Longrightarrow> length p \<le> length s"
  by (auto simp: HasPrefix_iff)

lemma HasSuffix_iff: "HasSuffix s p \<longleftrightarrow> (\<exists>r. s = r @ p)"
  unfolding HasSuffix_def
  by (metis append_eq_append_conv append_take_drop_id diff_diff_cancel diff_is_0_eq'
      le_add2 length_append length_drop append_eq_conv_conj add_diff_cancel_right')

lemma TrimPrefix_append [go_str]: "TrimPrefix (p @ s) p = s"
  by (simp add: TrimPrefix_def)

lemma TrimSuffix_append [go_str]: "TrimSuffix (s @ p) p = s"
  by (auto simp: TrimSuffix_def HasSuffix_def)

lemma Index_Some_bound: "Index s sub = Some i \<Longrightarrow> i + length sub \<le> length s"
  by (induction s sub arbitrary: i rule: Index.induct)
    (auto split: if_splits dest: HasPrefix_length)

lemma Index_Some_split:
  "Index s sub = Some i \<Longrightarrow> s = take i s @ sub @ drop (i + length sub) s"
proof (induction s sub arbitrary: i rule: Index.induct)
  case (2 c s sub)
  show ?case
  proof (cases "HasPrefix (c # s) sub")
    case True
    then show ?thesis using 2 by (auto simp: HasPrefix_def) (metis append_take_drop_id)
  next
    case False
    then obtain j where j: "i = Suc j" "Index s sub = Some j"
      using 2 by auto
    show ?thesis using "2.IH"[OF False j(2)] j by simp
  qed
qed (auto split: if_splits)

lemma Index_None_iff: "Index s sub = None \<longleftrightarrow> (\<nexists>a b. s = a @ sub @ b)"
proof (induction s sub rule: Index.induct)
  case (2 c s sub)
  show ?case
  proof (cases "HasPrefix (c # s) sub")
    case True
    then show ?thesis by (auto simp: HasPrefix_iff) (metis append_Nil)
  next
    case False
    have "(\<exists>a b. c # s = a @ sub @ b) \<longleftrightarrow> (\<exists>a b. s = a @ sub @ b)"
    proof
      assume "\<exists>a b. c # s = a @ sub @ b"
      then obtain a b where ab: "c # s = a @ sub @ b" by blast
      with False show "\<exists>a b. s = a @ sub @ b"
        by (cases a) (auto simp: HasPrefix_iff)
    next
      assume "\<exists>a b. s = a @ sub @ b"
      then show "\<exists>a b. c # s = a @ sub @ b" by (metis append_Cons)
    qed
    with False 2 show ?thesis by simp
  qed
qed auto

lemma Contains_iff: "Contains s sub \<longleftrightarrow> (\<exists>a b. s = a @ sub @ b)"
  by (auto simp: Contains_def Index_None_iff)

lemma Contains_singleton [go_str]: "Contains s [c] \<longleftrightarrow> c \<in> set s"
  by (auto simp: Contains_iff in_set_conv_decomp)

lemma Index_singleton_first:
  "Index s [c] = Some i \<Longrightarrow> c \<notin> set (take i s) \<and> s ! i = c \<and> i < length s"
proof (induction s arbitrary: i)
  case (Cons d s)
  then show ?case by (cases i) (auto simp: HasPrefix_def split: if_splits)
qed simp

lemma LastIndexByte_None [simp]: "LastIndexByte s c = None \<longleftrightarrow> c \<notin> set s"
  by (induction s) (auto split: option.splits)

lemma LastIndexByte_Some:
  "LastIndexByte s c = Some i \<Longrightarrow>
     i < length s \<and> s ! i = c \<and> c \<notin> set (drop (Suc i) s)"
  by (induction s arbitrary: i) (auto split: option.splits if_splits)

text \<open>\<^verbatim>\<open>strings.Split\<close> for a non-empty separator, and \<^verbatim>\<open>strings.Join\<close>.\<close>

function Split :: "string \<Rightarrow> string \<Rightarrow> string list" where
  "Split s sep =
     (if sep = [] then map (\<lambda>c. [c]) s
      else (case Index s sep of
              None \<Rightarrow> [s]
            | Some i \<Rightarrow> take i s # Split (drop (i + length sep) s) sep))"
  by pat_completeness auto
termination
  by (relation "measure (\<lambda>(s, sep). length s)")
    (auto dest!: Index_Some_bound simp: neq_Nil_conv)

declare Split.simps [simp del]

fun Join :: "string list \<Rightarrow> string \<Rightarrow> string" where
  "Join [] sep = []"
| "Join [x] sep = x"
| "Join (x # y # xs) sep = x @ sep @ Join (y # xs) sep"

lemma Split_ne [simp]: "sep \<noteq> [] \<Longrightarrow> Split s sep \<noteq> []"
  by (subst Split.simps) (auto split: option.splits)

lemma Join_Cons: "xs \<noteq> [] \<Longrightarrow> Join (x # xs) sep = x @ sep @ Join xs sep"
  by (cases xs) auto

lemma Join_elem_subset: "x \<in> set xs \<Longrightarrow> set x \<subseteq> set (Join xs sep)"
  by (induction xs rule: induct_list012) auto

lemma Join_Split: "sep \<noteq> [] \<Longrightarrow> Join (Split s sep) sep = s"
proof (induction s sep rule: Split.induct)
  case (1 s sep)
  show ?case
  proof (cases "Index s sep")
    case None
    then show ?thesis using 1 by (subst Split.simps) simp
  next
    case (Some i)
    have ih: "Join (Split (drop (i + length sep) s) sep) sep = drop (i + length sep) s"
      using 1 Some by blast
    have sp: "Split s sep = take i s # Split (drop (i + length sep) s) sep"
      using Some 1(2) by (subst Split.simps) simp
    have "Join (Split s sep) sep = take i s @ sep @ drop (i + length sep) s"
      using 1(2) sp ih by (simp add: Join_Cons)
    also have "\<dots> = s" using Index_Some_split[OF Some] by simp
    finally show ?thesis .
  qed
qed

lemma Split_no_sep:
  "c \<notin> set s \<Longrightarrow> Split s [c] = [s]"
  using Contains_singleton[of s c] by (subst Split.simps) (auto simp: Contains_def)

lemma Split_append_sep:
  "c \<notin> set a \<Longrightarrow> Split (a @ c # b) [c] = a # Split b [c]"
proof -
  assume c: "c \<notin> set a"
  have "Index (a @ c # b) [c] = Some (length a)"
    using c by (induction a) (auto simp: HasPrefix_def)
  then show ?thesis by (subst Split.simps) simp
qed

lemma Split_pieces_free: "x \<in> set (Split s [c]) \<Longrightarrow> c \<notin> set x"
proof (induction s "[c]" rule: Split.induct)
  case (1 s)
  show ?case
  proof (cases "Index s [c]")
    case None
    then show ?thesis
      using 1(2) Contains_singleton[of s c] by (subst (asm) Split.simps) (auto simp: Contains_def)
  next
    case (Some i)
    then have "x = take i s \<or> x \<in> set (Split (drop (i + 1) s) [c])"
      using 1(2) by (subst (asm) Split.simps) auto
    then show ?thesis using 1(1) Some Index_singleton_first[OF Some] by auto
  qed
qed

lemma Split_Join:
  "xs \<noteq> [] \<Longrightarrow> \<forall>x \<in> set xs. c \<notin> set x \<Longrightarrow> Split (Join xs [c]) [c] = xs"
proof (induction xs rule: induct_list012)
  case (3 x y zs)
  then show ?case using Split_append_sep[of c x "Join (y # zs) [c]"] by simp
qed (auto simp: Split_no_sep)

text \<open>
  \<^verbatim>\<open>strings.TrimSpace\<close> and \<^verbatim>\<open>strings.Trim\<close>, on the ASCII white space the
  manifests use: tab, newline, vertical tab, form feed, return and blank.
\<close>

definition is_space :: "char \<Rightarrow> bool" where
  "is_space c = (c \<in> set [CHR 0x09, CHR 0x0A, CHR 0x0B, CHR 0x0C, CHR 0x0D, CHR 0x20])"

definition TrimLeftFunc :: "(char \<Rightarrow> bool) \<Rightarrow> string \<Rightarrow> string" where
  "TrimLeftFunc p s = dropWhile p s"

definition TrimRightFunc :: "(char \<Rightarrow> bool) \<Rightarrow> string \<Rightarrow> string" where
  "TrimRightFunc p s = rev (dropWhile p (rev s))"

definition TrimSpace :: "string \<Rightarrow> string" where
  "TrimSpace s = TrimRightFunc is_space (TrimLeftFunc is_space s)"

lemma dropWhile_idem: "dropWhile p (dropWhile p s) = dropWhile p s"
  by (induction s) auto

lemma TrimSpace_last: "TrimSpace s \<noteq> [] \<Longrightarrow> \<not> is_space (last (TrimSpace s))"
  unfolding TrimSpace_def TrimRightFunc_def
  using hd_dropWhile last_rev by (metis Nil_is_rev_conv)

lemma rev_dropWhile_take: "\<exists>n. rev (dropWhile p (rev s)) = take n s"
  by (metis append_eq_conv_conj rev_append rev_rev_ident takeWhile_dropWhile_id)

lemma TrimSpace_hd: "TrimSpace s \<noteq> [] \<Longrightarrow> \<not> is_space (hd (TrimSpace s))"
proof -
  assume ne: "TrimSpace s \<noteq> []"
  obtain n where n: "TrimSpace s = take n (dropWhile is_space s)"
    unfolding TrimSpace_def TrimRightFunc_def TrimLeftFunc_def
    using rev_dropWhile_take by blast
  then have "hd (TrimSpace s) = hd (dropWhile is_space s)" "dropWhile is_space s \<noteq> []"
    using ne by (cases n; cases "dropWhile is_space s"; simp)+
  then show ?thesis using hd_dropWhile by metis
qed

lemma dropWhile_hd: "s = [] \<or> \<not> p (hd s) \<Longrightarrow> dropWhile p s = s"
  by (cases s) auto

lemma TrimSpace_id:
  "s = [] \<or> (\<not> is_space (hd s) \<and> \<not> is_space (last s)) \<Longrightarrow> TrimSpace s = s"
  by (auto simp: TrimSpace_def TrimRightFunc_def TrimLeftFunc_def dropWhile_hd hd_rev)

lemma TrimSpace_idem [go_str]: "TrimSpace (TrimSpace s) = TrimSpace s"
  using TrimSpace_id TrimSpace_hd TrimSpace_last by blast

text \<open>\<^verbatim>\<open>strconv.Itoa\<close> and \<^verbatim>\<open>strconv.Atoi\<close> (decimal, optional sign).\<close>

definition digit_char :: "nat \<Rightarrow> char" where
  "digit_char n = char_of (48 + n)"

definition is_digit :: "char \<Rightarrow> bool" where
  "is_digit c = (48 \<le> (of_char c :: nat) \<and> (of_char c :: nat) \<le> 57)"

definition digit_val :: "char \<Rightarrow> nat" where
  "digit_val c = of_char c - 48"

fun nat_digits :: "nat \<Rightarrow> string" where
  "nat_digits n =
     (if n < 10 then [digit_char n] else nat_digits (n div 10) @ [digit_char (n mod 10)])"

declare nat_digits.simps [simp del]

definition Itoa :: "int \<Rightarrow> string" where
  "Itoa i = (if i < 0 then CHR ''-'' # nat_digits (nat (- i)) else nat_digits (nat i))"

definition digits_val :: "string \<Rightarrow> nat" where
  "digits_val s = foldl (\<lambda>n c. 10 * n + digit_val c) 0 s"

text \<open>Range errors (values outside \<^verbatim>\<open>int\<close>, 64 bits) and syntax errors are both \<^const>\<open>None\<close>.\<close>

definition Atoi :: "string \<Rightarrow> int option" where
  "Atoi s =
     (let (neg, ds) = (case s of
                         [] \<Rightarrow> (False, [])
                       | c # r \<Rightarrow> if c = CHR ''-'' then (True, r)
                                  else if c = CHR ''+'' then (False, r) else (False, s))
      in if ds = [] \<or> \<not> list_all is_digit ds then None
         else let v = (if neg then - int (digits_val ds) else int (digits_val ds))
              in if - (2 ^ 63) \<le> v \<and> v < 2 ^ 63 then Some v else None)"

lemma digit_char_props:
  assumes "n < 10"
  shows "is_digit (digit_char n)" "digit_val (digit_char n) = n"
  using assms by (auto simp: is_digit_def digit_val_def digit_char_def)

lemma nat_digits_props:
  "list_all is_digit (nat_digits n) \<and> digits_val (nat_digits n) = n \<and> nat_digits n \<noteq> []"
proof (induction n rule: nat_digits.induct)
  case (1 n)
  show ?case
  proof (cases "n < 10")
    case True
    then show ?thesis
      using digit_char_props[OF True] by (subst (1 2 3) nat_digits.simps) (simp add: digits_val_def)
  next
    case False
    have m: "n mod 10 < 10" by simp
    show ?thesis
      using 1[OF False] digit_char_props[OF m] False
      by (subst (1 2 3) nat_digits.simps) (auto simp: digits_val_def)
  qed
qed

lemma nat_digits_hd: "is_digit (hd (nat_digits n))"
  using nat_digits_props[of n] by (cases "nat_digits n") auto

lemma Atoi_Itoa: "- (2 ^ 63) \<le> i \<Longrightarrow> i < 2 ^ 63 \<Longrightarrow> Atoi (Itoa i) = Some i"
proof -
  assume b: "- (2 ^ 63) \<le> i" "i < 2 ^ 63"
  have nd: "\<not> is_digit (CHR ''-'')" "\<not> is_digit (CHR ''+'')"
    by (auto simp: is_digit_def)
  show ?thesis
  proof (cases "i < 0")
    case True
    then show ?thesis using b nat_digits_props[of "nat (- i)"]
      by (auto simp: Atoi_def Itoa_def)
  next
    case False
    obtain c r where cr: "nat_digits (nat i) = c # r"
      using nat_digits_props by (cases "nat_digits (nat i)") auto
    then have "is_digit c" using nat_digits_hd[of "nat i"] by simp
    then have "c \<noteq> CHR ''-''" "c \<noteq> CHR ''+''" using nd by auto
    then show ?thesis using False b cr nat_digits_props[of "nat i"]
      by (simp add: Atoi_def Itoa_def)
  qed
qed

lemma Itoa_digits: "c \<in> set (Itoa i) \<Longrightarrow> c = CHR ''-'' \<or> is_digit c"
  using nat_digits_props by (auto simp: Itoa_def list_all_iff split: if_splits)

end
