(* ===== verification/GoData.thy ===== *)
theory GoData
  imports Prelude
begin

text \<open>
  The generic data structures the components share: decoded YAML/JSON values,
  association lists for Go maps, the seen-set de-duplication loop,
  map-of-slices indexes built by appending, and \<^verbatim>\<open>sort.Slice\<close> with
  its contract stated as a locale over the comparison function.
\<close>

section \<open>Decoded YAML and JSON values\<close>

text \<open>
  The dynamic types \<^verbatim>\<open>interface{}\<close> takes after \<^verbatim>\<open>yaml.Unmarshal\<close> or
  \<^verbatim>\<open>json.Unmarshal\<close>: \<^verbatim>\<open>nil\<close>, \<^verbatim>\<open>bool\<close>, \<^verbatim>\<open>int\<close>, a finite \<^verbatim>\<open>float64\<close>
  (a rational), \<^verbatim>\<open>string\<close>, \<^verbatim>\<open>[]interface{}\<close> and
  \<^verbatim>\<open>map[string]interface{}\<close>.  A map is the list of its entries in one iteration
  order, keys distinct.
\<close>

datatype json =
    JNull
  | JBool bool
  | JInt int
  | JFloat rat
  | JStr string
  | JArr "json list"
  | JObj "(string \<times> json) list"

type_synonym obj = "(string \<times> json) list"
type_synonym strmap = "(string \<times> string) list"

text \<open>Well-formed values: every object, at any depth, has distinct keys.\<close>

fun wf_json :: "json \<Rightarrow> bool" where
  "wf_json (JArr xs) = (\<forall>x \<in> set xs. wf_json x)"
| "wf_json (JObj kvs) = (distinct (map fst kvs) \<and> (\<forall>kv \<in> set kvs. wf_json (snd kv)))"
| "wf_json _ = True"

text \<open>The type assertions \<^verbatim>\<open>v.(T)\<close> in their comma-ok form.\<close>

fun as_str :: "json \<Rightarrow> string option" where
  "as_str (JStr s) = Some s"
| "as_str _ = None"

fun as_obj :: "json \<Rightarrow> obj option" where
  "as_obj (JObj m) = Some m"
| "as_obj _ = None"

fun as_arr :: "json \<Rightarrow> json list option" where
  "as_arr (JArr xs) = Some xs"
| "as_arr _ = None"

fun as_bool :: "json \<Rightarrow> bool option" where
  "as_bool (JBool b) = Some b"
| "as_bool _ = None"

lemma as_str_Some [simp]: "as_str v = Some s \<longleftrightarrow> v = JStr s" by (cases v) auto
lemma as_obj_Some [simp]: "as_obj v = Some m \<longleftrightarrow> v = JObj m" by (cases v) auto
lemma as_arr_Some [simp]: "as_arr v = Some xs \<longleftrightarrow> v = JArr xs" by (cases v) auto
lemma as_bool_Some [simp]: "as_bool v = Some b \<longleftrightarrow> v = JBool b" by (cases v) auto
lemma as_str_Some_sym [simp]: "Some s = as_str v \<longleftrightarrow> v = JStr s" by (cases v) auto
lemma as_obj_Some_sym [simp]: "Some m = as_obj v \<longleftrightarrow> v = JObj m" by (cases v) auto
lemma as_arr_Some_sym [simp]: "Some xs = as_arr v \<longleftrightarrow> v = JArr xs" by (cases v) auto

text \<open>\<^verbatim>\<open>m[k]\<close> on a \<^verbatim>\<open>map[string]interface{}\<close>: a missing key reads as \<^verbatim>\<open>nil\<close>.\<close>

definition jget :: "obj \<Rightarrow> string \<Rightarrow> json" where
  "jget m k = (case map_of m k of Some v \<Rightarrow> v | None \<Rightarrow> JNull)"

text \<open>\<^verbatim>\<open>m[k]\<close> on a \<^verbatim>\<open>map[string]string\<close>: a missing key reads as the empty string.\<close>

definition mget :: "(string \<times> string) list \<Rightarrow> string \<Rightarrow> string" where
  "mget m k = (case map_of m k of Some v \<Rightarrow> v | None \<Rightarrow> [])"

section \<open>Go maps as association lists\<close>

fun mput :: "'k \<Rightarrow> 'v \<Rightarrow> ('k \<times> 'v) list \<Rightarrow> ('k \<times> 'v) list" where
  "mput k v [] = [(k, v)]"
| "mput k v ((k', v') # m) = (if k = k' then (k, v) # m else (k', v') # mput k v m)"

lemma map_of_mput [simp, go_map]: "map_of (mput k v m) = (map_of m)(k \<mapsto> v)"
  by (induction m) auto

lemma mput_keys: "map fst (mput k v m) =
    (if k \<in> fst ` set m then map fst m else map fst m @ [k])"
  by (induction m) force+

lemma mput_entries: "(k', v') \<in> set (mput k v m) \<Longrightarrow> (k' = k \<and> v' = v) \<or> (k', v') \<in> set m"
  by (induction m) (auto split: if_splits)

lemma mput_keys_set [simp]: "fst ` set (mput k v m) = insert k (fst ` set m)"
proof -
  have "fst ` set (mput k v m) = set (map fst (mput k v m))" by simp
  also have "\<dots> = insert k (fst ` set m)" unfolding mput_keys by auto
  finally show ?thesis .
qed

lemma mput_distinct [simp, intro]:
  "distinct (map fst m) \<Longrightarrow> distinct (map fst (mput k v m))"
  by (auto simp: mput_keys)

definition mhas :: "('k \<times> 'v) list \<Rightarrow> 'k \<Rightarrow> bool" where
  "mhas m k = (map_of m k \<noteq> None)"

lemma mhas_iff [go_map]: "mhas m k \<longleftrightarrow> k \<in> fst ` set m"
  by (simp add: mhas_def map_of_eq_None_iff)

definition mdel :: "'k \<Rightarrow> ('k \<times> 'v) list \<Rightarrow> ('k \<times> 'v) list" where
  "mdel k m = filter (\<lambda>kv. fst kv \<noteq> k) m"

lemma map_of_mdel [simp, go_map]: "map_of (mdel k m) = (map_of m)(k := None)"
  by (induction m) (auto simp: mdel_def fun_eq_iff)

lemma mdel_distinct [simp, intro]: "distinct (map fst m) \<Longrightarrow> distinct (map fst (mdel k m))"
  by (simp add: mdel_def distinct_map_filter)

text \<open>A map of slices built by \<^verbatim>\<open>m[k] = append(m[k], v)\<close>.\<close>

definition mgetl :: "('k \<times> 'v list) list \<Rightarrow> 'k \<Rightarrow> 'v list" where
  "mgetl m k = (case map_of m k of Some vs \<Rightarrow> vs | None \<Rightarrow> [])"

definition madd :: "'k \<Rightarrow> 'v \<Rightarrow> ('k \<times> 'v list) list \<Rightarrow> ('k \<times> 'v list) list" where
  "madd k v m = mput k (mgetl m k @ [v]) m"

definition index_by :: "('a \<Rightarrow> 'k) \<Rightarrow> ('a \<Rightarrow> 'v) \<Rightarrow> 'a list \<Rightarrow> ('k \<times> 'v list) list" where
  "index_by key val xs = foldl (\<lambda>m x. madd (key x) (val x) m) [] xs"

lemma mgetl_madd [simp, go_map]:
  "mgetl (madd k v m) k' = (if k' = k then mgetl m k @ [v] else mgetl m k')"
  by (simp add: madd_def mgetl_def)

lemma madd_keys_set [simp]: "fst ` set (madd k v m) = insert k (fst ` set m)"
  by (simp add: madd_def)

lemma madd_distinct [simp, intro]:
  "distinct (map fst m) \<Longrightarrow> distinct (map fst (madd k v m))"
  by (simp add: madd_def)

lemma mgetl_foldl_madd:
  "mgetl (foldl (\<lambda>m x. madd (key x) (val x) m) m xs) k =
     mgetl m k @ map val (filter (\<lambda>x. key x = k) xs)"
  by (induction xs arbitrary: m) auto

lemma mgetl_index_by [go_map]:
  "mgetl (index_by key val xs) k = map val (filter (\<lambda>x. key x = k) xs)"
  using mgetl_foldl_madd[of key val "[]" xs k]
  by (simp add: index_by_def) (simp add: mgetl_def)

lemma index_by_keys [go_map]: "fst ` set (index_by key val xs) = key ` set xs"
proof -
  have "fst ` set (foldl (\<lambda>m x. madd (key x) (val x) m) m xs) = fst ` set m \<union> key ` set xs" for m
    by (induction xs arbitrary: m) auto
  from this[of "[]"] show ?thesis by (simp add: index_by_def)
qed

lemma index_by_distinct: "distinct (map fst (index_by key val xs))"
proof -
  have "distinct (map fst m) \<Longrightarrow>
        distinct (map fst (foldl (\<lambda>m x. madd (key x) (val x) m) m xs))" for m
    by (induction xs arbitrary: m) auto
  from this[of "[]"] show ?thesis by (simp add: index_by_def)
qed

text \<open>The last writer wins when a map is filled by a loop of plain assignments.\<close>

definition mfill :: "('a \<Rightarrow> 'k) \<Rightarrow> ('a \<Rightarrow> 'v) \<Rightarrow> 'a list \<Rightarrow> ('k \<times> 'v) list" where
  "mfill key val xs = foldl (\<lambda>m x. mput (key x) (val x) m) [] xs"

lemma mfill_gen:
  "map_of (foldl (\<lambda>m x. mput (key x) (val x) m) m xs) k =
     (case find (\<lambda>x. key x = k) (rev xs) of Some x \<Rightarrow> Some (val x) | None \<Rightarrow> map_of m k)"
proof (induction xs arbitrary: m rule: rev_induct)
  case (snoc x xs)
  then show ?case by (auto split: option.splits)
qed simp

lemma map_of_mfill [go_map]:
  "map_of (mfill key val xs) k = map_option val (find (\<lambda>x. key x = k) (rev xs))"
  using mfill_gen[of key val "[]" xs k] by (simp add: mfill_def split: option.splits)

lemma mfill_keys [go_map]: "fst ` set (mfill key val xs) = key ` set xs"
proof -
  have "fst ` set (foldl (\<lambda>m x. mput (key x) (val x) m) m xs) = fst ` set m \<union> key ` set xs" for m
    by (induction xs arbitrary: m) auto
  from this[of "[]"] show ?thesis by (simp add: mfill_def)
qed

lemma mfill_distinct [simp]: "distinct (map fst (mfill key val xs))"
proof -
  have "distinct (map fst m) \<Longrightarrow>
        distinct (map fst (foldl (\<lambda>m x. mput (key x) (val x) m) m xs))" for m
    by (induction xs arbitrary: m) auto
  from this[of "[]"] show ?thesis by (simp add: mfill_def)
qed

lemma find_SomeD: "find P xs = Some x \<Longrightarrow> x \<in> set xs \<and> P x"
  by (induction xs) (auto split: if_splits)

lemma map_of_mfill_distinct:
  assumes "distinct (map key xs)" "x \<in> set xs"
  shows "map_of (mfill key val xs) (key x) = Some (val x)"
proof -
  obtain y where y: "find (\<lambda>y. key y = key x) (rev xs) = Some y"
    using assms(2) by (cases "find (\<lambda>y. key y = key x) (rev xs)") (auto simp: find_None_iff)
  then have "y \<in> set xs" "key y = key x" using find_SomeD[OF y] by auto
  then have "y = x" using assms by (auto simp: distinct_map inj_on_def)
  then show ?thesis using y by (simp add: map_of_mfill)
qed

lemma map_of_mfill_iff:
  assumes "distinct (map key xs)"
  shows "map_of (mfill key val xs) k = Some v \<longleftrightarrow> (\<exists>x \<in> set xs. key x = k \<and> val x = v)"
proof
  assume "map_of (mfill key val xs) k = Some v"
  then obtain x where "find (\<lambda>x. key x = k) (rev xs) = Some x" "val x = v"
    by (auto simp: map_of_mfill)
  then show "\<exists>x \<in> set xs. key x = k \<and> val x = v" using find_SomeD by fastforce
qed (use map_of_mfill_distinct[OF assms] in auto)

section \<open>The seen-set loop\<close>

text \<open>
  \<^verbatim>\<open>for x in xs { if seen[key(x)] { continue }; seen[key(x)] = true; out = append(out, x) }\<close>
\<close>

fun dedup_on :: "('a \<Rightarrow> 'k) \<Rightarrow> 'k list \<Rightarrow> 'a list \<Rightarrow> 'a list" where
  "dedup_on key seen [] = []"
| "dedup_on key seen (x # xs) =
     (if key x \<in> set seen then dedup_on key seen xs
      else x # dedup_on key (key x # seen) xs)"

lemma dedup_on_subset: "set (dedup_on key seen xs) \<subseteq> set xs"
proof (induction xs arbitrary: seen)
  case (Cons x xs)
  then show ?case using Cons[of seen] Cons[of "key x # seen"] by auto
qed simp

lemma dedup_on_keys: "key ` set (dedup_on key seen xs) = key ` set xs - set seen"
  by (induction xs arbitrary: seen) auto

lemma dedup_on_distinct: "distinct (map key (dedup_on key seen xs))"
proof (induction xs arbitrary: seen)
  case (Cons x xs)
  have "key x \<notin> key ` set (dedup_on key (key x # seen) xs)"
    by (simp add: dedup_on_keys)
  then show ?case using Cons by simp
qed simp

lemma dedup_on_set_id: "set (dedup_on id [] xs) = set xs"
  using dedup_on_keys[of id "[]" xs] by simp

lemma dedup_on_distinct_id: "distinct (dedup_on id seen xs)"
  using dedup_on_distinct[of id seen xs] by simp

lemma dedup_on_seen_set: "set seen = set seen' \<Longrightarrow> dedup_on key seen xs = dedup_on key seen' xs"
proof (induction xs arbitrary: seen seen')
  case (Cons x xs)
  have "set (key x # seen) = set (key x # seen')" using Cons.prems by simp
  then have "dedup_on key (key x # seen) xs = dedup_on key (key x # seen') xs" by (rule Cons.IH)
  moreover have "dedup_on key seen xs = dedup_on key seen' xs" by (rule Cons.IH[OF Cons.prems])
  ultimately show ?case unfolding dedup_on.simps Cons.prems by metis
qed simp

lemma dedup_on_fresh:
  "distinct (map key xs) \<Longrightarrow> key ` set xs \<inter> set seen = {} \<Longrightarrow> dedup_on key seen xs = xs"
proof (induction xs arbitrary: seen)
  case (Cons x xs)
  then have "key ` set xs \<inter> set (key x # seen) = {}" by auto
  then show ?case using Cons by auto
qed simp

lemma dedup_on_first:
  "x \<in> set (dedup_on key seen xs) \<Longrightarrow> find (\<lambda>y. key y = key x) xs = Some x"
proof (induction xs arbitrary: seen)
  case (Cons y ys)
  show ?case
  proof (cases "key y \<in> set seen")
    case True
    then have x: "x \<in> set (dedup_on key seen ys)" using Cons by simp
    then have "key x \<notin> set seen" using dedup_on_keys[of key seen ys] by blast
    then show ?thesis using True Cons.IH[OF x] by auto
  next
    case False
    then consider "x = y" | "x \<in> set (dedup_on key (key y # seen) ys)" using Cons by auto
    then show ?thesis
    proof cases
      case 2
      then have "key x \<noteq> key y" using dedup_on_keys[of key "key y # seen" ys] by force
      then show ?thesis using Cons.IH[OF 2] by auto
    qed simp
  qed
qed simp

section \<open>sort.Slice\<close>

text \<open>
  Go's \<^verbatim>\<open>sort.Slice\<close> and \<^verbatim>\<open>slices.SortFunc\<close> are not stable; the model sorts by
  insertion.  The locale below shows that the choice is immaterial when the
  keys are distinct, and what holds of the result in any case.
\<close>

fun insert_slice :: "('a \<Rightarrow> 'a \<Rightarrow> bool) \<Rightarrow> 'a \<Rightarrow> 'a list \<Rightarrow> 'a list" where
  "insert_slice lt x [] = [x]"
| "insert_slice lt x (y # ys) =
     (if lt y x then y # insert_slice lt x ys else x # y # ys)"

definition sort_slice :: "('a \<Rightarrow> 'a \<Rightarrow> bool) \<Rightarrow> 'a list \<Rightarrow> 'a list" where
  "sort_slice lt xs = foldr (insert_slice lt) xs []"

lemma insert_slice_mset [simp]: "mset (insert_slice lt x ys) = add_mset x (mset ys)"
  by (induction ys) auto

lemma sort_slice_mset [simp, go_sort]: "mset (sort_slice lt xs) = mset xs"
  by (induction xs) (auto simp: sort_slice_def)

lemma sort_slice_set [simp, go_sort]: "set (sort_slice lt xs) = set xs"
  using sort_slice_mset[of lt xs] by (metis set_mset_mset)

lemma sort_slice_length [simp, go_sort]: "length (sort_slice lt xs) = length xs"
  using sort_slice_mset[of lt xs] by (metis size_mset)

lemma sort_slice_distinct_map [simp, go_sort]:
  "distinct (map f (sort_slice lt xs)) = distinct (map f xs)"
  by (metis mset_map sort_slice_mset mset_eq_imp_distinct_iff)

lemma sort_slice_distinct [simp, go_sort]: "distinct (sort_slice lt xs) = distinct xs"
  using sort_slice_distinct_map[of "\<lambda>x. x"] by simp

lemma sort_slice_Nil [simp]: "sort_slice lt [] = []"
  by (simp add: sort_slice_def)

lemma sort_slice_eq_Nil [simp]: "sort_slice lt xs = [] \<longleftrightarrow> xs = []"
  by (metis length_0_conv sort_slice_length)

locale key_order =
  fixes lt :: "'a \<Rightarrow> 'a \<Rightarrow> bool" and key :: "'a \<Rightarrow> 'k::linorder"
  assumes less_key: "lt x y \<longleftrightarrow> key x < key y"
begin

lemma insert_is_insort: "insert_slice lt x ys = insort_key key x ys"
  by (induction ys) (auto simp: less_key not_less)

lemma slice_is_sort_key: "sort_slice lt xs = sort_key key xs"
  unfolding sort_slice_def sort_key_def
  by (induction xs) (simp_all add: insert_is_insort)

lemma slice_sorted: "sorted (map key (sort_slice lt xs))"
  by (simp add: slice_is_sort_key)

lemma slice_sorted_wrt: "sorted_wrt (\<lambda>x y. \<not> lt y x) (sort_slice lt xs)"
  using slice_sorted[of xs] by (simp add: less_key sorted_wrt_map not_less)

lemma slice_idem: "sort_slice lt (sort_slice lt xs) = sort_slice lt xs"
  unfolding slice_is_sort_key by (simp add: sort_key_id_if_sorted)

text \<open>Any correct sorting routine, stable or not, agrees when the keys are distinct.\<close>

lemma slice_unique:
  assumes "mset ys = mset xs" "sorted (map key ys)" "distinct (map key xs)"
  shows "ys = sort_slice lt xs"
proof -
  have "distinct (map key ys)" using assms(1,3) by (metis mset_map mset_eq_imp_distinct_iff)
  then have inj: "inj_on key (set ys)" by (simp add: distinct_map)
  have "sort (map key xs) = map key ys"
    using assms(1,2) by (intro properties_for_sort) (metis mset_map, simp)
  moreover have "sort (map key xs) = map key (sort_slice lt xs)"
    using slice_sorted[of xs] by (intro properties_for_sort) (metis mset_map sort_slice_mset, simp)
  ultimately have "map key ys = map key (sort_slice lt xs)" by simp
  moreover have "set ys = set (sort_slice lt xs)"
    using assms(1) by (metis set_mset_mset sort_slice_set)
  ultimately show ?thesis using inj map_inj_on[of key ys "sort_slice lt xs"] by auto
qed

end

text \<open>The two comparisons the code spells inline: by one string, and by an integer.\<close>

interpretation str_order: key_order "(<)" "\<lambda>s::string. s"
  by unfold_locales simp

section \<open>cmp.Compare chains and NUL-joined keys\<close>

text \<open>
  \<^verbatim>\<open>if c := cmp.Compare(a.X, b.X); c != 0 { return c }; ...\<close> returns the first non-zero
  comparison; \<^verbatim>\<open>slices.SortFunc\<close> sorts by the sign of such a chain.
\<close>

definition Compare :: "'a::linorder \<Rightarrow> 'a \<Rightarrow> int" where
  "Compare a b = (if a < b then -1 else if b < a then 1 else 0)"

fun cmp_chain :: "int list \<Rightarrow> int" where
  "cmp_chain [] = 0"
| "cmp_chain (c # cs) = (if c \<noteq> 0 then c else cmp_chain cs)"

abbreviation SortFunc :: "'a list \<Rightarrow> ('a \<Rightarrow> 'a \<Rightarrow> int) \<Rightarrow> 'a list" where
  "SortFunc xs c \<equiv> sort_slice (\<lambda>a b. c a b < 0) xs"

lemma Compare_less [simp]: "Compare a b < 0 \<longleftrightarrow> a < b"
  by (simp add: Compare_def)

lemma cmp_chain_less [go_sort]:
  "cmp_chain (Compare a b # cs) < 0 \<longleftrightarrow> a < b \<or> a = b \<and> cmp_chain cs < 0"
  by (auto simp: Compare_def)

lemma cmp_chain_Nil [go_sort]: "\<not> cmp_chain [] < 0"
  by simp

abbreviation NUL :: string where
  "NUL \<equiv> [CHR 0x00]"

definition nulfree :: "string \<Rightarrow> bool" where
  "nulfree s = (CHR 0x00 \<notin> set s)"

lemma NUL_Join_inj:
  assumes "\<forall>x \<in> set xs. nulfree x" "\<forall>y \<in> set ys. nulfree y" "xs \<noteq> []" "ys \<noteq> []"
  shows "Join xs NUL = Join ys NUL \<longleftrightarrow> xs = ys"
  using assms Split_Join[of xs "CHR 0x00"] Split_Join[of ys "CHR 0x00"]
  by (metis nulfree_def)

lemma NUL_pair_inj:
  assumes "nulfree a" "nulfree b" "nulfree c" "nulfree d"
  shows "a @ NUL @ b = c @ NUL @ d \<longleftrightarrow> a = c \<and> b = d"
  using NUL_Join_inj[of "[a, b]" "[c, d]"] assms by simp

lemma NUL_triple_inj:
  assumes "nulfree a" "nulfree b" "nulfree c" "nulfree d" "nulfree e" "nulfree f"
  shows "a @ NUL @ b @ NUL @ c = d @ NUL @ e @ NUL @ f \<longleftrightarrow> a = d \<and> b = e \<and> c = f"
  using NUL_Join_inj[of "[a, b, c]" "[d, e, f]"] assms by simp

text \<open>\<^verbatim>\<open>strings.ToLower\<close> on ASCII letters.\<close>

definition ToLower :: "string \<Rightarrow> string" where
  "ToLower s = map (\<lambda>c. if of_char c \<ge> (65::nat) \<and> of_char c \<le> (90::nat) then char_of (of_char c + (32::nat)) else c) s"

end
