(* ===== verification/Types.thy ===== *)
theory Types
  imports GoData
begin

text \<open>
  The shared data model of \<^verbatim>\<open>pkg/types/types.go\<close>: one \<^theory_text>\<open>record\<close> per Go struct,
  in dependency order, with the struct's fields prefixed by an abbreviation of
  its name (record selectors are global).  Pointers are options, slices are
  lists, maps are association lists.  Two slices and a map of the World whose nil value
  differs from the empty one for their readers (\<open>StateBearingKinds\<close>,
  \<open>IgnoreDiffEntries\<close>, \<open>SchemaIndex\<close>) are options.  Go's string-typed enumerations whose zero
  value is the empty string stay strings with named constants; the violation
  kinds, which the code only builds from its constants, are a datatype.
  At the end stand the methods types.go attaches to the structs.
\<close>

type_synonym CostClass = string
type_synonym Severity = string
type_synonym RendererKind = string
type_synonym ArgoAppSetGeneratorKind = string

datatype ViolationKind = UnknownField | WrongType | MissingRequired | InvalidEnum

datatype BypassSlot = BypassAllowDelete | BypassAllowImmutableChange

abbreviation "CostClassNone \<equiv> ''None''"
abbreviation "CostClassIdentity \<equiv> ''Identity''"
abbreviation "CostClassStructural \<equiv> ''Structural''"
abbreviation "CostClassWebhook \<equiv> ''Webhook''"

abbreviation "SeverityError \<equiv> ''error''"
abbreviation "SeverityWarning \<equiv> ''warning''"
abbreviation "SeverityInfo \<equiv> ''info''"

abbreviation "RendererHelm \<equiv> ''helm''"
abbreviation "RendererKustomize \<equiv> ''kustomize''"
abbreviation "RendererDirectory \<equiv> ''directory''"
abbreviation "RendererPlugin \<equiv> ''plugin''"

abbreviation "AppSetGenList \<equiv> ''list''"
abbreviation "AppSetGenCluster \<equiv> ''cluster''"
abbreviation "AppSetGenGit \<equiv> ''git''"
abbreviation "AppSetGenMatrix \<equiv> ''matrix''"
abbreviation "AppSetGenMerge \<equiv> ''merge''"
abbreviation "AppSetGenSCMProvider \<equiv> ''scmProvider''"
abbreviation "AppSetGenPullRequest \<equiv> ''pullRequest''"

section \<open>Structs\<close>

record SourceLocation =
  sl_File :: string
  sl_Line :: int
  sl_Column :: int

record CRDVersion =
  cv_Name :: string
  cv_Served :: bool
  cv_Storage :: bool
  cv_Referenceable :: bool
  cv_SchemaDigest :: string

record ConversionInfo =
  conv_Strategy :: string
  conv_CostClass :: CostClass
  conv_WebhookService :: string

record CRDInfo =
  crd_Group :: string
  crd_Kind :: string
  crd_Scope :: string
  crd_Versions :: "CRDVersion list"
  crd_Conversion :: ConversionInfo
  crd_Source :: SourceLocation
  crd_IsXRD :: bool
  crd_APIVersion :: string
  crd_OwningApp :: string

record GVK =
  gvk_Group :: string
  gvk_Version :: string
  gvk_Kind :: string

record PipelineStep =
  ps_Name :: string
  ps_FunctionRef :: string
  ps_InputAPIVersion :: string
  ps_InputKind :: string
  ps_InputDigest :: string

record ResourceBase =
  rb_APIVersion :: string
  rb_Kind :: string

record TransformInfo =
  ti_Type :: string
  ti_Convert :: string

record PatchInfo =
  pi_Type :: string
  pi_FromFieldPath :: string
  pi_ToFieldPath :: string
  pi_Transforms :: "TransformInfo list"

record ComposedResource =
  cr_Name :: string
  cr_Base :: ResourceBase
  cr_Patches :: "PatchInfo list"

record CompositionInfo =
  comp_Name :: string
  comp_CompositeTypeRef :: GVK
  comp_Mode :: string
  comp_Pipeline :: "PipelineStep list"
  comp_Resources :: "ComposedResource list"
  comp_Source :: SourceLocation
  comp_OwningApp :: string

record FunctionInfo =
  fn_Name :: string
  fn_Package :: string
  fn_InputVersions :: "string list"
  fn_Source :: SourceLocation
  fn_OwningApp :: string

record ProviderInfo =
  prov_Name :: string
  prov_Package :: string
  prov_Annotations :: strmap
  prov_Source :: SourceLocation
  prov_OwningApp :: string

record ConfigurationInfo =
  cfgn_Name :: string
  cfgn_Package :: string
  cfgn_Source :: SourceLocation

record ResourceInfo =
  ri_APIVersion :: string
  ri_Kind :: string
  ri_Name :: string
  ri_Namespace :: string
  ri_Annotations :: strmap
  ri_Labels :: strmap
  ri_Source :: SourceLocation
  ri_Raw :: obj
  ri_Provenance :: string
  ri_OwningApp :: string

record ArgoHelmParam =
  hp_Name :: string
  hp_Value :: string

record ArgoHelmSource =
  helm_ValueFiles :: "string list"
  helm_ValuesObject :: obj
  helm_Values :: string
  helm_ReleaseName :: string
  helm_Parameters :: "ArgoHelmParam list"

record ArgoKustomizeSource =
  kz_NamePrefix :: string
  kz_NameSuffix :: string
  kz_Images :: "string list"
  kz_CommonLabels :: strmap
  kz_CommonAnnotations :: strmap

record ArgoDirectorySource =
  dir_Recurse :: bool
  dir_Exclude :: string
  dir_Include :: string

record ArgoPluginEnv =
  penv_Name :: string
  penv_Value :: string

record ArgoPluginSource =
  plug_Name :: string
  plug_Env :: "ArgoPluginEnv list"

record ArgoSource =
  src_RepoURL :: string
  src_Path :: string
  src_TargetRevision :: string
  src_Chart :: string
  src_Ref :: string
  src_Renderer :: RendererKind
  src_Helm :: "ArgoHelmSource option"
  src_Kustomize :: "ArgoKustomizeSource option"
  src_Directory :: "ArgoDirectorySource option"
  src_Plugin :: "ArgoPluginSource option"

record ArgoDestination =
  dest_Server :: string
  dest_Name :: string
  dest_Namespace :: string

record ArgoAutomatedSync =
  auto_Prune :: bool
  auto_SelfHeal :: bool

record ArgoSyncOptions =
  so_Replace :: bool
  so_ServerSideApply :: bool
  so_Prune :: bool
  so_PruneLast :: bool
  so_CreateNamespace :: bool
  so_ApplyOutOfSyncOnly :: bool
  so_Validate :: bool
  so_FailOnSharedResource :: bool
  so_RespectIgnoreDifferences :: bool

record ArgoRetryPolicy =
  retry_Limit :: int
  retry_BackoffDurationSec :: int
  retry_BackoffMaxDurationSec :: int
  retry_BackoffFactor :: int

record ArgoSyncPolicy =
  sp_Automated :: "ArgoAutomatedSync option"
  sp_SyncOptions :: ArgoSyncOptions
  sp_Retry :: "ArgoRetryPolicy option"
  sp_PreserveResourcesOnDeletion :: bool

record ArgoIgnoreDiff =
  igd_Group :: string
  igd_Kind :: string
  igd_Name :: string
  igd_Namespace :: string
  igd_JSONPointers :: "string list"
  igd_JQPathExpressions :: "string list"
  igd_ManagedFieldsManagers :: "string list"

record ResourceRef =
  rref_APIVersion :: string
  rref_Kind :: string
  rref_Name :: string
  rref_Namespace :: string

record ArgoHook =
  hook_Phase :: string
  hook_DeletePolicy :: string
  hook_Resource :: ResourceRef
  hook_Wave :: int

record SyncWaveEntry =
  swe_Kind :: string
  swe_Name :: string
  swe_Wave :: int

record ArgoApplication =
  app_Name :: string
  app_Namespace :: string
  app_TrackingMode :: string
  app_SyncWaves :: "SyncWaveEntry list"
  app_Source :: SourceLocation
  app_Project :: string
  app_Sources :: "ArgoSource list"
  app_Destination :: ArgoDestination
  app_SyncPolicy :: ArgoSyncPolicy
  app_IgnoreDifferences :: "ArgoIgnoreDiff list"
  app_Hooks :: "ArgoHook list"
  app_Finalizers :: "string list"
  app_Annotations :: strmap

record ArgoProjectDestination =
  pdest_Server :: string
  pdest_Name :: string
  pdest_Namespace :: string

record ArgoGroupKind =
  gk_Group :: string
  gk_Kind :: string

record ArgoSyncWindow =
  sw_Kind :: string
  sw_Schedule :: string
  sw_Duration :: string
  sw_Applications :: "string list"
  sw_Namespaces :: "string list"
  sw_Clusters :: "string list"

record ArgoAppProject =
  proj_Name :: string
  proj_Source :: SourceLocation
  proj_SourceRepos :: "string list"
  proj_Destinations :: "ArgoProjectDestination list"
  proj_ClusterResourceWhitelist :: "ArgoGroupKind list"
  proj_ClusterResourceWhitelistSet :: bool
  proj_ClusterResourceBlacklist :: "ArgoGroupKind list"
  proj_NamespaceResourceWhitelist :: "ArgoGroupKind list"
  proj_NamespaceResourceWhitelistSet :: bool
  proj_NamespaceResourceBlacklist :: "ArgoGroupKind list"
  proj_SyncWindows :: "ArgoSyncWindow list"
  proj_SignatureKeys :: "string list"

record ArgoAppSetSyncPolicy =
  asp_PreserveResourcesOnDeletion :: bool

record ArgoAppSetGitDir =
  gdir_Path :: string
  gdir_Exclude :: bool

record ArgoAppSetGitFile =
  gfile_Path :: string

record ArgoAppSetGitGenerator =
  git_RepoURL :: string
  git_Revision :: string
  git_Directories :: "ArgoAppSetGitDir list"
  git_Files :: "ArgoAppSetGitFile list"

datatype ArgoAppSetGenerator = ArgoAppSetGenerator
  (gen_Kind: "ArgoAppSetGeneratorKind")
  (gen_ListElements: "strmap list")
  (gen_ClusterSelector: "strmap")
  (gen_Git: "ArgoAppSetGitGenerator option")
  (gen_MatrixGenerators: "ArgoAppSetGenerator list")
  (gen_MergeGenerators: "ArgoAppSetGenerator list")
  (gen_MergeKeys: "string list")

record ArgoAppSetTemplate =
  tmpl_Name :: string
  tmpl_Namespace :: string
  tmpl_Finalizers :: "string list"
  tmpl_Project :: string
  tmpl_Source :: "ArgoSource option"
  tmpl_Sources :: "ArgoSource list"
  tmpl_Destination :: ArgoDestination
  tmpl_SyncPolicy :: ArgoSyncPolicy
  tmpl_IgnoreDifferences :: "ArgoIgnoreDiff list"

record ArgoApplicationSet =
  aset_Name :: string
  aset_Source :: SourceLocation
  aset_Generators :: "ArgoAppSetGenerator list"
  aset_Template :: ArgoAppSetTemplate
  aset_SyncPolicy :: ArgoAppSetSyncPolicy

record SchemaInfo =
  sch_Digest :: string
  sch_Schema :: obj

record SchemaKey =
  sk_APIVersion :: string
  sk_Kind :: string

record MountRef =
  mr_OwnerKind :: string
  mr_OwnerName :: string
  mr_OwnerNamespace :: string
  mr_TargetKind :: string
  mr_TargetName :: string
  mr_TargetNamespace :: string
  mr_MountKind :: string
  mr_Optional :: bool
  mr_Source :: SourceLocation

record SARef =
  sar_OwnerKind :: string
  sar_OwnerName :: string
  sar_OwnerNamespace :: string
  sar_SAName :: string
  sar_SANamespace :: string
  sar_Source :: SourceLocation

record RBACBinding =
  rbb_BindingKind :: string
  rbb_BindingName :: string
  rbb_BindingNamespace :: string
  rbb_SubjectKind :: string
  rbb_SubjectName :: string
  rbb_SubjectNamespace :: string
  rbb_RoleKind :: string
  rbb_RoleName :: string
  rbb_RoleNamespace :: string
  rbb_Source :: SourceLocation

record RBACRule =
  rbr_OwnerKind :: string
  rbr_OwnerName :: string
  rbr_OwnerNamespace :: string
  rbr_APIGroups :: "string list"
  rbr_Resources :: "string list"
  rbr_Verbs :: "string list"
  rbr_ResourceNames :: "string list"
  rbr_Source :: SourceLocation

record ImmutableField =
  imf_Group :: string
  imf_Kind :: string
  imf_FieldPath :: string
  imf_Reason :: string

record ResourceFieldFact =
  rff_APIVersion :: string
  rff_Kind :: string
  rff_Namespace :: string
  rff_Name :: string
  rff_Path :: string
  rff_Violation :: ViolationKind
  rff_Message :: string
  rff_Source :: SourceLocation

record ValuesIssue =
  vi_Path :: string
  vi_Message :: string

record RenderResult =
  rr_AppName :: string
  rr_ChartPath :: string
  rr_Success :: bool
  rr_Error :: string
  rr_ErrorKind :: string
  rr_ValuesIssues :: "ValuesIssue list"
  rr_Source :: SourceLocation

record SelectorMapping =
  sm_Group :: string
  sm_Kind :: string
  sm_SelectorPath :: string
  sm_ResolvedPath :: string
  sm_Reason :: string

record SelectorUsage =
  su_ResourceGroup :: string
  su_ResourceKind :: string
  su_ResourceName :: string
  su_ResourceNamespace :: string
  su_SelectorPath :: string
  su_ResolvedPath :: string
  su_Source :: SourceLocation

record LateInitMapping =
  lim_Group :: string
  lim_Kind :: string
  lim_FieldPath :: string
  lim_FixPattern :: string
  lim_Reason :: string

record LateInitUsage =
  liu_ResourceGroup :: string
  liu_ResourceKind :: string
  liu_ResourceName :: string
  liu_ResourceNamespace :: string
  liu_FieldPath :: string
  liu_Source :: SourceLocation

record CanonicalFormMapping =
  cfm_Group :: string
  cfm_Kind :: string
  cfm_FieldPath :: string
  cfm_Detector :: string
  cfm_Canonical :: string
  cfm_Reason :: string

record CanonicalFormUsage =
  cfu_ResourceGroup :: string
  cfu_ResourceKind :: string
  cfu_ResourceName :: string
  cfu_ResourceNamespace :: string
  cfu_FieldPath :: string
  cfu_Value :: string
  cfu_Canonical :: string
  cfu_Reason :: string
  cfu_NonCanonical :: bool
  cfu_UpdateDisabled :: bool
  cfu_Bypass :: bool
  cfu_Source :: SourceLocation

record CanonicalFormTemplateFinding =
  cft_Composition :: string
  cft_Group :: string
  cft_Kind :: string
  cft_Field :: string
  cft_RHS :: string
  cft_Canonical :: string
  cft_Reason :: string
  cft_Source :: SourceLocation

record DuplicateEnvFinding =
  def_Composition :: string
  def_EnvName :: string
  def_Count :: int
  def_Source :: SourceLocation

record ComputedBlockAliasMapping =
  cbam_Group :: string
  cbam_Kind :: string
  cbam_ActionType :: string
  cbam_AliasFieldPattern :: string
  cbam_CanonicalBlockKey :: string
  cbam_Reason :: string

record ComputedBlockAliasFinding =
  cbaf_Composition :: string
  cbaf_Group :: string
  cbaf_Kind :: string
  cbaf_ActionType :: string
  cbaf_AliasField :: string
  cbaf_CanonicalBlock :: string
  cbaf_Reason :: string
  cbaf_Source :: SourceLocation

record ExternalNameAdoptMapping =
  enam_Group :: string
  enam_Kind :: string
  enam_Reason :: string

record ExternalNameAdoptFinding =
  enaf_Group :: string
  enaf_Kind :: string
  enaf_Name :: string
  enaf_Namespace :: string
  enaf_Reason :: string
  enaf_Source :: SourceLocation

record OrphanSGRefMapping =
  osgm_Group :: string
  osgm_Kind :: string
  osgm_RefGroup :: string
  osgm_RefKind :: string
  osgm_AttachFieldPattern :: string
  osgm_RefFieldPattern :: string
  osgm_Reason :: string

record OrphanSGRefFinding =
  osgf_Composition :: string
  osgf_Group :: string
  osgf_Kind :: string
  osgf_RuleName :: string
  osgf_AttachField :: string
  osgf_RefField :: string
  osgf_Reason :: string
  osgf_Source :: SourceLocation

record FixedPointUsage =
  fpu_ResourceGroup :: string
  fpu_ResourceKind :: string
  fpu_ResourceName :: string
  fpu_ResourceNamespace :: string
  fpu_FieldPath :: string
  fpu_Desired :: string
  fpu_Observed :: string
  fpu_Registered :: bool
  fpu_UpdateDisabled :: bool
  fpu_Source :: SourceLocation

record SSAMPConflict =
  ssamp_AppName :: string
  ssamp_ServerSideApply :: bool
  ssamp_ManagementPolicies :: "string list"
  ssamp_ResourceGroup :: string
  ssamp_ResourceKind :: string
  ssamp_ResourceName :: string
  ssamp_ResourceNamespace :: string
  ssamp_Source :: SourceLocation

record IgnoreDiffEntry =
  ide_AppName :: string
  ide_Group :: string
  ide_Kind :: string
  ide_JSONPointer :: string
  ide_JQPath :: string
  ide_ManagedFieldsManagers :: "string list"

record BypassKeySet =
  bk_AllowDelete :: "string list"
  bk_AllowImmutableChange :: "string list"

record CPDeletionPolicyFact =
  cpd_Group :: string
  cpd_Kind :: string
  cpd_Name :: string
  cpd_Namespace :: string
  cpd_DeletionPolicy :: string
  cpd_Bypass :: bool
  cpd_Source :: SourceLocation

record DeterminismResult =
  det_AppName :: string
  det_RendererKind :: string
  det_Mismatch :: bool
  det_DiffSummary :: string
  det_Source :: SourceLocation

record World =
  w_CRDs :: "CRDInfo list"
  w_XRDs :: "CRDInfo list"
  w_Compositions :: "CompositionInfo list"
  w_Functions :: "FunctionInfo list"
  w_Providers :: "ProviderInfo list"
  w_Configurations :: "ConfigurationInfo list"
  w_Resources :: "ResourceInfo list"
  w_ArgoApps :: "ArgoApplication list"
  w_ArgoProjects :: "ArgoAppProject list"
  w_ArgoAppSets :: "ArgoApplicationSet list"
  w_Schemas :: "(string \<times> SchemaInfo) list"
  w_MountRefs :: "MountRef list"
  w_SARefs :: "SARef list"
  w_RBACBindings :: "RBACBinding list"
  w_RBACRules :: "RBACRule list"
  w_ImmutableFields :: "ImmutableField list option"
  w_SelectorMappings :: "SelectorMapping list"
  w_SelectorUsages :: "SelectorUsage list"
  w_LateInitMappings :: "LateInitMapping list"
  w_LateInitUsages :: "LateInitUsage list"
  w_CanonicalFormMappings :: "CanonicalFormMapping list"
  w_CanonicalFormUsages :: "CanonicalFormUsage list"
  w_CanonicalFormTemplateFindings :: "CanonicalFormTemplateFinding list"
  w_DuplicateEnvFindings :: "DuplicateEnvFinding list"
  w_ComputedBlockAliasFindings :: "ComputedBlockAliasFinding list"
  w_ExternalNameAdoptFindings :: "ExternalNameAdoptFinding list"
  w_OrphanSGRefFindings :: "OrphanSGRefFinding list"
  w_FixedPointUsages :: "FixedPointUsage list"
  w_ResourceFieldFacts :: "ResourceFieldFact list"
  w_RenderResults :: "RenderResult list"
  w_DeterminismResults :: "DeterminismResult list"
  w_SSAMPConflicts :: "SSAMPConflict list"
  w_SSAMPMode :: string
  w_CPDeletionPolicyFacts :: "CPDeletionPolicyFact list"
  w_StateBearingKinds :: "ArgoGroupKind list option"
  w_ESOAllowedStoreNames :: "string list"
  w_EnvLabelKey :: string
  w_EnvLabelClaimKinds :: "string list"
  w_EnvLabelAllowedValues :: "string list"
  w_AllowedProviderConfigs :: "string list"
  w_ProdPatterns :: "string list"
  w_NameCarveouts :: "(string \<times> string list) list"
  w_BypassKeys :: BypassKeySet
  w_SchemaIndex :: "(SchemaKey \<times> obj) list option"
  w_IgnoreDiffEntries :: "IgnoreDiffEntry list option"

record ObligationRef =
  ob_ID :: string
  ob_Category :: string
  ob_Generator :: string

record Diagnostic =
  dg_Code :: string
  dg_Severity :: Severity
  dg_Message :: string
  dg_Source :: SourceLocation
  dg_Detail :: string
  dg_Fix :: string
  dg_Related :: "SourceLocation list"
  dg_Obligation :: "ObligationRef option"

section \<open>Methods of the data model\<close>

primrec StorageVersion_loop :: "CRDVersion list \<Rightarrow> string" where
  "StorageVersion_loop [] = []"
| "StorageVersion_loop (v # vs) = (if cv_Storage v then cv_Name v else StorageVersion_loop vs)"

definition StorageVersion :: "CRDInfo \<Rightarrow> string" where
  "StorageVersion c = StorageVersion_loop (crd_Versions c)"

definition ServesVersion :: "CRDInfo \<Rightarrow> string \<Rightarrow> bool" where
  "ServesVersion c version =
     list_ex (\<lambda>v. cv_Name v = version \<and> cv_Served v) (crd_Versions c)"

fun keysFor :: "BypassKeySet \<Rightarrow> BypassSlot \<Rightarrow> string list" where
  "keysFor s BypassAllowDelete = bk_AllowDelete s"
| "keysFor s BypassAllowImmutableChange = bk_AllowImmutableChange s"

definition BypassKeySet_Has :: "BypassKeySet \<Rightarrow> strmap \<Rightarrow> BypassSlot \<Rightarrow> bool" where
  "BypassKeySet_Has s annotations slot =
     list_ex (\<lambda>k. mget annotations k = ''true'') (keysFor s slot)"

definition BypassKeySet_HasRaw :: "BypassKeySet \<Rightarrow> obj \<Rightarrow> BypassSlot \<Rightarrow> bool" where
  "BypassKeySet_HasRaw s annotations slot =
     list_ex (\<lambda>k. as_str (jget annotations k) = Some ''true'') (keysFor s slot)"

definition zero_SourceLocation :: SourceLocation where
  "zero_SourceLocation = \<lparr>sl_File = [], sl_Line = 0, sl_Column = 0\<rparr>"

text \<open>The zero values that composite literals in the code start from.\<close>

definition zero_ArgoDestination :: ArgoDestination where
  "zero_ArgoDestination = \<lparr>dest_Server = [], dest_Name = [], dest_Namespace = []\<rparr>"

definition zero_ArgoSyncOptions :: ArgoSyncOptions where
  "zero_ArgoSyncOptions = \<lparr>so_Replace = False, so_ServerSideApply = False, so_Prune = False,
     so_PruneLast = False, so_CreateNamespace = False, so_ApplyOutOfSyncOnly = False,
     so_Validate = False, so_FailOnSharedResource = False, so_RespectIgnoreDifferences = False\<rparr>"

definition zero_ArgoSyncPolicy :: ArgoSyncPolicy where
  "zero_ArgoSyncPolicy = \<lparr>sp_Automated = None, sp_SyncOptions = zero_ArgoSyncOptions,
     sp_Retry = None, sp_PreserveResourcesOnDeletion = False\<rparr>"

definition zero_ArgoApplication :: ArgoApplication where
  "zero_ArgoApplication = \<lparr>app_Name = [], app_Namespace = [], app_TrackingMode = [],
     app_SyncWaves = [], app_Source = zero_SourceLocation, app_Project = [], app_Sources = [],
     app_Destination = zero_ArgoDestination, app_SyncPolicy = zero_ArgoSyncPolicy,
     app_IgnoreDifferences = [], app_Hooks = [], app_Finalizers = [], app_Annotations = []\<rparr>"

definition zero_ResourceInfo :: ResourceInfo where
  "zero_ResourceInfo = \<lparr>ri_APIVersion = [], ri_Kind = [], ri_Name = [], ri_Namespace = [],
     ri_Annotations = [], ri_Labels = [], ri_Source = zero_SourceLocation, ri_Raw = [],
     ri_Provenance = [], ri_OwningApp = []\<rparr>"

lemmas zero_defs = zero_SourceLocation_def zero_ArgoDestination_def zero_ArgoSyncOptions_def
  zero_ArgoSyncPolicy_def zero_ArgoApplication_def zero_ResourceInfo_def

definition NewWorld :: World where
  "NewWorld = \<lparr>
     w_CRDs = [],
     w_XRDs = [],
     w_Compositions = [],
     w_Functions = [],
     w_Providers = [],
     w_Configurations = [],
     w_Resources = [],
     w_ArgoApps = [],
     w_ArgoProjects = [],
     w_ArgoAppSets = [],
     w_Schemas = [],
     w_MountRefs = [],
     w_SARefs = [],
     w_RBACBindings = [],
     w_RBACRules = [],
     w_ImmutableFields = None,
     w_SelectorMappings = [],
     w_SelectorUsages = [],
     w_LateInitMappings = [],
     w_LateInitUsages = [],
     w_CanonicalFormMappings = [],
     w_CanonicalFormUsages = [],
     w_CanonicalFormTemplateFindings = [],
     w_DuplicateEnvFindings = [],
     w_ComputedBlockAliasFindings = [],
     w_ExternalNameAdoptFindings = [],
     w_OrphanSGRefFindings = [],
     w_FixedPointUsages = [],
     w_ResourceFieldFacts = [],
     w_RenderResults = [],
     w_DeterminismResults = [],
     w_SSAMPConflicts = [],
     w_SSAMPMode = [],
     w_CPDeletionPolicyFacts = [],
     w_StateBearingKinds = None,
     w_ESOAllowedStoreNames = [],
     w_EnvLabelKey = [],
     w_EnvLabelClaimKinds = [],
     w_EnvLabelAllowedValues = [],
     w_AllowedProviderConfigs = [],
     w_ProdPatterns = [],
     w_NameCarveouts = [],
     w_BypassKeys = \<lparr>bk_AllowDelete = [], bk_AllowImmutableChange = []\<rparr>,
     w_SchemaIndex = None,
     w_IgnoreDiffEntries = None\<rparr>"

lemma StorageVersion_find:
  "StorageVersion c =
     (case find cv_Storage (crd_Versions c) of Some v \<Rightarrow> cv_Name v | None \<Rightarrow> [])"
proof -
  have "StorageVersion_loop vs =
      (case find cv_Storage vs of Some v \<Rightarrow> cv_Name v | None \<Rightarrow> [])" for vs
    by (induction vs) auto
  then show ?thesis by (simp add: StorageVersion_def)
qed

lemma BypassKeySet_Has_iff:
  "BypassKeySet_Has s as slot \<longleftrightarrow> (\<exists>k \<in> set (keysFor s slot). map_of as k = Some ''true'')"
  by (auto simp: BypassKeySet_Has_def list_ex_iff mget_def split: option.splits)

lemma BypassKeySet_HasRaw_iff:
  "BypassKeySet_HasRaw s as slot \<longleftrightarrow>
     (\<exists>k \<in> set (keysFor s slot). map_of as k = Some (JStr ''true''))"
  by (auto simp: BypassKeySet_HasRaw_def list_ex_iff jget_def split: option.splits)

text \<open>
  The typed and the raw reading of an annotation map agree when the typed map
  holds exactly the string-valued entries of the raw one.
\<close>

lemma Has_agrees_HasRaw:
  "(\<And>k. map_of as k = Option.bind (map_of raw k) as_str) \<Longrightarrow>
     BypassKeySet_Has s as slot = BypassKeySet_HasRaw s raw slot"
  by (auto simp: BypassKeySet_Has_iff BypassKeySet_HasRaw_iff bind_eq_Some_conv)

end
