(* ===== verification/GoPath.thy ===== *)
theory GoPath
  imports GoData
begin

text \<open>
  The lexical part of Go's \<^verbatim>\<open>path/filepath\<close> on Unix, as far as the program
  uses it: \<open>Clean\<close>, \<open>IsAbs\<close>, \<open>JoinPath\<close> (\<^verbatim>\<open>filepath.Join\<close>), \<open>Rel\<close>, \<open>Base\<close>
  and \<open>Dir\<close>.
\<close>

abbreviation "slash \<equiv> CHR ''/''"

definition IsAbs :: "string \<Rightarrow> bool" where
  "IsAbs p = (case p of [] \<Rightarrow> False | c # _ \<Rightarrow> c = slash)"

text \<open>The element stack of \<open>Clean\<close>, innermost element first.\<close>

fun clean_elems :: "bool \<Rightarrow> string list \<Rightarrow> string list \<Rightarrow> string list" where
  "clean_elems rooted stk [] = rev stk"
| "clean_elems rooted stk (e # es) =
     (if e = [] \<or> e = ''.'' then clean_elems rooted stk es
      else if e = ''..'' then
        (case stk of
           [] \<Rightarrow> clean_elems rooted (if rooted then [] else [e]) es
         | t # stk' \<Rightarrow> if t = ''..'' then clean_elems rooted (e # stk) es
                      else clean_elems rooted stk' es)
      else clean_elems rooted (e # stk) es)"

definition Clean :: "string \<Rightarrow> string" where
  "Clean p =
     (let es = clean_elems (IsAbs p) [] (Split p [slash])
      in if IsAbs p then slash # Join es [slash]
         else if es = [] then ''.'' else Join es [slash])"

definition JoinPath :: "string list \<Rightarrow> string" where
  "JoinPath es =
     (let ne = filter (\<lambda>e. e \<noteq> []) es in if ne = [] then [] else Clean (Join ne [slash]))"

fun strip_common :: "string list \<Rightarrow> string list \<Rightarrow> string list \<times> string list" where
  "strip_common (x # xs) (y # ys) = (if x = y then strip_common xs ys else (x # xs, y # ys))"
| "strip_common xs ys = (xs, ys)"

definition path_elems :: "string \<Rightarrow> string list" where
  "path_elems p = filter (\<lambda>e. e \<noteq> []) (Split p [slash])"

text \<open>\<^verbatim>\<open>filepath.Rel\<close>; an error is \<^const>\<open>None\<close>.\<close>

definition Rel :: "string \<Rightarrow> string \<Rightarrow> string option" where
  "Rel basepath targpath =
     (let base = Clean basepath; targ = Clean targpath
      in if targ = base then Some ''.''
         else let base = (if base = ''.'' then [] else base)
              in if IsAbs base \<noteq> IsAbs targ then None
                 else let (be, te) = strip_common (path_elems base) (path_elems targ)
                      in if te \<noteq> [] \<and> be \<noteq> [] \<and> hd be = ''..'' then None
                         else Some (Join (replicate (length be) ''..'' @ te) [slash]))"

definition Base :: "string \<Rightarrow> string" where
  "Base p =
     (if p = [] then ''.''
      else let q = TrimRightFunc (\<lambda>c. c = slash) p;
               b = (case LastIndexByte q slash of Some i \<Rightarrow> drop (Suc i) q | None \<Rightarrow> q)
           in if b = [] then [slash] else b)"

definition Dir :: "string \<Rightarrow> string" where
  "Dir p = Clean (case LastIndexByte p slash of Some i \<Rightarrow> take (Suc i) p | None \<Rightarrow> [])"

definition Ext :: "string \<Rightarrow> string" where
  "Ext path =
     (let base = last (Split path [slash])
      in case LastIndexByte base (CHR ''.'') of None \<Rightarrow> [] | Some i \<Rightarrow> drop i base)"

text \<open>Elements that \<open>Clean\<close> keeps as they are.\<close>

definition plain_elem :: "string \<Rightarrow> bool" where
  "plain_elem e = (e \<noteq> [] \<and> e \<noteq> ''.'' \<and> e \<noteq> ''..'' \<and> slash \<notin> set e)"

lemma clean_elems_plain:
  "\<forall>e \<in> set es. plain_elem e \<Longrightarrow> clean_elems r stk es = rev stk @ es"
  by (induction es arbitrary: stk) (auto simp: plain_elem_def)

lemma Split_plain:
  assumes "es \<noteq> []" "\<forall>e \<in> set es. plain_elem e"
  shows "Split (Join es [slash]) [slash] = es"
  using assms by (intro Split_Join) (auto simp: plain_elem_def)

lemma Join_plain_IsAbs: "es \<noteq> [] \<Longrightarrow> \<forall>e \<in> set es. plain_elem e \<Longrightarrow> \<not> IsAbs (Join es [slash])"
proof -
  assume es: "es \<noteq> []" "\<forall>e \<in> set es. plain_elem e"
  then obtain c e r where e: "es = (c # e) # r" "c \<noteq> slash"
    by (cases es; cases "hd es") (auto simp: plain_elem_def)
  then have "\<exists>t. Join es [slash] = c # t" by (cases r) auto
  with e(2) show ?thesis by (auto simp: IsAbs_def)
qed

lemma Clean_plain_rel:
  "es \<noteq> [] \<Longrightarrow> \<forall>e \<in> set es. plain_elem e \<Longrightarrow> Clean (Join es [slash]) = Join es [slash]"
  using Join_plain_IsAbs Split_plain clean_elems_plain[of es False "[]"]
  by (auto simp: Clean_def Let_def)

lemma Clean_plain_abs:
  assumes "\<forall>e \<in> set es. plain_elem e"
  shows "Clean (slash # Join es [slash]) = slash # Join es [slash]"
proof (cases "es = []")
  case True
  have "Split ''/'' [slash] = [[], []]"
    using Split_append_sep[of slash "[]" "[]"] Split_no_sep[of slash "[]"] by simp
  with True show ?thesis by (simp add: Clean_def IsAbs_def)
next
  case False
  have "Split (slash # Join es [slash]) [slash] = [] # es"
    using Split_append_sep[of slash "[]" "Join es [slash]"] Split_plain[OF False assms] by simp
  then show ?thesis
    using clean_elems_plain[OF assms, of True "[]"] by (simp add: Clean_def IsAbs_def)
qed

end
