(* ===== verification/IrBase.thy ===== *)
theory IrBase
  imports Types GoPath
begin

text \<open>
  The helper functions at the end of \<^verbatim>\<open>pkg/ir/builder.go\<close> (map and slice access
  in decoded documents, group/version/kind splitting, sync waves), which every
  later component reads documents with, and the loaded documents and their
  classification from \<^verbatim>\<open>pkg/loader/loader.go\<close>.
\<close>

section \<open>Loaded documents\<close>

record LoadedDocument =
  doc_Source :: SourceLocation
  doc_APIVersion :: string
  doc_Kind :: string
  doc_Raw :: obj

datatype DocCategory =
    CatCRD | CatXRD | CatComposition | CatFunction | CatProvider | CatConfiguration
  | CatArgoApplication | CatArgoAppProject | CatArgoApplicationSet | CatResource

definition ClassifyDocument :: "LoadedDocument \<Rightarrow> DocCategory" where
  "ClassifyDocument doc =
     (let k = doc_Kind doc; av = doc_APIVersion doc in
      if k = ''CustomResourceDefinition'' then CatCRD
      else if k = ''CompositeResourceDefinition'' then CatXRD
      else if k = ''Composition'' then CatComposition
      else if k = ''Function'' \<and> HasPrefix av ''pkg.crossplane.io/'' then CatFunction
      else if k = ''Provider'' \<and> HasPrefix av ''pkg.crossplane.io/'' then CatProvider
      else if k = ''Configuration'' \<and> HasPrefix av ''pkg.crossplane.io/'' then CatConfiguration
      else if k = ''Application'' \<and> HasPrefix av ''argoproj.io/'' then CatArgoApplication
      else if k = ''AppProject'' \<and> HasPrefix av ''argoproj.io/'' then CatArgoAppProject
      else if k = ''ApplicationSet'' \<and> HasPrefix av ''argoproj.io/'' then CatArgoApplicationSet
      else CatResource)"

definition str_field :: "obj \<Rightarrow> string \<Rightarrow> string" where
  "str_field m k = (case as_str (jget m k) of Some s \<Rightarrow> s | None \<Rightarrow> [])"

definition bool_field :: "obj \<Rightarrow> string \<Rightarrow> bool" where
  "bool_field m k = (as_bool (jget m k) = Some True)"

text \<open>
  What the YAML decoder hands back, one event for each call: an error of the
  stream, a node that is no document, a document that does not decode to a map,
  or a map with the position of its root.  Input that ends is the end of the list.
\<close>

datatype YamlEvent =
    StreamError string
  | OtherNode
  | BadDocument string
  | Document obj int int

fun LoadReader :: "string \<Rightarrow> YamlEvent list \<Rightarrow> string + LoadedDocument list" where
  "LoadReader sourcePath [] = Inr []"
| "LoadReader sourcePath (StreamError err # _) = Inl (''decoding YAML in '' @ sourcePath @ '': '' @ err)"
| "LoadReader sourcePath (OtherNode # es) = LoadReader sourcePath es"
| "LoadReader sourcePath (BadDocument err # _) = Inl (''decoding document in '' @ sourcePath @ '': '' @ err)"
| "LoadReader sourcePath (Document raw line col # es) =
     (let apiVersion = str_field raw ''apiVersion''; kind = str_field raw ''kind'' in
      if apiVersion = [] \<or> kind = [] then LoadReader sourcePath es
      else map_sum id (\<lambda>docs.
             \<lparr>doc_Source = \<lparr>sl_File = sourcePath, sl_Line = line, sl_Column = col\<rparr>,
              doc_APIVersion = apiVersion, doc_Kind = kind, doc_Raw = raw\<rparr> # docs)
             (LoadReader sourcePath es))"

section \<open>Access to decoded documents\<close>

definition getMap :: "obj \<Rightarrow> string \<Rightarrow> obj option" where
  "getMap m key = as_obj (jget m key)"

definition getSlice :: "obj \<Rightarrow> string \<Rightarrow> json list option" where
  "getSlice m key = as_arr (jget m key)"

text \<open>Ranging over a nil slice or map does nothing.\<close>

abbreviation getSlice0 :: "obj \<Rightarrow> string \<Rightarrow> json list" where
  "getSlice0 m key \<equiv> (case getSlice m key of None \<Rightarrow> [] | Some xs \<Rightarrow> xs)"

abbreviation getMap0 :: "obj \<Rightarrow> string \<Rightarrow> obj" where
  "getMap0 m key \<equiv> (case getMap m key of None \<Rightarrow> [] | Some xs \<Rightarrow> xs)"

text \<open>The elements of a slice that are strings, or maps; the others are skipped.\<close>

fun str_elems :: "json list \<Rightarrow> string list" where
  "str_elems [] = []"
| "str_elems (v # vs) = (case as_str v of Some s \<Rightarrow> s # str_elems vs | None \<Rightarrow> str_elems vs)"

fun obj_elems :: "json list \<Rightarrow> obj list" where
  "obj_elems [] = []"
| "obj_elems (v # vs) = (case as_obj v of Some m \<Rightarrow> m # obj_elems vs | None \<Rightarrow> obj_elems vs)"

text \<open>\<^verbatim>\<open>for k, v := range m { if vs, ok := v.(string); ok { out[k] = vs } }\<close>\<close>

fun str_entries :: "obj \<Rightarrow> strmap" where
  "str_entries [] = []"
| "str_entries ((k, v) # m) =
     (case as_str v of Some s \<Rightarrow> (k, s) # str_entries m | None \<Rightarrow> str_entries m)"

definition getStringSlice :: "obj \<Rightarrow> string \<Rightarrow> string list" where
  "getStringSlice m key = (case getSlice m key of None \<Rightarrow> [] | Some raw \<Rightarrow> str_elems raw)"

definition parseGroupKindList :: "obj \<Rightarrow> string \<Rightarrow> ArgoGroupKind list \<times> bool" where
  "parseGroupKindList spec key =
     (if \<not> mhas spec key then ([], False)
      else (map (\<lambda>m. \<lparr>gk_Group = str_field m ''group'', gk_Kind = str_field m ''kind''\<rparr>)
                (obj_elems (getSlice0 spec key)), True))"

definition getName :: "obj \<Rightarrow> string" where
  "getName raw =
     (case getMap raw ''metadata'' of
        None \<Rightarrow> ''<unknown>''
      | Some metadata \<Rightarrow>
          let name = str_field metadata ''name'' in if name = [] then ''<unknown>'' else name)"

definition parseGVK :: "string \<Rightarrow> string \<Rightarrow> GVK" where
  "parseGVK apiVersion kind =
     (case Index apiVersion ''/'' of
        Some i \<Rightarrow> \<lparr>gvk_Group = take i apiVersion, gvk_Version = drop (i + 1) apiVersion, gvk_Kind = kind\<rparr>
      | None \<Rightarrow> \<lparr>gvk_Group = [], gvk_Version = apiVersion, gvk_Kind = kind\<rparr>)"

definition ParseSyncWave :: "strmap \<Rightarrow> int" where
  "ParseSyncWave annotations =
     (case map_of annotations ''argocd.argoproj.io/sync-wave'' of
        None \<Rightarrow> 0
      | Some wave \<Rightarrow> (case Atoi wave of None \<Rightarrow> 0 | Some n \<Rightarrow> n))"

section \<open>Facts about the helpers\<close>

lemma str_elems_set: "set (str_elems vs) = {s. JStr s \<in> set vs}"
  by (induction vs) (auto split: option.splits)

lemma obj_elems_set: "set (obj_elems vs) = {m. JObj m \<in> set vs}"
  by (induction vs) (auto split: option.splits)

lemma str_entries_keys: "fst ` set (str_entries m) \<subseteq> fst ` set m"
  by (induction m rule: str_entries.induct) (auto split: option.splits)

lemma str_entries_distinct: "distinct (map fst m) \<Longrightarrow> distinct (map fst (str_entries m))"
proof (induction m rule: str_entries.induct)
  case (2 k v m)
  then show ?case using str_entries_keys[of m] by (auto split: option.splits)
qed simp

lemma map_of_str_entries:
  "distinct (map fst m) \<Longrightarrow> map_of (str_entries m) k = Option.bind (map_of m k) as_str"
proof (induction m rule: str_entries.induct)
  case (2 k' v m)
  have "k' \<notin> fst ` set m" using 2(3) by simp
  then have "map_of (str_entries m) k' = None"
    using str_entries_keys[of m] by (metis map_of_eq_None_iff subsetD)
  then show ?case using 2 by (auto split: option.splits)
qed simp

lemma parseGVK_print:
  "Contains apiVersion ''/'' \<Longrightarrow>
     gvk_Group (parseGVK apiVersion kind) @ ''/'' @ gvk_Version (parseGVK apiVersion kind) = apiVersion"
  using Index_Some_split[of apiVersion "''/''"]
  by (auto simp: Contains_def parseGVK_def)

lemma parseGVK_of_parts:
  assumes "CHR ''/'' \<notin> set g"
  shows "parseGVK (g @ ''/'' @ v) k = \<lparr>gvk_Group = g, gvk_Version = v, gvk_Kind = k\<rparr>"
proof -
  have "Index (g @ CHR ''/'' # v) ''/'' = Some (length g)"
    using assms by (induction g) (auto simp: HasPrefix_def)
  then show ?thesis by (simp add: parseGVK_def)
qed

lemma parseGroupKindList_absent: "\<not> mhas spec key \<longleftrightarrow> \<not> snd (parseGroupKindList spec key)"
  by (simp add: parseGroupKindList_def)

end
