(* ===== verification/ArgoParse.thy ===== *)
theory ArgoParse
  imports IrBase
begin

text \<open>
  The Argo CD part of \<^verbatim>\<open>pkg/ir/builder.go\<close>: applications, projects and
  application sets read from decoded documents.  Every reader is total: a field
  of the wrong type reads as its zero value, an element of the wrong type is
  skipped.
\<close>

section \<open>Sources\<close>

definition zero_ArgoSource :: ArgoSource where
  "zero_ArgoSource =
     \<lparr>src_RepoURL = [], src_Path = [], src_TargetRevision = [], src_Chart = [], src_Ref = [], src_Renderer = [],
      src_Helm = None, src_Kustomize = None, src_Directory = None, src_Plugin = None\<rparr>"

definition parse_helm :: "obj \<Rightarrow> ArgoHelmSource" where
  "parse_helm helm =
     \<lparr>helm_ValueFiles = str_elems (getSlice0 helm ''valueFiles''),
      helm_ValuesObject = getMap0 helm ''valuesObject'',
      helm_Values = str_field helm ''values'',
      helm_ReleaseName = str_field helm ''releaseName'',
      helm_Parameters = map (\<lambda>pm. \<lparr>hp_Name = str_field pm ''name'', hp_Value = str_field pm ''value''\<rparr>)
                          (obj_elems (getSlice0 helm ''parameters''))\<rparr>"

definition parse_kustomize :: "obj \<Rightarrow> ArgoKustomizeSource" where
  "parse_kustomize kust =
     \<lparr>kz_NamePrefix = str_field kust ''namePrefix'',
      kz_NameSuffix = str_field kust ''nameSuffix'',
      kz_Images = str_elems (getSlice0 kust ''images''),
      kz_CommonLabels = str_entries (getMap0 kust ''commonLabels''),
      kz_CommonAnnotations = str_entries (getMap0 kust ''commonAnnotations'')\<rparr>"

definition parse_plugin :: "obj \<Rightarrow> ArgoPluginSource" where
  "parse_plugin plugin =
     \<lparr>plug_Name = str_field plugin ''name'',
      plug_Env = map (\<lambda>em. \<lparr>penv_Name = str_field em ''name'', penv_Value = str_field em ''value''\<rparr>)
                   (obj_elems (getSlice0 plugin ''env''))\<rparr>"

definition parse_directory :: "obj \<Rightarrow> ArgoDirectorySource" where
  "parse_directory d =
     \<lparr>dir_Recurse = bool_field d ''recurse'', dir_Exclude = str_field d ''exclude'', dir_Include = str_field d ''include''\<rparr>"

definition parseArgoSource :: "obj \<Rightarrow> ArgoSource" where
  "parseArgoSource m =
     (let src = zero_ArgoSource
            \<lparr>src_RepoURL := str_field m ''repoURL'', src_Path := str_field m ''path'',
             src_TargetRevision := str_field m ''targetRevision'', src_Chart := str_field m ''chart'',
             src_Ref := str_field m ''ref''\<rparr>
      in case getMap m ''helm'' of
           Some helm \<Rightarrow> src\<lparr>src_Renderer := RendererHelm, src_Helm := Some (parse_helm helm)\<rparr>
         | None \<Rightarrow>
        (case getMap m ''kustomize'' of
           Some kust \<Rightarrow> src\<lparr>src_Renderer := RendererKustomize, src_Kustomize := Some (parse_kustomize kust)\<rparr>
         | None \<Rightarrow>
        (case getMap m ''plugin'' of
           Some plugin \<Rightarrow> src\<lparr>src_Renderer := RendererPlugin, src_Plugin := Some (parse_plugin plugin)\<rparr>
         | None \<Rightarrow>
        (case getMap m ''directory'' of
           Some d \<Rightarrow> src\<lparr>src_Renderer := RendererDirectory, src_Directory := Some (parse_directory d)\<rparr>
         | None \<Rightarrow> src\<lparr>src_Renderer := RendererDirectory\<rparr>))))"

section \<open>Sync policies and ignored differences\<close>

definition set_option :: "ArgoSyncOptions \<Rightarrow> string \<Rightarrow> ArgoSyncOptions" where
  "set_option so s =
     (if s = ''Replace=true'' then so\<lparr>so_Replace := True\<rparr>
      else if s = ''ServerSideApply=true'' then so\<lparr>so_ServerSideApply := True\<rparr>
      else if s = ''Prune=true'' then so\<lparr>so_Prune := True\<rparr>
      else if s = ''PruneLast=true'' then so\<lparr>so_PruneLast := True\<rparr>
      else if s = ''CreateNamespace=true'' then so\<lparr>so_CreateNamespace := True\<rparr>
      else if s = ''ApplyOutOfSyncOnly=true'' then so\<lparr>so_ApplyOutOfSyncOnly := True\<rparr>
      else if s = ''Validate=true'' then so\<lparr>so_Validate := True\<rparr>
      else if s = ''FailOnSharedResource=true'' then so\<lparr>so_FailOnSharedResource := True\<rparr>
      else if s = ''RespectIgnoreDifferences=true'' then so\<lparr>so_RespectIgnoreDifferences := True\<rparr>
      else so)"

text \<open>
  \<^verbatim>\<open>retry["limit"].(float64)\<close> only accepts a float; an integer, which is what the YAML
  decoder yields for \<^verbatim>\<open>limit: 5\<close>, leaves the limit at zero.  \<^verbatim>\<open>int(f)\<close> truncates.
\<close>

definition parse_retry :: "obj \<Rightarrow> ArgoRetryPolicy" where
  "parse_retry retry =
     \<lparr>retry_Limit = (case jget retry ''limit'' of JFloat f \<Rightarrow> (if f < 0 then \<lceil>f\<rceil> else \<lfloor>f\<rfloor>) | _ \<Rightarrow> 0),
      retry_BackoffDurationSec = 0, retry_BackoffMaxDurationSec = 0, retry_BackoffFactor = 0\<rparr>"

definition parseArgoSyncPolicy :: "obj \<Rightarrow> ArgoSyncPolicy" where
  "parseArgoSyncPolicy m =
     \<lparr>sp_Automated = map_option (\<lambda>auto. \<lparr>auto_Prune = bool_field auto ''prune'', auto_SelfHeal = bool_field auto ''selfHeal''\<rparr>)
                       (getMap m ''automated''),
      sp_SyncOptions = foldl set_option zero_ArgoSyncOptions (str_elems (getSlice0 m ''syncOptions'')),
      sp_Retry = map_option parse_retry (getMap m ''retry''),
      sp_PreserveResourcesOnDeletion = bool_field m ''preserveResourcesOnDeletion''\<rparr>"

definition parseArgoIgnoreDiff :: "obj \<Rightarrow> ArgoIgnoreDiff" where
  "parseArgoIgnoreDiff m =
     \<lparr>igd_Group = str_field m ''group'', igd_Kind = str_field m ''kind'', igd_Name = str_field m ''name'',
      igd_Namespace = str_field m ''namespace'',
      igd_JSONPointers = str_elems (getSlice0 m ''jsonPointers''),
      igd_JQPathExpressions = str_elems (getSlice0 m ''jqPathExpressions''),
      igd_ManagedFieldsManagers = str_elems (getSlice0 m ''managedFieldsManagers'')\<rparr>"

definition parse_destination :: "obj \<Rightarrow> ArgoDestination" where
  "parse_destination d =
     \<lparr>dest_Server = str_field d ''server'', dest_Name = str_field d ''name'', dest_Namespace = str_field d ''namespace''\<rparr>"

section \<open>Applications\<close>

definition app_sources :: "obj \<Rightarrow> ArgoSource list" where
  "app_sources spec =
     (case getSlice spec ''sources'' of
        Some sources \<Rightarrow> map parseArgoSource (obj_elems sources)
      | None \<Rightarrow> (case getMap spec ''source'' of Some source \<Rightarrow> [parseArgoSource source] | None \<Rightarrow> []))"

definition read_app_metadata :: "obj \<Rightarrow> ArgoApplication \<Rightarrow> ArgoApplication" where
  "read_app_metadata metadata app =
     (let app1 = (case getMap metadata ''annotations'' of
                    None \<Rightarrow> app
                  | Some annotations \<Rightarrow>
                      let anns = str_entries annotations;
                          tm = mget anns ''argocd.argoproj.io/tracking-method'';
                          app0 = app\<lparr>app_Annotations := anns\<rparr>
                      in if tm \<noteq> [] then app0\<lparr>app_TrackingMode := tm\<rparr> else app0)
      in app1\<lparr>app_Finalizers := getStringSlice metadata ''finalizers''\<rparr>)"

definition read_app_spec :: "obj \<Rightarrow> ArgoApplication \<Rightarrow> ArgoApplication" where
  "read_app_spec spec app =
     app\<lparr>app_Project := str_field spec ''project'',
         app_Destination := (case getMap spec ''destination'' of Some d \<Rightarrow> parse_destination d | None \<Rightarrow> app_Destination app),
         app_Sources := app_Sources app @ app_sources spec,
         app_SyncPolicy := (case getMap spec ''syncPolicy'' of Some sp \<Rightarrow> parseArgoSyncPolicy sp | None \<Rightarrow> app_SyncPolicy app),
         app_IgnoreDifferences := app_IgnoreDifferences app @
           map parseArgoIgnoreDiff (obj_elems (getSlice0 spec ''ignoreDifferences''))\<rparr>"

text \<open>The Application \<^verbatim>\<open>addArgoApplication\<close> appends to the World.\<close>

definition parse_application :: "LoadedDocument \<Rightarrow> ArgoApplication" where
  "parse_application doc =
     (let metadata = getMap (doc_Raw doc) ''metadata'';
          app = zero_ArgoApplication
            \<lparr>app_Name := (case metadata of Some md \<Rightarrow> str_field md ''name'' | None \<Rightarrow> []),
             app_Namespace := (case metadata of Some md \<Rightarrow> str_field md ''namespace'' | None \<Rightarrow> []),
             app_TrackingMode := ''annotation'', app_Source := doc_Source doc\<rparr>;
          app1 = (case metadata of Some md \<Rightarrow> read_app_metadata md app | None \<Rightarrow> app)
      in case getMap (doc_Raw doc) ''spec'' of Some spec \<Rightarrow> read_app_spec spec app1 | None \<Rightarrow> app1)"

section \<open>Projects\<close>

definition zero_ArgoAppProject :: ArgoAppProject where
  "zero_ArgoAppProject =
     \<lparr>proj_Name = [], proj_Source = zero_SourceLocation, proj_SourceRepos = [], proj_Destinations = [],
      proj_ClusterResourceWhitelist = [], proj_ClusterResourceWhitelistSet = False, proj_ClusterResourceBlacklist = [],
      proj_NamespaceResourceWhitelist = [], proj_NamespaceResourceWhitelistSet = False,
      proj_NamespaceResourceBlacklist = [], proj_SyncWindows = [], proj_SignatureKeys = []\<rparr>"

definition parse_sync_window :: "obj \<Rightarrow> ArgoSyncWindow" where
  "parse_sync_window wm =
     \<lparr>sw_Kind = str_field wm ''kind'', sw_Schedule = str_field wm ''schedule'', sw_Duration = str_field wm ''duration'',
      sw_Applications = getStringSlice wm ''applications'', sw_Namespaces = getStringSlice wm ''namespaces'',
      sw_Clusters = getStringSlice wm ''clusters''\<rparr>"

definition parse_project :: "LoadedDocument \<Rightarrow> ArgoAppProject" where
  "parse_project doc =
     (let proj = zero_ArgoAppProject
            \<lparr>proj_Name := (case getMap (doc_Raw doc) ''metadata'' of Some md \<Rightarrow> str_field md ''name'' | None \<Rightarrow> []),
             proj_Source := doc_Source doc\<rparr>
      in case getMap (doc_Raw doc) ''spec'' of
           None \<Rightarrow> proj
         | Some spec \<Rightarrow>
             proj\<lparr>proj_SourceRepos := str_elems (getSlice0 spec ''sourceRepos''),
                  proj_Destinations := map (\<lambda>dm. \<lparr>pdest_Server = str_field dm ''server'', pdest_Name = str_field dm ''name'',
                      pdest_Namespace = str_field dm ''namespace''\<rparr>) (obj_elems (getSlice0 spec ''destinations'')),
                  proj_ClusterResourceWhitelist := fst (parseGroupKindList spec ''clusterResourceWhitelist''),
                  proj_ClusterResourceWhitelistSet := snd (parseGroupKindList spec ''clusterResourceWhitelist''),
                  proj_ClusterResourceBlacklist := fst (parseGroupKindList spec ''clusterResourceBlacklist''),
                  proj_NamespaceResourceWhitelist := fst (parseGroupKindList spec ''namespaceResourceWhitelist''),
                  proj_NamespaceResourceWhitelistSet := snd (parseGroupKindList spec ''namespaceResourceWhitelist''),
                  proj_NamespaceResourceBlacklist := fst (parseGroupKindList spec ''namespaceResourceBlacklist''),
                  proj_SyncWindows := map parse_sync_window (obj_elems (getSlice0 spec ''syncWindows'')),
                  proj_SignatureKeys := concat (map (\<lambda>km. case as_str (jget km ''keyID'') of Some k \<Rightarrow> [k] | None \<Rightarrow> [])
                      (obj_elems (getSlice0 spec ''signatureKeys'')))\<rparr>)"

section \<open>Application sets\<close>

definition zero_gen :: ArgoAppSetGenerator where
  "zero_gen = ArgoAppSetGenerator [] [] [] None [] [] []"

definition parse_git_generator :: "obj \<Rightarrow> ArgoAppSetGitGenerator" where
  "parse_git_generator git =
     \<lparr>git_RepoURL = str_field git ''repoURL'', git_Revision = str_field git ''revision'',
      git_Directories = map (\<lambda>dm. \<lparr>gdir_Path = str_field dm ''path'', gdir_Exclude = bool_field dm ''exclude''\<rparr>)
                          (obj_elems (getSlice0 git ''directories'')),
      git_Files = map (\<lambda>fm. \<lparr>gfile_Path = str_field fm ''path''\<rparr>) (obj_elems (getSlice0 git ''files''))\<rparr>"

definition parse_cluster_selector :: "obj \<Rightarrow> strmap" where
  "parse_cluster_selector clusters =
     (case getMap clusters ''selector'' of
        None \<Rightarrow> []
      | Some sel \<Rightarrow> (case getMap sel ''matchLabels'' of None \<Rightarrow> [] | Some ml \<Rightarrow> str_entries ml))"

lemma getMap_size: "getMap m key = Some sub \<Longrightarrow> size (JObj sub) < size (JObj m)"
proof -
  assume "getMap m key = Some sub"
  then have "map_of m key = Some (JObj sub)" by (auto simp: getMap_def jget_def split: option.splits)
  then have "(key, JObj sub) \<in> set m" by (rule map_of_SomeD)
  then show ?thesis by (induction m) auto
qed

lemma getSlice_size: "getSlice m key = Some xs \<Longrightarrow> size (JArr xs) < size (JObj m)"
proof -
  assume "getSlice m key = Some xs"
  then have "map_of m key = Some (JArr xs)" by (auto simp: getSlice_def jget_def split: option.splits)
  then have "(key, JArr xs) \<in> set m" by (rule map_of_SomeD)
  then show ?thesis by (induction m) auto
qed

lemma obj_elems_size: "sm \<in> set (obj_elems xs) \<Longrightarrow> size (JObj sm) < size (JArr xs)"
proof -
  assume "sm \<in> set (obj_elems xs)"
  then have "JObj sm \<in> set xs" by (simp add: obj_elems_set)
  then show ?thesis by (induction xs) auto
qed

function parseAppSetGenerator :: "obj \<Rightarrow> ArgoAppSetGenerator" where
  "parseAppSetGenerator m =
     (case getMap m ''list'' of
        Some lst \<Rightarrow> ArgoAppSetGenerator AppSetGenList (map str_entries (obj_elems (getSlice0 lst ''elements''))) [] None [] [] []
      | None \<Rightarrow>
     (case getMap m ''clusters'' of
        Some clusters \<Rightarrow> ArgoAppSetGenerator AppSetGenCluster [] (parse_cluster_selector clusters) None [] [] []
      | None \<Rightarrow>
     (case getMap m ''git'' of
        Some git \<Rightarrow> ArgoAppSetGenerator AppSetGenGit [] [] (Some (parse_git_generator git)) [] [] []
      | None \<Rightarrow>
     (case getMap m ''matrix'' of
        Some matrix \<Rightarrow>
          ArgoAppSetGenerator AppSetGenMatrix [] [] None
            (case getSlice matrix ''generators'' of
               None \<Rightarrow> [] | Some subs \<Rightarrow> map parseAppSetGenerator (obj_elems subs)) [] []
      | None \<Rightarrow>
     (case getMap m ''merge'' of
        Some merge \<Rightarrow>
          ArgoAppSetGenerator AppSetGenMerge [] [] None []
            (case getSlice merge ''generators'' of
               None \<Rightarrow> [] | Some subs \<Rightarrow> map parseAppSetGenerator (obj_elems subs))
            (getStringSlice merge ''mergeKeys'')
      | None \<Rightarrow>
          if mhas m ''pullRequest'' then ArgoAppSetGenerator AppSetGenPullRequest [] [] None [] [] []
          else if mhas m ''scmProvider'' then ArgoAppSetGenerator AppSetGenSCMProvider [] [] None [] [] []
          else zero_gen)))))"
  by pat_completeness auto

termination
  by (relation "measure (\<lambda>m. size (JObj m))")
    (auto dest!: getMap_size getSlice_size obj_elems_size)

declare parseAppSetGenerator.simps [simp del]

definition zero_ArgoAppSetTemplate :: ArgoAppSetTemplate where
  "zero_ArgoAppSetTemplate =
     \<lparr>tmpl_Name = [], tmpl_Namespace = [], tmpl_Finalizers = [], tmpl_Project = [], tmpl_Source = None, tmpl_Sources = [],
      tmpl_Destination = zero_ArgoDestination, tmpl_SyncPolicy = zero_ArgoSyncPolicy, tmpl_IgnoreDifferences = []\<rparr>"

definition parseAppSetTemplate :: "obj \<Rightarrow> ArgoAppSetTemplate" where
  "parseAppSetTemplate m =
     (let t0 = zero_ArgoAppSetTemplate;
          t1 = (case getMap m ''metadata'' of
                  None \<Rightarrow> t0
                | Some md \<Rightarrow> t0\<lparr>tmpl_Name := str_field md ''name'', tmpl_Namespace := str_field md ''namespace'',
                               tmpl_Finalizers := getStringSlice md ''finalizers''\<rparr>)
      in case getMap m ''spec'' of
           None \<Rightarrow> t1
         | Some spec \<Rightarrow>
             t1\<lparr>tmpl_Project := str_field spec ''project'',
                tmpl_Source := map_option parseArgoSource (getMap spec ''source''),
                tmpl_Sources := map parseArgoSource (obj_elems (getSlice0 spec ''sources'')),
                tmpl_Destination := (case getMap spec ''destination'' of Some d \<Rightarrow> parse_destination d | None \<Rightarrow> tmpl_Destination t1),
                tmpl_SyncPolicy := (case getMap spec ''syncPolicy'' of Some sp \<Rightarrow> parseArgoSyncPolicy sp | None \<Rightarrow> tmpl_SyncPolicy t1),
                tmpl_IgnoreDifferences := map parseArgoIgnoreDiff (obj_elems (getSlice0 spec ''ignoreDifferences''))\<rparr>)"

definition parse_appset :: "LoadedDocument \<Rightarrow> ArgoApplicationSet" where
  "parse_appset doc =
     (let name = (case getMap (doc_Raw doc) ''metadata'' of Some md \<Rightarrow> str_field md ''name'' | None \<Rightarrow> []);
          s0 = \<lparr>aset_Name = name, aset_Source = doc_Source doc, aset_Generators = [],
                aset_Template = zero_ArgoAppSetTemplate, aset_SyncPolicy = \<lparr>asp_PreserveResourcesOnDeletion = False\<rparr>\<rparr>
      in case getMap (doc_Raw doc) ''spec'' of
           None \<Rightarrow> s0
         | Some spec \<Rightarrow>
             s0\<lparr>aset_Generators := map parseAppSetGenerator (obj_elems (getSlice0 spec ''generators'')),
                aset_Template := (case getMap spec ''template'' of Some t \<Rightarrow> parseAppSetTemplate t | None \<Rightarrow> zero_ArgoAppSetTemplate),
                aset_SyncPolicy := (case getMap spec ''syncPolicy'' of
                     Some sp \<Rightarrow> \<lparr>asp_PreserveResourcesOnDeletion = bool_field sp ''preserveResourcesOnDeletion''\<rparr>
                   | None \<Rightarrow> \<lparr>asp_PreserveResourcesOnDeletion = False\<rparr>)\<rparr>)"

end
