(* ===== verification/AppSet.thy ===== *)
theory AppSet
  imports ArgoParse
begin

text \<open>
  \<^verbatim>\<open>pkg/ir/appset_expand.go\<close> and \<^verbatim>\<open>pkg/ir/appset_template.go\<close>: ApplicationSets expanded
  into Applications.  The file system is the parameter \<open>globDirs\<close>, the
  directories a glob pattern matches (none when the pattern is malformed).
\<close>

section \<open>Template substitution\<close>

definition unsupportedTemplateTokens :: "string list" where
  "unsupportedTemplateTokens =
     [''{{range'', ''{{ range'', ''{{if'', ''{{ if'', ''{{with'', ''{{ with'', ''{{define'', ''{{ define'',
      ''{{block'', ''{{ block'', ''{{template'', ''{{ template'', ''|'', ''printf'']"

definition subst_key :: "strmap \<Rightarrow> string \<Rightarrow> string \<Rightarrow> string" where
  "subst_key params inner verbatim =
     (case map_of params (TrimPrefix (TrimSpace inner) ''.'') of Some v \<Rightarrow> v | None \<Rightarrow> verbatim)"

function subst_loop :: "strmap \<Rightarrow> string \<Rightarrow> string" where
  "subst_loop params s =
     (case Index s ''{{'' of
        None \<Rightarrow> s
      | Some op \<Rightarrow>
          (case Index (drop op s) ''}}'' of
             None \<Rightarrow> take op s @ drop op s
           | Some cl \<Rightarrow>
               take op s @ subst_key params (take (cl - 2) (drop (op + 2) s)) (take (cl + 2) (drop op s))
               @ subst_loop params (drop (op + cl + 2) s)))"
  by pat_completeness auto

termination
proof (relation "measure (\<lambda>(params, s). length s)", goal_cases)
  case (2 params s op cl)
  then show ?case using Index_Some_bound[of s "''{{''" op] by simp
qed simp

declare subst_loop.simps [simp del]

definition substituteTemplate :: "string \<Rightarrow> strmap \<Rightarrow> string option" where
  "substituteTemplate s params =
     (if s = [] then Some s
      else if list_ex (Contains s) unsupportedTemplateTokens then None
      else Some (subst_loop params s))"

section \<open>Sources\<close>

fun subst_all :: "string list \<Rightarrow> strmap \<Rightarrow> string list option" where
  "subst_all [] params = Some []"
| "subst_all (s # ss) params =
     Option.bind (substituteTemplate s params) (\<lambda>t. map_option ((#) t) (subst_all ss params))"

fun subst_params :: "ArgoHelmParam list \<Rightarrow> strmap \<Rightarrow> ArgoHelmParam list option" where
  "subst_params [] params = Some []"
| "subst_params (p # ps) params =
     Option.bind (substituteTemplate (hp_Name p) params) (\<lambda>name.
     Option.bind (substituteTemplate (hp_Value p) params) (\<lambda>val.
       map_option ((#) \<lparr>hp_Name = name, hp_Value = val\<rparr>) (subst_params ps params)))"

definition substituteHelm :: "ArgoHelmSource \<Rightarrow> strmap \<Rightarrow> ArgoHelmSource option" where
  "substituteHelm h params =
     Option.bind (substituteTemplate (helm_Values h) params) (\<lambda>values.
     Option.bind (substituteTemplate (helm_ReleaseName h) params) (\<lambda>release.
     Option.bind (subst_all (helm_ValueFiles h) params) (\<lambda>files.
     Option.bind (subst_params (helm_Parameters h) params) (\<lambda>params2.
       Some (h\<lparr>helm_Values := values, helm_ReleaseName := release, helm_ValueFiles := files,
               helm_Parameters := params2\<rparr>)))))"

definition substituteSource :: "ArgoSource \<Rightarrow> strmap \<Rightarrow> ArgoSource option" where
  "substituteSource src params =
     Option.bind (substituteTemplate (src_RepoURL src) params) (\<lambda>repo.
     Option.bind (substituteTemplate (src_Path src) params) (\<lambda>path.
     Option.bind (substituteTemplate (src_TargetRevision src) params) (\<lambda>target.
     Option.bind (substituteTemplate (src_Chart src) params) (\<lambda>chart.
       let src1 = src\<lparr>src_RepoURL := repo, src_Path := path, src_TargetRevision := target, src_Chart := chart\<rparr>
       in case src_Helm src of
            None \<Rightarrow> Some src1
          | Some h \<Rightarrow> map_option (\<lambda>helm. src1\<lparr>src_Helm := Some helm\<rparr>) (substituteHelm h params)))))"

fun subst_sources :: "ArgoSource list \<Rightarrow> strmap \<Rightarrow> ArgoSource list option" where
  "subst_sources [] params = Some []"
| "subst_sources (s # ss) params =
     Option.bind (substituteSource s params) (\<lambda>t. map_option ((#) t) (subst_sources ss params))"

section \<open>Generators\<close>

record ExpansionContext =
  ctx_PRFixtures :: "(string \<times> strmap list) list"
  ctx_Root :: string

definition appset_diag :: "ArgoApplicationSet \<Rightarrow> string \<Rightarrow> string \<Rightarrow> string \<Rightarrow> Diagnostic" where
  "appset_diag as msg detail fix_text =
     \<lparr>dg_Code = ''XPC.H.appset-unsupported-generator'', dg_Severity = SeverityInfo, dg_Message = msg,
      dg_Source = aset_Source as, dg_Detail = detail, dg_Fix = fix_text, dg_Related = [], dg_Obligation = None\<rparr>"

text \<open>\<^verbatim>\<open>%q\<close> on a generator kind, which is a plain word.\<close>

definition unsupportedGeneratorDiag :: "ArgoApplicationSet \<Rightarrow> string \<Rightarrow> string \<Rightarrow> Diagnostic" where
  "unsupportedGeneratorDiag as kind reason =
     appset_diag as (aset_Name as @ '': generator '' @ [CHR 0x22] @ kind @ [CHR 0x22] @ '' not expandable offline'') reason
       ''pass --appset-fixture=<file.yaml> with a parameter-set list for this ApplicationSet, or accept the coverage gap''"

definition expandGitDirs ::
  "(string \<Rightarrow> string list) \<Rightarrow> ArgoApplicationSet \<Rightarrow> ArgoAppSetGenerator \<Rightarrow> ExpansionContext \<Rightarrow> strmap list" where
  "expandGitDirs globDirs as gen ctx =
     (case gen_Git gen of
        None \<Rightarrow> []
      | Some git \<Rightarrow>
          let base = (if ctx_Root ctx = [] then Dir (sl_File (aset_Source as)) else ctx_Root ctx)
          in concat (map (\<lambda>dir. if gdir_Exclude dir then []
                 else map (\<lambda>m. [(''path'', m), (''path.basename'', Base m)]) (globDirs (JoinPath [base, gdir_Path dir])))
               (git_Directories git)))"

text \<open>\<^verbatim>\<open>for k, v := range m { merged[k] = v }\<close>\<close>

definition put_all :: "strmap \<Rightarrow> strmap \<Rightarrow> strmap" where
  "put_all m base = foldl (\<lambda>acc (k, v). mput k v acc) base m"

definition put_missing :: "strmap \<Rightarrow> strmap \<Rightarrow> strmap" where
  "put_missing m base = foldl (\<lambda>acc (k, v). if mhas acc k then acc else mput k v acc) base m"

definition matrix_product :: "strmap list \<Rightarrow> strmap list \<Rightarrow> strmap list" where
  "matrix_product aParams bParams =
     concat (map (\<lambda>ap. map (\<lambda>bp. put_all bp (put_all ap [])) bParams) aParams)"

definition mergeKey :: "strmap \<Rightarrow> string list \<Rightarrow> string" where
  "mergeKey m keys = Join (map (mget m) keys) NUL"

definition merge_join :: "string list \<Rightarrow> strmap list \<Rightarrow> strmap list \<Rightarrow> strmap list" where
  "merge_join keys aParams bParams =
     (let bIndex = mfill (\<lambda>bp. mergeKey bp keys) (\<lambda>bp. bp) bParams
      in map (\<lambda>ap. let merged = put_all ap [] in
                case map_of bIndex (mergeKey ap keys) of Some bp \<Rightarrow> put_missing bp merged | None \<Rightarrow> merged) aParams)"

lemma sub_generator_size:
  "g \<in> set (gen_MatrixGenerators gen) \<Longrightarrow> size g < size gen"
  "g \<in> set (gen_MergeGenerators gen) \<Longrightarrow> size g < size gen"
  by (cases gen, simp, drule size_list_estimation'[where f = size, OF _ order_refl], simp)+

function expandGenerator ::
  "(string \<Rightarrow> string list) \<Rightarrow> ArgoApplicationSet \<Rightarrow> ArgoAppSetGenerator \<Rightarrow> ExpansionContext \<Rightarrow>
   strmap list \<times> Diagnostic list" where
  "expandGenerator globDirs as gen ctx =
     (if gen_Kind gen = AppSetGenList then (gen_ListElements gen, [])
      else if gen_Kind gen = AppSetGenGit then (expandGitDirs globDirs as gen ctx, [])
      else if gen_Kind gen = AppSetGenMatrix then
        (case gen_MatrixGenerators gen of
           g1 # g2 # _ \<Rightarrow>
             (let (aParams, aDiags) = expandGenerator globDirs as g1 ctx;
                  (bParams, bDiags) = expandGenerator globDirs as g2 ctx
              in (matrix_product aParams bParams, aDiags @ bDiags))
         | _ \<Rightarrow> ([], []))
      else if gen_Kind gen = AppSetGenMerge then
        (case gen_MergeGenerators gen of
           g1 # g2 # _ \<Rightarrow>
             (if gen_MergeKeys gen = [] then ([], [])
              else let (aParams, aDiags) = expandGenerator globDirs as g1 ctx;
                       (bParams, bDiags) = expandGenerator globDirs as g2 ctx
                   in (merge_join (gen_MergeKeys gen) aParams bParams, aDiags @ bDiags))
         | _ \<Rightarrow> ([], []))
      else if gen_Kind gen = AppSetGenPullRequest \<or> gen_Kind gen = AppSetGenSCMProvider then
        (case map_of (ctx_PRFixtures ctx) (aset_Name as) of
           Some prs \<Rightarrow> (prs, [])
         | None \<Rightarrow> ([], [unsupportedGeneratorDiag as (gen_Kind gen)
                          ''no --appset-fixture provided; this generator would hit a remote API'']))
      else if gen_Kind gen = AppSetGenCluster then
        ([], [unsupportedGeneratorDiag as (gen_Kind gen) ''offline simulation does not include a cluster inventory''])
      else ([], [unsupportedGeneratorDiag as (gen_Kind gen) ''generator kind not recognized'']))"
  by pat_completeness auto

termination
proof (relation "measure (\<lambda>(globDirs, as, gen, ctx). size gen)", goal_cases)
  case (2 globDirs as gen ctx g1 l g2 l')
  then show ?case using sub_generator_size(1)[of g1 gen] by simp
next
  case (3 globDirs as gen ctx g1 l g2 l' x aParams aDiags)
  then show ?case using sub_generator_size(1)[of g2 gen] by simp
next
  case (4 globDirs as gen ctx g1 l g2 l')
  then show ?case using sub_generator_size(2)[of g1 gen] by simp
next
  case (5 globDirs as gen ctx g1 l g2 l' x aParams aDiags)
  then show ?case using sub_generator_size(2)[of g2 gen] by simp
qed simp

declare expandGenerator.simps [simp del]

section \<open>Instantiation\<close>

definition instantiateTemplate :: "ArgoApplicationSet \<Rightarrow> strmap \<Rightarrow> ArgoApplication option" where
  "instantiateTemplate as params =
     (let t = aset_Template as in
      Option.bind (substituteTemplate (tmpl_Name t) params) (\<lambda>name.
      Option.bind (substituteTemplate (tmpl_Namespace t) params) (\<lambda>ns.
      Option.bind (substituteTemplate (tmpl_Project t) params) (\<lambda>project.
      Option.bind (substituteTemplate (dest_Server (tmpl_Destination t)) params) (\<lambda>destServer.
      Option.bind (substituteTemplate (dest_Name (tmpl_Destination t)) params) (\<lambda>destName.
      Option.bind (substituteTemplate (dest_Namespace (tmpl_Destination t)) params) (\<lambda>destNS.
      Option.bind (subst_sources ((case tmpl_Source t of Some s \<Rightarrow> [s] | None \<Rightarrow> []) @ tmpl_Sources t) params) (\<lambda>sources.
        Some (zero_ArgoApplication
          \<lparr>app_Name := (if name = [] then aset_Name as @ ''-expanded'' else name),
           app_Namespace := ns, app_Project := project, app_TrackingMode := ''annotation'',
           app_Source := aset_Source as, app_Sources := sources,
           app_Destination := \<lparr>dest_Server = destServer, dest_Name = destName, dest_Namespace = destNS\<rparr>,
           app_SyncPolicy := tmpl_SyncPolicy t, app_IgnoreDifferences := tmpl_IgnoreDifferences t\<rparr>)))))))))"

record ExpansionResult =
  exp_Applications :: "ArgoApplication list"
  exp_Diagnostics :: "Diagnostic list"

definition template_diag :: "ArgoApplicationSet \<Rightarrow> Diagnostic" where
  "template_diag as =
     appset_diag as (aset_Name as @ '': template uses non-trivial Go-template syntax we do not simulate'')
       (''ranges/conditionals/pipelines are not rendered offline; run Argo CD'' @ [CHR 0x27] @ ''s appset controller for full coverage'')
       (''simplify the template to plain `{{ .key }}` placeholders, or accept coverage gap'')"

definition expand_params :: "ArgoApplicationSet \<Rightarrow> ExpansionResult \<Rightarrow> strmap \<Rightarrow> ExpansionResult" where
  "expand_params as res p =
     (case instantiateTemplate as p of
        None \<Rightarrow> res\<lparr>exp_Diagnostics := exp_Diagnostics res @ [template_diag as]\<rparr>
      | Some app \<Rightarrow> res\<lparr>exp_Applications := exp_Applications res @ [app]\<rparr>)"

definition expand_gen ::
  "(string \<Rightarrow> string list) \<Rightarrow> ArgoApplicationSet \<Rightarrow> ExpansionContext \<Rightarrow> ExpansionResult \<Rightarrow>
   ArgoAppSetGenerator \<Rightarrow> ExpansionResult" where
  "expand_gen globDirs as ctx res gen =
     (case expandGenerator globDirs as gen ctx of
        (params, diags) \<Rightarrow>
          foldl (expand_params as) (res\<lparr>exp_Diagnostics := exp_Diagnostics res @ diags\<rparr>) params)"

definition ExpandAppSet ::
  "(string \<Rightarrow> string list) \<Rightarrow> ArgoApplicationSet \<Rightarrow> ExpansionContext \<Rightarrow> ExpansionResult" where
  "ExpandAppSet globDirs as ctx =
     foldl (expand_gen globDirs as ctx) \<lparr>exp_Applications = [], exp_Diagnostics = []\<rparr> (aset_Generators as)"

section \<open>Substitution renders templates\<close>

text \<open>
  The templates the engine supports: literal text, in which a brace may stand alone, and placeholders,
  with any white space inside the braces and with or without the leading dot.
\<close>

datatype tok = Lit string | Var string bool string string

fun tok_text :: "tok \<Rightarrow> string" where
  "tok_text (Lit s) = s"
| "tok_text (Var l dot k r) = ''{{'' @ l @ (if dot then ''.'' else []) @ k @ r @ ''}}''"

text \<open>A placeholder stands for the parameter of its whole key, dots included, or for itself.\<close>

fun tok_value :: "strmap \<Rightarrow> tok \<Rightarrow> string" where
  "tok_value params (Lit s) = s"
| "tok_value params (Var l dot k r) = (case map_of params k of Some v \<Rightarrow> v | None \<Rightarrow> tok_text (Var l dot k r))"

fun lit_ok :: "string \<Rightarrow> bool" where
  "lit_ok [] = True"
| "lit_ok [c] = (c \<noteq> CHR ''{'')"
| "lit_ok (a # b # cs) = (\<not> (a = CHR ''{'' \<and> b = CHR ''{'') \<and> lit_ok (b # cs))"

fun tok_ok :: "tok \<Rightarrow> bool" where
  "tok_ok (Lit s) = lit_ok s"
| "tok_ok (Var l dot k r) =
     (list_all is_space l \<and> list_all is_space r \<and> k \<noteq> [] \<and> CHR ''}'' \<notin> set k \<and> \<not> is_space (last k) \<and>
      (dot \<or> (hd k \<noteq> CHR ''.'' \<and> \<not> is_space (hd k))))"

lemma Index_skip:
  "c \<notin> set l \<Longrightarrow> Index (l @ r) (c # cs) = map_option ((+) (length l)) (Index r (c # cs))"
  by (cases "Index r (c # cs)"; induction l) (auto simp: HasPrefix_def)

lemma Index_lit: "lit_ok l \<Longrightarrow> Index (l @ r) ''{{'' = map_option ((+) (length l)) (Index r ''{{'')"
  by (cases "Index r ''{{''"; induction l rule: lit_ok.induct) (auto simp: HasPrefix_def)

lemma subst_lit: "lit_ok l \<Longrightarrow> subst_loop params (l @ r) = l @ subst_loop params r"
  unfolding subst_loop.simps[of params "l @ r"] subst_loop.simps[of params r]
  by (auto simp: Index_lit split: option.splits)

lemma TrimSpace_pad:
  assumes "x \<noteq> []" "\<not> is_space (hd x)" "\<not> is_space (last x)" "list_all is_space l" "list_all is_space r"
  shows "TrimSpace (l @ x @ r) = x"
proof -
  have "dropWhile is_space (l @ x @ r) = x @ r"
    using assms(1,2,4) by (subst dropWhile_append2) (auto simp: list_all_iff dropWhile_hd)
  moreover have "dropWhile is_space (rev (x @ r)) = rev x"
    using assms(1,3,5) by (simp, subst dropWhile_append2) (auto simp: list_all_iff dropWhile_hd hd_rev)
  ultimately show ?thesis by (simp add: TrimSpace_def TrimLeftFunc_def TrimRightFunc_def)
qed

lemma subst_var:
  assumes "tok_ok (Var l dot k r)"
  shows "subst_loop params (tok_text (Var l dot k r) @ rest) = tok_value params (Var l dot k r) @ subst_loop params rest"
proof -
  define x where "x = (if dot then ''.'' else []) @ k"
  let ?s = "tok_text (Var l dot k r) @ rest" and ?n = "length l + length x + length r"
  have s: "?s = ''{{'' @ (l @ x @ r) @ ''}}'' @ rest" by (simp add: x_def)
  have x: "x \<noteq> []" "\<not> is_space (hd x)" "\<not> is_space (last x)" "TrimPrefix x ''.'' = k" "CHR ''}'' \<notin> set x"
    using assms by (auto simp: x_def is_space_def TrimPrefix_def HasPrefix_def neq_Nil_conv)
  have op: "Index ?s ''{{'' = Some 0" by (simp add: HasPrefix_def)
  have brace: "\<not> is_space (CHR ''}'')" by (simp add: is_space_def)
  have "CHR ''}'' \<notin> set (''{{'' @ l @ x @ r)" using assms x(5) brace by (auto simp: list_all_iff)
  then have "Index ((''{{'' @ l @ x @ r) @ (''}}'' @ rest)) ''}}'' = map_option ((+) (length (''{{'' @ l @ x @ r))) (Index (''}}'' @ rest) ''}}'')"
    by (rule Index_skip)
  then have cl: "Index (drop 0 ?s) ''}}'' = Some (?n + 2)" unfolding s by (simp add: HasPrefix_def)
  have raw: "take (?n + 2 - 2) (drop (0 + 2) ?s) = l @ x @ r" unfolding s by (simp add: numeral_eq_Suc)
  have inner: "TrimSpace (l @ x @ r) = x" using assms x by (intro TrimSpace_pad) auto
  have verb: "take (?n + 2 + 2) (drop 0 ?s) = tok_text (Var l dot k r)" unfolding s by (simp add: numeral_eq_Suc) (simp add: x_def)
  have "subst_key params (take (?n + 2 - 2) (drop (0 + 2) ?s)) (take (?n + 2 + 2) (drop 0 ?s)) = tok_value params (Var l dot k r)"
    unfolding subst_key_def raw inner x(4) verb by simp
  moreover have "drop (0 + (?n + 2) + 2) ?s = rest" unfolding s by (simp add: numeral_eq_Suc)
  ultimately show ?thesis
    unfolding subst_loop.simps[of params ?s] op using cl by (simp del: tok_text.simps tok_value.simps)
qed

lemma subst_toks:
  "list_all tok_ok toks \<Longrightarrow> subst_loop params (concat (map tok_text toks)) = concat (map (tok_value params) toks)"
proof (induction toks)
  case (Cons t toks)
  then show ?case
    using subst_lit[of _ params "concat (map tok_text toks)"] subst_var[of _ _ _ _ params "concat (map tok_text toks)"]
    by (cases t) (auto simp del: tok_text.simps(2) tok_value.simps(2) tok_ok.simps(2))
qed (simp add: subst_loop.simps)

lemma no_token_in_empty: "\<not> list_ex (Contains []) unsupportedTemplateTokens"
  by (simp add: unsupportedTemplateTokens_def Contains_def HasPrefix_def)

text \<open>
  C23: template substitution renders the supported fragment.  A template made of literal text and
  placeholders, however they are spaced and with or without the leading dot, is refused when it contains
  an unsupported construct; otherwise it is rendered by replacing each placeholder with the parameter of
  its whole key (a dotted key does not fall back to its first part) and leaving the placeholders without a parameter in place.
\<close>

theorem substituteTemplate_renders:
  assumes "list_all tok_ok toks"
  shows "substituteTemplate (concat (map tok_text toks)) params =
    (if list_ex (Contains (concat (map tok_text toks))) unsupportedTemplateTokens then None
     else Some (concat (map (tok_value params) toks)))"
proof (cases "concat (map tok_text toks) = []")
  case True
  then show ?thesis
    unfolding substituteTemplate_def subst_toks[OF assms, of params, symmetric] True
    by (simp add: subst_loop.simps no_token_in_empty)
next
  case False
  then show ?thesis
    unfolding substituteTemplate_def subst_toks[OF assms, of params] by (simp del: concat_eq_Nil_conv)
qed

theorem substituteTemplate_renders_witness:
  "substituteTemplate ''app-{{ .env }}-{{.zone}}-{{ n}}{{ .a.b }}'' [(''env'', ''prod''), (''n'', ''7''), (''a'', ''x'')] =
     Some ''app-prod-{{.zone}}-7{{ .a.b }}''"
proof -
  let ?toks = "[Lit ''app-'', Var '' '' True ''env'' '' '', Lit ''-'', Var [] True ''zone'' [], Lit ''-'', Var '' '' False ''n'' [],
     Var '' '' True ''a.b'' '' '']"
  have "list_all tok_ok ?toks" by (simp add: is_space_def)
  moreover have "\<not> list_ex (Contains (concat (map tok_text ?toks))) unsupportedTemplateTokens"
    by (simp add: unsupportedTemplateTokens_def Contains_def HasPrefix_def)
  ultimately show ?thesis using substituteTemplate_renders[of ?toks "[(''env'', ''prod''), (''n'', ''7''), (''a'', ''x'')]"] by simp
qed

section \<open>Expansion accounts for every parameter set\<close>

definition gen_params where
  "gen_params globDirs as ctx gen = fst (expandGenerator globDirs as gen ctx)"

definition gen_diags where
  "gen_diags globDirs as ctx gen = snd (expandGenerator globDirs as gen ctx)"

text \<open>The finalizers of the template never reach a generated Application.\<close>

lemma instantiate_drops_finalizers: "instantiateTemplate as p = Some app \<Longrightarrow> app_Finalizers app = []"
  by (auto simp: instantiateTemplate_def Let_def zero_ArgoApplication_def Option.bind_eq_Some_conv)

lemma expand_params_fold:
  "foldl (expand_params as) res ps =
     \<lparr>exp_Applications = exp_Applications res @ List.map_filter (instantiateTemplate as) ps,
      exp_Diagnostics = exp_Diagnostics res @
        replicate (length (filter (\<lambda>p. instantiateTemplate as p = None) ps)) (template_diag as)\<rparr>"
proof (induction ps arbitrary: res)
  case Nil
  then show ?case by (simp add: map_filter_def)
next
  case (Cons p ps)
  show ?case unfolding foldl_Cons Cons
    by (cases "instantiateTemplate as p") (simp_all add: expand_params_def map_filter_simps)
qed

lemma expand_gen_eq:
  "expand_gen globDirs as ctx res gen =
     \<lparr>exp_Applications = exp_Applications res @ List.map_filter (instantiateTemplate as) (gen_params globDirs as ctx gen),
      exp_Diagnostics = exp_Diagnostics res @ gen_diags globDirs as ctx gen @
        replicate (length (filter (\<lambda>p. instantiateTemplate as p = None) (gen_params globDirs as ctx gen))) (template_diag as)\<rparr>"
  by (simp add: expand_gen_def expand_params_fold gen_params_def gen_diags_def case_prod_beta)

lemma map_filter_length:
  "length (List.map_filter f xs) + length (filter (\<lambda>x. f x = None) xs) = length xs"
  by (induction xs) (auto simp: map_filter_simps split: option.splits)

lemma map_filter_append: "List.map_filter f (xs @ ys) = List.map_filter f xs @ List.map_filter f ys"
  by (simp add: map_filter_def)

lemma expand_fold:
  "exp_Applications (foldl (expand_gen globDirs as ctx) res gens) =
     exp_Applications res @ List.map_filter (instantiateTemplate as) (concat (map (gen_params globDirs as ctx) gens)) \<and>
   length (exp_Diagnostics (foldl (expand_gen globDirs as ctx) res gens)) =
     length (exp_Diagnostics res) + length (concat (map (gen_diags globDirs as ctx) gens)) +
     length (filter (\<lambda>p. instantiateTemplate as p = None) (concat (map (gen_params globDirs as ctx) gens)))"
proof (induction gens arbitrary: res)
  case Nil
  then show ?case by (simp add: map_filter_def)
next
  case (Cons g gens)
  note IH = Cons[of "expand_gen globDirs as ctx res g"]
  show ?case unfolding foldl_Cons IH[THEN conjunct1] IH[THEN conjunct2]
    by (simp add: expand_gen_eq map_filter_append)
qed

text \<open>The bindings a matrix combines: the second generator wins.\<close>

lemma map_of_put_all: "distinct (map fst m) \<Longrightarrow> map_of (put_all m b) k = (case map_of m k of Some v \<Rightarrow> Some v | None \<Rightarrow> map_of b k)"
proof (induction m arbitrary: b)
  case (Cons kv m)
  obtain k' v where kv: "kv = (k', v)" by fastforce
  have "map_of m k' = None" using Cons.prems kv by (simp add: map_of_eq_None_iff)
  then show ?case using Cons.IH[of "mput k' v b"] Cons.prems kv
    by (auto simp: put_all_def split: option.splits)
qed (simp add: put_all_def)

lemma matrix_product_set:
  "set (matrix_product as bs) = {put_all b (put_all a []) | a b. a \<in> set as \<and> b \<in> set bs}"
  by (auto simp: matrix_product_def)

lemma matrix_product_length: "length (matrix_product as bs) = length as * length bs"
  by (induction as) (simp_all add: matrix_product_def)

text \<open>
  C24: expansion loses nothing.  The Applications of an ApplicationSet are, in
  order, the instances of its template at the parameter sets of its generators;
  each parameter set gives either one Application or one diagnostic, and the
  generators' own diagnostics are all kept.  A matrix generator with two
  children yields exactly the pairwise combinations, the second child winning.
\<close>

theorem ExpandAppSet_accounts:
  "exp_Applications (ExpandAppSet globDirs as ctx) =
     List.map_filter (instantiateTemplate as) (concat (map (gen_params globDirs as ctx) (aset_Generators as))) \<and>
   length (exp_Applications (ExpandAppSet globDirs as ctx)) + length (exp_Diagnostics (ExpandAppSet globDirs as ctx)) =
     length (concat (map (gen_params globDirs as ctx) (aset_Generators as))) +
     length (concat (map (gen_diags globDirs as ctx) (aset_Generators as))) \<and>
   (gen_Kind gen = AppSetGenMatrix \<longrightarrow> gen_MatrixGenerators gen = g1 # g2 # gs \<longrightarrow>
      set (gen_params globDirs as ctx gen) =
        {put_all b (put_all a []) | a b. a \<in> set (gen_params globDirs as ctx g1) \<and> b \<in> set (gen_params globDirs as ctx g2)} \<and>
      length (gen_params globDirs as ctx gen) = length (gen_params globDirs as ctx g1) * length (gen_params globDirs as ctx g2))"
proof (intro conjI impI)
  let ?ps = "concat (map (gen_params globDirs as ctx) (aset_Generators as))"
  note fold = expand_fold[of globDirs as ctx "\<lparr>exp_Applications = [], exp_Diagnostics = []\<rparr>" "aset_Generators as"]
  show "exp_Applications (ExpandAppSet globDirs as ctx) = List.map_filter (instantiateTemplate as) ?ps"
    using fold by (simp add: ExpandAppSet_def)
  show "length (exp_Applications (ExpandAppSet globDirs as ctx)) + length (exp_Diagnostics (ExpandAppSet globDirs as ctx)) =
     length ?ps + length (concat (map (gen_diags globDirs as ctx) (aset_Generators as)))"
    using fold map_filter_length[of "instantiateTemplate as" ?ps] by (simp add: ExpandAppSet_def)
next
  assume gen: "gen_Kind gen = AppSetGenMatrix" "gen_MatrixGenerators gen = g1 # g2 # gs"
  then have "gen_params globDirs as ctx gen =
      matrix_product (gen_params globDirs as ctx g1) (gen_params globDirs as ctx g2)"
    unfolding gen_params_def by (subst expandGenerator.simps) (simp add: case_prod_beta)
  then show "set (gen_params globDirs as ctx gen) =
        {put_all b (put_all a []) | a b. a \<in> set (gen_params globDirs as ctx g1) \<and> b \<in> set (gen_params globDirs as ctx g2)}"
    and "length (gen_params globDirs as ctx gen) = length (gen_params globDirs as ctx g1) * length (gen_params globDirs as ctx g2)"
    by (simp_all add: matrix_product_set matrix_product_length)
qed

definition ex_list_gen :: "strmap list \<Rightarrow> ArgoAppSetGenerator" where
  "ex_list_gen ps = ArgoAppSetGenerator AppSetGenList ps [] None [] [] []"

definition ex_matrix_gen :: ArgoAppSetGenerator where
  "ex_matrix_gen = ArgoAppSetGenerator AppSetGenMatrix [] [] None
     [ex_list_gen [[(''env'', ''dev'')], [(''env'', ''prod'')]], ex_list_gen [[(''zone'', ''a'')]]] [] []"

definition ex_appset :: ArgoApplicationSet where
  "ex_appset = \<lparr>aset_Name = ''fleet'', aset_Source = zero_SourceLocation, aset_Generators = [ex_matrix_gen],
     aset_Template = zero_ArgoAppSetTemplate\<lparr>tmpl_Name := ''web''\<rparr>,
     aset_SyncPolicy = \<lparr>asp_PreserveResourcesOnDeletion = False\<rparr>\<rparr>"

theorem ExpandAppSet_accounts_witness:
  "set (gen_params (\<lambda>_. []) ex_appset \<lparr>ctx_PRFixtures = [], ctx_Root = []\<rparr> ex_matrix_gen) =
     {[(''env'', ''dev''), (''zone'', ''a'')], [(''env'', ''prod''), (''zone'', ''a'')]}"
proof -
  let ?ctx = "\<lparr>ctx_PRFixtures = [], ctx_Root = []\<rparr>"
  let ?g1 = "ex_list_gen [[(''env'', ''dev'')], [(''env'', ''prod'')]]" and ?g2 = "ex_list_gen [[(''zone'', ''a'')]]"
  have "gen_Kind ex_matrix_gen = AppSetGenMatrix" "gen_MatrixGenerators ex_matrix_gen = ?g1 # ?g2 # []"
    by (simp_all add: ex_matrix_gen_def)
  then have "set (gen_params (\<lambda>_. []) ex_appset ?ctx ex_matrix_gen) =
      {put_all b (put_all a []) | a b. a \<in> set (gen_params (\<lambda>_. []) ex_appset ?ctx ?g1) \<and>
         b \<in> set (gen_params (\<lambda>_. []) ex_appset ?ctx ?g2)}"
    using ExpandAppSet_accounts[of "\<lambda>_. []" ex_appset ?ctx ex_matrix_gen ?g1 ?g2 "[]"] by blast
  moreover have lists: "gen_params (\<lambda>_. []) ex_appset ?ctx (ex_list_gen ps) = ps" for ps
    by (simp add: gen_params_def expandGenerator.simps ex_list_gen_def)
  moreover have "put_all [(''zone'', ''a'')] (put_all [(''env'', v)] []) = [(''env'', v), (''zone'', ''a'')]" for v
    by (simp add: put_all_def)
  moreover have "{put_all b (put_all a []) | a b. a \<in> set [x, y] \<and> b \<in> set [z]} = {put_all z (put_all x []), put_all z (put_all y [])}" for x y z
    by auto
  ultimately show ?thesis by (simp only:)
qed

end
