(* ===== verification/Owner.thy ===== *)
theory Owner
  imports IrBase "HOL-Library.Sublist"
begin

text \<open>
  The ownership part of \<^verbatim>\<open>pkg/ir/builder.go\<close>: which Argo Application owns the
  file a fact was read from.  The file system is a record of what the code
  asks of it: the working directory and the kind of the entry at a path.
\<close>

section \<open>The file system\<close>

datatype FileMode = ModeDir | ModeRegular | ModeOther

record FsEnv =
  fs_Getwd :: "string option"
  fs_Stat :: "string \<Rightarrow> FileMode option"

definition FsAbs :: "FsEnv \<Rightarrow> string \<Rightarrow> string option" where
  "FsAbs fs p =
     (if IsAbs p then Some (Clean p)
      else case fs_Getwd fs of None \<Rightarrow> None | Some wd \<Rightarrow> Some (JoinPath [wd, p]))"

section \<open>Cleaning shortens\<close>

definition weight :: "string list \<Rightarrow> nat" where
  "weight es = sum_list (map (\<lambda>e. Suc (length e)) es)"

lemma weight_simps [simp]:
  "weight [] = 0" "weight (e # es) = Suc (length e) + weight es" "weight (xs @ ys) = weight xs + weight ys"
  "weight (rev xs) = weight xs"
  by (simp_all add: weight_def rev_map[symmetric])

lemma length_Join_slash: "es \<noteq> [] \<Longrightarrow> Suc (length (Join es [slash])) = weight es"
proof (induction es)
  case (Cons e es)
  then show ?case by (cases es) simp_all
qed simp

lemma weight_clean: "weight (clean_elems r stk es) \<le> weight stk + weight es"
  by (induction r stk es rule: clean_elems.induct) (auto split: list.splits)

lemma Split_abs: "IsAbs p \<Longrightarrow> Split p [slash] = [] # Split (tl p) [slash]"
  using Split_append_sep[of slash "[]" "tl p"] by (cases p) (auto simp: IsAbs_def)

lemma weight_Split: "weight (Split p [slash]) = Suc (length p)"
  using length_Join_slash[of "Split p [slash]"] by (simp add: Join_Split)

lemma length_Clean: "p \<noteq> [] \<Longrightarrow> length (Clean p) \<le> length p"
proof (cases "IsAbs p")
  case True
  let ?es = "clean_elems True [] (Split p [slash])"
  assume "p \<noteq> []"
  have "weight (Split (tl p) [slash]) = length p" using \<open>p \<noteq> []\<close> by (simp add: weight_Split)
  then have "weight ?es \<le> length p"
    using weight_clean[of True "[]" "Split (tl p) [slash]"] by (simp add: Split_abs[OF True])
  then show ?thesis
    using True \<open>p \<noteq> []\<close> length_Join_slash[of ?es] by (cases "?es = []") (auto simp: Clean_def Suc_le_eq)
next
  case False
  let ?es = "clean_elems False [] (Split p [slash])"
  assume "p \<noteq> []"
  have "weight ?es \<le> Suc (length p)" using weight_clean[of False "[]" "Split p [slash]"] by (simp add: weight_Split)
  then show ?thesis
    using False \<open>p \<noteq> []\<close> length_Join_slash[of ?es] by (cases "?es = []") (auto simp: Clean_def Suc_le_eq)
qed

lemma clean_elems_snoc_empty: "clean_elems r stk (es @ [[]]) = clean_elems r stk es"
  by (induction r stk es rule: clean_elems.induct) (auto split: list.splits)

lemma Split_append_slash: "Split (q @ slash # r) [slash] = Split q [slash] @ Split r [slash]"
proof (induction "length q" arbitrary: q rule: less_induct)
  case less
  show ?case
  proof (cases "slash \<in> set q")
    case True
    then obtain a b where q: "q = a @ slash # b" "slash \<notin> set a" by (metis split_list_first)
    then show ?thesis using less[of b] Split_append_sep[of slash a b] Split_append_sep[of slash a "b @ slash # r"] by simp
  next
    case False
    then show ?thesis using Split_append_sep[of slash q r] Split_no_sep[of slash q] by simp
  qed
qed

lemma Split_snoc_slash: "Split (q @ [slash]) [slash] = Split q [slash] @ [[]]"
  using Split_append_slash[of q "[]"] Split_no_sep[of slash "[]"] by simp

lemma Clean_snoc_slash: "q \<noteq> [] \<Longrightarrow> Clean (q @ [slash]) = Clean q"
  by (cases q) (simp_all add: Clean_def IsAbs_def clean_elems_snoc_empty Split_snoc_slash[of "_ # _", simplified])

text \<open>The measure of the walk towards the root.\<close>

definition up_measure :: "string \<Rightarrow> nat" where
  "up_measure p = (if p = ''.'' then 0 else Suc (length p))"

lemma Dir_decreases: "Dir p \<noteq> p \<Longrightarrow> up_measure (Dir p) < up_measure p"
proof (cases "LastIndexByte p slash")
  case None
  assume "Dir p \<noteq> p"
  moreover have "Dir p = ''.''" unfolding Dir_def None option.case by (simp add: Clean_def IsAbs_def Split_no_sep)
  ultimately show ?thesis by (auto simp: up_measure_def)
next
  case (Some i)
  assume ne: "Dir p \<noteq> p"
  obtain a b where p: "p = a @ slash # b" and i: "i = length a"
    using LastIndexByte_Some[OF Some] by (metis id_take_nth_drop length_take min.absorb2 nat_less_le)
  have dir: "Dir p = Clean (a @ [slash])" unfolding Dir_def Some option.case by (simp add: p i)
  show ?thesis
  proof (cases "a = []")
    case True
    then have "Dir p = ''/''" using dir by (simp add: Clean_def IsAbs_def Split_append_sep[of slash "[]" "[]", simplified] Split_no_sep)
    then show ?thesis using ne p True by (cases b) (auto simp: up_measure_def)
  next
    case False
    then have "length (Dir p) < length p" using dir Clean_snoc_slash length_Clean[of a] p by simp
    moreover have "p \<noteq> ''.''" using p by (cases a) auto
    ultimately show ?thesis by (auto simp: up_measure_def)
  qed
qed


section \<open>Cleaned paths\<close>

lemma clean_elems_nonempty:
  "[] \<notin> set stk \<Longrightarrow> [] \<notin> set (clean_elems r stk es)"
proof (induction r stk es rule: clean_elems.induct)
  case (2 r stk e es)
  then show ?case
    by (cases "e = [] \<or> e = ''.''"; cases "e = ''..''"; cases stk; cases "hd stk = ''..''"; cases r) auto
qed simp

lemma Dir_nonempty [simp]: "Dir p \<noteq> []"
proof -
  have "Clean q \<noteq> []" for q
  proof (cases "clean_elems (IsAbs q) [] (Split q [slash])")
    case (Cons e es)
    then have "e \<noteq> []" using clean_elems_nonempty[of "[]" "IsAbs q" "Split q [slash]"] by auto
    then have "Join (e # es) [slash] \<noteq> []" by (cases es) simp_all
    then show ?thesis unfolding Clean_def Cons by (simp add: Let_def)
  qed (simp add: Clean_def)
  then show ?thesis by (simp add: Dir_def)
qed

lemma clean_rooted_plain:
  "list_all plain_elem stk \<Longrightarrow> list_all (\<lambda>e. slash \<notin> set e) es \<Longrightarrow>
     list_all plain_elem (clean_elems True stk es)"
proof (induction "True" stk es rule: clean_elems.induct)
  case (2 stk e es)
  have "hd stk \<noteq> ''..''" if "stk \<noteq> []" using 2(6) that by (cases stk) (auto simp: plain_elem_def)
  then show ?case using 2
    by (cases "e = [] \<or> e = ''.''"; cases "e = ''..''"; cases stk) (simp_all add: plain_elem_def)
qed simp

text \<open>A path as \<^verbatim>\<open>filepath.Abs\<close> returns it: the root followed by plain elements.\<close>

definition abs_path :: "string list \<Rightarrow> string" where
  "abs_path es = slash # Join es [slash]"

lemma Clean_abs: "IsAbs p \<Longrightarrow> \<exists>es. (\<forall>e \<in> set es. plain_elem e) \<and> Clean p = abs_path es"
  using clean_rooted_plain[of "[]" "Split p [slash]"] Split_pieces_free[of _ p slash]
  by (intro exI[of _ "clean_elems True [] (Split p [slash])"]) (auto simp: Clean_def abs_path_def list_all_iff)

lemma FsAbs_abs:
  assumes "FsAbs fs p = Some q" "\<forall>wd. fs_Getwd fs = Some wd \<longrightarrow> IsAbs wd"
  shows "\<exists>es. (\<forall>e \<in> set es. plain_elem e) \<and> q = abs_path es"
proof (cases "IsAbs p")
  case True
  then show ?thesis using assms Clean_abs by (auto simp: FsAbs_def)
next
  case False
  then obtain wd where wd: "fs_Getwd fs = Some wd" "q = JoinPath [wd, p]"
    using assms by (auto simp: FsAbs_def split: option.splits)
  then have "IsAbs wd" using assms(2) by simp
  then have "IsAbs (Join (filter (\<lambda>e. e \<noteq> []) [wd, p]) [slash])" "filter (\<lambda>e. e \<noteq> []) [wd, p] \<noteq> []"
    by (cases wd; simp add: IsAbs_def)+
  then show ?thesis using wd Clean_abs by (simp add: JoinPath_def)
qed

lemma path_elems_abs [simp]: "\<forall>e \<in> set es. plain_elem e \<Longrightarrow> path_elems (abs_path es) = es"
proof (cases "es = []")
  case False
  assume "\<forall>e \<in> set es. plain_elem e"
  then show ?thesis
    using False Split_append_sep[of slash "[]" "Join es [slash]"] Split_plain[of es]
    by (auto simp: path_elems_def abs_path_def plain_elem_def filter_id_conv)
qed (simp add: path_elems_def abs_path_def Split_append_sep[of slash "[]" "[]", simplified] Split_no_sep)

lemma length_abs_path: "es \<noteq> [] \<Longrightarrow> length (abs_path es) = weight es"
  using length_Join_slash by (simp add: abs_path_def)

section \<open>Searches towards the root\<close>

text \<open>
  Several components look for a file in a directory and then in each directory above
  it.  The loops differ in what they look for and in what they return; they share the
  law below, and with it the termination argument and the meaning of the answer.
\<close>

lemma funpow_fixed: "f x = x \<Longrightarrow> (f ^^ n) x = x"
  by (induction n) auto

locale upward_search =
  fixes probe :: "string \<Rightarrow> 'a option" and search :: "string \<Rightarrow> 'a option"
  assumes step: "search dir =
    (case probe dir of Some r \<Rightarrow> Some r | None \<Rightarrow> if Dir dir = dir then None else search (Dir dir))"
begin

lemma nearest:
  "(search dir = None \<and> (\<forall>n. probe ((Dir ^^ n) dir) = None)) \<or>
   (\<exists>n \<le> up_measure dir. search dir \<noteq> None \<and> search dir = probe ((Dir ^^ n) dir) \<and>
      (\<forall>m < n. probe ((Dir ^^ m) dir) = None))"
proof (induction "up_measure dir" arbitrary: dir rule: less_induct)
  case less
  consider r where "probe dir = Some r" | "probe dir = None" "Dir dir = dir" | "probe dir = None" "Dir dir \<noteq> dir" by fastforce
  then show ?case
  proof cases
    case 1
    then show ?thesis by (intro disjI2 exI[of _ 0]) (simp add: step[of dir])
  next
    case 2
    then show ?thesis using funpow_fixed[of Dir dir] by (simp add: step[of dir])
  next
    case 3
    have eq: "search dir = search (Dir dir)" using 3 by (simp add: step[of dir])
    have up: "(Dir ^^ n) (Dir dir) = (Dir ^^ Suc n) dir" for n by (simp add: funpow_swap1)
    have lt: "up_measure (Dir dir) < up_measure dir" by (rule Dir_decreases[OF 3(2)])
    have shift: "probe ((Dir ^^ m) dir) = None"
      if "\<forall>k. Suc k = m \<longrightarrow> probe ((Dir ^^ Suc k) dir) = None" for m
      using that 3(1) by (cases m) (simp_all del: funpow.simps(2))
    from less[OF lt] show ?thesis
    proof (elim disjE exE conjE)
      assume none: "search (Dir dir) = None" "\<forall>n. probe ((Dir ^^ n) (Dir dir)) = None"
      have "probe ((Dir ^^ m) dir) = None" for m using none(2) unfolding up by (intro shift) blast
      then show ?thesis using eq none(1) by simp
    next
      fix n assume n: "n \<le> up_measure (Dir dir)" "search (Dir dir) \<noteq> None"
        "search (Dir dir) = probe ((Dir ^^ n) (Dir dir))" "\<forall>m < n. probe ((Dir ^^ m) (Dir dir)) = None"
      have "probe ((Dir ^^ m) dir) = None" if "m < Suc n" for m
        using n(4) that unfolding up by (intro shift) auto
      then show ?thesis
        using n(1-3) lt unfolding up eq by (intro disjI2 exI[of _ "Suc n"] conjI) (simp_all del: funpow.simps)
    qed
  qed
qed

lemma finds_none: "search dir = None \<longleftrightarrow> (\<forall>n. probe ((Dir ^^ n) dir) = None)"
  using nearest[of dir] by metis

lemma finds_first:
  assumes "\<forall>m < n. probe ((Dir ^^ m) dir) = None" "probe ((Dir ^^ n) dir) = Some r"
  shows "search dir = Some r"
proof -
  obtain k where k: "search dir \<noteq> None" "search dir = probe ((Dir ^^ k) dir)" "\<forall>m < k. probe ((Dir ^^ m) dir) = None"
    using nearest[of dir] assms(2) by (metis option.distinct(1))
  have "k = n" using assms k(1-3) by (metis linorder_neqE_nat option.distinct(1))
  then show ?thesis using k(2) assms(2) by simp
qed

lemma found_bound:
  assumes "search dir = Some r"
  obtains n where "n \<le> Suc (length dir)" "probe ((Dir ^^ n) dir) = Some r" "\<forall>m < n. probe ((Dir ^^ m) dir) = None"
proof -
  have "up_measure dir \<le> Suc (length dir)" by (simp add: up_measure_def)
  then show ?thesis using nearest[of dir] assms that by (metis order_trans option.distinct(1))
qed

end

section \<open>The repository root\<close>

definition has_git :: "FsEnv \<Rightarrow> string \<Rightarrow> bool" where
  "has_git fs cur =
     (case fs_Stat fs (JoinPath [cur, ''.git'']) of
        Some m \<Rightarrow> m = ModeDir \<or> m = ModeRegular
      | None \<Rightarrow> False)"

function walk_up :: "FsEnv \<Rightarrow> string \<Rightarrow> string option" where
  "walk_up fs cur =
     (if has_git fs cur then Some cur
      else if Dir cur = cur then None
      else walk_up fs (Dir cur))"
  by pat_completeness auto
termination
  by (relation "measure (\<lambda>(fs, cur). up_measure cur)") (auto intro: Dir_decreases)

declare walk_up.simps [simp del]

definition findRepoRoot :: "FsEnv \<Rightarrow> string \<Rightarrow> string" where
  "findRepoRoot fs dir =
     (if dir = [] then [] else case walk_up fs dir of Some r \<Rightarrow> r | None \<Rightarrow> [])"

interpretation git_root: upward_search "\<lambda>d. if has_git fs d then Some d else None" "walk_up fs" for fs
  by unfold_locales (subst walk_up.simps, simp)

text \<open>
  the walk towards the repository root ends, after at most one step more
  than the path has characters, at the nearest directory on the way up that
  holds a \<^verbatim>\<open>.git\<close> entry; it answers the empty string exactly when no directory
  on the way up holds one.
\<close>

theorem findRepoRoot_nearest:
  assumes "dir \<noteq> []"
  shows "(findRepoRoot fs dir = [] \<longleftrightarrow> (\<forall>n. \<not> has_git fs ((Dir ^^ n) dir))) \<and>
    (findRepoRoot fs dir \<noteq> [] \<longrightarrow>
      (\<exists>n \<le> Suc (length dir). findRepoRoot fs dir = (Dir ^^ n) dir \<and> has_git fs ((Dir ^^ n) dir) \<and>
         (\<forall>m < n. \<not> has_git fs ((Dir ^^ m) dir))))"
proof (cases "walk_up fs dir")
  case None
  then show ?thesis using assms git_root.finds_none[of fs dir] by (auto simp: findRepoRoot_def split: if_splits)
next
  case (Some r)
  obtain n where n: "n \<le> Suc (length dir)" "(if has_git fs ((Dir ^^ n) dir) then Some ((Dir ^^ n) dir) else None) = Some r"
    "\<forall>m < n. (if has_git fs ((Dir ^^ m) dir) then Some ((Dir ^^ m) dir) else None) = None"
    using git_root.found_bound[OF Some] by metis
  have "(Dir ^^ n) dir \<noteq> []" using assms by (cases n) simp_all
  then show ?thesis using n Some assms by (auto simp: findRepoRoot_def split: if_splits)
qed

theorem findRepoRoot_nearest_witness:
  "findRepoRoot \<lparr>fs_Getwd = None, fs_Stat = (\<lambda>p. if p = ''/src/.git'' then Some ModeDir else None)\<rparr> ''/src/app'' = ''/src''"
proof -
  let ?fs = "\<lparr>fs_Getwd = None, fs_Stat = (\<lambda>p. if p = ''/src/.git'' then Some ModeDir else None)\<rparr>"
  have dir: "Dir ''/src/app'' = ''/src''" by code_simp
  have no: "\<not> has_git ?fs ''/src/app''" and yes: "has_git ?fs ''/src''" by code_simp+
  then have "has_git ?fs ((Dir ^^ 1) ''/src/app'')" by (simp add: dir)
  then obtain n where n: "findRepoRoot ?fs ''/src/app'' = (Dir ^^ n) ''/src/app''"
      "has_git ?fs ((Dir ^^ n) ''/src/app'')" "\<forall>m < n. \<not> has_git ?fs ((Dir ^^ m) ''/src/app'')"
    using findRepoRoot_nearest[of "''/src/app''" ?fs] by blast
  have "n = 1"
  proof (rule ccontr)
    assume "n \<noteq> 1"
    then consider "n = 0" | "1 < n" by linarith
    then show False using n(2,3) no yes dir by cases auto
  qed
  then show ?thesis using n(1) dir by simp
qed

section \<open>Owner prefixes\<close>

record ownerPrefix =
  op_dir :: string
  op_appName :: string

definition abs_prefix :: "FsEnv \<Rightarrow> string \<Rightarrow> string \<Rightarrow> ownerPrefix list" where
  "abs_prefix fs name p =
     (case FsAbs fs p of Some a \<Rightarrow> [\<lparr>op_dir = a, op_appName = name\<rparr>] | None \<Rightarrow> [])"

definition source_prefixes :: "FsEnv \<Rightarrow> string \<Rightarrow> string \<Rightarrow> string \<Rightarrow> ArgoSource \<Rightarrow> ownerPrefix list" where
  "source_prefixes fs name appDir repoRoot src =
     (if src_Renderer src \<noteq> RendererDirectory then []
      else if src_Path src = [] then []
      else (if repoRoot \<noteq> [] then abs_prefix fs name (JoinPath [repoRoot, src_Path src]) else [])
           @ abs_prefix fs name (JoinPath [appDir, src_Path src]))"

definition app_prefixes :: "FsEnv \<Rightarrow> ArgoApplication \<Rightarrow> ownerPrefix list" where
  "app_prefixes fs app =
     (let appDir = Dir (sl_File (app_Source app));
          absAppDir = (case FsAbs fs appDir of Some a \<Rightarrow> a | None \<Rightarrow> []);
          repoRoot = findRepoRoot fs absAppDir
      in abs_prefix fs (app_Name app) appDir
         @ concat (map (source_prefixes fs (app_Name app) appDir repoRoot) (app_Sources app)))"

definition buildOwnerPrefixes :: "FsEnv \<Rightarrow> World \<Rightarrow> ownerPrefix list" where
  "buildOwnerPrefixes fs w = concat (map (app_prefixes fs) (w_ArgoApps w))"

definition pathUnder :: "string \<Rightarrow> string \<Rightarrow> bool" where
  "pathUnder file dir =
     (if file = dir then True
      else if \<not> HasPrefix file dir then False
      else file ! length dir = slash)"

definition owner_step :: "string \<Rightarrow> string \<times> int \<Rightarrow> ownerPrefix \<Rightarrow> string \<times> int" where
  "owner_step a acc p =
     (if \<not> pathUnder a (op_dir p) then acc
      else if int (length (op_dir p)) > snd acc then (op_appName p, int (length (op_dir p)))
      else acc)"

definition resolveOwner :: "FsEnv \<Rightarrow> string \<Rightarrow> ownerPrefix list \<Rightarrow> string" where
  "resolveOwner fs file ps =
     (case FsAbs fs file of
        None \<Rightarrow> []
      | Some a \<Rightarrow> fst (foldl (owner_step a) ([], -1) ps))"

definition assign_owner ::
  "FsEnv \<Rightarrow> ownerPrefix list \<Rightarrow> ('a \<Rightarrow> string) \<Rightarrow> ('a \<Rightarrow> SourceLocation) \<Rightarrow> (string \<Rightarrow> 'a \<Rightarrow> 'a) \<Rightarrow> 'a \<Rightarrow> 'a" where
  "assign_owner fs ps owner_of source_of set_owner x =
     (if owner_of x \<noteq> [] then x
      else let owner = resolveOwner fs (sl_File (source_of x)) ps
           in if owner \<noteq> [] then set_owner owner x else x)"

definition enrichOwningApp :: "FsEnv \<Rightarrow> World \<Rightarrow> World" where
  "enrichOwningApp fs w =
     (if w_ArgoApps w = [] then w
      else let ps = buildOwnerPrefixes fs w
           in if ps = [] then w
              else w\<lparr>w_Resources := map (assign_owner fs ps ri_OwningApp ri_Source (\<lambda>n. ri_OwningApp_update (\<lambda>_. n))) (w_Resources w),
                     w_CRDs := map (assign_owner fs ps crd_OwningApp crd_Source (\<lambda>n. crd_OwningApp_update (\<lambda>_. n))) (w_CRDs w),
                     w_XRDs := map (assign_owner fs ps crd_OwningApp crd_Source (\<lambda>n. crd_OwningApp_update (\<lambda>_. n))) (w_XRDs w),
                     w_Compositions := map (assign_owner fs ps comp_OwningApp comp_Source (\<lambda>n. comp_OwningApp_update (\<lambda>_. n))) (w_Compositions w),
                     w_Functions := map (assign_owner fs ps fn_OwningApp fn_Source (\<lambda>n. fn_OwningApp_update (\<lambda>_. n))) (w_Functions w),
                     w_Providers := map (assign_owner fs ps prov_OwningApp prov_Source (\<lambda>n. prov_OwningApp_update (\<lambda>_. n))) (w_Providers w)\<rparr>)"

section \<open>Containment is by whole path elements\<close>

text \<open>The specification of containment on path elements.\<close>

definition contains_path :: "string \<Rightarrow> string \<Rightarrow> bool" where
  "contains_path dir file =
     (if path_elems dir = [] then path_elems file = [] else prefix (path_elems dir) (path_elems file))"

lemma Join_append: "xs \<noteq> [] \<Longrightarrow> ys \<noteq> [] \<Longrightarrow> Join (xs @ ys) sep = Join xs sep @ sep @ Join ys sep"
  by (induction xs rule: induct_list012) (simp_all add: Join_Cons)

lemma abs_path_inj:
  "\<forall>e \<in> set es. plain_elem e \<Longrightarrow> \<forall>e \<in> set ds. plain_elem e \<Longrightarrow> abs_path es = abs_path ds \<Longrightarrow> es = ds"
  using path_elems_abs by metis

lemma pathUnder_contains:
  assumes es: "\<forall>e \<in> set es. plain_elem e" and ds: "\<forall>e \<in> set ds. plain_elem e"
  shows "pathUnder (abs_path es) (abs_path ds) \<longleftrightarrow> contains_path (abs_path ds) (abs_path es)"
proof (cases "es = ds")
  case False
  then have ne: "abs_path es \<noteq> abs_path ds" using abs_path_inj[OF es ds] by blast
  then have iff: "pathUnder (abs_path es) (abs_path ds) \<longleftrightarrow> (\<exists>r. Join es [slash] = Join ds [slash] @ slash # r)"
    by (auto simp: pathUnder_def HasPrefix_iff abs_path_def nth_append Cons_eq_append_conv neq_Nil_conv)
  show ?thesis
  proof (cases "ds = []")
    case True
    have "\<not> IsAbs (Join es [slash])" using Join_plain_IsAbs[of es] es by (cases "es = []") (simp_all add: IsAbs_def)
    then show ?thesis using iff True False es by (auto simp: contains_path_def IsAbs_def abs_path_def[symmetric])
  next
    case d: False
    have "(\<exists>r. Join es [slash] = Join ds [slash] @ slash # r) \<longleftrightarrow> prefix ds es"
    proof
      assume "\<exists>r. Join es [slash] = Join ds [slash] @ slash # r"
      then obtain r where r: "Join es [slash] = Join ds [slash] @ slash # r" ..
      then have "es \<noteq> []" by auto
      then have "es = ds @ Split r [slash]"
        using Split_plain[of es] Split_plain[of ds] es ds d Split_append_slash[of "Join ds [slash]" r] r by simp
      then show "prefix ds es" by simp
    next
      assume "prefix ds es"
      then obtain r where "es = ds @ r" "r \<noteq> []" using False by (auto simp: prefix_def)
      then show "\<exists>r. Join es [slash] = Join ds [slash] @ slash # r" using Join_append[of ds r "[slash]"] d by auto
    qed
    then show ?thesis using iff es ds d by (simp add: contains_path_def)
  qed
qed (simp add: pathUnder_def contains_path_def)

section \<open>The deepest prefix wins\<close>

definition first_max :: "('a \<Rightarrow> nat) \<Rightarrow> 'a list \<Rightarrow> 'a" where
  "first_max key xs = hd (filter (\<lambda>x. \<forall>y \<in> set xs. key y \<le> key x) xs)"

lemma first_max_in:
  assumes "xs \<noteq> []"
  shows "first_max key xs \<in> set xs \<and> (\<forall>y \<in> set xs. key y \<le> key (first_max key xs))"
proof -
  have "Max (key ` set xs) \<in> key ` set xs" using assms by (intro Max_in) auto
  then obtain x where x: "x \<in> set xs" "key x = Max (key ` set xs)" by auto
  have "\<forall>y \<in> set xs. key y \<le> key x" unfolding x(2) by simp
  then have "filter (\<lambda>x. \<forall>y \<in> set xs. key y \<le> key x) xs \<noteq> []" using x(1) by (auto simp: filter_empty_conv)
  from hd_in_set[OF this] show ?thesis by (simp add: first_max_def)
qed

lemma first_max_snoc:
  assumes "xs \<noteq> []"
  shows "first_max key (xs @ [y]) = (if key (first_max key xs) < key y then y else first_max key xs)"
proof (cases "key (first_max key xs) < key y")
  case True
  then have "\<forall>x \<in> set xs. key x < key y" using first_max_in[OF assms, of key] by fastforce
  then have "filter (\<lambda>x. \<forall>z \<in> set (xs @ [y]). key z \<le> key x) (xs @ [y]) = [y]"
    by (auto simp: filter_empty_conv less_imp_le)
  then show ?thesis using True by (simp add: first_max_def)
next
  case False
  have "filter (\<lambda>x. \<forall>z \<in> set (xs @ [y]). key z \<le> key x) xs = filter (\<lambda>x. \<forall>z \<in> set xs. key z \<le> key x) xs"
    using False first_max_in[OF assms, of key] by (intro filter_cong) (auto dest: order_trans)
  moreover have "filter (\<lambda>x. \<forall>z \<in> set xs. key z \<le> key x) xs \<noteq> []"
    using first_max_in[OF assms, of key] by (auto simp: filter_empty_conv)
  ultimately show ?thesis using False by (simp add: first_max_def)
qed

lemma first_max_cong:
  "(\<And>x y. x \<in> set xs \<Longrightarrow> y \<in> set xs \<Longrightarrow> key y \<le> key x \<longleftrightarrow> key' y \<le> key' x) \<Longrightarrow> first_max key xs = first_max key' xs"
  unfolding first_max_def by (intro arg_cong[of _ _ hd] filter_cong) auto

lemma owner_fold:
  "foldl (owner_step a) ([], -1) ps =
     (let qs = filter (\<lambda>p. pathUnder a (op_dir p)) ps
      in if qs = [] then ([], -1)
         else (op_appName (first_max (length \<circ> op_dir) qs), int (length (op_dir (first_max (length \<circ> op_dir) qs)))))"
proof (induction ps rule: rev_induct)
  case (snoc p ps)
  show ?case
  proof (cases "filter (\<lambda>p. pathUnder a (op_dir p)) ps = []")
    case True
    then show ?thesis using snoc by (simp add: owner_step_def first_max_def)
  next
    case False
    then show ?thesis using snoc first_max_snoc[OF False, of "length \<circ> op_dir" p]
      by (simp add: owner_step_def Let_def)
  qed
qed simp

lemma prefix_weight: "prefix ds es \<Longrightarrow> weight ds \<le> weight es"
  by (auto simp: prefix_def)

lemma contained_length:
  assumes plain: "\<forall>e \<in> set ds. plain_elem e" "\<forall>e \<in> set ds'. plain_elem e" "\<forall>e \<in> set es. plain_elem e"
    and under: "contains_path (abs_path ds) (abs_path es)" "contains_path (abs_path ds') (abs_path es)"
  shows "length (abs_path ds) \<le> length (abs_path ds') \<longleftrightarrow> length ds \<le> length ds'"
proof (cases "es = []")
  case True
  then show ?thesis using assms by (auto simp: contains_path_def split: if_splits)
next
  case False
  then have p: "ds \<noteq> []" "ds' \<noteq> []" "prefix ds es" "prefix ds' es"
    using assms by (auto simp: contains_path_def split: if_splits)
  have strict: "length xs < length ys \<Longrightarrow> weight xs < weight ys" if "prefix xs ys" for xs ys :: "string list"
    using that by (auto simp: prefix_def neq_Nil_conv)
  from p(3,4) consider "prefix ds ds'" | "prefix ds' ds" using prefix_same_cases by blast
  then have "weight ds \<le> weight ds' \<longleftrightarrow> length ds \<le> length ds'"
  proof cases
    case 1
    then show ?thesis using prefix_weight[of ds ds'] prefix_length_le[of ds ds'] by simp
  next
    case 2
    then show ?thesis using strict[of ds' ds] prefix_weight[of ds' ds] prefix_length_le[of ds' ds]
      by (cases "length ds' < length ds") (auto simp: prefix_def)
  qed
  then show ?thesis using p(1,2) length_abs_path by simp
qed

lemma abs_prefixD: "p \<in> set (abs_prefix fs name q) \<Longrightarrow> FsAbs fs q = Some (op_dir p)"
  by (auto simp: abs_prefix_def split: option.splits)

lemma prefixes_abs:
  assumes "\<forall>wd. fs_Getwd fs = Some wd \<longrightarrow> IsAbs wd" "p \<in> set (buildOwnerPrefixes fs w)"
  shows "\<exists>ds. (\<forall>e \<in> set ds. plain_elem e) \<and> op_dir p = abs_path ds"
proof -
  have "\<exists>q. FsAbs fs q = Some (op_dir p)"
    using assms(2)
    by (auto simp: buildOwnerPrefixes_def app_prefixes_def source_prefixes_def Let_def
        dest!: abs_prefixD split: if_splits)
  then show ?thesis using FsAbs_abs assms(1) by blast
qed

text \<open>The reference: the first of the prefixes with the most path elements that contain the file.\<close>

definition deepest_owner :: "ownerPrefix list \<Rightarrow> string \<Rightarrow> string" where
  "deepest_owner ps file =
     (let qs = filter (\<lambda>p. contains_path (op_dir p) file) ps
      in if qs = [] then [] else op_appName (first_max (length \<circ> path_elems \<circ> op_dir) qs))"

text \<open>
  A file is owned by the Application with the deepest directory that
  contains it, element by element; among equally deep ones the first
  registered wins, and a file no directory contains has no owner.  The root
  directory contains only itself.
\<close>

theorem resolveOwner_deepest:
  assumes "\<forall>wd. fs_Getwd fs = Some wd \<longrightarrow> IsAbs wd" "FsAbs fs file = Some f"
  shows "resolveOwner fs file (buildOwnerPrefixes fs w) = deepest_owner (buildOwnerPrefixes fs w) f"
proof -
  let ?ps = "buildOwnerPrefixes fs w"
  obtain es where es: "\<forall>e \<in> set es. plain_elem e" "f = abs_path es" using FsAbs_abs[OF assms(2,1)] by blast
  have under: "pathUnder f (op_dir p) \<longleftrightarrow> contains_path (op_dir p) f" if "p \<in> set ?ps" for p
    using prefixes_abs[OF assms(1) that] pathUnder_contains es by auto
  then have qs: "filter (\<lambda>p. pathUnder f (op_dir p)) ?ps = filter (\<lambda>p. contains_path (op_dir p) f) ?ps"
    by (intro filter_cong) auto
  have "(length \<circ> op_dir) q \<le> (length \<circ> op_dir) p \<longleftrightarrow>
      (length \<circ> path_elems \<circ> op_dir) q \<le> (length \<circ> path_elems \<circ> op_dir) p"
    if "p \<in> set (filter (\<lambda>p. contains_path (op_dir p) f) ?ps)" "q \<in> set (filter (\<lambda>p. contains_path (op_dir p) f) ?ps)" for p q
  proof -
    have "p \<in> set ?ps" "q \<in> set ?ps" using that by auto
    from prefixes_abs[OF assms(1) this(1)] prefixes_abs[OF assms(1) this(2)]
    obtain ds ds' where ds: "\<forall>e \<in> set ds. plain_elem e" "op_dir p = abs_path ds"
      "\<forall>e \<in> set ds'. plain_elem e" "op_dir q = abs_path ds'" by blast
    then show ?thesis using that contained_length[of ds' ds es] es by simp
  qed
  then have "first_max (length \<circ> op_dir) (filter (\<lambda>p. contains_path (op_dir p) f) ?ps) =
      first_max (length \<circ> path_elems \<circ> op_dir) (filter (\<lambda>p. contains_path (op_dir p) f) ?ps)"
    by (rule first_max_cong)
  then show ?thesis by (simp add: resolveOwner_def assms(2) owner_fold qs deepest_owner_def Let_def)
qed

definition ex_fs :: FsEnv where
  "ex_fs = \<lparr>fs_Getwd = Some ''/w'', fs_Stat = (\<lambda>p. None)\<rparr>"

definition ex_owner_app :: "string \<Rightarrow> string \<Rightarrow> ArgoApplication" where
  "ex_owner_app name file = zero_ArgoApplication\<lparr>app_Name := name, app_Source := zero_SourceLocation\<lparr>sl_File := file\<rparr>\<rparr>"

definition ex_owner_world :: World where
  "ex_owner_world = NewWorld\<lparr>w_ArgoApps := [ex_owner_app ''outer'' ''a/app.yaml'', ex_owner_app ''inner'' ''a/b/app.yaml'']\<rparr>"

theorem resolveOwner_deepest_witness:
  "resolveOwner ex_fs ''a/b/c/x.yaml'' (buildOwnerPrefixes ex_fs ex_owner_world) = ''inner'' \<and>
   resolveOwner ex_fs ''a/bar.yaml'' (buildOwnerPrefixes ex_fs ex_owner_world) = ''outer''"
proof -
  have cwd: "\<forall>wd. fs_Getwd ex_fs = Some wd \<longrightarrow> IsAbs wd" by (simp add: ex_fs_def IsAbs_def)
  have file1: "FsAbs ex_fs ''a/b/c/x.yaml'' = Some ''/w/a/b/c/x.yaml''" by code_simp
  have file2: "FsAbs ex_fs ''a/bar.yaml'' = Some ''/w/a/bar.yaml''" by code_simp
  have "deepest_owner (buildOwnerPrefixes ex_fs ex_owner_world) ''/w/a/b/c/x.yaml'' = ''inner''"
    "deepest_owner (buildOwnerPrefixes ex_fs ex_owner_world) ''/w/a/bar.yaml'' = ''outer''"
    by code_simp+
  then show ?thesis
    unfolding resolveOwner_deepest[OF cwd file1] resolveOwner_deepest[OF cwd file2] by (rule conjI)
qed

section \<open>Enrichment only fills in missing owners\<close>

lemma assign_owner_idem:
  assumes "\<And>n x. owner_of (set_owner n x) = n"
  shows "assign_owner fs ps owner_of source_of set_owner (assign_owner fs ps owner_of source_of set_owner x) =
    assign_owner fs ps owner_of source_of set_owner x"
  using assms by (simp add: assign_owner_def Let_def)

lemma enrichOwningApp_idem: "enrichOwningApp fs (enrichOwningApp fs w) = enrichOwningApp fs w"
proof (cases "w_ArgoApps w = [] \<or> buildOwnerPrefixes fs w = []")
  case False
  have same: "buildOwnerPrefixes fs (enrichOwningApp fs w) = buildOwnerPrefixes fs w"
    "w_ArgoApps (enrichOwningApp fs w) = w_ArgoApps w"
    by (simp_all add: buildOwnerPrefixes_def enrichOwningApp_def Let_def)
  show ?thesis using False same
    by (simp add: enrichOwningApp_def[of fs "enrichOwningApp fs w"])
      (simp add: enrichOwningApp_def Let_def assign_owner_idem comp_def)
qed (auto simp: enrichOwningApp_def)

end
