(* ===== verification/PathWalk.thy ===== *)
theory PathWalk
  imports IrBase
begin

text \<open>
  \<^verbatim>\<open>pkg/ir/path_walk.go\<close>: the parser for field paths such as
  \<^verbatim>\<open>spec.xs[*].k\<close>, the walk that expands wildcards into concrete paths, and the
  dotted single-result lookup.  The struct \<^verbatim>\<open>pathSegment\<close>, of which exactly one
  alternative is populated, is a datatype; \<open>errInvalidPath\<close> is \<^const>\<open>None\<close>.
\<close>

section \<open>Model\<close>

datatype pathSegment = SegKey string | SegIndex nat | SegWild

record PathHit =
  hit_Path :: string
  hit_Value :: json

text \<open>One bracket expression: empty or a star is the wildcard, else a non-negative index.\<close>

definition parseInside :: "string \<Rightarrow> pathSegment option" where
  "parseInside inside =
     (if inside = [] \<or> inside = ''*'' then Some SegWild
      else (case Atoi inside of
              None \<Rightarrow> None
            | Some n \<Rightarrow> if n < 0 then None else Some (SegIndex (nat n))))"

function parseBrackets :: "string \<Rightarrow> pathSegment list option" where
  "parseBrackets rest =
     (if rest = [] then Some []
      else if \<not> HasPrefix rest ''['' then None
      else (case Index rest '']'' of
              None \<Rightarrow> None
            | Some e \<Rightarrow>
                (case parseInside (take (e - 1) (drop 1 rest)) of
                   None \<Rightarrow> None
                 | Some seg \<Rightarrow> map_option (\<lambda>segs. seg # segs) (parseBrackets (drop (e + 1) rest)))))"
  by pat_completeness auto
termination
  by (relation "measure length") (auto simp: neq_Nil_conv)

declare parseBrackets.simps [simp del]

definition parsePart :: "string \<Rightarrow> pathSegment list option" where
  "parsePart p =
     (if p = [] then None
      else (case Index p ''['' of
              None \<Rightarrow> Some [SegKey p]
            | Some i \<Rightarrow>
                map_option (\<lambda>segs. (if i > 0 then [SegKey (take i p)] else []) @ segs)
                  (parseBrackets (drop i p))))"

fun parseParts :: "string list \<Rightarrow> pathSegment list option" where
  "parseParts [] = Some []"
| "parseParts (p # ps) =
     (case parsePart p of
        None \<Rightarrow> None
      | Some segs \<Rightarrow> map_option (\<lambda>rest. segs @ rest) (parseParts ps))"

definition parsePath :: "string \<Rightarrow> pathSegment list option" where
  "parsePath path = parseParts (Split path ''.'')"

definition index_suffix :: "nat \<Rightarrow> string" where
  "index_suffix i = ''['' @ Itoa (int i) @ '']''"

definition key_suffix :: "string \<Rightarrow> string \<Rightarrow> string" where
  "key_suffix concretePath key = (if concretePath = [] then key else concretePath @ ''.'' @ key)"

fun walkSegments :: "pathSegment list \<Rightarrow> string \<Rightarrow> json \<Rightarrow> PathHit list" where
  "walkSegments [] concretePath val =
     (if val = JNull then [] else [\<lparr>hit_Path = concretePath, hit_Value = val\<rparr>])"
| "walkSegments (SegWild # segs) concretePath val =
     (case as_arr val of
        None \<Rightarrow> []
      | Some arr \<Rightarrow>
          concat (map (\<lambda>(i, el). walkSegments segs (concretePath @ index_suffix i) el)
                      (List.enumerate 0 arr)))"
| "walkSegments (SegIndex n # segs) concretePath val =
     (case as_arr val of
        None \<Rightarrow> []
      | Some arr \<Rightarrow>
          if n \<ge> length arr then []
          else walkSegments segs (concretePath @ index_suffix n) (arr ! n))"
| "walkSegments (SegKey k # segs) concretePath val =
     (case as_obj val of
        None \<Rightarrow> []
      | Some m \<Rightarrow>
          (case map_of m k of
             None \<Rightarrow> []
           | Some next \<Rightarrow> walkSegments segs (key_suffix concretePath k) next))"

text \<open>A nil map resolves no path, like the empty one.\<close>

definition WalkPath :: "obj \<Rightarrow> string \<Rightarrow> PathHit list" where
  "WalkPath raw path =
     (if path = [] then []
      else (case parsePath path of None \<Rightarrow> [] | Some segs \<Rightarrow> walkSegments segs [] (JObj raw)))"

fun readSegs :: "string list \<Rightarrow> json \<Rightarrow> json option" where
  "readSegs [] cur = None"
| "readSegs (seg # segs) cur =
     (if seg = [] then None
      else (case as_obj cur of
              None \<Rightarrow> None
            | Some m \<Rightarrow>
                (case map_of m seg of
                   None \<Rightarrow> None
                 | Some next \<Rightarrow> if segs = [] then Some next else readSegs segs next)))"

definition ReadPath :: "obj \<Rightarrow> string \<Rightarrow> json option" where
  "ReadPath raw dottedPath =
     (if dottedPath = [] then None else readSegs (Split dottedPath ''.'') (JObj raw))"

section \<open>Concrete segment lists\<close>

text \<open>
  The same walk, returning the concrete segments instead of their rendering;
  \<open>render\<close> prints a segment list the way the walk builds its path.
\<close>

fun walkConcrete :: "pathSegment list \<Rightarrow> json \<Rightarrow> (pathSegment list \<times> json) list" where
  "walkConcrete [] val = (if val = JNull then [] else [([], val)])"
| "walkConcrete (SegWild # segs) val =
     (case as_arr val of
        None \<Rightarrow> []
      | Some arr \<Rightarrow>
          concat (map (\<lambda>(i, el). map (\<lambda>(cs, v). (SegIndex i # cs, v)) (walkConcrete segs el))
                      (List.enumerate 0 arr)))"
| "walkConcrete (SegIndex n # segs) val =
     (case as_arr val of
        None \<Rightarrow> []
      | Some arr \<Rightarrow>
          if n \<ge> length arr then []
          else map (\<lambda>(cs, v). (SegIndex n # cs, v)) (walkConcrete segs (arr ! n)))"
| "walkConcrete (SegKey k # segs) val =
     (case as_obj val of
        None \<Rightarrow> []
      | Some m \<Rightarrow>
          (case map_of m k of
             None \<Rightarrow> []
           | Some next \<Rightarrow> map (\<lambda>(cs, v). (SegKey k # cs, v)) (walkConcrete segs next)))"

fun render :: "string \<Rightarrow> pathSegment list \<Rightarrow> string" where
  "render acc [] = acc"
| "render acc (SegKey k # segs) = render (key_suffix acc k) segs"
| "render acc (SegIndex n # segs) = render (acc @ index_suffix n) segs"
| "render acc (SegWild # segs) = render (acc @ ''[*]'') segs"

lemma walkSegments_concrete:
  "walkSegments segs acc val =
     map (\<lambda>(cs, v). \<lparr>hit_Path = render acc cs, hit_Value = v\<rparr>) (walkConcrete segs val)"
proof (induction segs acc val rule: walkSegments.induct)
  case (2 segs acc val)
  show ?case
  proof (cases "as_arr val")
    case (Some arr)
    then show ?thesis
      using 2 by (auto simp: map_concat comp_def split_beta intro!: arg_cong[where f = concat])
  qed simp
qed (auto split: option.splits simp: comp_def split_beta)

text \<open>A concrete segment list resolved by itself gives exactly its own hit.\<close>

lemma walkConcrete_self:
  "(cs, v) \<in> set (walkConcrete segs val) \<Longrightarrow> walkConcrete cs val = [(cs, v)]"
proof (induction segs arbitrary: cs val)
  case (Cons s segs)
  show ?case
  proof (cases s)
    case (SegKey k)
    then show ?thesis
      using Cons by (cases val; cases "map_of (THE m. val = JObj m) k") auto
  qed (use Cons in \<open>cases val; auto split: if_splits simp: in_set_enumerate_eq\<close>)+
qed (auto split: if_splits)

lemma walkConcrete_distinct: "distinct (map fst (walkConcrete segs val))"
proof (induction segs arbitrary: val)
  case (Cons s segs)
  have inj: "distinct (map fst (map (\<lambda>(cs, v). (x # cs, v)) (walkConcrete segs v')))" for x v'
    using Cons[of v'] by (simp add: comp_def split_beta distinct_map inj_on_def)
  show ?case
  proof (cases s)
    case (SegKey k)
    then show ?thesis using inj by (auto split: option.splits)
  next
    case (SegIndex n)
    then show ?thesis using inj by (auto split: option.splits)
  next
    case SegWild
    have en: "distinct (map fst (concat (map (\<lambda>(i, el).
            map (\<lambda>(cs, v). (SegIndex i # cs, v)) (walkConcrete segs el)) (List.enumerate n arr))))" for n arr
    proof (induction arr arbitrary: n)
      case (Cons a arr)
      then show ?case using inj[of "SegIndex n" a]
        by (auto simp: in_set_enumerate_eq)
    qed simp
    show ?thesis using SegWild en[of 0] by (auto split: option.splits)
  qed
qed simp

section \<open>Rendering is undone by the parser\<close>

text \<open>Segments the walk emits: no wildcards, parseable indices, clean keys.\<close>

fun good_seg :: "pathSegment \<Rightarrow> bool" where
  "good_seg (SegKey k) = (k \<noteq> [] \<and> CHR ''.'' \<notin> set k \<and> CHR ''['' \<notin> set k)"
| "good_seg (SegIndex n) = (int n < 2 ^ 63)"
| "good_seg SegWild = False"

lemma Index_append_fresh: "c \<notin> set a \<Longrightarrow> Index (a @ c # b) [c] = Some (length a)"
  by (induction a) (auto simp: HasPrefix_def)

lemma Index_fresh_None: "c \<notin> set a \<Longrightarrow> Index a [c] = None"
  using Contains_singleton[of a c] by (simp add: Contains_def)

lemma Itoa_chars:
  "CHR '']'' \<notin> set (Itoa i)" "CHR ''['' \<notin> set (Itoa i)" "CHR ''.'' \<notin> set (Itoa i)" "Itoa i \<noteq> []"
  "Itoa i \<noteq> ''*''"
proof -
  have d: "\<not> is_digit (CHR '']'')" "\<not> is_digit (CHR ''['')" "\<not> is_digit (CHR ''.'')"
    "\<not> is_digit (CHR ''*'')"
    by (auto simp: is_digit_def)
  have "CHR ''*'' \<notin> set (Itoa i)" using Itoa_digits d by fastforce
  then show "Itoa i \<noteq> ''*''" by auto
  show "CHR '']'' \<notin> set (Itoa i)" "CHR ''['' \<notin> set (Itoa i)" "CHR ''.'' \<notin> set (Itoa i)"
    using Itoa_digits d by fastforce+
  show "Itoa i \<noteq> []" using nat_digits_props by (auto simp: Itoa_def)
qed

lemma parseInside_Itoa: "int n < 2 ^ 63 \<Longrightarrow> parseInside (Itoa (int n)) = Some (SegIndex n)"
  using Itoa_chars(4,5)[of "int n"] Atoi_Itoa[of "int n"] by (simp add: parseInside_def)

lemma parseBrackets_index:
  assumes "int n < 2 ^ 63"
  shows "parseBrackets (index_suffix n @ rest) = map_option (\<lambda>s. SegIndex n # s) (parseBrackets rest)"
proof -
  have i: "Index (index_suffix n @ rest) '']'' = Some (Suc (length (Itoa (int n))))"
    using Index_append_fresh[of "CHR '']''" "CHR ''['' # Itoa (int n)" rest] Itoa_chars(1)
    by (simp add: index_suffix_def)
  have "take (length (Itoa (int n))) (drop 1 (index_suffix n @ rest)) = Itoa (int n)"
    "drop (Suc (length (Itoa (int n))) + 1) (index_suffix n @ rest) = rest"
    "HasPrefix (index_suffix n @ rest) ''[''"
    by (auto simp: index_suffix_def HasPrefix_def)
  then show ?thesis
    using i parseInside_Itoa[OF assms] by (subst parseBrackets.simps) (auto simp: index_suffix_def)
qed

lemma parseBrackets_Nil [simp]: "parseBrackets [] = Some []"
  by (subst parseBrackets.simps) simp

text \<open>A part of a path: a key followed by its indices.\<close>

definition part_str :: "string \<Rightarrow> nat list \<Rightarrow> string" where
  "part_str k ns = k @ concat (map index_suffix ns)"

lemma parseBrackets_indices:
  "\<forall>n \<in> set ns. int n < 2 ^ 63 \<Longrightarrow>
     parseBrackets (concat (map index_suffix ns)) = Some (map SegIndex ns)"
  by (induction ns) (auto simp: parseBrackets_index)

lemma parsePart_str:
  assumes "good_seg (SegKey k)" "\<forall>n \<in> set ns. int n < 2 ^ 63"
  shows "parsePart (part_str k ns) = Some (SegKey k # map SegIndex ns)"
proof (cases ns)
  case Nil
  then show ?thesis using assms Index_fresh_None[of "CHR ''[''" k]
    by (auto simp: parsePart_def part_str_def)
next
  case (Cons n ns')
  have "part_str k ns = k @ CHR ''['' # (Itoa (int n) @ '']'' @ concat (map index_suffix ns'))"
    using Cons by (simp add: part_str_def index_suffix_def)
  then have "Index (part_str k ns) ''['' = Some (length k)"
    using assms(1) Index_append_fresh[of "CHR ''[''" k] by simp
  then show ?thesis
    using assms parseBrackets_indices[OF assms(2)]
    by (auto simp: parsePart_def part_str_def)
qed

text \<open>Concrete segment lists as parts: every key with the indices that follow it.\<close>

fun segs_of :: "(string \<times> nat list) list \<Rightarrow> pathSegment list" where
  "segs_of [] = []"
| "segs_of ((k, ns) # ps) = SegKey k # map SegIndex ns @ segs_of ps"

definition parts_str :: "(string \<times> nat list) list \<Rightarrow> string" where
  "parts_str ps = Join (map (\<lambda>(k, ns). part_str k ns) ps) ''.''"

definition good_parts :: "(string \<times> nat list) list \<Rightarrow> bool" where
  "good_parts ps = (\<forall>(k, ns) \<in> set ps. good_seg (SegKey k) \<and> (\<forall>n \<in> set ns. int n < 2 ^ 63))"

lemma part_str_no_dot: "CHR ''.'' \<notin> set k \<Longrightarrow> CHR ''.'' \<notin> set (part_str k ns)"
  using Itoa_chars(3) by (auto simp: part_str_def index_suffix_def)

lemma parsePath_parts:
  assumes "good_parts ps" "ps \<noteq> []"
  shows "parsePath (parts_str ps) = Some (segs_of ps)"
proof -
  have "Split (parts_str ps) ''.'' = map (\<lambda>(k, ns). part_str k ns) ps"
    unfolding parts_str_def using assms
    by (intro Split_Join) (auto simp: good_parts_def intro: part_str_no_dot dest: part_str_no_dot)
  moreover have "parseParts (map (\<lambda>(k, ns). part_str k ns) ps) = Some (segs_of ps)"
    using assms(1) by (induction ps) (auto simp: good_parts_def parsePart_str)
  ultimately show ?thesis by (simp add: parsePath_def)
qed

lemma render_indices: "render acc (map SegIndex ns @ segs) = render (acc @ concat (map index_suffix ns)) segs"
  by (induction ns arbitrary: acc) auto

lemma render_parts_gen:
  "acc \<noteq> [] \<Longrightarrow> good_parts ps \<Longrightarrow>
     render acc (segs_of ps) = (if ps = [] then acc else acc @ ''.'' @ parts_str ps)"
proof (induction ps arbitrary: acc)
  case (Cons p ps)
  obtain k ns where p: "p = (k, ns)" by (cases p)
  have g: "good_parts ps" using Cons.prems(2) by (auto simp: good_parts_def)
  have "render acc (segs_of (p # ps)) = render (acc @ ''.'' @ part_str k ns) (segs_of ps)"
    using Cons.prems(1) p by (simp add: render_indices key_suffix_def part_str_def)
  also have "\<dots> = (if ps = [] then acc @ ''.'' @ part_str k ns
                  else acc @ ''.'' @ part_str k ns @ ''.'' @ parts_str ps)"
    using Cons.IH[of "acc @ ''.'' @ part_str k ns"] g by simp
  also have "\<dots> = acc @ ''.'' @ parts_str (p # ps)"
    using p by (cases ps) (auto simp: parts_str_def)
  finally show ?case by simp
qed simp

lemma render_parts:
  assumes "good_parts ps" "ps \<noteq> []"
  shows "render [] (segs_of ps) = parts_str ps"
proof -
  obtain k ns ps' where p: "ps = (k, ns) # ps'" using assms(2) by (cases ps) auto
  have k: "k \<noteq> []" and g: "good_parts ps'" using assms(1) p by (auto simp: good_parts_def)
  have "render [] (segs_of ps) = render (part_str k ns) (segs_of ps')"
    using p by (simp add: render_indices key_suffix_def part_str_def)
  also have "\<dots> = parts_str ps"
    using k g p render_parts_gen[of "part_str k ns" ps']
    by (cases ps') (auto simp: part_str_def parts_str_def)
  finally show ?thesis .
qed

lemma segs_parts_exist:
  "list_all good_seg segs \<Longrightarrow> segs = [] \<or> (\<exists>k. hd segs = SegKey k) \<Longrightarrow>
     \<exists>ps. segs = segs_of ps \<and> good_parts ps"
proof (induction "length segs" arbitrary: segs rule: less_induct)
  case less
  show ?case
  proof (cases segs)
    case Nil
    then show ?thesis by (intro exI[of _ "[]"]) (simp add: good_parts_def)
  next
    case (Cons s rest)
    then obtain k where k: "s = SegKey k" using less.prems(2) by auto
    define is_idx where "is_idx = (\<lambda>s. \<exists>n. s = SegIndex n)"
    define ixs where "ixs = takeWhile is_idx rest"
    define tl' where "tl' = dropWhile is_idx rest"
    have rest: "rest = ixs @ tl'" by (simp add: ixs_def tl'_def)
    have "\<forall>s \<in> set ixs. is_idx s" unfolding ixs_def by (meson set_takeWhileD)
    then obtain ns where ns: "ixs = map SegIndex ns"
      unfolding is_idx_def by (metis ex_map_conv)
    have good: "list_all good_seg tl'" "list_all good_seg ixs" "good_seg (SegKey k)"
      using less.prems(1) Cons k rest by auto
    have "tl' = [] \<or> (\<exists>k. hd tl' = SegKey k)"
    proof (cases "tl' = []")
      case False
      then have "\<not> is_idx (hd tl')" "good_seg (hd tl')"
        using good(1) hd_dropWhile[of is_idx rest] by (auto simp: tl'_def list_all_iff)
      then show ?thesis by (cases "hd tl'") (auto simp: is_idx_def)
    qed simp
    moreover have "length tl' < length segs"
      using Cons by (simp add: tl'_def length_dropWhile_le le_imp_less_Suc)
    ultimately obtain ps where ps: "tl' = segs_of ps" "good_parts ps"
      using less.hyps good(1) by blast
    have "segs = segs_of ((k, ns) # ps)" using Cons k rest ns ps(1) by simp
    moreover have "good_parts ((k, ns) # ps)"
      using ps(2) good(2,3) ns by (auto simp: good_parts_def list_all_iff)
    ultimately show ?thesis by blast
  qed
qed

lemma parsePath_render:
  assumes "list_all good_seg segs" "segs \<noteq> []" "hd segs = SegKey k"
  shows "parsePath (render [] segs) = Some segs"
proof -
  obtain ps where ps: "segs = segs_of ps" "good_parts ps"
    using segs_parts_exist[OF assms(1)] assms(3) by blast
  then have "ps \<noteq> []" using assms(2) by auto
  then show ?thesis using ps parsePath_parts render_parts by simp
qed

section \<open>Parsed paths\<close>

text \<open>Arrays are Go slices: their length fits an \<^verbatim>\<open>int\<close>.\<close>

fun sized_json :: "json \<Rightarrow> bool" where
  "sized_json (JArr xs) = (int (length xs) < 2 ^ 63 \<and> (\<forall>x \<in> set xs. sized_json x))"
| "sized_json (JObj kvs) = (\<forall>kv \<in> set kvs. sized_json (snd kv))"
| "sized_json _ = True"

text \<open>What the parser promises of its segments.\<close>

fun parsed_seg :: "pathSegment \<Rightarrow> bool" where
  "parsed_seg (SegKey k) = (k \<noteq> [] \<and> CHR ''.'' \<notin> set k \<and> CHR ''['' \<notin> set k)"
| "parsed_seg (SegIndex n) = True"
| "parsed_seg SegWild = True"

lemma parseInside_no_key: "parseInside s = Some seg \<Longrightarrow> parsed_seg seg"
  by (auto simp: parseInside_def split: if_splits option.splits)

lemma parseBrackets_segs: "parseBrackets rest = Some segs \<Longrightarrow> list_all parsed_seg segs"
proof (induction rest arbitrary: segs rule: parseBrackets.induct)
  case (1 rest)
  show ?case
  proof (cases "rest = []")
    case False
    then obtain e seg segs' where
      e: "HasPrefix rest ''[''" "Index rest '']'' = Some e"
        "parseInside (take (e - 1) (drop 1 rest)) = Some seg"
        "parseBrackets (drop (e + 1) rest) = Some segs'" "segs = seg # segs'"
      using 1(2) by (subst (asm) parseBrackets.simps) (auto split: if_splits option.splits)
    then show ?thesis using 1(1)[OF False _ e(2,3,4)] parseInside_no_key[OF e(3)] by simp
  qed (use 1(2) in \<open>subst (asm) parseBrackets.simps, simp\<close>)
qed

lemma parsePart_segs:
  assumes "parsePart p = Some segs" "CHR ''.'' \<notin> set p"
  shows "list_all parsed_seg segs"
proof -
  have "CHR ''['' \<notin> set p" if "Index p ''['' = None"
    using that Contains_singleton[of p "CHR ''[''"] by (simp add: Contains_def)
  moreover have "CHR ''['' \<notin> set (take i p)" "i < length p" if "Index p ''['' = Some i" for i
    using Index_singleton_first[OF that] by auto
  ultimately show ?thesis
    using assms by (auto simp: parsePart_def split: if_splits option.splits
        dest: in_set_takeD parseBrackets_segs)
qed

lemma parsePath_segs:
  assumes "parsePath path = Some segs"
  shows "list_all parsed_seg segs"
proof -
  have "parseParts ps = Some segs \<Longrightarrow> \<forall>p \<in> set ps. CHR ''.'' \<notin> set p \<Longrightarrow> list_all parsed_seg segs" for ps
    by (induction ps arbitrary: segs) (auto split: option.splits dest: parsePart_segs)
  then show ?thesis using assms Split_pieces_free by (fastforce simp: parsePath_def)
qed

lemma sized_lookup: "sized_json (JObj m) \<Longrightarrow> map_of m k = Some v \<Longrightarrow> sized_json v"
  by (auto dest!: map_of_SomeD)

lemma walkConcrete_good:
  "(cs, v) \<in> set (walkConcrete segs val) \<Longrightarrow> list_all parsed_seg segs \<Longrightarrow> sized_json val \<Longrightarrow>
     list_all good_seg cs"
proof (induction segs arbitrary: cs val)
  case (Cons s segs)
  show ?case
  proof (cases s)
    case (SegKey k)
    then obtain m nx cs' where "val = JObj m" "map_of m k = Some nx" "cs = SegKey k # cs'"
      "(cs', v) \<in> set (walkConcrete segs nx)"
      using Cons.prems(1) by (cases val; cases "map_of (THE m. val = JObj m) k") auto
    then show ?thesis using SegKey Cons.IH Cons.prems(2,3) sized_lookup by auto
  next
    case (SegIndex n)
    then obtain arr cs' where a: "val = JArr arr" "n < length arr" "cs = SegIndex n # cs'"
      "(cs', v) \<in> set (walkConcrete segs (arr ! n))"
      using Cons.prems(1) by (auto split: option.splits if_splits)
    moreover have "sized_json (arr ! n)" "int n < 2 ^ 63" using a Cons.prems(3) by auto
    ultimately show ?thesis using Cons.IH Cons.prems(2) by auto
  next
    case SegWild
    then obtain arr n cs' where a: "val = JArr arr" "n < length arr" "cs = SegIndex n # cs'"
      "(cs', v) \<in> set (walkConcrete segs (arr ! n))"
      using Cons.prems(1) by (auto split: option.splits simp: in_set_enumerate_eq)
    moreover have "sized_json (arr ! n)" "int n < 2 ^ 63" using a Cons.prems(3) by auto
    ultimately show ?thesis using Cons.IH Cons.prems(2) by auto
  qed
qed (auto split: if_splits)

lemma parsePath_nonempty: "parsePath path = Some segs \<Longrightarrow> segs \<noteq> []"
proof -
  have part: "parsePart p = Some s \<Longrightarrow> s \<noteq> []" for p s
  proof -
    assume a: "parsePart p = Some s"
    have "parseBrackets (drop i p) = Some [] \<Longrightarrow> i < length p \<Longrightarrow> False" for i
      by (subst (asm) parseBrackets.simps) (auto split: if_splits option.splits)
    then show "s \<noteq> []"
      using a Index_singleton_first[of p "CHR ''[''"]
      by (fastforce simp: parsePart_def split: if_splits option.splits)
  qed
  assume "parsePath path = Some segs"
  then show ?thesis
    using Split_ne[of "''.''" path]
    by (cases "Split path ''.''") (auto simp: parsePath_def split: option.splits dest: part)
qed

lemma walk_object_head:
  "(cs, v) \<in> set (walkConcrete segs (JObj raw)) \<Longrightarrow> segs \<noteq> [] \<Longrightarrow> cs \<noteq> [] \<and> (\<exists>k. hd cs = SegKey k)"
  by (cases segs; cases "hd segs") (auto split: option.splits)

lemma WalkPath_hit:
  assumes "h \<in> set (WalkPath raw path)" "sized_json (JObj raw)"
  obtains segs cs where "parsePath path = Some segs" "(cs, hit_Value h) \<in> set (walkConcrete segs (JObj raw))"
    "hit_Path h = render [] cs" "parsePath (render [] cs) = Some cs" "render [] cs \<noteq> []"
proof -
  obtain segs cs v where s: "parsePath path = Some segs" "(cs, v) \<in> set (walkConcrete segs (JObj raw))"
    "h = \<lparr>hit_Path = render [] cs, hit_Value = v\<rparr>"
    using assms(1)
    by (cases "parsePath path") (auto simp: WalkPath_def walkSegments_concrete split: if_splits)
  have head: "cs \<noteq> []" "\<exists>k. hd cs = SegKey k"
    using walk_object_head[OF s(2) parsePath_nonempty[OF s(1)]] by auto
  then have p: "parsePath (render [] cs) = Some cs"
    using parsePath_render walkConcrete_good[OF s(2) parsePath_segs[OF s(1)] assms(2)] by blast
  have "parsePath [] = None"
    by (simp add: parsePath_def Split_no_sep parsePart_def)
  then have "render [] cs \<noteq> []" using p by auto
  with s p that show ?thesis by simp
qed

section \<open>Properties\<close>

text \<open>
  The concrete path of a hit is a round trip: walking the same document
  along the path a hit reports yields exactly that hit, wildcards resolved.
\<close>

theorem WalkPath_hit_roundtrip:
  assumes "h \<in> set (WalkPath raw path)" "sized_json (JObj raw)"
  shows "WalkPath raw (hit_Path h) = [h]"
proof -
  obtain segs cs where s: "(cs, hit_Value h) \<in> set (walkConcrete segs (JObj raw))"
    "hit_Path h = render [] cs" "parsePath (render [] cs) = Some cs" "render [] cs \<noteq> []"
    using WalkPath_hit[OF assms] by metis
  then show ?thesis
    using walkConcrete_self[OF s(1)] by (simp add: WalkPath_def walkSegments_concrete)
qed

definition demo_doc :: obj where
  "demo_doc = [(''spec'', JObj [(''xs'', JArr [JObj [(''k'', JInt 1)], JObj [(''k'', JInt 2)]])])]"

theorem WalkPath_hit_roundtrip_witness:
  "WalkPath demo_doc ''spec.xs[*].k'' =
     [\<lparr>hit_Path = ''spec.xs[0].k'', hit_Value = JInt 1\<rparr>, \<lparr>hit_Path = ''spec.xs[1].k'', hit_Value = JInt 2\<rparr>] \<and>
   WalkPath demo_doc ''spec.xs[1].k'' = [\<lparr>hit_Path = ''spec.xs[1].k'', hit_Value = JInt 2\<rparr>]"
proof -
  have w: "WalkPath demo_doc ''spec.xs[*].k'' =
     [\<lparr>hit_Path = ''spec.xs[0].k'', hit_Value = JInt 1\<rparr>, \<lparr>hit_Path = ''spec.xs[1].k'', hit_Value = JInt 2\<rparr>]"
    by code_simp
  have "sized_json (JObj demo_doc)" by (simp add: demo_doc_def)
  with w WalkPath_hit_roundtrip[of "\<lparr>hit_Path = ''spec.xs[1].k'', hit_Value = JInt 2\<rparr>" demo_doc
      "''spec.xs[*].k''"]
  show ?thesis by simp
qed

text \<open>
  Two different hits of one walk never share a path, so hits can be paired
  by their concrete path.
\<close>

theorem WalkPath_paths_distinct:
  assumes "sized_json (JObj raw)"
  shows "distinct (map hit_Path (WalkPath raw path))"
proof (cases "path = [] \<or> parsePath path = None")
  case False
  then obtain segs where s: "path \<noteq> []" "parsePath path = Some segs" by auto
  let ?W = "walkConcrete segs (JObj raw)"
  have "parsePath (render [] cs) = Some cs" if "cs \<in> fst ` set ?W" for cs
  proof -
    from that obtain v where v: "(cs, v) \<in> set ?W" by auto
    then have "list_all good_seg cs" using walkConcrete_good parsePath_segs s(2) assms by blast
    then show ?thesis
      using parsePath_render walk_object_head[OF v parsePath_nonempty[OF s(2)]] by blast
  qed
  then have "inj_on (render []) (fst ` set ?W)" by (metis inj_onI option.inject)
  then have "distinct (map (render []) (map fst ?W))"
    using walkConcrete_distinct[of segs "JObj raw"] by (subst distinct_map) simp
  then show ?thesis using s by (simp add: WalkPath_def walkSegments_concrete comp_def split_beta)
qed (auto simp: WalkPath_def)

theorem WalkPath_paths_distinct_witness:
  "sized_json (JObj demo_doc) \<and> distinct (map hit_Path (WalkPath demo_doc ''spec.xs[].k''))"
  using WalkPath_paths_distinct[of demo_doc "''spec.xs[].k''"] by (simp add: demo_doc_def)

text \<open>
  On a path of plain dotted keys the two readers agree: \<^verbatim>\<open>WalkPath\<close> reports
  one hit, at the path itself, exactly when \<^verbatim>\<open>ReadPath\<close> finds a non-nil value.
\<close>

theorem WalkPath_agrees_ReadPath:
  assumes "CHR ''['' \<notin> set path"
  shows "WalkPath raw path =
           (case ReadPath raw path of
              Some v \<Rightarrow> if v = JNull then [] else [\<lparr>hit_Path = path, hit_Value = v\<rparr>]
            | None \<Rightarrow> [])"
proof -
  let ?ps = "Split path ''.''"
  have free: "CHR ''['' \<notin> set p" if "p \<in> set ?ps" for p
  proof -
    have "set p \<subseteq> set (Join ?ps ''.'')" using that by (rule Join_elem_subset)
    then show ?thesis using assms Join_Split[of "''.''" path] by auto
  qed
  have parse: "parseParts ps = (if [] \<in> set ps then None else Some (map SegKey ps))"
    if "\<forall>p \<in> set ps. CHR ''['' \<notin> set p" for ps
    using that by (induction ps) (auto simp: parsePart_def Index_fresh_None)
  have read: "ps \<noteq> [] \<Longrightarrow> [] \<notin> set ps \<Longrightarrow> walkSegments (map SegKey ps) acc val =
      (case readSegs ps val of
         Some v \<Rightarrow> if v = JNull then []
                   else [\<lparr>hit_Path = (if acc = [] then Join ps ''.'' else acc @ ''.'' @ Join ps ''.''),
                          hit_Value = v\<rparr>]
       | None \<Rightarrow> [])" for ps acc val
  proof (induction ps arbitrary: acc val)
    case (Cons p ps)
    show ?case
    proof (cases "ps = []")
      case True
      then show ?thesis using Cons.prems by (auto split: option.splits simp: key_suffix_def)
    next
      case False
      then show ?thesis
        using Cons.prems Cons.IH[OF False] by (auto split: option.splits simp: key_suffix_def Join_Cons)
    qed
  qed simp
  have none: "readSegs ps val = None" if "[] \<in> set ps" for ps val
    using that by (induction ps arbitrary: val) (auto split: option.splits)
  show ?thesis
  proof (cases "path = []")
    case False
    show ?thesis
    proof (cases "[] \<in> set ?ps")
      case True
      then show ?thesis using False free parse[of ?ps] none[OF True]
        by (simp add: WalkPath_def ReadPath_def parsePath_def)
    next
      case ne: False
      then show ?thesis
        using False free parse[of ?ps] read[OF _ ne, of "[]" "JObj raw"] Join_Split[of "''.''" path]
        by (simp add: WalkPath_def ReadPath_def parsePath_def split: option.split)
    qed
  qed (simp add: WalkPath_def ReadPath_def)
qed

theorem WalkPath_agrees_ReadPath_witness:
  "CHR ''['' \<notin> set ''spec.xs'' \<and>
   WalkPath demo_doc ''spec.xs'' =
     [\<lparr>hit_Path = ''spec.xs'', hit_Value = JArr [JObj [(''k'', JInt 1)], JObj [(''k'', JInt 2)]]\<rparr>]"
proof -
  have "ReadPath demo_doc ''spec.xs'' = Some (JArr [JObj [(''k'', JInt 1)], JObj [(''k'', JInt 2)]])"
    by code_simp
  then show ?thesis using WalkPath_agrees_ReadPath[of "''spec.xs''" demo_doc] by simp
qed

end
