(* ===== verification/Config.thy ===== *)
theory Config
  imports Types
begin

text \<open>
  \<^verbatim>\<open>pkg/config\<close>: the xpc.yaml schema, its built-in defaults, the semantic
  validation of a decoded file and the resolvers that merge it with the
  built-ins.  The registries an overlay edits share a contract (remove by key,
  add by key), stated as a locale and interpreted on both of them.
\<close>

section \<open>Schema\<close>

record ExternalSecretStoresConfig =
  es_AllowedNames :: "string list"

record EnvLabelConfig =
  el_Key :: string
  el_ClaimKinds :: "string list"
  el_AllowedValues :: "string list"

record ProdPatternsConfig =
  pp_AppSetNameSubstrings :: "string list"

record ImmutableFieldEntry =
  ife_GVK :: string
  ife_Paths :: "string list"
  ife_Reason :: string
  ife_Suppress :: bool

record StateBearingKindEntry =
  sbe_Group :: string
  sbe_Kind :: string

record StateBearingKindsConfig =
  sbk_Append :: "StateBearingKindEntry list"
  sbk_Suppress :: "StateBearingKindEntry list"

record BypassKeyConfig =
  bkc_Primary :: string
  bkc_Aliases :: "string list"

record BypassAnnotationsConfig =
  bac_AllowDelete :: BypassKeyConfig
  bac_AllowImmutableChange :: BypassKeyConfig

record NameCarveoutsConfig =
  nc_CrossplaneStateNeedsOrphan :: "string list"

record Config =
  cfg_Version :: int
  cfg_ProdPatterns :: ProdPatternsConfig
  cfg_ImmutableFields :: "ImmutableFieldEntry list"
  cfg_StateBearingKinds :: StateBearingKindsConfig
  cfg_BypassAnnotations :: BypassAnnotationsConfig
  cfg_NameCarveouts :: NameCarveoutsConfig
  cfg_ExternalSecretStores :: ExternalSecretStoresConfig
  cfg_EnvLabel :: EnvLabelConfig
  cfg_AllowedProviderConfigs :: "string list"

section \<open>Defaults\<close>

definition defaultProdAppSetNameSubstrings :: "string list" where
  "defaultProdAppSetNameSubstrings = [''-prod'', ''prod-'']"

definition defaultAllowDeletePrimary :: string where
  "defaultAllowDeletePrimary = ''xpc.io/allow-delete''"

definition defaultAllowDeleteAliases :: "string list" where
  "defaultAllowDeleteAliases = []"

definition defaultAllowImmutableChangePrimary :: string where
  "defaultAllowImmutableChangePrimary = ''xpc.io/allow-immutable-change''"

definition defaultAllowImmutableChangeAliases :: "string list" where
  "defaultAllowImmutableChangeAliases = []"

definition defaultCrossplaneStateNeedsOrphanCarveouts :: "string list" where
  "defaultCrossplaneStateNeedsOrphanCarveouts = [''alb-logs'']"

definition Default :: Config where
  "Default = \<lparr>cfg_Version = 1,
     cfg_ProdPatterns = \<lparr>pp_AppSetNameSubstrings = defaultProdAppSetNameSubstrings\<rparr>,
     cfg_ImmutableFields = [],
     cfg_StateBearingKinds = \<lparr>sbk_Append = [], sbk_Suppress = []\<rparr>,
     cfg_BypassAnnotations =
       \<lparr>bac_AllowDelete = \<lparr>bkc_Primary = defaultAllowDeletePrimary, bkc_Aliases = defaultAllowDeleteAliases\<rparr>,
        bac_AllowImmutableChange = \<lparr>bkc_Primary = defaultAllowImmutableChangePrimary,
                                     bkc_Aliases = defaultAllowImmutableChangeAliases\<rparr>\<rparr>,
     cfg_NameCarveouts =
       \<lparr>nc_CrossplaneStateNeedsOrphan = defaultCrossplaneStateNeedsOrphanCarveouts\<rparr>,
     cfg_ExternalSecretStores = \<lparr>es_AllowedNames = []\<rparr>,
     cfg_EnvLabel = \<lparr>el_Key = [], el_ClaimKinds = [], el_AllowedValues = []\<rparr>,
     cfg_AllowedProviderConfigs = []\<rparr>"

section \<open>Resolvers\<close>

definition ResolveProdPatterns :: "Config option \<Rightarrow> string list" where
  "ResolveProdPatterns cfg =
     (case cfg of
        Some c \<Rightarrow> if pp_AppSetNameSubstrings (cfg_ProdPatterns c) \<noteq> []
                  then pp_AppSetNameSubstrings (cfg_ProdPatterns c)
                  else defaultProdAppSetNameSubstrings
      | None \<Rightarrow> defaultProdAppSetNameSubstrings)"

text \<open>\<^verbatim>\<open>if s == "" || containsString(out, s) { continue }; out = append(out, s)\<close>\<close>

definition add_unique :: "string list \<Rightarrow> string \<Rightarrow> string list" where
  "add_unique out s = (if s = [] \<or> s \<in> set out then out else out @ [s])"

definition ResolveExternalSecretStoreNames :: "Config option \<Rightarrow> string list" where
  "ResolveExternalSecretStoreNames cfg =
     (case cfg of
        None \<Rightarrow> []
      | Some c \<Rightarrow> foldl add_unique [] (es_AllowedNames (cfg_ExternalSecretStores c)))"

definition defaultEnvLabelKey :: string where
  "defaultEnvLabelKey = ''app.facilitygrid.io/environment''"

definition defaultEnvLabelClaimKinds :: "string list" where
  "defaultEnvLabelClaimKinds = [''FargateApp'', ''FargateWorker'', ''FargateService'']"

definition defaultEnvLabelAllowedValues :: "string list" where
  "defaultEnvLabelAllowedValues = [''prod'', ''preview'', ''ops'']"

definition ResolveEnvLabel :: "Config option \<Rightarrow> string \<times> string list \<times> string list" where
  "ResolveEnvLabel cfg =
     (case cfg of
        None \<Rightarrow> (defaultEnvLabelKey, defaultEnvLabelClaimKinds, defaultEnvLabelAllowedValues)
      | Some c \<Rightarrow>
          let e = cfg_EnvLabel c
          in (if el_Key e \<noteq> [] then el_Key e else defaultEnvLabelKey,
              if el_ClaimKinds e \<noteq> [] then el_ClaimKinds e else defaultEnvLabelClaimKinds,
              if el_AllowedValues e \<noteq> [] then el_AllowedValues e else defaultEnvLabelAllowedValues))"

definition ResolveAllowedProviderConfigs :: "Config option \<Rightarrow> string list" where
  "ResolveAllowedProviderConfigs cfg =
     (case cfg of None \<Rightarrow> [] | Some c \<Rightarrow> foldl add_unique [] (cfg_AllowedProviderConfigs c))"

definition mergeBypass :: "string \<Rightarrow> string list \<Rightarrow> BypassKeyConfig \<Rightarrow> string list" where
  "mergeBypass builtinPrimary builtinAliases user =
     (let primary = (if bkc_Primary user \<noteq> [] then bkc_Primary user else builtinPrimary);
          out = (if primary \<noteq> [] then [primary] else [])
      in foldl add_unique (foldl add_unique out builtinAliases) (bkc_Aliases user))"

definition no_bypass :: BypassKeyConfig where
  "no_bypass = \<lparr>bkc_Primary = [], bkc_Aliases = []\<rparr>"

definition ResolveAllowDeleteKeys :: "Config option \<Rightarrow> string list" where
  "ResolveAllowDeleteKeys cfg =
     mergeBypass defaultAllowDeletePrimary defaultAllowDeleteAliases
       (case cfg of None \<Rightarrow> no_bypass | Some c \<Rightarrow> bac_AllowDelete (cfg_BypassAnnotations c))"

definition ResolveAllowImmutableChangeKeys :: "Config option \<Rightarrow> string list" where
  "ResolveAllowImmutableChangeKeys cfg =
     mergeBypass defaultAllowImmutableChangePrimary defaultAllowImmutableChangeAliases
       (case cfg of None \<Rightarrow> no_bypass | Some c \<Rightarrow> bac_AllowImmutableChange (cfg_BypassAnnotations c))"

definition ResolveCrossplaneStateNeedsOrphanCarveouts :: "Config option \<Rightarrow> string list" where
  "ResolveCrossplaneStateNeedsOrphanCarveouts cfg =
     (case cfg of
        None \<Rightarrow> defaultCrossplaneStateNeedsOrphanCarveouts
      | Some c \<Rightarrow> foldl add_unique defaultCrossplaneStateNeedsOrphanCarveouts
                    (nc_CrossplaneStateNeedsOrphan (cfg_NameCarveouts c)))"

definition splitGVK :: "string \<Rightarrow> string \<times> string \<times> string" where
  "splitGVK gvk =
     (case Split gvk ''/'' of
        [] \<Rightarrow> ([], [], [])
      | [k] \<Rightarrow> ([], [], k)
      | [v, k] \<Rightarrow> ([], v, k)
      | g # v # ks \<Rightarrow> (g, v, Join ks ''/''))"

definition removeImmutable ::
  "ImmutableField list \<Rightarrow> string \<Rightarrow> string \<Rightarrow> string \<Rightarrow> ImmutableField list" where
  "removeImmutable fs grp kind path =
     filter (\<lambda>f. \<not> (imf_Group f = grp \<and> imf_Kind f = kind \<and> imf_FieldPath f = path)) fs"

fun upsertImmutable :: "ImmutableField list \<Rightarrow> ImmutableField \<Rightarrow> ImmutableField list" where
  "upsertImmutable [] entry = [entry]"
| "upsertImmutable (f # fs) entry =
     (if imf_Group f = imf_Group entry \<and> imf_Kind f = imf_Kind entry \<and> imf_FieldPath f = imf_FieldPath entry
      then (if imf_Reason entry \<noteq> [] then f\<lparr>imf_Reason := imf_Reason entry\<rparr> else f) # fs
      else f # upsertImmutable fs entry)"

text \<open>The (group, kind, path) triples of the entries of one pass, in loop order.\<close>

definition suppress_triples :: "ImmutableFieldEntry list \<Rightarrow> (string \<times> string \<times> string) list" where
  "suppress_triples es =
     concat (map (\<lambda>e. case splitGVK (ife_GVK e) of (grp, _, kind) \<Rightarrow>
                        map (\<lambda>path. (grp, kind, path)) (ife_Paths e))
                 (filter ife_Suppress es))"

definition append_entries :: "ImmutableFieldEntry list \<Rightarrow> ImmutableField list" where
  "append_entries es =
     concat (map (\<lambda>e. case splitGVK (ife_GVK e) of (grp, _, kind) \<Rightarrow>
                        map (\<lambda>path. \<lparr>imf_Group = grp, imf_Kind = kind, imf_FieldPath = path,
                                      imf_Reason = ife_Reason e\<rparr>)
                            (filter (\<lambda>path. path \<noteq> []) (ife_Paths e)))
                 (filter (\<lambda>e. \<not> ife_Suppress e) es))"

definition ResolveImmutableFields :: "Config option \<Rightarrow> ImmutableField list \<Rightarrow> ImmutableField list" where
  "ResolveImmutableFields cfg builtins =
     (case cfg of
        None \<Rightarrow> builtins
      | Some c \<Rightarrow>
          foldl upsertImmutable
            (foldl (\<lambda>out (grp, kind, path). removeImmutable out grp kind path) builtins
                   (suppress_triples (cfg_ImmutableFields c)))
            (append_entries (cfg_ImmutableFields c)))"

definition removeStateBearing :: "ArgoGroupKind list \<Rightarrow> string \<Rightarrow> string \<Rightarrow> ArgoGroupKind list" where
  "removeStateBearing gks grp kind =
     filter (\<lambda>gk. \<not> (gk_Group gk = grp \<and> gk_Kind gk = kind)) gks"

definition containsStateBearing :: "ArgoGroupKind list \<Rightarrow> string \<Rightarrow> string \<Rightarrow> bool" where
  "containsStateBearing gks grp kind =
     list_ex (\<lambda>gk. gk_Group gk = grp \<and> gk_Kind gk = kind) gks"

definition appendStateBearing :: "ArgoGroupKind list \<Rightarrow> StateBearingKindEntry \<Rightarrow> ArgoGroupKind list" where
  "appendStateBearing out e =
     (if containsStateBearing out (sbe_Group e) (sbe_Kind e) then out
      else out @ [\<lparr>gk_Group = sbe_Group e, gk_Kind = sbe_Kind e\<rparr>])"

definition ResolveStateBearingKinds :: "Config option \<Rightarrow> ArgoGroupKind list \<Rightarrow> ArgoGroupKind list" where
  "ResolveStateBearingKinds cfg defaults =
     (case cfg of
        None \<Rightarrow> defaults
      | Some c \<Rightarrow>
          foldl appendStateBearing
            (foldl (\<lambda>out e. removeStateBearing out (sbe_Group e) (sbe_Kind e)) defaults
                   (sbk_Suppress (cfg_StateBearingKinds c)))
            (sbk_Append (cfg_StateBearingKinds c)))"

section \<open>Validation\<close>

datatype ConfigError =
    UnsupportedVersion int
  | GVKRequired nat
  | PathsRequired nat
  | GVKTooManySegments nat
  | TwoSegmentGVKNotCore nat
  | EmptyPath nat
  | AppendKindRequired nat | AppendKindBlank nat | AppendGroupBlank nat
  | SuppressKindRequired nat | SuppressKindBlank nat | SuppressGroupBlank nat

definition digits_ok :: "string \<Rightarrow> bool" where
  "digits_ok s = list_all is_digit s"

text \<open>The suffix after the leading digits: nothing, or alpha/beta with at least one digit.\<close>

definition version_suffix_ok :: "string \<Rightarrow> bool" where
  "version_suffix_ok r =
     (if r = [] then True
      else if HasPrefix r ''alpha'' then drop 5 r \<noteq> [] \<and> digits_ok (drop 5 r)
      else if HasPrefix r ''beta'' then drop 4 r \<noteq> [] \<and> digits_ok (drop 4 r)
      else False)"

definition looksLikeVersion :: "string \<Rightarrow> bool" where
  "looksLikeVersion s =
     (if length s < 2 \<or> s ! 0 \<noteq> CHR ''v'' \<or> \<not> is_digit (s ! 1) then False
      else version_suffix_ok (dropWhile is_digit (drop 2 s)))"

definition immutable_entry_error :: "nat \<Rightarrow> ImmutableFieldEntry \<Rightarrow> ConfigError option" where
  "immutable_entry_error i entry =
     (let parts = Split (ife_GVK entry) ''/'' in
      if ife_GVK entry = [] then Some (GVKRequired i)
      else if ife_Paths entry = [] then Some (PathsRequired i)
      else if length parts > 3 then Some (GVKTooManySegments i)
      else if length parts = 2 \<and> \<not> looksLikeVersion (parts ! 0) then Some (TwoSegmentGVKNotCore i)
      else if [] \<in> set (ife_Paths entry) then Some (EmptyPath i)
      else None)"

definition kind_entry_error ::
  "(nat \<Rightarrow> ConfigError) \<Rightarrow> (nat \<Rightarrow> ConfigError) \<Rightarrow> (nat \<Rightarrow> ConfigError) \<Rightarrow>
   nat \<Rightarrow> StateBearingKindEntry \<Rightarrow> ConfigError option" where
  "kind_entry_error required blank gblank i entry =
     (if sbe_Kind entry = [] then Some (required i)
      else if TrimSpace (sbe_Kind entry) = [] then Some (blank i)
      else if sbe_Group entry \<noteq> [] \<and> TrimSpace (sbe_Group entry) = [] then Some (gblank i)
      else None)"

fun first_error :: "(nat \<Rightarrow> 'a \<Rightarrow> 'e option) \<Rightarrow> nat \<Rightarrow> 'a list \<Rightarrow> 'e option" where
  "first_error f i [] = None"
| "first_error f i (x # xs) = (case f i x of Some e \<Rightarrow> Some e | None \<Rightarrow> first_error f (i + 1) xs)"

text \<open>A version of 0 (absent) is set to the current one.\<close>

definition validate :: "Config \<Rightarrow> ConfigError + Config" where
  "validate cfg0 =
     (let cfg = (if cfg_Version cfg0 = 0 then cfg0\<lparr>cfg_Version := 1\<rparr> else cfg0) in
      if cfg_Version cfg \<noteq> 1 then Inl (UnsupportedVersion (cfg_Version cfg))
      else case first_error immutable_entry_error 0 (cfg_ImmutableFields cfg) of Some e \<Rightarrow> Inl e | None \<Rightarrow>
      (case first_error (kind_entry_error AppendKindRequired AppendKindBlank AppendGroupBlank) 0
              (sbk_Append (cfg_StateBearingKinds cfg)) of Some e \<Rightarrow> Inl e | None \<Rightarrow>
      (case first_error (kind_entry_error SuppressKindRequired SuppressKindBlank SuppressGroupBlank) 0
              (sbk_Suppress (cfg_StateBearingKinds cfg)) of Some e \<Rightarrow> Inl e | None \<Rightarrow>
       Inr cfg)))"

section \<open>De-duplicating appends\<close>

lemma add_unique_foldl:
  "set (foldl add_unique out ss) = set out \<union> (set ss - {[]})"
  "distinct out \<Longrightarrow> distinct (foldl add_unique out ss)"
  "\<exists>rest. foldl add_unique out ss = out @ rest"
  "[] \<notin> set out \<Longrightarrow> [] \<notin> set (foldl add_unique out ss)"
proof -
  show set_eq: "set (foldl add_unique out ss) = set out \<union> (set ss - {[]})"
    by (induction ss arbitrary: out) (auto simp: add_unique_def)
  show "distinct out \<Longrightarrow> distinct (foldl add_unique out ss)"
    by (induction ss arbitrary: out) (auto simp: add_unique_def)
  show "\<exists>rest. foldl add_unique out ss = out @ rest"
  proof (induction ss arbitrary: out)
    case (Cons s ss)
    then obtain rest where "foldl add_unique (add_unique out s) ss = add_unique out s @ rest" by blast
    moreover obtain r where "add_unique out s = out @ r"
      by (cases "s = [] \<or> s \<in> set out") (auto simp: add_unique_def)
    ultimately have "foldl add_unique out (s # ss) = out @ (r @ rest)" by simp
    then show ?case by blast
  qed simp
  show "[] \<notin> set out \<Longrightarrow> [] \<notin> set (foldl add_unique out ss)"
    by (simp add: set_eq)
qed

section \<open>The overlay contract\<close>

text \<open>
  A registry with keyed entries that an overlay first removes keys from and then
  adds entries to.
\<close>

locale overlay_registry =
  fixes keys :: "'r list \<Rightarrow> 'k list"
    and remove :: "'r list \<Rightarrow> 'k \<Rightarrow> 'r list"
    and add :: "'r list \<Rightarrow> 'e \<Rightarrow> 'r list"
    and key_of :: "'e \<Rightarrow> 'k"
  assumes keys_remove: "keys (remove rs k) = filter (\<lambda>k'. k' \<noteq> k) (keys rs)"
    and keys_add: "keys (add rs e) = (if key_of e \<in> set (keys rs) then keys rs else keys rs @ [key_of e])"
begin

definition overlay :: "'r list \<Rightarrow> 'k list \<Rightarrow> 'e list \<Rightarrow> 'r list" where
  "overlay rs suppress appends = foldl add (foldl remove rs suppress) appends"

lemma keys_removes: "set (keys (foldl remove rs ks)) = set (keys rs) - set ks"
  by (induction ks arbitrary: rs) (auto simp: keys_remove)

lemma keys_adds: "set (keys (foldl add rs es)) = set (keys rs) \<union> key_of ` set es"
  by (induction es arbitrary: rs) (auto simp: keys_add)

lemma keys_overlay:
  "set (keys (overlay rs suppress appends)) = (set (keys rs) - set suppress) \<union> key_of ` set appends"
  by (simp add: overlay_def keys_adds keys_removes)

lemma distinct_overlay:
  assumes "distinct (keys rs)"
  shows "distinct (keys (overlay rs suppress appends))"
proof -
  have "distinct (keys (foldl remove rs suppress))"
    using assms by (induction suppress arbitrary: rs) (auto simp: keys_remove)
  moreover have "distinct (keys rs') \<Longrightarrow> distinct (keys (foldl add rs' appends))" for rs'
    by (induction appends arbitrary: rs') (auto simp: keys_add)
  ultimately show ?thesis by (simp add: overlay_def)
qed

end

definition sbe_key :: "StateBearingKindEntry \<Rightarrow> string \<times> string" where
  "sbe_key e = (sbe_Group e, sbe_Kind e)"

definition gk_key :: "ArgoGroupKind \<Rightarrow> string \<times> string" where
  "gk_key gk = (gk_Group gk, gk_Kind gk)"

definition imf_key :: "ImmutableField \<Rightarrow> string \<times> string \<times> string" where
  "imf_key f = (imf_Group f, imf_Kind f, imf_FieldPath f)"

interpretation state_bearing: overlay_registry
  "map gk_key" "\<lambda>gks (g, k). removeStateBearing gks g k" appendStateBearing sbe_key
proof
  show "map gk_key (case k of (g, k') \<Rightarrow> removeStateBearing rs g k') =
      filter (\<lambda>k'. k' \<noteq> k) (map gk_key rs)" for rs k
    by (cases k; induction rs) (auto simp: removeStateBearing_def gk_key_def)
  show "map gk_key (appendStateBearing rs e) =
      (if sbe_key e \<in> set (map gk_key rs) then map gk_key rs else map gk_key rs @ [sbe_key e])" for rs e
    by (auto simp: appendStateBearing_def containsStateBearing_def list_ex_iff gk_key_def sbe_key_def
        image_iff Bex_def) metis+
qed

interpretation immutable: overlay_registry
  "map imf_key" "\<lambda>fs (g, k, p). removeImmutable fs g k p" upsertImmutable imf_key
proof
  show "map imf_key (case k of (g, k', p) \<Rightarrow> removeImmutable rs g k' p) =
      filter (\<lambda>k'. k' \<noteq> k) (map imf_key rs)" for rs k
    by (cases k; induction rs) (auto simp: removeImmutable_def imf_key_def)
  show "map imf_key (upsertImmutable rs e) =
      (if imf_key e \<in> set (map imf_key rs) then map imf_key rs else map imf_key rs @ [imf_key e])" for rs e
    by (induction rs) (auto simp: imf_key_def)
qed

lemma ResolveStateBearingKinds_overlay:
  "ResolveStateBearingKinds (Some c) defaults =
     state_bearing.overlay defaults (map sbe_key (sbk_Suppress (cfg_StateBearingKinds c)))
       (sbk_Append (cfg_StateBearingKinds c))"
  by (simp add: ResolveStateBearingKinds_def state_bearing.overlay_def foldl_map sbe_key_def)

lemma ResolveImmutableFields_overlay:
  "ResolveImmutableFields (Some c) builtins =
     immutable.overlay builtins (suppress_triples (cfg_ImmutableFields c))
       (append_entries (cfg_ImmutableFields c))"
  by (simp add: ResolveImmutableFields_def immutable.overlay_def split_beta)

lemma first_error_None: "first_error f i xs = None \<Longrightarrow> x \<in> set xs \<Longrightarrow> \<exists>j. f j x = None"
  by (induction xs arbitrary: i) (auto split: option.splits)

text \<open>
  In a validated configuration the defensive branch of \<open>splitGVK\<close> is unreachable:
  the kind of an immutable-field entry has no slash in it.
\<close>

lemma validate_gvk:
  assumes "validate cfg = Inr cfg'" "e \<in> set (cfg_ImmutableFields cfg')"
  shows "CHR ''/'' \<notin> set (snd (snd (splitGVK (ife_GVK e))))"
proof -
  have "first_error immutable_entry_error 0 (cfg_ImmutableFields cfg') = None"
    using assms(1) by (auto simp: validate_def Let_def split: if_splits option.splits)
  then obtain j where "immutable_entry_error j e = None"
    using first_error_None assms(2) by metis
  then have "length (Split (ife_GVK e) ''/'') \<le> 3"
    by (auto simp: immutable_entry_error_def Let_def split: if_splits)
  moreover have "\<forall>p \<in> set (Split (ife_GVK e) ''/''). CHR ''/'' \<notin> set p"
    using Split_pieces_free by blast
  ultimately show ?thesis
    by (auto simp: splitGVK_def split: list.splits)
qed

section \<open>Properties\<close>

text \<open>
  The resolved state-bearing kinds are exactly the built-in ones that are
  not suppressed, together with every appended one: a kind that is both appended
  and suppressed ends up \<^emph>\<open>in\<close> the list, because the appends run last.  No
  (group, kind) is listed twice if the built-ins are not.
\<close>

theorem ResolveStateBearingKinds_members:
  assumes "distinct (map gk_key defaults)"
  shows "gk_key ` set (ResolveStateBearingKinds (Some c) defaults) =
           (gk_key ` set defaults - sbe_key ` set (sbk_Suppress (cfg_StateBearingKinds c)))
           \<union> sbe_key ` set (sbk_Append (cfg_StateBearingKinds c)) \<and>
         distinct (map gk_key (ResolveStateBearingKinds (Some c) defaults))"
  using state_bearing.keys_overlay[of defaults] state_bearing.distinct_overlay[OF assms]
  by (simp add: ResolveStateBearingKinds_overlay)

theorem ResolveStateBearingKinds_members_witness:
  "(''rds.aws'', ''Cluster'') \<in>
     gk_key ` set (ResolveStateBearingKinds
       (Some (Default\<lparr>cfg_StateBearingKinds :=
         \<lparr>sbk_Append = [\<lparr>sbe_Group = ''rds.aws'', sbe_Kind = ''Cluster''\<rparr>],
          sbk_Suppress = [\<lparr>sbe_Group = ''rds.aws'', sbe_Kind = ''Cluster''\<rparr>]\<rparr>\<rparr>))
       [\<lparr>gk_Group = ''rds.aws'', gk_Kind = ''Cluster''\<rparr>])"
  using ResolveStateBearingKinds_members
    [of "[\<lparr>gk_Group = ''rds.aws'', gk_Kind = ''Cluster''\<rparr>]"
       "Default\<lparr>cfg_StateBearingKinds :=
         \<lparr>sbk_Append = [\<lparr>sbe_Group = ''rds.aws'', sbe_Kind = ''Cluster''\<rparr>],
          sbk_Suppress = [\<lparr>sbe_Group = ''rds.aws'', sbe_Kind = ''Cluster''\<rparr>]\<rparr>\<rparr>"]
  by (simp add: sbe_key_def)

text \<open>
  The resolved immutable-field registry has exactly the unsuppressed
  built-in (group, kind, path) keys and the keys of the user's appended entries,
  each at most once.
\<close>

theorem ResolveImmutableFields_keys:
  assumes "distinct (map imf_key builtins)"
  shows "imf_key ` set (ResolveImmutableFields (Some c) builtins) =
           (imf_key ` set builtins - set (suppress_triples (cfg_ImmutableFields c)))
           \<union> imf_key ` set (append_entries (cfg_ImmutableFields c)) \<and>
         distinct (map imf_key (ResolveImmutableFields (Some c) builtins))"
  using immutable.keys_overlay[of builtins] immutable.distinct_overlay[OF assms]
  by (simp add: ResolveImmutableFields_overlay)

theorem ResolveImmutableFields_keys_witness:
  "imf_key ` set (ResolveImmutableFields (Some Default)
     [\<lparr>imf_Group = [], imf_Kind = ''Service'', imf_FieldPath = ''spec.clusterIP'', imf_Reason = []\<rparr>]) =
   {([], ''Service'', ''spec.clusterIP'')}"
  using ResolveImmutableFields_keys
    [of "[\<lparr>imf_Group = [], imf_Kind = ''Service'', imf_FieldPath = ''spec.clusterIP'', imf_Reason = []\<rparr>]" Default]
  by (simp add: imf_key_def Default_def suppress_triples_def append_entries_def)

text \<open>
  An absent xpc.yaml behaves like the default configuration: every resolver
  returns the same on no configuration and on \<open>Default\<close>.
\<close>

theorem Default_equals_absent:
  "ResolveProdPatterns (Some Default) = ResolveProdPatterns None \<and>
   ResolveExternalSecretStoreNames (Some Default) = ResolveExternalSecretStoreNames None \<and>
   ResolveEnvLabel (Some Default) = ResolveEnvLabel None \<and>
   ResolveAllowedProviderConfigs (Some Default) = ResolveAllowedProviderConfigs None \<and>
   ResolveAllowDeleteKeys (Some Default) = ResolveAllowDeleteKeys None \<and>
   ResolveAllowImmutableChangeKeys (Some Default) = ResolveAllowImmutableChangeKeys None \<and>
   ResolveCrossplaneStateNeedsOrphanCarveouts (Some Default) =
     ResolveCrossplaneStateNeedsOrphanCarveouts None \<and>
   ResolveImmutableFields (Some Default) builtins = ResolveImmutableFields None builtins \<and>
   ResolveStateBearingKinds (Some Default) defaults = ResolveStateBearingKinds None defaults"
  by (simp add: Default_def ResolveProdPatterns_def ResolveExternalSecretStoreNames_def
      ResolveEnvLabel_def ResolveAllowedProviderConfigs_def ResolveAllowDeleteKeys_def
      ResolveAllowImmutableChangeKeys_def ResolveCrossplaneStateNeedsOrphanCarveouts_def
      ResolveImmutableFields_def ResolveStateBearingKinds_def mergeBypass_def no_bypass_def
      suppress_triples_def append_entries_def add_unique_def defaultAllowDeleteAliases_def
      defaultAllowImmutableChangeAliases_def defaultCrossplaneStateNeedsOrphanCarveouts_def
      defaultProdAppSetNameSubstrings_def defaultAllowDeletePrimary_def
      defaultAllowImmutableChangePrimary_def)

text \<open>
  The bypass keys of a slot: the user's primary when one is set and the
  built-in otherwise, first; then every non-empty alias; no key twice and never
  the empty key, so an absent annotation can not count as a bypass.
\<close>

theorem mergeBypass_keys:
  assumes "builtinPrimary \<noteq> []"
  shows "\<exists>rest. mergeBypass builtinPrimary builtinAliases user =
           (if bkc_Primary user \<noteq> [] then bkc_Primary user else builtinPrimary) # rest \<and>
         set (mergeBypass builtinPrimary builtinAliases user) =
           insert (if bkc_Primary user \<noteq> [] then bkc_Primary user else builtinPrimary)
             ((set builtinAliases \<union> set (bkc_Aliases user)) - {[]}) \<and>
         distinct (mergeBypass builtinPrimary builtinAliases user) \<and>
         [] \<notin> set (mergeBypass builtinPrimary builtinAliases user)"
proof -
  define p where "p = (if bkc_Primary user \<noteq> [] then bkc_Primary user else builtinPrimary)"
  have p: "p \<noteq> []" using assms by (simp add: p_def)
  have m: "mergeBypass builtinPrimary builtinAliases user =
      foldl add_unique (foldl add_unique [p] builtinAliases) (bkc_Aliases user)"
    using p by (simp add: mergeBypass_def Let_def p_def)
  obtain r1 where r1: "foldl add_unique [p] builtinAliases = [p] @ r1"
    using add_unique_foldl(3) by blast
  obtain r2 where r2: "foldl add_unique ([p] @ r1) (bkc_Aliases user) = ([p] @ r1) @ r2"
    using add_unique_foldl(3) by blast
  have "\<exists>rest. mergeBypass builtinPrimary builtinAliases user = p # rest" using m r1 r2 by simp
  moreover have "set (mergeBypass builtinPrimary builtinAliases user) =
      insert p ((set builtinAliases \<union> set (bkc_Aliases user)) - {[]})"
    unfolding m add_unique_foldl(1) by auto
  moreover have "distinct (mergeBypass builtinPrimary builtinAliases user)"
    unfolding m by (intro add_unique_foldl(2)) simp
  moreover have "[] \<notin> set (mergeBypass builtinPrimary builtinAliases user)"
    unfolding m using p by (intro add_unique_foldl(4)) simp
  ultimately show ?thesis unfolding p_def by blast
qed

theorem mergeBypass_keys_witness:
  "distinct (mergeBypass ''xpc.io/allow-delete'' [] \<lparr>bkc_Primary = [], bkc_Aliases = [''a'', ''a'', []]\<rparr>) \<and>
   [] \<notin> set (mergeBypass ''xpc.io/allow-delete'' [] \<lparr>bkc_Primary = [], bkc_Aliases = [''a'', ''a'', []]\<rparr>)"
  using mergeBypass_keys[of "''xpc.io/allow-delete''" "[]" "\<lparr>bkc_Primary = [], bkc_Aliases = [''a'', ''a'', []]\<rparr>"]
  by blast

end
