(* ===== verification/Registries.thy ===== *)
theory Registries
  imports Config
begin

text \<open>
  The static catalogues of \<^verbatim>\<open>pkg/ir/*_registry.go\<close>, row for row.  Bytes outside
  plain ASCII letters and punctuation (arrows, quotes) are spelled as character
  codes of their UTF-8 encoding.
\<close>

definition StateBearingKindsRegistry :: "ArgoGroupKind list" where
  "StateBearingKindsRegistry = [
     \<lparr>gk_Group = ''rds.aws.upbound.io'',
      gk_Kind = ''Cluster''\<rparr>,
     \<lparr>gk_Group = ''rds.aws.upbound.io'',
      gk_Kind = ''ClusterInstance''\<rparr>,
     \<lparr>gk_Group = ''docdb.aws.upbound.io'',
      gk_Kind = ''Cluster''\<rparr>,
     \<lparr>gk_Group = ''docdb.aws.upbound.io'',
      gk_Kind = ''ClusterInstance''\<rparr>,
     \<lparr>gk_Group = ''mysql.sql.crossplane.io'',
      gk_Kind = ''Database''\<rparr>,
     \<lparr>gk_Group = ''mysql.sql.crossplane.io'',
      gk_Kind = ''User''\<rparr>,
     \<lparr>gk_Group = ''mysql.sql.crossplane.io'',
      gk_Kind = ''Grant''\<rparr>,
     \<lparr>gk_Group = ''kms.aws.upbound.io'',
      gk_Kind = ''Key''\<rparr>,
     \<lparr>gk_Group = ''s3.aws.upbound.io'',
      gk_Kind = ''Bucket''\<rparr>,
     \<lparr>gk_Group = ''ec2.aws.upbound.io'',
      gk_Kind = ''VPC''\<rparr>]"

definition ImmutableFieldRegistry :: "ImmutableField list" where
  "ImmutableFieldRegistry = [
     \<lparr>imf_Group = [],
      imf_Kind = ''Service'',
      imf_FieldPath = ''spec.clusterIP'',
      imf_Reason = ''Service ClusterIP is immutable after create; changing it requires recreate''\<rparr>,
     \<lparr>imf_Group = [],
      imf_Kind = ''Service'',
      imf_FieldPath = ''spec.type'',
      imf_Reason = ''Service type changes from/to ExternalName are not allowed in-place''\<rparr>,
     \<lparr>imf_Group = [],
      imf_Kind = ''PersistentVolumeClaim'',
      imf_FieldPath = ''spec.storageClassName'',
      imf_Reason = ''PVC StorageClassName is immutable after create''\<rparr>,
     \<lparr>imf_Group = [],
      imf_Kind = ''PersistentVolumeClaim'',
      imf_FieldPath = ''spec.accessModes'',
      imf_Reason = ''PVC AccessModes are immutable after create''\<rparr>,
     \<lparr>imf_Group = ''batch'',
      imf_Kind = ''Job'',
      imf_FieldPath = ''spec.selector'',
      imf_Reason = ''Job Selector is immutable after create''\<rparr>,
     \<lparr>imf_Group = ''batch'',
      imf_Kind = ''Job'',
      imf_FieldPath = ''spec.template'',
      imf_Reason = ''Job Template is immutable after create''\<rparr>,
     \<lparr>imf_Group = ''apps'',
      imf_Kind = ''StatefulSet'',
      imf_FieldPath = ''spec.serviceName'',
      imf_Reason = ''StatefulSet ServiceName is immutable after create''\<rparr>,
     \<lparr>imf_Group = ''apps'',
      imf_Kind = ''StatefulSet'',
      imf_FieldPath = ''spec.volumeClaimTemplates'',
      imf_Reason = ''StatefulSet VolumeClaimTemplates are immutable after create''\<rparr>,
     \<lparr>imf_Group = ''rds.aws.upbound.io'',
      imf_Kind = ''Cluster'',
      imf_FieldPath = ''spec.forProvider.engine'',
      imf_Reason = ''RDS Cluster engine is immutable after create; changing it requires DeleteCluster + CreateCluster (data loss)''\<rparr>,
     \<lparr>imf_Group = ''rds.aws.upbound.io'',
      imf_Kind = ''Cluster'',
      imf_FieldPath = ''spec.forProvider.engineMode'',
      imf_Reason = ''RDS Cluster engineMode (provisioned/serverless) is immutable after create''\<rparr>,
     \<lparr>imf_Group = ''rds.aws.upbound.io'',
      imf_Kind = ''Cluster'',
      imf_FieldPath = ''spec.forProvider.dbClusterIdentifier'',
      imf_Reason = ''RDS Cluster dbClusterIdentifier is the external name; changing it detaches the CR from the live cluster''\<rparr>,
     \<lparr>imf_Group = ''rds.aws.upbound.io'',
      imf_Kind = ''Cluster'',
      imf_FieldPath = ''spec.forProvider.masterUsername'',
      imf_Reason = ''RDS Cluster masterUsername is immutable after create''\<rparr>,
     \<lparr>imf_Group = ''rds.aws.upbound.io'',
      imf_Kind = ''Cluster'',
      imf_FieldPath = ''spec.forProvider.storageEncrypted'',
      imf_Reason = ''RDS Cluster storageEncrypted is immutable after create; toggling requires full recreate''\<rparr>,
     \<lparr>imf_Group = ''rds.aws.upbound.io'',
      imf_Kind = ''Cluster'',
      imf_FieldPath = ''spec.forProvider.kmsKeyId'',
      imf_Reason = ''RDS Cluster kmsKeyId is immutable after create; re-keying requires snapshot + restore''\<rparr>,
     \<lparr>imf_Group = ''rds.aws.upbound.io'',
      imf_Kind = ''ClusterInstance'',
      imf_FieldPath = ''spec.forProvider.clusterIdentifier'',
      imf_Reason = ''RDS ClusterInstance clusterIdentifier pins the instance to its cluster; changing it is a destructive re-parent''\<rparr>,
     \<lparr>imf_Group = ''rds.aws.upbound.io'',
      imf_Kind = ''ClusterInstance'',
      imf_FieldPath = ''spec.forProvider.engine'',
      imf_Reason = ''RDS ClusterInstance engine must match its Cluster; changing it requires recreate''\<rparr>,
     \<lparr>imf_Group = ''docdb.aws.upbound.io'',
      imf_Kind = ''Cluster'',
      imf_FieldPath = ''spec.forProvider.engine'',
      imf_Reason = ''DocDB Cluster engine is immutable after create; changing it requires DeleteCluster + CreateCluster (data loss)''\<rparr>,
     \<lparr>imf_Group = ''docdb.aws.upbound.io'',
      imf_Kind = ''Cluster'',
      imf_FieldPath = ''spec.forProvider.engineMode'',
      imf_Reason = ''DocDB Cluster engineMode is immutable after create''\<rparr>,
     \<lparr>imf_Group = ''docdb.aws.upbound.io'',
      imf_Kind = ''Cluster'',
      imf_FieldPath = ''spec.forProvider.dbClusterIdentifier'',
      imf_Reason = ''DocDB Cluster dbClusterIdentifier is the external name; changing it detaches the CR from the live cluster''\<rparr>,
     \<lparr>imf_Group = ''docdb.aws.upbound.io'',
      imf_Kind = ''Cluster'',
      imf_FieldPath = ''spec.forProvider.masterUsername'',
      imf_Reason = ''DocDB Cluster masterUsername is immutable after create''\<rparr>,
     \<lparr>imf_Group = ''docdb.aws.upbound.io'',
      imf_Kind = ''Cluster'',
      imf_FieldPath = ''spec.forProvider.storageEncrypted'',
      imf_Reason = ''DocDB Cluster storageEncrypted is immutable after create; toggling requires full recreate''\<rparr>,
     \<lparr>imf_Group = ''docdb.aws.upbound.io'',
      imf_Kind = ''Cluster'',
      imf_FieldPath = ''spec.forProvider.kmsKeyId'',
      imf_Reason = ''DocDB Cluster kmsKeyId is immutable after create''\<rparr>,
     \<lparr>imf_Group = ''docdb.aws.upbound.io'',
      imf_Kind = ''ClusterInstance'',
      imf_FieldPath = ''spec.forProvider.clusterIdentifier'',
      imf_Reason = ''DocDB ClusterInstance clusterIdentifier pins the instance to its cluster; changing it is a destructive re-parent''\<rparr>,
     \<lparr>imf_Group = ''docdb.aws.upbound.io'',
      imf_Kind = ''ClusterInstance'',
      imf_FieldPath = ''spec.forProvider.engine'',
      imf_Reason = ''DocDB ClusterInstance engine must match its Cluster; changing it requires recreate''\<rparr>,
     \<lparr>imf_Group = ''s3.aws.upbound.io'',
      imf_Kind = ''Bucket'',
      imf_FieldPath = ''spec.forProvider.bucket'',
      imf_Reason = ''S3 Bucket name is globally unique and immutable after create; changing it means DeleteBucket + CreateBucket''\<rparr>,
     \<lparr>imf_Group = ''s3.aws.upbound.io'',
      imf_Kind = ''Bucket'',
      imf_FieldPath = ''spec.forProvider.region'',
      imf_Reason = ''S3 Bucket region is immutable after create; a region change is a destructive rehost''\<rparr>,
     \<lparr>imf_Group = ''s3.aws.upbound.io'',
      imf_Kind = ''Bucket'',
      imf_FieldPath = ''spec.forProvider.objectLockEnabled'',
      imf_Reason = ''S3 Bucket objectLockEnabled can only be set at create time; flipping it requires bucket recreate''\<rparr>,
     \<lparr>imf_Group = ''kms.aws.upbound.io'',
      imf_Kind = ''Key'',
      imf_FieldPath = ''spec.forProvider.keyUsage'',
      imf_Reason = ''KMS Key keyUsage (ENCRYPT_DECRYPT vs SIGN_VERIFY) is immutable after create''\<rparr>,
     \<lparr>imf_Group = ''kms.aws.upbound.io'',
      imf_Kind = ''Key'',
      imf_FieldPath = ''spec.forProvider.customerMasterKeySpec'',
      imf_Reason = ''KMS Key customerMasterKeySpec is immutable after create; re-speccing requires a new key''\<rparr>,
     \<lparr>imf_Group = ''ec2.aws.upbound.io'',
      imf_Kind = ''VPC'',
      imf_FieldPath = ''spec.forProvider.cidrBlock'',
      imf_Reason = ''VPC cidrBlock is the network identity and is immutable after create''\<rparr>,
     \<lparr>imf_Group = ''ec2.aws.upbound.io'',
      imf_Kind = ''VPC'',
      imf_FieldPath = ''spec.forProvider.instanceTenancy'',
      imf_Reason = ''VPC instanceTenancy is immutable after create (default vs dedicated)''\<rparr>,
     \<lparr>imf_Group = ''mysql.sql.crossplane.io'',
      imf_Kind = ''Database'',
      imf_FieldPath = ''spec.forProvider.name'',
      imf_Reason = ''mysql Database name is the external identity; changing it drops the database and creates a fresh empty one''\<rparr>]"

definition LateInitRegistry :: "LateInitMapping list" where
  "LateInitRegistry = [
     \<lparr>lim_Group = ''elbv2.aws.upbound.io'',
      lim_Kind = ''LB'',
      lim_FieldPath = ''spec.forProvider.clientKeepAlive'',
      lim_FixPattern = ''ignoreDifferences'',
      lim_Reason = ''ALB clientKeepAlive late-init from AWS state; MR !1048''\<rparr>,
     \<lparr>lim_Group = ''elbv2.aws.upbound.io'',
      lim_Kind = ''LB'',
      lim_FieldPath = ''spec.forProvider.idleTimeout'',
      lim_FixPattern = ''ignoreDifferences'',
      lim_Reason = ''ALB idleTimeout late-init from AWS state; MR !1048''\<rparr>,
     \<lparr>lim_Group = ''elbv2.aws.upbound.io'',
      lim_Kind = ''LB'',
      lim_FieldPath = ''spec.forProvider.enableHttp2'',
      lim_FixPattern = ''ignoreDifferences'',
      lim_Reason = ''ALB enableHttp2 late-init from AWS state; MR !1048''\<rparr>,
     \<lparr>lim_Group = ''elbv2.aws.upbound.io'',
      lim_Kind = ''LB'',
      lim_FieldPath = ''spec.forProvider.ipAddressType'',
      lim_FixPattern = ''ignoreDifferences'',
      lim_Reason = ''ALB ipAddressType late-init from AWS state; MR !1048''\<rparr>,
     \<lparr>lim_Group = ''ec2.aws.upbound.io'',
      lim_Kind = ''LaunchTemplate'',
      lim_FieldPath = ''spec.forProvider.name'',
      lim_FixPattern = ''ignoreDifferences'',
      lim_Reason = ''LaunchTemplate name late-init from AWS state; MR !893''\<rparr>,
     \<lparr>lim_Group = ''ec2.aws.upbound.io'',
      lim_Kind = ''LaunchTemplate'',
      lim_FieldPath = ''spec.forProvider.tags'',
      lim_FixPattern = ''ignoreDifferences'',
      lim_Reason = ''LaunchTemplate tags late-init from AWS state; MR !893''\<rparr>,
     \<lparr>lim_Group = ''ecs.aws.upbound.io'',
      lim_Kind = ''Service'',
      lim_FieldPath = ''spec.forProvider.iamRole'',
      lim_FixPattern = ''omit-late-initialize'',
      lim_Reason = ''Fargate Service iamRole late-init breaks rotation; MR !1502''\<rparr>]"

definition SelectorRegistry :: "SelectorMapping list" where
  "SelectorRegistry = [
     \<lparr>sm_Group = ''autoscaling.aws.upbound.io'',
      sm_Kind = ''AutoscalingGroup'',
      sm_SelectorPath = ''spec.forProvider.vpcZoneIdentifierSelector'',
      sm_ResolvedPath = ''spec.forProvider.vpcZoneIdentifier'',
      sm_Reason = ''Crossplane resolves selector to subnet-ID list; Argo sees it as '' @ [CHR 0x27] @ ''added'' @ [CHR 0x27] @ '' and fights forever. commit 3ea4b28d0 (!1344)''\<rparr>,
     \<lparr>sm_Group = ''autoscaling.aws.upbound.io'',
      sm_Kind = ''AutoscalingGroup'',
      sm_SelectorPath = ''spec.forProvider.vpcZoneIdentifierSelector'',
      sm_ResolvedPath = ''spec.forProvider.vpcZoneIdentifierRefs'',
      sm_Reason = ''Sibling Refs array also populated by Crossplane; same drift as the primitive. commit 037988f54 (!1250)''\<rparr>,
     \<lparr>sm_Group = ''autoscaling.aws.upbound.io'',
      sm_Kind = ''AutoscalingGroup'',
      sm_SelectorPath = ''spec.forProvider.launchTemplate[].idSelector'',
      sm_ResolvedPath = ''spec.forProvider.launchTemplate[].id'',
      sm_Reason = ''Selector resolves to LaunchTemplate ID; Argo fights the resolved literal. commit 7aa6deb4e (!1341)''\<rparr>,
     \<lparr>sm_Group = ''autoscaling.aws.upbound.io'',
      sm_Kind = ''AutoscalingGroup'',
      sm_SelectorPath = ''spec.forProvider.launchTemplate[].idSelector'',
      sm_ResolvedPath = ''spec.forProvider.launchTemplate[].idRef'',
      sm_Reason = ''Sibling Ref field populated alongside the ID; drift observed. commit 7ac5a5f14 (!883)''\<rparr>,
     \<lparr>sm_Group = ''autoscaling.aws.upbound.io'',
      sm_Kind = ''AutoscalingGroup'',
      sm_SelectorPath = ''spec.forProvider.launchTemplate[].idSelector'',
      sm_ResolvedPath = ''spec.forProvider.launchTemplate[].name'',
      sm_Reason = ''Upbound sometimes late-inits the name field when ID is selector-resolved. commit 7887c0510''\<rparr>,
     \<lparr>sm_Group = ''autoscaling.aws.upbound.io'',
      sm_Kind = ''Attachment'',
      sm_SelectorPath = ''spec.forProvider.autoscalingGroupNameSelector'',
      sm_ResolvedPath = ''spec.forProvider.autoscalingGroupName'',
      sm_Reason = ''Selector resolves to ASG name; Argo drift on attachment. CRD-doc (egress-proxy-prod.yaml)''\<rparr>,
     \<lparr>sm_Group = ''autoscaling.aws.upbound.io'',
      sm_Kind = ''Attachment'',
      sm_SelectorPath = ''spec.forProvider.lbTargetGroupArnSelector'',
      sm_ResolvedPath = ''spec.forProvider.lbTargetGroupArn'',
      sm_Reason = ''Selector resolves to target-group ARN on ASG'' @ [CHR 0xE2, CHR 0x86, CHR 0x92] @ ''LB attachment. CRD-doc (egress-proxy-prod.yaml)''\<rparr>,
     \<lparr>sm_Group = ''ec2.aws.upbound.io'',
      sm_Kind = ''LaunchTemplate'',
      sm_SelectorPath = ''spec.forProvider.networkInterfaces[].subnetIdSelector'',
      sm_ResolvedPath = ''spec.forProvider.networkInterfaces[].subnetId'',
      sm_Reason = ''Late-init resolves subnet selector into concrete ID on network interface. commit 36ca77765 (!890)''\<rparr>,
     \<lparr>sm_Group = ''ec2.aws.upbound.io'',
      sm_Kind = ''LaunchTemplate'',
      sm_SelectorPath = ''spec.forProvider.networkInterfaces[].subnetIdSelector'',
      sm_ResolvedPath = ''spec.forProvider.networkInterfaces[].subnetIdRef'',
      sm_Reason = ''Ref sibling populated by same resolution. commit 36ca77765 (!890)''\<rparr>,
     \<lparr>sm_Group = ''ec2.aws.upbound.io'',
      sm_Kind = ''LaunchTemplate'',
      sm_SelectorPath = ''spec.forProvider.networkInterfaces[].securityGroupSelector'',
      sm_ResolvedPath = ''spec.forProvider.networkInterfaces[].securityGroups'',
      sm_Reason = ''Resolves selector to securityGroups (real field, not '' @ [CHR 0x27] @ ''groups'' @ [CHR 0x27] @ ''). commit 36ca77765 / bf4d9244e (!890)''\<rparr>,
     \<lparr>sm_Group = ''ec2.aws.upbound.io'',
      sm_Kind = ''LaunchTemplate'',
      sm_SelectorPath = ''spec.forProvider.networkInterfaces[].securityGroupSelector'',
      sm_ResolvedPath = ''spec.forProvider.networkInterfaces[].securityGroupRefs'',
      sm_Reason = ''Sibling Refs array populated. commit 36ca77765 (!890)''\<rparr>,
     \<lparr>sm_Group = ''ec2.aws.upbound.io'',
      sm_Kind = ''LaunchTemplate'',
      sm_SelectorPath = ''spec.forProvider.iamInstanceProfile[].nameSelector'',
      sm_ResolvedPath = ''spec.forProvider.iamInstanceProfile[].name'',
      sm_Reason = ''Late-init resolves IAM instance profile reference. commit 36ca77765 (!890)''\<rparr>,
     \<lparr>sm_Group = ''ec2.aws.upbound.io'',
      sm_Kind = ''LaunchTemplate'',
      sm_SelectorPath = ''spec.forProvider.iamInstanceProfile[].nameSelector'',
      sm_ResolvedPath = ''spec.forProvider.iamInstanceProfile[].nameRef'',
      sm_Reason = ''Ref sibling. commit 36ca77765 (!890)''\<rparr>,
     \<lparr>sm_Group = ''ec2.aws.upbound.io'',
      sm_Kind = ''LaunchTemplate'',
      sm_SelectorPath = ''spec.forProvider.iamInstanceProfile[].arnSelector'',
      sm_ResolvedPath = ''spec.forProvider.iamInstanceProfile[].arn'',
      sm_Reason = ''Upbound also resolves the sibling ARN path. commit 36ca77765 (!890)''\<rparr>,
     \<lparr>sm_Group = ''ec2.aws.upbound.io'',
      sm_Kind = ''VPCEndpoint'',
      sm_SelectorPath = ''spec.forProvider.vpcIdSelector'',
      sm_ResolvedPath = ''spec.forProvider.vpcId'',
      sm_Reason = ''Selector resolves to VPC ID; removed from live spec after reconcile. commit 7ac5a5f14 (!1250)''\<rparr>,
     \<lparr>sm_Group = ''ec2.aws.upbound.io'',
      sm_Kind = ''VPCEndpoint'',
      sm_SelectorPath = ''spec.forProvider.subnetIdSelector'',
      sm_ResolvedPath = ''spec.forProvider.subnetIds'',
      sm_Reason = ''Selector '' @ [CHR 0xE2, CHR 0x86, CHR 0x92] @ '' plural subnet IDs on Interface endpoints; Argo sees list as added. commit 7ac5a5f14 (!1250)''\<rparr>,
     \<lparr>sm_Group = ''ec2.aws.upbound.io'',
      sm_Kind = ''VPCEndpoint'',
      sm_SelectorPath = ''spec.forProvider.routeTableIdSelector'',
      sm_ResolvedPath = ''spec.forProvider.routeTableIds'',
      sm_Reason = ''Selector '' @ [CHR 0xE2, CHR 0x86, CHR 0x92] @ '' plural route-table IDs on Gateway endpoints. commit 7ac5a5f14 (!1250)''\<rparr>,
     \<lparr>sm_Group = ''ec2.aws.upbound.io'',
      sm_Kind = ''VPCEndpoint'',
      sm_SelectorPath = ''spec.forProvider.securityGroupIdSelector'',
      sm_ResolvedPath = ''spec.forProvider.securityGroupIds'',
      sm_Reason = ''Selector '' @ [CHR 0xE2, CHR 0x86, CHR 0x92] @ '' plural SG IDs on Interface endpoints. commit 7ac5a5f14 (!1250)''\<rparr>,
     \<lparr>sm_Group = ''ec2.aws.upbound.io'',
      sm_Kind = ''SecurityGroup'',
      sm_SelectorPath = ''spec.forProvider.vpcIdSelector'',
      sm_ResolvedPath = ''spec.forProvider.vpcId'',
      sm_Reason = ''Selector resolves to concrete VPC ID. CRD-doc (securitygroups-prod.yaml)''\<rparr>,
     \<lparr>sm_Group = ''ec2.aws.upbound.io'',
      sm_Kind = ''SecurityGroupRule'',
      sm_SelectorPath = ''spec.forProvider.securityGroupIdSelector'',
      sm_ResolvedPath = ''spec.forProvider.securityGroupId'',
      sm_Reason = ''Selector resolves to the referenced SG'' @ [CHR 0x27] @ ''s ID. CRD-doc (securitygroups-prod.yaml)''\<rparr>,
     \<lparr>sm_Group = ''ec2.aws.upbound.io'',
      sm_Kind = ''SecurityGroupRule'',
      sm_SelectorPath = ''spec.forProvider.sourceSecurityGroupIdSelector'',
      sm_ResolvedPath = ''spec.forProvider.sourceSecurityGroupId'',
      sm_Reason = ''Cross-SG reference selector '' @ [CHR 0xE2, CHR 0x86, CHR 0x92] @ '' concrete ID. CRD-doc (securitygroups-prod.yaml)''\<rparr>,
     \<lparr>sm_Group = ''ec2.aws.upbound.io'',
      sm_Kind = ''Route'',
      sm_SelectorPath = ''spec.forProvider.routeTableIdSelector'',
      sm_ResolvedPath = ''spec.forProvider.routeTableId'',
      sm_Reason = ''Route'' @ [CHR 0x27] @ ''s parent table selector '' @ [CHR 0xE2, CHR 0x86, CHR 0x92] @ '' ID. CRD-doc (vpc-prod.yaml)''\<rparr>,
     \<lparr>sm_Group = ''ec2.aws.upbound.io'',
      sm_Kind = ''Route'',
      sm_SelectorPath = ''spec.forProvider.gatewayIdSelector'',
      sm_ResolvedPath = ''spec.forProvider.gatewayId'',
      sm_Reason = ''IGW/VGW selector '' @ [CHR 0xE2, CHR 0x86, CHR 0x92] @ '' concrete gateway ID. CRD-doc (vpc-prod.yaml)''\<rparr>,
     \<lparr>sm_Group = ''ec2.aws.upbound.io'',
      sm_Kind = ''Route'',
      sm_SelectorPath = ''spec.forProvider.natGatewayIdSelector'',
      sm_ResolvedPath = ''spec.forProvider.natGatewayId'',
      sm_Reason = ''NAT-gateway selector '' @ [CHR 0xE2, CHR 0x86, CHR 0x92] @ '' concrete ID. CRD-doc (vpc-prod.yaml)''\<rparr>,
     \<lparr>sm_Group = ''ec2.aws.upbound.io'',
      sm_Kind = ''Route'',
      sm_SelectorPath = ''spec.forProvider.vpcPeeringConnectionIdSelector'',
      sm_ResolvedPath = ''spec.forProvider.vpcPeeringConnectionId'',
      sm_Reason = ''Peering-connection selector '' @ [CHR 0xE2, CHR 0x86, CHR 0x92] @ '' concrete ID. CRD-doc (vpc-peering-ops-preview.yaml)''\<rparr>,
     \<lparr>sm_Group = ''ec2.aws.upbound.io'',
      sm_Kind = ''RouteTableAssociation'',
      sm_SelectorPath = ''spec.forProvider.routeTableIdSelector'',
      sm_ResolvedPath = ''spec.forProvider.routeTableId'',
      sm_Reason = ''RT association selector '' @ [CHR 0xE2, CHR 0x86, CHR 0x92] @ '' ID. CRD-doc (vpc-prod.yaml)''\<rparr>,
     \<lparr>sm_Group = ''ec2.aws.upbound.io'',
      sm_Kind = ''RouteTableAssociation'',
      sm_SelectorPath = ''spec.forProvider.subnetIdSelector'',
      sm_ResolvedPath = ''spec.forProvider.subnetId'',
      sm_Reason = ''Subnet assoc selector '' @ [CHR 0xE2, CHR 0x86, CHR 0x92] @ '' ID. CRD-doc (vpc-prod.yaml)''\<rparr>,
     \<lparr>sm_Group = ''ec2.aws.upbound.io'',
      sm_Kind = ''NATGateway'',
      sm_SelectorPath = ''spec.forProvider.allocationIdSelector'',
      sm_ResolvedPath = ''spec.forProvider.allocationId'',
      sm_Reason = ''EIP allocation selector '' @ [CHR 0xE2, CHR 0x86, CHR 0x92] @ '' concrete allocation ID. CRD-doc (vpc-prod.yaml)''\<rparr>,
     \<lparr>sm_Group = ''ec2.aws.upbound.io'',
      sm_Kind = ''NATGateway'',
      sm_SelectorPath = ''spec.forProvider.subnetIdSelector'',
      sm_ResolvedPath = ''spec.forProvider.subnetId'',
      sm_Reason = ''NAT placement subnet selector '' @ [CHR 0xE2, CHR 0x86, CHR 0x92] @ '' ID. CRD-doc (vpc-prod.yaml)''\<rparr>,
     \<lparr>sm_Group = ''elbv2.aws.upbound.io'',
      sm_Kind = ''LB'',
      sm_SelectorPath = ''spec.forProvider.securityGroupSelector'',
      sm_ResolvedPath = ''spec.forProvider.securityGroups'',
      sm_Reason = ''Selector '' @ [CHR 0xE2, CHR 0x86, CHR 0x92] @ '' plural SG IDs; Argo sees list as added. commit 3ea4b28d0 ALB block (!1344)''\<rparr>,
     \<lparr>sm_Group = ''elbv2.aws.upbound.io'',
      sm_Kind = ''LB'',
      sm_SelectorPath = ''spec.forProvider.subnetMapping[].subnetIdSelector'',
      sm_ResolvedPath = ''spec.forProvider.subnetMapping[].subnetId'',
      sm_Reason = ''Subnet-mapping selector '' @ [CHR 0xE2, CHR 0x86, CHR 0x92] @ '' ID (ALB subnet list). commit 3ea4b28d0 ALB block (!1344)''\<rparr>,
     \<lparr>sm_Group = ''elbv2.aws.upbound.io'',
      sm_Kind = ''LB'',
      sm_SelectorPath = ''spec.forProvider.subnetMapping[].subnetIdSelector'',
      sm_ResolvedPath = ''spec.forProvider.subnetMapping[].subnetIdRef'',
      sm_Reason = ''Sibling Ref field populated. commit 3ea4b28d0 ALB block (!1344)''\<rparr>,
     \<lparr>sm_Group = ''elbv2.aws.upbound.io'',
      sm_Kind = ''LB'',
      sm_SelectorPath = ''spec.forProvider.subnetSelector'',
      sm_ResolvedPath = ''spec.forProvider.subnets'',
      sm_Reason = ''Shorthand subnet selector on LB '' @ [CHR 0xE2, CHR 0x86, CHR 0x92] @ '' plural subnets. commit 3ea4b28d0 ALB block (!1344)''\<rparr>,
     \<lparr>sm_Group = ''elbv2.aws.upbound.io'',
      sm_Kind = ''LBListener'',
      sm_SelectorPath = ''spec.forProvider.loadBalancerArnSelector'',
      sm_ResolvedPath = ''spec.forProvider.loadBalancerArn'',
      sm_Reason = ''Listener'' @ [CHR 0x27] @ ''s parent LB selector '' @ [CHR 0xE2, CHR 0x86, CHR 0x92] @ '' concrete ARN. CRD-doc (alb-prod.yaml)''\<rparr>,
     \<lparr>sm_Group = ''elbv2.aws.upbound.io'',
      sm_Kind = ''LBListenerCertificate'',
      sm_SelectorPath = ''spec.forProvider.listenerArnSelector'',
      sm_ResolvedPath = ''spec.forProvider.listenerArn'',
      sm_Reason = ''Listener ref selector '' @ [CHR 0xE2, CHR 0x86, CHR 0x92] @ '' ARN. CRD-doc (alb-prod.yaml)''\<rparr>,
     \<lparr>sm_Group = ''elbv2.aws.upbound.io'',
      sm_Kind = ''LBListenerRule'',
      sm_SelectorPath = ''spec.forProvider.action[].targetGroupArnSelector'',
      sm_ResolvedPath = ''spec.forProvider.action[].targetGroupArn'',
      sm_Reason = ''Forward-action target-group selector '' @ [CHR 0xE2, CHR 0x86, CHR 0x92] @ '' ARN. CRD-doc (composition-fargateapp-prod.yaml)''\<rparr>,
     \<lparr>sm_Group = ''rds.aws.upbound.io'',
      sm_Kind = ''ClusterInstance'',
      sm_SelectorPath = ''spec.forProvider.clusterIdentifierSelector'',
      sm_ResolvedPath = ''spec.forProvider.clusterIdentifier'',
      sm_Reason = ''ClusterInstance'' @ [CHR 0x27] @ ''s parent Cluster selector '' @ [CHR 0xE2, CHR 0x86, CHR 0x92] @ '' identifier. CRD-doc (cluster-instance.yaml)''\<rparr>,
     \<lparr>sm_Group = ''rds.aws.upbound.io'',
      sm_Kind = ''ClusterInstance'',
      sm_SelectorPath = ''spec.forProvider.monitoringRoleArnSelector'',
      sm_ResolvedPath = ''spec.forProvider.monitoringRoleArn'',
      sm_Reason = ''IAM role ARN selector '' @ [CHR 0xE2, CHR 0x86, CHR 0x92] @ '' concrete ARN. CRD-doc (cluster-instance.yaml)''\<rparr>,
     \<lparr>sm_Group = ''rds.aws.upbound.io'',
      sm_Kind = ''Cluster'',
      sm_SelectorPath = ''spec.forProvider.vpcSecurityGroupIdSelector'',
      sm_ResolvedPath = ''spec.forProvider.vpcSecurityGroupIds'',
      sm_Reason = ''Selector '' @ [CHR 0xE2, CHR 0x86, CHR 0x92] @ '' plural SG IDs on Aurora cluster. CRD-doc (aurora-prod-cluster.yaml)''\<rparr>,
     \<lparr>sm_Group = ''rds.aws.upbound.io'',
      sm_Kind = ''ProxyDefaultTargetGroup'',
      sm_SelectorPath = ''spec.forProvider.dbProxyNameSelector'',
      sm_ResolvedPath = ''spec.forProvider.dbProxyName'',
      sm_Reason = ''RDS proxy name selector '' @ [CHR 0xE2, CHR 0x86, CHR 0x92] @ '' concrete name. commit 7ac5a5f14 (!1250)''\<rparr>,
     \<lparr>sm_Group = ''rds.aws.upbound.io'',
      sm_Kind = ''ProxyTarget'',
      sm_SelectorPath = ''spec.forProvider.dbProxyNameSelector'',
      sm_ResolvedPath = ''spec.forProvider.dbProxyName'',
      sm_Reason = ''Same as ProxyDefaultTargetGroup. commit 7ac5a5f14 (!1250)''\<rparr>,
     \<lparr>sm_Group = ''rds.aws.upbound.io'',
      sm_Kind = ''Proxy'',
      sm_SelectorPath = ''spec.forProvider.roleArnSelector'',
      sm_ResolvedPath = ''spec.forProvider.roleArn'',
      sm_Reason = ''IAM role ARN selector '' @ [CHR 0xE2, CHR 0x86, CHR 0x92] @ '' concrete ARN. CRD-doc (rds-proxy-prod.yaml)''\<rparr>,
     \<lparr>sm_Group = ''rds.aws.upbound.io'',
      sm_Kind = ''Proxy'',
      sm_SelectorPath = ''spec.forProvider.vpcSecurityGroupIdSelector'',
      sm_ResolvedPath = ''spec.forProvider.vpcSecurityGroupIds'',
      sm_Reason = ''VPC SG selector '' @ [CHR 0xE2, CHR 0x86, CHR 0x92] @ '' plural IDs. CRD-doc (rds-proxy-prod.yaml)''\<rparr>,
     \<lparr>sm_Group = ''elasticache.aws.upbound.io'',
      sm_Kind = ''ReplicationGroup'',
      sm_SelectorPath = ''spec.forProvider.subnetGroupNameSelector'',
      sm_ResolvedPath = ''spec.forProvider.subnetGroupName'',
      sm_Reason = ''Subnet-group selector '' @ [CHR 0xE2, CHR 0x86, CHR 0x92] @ '' concrete name. CRD-doc (elasticache-prod-cluster.yaml)''\<rparr>,
     \<lparr>sm_Group = ''elasticache.aws.upbound.io'',
      sm_Kind = ''ReplicationGroup'',
      sm_SelectorPath = ''spec.forProvider.parameterGroupNameSelector'',
      sm_ResolvedPath = ''spec.forProvider.parameterGroupName'',
      sm_Reason = ''ParameterGroup selector drift; fg-manifold inlined literal name in 5e855ea4b (!1366)''\<rparr>,
     \<lparr>sm_Group = ''dms.aws.upbound.io'',
      sm_Kind = ''ReplicationInstance'',
      sm_SelectorPath = ''spec.forProvider.replicationSubnetGroupIdSelector'',
      sm_ResolvedPath = ''spec.forProvider.replicationSubnetGroupId'',
      sm_Reason = ''DMS subnet-group selector '' @ [CHR 0xE2, CHR 0x86, CHR 0x92] @ '' concrete ID. CRD-doc (dms-prod-replication-instance.yaml)''\<rparr>,
     \<lparr>sm_Group = ''dms.aws.upbound.io'',
      sm_Kind = ''ReplicationInstance'',
      sm_SelectorPath = ''spec.forProvider.vpcSecurityGroupIdSelector'',
      sm_ResolvedPath = ''spec.forProvider.vpcSecurityGroupIds'',
      sm_Reason = ''VPC SG selector '' @ [CHR 0xE2, CHR 0x86, CHR 0x92] @ '' plural IDs. CRD-doc (dms-prod-replication-instance.yaml)''\<rparr>,
     \<lparr>sm_Group = ''iam.aws.upbound.io'',
      sm_Kind = ''RolePolicyAttachment'',
      sm_SelectorPath = ''spec.forProvider.policyArnSelector'',
      sm_ResolvedPath = ''spec.forProvider.policyArn'',
      sm_Reason = ''Policy ARN selector '' @ [CHR 0xE2, CHR 0x86, CHR 0x92] @ '' concrete ARN. CRD-doc (irsa-role.yaml)''\<rparr>,
     \<lparr>sm_Group = ''iam.aws.upbound.io'',
      sm_Kind = ''RolePolicyAttachment'',
      sm_SelectorPath = ''spec.forProvider.roleSelector'',
      sm_ResolvedPath = ''spec.forProvider.role'',
      sm_Reason = ''Role name selector '' @ [CHR 0xE2, CHR 0x86, CHR 0x92] @ '' concrete name. CRD-doc (irsa-role.yaml)''\<rparr>,
     \<lparr>sm_Group = ''kms.aws.upbound.io'',
      sm_Kind = ''Alias'',
      sm_SelectorPath = ''spec.forProvider.targetKeyIdSelector'',
      sm_ResolvedPath = ''spec.forProvider.targetKeyId'',
      sm_Reason = ''KMS key-ID selector '' @ [CHR 0xE2, CHR 0x86, CHR 0x92] @ '' concrete ID. CRD-doc (kms-key.yaml)''\<rparr>,
     \<lparr>sm_Group = ''secretsmanager.aws.upbound.io'',
      sm_Kind = ''SecretVersion'',
      sm_SelectorPath = ''spec.forProvider.secretIdSelector'',
      sm_ResolvedPath = ''spec.forProvider.secretId'',
      sm_Reason = ''Secret selector '' @ [CHR 0xE2, CHR 0x86, CHR 0x92] @ '' concrete secret ID/ARN. CRD-doc (aurora-prod-app-user.yaml)''\<rparr>,
     \<lparr>sm_Group = ''wafv2.aws.upbound.io'',
      sm_Kind = ''WebACLAssociation'',
      sm_SelectorPath = ''spec.forProvider.webAclArnSelector'',
      sm_ResolvedPath = ''spec.forProvider.webAclArn'',
      sm_Reason = ''WAF WebACL selector '' @ [CHR 0xE2, CHR 0x86, CHR 0x92] @ '' concrete ARN. CRD-doc (alb-prod.yaml)''\<rparr>,
     \<lparr>sm_Group = ''projects.gitlab.m.crossplane.io'',
      sm_Kind = ''Project'',
      sm_SelectorPath = ''spec.forProvider.namespaceIdSelector'',
      sm_ResolvedPath = ''spec.forProvider.namespaceId'',
      sm_Reason = ''GitLab namespace selector '' @ [CHR 0xE2, CHR 0x86, CHR 0x92] @ '' concrete numeric ID. CRD-doc (projects/fg-ai.yaml); convention from !36''\<rparr>]"

definition CanonicalFormRegistry :: "CanonicalFormMapping list" where
  "CanonicalFormRegistry = [
     \<lparr>cfm_Group = ''ecs.aws.upbound.io'',
      cfm_Kind = ''Service'',
      cfm_FieldPath = ''spec.forProvider.taskDefinition'',
      cfm_Detector = ''arn-requires-revision'',
      cfm_Canonical = ''family:revision (or .../task-definition/family:revision), resolved from the observed TaskDefinition status.atProvider.arn'',
      cfm_Reason = ''ECS Service taskDefinition bare family name '' @ [CHR 0xE2, CHR 0x86, CHR 0x92] @ '' permanent upjet diff '' @ [CHR 0xE2, CHR 0x86, CHR 0x92] @ '' reconcile storm; MR !2232''\<rparr>]"

definition ComputedBlockAliasRegistry :: "ComputedBlockAliasMapping list" where
  "ComputedBlockAliasRegistry = [
     \<lparr>cbam_Group = ''elbv2.aws.upbound.io'',
      cbam_Kind = ''LBListenerRule'',
      cbam_ActionType = ''forward'',
      cbam_AliasFieldPattern = ''(?m)^[ '' @ [CHR 0x5C] @ ''t]*(targetGroupArn(?:Ref|Selector)?):'',
      cbam_CanonicalBlockKey = ''forward'',
      cbam_Reason = ''LBListenerRule forward action uses the simple targetGroupArn form; AWS always computes a full action.forward{} block + order:1, so forProvider perpetually diffs '' @ [CHR 0xE2, CHR 0x86, CHR 0x92] @ '' upjet async-update storm on provider-aws-elbv2; MR !2336''\<rparr>,
     \<lparr>cbam_Group = ''elbv2.aws.upbound.io'',
      cbam_Kind = ''LBListener'',
      cbam_ActionType = ''forward'',
      cbam_AliasFieldPattern = ''(?m)^[ '' @ [CHR 0x5C] @ ''t]*(targetGroupArn(?:Ref|Selector)?):'',
      cbam_CanonicalBlockKey = ''forward'',
      cbam_Reason = ''LBListener defaultAction forward uses the simple targetGroupArn form; AWS always computes a full action.forward{} block + order:1, so forProvider perpetually diffs '' @ [CHR 0xE2, CHR 0x86, CHR 0x92] @ '' upjet async-update storm on provider-aws-elbv2; MR !2336''\<rparr>]"

definition ExternalNameAdoptRegistry :: "ExternalNameAdoptMapping list" where
  "ExternalNameAdoptRegistry = [
     \<lparr>enam_Group = ''alert.signoz.crossplane.io'',
      enam_Kind = ''Alert'',
      enam_Reason = ''provider-signoz Alert create path is broken against the custom signoz build (returns HTML '' @ [CHR 0xE2, CHR 0x86, CHR 0x92] @ '' '' @ [CHR 0x22] @ ''invalid character '' @ [CHR 0x27] @ ''<'' @ [CHR 0x27, CHR 0x22] @ ''); the rule must be adopted via crossplane.io/external-name (created out-of-band via the SigNoz API), not created; MR abd5aa10ed / INC-8''\<rparr>]"

definition OrphanSGRefRegistry :: "OrphanSGRefMapping list" where
  "OrphanSGRefRegistry = [
     \<lparr>osgm_Group = ''ec2.aws.upbound.io'',
      osgm_Kind = ''SecurityGroupRule'',
      osgm_RefGroup = ''ec2.aws.upbound.io'',
      osgm_RefKind = ''SecurityGroup'',
      osgm_AttachFieldPattern = ''(?m)^[ '' @ [CHR 0x5C] @ ''t]*(securityGroupId(?:Ref|Selector)?):'',
      osgm_RefFieldPattern = ''(?m)^[ '' @ [CHR 0x5C] @ ''t]*((?:source|referenced)SecurityGroupId(?:Ref|Selector)?):'',
      osgm_Reason = ''SecurityGroupRule attached to a long-lived/shared SG but referencing a short-lived per-env SG: on teardown the referenced SG is deleted while the rule is not, so the reference dangles '' @ [CHR 0xE2, CHR 0x86, CHR 0x92] @ '' DeleteSecurityGroup DependencyViolation at 0 ENIs '' @ [CHR 0xE2, CHR 0x86, CHR 0x92] @ '' SG stuck Terminating '' @ [CHR 0xE2, CHR 0x86, CHR 0x92] @ '' recreate InvalidGroup.Duplicate; commit d144aa739b''\<rparr>]"

end
