(* ===== verification/JsonEq.thy ===== *)
theory JsonEq
  imports PathWalk
begin

text \<open>
  \<^verbatim>\<open>reflect.DeepEqual\<close> on decoded documents: maps are compared by key,
  whatever their iteration order; and \<^verbatim>\<open>fmt\<close>'s verb \<^verbatim>\<open>%v\<close> on them.
\<close>

lemma size_arr_elem: "x \<in> set xs \<Longrightarrow> size x < size (JArr xs)"
  by (induction xs) auto

lemma size_obj_elem: "(k, v) \<in> set m \<Longrightarrow> size v < size (JObj m)"
  by (induction m) auto

function (sequential) deepEqual :: "json \<Rightarrow> json \<Rightarrow> bool" where
  "deepEqual (JArr xs) (JArr ys) =
     (length xs = length ys \<and> (\<forall>(x, y) \<in> set (zip xs ys). deepEqual x y))"
| "deepEqual (JObj m) (JObj n) =
     (length m = length n \<and>
      (\<forall>(k, v) \<in> set m. case map_of n k of None \<Rightarrow> False | Some v' \<Rightarrow> deepEqual v v'))"
| "deepEqual (JArr xs) y = False"
| "deepEqual (JObj m) y = False"
| "deepEqual x y = (x = y)"
  by pat_completeness auto

termination
  by (relation "measure (\<lambda>(x, y). size x)")
    (auto dest!: set_zip_leftD size_arr_elem dest: size_obj_elem)

definition rawEqual :: "obj \<Rightarrow> obj \<Rightarrow> bool" where
  "rawEqual a b = deepEqual (JObj a) (JObj b)"

lemma deepEqual_refl: "wf_json x \<Longrightarrow> deepEqual x x"
proof (induction x rule: wf_json.induct)
  case (1 xs)
  then show ?case by (auto simp: zip_same)
next
  case (2 m)
  have "case map_of m k of None \<Rightarrow> False | Some v' \<Rightarrow> deepEqual v v'" if "(k, v) \<in> set m" for k v
  proof -
    have "map_of m k = Some v" using 2(2) that by simp
    moreover have "deepEqual v v" using 2(1)[OF that] 2(2) that by fastforce
    ultimately show ?thesis by simp
  qed
  then show ?case unfolding deepEqual.simps by blast
qed auto

text \<open>Equal documents answer every path lookup alike.\<close>

lemma deepEqual_lookup:
  assumes "deepEqual (JObj m) (JObj n)" "distinct (map fst m)" "distinct (map fst n)"
  shows "(map_of m k = None \<longleftrightarrow> map_of n k = None) \<and>
         (map_of m k = Some v \<longrightarrow> map_of n k = Some v' \<longrightarrow> deepEqual v v')"
proof -
  have sub: "fst ` set m \<subseteq> fst ` set n"
  proof
    fix k assume "k \<in> fst ` set m"
    then obtain v where "(k, v) \<in> set m" by auto
    then have "map_of n k \<noteq> None" using assms(1) by (auto split: option.splits)
    then show "k \<in> fst ` set n" by (simp add: map_of_eq_None_iff)
  qed
  have "card (fst ` set m) = card (fst ` set n)"
    using assms by (metis deepEqual.simps(2) distinct_card length_map list.set_map)
  then have "fst ` set m = fst ` set n" using sub by (intro card_subset_eq) auto
  then have "map_of m k = None \<longleftrightarrow> map_of n k = None" by (simp add: map_of_eq_None_iff)
  moreover have "map_of m k = Some v \<Longrightarrow> map_of n k = Some v' \<Longrightarrow> deepEqual v v'"
    using assms(1) by (fastforce dest: map_of_SomeD split: option.splits)
  ultimately show ?thesis by blast
qed

lemma wf_json_lookup: "wf_json (JObj m) \<Longrightarrow> map_of m k = Some v \<Longrightarrow> wf_json v"
  by (auto dest!: map_of_SomeD)

lemma deepEqual_readSegs:
  "deepEqual x y \<Longrightarrow> wf_json x \<Longrightarrow> wf_json y \<Longrightarrow>
     (readSegs segs x = None \<longleftrightarrow> readSegs segs y = None) \<and>
     (\<forall>v v'. readSegs segs x = Some v \<longrightarrow> readSegs segs y = Some v' \<longrightarrow> deepEqual v v')"
proof (induction segs arbitrary: x y)
  case (Cons s segs)
  show ?case
  proof (cases "\<exists>m. x = JObj m")
    case True
    then obtain m n where mn: "x = JObj m" "y = JObj n"
      using Cons.prems(1) by (cases y) auto
    then have d: "distinct (map fst m)" "distinct (map fst n)" using Cons.prems by auto
    note lk = deepEqual_lookup[OF Cons.prems(1)[unfolded mn] d, of s]
    show ?thesis
    proof (cases "map_of m s")
      case None
      then show ?thesis using lk mn by auto
    next
      case (Some v)
      then obtain v' where v': "map_of n s = Some v'" "deepEqual v v'"
        using lk by (cases "map_of n s") auto
      have "wf_json v" "wf_json v'" using wf_json_lookup Some v'(1) Cons.prems mn by blast+
      then show ?thesis using Cons.IH[OF v'(2)] Some v' mn by auto
    qed
  next
    case False
    then have "as_obj x = None" "as_obj y = None"
      using Cons.prems(1) by (cases x; cases y; auto)+
    then show ?thesis by auto
  qed
qed simp

lemma rawEqual_ReadPath:
  assumes "rawEqual a b" "wf_json (JObj a)" "wf_json (JObj b)"
    "ReadPath a p = Some v" "ReadPath b p = Some v'"
  shows "deepEqual v v'"
  using deepEqual_readSegs[of "JObj a" "JObj b" "Split p ''.''"] assms
  by (auto simp: rawEqual_def ReadPath_def split: if_splits)

text \<open>
  \<^verbatim>\<open>fmt.Sprintf("%v", x)\<close>; the shortest decimal form of a float is the parameter
  \<open>ff\<close>.  Maps print with their keys sorted.
\<close>

definition join_sp :: "string list \<Rightarrow> string" where
  "join_sp xs = Join xs '' ''"

fun fmt_v :: "(rat \<Rightarrow> string) \<Rightarrow> json \<Rightarrow> string" where
  "fmt_v ff JNull = ''<nil>''"
| "fmt_v ff (JBool b) = (if b then ''true'' else ''false'')"
| "fmt_v ff (JInt i) = Itoa i"
| "fmt_v ff (JFloat r) = ff r"
| "fmt_v ff (JStr s) = s"
| "fmt_v ff (JArr xs) = ''['' @ join_sp (map (fmt_v ff) xs) @ '']''"
| "fmt_v ff (JObj m) =
     ''map['' @ join_sp (map snd (sort_slice (\<lambda>a b. fst a < fst b)
                  (map (\<lambda>(k, v). (k, k @ '':'' @ fmt_v ff v)) m))) @ '']''"

end
