(* ===== verification/Schemas.thy ===== *)
theory Schemas
  imports JsonEq IrBase
begin

text \<open>
  \<^verbatim>\<open>pkg/schemas\<close> and \<^verbatim>\<open>pkg/ir/field_validation.go\<close>: the index from (apiVersion, kind)
  to the OpenAPI schema, the field-type resolver of R5 and the manifest validator
  of R17.  Comparing two maps or two slices with \<^verbatim>\<open>==\<close> panics in Go; the validator
  does so when an enum lists objects, so its model returns an option, \<open>None\<close>
  standing for the panic.  A decoded manifest always has a key, so the empty
  object stands for the nil map of a resource without a manifest.
\<close>

section \<open>index.go\<close>

definition getNestedMap :: "obj \<Rightarrow> string \<Rightarrow> obj option" where
  "getNestedMap m key = (case map_of m key of None \<Rightarrow> None | Some v \<Rightarrow> as_obj v)"

definition index_version ::
  "(CRDVersion \<Rightarrow> bool) \<Rightarrow> (string \<times> SchemaInfo) list \<Rightarrow> CRDInfo \<Rightarrow>
   (SchemaKey \<times> obj) list \<Rightarrow> CRDVersion \<Rightarrow> (SchemaKey \<times> obj) list" where
  "index_version admit schemas crd out v =
     (if \<not> admit v \<or> cv_SchemaDigest v = [] then out
      else (case map_of schemas (cv_SchemaDigest v) of
              None \<Rightarrow> out
            | Some si \<Rightarrow> mput \<lparr>sk_APIVersion = crd_Group crd @ ''/'' @ cv_Name v, sk_Kind = crd_Kind crd\<rparr>
                            (sch_Schema si) out))"

definition index_crds ::
  "(CRDVersion \<Rightarrow> bool) \<Rightarrow> (string \<times> SchemaInfo) list \<Rightarrow> CRDInfo list \<Rightarrow>
   (SchemaKey \<times> obj) list \<Rightarrow> (SchemaKey \<times> obj) list" where
  "index_crds admit schemas crds out =
     foldl (\<lambda>out1 crd. foldl (index_version admit schemas crd) out1 (crd_Versions crd)) out crds"

definition BuildSchemaIndex :: "World \<Rightarrow> (SchemaKey \<times> obj) list \<times> World" where
  "BuildSchemaIndex w =
     (case w_SchemaIndex w of
        Some idx \<Rightarrow> (idx, w)
      | None \<Rightarrow>
          let out = index_crds (\<lambda>v. cv_Served v \<or> cv_Storage v) (w_Schemas w) (w_CRDs w)
                      (index_crds cv_Referenceable (w_Schemas w) (w_XRDs w) [])
          in (out, w\<lparr>w_SchemaIndex := Some out\<rparr>))"

section \<open>fetcher.go\<close>

abbreviation "FieldTypeUnknown \<equiv> ''unknown''"

definition field_props :: "obj \<Rightarrow> obj option" where
  "field_props current =
     (case getNestedMap current ''properties'' of
        Some props \<Rightarrow> Some props
      | None \<Rightarrow> (case getNestedMap current ''openAPIV3Schema'' of
                  Some oapi \<Rightarrow> getNestedMap oapi ''properties''
                | None \<Rightarrow> None))"

fun resolve_parts :: "string list \<Rightarrow> obj \<Rightarrow> string" where
  "resolve_parts [] current = (case as_str (jget current ''type'') of Some typ \<Rightarrow> typ | None \<Rightarrow> FieldTypeUnknown)"
| "resolve_parts (part # parts) current =
     (case field_props current of
        None \<Rightarrow> FieldTypeUnknown
      | Some props \<Rightarrow> (case getNestedMap props part of
                        None \<Rightarrow> FieldTypeUnknown
                      | Some field \<Rightarrow> resolve_parts parts field))"

definition ResolveFieldType :: "obj \<Rightarrow> string \<Rightarrow> string" where
  "ResolveFieldType schema fieldPath = resolve_parts (Split fieldPath ''.'') schema"

definition TypeAssignable :: "string \<Rightarrow> string \<Rightarrow> bool" where
  "TypeAssignable fromT toT =
     (fromT = toT \<or> fromT = FieldTypeUnknown \<or> toT = FieldTypeUnknown \<or>
      fromT = ''integer'' \<and> toT = ''number'')"

section \<open>validate_manifest.go: scalars\<close>

definition jsonType :: "json \<Rightarrow> string" where
  "jsonType v =
     (case v of
        JStr _ \<Rightarrow> ''string''
      | JBool _ \<Rightarrow> ''boolean''
      | JInt _ \<Rightarrow> ''integer''
      | JFloat f \<Rightarrow> if of_int \<lfloor>f\<rfloor> = f \<and> - (2 ^ 63) \<le> f \<and> f < 2 ^ 63 then ''integer'' else ''number''
      | JObj _ \<Rightarrow> ''object''
      | JArr _ \<Rightarrow> ''array''
      | JNull \<Rightarrow> ''null'')"

definition typeCompatible :: "string \<Rightarrow> string \<Rightarrow> bool" where
  "typeCompatible actual want = (actual = want \<or> actual = ''integer'' \<and> want = ''number'')"

text \<open>\<^verbatim>\<open>float64(x)\<close> of an integer keeps 53 significant bits, rounding half to even.\<close>

fun f64_shift :: "nat \<Rightarrow> nat" where
  "f64_shift n = (if n < 2 ^ 53 then 0 else Suc (f64_shift (n div 2)))"

declare f64_shift.simps [simp del]

definition f64_of_nat :: "nat \<Rightarrow> nat" where
  "f64_of_nat n =
     (let s = f64_shift n; q = n div 2 ^ s; r = n mod 2 ^ s
      in (if 2 * r > 2 ^ s \<or> 2 * r = 2 ^ s \<and> odd q then q + 1 else q) * 2 ^ s)"

definition float64_of_int :: "int \<Rightarrow> rat" where
  "float64_of_int i = (if i < 0 then - of_nat (f64_of_nat (nat (- i))) else of_nat (f64_of_nat (nat i)))"

definition toFloat :: "json \<Rightarrow> rat option" where
  "toFloat v = (case v of JInt i \<Rightarrow> Some (float64_of_int i) | JFloat f \<Rightarrow> Some f | _ \<Rightarrow> None)"

fun uncomparable :: "json \<Rightarrow> json \<Rightarrow> bool" where
  "uncomparable (JArr _) (JArr _) = True"
| "uncomparable (JObj _) (JObj _) = True"
| "uncomparable _ _ = False"

definition equalScalar :: "json \<Rightarrow> json \<Rightarrow> bool option" where
  "equalScalar a b =
     (if uncomparable a b then None
      else if a = b then Some True
      else (case (as_str a, as_str b) of
              (Some as, Some bs) \<Rightarrow> Some (as = bs)
            | _ \<Rightarrow> (case (toFloat a, toFloat b) of
                      (Some af, Some bf) \<Rightarrow> Some (af = bf)
                    | _ \<Rightarrow> Some False)))"

fun enum_loop :: "json list \<Rightarrow> json \<Rightarrow> bool option" where
  "enum_loop [] val = Some False"
| "enum_loop (e # es) val =
     (case equalScalar e val of
        None \<Rightarrow> None
      | Some True \<Rightarrow> Some True
      | Some False \<Rightarrow> enum_loop es val)"

section \<open>validate_manifest.go: the walk\<close>

text \<open>\<^verbatim>\<open>%q\<close> quotes a string, escaping quotes, backslashes and control characters.\<close>

definition hex_digit :: "nat \<Rightarrow> char" where
  "hex_digit n = ''0123456789abcdef'' ! n"

definition quote_char :: "char \<Rightarrow> string" where
  "quote_char c =
     (let n = of_char c :: nat in
      if c = CHR 0x22 \<or> c = CHR 0x5C then [CHR 0x5C, c]
      else if n = 7 then CHR 0x5C # ''a'' else if n = 8 then CHR 0x5C # ''b''
      else if n = 12 then CHR 0x5C # ''f'' else if n = 10 then CHR 0x5C # ''n''
      else if n = 13 then CHR 0x5C # ''r'' else if n = 9 then CHR 0x5C # ''t''
      else if n = 11 then CHR 0x5C # ''v''
      else if n < 32 \<or> n = 127 then [CHR 0x5C, CHR ''x'', hex_digit (n div 16), hex_digit (n mod 16)]
      else [c])"

definition Quote :: "string \<Rightarrow> string" where
  "Quote s = [CHR 0x22] @ concat (map quote_char s) @ [CHR 0x22]"

definition field_fact :: "string \<Rightarrow> ViolationKind \<Rightarrow> string \<Rightarrow> ResourceFieldFact" where
  "field_fact path viol msg =
     \<lparr>rff_APIVersion = [], rff_Kind = [], rff_Namespace = [], rff_Name = [], rff_Path = path,
      rff_Violation = viol, rff_Message = msg, rff_Source = zero_SourceLocation\<rparr>"

definition subPath :: "string \<Rightarrow> string \<Rightarrow> string" where
  "subPath path name = (if path = [] then name else path @ ''.'' @ name)"

definition unknown_fact :: "string \<Rightarrow> ResourceFieldFact" where
  "unknown_fact path =
     field_fact path UnknownField (''unknown field '' @ Quote path @ '' (schema has additionalProperties: false)'')"

definition required_names :: "obj \<Rightarrow> string list" where
  "required_names schema = (case as_arr (jget schema ''required'') of None \<Rightarrow> [] | Some rs \<Rightarrow> str_elems rs)"

definition checkRequired :: "obj \<Rightarrow> obj \<Rightarrow> string \<Rightarrow> ResourceFieldFact list" where
  "checkRequired schema raw parentPath =
     map (\<lambda>name. let path = subPath parentPath name
                 in field_fact path MissingRequired (''required field '' @ Quote path @ '' is missing''))
       (filter (\<lambda>name. \<not> mhas raw name) (required_names schema))"

definition additionalPropertiesFalse :: "obj \<Rightarrow> bool" where
  "additionalPropertiesFalse schema =
     (case map_of schema ''additionalProperties'' of
        None \<Rightarrow> False
      | Some ap \<Rightarrow> (case as_bool ap of None \<Rightarrow> False | Some b \<Rightarrow> \<not> b))"

text \<open>Appending the results of a loop whose body may panic.\<close>

definition seq_all :: "'a list option list \<Rightarrow> 'a list option" where
  "seq_all rs = (if list_ex Option.is_none rs then None else Some (concat (map the rs)))"

definition app_opt :: "'a list \<Rightarrow> 'a list option \<Rightarrow> 'a list option" where
  "app_opt xs r = map_option ((@) xs) r"

definition opt_app :: "'a list option \<Rightarrow> 'a list \<Rightarrow> 'a list option" where
  "opt_app r ys = map_option (\<lambda>xs. xs @ ys) r"

definition unknown_keys :: "obj option \<Rightarrow> obj \<Rightarrow> string list" where
  "unknown_keys props valMap =
     filter (\<lambda>key. case props of None \<Rightarrow> True | Some ps \<Rightarrow> \<not> mhas ps key) (map fst valMap)"

definition schema_type :: "obj \<Rightarrow> string" where
  "schema_type schema = (case as_str (jget schema ''type'') of Some t \<Rightarrow> t | None \<Rightarrow> [])"

lemma getNestedMap_size: "getNestedMap m key = Some sub \<Longrightarrow> size (JObj sub) < size (JObj m)"
  by (auto simp: getNestedMap_def split: option.splits dest!: map_of_SomeD size_obj_elem)

definition type_wrong :: "obj \<Rightarrow> json \<Rightarrow> bool" where
  "type_wrong schema val =
     (schema_type schema \<noteq> [] \<and> val \<noteq> JNull \<and> \<not> typeCompatible (jsonType val) (schema_type schema))"

definition enum_result :: "obj \<Rightarrow> json \<Rightarrow> bool option" where
  "enum_result schema val =
     (case as_arr (jget schema ''enum'') of
        None \<Rightarrow> Some True
      | Some enum \<Rightarrow> if val = JNull then Some True else enum_loop enum val)"

function walkField :: "(rat \<Rightarrow> string) \<Rightarrow> string \<Rightarrow> obj \<Rightarrow> json \<Rightarrow> ResourceFieldFact list option" where
  "walkField ff path schema val =
     (if type_wrong schema val
      then Some [field_fact path WrongType
             (''field '' @ Quote path @ '' has type '' @ jsonType val @ '', want '' @ schema_type schema)]
      else (case enum_result schema val of
        None \<Rightarrow> None
      | Some False \<Rightarrow>
          Some [field_fact path InvalidEnum
             (''field '' @ Quote path @ '' value '' @ fmt_v ff val @ '' not in enum '' @
              fmt_v ff (jget schema ''enum''))]
      | Some True \<Rightarrow>
          if schema_type schema = ''object'' then
            (case as_obj val of
               None \<Rightarrow> Some []
             | Some valMap \<Rightarrow>
                 let props = getNestedMap schema ''properties'' in
                 app_opt (checkRequired schema valMap path)
                   (opt_app
                     (case props of
                        None \<Rightarrow> Some []
                      | Some ps \<Rightarrow>
                          seq_all (map (\<lambda>(fname, fschemaRaw).
                            case as_obj fschemaRaw of
                              None \<Rightarrow> Some []
                            | Some fschema \<Rightarrow>
                                (case map_of valMap fname of
                                   None \<Rightarrow> Some []
                                 | Some subv \<Rightarrow> walkField ff (subPath path fname) fschema subv)) ps))
                     (if additionalPropertiesFalse schema
                      then map (\<lambda>key. unknown_fact (subPath path key)) (unknown_keys props valMap)
                      else [])))
          else if schema_type schema = ''array'' then
            (case as_arr val of
               None \<Rightarrow> Some []
             | Some arr \<Rightarrow>
                 (case getNestedMap schema ''items'' of
                    None \<Rightarrow> Some []
                  | Some items \<Rightarrow>
                      seq_all (map (\<lambda>(i, el). walkField ff (path @ ''['' @ Itoa (int i) @ '']'') items el)
                                 (enumerate 0 arr))))
          else Some []))"
  by pat_completeness auto

termination
proof (relation "measure (\<lambda>(ff, path, schema, val). size (JObj schema))", goal_cases)
  case (2 ff path schema val b valMap props ps kv fname fraw fschema subv)
  then have "getNestedMap schema ''properties'' = Some ps" by simp
  then have "size (JObj ps) < size (JObj schema)" by (rule getNestedMap_size)
  moreover have "size (JObj fschema) < size (JObj ps)"
    using 2 by (auto dest: size_obj_elem)
  ultimately show ?case by simp
qed (auto dest: getNestedMap_size)

declare walkField.simps [simp del]

definition ValidateManifest :: "(rat \<Rightarrow> string) \<Rightarrow> obj \<Rightarrow> obj \<Rightarrow> ResourceFieldFact list option" where
  "ValidateManifest ff schema raw =
     (if schema = [] \<or> raw = [] then Some []
      else let sroot = (case getNestedMap schema ''openAPIV3Schema'' of Some oapi \<Rightarrow> oapi | None \<Rightarrow> schema);
               required = checkRequired sroot raw []
           in case getNestedMap sroot ''properties'' of
                None \<Rightarrow> Some required
              | Some props \<Rightarrow>
                  app_opt required
                    (opt_app
                      (seq_all (map (\<lambda>(fieldName, fieldSchemaRaw).
                         case as_obj fieldSchemaRaw of
                           None \<Rightarrow> Some []
                         | Some fieldSchema \<Rightarrow>
                             (case map_of raw fieldName of
                                None \<Rightarrow> Some []
                              | Some val \<Rightarrow> walkField ff fieldName fieldSchema val)) props))
                      (if additionalPropertiesFalse sroot
                       then map unknown_fact
                              (filter (\<lambda>key. key \<notin> {''apiVersion'', ''kind'', ''metadata'', ''status''})
                                (unknown_keys (Some props) raw))
                       else [])))"

section \<open>field\_validation.go\<close>

definition stamp_fact :: "ResourceInfo \<Rightarrow> ResourceFieldFact \<Rightarrow> ResourceFieldFact" where
  "stamp_fact res f =
     f\<lparr>rff_APIVersion := ri_APIVersion res, rff_Kind := ri_Kind res, rff_Name := ri_Name res,
       rff_Namespace := ri_Namespace res, rff_Source := ri_Source res\<rparr>"

definition resource_facts ::
  "(rat \<Rightarrow> string) \<Rightarrow> (SchemaKey \<times> obj) list \<Rightarrow> ResourceInfo \<Rightarrow> ResourceFieldFact list option" where
  "resource_facts ff index res =
     (case map_of index \<lparr>sk_APIVersion = ri_APIVersion res, sk_Kind = ri_Kind res\<rparr> of
        None \<Rightarrow> Some []
      | Some schema \<Rightarrow> map_option (map (stamp_fact res)) (ValidateManifest ff schema (ri_Raw res)))"

definition EnrichFieldValidation :: "(rat \<Rightarrow> string) \<Rightarrow> World \<Rightarrow> World option" where
  "EnrichFieldValidation ff w =
     (case BuildSchemaIndex w of
        (index, w1) \<Rightarrow>
          if index = [] then Some w1
          else (case seq_all (map (resource_facts ff index) (w_Resources w1)) of
                  None \<Rightarrow> None
                | Some facts \<Rightarrow> Some (w1\<lparr>w_ResourceFieldFacts := w_ResourceFieldFacts w1 @ facts\<rparr>)))"

section \<open>What a violation is\<close>

text \<open>
  The specification: the places of a value where it departs from a schema.  A
  node whose type or enum fails is a leaf; below a sound object node lie its
  missing, unknown and nested fields, below a sound array its elements.
\<close>

definition node_sound :: "obj \<Rightarrow> json \<Rightarrow> bool" where
  "node_sound schema val = (\<not> type_wrong schema val \<and> enum_result schema val = Some True)"

inductive violates :: "string \<Rightarrow> obj \<Rightarrow> json \<Rightarrow> string \<Rightarrow> ViolationKind \<Rightarrow> bool" where
  wrong_type: "type_wrong schema val \<Longrightarrow> violates path schema val path WrongType"
| bad_enum: "\<not> type_wrong schema val \<Longrightarrow> enum_result schema val = Some False \<Longrightarrow>
    violates path schema val path InvalidEnum"
| missing: "node_sound schema (JObj m) \<Longrightarrow> schema_type schema = ''object'' \<Longrightarrow>
    name \<in> set (required_names schema) \<Longrightarrow> map_of m name = None \<Longrightarrow>
    violates path schema (JObj m) (subPath path name) MissingRequired"
| unknown: "node_sound schema (JObj m) \<Longrightarrow> schema_type schema = ''object'' \<Longrightarrow>
    additionalPropertiesFalse schema \<Longrightarrow> map_of m key = Some v \<Longrightarrow>
    \<forall>ps. getNestedMap schema ''properties'' = Some ps \<longrightarrow> map_of ps key = None \<Longrightarrow>
    violates path schema (JObj m) (subPath path key) UnknownField"
| nested: "node_sound schema (JObj m) \<Longrightarrow> schema_type schema = ''object'' \<Longrightarrow>
    getNestedMap schema ''properties'' = Some ps \<Longrightarrow> (key, JObj fs) \<in> set ps \<Longrightarrow>
    map_of m key = Some v \<Longrightarrow> violates (subPath path key) fs v p k \<Longrightarrow>
    violates path schema (JObj m) p k"
| element: "node_sound schema (JArr xs) \<Longrightarrow> schema_type schema = ''array'' \<Longrightarrow>
    getNestedMap schema ''items'' = Some items \<Longrightarrow> i < length xs \<Longrightarrow>
    violates (path @ ''['' @ Itoa (int i) @ '']'') items (xs ! i) p k \<Longrightarrow>
    violates path schema (JArr xs) p k"

inductive_simps violates_obj: "violates path schema (JObj m) p k"
inductive_simps violates_arr: "violates path schema (JArr xs) p k"

definition reported :: "ResourceFieldFact list \<Rightarrow> string \<Rightarrow> ViolationKind \<Rightarrow> bool" where
  "reported fs p k = (\<exists>f \<in> set fs. rff_Path f = p \<and> rff_Violation f = k)"

lemma reported_simps [simp]:
  "reported [] p k = False"
  "reported (f # fs) p k = (rff_Path f = p \<and> rff_Violation f = k \<or> reported fs p k)"
  "reported (fs @ gs) p k = (reported fs p k \<or> reported gs p k)"
  by (auto simp: reported_def)

lemma field_fact_sel [simp]:
  "rff_Path (field_fact p k msg) = p" "rff_Violation (field_fact p k msg) = k"
  by (simp_all add: field_fact_def)

lemma reported_required:
  "reported (checkRequired schema m path) p k \<longleftrightarrow>
     k = MissingRequired \<and> (\<exists>name \<in> set (required_names schema). map_of m name = None \<and> p = subPath path name)"
  by (auto simp: checkRequired_def reported_def mhas_def Let_def)

lemma reported_unknown:
  "reported (map (\<lambda>key. unknown_fact (subPath path key)) keys) p k \<longleftrightarrow>
     k = UnknownField \<and> (\<exists>key \<in> set keys. p = subPath path key)"
  by (auto simp: reported_def unknown_fact_def)

lemma seq_all_Cons [simp]:
  "seq_all [] = Some []"
  "seq_all (r # rs) = (case r of None \<Rightarrow> None | Some xs \<Rightarrow> app_opt xs (seq_all rs))"
  by (auto simp: seq_all_def app_opt_def Option.is_none_def split: option.splits)

lemma app_opt_Some [simp]: "app_opt xs r = Some ys \<longleftrightarrow> (\<exists>zs. r = Some zs \<and> ys = xs @ zs)"
  by (auto simp: app_opt_def)

lemma opt_app_Some [simp]: "opt_app r xs = Some ys \<longleftrightarrow> (\<exists>zs. r = Some zs \<and> ys = zs @ xs)"
  by (auto simp: opt_app_def)

lemma seq_all_elem: "seq_all rs = Some fs \<Longrightarrow> r \<in> set rs \<Longrightarrow> r \<noteq> None"
  by (induction rs arbitrary: fs) (auto split: option.splits)

lemma reported_seq_all:
  "seq_all rs = Some fs \<Longrightarrow> reported fs p k \<longleftrightarrow> (\<exists>xs. Some xs \<in> set rs \<and> reported xs p k)"
  by (induction rs arbitrary: fs) (auto split: option.splits)

lemma reported_seq_map:
  assumes "seq_all (map g xs) = Some fs"
    and "\<And>x ys. x \<in> set xs \<Longrightarrow> g x = Some ys \<Longrightarrow> reported ys p k \<longleftrightarrow> P x"
  shows "reported fs p k \<longleftrightarrow> (\<exists>x \<in> set xs. P x)"
proof -
  have "g x \<noteq> None" if "x \<in> set xs" for x using seq_all_elem[OF assms(1)] that by simp
  then show ?thesis unfolding reported_seq_all[OF assms(1)] using assms(2) by (auto simp: image_iff) metis+
qed

lemma unknown_keys_set:
  "key \<in> set (unknown_keys props m) \<longleftrightarrow>
     (\<exists>v. map_of m key = Some v) \<and> (\<forall>ps. props = Some ps \<longrightarrow> map_of ps key = None)"
proof -
  have "(\<exists>v. map_of m key = Some v) \<longleftrightarrow> key \<in> fst ` set m"
    by (metis map_of_eq_None_iff not_None_eq)
  then show ?thesis by (auto simp: unknown_keys_def mhas_def split: option.splits)
qed

definition walk_props :: "(rat \<Rightarrow> string) \<Rightarrow> string \<Rightarrow> obj \<Rightarrow> string \<times> json \<Rightarrow> ResourceFieldFact list option" where
  "walk_props ff path m kv =
     (case kv of (fname, fraw) \<Rightarrow>
        case as_obj fraw of
          None \<Rightarrow> Some []
        | Some fs \<Rightarrow> (case map_of m fname of None \<Rightarrow> Some [] | Some v \<Rightarrow> walkField ff (subPath path fname) fs v))"

lemma walkField_object:
  assumes "node_sound schema (JObj m)" "schema_type schema = ''object''"
  shows "walkField ff path schema (JObj m) =
     app_opt (checkRequired schema m path)
       (opt_app (case getNestedMap schema ''properties'' of None \<Rightarrow> Some [] | Some ps \<Rightarrow> seq_all (map (walk_props ff path m) ps))
         (if additionalPropertiesFalse schema
          then map (\<lambda>key. unknown_fact (subPath path key)) (unknown_keys (getNestedMap schema ''properties'') m)
          else []))"
  using assms unfolding walk_props_def[abs_def]
  by (simp add: walkField.simps[of ff path schema] node_sound_def Let_def)

lemma walk_object_exact:
  assumes sound: "node_sound schema (JObj m)" "schema_type schema = ''object''"
    and walk: "walkField ff path schema (JObj m) = Some fs"
    and IH: "\<And>ps key fs v gs. getNestedMap schema ''properties'' = Some ps \<Longrightarrow> (key, JObj fs) \<in> set ps \<Longrightarrow>
        map_of m key = Some v \<Longrightarrow> walkField ff (subPath path key) fs v = Some gs \<Longrightarrow>
        reported gs p k \<longleftrightarrow> violates (subPath path key) fs v p k"
  shows "reported fs p k \<longleftrightarrow> violates path schema (JObj m) p k"
proof -
  let ?props = "getNestedMap schema ''properties''"
  obtain gs where gs: "(case ?props of None \<Rightarrow> Some [] | Some ps \<Rightarrow> seq_all (map (walk_props ff path m) ps)) = Some gs"
    and fs: "fs = checkRequired schema m path @ gs @
       (if additionalPropertiesFalse schema then map (\<lambda>key. unknown_fact (subPath path key)) (unknown_keys ?props m) else [])"
    using walk unfolding walkField_object[OF sound] by auto
  have nested: "reported gs p k \<longleftrightarrow>
      (\<exists>ps key fs v. ?props = Some ps \<and> (key, JObj fs) \<in> set ps \<and> map_of m key = Some v \<and>
         violates (subPath path key) fs v p k)"
  proof (cases ?props)
    case None
    then show ?thesis using gs by simp
  next
    case (Some ps)
    then have "seq_all (map (walk_props ff path m) ps) = Some gs" using gs by simp
    then have "reported gs p k \<longleftrightarrow> (\<exists>kv \<in> set ps. \<exists>fs v. snd kv = JObj fs \<and> map_of m (fst kv) = Some v \<and>
        violates (subPath path (fst kv)) fs v p k)"
    proof (rule reported_seq_map)
      fix kv ys assume kv: "kv \<in> set ps" "walk_props ff path m kv = Some ys"
      obtain fname fraw where "kv = (fname, fraw)" by fastforce
      with kv show "reported ys p k \<longleftrightarrow> (\<exists>fs v. snd kv = JObj fs \<and> map_of m (fst kv) = Some v \<and>
          violates (subPath path (fst kv)) fs v p k)"
        using IH[OF Some] by (auto simp: walk_props_def split: option.splits)
    qed
    then show ?thesis using Some by force
  qed
  show ?thesis
    unfolding fs violates_obj using sound nested
    by (auto simp: reported_required reported_unknown unknown_keys_set node_sound_def)
qed

lemma bex_enumerate: "(\<exists>ie \<in> set (enumerate 0 xs). Q (fst ie) (snd ie)) \<longleftrightarrow> (\<exists>i < length xs. Q i (xs ! i))"
proof
  assume "\<exists>i < length xs. Q i (xs ! i)"
  then obtain i where "i < length xs" "Q i (xs ! i)" by blast
  then show "\<exists>ie \<in> set (enumerate 0 xs). Q (fst ie) (snd ie)"
    by (intro bexI[of _ "(i, xs ! i)"]) (auto simp: in_set_enumerate_eq)
qed (auto simp: in_set_enumerate_eq)

lemma walk_array_exact:
  assumes sound: "node_sound schema (JArr xs)" "schema_type schema = ''array''"
    and walk: "walkField ff path schema (JArr xs) = Some fs"
    and IH: "\<And>items i gs. getNestedMap schema ''items'' = Some items \<Longrightarrow> i < length xs \<Longrightarrow>
        walkField ff (path @ ''['' @ Itoa (int i) @ '']'') items (xs ! i) = Some gs \<Longrightarrow>
        reported gs p k \<longleftrightarrow> violates (path @ ''['' @ Itoa (int i) @ '']'') items (xs ! i) p k"
  shows "reported fs p k \<longleftrightarrow> violates path schema (JArr xs) p k"
proof (cases "getNestedMap schema ''items''")
  case None
  then have "fs = []" using walk sound by (simp add: walkField.simps[of ff path schema] node_sound_def)
  then show ?thesis using None sound by (simp add: violates_arr node_sound_def)
next
  case (Some items)
  let ?el = "\<lambda>(i, el). walkField ff (path @ ''['' @ Itoa (int i) @ '']'') items el"
  have "seq_all (map ?el (enumerate 0 xs)) = Some fs"
    using walk sound Some by (simp add: walkField.simps[of ff path schema] node_sound_def)
  then have "reported fs p k \<longleftrightarrow> (\<exists>ie \<in> set (enumerate 0 xs).
      violates (path @ ''['' @ Itoa (int (fst ie)) @ '']'') items (snd ie) p k)"
  proof (rule reported_seq_map)
    fix ie ys assume ie: "ie \<in> set (enumerate 0 xs)" "?el ie = Some ys"
    obtain i el where "ie = (i, el)" by fastforce
    with ie show "reported ys p k \<longleftrightarrow> violates (path @ ''['' @ Itoa (int (fst ie)) @ '']'') items (snd ie) p k"
      using IH[OF Some] by (auto simp: in_set_enumerate_eq)
  qed
  then have "reported fs p k \<longleftrightarrow> (\<exists>i < length xs.
      violates (path @ ''['' @ Itoa (int i) @ '']'') items (xs ! i) p k)"
    by (simp only: bex_enumerate[of xs "\<lambda>i v. violates (path @ ''['' @ Itoa (int i) @ '']'') items v p k"])
  then show ?thesis
    unfolding violates_arr using Some sound by (auto simp: node_sound_def)
qed

lemma walkField_exact:
  "walkField ff path schema val = Some fs \<Longrightarrow> reported fs p k \<longleftrightarrow> violates path schema val p k"
proof (induction ff path schema val arbitrary: fs p k rule: walkField.induct)
  case (1 ff path schema val)
  note IHobj = 1(1) and IHarr = 1(2) and walk = 1(3)[unfolded walkField.simps[of ff path schema val]]
  consider (wrong) "type_wrong schema val" | (enum) "\<not> type_wrong schema val" "enum_result schema val = Some False"
    | (obj) m where "node_sound schema val" "schema_type schema = ''object''" "val = JObj m"
    | (arr) xs where "node_sound schema val" "schema_type schema = ''array''" "val = JArr xs"
    | (leaf) "node_sound schema val" "schema_type schema = ''object'' \<longrightarrow> as_obj val = None"
        "schema_type schema = ''array'' \<longrightarrow> as_arr val = None"
    using walk unfolding node_sound_def by (cases val) (auto split: option.splits bool.splits if_splits)
  then show ?case
  proof cases
    case wrong
    then show ?thesis using walk by (auto simp: violates.simps[of path schema val] node_sound_def)
  next
    case enum
    then show ?thesis using walk by (auto simp: violates.simps[of path schema val] node_sound_def)
  next
    case leaf
    then have "fs = []" using walk by (auto simp: node_sound_def split: if_splits)
    moreover have "\<not> violates path schema val p k" using leaf by (auto simp: violates.simps[of path schema val] node_sound_def)
    ultimately show ?thesis by simp
  next
    case obj
    show ?thesis
      unfolding obj(3)
    proof (rule walk_object_exact)
      show "walkField ff path schema (JObj m) = Some fs" using 1(3) obj(3) by simp
    next
      fix ps key fs v gs
      assume "getNestedMap schema ''properties'' = Some ps" "(key, JObj fs) \<in> set ps" "map_of m key = Some v"
        "walkField ff (subPath path key) fs v = Some gs"
      then show "reported gs p k \<longleftrightarrow> violates (subPath path key) fs v p k"
        using obj by (intro IHobj) (auto simp: node_sound_def)
    qed (use obj in auto)
  next
    case arr
    show ?thesis
      unfolding arr(3)
    proof (rule walk_array_exact)
      show "walkField ff path schema (JArr xs) = Some fs" using 1(3) arr(3) by simp
    next
      fix items i gs
      assume "getNestedMap schema ''items'' = Some items" "i < length xs"
        "walkField ff (path @ ''['' @ Itoa (int i) @ '']'') items (xs ! i) = Some gs"
      then show "reported gs p k \<longleftrightarrow> violates (path @ ''['' @ Itoa (int i) @ '']'') items (xs ! i) p k"
        using arr by (intro IHarr) (auto simp: node_sound_def in_set_enumerate_eq)
    qed (use arr in auto)
  qed
qed

section \<open>The validator does not panic on scalar enums\<close>

fun is_scalar :: "json \<Rightarrow> bool" where
  "is_scalar (JArr _) = False"
| "is_scalar (JObj _) = False"
| "is_scalar _ = True"

fun scalar_enum :: "json option \<Rightarrow> bool" where
  "scalar_enum (Some (JArr es)) = (\<forall>e \<in> set es. is_scalar e)"
| "scalar_enum _ = True"

fun enums_scalar :: "json \<Rightarrow> bool" where
  "enums_scalar (JArr xs) = (\<forall>x \<in> set xs. enums_scalar x)"
| "enums_scalar (JObj m) = (scalar_enum (map_of m ''enum'') \<and> (\<forall>kv \<in> set m. enums_scalar (snd kv)))"
| "enums_scalar _ = True"

lemma equalScalar_scalar: "is_scalar e \<Longrightarrow> equalScalar e v \<noteq> None"
  by (cases e) (auto simp: equalScalar_def split: option.splits)

lemma enum_loop_scalar: "\<forall>e \<in> set es. is_scalar e \<Longrightarrow> enum_loop es v \<noteq> None"
proof (induction es)
  case (Cons e es)
  then show ?case using equalScalar_scalar[of e v] by (auto split: option.splits bool.splits)
qed simp

lemma enum_result_scalar: "enums_scalar (JObj schema) \<Longrightarrow> enum_result schema v \<noteq> None"
  using enum_loop_scalar
  by (auto simp: enum_result_def jget_def split: option.splits if_splits)

lemma getNestedMap_scalar:
  "enums_scalar (JObj m) \<Longrightarrow> getNestedMap m key = Some sub \<Longrightarrow> enums_scalar (JObj sub)"
  by (auto simp: getNestedMap_def split: option.splits dest!: map_of_SomeD simp del: enums_scalar.simps(2))
     (metis enums_scalar.simps(2) snd_conv)

lemma seq_all_total: "\<forall>r \<in> set rs. r \<noteq> None \<Longrightarrow> seq_all rs \<noteq> None"
  by (induction rs) (auto simp: app_opt_def)

lemma walkField_total: "enums_scalar (JObj schema) \<Longrightarrow> walkField ff path schema val \<noteq> None"
proof (induction ff path schema val rule: walkField.induct)
  case (1 ff path schema val)
  note er = enum_result_scalar[OF 1(3), of val]
  show ?case
  proof (cases "node_sound schema val \<and> schema_type schema = ''object'' \<and> as_obj val \<noteq> None")
    case True
    then obtain m where m: "val = JObj m" by auto
    have "walk_props ff path m kv \<noteq> None"
      if ps: "getNestedMap schema ''properties'' = Some ps" and kv: "kv \<in> set ps" for ps kv
    proof -
      obtain k v where [simp]: "kv = (k, v)" by fastforce
      have sc: "enums_scalar (snd kv)" using getNestedMap_scalar[OF 1(3) ps] kv by auto
      have "walkField ff (subPath path k) fs w \<noteq> None" if "v = JObj fs" "map_of m k = Some w" for fs w
        using that True m ps kv sc by (intro 1(1)) (auto simp: node_sound_def simp del: enums_scalar.simps)
      then show ?thesis by (auto simp: walk_props_def split: option.splits)
    qed
    then have "seq_all (map (walk_props ff path m) ps) \<noteq> None"
      if "getNestedMap schema ''properties'' = Some ps" for ps
      using that by (intro seq_all_total) auto
    then show ?thesis
      using True unfolding m
      by (subst walkField_object) (auto simp: app_opt_def opt_app_def split: option.splits)
  next
    case False
    have "seq_all (map (\<lambda>(i, el). walkField ff (path @ ''['' @ Itoa (int i) @ '']'') items el) (enumerate 0 xs)) \<noteq> None"
      if "node_sound schema val" "schema_type schema = ''array''" "val = JArr xs"
        "getNestedMap schema ''items'' = Some items" for xs items
    proof -
      have "walkField ff (path @ ''['' @ Itoa (int i) @ '']'') items el \<noteq> None" if "(i, el) \<in> set (enumerate 0 xs)" for i el
        using that \<open>node_sound schema val\<close> \<open>schema_type schema = ''array''\<close> \<open>val = JArr xs\<close>
          \<open>getNestedMap schema ''items'' = Some items\<close> getNestedMap_scalar[OF 1(3), of "''items''" items]
        by (intro 1(2)) (auto simp: node_sound_def simp del: enums_scalar.simps)
      then show ?thesis by (intro seq_all_total) auto
    qed
    then show ?thesis
      using False er
      by (auto simp: walkField.simps[of ff path schema val] node_sound_def split: option.splits bool.splits)
  qed
qed

section \<open>ValidateManifest is exact\<close>

definition schema_root :: "obj \<Rightarrow> obj" where
  "schema_root schema = (case getNestedMap schema ''openAPIV3Schema'' of Some oapi \<Rightarrow> oapi | None \<Rightarrow> schema)"

text \<open>
  At the root the type and enum of the schema are not consulted, a schema without
  properties only has its required fields checked, and the structural fields are
  never unknown.
\<close>

inductive manifest_violates :: "obj \<Rightarrow> obj \<Rightarrow> string \<Rightarrow> ViolationKind \<Rightarrow> bool" where
  root_missing: "name \<in> set (required_names (schema_root schema)) \<Longrightarrow> map_of raw name = None \<Longrightarrow>
    manifest_violates schema raw name MissingRequired"
| root_unknown: "getNestedMap (schema_root schema) ''properties'' = Some ps \<Longrightarrow>
    additionalPropertiesFalse (schema_root schema) \<Longrightarrow> map_of raw key = Some v \<Longrightarrow> map_of ps key = None \<Longrightarrow>
    key \<notin> {''apiVersion'', ''kind'', ''metadata'', ''status''} \<Longrightarrow> manifest_violates schema raw key UnknownField"
| root_nested: "getNestedMap (schema_root schema) ''properties'' = Some ps \<Longrightarrow> (key, JObj fs) \<in> set ps \<Longrightarrow>
    map_of raw key = Some v \<Longrightarrow> violates key fs v p k \<Longrightarrow> manifest_violates schema raw p k"

lemma subPath_root [simp]: "subPath [] name = name"
  by (simp add: subPath_def)

lemma schema_root_scalar: "enums_scalar (JObj schema) \<Longrightarrow> enums_scalar (JObj (schema_root schema))"
  unfolding schema_root_def by (cases "getNestedMap schema ''openAPIV3Schema''") (auto dest: getNestedMap_scalar simp del: enums_scalar.simps)

lemma ValidateManifest_walk:
  assumes "schema \<noteq> []" "raw \<noteq> []" "getNestedMap (schema_root schema) ''properties'' = Some ps"
  shows "ValidateManifest ff schema raw =
     app_opt (checkRequired (schema_root schema) raw [])
       (opt_app (seq_all (map (walk_props ff [] raw) ps))
         (if additionalPropertiesFalse (schema_root schema)
          then map unknown_fact (filter (\<lambda>key. key \<notin> {''apiVersion'', ''kind'', ''metadata'', ''status''})
                 (unknown_keys (Some ps) raw))
          else []))"
  using assms unfolding ValidateManifest_def Let_def schema_root_def[symmetric] walk_props_def[abs_def] subPath_root by simp

lemma walk_props_root:
  assumes "seq_all (map (walk_props ff [] raw) ps) = Some gs"
  shows "reported gs p k \<longleftrightarrow> (\<exists>key fs v. (key, JObj fs) \<in> set ps \<and> map_of raw key = Some v \<and> violates key fs v p k)"
proof -
  have "reported gs p k \<longleftrightarrow> (\<exists>kv \<in> set ps. \<exists>fs v. snd kv = JObj fs \<and> map_of raw (fst kv) = Some v \<and>
      violates (fst kv) fs v p k)"
    using assms
  proof (rule reported_seq_map)
    fix kv ys assume kv: "walk_props ff [] raw kv = Some ys"
    obtain key v where "kv = (key, v)" by fastforce
    then show "reported ys p k \<longleftrightarrow> (\<exists>fs v. snd kv = JObj fs \<and> map_of raw (fst kv) = Some v \<and> violates (fst kv) fs v p k)"
      using kv walkField_exact by (auto simp: walk_props_def split: option.splits)
  qed
  then show ?thesis by force
qed

lemma reported_root_unknown:
  "reported (map unknown_fact keys) p k \<longleftrightarrow> k = UnknownField \<and> p \<in> set keys"
  by (auto simp: reported_def unknown_fact_def)

text \<open>
  C21: the R17 validator is total and exact.  On a schema whose enums list scalars
  the walk never panics, and it reports a (path, kind) pair precisely when the
  specification says the manifest departs from the schema there: a required field
  is missing, a field is unknown to a closed schema, a value has the wrong type,
  or it is outside its enum.
\<close>

theorem ValidateManifest_exact:
  assumes "enums_scalar (JObj schema)" "schema \<noteq> []" "raw \<noteq> []"
  shows "\<exists>facts. ValidateManifest ff schema raw = Some facts \<and>
           (\<forall>p k. reported facts p k \<longleftrightarrow> manifest_violates schema raw p k)"
proof (cases "getNestedMap (schema_root schema) ''properties''")
  case None
  then have "ValidateManifest ff schema raw = Some (checkRequired (schema_root schema) raw [])"
    using assms unfolding ValidateManifest_def Let_def schema_root_def[symmetric] by simp
  then show ?thesis using None by (auto simp: reported_required manifest_violates.simps)
next
  case (Some ps)
  have "walk_props ff [] raw kv \<noteq> None" if "kv \<in> set ps" for kv
  proof -
    obtain key v where kv: "kv = (key, v)" by fastforce
    have "enums_scalar v"
      using getNestedMap_scalar[OF schema_root_scalar[OF assms(1)] Some] that kv by auto
    then show ?thesis
      using kv walkField_total by (auto simp: walk_props_def split: option.splits simp del: enums_scalar.simps)
  qed
  then have "seq_all (map (walk_props ff [] raw) ps) \<noteq> None" by (intro seq_all_total) auto
  then obtain gs where gs: "seq_all (map (walk_props ff [] raw) ps) = Some gs" by blast
  show ?thesis
    unfolding ValidateManifest_walk[OF assms(2,3) Some] gs
    using Some
    by (auto simp: app_opt_def opt_app_def reported_required reported_root_unknown unknown_keys_set
        walk_props_root[OF gs] manifest_violates.simps)
qed

definition ex_schema :: obj where
  "ex_schema = [(''openAPIV3Schema'', JObj
     [(''required'', JArr [JStr ''spec'']),
      (''properties'', JObj [(''spec'', JObj
         [(''type'', JStr ''object''), (''additionalProperties'', JBool False),
          (''properties'', JObj [(''size'', JObj [(''type'', JStr ''integer'')])])])])])]"

definition ex_object_enum :: obj where
  "ex_object_enum = [(''properties'', JObj [(''spec'', JObj [(''enum'', JArr [JObj []])])])]"

text \<open>The last conjunct shows the panic: an enum of objects met by an object.\<close>

theorem ValidateManifest_exact_witness:
  "(\<exists>facts. ValidateManifest (\<lambda>_. []) ex_schema [(''spec'', JObj [(''size'', JStr ''big''), (''colour'', JNull)])] = Some facts \<and>
      reported facts ''spec.size'' WrongType \<and> reported facts ''spec.colour'' UnknownField) \<and>
   ValidateManifest (\<lambda>_. []) ex_object_enum [(''spec'', JObj [])] = None"
proof -
  let ?raw = "[(''spec'', JObj [(''size'', JStr ''big''), (''colour'', JNull)])]"
  have sc: "enums_scalar (JObj ex_schema)" "ex_schema \<noteq> []" by (simp_all add: ex_schema_def)
  let ?spec = "[(''type'', JStr ''object''), (''additionalProperties'', JBool False),
          (''properties'', JObj [(''size'', JObj [(''type'', JStr ''integer'')])])]"
  have props: "getNestedMap (schema_root ex_schema) ''properties'' = Some [(''spec'', JObj ?spec)]"
    by (simp add: ex_schema_def schema_root_def getNestedMap_def)
  have spec: "node_sound ?spec (JObj m)" "schema_type ?spec = ''object''" "additionalPropertiesFalse ?spec"
    "getNestedMap ?spec ''properties'' = Some [(''size'', JObj [(''type'', JStr ''integer'')])]" for m
    by (simp_all add: node_sound_def type_wrong_def enum_result_def schema_type_def jget_def jsonType_def
        typeCompatible_def additionalPropertiesFalse_def getNestedMap_def)
  have "violates ''spec.size'' [(''type'', JStr ''integer'')] (JStr ''big'') ''spec.size'' WrongType"
    by (rule wrong_type) (simp add: type_wrong_def schema_type_def jget_def jsonType_def typeCompatible_def)
  then have "violates ''spec'' ?spec (JObj [(''size'', JStr ''big''), (''colour'', JNull)]) ''spec.size'' WrongType"
    by (intro nested[OF spec(1,2) spec(4)]) (auto simp: subPath_def)
  moreover have "violates ''spec'' ?spec (JObj [(''size'', JStr ''big''), (''colour'', JNull)]) ''spec.colour'' UnknownField"
    using unknown[OF spec(1,2,3), of "[(''size'', JStr ''big''), (''colour'', JNull)]" "''colour''" JNull "''spec''"] spec(4)
    by (simp add: subPath_def)
  ultimately have "manifest_violates ex_schema ?raw ''spec.size'' WrongType \<and>
      manifest_violates ex_schema ?raw ''spec.colour'' UnknownField"
    by (auto intro: root_nested[OF props])
  moreover have "ValidateManifest (\<lambda>_. []) ex_object_enum [(''spec'', JObj [])] = None"
    by (simp add: ValidateManifest_def ex_object_enum_def getNestedMap_def app_opt_def opt_app_def walkField.simps
        type_wrong_def schema_type_def jget_def enum_result_def equalScalar_def)
  ultimately show ?thesis using ValidateManifest_exact[OF sc, of ?raw "\<lambda>_. []"] by auto
qed

end
