(* ===== verification/Extract.thy ===== *)
theory Extract
  imports PathWalk Registries Config Schemas
begin

text \<open>
  \<^verbatim>\<open>pkg/ir/trajectory_extract.go\<close>: the facts derived from the resources of a
  World.  Every extractor appends to one slice of the World; the slice it
  appends is a definition of its own, so that re-enrichment can be compared
  with a fresh enrichment.  Ranging over a Go map follows the order of the
  association list that stands for it.
\<close>

section \<open>Annotations and policies\<close>

definition apiGroup :: "string \<Rightarrow> string" where
  "apiGroup apiVersion = (case Index apiVersion ''/'' of Some i \<Rightarrow> take i apiVersion | None \<Rightarrow> [])"

definition annotationTruthy :: "strmap \<Rightarrow> string \<Rightarrow> bool" where
  "annotationTruthy annotations key =
     (case map_of annotations key of
        None \<Rightarrow> False
      | Some v \<Rightarrow> ToLower (TrimSpace v) \<notin> set [[], ''false'', ''0'', ''no'', ''off''])"

definition managementUpdateDisabled :: "obj \<Rightarrow> bool" where
  "managementUpdateDisabled spec =
     (case map_of spec ''managementPolicies'' of
        None \<Rightarrow> False
      | Some raw \<Rightarrow>
          (case as_arr raw of
             None \<Rightarrow> False
           | Some lst \<Rightarrow> \<not> list_ex (\<lambda>p. as_str p = Some ''*'' \<or> as_str p = Some ''Update'') lst))"

definition scalarString :: "json \<Rightarrow> string option" where
  "scalarString v = as_str v"

definition failsCanonicalDetector :: "string \<Rightarrow> string \<Rightarrow> bool" where
  "failsCanonicalDetector detector val =
     (if detector = ''arn-requires-revision'' then
        let seg = (case LastIndexByte val slash of Some i \<Rightarrow> drop (i + 1) val | None \<Rightarrow> val)
        in \<not> Contains seg '':''
      else False)"

definition lastDotted :: "string \<Rightarrow> string" where
  "lastDotted path = (case LastIndexByte path (CHR ''.'') of Some i \<Rightarrow> drop (i + 1) path | None \<Rightarrow> path)"

definition leafSeg :: "string \<Rightarrow> string" where
  "leafSeg path = lastDotted path"

section \<open>String leaves\<close>

definition sub_path :: "string \<Rightarrow> string \<Rightarrow> string" where
  "sub_path pfx k = (if pfx \<noteq> [] then pfx @ ''.'' @ k else k)"

definition elem_path :: "string \<Rightarrow> nat \<Rightarrow> string" where
  "elem_path path i = path @ ''['' @ Itoa (int i) @ '']''"

fun flattenStringLeaves :: "string \<Rightarrow> obj \<Rightarrow> strmap \<Rightarrow> strmap"
  and flatten_value :: "string \<Rightarrow> json \<Rightarrow> strmap \<Rightarrow> strmap"
  and flatten_elems :: "string \<Rightarrow> nat \<Rightarrow> json list \<Rightarrow> strmap \<Rightarrow> strmap" where
  "flattenStringLeaves pfx [] out = out"
| "flattenStringLeaves pfx ((k, v) # m) out =
     flattenStringLeaves pfx m (flatten_value (sub_path pfx k) v out)"
| "flatten_value path (JStr s) out = mput path s out"
| "flatten_value path (JObj sub) out = flattenStringLeaves path sub out"
| "flatten_value path (JArr xs) out = flatten_elems path 0 xs out"
| "flatten_value path v out = out"
| "flatten_elems path i [] out = out"
| "flatten_elems path i (e # xs) out =
     flatten_elems path (Suc i) xs
       (case e of
          JObj sub \<Rightarrow> flattenStringLeaves (elem_path path i) sub out
        | JStr s \<Rightarrow> mput (elem_path path i) s out
        | _ \<Rightarrow> out)"

section \<open>Wildcard indices\<close>

function extractBracketContents :: "string \<Rightarrow> string list" where
  "extractBracketContents s =
     (case Index s ''['' of
        None \<Rightarrow> []
      | Some i \<Rightarrow>
          (case Index (drop i s) '']'' of
             None \<Rightarrow> []
           | Some j \<Rightarrow> take (j - 1) (drop (i + 1) s) # extractBracketContents (drop (i + j + 1) s)))"
  by pat_completeness auto

termination
proof (relation "measure length", goal_cases)
  case (2 s i j)
  then show ?case using Index_Some_bound[of s "''[''" i] by simp
qed simp

declare extractBracketContents.simps [simp del]

function substituteWildcards :: "string \<Rightarrow> string list \<Rightarrow> string" where
  "substituteWildcards template indices =
     (case template of
        [] \<Rightarrow> []
      | c # rest \<Rightarrow>
          if c \<noteq> CHR ''['' then c # substituteWildcards rest indices
          else (case Index template '']'' of
                  None \<Rightarrow> template
                | Some e \<Rightarrow>
                    let inside = take (e - 1) rest; tail = drop (e + 1) template in
                    if (inside = [] \<or> inside = ''*'') \<and> indices \<noteq> []
                    then ''['' @ hd indices @ '']'' @ substituteWildcards tail (tl indices)
                    else take (e + 1) template @ substituteWildcards tail indices))"
  by pat_completeness auto

termination
  by (relation "measure (\<lambda>(template, indices). length template)") auto

declare substituteWildcards.simps [simp del]

definition specializeIndices :: "string \<Rightarrow> string \<Rightarrow> string" where
  "specializeIndices resolvedTemplate concreteSelector =
     (if \<not> Contains resolvedTemplate ''[]'' \<and> \<not> Contains resolvedTemplate ''[*]'' then resolvedTemplate
      else let indices = extractBracketContents concreteSelector
           in if indices = [] then resolvedTemplate else substituteWildcards resolvedTemplate indices)"

section \<open>Workloads\<close>

definition mount_ref :: "ResourceInfo \<Rightarrow> string \<Rightarrow> string \<Rightarrow> string \<Rightarrow> obj option \<Rightarrow> MountRef list" where
  "mount_ref owner targetKind mountKind nameKey ref =
     (case ref of
        None \<Rightarrow> []
      | Some m \<Rightarrow>
          let name = str_field m nameKey in
          if name \<noteq> [] then
            [\<lparr>mr_OwnerKind = ri_Kind owner, mr_OwnerName = ri_Name owner, mr_OwnerNamespace = ri_Namespace owner,
              mr_TargetKind = targetKind, mr_TargetName = name, mr_TargetNamespace = ri_Namespace owner,
              mr_MountKind = mountKind, mr_Optional = bool_field m ''optional'', mr_Source = ri_Source owner\<rparr>]
          else [])"

definition volume_refs :: "ResourceInfo \<Rightarrow> obj \<Rightarrow> MountRef list" where
  "volume_refs owner vm =
     mount_ref owner ''ConfigMap'' ''volume'' ''name'' (getMap vm ''configMap'')
     @ mount_ref owner ''Secret'' ''volume'' ''secretName'' (getMap vm ''secret'')
     @ concat (map (\<lambda>sm. mount_ref owner ''ConfigMap'' ''projected'' ''name'' (getMap sm ''configMap'')
                          @ mount_ref owner ''Secret'' ''projected'' ''name'' (getMap sm ''secret''))
               (case getMap vm ''projected'' of None \<Rightarrow> [] | Some proj \<Rightarrow> obj_elems (getSlice0 proj ''sources'')))"

definition container_refs :: "ResourceInfo \<Rightarrow> obj \<Rightarrow> MountRef list" where
  "container_refs owner cm =
     concat (map (\<lambda>em. mount_ref owner ''ConfigMap'' ''envFrom'' ''name'' (getMap em ''configMapRef'')
                       @ mount_ref owner ''Secret'' ''envFrom'' ''name'' (getMap em ''secretRef''))
             (obj_elems (getSlice0 cm ''envFrom'')))"

definition pod_mounts :: "ResourceInfo \<Rightarrow> obj \<Rightarrow> MountRef list" where
  "pod_mounts owner podSpec =
     concat (map (volume_refs owner) (obj_elems (getSlice0 podSpec ''volumes'')))
     @ concat (map (\<lambda>containerKey. concat (map (container_refs owner) (obj_elems (getSlice0 podSpec containerKey))))
               [''containers'', ''initContainers''])"

definition pod_sa :: "ResourceInfo \<Rightarrow> obj \<Rightarrow> SARef list" where
  "pod_sa owner podSpec =
     (let saName0 = str_field podSpec ''serviceAccountName'';
          saName = (if saName0 = [] then str_field podSpec ''serviceAccount'' else saName0)
      in if saName \<noteq> [] then
           [\<lparr>sar_OwnerKind = ri_Kind owner, sar_OwnerName = ri_Name owner, sar_OwnerNamespace = ri_Namespace owner,
             sar_SAName = saName, sar_SANamespace = ri_Namespace owner, sar_Source = ri_Source owner\<rparr>]
         else [])"

definition extractFromPodSpec :: "World \<Rightarrow> ResourceInfo \<Rightarrow> obj option \<Rightarrow> World" where
  "extractFromPodSpec w owner podSpec =
     (case podSpec of
        None \<Rightarrow> w
      | Some ps \<Rightarrow> w\<lparr>w_SARefs := w_SARefs w @ pod_sa owner ps, w_MountRefs := w_MountRefs w @ pod_mounts owner ps\<rparr>)"

definition rbac_bindings :: "ResourceInfo \<Rightarrow> RBACBinding list" where
  "rbac_bindings res =
     (case getMap (ri_Raw res) ''roleRef'' of
        None \<Rightarrow> []
      | Some roleRef \<Rightarrow>
          let roleKind = str_field roleRef ''kind''; roleName = str_field roleRef ''name'' in
          if roleKind = [] \<or> roleName = [] then []
          else
            let roleNs = (if ri_Kind res = ''RoleBinding'' \<and> roleKind = ''Role'' then ri_Namespace res else [])
            in map (\<lambda>sm. \<lparr>rbb_BindingKind = ri_Kind res, rbb_BindingName = ri_Name res, rbb_BindingNamespace = ri_Namespace res,
                         rbb_SubjectKind = str_field sm ''kind'', rbb_SubjectName = str_field sm ''name'',
                         rbb_SubjectNamespace = str_field sm ''namespace'', rbb_RoleKind = roleKind,
                         rbb_RoleName = roleName, rbb_RoleNamespace = roleNs, rbb_Source = ri_Source res\<rparr>)
                   (filter (\<lambda>sm. str_field sm ''kind'' \<noteq> [] \<and> str_field sm ''name'' \<noteq> [])
                     (obj_elems (getSlice0 (ri_Raw res) ''subjects''))))"

definition extractRBACBinding :: "World \<Rightarrow> ResourceInfo \<Rightarrow> World" where
  "extractRBACBinding w res = w\<lparr>w_RBACBindings := w_RBACBindings w @ rbac_bindings res\<rparr>"

definition rbac_rules :: "ResourceInfo \<Rightarrow> RBACRule list" where
  "rbac_rules res =
     map (\<lambda>rm. \<lparr>rbr_OwnerKind = ri_Kind res, rbr_OwnerName = ri_Name res, rbr_OwnerNamespace = ri_Namespace res,
                rbr_APIGroups = getStringSlice rm ''apiGroups'', rbr_Resources = getStringSlice rm ''resources'',
                rbr_Verbs = getStringSlice rm ''verbs'', rbr_ResourceNames = getStringSlice rm ''resourceNames'',
                rbr_Source = ri_Source res\<rparr>)
         (obj_elems (getSlice0 (ri_Raw res) ''rules''))"

definition extractRBACRules :: "World \<Rightarrow> ResourceInfo \<Rightarrow> World" where
  "extractRBACRules w res = w\<lparr>w_RBACRules := w_RBACRules w @ rbac_rules res\<rparr>"

text \<open>\<^verbatim>\<open>getMap\<close> of a nil map is nil.\<close>

definition workload_spec :: "ResourceInfo \<Rightarrow> obj option" where
  "workload_spec res =
     (let sub = (\<lambda>m k. Option.bind m (\<lambda>o'. getMap o' k)); raw = Some (ri_Raw res) in
      if ri_Kind res = ''Pod'' then sub raw ''spec''
      else if ri_Kind res \<in> set [''Deployment'', ''StatefulSet'', ''DaemonSet'', ''ReplicaSet'', ''Job'']
      then sub (sub (sub raw ''spec'') ''template'') ''spec''
      else if ri_Kind res = ''CronJob''
      then sub (sub (sub (sub (sub raw ''spec'') ''jobTemplate'') ''spec'') ''template'') ''spec''
      else None)"

definition extract_resource :: "World \<Rightarrow> ResourceInfo \<Rightarrow> World" where
  "extract_resource w res =
     (if ri_Kind res \<in> set [''Pod'', ''Deployment'', ''StatefulSet'', ''DaemonSet'', ''ReplicaSet'', ''Job'', ''CronJob'']
      then extractFromPodSpec w res (workload_spec res)
      else if ri_Kind res \<in> set [''RoleBinding'', ''ClusterRoleBinding''] then extractRBACBinding w res
      else if ri_Kind res \<in> set [''Role'', ''ClusterRole''] then extractRBACRules w res
      else w)"

section \<open>Registry joins\<close>

text \<open>Each join looks the resource's (group, kind) up in an index of the registry.\<close>

definition registry_hits ::
  "('m \<Rightarrow> string \<times> string) \<Rightarrow> 'm list \<Rightarrow> ResourceInfo \<Rightarrow> ('m \<Rightarrow> 'u list) \<Rightarrow> 'u list" where
  "registry_hits key mappings res uses =
     concat (map uses (mgetl (index_by key (\<lambda>m. m) mappings) (apiGroup (ri_APIVersion res), ri_Kind res)))"

definition selector_usages :: "SelectorMapping list \<Rightarrow> ResourceInfo list \<Rightarrow> SelectorUsage list" where
  "selector_usages mappings rs =
     concat (map (\<lambda>res. registry_hits (\<lambda>m. (sm_Group m, sm_Kind m)) mappings res (\<lambda>m.
       map (\<lambda>hit. \<lparr>su_ResourceGroup = apiGroup (ri_APIVersion res), su_ResourceKind = ri_Kind res,
                   su_ResourceName = ri_Name res, su_ResourceNamespace = ri_Namespace res,
                   su_SelectorPath = hit_Path hit,
                   su_ResolvedPath = specializeIndices (sm_ResolvedPath m) (hit_Path hit),
                   su_Source = ri_Source res\<rparr>)
           (WalkPath (ri_Raw res) (sm_SelectorPath m)))) rs)"

definition extractSelectorUsages :: "World \<Rightarrow> World" where
  "extractSelectorUsages w =
     w\<lparr>w_SelectorUsages := w_SelectorUsages w @ selector_usages (w_SelectorMappings w) (w_Resources w)\<rparr>"

definition late_init_usages :: "LateInitMapping list \<Rightarrow> ResourceInfo list \<Rightarrow> LateInitUsage list" where
  "late_init_usages mappings rs =
     concat (map (\<lambda>res. registry_hits (\<lambda>m. (lim_Group m, lim_Kind m)) mappings res (\<lambda>m.
       map (\<lambda>hit. \<lparr>liu_ResourceGroup = apiGroup (ri_APIVersion res), liu_ResourceKind = ri_Kind res,
                   liu_ResourceName = ri_Name res, liu_ResourceNamespace = ri_Namespace res,
                   liu_FieldPath = hit_Path hit, liu_Source = ri_Source res\<rparr>)
           (WalkPath (ri_Raw res) (lim_FieldPath m)))) rs)"

definition extractLateInitUsages :: "World \<Rightarrow> World" where
  "extractLateInitUsages w =
     w\<lparr>w_LateInitUsages := w_LateInitUsages w @ late_init_usages (w_LateInitMappings w) (w_Resources w)\<rparr>"

abbreviation "allowNonCanonicalAnnotation \<equiv> ''xpc.io/allow-noncanonical''"

text \<open>A path walk hit whose value is a non-empty string.\<close>

definition string_hits :: "PathHit list \<Rightarrow> (string \<times> string) list" where
  "string_hits hits =
     List.map_filter (\<lambda>hit. case scalarString (hit_Value hit) of
         Some v \<Rightarrow> if v = [] then None else Some (hit_Path hit, v)
       | None \<Rightarrow> None) hits"

definition canonical_form_usages :: "CanonicalFormMapping list \<Rightarrow> ResourceInfo list \<Rightarrow> CanonicalFormUsage list" where
  "canonical_form_usages mappings rs =
     concat (map (\<lambda>res. registry_hits (\<lambda>m. (cfm_Group m, cfm_Kind m)) mappings res (\<lambda>m.
       map (\<lambda>(path, val). \<lparr>cfu_ResourceGroup = apiGroup (ri_APIVersion res), cfu_ResourceKind = ri_Kind res,
                   cfu_ResourceName = ri_Name res, cfu_ResourceNamespace = ri_Namespace res,
                   cfu_FieldPath = path, cfu_Value = val, cfu_Canonical = cfm_Canonical m, cfu_Reason = cfm_Reason m,
                   cfu_NonCanonical = failsCanonicalDetector (cfm_Detector m) val,
                   cfu_UpdateDisabled = managementUpdateDisabled (getMap0 (ri_Raw res) ''spec''),
                   cfu_Bypass = annotationTruthy (ri_Annotations res) allowNonCanonicalAnnotation,
                   cfu_Source = ri_Source res\<rparr>)
           (string_hits (WalkPath (ri_Raw res) (cfm_FieldPath m))))) rs)"

definition extractCanonicalFormUsages :: "World \<Rightarrow> World" where
  "extractCanonicalFormUsages w =
     w\<lparr>w_CanonicalFormUsages := w_CanonicalFormUsages w @ canonical_form_usages (w_CanonicalFormMappings w) (w_Resources w)\<rparr>"

section \<open>Desired against observed state\<close>

definition registered_leaves :: "CanonicalFormMapping list \<Rightarrow> (string \<times> string \<times> string) list" where
  "registered_leaves mappings = map (\<lambda>m. (cfm_Group m, cfm_Kind m, leafSeg (cfm_FieldPath m))) mappings"

definition fixed_point_usage ::
  "CanonicalFormMapping list \<Rightarrow> ResourceInfo \<Rightarrow> string \<Rightarrow> string \<Rightarrow> string \<Rightarrow> FixedPointUsage" where
  "fixed_point_usage mappings res leaf dv ov =
     (let grp = apiGroup (ri_APIVersion res) in
      \<lparr>fpu_ResourceGroup = grp, fpu_ResourceKind = ri_Kind res, fpu_ResourceName = ri_Name res,
       fpu_ResourceNamespace = ri_Namespace res, fpu_FieldPath = ''spec.forProvider.'' @ leaf,
       fpu_Desired = dv, fpu_Observed = ov,
       fpu_Registered = ((grp, ri_Kind res, lastDotted leaf) \<in> set (registered_leaves mappings)),
       fpu_UpdateDisabled = managementUpdateDisabled (getMap0 (ri_Raw res) ''spec''), fpu_Source = ri_Source res\<rparr>)"

definition fixed_point_facts :: "CanonicalFormMapping list \<Rightarrow> ResourceInfo \<Rightarrow> FixedPointUsage list" where
  "fixed_point_facts mappings res =
     (let forProvider = getMap0 (getMap0 (ri_Raw res) ''spec'') ''forProvider'';
          atProvider = getMap0 (getMap0 (ri_Raw res) ''status'') ''atProvider''
      in if forProvider = [] \<or> atProvider = [] then []
         else if annotationTruthy (ri_Annotations res) allowNonCanonicalAnnotation then []
         else
           let desired = flattenStringLeaves [] forProvider [];
               observed = flattenStringLeaves [] atProvider []
           in List.map_filter (\<lambda>(leaf, dv).
                case map_of observed leaf of
                  None \<Rightarrow> None
                | Some ov \<Rightarrow> if dv = ov then None else Some (fixed_point_usage mappings res leaf dv ov)) desired)"

definition extractFixedPointUsages :: "World \<Rightarrow> World" where
  "extractFixedPointUsages w =
     w\<lparr>w_FixedPointUsages := w_FixedPointUsages w @ concat (map (fixed_point_facts (w_CanonicalFormMappings w)) (w_Resources w))\<rparr>"

section \<open>Adoption, deletion policies and server-side apply\<close>

abbreviation "externalNameAnnotation \<equiv> ''crossplane.io/external-name''"
abbreviation "allowMissingExternalNameAnnotation \<equiv> ''xpc.io/allow-missing-external-name''"

definition adopt_finding :: "ResourceInfo \<Rightarrow> ExternalNameAdoptFinding list" where
  "adopt_finding res =
     (let index = mfill (\<lambda>m. (enam_Group m, enam_Kind m)) (\<lambda>m. m) ExternalNameAdoptRegistry; grp = apiGroup (ri_APIVersion res) in
      if index = [] then []
      else if ri_Name res = [] then []
      else (case map_of index (grp, ri_Kind res) of
              None \<Rightarrow> []
            | Some m \<Rightarrow>
                if annotationTruthy (ri_Annotations res) allowMissingExternalNameAnnotation then []
                else if TrimSpace (mget (ri_Annotations res) externalNameAnnotation) \<noteq> [] then []
                else [\<lparr>enaf_Group = grp, enaf_Kind = ri_Kind res, enaf_Name = ri_Name res,
                       enaf_Namespace = ri_Namespace res, enaf_Reason = enam_Reason m, enaf_Source = ri_Source res\<rparr>]))"

definition extractExternalNameAdoptFindings :: "World \<Rightarrow> World" where
  "extractExternalNameAdoptFindings w =
     w\<lparr>w_ExternalNameAdoptFindings := w_ExternalNameAdoptFindings w @ concat (map adopt_finding (w_Resources w))\<rparr>"

definition readManagementPolicies :: "obj \<Rightarrow> string list option" where
  "readManagementPolicies raw =
     (case getMap raw ''spec'' of
        None \<Rightarrow> None
      | Some spec \<Rightarrow> map_option str_elems (getSlice spec ''managementPolicies''))"

definition ssamp_conflict :: "(string \<times> bool) list \<Rightarrow> ResourceInfo \<Rightarrow> SSAMPConflict list" where
  "ssamp_conflict ssaByApp res =
     (if ri_OwningApp res = [] then []
      else if map_of ssaByApp (ri_OwningApp res) \<noteq> Some True then []
      else (case readManagementPolicies (ri_Raw res) of
              None \<Rightarrow> []
            | Some policies \<Rightarrow>
                [\<lparr>ssamp_AppName = ri_OwningApp res, ssamp_ServerSideApply = True, ssamp_ManagementPolicies = policies,
                  ssamp_ResourceGroup = apiGroup (ri_APIVersion res), ssamp_ResourceKind = ri_Kind res,
                  ssamp_ResourceName = ri_Name res, ssamp_ResourceNamespace = ri_Namespace res,
                  ssamp_Source = ri_Source res\<rparr>]))"

definition ssa_by_app :: "ArgoApplication list \<Rightarrow> (string \<times> bool) list" where
  "ssa_by_app apps = mfill app_Name (\<lambda>app. so_ServerSideApply (sp_SyncOptions (app_SyncPolicy app))) apps"

definition extractSSAMPConflicts :: "World \<Rightarrow> World" where
  "extractSSAMPConflicts w =
     (if w_Resources w = [] \<or> w_ArgoApps w = [] then w
      else w\<lparr>w_SSAMPConflicts := w_SSAMPConflicts w @ concat (map (ssamp_conflict (ssa_by_app (w_ArgoApps w))) (w_Resources w))\<rparr>)"

definition deletion_fact :: "ArgoGroupKind list \<Rightarrow> BypassKeySet \<Rightarrow> ResourceInfo \<Rightarrow> CPDeletionPolicyFact list" where
  "deletion_fact kinds bypassKeys res =
     (let allow = map (\<lambda>gk. gk_Group gk @ ''/'' @ gk_Kind gk) kinds; grp = apiGroup (ri_APIVersion res) in
      if grp @ ''/'' @ ri_Kind res \<notin> set allow then []
      else [\<lparr>cpd_Group = grp, cpd_Kind = ri_Kind res, cpd_Name = ri_Name res, cpd_Namespace = ri_Namespace res,
             cpd_DeletionPolicy = (case getMap (ri_Raw res) ''spec'' of Some spec \<Rightarrow> str_field spec ''deletionPolicy'' | None \<Rightarrow> []),
             cpd_Bypass = BypassKeySet_Has bypassKeys (ri_Annotations res) BypassAllowDelete,
             cpd_Source = ri_Source res\<rparr>])"

definition extractCPDeletionPolicyFacts :: "World \<Rightarrow> World" where
  "extractCPDeletionPolicyFacts w =
     (if w_Resources w = [] then w
      else let source = (case w_StateBearingKinds w of Some ks \<Rightarrow> ks | None \<Rightarrow> StateBearingKindsRegistry)
           in w\<lparr>w_CPDeletionPolicyFacts := w_CPDeletionPolicyFacts w @ concat (map (deletion_fact source (w_BypassKeys w)) (w_Resources w))\<rparr>)"

section \<open>Enrichment\<close>

abbreviation "orphan_carveout_key \<equiv> ''crossplane-state-needs-orphan''"

text \<open>
  A knob that is nil is filled from the defaults.  The slices of bypass keys
  and production patterns are never empty once resolved, so an empty list
  stands for nil there.
\<close>

definition or_default :: "'a list \<Rightarrow> 'a list \<Rightarrow> 'a list" where
  "or_default xs d = (if xs = [] then d else xs)"

definition or_some :: "'a option \<Rightarrow> 'a \<Rightarrow> 'a option" where
  "or_some x d = (case x of None \<Rightarrow> Some d | Some y \<Rightarrow> Some y)"

definition ensureKnobDefaults :: "World \<Rightarrow> World" where
  "ensureKnobDefaults w =
     w\<lparr>w_ImmutableFields := or_some (w_ImmutableFields w) (ResolveImmutableFields None ImmutableFieldRegistry),
       w_StateBearingKinds := or_some (w_StateBearingKinds w) (ResolveStateBearingKinds None StateBearingKindsRegistry),
       w_EnvLabelKey := or_default (w_EnvLabelKey w) (fst (ResolveEnvLabel None)),
       w_EnvLabelClaimKinds := (if w_EnvLabelKey w = [] then fst (snd (ResolveEnvLabel None)) else w_EnvLabelClaimKinds w),
       w_EnvLabelAllowedValues := (if w_EnvLabelKey w = [] then snd (snd (ResolveEnvLabel None)) else w_EnvLabelAllowedValues w),
       w_ProdPatterns := or_default (w_ProdPatterns w) (ResolveProdPatterns None),
       w_BypassKeys := \<lparr>bk_AllowDelete = or_default (bk_AllowDelete (w_BypassKeys w)) (ResolveAllowDeleteKeys None),
                        bk_AllowImmutableChange = or_default (bk_AllowImmutableChange (w_BypassKeys w)) (ResolveAllowImmutableChangeKeys None)\<rparr>,
       w_NameCarveouts := (if mhas (w_NameCarveouts w) orphan_carveout_key then w_NameCarveouts w
                           else mput orphan_carveout_key (ResolveCrossplaneStateNeedsOrphanCarveouts None) (w_NameCarveouts w))\<rparr>"

definition EnrichTrajectoryData :: "World \<Rightarrow> World" where
  "EnrichTrajectoryData w =
     (let w0 = ensureKnobDefaults w;
          w1 = foldl extract_resource w0 (w_Resources w0);
          w2 = extractSelectorUsages (w1\<lparr>w_SelectorMappings := SelectorRegistry\<rparr>);
          w3 = extractLateInitUsages (w2\<lparr>w_LateInitMappings := LateInitRegistry\<rparr>);
          w4 = extractCanonicalFormUsages (w3\<lparr>w_CanonicalFormMappings := CanonicalFormRegistry\<rparr>);
          w5 = extractFixedPointUsages w4;
          w6 = extractExternalNameAdoptFindings w5;
          w7 = extractSSAMPConflicts w6
      in extractCPDeletionPolicyFacts w7)"

definition clear_facts :: "World \<Rightarrow> World" where
  "clear_facts w =
     w\<lparr>w_MountRefs := [], w_SARefs := [], w_RBACBindings := [], w_RBACRules := [], w_SelectorUsages := [],
       w_LateInitUsages := [], w_CanonicalFormUsages := [], w_FixedPointUsages := [], w_SSAMPConflicts := [],
       w_CPDeletionPolicyFacts := [], w_ResourceFieldFacts := [], w_ExternalNameAdoptFindings := []\<rparr>"

text \<open>\<^const>\<open>None\<close> is the panic of the field validator on an object-valued enum.\<close>

definition ReEnrich :: "(rat \<Rightarrow> string) \<Rightarrow> World \<Rightarrow> World option" where
  "ReEnrich ff w = EnrichFieldValidation ff (EnrichTrajectoryData (clear_facts w))"

section \<open>What one enrichment adds\<close>

definition resource_mounts :: "ResourceInfo \<Rightarrow> MountRef list" where
  "resource_mounts res = (case workload_spec res of None \<Rightarrow> [] | Some ps \<Rightarrow> pod_mounts res ps)"

definition resource_sas :: "ResourceInfo \<Rightarrow> SARef list" where
  "resource_sas res = (case workload_spec res of None \<Rightarrow> [] | Some ps \<Rightarrow> pod_sa res ps)"

definition resource_bindings :: "ResourceInfo \<Rightarrow> RBACBinding list" where
  "resource_bindings res = (if ri_Kind res \<in> set [''RoleBinding'', ''ClusterRoleBinding''] then rbac_bindings res else [])"

definition resource_rules :: "ResourceInfo \<Rightarrow> RBACRule list" where
  "resource_rules res = (if ri_Kind res \<in> set [''Role'', ''ClusterRole''] then rbac_rules res else [])"

lemma extract_resource_eq:
  "extract_resource w res =
     w\<lparr>w_SARefs := w_SARefs w @ resource_sas res, w_MountRefs := w_MountRefs w @ resource_mounts res,
       w_RBACBindings := w_RBACBindings w @ resource_bindings res, w_RBACRules := w_RBACRules w @ resource_rules res\<rparr>"
proof -
  consider (wl) "ri_Kind res \<in> set [''Pod'', ''Deployment'', ''StatefulSet'', ''DaemonSet'', ''ReplicaSet'', ''Job'', ''CronJob'']"
    | (other) "ri_Kind res \<notin> set [''Pod'', ''Deployment'', ''StatefulSet'', ''DaemonSet'', ''ReplicaSet'', ''Job'', ''CronJob'']"
    by blast
  then show ?thesis
  proof cases
    case wl
    then have "resource_bindings res = []" "resource_rules res = []"
      by (auto simp: resource_bindings_def resource_rules_def)
    then show ?thesis using wl
      by (cases "workload_spec res")
        (simp_all add: extract_resource_def extractFromPodSpec_def resource_mounts_def resource_sas_def)
  next
    case other
    then have "workload_spec res = None" by (simp add: workload_spec_def)
    then show ?thesis using other
      by (simp add: extract_resource_def resource_mounts_def resource_sas_def resource_bindings_def resource_rules_def
          extractRBACBinding_def extractRBACRules_def)
  qed
qed

lemma extract_fold:
  "foldl extract_resource w rs =
     w\<lparr>w_SARefs := w_SARefs w @ concat (map resource_sas rs), w_MountRefs := w_MountRefs w @ concat (map resource_mounts rs),
       w_RBACBindings := w_RBACBindings w @ concat (map resource_bindings rs),
       w_RBACRules := w_RBACRules w @ concat (map resource_rules rs)\<rparr>"
proof (induction rs arbitrary: w)
  case (Cons r rs)
  show ?case unfolding foldl_Cons Cons by (simp add: extract_resource_eq)
qed simp

lemma ssamp_no_apps: "concat (map (ssamp_conflict (ssa_by_app [])) rs) = []"
  by (auto simp: ssamp_conflict_def ssa_by_app_def mfill_def)

lemma extractSSAMP_eq:
  "extractSSAMPConflicts w =
     w\<lparr>w_SSAMPConflicts := w_SSAMPConflicts w @ concat (map (ssamp_conflict (ssa_by_app (w_ArgoApps w))) (w_Resources w))\<rparr>"
  using ssamp_no_apps by (auto simp: extractSSAMPConflicts_def)

lemma extractCP_eq:
  "extractCPDeletionPolicyFacts w =
     w\<lparr>w_CPDeletionPolicyFacts := w_CPDeletionPolicyFacts w @
       concat (map (deletion_fact (case w_StateBearingKinds w of Some ks \<Rightarrow> ks | None \<Rightarrow> StateBearingKindsRegistry) (w_BypassKeys w)) (w_Resources w))\<rparr>"
  by (auto simp: extractCPDeletionPolicyFacts_def)

lemma enrich_closed:
  "EnrichTrajectoryData w =
     (let k = ensureKnobDefaults w; rs = w_Resources k in
      k\<lparr>w_SARefs := w_SARefs k @ concat (map resource_sas rs),
        w_MountRefs := w_MountRefs k @ concat (map resource_mounts rs),
        w_RBACBindings := w_RBACBindings k @ concat (map resource_bindings rs),
        w_RBACRules := w_RBACRules k @ concat (map resource_rules rs),
        w_SelectorMappings := SelectorRegistry,
        w_SelectorUsages := w_SelectorUsages k @ selector_usages SelectorRegistry rs,
        w_LateInitMappings := LateInitRegistry,
        w_LateInitUsages := w_LateInitUsages k @ late_init_usages LateInitRegistry rs,
        w_CanonicalFormMappings := CanonicalFormRegistry,
        w_CanonicalFormUsages := w_CanonicalFormUsages k @ canonical_form_usages CanonicalFormRegistry rs,
        w_FixedPointUsages := w_FixedPointUsages k @ concat (map (fixed_point_facts CanonicalFormRegistry) rs),
        w_ExternalNameAdoptFindings := w_ExternalNameAdoptFindings k @ concat (map adopt_finding rs),
        w_SSAMPConflicts := w_SSAMPConflicts k @ concat (map (ssamp_conflict (ssa_by_app (w_ArgoApps k))) rs),
        w_CPDeletionPolicyFacts := w_CPDeletionPolicyFacts k @
          concat (map (deletion_fact (case w_StateBearingKinds k of Some ks \<Rightarrow> ks | None \<Rightarrow> StateBearingKindsRegistry)
                         (w_BypassKeys k)) rs)\<rparr>)"
  unfolding EnrichTrajectoryData_def Let_def extract_fold extractSSAMP_eq extractCP_eq
  by (simp add: extractSelectorUsages_def extractLateInitUsages_def extractCanonicalFormUsages_def
      extractFixedPointUsages_def extractExternalNameAdoptFindings_def)

section \<open>Re-enrichment\<close>

lemma or_default_idem [simp]: "or_default (or_default xs d) d = or_default xs d"
  by (simp add: or_default_def)

lemma or_some_idem [simp]: "or_some (or_some x d) d = or_some x d"
  by (simp add: or_some_def split: option.splits)

lemma mhas_mput [simp]: "mhas (mput k v m) k' = (k' = k \<or> mhas m k')"
  by (auto simp: mhas_def)

lemma env_label_key_ne: "or_default k (fst (ResolveEnvLabel None)) \<noteq> []"
  by (simp add: or_default_def ResolveEnvLabel_def defaultEnvLabelKey_def)

lemma ensure_idem: "ensureKnobDefaults (ensureKnobDefaults w) = ensureKnobDefaults w"
  by (simp add: ensureKnobDefaults_def env_label_key_ne)

text \<open>What enrichment reads: everything but the facts it writes and the registries it sets.\<close>

definition inputs :: "World \<Rightarrow> World" where
  "inputs w = (ensureKnobDefaults (clear_facts w))\<lparr>w_SelectorMappings := [], w_LateInitMappings := [], w_CanonicalFormMappings := []\<rparr>"

lemma clear_ensure: "clear_facts (ensureKnobDefaults w) = ensureKnobDefaults (clear_facts w)"
  by (simp add: clear_facts_def ensureKnobDefaults_def)

definition enriched :: "World \<Rightarrow> World" where
  "enriched k =
     (let rs = w_Resources k in
      k\<lparr>w_SARefs := concat (map resource_sas rs), w_MountRefs := concat (map resource_mounts rs),
        w_RBACBindings := concat (map resource_bindings rs), w_RBACRules := concat (map resource_rules rs),
        w_SelectorMappings := SelectorRegistry, w_SelectorUsages := selector_usages SelectorRegistry rs,
        w_LateInitMappings := LateInitRegistry, w_LateInitUsages := late_init_usages LateInitRegistry rs,
        w_CanonicalFormMappings := CanonicalFormRegistry,
        w_CanonicalFormUsages := canonical_form_usages CanonicalFormRegistry rs,
        w_FixedPointUsages := concat (map (fixed_point_facts CanonicalFormRegistry) rs),
        w_ExternalNameAdoptFindings := concat (map adopt_finding rs),
        w_SSAMPConflicts := concat (map (ssamp_conflict (ssa_by_app (w_ArgoApps k))) rs),
        w_CPDeletionPolicyFacts := concat (map (deletion_fact
            (case w_StateBearingKinds k of Some ks \<Rightarrow> ks | None \<Rightarrow> StateBearingKindsRegistry) (w_BypassKeys k)) rs)\<rparr>)"

lemma enrich_of_inputs: "EnrichTrajectoryData (clear_facts w) = enriched (inputs w)"
  unfolding enrich_closed Let_def enriched_def inputs_def
  by (simp add: ensureKnobDefaults_def clear_facts_def)

lemma inputs_enrich: "inputs (EnrichTrajectoryData w) = inputs w"
proof -
  have "inputs (EnrichTrajectoryData w) = inputs (ensureKnobDefaults w)"
    unfolding enrich_closed Let_def inputs_def by (simp add: clear_facts_def ensureKnobDefaults_def)
  then show ?thesis by (simp add: inputs_def clear_ensure ensure_idem)
qed

lemma inputs_resources:
  "inputs (w\<lparr>w_Resources := rs\<rparr>) = (inputs w)\<lparr>w_Resources := rs\<rparr>"
  "inputs (w\<lparr>w_CRDs := crds\<rparr>) = (inputs w)\<lparr>w_CRDs := crds\<rparr>"
  "inputs (w\<lparr>w_XRDs := xrds\<rparr>) = (inputs w)\<lparr>w_XRDs := xrds\<rparr>"
  "inputs (w\<lparr>w_ArgoApps := apps\<rparr>) = (inputs w)\<lparr>w_ArgoApps := apps\<rparr>"
  "inputs (w\<lparr>w_SchemaIndex := x\<rparr>) = (inputs w)\<lparr>w_SchemaIndex := x\<rparr>"
  "inputs (w\<lparr>w_ResourceFieldFacts := fs\<rparr>) = inputs w"
  by (simp_all add: inputs_def clear_facts_def ensureKnobDefaults_def)

lemma enriched_schema: "enriched (k\<lparr>w_SchemaIndex := x\<rparr>) = (enriched k)\<lparr>w_SchemaIndex := x\<rparr>"
  by (simp add: enriched_def Let_def)

lemma field_validation_shape:
  assumes "EnrichFieldValidation ff v = Some w"
  shows "\<exists>facts. w = v\<lparr>w_SchemaIndex := Some (fst (BuildSchemaIndex v)), w_ResourceFieldFacts := w_ResourceFieldFacts v @ facts\<rparr>"
proof -
  have idx: "snd (BuildSchemaIndex v) = v\<lparr>w_SchemaIndex := Some (fst (BuildSchemaIndex v))\<rparr>"
    by (cases "w_SchemaIndex v") (simp_all add: BuildSchemaIndex_def Let_def)
  show ?thesis
  proof (cases "fst (BuildSchemaIndex v) = []")
    case True
    then have "w = v\<lparr>w_SchemaIndex := Some (fst (BuildSchemaIndex v))\<rparr>"
      using assms idx by (simp add: EnrichFieldValidation_def case_prod_beta)
    then show ?thesis by (intro exI[of _ "[]"]) (simp add: World.equality)
  next
    case False
    then obtain facts where "w = (snd (BuildSchemaIndex v))\<lparr>w_ResourceFieldFacts := w_ResourceFieldFacts (snd (BuildSchemaIndex v)) @ facts\<rparr>"
      using assms by (auto simp: EnrichFieldValidation_def case_prod_beta split: option.splits)
    then show ?thesis using idx by (intro exI[of _ facts]) simp
  qed
qed

lemma field_validation_cached:
  "EnrichFieldValidation ff (v\<lparr>w_SchemaIndex := Some (fst (BuildSchemaIndex v))\<rparr>) = EnrichFieldValidation ff v"
proof -
  have "BuildSchemaIndex (v\<lparr>w_SchemaIndex := Some (fst (BuildSchemaIndex v))\<rparr>) = BuildSchemaIndex v"
    by (cases "w_SchemaIndex v") (simp_all add: BuildSchemaIndex_def Let_def)
  then show ?thesis by (simp add: EnrichFieldValidation_def)
qed

lemma ReEnrich_inputs: "ReEnrich ff w = EnrichFieldValidation ff (enriched (inputs w))"
  by (simp add: ReEnrich_def enrich_of_inputs)

lemma inputs_inputs: "inputs (enriched (inputs w)) = inputs w"
  using inputs_enrich[of "clear_facts w"] unfolding enrich_of_inputs
  by (simp add: inputs_def clear_facts_def)

text \<open>A World before its first enrichment: it holds none of the facts enrichment derives.\<close>

definition unenriched :: "World \<Rightarrow> bool" where
  "unenriched w = (clear_facts w = w)"

definition replaced :: "CRDInfo list \<Rightarrow> CRDInfo list \<Rightarrow> ResourceInfo list \<Rightarrow> ArgoApplication list \<Rightarrow> World \<Rightarrow> World" where
  "replaced crds xrds rs apps w = w\<lparr>w_CRDs := crds, w_XRDs := xrds, w_Resources := rs, w_ArgoApps := apps, w_SchemaIndex := None\<rparr>"

text \<open>The two steps a build enriches its World with.\<close>

definition first_enrichment :: "(rat \<Rightarrow> string) \<Rightarrow> World \<Rightarrow> World option" where
  "first_enrichment ff w = EnrichFieldValidation ff (EnrichTrajectoryData w)"

lemma inputs_replaced: "inputs (replaced crds xrds rs apps w) = replaced crds xrds rs apps (inputs w)"
  by (simp add: replaced_def inputs_resources)

lemma clear_replaced: "clear_facts (replaced crds xrds rs apps w) = replaced crds xrds rs apps (clear_facts w)"
  by (simp add: replaced_def clear_facts_def)

lemma first_enrichment_inputs: "unenriched w \<Longrightarrow> first_enrichment ff w = EnrichFieldValidation ff (enriched (inputs w))"
  using enrich_of_inputs[of w] by (simp add: first_enrichment_def unenriched_def)

text \<open>
  C25: re-enrichment recomputes.  Take a World that was enriched once, replace its definitions,
  resources and Applications (as the snapshot merge does, which also drops the cached schema index)
  and re-enrich it: the result is what the first enrichment of a World with those contents gives.
  No fact of the replaced contents survives, none is missing and none is there twice.
  Re-enriching twice changes nothing.
\<close>

theorem ReEnrich_recomputes:
  assumes "unenriched b" "first_enrichment ff b = Some w"
  shows "ReEnrich ff (replaced crds xrds rs apps w) = first_enrichment ff (replaced crds xrds rs apps b) \<and>
    (ReEnrich ff w = Some w' \<longrightarrow> ReEnrich ff w' = Some w')"
proof (intro conjI impI)
  obtain facts where w: "w = (EnrichTrajectoryData b)\<lparr>w_SchemaIndex := Some (fst (BuildSchemaIndex (EnrichTrajectoryData b))),
      w_ResourceFieldFacts := w_ResourceFieldFacts (EnrichTrajectoryData b) @ facts\<rparr>"
    using field_validation_shape[OF assms(2)[unfolded first_enrichment_def]] by blast
  have "inputs (replaced crds xrds rs apps w) = inputs (replaced crds xrds rs apps b)"
    unfolding w inputs_replaced by (simp add: replaced_def inputs_resources inputs_enrich)
  moreover have "unenriched (replaced crds xrds rs apps b)"
    using assms(1) by (simp add: unenriched_def clear_replaced)
  ultimately show "ReEnrich ff (replaced crds xrds rs apps w) = first_enrichment ff (replaced crds xrds rs apps b)"
    by (simp add: ReEnrich_inputs first_enrichment_inputs)
next
  assume "ReEnrich ff w = Some w'"
  let ?v = "enriched (inputs w)"
  from \<open>ReEnrich ff w = Some w'\<close> have some: "EnrichFieldValidation ff ?v = Some w'" by (simp add: ReEnrich_inputs)
  then obtain facts where w': "w' = ?v\<lparr>w_SchemaIndex := Some (fst (BuildSchemaIndex ?v)),
      w_ResourceFieldFacts := w_ResourceFieldFacts ?v @ facts\<rparr>"
    using field_validation_shape by blast
  have "inputs w' = (inputs w)\<lparr>w_SchemaIndex := Some (fst (BuildSchemaIndex ?v))\<rparr>"
    unfolding w' by (simp add: inputs_resources inputs_inputs)
  then have "ReEnrich ff w' = EnrichFieldValidation ff (?v\<lparr>w_SchemaIndex := Some (fst (BuildSchemaIndex ?v))\<rparr>)"
    by (simp add: ReEnrich_inputs enriched_schema)
  then show "ReEnrich ff w' = Some w'" using some field_validation_cached by simp
qed

definition ex_pod :: ResourceInfo where
  "ex_pod = zero_ResourceInfo\<lparr>ri_APIVersion := ''v1'', ri_Kind := ''Pod'', ri_Name := ''web'', ri_Namespace := ''ns'',
     ri_Raw := [(''spec'', JObj [(''volumes'', JArr [JObj [(''configMap'', JObj [(''name'', JStr ''conf'')])]])])]\<rparr>"

definition ex_built :: World where
  "ex_built = (EnrichTrajectoryData NewWorld)\<lparr>w_SchemaIndex := Some []\<rparr>"

lemma ex_built_eq: "EnrichFieldValidation ff (EnrichTrajectoryData NewWorld) = Some ex_built"
proof -
  have "w_SchemaIndex (EnrichTrajectoryData NewWorld) = None" "w_CRDs (EnrichTrajectoryData NewWorld) = []"
    "w_XRDs (EnrichTrajectoryData NewWorld) = []"
    by (simp_all add: enrich_closed Let_def ensureKnobDefaults_def NewWorld_def)
  then show ?thesis by (simp add: EnrichFieldValidation_def BuildSchemaIndex_def index_crds_def ex_built_def)
qed

theorem ReEnrich_recomputes_witness:
  "ReEnrich (\<lambda>_. []) (replaced [] [] [ex_pod] [] ex_built) = first_enrichment (\<lambda>_. []) (replaced [] [] [ex_pod] [] NewWorld)"
proof -
  have "unenriched NewWorld" by (simp add: unenriched_def clear_facts_def NewWorld_def)
  moreover have "first_enrichment (\<lambda>_. []) NewWorld = Some ex_built" by (simp add: first_enrichment_def ex_built_eq)
  ultimately show ?thesis using ReEnrich_recomputes by blast
qed

section \<open>Which references a pod makes\<close>

definition has_elem :: "obj \<Rightarrow> string \<Rightarrow> obj \<Rightarrow> bool" where
  "has_elem m k e = (\<exists>xs. getSlice m k = Some xs \<and> JObj e \<in> set xs)"

lemma has_elem_iff: "e \<in> set (obj_elems (getSlice0 m k)) \<longleftrightarrow> has_elem m k e"
  by (cases "getSlice m k") (auto simp: has_elem_def obj_elems_set)

text \<open>The references of a pod specification: target kind, name, mount kind and whether it is optional.\<close>

inductive volume_ref :: "obj \<Rightarrow> string \<Rightarrow> string \<Rightarrow> string \<Rightarrow> bool \<Rightarrow> bool" where
  configMap: "getMap vm ''configMap'' = Some m \<Longrightarrow> str_field m ''name'' = n \<Longrightarrow> n \<noteq> [] \<Longrightarrow>
    volume_ref vm ''ConfigMap'' n ''volume'' (bool_field m ''optional'')"
| secret: "getMap vm ''secret'' = Some m \<Longrightarrow> str_field m ''secretName'' = n \<Longrightarrow> n \<noteq> [] \<Longrightarrow>
    volume_ref vm ''Secret'' n ''volume'' (bool_field m ''optional'')"
| projectedConfigMap: "getMap vm ''projected'' = Some proj \<Longrightarrow> has_elem proj ''sources'' sm \<Longrightarrow>
    getMap sm ''configMap'' = Some m \<Longrightarrow> str_field m ''name'' = n \<Longrightarrow> n \<noteq> [] \<Longrightarrow>
    volume_ref vm ''ConfigMap'' n ''projected'' (bool_field m ''optional'')"
| projectedSecret: "getMap vm ''projected'' = Some proj \<Longrightarrow> has_elem proj ''sources'' sm \<Longrightarrow>
    getMap sm ''secret'' = Some m \<Longrightarrow> str_field m ''name'' = n \<Longrightarrow> n \<noteq> [] \<Longrightarrow>
    volume_ref vm ''Secret'' n ''projected'' (bool_field m ''optional'')"

inductive pod_ref :: "obj \<Rightarrow> string \<Rightarrow> string \<Rightarrow> string \<Rightarrow> bool \<Rightarrow> bool" where
  volumes: "has_elem ps ''volumes'' vm \<Longrightarrow> volume_ref vm k n mk opt \<Longrightarrow> pod_ref ps k n mk opt"
| envConfigMap: "ck = ''containers'' \<or> ck = ''initContainers'' \<Longrightarrow> has_elem ps ck c \<Longrightarrow>
    has_elem c ''envFrom'' e \<Longrightarrow> getMap e ''configMapRef'' = Some m \<Longrightarrow>
    str_field m ''name'' = n \<Longrightarrow> n \<noteq> [] \<Longrightarrow> pod_ref ps ''ConfigMap'' n ''envFrom'' (bool_field m ''optional'')"
| envSecret: "ck = ''containers'' \<or> ck = ''initContainers'' \<Longrightarrow> has_elem ps ck c \<Longrightarrow>
    has_elem c ''envFrom'' e \<Longrightarrow> getMap e ''secretRef'' = Some m \<Longrightarrow>
    str_field m ''name'' = n \<Longrightarrow> n \<noteq> [] \<Longrightarrow> pod_ref ps ''Secret'' n ''envFrom'' (bool_field m ''optional'')"

definition mount_of :: "ResourceInfo \<Rightarrow> string \<Rightarrow> string \<Rightarrow> string \<Rightarrow> bool \<Rightarrow> MountRef" where
  "mount_of owner k n mk opt =
     \<lparr>mr_OwnerKind = ri_Kind owner, mr_OwnerName = ri_Name owner, mr_OwnerNamespace = ri_Namespace owner,
      mr_TargetKind = k, mr_TargetName = n, mr_TargetNamespace = ri_Namespace owner,
      mr_MountKind = mk, mr_Optional = opt, mr_Source = ri_Source owner\<rparr>"

lemma mount_ref_iff:
  "x \<in> set (mount_ref owner k mk key ref) \<longleftrightarrow>
     (\<exists>m. ref = Some m \<and> str_field m key \<noteq> [] \<and> x = mount_of owner k (str_field m key) mk (bool_field m ''optional''))"
  by (cases ref) (auto simp: mount_ref_def mount_of_def Let_def)

lemma volume_refs_iff:
  "x \<in> set (volume_refs owner vm) \<longleftrightarrow>
     x \<in> set (mount_ref owner ''ConfigMap'' ''volume'' ''name'' (getMap vm ''configMap'')) \<or>
     x \<in> set (mount_ref owner ''Secret'' ''volume'' ''secretName'' (getMap vm ''secret'')) \<or>
     (\<exists>proj sm. getMap vm ''projected'' = Some proj \<and> has_elem proj ''sources'' sm \<and>
        (x \<in> set (mount_ref owner ''ConfigMap'' ''projected'' ''name'' (getMap sm ''configMap'')) \<or>
         x \<in> set (mount_ref owner ''Secret'' ''projected'' ''name'' (getMap sm ''secret''))))"
proof (cases "getMap vm ''projected''")
  case None
  then show ?thesis by (simp add: volume_refs_def)
next
  case (Some proj)
  then show ?thesis unfolding volume_refs_def by (simp add: has_elem_iff[symmetric] Bex_def)
qed

lemma container_refs_iff:
  "x \<in> set (container_refs owner c) \<longleftrightarrow>
     (\<exists>e. has_elem c ''envFrom'' e \<and>
        (x \<in> set (mount_ref owner ''ConfigMap'' ''envFrom'' ''name'' (getMap e ''configMapRef'')) \<or>
         x \<in> set (mount_ref owner ''Secret'' ''envFrom'' ''name'' (getMap e ''secretRef''))))"
  unfolding container_refs_def by (simp add: has_elem_iff[symmetric] Bex_def)

lemma pod_mounts_iff:
  "x \<in> set (pod_mounts owner ps) \<longleftrightarrow>
     (\<exists>vm. has_elem ps ''volumes'' vm \<and> x \<in> set (volume_refs owner vm)) \<or>
     (\<exists>ck c. (ck = ''containers'' \<or> ck = ''initContainers'') \<and> has_elem ps ck c \<and> x \<in> set (container_refs owner c))"
  unfolding pod_mounts_def by (simp add: has_elem_iff[symmetric] Bex_def ex_disj_distrib conj_disj_distribR)

lemma volume_refs_spec:
  "x \<in> set (volume_refs owner vm) \<longleftrightarrow> (\<exists>k n mk opt. volume_ref vm k n mk opt \<and> x = mount_of owner k n mk opt)"
proof
  assume "x \<in> set (volume_refs owner vm)"
  then show "\<exists>k n mk opt. volume_ref vm k n mk opt \<and> x = mount_of owner k n mk opt"
    unfolding volume_refs_iff mount_ref_iff by (blast intro: volume_ref.intros)
next
  assume "\<exists>k n mk opt. volume_ref vm k n mk opt \<and> x = mount_of owner k n mk opt"
  then obtain k n mk opt where "volume_ref vm k n mk opt" "x = mount_of owner k n mk opt" by blast
  then show "x \<in> set (volume_refs owner vm)"
    unfolding volume_refs_iff mount_ref_iff by cases blast+
qed

lemma pod_mounts_spec:
  "x \<in> set (pod_mounts owner ps) \<longleftrightarrow> (\<exists>k n mk opt. pod_ref ps k n mk opt \<and> x = mount_of owner k n mk opt)"
proof
  assume "x \<in> set (pod_mounts owner ps)"
  then consider vm k n mk opt where "has_elem ps ''volumes'' vm" "volume_ref vm k n mk opt" "x = mount_of owner k n mk opt"
    | ck c e m where "ck = ''containers'' \<or> ck = ''initContainers''" "has_elem ps ck c" "has_elem c ''envFrom'' e"
        "getMap e ''configMapRef'' = Some m" "str_field m ''name'' \<noteq> []"
        "x = mount_of owner ''ConfigMap'' (str_field m ''name'') ''envFrom'' (bool_field m ''optional'')"
    | ck c e m where "ck = ''containers'' \<or> ck = ''initContainers''" "has_elem ps ck c" "has_elem c ''envFrom'' e"
        "getMap e ''secretRef'' = Some m" "str_field m ''name'' \<noteq> []"
        "x = mount_of owner ''Secret'' (str_field m ''name'') ''envFrom'' (bool_field m ''optional'')"
    unfolding pod_mounts_iff volume_refs_spec container_refs_iff mount_ref_iff by metis
  then show "\<exists>k n mk opt. pod_ref ps k n mk opt \<and> x = mount_of owner k n mk opt"
    by cases (blast intro: pod_ref.intros)+
next
  assume "\<exists>k n mk opt. pod_ref ps k n mk opt \<and> x = mount_of owner k n mk opt"
  then obtain k n mk opt where "pod_ref ps k n mk opt" "x = mount_of owner k n mk opt" by blast
  then show "x \<in> set (pod_mounts owner ps)"
  proof cases
    case (volumes vm)
    then show ?thesis unfolding pod_mounts_iff volume_refs_spec
      using \<open>x = mount_of owner k n mk opt\<close> by (intro disjI1) blast
  next
    case (envConfigMap ck c e m)
    then have "x \<in> set (container_refs owner c)"
      unfolding container_refs_iff mount_ref_iff using \<open>x = mount_of owner k n mk opt\<close> by blast
    then show ?thesis unfolding pod_mounts_iff using envConfigMap(4,5) by blast
  next
    case (envSecret ck c e m)
    then have "x \<in> set (container_refs owner c)"
      unfolding container_refs_iff mount_ref_iff using \<open>x = mount_of owner k n mk opt\<close> by blast
    then show ?thesis unfolding pod_mounts_iff using envSecret(4,5) by blast
  qed
qed

text \<open>
  The mount references after enrichment are the ones already there and,
  for each workload, exactly the ConfigMaps and Secrets its pod specification
  names in volumes, projected volumes or \<^verbatim>\<open>envFrom\<close>, each attributed to its
  owner and namespace.
\<close>

theorem EnrichTrajectoryData_mounts_exact:
  "set (w_MountRefs (EnrichTrajectoryData w)) =
     set (w_MountRefs w) \<union>
     {mount_of r k n mk opt | r ps k n mk opt.
        r \<in> set (w_Resources w) \<and> workload_spec r = Some ps \<and> pod_ref ps k n mk opt}"
proof -
  have "set (resource_mounts r) = {mount_of r k n mk opt | ps k n mk opt. workload_spec r = Some ps \<and> pod_ref ps k n mk opt}" for r
    by (cases "workload_spec r") (auto simp: resource_mounts_def set_eq_iff pod_mounts_spec)
  moreover have "w_MountRefs (EnrichTrajectoryData w) = w_MountRefs w @ concat (map resource_mounts (w_Resources w))"
    by (simp add: enrich_closed Let_def ensureKnobDefaults_def)
  ultimately show ?thesis by (simp add: set_eq_iff) blast
qed

section \<open>Divergence from observed state\<close>

text \<open>
  The string leaves of a decoded value and their paths.  An array directly
  inside an array has no leaves.
\<close>

inductive leaf_at :: "string \<Rightarrow> json \<Rightarrow> string \<Rightarrow> string \<Rightarrow> bool" where
  str: "leaf_at path (JStr s) path s"
| obj: "(k, v) \<in> set m \<Longrightarrow> leaf_at (sub_path path k) v p s \<Longrightarrow> leaf_at path (JObj m) p s"
| arr: "i < length xs \<Longrightarrow> as_arr (xs ! i) = None \<Longrightarrow> leaf_at (elem_path path i) (xs ! i) p s \<Longrightarrow> leaf_at path (JArr xs) p s"

inductive_simps leaf_at_str [simp]: "leaf_at path (JStr s) p t"
inductive_simps leaf_at_obj: "leaf_at path (JObj m) p t"
inductive_simps leaf_at_arr: "leaf_at path (JArr xs) p t"
inductive_simps leaf_at_other [simp]: "leaf_at path JNull p t" "leaf_at path (JBool b) p t" "leaf_at path (JInt n) p t" "leaf_at path (JFloat q) p t"

definition elem_leaf :: "string \<Rightarrow> nat \<Rightarrow> json list \<Rightarrow> string \<Rightarrow> string \<Rightarrow> bool" where
  "elem_leaf path i xs p s = (\<exists>j < length xs. as_arr (xs ! j) = None \<and> leaf_at (elem_path path (i + j)) (xs ! j) p s)"

lemma elem_leaf_Nil [simp]: "\<not> elem_leaf path i [] p s"
  by (simp add: elem_leaf_def)

lemma elem_leaf_Cons [simp]:
  "elem_leaf path i (x # xs) p s \<longleftrightarrow>
     (as_arr x = None \<and> leaf_at (elem_path path i) x p s) \<or> elem_leaf path (Suc i) xs p s"
  by (simp add: elem_leaf_def Ex_less_Suc2)

lemma leaf_at_Cons [simp]: "leaf_at path (JObj ((k, v) # m)) p s \<longleftrightarrow> leaf_at (sub_path path k) v p s \<or> leaf_at path (JObj m) p s"
  by (auto simp: leaf_at_obj)

lemma leaf_at_Nil [simp]: "\<not> leaf_at path (JObj []) p s"
  by (simp add: leaf_at_obj)

text \<open>Later leaves win, so a value of the map is a leaf, and every leaf has its path in the map.\<close>

definition holds_leaves :: "strmap \<Rightarrow> strmap \<Rightarrow> (string \<Rightarrow> string \<Rightarrow> bool) \<Rightarrow> bool" where
  "holds_leaves out' out leaf =
     (\<forall>p. (\<forall>s. map_of out' p = Some s \<longrightarrow> leaf p s \<or> map_of out p = Some s) \<and>
          (map_of out' p = None \<longleftrightarrow> (\<forall>s. \<not> leaf p s) \<and> map_of out p = None))"

lemma holds_leaves_trans:
  "holds_leaves b a f \<Longrightarrow> holds_leaves c b g \<Longrightarrow> (\<And>p s. h p s \<longleftrightarrow> f p s \<or> g p s) \<Longrightarrow> holds_leaves c a h"
  unfolding holds_leaves_def by blast

lemma holds_leaves_none: "(\<And>p s. \<not> f p s) \<Longrightarrow> holds_leaves a a f"
  by (simp add: holds_leaves_def)

lemma holds_leaves_put: "holds_leaves (mput p s out) out (\<lambda>q t. q = p \<and> t = s)"
  by (auto simp: holds_leaves_def)

lemma flatten_leaves:
  "holds_leaves (flattenStringLeaves pfx m out) out (leaf_at pfx (JObj m))"
  "holds_leaves (flatten_value path v out) out (leaf_at path v)"
  "holds_leaves (flatten_elems path i xs out) out (elem_leaf path i xs)"
proof (induction pfx m out and path v out and path i xs out rule: flattenStringLeaves_flatten_value_flatten_elems.induct)
  case (2 pfx k v m out)
  then show ?case by (auto intro: holds_leaves_trans)
next
  case (3 path s out)
  then show ?case using holds_leaves_put[of path s out] by (simp add: holds_leaves_def)
next
  case (5 path xs out)
  then show ?case by (simp add: elem_leaf_def leaf_at_arr[abs_def])
next
  case (8 path i e xs out)
  show ?case
  proof (cases e)
    case (JStr s)
    then show ?thesis using 8 holds_leaves_put[of "elem_path path i" s out] by (auto intro: holds_leaves_trans)
  next
    case (JObj sub)
    then show ?thesis using 8 by (auto intro: holds_leaves_trans)
  qed (use 8 in \<open>auto simp: holds_leaves_def\<close>)
qed (auto intro: holds_leaves_none)

lemma flatten_distinct:
  "distinct (map fst out) \<Longrightarrow> distinct (map fst (flattenStringLeaves pfx m out))"
  "distinct (map fst out) \<Longrightarrow> distinct (map fst (flatten_value path v out))"
  "distinct (map fst out) \<Longrightarrow> distinct (map fst (flatten_elems path i xs out))"
proof (induction pfx m out and path v out and path i xs out rule: flattenStringLeaves_flatten_value_flatten_elems.induct)
  case (8 path i e xs out)
  then show ?case by (cases e) auto
qed auto

lemma flatten_top:
  assumes "leaf_at [] (JObj m) p s" "\<And>t. leaf_at [] (JObj m) p t \<Longrightarrow> t = s"
  shows "map_of (flattenStringLeaves [] m []) p = Some s"
  using flatten_leaves(1)[of "[]" m "[]"] assms unfolding holds_leaves_def
  by (metis map_of.simps(1) not_None_eq)

lemma flatten_top_leaf: "map_of (flattenStringLeaves [] m []) p = Some s \<Longrightarrow> leaf_at [] (JObj m) p s"
  using flatten_leaves(1)[of "[]" m "[]"] unfolding holds_leaves_def by (metis map_of.simps(1) not_None_eq)

text \<open>The desired and the observed state of a managed resource.\<close>

abbreviation for_provider :: "ResourceInfo \<Rightarrow> obj" where
  "for_provider r \<equiv> getMap0 (getMap0 (ri_Raw r) ''spec'') ''forProvider''"

abbreviation at_provider :: "ResourceInfo \<Rightarrow> obj" where
  "at_provider r \<equiv> getMap0 (getMap0 (ri_Raw r) ''status'') ''atProvider''"

definition exempt :: "ResourceInfo \<Rightarrow> bool" where
  "exempt r = annotationTruthy (ri_Annotations r) allowNonCanonicalAnnotation"

definition diverges :: "ResourceInfo \<Rightarrow> FixedPointUsage \<Rightarrow> bool" where
  "diverges r u =
     (\<exists>leaf. fpu_FieldPath u = ''spec.forProvider.'' @ leaf \<and>
        leaf_at [] (JObj (for_provider r)) leaf (fpu_Desired u) \<and>
        leaf_at [] (JObj (at_provider r)) leaf (fpu_Observed u) \<and> fpu_Desired u \<noteq> fpu_Observed u)"

lemma set_map_filter: "set (List.map_filter f xs) = {y. \<exists>x \<in> set xs. f x = Some y}"
  by (force simp: map_filter_def)

lemma leaf_nonempty: "leaf_at p (JObj m) q s \<Longrightarrow> m \<noteq> []"
  by auto

lemma fixed_point_facts_iff:
  "u \<in> set (fixed_point_facts ms r) \<longleftrightarrow>
     for_provider r \<noteq> [] \<and> at_provider r \<noteq> [] \<and> \<not> exempt r \<and>
     (\<exists>leaf dv ov. map_of (flattenStringLeaves [] (for_provider r) []) leaf = Some dv \<and>
        map_of (flattenStringLeaves [] (at_provider r) []) leaf = Some ov \<and> dv \<noteq> ov \<and> u = fixed_point_usage ms r leaf dv ov)"
proof -
  let ?d = "flattenStringLeaves [] (for_provider r) []"
  have "distinct (map fst ?d)" using flatten_distinct(1)[of "[]"] by simp
  then have mem: "(leaf, dv) \<in> set ?d \<longleftrightarrow> map_of ?d leaf = Some dv" for leaf dv by simp
  have pick: "(case x of None \<Rightarrow> None | Some ov \<Rightarrow> if dv = ov then None else Some (f ov)) = Some u \<longleftrightarrow>
      (\<exists>ov. x = Some ov \<and> dv \<noteq> ov \<and> u = f ov)" for x and dv :: string and f :: "string \<Rightarrow> FixedPointUsage"
    by (auto split: option.splits)
  show ?thesis unfolding fixed_point_facts_def Let_def exempt_def
    by (simp add: set_map_filter Bex_def split_paired_Ex mem pick)
qed

lemma facts_diverge: "u \<in> set (fixed_point_facts ms r) \<Longrightarrow> diverges r u \<and> \<not> exempt r"
  unfolding fixed_point_facts_iff diverges_def
  by (auto dest!: flatten_top_leaf simp: fixed_point_usage_def Let_def)

lemma diverging_found:
  assumes "\<not> exempt r"
    and d: "leaf_at [] (JObj (for_provider r)) leaf d" "\<And>t. leaf_at [] (JObj (for_provider r)) leaf t \<Longrightarrow> t = d"
    and ob: "leaf_at [] (JObj (at_provider r)) leaf ob" "\<And>t. leaf_at [] (JObj (at_provider r)) leaf t \<Longrightarrow> t = ob"
    and "d \<noteq> ob"
  shows "fixed_point_usage ms r leaf d ob \<in> set (fixed_point_facts ms r)"
  unfolding fixed_point_facts_iff
  using assms(1,6) flatten_top[OF d] flatten_top[OF ob] leaf_nonempty[OF d(1)] leaf_nonempty[OF ob(1)] by blast

lemma fixed_point_enriched:
  "w_FixedPointUsages (EnrichTrajectoryData w) =
     w_FixedPointUsages w @ concat (map (fixed_point_facts CanonicalFormRegistry) (w_Resources w))"
  by (simp add: enrich_closed Let_def ensureKnobDefaults_def)

text \<open>
  every fixed-point usage that enrichment adds names a string leaf on which
  the desired and the observed state of a resource that is not exempted
  differ; and a leaf with one desired and one different observed value is
  always reported.
\<close>

theorem fixed_point_usages_diverge:
  "(u \<in> set (w_FixedPointUsages (EnrichTrajectoryData w)) \<longrightarrow> u \<notin> set (w_FixedPointUsages w) \<longrightarrow>
      (\<exists>r \<in> set (w_Resources w). \<not> exempt r \<and> diverges r u)) \<and>
   (r \<in> set (w_Resources w) \<longrightarrow> \<not> exempt r \<longrightarrow>
      {t. leaf_at [] (JObj (for_provider r)) leaf t} = {d} \<longrightarrow> {t. leaf_at [] (JObj (at_provider r)) leaf t} = {ob} \<longrightarrow> d \<noteq> ob \<longrightarrow>
      (\<exists>u \<in> set (w_FixedPointUsages (EnrichTrajectoryData w)).
         fpu_FieldPath u = ''spec.forProvider.'' @ leaf \<and> fpu_Desired u = d \<and> fpu_Observed u = ob \<and>
         fpu_ResourceName u = ri_Name r \<and> fpu_ResourceNamespace u = ri_Namespace r))"
proof (intro conjI impI)
  assume "u \<in> set (w_FixedPointUsages (EnrichTrajectoryData w))" "u \<notin> set (w_FixedPointUsages w)"
  then obtain r where "r \<in> set (w_Resources w)" "u \<in> set (fixed_point_facts CanonicalFormRegistry r)"
    by (auto simp: fixed_point_enriched)
  then show "\<exists>r \<in> set (w_Resources w). \<not> exempt r \<and> diverges r u" using facts_diverge by blast
next
  assume r: "r \<in> set (w_Resources w)" "\<not> exempt r"
    and "{t. leaf_at [] (JObj (for_provider r)) leaf t} = {d}" "{t. leaf_at [] (JObj (at_provider r)) leaf t} = {ob}" "d \<noteq> ob"
  then have "fixed_point_usage CanonicalFormRegistry r leaf d ob \<in> set (fixed_point_facts CanonicalFormRegistry r)"
    using diverging_found[of r leaf d ob CanonicalFormRegistry] by blast
  then show "\<exists>u \<in> set (w_FixedPointUsages (EnrichTrajectoryData w)).
         fpu_FieldPath u = ''spec.forProvider.'' @ leaf \<and> fpu_Desired u = d \<and> fpu_Observed u = ob \<and>
         fpu_ResourceName u = ri_Name r \<and> fpu_ResourceNamespace u = ri_Namespace r"
    using r(1) by (intro bexI[of _ "fixed_point_usage CanonicalFormRegistry r leaf d ob"])
      (auto simp: fixed_point_enriched fixed_point_usage_def Let_def)
qed

definition ex_managed :: ResourceInfo where
  "ex_managed = zero_ResourceInfo\<lparr>ri_APIVersion := ''ecs.aws.upbound.io/v1beta1'', ri_Kind := ''Service'', ri_Name := ''svc'',
     ri_Raw := [(''spec'', JObj [(''forProvider'', JObj [(''taskDefinition'', JStr ''td'')])]),
                (''status'', JObj [(''atProvider'', JObj [(''taskDefinition'', JStr ''td:7'')])])]\<rparr>"

theorem fixed_point_usages_diverge_witness:
  "\<exists>u \<in> set (w_FixedPointUsages (EnrichTrajectoryData (NewWorld\<lparr>w_Resources := [ex_managed]\<rparr>))).
     fpu_FieldPath u = ''spec.forProvider.taskDefinition'' \<and> fpu_Desired u = ''td'' \<and> fpu_Observed u = ''td:7''"
proof -
  have fp: "for_provider ex_managed = [(''taskDefinition'', JStr ''td'')]" "at_provider ex_managed = [(''taskDefinition'', JStr ''td:7'')]"
    by (simp_all add: ex_managed_def zero_defs getMap_def jget_def)
  have "{t. leaf_at [] (JObj [(''taskDefinition'', JStr s)]) ''taskDefinition'' t} = {s}" for s
    by (simp add: sub_path_def)
  moreover have "\<not> exempt ex_managed" by (simp add: exempt_def annotationTruthy_def ex_managed_def zero_defs)
  ultimately show ?thesis
    using fixed_point_usages_diverge[of undefined "NewWorld\<lparr>w_Resources := [ex_managed]\<rparr>" ex_managed "''taskDefinition''" "''td''" "''td:7''"]
    by (auto simp: fp)
qed

section \<open>Resolved paths carry the indices of the hit\<close>

text \<open>A path template: plain text, wildcard brackets and explicit indices.\<close>

datatype piece = Txt string | Wild string | Idx string

fun piece_text :: "piece \<Rightarrow> string" where
  "piece_text (Txt t) = t"
| "piece_text (Wild n) = ''['' @ n @ '']''"
| "piece_text (Idx n) = ''['' @ n @ '']''"

fun piece_ok :: "piece \<Rightarrow> bool" where
  "piece_ok (Txt t) = (CHR ''['' \<notin> set t)"
| "piece_ok (Wild n) = (n = [] \<or> n = ''*'')"
| "piece_ok (Idx n) = (n \<noteq> [] \<and> n \<noteq> ''*'' \<and> CHR '']'' \<notin> set n)"

fun brackets :: "piece list \<Rightarrow> string list" where
  "brackets [] = []"
| "brackets (Txt t # ps) = brackets ps"
| "brackets (Wild n # ps) = n # brackets ps"
| "brackets (Idx n # ps) = n # brackets ps"

fun fill :: "piece list \<Rightarrow> string list \<Rightarrow> piece list" where
  "fill (Wild n # ps) (i # is) = Idx i # fill ps is"
| "fill (p # ps) is = p # fill ps is"
| "fill [] is = []"

abbreviation pieces_text :: "piece list \<Rightarrow> string" where
  "pieces_text ps \<equiv> concat (map piece_text ps)"

lemma Index_after: "c \<notin> set n \<Longrightarrow> Index (n @ c # r) [c] = Some (length n)"
  by (induction n) (auto simp: HasPrefix_def)

lemma wildcards_text: "CHR ''['' \<notin> set t \<Longrightarrow> substituteWildcards (t @ r) idx = t @ substituteWildcards r idx"
proof (induction t)
  case (Cons c t)
  then have "c \<noteq> CHR ''[''" by auto
  then show ?case using Cons by (subst substituteWildcards.simps) simp
qed simp

lemma wildcards_bracket:
  assumes "CHR '']'' \<notin> set n"
  shows "substituteWildcards (''['' @ n @ '']'' @ r) idx =
    (if (n = [] \<or> n = ''*'') \<and> idx \<noteq> [] then ''['' @ hd idx @ '']'' @ substituteWildcards r (tl idx)
     else ''['' @ n @ '']'' @ substituteWildcards r idx)"
proof -
  have "Index (CHR ''['' # n @ CHR '']'' # r) '']'' = Some (Suc (length n))"
    using Index_after[of "CHR '']''" "CHR ''['' # n" r] assms by simp
  then show ?thesis by (subst substituteWildcards.simps) simp
qed

lemma wildcards_pieces:
  "list_all piece_ok ps \<Longrightarrow> substituteWildcards (pieces_text ps) idx = pieces_text (fill ps idx)"
proof (induction ps arbitrary: idx)
  case (Cons p ps)
  show ?case
  proof (cases p)
    case (Txt t)
    then show ?thesis using Cons wildcards_text[of t "pieces_text ps" idx] by simp
  next
    case (Wild n)
    then have "CHR '']'' \<notin> set n" using Cons.prems by auto
    then show ?thesis using Wild Cons wildcards_bracket[of n "pieces_text ps" idx] by (cases idx) simp_all
  next
    case (Idx n)
    then show ?thesis using Cons wildcards_bracket[of n "pieces_text ps" idx] by simp
  qed
qed (simp add: substituteWildcards.simps)

lemma brackets_pieces: "list_all piece_ok ps \<Longrightarrow> extractBracketContents (pieces_text ps) = brackets ps"
proof (induction ps)
  case Nil
  then show ?case by (simp add: extractBracketContents.simps)
next
  case (Cons p ps)
  have plain: "extractBracketContents (t @ r) = extractBracketContents r" if "CHR ''['' \<notin> set t" for t r
  proof (cases "Index r ''[''")
    case None
    have "Index (t @ r) ''['' = None"
      using that None by (induction t) (auto simp: HasPrefix_def)
    then show ?thesis using None by (simp add: extractBracketContents.simps)
  next
    case (Some i)
    have "Index (t @ r) ''['' = Some (length t + i)"
      using that Some by (induction t) (auto simp: HasPrefix_def)
    then show ?thesis unfolding extractBracketContents.simps[of "t @ r"] extractBracketContents.simps[of r]
      using Some by (simp split: option.splits)
  qed
  have br: "extractBracketContents (''['' @ n @ '']'' @ r) = n # extractBracketContents r" if "CHR '']'' \<notin> set n" for n r
  proof -
    have "Index (CHR ''['' # n @ CHR '']'' # r) '']'' = Some (Suc (length n))"
      using Index_after[of "CHR '']''" "CHR ''['' # n" r] that by simp
    then show ?thesis unfolding extractBracketContents.simps[of "''['' @ n @ '']'' @ r"] by (simp add: HasPrefix_def)
  qed
  show ?case
  proof (cases p)
    case (Txt t)
    then show ?thesis using Cons plain[of t "pieces_text ps"] by simp
  next
    case (Wild n)
    then have "CHR '']'' \<notin> set n" using Cons.prems by auto
    then show ?thesis using Wild Cons br[of n "pieces_text ps"] by simp
  next
    case (Idx n)
    then show ?thesis using Cons br[of n "pieces_text ps"] by simp
  qed
qed

lemma fill_brackets:
  "(\<And>n. Idx n \<notin> set ps) \<Longrightarrow> length (brackets ps) = length is \<Longrightarrow> brackets (fill ps is) = is"
proof (induction ps arbitrary: "is")
  case (Cons p ps)
  then show ?case by (cases p; cases "is") auto
qed simp

lemma fill_ok: "list_all piece_ok ps \<Longrightarrow> list_all (piece_ok \<circ> Idx) is \<Longrightarrow> list_all piece_ok (fill ps is)"
proof (induction ps arbitrary: "is")
  case (Cons p ps)
  then show ?case by (cases p; cases "is") auto
qed simp

lemma fill_none: "fill ps [] = ps"
proof (induction ps)
  case (Cons p ps)
  then show ?case by (cases p) simp_all
qed simp

lemma wild_contained: "Wild n \<in> set ps \<Longrightarrow> Contains (pieces_text ps) (''['' @ n @ '']'')"
proof -
  assume "Wild n \<in> set ps"
  then obtain a b where "ps = a @ Wild n # b" by (metis split_list)
  then show ?thesis by (auto simp: Contains_iff)
qed

lemma no_wild_brackets: "(\<And>n. Idx n \<notin> set ps) \<Longrightarrow> brackets ps \<noteq> [] \<Longrightarrow> \<exists>n. Wild n \<in> set ps"
proof (induction ps)
  case (Cons p ps)
  then show ?case by (cases p) auto
qed simp

text \<open>
  specializing a resolved path.  When every bracket of the template is a
  wildcard and the hit's path has as many indices, the wildcards are replaced
  by the hit's indices in order, the text around them is kept, and reading the
  brackets back from the result gives the hit's indices.
\<close>

theorem specializeIndices_carries:
  assumes "list_all piece_ok tmpl" "list_all piece_ok conc" "\<forall>n. Idx n \<notin> set tmpl" "\<forall>n. Wild n \<notin> set conc"
    "length (brackets tmpl) = length (brackets conc)"
  shows "specializeIndices (pieces_text tmpl) (pieces_text conc) = pieces_text (fill tmpl (brackets conc)) \<and>
    extractBracketContents (specializeIndices (pieces_text tmpl) (pieces_text conc)) = extractBracketContents (pieces_text conc)"
proof -
  have idx: "list_all (piece_ok \<circ> Idx) (brackets conc)"
    using assms(2,4)
  proof (induction conc)
    case (Cons p ps)
    then show ?case by (cases p) auto
  qed simp
  have eq: "specializeIndices (pieces_text tmpl) (pieces_text conc) = pieces_text (fill tmpl (brackets conc))"
  proof (cases "brackets conc = []")
    case True
    then show ?thesis using brackets_pieces[OF assms(2)] by (simp add: specializeIndices_def fill_none)
  next
    case False
    then obtain n where n: "Wild n \<in> set tmpl" using no_wild_brackets[of tmpl] assms(3,5) by (metis length_0_conv)
    then have "n = [] \<or> n = ''*''" using assms(1) by (auto simp: list_all_iff)
    then have "Contains (pieces_text tmpl) ''[]'' \<or> Contains (pieces_text tmpl) ''[*]''"
      using wild_contained[OF n] by auto
    then show ?thesis using False brackets_pieces[OF assms(2)] wildcards_pieces[OF assms(1)]
      by (auto simp: specializeIndices_def Let_def)
  qed
  show ?thesis unfolding eq
    using brackets_pieces[OF fill_ok[OF assms(1) idx]] brackets_pieces[OF assms(2)] fill_brackets assms(3,5) by simp
qed

theorem specializeIndices_carries_witness:
  "specializeIndices ''launch[*].block[].id'' ''launch[0].block[12].idSelector'' = ''launch[0].block[12].id''"
proof -
  let ?t = "[Txt ''launch'', Wild ''*'', Txt ''.block'', Wild [], Txt ''.id'']"
  let ?c = "[Txt ''launch'', Idx ''0'', Txt ''.block'', Idx ''12'', Txt ''.idSelector'']"
  have "list_all piece_ok ?t" "list_all piece_ok ?c" "\<forall>n. Idx n \<notin> set ?t" "\<forall>n. Wild n \<notin> set ?c"
    "length (brackets ?t) = length (brackets ?c)" by simp_all
  from specializeIndices_carries[OF this] show ?thesis by simp
qed

text \<open>
  An explicit index ahead of a wildcard shifts the assignment: the selector
  template, which the code's comment says tells wildcards and explicit
  indices apart, is not consulted.
\<close>

lemma specializeIndices_explicit_shift:
  "specializeIndices ''xs[0].ys[*].id'' ''xs[0].ys[3].idSelector'' = ''xs[0].ys[0].id''"
  by code_simp

end
