(* ===== verification/Regexp.thy ===== *)
theory Regexp
  imports GoData "HOL-Library.Sublist"
begin

text \<open>
  Go's \<^verbatim>\<open>regexp\<close> package, as far as the composition checks use it: patterns as
  syntax trees and the leftmost-first search that the package documents (the
  match a backtracking search finds first).  The matcher lists all successes
  in that order; it is proved sound and complete for the relation
  \<open>matches\<close> that a pattern denotes.
\<close>

section \<open>Patterns\<close>

datatype regex =
    REps
  | RSet "char \<Rightarrow> bool"
  | RCat regex regex
  | RAlt regex regex
  | RStar regex
  | RLazy regex
  | RGroup nat regex
  | RLineStart | RLineEnd | RTextStart | RTextEnd | RWordEdge

type_synonym pos = "char option \<times> string"
type_synonym caps = "(nat \<times> string) list"

abbreviation "nl \<equiv> CHR 0x0A"

definition is_word :: "char \<Rightarrow> bool" where
  "is_word c = (is_digit c \<or> of_char c \<in> {65..90 :: nat} \<or> of_char c \<in> {97..122 :: nat} \<or> c = CHR ''_'')"

definition word_edge :: "pos \<Rightarrow> bool" where
  "word_edge st =
     ((case fst st of None \<Rightarrow> False | Some c \<Rightarrow> is_word c) \<noteq> (case snd st of [] \<Rightarrow> False | c # _ \<Rightarrow> is_word c))"

function run :: "regex \<Rightarrow> pos \<Rightarrow> caps \<Rightarrow> (pos \<times> caps) list" where
  "run REps st cs = [(st, cs)]"
| "run (RSet p) st cs = (case snd st of [] \<Rightarrow> [] | c # s \<Rightarrow> if p c then [((Some c, s), cs)] else [])"
| "run (RCat a b) st cs = concat (map (\<lambda>(st', cs'). run b st' cs') (run a st cs))"
| "run (RAlt a b) st cs = run a st cs @ run b st cs"
| "run (RStar a) st cs =
     concat (map (\<lambda>(st', cs'). if length (snd st') < length (snd st) then run (RStar a) st' cs' else []) (run a st cs))
     @ [(st, cs)]"
| "run (RLazy a) st cs =
     (st, cs) #
     concat (map (\<lambda>(st', cs'). if length (snd st') < length (snd st) then run (RLazy a) st' cs' else []) (run a st cs))"
| "run (RGroup n a) st cs =
     map (\<lambda>(st', cs'). (st', (n, take (length (snd st) - length (snd st')) (snd st)) # cs')) (run a st cs)"
| "run RLineStart st cs = (if fst st = None \<or> fst st = Some nl then [(st, cs)] else [])"
| "run RLineEnd st cs = (if snd st = [] \<or> hd (snd st) = nl then [(st, cs)] else [])"
| "run RTextStart st cs = (if fst st = None then [(st, cs)] else [])"
| "run RTextEnd st cs = (if snd st = [] then [(st, cs)] else [])"
| "run RWordEdge st cs = (if word_edge st then [(st, cs)] else [])"
  by pat_completeness auto

termination
  by (relation "measures [\<lambda>(r, st, cs). size r, \<lambda>(r, st, cs). length (snd st)]") auto

declare run.simps(5,6) [simp del]

section \<open>What a pattern denotes\<close>

inductive matches :: "regex \<Rightarrow> pos \<Rightarrow> pos \<Rightarrow> bool" where
  eps: "matches REps st st"
| set: "p c \<Longrightarrow> matches (RSet p) (pr, c # s) (Some c, s)"
| cat: "matches a st st' \<Longrightarrow> matches b st' st'' \<Longrightarrow> matches (RCat a b) st st''"
| altL: "matches a st st' \<Longrightarrow> matches (RAlt a b) st st'"
| altR: "matches b st st' \<Longrightarrow> matches (RAlt a b) st st'"
| star0: "matches (RStar a) st st"
| star1: "matches a st st' \<Longrightarrow> matches (RStar a) st' st'' \<Longrightarrow> matches (RStar a) st st''"
| lazy0: "matches (RLazy a) st st"
| lazy1: "matches a st st' \<Longrightarrow> matches (RLazy a) st' st'' \<Longrightarrow> matches (RLazy a) st st''"
| grp: "matches a st st' \<Longrightarrow> matches (RGroup n a) st st'"
| lineStart: "fst st = None \<or> fst st = Some nl \<Longrightarrow> matches RLineStart st st"
| lineEnd: "snd st = [] \<or> hd (snd st) = nl \<Longrightarrow> matches RLineEnd st st"
| textStart: "fst st = None \<Longrightarrow> matches RTextStart st st"
| textEnd: "snd st = [] \<Longrightarrow> matches RTextEnd st st"
| wordEdge: "word_edge st \<Longrightarrow> matches RWordEdge st st"

text \<open>The position after consuming a prefix.\<close>

definition advance :: "char option \<Rightarrow> string \<Rightarrow> char option" where
  "advance pr u = (if u = [] then pr else Some (last u))"

lemma matches_consumes: "matches r st st' \<Longrightarrow> \<exists>u. snd st = u @ snd st' \<and> fst st' = advance (fst st) u"
proof (induction rule: matches.induct)
  case (set p c pr s)
  then show ?case by (intro exI[of _ "[c]"]) (simp add: advance_def)
next
  case (cat a st st' b st'')
  then obtain u v where "snd st = u @ snd st'" "fst st' = advance (fst st) u" "snd st' = v @ snd st''" "fst st'' = advance (fst st') v"
    by blast
  then show ?case by (intro exI[of _ "u @ v"]) (simp add: advance_def)
next
  case (star1 a st st' st'')
  then obtain u v where "snd st = u @ snd st'" "fst st' = advance (fst st) u" "snd st' = v @ snd st''" "fst st'' = advance (fst st') v"
    by blast
  then show ?case by (intro exI[of _ "u @ v"]) (simp add: advance_def)
next
  case (lazy1 a st st' st'')
  then obtain u v where "snd st = u @ snd st'" "fst st' = advance (fst st) u" "snd st' = v @ snd st''" "fst st'' = advance (fst st') v"
    by blast
  then show ?case by (intro exI[of _ "u @ v"]) (simp add: advance_def)
qed (auto simp: advance_def)

lemma matches_stuck: "matches r st st' \<Longrightarrow> \<not> length (snd st') < length (snd st) \<Longrightarrow> st' = st"
  using matches_consumes[of r st st'] by (auto simp: advance_def prod_eq_iff)

lemma run_sound: "(st', cs') \<in> set (run r st cs) \<Longrightarrow> matches r st st'"
proof (induction r st cs arbitrary: st' cs' rule: run.induct)
  case (2 p st cs)
  then show ?case by (cases st) (auto split: list.splits if_splits intro: matches.intros)
next
  case (3 a b st cs)
  then obtain st1 cs1 where "(st1, cs1) \<in> set (run a st cs)" "(st', cs') \<in> set (run b st1 cs1)" by auto
  then show ?case using 3 by (blast intro: matches.cat)
next
  case (5 a st cs)
  then consider "st' = st" | st1 cs1 where "(st1, cs1) \<in> set (run a st cs)" "length (snd st1) < length (snd st)"
      "(st', cs') \<in> set (run (RStar a) st1 cs1)"
    unfolding run.simps(5)[of a st cs] by (auto split: if_splits)
  then show ?case using 5 by cases (blast intro: matches.star0 matches.star1)+
next
  case (6 a st cs)
  then consider "st' = st" | st1 cs1 where "(st1, cs1) \<in> set (run a st cs)" "length (snd st1) < length (snd st)"
      "(st', cs') \<in> set (run (RLazy a) st1 cs1)"
    unfolding run.simps(6)[of a st cs] by (auto split: if_splits)
  then show ?case using 6 by cases (blast intro: matches.lazy0 matches.lazy1)+
next
  case (7 n a st cs)
  then obtain cs1 where "(st', cs1) \<in> set (run a st cs)" by auto
  then show ?case using 7 by (blast intro: matches.grp)
qed (auto split: if_splits intro: matches.intros)

lemma run_refl: "(st, cs) \<in> set (run (RStar a) st cs)" "(st, cs) \<in> set (run (RLazy a) st cs)"
  by (subst run.simps, simp)+

lemma run_complete: "matches r st st' \<Longrightarrow> \<exists>cs'. (st', cs') \<in> set (run r st cs)"
proof (induction arbitrary: cs rule: matches.induct)
  case (cat a st st' b st'')
  then obtain cs1 where "(st', cs1) \<in> set (run a st cs)" by blast
  moreover obtain cs2 where "(st'', cs2) \<in> set (run b st' cs1)" using cat by blast
  ultimately have "(st'', cs2) \<in> set (run (RCat a b) st cs)"
    by (cases st') (auto intro!: bexI[of _ "(st', cs1)"])
  then show ?case ..
next
  case (altL a st st' b)
  then obtain cs' where "(st', cs') \<in> set (run a st cs)" by blast
  then show ?case by (intro exI[of _ cs']) simp
next
  case (altR b st st' a)
  then obtain cs' where "(st', cs') \<in> set (run b st cs)" by blast
  then show ?case by (intro exI[of _ cs']) simp
next
  case (star1 a st st' st'')
  then obtain cs1 where 1: "(st', cs1) \<in> set (run a st cs)" by blast
  show ?case
  proof (cases "length (snd st') < length (snd st)")
    case True
    obtain cs2 where "(st'', cs2) \<in> set (run (RStar a) st' cs1)" using star1 by blast
    then have "(st'', cs2) \<in> set (run (RStar a) st cs)"
      unfolding run.simps(5)[of a st cs] using 1 True by (cases st') (auto intro!: bexI[of _ "(st', cs1)"])
    then show ?thesis ..
  next
    case False
    then have "st' = st" using matches_stuck star1(1) by blast
    then show ?thesis using star1.IH(2) by simp
  qed
next
  case (lazy1 a st st' st'')
  then obtain cs1 where 1: "(st', cs1) \<in> set (run a st cs)" by blast
  show ?case
  proof (cases "length (snd st') < length (snd st)")
    case True
    obtain cs2 where "(st'', cs2) \<in> set (run (RLazy a) st' cs1)" using lazy1 by blast
    then have "(st'', cs2) \<in> set (run (RLazy a) st cs)"
      unfolding run.simps(6)[of a st cs] using 1 True by (cases st') (auto intro!: bexI[of _ "(st', cs1)"])
    then show ?thesis ..
  next
    case False
    then have "st' = st" using matches_stuck lazy1(1) by blast
    then show ?thesis using lazy1.IH(2) by simp
  qed
next
  case (grp a st st' n)
  then obtain cs' where "(st', cs') \<in> set (run a st cs)" by blast
  then show ?case by force
next
  case (star0 a st)
  show ?case using run_refl(1) by blast
next
  case (lazy0 a st)
  show ?case using run_refl(2) by blast
qed auto

lemma run_empty_iff: "run r st cs = [] \<longleftrightarrow> (\<nexists>st'. matches r st st')"
  using run_sound[of _ _ r st cs] run_complete[of r st _ cs] by (metis (full_types) empty_iff list.set(1) list.set_intros(1) neq_Nil_conv surj_pair)

section \<open>Searching\<close>

record Match =
  mt_before :: string
  mt_text :: string
  mt_after :: pos
  mt_caps :: caps

fun find_match :: "regex \<Rightarrow> pos \<Rightarrow> Match option" where
  "find_match r (pr, s) =
     (case run r (pr, s) [] of
        (st', cs) # _ \<Rightarrow> Some \<lparr>mt_before = [], mt_text = take (length s - length (snd st')) s, mt_after = st', mt_caps = cs\<rparr>
      | [] \<Rightarrow> (case s of [] \<Rightarrow> None | c # s' \<Rightarrow> map_option (mt_before_update ((#) c)) (find_match r (Some c, s'))))"

declare find_match.simps [simp del]

definition MatchString :: "regex \<Rightarrow> string \<Rightarrow> bool" where
  "MatchString r s = (find_match r (None, s) \<noteq> None)"

definition FindStringSubmatch :: "regex \<Rightarrow> string \<Rightarrow> Match option" where
  "FindStringSubmatch r s = find_match r (None, s)"

definition submatch :: "Match \<Rightarrow> nat \<Rightarrow> string" where
  "submatch m n = (case map_of (mt_caps m) n of Some s \<Rightarrow> s | None \<Rightarrow> [])"

lemma find_match_shorter: "find_match r st = Some m \<Longrightarrow> length (snd (mt_after m)) \<le> length (snd st)"
proof (induction r st arbitrary: m rule: find_match.induct)
  case (1 r pr s)
  show ?case
  proof (cases "run r (pr, s) []")
    case Nil
    then show ?thesis using 1 by (cases s) (auto simp: find_match.simps[of r pr] intro: le_SucI)
  next
    case (Cons x xs)
    obtain st' cs where x: "x = (st', cs)" by fastforce
    then have "matches r (pr, s) st'" using run_sound[of st' cs r "(pr, s)" "[]"] Cons by simp
    then have "length (snd st') \<le> length s" using matches_consumes[of r "(pr, s)" st'] by auto
    then show ?thesis using 1(2) Cons x by (auto simp: find_match.simps[of r pr s])
  qed
qed

text \<open>
  All matches, left to right.  A search that consumes nothing moves on by one
  character; the patterns searched for repeatedly never match the empty string.
\<close>

function find_all :: "regex \<Rightarrow> pos \<Rightarrow> Match list" where
  "find_all r st =
     (case find_match r st of
        None \<Rightarrow> []
      | Some m \<Rightarrow>
          m # (if length (snd (mt_after m)) < length (snd st) then find_all r (mt_after m)
               else (case snd st of [] \<Rightarrow> [] | c # s \<Rightarrow> find_all r (Some c, s))))"
  by pat_completeness auto

termination by (relation "measure (\<lambda>(r, st). length (snd st))") auto

declare find_all.simps [simp del]

definition FindAllStringSubmatch :: "regex \<Rightarrow> string \<Rightarrow> Match list" where
  "FindAllStringSubmatch r s = find_all r (None, s)"

function replace_all :: "regex \<Rightarrow> string \<Rightarrow> pos \<Rightarrow> string" where
  "replace_all r repl st =
     (case find_match r st of
        None \<Rightarrow> snd st
      | Some m \<Rightarrow>
          if length (snd (mt_after m)) < length (snd st)
          then mt_before m @ repl @ replace_all r repl (mt_after m)
          else snd st)"
  by pat_completeness auto

termination by (relation "measure (\<lambda>(r, repl, st). length (snd st))") auto

declare replace_all.simps [simp del]

definition ReplaceAllString :: "regex \<Rightarrow> string \<Rightarrow> string \<Rightarrow> string" where
  "ReplaceAllString r s repl = replace_all r repl (None, s)"

lemma find_match_None:
  "find_match r (pr, s) = None \<longleftrightarrow> (\<forall>a b st'. s = a @ b \<longrightarrow> \<not> matches r (advance pr a, b) st')"
proof (induction r "(pr, s)" arbitrary: pr s rule: find_match.induct)
  case (1 r pr s)
  show ?case
  proof (cases "run r (pr, s) []")
    case (Cons x xs)
    then obtain st' where "matches r (pr, s) st'" using run_empty_iff[of r "(pr, s)" "[]"] by auto
    moreover obtain y cs where "x = (y, cs)" by fastforce
    ultimately have "find_match r (pr, s) \<noteq> None" "s = [] @ s" "matches r (advance pr [], s) st'"
      using Cons by (auto simp: find_match.simps[of r pr s] advance_def)
    then show ?thesis by blast
  next
    case Nil
    then have none: "\<not> matches r (pr, s) st'" for st' using run_empty_iff[of r "(pr, s)" "[]"] by blast
    show ?thesis
    proof (cases s)
      case s: Nil
      then show ?thesis using Nil none by (simp add: find_match.simps[of r pr "[]"] advance_def)
    next
      case s: (Cons c t)
      have "find_match r (pr, s) = None \<longleftrightarrow> find_match r (Some c, t) = None"
        using Nil s by (simp add: find_match.simps[of r pr "c # t"])
      also have "\<dots> \<longleftrightarrow> (\<forall>a b st'. t = a @ b \<longrightarrow> \<not> matches r (advance (Some c) a, b) st')"
        using 1 Nil s by simp
      also have "\<dots> \<longleftrightarrow> (\<forall>a b st'. s = a @ b \<longrightarrow> \<not> matches r (advance pr a, b) st')" (is "?L \<longleftrightarrow> ?R")
      proof
        assume L: ?L
        show ?R
        proof (intro allI impI)
          fix a b st' assume ab: "s = a @ b"
          show "\<not> matches r (advance pr a, b) st'"
          proof (cases a)
            case Nil
            then show ?thesis using none[of st'] ab by (simp add: advance_def)
          next
            case (Cons d u)
            then have "t = u @ b" "d = c" using ab s by auto
            then have "\<not> matches r (advance (Some c) u, b) st'" using L by blast
            then show ?thesis using Cons \<open>d = c\<close> by (simp add: advance_def split: if_splits)
          qed
        qed
      next
        assume R: ?R
        show ?L
        proof (intro allI impI)
          fix a b st' assume "t = a @ b"
          then have "s = (c # a) @ b" using s by simp
          then have "\<not> matches r (advance pr (c # a), b) st'" using R by blast
          then show "\<not> matches r (advance (Some c) a, b) st'" by (simp add: advance_def split: if_splits)
        qed
      qed
      finally show ?thesis .
    qed
  qed
qed

lemma MatchString_iff: "MatchString r s \<longleftrightarrow> (\<exists>a b st'. s = a @ b \<and> matches r (advance None a, b) st')"
  unfolding MatchString_def find_match_None by simp

end
