(* ===== verification/CompCheck.thy ===== *)
theory CompCheck
  imports Extract Regexp
begin

text \<open>
  The static checks on composition templates:
  \<^verbatim>\<open>pkg/ir/composition_template_check.go\<close> and \<^verbatim>\<open>pkg/ir/orphan_sgref_check.go\<close>.
  Each regular expression of the code is written as its syntax tree.  The
  parser of \<^verbatim>\<open>text/template\<close> is a parameter: given the registered function
  names and a text it answers its error message, if any.
\<close>

section \<open>Patterns\<close>

definition lit :: "string \<Rightarrow> regex" where
  "lit s = foldr (\<lambda>c r. RCat (RSet (\<lambda>d. d = c)) r) s REps"

definition cats :: "regex list \<Rightarrow> regex" where
  "cats rs = foldr RCat rs REps"

definition is_blank :: "char \<Rightarrow> bool" where
  "is_blank c = (c = CHR '' '' \<or> c = CHR 0x09)"

definition re_space :: "char \<Rightarrow> bool" where
  "re_space c = (c \<in> set [CHR 0x09, CHR 0x0A, CHR 0x0C, CHR 0x0D, CHR 0x20])"

abbreviation "blanks \<equiv> RStar (RSet is_blank)"
abbreviation "spaces \<equiv> RStar (RSet re_space)"
abbreviation "spaces1 \<equiv> RCat (RSet re_space) spaces"
abbreviation "dot \<equiv> RSet (\<lambda>c. c \<noteq> nl)"
abbreviation "ropt r \<equiv> RAlt r REps"
abbreviation "dq \<equiv> [CHR 0x22]"

text \<open>\<^verbatim>\<open>(.*\S)\<close> as group n.\<close>

definition rest_of_line :: "nat \<Rightarrow> regex" where
  "rest_of_line n = RGroup n (RCat (RStar dot) (RSet (\<lambda>c. \<not> re_space c)))"

definition envDictRe :: regex where
  "envDictRe = cats [lit ''(dict'', spaces1, lit (dq @ ''name'' @ dq), spaces1, lit dq,
     RGroup 1 (RCat (RSet (\<lambda>c. c \<noteq> CHR 0x22)) (RStar (RSet (\<lambda>c. c \<noteq> CHR 0x22)))), lit dq, spaces1, lit (dq @ ''value'' @ dq)]"

definition fieldLineRe :: "string \<Rightarrow> regex" where
  "fieldLineRe leaf = cats [RLineStart, blanks, lit (leaf @ '':''), blanks, rest_of_line 1, blanks, RLineEnd]"

definition templateActionRe :: regex where
  "templateActionRe = cats [lit ''{{'', RLazy dot, lit ''}}'']"

definition defaultPipeRe :: regex where
  "defaultPipeRe = cats [lit ''|'', spaces, lit ''default'', RWordEdge]"

definition typeRe :: "string \<Rightarrow> regex" where
  "typeRe actionType = cats [RLineStart, blanks, ropt (lit ''-''), blanks, lit ''type:'', blanks, lit actionType, blanks, RLineEnd]"

definition blockKeyRe :: "string \<Rightarrow> regex" where
  "blockKeyRe key = cats [RLineStart, blanks, lit (key @ '':'')]"

definition kindRe :: "string \<Rightarrow> regex" where
  "kindRe kind = cats [RLineStart, blanks, lit ''kind:'', blanks, lit kind, blanks, RLineEnd]"

definition mapKeyRe :: "string \<Rightarrow> regex" where
  "mapKeyRe key = cats [RLineStart, RGroup 1 blanks, lit (key @ '':''), blanks, RLineEnd]"

definition kvRe :: regex where
  "kvRe = cats [RTextStart, RGroup 1 blanks,
     RGroup 2 (RCat (RSet (\<lambda>c. c \<noteq> CHR '':'' \<and> \<not> re_space c)) (RStar (RSet (\<lambda>c. c \<noteq> CHR '':'')))),
     lit '':'', blanks, ropt (rest_of_line 3), blanks, RTextEnd]"

definition resourceNameRe :: regex where
  "resourceNameRe = fieldLineRe ''name''"

definition undefinedFuncRe :: regex where
  "undefinedFuncRe = cats [lit (''function '' @ dq),
     RGroup 1 (RCat (RSet (\<lambda>c. c \<noteq> CHR 0x22)) (RStar (RSet (\<lambda>c. c \<noteq> CHR 0x22)))), lit (dq @ '' not defined'')]"

definition regexpSelectorSuffix :: regex where
  "regexpSelectorSuffix = cats [lit ''Selector'', RTextEnd]"

definition orphanSGRefAllowAnnotationRe :: regex where
  "orphanSGRefAllowAnnotationRe = blockKeyRe ''xpc.io/allow-orphan-sgref''"

text \<open>
  \<^verbatim>\<open>regexp.MustCompile\<close> on the patterns the registries carry: a line start,
  blanks, one of some field stems with an optional \<^verbatim>\<open>Ref\<close> or \<^verbatim>\<open>Selector\<close>, and a
  colon.
\<close>

definition registry_field :: "regex \<Rightarrow> regex" where
  "registry_field stem =
     cats [RLineStart, blanks, RGroup 1 (RCat stem (ropt (RAlt (lit ''Ref'') (lit ''Selector'')))), lit '':'']"

definition registry_pattern :: "string \<Rightarrow> string" where
  "registry_pattern stem = ''(?m)^[ '' @ [CHR 0x5C] @ ''t]*('' @ stem @ ''(?:Ref|Selector)?):''"

definition MustCompile :: "string \<Rightarrow> regex" where
  "MustCompile p =
     (if p = registry_pattern ''targetGroupArn'' then registry_field (lit ''targetGroupArn'')
      else if p = registry_pattern ''securityGroupId'' then registry_field (lit ''securityGroupId'')
      else if p = registry_pattern ''(?:source|referenced)SecurityGroupId''
      then registry_field (RCat (RAlt (lit ''source'') (lit ''referenced'')) (lit ''SecurityGroupId''))
      else REps)"

lemma registry_patterns_compiled:
  "\<forall>m \<in> set ComputedBlockAliasRegistry. cbam_AliasFieldPattern m = registry_pattern ''targetGroupArn''"
  "\<forall>m \<in> set OrphanSGRefRegistry. osgm_AttachFieldPattern m = registry_pattern ''securityGroupId'' \<and>
     osgm_RefFieldPattern m = registry_pattern ''(?:source|referenced)SecurityGroupId''"
  by (simp_all add: ComputedBlockAliasRegistry_def OrphanSGRefRegistry_def registry_pattern_def)

section \<open>Templates of a composition\<close>

definition goTemplateText :: "World \<Rightarrow> PipelineStep \<Rightarrow> string option" where
  "goTemplateText w step =
     (if ps_InputKind step \<noteq> ''GoTemplate'' then None
      else (case map_of (w_Schemas w) (ps_InputDigest step) of
              None \<Rightarrow> None
            | Some sc \<Rightarrow>
                (case getMap (sch_Schema sc) ''inline'' of
                   None \<Rightarrow> None
                 | Some inline \<Rightarrow>
                     (case as_str (jget inline ''template'') of
                        None \<Rightarrow> None
                      | Some t \<Rightarrow> if t = [] then None else Some t))))"

text \<open>The template bodies of a World, with the composition and the step they belong to.\<close>

definition composition_templates :: "World \<Rightarrow> (CompositionInfo \<times> PipelineStep \<times> string) list" where
  "composition_templates w =
     concat (map (\<lambda>cp. List.map_filter (\<lambda>step. map_option (\<lambda>t. (cp, step, t)) (goTemplateText w step)) (comp_Pipeline cp))
             (w_Compositions w))"

definition compositionAppName :: "string \<Rightarrow> string \<Rightarrow> string" where
  "compositionAppName cp xr = (if xr = [] then cp else cp @ '':'' @ xr)"

section \<open>Grammar\<close>

primrec parse_loop :: "nat \<Rightarrow> (string list \<Rightarrow> string \<Rightarrow> string option) \<Rightarrow> string list \<Rightarrow> string \<Rightarrow> string option" where
  "parse_loop 0 tparse funcs t = None"
| "parse_loop (Suc n) tparse funcs t =
     (case tparse funcs t of
        None \<Rightarrow> None
      | Some err \<Rightarrow>
          (case FindStringSubmatch undefinedFuncRe err of
             None \<Rightarrow> Some err
           | Some m \<Rightarrow> parse_loop n tparse (submatch m 1 # funcs) t))"

definition parseGoTemplateText :: "(string list \<Rightarrow> string \<Rightarrow> string option) \<Rightarrow> string \<Rightarrow> string option" where
  "parseGoTemplateText tparse t = parse_loop 1000 tparse [] t"

definition template_error :: "CompositionInfo \<Rightarrow> PipelineStep \<Rightarrow> string \<Rightarrow> RenderResult" where
  "template_error cp step err =
     \<lparr>rr_AppName = compositionAppName (comp_Name cp) [], rr_ChartPath = comp_Name cp, rr_Success = False,
      rr_Error = ''go-template parse error in composition '' @ Quote (comp_Name cp) @ '' (step '' @ Quote (ps_Name step) @ ''): '' @ err,
      rr_ErrorKind = ''crossplane-render-failed'', rr_ValuesIssues = [], rr_Source = comp_Source cp\<rparr>"

definition checkCompositionTemplates :: "(string list \<Rightarrow> string \<Rightarrow> string option) \<Rightarrow> World \<Rightarrow> World" where
  "checkCompositionTemplates tparse w =
     w\<lparr>w_RenderResults := w_RenderResults w @
         List.map_filter (\<lambda>(cp, step, t). map_option (template_error cp step) (parseGoTemplateText tparse t))
           (composition_templates w)\<rparr>"

section \<open>Duplicate environment variables\<close>

text \<open>\<^verbatim>\<open>strings.Count\<close> of a non-empty substring: non-overlapping occurrences.\<close>

function CountStr :: "string \<Rightarrow> string \<Rightarrow> nat" where
  "CountStr s sub =
     (if sub = [] then Suc (length s)
      else (case Index s sub of None \<Rightarrow> 0 | Some i \<Rightarrow> Suc (CountStr (drop (i + length sub) s) sub)))"
  by pat_completeness auto
termination
  by (relation "measure (\<lambda>(s, sub). length s)") (auto dest!: Index_Some_bound simp: neq_Nil_conv)

declare CountStr.simps [simp del]

definition env_names :: "string \<Rightarrow> string list" where
  "env_names t = map (\<lambda>m. submatch m 1) (FindAllStringSubmatch envDictRe t)"

definition count_step :: "(string \<times> nat) list \<times> string list \<Rightarrow> string \<Rightarrow> (string \<times> nat) list \<times> string list" where
  "count_step acc name =
     (case acc of (counts, order) \<Rightarrow>
        let n = (case map_of counts name of Some k \<Rightarrow> k | None \<Rightarrow> 0)
        in (mput name (Suc n) counts, if n = 0 then order @ [name] else order))"

definition duplicate_env :: "CompositionInfo \<Rightarrow> string \<Rightarrow> DuplicateEnvFinding list" where
  "duplicate_env cp t =
     (if CountStr t (dq @ ''environment'' @ dq) \<noteq> 1 then []
      else (case foldl count_step ([], []) (env_names t) of
              (counts, order) \<Rightarrow>
                concat (map (\<lambda>name.
                    let k = (case map_of counts name of Some k \<Rightarrow> k | None \<Rightarrow> 0) in
                    if k < 2 then []
                    else [\<lparr>def_Composition = comp_Name cp, def_EnvName = name, def_Count = int k, def_Source = comp_Source cp\<rparr>]) order)))"

definition checkCompositionDuplicateEnv :: "World \<Rightarrow> World" where
  "checkCompositionDuplicateEnv w =
     w\<lparr>w_DuplicateEnvFindings := w_DuplicateEnvFindings w @
         concat (map (\<lambda>(cp, step, t). duplicate_env cp t) (composition_templates w))\<rparr>"

section \<open>Canonical form of template fields\<close>

definition marker :: string where
  "marker = ''task-definition/''"

function unversioned_loop :: "string \<Rightarrow> bool" where
  "unversioned_loop rest =
     (case Index rest marker of
        None \<Rightarrow> False
      | Some i \<Rightarrow>
          let after = drop (i + length marker) rest in
          if \<not> Contains after '':'' then True else unversioned_loop after)"
  by pat_completeness auto
termination
  by (relation "measure length") (auto dest!: Index_Some_bound simp: marker_def)

declare unversioned_loop.simps [simp del]

definition hasUnversionedTaskDefLiteral :: "string \<Rightarrow> bool" where
  "hasUnversionedTaskDefLiteral rhs = unversioned_loop (ReplaceAllString templateActionRe rhs '' '')"

definition rhsHasCanonicalGuard :: "string \<Rightarrow> bool" where
  "rhsHasCanonicalGuard rhs =
     (Contains (ToLower rhs) ''taskdefarn'' \<or> Contains rhs ''atProvider'' \<or> MatchString defaultPipeRe rhs)"

definition templateRHSNonCanonical :: "string \<Rightarrow> string \<Rightarrow> bool" where
  "templateRHSNonCanonical detector rhs0 =
     (let rhs = TrimSpace rhs0 in
      if detector = ''arn-requires-revision''
      then hasUnversionedTaskDefLiteral rhs \<and> \<not> rhsHasCanonicalGuard rhs
      else False)"

definition canonical_form_findings :: "CompositionInfo \<Rightarrow> string \<Rightarrow> CanonicalFormMapping \<Rightarrow> CanonicalFormTemplateFinding list" where
  "canonical_form_findings cp t m =
     (let leaf = lastDotted (cfm_FieldPath m) in
      map (\<lambda>rhs. \<lparr>cft_Composition = comp_Name cp, cft_Group = cfm_Group m, cft_Kind = cfm_Kind m, cft_Field = leaf,
                   cft_RHS = rhs, cft_Canonical = cfm_Canonical m, cft_Reason = cfm_Reason m, cft_Source = comp_Source cp\<rparr>)
        (filter (templateRHSNonCanonical (cfm_Detector m))
          (map (\<lambda>sub. submatch sub 1) (FindAllStringSubmatch (fieldLineRe leaf) t))))"

definition checkCompositionCanonicalForm :: "World \<Rightarrow> World" where
  "checkCompositionCanonicalForm w =
     w\<lparr>w_CanonicalFormTemplateFindings := w_CanonicalFormTemplateFindings w @
         concat (map (\<lambda>(cp, step, t). concat (map (canonical_form_findings cp t) CanonicalFormRegistry)) (composition_templates w))\<rparr>"

section \<open>Computed blocks written as aliases\<close>

definition resourceBlocksOfKind :: "string \<Rightarrow> string \<Rightarrow> string list" where
  "resourceBlocksOfKind tmplText kind = filter (MatchString (kindRe kind)) (Split tmplText (nl # ''---''))"

definition submatchOrFull :: "Match \<Rightarrow> string" where
  "submatchOrFull m = (if submatch m 1 \<noteq> [] then submatch m 1 else mt_text m)"

definition alias_findings :: "CompositionInfo \<Rightarrow> string \<Rightarrow> ComputedBlockAliasMapping \<Rightarrow> ComputedBlockAliasFinding list" where
  "alias_findings cp t m =
     concat (map (\<lambda>block.
        if \<not> MatchString (typeRe (cbam_ActionType m)) block then []
        else if MatchString (blockKeyRe (cbam_CanonicalBlockKey m)) block then []
        else (case FindStringSubmatch (MustCompile (cbam_AliasFieldPattern m)) block of
                None \<Rightarrow> []
              | Some al \<Rightarrow>
                  [\<lparr>cbaf_Composition = comp_Name cp, cbaf_Group = cbam_Group m, cbaf_Kind = cbam_Kind m,
                    cbaf_ActionType = cbam_ActionType m, cbaf_AliasField = submatchOrFull al,
                    cbaf_CanonicalBlock = cbam_CanonicalBlockKey m, cbaf_Reason = cbam_Reason m,
                    cbaf_Source = comp_Source cp\<rparr>]))
       (resourceBlocksOfKind t (cbam_Kind m)))"

definition checkCompositionComputedBlockAlias :: "World \<Rightarrow> World" where
  "checkCompositionComputedBlockAlias w =
     w\<lparr>w_ComputedBlockAliasFindings := w_ComputedBlockAliasFindings w @
         concat (map (\<lambda>(cp, step, t). concat (map (alias_findings cp t) ComputedBlockAliasRegistry)) (composition_templates w))\<rparr>"

section \<open>Rules that outlive the group they reference\<close>

fun splitLines :: "string \<Rightarrow> string list" where
  "splitLines [] = [[]]"
| "splitLines (c # s) =
     (if c = nl then [] # splitLines s
      else (case splitLines s of l # ls \<Rightarrow> (c # l) # ls | [] \<Rightarrow> [[c]]))"

fun isBlankOrComment :: "string \<Rightarrow> bool" where
  "isBlankOrComment [] = True"
| "isBlankOrComment (c # s) = (if is_blank c then isBlankOrComment s else c = CHR ''#'')"

fun label_lines :: "nat \<Rightarrow> string list \<Rightarrow> strmap \<Rightarrow> strmap" where
  "label_lines keyIndent [] out = out"
| "label_lines keyIndent (line # lines) out =
     (if isBlankOrComment line then label_lines keyIndent lines out
      else (case FindStringSubmatch kvRe line of
              None \<Rightarrow> out
            | Some mm \<Rightarrow>
                if length (submatch mm 1) \<le> keyIndent then out
                else if submatch mm 3 = [] then out
                else label_lines keyIndent lines (mput (submatch mm 2) (submatch mm 3) out)))"

definition labelMapAfter :: "string \<Rightarrow> regex \<Rightarrow> strmap" where
  "labelMapAfter t re =
     (case FindStringSubmatch re t of
        None \<Rightarrow> []
      | Some m \<Rightarrow> label_lines (length (submatch m 1)) (splitLines (snd (mt_after m))) [])"

definition metadataLabels :: "string \<Rightarrow> strmap" where
  "metadataLabels block = labelMapAfter block (mapKeyRe ''labels'')"

definition selectorLabels :: "string \<Rightarrow> string \<Rightarrow> strmap" where
  "selectorLabels block field =
     (case FindStringSubmatch (mapKeyRe field) block of
        None \<Rightarrow> []
      | Some m \<Rightarrow> labelMapAfter (snd (mt_after m)) (mapKeyRe ''matchLabels''))"

definition securityGroupLabelSets :: "string \<Rightarrow> string \<Rightarrow> strmap list" where
  "securityGroupLabelSets tmplText sgKind =
     filter (\<lambda>labels. labels \<noteq> []) (map metadataLabels (resourceBlocksOfKind tmplText sgKind))"

definition isSelectorField :: "string \<Rightarrow> bool" where
  "isSelectorField field = MatchString regexpSelectorSuffix field"

definition labelsSubset :: "strmap \<Rightarrow> strmap \<Rightarrow> bool" where
  "labelsSubset sel sg = (sel \<noteq> [] \<and> list_all (\<lambda>(k, v). mget sg k = v) sel)"

definition labelsMatchAnyLocalSG :: "strmap \<Rightarrow> strmap list \<Rightarrow> bool" where
  "labelsMatchAnyLocalSG sel localSGs = list_ex (labelsSubset sel) localSGs"

definition resourceNameInBlock :: "string \<Rightarrow> string" where
  "resourceNameInBlock block =
     (case FindStringSubmatch resourceNameRe block of Some m \<Rightarrow> submatch m 1 | None \<Rightarrow> [])"

definition orphan_block ::
  "CompositionInfo \<Rightarrow> OrphanSGRefMapping \<Rightarrow> strmap list \<Rightarrow> string \<Rightarrow> OrphanSGRefFinding list" where
  "orphan_block cp m localSGLabels block =
     (if MatchString orphanSGRefAllowAnnotationRe block then []
      else (case (FindStringSubmatch (MustCompile (osgm_AttachFieldPattern m)) block,
                  FindStringSubmatch (MustCompile (osgm_RefFieldPattern m)) block) of
              (Some attach, Some ref) \<Rightarrow>
                let attachField = submatchOrFull attach; refField = submatchOrFull ref;
                    refLabels = selectorLabels block refField; attachLabels = selectorLabels block attachField in
                if \<not> isSelectorField refField then []
                else if refLabels = [] then []
                else if \<not> labelsMatchAnyLocalSG refLabels localSGLabels then []
                else if isSelectorField attachField \<and> attachLabels \<noteq> [] \<and> labelsMatchAnyLocalSG attachLabels localSGLabels then []
                else [\<lparr>osgf_Composition = comp_Name cp, osgf_Group = osgm_Group m, osgf_Kind = osgm_Kind m,
                       osgf_RuleName = resourceNameInBlock block, osgf_AttachField = attachField, osgf_RefField = refField,
                       osgf_Reason = osgm_Reason m, osgf_Source = comp_Source cp\<rparr>]
            | _ \<Rightarrow> []))"

definition scanOrphanSGRefMapping :: "CompositionInfo \<Rightarrow> string \<Rightarrow> OrphanSGRefMapping \<Rightarrow> OrphanSGRefFinding list" where
  "scanOrphanSGRefMapping cp tmplText m =
     concat (map (orphan_block cp m (securityGroupLabelSets tmplText (osgm_RefKind m))) (resourceBlocksOfKind tmplText (osgm_Kind m)))"

definition checkCompositionOrphanSGRef :: "World \<Rightarrow> World" where
  "checkCompositionOrphanSGRef w =
     w\<lparr>w_OrphanSGRefFindings := w_OrphanSGRefFindings w @
         concat (map (\<lambda>(cp, step, t). concat (map (scanOrphanSGRefMapping cp t) OrphanSGRefRegistry)) (composition_templates w))\<rparr>"

section \<open>The template grammar check decides\<close>

lemma parse_loop_decides:
  assumes fin: "finite needs"
    and missing: "\<And>funcs err m. tparse funcs t = Some err \<Longrightarrow> FindStringSubmatch undefinedFuncRe err = Some m \<Longrightarrow>
      submatch m 1 \<in> needs - set funcs"
    and broken: "\<And>funcs funcs' err. tparse funcs t = Some err \<Longrightarrow> FindStringSubmatch undefinedFuncRe err = None \<Longrightarrow> tparse funcs' t \<noteq> None"
  shows "set funcs \<subseteq> needs \<Longrightarrow> card (needs - set funcs) < n \<Longrightarrow>
    parse_loop n tparse funcs t = None \<longleftrightarrow> (\<exists>funcs'. tparse funcs' t = None)"
proof (induction n arbitrary: funcs)
  case (Suc n)
  show ?case
  proof (cases "tparse funcs t")
    case None
    then show ?thesis by auto
  next
    case err: (Some err)
    show ?thesis
    proof (cases "FindStringSubmatch undefinedFuncRe err")
      case None
      then show ?thesis using err broken[OF err None] by auto
    next
      case (Some m)
      let ?f = "submatch m 1"
      have f: "?f \<in> needs - set funcs" using missing[OF err Some] .
      have "needs - set (?f # funcs) = (needs - set funcs) - {?f}" by auto
      then have "card (needs - set (?f # funcs)) < card (needs - set funcs)"
        using f fin card_Diff1_less[of "needs - set funcs" ?f] by simp
      then have "card (needs - set (?f # funcs)) < n" using Suc.prems by simp
      then show ?thesis using Suc.IH[of "?f # funcs"] Suc.prems(1) f err Some by simp
    qed
  qed
qed simp

text \<open>
  C26: the grammar check reports a template exactly when no set of helper
  functions makes it parse, for every parser that names a missing function it
  has not been given, and whose other errors do not depend on the functions
  given, as long as the template calls fewer than a thousand distinct ones.
  The self-extending loop therefore always reaches a verdict.
\<close>

theorem parseGoTemplateText_decides:
  assumes "finite needs" "card needs < 1000"
    and "\<And>funcs err m. tparse funcs t = Some err \<Longrightarrow> FindStringSubmatch undefinedFuncRe err = Some m \<Longrightarrow>
      submatch m 1 \<in> needs - set funcs"
    and "\<And>funcs funcs' err. tparse funcs t = Some err \<Longrightarrow> FindStringSubmatch undefinedFuncRe err = None \<Longrightarrow> tparse funcs' t \<noteq> None"
  shows "parseGoTemplateText tparse t = None \<longleftrightarrow> (\<exists>funcs. tparse funcs t = None)"
  unfolding parseGoTemplateText_def by (rule parse_loop_decides[of needs tparse t]) (use assms in auto)

definition ex_tparse :: "string list \<Rightarrow> string \<Rightarrow> string option" where
  "ex_tparse funcs t =
     (if ''toYaml'' \<in> set funcs then None else Some (''template: function '' @ dq @ ''toYaml'' @ dq @ '' not defined''))"

lemma ex_undefined:
  "map_option (\<lambda>m. submatch m 1) (FindStringSubmatch undefinedFuncRe (''template: function '' @ dq @ ''toYaml'' @ dq @ '' not defined'')) =
     Some ''toYaml''"
  by code_simp

theorem parseGoTemplateText_decides_witness: "parseGoTemplateText ex_tparse ''x'' = None"
proof -
  have name: "submatch m 1 = ''toYaml''"
    if "FindStringSubmatch undefinedFuncRe (''template: function '' @ dq @ ''toYaml'' @ dq @ '' not defined'') = Some m" for m
    using ex_undefined unfolding that by simp
  have "parseGoTemplateText ex_tparse ''x'' = None \<longleftrightarrow> (\<exists>funcs. ex_tparse funcs ''x'' = None)"
  proof (rule parseGoTemplateText_decides[of "{''toYaml''}"])
    fix funcs err m
    assume "ex_tparse funcs ''x'' = Some err" "FindStringSubmatch undefinedFuncRe err = Some m"
    then show "submatch m 1 \<in> {''toYaml''} - set funcs" using name by (auto simp: ex_tparse_def split: if_splits)
  next
    fix funcs funcs' err
    assume "ex_tparse funcs ''x'' = Some err" "FindStringSubmatch undefinedFuncRe err = None"
    then show "ex_tparse funcs' ''x'' \<noteq> None" using ex_undefined by (auto simp: ex_tparse_def split: if_splits)
  qed simp_all
  moreover have "ex_tparse [''toYaml''] ''x'' = None" by (simp add: ex_tparse_def)
  ultimately show ?thesis by blast
qed

section \<open>Duplicate variables are counted exactly\<close>

lemma count_fold:
  "foldl count_step ([], []) names = (counts, order) \<Longrightarrow>
     distinct order \<and> set order = set names \<and> (\<forall>n. map_of counts n = (if n \<in> set names then Some (count_list names n) else None))"
proof (induction names arbitrary: counts order rule: rev_induct)
  case (snoc x names)
  obtain c1 o1 where f: "foldl count_step ([], []) names = (c1, o1)" by fastforce
  have IH: "distinct o1" "set o1 = set names" "\<forall>n. map_of c1 n = (if n \<in> set names then Some (count_list names n) else None)"
    using snoc.IH[OF f] by auto
  have zero: "count_list names x = 0 \<longleftrightarrow> x \<notin> set names" by (simp add: count_list_0_iff)
  have "count_step (c1, o1) x = (counts, order)" using snoc.prems unfolding foldl_append f by simp
  then show ?case using IH zero by (auto simp: count_step_def Let_def count_notin split: if_splits)
qed simp

text \<open>
  the duplicate-variable check reports, for each composition template with
  exactly one environment key, each literal variable name that occurs at least
  twice, with its number of occurrences, and nothing else; templates that
  build several containers are skipped.
\<close>

theorem duplicate_env_exact:
  "f \<in> set (w_DuplicateEnvFindings (checkCompositionDuplicateEnv w)) \<longleftrightarrow>
     f \<in> set (w_DuplicateEnvFindings w) \<or>
     (\<exists>cp step t. (cp, step, t) \<in> set (composition_templates w) \<and> CountStr t (dq @ ''environment'' @ dq) = 1 \<and>
        2 \<le> count_list (env_names t) (def_EnvName f) \<and>
        f = \<lparr>def_Composition = comp_Name cp, def_EnvName = def_EnvName f,
             def_Count = int (count_list (env_names t) (def_EnvName f)), def_Source = comp_Source cp\<rparr>)"
proof -
  have "f \<in> set (duplicate_env cp t) \<longleftrightarrow>
      CountStr t (dq @ ''environment'' @ dq) = 1 \<and> 2 \<le> count_list (env_names t) (def_EnvName f) \<and>
      f = \<lparr>def_Composition = comp_Name cp, def_EnvName = def_EnvName f,
             def_Count = int (count_list (env_names t) (def_EnvName f)), def_Source = comp_Source cp\<rparr>" for cp t
  proof -
    obtain counts order where c: "foldl count_step ([], []) (env_names t) = (counts, order)" by fastforce
    have occ: "2 \<le> count_list (env_names t) n \<Longrightarrow> n \<in> set (env_names t)" for n
      using count_list_0_iff[of "env_names t" n] by fastforce
    show ?thesis using count_fold[OF c] occ unfolding duplicate_env_def c
      by (cases f) (auto simp: Let_def not_less)
  qed
  then show ?thesis by (auto simp: checkCompositionDuplicateEnv_def)
qed

section \<open>Patterns as lines\<close>

inductive_simps m_eps: "matches REps st st'"
inductive_simps m_set: "matches (RSet p) (pr, s) st'"
inductive_simps m_cat: "matches (RCat a b) st st'"
inductive_simps m_line: "matches RLineStart st st'" "matches RLineEnd st st'"

lemma matches_lit: "matches (lit u) (pr, s) st' \<longleftrightarrow> (\<exists>r. s = u @ r \<and> st' = (advance pr u, r))"
proof (induction u arbitrary: pr s)
  case Nil
  then show ?case by (auto simp: lit_def m_eps advance_def)
next
  case (Cons c u)
  have "lit (c # u) = RCat (RSet (\<lambda>d. d = c)) (lit u)" by (simp add: lit_def)
  then show ?case using Cons by (auto simp: m_cat m_set advance_def)
qed

lemma star_set_sound: "matches r st st' \<Longrightarrow> r = RStar (RSet p) \<Longrightarrow> \<exists>u. list_all p u \<and> snd st = u @ snd st' \<and> fst st' = advance (fst st) u"
proof (induction rule: matches.induct)
  case (star0 a st)
  then show ?case by (intro exI[of _ "[]"]) (simp add: advance_def)
next
  case (star1 a st st' st'')
  then obtain u where u: "list_all p u" "snd st' = u @ snd st''" "fst st'' = advance (fst st') u" by blast
  obtain c where "p c" "snd st = c # snd st'" "fst st' = Some c" using star1 by (cases st) (auto simp: m_set)
  then show ?case using u by (intro exI[of _ "c # u"]) (auto simp: advance_def)
qed auto

lemma matches_star_set:
  "matches (RStar (RSet p)) (pr, s) st' \<longleftrightarrow> (\<exists>u r. list_all p u \<and> s = u @ r \<and> st' = (advance pr u, r))"
proof
  assume "matches (RStar (RSet p)) (pr, s) st'"
  from star_set_sound[OF this refl] show "\<exists>u r. list_all p u \<and> s = u @ r \<and> st' = (advance pr u, r)"
    by (cases st') auto
next
  have "list_all p u \<Longrightarrow> matches (RStar (RSet p)) (pr, u @ r) (advance pr u, r)" for u r
  proof (induction u arbitrary: pr)
    case (Cons c u)
    then have "matches (RStar (RSet p)) (Some c, u @ r) (advance (Some c) u, r)" by simp
    moreover have "matches (RSet p) (pr, (c # u) @ r) (Some c, u @ r)" using Cons by (simp add: matches.set)
    ultimately show ?case using matches.star1 by (fastforce simp: advance_def split: if_splits)
  qed (simp add: advance_def matches.star0)
  moreover assume "\<exists>u r. list_all p u \<and> s = u @ r \<and> st' = (advance pr u, r)"
  ultimately show "matches (RStar (RSet p)) (pr, s) st'" by blast
qed

lemma advance_append: "advance (advance pr u) v = advance pr (u @ v)"
  by (simp add: advance_def)

lemma splitLines_Split: "splitLines s = Split s [nl]"
proof (induction s)
  case Nil
  then show ?case by (simp add: Split_no_sep)
next
  case (Cons c s)
  obtain l ls where ls: "Split s [nl] = l # ls" using Split_ne[of "[nl]" s] by (cases "Split s [nl]") auto
  show ?case
  proof (cases "c = nl")
    case True
    then show ?thesis using Cons Split_append_sep[of nl "[]" s] by simp
  next
    case False
    have nofree: "\<forall>x \<in> set (Split s [nl]). nl \<notin> set x" using Split_pieces_free by fastforce
    have "Join ((c # l) # ls) [nl] = c # Join (l # ls) [nl]" by (cases ls) simp_all
    also have "Join (l # ls) [nl] = s" using Join_Split[of "[nl]" s] ls by simp
    finally have "Split (c # s) [nl] = (c # l) # ls"
      using Split_Join[of "(c # l) # ls" nl] False nofree ls by simp
    then show ?thesis using Cons False ls by simp
  qed
qed

lemma Split_append_char: "Split (q @ c # r) [c] = Split q [c] @ Split r [c]"
proof (induction "length q" arbitrary: q rule: less_induct)
  case less
  show ?case
  proof (cases "c \<in> set q")
    case True
    then obtain a b where q: "q = a @ c # b" "c \<notin> set a" by (metis split_list_first)
    then show ?thesis using less[of b] Split_append_sep[of c a b] Split_append_sep[of c a "b @ c # r"] by simp
  next
    case False
    then show ?thesis using Split_append_sep[of c q r] Split_no_sep[of c q] by simp
  qed
qed

lemma line_iff:
  assumes "nl \<notin> set l"
  shows "l \<in> set (splitLines s) \<longleftrightarrow> (\<exists>a r. s = a @ l @ r \<and> (a = [] \<or> last a = nl) \<and> (r = [] \<or> hd r = nl))"
proof
  assume "l \<in> set (splitLines s)"
  then obtain xs ys where sp: "Split s [nl] = xs @ l # ys" by (metis splitLines_Split split_list)
  have "s = Join (xs @ l # ys) [nl]" using Join_Split[of "[nl]" s] sp by simp
  moreover have "\<exists>a r. Join (xs @ l # ys) [nl] = a @ l @ r \<and> (a = [] \<or> last a = nl) \<and> (r = [] \<or> hd r = nl)"
  proof -
    have "\<exists>r. Join (l # ys) [nl] = l @ r \<and> (r = [] \<or> hd r = nl)" by (cases ys) auto
    then obtain r where r: "Join (l # ys) [nl] = l @ r" "r = [] \<or> hd r = nl" by blast
    have "\<exists>a. Join (xs @ l # ys) [nl] = a @ Join (l # ys) [nl] \<and> (a = [] \<or> last a = nl)"
    proof (induction xs)
      case (Cons x xs)
      then obtain a where "Join (xs @ l # ys) [nl] = a @ Join (l # ys) [nl]" "a = [] \<or> last a = nl" by blast
      then show ?case using Join_Cons[of "xs @ l # ys" x "[nl]"] by (intro exI[of _ "x @ nl # a"]) auto
    qed simp
    then show ?thesis using r by auto
  qed
  ultimately show "\<exists>a r. s = a @ l @ r \<and> (a = [] \<or> last a = nl) \<and> (r = [] \<or> hd r = nl)" by simp
next
  assume "\<exists>a r. s = a @ l @ r \<and> (a = [] \<or> last a = nl) \<and> (r = [] \<or> hd r = nl)"
  then obtain a r where s: "s = a @ l @ r" and a: "a = [] \<or> last a = nl" and r: "r = [] \<or> hd r = nl" by blast
  have lr: "l \<in> set (Split (l @ r) [nl])"
    using r assms Split_no_sep[of nl l] Split_append_sep[of nl l "tl r"] by (cases r) auto
  show "l \<in> set (splitLines s)"
  proof (cases "a = []")
    case False
    then have "a = butlast a @ [nl]" using a by (metis append_butlast_last_id)
    then have "Split s [nl] = Split (butlast a) [nl] @ Split (l @ r) [nl]"
      using Split_append_char[of "butlast a" nl "l @ r"] s by (metis append.assoc append_Cons append_Nil)
    then show ?thesis using lr by (simp add: splitLines_Split)
  qed (use s lr in \<open>simp add: splitLines_Split\<close>)
qed

definition kind_line :: "string \<Rightarrow> string \<Rightarrow> bool" where
  "kind_line kind l =
     (\<exists>x y z. list_all is_blank x \<and> list_all is_blank y \<and> list_all is_blank z \<and> l = x @ ''kind:'' @ y @ kind @ z)"

lemma blank_no_nl: "list_all is_blank x \<Longrightarrow> nl \<notin> set x"
  by (induction x) (auto simp: is_blank_def)

lemma kindRe_matches:
  "(\<exists>st'. matches (kindRe kind) (pr, b) st') \<longleftrightarrow>
     (pr = None \<or> pr = Some nl) \<and> (\<exists>l r. kind_line kind l \<and> b = l @ r \<and> (r = [] \<or> hd r = nl))"
  unfolding kindRe_def cats_def kind_line_def
  by (simp add: m_cat m_line m_eps matches_star_set matches_lit ex_simps[symmetric] del: ex_simps) blast

lemma kindRe_line:
  assumes "nl \<notin> set kind"
  shows "MatchString (kindRe kind) doc \<longleftrightarrow> (\<exists>l \<in> set (splitLines doc). kind_line kind l)"
proof -
  have no_nl: "nl \<notin> set l" if "kind_line kind l" for l
    using that assms blank_no_nl by (auto simp: kind_line_def)
  have start: "advance None a = None \<or> advance None a = Some nl \<longleftrightarrow> a = [] \<or> last a = nl" for a
    by (simp add: advance_def)
  have "MatchString (kindRe kind) doc \<longleftrightarrow>
      (\<exists>a b. doc = a @ b \<and> (a = [] \<or> last a = nl) \<and> (\<exists>l r. kind_line kind l \<and> b = l @ r \<and> (r = [] \<or> hd r = nl)))"
  proof -
    have "MatchString (kindRe kind) doc \<longleftrightarrow> (\<exists>a b. doc = a @ b \<and> (\<exists>st'. matches (kindRe kind) (advance None a, b) st'))"
      unfolding MatchString_iff by simp
    then show ?thesis unfolding kindRe_matches start .
  qed
  also have "\<dots> \<longleftrightarrow> (\<exists>l. kind_line kind l \<and> (\<exists>a r. doc = a @ l @ r \<and> (a = [] \<or> last a = nl) \<and> (r = [] \<or> hd r = nl)))"
    by blast
  also have "\<dots> \<longleftrightarrow> (\<exists>l \<in> set (splitLines doc). kind_line kind l)" using line_iff no_nl by blast
  finally show ?thesis .
qed

text \<open>
  The documents of a template that count as blocks of a kind are exactly
  the pieces between document separators that have a line consisting of the
  key \<^verbatim>\<open>kind:\<close> and that kind, up to blanks.
\<close>

theorem resourceBlocksOfKind_lines:
  assumes "nl \<notin> set kind"
  shows "resourceBlocksOfKind tmplText kind =
    filter (\<lambda>doc. \<exists>l \<in> set (splitLines doc). kind_line kind l) (Split tmplText (nl # ''---''))"
  unfolding resourceBlocksOfKind_def kindRe_line[OF assms, abs_def] ..

theorem resourceBlocksOfKind_lines_witness:
  "resourceBlocksOfKind (''kind: A'' @ [nl] @ ''---'' @ [nl] @ ''  kind: B '') ''B'' = [[nl] @ ''  kind: B '']"
proof -
  let ?t = "''kind: A'' @ [nl] @ ''---'' @ [nl] @ ''  kind: B ''"
  have sp: "Split ?t (nl # ''---'') = [''kind: A'', [nl] @ ''  kind: B '']" by code_simp
  have "\<not> MatchString (kindRe ''B'') ''kind: A''" "splitLines ''kind: A'' = [''kind: A'']" by code_simp+
  then have no: "\<not> kind_line ''B'' ''kind: A''" using kindRe_line[of "''B''" "''kind: A''"] by simp
  have "kind_line ''B'' ''  kind: B ''" unfolding kind_line_def
    by (intro exI[of _ "''  ''"] exI[of _ "'' ''"]) (simp add: is_blank_def)
  then have "filter (\<lambda>doc. \<exists>l \<in> set (splitLines doc). kind_line ''B'' l) (Split ?t (nl # ''---'')) = [[nl] @ ''  kind: B '']"
    unfolding sp using no by simp
  then show ?thesis using resourceBlocksOfKind_lines[of "''B''" ?t] by simp
qed

section \<open>Unversioned task definitions\<close>

lemma marker_length: "length marker = 16"
  by (simp add: marker_def)

lemma unversioned_iff: "unversioned_loop s \<longleftrightarrow> (\<exists>a b. s = a @ marker @ b \<and> CHR '':'' \<notin> set b)"
proof (induction s rule: unversioned_loop.induct)
  case (1 s)
  show ?case
  proof (cases "Index s marker")
    case None
    then show ?thesis using Index_None_iff[of s marker] by (simp add: unversioned_loop.simps[of s])
  next
    case (Some i)
    let ?after = "drop (i + length marker) s"
    have s: "s = take i s @ marker @ ?after" using Index_Some_split[OF Some] by simp
    show ?thesis
    proof (cases "CHR '':'' \<in> set ?after")
      case False
      then show ?thesis using Some s by (auto simp: unversioned_loop.simps[of s] Contains_singleton Let_def)
    next
      case True
      have "unversioned_loop s \<longleftrightarrow> unversioned_loop ?after"
        using Some True by (simp add: unversioned_loop.simps[of s] Contains_singleton Let_def)
      also have "\<dots> \<longleftrightarrow> (\<exists>a b. ?after = a @ marker @ b \<and> CHR '':'' \<notin> set b)"
        using 1 Some True by (simp add: Contains_singleton)
      also have "\<dots> \<longleftrightarrow> (\<exists>a b. s = a @ marker @ b \<and> CHR '':'' \<notin> set b)" (is "?L \<longleftrightarrow> ?R")
      proof
        assume ?L
        then show ?R using s by (metis append.assoc)
      next
        assume ?R
        then obtain a b where ab: "s = a @ marker @ b" "CHR '':'' \<notin> set b" by blast
        have i: "i + length marker \<le> length s" using Index_Some_bound[OF Some] .
        have lens: "length s = length a + length marker + length b" using ab(1) by simp
        have later: "i < length a"
        proof (rule ccontr)
          assume "\<not> i < length a"
          then have "?after = drop (i + length marker - (length a + length marker)) b"
            using ab(1) by simp
          then have "set ?after \<subseteq> set b" by (simp add: set_drop_subset)
          then show False using True ab(2) by blast
        qed
        have "i + length marker \<le> length a"
        proof (rule ccontr)
          assume "\<not> i + length marker \<le> length a"
          then have j: "i + 15 - length a < 15" "length a \<le> i + 15" using later by (simp_all add: marker_def)
          have "s ! (i + 15) = marker ! 15"
            using i by (subst s) (simp add: nth_append marker_def min_def)
          moreover have "s ! (i + 15) = marker ! (i + 15 - length a)"
            using j ab(1) by (simp add: nth_append marker_length)
          ultimately have "marker ! (i + 15 - length a) = marker ! 15" by simp
          moreover have "list_all (\<lambda>k. marker ! k \<noteq> marker ! 15) [0..<15]" by code_simp
          ultimately show False using j(1) by (simp add: list_all_iff)
        qed
        then have "?after = drop (i + length marker) a @ marker @ b" using ab(1) by simp
        then show ?L using ab(2) by blast
      qed
      finally show ?thesis .
    qed
  qed
qed

text \<open>
  The revision detector flags a right-hand side exactly when, with its
  template actions blanked, some task-definition path is followed by no colon
  up to the end, and none of the recognised guards occurs.  A bare family
  followed by any later colon, such as another versioned literal in an else
  branch, is therefore not flagged.
\<close>

theorem templateRHSNonCanonical_exact:
  "(templateRHSNonCanonical detector rhs \<longleftrightarrow>
     detector = ''arn-requires-revision'' \<and>
     (\<exists>a b. ReplaceAllString templateActionRe (TrimSpace rhs) '' '' = a @ ''task-definition/'' @ b \<and> CHR '':'' \<notin> set b) \<and>
     \<not> Contains (ToLower (TrimSpace rhs)) ''taskdefarn'' \<and> \<not> Contains (TrimSpace rhs) ''atProvider'' \<and>
     \<not> MatchString defaultPipeRe (TrimSpace rhs)) \<and>
   templateRHSNonCanonical ''arn-requires-revision'' ''{{ if .p }}x/task-definition/web{{ end }}'' \<and>
   \<not> templateRHSNonCanonical ''arn-requires-revision'' ''{{ if .p }}x/task-definition/web{{ else }}x/task-definition/web:7{{ end }}''"
proof (intro conjI)
  show "templateRHSNonCanonical detector rhs \<longleftrightarrow>
     detector = ''arn-requires-revision'' \<and>
     (\<exists>a b. ReplaceAllString templateActionRe (TrimSpace rhs) '' '' = a @ ''task-definition/'' @ b \<and> CHR '':'' \<notin> set b) \<and>
     \<not> Contains (ToLower (TrimSpace rhs)) ''taskdefarn'' \<and> \<not> Contains (TrimSpace rhs) ''atProvider'' \<and>
     \<not> MatchString defaultPipeRe (TrimSpace rhs)"
    using unversioned_iff unfolding templateRHSNonCanonical_def hasUnversionedTaskDefLiteral_def rhsHasCanonicalGuard_def Let_def marker_def
    by auto
qed code_simp+

end
