(* ===== verification/Builder.thy ===== *)
theory Builder
  imports AppSet Owner CompCheck
begin

text \<open>
  The document handlers of \<^verbatim>\<open>pkg/ir/builder.go\<close>: one per document category,
  each appending one fact to the World.  The digest of a schema (a hash of its
  JSON form) is a parameter.
\<close>

section \<open>Definitions of resources\<close>

definition field_or_empty :: "obj option \<Rightarrow> string \<Rightarrow> string" where
  "field_or_empty m k = (case m of None \<Rightarrow> [] | Some o' \<Rightarrow> str_field o' k)"

definition meta_name :: "LoadedDocument \<Rightarrow> string" where
  "meta_name doc = field_or_empty (getMap (doc_Raw doc) ''metadata'') ''name''"

definition add_schema :: "(obj \<Rightarrow> string) \<Rightarrow> obj \<Rightarrow> World \<Rightarrow> World" where
  "add_schema hashSchema sch w =
     w\<lparr>w_Schemas := mput (hashSchema sch) \<lparr>sch_Digest = hashSchema sch, sch_Schema = sch\<rparr> (w_Schemas w)\<rparr>"

definition version_schemas :: "(obj \<Rightarrow> string) \<Rightarrow> obj list \<Rightarrow> World \<Rightarrow> World" where
  "version_schemas hashSchema vms w =
     foldl (\<lambda>w vm. case getMap vm ''schema'' of Some sch \<Rightarrow> add_schema hashSchema sch w | None \<Rightarrow> w) w vms"

definition version_digest :: "(obj \<Rightarrow> string) \<Rightarrow> obj \<Rightarrow> string" where
  "version_digest hashSchema vm = (case getMap vm ''schema'' of Some sch \<Rightarrow> hashSchema sch | None \<Rightarrow> [])"

definition webhook_service :: "obj \<Rightarrow> string" where
  "webhook_service conv =
     (case Option.bind (Option.bind (getMap conv ''webhook'') (\<lambda>wh. getMap wh ''clientConfig'')) (\<lambda>cc. getMap cc ''service'') of
        None \<Rightarrow> []
      | Some svc \<Rightarrow> str_field svc ''namespace'' @ ''/'' @ str_field svc ''name'')"

definition all_same_digest :: "CRDVersion list \<Rightarrow> bool" where
  "all_same_digest vs = (case vs of [] \<Rightarrow> True | v # rest \<Rightarrow> list_all (\<lambda>x. cv_SchemaDigest x = cv_SchemaDigest v) rest)"

definition crd_conversion :: "obj \<Rightarrow> CRDVersion list \<Rightarrow> ConversionInfo" where
  "crd_conversion spec versions =
     (case getMap spec ''conversion'' of
        None \<Rightarrow> \<lparr>conv_Strategy = [], conv_CostClass = CostClassNone, conv_WebhookService = []\<rparr>
      | Some conv \<Rightarrow>
          let strategy = str_field conv ''strategy'' in
          \<lparr>conv_Strategy = strategy,
           conv_CostClass =
             (if strategy = ''Webhook'' then CostClassWebhook
              else if strategy = ''None'' \<or> strategy = [] then
                (if length versions \<le> 1 then CostClassNone
                 else if all_same_digest versions then CostClassIdentity else CostClassStructural)
              else []),
           conv_WebhookService = (if strategy = ''Webhook'' then webhook_service conv else [])\<rparr>)"

definition addCRD :: "(obj \<Rightarrow> string) \<Rightarrow> LoadedDocument \<Rightarrow> World \<Rightarrow> string + World" where
  "addCRD hashSchema doc w =
     (case getMap (doc_Raw doc) ''spec'' of
        None \<Rightarrow> Inl ''CRD missing spec''
      | Some spec \<Rightarrow>
          let vms = obj_elems (getSlice0 spec ''versions'');
              versions = map (\<lambda>vm. \<lparr>cv_Name = str_field vm ''name'', cv_Served = bool_field vm ''served'',
                  cv_Storage = bool_field vm ''storage'', cv_Referenceable = False,
                  cv_SchemaDigest = version_digest hashSchema vm\<rparr>) vms;
              crd = \<lparr>crd_Group = str_field spec ''group'', crd_Kind = field_or_empty (getMap spec ''names'') ''kind'',
                  crd_Scope = str_field spec ''scope'', crd_Versions = versions,
                  crd_Conversion = crd_conversion spec versions, crd_Source = doc_Source doc, crd_IsXRD = False,
                  crd_APIVersion = [], crd_OwningApp = []\<rparr>;
              w1 = version_schemas hashSchema vms w
          in Inr (w1\<lparr>w_CRDs := w_CRDs w1 @ [crd]\<rparr>))"

definition addXRD :: "(obj \<Rightarrow> string) \<Rightarrow> LoadedDocument \<Rightarrow> World \<Rightarrow> string + World" where
  "addXRD hashSchema doc w =
     (case getMap (doc_Raw doc) ''spec'' of
        None \<Rightarrow> Inl ''XRD missing spec''
      | Some spec \<Rightarrow>
          let vms = obj_elems (getSlice0 spec ''versions'');
              versions = map (\<lambda>vm. \<lparr>cv_Name = str_field vm ''name'', cv_Served = bool_field vm ''served'',
                  cv_Storage = bool_field vm ''referenceable'', cv_Referenceable = bool_field vm ''referenceable'',
                  cv_SchemaDigest = version_digest hashSchema vm\<rparr>) vms;
              xrd = \<lparr>crd_Group = str_field spec ''group'', crd_Kind = field_or_empty (getMap spec ''names'') ''kind'',
                  crd_Scope = (if getMap spec ''claimNames'' = None then ''Cluster'' else ''Namespaced''), crd_Versions = versions,
                  crd_Conversion = \<lparr>conv_Strategy = [], conv_CostClass = [], conv_WebhookService = []\<rparr>,
                  crd_Source = doc_Source doc, crd_IsXRD = True, crd_APIVersion = doc_APIVersion doc, crd_OwningApp = []\<rparr>;
              w1 = version_schemas hashSchema vms w
          in Inr (w1\<lparr>w_XRDs := w_XRDs w1 @ [xrd]\<rparr>))"

section \<open>Compositions and packages\<close>

definition parse_step :: "(obj \<Rightarrow> string) \<Rightarrow> obj \<Rightarrow> PipelineStep" where
  "parse_step hashSchema sm =
     (let input = getMap sm ''input'' in
      \<lparr>ps_Name = str_field sm ''step'', ps_FunctionRef = field_or_empty (getMap sm ''functionRef'') ''name'',
       ps_InputAPIVersion = field_or_empty input ''apiVersion'', ps_InputKind = field_or_empty input ''kind'',
       ps_InputDigest = (case input of Some i \<Rightarrow> hashSchema i | None \<Rightarrow> [])\<rparr>)"

definition step_schemas :: "(obj \<Rightarrow> string) \<Rightarrow> obj list \<Rightarrow> World \<Rightarrow> World" where
  "step_schemas hashSchema sms w =
     foldl (\<lambda>w sm. case getMap sm ''input'' of Some i \<Rightarrow> add_schema hashSchema i w | None \<Rightarrow> w) w sms"

definition parse_patch :: "obj \<Rightarrow> PatchInfo" where
  "parse_patch pm =
     \<lparr>pi_Type = str_field pm ''type'', pi_FromFieldPath = str_field pm ''fromFieldPath'',
      pi_ToFieldPath = str_field pm ''toFieldPath'',
      pi_Transforms = map (\<lambda>tm. \<lparr>ti_Type = str_field tm ''type'', ti_Convert = field_or_empty (getMap tm ''convert'') ''toType''\<rparr>)
        (obj_elems (getSlice0 pm ''transforms''))\<rparr>"

definition parse_composed :: "obj \<Rightarrow> ComposedResource" where
  "parse_composed rm =
     \<lparr>cr_Name = str_field rm ''name'',
      cr_Base = \<lparr>rb_APIVersion = field_or_empty (getMap rm ''base'') ''apiVersion'', rb_Kind = field_or_empty (getMap rm ''base'') ''kind''\<rparr>,
      cr_Patches = map parse_patch (obj_elems (getSlice0 rm ''patches''))\<rparr>"

definition addComposition :: "(obj \<Rightarrow> string) \<Rightarrow> LoadedDocument \<Rightarrow> World \<Rightarrow> string + World" where
  "addComposition hashSchema doc w =
     (case getMap (doc_Raw doc) ''spec'' of
        None \<Rightarrow> Inl ''Composition missing spec''
      | Some spec \<Rightarrow>
          let c0 = \<lparr>comp_Name = meta_name doc,
                comp_CompositeTypeRef = (case getMap spec ''compositeTypeRef'' of
                    Some ctr \<Rightarrow> parseGVK (str_field ctr ''apiVersion'') (str_field ctr ''kind'')
                  | None \<Rightarrow> \<lparr>gvk_Group = [], gvk_Version = [], gvk_Kind = []\<rparr>),
                comp_Mode = [], comp_Pipeline = [], comp_Resources = [], comp_Source = doc_Source doc, comp_OwningApp = []\<rparr>
          in case getSlice spec ''pipeline'' of
               Some pipeline \<Rightarrow>
                 let sms = obj_elems pipeline; w1 = step_schemas hashSchema sms w
                 in Inr (w1\<lparr>w_Compositions := w_Compositions w1 @
                      [c0\<lparr>comp_Mode := ''Pipeline'', comp_Pipeline := map (parse_step hashSchema) sms\<rparr>]\<rparr>)
             | None \<Rightarrow>
                 (case getSlice spec ''resources'' of
                    Some resources \<Rightarrow>
                      Inr (w\<lparr>w_Compositions := w_Compositions w @
                        [c0\<lparr>comp_Mode := ''Resources'', comp_Resources := map parse_composed (obj_elems resources)\<rparr>]\<rparr>)
                  | None \<Rightarrow> Inr (w\<lparr>w_Compositions := w_Compositions w @ [c0]\<rparr>)))"

definition knownFunctions :: "(string \<times> string list) list" where
  "knownFunctions =
     [(''function-patch-and-transform'', [''pt.fn.crossplane.io/v1beta1'']),
      (''function-kcl'', [''krm.kcl.dev/v1alpha1'']),
      (''function-go-templating'', [''gotemplating.fn.crossplane.io/v1beta1'']),
      (''function-auto-ready'', []),
      (''function-cel-filter'', [''celfilter.fn.crossplane.io/v1beta1'']),
      (''function-status-transformer'', [''statustransformer.fn.crossplane.io/v1beta1'']),
      (''function-environment-configs'', [''environmentconfigs.fn.crossplane.io/v1beta1'']),
      (''function-extra-resources'', [''extraresources.fn.crossplane.io/v1beta1'']),
      (''function-sequencer'', [''sequencer.fn.crossplane.io/v1beta1''])]"

text \<open>The code ranges over a Go map: \<open>fns\<close> is the order of that iteration, some permutation of the table.\<close>

definition inferFunctionInputVersions :: "(string \<times> string list) list \<Rightarrow> string \<Rightarrow> string \<Rightarrow> string list" where
  "inferFunctionInputVersions fns name pkg =
     (case find (\<lambda>(known, versions). name = known \<or> Contains pkg known) fns of
        Some (known, versions) \<Rightarrow> versions
      | None \<Rightarrow> [])"

definition spec_package :: "LoadedDocument \<Rightarrow> string" where
  "spec_package doc = field_or_empty (getMap (doc_Raw doc) ''spec'') ''package''"

definition addFunction :: "(string \<times> string list) list \<Rightarrow> LoadedDocument \<Rightarrow> World \<Rightarrow> World" where
  "addFunction fns doc w =
     w\<lparr>w_Functions := w_Functions w @
       [\<lparr>fn_Name = meta_name doc, fn_Package = spec_package doc,
         fn_InputVersions = inferFunctionInputVersions fns (meta_name doc) (spec_package doc),
         fn_Source = doc_Source doc, fn_OwningApp = []\<rparr>]\<rparr>"

definition meta_map :: "LoadedDocument \<Rightarrow> string \<Rightarrow> strmap" where
  "meta_map doc k =
     (case getMap (doc_Raw doc) ''metadata'' of None \<Rightarrow> [] | Some md \<Rightarrow> str_entries (getMap0 md k))"

definition addProvider :: "LoadedDocument \<Rightarrow> World \<Rightarrow> World" where
  "addProvider doc w =
     w\<lparr>w_Providers := w_Providers w @
       [\<lparr>prov_Name = meta_name doc, prov_Package = spec_package doc, prov_Annotations = meta_map doc ''annotations'',
         prov_Source = doc_Source doc, prov_OwningApp = []\<rparr>]\<rparr>"

definition addConfiguration :: "LoadedDocument \<Rightarrow> World \<Rightarrow> World" where
  "addConfiguration doc w =
     w\<lparr>w_Configurations := w_Configurations w @
       [\<lparr>cfgn_Name = meta_name doc, cfgn_Package = spec_package doc, cfgn_Source = doc_Source doc\<rparr>]\<rparr>"

definition addArgoAppProject :: "LoadedDocument \<Rightarrow> World \<Rightarrow> World" where
  "addArgoAppProject doc w = w\<lparr>w_ArgoProjects := w_ArgoProjects w @ [parse_project doc]\<rparr>"

definition addArgoApplicationSet :: "LoadedDocument \<Rightarrow> World \<Rightarrow> World" where
  "addArgoApplicationSet doc w = w\<lparr>w_ArgoAppSets := w_ArgoAppSets w @ [parse_appset doc]\<rparr>"

definition addResource :: "LoadedDocument \<Rightarrow> World \<Rightarrow> World" where
  "addResource doc w =
     w\<lparr>w_Resources := w_Resources w @
       [\<lparr>ri_APIVersion = doc_APIVersion doc, ri_Kind = doc_Kind doc, ri_Name = meta_name doc,
         ri_Namespace = field_or_empty (getMap (doc_Raw doc) ''metadata'') ''namespace'',
         ri_Annotations = meta_map doc ''annotations'', ri_Labels = meta_map doc ''labels'',
         ri_Source = doc_Source doc, ri_Raw = doc_Raw doc, ri_Provenance = [], ri_OwningApp = []\<rparr>]\<rparr>"

definition resourceInfoFromDoc :: "LoadedDocument \<Rightarrow> ResourceInfo" where
  "resourceInfoFromDoc doc =
     \<lparr>ri_APIVersion = doc_APIVersion doc, ri_Kind = doc_Kind doc, ri_Name = getName (doc_Raw doc),
      ri_Namespace = field_or_empty (getMap (doc_Raw doc) ''metadata'') ''namespace'',
      ri_Annotations = meta_map doc ''annotations'', ri_Labels = meta_map doc ''labels'',
      ri_Source = doc_Source doc, ri_Raw = doc_Raw doc, ri_Provenance = [], ri_OwningApp = []\<rparr>"

end
