(* ===== verification/GoJson.thy ===== *)
theory GoJson
  imports GoData
begin

text \<open>
  What the code uses of \<^verbatim>\<open>encoding/json\<close> and \<^verbatim>\<open>time\<close> on single values: the JSON text of a
  string and of a flat struct, and the RFC 3339 text of a UTC instant.  Strings are
  valid UTF-8, as in the rest of the development.
\<close>

section \<open>JSON texts\<close>

abbreviation newline :: string where
  "newline \<equiv> [CHR 0x0A]"

abbreviation spaced_arrow :: string where
  "spaced_arrow \<equiv> [CHR 0x20, CHR 0xE2, CHR 0x86, CHR 0x92, CHR 0x20]"

definition go_bool :: "bool \<Rightarrow> string" where
  "go_bool b = (if b then ''true'' else ''false'')"

text \<open>\<^verbatim>\<open>json.Marshal\<close> of a string: HTML characters and line separators are escaped.\<close>

definition hex_digit :: "nat \<Rightarrow> char" where
  "hex_digit n = ''0123456789abcdef'' ! (n mod 16)"

definition json_char :: "char \<Rightarrow> string" where
  "json_char c =
     (let n = of_char c :: nat in
      if c = CHR 0x22 then [CHR 0x5C, CHR 0x22]
      else if c = CHR 0x5C then [CHR 0x5C, CHR 0x5C]
      else if n = 8 then [CHR 0x5C, CHR ''b'']
      else if n = 12 then [CHR 0x5C, CHR ''f'']
      else if n = 10 then [CHR 0x5C, CHR ''n'']
      else if n = 13 then [CHR 0x5C, CHR ''r'']
      else if n = 9 then [CHR 0x5C, CHR ''t'']
      else if n < 32 \<or> c = CHR ''<'' \<or> c = CHR ''>'' \<or> c = CHR ''&''
      then [CHR 0x5C] @ ''u00'' @ [hex_digit (n div 16), hex_digit n]
      else [c])"

fun json_chars :: "string \<Rightarrow> string" where
  "json_chars [] = []"
| "json_chars (c # s) =
     (if c = CHR 0xE2 \<and> take 2 s = [CHR 0x80, CHR 0xA8] then [CHR 0x5C] @ ''u2028'' @ json_chars (drop 2 s)
      else if c = CHR 0xE2 \<and> take 2 s = [CHR 0x80, CHR 0xA9] then [CHR 0x5C] @ ''u2029'' @ json_chars (drop 2 s)
      else json_char c @ json_chars s)"

definition json_string :: "string \<Rightarrow> string" where
  "json_string s = [CHR 0x22] @ json_chars s @ [CHR 0x22]"

text \<open>A struct: its fields in the order of their declaration, those left out by \<^verbatim>\<open>omitempty\<close> absent.\<close>

definition json_object :: "(string \<times> string) list \<Rightarrow> string" where
  "json_object fs = ''{'' @ Join (map (\<lambda>(k, v). json_string k @ '':'' @ v) fs) '','' @ ''}''"

definition str_member :: "string \<Rightarrow> string \<Rightarrow> (string \<times> string) list" where
  "str_member k v = [(k, json_string v)]"

definition omitempty :: "string \<Rightarrow> string \<Rightarrow> (string \<times> string) list" where
  "omitempty k v = (if v = [] then [] else str_member k v)"

section \<open>Instants\<close>

text \<open>
  An instant is the number of nanoseconds since 1970-01-01T00:00:00Z.  The date is
  found in the proleptic Gregorian calendar, in eras of 400 years that start in March.
\<close>

type_synonym Time = int

definition civil_of_days :: "int \<Rightarrow> int \<times> int \<times> int" where
  "civil_of_days days =
     (let z = days + 719468; era = z div 146097; doe = z mod 146097;
          yoe = (doe - doe div 1460 + doe div 36524 - doe div 146096) div 365;
          doy = doe - (365 * yoe + yoe div 4 - yoe div 100);
          mp = (5 * doy + 2) div 153;
          m = (if mp < 10 then mp + 3 else mp - 9)
      in (yoe + era * 400 + (if m \<le> 2 then 1 else 0), m, doy - (153 * mp + 2) div 5 + 1))"

definition pad_to :: "nat \<Rightarrow> int \<Rightarrow> string" where
  "pad_to w i = (let s = Itoa i in replicate (w - length s) (CHR ''0'') @ s)"

definition date_time :: "Time \<Rightarrow> string" where
  "date_time t =
     (let secs = t div 1000000000; (y, m, d) = civil_of_days (secs div 86400); r = secs mod 86400
      in pad_to 4 y @ ''-'' @ pad_to 2 m @ ''-'' @ pad_to 2 d @ ''T'' @
         pad_to 2 (r div 3600) @ '':'' @ pad_to 2 (r mod 3600 div 60) @ '':'' @ pad_to 2 (r mod 60))"

definition RFC3339 :: "Time \<Rightarrow> string" where
  "RFC3339 t = date_time t @ ''Z''"

text \<open>\<^verbatim>\<open>Time.MarshalJSON\<close> adds the nanoseconds, without the zeros they end in.\<close>

definition RFC3339Nano :: "Time \<Rightarrow> string" where
  "RFC3339Nano t =
     (let n = t mod 1000000000;
          frac = TrimRightFunc (\<lambda>c. c = CHR ''0'') (pad_to 9 n)
      in date_time t @ (if n = 0 then [] else ''.'' @ frac) @ ''Z'')"

end
