(* ===== verification/Renderer.thy ===== *)
theory Renderer
  imports Owner Schemas GoJson
begin

text \<open>
  \<^verbatim>\<open>pkg/renderer\<close>: the Helm, Kustomize and Crossplane renderers, their two-tier
  cache, the merging of Helm values and the double render that looks for
  non-determinism.  What the code asks of the machine is a record of functions:
  files, subprocesses, the clock, SHA-256, and the YAML and JSON decoders.  A
  subprocess may answer differently every time: its answer is indexed by the number
  of subprocesses run before it.
\<close>

section \<open>The machine\<close>

datatype FileRes = FileOk string | FileMissing | FileErr string

record ExecRes =
  ex_stdout :: string
  ex_stderr :: string
  ex_err :: "string option"
  ex_deadline :: bool

record Host =
  ho_ReadFile :: "string \<Rightarrow> FileRes"
  ho_WalkDir :: "string \<Rightarrow> string + string list"
  ho_LookPath :: "string \<Rightarrow> string + string"
  ho_Exec :: "nat \<Rightarrow> string \<Rightarrow> string list \<Rightarrow> (string \<times> string) list \<Rightarrow> ExecRes"
  ho_Temp :: "nat \<Rightarrow> string \<Rightarrow> string + string"
  ho_Write :: "string \<Rightarrow> string option"
  ho_IsDir :: "nat \<Rightarrow> string \<Rightarrow> bool"
  ho_MkdirAll :: "string \<Rightarrow> string option"
  ho_ReadDir :: "nat \<Rightarrow> string \<Rightarrow> string + (string \<times> bool) list"
  ho_Rename :: "nat \<Rightarrow> string \<Rightarrow> string \<Rightarrow> string option"
  ho_Home :: "string option"
  ho_Now :: "nat \<Rightarrow> int"
  ho_sha256 :: "string \<Rightarrow> string"
  ho_yaml :: "string \<Rightarrow> obj \<times> string option"
  ho_json :: "string \<Rightarrow> string + obj"
  ho_float :: "rat \<Rightarrow> string"

text \<open>What changes while rendering: the subprocesses run so far, and the files of the caches with their times.\<close>

record HostState =
  hs_tick :: nat
  hs_disk :: "(string \<times> (string \<times> int)) list"

text \<open>An error: whether it wraps the sentinel of an absent binary, and its text.\<close>

record RenderErr =
  re_Absent :: bool
  re_Msg :: string

definition plain_err :: "string \<Rightarrow> RenderErr" where
  "plain_err msg = \<lparr>re_Absent = False, re_Msg = msg\<rparr>"

section \<open>Charts\<close>

datatype ChartErr = ErrRemoteChart

definition ResolveChart :: "ArgoSource \<Rightarrow> string \<Rightarrow> ChartErr + string" where
  "ResolveChart src cwd =
     (if src_Path src = [] then Inl ErrRemoteChart
      else if IsAbs (src_Path src) then Inr (Clean (src_Path src))
      else Inr (Clean (JoinPath [cwd, src_Path src])))"

definition chart_err_msg :: "ChartErr \<Rightarrow> string" where
  "chart_err_msg e = ''renderer: remote chart (no path)''"

section \<open>The cache\<close>

record cacheEntry =
  ce_Bytes :: string
  ce_Rendered :: int

record Cache =
  ca_DiskDir :: string
  ca_mem :: "(string \<times> cacheEntry) list"

text \<open>Fifteen minutes, in nanoseconds.\<close>

definition DefaultTTL :: int where
  "DefaultTTL = 15 * 60 * 1000000000"

definition new_cache :: "string list \<Rightarrow> Host \<Rightarrow> string \<Rightarrow> Cache" where
  "new_cache sub host diskDir =
     (let dir = (if diskDir \<noteq> [] then diskDir
                 else case ho_Home host of Some home \<Rightarrow> JoinPath (home # sub) | None \<Rightarrow> []);
          dir' = (if dir \<noteq> [] \<and> ho_MkdirAll host dir \<noteq> None then [] else dir)
      in \<lparr>ca_DiskDir = dir', ca_mem = []\<rparr>)"

definition NewCache :: "Host \<Rightarrow> string \<Rightarrow> Cache" where
  "NewCache = new_cache [''.cache'', ''xpc'', ''renders'']"

definition NewCompositionCache :: "Host \<Rightarrow> string \<Rightarrow> Cache" where
  "NewCompositionCache = new_cache [''.cache'', ''xpc'', ''compositions'']"

definition disk_get :: "Host \<Rightarrow> string \<Rightarrow> Cache \<times> HostState \<Rightarrow> string option \<times> Cache \<times> HostState" where
  "disk_get host key cs =
     (case cs of (c, st) \<Rightarrow>
        if ca_DiskDir c = [] then (None, c, st)
        else let path = JoinPath [ca_DiskDir c, key] in
             case map_of (hs_disk st) path of
               None \<Rightarrow> (None, c, st)
             | Some (bytes, mtime) \<Rightarrow>
                 if ho_Now host (hs_tick st) - mtime \<ge> DefaultTTL then (None, c, st\<lparr>hs_disk := mdel path (hs_disk st)\<rparr>)
                 else (Some bytes, c\<lparr>ca_mem := mput key \<lparr>ce_Bytes = bytes, ce_Rendered = mtime\<rparr> (ca_mem c)\<rparr>, st))"

definition Cache_Get :: "Host \<Rightarrow> string \<Rightarrow> Cache \<times> HostState \<Rightarrow> string option \<times> Cache \<times> HostState" where
  "Cache_Get host key cs =
     (case cs of (c, st) \<Rightarrow>
        (case map_of (ca_mem c) key of
           Some entry \<Rightarrow>
             if ho_Now host (hs_tick st) - ce_Rendered entry < DefaultTTL then (Some (ce_Bytes entry), c, st)
             else disk_get host key (c\<lparr>ca_mem := mdel key (ca_mem c)\<rparr>, st)
         | None \<Rightarrow> disk_get host key (c, st)))"

definition Cache_Put :: "Host \<Rightarrow> string \<Rightarrow> string \<Rightarrow> Cache \<times> HostState \<Rightarrow> Cache \<times> HostState" where
  "Cache_Put host key data cs =
     (case cs of (c, st) \<Rightarrow>
        let now = ho_Now host (hs_tick st);
            c1 = c\<lparr>ca_mem := mput key \<lparr>ce_Bytes = data, ce_Rendered = now\<rparr> (ca_mem c)\<rparr>;
            path = JoinPath [ca_DiskDir c, key]
        in if ca_DiskDir c = [] then (c1, st)
           else if ho_Write host path \<noteq> None then (c1\<lparr>ca_DiskDir := []\<rparr>, st)
           else (c1, st\<lparr>hs_disk := mput path (data, now) (hs_disk st)\<rparr>))"

text \<open>\<^verbatim>\<open>CompositionCache\<close> repeats the code of \<^verbatim>\<open>Cache\<close> on a directory of its own.\<close>

definition CompositionCache_Get :: "Host \<Rightarrow> string \<Rightarrow> Cache \<times> HostState \<Rightarrow> string option \<times> Cache \<times> HostState" where
  "CompositionCache_Get = Cache_Get"

definition CompositionCache_Put :: "Host \<Rightarrow> string \<Rightarrow> string \<Rightarrow> Cache \<times> HostState \<Rightarrow> Cache \<times> HostState" where
  "CompositionCache_Put = Cache_Put"

section \<open>Cache keys\<close>

record CacheKeyInput =
  ki_ChartDirDigest :: string
  ki_ValuesBytes :: string
  ki_HelmVersion :: string
  ki_ReleaseName :: string
  ki_Namespace :: string

definition key_text :: "CacheKeyInput \<Rightarrow> string" where
  "key_text i =
     ''chart:'' @ ki_ChartDirDigest i @ newline @ ''helm:'' @ ki_HelmVersion i @ newline @ ''release:'' @ ki_ReleaseName i @ newline @
     ''ns:'' @ ki_Namespace i @ newline @ ''values:'' @ ki_ValuesBytes i"

definition Key :: "Host \<Rightarrow> CacheKeyInput \<Rightarrow> string" where
  "Key host i = ho_sha256 host (key_text i)"

fun hash_files :: "Host \<Rightarrow> string \<Rightarrow> string list \<Rightarrow> string + string" where
  "hash_files host dir [] = Inr []"
| "hash_files host dir (f # fs) =
     (case Rel dir f of
        None \<Rightarrow> Inl (''Rel: can't make '' @ f @ '' relative to '' @ dir)
      | Some rel \<Rightarrow>
          (case ho_ReadFile host f of
             FileOk data \<Rightarrow> map_sum id (\<lambda>rest. ''file:'' @ rel @ newline @ data @ NUL @ rest) (hash_files host dir fs)
           | FileMissing \<Rightarrow> Inl (''open '' @ f @ '': no such file or directory'')
           | FileErr e \<Rightarrow> Inl e))"

definition HashChartDir :: "Host \<Rightarrow> string \<Rightarrow> string + string" where
  "HashChartDir host dir =
     (case ho_WalkDir host dir of
        Inl e \<Rightarrow> Inl e
      | Inr files \<Rightarrow> map_sum id (ho_sha256 host) (hash_files host dir (sort files)))"

definition HashKustomizeDir :: "Host \<Rightarrow> string \<Rightarrow> string + string" where
  "HashKustomizeDir = HashChartDir"

definition kv_lines :: "string \<Rightarrow> strmap \<Rightarrow> string" where
  "kv_lines tag m = concat (map (\<lambda>k. tag @ '':'' @ k @ ''='' @ mget m k @ newline) (sort (map fst m)))"

definition kustomizeKey :: "Host \<Rightarrow> string \<Rightarrow> string \<Rightarrow> ArgoKustomizeSource option \<Rightarrow> string" where
  "kustomizeKey host treeDigest version kustSrc =
     ho_sha256 host
       (''tree:'' @ treeDigest @ newline @ ''kustomize:'' @ version @ newline @
        (case kustSrc of
           None \<Rightarrow> []
         | Some k \<Rightarrow>
             ''namePrefix:'' @ kz_NamePrefix k @ newline @ ''nameSuffix:'' @ kz_NameSuffix k @ newline @
             concat (map (\<lambda>im. ''image:'' @ im @ newline) (sort (kz_Images k))) @
             kv_lines ''label'' (kz_CommonLabels k) @ kv_lines ''annotation'' (kz_CommonAnnotations k)))"

definition compositionKey :: "Host \<Rightarrow> string \<Rightarrow> string list \<Rightarrow> string" where
  "compositionKey host version parts =
     (let byHash = foldl (\<lambda>m p. mput (ho_sha256 host p) p m) [] parts;
          hashes = sort (map (ho_sha256 host) parts)
      in ho_sha256 host
           (''crossplane:'' @ version @ newline @
            concat (map (\<lambda>k. let p = (case map_of byHash k of Some p \<Rightarrow> p | None \<Rightarrow> []) in
                      ''part:'' @ Itoa (int (length p)) @ '':'' @ p @ NUL) hashes)))"

section \<open>Helm values\<close>

definition readFileIfExists :: "Host \<Rightarrow> string \<Rightarrow> string + string" where
  "readFileIfExists host path =
     (case ho_ReadFile host path of FileOk b \<Rightarrow> Inr b | FileMissing \<Rightarrow> Inr [] | FileErr e \<Rightarrow> Inl e)"

function deepMerge :: "obj \<Rightarrow> obj \<Rightarrow> obj" where
  "deepMerge a [] = a"
| "deepMerge a ((k, v) # b) =
     deepMerge (mput k (case map_of a k of
                          Some existing \<Rightarrow>
                            (case existing of
                               JObj em \<Rightarrow> (case v of JObj nm \<Rightarrow> JObj (deepMerge em nm) | _ \<Rightarrow> v)
                             | _ \<Rightarrow> v)
                        | None \<Rightarrow> v) a) b"
  by pat_completeness auto
termination
  by (relation "measure (\<lambda>(a, b). size (JObj b))") auto

text \<open>
  \<^verbatim>\<open>canonicalize\<close> turns a map into the slice of its \<^verbatim>\<open>keyVal\<close>s in key order, and
  \<^verbatim>\<open>keyVal.MarshalJSON\<close> writes one of them as an object with a single key.
\<close>

datatype canon = CScalar json | CSlice "canon list" | CKeyVal string canon

function canonicalize :: "json \<Rightarrow> canon" where
  "canonicalize (JObj m) =
     CSlice (map (\<lambda>(k, c). CKeyVal k c) (sort_slice (\<lambda>x y. fst x < fst y) (map (\<lambda>(k, v). (k, canonicalize v)) m)))"
| "canonicalize (JArr xs) = CSlice (map canonicalize xs)"
| "canonicalize JNull = CScalar JNull"
| "canonicalize (JBool b) = CScalar (JBool b)"
| "canonicalize (JInt i) = CScalar (JInt i)"
| "canonicalize (JFloat r) = CScalar (JFloat r)"
| "canonicalize (JStr s) = CScalar (JStr s)"
  by pat_completeness auto
termination
  by (relation "measure size") (auto simp: size_list_estimation' less_Suc_eq_le dest: size_arr_elem size_obj_elem)

fun json_scalar :: "(rat \<Rightarrow> string) \<Rightarrow> json \<Rightarrow> string" where
  "json_scalar jf JNull = ''null''"
| "json_scalar jf (JBool b) = (if b then ''true'' else ''false'')"
| "json_scalar jf (JInt i) = Itoa i"
| "json_scalar jf (JFloat r) = jf r"
| "json_scalar jf (JStr s) = json_string s"
| "json_scalar jf _ = []"

fun MarshalCanon :: "(rat \<Rightarrow> string) \<Rightarrow> canon \<Rightarrow> string" where
  "MarshalCanon jf (CScalar v) = json_scalar jf v"
| "MarshalCanon jf (CSlice cs) = ''['' @ Join (map (MarshalCanon jf) cs) '','' @ '']''"
| "MarshalCanon jf (CKeyVal k c) = ''{'' @ json_string k @ '':'' @ MarshalCanon jf c @ ''}''"

definition sortedJSON :: "Host \<Rightarrow> obj \<Rightarrow> string" where
  "sortedJSON host m = MarshalCanon (ho_float host) (canonicalize (JObj m))"

definition resolve_values :: "string \<Rightarrow> string \<Rightarrow> string" where
  "resolve_values chartPath f = (if IsAbs f then f else JoinPath [chartPath, f])"

definition merge_value_file :: "Host \<Rightarrow> string \<Rightarrow> string + obj \<Rightarrow> string \<Rightarrow> string + obj" where
  "merge_value_file host chartPath acc f =
     (case acc of
        Inl e \<Rightarrow> Inl e
      | Inr merged \<Rightarrow>
          let resolved = resolve_values chartPath f in
          (case readFileIfExists host resolved of
             Inl e \<Rightarrow> Inl (''reading values file '' @ resolved @ '': '' @ e)
           | Inr b \<Rightarrow>
               if b = [] then Inr merged
               else (case ho_yaml host b of
                       (tmp, Some e) \<Rightarrow> Inl (''decoding values file '' @ resolved @ '': '' @ e)
                     | (tmp, None) \<Rightarrow> Inr (deepMerge merged tmp))))"

definition chart_defaults :: "Host \<Rightarrow> string \<Rightarrow> string + obj" where
  "chart_defaults host chartPath =
     (case readFileIfExists host (JoinPath [chartPath, ''values.yaml'']) of
        Inl e \<Rightarrow> Inr []
      | Inr b \<Rightarrow>
          if b = [] then Inr []
          else (case ho_yaml host b of
                  (m, Some e) \<Rightarrow> Inl (''decoding chart values.yaml: '' @ e)
                | (m, None) \<Rightarrow> Inr m))"

definition mergeValuesBytes :: "Host \<Rightarrow> string \<Rightarrow> string list \<Rightarrow> obj \<Rightarrow> string \<Rightarrow> string + string" where
  "mergeValuesBytes host chartPath valueFiles valuesObject inlineValues =
     (case foldl (merge_value_file host chartPath) (chart_defaults host chartPath) valueFiles of
        Inl e \<Rightarrow> Inl e
      | Inr merged \<Rightarrow>
          let merged1 = (if valuesObject \<noteq> [] then deepMerge merged valuesObject else merged) in
          if inlineValues = [] then Inr (sortedJSON host merged1)
          else (case ho_yaml host inlineValues of
                  (tmp, Some e) \<Rightarrow> Inl (''decoding inline values: '' @ e)
                | (tmp, None) \<Rightarrow> Inr (sortedJSON host (deepMerge merged1 tmp))))"

definition merge_file_quiet :: "Host \<Rightarrow> string \<Rightarrow> obj \<Rightarrow> string \<Rightarrow> obj" where
  "merge_file_quiet host chartPath merged f =
     (case readFileIfExists host (resolve_values chartPath f) of
        Inl e \<Rightarrow> merged
      | Inr b \<Rightarrow>
          if b = [] then merged
          else (case ho_yaml host b of (tmp, Some e) \<Rightarrow> merged | (tmp, None) \<Rightarrow> deepMerge merged tmp))"

definition defaults_quiet :: "Host \<Rightarrow> string \<Rightarrow> obj" where
  "defaults_quiet host chartPath =
     (case readFileIfExists host (JoinPath [chartPath, ''values.yaml'']) of
        Inl e \<Rightarrow> []
      | Inr b \<Rightarrow> if b = [] then [] else fst (ho_yaml host b))"

definition MergedValues :: "Host \<Rightarrow> string \<Rightarrow> ArgoHelmSource option \<Rightarrow> obj" where
  "MergedValues host chartPath helmSrc =
     (let valueFiles = (case helmSrc of Some h \<Rightarrow> helm_ValueFiles h | None \<Rightarrow> []);
          valuesObject = (case helmSrc of Some h \<Rightarrow> helm_ValuesObject h | None \<Rightarrow> []);
          inlineValues = (case helmSrc of Some h \<Rightarrow> helm_Values h | None \<Rightarrow> []);
          merged = foldl (merge_file_quiet host chartPath) (defaults_quiet host chartPath) valueFiles;
          merged1 = (if valuesObject \<noteq> [] then deepMerge merged valuesObject else merged)
      in if inlineValues = [] then merged1
         else (case ho_yaml host inlineValues of (tmp, Some e) \<Rightarrow> merged1 | (tmp, None) \<Rightarrow> deepMerge merged1 tmp))"

section \<open>Subprocesses\<close>

definition subprocessErrTail :: "string \<Rightarrow> string \<Rightarrow> string" where
  "subprocessErrTail stdout stderr =
     (let pick = (if TrimSpace stderr = [] then TrimSpace stdout else TrimSpace stderr) in
      if pick = [] then ''(no output)''
      else if length pick > 4096 then ''...'' @ drop (length pick - 4096) pick
      else pick)"

definition run_cmd :: "Host \<Rightarrow> string \<Rightarrow> string list \<Rightarrow> (string \<times> string) list \<Rightarrow> HostState \<Rightarrow> ExecRes \<times> HostState" where
  "run_cmd host bin args files st = (ho_Exec host (hs_tick st) bin args files, st\<lparr>hs_tick := Suc (hs_tick st)\<rparr>)"

text \<open>
  The three \<^verbatim>\<open>probe\<close> methods: look the binary up once, ask its version (with each
  argument list in turn until one succeeds), and remember the outcome.
\<close>

fun probe_version ::
  "Host \<Rightarrow> string \<Rightarrow> string \<Rightarrow> string \<Rightarrow> string list list \<Rightarrow> HostState \<Rightarrow> (RenderErr + string \<times> string) \<times> HostState" where
  "probe_version host bin sentinel err [] st =
     (Inl \<lparr>re_Absent = True, re_Msg = sentinel @ err\<rparr>, st)"
| "probe_version host bin sentinel err (args # rest) st =
     (case run_cmd host bin args [] st of (ex, st') \<Rightarrow>
        (case ex_err ex of
           None \<Rightarrow> (Inr (bin, TrimSpace (ex_stdout ex)), st')
         | Some e \<Rightarrow> probe_version host bin sentinel e rest st'))"

definition probe ::
  "Host \<Rightarrow> string \<Rightarrow> string \<Rightarrow> string list list \<Rightarrow> (RenderErr + string \<times> string) option \<Rightarrow> HostState \<Rightarrow>
   (RenderErr + string \<times> string) \<times> HostState" where
  "probe host name bin0 versions probed st =
     (case probed of
        Some r \<Rightarrow> (r, st)
      | None \<Rightarrow>
          let sentinel = ''renderer: '' @ name @ '' binary absent: '' in
          (case ho_LookPath host (if bin0 = [] then name else bin0) of
             Inl e \<Rightarrow> (Inl \<lparr>re_Absent = True, re_Msg = sentinel @ e\<rparr>, st)
           | Inr resolved \<Rightarrow>
               probe_version host resolved (sentinel @ ''`'' @ name @ '' version` failed: '') [] versions st))"

section \<open>Helm\<close>

record HelmRenderer =
  hr_HelmBin :: string
  hr_Cache :: "Cache option"
  hr_ChartCacheDir :: string
  hr_probed :: "(RenderErr + string \<times> string) option"

definition NewHelmRenderer :: "Host \<Rightarrow> string \<Rightarrow> string \<Rightarrow> HelmRenderer" where
  "NewHelmRenderer host helmBin cacheDir =
     \<lparr>hr_HelmBin = helmBin, hr_Cache = Some (NewCache host []), hr_ChartCacheDir = cacheDir, hr_probed = None\<rparr>"

definition helm_probe :: "Host \<Rightarrow> HelmRenderer \<Rightarrow> HostState \<Rightarrow> (RenderErr + string \<times> string) \<times> HelmRenderer \<times> HostState" where
  "helm_probe host h st =
     (case probe host ''helm'' (hr_HelmBin h) [[''version'', ''--short'']] (hr_probed h) st of
        (r, st') \<Rightarrow> (r, h\<lparr>hr_probed := Some r\<rparr>, st'))"

definition helm_args ::
  "string \<Rightarrow> string \<Rightarrow> string \<Rightarrow> string list \<Rightarrow> string list \<Rightarrow> ArgoHelmParam list \<Rightarrow> string list" where
  "helm_args releaseName chartPath namespace valueFiles temp params =
     [''template'', releaseName, chartPath] @
     (if namespace \<noteq> [] then [''--namespace'', namespace] else []) @
     concat (map (\<lambda>f. [''-f'', resolve_values chartPath f]) valueFiles) @
     concat (map (\<lambda>path. [''-f'', path]) temp) @
     concat (map (\<lambda>p. if hp_Name p = [] then [] else [''--set'', hp_Name p @ ''='' @ hp_Value p]) params)"

definition cache_lookup ::
  "Host \<Rightarrow> string option \<Rightarrow> Cache option \<Rightarrow> HostState \<Rightarrow> string option \<times> Cache option \<times> HostState" where
  "cache_lookup host key cache st =
     (case (cache, key) of
        (Some c, Some k) \<Rightarrow> (case Cache_Get host k (c, st) of (hit, c', st') \<Rightarrow> (hit, Some c', st'))
      | _ \<Rightarrow> (None, cache, st))"

definition cache_store :: "Host \<Rightarrow> string option \<Rightarrow> string \<Rightarrow> Cache option \<Rightarrow> HostState \<Rightarrow> Cache option \<times> HostState" where
  "cache_store host key out cache st =
     (case (cache, key) of
        (Some c, Some k) \<Rightarrow> (case Cache_Put host k out (c, st) of (c', st') \<Rightarrow> (Some c', st'))
      | _ \<Rightarrow> (cache, st))"

text \<open>The subprocess of a cache miss, with the temporary values file it may need.\<close>

definition helm_template ::
  "Host \<Rightarrow> string \<Rightarrow> string \<Rightarrow> string \<Rightarrow> string \<Rightarrow> ArgoHelmSource option \<Rightarrow> string \<Rightarrow> HostState \<Rightarrow> (RenderErr + string) \<times> HostState" where
  "helm_template host bin releaseName chartPath namespace helmSrc mergedBytes st =
     (let valueFiles = (case helmSrc of Some h \<Rightarrow> helm_ValueFiles h | None \<Rightarrow> []);
          params = (case helmSrc of Some h \<Rightarrow> helm_Parameters h | None \<Rightarrow> []);
          inlined = (case helmSrc of Some h \<Rightarrow> helm_ValuesObject h \<noteq> [] \<or> helm_Values h \<noteq> [] | None \<Rightarrow> False);
          go = (\<lambda>temp files.
            case run_cmd host bin (helm_args releaseName chartPath namespace valueFiles temp params) files st of
              (ex, st') \<Rightarrow>
                (case ex_err ex of
                   Some e \<Rightarrow> (Inl (plain_err (''helm template '' @ chartPath @ '' failed: '' @ e @ '': '' @
                                subprocessErrTail (ex_stdout ex) (ex_stderr ex))), st')
                 | None \<Rightarrow> (Inr (ex_stdout ex), st')))
      in if inlined
         then (case ho_Temp host (hs_tick st) mergedBytes of
                 Inl e \<Rightarrow> (Inl (plain_err e), st)
               | Inr path \<Rightarrow> go [path] [(path, mergedBytes)])
         else go [] [])"

definition chart_key :: "Host \<Rightarrow> string \<Rightarrow> string \<Rightarrow> string \<Rightarrow> string \<Rightarrow> string \<Rightarrow> string option" where
  "chart_key host chartPath mergedBytes version releaseName namespace =
     (case HashChartDir host chartPath of
        Inl _ \<Rightarrow> None
      | Inr d \<Rightarrow> Some (Key host \<lparr>ki_ChartDirDigest = d, ki_ValuesBytes = mergedBytes, ki_HelmVersion = version,
                   ki_ReleaseName = releaseName, ki_Namespace = namespace\<rparr>))"

definition release_name :: "ArgoHelmSource option \<Rightarrow> string" where
  "release_name helmSrc =
     (case helmSrc of Some h \<Rightarrow> if helm_ReleaseName h \<noteq> [] then helm_ReleaseName h else ''release'' | None \<Rightarrow> ''release'')"

definition merged_bytes :: "Host \<Rightarrow> string \<Rightarrow> ArgoHelmSource option \<Rightarrow> string + string" where
  "merged_bytes host chartPath helmSrc =
     (case helmSrc of
        Some h \<Rightarrow> mergeValuesBytes host chartPath (helm_ValueFiles h) (helm_ValuesObject h) (helm_Values h)
      | None \<Rightarrow> mergeValuesBytes host chartPath [] [] [])"

definition RenderChart ::
  "Host \<Rightarrow> string \<Rightarrow> ArgoHelmSource option \<Rightarrow> string \<Rightarrow> HelmRenderer \<Rightarrow> HostState \<Rightarrow>
   (RenderErr + string) \<times> HelmRenderer \<times> HostState" where
  "RenderChart host chartPath helmSrc namespace h0 st0 =
     (case helm_probe host h0 st0 of
        (Inl e, h, st) \<Rightarrow> (Inl e, h, st)
      | (Inr (bin, version), h, st) \<Rightarrow>
          (case merged_bytes host chartPath helmSrc of
             Inl e \<Rightarrow> (Inl (plain_err e), h, st)
           | Inr mb \<Rightarrow>
               let key = chart_key host chartPath mb version (release_name helmSrc) namespace in
               (case cache_lookup host key (hr_Cache h) st of
                  (Some data, c, st1) \<Rightarrow> (Inr data, h\<lparr>hr_Cache := c\<rparr>, st1)
                | (None, c, st1) \<Rightarrow>
                    (case helm_template host bin (release_name helmSrc) chartPath namespace helmSrc mb st1 of
                       (Inl e, st2) \<Rightarrow> (Inl e, h\<lparr>hr_Cache := c\<rparr>, st2)
                     | (Inr out, st2) \<Rightarrow>
                         (case cache_store host key out c st2 of
                            (c', st3) \<Rightarrow> (Inr out, h\<lparr>hr_Cache := c'\<rparr>, st3))))))"

definition pull_args :: "ArgoSource \<Rightarrow> string \<Rightarrow> string list" where
  "pull_args src tmp =
     [''pull'', src_Chart src, ''--repo'', src_RepoURL src, ''--destination'', tmp, ''--untar''] @
     (if src_TargetRevision src \<noteq> [] then [''--version'', src_TargetRevision src] else [])"

text \<open>
  The download itself: run \<^verbatim>\<open>helm pull\<close> into \<open>tmp\<close>, both streams into one buffer, and
  move the one chart it leaves into place.
\<close>

definition pull_into ::
  "Host \<Rightarrow> ArgoSource \<Rightarrow> string \<Rightarrow> string \<Rightarrow> HelmRenderer \<Rightarrow> HostState \<Rightarrow> (RenderErr + string) \<times> HelmRenderer \<times> HostState" where
  "pull_into host src cached tmp h0 st0 =
     (case helm_probe host h0 st0 of
        (Inl e, h, st) \<Rightarrow> (Inl e, h, st)
      | (Inr (bin, version), h, st) \<Rightarrow>
          (case run_cmd host bin (pull_args src tmp) [] st of (ex, st1) \<Rightarrow>
             (case ex_err ex of
                Some e \<Rightarrow>
                  (Inl (plain_err (''helm pull '' @ src_Chart src @ '' --repo '' @ src_RepoURL src @
                     (if src_TargetRevision src \<noteq> [] then '' --version '' @ src_TargetRevision src else []) @ '': '' @ e @
                     '':'' @ newline @ TrimSpace (ex_stdout ex))), h, st1)
              | None \<Rightarrow>
                  (case ho_ReadDir host (hs_tick st1) tmp of
                     Inl e \<Rightarrow> (Inl (plain_err (''reading helm pull tmp dir '' @ tmp @ '': '' @ e)), h, st1)
                   | Inr entries \<Rightarrow>
                       (case entries of
                          [(name, True)] \<Rightarrow>
                            let chartTmp = JoinPath [tmp, name] in
                            (case ho_Rename host (hs_tick st1) chartTmp cached of
                               None \<Rightarrow> (Inr cached, h, st1)
                             | Some e \<Rightarrow>
                                 if ho_IsDir host (hs_tick st1) cached then (Inr cached, h, st1)
                                 else (Inl (plain_err (''rename '' @ chartTmp @ '' '' @ [CHR 0xE2, CHR 0x86, CHR 0x92] @ '' '' @ cached @ '': '' @ e)), h, st1))
                        | _ \<Rightarrow> (Inl (plain_err (''helm pull produced '' @ Itoa (int (length entries)) @ '' entries in '' @ tmp @
                                  '', want exactly 1 untarred chart dir'')), h, st1))))))"

definition PullRemote :: "Host \<Rightarrow> ArgoSource \<Rightarrow> HelmRenderer \<Rightarrow> HostState \<Rightarrow> (RenderErr + string) \<times> HelmRenderer \<times> HostState" where
  "PullRemote host src h st =
     (if hr_ChartCacheDir h = []
      then (Inl (plain_err ''remote charts require a configured ChartCacheDir (use --helm-cache-dir)''), h, st)
      else if src_Chart src = [] then (Inl (plain_err ''remote chart pull requires src.Chart to be set''), h, st)
      else if src_RepoURL src = [] then (Inl (plain_err ''remote chart pull requires src.RepoURL to be set''), h, st)
      else
        let hash = ho_sha256 host (src_RepoURL src @ ''/'' @ src_Chart src @ ''/'' @ src_TargetRevision src);
            cached = JoinPath [hr_ChartCacheDir h, ''charts'', hash];
            tmpRoot = JoinPath [hr_ChartCacheDir h, ''tmp''] in
        if ho_IsDir host (hs_tick st) cached then (Inr cached, h, st)
        else (case ho_MkdirAll host (JoinPath [hr_ChartCacheDir h, ''charts'']) of
                Some e \<Rightarrow> (Inl (plain_err e), h, st)
              | None \<Rightarrow>
                  (case ho_MkdirAll host tmpRoot of
                     Some e \<Rightarrow> (Inl (plain_err e), h, st)
                   | None \<Rightarrow>
                       (case ho_Temp host (hs_tick st) (JoinPath [tmpRoot, hash]) of
                          Inl e \<Rightarrow> (Inl (plain_err e), h, st)
                        | Inr tmp \<Rightarrow> pull_into host src cached tmp h st))))"

section \<open>Kustomize\<close>

record KustomizeRenderer =
  kr_KustomizeBin :: string
  kr_Cache :: "Cache option"
  kr_probed :: "(RenderErr + string \<times> string) option"

definition NewKustomizeRenderer :: "Host \<Rightarrow> string \<Rightarrow> KustomizeRenderer" where
  "NewKustomizeRenderer host bin = \<lparr>kr_KustomizeBin = bin, kr_Cache = Some (NewCache host []), kr_probed = None\<rparr>"

definition kustomize_probe ::
  "Host \<Rightarrow> KustomizeRenderer \<Rightarrow> HostState \<Rightarrow> (RenderErr + string \<times> string) \<times> KustomizeRenderer \<times> HostState" where
  "kustomize_probe host k st =
     (case probe host ''kustomize'' (kr_KustomizeBin k) [[''version'']] (kr_probed k) st of
        (r, st') \<Rightarrow> (r, k\<lparr>kr_probed := Some r\<rparr>, st'))"

definition overlay_key :: "Host \<Rightarrow> string \<Rightarrow> string \<Rightarrow> ArgoKustomizeSource option \<Rightarrow> string option" where
  "overlay_key host overlayPath version kustSrc =
     (case HashKustomizeDir host overlayPath of Inl _ \<Rightarrow> None | Inr d \<Rightarrow> Some (kustomizeKey host d version kustSrc))"

definition RenderOverlay ::
  "Host \<Rightarrow> string \<Rightarrow> ArgoKustomizeSource option \<Rightarrow> KustomizeRenderer \<Rightarrow> HostState \<Rightarrow>
   (RenderErr + string) \<times> KustomizeRenderer \<times> HostState" where
  "RenderOverlay host overlayPath kustSrc k0 st0 =
     (case kustomize_probe host k0 st0 of
        (Inl e, k, st) \<Rightarrow> (Inl e, k, st)
      | (Inr (bin, version), k, st) \<Rightarrow>
          let key = overlay_key host overlayPath version kustSrc in
          (case cache_lookup host key (kr_Cache k) st of
             (Some data, c, st1) \<Rightarrow> (Inr data, k\<lparr>kr_Cache := c\<rparr>, st1)
           | (None, c, st1) \<Rightarrow>
               (case run_cmd host bin [''build'', overlayPath] [] st1 of (ex, st2) \<Rightarrow>
                  (case ex_err ex of
                     Some e \<Rightarrow> (Inl (plain_err (''kustomize build '' @ overlayPath @ '' failed: '' @ e @ '': '' @
                                  subprocessErrTail (ex_stdout ex) (ex_stderr ex))), k\<lparr>kr_Cache := c\<rparr>, st2)
                   | None \<Rightarrow>
                       (case cache_store host key (ex_stdout ex) c st2 of
                          (c', st3) \<Rightarrow> (Inr (ex_stdout ex), k\<lparr>kr_Cache := c'\<rparr>, st3))))))"

section \<open>Compositions\<close>

record CompositionRenderer =
  cr_CrossplaneBin :: string
  cr_Cache :: "Cache option"
  cr_probed :: "(RenderErr + string \<times> string) option"

definition NewCompositionRenderer :: "Host \<Rightarrow> string \<Rightarrow> CompositionRenderer" where
  "NewCompositionRenderer host bin =
     \<lparr>cr_CrossplaneBin = bin, cr_Cache = Some (NewCompositionCache host []), cr_probed = None\<rparr>"

definition crossplane_probe ::
  "Host \<Rightarrow> CompositionRenderer \<Rightarrow> HostState \<Rightarrow> (RenderErr + string \<times> string) \<times> CompositionRenderer \<times> HostState" where
  "crossplane_probe host r st =
     (case probe host ''crossplane'' (cr_CrossplaneBin r) [[''version''], [''--version'']] (cr_probed r) st of
        (p, st') \<Rightarrow> (p, r\<lparr>cr_probed := Some p\<rparr>, st'))"

fun write_inputs :: "Host \<Rightarrow> (string \<times> string) list \<Rightarrow> string option" where
  "write_inputs host [] = None"
| "write_inputs host ((path, data) # ws) =
     (case ho_Write host path of Some e \<Rightarrow> Some (''write '' @ path @ '': '' @ e) | None \<Rightarrow> write_inputs host ws)"

definition crossplane_render ::
  "Host \<Rightarrow> string \<Rightarrow> string \<Rightarrow> string \<Rightarrow> string \<Rightarrow> HostState \<Rightarrow> (RenderErr + string) \<times> HostState" where
  "crossplane_render host bin xrYAML compYAML fnsYAML st =
     (case ho_Temp host (hs_tick st) ''xpc-composition-'' of
        Inl e \<Rightarrow> (Inl (plain_err (''mkdir temp: '' @ e)), st)
      | Inr tmpDir \<Rightarrow>
          let xrPath = JoinPath [tmpDir, ''xr.yaml'']; compPath = JoinPath [tmpDir, ''composition.yaml''];
              fnsPath = JoinPath [tmpDir, ''functions.yaml''];
              files = [(xrPath, xrYAML), (compPath, compYAML), (fnsPath, fnsYAML)] in
          (case write_inputs host files of
             Some e \<Rightarrow> (Inl (plain_err e), st)
           | None \<Rightarrow>
               (case run_cmd host bin [''render'', xrPath, compPath, fnsPath] files st of (ex, st') \<Rightarrow>
                  (case ex_err ex of
                     Some e \<Rightarrow>
                       if ex_deadline ex then (Inl (plain_err ''crossplane render: timed out after 30s''), st')
                       else (Inl (plain_err (''crossplane render: '' @ e @ '': '' @ TrimSpace (ex_stderr ex))), st')
                   | None \<Rightarrow> (Inr (ex_stdout ex), st')))))"

definition CompositionRender ::
  "Host \<Rightarrow> string \<Rightarrow> string \<Rightarrow> string \<Rightarrow> CompositionRenderer \<Rightarrow> HostState \<Rightarrow>
   (RenderErr + string) \<times> CompositionRenderer \<times> HostState" where
  "CompositionRender host xrYAML compYAML fnsYAML r0 st0 =
     (case crossplane_probe host r0 st0 of
        (Inl e, r, st) \<Rightarrow> (Inl e, r, st)
      | (Inr (bin, version), r, st) \<Rightarrow>
          let key = Some (compositionKey host version [xrYAML, compYAML, fnsYAML]) in
          (case cache_lookup host key (cr_Cache r) st of
             (Some data, c, st1) \<Rightarrow> (Inr data, r\<lparr>cr_Cache := c\<rparr>, st1)
           | (None, c, st1) \<Rightarrow>
               (case crossplane_render host bin xrYAML compYAML fnsYAML st1 of
                  (Inl e, st2) \<Rightarrow> (Inl e, r\<lparr>cr_Cache := c\<rparr>, st2)
                | (Inr out, st2) \<Rightarrow>
                    (case cache_store host key out c st2 of (c', st3) \<Rightarrow> (Inr out, r\<lparr>cr_Cache := c'\<rparr>, st3)))))"

definition ClassifyCompositionError :: "RenderErr \<Rightarrow> string" where
  "ClassifyCompositionError e =
     (if re_Absent e then ''crossplane-absent''
      else if Contains (re_Msg e) ''timed out'' then ''crossplane-timeout''
      else ''crossplane-render-failed'')"

section \<open>Double renders\<close>

fun first_difference :: "nat \<Rightarrow> string \<Rightarrow> string \<Rightarrow> nat option" where
  "first_difference i (a # as) (b # bs) = (if a \<noteq> b then Some i else first_difference (Suc i) as bs)"
| "first_difference i _ _ = None"

definition summarizeDiff :: "string \<Rightarrow> string \<Rightarrow> string" where
  "summarizeDiff a b =
     (if length a \<noteq> length b
      then ''outputs differ in length: '' @ Itoa (int (length a)) @ '' vs '' @ Itoa (int (length b)) @ '' bytes''
      else (case first_difference 0 a b of
              Some i \<Rightarrow>
                let start = i - 16; fin = min (i + 16) (length a);
                    window = (\<lambda>s. take (fin - start) (drop start s))
                in ''outputs differ at byte '' @ Itoa (int i) @ '': '' @ Quote (window a) @ '' vs '' @ Quote (window b)
            | None \<Rightarrow> ''outputs differ (summary unavailable)''))"

definition double_render :: "('r \<Rightarrow> HostState \<Rightarrow> (RenderErr + string) \<times> 'r \<times> HostState) \<Rightarrow> 'r \<Rightarrow> HostState \<Rightarrow>
    (RenderErr + bool \<times> string) \<times> HostState" where
  "double_render once noCache st =
     (case once noCache st of
        (Inl e, _, st1) \<Rightarrow> (Inl e, st1)
      | (Inr a, r, st1) \<Rightarrow>
          (case once r st1 of
             (Inl e, _, st2) \<Rightarrow> (Inl e, st2)
           | (Inr b, _, st2) \<Rightarrow> (Inr (if a = b then (False, []) else (True, summarizeDiff a b)), st2)))"

definition DoubleRenderHelm ::
  "Host \<Rightarrow> HelmRenderer \<Rightarrow> string \<Rightarrow> string \<Rightarrow> ArgoHelmSource option \<Rightarrow> HostState \<Rightarrow> (RenderErr + bool \<times> string) \<times> HostState" where
  "DoubleRenderHelm host h chartPath namespace helmSrc st =
     double_render (RenderChart host chartPath helmSrc namespace)
       \<lparr>hr_HelmBin = hr_HelmBin h, hr_Cache = None, hr_ChartCacheDir = [], hr_probed = None\<rparr> st"

definition DoubleRenderKustomize ::
  "Host \<Rightarrow> KustomizeRenderer \<Rightarrow> string \<Rightarrow> ArgoKustomizeSource option \<Rightarrow> HostState \<Rightarrow> (RenderErr + bool \<times> string) \<times> HostState" where
  "DoubleRenderKustomize host k overlayPath kustSrc st =
     double_render (RenderOverlay host overlayPath kustSrc)
       \<lparr>kr_KustomizeBin = kr_KustomizeBin k, kr_Cache = None, kr_probed = None\<rparr> st"

section \<open>Values schemas\<close>

text \<open>\<^verbatim>\<open>None\<close> is the panic of the manifest walker; the left branch an unparseable schema.\<close>

definition ValidateValues :: "Host \<Rightarrow> (rat \<Rightarrow> string) \<Rightarrow> string \<Rightarrow> obj \<Rightarrow> (string + ValuesIssue list) option" where
  "ValidateValues host ff schemaJSON vals =
     (if schemaJSON = [] then Some (Inr [])
      else (case ho_json host schemaJSON of
              Inl e \<Rightarrow> Some (Inl (''parsing values.schema.json: '' @ e))
            | Inr schema \<Rightarrow>
                map_option (\<lambda>facts. Inr (map (\<lambda>f. \<lparr>vi_Path = rff_Path f, vi_Message = rff_Message f\<rparr>) facts))
                  (ValidateManifest ff schema vals)))"

section \<open>Merging values\<close>

text \<open>The value at a path of keys.\<close>

fun at_path :: "json \<Rightarrow> string list \<Rightarrow> json option" where
  "at_path v [] = Some v"
| "at_path (JObj m) (k # p) = (case map_of m k of None \<Rightarrow> None | Some v \<Rightarrow> at_path v p)"
| "at_path _ (k # p) = None"

definition is_leaf :: "json \<Rightarrow> bool" where
  "is_leaf v \<longleftrightarrow> as_obj v = None"

lemma is_leaf_simps [simp]: "\<not> is_leaf (JObj m)"
  by (simp add: is_leaf_def)

lemma at_leaf: "is_leaf v \<Longrightarrow> at_path v p = (if p = [] then Some v else None)"
  by (cases v; cases p) (auto simp: is_leaf_def)

lemma at_nonobj: "\<forall>m. v \<noteq> JObj m \<Longrightarrow> at_path v p = (if p = [] then Some v else None)"
  by (rule at_leaf) (cases v, auto simp: is_leaf_def)

definition merged_value :: "json option \<Rightarrow> json \<Rightarrow> json" where
  "merged_value old v =
     (case (old, v) of (Some (JObj em), JObj nm) \<Rightarrow> JObj (deepMerge em nm) | _ \<Rightarrow> v)"

lemma map_of_deepMerge:
  "distinct (map fst b) \<Longrightarrow>
   map_of (deepMerge a b) k = (case map_of b k of None \<Rightarrow> map_of a k | Some v \<Rightarrow> Some (merged_value (map_of a k) v))"
proof (induction b arbitrary: a)
  case (Cons kv b)
  obtain k' v where kv: "kv = (k', v)" by (cases kv)
  have "(case map_of a k' of
           Some existing \<Rightarrow> (case existing of JObj em \<Rightarrow> (case v of JObj nm \<Rightarrow> JObj (deepMerge em nm) | _ \<Rightarrow> v) | _ \<Rightarrow> v)
         | None \<Rightarrow> v) = merged_value (map_of a k') v"
    by (simp add: merged_value_def split: option.splits json.splits)
  then show ?case
    using Cons by (cases "k = k'") (auto simp: kv map_of_eq_None_iff[THEN iffD2] split: option.splits)
qed simp

text \<open>Whether a path runs into or through a leaf.\<close>

definition under_leaf :: "json \<Rightarrow> string list \<Rightarrow> bool" where
  "under_leaf v p \<longleftrightarrow> (\<exists>q r u. p = q @ r \<and> at_path v q = Some u \<and> is_leaf u)"

lemma under_leaf_leaf [simp]: "is_leaf v \<Longrightarrow> under_leaf v p"
  unfolding under_leaf_def by (rule exI[of _ "[]"]) simp

lemma under_leaf_Nil [simp]: "\<not> under_leaf (JObj m) []"
  by (simp add: under_leaf_def)

lemma under_leaf_Cons [simp]:
  "under_leaf (JObj m) (k # p) \<longleftrightarrow> (\<exists>w. map_of m k = Some w \<and> under_leaf w p)"
proof
  assume "under_leaf (JObj m) (k # p)"
  then obtain q r u where q: "k # p = q @ r" "at_path (JObj m) q = Some u" "is_leaf u"
    by (auto simp: under_leaf_def)
  then obtain q' where "q = k # q'" "p = q' @ r" by (cases q) auto
  then show "\<exists>w. map_of m k = Some w \<and> under_leaf w p"
    using q by (auto simp: under_leaf_def split: option.splits)
next
  assume "\<exists>w. map_of m k = Some w \<and> under_leaf w p"
  then obtain w q r u where "map_of m k = Some w" "p = q @ r" "at_path w q = Some u" "is_leaf u"
    by (auto simp: under_leaf_def)
  then show "under_leaf (JObj m) (k # p)"
    unfolding under_leaf_def by (intro exI[of _ "k # q"] exI[of _ r] exI[of _ u]) simp
qed

lemma deepMerge_at:
  assumes "wf_json (JObj b)" "is_leaf v"
  shows "at_path (JObj (deepMerge a b)) p = Some v \<longleftrightarrow>
         at_path (JObj b) p = Some v \<or>
         at_path (JObj a) p = Some v \<and> at_path (JObj b) p = None \<and> \<not> under_leaf (JObj b) p"
  using assms
proof (induction p arbitrary: a b)
  case Nil
  then show ?case by auto
next
  case (Cons k p)
  have dist: "distinct (map fst b)" using Cons.prems(1) by simp
  note lk = map_of_deepMerge[OF dist, of a k]
  show ?case
  proof (cases "map_of b k")
    case None
    then show ?thesis using lk by simp
  next
    case (Some w)
    then have wf: "wf_json w" using Cons.prems(1) by (auto dest: map_of_SomeD)
    show ?thesis
    proof (cases "is_leaf w")
      case True
      then have "merged_value (map_of a k) w = w"
        by (auto simp: merged_value_def split: option.splits json.splits)
      then show ?thesis using lk Some True by simp
    next
      case False
      then obtain nm where nm: "w = JObj nm" by (auto simp: is_leaf_def)
      show ?thesis
      proof (cases "\<exists>em. map_of a k = Some (JObj em)")
        case True
        then show ?thesis using Cons.IH[of nm] wf Cons.prems(2) lk Some nm by (auto simp: merged_value_def)
      next
        case False
        then have "merged_value (map_of a k) w = w"
          by (auto simp: merged_value_def split: option.splits json.splits)
        moreover have "at_path (JObj a) (k # p) = Some v \<Longrightarrow> p = []"
          using False by (auto simp: at_nonobj split: option.splits if_splits)
        ultimately show ?thesis using lk Some nm by auto
      qed
    qed
  qed
qed

text \<open>
  \<open>deepMerge\<close> by leaves.  A leaf of the merge is a leaf of the overriding
  map at that path, or a leaf of the base at that path where the overriding map
  has nothing at the path and no leaf above it.
\<close>

theorem deepMerge_leaves:
  assumes "wf_json (JObj b)" "is_leaf v"
  shows "at_path (JObj (deepMerge a b)) p = Some v \<longleftrightarrow>
         at_path (JObj b) p = Some v \<or>
         at_path (JObj a) p = Some v \<and> at_path (JObj b) p = None \<and> \<not> under_leaf (JObj b) p"
  by (rule deepMerge_at[OF assms])

theorem deepMerge_leaves_witness:
  "at_path (JObj (deepMerge [(''x'', JObj [(''a'', JInt 1), (''b'', JInt 2)])] [(''x'', JObj [(''a'', JInt 3)])])) [''x'', ''b''] = Some (JInt 2)"
  by (subst deepMerge_leaves) (simp_all add: is_leaf_def)

section \<open>Values the schema check sees and values Helm sees\<close>

lemma merge_file_quiet_agrees:
  "merge_value_file host cp (Inr m) f = Inr m' \<Longrightarrow> merge_file_quiet host cp m f = m'"
  by (auto simp: merge_value_file_def merge_file_quiet_def Let_def split: sum.splits if_splits prod.splits option.splits)

lemma merge_files_error: "foldl (merge_value_file host cp) (Inl e) fs = Inl e"
  by (induction fs) (simp_all add: merge_value_file_def)

lemma merge_files_quiet:
  "foldl (merge_value_file host cp) (Inr m) fs = Inr m' \<Longrightarrow> foldl (merge_file_quiet host cp) m fs = m'"
proof (induction fs arbitrary: m)
  case (Cons f fs)
  then show ?case using merge_file_quiet_agrees[of host cp m f]
    by (cases "merge_value_file host cp (Inr m) f") (auto simp: merge_files_error)
qed simp

lemma defaults_quiet_agrees: "chart_defaults host cp = Inr m \<Longrightarrow> defaults_quiet host cp = m"
  by (auto simp: chart_defaults_def defaults_quiet_def split: sum.splits if_splits prod.splits option.splits)

lemma mergeValuesBytes_quiet:
  assumes "mergeValuesBytes host cp (helm_ValueFiles h) (helm_ValuesObject h) (helm_Values h) = Inr b"
  shows "b = sortedJSON host (MergedValues host cp (Some h))"
proof -
  obtain d where d: "chart_defaults host cp = Inr d"
    using assms by (cases "chart_defaults host cp") (auto simp: mergeValuesBytes_def merge_files_error)
  obtain m where m: "foldl (merge_value_file host cp) (Inr d) (helm_ValueFiles h) = Inr m"
    using assms d by (auto simp: mergeValuesBytes_def split: sum.splits)
  show ?thesis
    using assms d m merge_files_quiet[OF m] defaults_quiet_agrees[OF d]
    by (auto simp: mergeValuesBytes_def MergedValues_def Let_def split: if_splits prod.splits option.splits)
qed

text \<open>
  C30: whenever the values of a chart merge without error, the bytes \<open>RenderChart\<close>
  hashes and hands to Helm are the canonical form of the very map the values
  schema is checked against.  That canonical form of a map is a JSON array, one
  single-key object for each key, not an object: the values file of a source with
  inline values is not a map of values.
\<close>

theorem merged_bytes_agree:
  assumes "merged_bytes host cp helmSrc = Inr b"
  shows "b = sortedJSON host (MergedValues host cp helmSrc) \<and> (\<exists>r. b = ''['' @ r @ '']'')"
proof -
  have "b = sortedJSON host (MergedValues host cp helmSrc)"
  proof (cases helmSrc)
    case (Some h)
    then show ?thesis using assms mergeValuesBytes_quiet[of host cp h b] by (simp add: merged_bytes_def)
  next
    case None
    let ?h = "\<lparr>helm_ValueFiles = [], helm_ValuesObject = [], helm_Values = [], helm_ReleaseName = [], helm_Parameters = []\<rparr>"
    have "MergedValues host cp None = MergedValues host cp (Some ?h)" by (simp add: MergedValues_def)
    then show ?thesis using assms None mergeValuesBytes_quiet[of host cp ?h b] by (simp add: merged_bytes_def)
  qed
  then show ?thesis by (auto simp: sortedJSON_def)
qed

definition demo_host :: Host where
  "demo_host =
     \<lparr>ho_ReadFile = (\<lambda>path. if path = ''/c/Chart.yaml'' then FileOk ''name: c'' else FileMissing),
      ho_WalkDir = (\<lambda>_. Inr [''/c/Chart.yaml'']), ho_LookPath = (\<lambda>b. Inr b),
      ho_Exec = (\<lambda>n bin args files. \<lparr>ex_stdout = concat args, ex_stderr = [], ex_err = None, ex_deadline = False\<rparr>),
      ho_Temp = (\<lambda>n pat. Inr ''/tmp/values''), ho_Write = (\<lambda>_. None), ho_IsDir = (\<lambda>n p. False),
      ho_MkdirAll = (\<lambda>_. None), ho_ReadDir = (\<lambda>n p. Inr []), ho_Rename = (\<lambda>n a b. None), ho_Home = None,
      ho_Now = (\<lambda>n. int n), ho_sha256 = (\<lambda>s. s), ho_yaml = (\<lambda>s. ([(''y'', JStr s)], None)),
      ho_json = (\<lambda>s. Inr []), ho_float = (\<lambda>r. [])\<rparr>"

definition demo_helm :: "ArgoHelmParam list \<Rightarrow> ArgoHelmSource" where
  "demo_helm ps = \<lparr>helm_ValueFiles = [], helm_ValuesObject = [(''x'', JBool True)], helm_Values = [],
     helm_ReleaseName = [], helm_Parameters = ps\<rparr>"

lemma demo_bytes:
  "merged_bytes demo_host ''/c'' (Some (demo_helm ps)) = Inr ([CHR ''['', CHR ''{'', CHR 0x22] @ ''x'' @ [CHR 0x22] @ '':true}]'')"
proof -
  have "JoinPath [''/c'', ''values.yaml''] = ''/c/values.yaml''" by code_simp
  then show ?thesis
    by (simp add: merged_bytes_def mergeValuesBytes_def chart_defaults_def readFileIfExists_def demo_host_def demo_helm_def
        Let_def sortedJSON_def sort_slice_def json_string_def json_char_def)
qed

theorem merged_bytes_agree_witness:
  "sortedJSON demo_host (MergedValues demo_host ''/c'' (Some (demo_helm []))) =
     [CHR ''['', CHR ''{'', CHR 0x22] @ ''x'' @ [CHR 0x22] @ '':true}]''"
  using merged_bytes_agree[OF demo_bytes[of "[]"]] by simp

section \<open>The cache returns what was put\<close>

lemma clean_elems_snoc: "plain_elem k \<Longrightarrow> clean_elems r stk (es @ [k]) = clean_elems r stk es @ [k]"
  by (induction r stk es rule: clean_elems.induct) (auto simp: plain_elem_def split: list.splits)

lemma Join_snoc_inj: "Join (xs @ [k]) [slash] = Join (xs @ [k']) [slash] \<Longrightarrow> k = k'"
  by (cases "xs = []") (simp_all add: Join_append)

lemma cache_path_inj:
  assumes "JoinPath [d, k] = JoinPath [d, k']" "plain_elem k" "plain_elem k'" "d \<noteq> []"
  shows "k = k'"
proof -
  have split: "Split (d @ slash # x) [slash] = Split d [slash] @ [x]" if "plain_elem x" for x
    using that Split_append_slash[of d x] Split_no_sep[of slash x] by (simp add: plain_elem_def)
  have ne: "k \<noteq> []" "k' \<noteq> []" using assms(2,3) by (auto simp: plain_elem_def)
  have abs: "IsAbs (d @ slash # x) = IsAbs d" for x using assms(4) by (cases d) (auto simp: IsAbs_def)
  show ?thesis
    using assms ne
    by (auto simp: JoinPath_def Clean_def Let_def abs split clean_elems_snoc dest: Join_snoc_inj split: if_splits)
qed

text \<open>
  What \<open>Put\<close> stores, \<open>Get\<close> returns for as long as the entry is fresh, from
  whichever tier, and not after that; and unless the disk tier has just failed, a \<open>Put\<close> leaves
  the answers for every other key as they were.
\<close>

theorem Cache_Get_after_Put:
  assumes "Cache_Put host key data (c, st) = (c', st')" "plain_elem key"
  shows "fst (Cache_Get host key (c', st'\<lparr>hs_tick := t\<rparr>)) =
           (if ho_Now host t - ho_Now host (hs_tick st) < DefaultTTL then Some data else None) \<and>
         (\<forall>key'. plain_elem key' \<and> key' \<noteq> key \<and> ca_DiskDir c' = ca_DiskDir c \<longrightarrow>
            fst (Cache_Get host key' (c', st'\<lparr>hs_tick := t\<rparr>)) = fst (Cache_Get host key' (c, st\<lparr>hs_tick := t\<rparr>)))"
proof (intro conjI allI impI)
  show "fst (Cache_Get host key (c', st'\<lparr>hs_tick := t\<rparr>)) =
      (if ho_Now host t - ho_Now host (hs_tick st) < DefaultTTL then Some data else None)"
    using assms(1) by (auto simp: Cache_Put_def Cache_Get_def disk_get_def Let_def split: if_splits)
next
  fix key' assume k: "plain_elem key' \<and> key' \<noteq> key \<and> ca_DiskDir c' = ca_DiskDir c"
  have "ca_DiskDir c \<noteq> [] \<Longrightarrow> JoinPath [ca_DiskDir c, key'] \<noteq> JoinPath [ca_DiskDir c, key]"
    using cache_path_inj[of "ca_DiskDir c" key' key] k assms(2) by blast
  then show "fst (Cache_Get host key' (c', st'\<lparr>hs_tick := t\<rparr>)) = fst (Cache_Get host key' (c, st\<lparr>hs_tick := t\<rparr>))"
    using assms(1) k
    by (auto simp: Cache_Put_def Cache_Get_def disk_get_def Let_def split: if_splits option.splits)
qed

theorem Cache_Get_after_Put_witness:
  "fst (Cache_Get demo_host ''k''
     (\<lparr>ca_DiskDir = [], ca_mem = [(''k'', \<lparr>ce_Bytes = ''out'', ce_Rendered = 3\<rparr>)]\<rparr>, \<lparr>hs_tick = 9, hs_disk = []\<rparr>)) = Some ''out''"
proof -
  have "Cache_Put demo_host ''k'' ''out'' (\<lparr>ca_DiskDir = [], ca_mem = []\<rparr>, \<lparr>hs_tick = 3, hs_disk = []\<rparr>) =
      (\<lparr>ca_DiskDir = [], ca_mem = [(''k'', \<lparr>ce_Bytes = ''out'', ce_Rendered = 3\<rparr>)]\<rparr>, \<lparr>hs_tick = 3, hs_disk = []\<rparr>)"
    by (simp add: Cache_Put_def demo_host_def)
  from Cache_Get_after_Put[OF this, of 9] show ?thesis
    by (simp add: plain_elem_def demo_host_def DefaultTTL_def)
qed

section \<open>Renders that share a cache entry\<close>

lemma Cache_Get_tick: "Cache_Get host k (c, st) = (r, c', st') \<Longrightarrow> hs_tick st' = hs_tick st"
  by (auto simp: Cache_Get_def disk_get_def Let_def split: option.splits if_splits)

lemma Cache_Put_mem:
  "Cache_Put host k out (c, st) = (c', st') \<Longrightarrow>
   map_of (ca_mem c') k = Some \<lparr>ce_Bytes = out, ce_Rendered = ho_Now host (hs_tick st)\<rparr> \<and> hs_tick st' = hs_tick st"
  by (auto simp: Cache_Put_def Let_def split: if_splits)

lemma Cache_Get_fresh:
  assumes "map_of (ca_mem c) k = Some \<lparr>ce_Bytes = out, ce_Rendered = r\<rparr>" "ho_Now host (hs_tick st) - r < DefaultTTL"
  shows "Cache_Get host k (c, st) = (Some out, c, st)"
  using assms by (simp add: Cache_Get_def)

lemma helm_probe_known: "hr_probed h = Some r \<Longrightarrow> helm_probe host h st = (r, h, st)"
  by (simp add: helm_probe_def probe_def)

lemma merged_bytes_params: "merged_bytes host cp (Some (hs\<lparr>helm_Parameters := ps\<rparr>)) = merged_bytes host cp (Some hs)"
  by (simp add: merged_bytes_def)

lemma release_name_params: "release_name (Some (hs\<lparr>helm_Parameters := ps\<rparr>)) = release_name (Some hs)"
  by (simp add: release_name_def)

text \<open>
  C31: once a chart has been rendered, rendering it again while the entry is fresh
  returns the same bytes and runs nothing; and this is so whatever parameters
  the second source sets, since the cache key holds the chart, the values, the
  version, the release and the namespace but not the \<^verbatim>\<open>--set\<close> parameters.
\<close>

theorem RenderChart_reuses:
  assumes probed: "hr_probed h = Some (Inr (bin, ver))"
    and cache: "hr_Cache h = Some c"
    and tree: "HashChartDir host cp = Inr d"
    and miss: "\<forall>k. fst (Cache_Get host k (c, st)) = None"
    and first: "RenderChart host cp (Some hs) ns h st = (Inr out, h', st')"
    and fresh: "ho_Now host t - ho_Now host (hs_tick st') < DefaultTTL"
  shows "RenderChart host cp (Some (hs\<lparr>helm_Parameters := ps\<rparr>)) ns h' (st'\<lparr>hs_tick := t\<rparr>) =
         (Inr out, h', st'\<lparr>hs_tick := t\<rparr>)"
proof -
  obtain mb where mb: "merged_bytes host cp (Some hs) = Inr mb"
    using first by (cases "merged_bytes host cp (Some hs)") (simp_all add: RenderChart_def helm_probe_known[OF probed])
  obtain k where k: "chart_key host cp mb ver (release_name (Some hs)) ns = Some k"
    using tree by (simp add: chart_key_def)
  obtain c1 st1 where get: "Cache_Get host k (c, st) = (None, c1, st1)"
    using miss by (cases "Cache_Get host k (c, st)") (auto dest: spec[of _ k])
  obtain st2 where run: "helm_template host bin (release_name (Some hs)) cp ns (Some hs) mb st1 = (Inr out, st2)"
    and put: "(case Cache_Put host k out (c1, st2) of (c2, st3) \<Rightarrow> (h\<lparr>hr_Cache := Some c2\<rparr>, st3)) = (h', st')"
    using first
    by (auto simp: RenderChart_def helm_probe_known[OF probed] mb k cache_lookup_def cache get cache_store_def Let_def
        split: prod.splits sum.splits)
  obtain c2 where c2: "Cache_Put host k out (c1, st2) = (c2, st')" "h' = h\<lparr>hr_Cache := Some c2\<rparr>"
    using put by (auto split: prod.splits)
  have hit: "Cache_Get host k (c2, st'\<lparr>hs_tick := t\<rparr>) = (Some out, c2, st'\<lparr>hs_tick := t\<rparr>)"
    using Cache_Put_mem[OF c2(1)] fresh by (intro Cache_Get_fresh[where r = "ho_Now host (hs_tick st')"]) simp_all
  show ?thesis
    using probed
    by (simp add: RenderChart_def c2(2) helm_probe_known merged_bytes_params mb release_name_params k Let_def
        cache_lookup_def hit)
qed

definition demo_renderer :: HelmRenderer where
  "demo_renderer = \<lparr>hr_HelmBin = [], hr_Cache = Some \<lparr>ca_DiskDir = [], ca_mem = []\<rparr>, hr_ChartCacheDir = [],
     hr_probed = Some (Inr (''helm'', ''v3''))\<rparr>"

definition demo_state :: HostState where
  "demo_state = \<lparr>hs_tick = 0, hs_disk = []\<rparr>"

lemma demo_selectors:
  "ho_Exec demo_host n bin args files = \<lparr>ex_stdout = concat args, ex_stderr = [], ex_err = None, ex_deadline = False\<rparr>"
  "ho_Temp demo_host n pat = Inr ''/tmp/values''" "ho_Now demo_host n = int n"
  "helm_ValueFiles (demo_helm ps) = []" "helm_ValuesObject (demo_helm ps) = [(''x'', JBool True)]"
  "helm_Values (demo_helm ps) = []" "helm_ReleaseName (demo_helm ps) = []" "helm_Parameters (demo_helm ps) = ps"
  by (simp_all add: demo_host_def demo_helm_def)

lemma demo_tree: "\<exists>d. HashChartDir demo_host ''/c'' = Inr d"
proof -
  have "Rel ''/c'' ''/c/Chart.yaml'' = Some ''Chart.yaml''" by code_simp
  then show ?thesis by (simp add: HashChartDir_def demo_host_def)
qed

theorem RenderChart_reuses_witness:
  "fst (case RenderChart demo_host ''/c'' (Some (demo_helm [])) [] demo_renderer demo_state of
          (_, h', st') \<Rightarrow> RenderChart demo_host ''/c'' (Some (demo_helm [\<lparr>hp_Name = ''a'', hp_Value = ''1''\<rparr>])) [] h' (st'\<lparr>hs_tick := 1\<rparr>))
   = Inr ''templaterelease/c-f/tmp/values'' \<and>
   fst (RenderChart demo_host ''/c'' (Some (demo_helm [\<lparr>hp_Name = ''a'', hp_Value = ''1''\<rparr>])) [] demo_renderer demo_state)
   = Inr ''templaterelease/c-f/tmp/values--seta=1''"
proof -
  obtain d where d: "HashChartDir demo_host ''/c'' = Inr d"
    using demo_tree by blast
  have run: "\<exists>h' st'. hs_tick st' = 1 \<and> RenderChart demo_host ''/c'' (Some (demo_helm ps)) [] demo_renderer demo_state =
      (Inr (''templaterelease/c-f/tmp/values'' @ concat (concat (map (\<lambda>p. if hp_Name p = [] then [] else [''--set'', hp_Name p @ ''='' @ hp_Value p]) ps))), h', st')" for ps
    by (auto simp: RenderChart_def helm_probe_def probe_def demo_renderer_def demo_bytes chart_key_def d cache_lookup_def
        Cache_Get_def disk_get_def helm_template_def run_cmd_def helm_args_def release_name_def cache_store_def Cache_Put_def
        demo_state_def demo_selectors Let_def)
  obtain h' st' where st': "hs_tick st' = 1" and r: "RenderChart demo_host ''/c'' (Some (demo_helm [])) [] demo_renderer demo_state =
      (Inr ''templaterelease/c-f/tmp/values'', h', st')"
    using run[of "[]"] by auto
  have "RenderChart demo_host ''/c'' (Some ((demo_helm [])\<lparr>helm_Parameters := [\<lparr>hp_Name = ''a'', hp_Value = ''1''\<rparr>]\<rparr>)) [] h' (st'\<lparr>hs_tick := 1\<rparr>) =
      (Inr ''templaterelease/c-f/tmp/values'', h', st'\<lparr>hs_tick := 1\<rparr>)"
    by (rule RenderChart_reuses[OF _ _ d _ r, where bin = "''helm''" and ver = "''v3''" and c = "\<lparr>ca_DiskDir = [], ca_mem = []\<rparr>"])
      (simp_all add: demo_renderer_def Cache_Get_def disk_get_def demo_selectors st' DefaultTTL_def)
  moreover have "(demo_helm [])\<lparr>helm_Parameters := ps\<rparr> = demo_helm ps" for ps by (simp add: demo_helm_def)
  ultimately show ?thesis using run[of "[\<lparr>hp_Name = ''a'', hp_Value = ''1''\<rparr>]"] by (auto simp: r)
qed

end
