(* ===== verification/RenderPass.thy ===== *)
theory RenderPass
  imports Builder Renderer Config Registries
begin

text \<open>
  The passes of the builder that render: \<^verbatim>\<open>pkg/ir/values_ref.go\<close>, the render
  hooks and the determinism check of \<^verbatim>\<open>pkg/ir/builder.go\<close>,
  \<^verbatim>\<open>pkg/ir/composition_render.go\<close>, and \<^verbatim>\<open>pkg/ir/externalsecret_synth.go\<close>.
\<close>

section \<open>The builder\<close>

text \<open>What the builder takes from outside the package.\<close>

record BuildEnv =
  be_host :: Host
  be_fs :: FsEnv
  be_ff :: "rat \<Rightarrow> string"
  be_hash :: "obj \<Rightarrow> string"
  be_fns :: "(string \<times> string list) list"
  be_tparse :: "string list \<Rightarrow> string \<Rightarrow> string option"
  be_decode :: "string \<Rightarrow> YamlEvent list"
  be_marshal :: "obj \<Rightarrow> string + string"
  be_glob :: "string \<Rightarrow> string list"

text \<open>The exported fields of \<^verbatim>\<open>Builder\<close>.\<close>

record BuilderOpts =
  bo_SkipRender :: bool
  bo_HelmBin :: string
  bo_KustomizeBin :: string
  bo_CrossplaneBin :: string
  bo_SkipAppSetExpand :: bool
  bo_HelmCacheDir :: string
  bo_AppSetContext :: ExpansionContext
  bo_SSAMPMode :: string
  bo_Config :: "Config option"

text \<open>Its state: the World, the diagnostics, the renderers made so far, and the machine.\<close>

record BState =
  bs_world :: World
  bs_diags :: "Diagnostic list"
  bs_helm :: "HelmRenderer option"
  bs_kustomize :: "KustomizeRenderer option"
  bs_crossplane :: "CompositionRenderer option"
  bs_host :: HostState

fun fold_opt :: "('s \<Rightarrow> 'a \<Rightarrow> 's option) \<Rightarrow> 's \<Rightarrow> 'a list \<Rightarrow> 's option" where
  "fold_opt f s [] = Some s"
| "fold_opt f s (x # xs) = (case f s x of None \<Rightarrow> None | Some s' \<Rightarrow> fold_opt f s' xs)"

definition add_result :: "RenderResult \<Rightarrow> BState \<Rightarrow> BState" where
  "add_result r s = s\<lparr>bs_world := (bs_world s)\<lparr>w_RenderResults := w_RenderResults (bs_world s) @ [r]\<rparr>\<rparr>"

definition add_resources :: "ResourceInfo list \<Rightarrow> BState \<Rightarrow> BState" where
  "add_resources rs s = s\<lparr>bs_world := (bs_world s)\<lparr>w_Resources := w_Resources (bs_world s) @ rs\<rparr>\<rparr>"

section \<open>Value files of sibling sources\<close>

datatype valueRefOutcome = valueRefNoChange | valueRefResolved | valueRefUnknownRef | valueRefRemote

definition ref_root :: "FsEnv \<Rightarrow> ArgoSource \<Rightarrow> string \<Rightarrow> string option" where
  "ref_root fs sibling cwd =
     (if src_Path sibling \<noteq> []
      then Some (if IsAbs (src_Path sibling) then Clean (src_Path sibling) else Clean (JoinPath [cwd, src_Path sibling]))
      else (let r = findRepoRoot fs cwd in if r = [] then None else Some r))"

definition resolveValueFilePrefix :: "FsEnv \<Rightarrow> string \<Rightarrow> ArgoSource list \<Rightarrow> string \<Rightarrow> string \<times> valueRefOutcome" where
  "resolveValueFilePrefix fs valueFile siblings cwd =
     (if \<not> HasPrefix valueFile ''$'' then (valueFile, valueRefNoChange)
      else (case Index valueFile ''/'' of
              None \<Rightarrow> (valueFile, valueRefNoChange)
            | Some i \<Rightarrow>
                if i < 2 then (valueFile, valueRefNoChange)
                else
                  let refName = take (i - 1) (drop 1 valueFile); rest = drop (Suc i) valueFile in
                  (case find (\<lambda>s. src_Ref s = refName) siblings of
                     None \<Rightarrow> (valueFile, valueRefUnknownRef)
                   | Some sibling \<Rightarrow>
                       (case ref_root fs sibling cwd of
                          None \<Rightarrow> (valueFile, valueRefRemote)
                        | Some root' \<Rightarrow>
                            let resolved = Clean (JoinPath [root', rest]) in
                            (case FsAbs fs resolved of Some abs' \<Rightarrow> abs' | None \<Rightarrow> resolved, valueRefResolved)))))"

definition rewriteHelmValueFiles ::
  "FsEnv \<Rightarrow> ArgoHelmSource option \<Rightarrow> ArgoSource list \<Rightarrow> string \<Rightarrow> ArgoHelmSource option \<times> valueRefOutcome list" where
  "rewriteHelmValueFiles fs h siblings cwd =
     (case h of
        None \<Rightarrow> (h, [])
      | Some hs \<Rightarrow>
          if helm_ValueFiles hs = [] then (h, [])
          else
            let rs = map (\<lambda>vf. resolveValueFilePrefix fs vf siblings cwd) (helm_ValueFiles hs);
                outcomes = map snd rs in
            if valueRefResolved \<notin> set outcomes then (h, outcomes)
            else (Some (hs\<lparr>helm_ValueFiles := map fst rs\<rparr>), outcomes))"

fun value_ref_diag :: "ArgoApplication \<Rightarrow> string \<Rightarrow> valueRefOutcome \<Rightarrow> Diagnostic list" where
  "value_ref_diag app vf valueRefUnknownRef =
     [\<lparr>dg_Code = ''XPC.H.values-ref-unknown'', dg_Severity = SeverityInfo,
       dg_Message = app_Name app @ '': valueFile '' @ Quote vf @ '' names an unknown source ref'',
       dg_Source = app_Source app,
       dg_Detail = ''No sibling source on this Application has a matching `ref:` field.'',
       dg_Fix = ''add the missing source, or fix the ref name in valueFiles.'', dg_Related = [], dg_Obligation = None\<rparr>]"
| "value_ref_diag app vf valueRefRemote =
     [\<lparr>dg_Code = ''XPC.H.values-ref-remote'', dg_Severity = SeverityInfo,
       dg_Message = app_Name app @ '': valueFile '' @ Quote vf @ '' resolves to a remote repo not locally checked out'',
       dg_Source = app_Source app,
       dg_Detail = ''xpc's first cut only resolves $<ref>/... when the values repo is the same as the appfile's (walk-up to .git). Remote-repo values are not cloned.'',
       dg_Fix = ''run xpc from inside a checkout of the values repo, or inline the values.'', dg_Related = [], dg_Obligation = None\<rparr>]"
| "value_ref_diag app vf _ = []"

section \<open>Helm sources\<close>

definition sourcePathCwd :: "FsEnv \<Rightarrow> string \<Rightarrow> string \<Rightarrow> string" where
  "sourcePathCwd fs appFile srcPath =
     (let appDir = Dir appFile in
      if srcPath = [] \<or> IsAbs srcPath then appDir
      else if fs_Stat fs (JoinPath [appDir, srcPath]) \<noteq> None then appDir
      else let root' = findRepoRoot fs appDir in
           if root' \<noteq> [] \<and> fs_Stat fs (JoinPath [root', srcPath]) \<noteq> None then root' else appDir)"

definition classifyRenderError :: "RenderErr \<Rightarrow> string" where
  "classifyRenderError e =
     (if re_Absent e then ''helm-absent''
      else if Contains (re_Msg e) ''context deadline exceeded'' \<or> Contains (re_Msg e) ''timed out'' then ''helm-timeout''
      else if Contains (re_Msg e) ''helm template'' then ''helm-template-failed''
      else ''other'')"

definition classifyKustomizeError :: "RenderErr \<Rightarrow> string" where
  "classifyKustomizeError e =
     (if re_Absent e then ''kustomize-absent''
      else if Contains (re_Msg e) ''context deadline exceeded'' \<or> Contains (re_Msg e) ''timed out'' then ''kustomize-timeout''
      else if Contains (re_Msg e) ''kustomize build'' then ''kustomize-build-failed''
      else ''other'')"

definition readFileQuietly :: "Host \<Rightarrow> string \<Rightarrow> string + string" where
  "readFileQuietly host path =
     (case ho_ReadFile host path of FileOk b \<Rightarrow> Inr b | FileMissing \<Rightarrow> Inr [] | FileErr e \<Rightarrow> Inl e)"

definition failed_result :: "ArgoApplication \<Rightarrow> string \<Rightarrow> string \<Rightarrow> string \<Rightarrow> RenderResult" where
  "failed_result app chart err kind =
     \<lparr>rr_AppName = app_Name app, rr_ChartPath = chart, rr_Success = False, rr_Error = err, rr_ErrorKind = kind,
      rr_ValuesIssues = [], rr_Source = app_Source app\<rparr>"

definition ensure_helm :: "BuildEnv \<Rightarrow> BuilderOpts \<Rightarrow> BState \<Rightarrow> HelmRenderer" where
  "ensure_helm env opts s =
     (case bs_helm s of Some h \<Rightarrow> h | None \<Rightarrow> NewHelmRenderer (be_host env) (bo_HelmBin opts) (bo_HelmCacheDir opts))"

definition ensure_kustomize :: "BuildEnv \<Rightarrow> BuilderOpts \<Rightarrow> BState \<Rightarrow> KustomizeRenderer" where
  "ensure_kustomize env opts s =
     (case bs_kustomize s of Some k \<Rightarrow> k | None \<Rightarrow> NewKustomizeRenderer (be_host env) (bo_KustomizeBin opts))"

text \<open>
  The chart of a source: local, or pulled.  \<^verbatim>\<open>ResolveChart\<close> has one error only, so
  the branch of the code for other errors is never taken.
\<close>

definition helm_chart ::
  "BuildEnv \<Rightarrow> BuilderOpts \<Rightarrow> ArgoApplication \<Rightarrow> ArgoSource \<Rightarrow> string \<Rightarrow> BState \<Rightarrow> (RenderResult + string) \<times> BState" where
  "helm_chart env opts app src cwd s =
     (case ResolveChart src cwd of
        Inr chartPath \<Rightarrow> (Inr chartPath, s)
      | Inl ErrRemoteChart \<Rightarrow>
          if bo_HelmCacheDir opts = []
          then (Inl (failed_result app [] ''remote Helm chart requires --helm-cache-dir'' ''helm-remote-unsupported''), s)
          else (case PullRemote (be_host env) src (ensure_helm env opts s) (bs_host s) of
                  (r, h, st) \<Rightarrow>
                    let s' = s\<lparr>bs_helm := Some h, bs_host := st\<rparr> in
                    (case r of
                       Inl e \<Rightarrow> (Inl (failed_result app [] (''helm pull: '' @ re_Msg e) ''helm-pull-failed''), s')
                     | Inr pulled \<Rightarrow> (Inr pulled, s'))))"

text \<open>The issues of the merged values; \<^const>\<open>None\<close> when the schema walker panics.\<close>

definition values_issues :: "BuildEnv \<Rightarrow> string \<Rightarrow> ArgoHelmSource option \<Rightarrow> ValuesIssue list option" where
  "values_issues env chartPath helmSrc =
     (case readFileQuietly (be_host env) (JoinPath [chartPath, ''values.schema.json'']) of
        Inl e \<Rightarrow> Some []
      | Inr schemaBytes \<Rightarrow>
          if schemaBytes = [] then Some []
          else (case ValidateValues (be_host env) (be_ff env) schemaBytes (MergedValues (be_host env) chartPath helmSrc) of
                  None \<Rightarrow> None
                | Some (Inl e) \<Rightarrow> Some []
                | Some (Inr issues) \<Rightarrow> Some issues))"

definition rendered_resource :: "string \<Rightarrow> string \<Rightarrow> SourceLocation \<Rightarrow> LoadedDocument \<Rightarrow> ResourceInfo" where
  "rendered_resource provenance owner src d =
     (resourceInfoFromDoc d)\<lparr>ri_Source := src, ri_Provenance := provenance, ri_OwningApp := owner\<rparr>"

text \<open>What becomes of a render's outcome: a result, and the rendered documents as resources.\<close>

definition record_render ::
  "BuildEnv \<Rightarrow> string \<Rightarrow> string \<Rightarrow> string \<Rightarrow> string \<Rightarrow> (RenderErr \<Rightarrow> string) \<Rightarrow> RenderResult \<Rightarrow> RenderErr + string \<Rightarrow> BState \<Rightarrow> BState" where
  "record_render env file provenance owner parseKind classify result rendered s =
     (case rendered of
        Inl e \<Rightarrow> add_result (result\<lparr>rr_Success := False, rr_Error := re_Msg e, rr_ErrorKind := classify e\<rparr>) s
      | Inr out \<Rightarrow>
          (case LoadReader file (be_decode env out) of
             Inl e \<Rightarrow> add_result (result\<lparr>rr_Success := False, rr_Error := ''parsing rendered YAML: '' @ e, rr_ErrorKind := parseKind\<rparr>) s
           | Inr docs \<Rightarrow>
               add_result (result\<lparr>rr_Success := True\<rparr>)
                 (add_resources (map (rendered_resource provenance owner (rr_Source result)) docs) s)))"

definition render_helm_source ::
  "BuildEnv \<Rightarrow> BuilderOpts \<Rightarrow> ArgoApplication \<Rightarrow> string \<Rightarrow> BState \<Rightarrow> ArgoSource \<Rightarrow> BState option" where
  "render_helm_source env opts app appFile s src =
     (if src_Renderer src \<noteq> RendererHelm then Some s
      else
        let cwd = sourcePathCwd (be_fs env) appFile (src_Path src) in
        (case helm_chart env opts app src cwd s of
           (Inl bad, s1) \<Rightarrow> Some (add_result bad s1)
         | (Inr chartPath, s1) \<Rightarrow>
             (case rewriteHelmValueFiles (be_fs env) (src_Helm src) (app_Sources app) cwd of
                (helmSrc, outcomes) \<Rightarrow>
                  let vfs = (case src_Helm src of Some h \<Rightarrow> helm_ValueFiles h | None \<Rightarrow> []);
                      s2 = s1\<lparr>bs_diags := bs_diags s1 @ concat (map (\<lambda>(vf, oc). value_ref_diag app vf oc) (zip vfs outcomes))\<rparr> in
                  (case values_issues env chartPath helmSrc of
                     None \<Rightarrow> None
                   | Some issues \<Rightarrow>
                       (case RenderChart (be_host env) chartPath helmSrc (dest_Namespace (app_Destination app))
                               (ensure_helm env opts s2) (bs_host s2) of
                          (rendered, h, st) \<Rightarrow>
                            Some (record_render env appFile (''rendered:helm:'' @ app_Name app) (app_Name app) ''other''
                              classifyRenderError
                              \<lparr>rr_AppName = app_Name app, rr_ChartPath = chartPath, rr_Success = True, rr_Error = [],
                               rr_ErrorKind = [], rr_ValuesIssues = issues, rr_Source = app_Source app\<rparr>
                              rendered (s2\<lparr>bs_helm := Some h, bs_host := st\<rparr>)))))))"

definition renderHelmSources :: "BuildEnv \<Rightarrow> BuilderOpts \<Rightarrow> ArgoApplication \<Rightarrow> string \<Rightarrow> BState \<Rightarrow> BState option" where
  "renderHelmSources env opts app appFile s =
     (if app_Sources app = [] then Some s
      else fold_opt (render_helm_source env opts app appFile) (s\<lparr>bs_helm := Some (ensure_helm env opts s)\<rparr>) (app_Sources app))"

section \<open>Kustomize sources\<close>

definition render_kustomize_source ::
  "BuildEnv \<Rightarrow> BuilderOpts \<Rightarrow> ArgoApplication \<Rightarrow> string \<Rightarrow> BState \<Rightarrow> ArgoSource \<Rightarrow> BState" where
  "render_kustomize_source env opts app appFile s src =
     (if src_Renderer src \<noteq> RendererKustomize then s
      else
        (case ResolveChart src (sourcePathCwd (be_fs env) appFile (src_Path src)) of
           Inl e \<Rightarrow> add_result (failed_result app [] (chart_err_msg e) ''other'') s
         | Inr overlayPath \<Rightarrow>
             (case RenderOverlay (be_host env) overlayPath (src_Kustomize src) (ensure_kustomize env opts s) (bs_host s) of
                (rendered, k, st) \<Rightarrow>
                  record_render env appFile (''rendered:kustomize:'' @ app_Name app) (app_Name app) ''other''
                    classifyKustomizeError
                    \<lparr>rr_AppName = app_Name app, rr_ChartPath = overlayPath, rr_Success = True, rr_Error = [],
                     rr_ErrorKind = [], rr_ValuesIssues = [], rr_Source = app_Source app\<rparr>
                    rendered (s\<lparr>bs_kustomize := Some k, bs_host := st\<rparr>))))"

definition renderKustomizeSources :: "BuildEnv \<Rightarrow> BuilderOpts \<Rightarrow> ArgoApplication \<Rightarrow> string \<Rightarrow> BState \<Rightarrow> BState" where
  "renderKustomizeSources env opts app appFile s =
     (if app_Sources app = [] then s
      else foldl (render_kustomize_source env opts app appFile)
             (s\<lparr>bs_kustomize := Some (ensure_kustomize env opts s)\<rparr>) (app_Sources app))"

definition render_app :: "BuildEnv \<Rightarrow> BuilderOpts \<Rightarrow> ArgoApplication \<Rightarrow> string \<Rightarrow> BState \<Rightarrow> BState option" where
  "render_app env opts app file s =
     (if bo_SkipRender opts then Some s
      else map_option (renderKustomizeSources env opts app file) (renderHelmSources env opts app file s))"

definition add_app :: "ArgoApplication \<Rightarrow> BState \<Rightarrow> BState" where
  "add_app app s = s\<lparr>bs_world := (bs_world s)\<lparr>w_ArgoApps := w_ArgoApps (bs_world s) @ [app]\<rparr>\<rparr>"

definition addArgoApplication :: "BuildEnv \<Rightarrow> BuilderOpts \<Rightarrow> LoadedDocument \<Rightarrow> BState \<Rightarrow> BState option" where
  "addArgoApplication env opts doc s =
     (let app = parse_application doc in render_app env opts app (sl_File (doc_Source doc)) (add_app app s))"

definition expand_one :: "BuildEnv \<Rightarrow> BuilderOpts \<Rightarrow> BState \<Rightarrow> ArgoApplicationSet \<Rightarrow> BState option" where
  "expand_one env opts s aset =
     (let res = ExpandAppSet (be_glob env) aset (bo_AppSetContext opts);
          s1 = s\<lparr>bs_diags := bs_diags s @ exp_Diagnostics res\<rparr>
      in fold_opt (\<lambda>s app. render_app env opts app (sl_File (aset_Source aset)) (add_app app s)) s1 (exp_Applications res))"

definition expandAppSets :: "BuildEnv \<Rightarrow> BuilderOpts \<Rightarrow> BState \<Rightarrow> BState option" where
  "expandAppSets env opts s = fold_opt (expand_one env opts) s (w_ArgoAppSets (bs_world s))"

section \<open>Determinism\<close>

definition add_determinism :: "ArgoApplication \<Rightarrow> string \<Rightarrow> bool \<times> string \<Rightarrow> BState \<Rightarrow> BState" where
  "add_determinism app kind r s =
     s\<lparr>bs_world := (bs_world s)\<lparr>w_DeterminismResults := w_DeterminismResults (bs_world s) @
         [\<lparr>det_AppName = app_Name app, det_RendererKind = kind, det_Mismatch = fst r, det_DiffSummary = snd r,
           det_Source = app_Source app\<rparr>]\<rparr>\<rparr>"

definition determinism_source :: "BuildEnv \<Rightarrow> BuilderOpts \<Rightarrow> ArgoApplication \<Rightarrow> BState \<Rightarrow> ArgoSource \<Rightarrow> BState" where
  "determinism_source env opts app s src =
     (let cwd = sourcePathCwd (be_fs env) (sl_File (app_Source app)) (src_Path src) in
      if src_Renderer src = RendererHelm then
        let h = ensure_helm env opts s; s1 = s\<lparr>bs_helm := Some h\<rparr> in
        (case ResolveChart src cwd of
           Inl _ \<Rightarrow> s1
         | Inr chartPath \<Rightarrow>
             (case DoubleRenderHelm (be_host env) h chartPath (dest_Namespace (app_Destination app)) (src_Helm src) (bs_host s1) of
                (r, st) \<Rightarrow>
                  (case r of
                     Inl _ \<Rightarrow> s1\<lparr>bs_host := st\<rparr>
                   | Inr m \<Rightarrow> add_determinism app ''helm'' m (s1\<lparr>bs_host := st\<rparr>))))
      else if src_Renderer src = RendererKustomize then
        let k = ensure_kustomize env opts s; s1 = s\<lparr>bs_kustomize := Some k\<rparr> in
        (case ResolveChart src cwd of
           Inl _ \<Rightarrow> s1
         | Inr overlayPath \<Rightarrow>
             (case DoubleRenderKustomize (be_host env) k overlayPath (src_Kustomize src) (bs_host s1) of
                (r, st) \<Rightarrow>
                  (case r of
                     Inl _ \<Rightarrow> s1\<lparr>bs_host := st\<rparr>
                   | Inr m \<Rightarrow> add_determinism app ''kustomize'' m (s1\<lparr>bs_host := st\<rparr>))))
      else s)"

definition runDeterminismChecks :: "BuildEnv \<Rightarrow> BuilderOpts \<Rightarrow> BState \<Rightarrow> BState" where
  "runDeterminismChecks env opts s =
     foldl (\<lambda>s app. foldl (determinism_source env opts app) s (app_Sources app)) s (w_ArgoApps (bs_world s))"

section \<open>Compositions\<close>

definition indexXRDocs :: "LoadedDocument list \<Rightarrow> (string \<times> LoadedDocument list) list" where
  "indexXRDocs docs =
     index_by (\<lambda>d. doc_APIVersion d @ ''/'' @ doc_Kind d) (\<lambda>d. d)
       (filter (\<lambda>d. doc_APIVersion d \<noteq> [] \<and> doc_Kind d \<noteq> [] \<and> ClassifyDocument d = CatResource) docs)"

definition indexFunctionDocs :: "LoadedDocument list \<Rightarrow> LoadedDocument list" where
  "indexFunctionDocs docs = filter (\<lambda>d. ClassifyDocument d = CatFunction) docs"

fun concat_bindings :: "(obj \<Rightarrow> string + string) \<Rightarrow> bool \<Rightarrow> LoadedDocument list \<Rightarrow> string" where
  "concat_bindings marshal sep [] = []"
| "concat_bindings marshal sep (d # ds) =
     (if sep then ''---'' @ newline else []) @
     (case marshal (doc_Raw d) of Inl _ \<Rightarrow> [] | Inr data \<Rightarrow> data) @ concat_bindings marshal True ds"

definition concatFunctionBindings :: "(obj \<Rightarrow> string + string) \<Rightarrow> LoadedDocument list \<Rightarrow> string" where
  "concatFunctionBindings marshal fns = concat_bindings marshal False fns"

definition marshalDoc :: "(obj \<Rightarrow> string + string) \<Rightarrow> string \<Rightarrow> LoadedDocument list \<Rightarrow> string + string" where
  "marshalDoc marshal sourceFile docs =
     (case find (\<lambda>d. sl_File (doc_Source d) = sourceFile \<and> doc_Kind d = ''Composition'') docs of
        None \<Rightarrow> Inl ''composition source doc not found''
      | Some d \<Rightarrow> marshal (doc_Raw d))"

definition nameFromDoc :: "LoadedDocument \<Rightarrow> string" where
  "nameFromDoc d = field_or_empty (getMap (doc_Raw d) ''metadata'') ''name''"

definition buildAPIVersion :: "string \<Rightarrow> string \<Rightarrow> string" where
  "buildAPIVersion group' version = (if group' = [] then version else group' @ ''/'' @ version)"

definition composition_failed :: "CompositionInfo \<Rightarrow> string \<Rightarrow> string \<Rightarrow> RenderResult" where
  "composition_failed cp xr err =
     \<lparr>rr_AppName = compositionAppName (comp_Name cp) xr, rr_ChartPath = comp_Name cp, rr_Success = False, rr_Error = err,
      rr_ErrorKind = ''crossplane-render-failed'', rr_ValuesIssues = [], rr_Source = comp_Source cp\<rparr>"

definition render_xr ::
  "BuildEnv \<Rightarrow> BuilderOpts \<Rightarrow> CompositionInfo \<Rightarrow> string \<Rightarrow> string \<Rightarrow> BState \<Rightarrow> LoadedDocument \<Rightarrow> BState" where
  "render_xr env opts cp compYAML fnsYAML s xr =
     (let xrName = nameFromDoc xr in
      case be_marshal env (doc_Raw xr) of
        Inl e \<Rightarrow> add_result (composition_failed cp xrName (''marshal XR: '' @ e)) s
      | Inr xrYAML \<Rightarrow>
          (case bs_crossplane s of
             None \<Rightarrow> s
           | Some r0 \<Rightarrow>
               (case CompositionRender (be_host env) xrYAML compYAML fnsYAML r0 (bs_host s) of
                  (rendered, r, st) \<Rightarrow>
                    record_render env (sl_File (comp_Source cp)) (''rendered:composition:'' @ xrName)
                      (compositionAppName (comp_Name cp) xrName) ''crossplane-render-failed'' ClassifyCompositionError
                      \<lparr>rr_AppName = compositionAppName (comp_Name cp) xrName, rr_ChartPath = comp_Name cp, rr_Success = True,
                       rr_Error = [], rr_ErrorKind = [], rr_ValuesIssues = [], rr_Source = comp_Source cp\<rparr>
                      rendered (s\<lparr>bs_crossplane := Some r, bs_host := st\<rparr>))))"

definition render_composition ::
  "BuildEnv \<Rightarrow> BuilderOpts \<Rightarrow> LoadedDocument list \<Rightarrow> BState \<Rightarrow> CompositionInfo \<Rightarrow> BState" where
  "render_composition env opts docs s cp =
     (let ref = comp_CompositeTypeRef cp in
      if gvk_Kind ref = [] then s
      else
        let xrKey = buildAPIVersion (gvk_Group ref) (gvk_Version ref) @ ''/'' @ gvk_Kind ref;
            xrs = mgetl (indexXRDocs docs) xrKey in
        if xrs = [] then s
        else (case marshalDoc (be_marshal env) (sl_File (comp_Source cp)) docs of
                Inl e \<Rightarrow> add_result (composition_failed cp [] (''marshal composition: '' @ e)) s
              | Inr compYAML \<Rightarrow>
                  foldl (render_xr env opts cp compYAML (concatFunctionBindings (be_marshal env) (indexFunctionDocs docs))) s xrs))"

definition renderCompositions :: "BuildEnv \<Rightarrow> BuilderOpts \<Rightarrow> LoadedDocument list \<Rightarrow> BState \<Rightarrow> BState" where
  "renderCompositions env opts docs s =
     (if w_Compositions (bs_world s) = [] then s
      else foldl (render_composition env opts docs)
             (s\<lparr>bs_crossplane := Some (case bs_crossplane s of
                  Some r \<Rightarrow> r | None \<Rightarrow> NewCompositionRenderer (be_host env) (bo_CrossplaneBin opts))\<rparr>)
             (w_Compositions (bs_world s)))"

section \<open>Secrets an operator will create\<close>

definition isExternalSecret :: "ResourceInfo \<Rightarrow> bool" where
  "isExternalSecret r = (ri_Kind r = ''ExternalSecret'' \<and> HasPrefix (ri_APIVersion r) ''external-secrets.io/'')"

definition externalSecretTargetName :: "ResourceInfo \<Rightarrow> string" where
  "externalSecretTargetName r =
     (let name = field_or_empty (Option.bind (getMap (ri_Raw r) ''spec'') (\<lambda>spec. getMap spec ''target'')) ''name''
      in if name \<noteq> [] then name else ri_Name r)"

definition synth_step ::
  "(string \<times> string) list \<times> ResourceInfo list \<Rightarrow> ResourceInfo \<Rightarrow> (string \<times> string) list \<times> ResourceInfo list" where
  "synth_step acc r =
     (case acc of (seen, synth) \<Rightarrow>
        if \<not> isExternalSecret r then acc
        else
          let target = externalSecretTargetName r; key = (ri_Namespace r, target) in
          if target = [] then acc
          else if key \<in> set seen then acc
          else (key # seen,
                synth @ [\<lparr>ri_APIVersion = ''v1'', ri_Kind = ''Secret'', ri_Name = target, ri_Namespace = ri_Namespace r,
                          ri_Annotations = [], ri_Labels = [], ri_Source = ri_Source r, ri_Raw = [],
                          ri_Provenance = ''produced:externalsecret:'' @ ri_Name r, ri_OwningApp = ri_OwningApp r\<rparr>]))"

definition secret_keys :: "ResourceInfo list \<Rightarrow> (string \<times> string) list" where
  "secret_keys rs = map (\<lambda>r. (ri_Namespace r, ri_Name r)) (filter (\<lambda>r. ri_Kind r = ''Secret'') rs)"

definition synthesizeExternalSecretTargets :: "World \<Rightarrow> World" where
  "synthesizeExternalSecretTargets w =
     w\<lparr>w_Resources := w_Resources w @ snd (foldl synth_step (secret_keys (w_Resources w), []) (w_Resources w))\<rparr>"

end
