(* ===== verification/BuildWorld.thy ===== *)
theory BuildWorld
  imports RenderPass Extract
begin

text \<open>
  \<^verbatim>\<open>Builder.Build\<close> of \<^verbatim>\<open>pkg/ir/builder.go\<close>: the loaded documents, one after the
  other, then the passes over the World.  \<^const>\<open>None\<close> is a panic of the schema
  walker, the left branch an error of a document.
\<close>

section \<open>Build\<close>

definition build_init :: "BuilderOpts \<Rightarrow> World" where
  "build_init opts =
     (let cfg = bo_Config opts; env_label = ResolveEnvLabel cfg in
      NewWorld\<lparr>
        w_SSAMPMode := bo_SSAMPMode opts,
        w_ProdPatterns := ResolveProdPatterns cfg,
        w_NameCarveouts := [(''crossplane-state-needs-orphan'', ResolveCrossplaneStateNeedsOrphanCarveouts cfg)],
        w_BypassKeys := \<lparr>bk_AllowDelete = ResolveAllowDeleteKeys cfg, bk_AllowImmutableChange = ResolveAllowImmutableChangeKeys cfg\<rparr>,
        w_ImmutableFields := Some (ResolveImmutableFields cfg ImmutableFieldRegistry),
        w_StateBearingKinds := Some (ResolveStateBearingKinds cfg StateBearingKindsRegistry),
        w_AllowedProviderConfigs := ResolveAllowedProviderConfigs cfg,
        w_EnvLabelKey := fst env_label,
        w_EnvLabelClaimKinds := fst (snd env_label),
        w_EnvLabelAllowedValues := snd (snd env_label),
        w_ESOAllowedStoreNames := ResolveExternalSecretStoreNames cfg\<rparr>)"

definition on_world :: "(World \<Rightarrow> World) \<Rightarrow> BState \<Rightarrow> BState" where
  "on_world f s = s\<lparr>bs_world := f (bs_world s)\<rparr>"

definition lift_err :: "(World \<Rightarrow> string + World) \<Rightarrow> BState \<Rightarrow> (string + BState) option" where
  "lift_err f s = Some (map_sum id (\<lambda>w. s\<lparr>bs_world := w\<rparr>) (f (bs_world s)))"

definition build_doc :: "BuildEnv \<Rightarrow> BuilderOpts \<Rightarrow> LoadedDocument \<Rightarrow> BState \<Rightarrow> (string + BState) option" where
  "build_doc env opts doc s =
     (case ClassifyDocument doc of
        CatCRD \<Rightarrow> lift_err (addCRD (be_hash env) doc) s
      | CatXRD \<Rightarrow> lift_err (addXRD (be_hash env) doc) s
      | CatComposition \<Rightarrow> lift_err (addComposition (be_hash env) doc) s
      | CatFunction \<Rightarrow> Some (Inr (on_world (addFunction (be_fns env) doc) s))
      | CatProvider \<Rightarrow> Some (Inr (on_world (addProvider doc) s))
      | CatConfiguration \<Rightarrow> Some (Inr (on_world (addConfiguration doc) s))
      | CatArgoApplication \<Rightarrow> map_option Inr (addArgoApplication env opts doc s)
      | CatArgoAppProject \<Rightarrow> Some (Inr (on_world (addArgoAppProject doc) s))
      | CatArgoApplicationSet \<Rightarrow> Some (Inr (on_world (addArgoApplicationSet doc) s))
      | CatResource \<Rightarrow> Some (Inr (on_world (addResource doc) s)))"

definition doc_error :: "LoadedDocument \<Rightarrow> string \<Rightarrow> string" where
  "doc_error doc err =
     ''processing '' @ doc_Kind doc @ '' '' @ getName (doc_Raw doc) @ '' from '' @ sl_File (doc_Source doc) @ '':'' @
     Itoa (sl_Line (doc_Source doc)) @ '': '' @ err"

fun build_docs :: "BuildEnv \<Rightarrow> BuilderOpts \<Rightarrow> LoadedDocument list \<Rightarrow> BState \<Rightarrow> (string + BState) option" where
  "build_docs env opts [] s = Some (Inr s)"
| "build_docs env opts (doc # docs) s =
     (case build_doc env opts doc s of
        None \<Rightarrow> None
      | Some (Inl err) \<Rightarrow> Some (Inl (doc_error doc err))
      | Some (Inr s') \<Rightarrow> build_docs env opts docs s')"

definition template_checks :: "BuildEnv \<Rightarrow> World \<Rightarrow> World" where
  "template_checks env w =
     checkCompositionOrphanSGRef (checkCompositionComputedBlockAlias (checkCompositionDuplicateEnv
       (checkCompositionCanonicalForm (checkCompositionTemplates (be_tparse env) w))))"

definition build_passes :: "BuildEnv \<Rightarrow> BuilderOpts \<Rightarrow> LoadedDocument list \<Rightarrow> BState \<Rightarrow> World option" where
  "build_passes env opts docs s =
     (let s1 = on_world (enrichOwningApp (be_fs env)) s;
          s2 = (if bo_SkipRender opts then s1 else renderCompositions env opts docs (runDeterminismChecks env opts s1))
      in EnrichFieldValidation (be_ff env)
           (EnrichTrajectoryData (synthesizeExternalSecretTargets (template_checks env (bs_world s2)))))"

definition Build :: "BuildEnv \<Rightarrow> BuilderOpts \<Rightarrow> HostState \<Rightarrow> LoadedDocument list \<Rightarrow> (string + World) option" where
  "Build env opts st docs =
     (case build_docs env opts docs
             \<lparr>bs_world = build_init opts, bs_diags = [], bs_helm = None, bs_kustomize = None, bs_crossplane = None, bs_host = st\<rparr> of
        None \<Rightarrow> None
      | Some (Inl err) \<Rightarrow> Some (Inl err)
      | Some (Inr s) \<Rightarrow>
          (case (if bo_SkipAppSetExpand opts then Some s else expandAppSets env opts s) of
             None \<Rightarrow> None
           | Some s1 \<Rightarrow> map_option Inr (build_passes env opts docs s1)))"

section \<open>What the passes leave alone\<close>

text \<open>
  The facts read from documents, by their source locations.  Resources that were
  rendered or produced carry a provenance and do not count.
\<close>

definition tracked :: "World \<Rightarrow> DocCategory \<Rightarrow> SourceLocation list" where
  "tracked w cat =
     (case cat of
        CatCRD \<Rightarrow> map crd_Source (w_CRDs w)
      | CatXRD \<Rightarrow> map crd_Source (w_XRDs w)
      | CatComposition \<Rightarrow> map comp_Source (w_Compositions w)
      | CatFunction \<Rightarrow> map fn_Source (w_Functions w)
      | CatProvider \<Rightarrow> map prov_Source (w_Providers w)
      | CatConfiguration \<Rightarrow> map cfgn_Source (w_Configurations w)
      | CatArgoApplication \<Rightarrow> map app_Source (w_ArgoApps w)
      | CatArgoAppProject \<Rightarrow> map proj_Source (w_ArgoProjects w)
      | CatArgoApplicationSet \<Rightarrow> map aset_Source (w_ArgoAppSets w)
      | CatResource \<Rightarrow> map ri_Source (filter (\<lambda>r. ri_Provenance r = []) (w_Resources w)))"

text \<open>The schemas, and what refers to them by digest.\<close>

definition schema_view ::
  "World \<Rightarrow> (string \<times> SchemaInfo) list \<times> CRDVersion list list \<times> CRDVersion list list \<times> PipelineStep list list" where
  "schema_view w =
     (w_Schemas w, map crd_Versions (w_CRDs w), map crd_Versions (w_XRDs w), map comp_Pipeline (w_Compositions w))"

definition keeps :: "World \<Rightarrow> World \<Rightarrow> bool" where
  "keeps w w' \<longleftrightarrow> tracked w' = tracked w \<and> schema_view w' = schema_view w \<and> w_ArgoApps w' = w_ArgoApps w \<and> w_ArgoAppSets w' = w_ArgoAppSets w"

lemma keeps_refl [simp]: "keeps w w"
  by (simp add: keeps_def)

lemma keeps_trans [trans]: "keeps a b \<Longrightarrow> keeps b c \<Longrightarrow> keeps a c"
  by (simp add: keeps_def)

text \<open>Adding results and rendered resources.\<close>

lemma keeps_add_result [simp]: "keeps (bs_world s) (bs_world (add_result r s))"
  by (auto simp: keeps_def schema_view_def add_result_def tracked_def fun_eq_iff split: DocCategory.splits)

lemma keeps_add_resources:
  "list_all (\<lambda>r. ri_Provenance r \<noteq> []) rs \<Longrightarrow> keeps (bs_world s) (bs_world (add_resources rs s))"
  by (auto simp: keeps_def schema_view_def add_resources_def tracked_def fun_eq_iff list_all_iff filter_empty_conv split: DocCategory.splits)

lemma keeps_record_render:
  assumes "provenance \<noteq> []"
  shows "keeps (bs_world s) (bs_world (record_render env file provenance owner pk cl result rendered s))"
proof (cases rendered)
  case (Inr out)
  show ?thesis
  proof (cases "LoadReader file (be_decode env out)")
    case docs: (Inr docs)
    let ?rs = "map (rendered_resource provenance owner (rr_Source result)) docs"
    have "keeps (bs_world s) (bs_world (add_resources ?rs s))"
      using assms by (intro keeps_add_resources) (simp add: list_all_iff rendered_resource_def)
    then show ?thesis
      unfolding record_render_def Inr docs sum.case by (rule keeps_trans[OF _ keeps_add_result])
  qed (simp add: record_render_def Inr)
qed (simp add: record_render_def)

lemma keeps_helm_chart: "helm_chart env opts app src cwd s = (r, s') \<Longrightarrow> bs_world s' = bs_world s"
  by (auto simp: helm_chart_def Let_def split: sum.splits ChartErr.splits if_splits prod.splits)

lemma keeps_helm_source:
  "render_helm_source env opts app file s src = Some s' \<Longrightarrow> keeps (bs_world s) (bs_world s')"
proof (cases "src_Renderer src = RendererHelm")
  case True
  assume r: "render_helm_source env opts app file s src = Some s'"
  let ?cwd = "sourcePathCwd (be_fs env) file (src_Path src)"
  obtain res s1 where c: "helm_chart env opts app src ?cwd s = (res, s1)" by (cases "helm_chart env opts app src ?cwd s")
  note w1 = keeps_helm_chart[OF c]
  show ?thesis
  proof (cases res)
    case (Inl bad)
    then show ?thesis using r True c w1 keeps_add_result[of s1 bad] by (simp add: render_helm_source_def Let_def)
  next
    case (Inr cp)
    have "keeps (bs_world s) (bs_world (record_render env file (''rendered:helm:'' @ app_Name app) owner pk cl result rendered s2))"
      if "bs_world s2 = bs_world s" for owner pk cl result rendered s2
      using keeps_record_render[of "''rendered:helm:'' @ app_Name app" s2] that by simp
    then show ?thesis
      using r True c Inr w1 by (auto simp: render_helm_source_def Let_def split: prod.splits option.splits)
  qed
qed (simp add: render_helm_source_def)

lemma fold_opt_keeps:
  assumes step: "\<And>s x s'. f s x = Some s' \<Longrightarrow> keeps (bs_world s) (bs_world s')"
  shows "fold_opt f s xs = Some s' \<Longrightarrow> keeps (bs_world s) (bs_world s')"
proof (induction xs arbitrary: s)
  case (Cons x xs)
  then show ?case using step keeps_trans by (auto split: option.splits) blast
qed simp

lemma foldl_keeps:
  assumes step: "\<And>s x. keeps (bs_world s) (bs_world (f s x))"
  shows "keeps (bs_world s) (bs_world (foldl f s xs))"
proof (induction xs arbitrary: s)
  case (Cons x xs)
  then show ?case using step keeps_trans by simp blast
qed simp

lemma keeps_helm: "renderHelmSources env opts app file s = Some s' \<Longrightarrow> keeps (bs_world s) (bs_world s')"
  using fold_opt_keeps[of "render_helm_source env opts app file" "s\<lparr>bs_helm := Some (ensure_helm env opts s)\<rparr>",
      OF keeps_helm_source]
  by (auto simp: renderHelmSources_def split: if_splits)

lemma keeps_kustomize_source: "keeps (bs_world s) (bs_world (render_kustomize_source env opts app file s src))"
proof -
  have "keeps (bs_world s) (bs_world (record_render env file (''rendered:kustomize:'' @ app_Name app) (app_Name app) ''other''
      classifyKustomizeError result rendered (s\<lparr>bs_kustomize := k, bs_host := st\<rparr>)))" for result rendered k st
    using keeps_record_render[of "''rendered:kustomize:'' @ app_Name app" "s\<lparr>bs_kustomize := k, bs_host := st\<rparr>"] by simp
  then show ?thesis by (auto simp: render_kustomize_source_def split: sum.splits prod.splits)
qed

lemma keeps_kustomize: "keeps (bs_world s) (bs_world (renderKustomizeSources env opts app file s))"
  using foldl_keeps[of "render_kustomize_source env opts app file" "s\<lparr>bs_kustomize := Some (ensure_kustomize env opts s)\<rparr>",
      OF keeps_kustomize_source]
  by (simp add: renderKustomizeSources_def)

lemma keeps_render_app: "render_app env opts app file s = Some s' \<Longrightarrow> keeps (bs_world s) (bs_world s')"
  using keeps_helm keeps_kustomize keeps_trans by (auto simp: render_app_def split: if_splits) blast

lemma keeps_determinism_source: "keeps (bs_world s) (bs_world (determinism_source env opts app s src))"
  by (auto simp: determinism_source_def add_determinism_def keeps_def schema_view_def tracked_def Let_def fun_eq_iff
      split: sum.splits prod.splits DocCategory.splits)

lemma keeps_determinism: "keeps (bs_world s) (bs_world (runDeterminismChecks env opts s))"
  unfolding runDeterminismChecks_def by (intro foldl_keeps keeps_determinism_source)

lemma keeps_render_xr: "keeps (bs_world s) (bs_world (render_xr env opts cp c f s xr))"
proof -
  have "keeps (bs_world s) (bs_world (record_render env fl (''rendered:composition:'' @ nameFromDoc xr) owner pk cl
      result rendered (s\<lparr>bs_crossplane := k, bs_host := st\<rparr>)))" for fl owner pk cl result rendered k st
    using keeps_record_render[of "''rendered:composition:'' @ nameFromDoc xr" "s\<lparr>bs_crossplane := k, bs_host := st\<rparr>"] by simp
  then show ?thesis by (auto simp: render_xr_def Let_def split: sum.splits prod.splits option.splits)
qed

lemma keeps_compositions: "keeps (bs_world s) (bs_world (renderCompositions env opts docs s))"
proof -
  have "keeps (bs_world s) (bs_world (render_composition env opts docs s cp))" for s cp
    by (auto simp: render_composition_def Let_def split: sum.splits intro: foldl_keeps keeps_render_xr)
  from foldl_keeps[of "render_composition env opts docs" "s\<lparr>bs_crossplane := Some r\<rparr>" for r, OF this] show ?thesis
    by (simp add: renderCompositions_def)
qed

lemma assign_owner_source:
  "crd_Source (assign_owner fs ps crd_OwningApp crd_Source (\<lambda>n. crd_OwningApp_update (\<lambda>_. n)) c) = crd_Source c"
  "comp_Source (assign_owner fs ps comp_OwningApp comp_Source (\<lambda>n. comp_OwningApp_update (\<lambda>_. n)) cp) = comp_Source cp"
  "fn_Source (assign_owner fs ps fn_OwningApp fn_Source (\<lambda>n. fn_OwningApp_update (\<lambda>_. n)) f) = fn_Source f"
  "prov_Source (assign_owner fs ps prov_OwningApp prov_Source (\<lambda>n. prov_OwningApp_update (\<lambda>_. n)) p) = prov_Source p"
  "ri_Source (assign_owner fs ps ri_OwningApp ri_Source (\<lambda>n. ri_OwningApp_update (\<lambda>_. n)) r) = ri_Source r"
  "ri_Provenance (assign_owner fs ps ri_OwningApp ri_Source (\<lambda>n. ri_OwningApp_update (\<lambda>_. n)) r) = ri_Provenance r"
  "crd_Versions (assign_owner fs ps crd_OwningApp crd_Source (\<lambda>n. crd_OwningApp_update (\<lambda>_. n)) c) = crd_Versions c"
  "comp_Pipeline (assign_owner fs ps comp_OwningApp comp_Source (\<lambda>n. comp_OwningApp_update (\<lambda>_. n)) cp) = comp_Pipeline cp"
  by (simp_all add: assign_owner_def Let_def)

lemma keeps_owner: "keeps w (enrichOwningApp fs w)"
  by (auto simp: enrichOwningApp_def keeps_def schema_view_def tracked_def Let_def fun_eq_iff assign_owner_source filter_map comp_def
      split: DocCategory.splits)

lemma keeps_template_checks: "keeps w (template_checks env w)"
  by (auto simp: keeps_def schema_view_def template_checks_def checkCompositionOrphanSGRef_def checkCompositionComputedBlockAlias_def
      checkCompositionDuplicateEnv_def checkCompositionCanonicalForm_def checkCompositionTemplates_def tracked_def
      fun_eq_iff split: DocCategory.splits)

lemma synth_provenance:
  "list_all (\<lambda>r. ri_Provenance r \<noteq> []) (snd acc) \<Longrightarrow> list_all (\<lambda>r. ri_Provenance r \<noteq> []) (snd (foldl synth_step acc rs))"
  by (induction rs arbitrary: acc) (auto simp: synth_step_def Let_def split: prod.splits)

lemma keeps_synth: "keeps w (synthesizeExternalSecretTargets w)"
  using synth_provenance[of "(secret_keys (w_Resources w), [])" "w_Resources w"]
  by (auto simp: keeps_def schema_view_def synthesizeExternalSecretTargets_def tracked_def fun_eq_iff list_all_iff filter_empty_conv
      split: DocCategory.splits)

lemma keeps_trajectory: "keeps w (EnrichTrajectoryData w)"
  by (auto simp: enrich_closed ensureKnobDefaults_def keeps_def schema_view_def tracked_def Let_def fun_eq_iff split: DocCategory.splits)

lemma keeps_fields: "EnrichFieldValidation ff w = Some w' \<Longrightarrow> keeps w w'"
  by (drule field_validation_shape) (auto simp: keeps_def schema_view_def tracked_def fun_eq_iff split: DocCategory.splits)

lemma keeps_passes: "build_passes env opts docs s = Some w \<Longrightarrow> keeps (bs_world s) w"
proof -
  assume b: "build_passes env opts docs s = Some w"
  let ?s1 = "on_world (enrichOwningApp (be_fs env)) s"
  let ?s2 = "if bo_SkipRender opts then ?s1 else renderCompositions env opts docs (runDeterminismChecks env opts ?s1)"
  have "keeps (bs_world s) (bs_world ?s1)" by (simp add: on_world_def keeps_owner)
  also have "keeps (bs_world ?s1) (bs_world ?s2)"
    using keeps_trans[OF keeps_determinism keeps_compositions] by simp
  also have "keeps (bs_world ?s2) (synthesizeExternalSecretTargets (template_checks env (bs_world ?s2)))"
    by (rule keeps_trans[OF keeps_template_checks keeps_synth])
  also have "keeps \<dots> w"
    using b keeps_trans[OF keeps_trajectory keeps_fields] by (simp add: build_passes_def Let_def)
  finally show ?thesis .
qed

section \<open>Every document becomes one fact\<close>

definition sources_of :: "LoadedDocument list \<Rightarrow> DocCategory \<Rightarrow> SourceLocation list" where
  "sources_of docs cat = map doc_Source (filter (\<lambda>d. ClassifyDocument d = cat) docs)"

lemma foldl_schemas:
  assumes step: "\<And>w x. \<exists>y. f w x = w\<lparr>w_Schemas := y\<rparr>"
  shows "\<exists>y. foldl f w xs = w\<lparr>w_Schemas := y\<rparr>"
proof (induction xs arbitrary: w)
  case Nil
  show ?case by (intro exI[of _ "w_Schemas w"]) simp
next
  case (Cons x xs)
  obtain y where y: "f w x = w\<lparr>w_Schemas := y\<rparr>" using step by blast
  show ?case using Cons.IH[of "w\<lparr>w_Schemas := y\<rparr>"] by (simp add: y)
qed

lemma maybe_schema: "\<exists>y. (case m of Some sch \<Rightarrow> add_schema hs sch w | None \<Rightarrow> w) = w\<lparr>w_Schemas := y\<rparr>"
proof (cases m)
  case None
  then show ?thesis by (intro exI[of _ "w_Schemas w"]) simp
qed (auto simp: add_schema_def)

lemma version_schemas_shape: "\<exists>x. version_schemas hs vms w = w\<lparr>w_Schemas := x\<rparr>"
  unfolding version_schemas_def by (intro foldl_schemas maybe_schema)

lemma step_schemas_shape: "\<exists>x. step_schemas hs sms w = w\<lparr>w_Schemas := x\<rparr>"
  unfolding step_schemas_def by (intro foldl_schemas maybe_schema)

lemma version_schemas_facts [simp]:
  "w_CRDs (version_schemas hs vms w) = w_CRDs w"
  "w_XRDs (version_schemas hs vms w) = w_XRDs w"
  "w_Compositions (version_schemas hs vms w) = w_Compositions w"
  "w_Functions (version_schemas hs vms w) = w_Functions w"
  "w_Providers (version_schemas hs vms w) = w_Providers w"
  "w_Configurations (version_schemas hs vms w) = w_Configurations w"
  "w_Resources (version_schemas hs vms w) = w_Resources w"
  "w_ArgoApps (version_schemas hs vms w) = w_ArgoApps w"
  "w_ArgoProjects (version_schemas hs vms w) = w_ArgoProjects w"
  "w_ArgoAppSets (version_schemas hs vms w) = w_ArgoAppSets w"
  using version_schemas_shape[of hs vms w] by auto

lemma step_schemas_facts [simp]:
  "w_CRDs (step_schemas hs sms w) = w_CRDs w"
  "w_XRDs (step_schemas hs sms w) = w_XRDs w"
  "w_Compositions (step_schemas hs sms w) = w_Compositions w"
  "w_Functions (step_schemas hs sms w) = w_Functions w"
  "w_Providers (step_schemas hs sms w) = w_Providers w"
  "w_Configurations (step_schemas hs sms w) = w_Configurations w"
  "w_Resources (step_schemas hs sms w) = w_Resources w"
  "w_ArgoApps (step_schemas hs sms w) = w_ArgoApps w"
  "w_ArgoProjects (step_schemas hs sms w) = w_ArgoProjects w"
  "w_ArgoAppSets (step_schemas hs sms w) = w_ArgoAppSets w"
  using step_schemas_shape[of hs sms w] by auto

definition adds :: "LoadedDocument \<Rightarrow> World \<Rightarrow> World \<Rightarrow> bool" where
  "adds d w w' \<longleftrightarrow>
     tracked w' = (\<lambda>cat. tracked w cat @ sources_of [d] cat) \<and>
     w_ArgoApps w' = w_ArgoApps w @ map parse_application (filter (\<lambda>d. ClassifyDocument d = CatArgoApplication) [d]) \<and>
     w_ArgoAppSets w' = w_ArgoAppSets w @ map parse_appset (filter (\<lambda>d. ClassifyDocument d = CatArgoApplicationSet) [d])"

lemma addCRD_adds: "ClassifyDocument d = CatCRD \<Longrightarrow> addCRD hs d w = Inr w' \<Longrightarrow> adds d w w'"
  by (auto simp: addCRD_def adds_def tracked_def sources_of_def Let_def fun_eq_iff split: option.splits DocCategory.splits)

lemma addXRD_adds: "ClassifyDocument d = CatXRD \<Longrightarrow> addXRD hs d w = Inr w' \<Longrightarrow> adds d w w'"
  by (auto simp: addXRD_def adds_def tracked_def sources_of_def Let_def fun_eq_iff split: option.splits DocCategory.splits)

lemma addComposition_adds: "ClassifyDocument d = CatComposition \<Longrightarrow> addComposition hs d w = Inr w' \<Longrightarrow> adds d w w'"
  by (auto simp: addComposition_def adds_def tracked_def sources_of_def Let_def fun_eq_iff split: option.splits DocCategory.splits)

lemma parse_sources [simp]:
  "app_Source (parse_application d) = doc_Source d" "proj_Source (parse_project d) = doc_Source d"
  "aset_Source (parse_appset d) = doc_Source d"
  by (auto simp: parse_application_def read_app_metadata_def read_app_spec_def parse_project_def parse_appset_def
      zero_ArgoApplication_def Let_def split: option.splits)

lemma add_app_adds:
  "ClassifyDocument d = CatArgoApplication \<Longrightarrow> adds d (bs_world s) (bs_world (add_app (parse_application d) s))"
  by (auto simp: adds_def add_app_def tracked_def sources_of_def fun_eq_iff split: DocCategory.splits)

lemma adds_keeps: "adds d w v \<Longrightarrow> keeps v u \<Longrightarrow> adds d w u"
  by (simp add: adds_def keeps_def)

lemma addFunction_adds: "ClassifyDocument d = CatFunction \<Longrightarrow> adds d w (addFunction fns d w)"
  by (auto simp: addFunction_def adds_def tracked_def sources_of_def fun_eq_iff split: DocCategory.splits)

lemma addProvider_adds: "ClassifyDocument d = CatProvider \<Longrightarrow> adds d w (addProvider d w)"
  by (auto simp: addProvider_def adds_def tracked_def sources_of_def fun_eq_iff split: DocCategory.splits)

lemma addConfiguration_adds: "ClassifyDocument d = CatConfiguration \<Longrightarrow> adds d w (addConfiguration d w)"
  by (auto simp: addConfiguration_def adds_def tracked_def sources_of_def fun_eq_iff split: DocCategory.splits)

lemma addArgoAppProject_adds: "ClassifyDocument d = CatArgoAppProject \<Longrightarrow> adds d w (addArgoAppProject d w)"
  by (auto simp: addArgoAppProject_def adds_def tracked_def sources_of_def fun_eq_iff split: DocCategory.splits)

lemma addArgoApplicationSet_adds: "ClassifyDocument d = CatArgoApplicationSet \<Longrightarrow> adds d w (addArgoApplicationSet d w)"
  by (auto simp: addArgoApplicationSet_def adds_def tracked_def sources_of_def fun_eq_iff split: DocCategory.splits)

lemma addResource_adds: "ClassifyDocument d = CatResource \<Longrightarrow> adds d w (addResource d w)"
  by (auto simp: addResource_def adds_def tracked_def sources_of_def fun_eq_iff split: DocCategory.splits)

lemmas handler_adds = addFunction_adds addProvider_adds addConfiguration_adds addArgoAppProject_adds
  addArgoApplicationSet_adds addResource_adds addCRD_adds addXRD_adds addComposition_adds

lemma lift_err_Inr: "lift_err f s = Some (Inr s') \<longleftrightarrow> (\<exists>w. f (bs_world s) = Inr w \<and> s' = s\<lparr>bs_world := w\<rparr>)"
  by (cases "f (bs_world s)") (auto simp: lift_err_def)

lemma build_doc_adds:
  assumes "build_doc env opts d s = Some (Inr s')"
  shows "adds d (bs_world s) (bs_world s')"
proof (cases "ClassifyDocument d")
  case CatArgoApplication
  then show ?thesis
    using assms adds_keeps[OF add_app_adds keeps_render_app]
    by (auto simp: build_doc_def addArgoApplication_def Let_def)
next
  case CatCRD
  with assms show ?thesis by (auto simp: build_doc_def lift_err_Inr handler_adds)
next
  case CatXRD
  with assms show ?thesis by (auto simp: build_doc_def lift_err_Inr handler_adds)
next
  case CatComposition
  with assms show ?thesis by (auto simp: build_doc_def lift_err_Inr handler_adds)
qed (use assms in \<open>auto simp: build_doc_def on_world_def handler_adds\<close>)

lemma build_docs_adds:
  "build_docs env opts docs s = Some (Inr s') \<Longrightarrow>
   tracked (bs_world s') = (\<lambda>cat. tracked (bs_world s) cat @ sources_of docs cat) \<and>
   w_ArgoApps (bs_world s') = w_ArgoApps (bs_world s) @ map parse_application (filter (\<lambda>d. ClassifyDocument d = CatArgoApplication) docs) \<and>
   w_ArgoAppSets (bs_world s') = w_ArgoAppSets (bs_world s) @ map parse_appset (filter (\<lambda>d. ClassifyDocument d = CatArgoApplicationSet) docs)"
proof (induction docs arbitrary: s)
  case Nil
  then show ?case by (simp add: sources_of_def)
next
  case (Cons d docs)
  then obtain s1 where s1: "build_doc env opts d s = Some (Inr s1)" "build_docs env opts docs s1 = Some (Inr s')"
    by (auto split: option.splits sum.splits)
  show ?case using Cons.IH[OF s1(2)] build_doc_adds[OF s1(1)] by (simp add: adds_def sources_of_def fun_eq_iff)
qed

text \<open>Expansion appends the generated Applications, in order, and nothing else.\<close>

definition expands :: "World \<Rightarrow> World \<Rightarrow> ArgoApplication list \<Rightarrow> bool" where
  "expands w w' apps \<longleftrightarrow>
     (\<forall>cat. cat \<noteq> CatArgoApplication \<longrightarrow> tracked w' cat = tracked w cat) \<and> schema_view w' = schema_view w \<and>
     w_ArgoApps w' = w_ArgoApps w @ apps \<and> w_ArgoAppSets w' = w_ArgoAppSets w"

lemma expands_trans: "expands a b xs \<Longrightarrow> expands b c ys \<Longrightarrow> expands a c (xs @ ys)"
  by (simp add: expands_def)

lemma fold_opt_expands:
  assumes step: "\<And>s x s'. f s x = Some s' \<Longrightarrow> expands (bs_world s) (bs_world s') (g x)"
  shows "fold_opt f s xs = Some s' \<Longrightarrow> expands (bs_world s) (bs_world s') (concat (map g xs))"
proof (induction xs arbitrary: s)
  case Nil
  then show ?case by (simp add: expands_def)
next
  case (Cons x xs)
  then obtain s1 where s1: "f s x = Some s1" "fold_opt f s1 xs = Some s'" by (auto split: option.splits)
  show ?case using expands_trans[OF step[OF s1(1)] Cons.IH[OF s1(2)]] by simp
qed

lemma add_app_expands: "expands (bs_world s) (bs_world (add_app app s)) [app]"
  by (auto simp: expands_def add_app_def tracked_def schema_view_def split: DocCategory.splits)

lemma expands_keeps: "expands a b xs \<Longrightarrow> keeps b c \<Longrightarrow> expands a c xs"
  by (simp add: expands_def keeps_def)

lemma expand_one_expands:
  assumes "expand_one env opts s aset = Some s'"
  shows "expands (bs_world s) (bs_world s') (exp_Applications (ExpandAppSet (be_glob env) aset (bo_AppSetContext opts)))"
proof -
  have "expands (bs_world s) (bs_world s') [app]" if "render_app env opts app fl (add_app app s) = Some s'" for s s' app fl
    by (rule expands_keeps[OF add_app_expands keeps_render_app[OF that]])
  from fold_opt_expands[of "\<lambda>s app. render_app env opts app fl (add_app app s)" "\<lambda>app. [app]" for fl, OF this]
  show ?thesis using assms by (fastforce simp: expand_one_def Let_def)
qed

lemma expandAppSets_expands:
  "expandAppSets env opts s = Some s' \<Longrightarrow>
   expands (bs_world s) (bs_world s')
     (concat (map (\<lambda>aset. exp_Applications (ExpandAppSet (be_glob env) aset (bo_AppSetContext opts))) (w_ArgoAppSets (bs_world s))))"
  unfolding expandAppSets_def by (rule fold_opt_expands[OF expand_one_expands])

lemma build_init_empty: "tracked (build_init opts) = (\<lambda>cat. [])" "w_ArgoApps (build_init opts) = []" "w_ArgoAppSets (build_init opts) = []"
  by (auto simp: build_init_def NewWorld_def tracked_def Let_def fun_eq_iff split: DocCategory.splits)

text \<open>
  C13: a successful build accounts for every document.  For each category other
  than Applications the World has one fact for each document of that category, in
  the order of the documents and with their locations; resources that were rendered or
  produced carry a provenance and come on top.  The Applications are the ones
  the documents declare, followed by what the ApplicationSets expand to.
\<close>

theorem Build_accounts:
  assumes "Build env opts st docs = Some (Inr w)"
  shows "(\<forall>cat. cat \<noteq> CatArgoApplication \<longrightarrow> tracked w cat = sources_of docs cat) \<and>
         w_ArgoApps w =
           map parse_application (filter (\<lambda>d. ClassifyDocument d = CatArgoApplication) docs) @
           (if bo_SkipAppSetExpand opts then []
            else concat (map (\<lambda>d. exp_Applications (ExpandAppSet (be_glob env) (parse_appset d) (bo_AppSetContext opts)))
                   (filter (\<lambda>d. ClassifyDocument d = CatArgoApplicationSet) docs)))"
proof -
  let ?s0 = "\<lparr>bs_world = build_init opts, bs_diags = [], bs_helm = None, bs_kustomize = None, bs_crossplane = None, bs_host = st\<rparr>"
  obtain s s1 where s: "build_docs env opts docs ?s0 = Some (Inr s)"
    and s1: "(if bo_SkipAppSetExpand opts then Some s else expandAppSets env opts s) = Some s1"
    and w: "build_passes env opts docs s1 = Some w"
    using assms by (auto simp: Build_def split: option.splits sum.splits)
  note d = build_docs_adds[OF s] and k = keeps_passes[OF w]
  show ?thesis
  proof (cases "bo_SkipAppSetExpand opts")
    case True
    then show ?thesis using s1 d k by (simp add: keeps_def build_init_empty)
  next
    case False
    then have "expandAppSets env opts s = Some s1" using s1 by simp
    from expandAppSets_expands[OF this] False d k show ?thesis
      by (simp add: keeps_def expands_def build_init_empty comp_def)
  qed
qed

section \<open>When a build fails\<close>

definition lacks_spec :: "LoadedDocument \<Rightarrow> bool" where
  "lacks_spec d \<longleftrightarrow> ClassifyDocument d \<in> {CatCRD, CatXRD, CatComposition} \<and> getMap (doc_Raw d) ''spec'' = None"

definition missing_spec :: "LoadedDocument \<Rightarrow> string" where
  "missing_spec d =
     (case ClassifyDocument d of
        CatCRD \<Rightarrow> ''CRD missing spec'' | CatXRD \<Rightarrow> ''XRD missing spec'' | _ \<Rightarrow> ''Composition missing spec'')"

lemma build_doc_error:
  "lacks_spec d \<Longrightarrow> build_doc env opts d s = Some (Inl (missing_spec d))"
  by (auto simp: lacks_spec_def missing_spec_def build_doc_def lift_err_def addCRD_def addXRD_def addComposition_def)

lemma build_doc_ok:
  "\<not> lacks_spec d \<Longrightarrow> (\<exists>s'. build_doc env opts d s = Some (Inr s')) \<or> build_doc env opts d s = None \<and> \<not> bo_SkipRender opts"
  by (cases "ClassifyDocument d")
    (auto simp: lacks_spec_def build_doc_def lift_err_def addCRD_def addXRD_def addComposition_def Let_def
      addArgoApplication_def render_app_def split: option.splits)

lemma build_docs_error:
  "case find lacks_spec docs of
     Some d \<Rightarrow> build_docs env opts docs s = Some (Inl (doc_error d (missing_spec d))) \<or>
               build_docs env opts docs s = None \<and> \<not> bo_SkipRender opts
   | None \<Rightarrow> (\<exists>s'. build_docs env opts docs s = Some (Inr s')) \<or>
             build_docs env opts docs s = None \<and> \<not> bo_SkipRender opts"
proof (induction docs arbitrary: s)
  case (Cons d docs)
  show ?case
  proof (cases "lacks_spec d")
    case True
    then show ?thesis by (simp add: build_doc_error)
  next
    case False
    then show ?thesis using build_doc_ok[OF False, of env opts s] Cons.IH by (fastforce split: option.splits)
  qed
qed simp

text \<open>
  C27: a build fails exactly on the first document that must have a specification
  and has none, naming that document; and never fails otherwise.  A panic of the
  schema walker can only pre-empt the error while rendering is on.
\<close>

theorem Build_fails_on_first_missing_spec:
  "case find lacks_spec docs of
     Some d \<Rightarrow> Build env opts st docs = Some (Inl (doc_error d (missing_spec d))) \<or>
               Build env opts st docs = None \<and> \<not> bo_SkipRender opts
   | None \<Rightarrow> \<nexists>m. Build env opts st docs = Some (Inl m)"
  using build_docs_error[where docs = docs and env = env and opts = opts
      and s = "\<lparr>bs_world = build_init opts, bs_diags = [], bs_helm = None, bs_kustomize = None, bs_crossplane = None, bs_host = st\<rparr>"]
  by (auto simp: Build_def split: option.splits if_splits)

section \<open>Builds without schemas succeed\<close>

lemma index_crds_empty: "map crd_Source cs = [] \<Longrightarrow> index_crds p sch cs acc = acc"
  by (simp add: index_crds_def)

lemma field_validation_total:
  assumes "tracked w CatCRD = []" "tracked w CatXRD = []" "w_SchemaIndex w = None"
  shows "\<exists>w'. EnrichFieldValidation ff w = Some w'"
  using assms by (simp add: EnrichFieldValidation_def BuildSchemaIndex_def tracked_def index_crds_empty Let_def)

text \<open>The passes never set the schema index, so a World without definitions is validated without a panic.\<close>

lemma schema_index_passes [simp]:
  "w_SchemaIndex (EnrichTrajectoryData w) = w_SchemaIndex w"
  "w_SchemaIndex (synthesizeExternalSecretTargets w) = w_SchemaIndex w"
  "w_SchemaIndex (template_checks env w) = w_SchemaIndex w"
  "w_SchemaIndex (enrichOwningApp fs w) = w_SchemaIndex w"
  by (simp_all add: enrich_closed ensureKnobDefaults_def synthesizeExternalSecretTargets_def template_checks_def
      checkCompositionOrphanSGRef_def checkCompositionComputedBlockAlias_def checkCompositionDuplicateEnv_def
      checkCompositionCanonicalForm_def checkCompositionTemplates_def enrichOwningApp_def Let_def)

lemma build_passes_total:
  assumes "bo_SkipRender opts" "w_SchemaIndex (bs_world s) = None" "tracked (bs_world s) CatCRD = []" "tracked (bs_world s) CatXRD = []"
  shows "\<exists>w. build_passes env opts docs s = Some w"
proof -
  let ?w = "template_checks env (enrichOwningApp (be_fs env) (bs_world s))"
  have "keeps (bs_world s) (EnrichTrajectoryData (synthesizeExternalSecretTargets ?w))"
    by (rule keeps_trans[OF keeps_owner keeps_trans[OF keeps_template_checks keeps_trans[OF keeps_synth keeps_trajectory]]])
  then have "tracked (EnrichTrajectoryData (synthesizeExternalSecretTargets ?w)) = tracked (bs_world s)" by (simp add: keeps_def)
  then show ?thesis
    using assms field_validation_total[of "EnrichTrajectoryData (synthesizeExternalSecretTargets ?w)"]
    by (simp add: build_passes_def on_world_def)
qed

definition demo_opts :: BuilderOpts where
  "demo_opts = \<lparr>bo_SkipRender = True, bo_HelmBin = [], bo_KustomizeBin = [], bo_CrossplaneBin = [], bo_SkipAppSetExpand = False,
     bo_HelmCacheDir = [], bo_AppSetContext = \<lparr>ctx_PRFixtures = [], ctx_Root = []\<rparr>, bo_SSAMPMode = [], bo_Config = None\<rparr>"

definition demo_build_env :: BuildEnv where
  "demo_build_env = \<lparr>be_host = demo_host, be_fs = \<lparr>fs_Getwd = None, fs_Stat = (\<lambda>_. None)\<rparr>, be_ff = (\<lambda>_. []), be_hash = (\<lambda>_. []),
     be_fns = knownFunctions, be_tparse = (\<lambda>fs t. None), be_decode = (\<lambda>_. []), be_marshal = (\<lambda>_. Inl []), be_glob = (\<lambda>_. [])\<rparr>"

definition demo_doc :: LoadedDocument where
  "demo_doc = \<lparr>doc_Source = \<lparr>sl_File = ''a.yaml'', sl_Line = 1, sl_Column = 1\<rparr>, doc_APIVersion = ''v1'', doc_Kind = ''ConfigMap'',
     doc_Raw = [(''kind'', JStr ''ConfigMap'')]\<rparr>"

lemma demo_class: "ClassifyDocument demo_doc = CatResource"
  by (simp add: ClassifyDocument_def demo_doc_def Let_def)

lemma resource_builds:
  assumes "bo_SkipRender opts" "ClassifyDocument d = CatResource"
  shows "\<exists>w. Build demo_build_env opts st [d] = Some (Inr w)"
proof -
  let ?s = "\<lparr>bs_world = addResource d (build_init opts), bs_diags = [], bs_helm = None, bs_kustomize = None,
      bs_crossplane = None, bs_host = st\<rparr>"
  have idx: "w_SchemaIndex (bs_world ?s) = None" by (simp add: addResource_def build_init_def NewWorld_def Let_def)
  have crds: "tracked (bs_world ?s) CatCRD = []" "tracked (bs_world ?s) CatXRD = []"
    by (simp_all add: addResource_def build_init_def NewWorld_def tracked_def Let_def)
  have sets: "w_ArgoAppSets (bs_world ?s) = []" by (simp add: addResource_def build_init_def NewWorld_def Let_def)
  have "\<exists>w. build_passes demo_build_env opts [d] ?s = Some w"
    by (rule build_passes_total[OF assms(1) idx crds])
  then show ?thesis
    using sets assms(2) by (auto simp: Build_def build_doc_def on_world_def expandAppSets_def)
qed

lemmas demo_builds = resource_builds[OF _ demo_class]

lemma demo_opts_skip [simp]: "bo_SkipRender demo_opts"
  by (simp add: demo_opts_def)

theorem Build_accounts_witness:
  "\<exists>w. Build demo_build_env demo_opts \<lparr>hs_tick = 0, hs_disk = []\<rparr> [demo_doc] = Some (Inr w) \<and>
     tracked w CatResource = [\<lparr>sl_File = ''a.yaml'', sl_Line = 1, sl_Column = 1\<rparr>] \<and> w_ArgoApps w = []"
proof -
  obtain w where w: "Build demo_build_env demo_opts \<lparr>hs_tick = 0, hs_disk = []\<rparr> [demo_doc] = Some (Inr w)"
    using demo_builds[OF demo_opts_skip] by blast
  from Build_accounts[OF w] have "tracked w CatResource = sources_of [demo_doc] CatResource" "w_ArgoApps w = []"
    by (simp_all add: demo_class)
  then show ?thesis using w by (simp add: sources_of_def demo_class) (simp add: demo_doc_def)
qed

section \<open>Secrets of external secrets\<close>

definition targets :: "ResourceInfo list \<Rightarrow> (string \<times> string) set" where
  "targets rs = {(ri_Namespace r, externalSecretTargetName r) | r. r \<in> set rs \<and> isExternalSecret r \<and> externalSecretTargetName r \<noteq> []}"

lemma targets_simps [simp]:
  "targets [] = {}"
  "targets (r # rs) =
     (if isExternalSecret r \<and> externalSecretTargetName r \<noteq> [] then {(ri_Namespace r, externalSecretTargetName r)} else {}) \<union> targets rs"
  by (auto simp: targets_def)

lemma synth_fold:
  "\<exists>seen' new. foldl synth_step (seen, acc) rs = (seen', acc @ new) \<and>
     list_all (\<lambda>r. ri_Kind r = ''Secret'') new \<and> distinct (secret_keys new) \<and>
     set (secret_keys new) = targets rs - set seen"
proof (induction rs arbitrary: seen acc)
  case Nil
  show ?case by (auto simp: secret_keys_def)
next
  case (Cons r rs)
  let ?key = "(ri_Namespace r, externalSecretTargetName r)"
  show ?case
  proof (cases "isExternalSecret r \<and> externalSecretTargetName r \<noteq> [] \<and> ?key \<notin> set seen")
    case False
    then have "synth_step (seen, acc) r = (seen, acc)" by (auto simp: synth_step_def Let_def)
    then show ?thesis using Cons.IH[of seen acc] False by (auto intro!: exI)
  next
    case True
    define x where "x = \<lparr>ri_APIVersion = ''v1'', ri_Kind = ''Secret'', ri_Name = externalSecretTargetName r,
        ri_Namespace = ri_Namespace r, ri_Annotations = [], ri_Labels = [], ri_Source = ri_Source r, ri_Raw = [],
        ri_Provenance = ''produced:externalsecret:'' @ ri_Name r, ri_OwningApp = ri_OwningApp r\<rparr>"
    have step: "synth_step (seen, acc) r = (?key # seen, acc @ [x])"
      using True by (simp add: synth_step_def Let_def x_def)
    obtain seen' new where new: "foldl synth_step (?key # seen, acc @ [x]) rs = (seen', (acc @ [x]) @ new)"
      "list_all (\<lambda>r. ri_Kind r = ''Secret'') new" "distinct (secret_keys new)" "set (secret_keys new) = targets rs - set (?key # seen)"
      using Cons.IH[of "?key # seen" "acc @ [x]"] by blast
    have "secret_keys (x # new) = ?key # secret_keys new" by (simp add: secret_keys_def x_def)
    then show ?thesis using new True step
      by (intro exI[of _ seen'] exI[of _ "x # new"]) (auto simp: x_def)
  qed
qed

text \<open>
  The Secrets synthesised for external secrets.  They come after the
  resources that were there, they are Secrets, no two of them and none of them and
  a committed Secret share a namespace and name, and together with the committed
  ones they cover every target.  A second pass adds nothing.
\<close>

theorem synthesizeExternalSecretTargets_exact:
  "\<exists>new. w_Resources (synthesizeExternalSecretTargets w) = w_Resources w @ new \<and>
     list_all (\<lambda>r. ri_Kind r = ''Secret'') new \<and> distinct (secret_keys new) \<and>
     set (secret_keys new) = targets (w_Resources w) - set (secret_keys (w_Resources w)) \<and>
     synthesizeExternalSecretTargets (synthesizeExternalSecretTargets w) = synthesizeExternalSecretTargets w"
proof -
  obtain seen' new where new: "foldl synth_step (secret_keys (w_Resources w), []) (w_Resources w) = (seen', new)"
    "list_all (\<lambda>r. ri_Kind r = ''Secret'') new" "distinct (secret_keys new)"
    "set (secret_keys new) = targets (w_Resources w) - set (secret_keys (w_Resources w))"
    using synth_fold[of "secret_keys (w_Resources w)" "[]" "w_Resources w"] by auto
  let ?rs = "w_Resources w @ new"
  have none: "targets new = {}" using new(2) by (auto simp: targets_def list_all_iff isExternalSecret_def)
  obtain seen'' new' where again: "foldl synth_step (secret_keys ?rs, []) ?rs = (seen'', new')"
    "set (secret_keys new') = targets ?rs - set (secret_keys ?rs)" "list_all (\<lambda>r. ri_Kind r = ''Secret'') new'"
    using synth_fold[of "secret_keys ?rs" "[]" ?rs] by auto
  have "targets ?rs = targets (w_Resources w)" using none by (auto simp: targets_def)
  moreover have "set (secret_keys ?rs) = set (secret_keys (w_Resources w)) \<union> set (secret_keys new)" by (auto simp: secret_keys_def)
  ultimately have "set (secret_keys new') = {}" unfolding again(2) new(4) by simp
  then have "secret_keys new' = []" by simp
  then have "new' = []" using again(3) by (cases new') (auto simp: secret_keys_def)
  then show ?thesis using new again(1) by (intro exI[of _ new]) (simp add: synthesizeExternalSecretTargets_def)
qed

end
