(* ===== verification/WorldTypes.thy ===== *)
theory WorldTypes
  imports BuildWorld
begin

text \<open>
  The typing discipline of a World: schemas are stored under the digest of their text, and
  every digest a CRD version, an XRD version or a pipeline step carries is the key of a
  stored schema.  \<^verbatim>\<open>Build\<close> establishes it.
\<close>

section \<open>Well-typed Worlds\<close>

definition refers :: "(string \<times> SchemaInfo) list \<Rightarrow> string \<Rightarrow> bool" where
  "refers schemas d = (d = [] \<or> d \<in> fst ` set schemas)"

definition wf_view ::
  "(obj \<Rightarrow> string) \<Rightarrow> (string \<times> SchemaInfo) list \<times> CRDVersion list list \<times> CRDVersion list list \<times> PipelineStep list list \<Rightarrow> bool" where
  "wf_view hs v =
     (case v of (schemas, crds, xrds, pipelines) \<Rightarrow>
        distinct (map fst schemas) \<and>
        (\<forall>(d, s) \<in> set schemas. sch_Digest s = d \<and> hs (sch_Schema s) = d) \<and>
        (\<forall>vs \<in> set crds. \<forall>v \<in> set vs. refers schemas (cv_SchemaDigest v)) \<and>
        (\<forall>vs \<in> set xrds. \<forall>v \<in> set vs. refers schemas (cv_SchemaDigest v)) \<and>
        (\<forall>ps \<in> set pipelines. \<forall>p \<in> set ps. refers schemas (ps_InputDigest p)))"

definition wf_schemas :: "(obj \<Rightarrow> string) \<Rightarrow> World \<Rightarrow> bool" where
  "wf_schemas hs w = wf_view hs (schema_view w)"

lemma wf_schemas_keeps: "keeps w w' \<Longrightarrow> wf_schemas hs w' = wf_schemas hs w"
  by (simp add: wf_schemas_def keeps_def)

lemma wf_view_snoc:
  "wf_view hs (S, C, X, P) \<Longrightarrow> \<forall>v \<in> set vs. refers S (cv_SchemaDigest v) \<Longrightarrow> wf_view hs (S, C @ [vs], X, P)"
  "wf_view hs (S, C, X, P) \<Longrightarrow> \<forall>v \<in> set vs. refers S (cv_SchemaDigest v) \<Longrightarrow> wf_view hs (S, C, X @ [vs], P)"
  "wf_view hs (S, C, X, P) \<Longrightarrow> \<forall>p \<in> set ps. refers S (ps_InputDigest p) \<Longrightarrow> wf_view hs (S, C, X, P @ [ps])"
  by (auto simp: wf_view_def)

section \<open>Storing schemas\<close>

lemma refers_mono: "refers m d \<Longrightarrow> fst ` set m \<subseteq> fst ` set m' \<Longrightarrow> refers m' d"
  by (auto simp: refers_def)

lemma wf_view_mput:
  assumes "wf_view hs (S, C, X, P)"
  shows "wf_view hs (mput (hs sch) \<lparr>sch_Digest = hs sch, sch_Schema = sch\<rparr> S, C, X, P)"
proof -
  let ?S = "mput (hs sch) \<lparr>sch_Digest = hs sch, sch_Schema = sch\<rparr> S"
  have sub: "fst ` set S \<subseteq> fst ` set ?S" by auto
  have "\<forall>(d, s) \<in> set ?S. sch_Digest s = d \<and> hs (sch_Schema s) = d"
    using assms by (auto simp: wf_view_def dest!: mput_entries)
  moreover have "refers S d \<Longrightarrow> refers ?S d" for d by (rule refers_mono[OF _ sub])
  ultimately show ?thesis using assms unfolding wf_view_def prod.case by (simp add: mput_distinct)
qed

lemma add_schema_wf: "wf_schemas hs w \<Longrightarrow> wf_schemas hs (add_schema hs sch w)"
  using wf_view_mput[of hs "w_Schemas w"] by (simp add: wf_schemas_def schema_view_def add_schema_def)

lemma add_schema_keys: "fst ` set (w_Schemas (add_schema hs sch w)) = insert (hs sch) (fst ` set (w_Schemas w))"
  by (simp add: add_schema_def)

text \<open>A loop that stores an optional schema of every element.\<close>

definition store_all :: "(obj \<Rightarrow> string) \<Rightarrow> ('a \<Rightarrow> obj option) \<Rightarrow> World \<Rightarrow> 'a list \<Rightarrow> World" where
  "store_all hs g w xs = foldl (\<lambda>w x. case g x of Some sch \<Rightarrow> add_schema hs sch w | None \<Rightarrow> w) w xs"

lemma store_all_Cons:
  "store_all hs g w (x # xs) = store_all hs g (case g x of Some sch \<Rightarrow> add_schema hs sch w | None \<Rightarrow> w) xs"
  by (simp add: store_all_def)

lemma store_all_wf: "wf_schemas hs w \<Longrightarrow> wf_schemas hs (store_all hs g w xs)"
proof (induction xs arbitrary: w)
  case (Cons x xs)
  then show ?case by (cases "g x") (simp_all add: store_all_Cons add_schema_wf)
qed (simp add: store_all_def)

lemma store_all_keys:
  "fst ` set (w_Schemas (store_all hs g w xs)) = fst ` set (w_Schemas w) \<union> {hs sch |x sch. x \<in> set xs \<and> g x = Some sch}"
proof (induction xs arbitrary: w)
  case (Cons x xs)
  then show ?case by (cases "g x") (auto simp: store_all_Cons add_schema_keys)
qed (simp add: store_all_def)

lemma version_store: "version_schemas hs vms w = store_all hs (\<lambda>vm. getMap vm ''schema'') w vms"
  by (simp add: version_schemas_def store_all_def)

lemma step_store: "step_schemas hs sms w = store_all hs (\<lambda>sm. getMap sm ''input'') w sms"
  by (simp add: step_schemas_def store_all_def)

lemma version_refers:
  "vm \<in> set vms \<Longrightarrow> refers (w_Schemas (version_schemas hs vms w)) (version_digest hs vm)"
  by (auto simp: refers_def version_digest_def version_store store_all_keys split: option.splits)

lemma step_refers:
  "sm \<in> set sms \<Longrightarrow> refers (w_Schemas (step_schemas hs sms w)) (ps_InputDigest (parse_step hs sm))"
  by (auto simp: refers_def parse_step_def step_store store_all_keys Let_def split: option.splits)

lemma version_schemas_view:
  "wf_schemas hs w \<Longrightarrow>
   wf_view hs (w_Schemas (version_schemas hs vms w), map crd_Versions (w_CRDs w), map crd_Versions (w_XRDs w), map comp_Pipeline (w_Compositions w))"
  using store_all_wf[of hs w "\<lambda>vm. getMap vm ''schema''" vms]
  by (simp add: wf_schemas_def schema_view_def version_store[symmetric])

lemma step_schemas_view:
  "wf_schemas hs w \<Longrightarrow>
   wf_view hs (w_Schemas (step_schemas hs sms w), map crd_Versions (w_CRDs w), map crd_Versions (w_XRDs w), map comp_Pipeline (w_Compositions w))"
  using store_all_wf[of hs w "\<lambda>sm. getMap sm ''input''" sms]
  by (simp add: wf_schemas_def schema_view_def step_store[symmetric])

section \<open>Every document keeps it\<close>

lemma addCRD_wf: "addCRD hs d w = Inr w' \<Longrightarrow> wf_schemas hs w \<Longrightarrow> wf_schemas hs w'"
  by (auto simp: addCRD_def wf_schemas_def[of _ w'] schema_view_def Let_def version_refers split: option.splits
      intro!: wf_view_snoc(1) version_schemas_view)

lemma addXRD_wf: "addXRD hs d w = Inr w' \<Longrightarrow> wf_schemas hs w \<Longrightarrow> wf_schemas hs w'"
  by (auto simp: addXRD_def wf_schemas_def[of _ w'] schema_view_def Let_def version_refers split: option.splits
      intro!: wf_view_snoc(2) version_schemas_view)

lemma addComposition_wf:
  assumes "addComposition hs d w = Inr w'" "wf_schemas hs w"
  shows "wf_schemas hs w'"
proof -
  have "wf_view hs (w_Schemas w, map crd_Versions (w_CRDs w), map crd_Versions (w_XRDs w), map comp_Pipeline (w_Compositions w) @ [[]])"
    using assms(2) wf_view_snoc(3)[of hs _ _ _ _ "[]"] by (simp add: wf_schemas_def schema_view_def)
  then show ?thesis using assms
    by (auto simp: addComposition_def wf_schemas_def[of _ w'] schema_view_def Let_def step_refers split: option.splits
        intro!: wf_view_snoc(3) step_schemas_view)
qed

lemma other_handlers_wf:
  "wf_schemas hs (addFunction fns d w) = wf_schemas hs w" "wf_schemas hs (addProvider d w) = wf_schemas hs w"
  "wf_schemas hs (addConfiguration d w) = wf_schemas hs w" "wf_schemas hs (addArgoAppProject d w) = wf_schemas hs w"
  "wf_schemas hs (addArgoApplicationSet d w) = wf_schemas hs w" "wf_schemas hs (addResource d w) = wf_schemas hs w"
  by (simp_all add: wf_schemas_def schema_view_def addFunction_def addProvider_def addConfiguration_def
      addArgoAppProject_def addArgoApplicationSet_def addResource_def)

lemma addArgoApplication_wf:
  "addArgoApplication env opts d s = Some s' \<Longrightarrow> wf_schemas hs (bs_world s') = wf_schemas hs (bs_world s)"
proof -
  assume a: "addArgoApplication env opts d s = Some s'"
  have "wf_schemas hs (bs_world (add_app app s)) = wf_schemas hs (bs_world s)" for app
    by (simp add: wf_schemas_def schema_view_def add_app_def)
  then show ?thesis using a wf_schemas_keeps[OF keeps_render_app] by (auto simp: addArgoApplication_def Let_def)
qed

lemma build_doc_wf:
  assumes "build_doc env opts d s = Some (Inr s')" "wf_schemas (be_hash env) (bs_world s)"
  shows "wf_schemas (be_hash env) (bs_world s')"
  using assms addCRD_wf addXRD_wf addComposition_wf addArgoApplication_wf
  by (cases "ClassifyDocument d")
     (auto simp: build_doc_def lift_err_Inr on_world_def other_handlers_wf)

lemma build_docs_wf:
  "build_docs env opts docs s = Some (Inr s') \<Longrightarrow> wf_schemas (be_hash env) (bs_world s) \<Longrightarrow> wf_schemas (be_hash env) (bs_world s')"
proof (induction docs arbitrary: s)
  case (Cons d docs)
  then show ?case by (auto split: option.splits sum.splits dest: build_doc_wf)
qed simp

text \<open>
  C14: a World that \<^verbatim>\<open>Build\<close> returns is well typed: its schemas are stored under the digest of
  their own text, each once, and every digest that a CRD version, an XRD version or a
  pipeline step carries resolves to a stored schema.
\<close>

theorem Build_well_typed:
  assumes "Build env opts st docs = Some (Inr w)"
  shows "wf_schemas (be_hash env) w"
proof -
  let ?s0 = "\<lparr>bs_world = build_init opts, bs_diags = [], bs_helm = None, bs_kustomize = None, bs_crossplane = None, bs_host = st\<rparr>"
  obtain s s1 where s: "build_docs env opts docs ?s0 = Some (Inr s)"
    and s1: "(if bo_SkipAppSetExpand opts then Some s else expandAppSets env opts s) = Some s1"
    and w: "build_passes env opts docs s1 = Some w"
    using assms by (auto simp: Build_def split: option.splits sum.splits)
  have "wf_schemas (be_hash env) (build_init opts)"
    by (simp add: wf_schemas_def schema_view_def wf_view_def build_init_def NewWorld_def Let_def)
  then have "wf_schemas (be_hash env) (bs_world s)" using build_docs_wf[OF s] by simp
  moreover have "schema_view (bs_world s1) = schema_view (bs_world s)"
    using s1 expandAppSets_expands[of env opts s s1] by (auto simp: expands_def split: if_splits)
  ultimately show ?thesis using wf_schemas_keeps[OF keeps_passes[OF w]] by (simp add: wf_schemas_def)
qed

theorem Build_well_typed_witness:
  "\<exists>w. Build demo_build_env demo_opts \<lparr>hs_tick = 0, hs_disk = []\<rparr> [demo_doc] = Some (Inr w) \<and> wf_schemas (be_hash demo_build_env) w"
proof -
  obtain w where "Build demo_build_env demo_opts \<lparr>hs_tick = 0, hs_disk = []\<rparr> [demo_doc] = Some (Inr w)" using demo_builds[OF demo_opts_skip] by blast
  then show ?thesis using Build_well_typed by blast
qed

end
