(* ===== verification/Trajectory.thy ===== *)
theory Trajectory
  imports IrBase
begin

text \<open>
  \<^verbatim>\<open>pkg/trajectory\<close>: the wave-by-wave simulation of an Argo CD sync.  The cluster
  state is the set of resource keys, an association-free list of distinct keys;
  the wave buckets are a map from the wave to the resources created and deleted
  in it, as in the code.
\<close>

section \<open>Model\<close>

record ResourceKey =
  rk_APIVersion :: string
  rk_Kind :: string
  rk_Namespace :: string
  rk_Name :: string

record Delta =
  d_Created :: "ResourceKey list"
  d_Updated :: "ResourceKey list"
  d_Deleted :: "ResourceKey list"

type_synonym State = "ResourceKey list"

record Step =
  st_AppName :: string
  st_Wave :: int
  st_Delta :: Delta
  st_State :: State

record waveBucket =
  wb_creates :: "ResourceInfo list"
  wb_deletes :: "ResourceInfo list"

definition KeyOf :: "ResourceInfo \<Rightarrow> ResourceKey" where
  "KeyOf r = \<lparr>rk_APIVersion = ri_APIVersion r, rk_Kind = ri_Kind r,
              rk_Namespace = ri_Namespace r, rk_Name = ri_Name r\<rparr>"

definition scopeToApp :: "ArgoApplication \<Rightarrow> ResourceInfo list \<Rightarrow> ResourceInfo list" where
  "scopeToApp app resources =
     (let ns = dest_Namespace (app_Destination app) in
      if ns = [] then resources
      else filter (\<lambda>r. ri_Namespace r = [] \<or> ri_Namespace r = ns) resources)"

definition hookDeletes :: "ResourceInfo \<Rightarrow> bool" where
  "hookDeletes r =
     (let policy = mget (ri_Annotations r) ''argocd.argoproj.io/hook-delete-policy'' in
      policy = ''HookSucceeded'' \<or> policy = ''HookFailed'')"

definition orNew :: "waveBucket option \<Rightarrow> waveBucket" where
  "orNew b = (case b of None \<Rightarrow> \<lparr>wb_creates = [], wb_deletes = []\<rparr> | Some b' \<Rightarrow> b')"

definition add_to_bucket ::
  "(int \<times> waveBucket) list \<Rightarrow> ResourceInfo \<Rightarrow> (int \<times> waveBucket) list" where
  "add_to_bucket buckets r =
     (let wave = ParseSyncWave (ri_Annotations r);
          b = orNew (map_of buckets wave);
          b1 = b\<lparr>wb_creates := wb_creates b @ [r]\<rparr>;
          b2 = (if hookDeletes r then b1\<lparr>wb_deletes := wb_deletes b1 @ [r]\<rparr> else b1)
      in mput wave b2 buckets)"

definition key_less :: "ResourceKey \<Rightarrow> ResourceKey \<Rightarrow> bool" where
  "key_less a b =
     (if rk_Kind a \<noteq> rk_Kind b then rk_Kind a < rk_Kind b
      else if rk_Namespace a \<noteq> rk_Namespace b then rk_Namespace a < rk_Namespace b
      else rk_Name a < rk_Name b)"

definition sortKeys :: "ResourceKey list \<Rightarrow> ResourceKey list" where
  "sortKeys keys = sort_slice key_less keys"

text \<open>The loop over \<^verbatim>\<open>b.creates\<close>: returns the newly created keys and the new state.\<close>

fun apply_creates :: "ResourceInfo list \<Rightarrow> State \<Rightarrow> ResourceKey list \<times> State" where
  "apply_creates [] state = ([], state)"
| "apply_creates (r # rs) state =
     (let key = KeyOf r in
      if key \<in> set state then apply_creates rs state
      else (case apply_creates rs (state @ [key]) of (created, s) \<Rightarrow> (key # created, s)))"

text \<open>The loop over \<^verbatim>\<open>b.deletes\<close>.\<close>

fun apply_deletes :: "ResourceInfo list \<Rightarrow> State \<Rightarrow> ResourceKey list \<times> State" where
  "apply_deletes [] state = ([], state)"
| "apply_deletes (r # rs) state =
     (let key = KeyOf r in
      if key \<in> set state
      then (case apply_deletes rs (filter (\<lambda>k. k \<noteq> key) state) of (deleted, s) \<Rightarrow> (key # deleted, s))
      else apply_deletes rs state)"

definition run_wave :: "string \<Rightarrow> int \<Rightarrow> waveBucket \<Rightarrow> State \<Rightarrow> Step" where
  "run_wave appName w b state =
     (let (created, s1) = apply_creates (wb_creates b) state;
          (deleted, s2) = apply_deletes (wb_deletes b) s1
      in \<lparr>st_AppName = appName, st_Wave = w,
          st_Delta = \<lparr>d_Created = sortKeys created, d_Updated = [], d_Deleted = sortKeys deleted\<rparr>,
          st_State = s2\<rparr>)"

fun run_waves :: "string \<Rightarrow> (int \<times> waveBucket) list \<Rightarrow> int list \<Rightarrow> State \<Rightarrow> Step list" where
  "run_waves appName buckets [] state = []"
| "run_waves appName buckets (w # ws) state =
     (let step = run_wave appName w (orNew (map_of buckets w)) state
      in step # run_waves appName buckets ws (st_State step))"

definition simulateApp :: "ArgoApplication \<Rightarrow> ResourceInfo list \<Rightarrow> Step list" where
  "simulateApp app resources =
     (let buckets = foldl add_to_bucket [] (scopeToApp app resources);
          sorted_waves = sort_slice (<) (map fst buckets)
      in run_waves (app_Name app) buckets sorted_waves [])"

definition app_name_less :: "ArgoApplication \<Rightarrow> ArgoApplication \<Rightarrow> bool" where
  "app_name_less a b = (app_Name a < app_Name b)"

definition Simulate :: "World \<Rightarrow> Step list" where
  "Simulate w =
     concat (map (\<lambda>app. simulateApp app (w_Resources w)) (sort_slice app_name_less (w_ArgoApps w)))"

section \<open>The comparisons are key orders\<close>

interpretation wave_order: key_order "(<)" "\<lambda>i::int. i"
  by unfold_locales simp

interpretation rkey_order: key_order key_less "\<lambda>k. (rk_Kind k, rk_Namespace k, rk_Name k)"
  by unfold_locales (auto simp: key_less_def less_prod_def')

interpretation app_order: key_order app_name_less app_Name
  by unfold_locales (simp add: app_name_less_def)

section \<open>Buckets\<close>

definition wave_of :: "ResourceInfo \<Rightarrow> int" where
  "wave_of r = ParseSyncWave (ri_Annotations r)"

lemma add_to_bucket_creates:
  "wb_creates (orNew (map_of (add_to_bucket bs r) w)) =
     wb_creates (orNew (map_of bs w)) @ (if wave_of r = w then [r] else [])"
  by (simp add: add_to_bucket_def Let_def orNew_def wave_of_def)

lemma add_to_bucket_deletes:
  "wb_deletes (orNew (map_of (add_to_bucket bs r) w)) =
     wb_deletes (orNew (map_of bs w)) @ (if wave_of r = w \<and> hookDeletes r then [r] else [])"
  by (simp add: add_to_bucket_def Let_def orNew_def wave_of_def)

lemma buckets_spec:
  "wb_creates (orNew (map_of (foldl add_to_bucket bs rs) w)) =
     wb_creates (orNew (map_of bs w)) @ filter (\<lambda>r. wave_of r = w) rs"
  "wb_deletes (orNew (map_of (foldl add_to_bucket bs rs) w)) =
     wb_deletes (orNew (map_of bs w)) @ filter (\<lambda>r. wave_of r = w \<and> hookDeletes r) rs"
  by (induction rs arbitrary: bs) (auto simp: add_to_bucket_creates add_to_bucket_deletes)

lemma buckets_keys: "fst ` set (foldl add_to_bucket bs rs) = fst ` set bs \<union> wave_of ` set rs"
  by (induction rs arbitrary: bs) (auto simp: add_to_bucket_def Let_def wave_of_def)

lemma buckets_distinct:
  "distinct (map fst bs) \<Longrightarrow> distinct (map fst (foldl add_to_bucket bs rs))"
  by (induction rs arbitrary: bs) (auto simp: add_to_bucket_def Let_def)

definition waves :: "ArgoApplication \<Rightarrow> ResourceInfo list \<Rightarrow> int list" where
  "waves app resources =
     sort_slice (<) (map fst (foldl add_to_bucket [] (scopeToApp app resources)))"

lemma waves_set: "set (waves app rs) = wave_of ` set (scopeToApp app rs)"
  using buckets_keys[of "[]" "scopeToApp app rs"] by (simp add: waves_def)

lemma waves_sorted: "sorted (waves app rs)" "distinct (waves app rs)"
  using wave_order.slice_sorted[of "map fst (foldl add_to_bucket [] (scopeToApp app rs))"]
    buckets_distinct[of "[]" "scopeToApp app rs"]
  by (simp_all add: waves_def)

section \<open>One wave\<close>

lemma apply_creates_dedup:
  "apply_creates rs state =
     (dedup_on id state (map KeyOf rs), state @ dedup_on id state (map KeyOf rs))"
proof (induction rs arbitrary: state)
  case (Cons r rs)
  have "dedup_on id (state @ [KeyOf r]) (map KeyOf rs) = dedup_on id (KeyOf r # state) (map KeyOf rs)"
    by (rule dedup_on_seen_set) auto
  then show ?case
    using Cons[of "state @ [KeyOf r]"] Cons[of state] by (simp add: Let_def id_def)
qed simp

lemma apply_creates_spec:
  assumes "apply_creates rs state = (created, s)" "distinct state"
  shows "set s = set state \<union> KeyOf ` set rs" "set created = KeyOf ` set rs - set state"
    "distinct s" "distinct created"
proof -
  have c: "created = dedup_on id state (map KeyOf rs)" "s = state @ created"
    using assms(1) by (auto simp: apply_creates_dedup)
  show set: "set created = KeyOf ` set rs - set state"
    using dedup_on_keys[of id state "map KeyOf rs"] c(1) by simp
  show "distinct created" using dedup_on_distinct_id c(1) by simp
  then show "distinct s" using set c(2) assms(2) by auto
  show "set s = set state \<union> KeyOf ` set rs" using set c(2) by auto
qed

lemma apply_deletes_state: "snd (apply_deletes rs state) = filter (\<lambda>k. k \<notin> KeyOf ` set rs) state"
proof (induction rs arbitrary: state)
  case (Cons r rs)
  have "KeyOf r \<notin> set state \<Longrightarrow>
      filter (\<lambda>k. k \<noteq> KeyOf r \<and> k \<notin> KeyOf ` set rs) state = filter (\<lambda>k. k \<notin> KeyOf ` set rs) state"
    by (rule filter_cong) auto
  then show ?case using Cons by (simp add: Let_def split_beta conj_commute)
qed simp

lemma apply_deletes_deleted:
  "set (fst (apply_deletes rs state)) = KeyOf ` set rs \<inter> set state \<and>
   distinct (fst (apply_deletes rs state))"
proof (induction rs arbitrary: state)
  case (Cons r rs)
  show ?case
    using Cons[of state] Cons[of "filter (\<lambda>k. k \<noteq> KeyOf r) state"]
    by (simp add: Let_def split_beta) auto
qed simp

lemma apply_deletes_spec:
  assumes "apply_deletes rs state = (deleted, s)"
  shows "set s = set state - KeyOf ` set rs" "set deleted = KeyOf ` set rs \<inter> set state"
    "distinct deleted" "distinct state \<Longrightarrow> distinct s"
  using apply_deletes_state[of rs state] apply_deletes_deleted[of rs state] assms by auto

lemma run_wave_spec:
  fixes name :: string and w :: int and b :: waveBucket and state :: State
  assumes "distinct state"
  defines "step \<equiv> run_wave name w b state"
  shows "st_AppName step = name" "st_Wave step = w" "d_Updated (st_Delta step) = []"
    "set (st_State step) = (set state \<union> KeyOf ` set (wb_creates b)) - KeyOf ` set (wb_deletes b)"
    "set (d_Created (st_Delta step)) = KeyOf ` set (wb_creates b) - set state"
    "set (d_Deleted (st_Delta step)) =
       KeyOf ` set (wb_deletes b) \<inter> (set state \<union> KeyOf ` set (wb_creates b))"
    "distinct (st_State step)"
    "distinct (d_Created (st_Delta step))" "distinct (d_Deleted (st_Delta step))"
proof -
  obtain created s1 where c: "apply_creates (wb_creates b) state = (created, s1)" by fastforce
  obtain deleted s2 where d: "apply_deletes (wb_deletes b) s1 = (deleted, s2)" by fastforce
  note cs = apply_creates_spec[OF c assms(1)]
  note ds = apply_deletes_spec[OF d]
  have step: "step = \<lparr>st_AppName = name, st_Wave = w,
      st_Delta = \<lparr>d_Created = sortKeys created, d_Updated = [], d_Deleted = sortKeys deleted\<rparr>,
      st_State = s2\<rparr>"
    by (simp add: step_def run_wave_def c d)
  show "st_AppName step = name" "st_Wave step = w" "d_Updated (st_Delta step) = []"
    by (simp_all add: step)
  show "set (st_State step) = (set state \<union> KeyOf ` set (wb_creates b)) - KeyOf ` set (wb_deletes b)"
    using ds(1) cs(1) by (simp add: step)
  show "set (d_Created (st_Delta step)) = KeyOf ` set (wb_creates b) - set state"
    using cs(2) by (simp add: step sortKeys_def)
  show "set (d_Deleted (st_Delta step)) =
       KeyOf ` set (wb_deletes b) \<inter> (set state \<union> KeyOf ` set (wb_creates b))"
    using ds(2) cs(1) by (simp add: step sortKeys_def)
  show "distinct (st_State step)" using ds(4) cs(3) by (simp add: step)
  show "distinct (d_Created (st_Delta step))" "distinct (d_Deleted (st_Delta step))"
    using cs(4) ds(3) by (simp_all add: step sortKeys_def)
qed

section \<open>All waves of one application\<close>

text \<open>The keys created and hook-deleted in a wave, and the abstract transition of a wave.\<close>

definition creates_in :: "ResourceInfo list \<Rightarrow> int \<Rightarrow> ResourceKey set" where
  "creates_in rs w = KeyOf ` {r \<in> set rs. wave_of r = w}"

definition deletes_in :: "ResourceInfo list \<Rightarrow> int \<Rightarrow> ResourceKey set" where
  "deletes_in rs w = KeyOf ` {r \<in> set rs. wave_of r = w \<and> hookDeletes r}"

definition wave_trans :: "ResourceInfo list \<Rightarrow> ResourceKey set \<Rightarrow> int \<Rightarrow> ResourceKey set" where
  "wave_trans rs S w = (S \<union> creates_in rs w) - deletes_in rs w"

lemma deletes_sub_creates: "deletes_in rs w \<subseteq> creates_in rs w"
  by (auto simp: deletes_in_def creates_in_def)

lemma bucket_creates_set:
  "KeyOf ` set (wb_creates (orNew (map_of (foldl add_to_bucket [] rs) w))) = creates_in rs w"
  by (subst buckets_spec(1)) (simp add: orNew_def creates_in_def)

lemma bucket_deletes_set:
  "KeyOf ` set (wb_deletes (orNew (map_of (foldl add_to_bucket [] rs) w))) = deletes_in rs w"
  by (subst buckets_spec(2)) (simp add: orNew_def deletes_in_def)

lemma run_waves_length [simp]: "length (run_waves n bs ws st) = length ws"
  by (induction ws arbitrary: st) (auto simp: Let_def)

lemma run_waves_nth:
  assumes "distinct st" "i < length ws" "bs = foldl add_to_bucket [] rs"
  shows "st_AppName (run_waves n bs ws st ! i) = n" "st_Wave (run_waves n bs ws st ! i) = ws ! i"
    "set (st_State (run_waves n bs ws st ! i)) = foldl (wave_trans rs) (set st) (take (Suc i) ws)"
    "set (d_Created (st_Delta (run_waves n bs ws st ! i))) =
       creates_in rs (ws ! i) - foldl (wave_trans rs) (set st) (take i ws)"
    "set (d_Deleted (st_Delta (run_waves n bs ws st ! i))) = deletes_in rs (ws ! i)"
proof -
  have "st_AppName (run_waves n bs ws st ! i) = n \<and> st_Wave (run_waves n bs ws st ! i) = ws ! i \<and>
    set (st_State (run_waves n bs ws st ! i)) = foldl (wave_trans rs) (set st) (take (Suc i) ws) \<and>
    set (d_Created (st_Delta (run_waves n bs ws st ! i))) =
       creates_in rs (ws ! i) - foldl (wave_trans rs) (set st) (take i ws) \<and>
    set (d_Deleted (st_Delta (run_waves n bs ws st ! i))) = deletes_in rs (ws ! i)"
    using assms
  proof (induction ws arbitrary: st i)
    case (Cons w ws)
    let ?b = "orNew (map_of bs w)"
    note rw = run_wave_spec[OF Cons.prems(1), of n w ?b]
    have b: "KeyOf ` set (wb_creates ?b) = creates_in rs w" "KeyOf ` set (wb_deletes ?b) = deletes_in rs w"
      using Cons.prems(3) bucket_creates_set bucket_deletes_set by auto
    have st: "set (st_State (run_wave n w ?b st)) = wave_trans rs (set st) w"
      using rw(4) b by (simp add: wave_trans_def)
    show ?case
    proof (cases i)
      case 0
      then show ?thesis using rw b st deletes_sub_creates[of rs w] by (auto simp: Let_def)
    next
      case (Suc j)
      then show ?thesis
        using Cons.IH[OF rw(7), of j] Cons.prems(2,3) st by (simp add: Let_def)
    qed
  qed simp
  then show "st_AppName (run_waves n bs ws st ! i) = n" "st_Wave (run_waves n bs ws st ! i) = ws ! i"
    "set (st_State (run_waves n bs ws st ! i)) = foldl (wave_trans rs) (set st) (take (Suc i) ws)"
    "set (d_Created (st_Delta (run_waves n bs ws st ! i))) =
       creates_in rs (ws ! i) - foldl (wave_trans rs) (set st) (take i ws)"
    "set (d_Deleted (st_Delta (run_waves n bs ws st ! i))) = deletes_in rs (ws ! i)"
    by auto
qed

text \<open>
  A key is live after the waves \<open>us\<close> when some wave touched it, and the last one
  that did was not also a hook deletion.
\<close>

lemma live_characterised:
  "sorted us \<Longrightarrow> distinct us \<Longrightarrow>
     k \<in> foldl (wave_trans rs) {} us \<longleftrightarrow>
       (\<exists>v \<in> set us. k \<in> creates_in rs v \<and> k \<notin> deletes_in rs v \<and>
          (\<forall>v' \<in> set us. v < v' \<longrightarrow> k \<notin> creates_in rs v'))"
proof (induction us rule: rev_induct)
  case (snoc w us)
  have lt: "\<forall>v \<in> set us. v < w"
    using snoc.prems by (auto simp: sorted_append intro: order_le_neq_trans)
  have ih: "k \<in> foldl (wave_trans rs) {} us \<longleftrightarrow>
       (\<exists>v \<in> set us. k \<in> creates_in rs v \<and> k \<notin> deletes_in rs v \<and>
          (\<forall>v' \<in> set us. v < v' \<longrightarrow> k \<notin> creates_in rs v'))"
    using snoc by (simp add: sorted_append)
  define S where "S = foldl (wave_trans rs) {} us"
  have step: "foldl (wave_trans rs) {} (us @ [w]) = (S \<union> creates_in rs w) - deletes_in rs w"
    by (simp add: S_def) (simp add: wave_trans_def)
  show ?case
  proof (cases "k \<in> creates_in rs w")
    case True
    then show ?thesis unfolding step using lt deletes_sub_creates[of rs w] by auto
  next
    case False
    then have "k \<notin> deletes_in rs w" using deletes_sub_creates by blast
    then show ?thesis unfolding step using False lt ih[folded S_def] by auto
  qed
qed simp

lemma simulateApp_waves:
  "simulateApp app rs =
     run_waves (app_Name app) (foldl add_to_bucket [] (scopeToApp app rs)) (waves app rs) []"
  by (simp add: simulateApp_def waves_def Let_def)

lemma simulateApp_map_wave: "map st_Wave (simulateApp app rs) = waves app rs"
  unfolding simulateApp_waves by (intro nth_equalityI) (auto simp: run_waves_nth)

lemma simulateApp_name: "s \<in> set (simulateApp app rs) \<Longrightarrow> st_AppName s = app_Name app"
  unfolding simulateApp_waves by (auto simp: in_set_conv_nth run_waves_nth)

lemma take_Suc_waves:
  assumes "sorted ws" "distinct ws" "i < length ws"
  shows "set (take (Suc i) ws) = {v \<in> set ws. v \<le> (ws ! i :: int)}"
proof
  show "set (take (Suc i) ws) \<subseteq> {v \<in> set ws. v \<le> ws ! i}"
  proof
    fix v assume "v \<in> set (take (Suc i) ws)"
    then obtain j where "j \<le> i" "v = ws ! j" by (auto simp: in_set_conv_nth less_Suc_eq_le)
    then show "v \<in> {v \<in> set ws. v \<le> ws ! i}" using sorted_nth_mono[OF assms(1)] assms(3) by auto
  qed
  show "{v \<in> set ws. v \<le> ws ! i} \<subseteq> set (take (Suc i) ws)"
  proof
    fix v assume "v \<in> {v \<in> set ws. v \<le> ws ! i}"
    then obtain j where j: "v = ws ! j" "j < length ws" "ws ! j \<le> ws ! i"
      by (auto simp: in_set_conv_nth)
    have "j \<le> i"
    proof (rule ccontr)
      assume "\<not> j \<le> i"
      then have "ws ! i < ws ! j"
        using assms j(2) by (metis linorder_not_le sorted_nth_mono nth_eq_iff_index_eq
            nat_less_le order_antisym_conv not_le_imp_less)
      then show False using j(3) by simp
    qed
    then show "v \<in> set (take (Suc i) ws)" using j assms(3)
      by (metis in_set_conv_nth length_take less_Suc_eq_le min_less_iff_conj nth_take Suc_leI min.absorb2)
  qed
qed

lemma step_at:
  assumes "step \<in> set (simulateApp app rs)"
  obtains i where "i < length (waves app rs)" "st_Wave step = waves app rs ! i"
    "set (st_State step) = foldl (wave_trans (scopeToApp app rs)) {} (take (Suc i) (waves app rs))"
proof -
  obtain i where i: "i < length (waves app rs)" "step = simulateApp app rs ! i"
    using assms by (auto simp: in_set_conv_nth simulateApp_waves)
  then show ?thesis
    using that[OF i(1)] run_waves_nth(2,3)[of "[]" i "waves app rs" _ "scopeToApp app rs" "app_Name app"]
    by (simp add: simulateApp_waves)
qed

text \<open>A migration job deleted by its hook in wave -1, and a deployment in wave 0.\<close>

definition demo_resources :: "ResourceInfo list" where
  "demo_resources =
     [zero_ResourceInfo\<lparr>ri_Kind := ''Deployment'', ri_Name := ''web''\<rparr>,
      zero_ResourceInfo\<lparr>ri_Kind := ''Job'', ri_Name := ''migrate'', ri_Annotations :=
        [(''argocd.argoproj.io/sync-wave'', ''-1''),
         (''argocd.argoproj.io/hook-delete-policy'', ''HookSucceeded'')]\<rparr>]"

definition demo_app :: ArgoApplication where
  "demo_app = zero_ArgoApplication\<lparr>app_Name := ''shop''\<rparr>"

lemma demo_steps:
  "map (\<lambda>s. (st_Wave s, map rk_Name (st_State s), map rk_Name (d_Deleted (st_Delta s))))
     (simulateApp demo_app demo_resources) = [(-1, [], [''migrate'']), (0, [''web''], [])]"
  by code_simp

section \<open>Properties\<close>

text \<open>
  C7.  What the simulated cluster contains after a step: a key is present exactly
  when some in-scope resource with that key has a wave up to the step's, and in
  the latest such wave no resource with that key is hook-deleted.
\<close>

theorem Simulate_state_spec:
  assumes "step \<in> set (simulateApp app rs)"
  shows "k \<in> set (st_State step) \<longleftrightarrow>
    (\<exists>r \<in> set (scopeToApp app rs). KeyOf r = k \<and> wave_of r \<le> st_Wave step \<and>
       (\<forall>r' \<in> set (scopeToApp app rs). KeyOf r' = k \<and> wave_of r' \<le> st_Wave step \<longrightarrow>
          wave_of r' \<le> wave_of r \<and> \<not> (wave_of r' = wave_of r \<and> hookDeletes r')))"
proof -
  let ?R = "scopeToApp app rs" and ?ws = "waves app rs"
  obtain i where i: "i < length ?ws" "st_Wave step = ?ws ! i"
    "set (st_State step) = foldl (wave_trans ?R) {} (take (Suc i) ?ws)"
    using step_at[OF assms] by metis
  let ?us = "take (Suc i) ?ws"
  have us: "set ?us = {v \<in> wave_of ` set ?R. v \<le> st_Wave step}"
    using take_Suc_waves[OF waves_sorted i(1)] i(2) waves_set by simp
  have "k \<in> set (st_State step) \<longleftrightarrow>
      (\<exists>v \<in> set ?us. k \<in> creates_in ?R v \<and> k \<notin> deletes_in ?R v \<and>
         (\<forall>v' \<in> set ?us. v < v' \<longrightarrow> k \<notin> creates_in ?R v'))"
    unfolding i(3) using waves_sorted[of app rs] by (intro live_characterised sorted_wrt_take distinct_take)
  also have "\<dots> \<longleftrightarrow> (\<exists>r \<in> set ?R. KeyOf r = k \<and> wave_of r \<le> st_Wave step \<and>
       (\<forall>r' \<in> set ?R. KeyOf r' = k \<and> wave_of r' \<le> st_Wave step \<longrightarrow>
          wave_of r' \<le> wave_of r \<and> \<not> (wave_of r' = wave_of r \<and> hookDeletes r')))"
    (is "?L \<longleftrightarrow> ?Q")
  proof
    assume ?L
    then obtain v r where v: "v \<le> st_Wave step" "r \<in> set ?R" "wave_of r = v" "KeyOf r = k"
      "k \<notin> deletes_in ?R v" "\<forall>v' \<in> set ?us. v < v' \<longrightarrow> k \<notin> creates_in ?R v'"
      unfolding us by (auto simp: creates_in_def)
    have "wave_of r' \<le> wave_of r \<and> \<not> (wave_of r' = wave_of r \<and> hookDeletes r')"
      if "r' \<in> set ?R" "KeyOf r' = k" "wave_of r' \<le> st_Wave step" for r'
      using v(3,5,6) that unfolding us by (force simp: creates_in_def deletes_in_def not_less)
    then show ?Q using v by (intro bexI[of _ r]) auto
  next
    assume ?Q
    then obtain r where r: "r \<in> set ?R" "KeyOf r = k" "wave_of r \<le> st_Wave step"
      "\<forall>r' \<in> set ?R. KeyOf r' = k \<and> wave_of r' \<le> st_Wave step \<longrightarrow>
         wave_of r' \<le> wave_of r \<and> \<not> (wave_of r' = wave_of r \<and> hookDeletes r')" by blast
    have "wave_of r \<in> set ?us" "k \<in> creates_in ?R (wave_of r)" "k \<notin> deletes_in ?R (wave_of r)"
      using r unfolding us by (auto simp: creates_in_def deletes_in_def)
    moreover have "k \<notin> creates_in ?R v'" if "v' \<in> set ?us" "wave_of r < v'" for v'
      using that r(4) unfolding us by (force simp: creates_in_def)
    ultimately show ?L by blast
  qed
  finally show ?thesis .
qed

theorem Simulate_state_spec_witness:
  "simulateApp demo_app demo_resources ! 1 \<in> set (simulateApp demo_app demo_resources) \<and>
   KeyOf (demo_resources ! 0) \<in> set (st_State (simulateApp demo_app demo_resources ! 1))"
proof -
  have l: "length (simulateApp demo_app demo_resources) = 2"
    using arg_cong[OF demo_steps, of length] by simp
  then have m: "simulateApp demo_app demo_resources ! 1 \<in> set (simulateApp demo_app demo_resources)"
    by simp
  have "st_Wave (simulateApp demo_app demo_resources ! 1) = 0"
    using arg_cong[OF demo_steps, of "\<lambda>xs. fst (xs ! 1)"] l by simp
  then show ?thesis
    using m Simulate_state_spec[OF m, of "KeyOf (demo_resources ! 0)"]
    by (auto simp: demo_resources_def demo_app_def scopeToApp_def zero_defs wave_of_def
        ParseSyncWave_def KeyOf_def hookDeletes_def mget_def)
qed

text \<open>
  The steps of an application have strictly increasing waves, one step for
  each wave some in-scope resource is in; and when application names are unique
  the whole trajectory is ordered by application name, then wave.
\<close>

theorem Simulate_ordered:
  assumes "distinct (map app_Name (w_ArgoApps w))"
  shows "sorted (map (\<lambda>s. (st_AppName s, st_Wave s)) (Simulate w)) \<and>
         (\<forall>app \<in> set (w_ArgoApps w).
           sorted_wrt (<) (map st_Wave (simulateApp app (w_Resources w))) \<and>
           st_Wave ` set (simulateApp app (w_Resources w)) =
             wave_of ` set (scopeToApp app (w_Resources w)))"
proof -
  have per_app: "sorted_wrt (<) (map st_Wave (simulateApp app (w_Resources w))) \<and>
      st_Wave ` set (simulateApp app (w_Resources w)) =
        wave_of ` set (scopeToApp app (w_Resources w))" for app
    using simulateApp_map_wave[of app "w_Resources w"] waves_sorted[of app "w_Resources w"]
      waves_set[of app "w_Resources w"]
    by (metis list.set_map strict_sorted_iff)
  let ?apps = "sort_slice app_name_less (w_ArgoApps w)"
  have sorted: "sorted (map app_Name ?apps)" and dist: "distinct (map app_Name ?apps)"
    using app_order.slice_sorted assms by auto
  have "sorted (map (\<lambda>s. (st_AppName s, st_Wave s))
          (concat (map (\<lambda>app. simulateApp app (w_Resources w)) apps)))"
    if "sorted (map app_Name apps)" "distinct (map app_Name apps)" for apps
    using that
  proof (induction apps)
    case (Cons a apps)
    have "sorted (map (\<lambda>s. (st_AppName s, st_Wave s)) (simulateApp a (w_Resources w)))"
    proof -
      have "map (\<lambda>s. (st_AppName s, st_Wave s)) (simulateApp a (w_Resources w)) =
          map (Pair (app_Name a)) (waves a (w_Resources w))"
        using simulateApp_map_wave[of a "w_Resources w"] simulateApp_name[of _ a "w_Resources w"]
        by (metis (no_types, lifting) map_eq_conv map_map comp_apply)
      then show ?thesis using waves_sorted(1)[of a "w_Resources w"]
        by (simp add: sorted_map sorted_wrt_map)
    qed
    moreover have "app_Name a < st_AppName s"
      if "b \<in> set apps" "s \<in> set (simulateApp b (w_Resources w))" for b s
      using Cons.prems that simulateApp_name[OF that(2)] by (auto simp: order_less_le)
    ultimately show ?case using Cons
      by (fastforce simp: sorted_append dest: simulateApp_name)
  qed simp
  then have "sorted (map (\<lambda>s. (st_AppName s, st_Wave s)) (Simulate w))"
    using sorted dist by (simp add: Simulate_def)
  then show ?thesis using per_app by blast
qed

theorem Simulate_ordered_witness:
  "distinct (map app_Name (w_ArgoApps (NewWorld\<lparr>w_ArgoApps := [demo_app], w_Resources := demo_resources\<rparr>))) \<and>
   sorted (map (\<lambda>s. (st_AppName s, st_Wave s))
     (Simulate (NewWorld\<lparr>w_ArgoApps := [demo_app], w_Resources := demo_resources\<rparr>)))"
  using Simulate_ordered[of "NewWorld\<lparr>w_ArgoApps := [demo_app], w_Resources := demo_resources\<rparr>"]
  by simp

text \<open>
  Deltas account for the state: between consecutive steps the state loses
  exactly the deleted keys and gains exactly the created ones, a created key was
  absent before, and nothing is ever reported as updated.
\<close>

theorem Simulate_delta_accounts:
  assumes "Suc i < length (simulateApp app rs)"
  defines "prev \<equiv> simulateApp app rs ! i" and "step \<equiv> simulateApp app rs ! Suc i"
  shows "set (st_State step) =
           (set (st_State prev) \<union> set (d_Created (st_Delta step))) - set (d_Deleted (st_Delta step)) \<and>
         set (d_Created (st_Delta step)) \<inter> set (st_State prev) = {}"
proof -
  let ?R = "scopeToApp app rs" and ?ws = "waves app rs"
  let ?bs = "foldl add_to_bucket [] ?R"
  have i: "Suc i < length ?ws" "i < length ?ws" using assms(1) by (auto simp: simulateApp_waves)
  define S where "S = foldl (wave_trans ?R) {} (take (Suc i) ?ws)"
  have prev: "set (st_State prev) = S"
    using run_waves_nth(3)[of "[]" i ?ws ?bs ?R] i by (simp add: prev_def simulateApp_waves S_def)
  have "take (Suc (Suc i)) ?ws = take (Suc i) ?ws @ [?ws ! Suc i]"
    using i(1) by (simp add: take_Suc_conv_app_nth)
  then have step: "set (st_State step) = wave_trans ?R S (?ws ! Suc i)"
    using run_waves_nth(3)[of "[]" "Suc i" ?ws ?bs ?R] i by (simp add: step_def simulateApp_waves S_def)
  have c: "set (d_Created (st_Delta step)) = creates_in ?R (?ws ! Suc i) - S"
    and d: "set (d_Deleted (st_Delta step)) = deletes_in ?R (?ws ! Suc i)"
    using run_waves_nth(4,5)[of "[]" "Suc i" ?ws ?bs ?R] i
    by (simp_all add: step_def simulateApp_waves S_def)
  show ?thesis unfolding prev step c d by (auto simp: wave_trans_def)
qed

theorem Simulate_delta_accounts_witness:
  "Suc 0 < length (simulateApp demo_app demo_resources) \<and>
   set (d_Created (st_Delta (simulateApp demo_app demo_resources ! 1))) \<inter>
     set (st_State (simulateApp demo_app demo_resources ! 0)) = {}"
proof -
  have "length (simulateApp demo_app demo_resources) = 2"
    using arg_cong[OF demo_steps, of length] by simp
  then show ?thesis using Simulate_delta_accounts[of 0 demo_app demo_resources] by simp
qed

end
