(* ===== verification/Enrich.thy ===== *)
theory Enrich
  imports Schemas Trajectory
begin

text \<open>
  The parts of \<^verbatim>\<open>pkg/checker/bridge.go\<close> around the kernel call: the two
  enrichment passes over the World, the tables of rule groups, rule codes and
  obligations, and the assembly of the run result (\<^verbatim>\<open>result.go\<close>).  Wall-clock
  timings are left out.
\<close>

section \<open>Sync waves\<close>

definition wave_key :: "SyncWaveEntry \<Rightarrow> string" where
  "wave_key sw = swe_Kind sw @ ''/'' @ swe_Name sw"

definition wave_entry :: "string \<Rightarrow> string \<Rightarrow> int \<Rightarrow> SyncWaveEntry" where
  "wave_entry kind name wave = \<lparr>swe_Kind = kind, swe_Name = name, swe_Wave = wave\<rparr>"

definition xrd_wave :: "World \<Rightarrow> CRDInfo \<Rightarrow> int" where
  "xrd_wave w xrd =
     foldl (\<lambda>wave res. if ri_Kind res = ''CompositeResourceDefinition'' \<and> ri_Name res = crd_Kind xrd
                       then ParseSyncWave (ri_Annotations res) else wave) 0 (w_Resources w)"

definition wave_candidates :: "World \<Rightarrow> SyncWaveEntry list" where
  "wave_candidates w =
     map (\<lambda>xrd. wave_entry ''CompositeResourceDefinition'' (crd_Kind xrd) (xrd_wave w xrd)) (w_XRDs w) @
     map (\<lambda>res. wave_entry (ri_Kind res) (ri_Name res) (ParseSyncWave (ri_Annotations res))) (w_Resources w) @
     map (\<lambda>c. wave_entry ''Composition'' (comp_Name c) 0) (w_Compositions w) @
     map (\<lambda>f. wave_entry ''Function'' (fn_Name f) 0) (w_Functions w) @
     map (\<lambda>p. wave_entry ''Provider'' (prov_Name p) (ParseSyncWave (prov_Annotations p))) (w_Providers w)"

definition add_wave ::
  "SyncWaveEntry list \<times> string list \<Rightarrow> SyncWaveEntry \<Rightarrow> SyncWaveEntry list \<times> string list" where
  "add_wave st sw =
     (case st of (ws, existing) \<Rightarrow>
        if wave_key sw \<in> set existing then (ws, existing)
        else (ws @ [sw], wave_key sw # existing))"

definition enrich_app_waves :: "World \<Rightarrow> ArgoApplication \<Rightarrow> ArgoApplication" where
  "enrich_app_waves w app =
     app\<lparr>app_SyncWaves :=
       fst (foldl add_wave (app_SyncWaves app, map wave_key (app_SyncWaves app)) (wave_candidates w))\<rparr>"

definition enrichSyncWaves :: "World \<Rightarrow> World" where
  "enrichSyncWaves w = w\<lparr>w_ArgoApps := map (enrich_app_waves w) (w_ArgoApps w)\<rparr>"

section \<open>Patch types\<close>

definition types_arrow :: string where
  "types_arrow = [CHR 0xE2, CHR 0x86, CHR 0x92]"

fun resolvedTypesTransform :: "TransformInfo list \<Rightarrow> string" where
  "resolvedTypesTransform [] = []"
| "resolvedTypesTransform (t # ts) =
     (if ti_Type t = ''__resolved_types'' then ti_Convert t else resolvedTypesTransform ts)"

definition schema_field_type :: "obj option \<Rightarrow> string \<Rightarrow> string" where
  "schema_field_type schema path =
     (case schema of
        None \<Rightarrow> ''unknown''
      | Some s \<Rightarrow> let ft = ResolveFieldType s path in if ft \<noteq> FieldTypeUnknown then ft else ''unknown'')"

definition resolve_patch :: "obj option \<Rightarrow> obj option \<Rightarrow> PatchInfo \<Rightarrow> PatchInfo" where
  "resolve_patch xrdSchema crdSchema patch =
     (if pi_FromFieldPath patch = [] \<or> pi_ToFieldPath patch = [] then patch
      else if resolvedTypesTransform (pi_Transforms patch) \<noteq> [] then patch
      else patch\<lparr>pi_Transforms := pi_Transforms patch @
             [\<lparr>ti_Type = ''__resolved_types'',
               ti_Convert = schema_field_type xrdSchema (pi_FromFieldPath patch) @ types_arrow @
                            schema_field_type crdSchema (pi_ToFieldPath patch)\<rparr>]\<rparr>)"

definition resolve_composed :: "(SchemaKey \<times> obj) list \<Rightarrow> obj option \<Rightarrow> ComposedResource \<Rightarrow> ComposedResource" where
  "resolve_composed index xrdSchema res =
     res\<lparr>cr_Patches := map (resolve_patch xrdSchema
           (map_of index \<lparr>sk_APIVersion = rb_APIVersion (cr_Base res), sk_Kind = rb_Kind (cr_Base res)\<rparr>))
         (cr_Patches res)\<rparr>"

definition resolve_composition :: "(SchemaKey \<times> obj) list \<Rightarrow> CompositionInfo \<Rightarrow> CompositionInfo" where
  "resolve_composition index cpn =
     (let ref = comp_CompositeTypeRef cpn;
          xrdSchema = map_of index \<lparr>sk_APIVersion = gvk_Group ref @ ''/'' @ gvk_Version ref, sk_Kind = gvk_Kind ref\<rparr>
      in cpn\<lparr>comp_Resources := map (resolve_composed index xrdSchema) (comp_Resources cpn)\<rparr>)"

definition resolvePatchTypes :: "World \<Rightarrow> World" where
  "resolvePatchTypes w =
     (case BuildSchemaIndex w of
        (index, w1) \<Rightarrow> w1\<lparr>w_Compositions := map (resolve_composition index) (w_Compositions w1)\<rparr>)"

section \<open>Rule groups and codes\<close>

record ruleGroup =
  rg_Name :: string
  rg_Codes :: "string list"

definition ruleGroup :: "string \<Rightarrow> string list \<Rightarrow> ruleGroup" where
  "ruleGroup name codes = \<lparr>rg_Name = name, rg_Codes = codes\<rparr>"

definition allRuleGroups :: "ruleGroup list" where
  "allRuleGroups = [
     ruleGroup ''R1'' [''XPC001''],
     ruleGroup ''R2'' [''XPC002''],
     ruleGroup ''R3'' [''XPC003''],
     ruleGroup ''R4'' [''XPC004''],
     ruleGroup ''R5'' [''XPC005''],
     ruleGroup ''R6'' [''XPC006''],
     ruleGroup ''R7'' [''XPC007''],
     ruleGroup ''R8'' [''XPC008''],
     ruleGroup ''R9'' [''XPC009''],
     ruleGroup ''R10'' [''XPC010''],
     ruleGroup ''R11'' [''XPC011''],
     ruleGroup ''R12'' [''XPC012''],
     ruleGroup ''R14'' [''XPC014''],
     ruleGroup ''R15'' [''XPC.D.kind-whitelisted''],
     ruleGroup ''R16'' [''XPC.E.selector-needs-ignore-diff''],
     ruleGroup ''R17'' [''XPC.A.resource-field-valid''],
     ruleGroup ''R18'' [''XPC.H.helm-renders''],
     ruleGroup ''R19'' [''XPC.H.values-well-typed''],
     ruleGroup ''R20'' [''XPC.H.render-deterministic''],
     ruleGroup ''R21'' [''XPC.E.late-init-needs-ignore-diff''],
     ruleGroup ''R22'' [''XPC.E.ssa-managementpolicies-observe'', ''XPC.E.ssa-managementpolicies-partial'', ''XPC.E.ssa-managementpolicies-nondefault''],
     ruleGroup ''R23'' [''XPC.S.crossplane-state-needs-orphan''],
     ruleGroup ''R24'' [''XPC.E.appset-finalizer-without-preserve''],
     ruleGroup ''R25'' [''XPC.E.prod-appset-autosync''],
     ruleGroup ''R31'' [''XPC.M.forprovider-canonical-form''],
     ruleGroup ''R32'' [''XPC.M.observed-desired-fixed-point''],
     ruleGroup ''R33'' [''XPC.M.duplicate-env-key''],
     ruleGroup ''R34'' [''XPC.M.computed-block-alias''],
     ruleGroup ''R35'' [''XPC.I.must-adopt-external-name''],
     ruleGroup ''R36'' [''XPC.S.orphaned-sgref'']]"

definition KnownRuleCodes :: "string list" where
  "KnownRuleCodes = [
     ''XPC001'',
     ''XPC002'',
     ''XPC003'',
     ''XPC004'',
     ''XPC005'',
     ''XPC006'',
     ''XPC007'',
     ''XPC008'',
     ''XPC009'',
     ''XPC010'',
     ''XPC011'',
     ''XPC012'',
     ''XPC014'',
     ''XPC.A.resource-field-valid'',
     ''XPC.B.providerconfig-resolves'',
     ''XPC.D.kind-whitelisted'',
     ''XPC.E.selector-needs-ignore-diff'',
     ''XPC.E.late-init-needs-ignore-diff'',
     ''XPC.E.ssa-managementpolicies-observe'',
     ''XPC.E.ssa-managementpolicies-partial'',
     ''XPC.E.ssa-managementpolicies-nondefault'',
     ''XPC.E.appset-finalizer-without-preserve'',
     ''XPC.E.prod-appset-autosync'',
     ''XPC.E.fargate-claim-env-label'',
     ''XPC.H.helm-renders'',
     ''XPC.H.values-well-typed'',
     ''XPC.H.render-deterministic'',
     ''XPC.K.externalsecret-store'',
     ''XPC.M.forprovider-canonical-form'',
     ''XPC.M.observed-desired-fixed-point'',
     ''XPC.M.duplicate-env-key'',
     ''XPC.S.crossplane-state-needs-orphan'']"

definition selectedRuleGroups :: "string list \<Rightarrow> ruleGroup list" where
  "selectedRuleGroups allowlist =
     (if allowlist = [] then allRuleGroups
      else filter (\<lambda>g. list_ex (\<lambda>code. code \<in> set allowlist) (rg_Codes g)) allRuleGroups)"

definition obligation_table :: "(string \<times> string \<times> string) list" where
  "obligation_table = [
     (''XPC001'', ''C'', ''version-coherence''),
     (''XPC002'', ''J'', ''conversion-cost-opt-in''),
     (''XPC003'', ''B'', ''comp-xrd-ref''),
     (''XPC004'', ''B'', ''pipeline-fn-ref''),
     (''XPC005'', ''B'', ''patch-compat''),
     (''XPC006'', ''F'', ''trajectory-wave-order''),
     (''XPC007'', ''G'', ''cross-app-label-tracking''),
     (''XPC008'', ''C'', ''crossplane-machinery-placement''),
     (''XPC009'', ''F'', ''trajectory-bootstrap''),
     (''XPC010'', ''K'', ''secret-source-sink''),
     (''XPC011'', ''L'', ''api-deprecation-calendar''),
     (''XPC012'', ''F'', ''no-dangling-mount''),
     (''XPC014'', ''F'', ''no-rbac-regression'')]"

definition obligationRefForCode :: "string \<Rightarrow> ObligationRef option" where
  "obligationRefForCode code =
     (case map_of obligation_table code of
        None \<Rightarrow> None
      | Some (category, generator) \<Rightarrow>
          Some \<lparr>ob_ID = ''XPC.'' @ category @ ''.'' @ generator, ob_Category = category, ob_Generator = generator\<rparr>)"

section \<open>Run results\<close>

abbreviation "severitySatisfied \<equiv> ''satisfied''"

record RuleTiming =
  rt_Rule :: string
  rt_Codes :: "string list"
  rt_Diagnostics :: nat
  rt_TotalObligations :: nat
  rt_Satisfied :: nat
  rt_Violated :: nat

record RunResult =
  run_Diagnostics :: "Diagnostic list"
  run_TotalObligations :: nat
  run_Satisfied :: nat
  run_Violated :: nat
  run_ObligationIDs :: "string list"
  run_RuleTimings :: "RuleTiming list"

definition NewRuleTiming :: "string \<Rightarrow> string list \<Rightarrow> RunResult \<Rightarrow> RuleTiming" where
  "NewRuleTiming rule codes result =
     \<lparr>rt_Rule = rule, rt_Codes = codes, rt_Diagnostics = length (run_Diagnostics result),
      rt_TotalObligations = run_TotalObligations result, rt_Satisfied = run_Satisfied result,
      rt_Violated = run_Violated result\<rparr>"

definition obligation_id :: "Diagnostic \<Rightarrow> string" where
  "obligation_id d =
     (case dg_Obligation d of
        Some ob \<Rightarrow> if ob_ID ob \<noteq> [] then ob_ID ob else ''XPC.'' @ dg_Code d
      | None \<Rightarrow> ''XPC.'' @ dg_Code d)"

record RunAcc =
  ra_ids :: "string list"
  ra_visible :: "Diagnostic list"
  ra_violated :: nat
  ra_satisfied :: nat

text \<open>The loop's \<^verbatim>\<open>seen\<close> map holds exactly the ids collected so far.\<close>

definition run_step :: "RunAcc \<Rightarrow> Diagnostic \<Rightarrow> RunAcc" where
  "run_step a d =
     (let rid = obligation_id d;
          a1 = (if rid \<in> set (ra_ids a) then a else a\<lparr>ra_ids := ra_ids a @ [rid]\<rparr>)
      in if dg_Severity d = severitySatisfied then a1\<lparr>ra_satisfied := ra_satisfied a1 + 1\<rparr>
         else let a2 = a1\<lparr>ra_visible := ra_visible a1 @ [d]\<rparr>
              in if dg_Severity d = SeverityError then a2\<lparr>ra_violated := ra_violated a2 + 1\<rparr> else a2)"

definition buildRunResult :: "Diagnostic list \<Rightarrow> RunResult" where
  "buildRunResult ds =
     (let a = foldl run_step \<lparr>ra_ids = [], ra_visible = [], ra_violated = 0, ra_satisfied = 0\<rparr> ds
      in \<lparr>run_Diagnostics = ra_visible a, run_TotalObligations = length (ra_ids a),
          run_Satisfied = ra_satisfied a, run_Violated = ra_violated a,
          run_ObligationIDs = sort_slice (<) (ra_ids a), run_RuleTimings = []\<rparr>)"

section \<open>Sync-wave enrichment is complete and idempotent\<close>

lemma foldl_add_wave:
  "fst (foldl add_wave (ws, existing) cs) = ws @ dedup_on wave_key existing cs"
  by (induction cs arbitrary: ws existing) (auto simp: add_wave_def)

lemma enrich_app_waves_alt:
  "enrich_app_waves w app = app\<lparr>app_SyncWaves :=
     app_SyncWaves app @ dedup_on wave_key (map wave_key (app_SyncWaves app)) (wave_candidates w)\<rparr>"
  by (simp add: enrich_app_waves_def foldl_add_wave)

lemma wave_candidates_apps [simp]: "wave_candidates (w\<lparr>w_ArgoApps := apps\<rparr>) = wave_candidates w"
  by (simp add: wave_candidates_def xrd_wave_def[abs_def])

lemma dedup_on_all_seen: "key ` set xs \<subseteq> set seen \<Longrightarrow> dedup_on key seen xs = []"
  by (induction xs) auto

lemma enrich_app_waves_idem: "enrich_app_waves w (enrich_app_waves w app) = enrich_app_waves w app"
proof -
  let ?old = "app_SyncWaves app"
  let ?new = "dedup_on wave_key (map wave_key ?old) (wave_candidates w)"
  have "dedup_on wave_key (map wave_key (?old @ ?new)) (wave_candidates w) = []"
    using dedup_on_keys[of wave_key "map wave_key ?old" "wave_candidates w"]
    by (intro dedup_on_all_seen) auto
  then show ?thesis by (simp add: enrich_app_waves_alt)
qed

text \<open>
  sync-wave enrichment keeps the declared entries in front, adds for every
  XRD, resource, composition, function and provider of the World exactly one
  entry unless its kind/name key was declared already, the first one of a key
  winning, and a second pass changes nothing.
\<close>

theorem enrichSyncWaves_complete:
  "enrichSyncWaves (enrichSyncWaves w) = enrichSyncWaves w \<and>
   list_all2 (\<lambda>app app'. \<exists>new. app_SyncWaves app' = app_SyncWaves app @ new \<and>
        distinct (map wave_key new) \<and>
        wave_key ` set new = wave_key ` set (wave_candidates w) - wave_key ` set (app_SyncWaves app) \<and>
        (\<forall>sw \<in> set new. find (\<lambda>c. wave_key c = wave_key sw) (wave_candidates w) = Some sw))
     (w_ArgoApps w) (w_ArgoApps (enrichSyncWaves w))"
proof
  show "enrichSyncWaves (enrichSyncWaves w) = enrichSyncWaves w"
  proof -
    have "enrich_app_waves (w\<lparr>w_ArgoApps := apps\<rparr>) = enrich_app_waves w" for apps
      by (rule ext) (simp add: enrich_app_waves_def)
    then show ?thesis
      by (simp add: enrichSyncWaves_def o_def enrich_app_waves_idem)
  qed
next
  have "list_all2 (\<lambda>app app'. app' = enrich_app_waves w app) (w_ArgoApps w) (w_ArgoApps (enrichSyncWaves w))"
    by (simp add: enrichSyncWaves_def list_all2_conv_all_nth)
  then show "list_all2 (\<lambda>app app'. \<exists>new. app_SyncWaves app' = app_SyncWaves app @ new \<and>
        distinct (map wave_key new) \<and>
        wave_key ` set new = wave_key ` set (wave_candidates w) - wave_key ` set (app_SyncWaves app) \<and>
        (\<forall>sw \<in> set new. find (\<lambda>c. wave_key c = wave_key sw) (wave_candidates w) = Some sw))
     (w_ArgoApps w) (w_ArgoApps (enrichSyncWaves w))"
    by (rule list_all2_mono)
      (auto simp: enrich_app_waves_alt dedup_on_distinct dedup_on_keys intro: dedup_on_first)
qed

definition ex_wave_world :: World where
  "ex_wave_world = NewWorld
     \<lparr>w_ArgoApps := [zero_ArgoApplication\<lparr>app_SyncWaves := [wave_entry ''Job'' ''a'' 3]\<rparr>],
      w_Resources := [zero_ResourceInfo\<lparr>ri_Kind := ''Job'', ri_Name := ''a''\<rparr>,
                      zero_ResourceInfo\<lparr>ri_Kind := ''Job'', ri_Name := ''b''\<rparr>]\<rparr>"

theorem enrichSyncWaves_complete_witness:
  "\<exists>app new. w_ArgoApps (enrichSyncWaves ex_wave_world) = [app] \<and>
     app_SyncWaves app = wave_entry ''Job'' ''a'' 3 # new \<and> wave_key ` set new = {''Job/b''}"
proof -
  have "w_ArgoApps ex_wave_world = [zero_ArgoApplication\<lparr>app_SyncWaves := [wave_entry ''Job'' ''a'' 3]\<rparr>]"
    and "wave_key ` set (wave_candidates ex_wave_world) = {''Job/a'', ''Job/b''}"
    by (simp_all add: ex_wave_world_def NewWorld_def wave_candidates_def wave_key_def wave_entry_def)
  then show ?thesis
    using conjunct2[OF enrichSyncWaves_complete[of ex_wave_world]]
    by (auto simp: list_all2_Cons1 wave_key_def wave_entry_def insert_Diff_if)
qed

section \<open>Patch resolution\<close>

lemma resolvedTypesTransform_append:
  "resolvedTypesTransform (ts @ us) =
     (if \<exists>t \<in> set ts. ti_Type t = ''__resolved_types'' then resolvedTypesTransform ts else resolvedTypesTransform us)"
  by (induction ts) auto

definition type_convert :: "obj option \<Rightarrow> obj option \<Rightarrow> PatchInfo \<Rightarrow> string" where
  "type_convert xs cs patch =
     schema_field_type xs (pi_FromFieldPath patch) @ types_arrow @ schema_field_type cs (pi_ToFieldPath patch)"

lemma type_convert_ne [simp]: "type_convert xs cs patch \<noteq> []"
  by (simp add: type_convert_def types_arrow_def)

definition markers_ok :: "PatchInfo \<Rightarrow> bool" where
  "markers_ok patch =
     list_all (\<lambda>t. ti_Type t = ''__resolved_types'' \<longrightarrow> ti_Convert t \<noteq> []) (pi_Transforms patch)"

lemma resolvedTypesTransform_empty:
  "markers_ok patch \<Longrightarrow> resolvedTypesTransform (pi_Transforms patch) = [] \<Longrightarrow>
     \<not> (\<exists>t \<in> set (pi_Transforms patch). ti_Type t = ''__resolved_types'')"
proof -
  have "\<forall>t \<in> set ts. ti_Type t = ''__resolved_types'' \<longrightarrow> ti_Convert t \<noteq> [] \<Longrightarrow> resolvedTypesTransform ts = [] \<Longrightarrow>
      \<not> (\<exists>t \<in> set ts. ti_Type t = ''__resolved_types'')" for ts
    by (induction ts) (auto split: if_splits)
  then show "markers_ok patch \<Longrightarrow> resolvedTypesTransform (pi_Transforms patch) = [] \<Longrightarrow>
     \<not> (\<exists>t \<in> set (pi_Transforms patch). ti_Type t = ''__resolved_types'')"
    unfolding markers_ok_def list_all_iff by blast
qed

lemma resolve_patch_marker:
  assumes "markers_ok patch" "pi_FromFieldPath patch \<noteq> []" "pi_ToFieldPath patch \<noteq> []"
  shows "resolvedTypesTransform (pi_Transforms (resolve_patch xs cs patch)) =
     (if resolvedTypesTransform (pi_Transforms patch) = [] then type_convert xs cs patch
      else resolvedTypesTransform (pi_Transforms patch))"
  using assms resolvedTypesTransform_empty[OF assms(1)]
  by (auto simp: resolve_patch_def resolvedTypesTransform_append type_convert_def)

lemma resolve_patch_paths [simp]:
  "pi_FromFieldPath (resolve_patch xs cs patch) = pi_FromFieldPath patch"
  "pi_ToFieldPath (resolve_patch xs cs patch) = pi_ToFieldPath patch"
  by (simp_all add: resolve_patch_def)

lemma resolve_patch_idem:
  assumes "markers_ok patch"
  shows "resolve_patch xs cs (resolve_patch xs cs patch) = resolve_patch xs cs patch"
proof (cases "pi_FromFieldPath patch = [] \<or> pi_ToFieldPath patch = []")
  case False
  then have "resolvedTypesTransform (pi_Transforms (resolve_patch xs cs patch)) \<noteq> []"
    using resolve_patch_marker[OF assms, of xs cs] by auto
  then show ?thesis using False by (simp add: resolve_patch_def[of xs cs "resolve_patch xs cs patch"])
qed (simp add: resolve_patch_def)

definition world_patches :: "World \<Rightarrow> PatchInfo list" where
  "world_patches w = concat (map cr_Patches (concat (map comp_Resources (w_Compositions w))))"

lemma resolve_patches_length:
  "length (concat (map cr_Patches (concat (map comp_Resources (map (resolve_composition index) cs))))) =
   length (concat (map cr_Patches (concat (map comp_Resources cs))))"
proof (induction cs)
  case (Cons c cs)
  have "length (concat (map cr_Patches (map (resolve_composed index xs) rs))) = length (concat (map cr_Patches rs))" for xs rs
    by (induction rs) (simp_all add: resolve_composed_def)
  then show ?case using Cons by (simp add: resolve_composition_def Let_def)
qed simp

lemma resolve_composition_patch:
  assumes "r' \<in> set (comp_Resources (resolve_composition index c))" "p \<in> set (cr_Patches r')"
  shows "\<exists>r \<in> set (comp_Resources c). \<exists>q \<in> set (cr_Patches r). \<exists>xs cs. p = resolve_patch xs cs q"
proof -
  obtain r xs where "r \<in> set (comp_Resources c)" "r' = resolve_composed index xs r"
    using assms(1) by (auto simp: resolve_composition_def Let_def)
  moreover from this obtain q where "q \<in> set (cr_Patches r)" "\<exists>cs. p = resolve_patch xs cs q"
    using assms(2) by (auto simp: resolve_composed_def)
  ultimately show ?thesis by blast
qed

lemma resolve_composition_idem:
  assumes "\<forall>r \<in> set (comp_Resources c). \<forall>p \<in> set (cr_Patches r). markers_ok p"
  shows "resolve_composition index (resolve_composition index c) = resolve_composition index c"
proof -
  have "resolve_composed index xs (resolve_composed index xs r) = resolve_composed index xs r"
    if "r \<in> set (comp_Resources c)" for r xs
    using that assms by (simp add: resolve_composed_def o_def resolve_patch_idem cong: map_cong)
  then show ?thesis by (simp add: resolve_composition_def Let_def o_def cong: map_cong)
qed

text \<open>
  patch-type resolution.  On a World whose patches carry no empty marker,
  every patch with both field paths ends up with a non-empty resolved-types
  marker, no patch is lost, and a second pass changes nothing, schema index
  included.
\<close>

theorem resolvePatchTypes_resolves:
  assumes "\<forall>p \<in> set (world_patches w). markers_ok p"
  shows "resolvePatchTypes (resolvePatchTypes w) = resolvePatchTypes w \<and>
     length (world_patches (resolvePatchTypes w)) = length (world_patches w) \<and>
     (\<forall>p \<in> set (world_patches (resolvePatchTypes w)).
        pi_FromFieldPath p \<noteq> [] \<and> pi_ToFieldPath p \<noteq> [] \<longrightarrow> resolvedTypesTransform (pi_Transforms p) \<noteq> [])"
proof -
  obtain index w1 where idx: "BuildSchemaIndex w = (index, w1)" by fastforce
  then have w1: "w_SchemaIndex w1 = Some index" "w_Compositions w1 = w_Compositions w"
    by (auto simp: BuildSchemaIndex_def Let_def split: option.splits)
  have out: "resolvePatchTypes w = w1\<lparr>w_Compositions := map (resolve_composition index) (w_Compositions w)\<rparr>"
    using idx w1 by (simp add: resolvePatchTypes_def)
  have ok: "\<forall>r \<in> set (comp_Resources c). \<forall>p \<in> set (cr_Patches r). markers_ok p" if "c \<in> set (w_Compositions w)" for c
    using that assms by (auto simp: world_patches_def)
  have "resolvePatchTypes (resolvePatchTypes w) = resolvePatchTypes w"
    unfolding out using w1 ok
    by (simp add: resolvePatchTypes_def BuildSchemaIndex_def o_def resolve_composition_idem cong: map_cong)
  moreover have "length (world_patches (resolvePatchTypes w)) = length (world_patches w)"
    using resolve_patches_length[of index "w_Compositions w"] by (simp add: out world_patches_def)
  moreover have "resolvedTypesTransform (pi_Transforms p) \<noteq> []"
    if mem: "p \<in> set (world_patches (resolvePatchTypes w))" and ne: "pi_FromFieldPath p \<noteq> []" "pi_ToFieldPath p \<noteq> []" for p
  proof -
    obtain c r' where c: "c \<in> set (w_Compositions w)"
      and r': "r' \<in> set (comp_Resources (resolve_composition index c))" "p \<in> set (cr_Patches r')"
      using mem by (auto simp: out world_patches_def)
    obtain r q xs cs where "r \<in> set (comp_Resources c)" "q \<in> set (cr_Patches r)" and p: "p = resolve_patch xs cs q"
      using resolve_composition_patch[OF r'] by blast
    then have "markers_ok q" using ok c by blast
    then show ?thesis using resolve_patch_marker[of q xs cs] ne p by auto
  qed
  ultimately show ?thesis by blast
qed

definition ex_patch :: PatchInfo where
  "ex_patch = \<lparr>pi_Type = [], pi_FromFieldPath = ''spec.size'', pi_ToFieldPath = ''spec.forProvider.size'', pi_Transforms = []\<rparr>"

definition ex_patch_world :: World where
  "ex_patch_world = NewWorld\<lparr>w_Compositions :=
     [\<lparr>comp_Name = ''c'', comp_CompositeTypeRef = \<lparr>gvk_Group = ''g'', gvk_Version = ''v1'', gvk_Kind = ''X''\<rparr>,
       comp_Mode = ''Resources'', comp_Pipeline = [],
       comp_Resources = [\<lparr>cr_Name = ''r'', cr_Base = \<lparr>rb_APIVersion = ''e/v1'', rb_Kind = ''B''\<rparr>, cr_Patches = [ex_patch]\<rparr>],
       comp_Source = zero_SourceLocation, comp_OwningApp = []\<rparr>]\<rparr>"

theorem resolvePatchTypes_resolves_witness:
  "length (world_patches (resolvePatchTypes ex_patch_world)) = 1 \<and>
   resolvePatchTypes (resolvePatchTypes ex_patch_world) = resolvePatchTypes ex_patch_world"
proof -
  have ps: "world_patches ex_patch_world = [ex_patch]"
    by (simp add: world_patches_def ex_patch_world_def NewWorld_def)
  moreover have "\<forall>p \<in> set (world_patches ex_patch_world). markers_ok p"
    unfolding ps by (simp add: markers_ok_def ex_patch_def)
  ultimately show ?thesis using resolvePatchTypes_resolves[of ex_patch_world] by simp
qed

section \<open>Rule selection\<close>

lemmas rule_tables = allRuleGroups_def KnownRuleCodes_def ruleGroup_def

text \<open>
  An allowlist selects exactly the groups that have one of its codes, in
  table order, and the two tables disagree: three codes the kernel dispatches
  belong to no profiled group, and the codes of three groups are missing from the
  list that category filters consult.
\<close>

theorem selectedRuleGroups_codes:
  "(\<forall>g. g \<in> set (selectedRuleGroups allowlist) \<longleftrightarrow>
        g \<in> set allRuleGroups \<and> (allowlist = [] \<or> set (rg_Codes g) \<inter> set allowlist \<noteq> {})) \<and>
   set KnownRuleCodes - (\<Union>g \<in> set allRuleGroups. set (rg_Codes g)) =
     {''XPC.B.providerconfig-resolves'', ''XPC.E.fargate-claim-env-label'', ''XPC.K.externalsecret-store''} \<and>
   (\<Union>g \<in> set allRuleGroups. set (rg_Codes g)) - set KnownRuleCodes =
     {''XPC.M.computed-block-alias'', ''XPC.I.must-adopt-external-name'', ''XPC.S.orphaned-sgref''}"
proof (intro conjI)
  show "\<forall>g. g \<in> set (selectedRuleGroups allowlist) \<longleftrightarrow>
        g \<in> set allRuleGroups \<and> (allowlist = [] \<or> set (rg_Codes g) \<inter> set allowlist \<noteq> {})"
    by (auto simp: selectedRuleGroups_def list_ex_iff)
next
  have codes: "(\<Union>g \<in> set allRuleGroups. set (rg_Codes g)) = set (concat (map rg_Codes allRuleGroups))" by simp
  show "set KnownRuleCodes - (\<Union>g \<in> set allRuleGroups. set (rg_Codes g)) =
     {''XPC.B.providerconfig-resolves'', ''XPC.E.fargate-claim-env-label'', ''XPC.K.externalsecret-store''}"
    unfolding codes by (simp add: rule_tables insert_Diff_if)
  show "(\<Union>g \<in> set allRuleGroups. set (rg_Codes g)) - set KnownRuleCodes =
     {''XPC.M.computed-block-alias'', ''XPC.I.must-adopt-external-name'', ''XPC.S.orphaned-sgref''}"
    unfolding codes by (simp add: rule_tables insert_Diff_if)
qed

theorem selectedRuleGroups_codes_witness:
  "ruleGroup ''R12'' [''XPC012''] \<in> set (selectedRuleGroups [''XPC012''])"
proof -
  have "ruleGroup ''R12'' [''XPC012''] \<in> set allRuleGroups" by (simp add: rule_tables)
  moreover have "set (rg_Codes (ruleGroup ''R12'' [''XPC012''])) \<inter> set [''XPC012''] \<noteq> {}" by (simp add: ruleGroup_def)
  ultimately show ?thesis using conjunct1[OF selectedRuleGroups_codes[of "[''XPC012'']"]] by blast
qed

section \<open>Run results partition the judgments\<close>

definition visible :: "Diagnostic list \<Rightarrow> Diagnostic list" where
  "visible ds = filter (\<lambda>d. dg_Severity d \<noteq> severitySatisfied) ds"

lemma run_fold:
  "foldl run_step a ds =
     \<lparr>ra_ids = ra_ids a @ dedup_on (\<lambda>x. x) (ra_ids a) (map obligation_id ds),
      ra_visible = ra_visible a @ visible ds,
      ra_violated = ra_violated a + length (filter (\<lambda>d. dg_Severity d = SeverityError) ds),
      ra_satisfied = ra_satisfied a + length (filter (\<lambda>d. dg_Severity d = severitySatisfied) ds)\<rparr>"
proof (induction ds arbitrary: a)
  case Nil
  then show ?case by (simp add: visible_def)
next
  case (Cons d ds)
  have "dedup_on (\<lambda>x. x) (ra_ids a @ [obligation_id d]) (map obligation_id ds) =
        dedup_on (\<lambda>x. x) (obligation_id d # ra_ids a) (map obligation_id ds)"
    by (rule dedup_on_seen_set) simp
  then show ?case unfolding foldl_Cons Cons by (simp add: run_step_def Let_def visible_def)
qed

text \<open>
  The run result keeps every judgment that is not a satisfied marker, in
  order, counts the satisfied markers and the errors, and lists each obligation
  id once, sorted; the totals agree with the lists.
\<close>

theorem buildRunResult_partition:
  "run_Diagnostics (buildRunResult ds) = visible ds \<and>
   length (run_Diagnostics (buildRunResult ds)) + run_Satisfied (buildRunResult ds) = length ds \<and>
   run_Violated (buildRunResult ds) = length (filter (\<lambda>d. dg_Severity d = SeverityError) (run_Diagnostics (buildRunResult ds))) \<and>
   sorted (run_ObligationIDs (buildRunResult ds)) \<and> distinct (run_ObligationIDs (buildRunResult ds)) \<and>
   set (run_ObligationIDs (buildRunResult ds)) = obligation_id ` set ds \<and>
   run_TotalObligations (buildRunResult ds) = card (obligation_id ` set ds)"
proof -
  define ids where "ids = dedup_on (\<lambda>x. x) [] (map obligation_id ds)"
  have r: "buildRunResult ds =
     \<lparr>run_Diagnostics = visible ds, run_TotalObligations = length ids,
      run_Satisfied = length (filter (\<lambda>d. dg_Severity d = severitySatisfied) ds),
      run_Violated = length (filter (\<lambda>d. dg_Severity d = SeverityError) ds),
      run_ObligationIDs = sort_slice (<) ids, run_RuleTimings = []\<rparr>"
    by (simp add: buildRunResult_def run_fold ids_def)
  have ids: "distinct ids" "set ids = obligation_id ` set ds"
    using dedup_on_distinct[of "\<lambda>x. x" "[]" "map obligation_id ds"] dedup_on_keys[of "\<lambda>x. x" "[]" "map obligation_id ds"]
    by (simp_all add: ids_def)
  have "filter (\<lambda>d. dg_Severity d = SeverityError) (visible ds) = filter (\<lambda>d. dg_Severity d = SeverityError) ds"
    by (auto simp: visible_def filter_filter intro!: filter_cong)
  moreover have "length (visible ds) + length (filter (\<lambda>d. dg_Severity d = severitySatisfied) ds) = length ds"
    using sum_length_filter_compl[of "\<lambda>d. dg_Severity d \<noteq> severitySatisfied" ds] by (simp add: visible_def)
  moreover have "length ids = card (obligation_id ` set ds)" using ids distinct_card by metis
  ultimately show ?thesis
    using ids str_order.slice_sorted[of ids] by (simp add: r)
qed

end
