(* ===== verification/RuleFilter.thy ===== *)
theory RuleFilter
  imports Enrich
begin

text \<open>
  The rule selection of \<^verbatim>\<open>cmd/xpc/main.go\<close>: the presets, the categories of rule codes, the
  allowlist a run is restricted to, and the filter for diagnostics that do not come from
  the kernel.
\<close>

section \<open>Definitions\<close>

definition focusPresetAllowlist :: "string \<Rightarrow> string list" where
  "focusPresetAllowlist preset =
     (if preset = ''inc6-floor''
      then [''XPC.S.crossplane-state-needs-orphan'', ''XPC.E.appset-finalizer-without-preserve'', ''XPC.E.prod-appset-autosync'']
      else if preset = ''render''
      then [''XPC.H.helm-renders'', ''XPC.H.kustomize-renders'', ''XPC.H.composition-renders'', ''XPC.H.values-well-typed'',
            ''XPC.H.render-deterministic'']
      else [])"

definition splitCSV :: "string \<Rightarrow> string list" where
  "splitCSV s = filter (\<lambda>t. t \<noteq> []) (map TrimSpace (Split s '',''))"

definition codeCategory :: "string \<Rightarrow> string" where
  "codeCategory code =
     (if \<not> HasPrefix code ''XPC.'' then []
      else let rest = drop (length ''XPC.'') code
           in case Index rest ''.'' of
                None \<Rightarrow> []
              | Some dot \<Rightarrow> if dot = 0 then [] else take dot rest)"

definition byCategory :: "string list \<Rightarrow> (string \<times> string list) list" where
  "byCategory known = index_by codeCategory (\<lambda>c. c) (filter (\<lambda>c. codeCategory c \<noteq> []) known)"

definition sortedCategoryLetters :: "(string \<times> string list) list \<Rightarrow> string list" where
  "sortedCategoryLetters m = sort (map fst m)"

text \<open>The codes the categories ask for, or the first category no rule has.\<close>

fun category_codes :: "(string \<times> string list) list \<Rightarrow> string list \<Rightarrow> string + string list" where
  "category_codes m [] = Inr []"
| "category_codes m (cat # cats) =
     (case map_of m cat of
        None \<Rightarrow> Inl cat
      | Some codes \<Rightarrow> map_sum id (\<lambda>rest. codes @ rest) (category_codes m cats))"

definition category_error :: "string \<Rightarrow> string" where
  "category_error cat =
     ''invalid --category='' @ cat @ '' (no rules in category '' @ Quote cat @ ''; known categories: '' @
     Join (sortedCategoryLetters (byCategory KnownRuleCodes)) '','' @ '')''"

definition resolveRuleAllowlist :: "string \<Rightarrow> string list \<Rightarrow> string list \<Rightarrow> string + string list" where
  "resolveRuleAllowlist focusPreset categories rules =
     (if categories = [] \<and> rules = [] then Inr (focusPresetAllowlist focusPreset)
      else case category_codes (byCategory KnownRuleCodes) categories of
        Inl cat \<Rightarrow> Inl (category_error cat)
      | Inr codes \<Rightarrow> Inr (dedup_on id [] (codes @ rules)))"

definition postKernelAllowed :: "string list \<Rightarrow> string list \<Rightarrow> string \<Rightarrow> bool" where
  "postKernelAllowed allowlist categories code =
     (allowlist = [] \<or> code \<in> set allowlist \<or>
      (codeCategory code \<noteq> [] \<and> codeCategory code \<in> set categories))"

section \<open>What a selection holds\<close>

lemma category_codes_Inr:
  "category_codes m cats = Inr codes \<Longrightarrow>
   (\<forall>c \<in> set cats. map_of m c \<noteq> None) \<and> set codes = (\<Union>c \<in> set cats. set (mgetl m c))"
proof (induction cats arbitrary: codes)
  case (Cons c cats)
  then obtain cs rest where "map_of m c = Some cs" "category_codes m cats = Inr rest" "codes = cs @ rest"
    by (cases "category_codes m cats") (auto split: option.splits)
  then show ?case using Cons.IH by (auto simp: mgetl_def)
qed simp

lemma category_codes_Inl:
  "category_codes m cats = Inl c \<Longrightarrow> c \<in> set cats \<and> map_of m c = None"
proof (induction cats)
  case (Cons a cats)
  then show ?case by (cases "category_codes m cats") (auto split: option.splits)
qed simp

text \<open>
  The allowlist of a run with \<^verbatim>\<open>--category\<close> or \<^verbatim>\<open>--rules\<close> has no code twice and is exactly
  the union of the given rules and the known codes of the given categories; it fails exactly
  when one of the categories has no known rule.  A category is never empty and never
  silently selects nothing.
\<close>

theorem resolveRuleAllowlist_exact:
  assumes "categories \<noteq> [] \<or> rules \<noteq> []"
  shows "case resolveRuleAllowlist focus categories rules of
      Inr al \<Rightarrow> distinct al \<and> al \<noteq> [] \<and>
        set al = set rules \<union> {c \<in> set KnownRuleCodes. codeCategory c \<noteq> [] \<and> codeCategory c \<in> set categories} \<and>
        (\<forall>cat \<in> set categories. \<exists>c \<in> set KnownRuleCodes. codeCategory c = cat \<and> cat \<noteq> [])
    | Inl e \<Rightarrow> \<exists>cat \<in> set categories. e = category_error cat \<and>
        \<not> (\<exists>c \<in> set KnownRuleCodes. codeCategory c = cat \<and> cat \<noteq> [])"
proof -
  let ?m = "byCategory KnownRuleCodes"
  have get: "set (mgetl ?m cat) = {c \<in> set KnownRuleCodes. codeCategory c \<noteq> [] \<and> codeCategory c = cat}" for cat
    by (auto simp: byCategory_def mgetl_index_by)
  have dom: "map_of ?m cat \<noteq> None \<longleftrightarrow> (\<exists>c \<in> set KnownRuleCodes. codeCategory c = cat \<and> cat \<noteq> [])" for cat
    by (auto simp: byCategory_def map_of_eq_None_iff index_by_keys)
  show ?thesis
  proof (cases "category_codes ?m categories")
    case (Inl cat)
    then show ?thesis using assms category_codes_Inl[OF Inl] dom[of cat] by (auto simp: resolveRuleAllowlist_def)
  next
    case (Inr codes)
    then have al: "resolveRuleAllowlist focus categories rules = Inr (dedup_on id [] (codes @ rules))"
      using assms by (auto simp: resolveRuleAllowlist_def)
    have set_al: "set (dedup_on id [] (codes @ rules)) =
        set rules \<union> {c \<in> set KnownRuleCodes. codeCategory c \<noteq> [] \<and> codeCategory c \<in> set categories}"
      unfolding dedup_on_set_id using category_codes_Inr[OF Inr] get by auto
    have cats: "\<forall>cat \<in> set categories. \<exists>c \<in> set KnownRuleCodes. codeCategory c = cat \<and> cat \<noteq> []"
      using category_codes_Inr[OF Inr] dom by blast
    have "set (dedup_on id [] (codes @ rules)) \<noteq> {}"
      unfolding set_al using assms cats by (cases categories; cases rules) auto
    then have "dedup_on id [] (codes @ rules) \<noteq> []" by (metis set_empty)
    then show ?thesis using al set_al cats by (simp add: dedup_on_distinct_id)
  qed
qed

theorem resolveRuleAllowlist_exact_witness:
  "\<exists>al. resolveRuleAllowlist ''all'' [''M''] [''XPC002''] = Inr al \<and> distinct al \<and>
     {''XPC002'', ''XPC.M.observed-desired-fixed-point''} \<subseteq> set al"
proof -
  have m: "''XPC.M.observed-desired-fixed-point'' \<in> set KnownRuleCodes" by (simp add: KnownRuleCodes_def)
  have c: "codeCategory ''XPC.M.observed-desired-fixed-point'' = ''M''" by code_simp
  show ?thesis
    using resolveRuleAllowlist_exact[of "[''M'']" "[''XPC002'']" "''all''"] m c
    by (cases "resolveRuleAllowlist ''all'' [''M''] [''XPC002'']") fastforce+
qed

end
