(* ===== verification/Waiver.thy ===== *)
theory Waiver
  imports Types GoPath
begin

text \<open>
  \<^verbatim>\<open>pkg/waiver/waiver.go\<close>: the accepted-risk register.  Dates are the
  \<^verbatim>\<open>YYYY-MM-DD\<close> strings of the file, parsed as \<^verbatim>\<open>time.Parse\<close> does for that
  layout; the current time enters as its calendar date.  Finding and reading
  the register file is the theory \<open>WaiverFile\<close>.
\<close>

section \<open>Dates\<close>

type_synonym date = "int \<times> int \<times> int"

definition is_leap :: "int \<Rightarrow> bool" where
  "is_leap y = (y mod 4 = 0 \<and> (y mod 100 \<noteq> 0 \<or> y mod 400 = 0))"

definition days_in :: "int \<Rightarrow> int \<Rightarrow> int" where
  "days_in m y =
     (if m = 2 then (if is_leap y then 29 else 28)
      else if m \<in> {4, 6, 9, 11} then 30 else 31)"

text \<open>\<^verbatim>\<open>time.Parse("2006-01-02", s)\<close>: four, two and two digits, month and day in range.\<close>

definition parse_date :: "string \<Rightarrow> date option" where
  "parse_date s =
     (if length s = 10 \<and> s ! 4 = CHR ''-'' \<and> s ! 7 = CHR ''-'' \<and>
         list_all is_digit (take 4 s) \<and> list_all is_digit (take 2 (drop 5 s)) \<and>
         list_all is_digit (take 2 (drop 8 s))
      then let y = int (digits_val (take 4 s)); m = int (digits_val (take 2 (drop 5 s)));
               d = int (digits_val (take 2 (drop 8 s)))
           in if 1 \<le> m \<and> m \<le> 12 \<and> 1 \<le> d \<and> d \<le> days_in m y then Some (y, m, d) else None
      else None)"

section \<open>The register\<close>

record Waiver =
  wv_Rule :: string
  wv_File :: string
  wv_Kind :: string
  wv_Name :: string
  wv_Namespace :: string
  wv_Reason :: string
  wv_AddedBy :: string
  wv_AddedAt :: string
  wv_ExpiresAt :: string

record WaiverSet =
  ws_Waivers :: "Waiver list"
  ws_Source :: string

record WaiverResult =
  wr_Active :: "Diagnostic list"
  wr_Waived :: "Diagnostic list"
  wr_ExpiredCount :: nat
  wr_UnusedCount :: nat

datatype WaiverProblem =
    MissingRule | NeedsFileOrName | MissingReason | MissingExpiresAt | BadExpiresAt

definition waiver_problem :: "Waiver \<Rightarrow> WaiverProblem option" where
  "waiver_problem w =
     (if TrimSpace (wv_Rule w) = [] then Some MissingRule
      else if wv_File w = [] \<and> wv_Name w = [] then Some NeedsFileOrName
      else if TrimSpace (wv_Reason w) = [] then Some MissingReason
      else if wv_ExpiresAt w = [] then Some MissingExpiresAt
      else if parse_date (wv_ExpiresAt w) = None then Some BadExpiresAt
      else None)"

text \<open>The first problem, with the 1-based number of its entry.\<close>

fun Validate_from :: "nat \<Rightarrow> Waiver list \<Rightarrow> (nat \<times> WaiverProblem) option" where
  "Validate_from i [] = None"
| "Validate_from i (w # ws) =
     (case waiver_problem w of
        Some p \<Rightarrow> Some (i + 1, p)
      | None \<Rightarrow> Validate_from (i + 1) ws)"

definition Validate :: "WaiverSet \<Rightarrow> (nat \<times> WaiverProblem) option" where
  "Validate s = Validate_from 0 (ws_Waivers s)"

section \<open>Matching\<close>

definition fileMatches :: "string \<Rightarrow> string \<Rightarrow> bool" where
  "fileMatches diagFile waiverFile =
     (if waiverFile = [] then True
      else let d = Clean diagFile; w = Clean waiverFile
           in if d = w \<or> HasSuffix d (''/'' @ w) then True else Base d = w)"

definition matches :: "Waiver \<Rightarrow> Diagnostic \<Rightarrow> bool" where
  "matches w d =
     (if dg_Code d \<noteq> wv_Rule w then False
      else if \<not> fileMatches (sl_File (dg_Source d)) (wv_File w) then False
      else if wv_Name w \<noteq> [] \<and> \<not> Contains (dg_Message d) (wv_Name w) then False
      else if wv_Kind w \<noteq> [] \<and> \<not> Contains (dg_Message d) (wv_Kind w) then False
      else True)"

fun matchIndex_from :: "nat \<Rightarrow> Waiver list \<Rightarrow> Diagnostic \<Rightarrow> nat option" where
  "matchIndex_from i [] d = None"
| "matchIndex_from i (w # ws) d = (if matches w d then Some i else matchIndex_from (i + 1) ws d)"

definition matchIndex :: "WaiverSet \<Rightarrow> Diagnostic \<Rightarrow> nat option" where
  "matchIndex s d = matchIndex_from 0 (ws_Waivers s) d"

text \<open>\<open>now\<close> is the calendar date of the current time; the expiry day is inclusive.\<close>

definition expired :: "Waiver \<Rightarrow> date \<Rightarrow> bool" where
  "expired w now =
     (case parse_date (wv_ExpiresAt w) of None \<Rightarrow> True | Some expd \<Rightarrow> expd < now)"

definition identity :: "Waiver \<Rightarrow> string" where
  "identity w =
     (if wv_Kind w \<noteq> [] \<and> wv_Name w \<noteq> [] then wv_Kind w @ ''/'' @ wv_Name w
      else if wv_Name w \<noteq> [] then wv_Name w
      else wv_File w)"

section \<open>Apply\<close>

abbreviation "CodeWaiverExpired \<equiv> ''XPC.W.waiver-expired''"
abbreviation "CodeWaiverUnused \<equiv> ''XPC.W.waiver-unused''"

text \<open>The em dash of the messages, in UTF-8.\<close>

definition em_dash :: string where
  "em_dash = [CHR 0xE2, CHR 0x80, CHR 0x94]"

definition meta_diag :: "string \<Rightarrow> Severity \<Rightarrow> string \<Rightarrow> string \<Rightarrow> Diagnostic" where
  "meta_diag code sev msg file =
     \<lparr>dg_Code = code, dg_Severity = sev, dg_Message = msg,
      dg_Source = zero_SourceLocation\<lparr>sl_File := file\<rparr>, dg_Detail = [], dg_Fix = [],
      dg_Related = [], dg_Obligation = None\<rparr>"

definition expired_diag :: "WaiverSet \<Rightarrow> Waiver \<Rightarrow> Diagnostic" where
  "expired_diag s w =
     meta_diag CodeWaiverExpired SeverityWarning
       (''waiver for '' @ wv_Rule w @ '' ('' @ identity w @ '') expired on '' @ wv_ExpiresAt w
        @ '' '' @ em_dash @ '' re-justify or fix the finding'') (ws_Source s)"

definition unused_diag :: "WaiverSet \<Rightarrow> Waiver \<Rightarrow> Diagnostic" where
  "unused_diag s w =
     meta_diag CodeWaiverUnused SeverityInfo
       (''waiver for '' @ wv_Rule w @ '' ('' @ identity w @ '') matched no finding '' @ em_dash
        @ '' remove it from '' @ Base (ws_Source s)) (ws_Source s)"

text \<open>The first loop: the arrays \<open>used\<close> and \<open>expiredMatched\<close> and the two output lists.\<close>

record ApplyState =
  as_used :: "bool list"
  as_expired :: "bool list"
  as_active :: "Diagnostic list"
  as_waived :: "Diagnostic list"

definition apply_step :: "WaiverSet \<Rightarrow> date \<Rightarrow> ApplyState \<Rightarrow> Diagnostic \<Rightarrow> ApplyState" where
  "apply_step s now st d =
     (case matchIndex s d of
        None \<Rightarrow> st\<lparr>as_active := as_active st @ [d]\<rparr>
      | Some wi \<Rightarrow>
          let st1 = st\<lparr>as_used := (as_used st)[wi := True]\<rparr>
          in if expired (ws_Waivers s ! wi) now
             then st1\<lparr>as_active := as_active st1 @ [d], as_expired := (as_expired st1)[wi := True]\<rparr>
             else st1\<lparr>as_waived := as_waived st1 @ [d]\<rparr>)"

text \<open>The second loop, over the waivers with their two flags.\<close>

definition report_step :: "WaiverSet \<Rightarrow> WaiverResult \<Rightarrow> Waiver \<times> bool \<times> bool \<Rightarrow> WaiverResult" where
  "report_step s res wue =
     (case wue of (w, used, expd) \<Rightarrow>
        let res1 = (if expd then res\<lparr>wr_ExpiredCount := wr_ExpiredCount res + 1,
                                     wr_Active := wr_Active res @ [expired_diag s w]\<rparr> else res)
        in if \<not> used then res1\<lparr>wr_UnusedCount := wr_UnusedCount res1 + 1,
                                wr_Active := wr_Active res1 @ [unused_diag s w]\<rparr> else res1)"

definition Apply :: "WaiverSet \<Rightarrow> Diagnostic list \<Rightarrow> date \<Rightarrow> WaiverResult" where
  "Apply s diags now =
     (let n = length (ws_Waivers s);
          st = foldl (apply_step s now)
                 \<lparr>as_used = replicate n False, as_expired = replicate n False,
                  as_active = [], as_waived = []\<rparr> diags
      in foldl (report_step s)
           \<lparr>wr_Active = as_active st, wr_Waived = as_waived st, wr_ExpiredCount = 0, wr_UnusedCount = 0\<rparr>
           (zip (ws_Waivers s) (zip (as_used st) (as_expired st))))"

section \<open>Lemmas\<close>

lemma matchIndex_from_Some:
  "matchIndex_from i ws d = Some j \<longleftrightarrow>
     (\<exists>k < length ws. j = i + k \<and> matches (ws ! k) d \<and> (\<forall>l < k. \<not> matches (ws ! l) d))"
proof (induction ws arbitrary: i)
  case (Cons w ws)
  show ?case
  proof (cases "matches w d")
    case True
    then show ?thesis by (auto intro: exI[of _ 0] simp: nth_Cons' gr0_conv_Suc)
  next
    case False
    have "(\<exists>k < length (w # ws). j = i + k \<and> matches ((w # ws) ! k) d \<and> (\<forall>l < k. \<not> matches ((w # ws) ! l) d))
        \<longleftrightarrow> (\<exists>k < length ws. j = i + Suc k \<and> matches (ws ! k) d \<and> (\<forall>l < k. \<not> matches (ws ! l) d))"
      using False by (auto simp: Ex_less_Suc2 All_less_Suc2)
    then show ?thesis using False Cons by simp
  qed
qed simp

text \<open>The waiver a finding is judged by is the first that matches.\<close>

definition first_waiver :: "WaiverSet \<Rightarrow> Diagnostic \<Rightarrow> Waiver option" where
  "first_waiver s d = find (\<lambda>w. matches w d) (ws_Waivers s)"

definition is_waived :: "WaiverSet \<Rightarrow> date \<Rightarrow> Diagnostic \<Rightarrow> bool" where
  "is_waived s now d = (case first_waiver s d of None \<Rightarrow> False | Some w \<Rightarrow> \<not> expired w now)"

lemma matchIndex_first:
  "first_waiver s d = map_option (\<lambda>i. ws_Waivers s ! i) (matchIndex s d)"
proof -
  have "find (\<lambda>w. matches w d) ws = map_option (\<lambda>j. ws ! (j - i)) (matchIndex_from i ws d)" for ws i
  proof (induction ws arbitrary: i)
    case (Cons w ws)
    show ?case
    proof (cases "matches w d")
      case False
      have "j > i" if "matchIndex_from (i + 1) ws d = Some j" for j
        using that by (auto simp: matchIndex_from_Some)
      then show ?thesis using False Cons[of "i + 1"]
        by (cases "matchIndex_from (i + 1) ws d") (auto simp: nth_Cons')
    qed simp
  qed simp
  from this[of "ws_Waivers s" 0] show ?thesis
    by (simp add: first_waiver_def matchIndex_def)
qed

lemma matchIndex_lt: "matchIndex s d = Some i \<Longrightarrow> i < length (ws_Waivers s)"
  by (auto simp: matchIndex_def matchIndex_from_Some)

lemma nth_set_flag: "i < length bs \<Longrightarrow> bs[k := True] ! i \<longleftrightarrow> bs ! i \<or> k = i"
  by (cases "k = i") auto

lemma apply_loop:
  defines "n s \<equiv> length (ws_Waivers s)"
  assumes "length (as_used st) = n s" "length (as_expired st) = n s"
  shows "as_active (foldl (apply_step s now) st diags) =
           as_active st @ filter (\<lambda>d. \<not> is_waived s now d) diags"
    "as_waived (foldl (apply_step s now) st diags) = as_waived st @ filter (is_waived s now) diags"
    "length (as_used (foldl (apply_step s now) st diags)) = n s"
    "length (as_expired (foldl (apply_step s now) st diags)) = n s"
    "i < n s \<Longrightarrow> as_used (foldl (apply_step s now) st diags) ! i \<longleftrightarrow>
       as_used st ! i \<or> (\<exists>d \<in> set diags. matchIndex s d = Some i)"
    "i < n s \<Longrightarrow> as_expired (foldl (apply_step s now) st diags) ! i \<longleftrightarrow>
       as_expired st ! i \<or> (expired (ws_Waivers s ! i) now \<and> (\<exists>d \<in> set diags. matchIndex s d = Some i))"
proof -
  have step: "as_active (apply_step s now st d) = as_active st @ (if is_waived s now d then [] else [d])"
    "as_waived (apply_step s now st d) = as_waived st @ (if is_waived s now d then [d] else [])"
    "length (as_used (apply_step s now st d)) = length (as_used st)"
    "length (as_expired (apply_step s now st d)) = length (as_expired st)"
    "i < length (as_used st) \<Longrightarrow>
       as_used (apply_step s now st d) ! i \<longleftrightarrow> as_used st ! i \<or> matchIndex s d = Some i"
    "i < length (as_expired st) \<Longrightarrow> as_expired (apply_step s now st d) ! i \<longleftrightarrow>
       as_expired st ! i \<or> (expired (ws_Waivers s ! i) now \<and> matchIndex s d = Some i)" for st d
    by (auto simp: apply_step_def is_waived_def matchIndex_first Let_def nth_set_flag
        split: option.splits)
  note inv = assms(2,3)
  show "as_active (foldl (apply_step s now) st diags) =
      as_active st @ filter (\<lambda>d. \<not> is_waived s now d) diags"
    by (induction diags arbitrary: st) (auto simp: step)
  show "as_waived (foldl (apply_step s now) st diags) = as_waived st @ filter (is_waived s now) diags"
    by (induction diags arbitrary: st) (auto simp: step)
  show "length (as_used (foldl (apply_step s now) st diags)) = n s"
    using inv(1) by (induction diags arbitrary: st) (auto simp: step)
  show "length (as_expired (foldl (apply_step s now) st diags)) = n s"
    using inv(2) by (induction diags arbitrary: st) (auto simp: step)
  show "i < n s \<Longrightarrow> as_used (foldl (apply_step s now) st diags) ! i \<longleftrightarrow>
       as_used st ! i \<or> (\<exists>d \<in> set diags. matchIndex s d = Some i)"
    using inv(1) by (induction diags arbitrary: st) (auto simp: step)
  show "i < n s \<Longrightarrow> as_expired (foldl (apply_step s now) st diags) ! i \<longleftrightarrow>
       as_expired st ! i \<or> (expired (ws_Waivers s ! i) now \<and> (\<exists>d \<in> set diags. matchIndex s d = Some i))"
    using inv(2) by (induction diags arbitrary: st) (auto simp: step)
qed

lemma report_loop:
  "wr_Active (foldl (report_step s) res wues) =
     wr_Active res @ concat (map (\<lambda>(w, used, expd). (if expd then [expired_diag s w] else []) @
                                    (if used then [] else [unused_diag s w])) wues)"
  "wr_Waived (foldl (report_step s) res wues) = wr_Waived res"
  "wr_ExpiredCount (foldl (report_step s) res wues) =
     wr_ExpiredCount res + length (filter (\<lambda>(w, used, expd). expd) wues)"
  "wr_UnusedCount (foldl (report_step s) res wues) =
     wr_UnusedCount res + length (filter (\<lambda>(w, used, expd). \<not> used) wues)"
  by (induction wues arbitrary: res) (auto simp: report_step_def Let_def split: prod.splits)

lemma Apply_parts:
  defines "m s diags i \<equiv> \<exists>d \<in> set diags. matchIndex s d = Some i"
  shows "\<exists>meta. wr_Active (Apply s diags now) = filter (\<lambda>d. \<not> is_waived s now d) diags @ meta \<and>
           (\<forall>d \<in> set meta. dg_Code d \<in> {CodeWaiverExpired, CodeWaiverUnused} \<and> dg_Severity d \<noteq> SeverityError)"
    "wr_Waived (Apply s diags now) = filter (is_waived s now) diags"
    "wr_ExpiredCount (Apply s diags now) =
       card {i. i < length (ws_Waivers s) \<and> expired (ws_Waivers s ! i) now \<and> m s diags i}"
    "wr_UnusedCount (Apply s diags now) = card {i. i < length (ws_Waivers s) \<and> \<not> m s diags i}"
proof -
  let ?n = "length (ws_Waivers s)"
  let ?st = "foldl (apply_step s now) \<lparr>as_used = replicate ?n False, as_expired = replicate ?n False,
                  as_active = [], as_waived = []\<rparr> diags"
  let ?z = "zip (ws_Waivers s) (zip (as_used ?st) (as_expired ?st))"
  note loop = apply_loop[where s = s and now = now and diags = diags and
      st = "\<lparr>as_used = replicate ?n False, as_expired = replicate ?n False,
             as_active = [], as_waived = []\<rparr>", simplified]
  have A: "Apply s diags now = foldl (report_step s)
      \<lparr>wr_Active = as_active ?st, wr_Waived = as_waived ?st, wr_ExpiredCount = 0, wr_UnusedCount = 0\<rparr> ?z"
    by (simp add: Apply_def Let_def)
  show "\<exists>meta. wr_Active (Apply s diags now) = filter (\<lambda>d. \<not> is_waived s now d) diags @ meta \<and>
      (\<forall>d \<in> set meta. dg_Code d \<in> {CodeWaiverExpired, CodeWaiverUnused} \<and> dg_Severity d \<noteq> SeverityError)"
    unfolding A report_loop(1) using loop(1)
    by (intro exI conjI) (auto simp: expired_diag_def unused_diag_def meta_diag_def split: if_splits)
  show "wr_Waived (Apply s diags now) = filter (is_waived s now) diags"
    unfolding A report_loop(2) using loop(2) by simp
  have len: "length ?z = ?n" using loop(3,4) by simp
  have "length (filter (\<lambda>(w, used, expd). expd) ?z) = card {i. i < ?n \<and> as_expired ?st ! i}"
    using len loop(3,4) by (auto simp: length_filter_conv_card intro!: arg_cong[where f = card])
  then show "wr_ExpiredCount (Apply s diags now) =
       card {i. i < ?n \<and> expired (ws_Waivers s ! i) now \<and> m s diags i}"
    unfolding A report_loop(3) m_def using loop(6) by (auto intro!: arg_cong[where f = card])
  have "length (filter (\<lambda>(w, used, expd). \<not> used) ?z) = card {i. i < ?n \<and> \<not> as_used ?st ! i}"
    using len loop(3,4) by (auto simp: length_filter_conv_card intro!: arg_cong[where f = card])
  then show "wr_UnusedCount (Apply s diags now) = card {i. i < ?n \<and> \<not> m s diags i}"
    unfolding A report_loop(4) m_def using loop(5) by (auto intro!: arg_cong[where f = card])
qed

lemma Validate_from_None: "Validate_from i ws = None \<longleftrightarrow> (\<forall>w \<in> set ws. waiver_problem w = None)"
  by (induction ws arbitrary: i) (auto split: option.splits)

lemma Validate_from_Some:
  "Validate_from i ws = Some (k, p) \<longleftrightarrow>
     (\<exists>j < length ws. k = i + j + 1 \<and> waiver_problem (ws ! j) = Some p \<and>
        (\<forall>l < j. waiver_problem (ws ! l) = None))"
proof (induction ws arbitrary: i)
  case (Cons w ws)
  show ?case
    using Cons[of "i + 1"] by (cases "waiver_problem w") (auto simp: Ex_less_Suc2 All_less_Suc2)
qed simp

definition demo_finding :: Diagnostic where
  "demo_finding =
     meta_diag ''XPC002'' SeverityError ''Deployment/web: storage version not served'' ''deploy/app/web.yaml''"

definition demo_register :: WaiverSet where
  "demo_register = \<lparr>ws_Waivers =
     [\<lparr>wv_Rule = ''XPC002'', wv_File = ''app/web.yaml'', wv_Kind = [], wv_Name = ''web'',
       wv_Namespace = [], wv_Reason = ''accepted'', wv_AddedBy = [], wv_AddedAt = [],
       wv_ExpiresAt = ''2026-06-01''\<rparr>], ws_Source = ''.xpc-waivers.yaml''\<rparr>"

section \<open>Properties\<close>

text \<open>
  C8.  Applying a register partitions the findings and loses none: the waived
  ones are exactly those whose first matching waiver has not expired, in order;
  every other finding stays active, in order, followed only by the synthetic
  waiver-expired and waiver-unused entries, none of which is an error.
\<close>

theorem Apply_partitions:
  "\<exists>meta. wr_Waived (Apply s diags now) = filter (is_waived s now) diags \<and>
     wr_Active (Apply s diags now) = filter (\<lambda>d. \<not> is_waived s now d) diags @ meta \<and>
     (\<forall>d \<in> set meta. dg_Code d \<in> {CodeWaiverExpired, CodeWaiverUnused} \<and>
                      dg_Severity d \<noteq> SeverityError)"
  using Apply_parts(1,2) by metis

theorem Apply_partitions_witness:
  "\<exists>meta. wr_Waived (Apply demo_register [demo_finding] (2026, 6, 1)) = [demo_finding] \<and>
     wr_Active (Apply demo_register [demo_finding] (2026, 6, 1)) = meta \<and>
     (\<forall>d \<in> set meta. dg_Severity d \<noteq> SeverityError)"
proof -
  have "is_waived demo_register (2026, 6, 1) demo_finding" by code_simp
  then show ?thesis
    using Apply_partitions[of demo_register "[demo_finding]" "(2026, 6, 1)"] by auto
qed

text \<open>
  The counters: \<open>ExpiredCount\<close> is the number of waivers that are the first
  match of some finding and have expired, \<open>UnusedCount\<close> the number that are the
  first match of none.
\<close>

theorem Apply_counts:
  "wr_ExpiredCount (Apply s diags now) =
     card {i. i < length (ws_Waivers s) \<and> expired (ws_Waivers s ! i) now \<and>
              (\<exists>d \<in> set diags. matchIndex s d = Some i)} \<and>
   wr_UnusedCount (Apply s diags now) =
     card {i. i < length (ws_Waivers s) \<and> \<not> (\<exists>d \<in> set diags. matchIndex s d = Some i)}"
  using Apply_parts(3,4) by simp

text \<open>
  A validated register cannot silence a rule wholesale: a finding it waives
  carries the waiver's exact rule code, matches its file or contains its name,
  and the waiver's parsed expiry date is today or later.
\<close>

theorem waived_is_specific_and_live:
  assumes "Validate s = None" "d \<in> set (wr_Waived (Apply s diags now))"
  shows "\<exists>w \<in> set (ws_Waivers s). dg_Code d = wv_Rule w \<and>
           (wv_File w \<noteq> [] \<and> fileMatches (sl_File (dg_Source d)) (wv_File w) \<or>
            wv_Name w \<noteq> [] \<and> Contains (dg_Message d) (wv_Name w)) \<and>
           (\<exists>expd. parse_date (wv_ExpiresAt w) = Some expd \<and> now \<le> expd)"
proof -
  have "is_waived s now d" using assms(2) Apply_parts(2)[of s diags now] by simp
  then obtain w where w: "w \<in> set (ws_Waivers s)" "matches w d" "\<not> expired w now"
    unfolding is_waived_def first_waiver_def
    by (auto simp: find_Some_iff split: option.splits) (metis nth_mem)
  have "waiver_problem w = None" using assms(1) w(1) by (simp add: Validate_def Validate_from_None)
  then show ?thesis using w
    by (intro bexI[OF _ w(1)])
      (auto simp: waiver_problem_def matches_def expired_def not_less split: if_splits option.splits)
qed

theorem waived_is_specific_and_live_witness:
  "Validate demo_register = None \<and>
   demo_finding \<in> set (wr_Waived (Apply demo_register [demo_finding] (2026, 6, 1))) \<and>
   (\<exists>w \<in> set (ws_Waivers demo_register). dg_Code demo_finding = wv_Rule w)"
proof -
  have v: "Validate demo_register = None" by code_simp
  have "is_waived demo_register (2026, 6, 1) demo_finding" by code_simp
  then have d: "demo_finding \<in> set (wr_Waived (Apply demo_register [demo_finding] (2026, 6, 1)))"
    by (simp add: Apply_parts(2))
  show ?thesis using waived_is_specific_and_live[OF v d] v d by blast
qed

text \<open>
  Validation reports the first offending entry, by its 1-based number, and
  accepts exactly the registers without one.
\<close>

theorem Validate_first_problem:
  "Validate s = Some (k, p) \<longleftrightarrow>
     (\<exists>j < length (ws_Waivers s). k = j + 1 \<and> waiver_problem (ws_Waivers s ! j) = Some p \<and>
        (\<forall>l < j. waiver_problem (ws_Waivers s ! l) = None))"
  by (simp add: Validate_def Validate_from_Some)

theorem Validate_first_problem_witness:
  "Validate \<lparr>ws_Waivers = [ws_Waivers demo_register ! 0, (ws_Waivers demo_register ! 0)\<lparr>wv_ExpiresAt := ''2026-02-30''\<rparr>],
             ws_Source = []\<rparr> = Some (2, BadExpiresAt)"
proof -
  have "waiver_problem (ws_Waivers demo_register ! 0) = None"
    "waiver_problem ((ws_Waivers demo_register ! 0)\<lparr>wv_ExpiresAt := ''2026-02-30''\<rparr>) = Some BadExpiresAt"
    by code_simp+
  then show ?thesis unfolding Validate_first_problem by (intro exI[of _ 1]) simp
qed

end
