(* ===== verification/Discover.thy ===== *)
theory Discover
  imports Config Owner
begin

text \<open>
  Where xpc finds its configuration and its kernel: \<^verbatim>\<open>pkg/config/discover.go\<close>, the file
  half of \<^verbatim>\<open>pkg/config/load.go\<close>, and the kernel path of \<^verbatim>\<open>pkg/checker/bridge.go\<close> and
  \<^verbatim>\<open>pkg/audit/proof.go\<close>.  The three upward walks share the contract
  \<open>upward_search\<close>; the YAML decoder is a record of functions.
\<close>

section \<open>The process\<close>

record ExeEnv = FsEnv +
  ev_Executable :: "string option"
  ev_EvalSymlinks :: "string \<Rightarrow> string option"
  ev_ReadFile :: "string \<Rightarrow> string + string"

definition exe_dir :: "('a ExeEnv_scheme) \<Rightarrow> string option" where
  "exe_dir ev =
     (case ev_Executable ev of
        None \<Rightarrow> None
      | Some exe \<Rightarrow> Some (Dir (case ev_EvalSymlinks ev exe of Some r \<Rightarrow> r | None \<Rightarrow> exe)))"

definition is_file :: "('a FsEnv_scheme) \<Rightarrow> string \<Rightarrow> bool" where
  "is_file fs p = (case fs_Stat fs p of None \<Rightarrow> False | Some m \<Rightarrow> m \<noteq> ModeDir)"

definition ev_Abs :: "('a FsEnv_scheme) \<Rightarrow> string \<Rightarrow> string option" where
  "ev_Abs fs p = FsAbs \<lparr>fs_Getwd = fs_Getwd fs, fs_Stat = fs_Stat fs\<rparr> p"

section \<open>Loading xpc.yaml\<close>

datatype DecodeRes = Decoded Config.Config | DecodeEOF | DecodeErr string

text \<open>
  \<^verbatim>\<open>gopkg.in/yaml.v3\<close>: the loose decoder, the encoder, and the decoder that refuses
  unknown fields.
\<close>

record Yaml =
  ya_Unmarshal :: "string \<Rightarrow> string + obj"
  ya_Marshal :: "obj \<Rightarrow> string + string"
  ya_Decode :: "string \<Rightarrow> DecodeRes"

datatype LoadError =
    YamlError string
  | Invalid ConfigError
  | ReadError string string
  | ParseError string LoadError
  | AbsError string

definition CurrentVersion :: int where
  "CurrentVersion = 1"

definition knownTopLevelKeys :: "string list" where
  "knownTopLevelKeys =
     [''version'', ''prod-patterns'', ''immutable-fields'', ''state-bearing-kinds'', ''bypass-annotations'',
      ''name-carveouts'', ''external-secret-stores'', ''env-label'', ''allowed-provider-configs'']"

text \<open>The zero \<^verbatim>\<open>Config{}\<close> the strict decoder fills; at the end of the input it stays as it is.\<close>

definition zero_Config :: Config.Config where
  "zero_Config =
     \<lparr>cfg_Version = 0, cfg_ProdPatterns = \<lparr>pp_AppSetNameSubstrings = []\<rparr>, cfg_ImmutableFields = [],
      cfg_StateBearingKinds = \<lparr>sbk_Append = [], sbk_Suppress = []\<rparr>,
      cfg_BypassAnnotations = \<lparr>bac_AllowDelete = \<lparr>bkc_Primary = [], bkc_Aliases = []\<rparr>,
                               bac_AllowImmutableChange = \<lparr>bkc_Primary = [], bkc_Aliases = []\<rparr>\<rparr>,
      cfg_NameCarveouts = \<lparr>nc_CrossplaneStateNeedsOrphan = []\<rparr>,
      cfg_ExternalSecretStores = \<lparr>es_AllowedNames = []\<rparr>,
      cfg_EnvLabel = \<lparr>el_Key = [], el_ClaimKinds = [], el_AllowedValues = []\<rparr>,
      cfg_AllowedProviderConfigs = []\<rparr>"

definition lift_validate :: "ConfigError + Config.Config \<Rightarrow> LoadError + Config.Config" where
  "lift_validate r = map_sum Invalid (\<lambda>c. c) r"

definition decode_error :: "string \<Rightarrow> string" where
  "decode_error msg =
     (if Contains msg ''field '' then msg @ '' (schema version '' @ Itoa CurrentVersion @ '')'' else msg)"

definition strip_unknown :: "obj \<Rightarrow> obj" where
  "strip_unknown raw = filter (\<lambda>(k, v). k \<in> set knownTopLevelKeys) raw"

definition unknown_top_keys :: "obj \<Rightarrow> string list" where
  "unknown_top_keys raw = filter (\<lambda>k. k \<notin> set knownTopLevelKeys) (map fst raw)"

text \<open>The result and the keys a warning was printed for, in the order of the walk over the map.\<close>

definition Parse :: "Yaml \<Rightarrow> string \<Rightarrow> (LoadError + Config.Config) \<times> string list" where
  "Parse Y data =
     (if TrimSpace data = [] then (Inr Default, [])
      else case ya_Unmarshal Y data of
        Inl e \<Rightarrow> (Inl (YamlError e), [])
      | Inr raw \<Rightarrow>
          ((case ya_Marshal Y (strip_unknown raw) of
              Inl e \<Rightarrow> Inl (YamlError e)
            | Inr stripped \<Rightarrow>
                (case ya_Decode Y stripped of
                   DecodeErr msg \<Rightarrow> Inl (YamlError (decode_error msg))
                 | DecodeEOF \<Rightarrow> lift_validate (validate zero_Config)
                 | Decoded cfg \<Rightarrow> lift_validate (validate cfg))),
           unknown_top_keys raw))"

definition Load :: "Yaml \<Rightarrow> ('a ExeEnv_scheme) \<Rightarrow> string \<Rightarrow> LoadError + Config.Config" where
  "Load Y ev path =
     (case ev_ReadFile ev path of
        Inl e \<Rightarrow> Inl (ReadError path e)
      | Inr data \<Rightarrow> map_sum (ParseError path) (\<lambda>c. c) (fst (Parse Y data)))"

section \<open>Finding xpc.yaml\<close>

definition CanonicalFileName :: string where
  "CanonicalFileName = ''xpc.yaml''"

definition config_probe :: "('a FsEnv_scheme) \<Rightarrow> string \<Rightarrow> string option" where
  "config_probe fs dir =
     (let candidate = JoinPath [dir, CanonicalFileName] in if is_file fs candidate then Some candidate else None)"

function searchUpward :: "('a FsEnv_scheme) \<Rightarrow> string \<Rightarrow> string option" where
  "searchUpward fs dir =
     (case config_probe fs dir of
        Some p \<Rightarrow> Some p
      | None \<Rightarrow> if Dir dir = dir then None else searchUpward fs (Dir dir))"
  by pat_completeness auto
termination
  by (relation "measure (\<lambda>(fs, dir). up_measure dir)") (auto intro: Dir_decreases)

declare searchUpward.simps [simp del]

interpretation config_search: upward_search "config_probe fs" "searchUpward fs" for fs
  by unfold_locales (rule searchUpward.simps)

text \<open>The path, and whether the walk started at the executable.\<close>

definition Discover :: "('a ExeEnv_scheme) \<Rightarrow> string \<Rightarrow> LoadError + (string \<times> bool) option" where
  "Discover ev start =
     (case ev_Abs ev start of
        None \<Rightarrow> Inl (AbsError start)
      | Some dir \<Rightarrow>
          Inr (case searchUpward ev dir of
                 Some p \<Rightarrow> Some (p, False)
               | None \<Rightarrow> (case exe_dir ev of
                            None \<Rightarrow> None
                          | Some d \<Rightarrow> map_option (\<lambda>p. (p, True)) (searchUpward ev d))))"

definition LoadIfPresent :: "Yaml \<Rightarrow> ('a ExeEnv_scheme) \<Rightarrow> string \<Rightarrow> LoadError + Config.Config" where
  "LoadIfPresent Y ev dir =
     (let candidate = JoinPath [dir, CanonicalFileName]
      in if \<not> is_file ev candidate then Inr Default else Load Y ev candidate)"

text \<open>The configuration (or the error), the path it comes from, and whether the executable's directory was used.\<close>

definition Resolve ::
  "Yaml \<Rightarrow> ('a ExeEnv_scheme) \<Rightarrow> string \<Rightarrow> string \<Rightarrow> string \<Rightarrow> (LoadError + Config.Config) \<times> string \<times> bool" where
  "Resolve Y ev flagPath envPath start =
     (if flagPath \<noteq> [] then (Load Y ev flagPath, flagPath, False)
      else if envPath \<noteq> [] then (Load Y ev envPath, envPath, False)
      else case Discover ev start of
        Inl e \<Rightarrow> (Inl e, [], False)
      | Inr None \<Rightarrow> (Inr Default, [], False)
      | Inr (Some (p, viaExe)) \<Rightarrow> (Load Y ev p, p, viaExe))"

section \<open>Finding the kernel\<close>

text \<open>The checker accepts any entry named \<^verbatim>\<open>kernel/check.shen\<close>, the audit log only one that is not a directory.\<close>

definition kernel_probe :: "('a FsEnv_scheme) \<Rightarrow> string \<Rightarrow> string option" where
  "kernel_probe fs dir =
     (if fs_Stat fs (JoinPath [dir, ''kernel'', ''check.shen'']) \<noteq> None then Some (JoinPath [dir, ''kernel'']) else None)"

definition audit_probe :: "('a FsEnv_scheme) \<Rightarrow> string \<Rightarrow> string option" where
  "audit_probe fs dir =
     (let candidate = JoinPath [dir, ''kernel'']
      in if is_file fs (JoinPath [candidate, ''check.shen'']) then Some candidate else None)"

function searchKernelUpward :: "('a FsEnv_scheme) \<Rightarrow> string \<Rightarrow> string option" where
  "searchKernelUpward fs dir =
     (case kernel_probe fs dir of
        Some p \<Rightarrow> Some p
      | None \<Rightarrow> if Dir dir = dir then None else searchKernelUpward fs (Dir dir))"
  by pat_completeness auto
termination
  by (relation "measure (\<lambda>(fs, dir). up_measure dir)") (auto intro: Dir_decreases)

function audit_searchKernelUpward :: "('a FsEnv_scheme) \<Rightarrow> string \<Rightarrow> string option" where
  "audit_searchKernelUpward fs dir =
     (case audit_probe fs dir of
        Some p \<Rightarrow> Some p
      | None \<Rightarrow> if Dir dir = dir then None else audit_searchKernelUpward fs (Dir dir))"
  by pat_completeness auto
termination
  by (relation "measure (\<lambda>(fs, dir). up_measure dir)") (auto intro: Dir_decreases)

declare searchKernelUpward.simps [simp del] audit_searchKernelUpward.simps [simp del]

interpretation kernel_search: upward_search "kernel_probe fs" "searchKernelUpward fs" for fs
  by unfold_locales (rule searchKernelUpward.simps)

interpretation audit_kernel_search: upward_search "audit_probe fs" "audit_searchKernelUpward fs" for fs
  by unfold_locales (rule audit_searchKernelUpward.simps)

datatype KernelPathError = GetwdFailed | AbsFailed | KernelNotFound

definition then_from_exe :: "('a ExeEnv_scheme) \<Rightarrow> (string \<Rightarrow> string option) \<Rightarrow> KernelPathError + string" where
  "then_from_exe ev search =
     (case exe_dir ev of
        None \<Rightarrow> Inl KernelNotFound
      | Some d \<Rightarrow> (case search d of Some p \<Rightarrow> Inr p | None \<Rightarrow> Inl KernelNotFound))"

definition resolveKernelPath :: "('a ExeEnv_scheme) \<Rightarrow> string \<Rightarrow> KernelPathError + string" where
  "resolveKernelPath ev p =
     (if p \<noteq> [] then Inr p
      else case fs_Getwd ev of
        None \<Rightarrow> Inl GetwdFailed
      | Some cwd \<Rightarrow>
          (case searchKernelUpward ev cwd of
             Some found \<Rightarrow> Inr found
           | None \<Rightarrow> then_from_exe ev (searchKernelUpward ev)))"

definition audit_resolveKernelPath :: "('a ExeEnv_scheme) \<Rightarrow> string \<Rightarrow> KernelPathError + string" where
  "audit_resolveKernelPath ev p =
     (if p \<noteq> [] then (case ev_Abs ev p of None \<Rightarrow> Inl AbsFailed | Some a \<Rightarrow> Inr a)
      else case fs_Getwd ev of
        None \<Rightarrow> Inl GetwdFailed
      | Some cwd \<Rightarrow>
          (case audit_searchKernelUpward ev cwd of
             Some found \<Rightarrow> Inr found
           | None \<Rightarrow> then_from_exe ev (audit_searchKernelUpward ev)))"

section \<open>What is found\<close>

lemma validate_version: "validate c = Inr d \<Longrightarrow> cfg_Version d = CurrentVersion"
  by (auto simp: validate_def CurrentVersion_def Let_def split: option.splits if_splits)

lemma Default_version: "cfg_Version Default = CurrentVersion"
  by (simp add: Default_def CurrentVersion_def)

lemma lift_validate_version: "lift_validate (validate c) = Inr d \<Longrightarrow> cfg_Version d = CurrentVersion"
  by (cases "validate c") (auto simp: lift_validate_def dest: validate_version)

lemma Parse_version: "fst (Parse Y data) = Inr c \<Longrightarrow> cfg_Version c = CurrentVersion"
  by (auto simp: Parse_def Default_version split: if_splits sum.splits DecodeRes.splits dest: lift_validate_version)

lemma map_sum_eq_Inr: "map_sum f g s = Inr y \<longleftrightarrow> (\<exists>x. s = Inr x \<and> y = g x)"
  by (cases s) auto

lemma Load_version: "Load Y ev path = Inr c \<Longrightarrow> cfg_Version c = CurrentVersion"
  by (auto simp: Load_def map_sum_eq_Inr split: sum.splits dest: Parse_version)

text \<open>Keys the schema does not know never change the outcome; each of them is reported.\<close>

lemma Parse_forward_compatible:
  assumes "ya_Unmarshal Y d1 = Inr r1" "ya_Unmarshal Y d2 = Inr r2" "strip_unknown r1 = strip_unknown r2"
    "TrimSpace d1 \<noteq> []" "TrimSpace d2 \<noteq> []"
  shows "fst (Parse Y d1) = fst (Parse Y d2)"
  using assms by (simp add: Parse_def)

abbreviation has_config :: "('a FsEnv_scheme) \<Rightarrow> string \<Rightarrow> bool" where
  "has_config fs dir \<equiv> is_file fs (JoinPath [dir, CanonicalFileName])"

definition nearest_config :: "('a FsEnv_scheme) \<Rightarrow> string \<Rightarrow> string \<Rightarrow> bool" where
  "nearest_config fs dir p =
     (\<exists>n \<le> Suc (length dir). p = JoinPath [(Dir ^^ n) dir, CanonicalFileName] \<and> is_file fs p \<and>
        (\<forall>m < n. \<not> has_config fs ((Dir ^^ m) dir)))"

definition no_config :: "('a FsEnv_scheme) \<Rightarrow> string \<Rightarrow> bool" where
  "no_config fs dir = (\<forall>n. \<not> has_config fs ((Dir ^^ n) dir))"

lemma config_probe_Some: "config_probe fs dir = Some p \<longleftrightarrow> p = JoinPath [dir, CanonicalFileName] \<and> is_file fs p"
  by (auto simp: config_probe_def Let_def)

lemma config_probe_None: "config_probe fs dir = None \<longleftrightarrow> \<not> has_config fs dir"
  by (simp add: config_probe_def Let_def)

lemma searchUpward_Some: "searchUpward fs dir = Some p \<Longrightarrow> nearest_config fs dir p"
  by (erule config_search.found_bound) (auto simp: nearest_config_def config_probe_Some config_probe_None)

lemma searchUpward_None: "searchUpward fs dir = None \<longleftrightarrow> no_config fs dir"
  by (simp add: config_search.finds_none no_config_def config_probe_None)

text \<open>
  Without a flag or an environment variable the configuration is read from the
  nearest \<^verbatim>\<open>xpc.yaml\<close> on the way from the start directory to the root; only when there is
  none there is it the nearest one above the executable; and the built-in default
  exactly when neither way has one.
\<close>

theorem Resolve_nearest:
  assumes "ev_Abs ev start = Some dir"
  shows "(\<exists>p. Resolve Y ev [] [] start = (Load Y ev p, p, False) \<and> nearest_config ev dir p) \<or>
    (no_config ev dir \<and>
      ((\<exists>p d. Resolve Y ev [] [] start = (Load Y ev p, p, True) \<and> exe_dir ev = Some d \<and> nearest_config ev d p) \<or>
       (Resolve Y ev [] [] start = (Inr Default, [], False) \<and> (\<forall>d. exe_dir ev = Some d \<longrightarrow> no_config ev d))))"
proof (cases "searchUpward ev dir")
  case (Some p)
  then show ?thesis using assms searchUpward_Some[OF Some] by (simp add: Resolve_def Discover_def)
next
  case None
  then have no: "no_config ev dir" by (simp add: searchUpward_None)
  show ?thesis
  proof (cases "exe_dir ev")
    case None': None
    then show ?thesis using assms None no by (simp add: Resolve_def Discover_def)
  next
    case (Some d)
    then show ?thesis
      using assms None no searchUpward_None[of ev d] searchUpward_Some[of ev d]
      by (cases "searchUpward ev d") (auto simp: Resolve_def Discover_def)
  qed
qed

definition demo_ev :: ExeEnv where
  "demo_ev = \<lparr>fs_Getwd = Some ''/r'', fs_Stat = (\<lambda>p. if p = ''/r/xpc.yaml'' then Some ModeRegular else None),
     ev_Executable = None, ev_EvalSymlinks = (\<lambda>p. None), ev_ReadFile = (\<lambda>p. Inr [])\<rparr>"

definition demo_yaml :: Yaml where
  "demo_yaml = \<lparr>ya_Unmarshal = (\<lambda>d. Inr []), ya_Marshal = (\<lambda>m. Inr []), ya_Decode = (\<lambda>d. DecodeEOF)\<rparr>"

theorem Resolve_nearest_witness:
  "Resolve demo_yaml demo_ev [] [] ''app'' = (Inr Default, ''/r/xpc.yaml'', False)"
proof -
  have abs: "ev_Abs demo_ev ''app'' = Some ''/r/app''" by code_simp
  have only: "is_file demo_ev p \<longleftrightarrow> p = ''/r/xpc.yaml''" for p by (simp add: is_file_def demo_ev_def)
  have "has_config demo_ev ((Dir ^^ 1) ''/r/app'')" by code_simp
  then have "\<not> no_config demo_ev ''/r/app''" unfolding no_config_def by blast
  then obtain p where p: "Resolve demo_yaml demo_ev [] [] ''app'' = (Load demo_yaml demo_ev p, p, False)"
      "nearest_config demo_ev ''/r/app'' p"
    using Resolve_nearest[OF abs, of demo_yaml] by blast
  have "p = ''/r/xpc.yaml''" using p(2) only by (auto simp: nearest_config_def)
  moreover have "Load demo_yaml demo_ev ''/r/xpc.yaml'' = Inr Default" by code_simp
  ultimately show ?thesis using p(1) by simp
qed

end
