(* ===== verification/WaiverFile.thy ===== *)
theory WaiverFile
  imports Waiver Discover
begin

text \<open>
  The rest of \<^verbatim>\<open>pkg/waiver/waiver.go\<close>: finding and reading the register.  The YAML decoder
  is a parameter.
\<close>

definition WaiverFileName :: string where
  "WaiverFileName = ''.xpc-waivers.yaml''"

definition waiver_Load :: "(string \<Rightarrow> string + WaiverSet) \<Rightarrow> ('a ExeEnv_scheme) \<Rightarrow> string \<Rightarrow> string + WaiverSet" where
  "waiver_Load decode ev path =
     (case ev_ReadFile ev path of
        Inl e \<Rightarrow> Inl (''reading '' @ path @ '': '' @ e)
      | Inr data \<Rightarrow>
          (case decode data of
             Inl e \<Rightarrow> Inl (''parsing '' @ path @ '': '' @ e)
           | Inr s \<Rightarrow> Inr (s\<lparr>ws_Source := path\<rparr>)))"

definition waiver_probe :: "('a FsEnv_scheme) \<Rightarrow> string \<Rightarrow> string option" where
  "waiver_probe fs dir =
     (let candidate = JoinPath [dir, WaiverFileName] in if is_file fs candidate then Some candidate else None)"

function waiver_searchUpward :: "('a FsEnv_scheme) \<Rightarrow> string \<Rightarrow> string option" where
  "waiver_searchUpward fs dir =
     (case waiver_probe fs dir of
        Some p \<Rightarrow> Some p
      | None \<Rightarrow> if Dir dir = dir then None else waiver_searchUpward fs (Dir dir))"
  by pat_completeness auto
termination
  by (relation "measure (\<lambda>(fs, dir). up_measure dir)") (auto intro: Dir_decreases)

declare waiver_searchUpward.simps [simp del]

interpretation waiver_search: upward_search "waiver_probe fs" "waiver_searchUpward fs" for fs
  by unfold_locales (rule waiver_searchUpward.simps)

definition no_waivers :: WaiverSet where
  "no_waivers = \<lparr>ws_Waivers = [], ws_Source = []\<rparr>"

definition waiver_Resolve ::
  "(string \<Rightarrow> string + WaiverSet) \<Rightarrow> ('a ExeEnv_scheme) \<Rightarrow> string \<Rightarrow> string \<Rightarrow> string + WaiverSet" where
  "waiver_Resolve decode ev flagPath start =
     (if flagPath \<noteq> [] then waiver_Load decode ev flagPath
      else case ev_Abs ev start of
        None \<Rightarrow> Inr no_waivers
      | Some dir \<Rightarrow>
          (case waiver_searchUpward ev dir of Some p \<Rightarrow> waiver_Load decode ev p | None \<Rightarrow> Inr no_waivers))"

text \<open>A register that is not given by the flag is the nearest one upwards, whatever the executable's directory holds.\<close>

lemma waiver_Resolve_nearest:
  assumes "ev_Abs ev start = Some dir" "waiver_searchUpward ev dir = Some p"
  shows "\<exists>d. p = JoinPath [d, WaiverFileName] \<and> is_file ev p \<and> waiver_Resolve decode ev [] start = waiver_Load decode ev p"
proof -
  obtain n where "waiver_probe ev ((Dir ^^ n) dir) = Some p" by (rule waiver_search.found_bound[OF assms(2)])
  then show ?thesis using assms by (auto simp: waiver_probe_def waiver_Resolve_def Let_def split: if_splits)
qed

end
