(* ===== verification/Plan.thy ===== *)
theory Plan
  imports JsonEq Registries
begin

text \<open>
  \<^verbatim>\<open>pkg/plan\<close>: the resource delta between two Worlds (diff.go), and the two
  plan-level rules over it, destructive removals (r26.go) and changes of
  immutable fields (r27.go).  The two Go maps the diff ranges over are
  association lists in some iteration order; a theorem shows the order does not
  matter.
\<close>

section \<open>Identities and changes\<close>

record ResourceIdentity =
  id_APIVersion :: string
  id_Kind :: string
  id_Namespace :: string
  id_Name :: string
  id_AppName :: string

record indexedResource =
  ix_Source :: SourceLocation
  ix_Raw :: obj

record ResourceChange =
  ch_Identity :: ResourceIdentity
  ch_BaseSource :: SourceLocation
  ch_HeadSource :: SourceLocation
  ch_BaseRaw :: obj
  ch_HeadRaw :: obj

record ResourceDelta =
  dl_Added :: "ResourceChange list"
  dl_Removed :: "ResourceChange list"
  dl_Modified :: "ResourceChange list"

type_synonym index = "(ResourceIdentity \<times> indexedResource) list"

section \<open>diff.go\<close>

definition resource_identity :: "ResourceInfo \<Rightarrow> ResourceIdentity" where
  "resource_identity res =
     \<lparr>id_APIVersion = ri_APIVersion res, id_Kind = ri_Kind res, id_Namespace = ri_Namespace res,
      id_Name = ri_Name res, id_AppName = ri_OwningApp res\<rparr>"

definition indexByIdentity :: "World \<Rightarrow> (ResourceIdentity \<times> ResourceInfo) list" where
  "indexByIdentity w = mfill resource_identity (\<lambda>res. res) (w_Resources w)"

definition argoAppVirtualRaw :: "ArgoApplication \<Rightarrow> obj" where
  "argoAppVirtualRaw app =
     (let meta = [(''name'', JStr (app_Name app))]
            @ (if app_Namespace app \<noteq> [] then [(''namespace'', JStr (app_Namespace app))] else [])
            @ (if app_Finalizers app \<noteq> [] then [(''finalizers'', JArr (map JStr (app_Finalizers app)))] else [])
            @ (if app_Annotations app \<noteq> []
               then [(''annotations'', JObj (map (\<lambda>(k, v). (k, JStr v)) (app_Annotations app)))] else []);
          sp = (if sp_PreserveResourcesOnDeletion (app_SyncPolicy app)
                then [(''preserveResourcesOnDeletion'', JBool True)] else []);
          spec = (if sp \<noteq> [] then [(''syncPolicy'', JObj sp)] else [])
      in [(''apiVersion'', JStr ''argoproj.io/v1alpha1''), (''kind'', JStr ''Application''),
          (''metadata'', JObj meta), (''spec'', JObj spec)])"

definition app_identity :: "ArgoApplication \<Rightarrow> ResourceIdentity" where
  "app_identity app =
     \<lparr>id_APIVersion = ''argoproj.io/v1alpha1'', id_Kind = ''Application'',
      id_Namespace = app_Namespace app, id_Name = app_Name app, id_AppName = []\<rparr>"

definition indexAll :: "World \<Rightarrow> index" where
  "indexAll w =
     foldl (\<lambda>out app. mput (app_identity app)
                        \<lparr>ix_Source = app_Source app, ix_Raw = argoAppVirtualRaw app\<rparr> out)
       (map (\<lambda>(rid, res). (rid, \<lparr>ix_Source = ri_Source res, ix_Raw = ri_Raw res\<rparr>)) (indexByIdentity w))
       (w_ArgoApps w)"

definition change_less :: "ResourceChange \<Rightarrow> ResourceChange \<Rightarrow> bool" where
  "change_less x y =
     (let a = ch_Identity x; b = ch_Identity y in
      if id_AppName a \<noteq> id_AppName b then id_AppName a < id_AppName b
      else if id_APIVersion a \<noteq> id_APIVersion b then id_APIVersion a < id_APIVersion b
      else if id_Kind a \<noteq> id_Kind b then id_Kind a < id_Kind b
      else if id_Namespace a \<noteq> id_Namespace b then id_Namespace a < id_Namespace b
      else id_Name a < id_Name b)"

definition sortChanges :: "ResourceChange list \<Rightarrow> ResourceChange list" where
  "sortChanges changes = sort_slice change_less changes"

text \<open>The body of the first loop, over the base index: the removed and the modified entry.\<close>

definition removed_of :: "index \<Rightarrow> ResourceIdentity \<times> indexedResource \<Rightarrow> ResourceChange list" where
  "removed_of headMap e =
     (case e of (rid, b) \<Rightarrow>
        if \<not> mhas headMap rid
        then [\<lparr>ch_Identity = rid, ch_BaseSource = ix_Source b, ch_HeadSource = zero_SourceLocation,
               ch_BaseRaw = ix_Raw b, ch_HeadRaw = []\<rparr>] else [])"

definition modified_of :: "index \<Rightarrow> ResourceIdentity \<times> indexedResource \<Rightarrow> ResourceChange list" where
  "modified_of headMap e =
     (case e of (rid, b) \<Rightarrow>
        (case map_of headMap rid of
           None \<Rightarrow> []
         | Some h \<Rightarrow>
             if \<not> rawEqual (ix_Raw b) (ix_Raw h)
             then [\<lparr>ch_Identity = rid, ch_BaseSource = ix_Source b, ch_HeadSource = ix_Source h,
                    ch_BaseRaw = ix_Raw b, ch_HeadRaw = ix_Raw h\<rparr>] else []))"

definition added_of :: "index \<Rightarrow> ResourceIdentity \<times> indexedResource \<Rightarrow> ResourceChange list" where
  "added_of baseMap e =
     (case e of (rid, h) \<Rightarrow>
        if \<not> mhas baseMap rid
        then [\<lparr>ch_Identity = rid, ch_BaseSource = zero_SourceLocation, ch_HeadSource = ix_Source h,
               ch_BaseRaw = [], ch_HeadRaw = ix_Raw h\<rparr>] else [])"

definition diff_maps :: "index \<Rightarrow> index \<Rightarrow> ResourceDelta" where
  "diff_maps baseMap headMap =
     \<lparr>dl_Added = sortChanges (concat (map (added_of baseMap) headMap)),
      dl_Removed = sortChanges (concat (map (removed_of headMap) baseMap)),
      dl_Modified = sortChanges (concat (map (modified_of headMap) baseMap))\<rparr>"

definition Diff :: "World \<Rightarrow> World \<Rightarrow> ResourceDelta" where
  "Diff base head = diff_maps (indexAll base) (indexAll head)"

section \<open>r26.go\<close>

definition groupFromAPIVersion :: "string \<Rightarrow> string" where
  "groupFromAPIVersion apiVersion =
     (case Index apiVersion ''/'' of Some i \<Rightarrow> take i apiVersion | None \<Rightarrow> [])"

definition qualifiedName :: "ResourceIdentity \<Rightarrow> string" where
  "qualifiedName rid = (if id_Namespace rid \<noteq> [] then id_Namespace rid @ ''/'' @ id_Name rid else id_Name rid)"

definition primaryOr :: "string list \<Rightarrow> string \<Rightarrow> string" where
  "primaryOr keys fallback =
     (case keys of k # _ \<Rightarrow> if k \<noteq> [] then k else fallback | [] \<Rightarrow> fallback)"

definition hasAnnotationBypass :: "obj \<Rightarrow> BypassKeySet \<Rightarrow> BypassSlot \<Rightarrow> bool" where
  "hasAnnotationBypass raw bypassKeys slot =
     (case getMap raw ''metadata'' of
        None \<Rightarrow> False
      | Some meta \<Rightarrow>
          (case getMap meta ''annotations'' of
             None \<Rightarrow> False
           | Some ann \<Rightarrow> BypassKeySet_HasRaw bypassKeys ann slot))"

definition hasBypassAnnotation :: "obj \<Rightarrow> BypassKeySet \<Rightarrow> bool" where
  "hasBypassAnnotation raw bypassKeys = hasAnnotationBypass raw bypassKeys BypassAllowDelete"

definition readDeletionPolicy :: "obj \<Rightarrow> string" where
  "readDeletionPolicy raw =
     (case getMap raw ''spec'' of None \<Rightarrow> [] | Some spec \<Rightarrow> str_field spec ''deletionPolicy'')"

definition deletionPolicyPhrase :: "string \<Rightarrow> string" where
  "deletionPolicyPhrase policy =
     (if policy = [] then ''spec.deletionPolicy is absent (Crossplane default is Delete)''
      else ''spec.deletionPolicy is '' @ policy @ '' (not Orphan)'')"

definition hasCascadeFinalizer :: "obj \<Rightarrow> bool" where
  "hasCascadeFinalizer raw =
     (case getMap raw ''metadata'' of
        None \<Rightarrow> False
      | Some meta \<Rightarrow>
          list_ex (\<lambda>s. s = ''resources-finalizer.argocd.argoproj.io'' \<or>
                       s = ''resources-finalizer.argocd.argoproj.io/foreground'')
            (str_elems (getSlice0 meta ''finalizers'')))"

definition preserveResourcesOnDeletion :: "obj \<Rightarrow> bool" where
  "preserveResourcesOnDeletion raw =
     (case getMap raw ''spec'' of
        None \<Rightarrow> False
      | Some spec \<Rightarrow>
          (case getMap spec ''syncPolicy'' of
             None \<Rightarrow> False
           | Some sp \<Rightarrow> bool_field sp ''preserveResourcesOnDeletion''))"

text \<open>A nil list (\<^const>\<open>None\<close>) falls back to the built-in registry.\<close>

definition buildStateBearingSet :: "ArgoGroupKind list option \<Rightarrow> string list" where
  "buildStateBearingSet resolved =
     map (\<lambda>gk. gk_Group gk @ ''/'' @ gk_Kind gk)
       (case resolved of None \<Rightarrow> StateBearingKindsRegistry | Some r \<Rightarrow> r)"

definition plan_diag :: "string \<Rightarrow> string \<Rightarrow> string \<Rightarrow> string \<Rightarrow> SourceLocation \<Rightarrow> Diagnostic" where
  "plan_diag code msg detail fix src =
     \<lparr>dg_Code = code, dg_Severity = SeverityError, dg_Message = msg, dg_Source = src,
      dg_Detail = detail, dg_Fix = fix, dg_Related = [], dg_Obligation = None\<rparr>"

definition dquote :: string where
  "dquote = [CHR 0x22]"

definition destructive_diag :: "BypassKeySet \<Rightarrow> ResourceChange \<Rightarrow> Diagnostic" where
  "destructive_diag bypassKeys c =
     (let rid = ch_Identity c; grp = groupFromAPIVersion (id_APIVersion rid) in
      plan_diag ''XPC.P.destructive-delete''
        (id_Kind rid @ '' '' @ qualifiedName rid @ '' would be removed'')
        (id_Kind rid @ '' is state-bearing (Group='' @ grp @ ''). Base-side ''
         @ deletionPolicyPhrase (readDeletionPolicy (ch_BaseRaw c))
         @ ''. Applying this change will run a real destructive call against the external object. ''
         @ ''This is the INC-6 failure shape.'')
        (''Either (a) keep the resource on HEAD (revert the removal), ''
         @ ''(b) set spec.deletionPolicy: Orphan on the base side before removing the CR, or ''
         @ ''(c) add annotation '' @ primaryOr (bk_AllowDelete bypassKeys) ''xpc.io/allow-delete''
         @ '': '' @ dquote @ ''true'' @ dquote
         @ '' to the base manifest if the destruction is genuinely intended.'')
        (ch_BaseSource c))"

definition cascade_diag :: "ResourceChange \<Rightarrow> Diagnostic" where
  "cascade_diag c =
     plan_diag ''XPC.P.cascade-risk''
       (''ArgoCD Application '' @ qualifiedName (ch_Identity c)
        @ '' would be removed with cascading finalizer present'')
       (''Base manifest carries resources-finalizer.argocd.argoproj.io without ''
        @ ''preserveResourcesOnDeletion: true. Removing the Application will cascade DELETE through ''
        @ ''every resource it owns. This is the fg-synapse INC-6 trigger applied at the Application level.'')
       (''Either set spec.syncPolicy.preserveResourcesOnDeletion: true on the Application ''
        @ ''before removing it, or drop the resources-finalizer entry from metadata.finalizers, ''
        @ ''or keep the Application on HEAD.'')
       (ch_BaseSource c)"

definition is_application :: "ResourceIdentity \<Rightarrow> bool" where
  "is_application rid =
     (let gk = id_APIVersion rid @ ''/'' @ id_Kind rid in
      gk = ''argoproj.io/v1alpha1/Application'' \<or> gk = ''v1alpha1/Application'' \<or>
      (id_Kind rid = ''Application'' \<and> groupFromAPIVersion (id_APIVersion rid) = ''argoproj.io''))"

definition r26_change :: "string list \<Rightarrow> BypassKeySet \<Rightarrow> ResourceChange \<Rightarrow> Diagnostic list" where
  "r26_change stateBearing bypassKeys c =
     (let rid = ch_Identity c; grp = groupFromAPIVersion (id_APIVersion rid) in
      if hasBypassAnnotation (ch_BaseRaw c) bypassKeys then []
      else if grp @ ''/'' @ id_Kind rid \<in> set stateBearing
      then (if readDeletionPolicy (ch_BaseRaw c) = ''Orphan'' then [] else [destructive_diag bypassKeys c])
      else if is_application rid
      then (if hasCascadeFinalizer (ch_BaseRaw c) \<and> \<not> preserveResourcesOnDeletion (ch_BaseRaw c)
            then [cascade_diag c] else [])
      else [])"

definition R26DestructiveDelete ::
  "ResourceDelta \<Rightarrow> BypassKeySet \<Rightarrow> ArgoGroupKind list option \<Rightarrow> Diagnostic list" where
  "R26DestructiveDelete delta bypassKeys stateBearingKinds =
     concat (map (r26_change (buildStateBearingSet stateBearingKinds) bypassKeys) (dl_Removed delta))"

section \<open>r27.go\<close>

definition hasImmutableChangeBypass :: "obj \<Rightarrow> BypassKeySet \<Rightarrow> bool" where
  "hasImmutableChangeBypass raw bypassKeys = hasAnnotationBypass raw bypassKeys BypassAllowImmutableChange"

definition gkForMessage :: "string \<Rightarrow> string \<Rightarrow> string" where
  "gkForMessage grp kind = (if grp = [] then kind else grp @ ''/'' @ kind)"

definition arrow :: string where
  "arrow = [CHR 0xE2, CHR 0x86, CHR 0x92]"

definition immutable_diag ::
  "(rat \<Rightarrow> string) \<Rightarrow> BypassKeySet \<Rightarrow> ResourceChange \<Rightarrow> ImmutableField \<Rightarrow> json \<Rightarrow> json \<Rightarrow> Diagnostic" where
  "immutable_diag ff bypassKeys c entry baseVal headVal =
     (let rid = ch_Identity c in
      plan_diag ''XPC.P.immutable-change''
        (gkForMessage (groupFromAPIVersion (id_APIVersion rid)) (id_Kind rid) @ '' '' @ qualifiedName rid
         @ '': immutable field '' @ imf_FieldPath entry @ '' changed'')
        (''Base value '' @ fmt_v ff baseVal @ '' '' @ arrow @ '' head value '' @ fmt_v ff headVal @ ''. ''
         @ imf_Reason entry
         @ ''. Applying this change will require destroying and recreating the external object.'')
        (''Either (a) revert the change to '' @ imf_FieldPath entry @ '' on HEAD, ''
         @ ''(b) recreate the resource under a new identity if the reshape is intentional, or ''
         @ ''(c) add annotation ''
         @ primaryOr (bk_AllowImmutableChange bypassKeys) ''xpc.io/allow-immutable-change''
         @ '': '' @ dquote @ ''true'' @ dquote @ '' on the HEAD manifest to consent to the recreate.'')
        (ch_BaseSource c))"

definition r27_entry ::
  "(rat \<Rightarrow> string) \<Rightarrow> BypassKeySet \<Rightarrow> ResourceChange \<Rightarrow> ImmutableField \<Rightarrow> Diagnostic list" where
  "r27_entry ff bypassKeys c entry =
     (if imf_Group entry \<noteq> groupFromAPIVersion (id_APIVersion (ch_Identity c)) \<or>
         imf_Kind entry \<noteq> id_Kind (ch_Identity c) then []
      else (case (ReadPath (ch_BaseRaw c) (imf_FieldPath entry), ReadPath (ch_HeadRaw c) (imf_FieldPath entry)) of
              (Some baseVal, Some headVal) \<Rightarrow>
                if deepEqual baseVal headVal then [] else [immutable_diag ff bypassKeys c entry baseVal headVal]
            | _ \<Rightarrow> []))"

text \<open>
  A nil registry (\<^const>\<open>None\<close>) and a nil key list fall back to the built-ins; the
  key list of a resolved World is never nil, so the model reads an empty one as nil.
\<close>

definition r27_registry :: "ImmutableField list option \<Rightarrow> ImmutableField list" where
  "r27_registry registry =
     (case registry of None \<Rightarrow> ResolveImmutableFields None ImmutableFieldRegistry | Some r \<Rightarrow> r)"

definition r27_keys :: "BypassKeySet \<Rightarrow> BypassKeySet" where
  "r27_keys bypassKeys =
     (if bk_AllowImmutableChange bypassKeys = []
      then bypassKeys\<lparr>bk_AllowImmutableChange := ResolveAllowImmutableChangeKeys None\<rparr> else bypassKeys)"

definition R27ImmutableChange ::
  "(rat \<Rightarrow> string) \<Rightarrow> ResourceDelta \<Rightarrow> ImmutableField list option \<Rightarrow> BypassKeySet \<Rightarrow> Diagnostic list" where
  "R27ImmutableChange ff delta registry bypassKeys =
     (let keys = r27_keys bypassKeys in
      concat (map (\<lambda>c. if hasImmutableChangeBypass (ch_HeadRaw c) keys then []
                       else concat (map (r27_entry ff keys c) (r27_registry registry)))
                  (dl_Modified delta)))"

section \<open>The index\<close>

lemma indexAll_distinct: "distinct (map fst (indexAll w))"
proof -
  have base: "distinct (map fst (map (\<lambda>(rid, res). (rid, \<lparr>ix_Source = ri_Source res, ix_Raw = ri_Raw res\<rparr>))
      (indexByIdentity w)))"
    using mfill_distinct[of resource_identity "\<lambda>res. res" "w_Resources w"]
    by (simp add: indexByIdentity_def comp_def split_beta)
  have "distinct (map fst m) \<Longrightarrow> distinct (map fst (foldl (\<lambda>out app. mput (app_identity app)
      \<lparr>ix_Source = app_Source app, ix_Raw = argoAppVirtualRaw app\<rparr> out) m apps))" for m apps
    by (induction apps arbitrary: m) auto
  from this[OF base] show ?thesis by (simp add: indexAll_def)
qed

interpretation change_order: key_order change_less
  "\<lambda>c. (id_AppName (ch_Identity c), id_APIVersion (ch_Identity c), id_Kind (ch_Identity c),
        id_Namespace (ch_Identity c), id_Name (ch_Identity c))"
  by unfold_locales (auto simp: change_less_def Let_def less_prod_def')

definition id_tuple :: "ResourceIdentity \<Rightarrow> string \<times> string \<times> string \<times> string \<times> string" where
  "id_tuple i = (id_AppName i, id_APIVersion i, id_Kind i, id_Namespace i, id_Name i)"

lemma id_tuple_inj: "id_tuple a = id_tuple b \<longleftrightarrow> a = b"
  by (cases a; cases b) (auto simp: id_tuple_def)

lemma removed_ids:
  "map ch_Identity (concat (map (removed_of hm) bm)) = map fst (filter (\<lambda>(i, b). \<not> mhas hm i) bm)"
  by (induction bm) (auto simp: removed_of_def)

lemma added_ids:
  "map ch_Identity (concat (map (added_of bm) hm)) = map fst (filter (\<lambda>(i, h). \<not> mhas bm i) hm)"
  by (induction hm) (auto simp: added_of_def)

lemma modified_ids:
  "map ch_Identity (concat (map (modified_of hm) bm)) =
     map fst (filter (\<lambda>(i, b). \<exists>h. map_of hm i = Some h \<and> \<not> rawEqual (ix_Raw b) (ix_Raw h)) bm)"
  by (induction bm) (auto simp: modified_of_def split: option.splits)

lemmas change_ids = removed_ids added_ids modified_ids

lemma distinct_ids:
  assumes "distinct (map fst bm)" "distinct (map fst hm)"
  shows "distinct (map ch_Identity (concat (map (removed_of hm) bm)))"
    "distinct (map ch_Identity (concat (map (added_of bm) hm)))"
    "distinct (map ch_Identity (concat (map (modified_of hm) bm)))"
  unfolding change_ids using assms by (auto intro: distinct_map_filter)

lemma sortChanges_perm:
  assumes "mset xs = mset ys" "distinct (map ch_Identity xs)"
  shows "sortChanges xs = sortChanges ys"
proof -
  let ?key = "\<lambda>c. id_tuple (ch_Identity c)"
  have "distinct (map ?key xs)"
    using assms(2) id_tuple_inj by (auto simp: distinct_map inj_on_def)
  then have "sort_slice change_less ys = sort_slice change_less xs"
    using change_order.slice_unique[of "sort_slice change_less ys" xs] change_order.slice_sorted[of ys]
      assms(1) by (simp add: id_tuple_def)
  then show ?thesis by (simp add: sortChanges_def)
qed

lemma concat_map_perm: "mset xs = mset ys \<Longrightarrow> mset (concat (map f xs)) = mset (concat (map f ys))"
proof -
  have e: "mset (concat (map f zs)) = \<Sum>\<^sub># (image_mset (\<lambda>x. mset (f x)) (mset zs))" for zs
    by (induction zs) auto
  assume "mset xs = mset ys"
  then show ?thesis by (simp add: e)
qed

lemma map_of_perm:
  assumes "mset xs = mset ys" "distinct (map fst xs)"
  shows "map_of xs = map_of ys" "distinct (map fst ys)"
proof -
  show d: "distinct (map fst ys)" using assms by (metis mset_map mset_eq_imp_distinct_iff)
  have "set xs = set ys" using assms(1) by (metis set_mset_mset)
  then show "map_of xs = map_of ys" using assms(2) d by (simp add: map_of_inject_set)
qed

text \<open>The indexed documents of a World are well formed when its own are.\<close>

definition wf_world :: "World \<Rightarrow> bool" where
  "wf_world w =
     ((\<forall>r \<in> set (w_Resources w). wf_json (JObj (ri_Raw r))) \<and>
      (\<forall>a \<in> set (w_ArgoApps w). distinct (map fst (app_Annotations a))))"

lemma wf_virtual: "distinct (map fst (app_Annotations app)) \<Longrightarrow> wf_json (JObj (argoAppVirtualRaw app))"
  by (auto simp: argoAppVirtualRaw_def Let_def comp_def split_beta)

lemma mfill_values: "(k, v) \<in> set (mfill key val xs) \<Longrightarrow> \<exists>x \<in> set xs. v = val x \<and> k = key x"
proof -
  assume "(k, v) \<in> set (mfill key val xs)"
  then have "map_of (mfill key val xs) k = Some v" by (simp add: mfill_distinct)
  then obtain x where "find (\<lambda>x. key x = k) (rev xs) = Some x" "v = val x"
    by (auto simp: map_of_mfill)
  then show ?thesis by (auto simp: find_Some_iff) (metis nth_mem length_rev set_rev)
qed

lemma indexAll_wf:
  assumes "wf_world w" "(i, r) \<in> set (indexAll w)"
  shows "wf_json (JObj (ix_Raw r))"
proof -
  let ?P = "\<lambda>m. \<forall>(i, r) \<in> set m. wf_json (JObj (ix_Raw r))"
  let ?base = "map (\<lambda>(rid, res). (rid, \<lparr>ix_Source = ri_Source res, ix_Raw = ri_Raw res\<rparr>)) (indexByIdentity w)"
  have "?P ?base"
    using assms(1) mfill_values[of _ _ resource_identity "\<lambda>res. res" "w_Resources w"]
    unfolding indexByIdentity_def wf_world_def by fastforce
  moreover have "?P m \<Longrightarrow> \<forall>a \<in> set apps. distinct (map fst (app_Annotations a)) \<Longrightarrow>
      ?P (foldl (\<lambda>out app. mput (app_identity app)
            \<lparr>ix_Source = app_Source app, ix_Raw = argoAppVirtualRaw app\<rparr> out) m apps)" for m apps
  proof (induction apps arbitrary: m)
    case (Cons a apps)
    have "?P (mput (app_identity a) \<lparr>ix_Source = app_Source a, ix_Raw = argoAppVirtualRaw a\<rparr> m)"
      using Cons.prems wf_virtual[of a] by (fastforce dest!: mput_entries)
    then show ?case using Cons by simp
  qed simp
  ultimately have "?P (indexAll w)" using assms(1) unfolding indexAll_def wf_world_def by blast
  then show ?thesis using assms(2) by blast
qed

lemma set_ids: "ch_Identity ` set (sortChanges xs) = set (map ch_Identity xs)"
  by (simp add: sortChanges_def)

lemma Diff_ids:
  "ch_Identity ` set (dl_Removed (Diff base head)) = fst ` set (indexAll base) - fst ` set (indexAll head)"
  "ch_Identity ` set (dl_Added (Diff base head)) = fst ` set (indexAll head) - fst ` set (indexAll base)"
  "ch_Identity ` set (dl_Modified (Diff base head)) =
     {i. \<exists>b h. map_of (indexAll base) i = Some b \<and> map_of (indexAll head) i = Some h \<and>
               \<not> rawEqual (ix_Raw b) (ix_Raw h)}"
proof -
  let ?bm = "indexAll base" and ?hm = "indexAll head"
  have mo: "map_of ?bm i = Some b \<longleftrightarrow> (i, b) \<in> set ?bm" for i b
    using indexAll_distinct by simp
  show "ch_Identity ` set (dl_Removed (Diff base head)) = fst ` set ?bm - fst ` set ?hm"
    unfolding Diff_def diff_maps_def ResourceDelta.simps set_ids removed_ids mhas_iff by force
  show "ch_Identity ` set (dl_Added (Diff base head)) = fst ` set ?hm - fst ` set ?bm"
    unfolding Diff_def diff_maps_def ResourceDelta.simps set_ids added_ids mhas_iff by force
  show "ch_Identity ` set (dl_Modified (Diff base head)) =
     {i. \<exists>b h. map_of ?bm i = Some b \<and> map_of ?hm i = Some h \<and> \<not> rawEqual (ix_Raw b) (ix_Raw h)}"
    unfolding Diff_def diff_maps_def ResourceDelta.simps set_ids modified_ids mo
    by (auto simp: image_iff)
qed

lemma Diff_lists_distinct:
  "distinct (map ch_Identity (dl_Removed (Diff base head)))"
  "distinct (map ch_Identity (dl_Added (Diff base head)))"
  "distinct (map ch_Identity (dl_Modified (Diff base head)))"
  using distinct_ids[where bm = "indexAll base" and hm = "indexAll head"] indexAll_distinct
  by (simp_all add: Diff_def diff_maps_def sortChanges_def)

lemma Diff_lists_sorted:
  "sorted (map (id_tuple \<circ> ch_Identity) (dl_Removed (Diff base head)))"
  "sorted (map (id_tuple \<circ> ch_Identity) (dl_Added (Diff base head)))"
  "sorted (map (id_tuple \<circ> ch_Identity) (dl_Modified (Diff base head)))"
proof -
  have "sorted (map (id_tuple \<circ> ch_Identity) (sort_slice change_less xs))" for xs
    using change_order.slice_sorted[of xs] by (simp add: id_tuple_def comp_def)
  then show "sorted (map (id_tuple \<circ> ch_Identity) (dl_Removed (Diff base head)))"
    "sorted (map (id_tuple \<circ> ch_Identity) (dl_Added (Diff base head)))"
    "sorted (map (id_tuple \<circ> ch_Identity) (dl_Modified (Diff base head)))"
    by (simp_all add: Diff_def diff_maps_def sortChanges_def)
qed

text \<open>The entries of the delta, by identity.\<close>

definition removed_change :: "ResourceIdentity \<Rightarrow> indexedResource \<Rightarrow> ResourceChange" where
  "removed_change i b = \<lparr>ch_Identity = i, ch_BaseSource = ix_Source b, ch_HeadSource = zero_SourceLocation,
     ch_BaseRaw = ix_Raw b, ch_HeadRaw = []\<rparr>"

definition modified_change :: "ResourceIdentity \<Rightarrow> indexedResource \<Rightarrow> indexedResource \<Rightarrow> ResourceChange" where
  "modified_change i b h = \<lparr>ch_Identity = i, ch_BaseSource = ix_Source b, ch_HeadSource = ix_Source h,
     ch_BaseRaw = ix_Raw b, ch_HeadRaw = ix_Raw h\<rparr>"

lemma removed_mem:
  "c \<in> set (dl_Removed (Diff base head)) \<longleftrightarrow>
     (\<exists>i b. map_of (indexAll base) i = Some b \<and> map_of (indexAll head) i = None \<and> c = removed_change i b)"
  using indexAll_distinct[of base]
  by (auto simp: Diff_def diff_maps_def sortChanges_def removed_of_def mhas_def removed_change_def
      split: if_splits)

lemma modified_mem:
  "c \<in> set (dl_Modified (Diff base head)) \<longleftrightarrow>
     (\<exists>i b h. map_of (indexAll base) i = Some b \<and> map_of (indexAll head) i = Some h \<and>
              \<not> rawEqual (ix_Raw b) (ix_Raw h) \<and> c = modified_change i b h)"
proof
  assume "c \<in> set (dl_Modified (Diff base head))"
  then obtain i b where ib: "(i, b) \<in> set (indexAll base)" "c \<in> set (modified_of (indexAll head) (i, b))"
    by (auto simp: Diff_def diff_maps_def sortChanges_def)
  then show "\<exists>i b h. map_of (indexAll base) i = Some b \<and> map_of (indexAll head) i = Some h \<and>
              \<not> rawEqual (ix_Raw b) (ix_Raw h) \<and> c = modified_change i b h"
    using indexAll_distinct[of base]
    by (cases "map_of (indexAll head) i")
      (auto simp: modified_of_def modified_change_def split: if_splits)
next
  assume "\<exists>i b h. map_of (indexAll base) i = Some b \<and> map_of (indexAll head) i = Some h \<and>
              \<not> rawEqual (ix_Raw b) (ix_Raw h) \<and> c = modified_change i b h"
  then obtain i b h where "(i, b) \<in> set (indexAll base)" "c \<in> set (modified_of (indexAll head) (i, b))"
    by (auto simp: modified_of_def modified_change_def dest: map_of_SomeD)
  then show "c \<in> set (dl_Modified (Diff base head))"
    by (auto simp: Diff_def diff_maps_def sortChanges_def)
qed

lemma change_sels [simp]:
  "ch_Identity (removed_change i b) = i" "ch_BaseRaw (removed_change i b) = ix_Raw b"
  "ch_Identity (modified_change i b h) = i" "ch_BaseRaw (modified_change i b h) = ix_Raw b"
  "ch_HeadRaw (modified_change i b h) = ix_Raw h"
  by (simp_all add: removed_change_def modified_change_def)

lemma bex_removed:
  "(\<exists>c \<in> set (dl_Removed (Diff base head)). P c) \<longleftrightarrow>
     (\<exists>i b. map_of (indexAll base) i = Some b \<and> map_of (indexAll head) i = None \<and> P (removed_change i b))"
  using removed_mem by metis

lemma bex_modified:
  "(\<exists>c \<in> set (dl_Modified (Diff base head)). P c) \<longleftrightarrow>
     (\<exists>i b h. map_of (indexAll base) i = Some b \<and> map_of (indexAll head) i = Some h \<and>
        \<not> rawEqual (ix_Raw b) (ix_Raw h) \<and> P (modified_change i b h))"
  using modified_mem by metis

text \<open>Reading an Application back through its virtual document.\<close>

lemma virtual_finalizer:
  "hasCascadeFinalizer (argoAppVirtualRaw app) \<longleftrightarrow>
     (\<exists>f \<in> set (app_Finalizers app). f = ''resources-finalizer.argocd.argoproj.io'' \<or>
        f = ''resources-finalizer.argocd.argoproj.io/foreground'')"
  by (auto simp: hasCascadeFinalizer_def argoAppVirtualRaw_def Let_def getMap_def getSlice_def jget_def
      list_ex_iff str_elems_set)

lemma virtual_preserve:
  "preserveResourcesOnDeletion (argoAppVirtualRaw app) =
     sp_PreserveResourcesOnDeletion (app_SyncPolicy app)"
  by (auto simp: preserveResourcesOnDeletion_def argoAppVirtualRaw_def Let_def getMap_def jget_def
      bool_field_def)

lemma virtual_bypass:
  "hasBypassAnnotation (argoAppVirtualRaw app) bk =
     BypassKeySet_Has bk (app_Annotations app) BypassAllowDelete"
proof -
  have "map_of (map (\<lambda>(k, v). (k, JStr v)) m) k = map_option JStr (map_of m k)" for m :: strmap and k
    by (induction m) auto
  then have ag: "BypassKeySet_Has bk m slot = BypassKeySet_HasRaw bk (map (\<lambda>(k, v). (k, JStr v)) m) slot"
    for m slot by (intro Has_agrees_HasRaw) (auto split: option.splits simp: map_option_case)
  show ?thesis
    by (auto simp: hasBypassAnnotation_def hasAnnotationBypass_def argoAppVirtualRaw_def Let_def
        getMap_def jget_def ag BypassKeySet_HasRaw_iff)
qed

lemma indexAll_app:
  assumes "app \<in> set (w_ArgoApps w)" "distinct (map app_identity (w_ArgoApps w))"
  shows "map_of (indexAll w) (app_identity app) =
           Some \<lparr>ix_Source = app_Source app, ix_Raw = argoAppVirtualRaw app\<rparr>"
proof -
  have "app \<in> set apps \<Longrightarrow> distinct (map app_identity apps) \<Longrightarrow>
      map_of (foldl (\<lambda>out app. mput (app_identity app)
          \<lparr>ix_Source = app_Source app, ix_Raw = argoAppVirtualRaw app\<rparr> out) m apps) (app_identity app) =
        Some \<lparr>ix_Source = app_Source app, ix_Raw = argoAppVirtualRaw app\<rparr>" for m apps
  proof (induction apps arbitrary: m rule: rev_induct)
    case (snoc a apps)
    then show ?case by (cases "a = app") (auto simp: image_iff)
  qed simp
  then show ?thesis using assms by (simp add: indexAll_def)
qed

lemma is_application_app: "is_application (app_identity app)"
  by (simp add: is_application_def app_identity_def Let_def)

lemma r26_destructive:
  "d \<in> set (r26_change sb bk c) \<and> dg_Code d = ''XPC.P.destructive-delete'' \<longleftrightarrow>
     d = destructive_diag bk c \<and> \<not> hasBypassAnnotation (ch_BaseRaw c) bk \<and>
     groupFromAPIVersion (id_APIVersion (ch_Identity c)) @ ''/'' @ id_Kind (ch_Identity c) \<in> set sb \<and>
     readDeletionPolicy (ch_BaseRaw c) \<noteq> ''Orphan''"
  by (auto simp: r26_change_def Let_def destructive_diag_def cascade_diag_def plan_diag_def)

definition demo_cluster :: "string \<Rightarrow> ResourceInfo" where
  "demo_cluster engine = zero_ResourceInfo\<lparr>ri_APIVersion := ''rds.aws.upbound.io/v1beta1'',
     ri_Kind := ''Cluster'', ri_Name := ''orders'',
     ri_Raw := [(''spec'', JObj [(''forProvider'', JObj [(''engine'', JStr engine)])])]\<rparr>"

definition demo_argo :: ArgoApplication where
  "demo_argo = zero_ArgoApplication\<lparr>app_Name := ''shop'',
     app_Finalizers := [''resources-finalizer.argocd.argoproj.io'']\<rparr>"

definition demo_base :: World where
  "demo_base = NewWorld\<lparr>w_Resources := [demo_cluster ''mysql''], w_ArgoApps := [demo_argo]\<rparr>"

definition demo_head :: World where
  "demo_head = NewWorld\<lparr>w_Resources := [demo_cluster ''postgres'']\<rparr>"

definition demo_ix_base :: indexedResource where
  "demo_ix_base = \<lparr>ix_Source = zero_SourceLocation, ix_Raw = ri_Raw (demo_cluster ''mysql'')\<rparr>"

definition demo_ix_head :: indexedResource where
  "demo_ix_head = \<lparr>ix_Source = zero_SourceLocation, ix_Raw = ri_Raw (demo_cluster ''postgres'')\<rparr>"

definition demo_entry :: ImmutableField where
  "demo_entry = \<lparr>imf_Group = ''rds.aws.upbound.io'', imf_Kind = ''Cluster'',
     imf_FieldPath = ''spec.forProvider.engine'', imf_Reason = ''RDS Cluster engine is immutable after create''\<rparr>"

definition no_keys :: BypassKeySet where
  "no_keys = \<lparr>bk_AllowDelete = [], bk_AllowImmutableChange = []\<rparr>"

definition Itoa_floor :: "rat \<Rightarrow> string" where
  "Itoa_floor r = Itoa \<lfloor>r\<rfloor>"

lemma demo_wf: "wf_world demo_base" "wf_world demo_head"
  by (simp_all add: wf_world_def demo_base_def demo_head_def demo_cluster_def demo_argo_def
      zero_defs NewWorld_def)

section \<open>Properties\<close>

text \<open>
  C18.  The delta partitions the identities of the two variants: removed are
  exactly those only in the base, added those only in the head, modified those
  in both with documents that differ; no identity is reported twice, and each
  list is sorted by application, API version, kind, namespace and name.
\<close>

theorem Diff_partition:
  "ch_Identity ` set (dl_Removed (Diff base head)) = fst ` set (indexAll base) - fst ` set (indexAll head) \<and>
   ch_Identity ` set (dl_Added (Diff base head)) = fst ` set (indexAll head) - fst ` set (indexAll base) \<and>
   ch_Identity ` set (dl_Modified (Diff base head)) =
     {i. \<exists>b h. map_of (indexAll base) i = Some b \<and> map_of (indexAll head) i = Some h \<and>
               \<not> rawEqual (ix_Raw b) (ix_Raw h)} \<and>
   distinct (map ch_Identity (dl_Removed (Diff base head))) \<and>
   distinct (map ch_Identity (dl_Added (Diff base head))) \<and>
   distinct (map ch_Identity (dl_Modified (Diff base head))) \<and>
   sorted (map (id_tuple \<circ> ch_Identity) (dl_Removed (Diff base head))) \<and>
   sorted (map (id_tuple \<circ> ch_Identity) (dl_Added (Diff base head))) \<and>
   sorted (map (id_tuple \<circ> ch_Identity) (dl_Modified (Diff base head)))"
  using Diff_ids[of base head] Diff_lists_distinct[of base head] Diff_lists_sorted[of base head]
  by (intro conjI)

text \<open>
  The delta does not depend on the iteration order of the two Go maps it is
  computed from: any permutation of either index gives the same three lists.
\<close>

theorem diff_order_independent:
  assumes "mset bm' = mset (indexAll base)" "mset hm' = mset (indexAll head)"
  shows "diff_maps bm' hm' = Diff base head"
proof -
  let ?bm = "indexAll base" and ?hm = "indexAll head"
  note pb = map_of_perm[OF assms(1)[symmetric] indexAll_distinct]
  note ph = map_of_perm[OF assms(2)[symmetric] indexAll_distinct]
  have fb: "added_of bm' = added_of ?bm" and fh: "removed_of hm' = removed_of ?hm" "modified_of hm' = modified_of ?hm"
    by (simp_all add: fun_eq_iff added_of_def removed_of_def modified_of_def mhas_def pb(1) ph(1))
  note d = distinct_ids[where bm = ?bm and hm = ?hm, OF indexAll_distinct indexAll_distinct]
  show ?thesis
    unfolding Diff_def diff_maps_def fb fh
    using sortChanges_perm[OF concat_map_perm[OF assms(1)[symmetric]] d(1)]
      sortChanges_perm[OF concat_map_perm[OF assms(2)[symmetric]] d(2)]
      sortChanges_perm[OF concat_map_perm[OF assms(1)[symmetric]] d(3)]
    by simp
qed

theorem diff_order_independent_witness:
  "diff_maps (rev (indexAll demo_base)) (rev (indexAll demo_head)) = Diff demo_base demo_head"
  using diff_order_independent[of "rev (indexAll demo_base)" demo_base "rev (indexAll demo_head)" demo_head]
  by simp

text \<open>
  Comparing a well-formed variant with itself reports nothing.
\<close>

theorem Diff_self_empty:
  assumes "wf_world w"
  shows "Diff w w = \<lparr>dl_Added = [], dl_Removed = [], dl_Modified = []\<rparr>"
proof -
  have "dl_Removed (Diff w w) = []" "dl_Added (Diff w w) = []"
    using Diff_ids(1,2)[of w w] by auto
  moreover have "\<not> (\<exists>i b. map_of (indexAll w) i = Some b \<and> \<not> rawEqual (ix_Raw b) (ix_Raw b))"
    using indexAll_wf[OF assms] deepEqual_refl unfolding rawEqual_def by (meson map_of_SomeD)
  then have "ch_Identity ` set (dl_Modified (Diff w w)) = {}" using Diff_ids(3)[of w w] by auto
  then have "dl_Modified (Diff w w) = []" by simp
  ultimately show ?thesis by simp
qed

theorem Diff_self_empty_witness:
  "Diff demo_base demo_base = \<lparr>dl_Added = [], dl_Removed = [], dl_Modified = []\<rparr>"
  using Diff_self_empty[OF demo_wf(1)] .

text \<open>
  C4.  R26 is exact on state-bearing resources: its destructive-delete findings
  are precisely those of the base resources that are absent from the head, are
  of a state-bearing kind, are not orphaned by their deletion policy and carry
  no allow-delete annotation.
\<close>

theorem R26_destructive_exact:
  "{d \<in> set (R26DestructiveDelete (Diff base head) bk kinds). dg_Code d = ''XPC.P.destructive-delete''} =
   {destructive_diag bk (removed_change i b) | i b.
      map_of (indexAll base) i = Some b \<and> map_of (indexAll head) i = None \<and>
      \<not> hasBypassAnnotation (ix_Raw b) bk \<and>
      groupFromAPIVersion (id_APIVersion i) @ ''/'' @ id_Kind i \<in> set (buildStateBearingSet kinds) \<and>
      readDeletionPolicy (ix_Raw b) \<noteq> ''Orphan''}"
proof -
  have "d \<in> set (R26DestructiveDelete (Diff base head) bk kinds) \<and> dg_Code d = ''XPC.P.destructive-delete'' \<longleftrightarrow>
      (\<exists>c \<in> set (dl_Removed (Diff base head)).
         d \<in> set (r26_change (buildStateBearingSet kinds) bk c) \<and> dg_Code d = ''XPC.P.destructive-delete'')" for d
    by (auto simp: R26DestructiveDelete_def)
  then show ?thesis
    unfolding r26_destructive bex_removed change_sels by blast
qed

text \<open>
  C16.  R26 on a removed Argo Application: the delta has an entry for it, and the
  entry yields the cascade-risk finding exactly when the Application carries a
  resources finalizer, does not preserve its resources on deletion and has no
  allow-delete annotation.
\<close>

theorem R26_cascade_exact:
  assumes "app \<in> set (w_ArgoApps base)" "distinct (map app_identity (w_ArgoApps base))"
    and "app_identity app \<notin> fst ` set (indexAll head)"
    and "''argoproj.io/Application'' \<notin> set (buildStateBearingSet kinds)"
  shows "\<exists>c \<in> set (dl_Removed (Diff base head)). ch_Identity c = app_identity app \<and>
           r26_change (buildStateBearingSet kinds) bk c =
             (if (\<exists>f \<in> set (app_Finalizers app). f = ''resources-finalizer.argocd.argoproj.io'' \<or>
                    f = ''resources-finalizer.argocd.argoproj.io/foreground'') \<and>
                 \<not> sp_PreserveResourcesOnDeletion (app_SyncPolicy app) \<and>
                 \<not> BypassKeySet_Has bk (app_Annotations app) BypassAllowDelete
              then [cascade_diag c] else [])"
proof -
  let ?b = "\<lparr>ix_Source = app_Source app, ix_Raw = argoAppVirtualRaw app\<rparr>"
  let ?c = "removed_change (app_identity app) ?b"
  have mem: "?c \<in> set (dl_Removed (Diff base head))"
    using indexAll_app[OF assms(1,2)] assms(3) by (auto simp: removed_mem map_of_eq_None_iff)
  have grp: "groupFromAPIVersion ''argoproj.io/v1alpha1'' = ''argoproj.io''" by code_simp
  have "groupFromAPIVersion (id_APIVersion (app_identity app)) @ ''/'' @ id_Kind (app_identity app) =
      ''argoproj.io/Application''"
    by (simp add: app_identity_def grp)
  then show ?thesis
    using mem assms(4) is_application_app[of app] virtual_finalizer[of app] virtual_preserve[of app]
      virtual_bypass[of app bk]
    by (intro bexI[of _ ?c]) (auto simp: r26_change_def removed_change_def Let_def)
qed

theorem R26_cascade_exact_witness:
  "\<exists>c \<in> set (dl_Removed (Diff demo_base demo_head)).
     r26_change (buildStateBearingSet None) \<lparr>bk_AllowDelete = [''xpc.io/allow-delete''], bk_AllowImmutableChange = []\<rparr> c
       = [cascade_diag c]"
proof -
  have a: "demo_argo \<in> set (w_ArgoApps demo_base)" "distinct (map app_identity (w_ArgoApps demo_base))"
    by (simp_all add: demo_base_def)
  have h: "app_identity demo_argo \<notin> fst ` set (indexAll demo_head)"
    by (simp add: indexAll_def demo_head_def NewWorld_def indexByIdentity_def mfill_def
        resource_identity_def demo_cluster_def app_identity_def demo_argo_def zero_defs)
  have k: "''argoproj.io/Application'' \<notin> set (buildStateBearingSet None)"
    by (simp add: buildStateBearingSet_def StateBearingKindsRegistry_def)
  have "app_Annotations demo_argo = []" "\<not> sp_PreserveResourcesOnDeletion (app_SyncPolicy demo_argo)"
    "app_Finalizers demo_argo = [''resources-finalizer.argocd.argoproj.io'']"
    by (simp_all add: demo_argo_def zero_defs)
  then show ?thesis
    using R26_cascade_exact[OF a h k,
        of "\<lparr>bk_AllowDelete = [''xpc.io/allow-delete''], bk_AllowImmutableChange = []\<rparr>"]
    by (auto simp: BypassKeySet_Has_iff)
qed

text \<open>
  C17.  R27 is exact on well-formed variants: its findings are precisely those of
  the registered fields that an identity present on both sides has with different
  values, unless the head manifest carries an allow-immutable-change annotation.
  (That the whole documents differ then follows; it need not be assumed.)
\<close>

theorem R27_exact:
  assumes "wf_world base" "wf_world head"
  shows "set (R27ImmutableChange ff (Diff base head) registry bk) =
    {immutable_diag ff (r27_keys bk) (modified_change i b h) e v v' | i b h e v v'.
       map_of (indexAll base) i = Some b \<and> map_of (indexAll head) i = Some h \<and>
       \<not> hasImmutableChangeBypass (ix_Raw h) (r27_keys bk) \<and>
       e \<in> set (r27_registry registry) \<and>
       imf_Group e = groupFromAPIVersion (id_APIVersion i) \<and> imf_Kind e = id_Kind i \<and>
       ReadPath (ix_Raw b) (imf_FieldPath e) = Some v \<and>
       ReadPath (ix_Raw h) (imf_FieldPath e) = Some v' \<and> \<not> deepEqual v v'}" (is "?L = ?R")
proof -
  have entry: "d \<in> set (r27_entry ff k (modified_change i b h) e) \<longleftrightarrow>
      (\<exists>v v'. imf_Group e = groupFromAPIVersion (id_APIVersion i) \<and> imf_Kind e = id_Kind i \<and>
         ReadPath (ix_Raw b) (imf_FieldPath e) = Some v \<and> ReadPath (ix_Raw h) (imf_FieldPath e) = Some v' \<and>
         \<not> deepEqual v v' \<and> d = immutable_diag ff k (modified_change i b h) e v v')" for d k i b h e
    by (cases "ReadPath (ix_Raw b) (imf_FieldPath e)"; cases "ReadPath (ix_Raw h) (imf_FieldPath e)")
      (auto simp: r27_entry_def modified_change_def)
  have differ: "\<not> rawEqual (ix_Raw b) (ix_Raw h)"
    if "map_of (indexAll base) i = Some b" "map_of (indexAll head) i = Some h"
      "ReadPath (ix_Raw b) p = Some v" "ReadPath (ix_Raw h) p = Some v'" "\<not> deepEqual v v'" for i b h p v v'
    using that rawEqual_ReadPath[of "ix_Raw b" "ix_Raw h" p v v'] indexAll_wf assms
    by (auto dest!: map_of_SomeD)
  have "?L = {d. \<exists>c \<in> set (dl_Modified (Diff base head)).
      \<not> hasImmutableChangeBypass (ch_HeadRaw c) (r27_keys bk) \<and>
      (\<exists>e \<in> set (r27_registry registry). d \<in> set (r27_entry ff (r27_keys bk) c e))}"
    by (auto simp: R27ImmutableChange_def Let_def split: if_splits)
  also have "\<dots> = {d. \<exists>i b h e. map_of (indexAll base) i = Some b \<and> map_of (indexAll head) i = Some h \<and>
      \<not> rawEqual (ix_Raw b) (ix_Raw h) \<and> \<not> hasImmutableChangeBypass (ix_Raw h) (r27_keys bk) \<and>
      e \<in> set (r27_registry registry) \<and> d \<in> set (r27_entry ff (r27_keys bk) (modified_change i b h) e)}"
    unfolding bex_modified change_sels by blast
  also have "\<dots> = ?R" unfolding entry using differ by blast
  finally show ?thesis .
qed

theorem R27_exact_witness:
  "immutable_diag Itoa_floor (r27_keys no_keys)
     (modified_change (resource_identity (demo_cluster ''mysql'')) demo_ix_base demo_ix_head)
     demo_entry (JStr ''mysql'') (JStr ''postgres'')
   \<in> set (R27ImmutableChange Itoa_floor (Diff demo_base demo_head) (Some [demo_entry]) no_keys)"
proof -
  have i: "map_of (indexAll demo_base) (resource_identity (demo_cluster ''mysql'')) = Some demo_ix_base"
    "map_of (indexAll demo_head) (resource_identity (demo_cluster ''mysql'')) = Some demo_ix_head"
    by (simp_all add: indexAll_def demo_base_def demo_head_def NewWorld_def indexByIdentity_def mfill_def
        resource_identity_def demo_cluster_def app_identity_def demo_argo_def zero_defs
        demo_ix_base_def demo_ix_head_def)
  have r: "ReadPath (ix_Raw demo_ix_base) (imf_FieldPath demo_entry) = Some (JStr ''mysql'')"
    "ReadPath (ix_Raw demo_ix_head) (imf_FieldPath demo_entry) = Some (JStr ''postgres'')"
    "\<not> hasImmutableChangeBypass (ix_Raw demo_ix_head) (r27_keys no_keys)"
    "imf_Group demo_entry = groupFromAPIVersion (id_APIVersion (resource_identity (demo_cluster ''mysql'')))"
    "imf_Kind demo_entry = id_Kind (resource_identity (demo_cluster ''mysql''))"
    by code_simp+
  have e: "demo_entry \<in> set (r27_registry (Some [demo_entry]))" by (simp add: r27_registry_def)
  show ?thesis
    unfolding R27_exact[OF demo_wf] using i r e by (auto intro!: exI)
qed

end
