(* ===== verification/PlanOutput.thy ===== *)
theory PlanOutput
  imports Plan Owner Schemas
begin

text \<open>
  The reports of \<^verbatim>\<open>pkg/plan\<close> (output.go), the posting of one of them as a merge-request
  comment (comment.go), and the plan itself (plan.go).
\<close>

section \<open>plan.go\<close>

record VariantSource =
  vs_Kind :: string
  vs_Path :: string

record VariantResult =
  vr_Ref :: string
  vr_ResolvedDir :: string
  vr_World :: World
  vr_Diagnostics :: "Diagnostic list"

record Plan =
  pn_Base :: VariantResult
  pn_Head :: VariantResult
  pn_Delta :: ResourceDelta
  pn_Diagnostics :: "Diagnostic list"

section \<open>output.go\<close>

record jsonChange =
  jc_Code :: string
  jc_Message :: string
  jc_APIVersion :: string
  jc_Kind :: string
  jc_Namespace :: string
  jc_Name :: string
  jc_App :: string
  jc_Reason :: string
  jc_Source :: SourceLocation

record jsonPlan =
  jp_BaseRef :: string
  jp_HeadRef :: string
  jp_Added :: nat
  jp_Removed :: nat
  jp_Modified :: nat
  jp_Destructive :: "jsonChange list"
  jp_BaseDiags :: "Diagnostic list"
  jp_HeadDiags :: "Diagnostic list"

definition by_source :: "SourceLocation \<Rightarrow> ResourceChange \<Rightarrow> bool" where
  "by_source src c = (ch_BaseSource c = src \<or> ch_HeadSource c = src)"

definition findChangeBySource :: "ResourceDelta \<Rightarrow> SourceLocation \<Rightarrow> ResourceChange option" where
  "findChangeBySource delta src =
     (if src = zero_SourceLocation then None
      else case find (by_source src) (dl_Removed delta) of
        Some c \<Rightarrow> Some c
      | None \<Rightarrow> (case find (by_source src) (dl_Modified delta) of
                   Some c \<Rightarrow> Some c
                 | None \<Rightarrow> find (by_source src) (dl_Added delta)))"

definition jsonChangeFromDiagnostic :: "ResourceDelta \<Rightarrow> Diagnostic \<Rightarrow> jsonChange" where
  "jsonChangeFromDiagnostic delta d =
     (let out = \<lparr>jc_Code = dg_Code d, jc_Message = dg_Message d, jc_APIVersion = [], jc_Kind = [], jc_Namespace = [],
                 jc_Name = [], jc_App = [], jc_Reason = dg_Detail d, jc_Source = dg_Source d\<rparr>
      in case findChangeBySource delta (dg_Source d) of
           None \<Rightarrow> out
         | Some change \<Rightarrow>
             let i = ch_Identity change
             in out\<lparr>jc_APIVersion := id_APIVersion i, jc_Kind := id_Kind i, jc_Namespace := id_Namespace i,
                    jc_Name := id_Name i, jc_App := id_AppName i\<rparr>)"

definition filterPlanDiagnostics :: "Diagnostic list \<Rightarrow> string \<Rightarrow> Diagnostic list" where
  "filterPlanDiagnostics diags codePrefix = filter (\<lambda>d. HasPrefix (dg_Code d) codePrefix) diags"

text \<open>What \<^verbatim>\<open>WriteJSON\<close> hands to the encoder.\<close>

definition WriteJSON :: "Plan \<Rightarrow> jsonPlan" where
  "WriteJSON p =
     \<lparr>jp_BaseRef = vr_Ref (pn_Base p), jp_HeadRef = vr_Ref (pn_Head p),
      jp_Added = length (dl_Added (pn_Delta p)), jp_Removed = length (dl_Removed (pn_Delta p)),
      jp_Modified = length (dl_Modified (pn_Delta p)),
      jp_Destructive = map (jsonChangeFromDiagnostic (pn_Delta p)) (filter (\<lambda>d. HasPrefix (dg_Code d) ''XPC.P.'') (pn_Diagnostics p)),
      jp_BaseDiags = vr_Diagnostics (pn_Base p), jp_HeadDiags = vr_Diagnostics (pn_Head p)\<rparr>"

definition countBySeverity :: "Diagnostic list \<Rightarrow> nat \<times> nat \<times> nat" where
  "countBySeverity diags =
     (length (filter (\<lambda>d. dg_Severity d = SeverityError) diags),
      length (filter (\<lambda>d. dg_Severity d = SeverityWarning) diags),
      length (filter (\<lambda>d. dg_Severity d = SeverityInfo) diags))"

abbreviation eol :: string where
  "eol \<equiv> [CHR 0x0A]"

text \<open>The header's arrow (U+2192) and warning sign (U+26A0) are the UTF-8 bytes of the source.\<close>

definition change_bullets :: "Diagnostic \<Rightarrow> string" where
  "change_bullets d =
     ''- '' @ dg_Message d @ eol @
     (if dg_Detail d \<noteq> [] then ''  - '' @ dg_Detail d @ eol else []) @
     (if dg_Fix d \<noteq> [] then ''  - **Fix:** '' @ dg_Fix d @ eol else [])"

definition tip_line :: "string \<Rightarrow> VariantResult \<Rightarrow> string" where
  "tip_line side v =
     (case countBySeverity (vr_Diagnostics v) of (errs, warns, infos) \<Rightarrow>
        ''- '' @ side @ '' ('' @ vr_Ref v @ ''): '' @ Itoa (int errs) @ '' errors, '' @ Itoa (int warns) @ '' warnings, '' @
        Itoa (int infos) @ '' info'' @ eol)"

definition WriteMarkdown :: "Plan \<Rightarrow> string" where
  "WriteMarkdown p =
     (let destructive = filterPlanDiagnostics (pn_Diagnostics p) ''XPC.P.''
      in ''## xpc plan: '' @ vr_Ref (pn_Base p) @ [CHR 0x20, CHR 0xE2, CHR 0x86, CHR 0x92, CHR 0x20] @ vr_Ref (pn_Head p) @ eol @ eol @
         (if destructive \<noteq> []
          then ''### '' @ [CHR 0xE2, CHR 0x9A, CHR 0xA0] @ '' Destructive changes ('' @ Itoa (int (length destructive)) @ '')'' @ eol @ eol @
               concat (map change_bullets destructive) @ eol
          else []) @
         ''### Resource changes'' @ eol @ eol @
         ''- Added: '' @ Itoa (int (length (dl_Added (pn_Delta p)))) @ eol @
         ''- Modified: '' @ Itoa (int (length (dl_Modified (pn_Delta p)))) @ eol @
         ''- Removed: '' @ Itoa (int (length (dl_Removed (pn_Delta p)))) @ eol @ eol @
         ''### Per-tip diagnostics'' @ eol @ eol @
         tip_line ''base'' (pn_Base p) @ tip_line ''head'' (pn_Head p))"

definition SummarizeDelta :: "ResourceDelta \<Rightarrow> string" where
  "SummarizeDelta d =
     ''added '' @ Itoa (int (length (dl_Added d))) @ '', removed '' @ Itoa (int (length (dl_Removed d))) @
     '', modified '' @ Itoa (int (length (dl_Modified d)))"

definition shortID :: "ResourceIdentity \<Rightarrow> string" where
  "shortID i =
     (let api = id_APIVersion i;
          base = (if api \<noteq> [] \<and> CHR ''/'' \<notin> set api then api @ ''/'' @ id_Kind i
                  else if Contains api ''/''
                  then (case Index api ''/'' of Some k \<Rightarrow> take k api | None \<Rightarrow> api) @ ''/'' @ id_Kind i
                  else id_Kind i);
          out = (if id_Namespace i \<noteq> [] then base @ '' '' @ id_Namespace i @ ''/'' @ id_Name i else base @ '' '' @ id_Name i)
      in if id_AppName i \<noteq> [] then out @ '' ('' @ id_AppName i @ '')'' else out)"

section \<open>comment.go\<close>

record CommentTarget =
  ct_VCS :: string
  ct_Project :: string
  ct_MRorPR :: int

text \<open>The sentinel an error wraps, with the rest of its text.\<close>

datatype CommentError =
    ErrCommentSpec string
  | ErrPosterAbsent string
  | ErrPostFailed string
  | ErrAutoDetect string

definition mr_sep :: string where
  "mr_sep = ''/-/merge_requests/''"

definition truncate :: "string \<Rightarrow> nat \<Rightarrow> string" where
  "truncate s n = (if length s \<le> n then s else take n s @ ''...'')"

text \<open>\<^verbatim>\<open>^([^/]+)/([^/]+)/pull/(\d+)$\<close> and \<^verbatim>\<open>^refs/pull/(\d+)/merge$\<close>.\<close>

definition all_digits :: "string \<Rightarrow> bool" where
  "all_digits s = (s \<noteq> [] \<and> list_all is_digit s)"

definition githubPullSpec :: "string \<Rightarrow> (string \<times> string \<times> string) option" where
  "githubPullSpec s =
     (case Split s ''/'' of
        [a, b, p, n] \<Rightarrow> if a \<noteq> [] \<and> b \<noteq> [] \<and> p = ''pull'' \<and> all_digits n then Some (a, b, n) else None
      | _ \<Rightarrow> None)"

definition githubRefPR :: "string \<Rightarrow> string option" where
  "githubRefPR s =
     (case Split s ''/'' of
        [r, p, n, m] \<Rightarrow> if r = ''refs'' \<and> p = ''pull'' \<and> all_digits n \<and> m = ''merge'' then Some n else None
      | _ \<Rightarrow> None)"

definition not_detected :: "(string \<Rightarrow> string) \<Rightarrow> string" where
  "not_detected env =
     ''CI_PROJECT_PATH='' @ Quote (truncate (env ''CI_PROJECT_PATH'') 64) @ '' CI_MERGE_REQUEST_IID='' @ Quote (truncate (env ''CI_MERGE_REQUEST_IID'') 64) @
     '' GITHUB_REPOSITORY='' @ Quote (truncate (env ''GITHUB_REPOSITORY'') 64) @ '' GITHUB_REF='' @ Quote (truncate (env ''GITHUB_REF'') 64)"

definition inferAutoTarget :: "(string \<Rightarrow> string) \<Rightarrow> CommentError + CommentTarget" where
  "inferAutoTarget env =
     (let glProject = env ''CI_PROJECT_PATH''; glIID = env ''CI_MERGE_REQUEST_IID''; ghRepo = env ''GITHUB_REPOSITORY''
      in if glProject \<noteq> [] \<and> glIID \<noteq> []
         then (case Atoi glIID of
                 None \<Rightarrow> Inl (ErrAutoDetect (''CI_MERGE_REQUEST_IID='' @ Quote (truncate glIID 64) @ '' is not numeric''))
               | Some iid \<Rightarrow> Inr \<lparr>ct_VCS = ''gitlab'', ct_Project = glProject, ct_MRorPR = iid\<rparr>)
         else (case (if ghRepo \<noteq> [] then Option.bind (githubRefPR (env ''GITHUB_REF'')) Atoi else None) of
                 Some pr \<Rightarrow> Inr \<lparr>ct_VCS = ''github'', ct_Project = ghRepo, ct_MRorPR = pr\<rparr>
               | None \<Rightarrow> Inl (ErrAutoDetect (not_detected env))))"

definition parse_gitlab :: "string \<Rightarrow> CommentTarget option" where
  "parse_gitlab rest =
     (case Index rest mr_sep of
        None \<Rightarrow> None
      | Some idx \<Rightarrow>
          let project = take idx rest; mrStr = drop (idx + length mr_sep) rest
          in if project = [] \<or> \<not> Contains project ''/'' then None
             else map_option (\<lambda>mr. \<lparr>ct_VCS = ''gitlab'', ct_Project = project, ct_MRorPR = mr\<rparr>) (Atoi mrStr))"

definition parse_github :: "string \<Rightarrow> CommentTarget option" where
  "parse_github rest =
     (case githubPullSpec rest of
        None \<Rightarrow> None
      | Some (a, b, n) \<Rightarrow> map_option (\<lambda>pr. \<lparr>ct_VCS = ''github'', ct_Project = a @ ''/'' @ b, ct_MRorPR = pr\<rparr>) (Atoi n))"

definition ParseCommentSpec :: "(string \<Rightarrow> string) \<Rightarrow> string \<Rightarrow> CommentError + CommentTarget" where
  "ParseCommentSpec env spec =
     (let or_spec = (\<lambda>r. case r of Some t \<Rightarrow> Inr t | None \<Rightarrow> Inl (ErrCommentSpec (Quote spec)))
      in if HasPrefix spec ''gitlab://'' then or_spec (parse_gitlab (TrimPrefix spec ''gitlab://''))
         else if HasPrefix spec ''github://'' then or_spec (parse_github (TrimPrefix spec ''github://''))
         else if spec = ''auto'' then inferAutoTarget env
         else Inl (ErrCommentSpec (Quote spec)))"

definition tailStderr :: "string \<Rightarrow> string" where
  "tailStderr b = TrimLeftFunc (\<lambda>c. c = CHR 0x0A \<or> c = CHR 0x0D) (if length b > 512 then drop (length b - 512) b else b)"

text \<open>
  A subprocess: its binary, its arguments and what is piped into it, and then its error
  and what it wrote to stderr.
\<close>

record Poster =
  po_LookPath :: "string \<Rightarrow> string + string"
  po_Run :: "string \<Rightarrow> string list \<Rightarrow> string \<Rightarrow> string option \<times> string"

definition post_with :: "Poster \<Rightarrow> string \<Rightarrow> string \<Rightarrow> string list \<Rightarrow> string \<Rightarrow> CommentError option" where
  "post_with P cli what args body =
     (case po_LookPath P cli of
        Inl e \<Rightarrow> Some (ErrPosterAbsent (cli @ '': '' @ e))
      | Inr bin \<Rightarrow>
          (case po_Run P bin args body of
             (None, _) \<Rightarrow> None
           | (Some e, stderr) \<Rightarrow> Some (ErrPostFailed (what @ '': '' @ e @ '': '' @ tailStderr stderr))))"

definition PostComment :: "Poster \<Rightarrow> CommentTarget \<Rightarrow> string \<Rightarrow> CommentError option" where
  "PostComment P target body =
     (if ct_VCS target = ''gitlab''
      then post_with P ''glab'' ''glab mr note''
             [''mr'', ''note'', Itoa (ct_MRorPR target), ''--repo='' @ ct_Project target, ''--message-file=-''] body
      else if ct_VCS target = ''github''
      then post_with P ''gh'' ''gh pr comment''
             [''pr'', ''comment'', Itoa (ct_MRorPR target), ''--repo='' @ ct_Project target, ''--body-file=-''] body
      else Some (ErrCommentSpec (''unknown VCS '' @ Quote (ct_VCS target))))"

definition DescribeTarget :: "CommentTarget \<Rightarrow> string" where
  "DescribeTarget t =
     (if ct_VCS t = ''gitlab'' then ''gitlab MR '' @ ct_Project t @ ''!'' @ Itoa (ct_MRorPR t)
      else if ct_VCS t = ''github'' then ''github PR '' @ ct_Project t @ ''#'' @ Itoa (ct_MRorPR t)
      else ct_VCS t @ '' '' @ ct_Project t @ ''/'' @ Itoa (ct_MRorPR t))"

section \<open>Specs round-trip\<close>

definition spec_of :: "CommentTarget \<Rightarrow> string" where
  "spec_of t =
     (if ct_VCS t = ''gitlab'' then ''gitlab://'' @ ct_Project t @ mr_sep @ Itoa (ct_MRorPR t)
      else ''github://'' @ ct_Project t @ ''/pull/'' @ Itoa (ct_MRorPR t))"

text \<open>
  A GitLab project is a path of at least two segments, none of them the reserved \<^verbatim>\<open>-\<close>; a
  GitHub one is an owner and a repository.
\<close>

definition wf_target :: "CommentTarget \<Rightarrow> bool" where
  "wf_target t =
     (0 \<le> ct_MRorPR t \<and> ct_MRorPR t < 2 ^ 63 \<and>
      (let segs = Split (ct_Project t) ''/''
       in (ct_VCS t = ''gitlab'' \<and> length segs \<ge> 2 \<and> ''-'' \<notin> set segs) \<or>
          (ct_VCS t = ''github'' \<and> length segs = 2 \<and> [] \<notin> set segs)))"

lemma Index_first:
  assumes "\<And>a b. length a < length p \<Longrightarrow> p @ sep @ r \<noteq> a @ sep @ b" "sep \<noteq> []"
  shows "Index (p @ sep @ r) sep = Some (length p)"
  using assms(1)
proof (induction p)
  case Nil
  obtain c s where "sep = c # s" using assms(2) by (cases sep) auto
  then show ?case using HasPrefix_append[of "c # s" r] by simp
next
  case (Cons c p)
  have "\<not> HasPrefix ((c # p) @ sep @ r) sep"
    using Cons.prems[of "[]"] by (auto simp: HasPrefix_iff)
  moreover have "p @ sep @ r \<noteq> a @ sep @ b" if "length a < length p" for a b
    using Cons.prems[of "c # a" b] that by auto
  ultimately show ?case using Cons.IH by simp
qed

lemma gitlab_sep_first:
  assumes "''-'' \<notin> set (Split p ''/'')"
  shows "Index (p @ mr_sep @ r) mr_sep = Some (length p)"
proof (rule Index_first)
  fix a b :: string assume len: "length a < length p"
  show "p @ mr_sep @ r \<noteq> a @ mr_sep @ b"
  proof
    assume eq: "p @ mr_sep @ r = a @ mr_sep @ b"
    obtain u where u: "p = a @ u" "u @ mr_sep @ r = mr_sep @ b"
      using eq len by (auto simp: append_eq_append_conv2)
    have "u \<noteq> []" using u(1) len by auto
    then obtain v where v: "u = ''/-'' @ v" "v = [] \<or> hd v = CHR ''/''"
      using u(2) by (cases u; cases "tl u"; cases "tl (tl u)") (auto simp: mr_sep_def)
    have "Split (''-'' @ v) ''/'' = ''-'' # (if v = [] then [] else Split (tl v) ''/'')"
    proof (cases v)
      case Nil
      then show ?thesis by (simp add: Split_no_sep)
    next
      case (Cons c v')
      then show ?thesis using v(2) Split_append_sep[of slash "''-''" v'] by simp
    qed
    then have "''-'' \<in> set (Split p ''/'')"
      using Split_append_slash[of a "''-'' @ v"] u(1) v(1) by auto
    then show False using assms by simp
  qed
qed (simp add: mr_sep_def)

lemma parse_gitlab_spec:
  assumes "''-'' \<notin> set (Split p ''/'')" "length (Split p ''/'') \<ge> 2" "0 \<le> n" "n < 2 ^ 63"
  shows "parse_gitlab (p @ mr_sep @ Itoa n) = Some \<lparr>ct_VCS = ''gitlab'', ct_Project = p, ct_MRorPR = n\<rparr>"
proof -
  have "slash \<in> set p" using assms(2) Split_no_sep[of slash p] by force
  then have "p \<noteq> []" "Contains p ''/''" by (auto simp: Contains_singleton)
  moreover have "Atoi (Itoa n) = Some n" using assms(3,4) by (intro Atoi_Itoa) auto
  ultimately show ?thesis using gitlab_sep_first[OF assms(1)] by (simp add: parse_gitlab_def Let_def)
qed

lemma all_digits_Itoa: "0 \<le> n \<Longrightarrow> all_digits (Itoa n)"
  using nat_digits_props[of "nat n"] by (simp add: all_digits_def Itoa_def)

lemma parse_github_spec:
  assumes "Split p ''/'' = [a, b]" "a \<noteq> []" "b \<noteq> []" "0 \<le> n" "n < 2 ^ 63"
  shows "parse_github (p @ ''/pull/'' @ Itoa n) = Some \<lparr>ct_VCS = ''github'', ct_Project = p, ct_MRorPR = n\<rparr>"
proof -
  have p: "p = a @ slash # b" using Join_Split[of "''/''" p] assms(1) by simp
  have "slash \<notin> set (Itoa n)" using Itoa_digits[of slash n] by (auto simp: is_digit_def)
  then have "Split (''pull'' @ slash # Itoa n) ''/'' = [''pull'', Itoa n]"
    using Split_append_sep[of slash "''pull''" "Itoa n"] by (simp add: Split_no_sep)
  then have "Split (p @ slash # ''pull'' @ slash # Itoa n) ''/'' = [a, b, ''pull'', Itoa n]"
    using Split_append_slash[of p "''pull'' @ slash # Itoa n"] assms(1) by simp
  moreover have "Atoi (Itoa n) = Some n" using assms(4,5) by (intro Atoi_Itoa) auto
  ultimately show ?thesis using assms all_digits_Itoa[OF assms(4)] p by (simp add: parse_github_def githubPullSpec_def)
qed

text \<open>
  A comment target written as a \<^verbatim>\<open>--post-comment\<close> spec is read back as itself, whatever
  the environment holds.
\<close>

theorem ParseCommentSpec_roundtrip:
  assumes "wf_target t"
  shows "ParseCommentSpec env (spec_of t) = Inr t"
proof -
  have n: "0 \<le> ct_MRorPR t" "ct_MRorPR t < 2 ^ 63" using assms by (simp_all add: wf_target_def)
  consider "ct_VCS t = ''gitlab''" "length (Split (ct_Project t) ''/'') \<ge> 2" "''-'' \<notin> set (Split (ct_Project t) ''/'')" |
    a b where "ct_VCS t = ''github''" "Split (ct_Project t) ''/'' = [a, b]" "a \<noteq> []" "b \<noteq> []"
    using assms by (fastforce simp: wf_target_def Let_def length_Suc_conv numeral_2_eq_2)
  then show ?thesis
  proof cases
    case 1
    then show ?thesis using parse_gitlab_spec[OF 1(3,2) n]
      by (simp add: ParseCommentSpec_def spec_of_def HasPrefix_def TrimPrefix_def)
  next
    case 2
    then show ?thesis using parse_github_spec[OF 2(2-4) n]
      by (simp add: ParseCommentSpec_def spec_of_def HasPrefix_def TrimPrefix_def)
  qed
qed

theorem ParseCommentSpec_roundtrip_witness:
  "ParseCommentSpec (\<lambda>_. []) (spec_of \<lparr>ct_VCS = ''github'', ct_Project = ''o/r'', ct_MRorPR = 7\<rparr>) =
     Inr \<lparr>ct_VCS = ''github'', ct_Project = ''o/r'', ct_MRorPR = 7\<rparr>"
proof (rule ParseCommentSpec_roundtrip)
  show "wf_target \<lparr>ct_VCS = ''github'', ct_Project = ''o/r'', ct_MRorPR = 7\<rparr>" by code_simp
qed

end
