(* ===== verification/LoadDir.thy ===== *)
theory LoadDir
  imports Owner
begin

text \<open>
  \<^verbatim>\<open>LoadDirectory\<close> of \<^verbatim>\<open>pkg/loader/loader.go\<close>: the walk that collects the YAML
  files, the pool of workers that decodes them concurrently, as a step relation
  with one step for every atomic action of a worker, and the flattening of the
  results.  Opening and decoding a file is a parameter.
\<close>

section \<open>The walk\<close>

text \<open>
  A directory tree as \<^verbatim>\<open>filepath.Walk\<close> meets it: the entries of a directory in
  lexical order, an entry whose \<^verbatim>\<open>lstat\<close> fails, a directory that cannot be read.
\<close>

datatype FsEntry =
    EFile string
  | EDir string "string option" "FsEntry list"
  | EBad string string

fun ent_name :: "FsEntry \<Rightarrow> string" where
  "ent_name (EFile n) = n"
| "ent_name (EDir n _ _) = n"
| "ent_name (EBad n _) = n"

definition yaml_file :: "string \<Rightarrow> bool" where
  "yaml_file path = (ToLower (Ext path) = ''.yaml'' \<or> ToLower (Ext path) = ''.yml'')"

definition helm_templates :: "FsEnv \<Rightarrow> string \<Rightarrow> string \<Rightarrow> bool" where
  "helm_templates fs path name =
     (name = ''templates'' \<and>
      (case fs_Stat fs (JoinPath [Dir path, ''Chart.yaml'']) of None \<Rightarrow> False | Some m \<Rightarrow> m \<noteq> ModeDir))"

fun seq_err :: "('e + 'a list) list \<Rightarrow> 'e + 'a list" where
  "seq_err [] = Inr []"
| "seq_err (Inl e # _) = Inl e"
| "seq_err (Inr xs # rest) = map_sum id (\<lambda>ys. xs @ ys) (seq_err rest)"

fun walk_entry :: "FsEnv \<Rightarrow> string \<Rightarrow> FsEntry \<Rightarrow> string + string list" where
  "walk_entry fs path (EFile n) = Inr (if yaml_file path then [path] else [])"
| "walk_entry fs path (EDir n err es) =
     (case err of
        Some e \<Rightarrow> Inl e
      | None \<Rightarrow>
          if helm_templates fs path n then Inr []
          else seq_err (map (\<lambda>e. walk_entry fs (JoinPath [path, ent_name e]) e) es))"
| "walk_entry fs path (EBad n e) = Inl e"

section \<open>The worker pool\<close>

datatype Worker = Idle | Loading nat | Finished

record Pool =
  pl_idx :: nat
  pl_workers :: "Worker list"
  pl_results :: "LoadedDocument list list"
  pl_firstErr :: "string option"

definition LoadFile :: "(string \<Rightarrow> string + YamlEvent list) \<Rightarrow> string \<Rightarrow> string + LoadedDocument list" where
  "LoadFile opn path = (case opn path of Inl err \<Rightarrow> Inl err | Inr es \<Rightarrow> LoadReader path es)"

definition pool_size :: "nat \<Rightarrow> string list \<Rightarrow> nat" where
  "pool_size maxprocs paths = max 1 (min maxprocs (length paths))"

definition pool_init :: "nat \<Rightarrow> string list \<Rightarrow> Pool" where
  "pool_init maxprocs paths =
     \<lparr>pl_idx = 0, pl_workers = replicate (pool_size maxprocs paths) Idle,
      pl_results = replicate (length paths) [], pl_firstErr = None\<rparr>"

text \<open>
  A worker takes the next index under the mutex, decodes the file, and stores
  the documents in the slot of that index; at the end of the paths, and after an
  error, it is done.  The \<^verbatim>\<open>sync.Once\<close> keeps the first error only.
\<close>

inductive pool_step ::
  "(string \<Rightarrow> string + LoadedDocument list) \<Rightarrow> string list \<Rightarrow> Pool \<Rightarrow> Pool \<Rightarrow> bool"
  for load :: "string \<Rightarrow> string + LoadedDocument list" and paths :: "string list" where
  take_index:
    "\<lbrakk>k < length (pl_workers p); pl_workers p ! k = Idle; pl_idx p < length paths\<rbrakk>
     \<Longrightarrow> pool_step load paths p
           (p\<lparr>pl_idx := Suc (pl_idx p), pl_workers := (pl_workers p)[k := Loading (pl_idx p)]\<rparr>)"
| exhausted:
    "\<lbrakk>k < length (pl_workers p); pl_workers p ! k = Idle; \<not> pl_idx p < length paths\<rbrakk>
     \<Longrightarrow> pool_step load paths p
           (p\<lparr>pl_idx := Suc (pl_idx p), pl_workers := (pl_workers p)[k := Finished]\<rparr>)"
| loaded:
    "\<lbrakk>k < length (pl_workers p); pl_workers p ! k = Loading i; load (paths ! i) = Inr docs\<rbrakk>
     \<Longrightarrow> pool_step load paths p
           (p\<lparr>pl_results := (pl_results p)[i := docs], pl_workers := (pl_workers p)[k := Idle]\<rparr>)"
| failed:
    "\<lbrakk>k < length (pl_workers p); pl_workers p ! k = Loading i; load (paths ! i) = Inl err\<rbrakk>
     \<Longrightarrow> pool_step load paths p
           (p\<lparr>pl_firstErr := (case pl_firstErr p of
                  None \<Rightarrow> Some (''loading '' @ paths ! i @ '': '' @ err) | Some e \<Rightarrow> Some e),
              pl_workers := (pl_workers p)[k := Finished]\<rparr>)"

definition pool_done :: "Pool \<Rightarrow> bool" where
  "pool_done p = list_all (\<lambda>w. w = Finished) (pl_workers p)"

definition flatten_results :: "string list \<Rightarrow> LoadedDocument list list \<Rightarrow> LoadedDocument list" where
  "flatten_results paths results =
     concat (map snd (sort_slice (\<lambda>x y. fst x < fst y) (filter (\<lambda>(p, docs). docs \<noteq> []) (zip paths results))))"

definition pool_result :: "string list \<Rightarrow> Pool \<Rightarrow> string + LoadedDocument list" where
  "pool_result paths p =
     (case pl_firstErr p of Some err \<Rightarrow> Inl err | None \<Rightarrow> Inr (flatten_results paths (pl_results p)))"

text \<open>
  A run of \<^verbatim>\<open>LoadDirectory\<close>: an error of the walk, or what the pool leaves under some
  schedule of its workers.
\<close>

inductive LoadDirectory ::
  "FsEnv \<Rightarrow> (string \<Rightarrow> string + YamlEvent list) \<Rightarrow> nat \<Rightarrow> string \<Rightarrow> FsEntry \<Rightarrow>
   string + LoadedDocument list \<Rightarrow> bool" where
  walk_failed: "walk_entry fs dir e = Inl err \<Longrightarrow> LoadDirectory fs opn maxprocs dir e (Inl err)"
| pool_ended:
    "\<lbrakk>walk_entry fs dir e = Inr paths; (pool_step (LoadFile opn) paths)\<^sup>*\<^sup>* (pool_init maxprocs paths) p; pool_done p\<rbrakk>
     \<Longrightarrow> LoadDirectory fs opn maxprocs dir e (pool_result paths p)"

inductive_cases LoadDirectoryE: "LoadDirectory fs opn maxprocs dir e r"

text \<open>One worker at a time, for a given schedule: what the step relation allows, computed.\<close>

definition worker_move ::
  "(string \<Rightarrow> string + LoadedDocument list) \<Rightarrow> string list \<Rightarrow> nat \<Rightarrow> Pool \<Rightarrow> Pool" where
  "worker_move load paths k p =
     (case pl_workers p ! k of
        Idle \<Rightarrow>
          (if pl_idx p < length paths
           then p\<lparr>pl_idx := Suc (pl_idx p), pl_workers := (pl_workers p)[k := Loading (pl_idx p)]\<rparr>
           else p\<lparr>pl_idx := Suc (pl_idx p), pl_workers := (pl_workers p)[k := Finished]\<rparr>)
      | Loading i \<Rightarrow>
          (case load (paths ! i) of
             Inr docs \<Rightarrow> p\<lparr>pl_results := (pl_results p)[i := docs], pl_workers := (pl_workers p)[k := Idle]\<rparr>
           | Inl err \<Rightarrow>
               p\<lparr>pl_firstErr := (case pl_firstErr p of
                    None \<Rightarrow> Some (''loading '' @ paths ! i @ '': '' @ err) | Some e \<Rightarrow> Some e),
                 pl_workers := (pl_workers p)[k := Finished]\<rparr>)
      | Finished \<Rightarrow> p)"

lemma worker_move_step:
  assumes "k < length (pl_workers p)" "pl_workers p ! k \<noteq> Finished"
  shows "pool_step load paths p (worker_move load paths k p)"
proof (cases "pl_workers p ! k")
  case Idle
  then show ?thesis using assms pool_step.take_index[of k p paths load] pool_step.exhausted[of k p paths load]
    by (cases "pl_idx p < length paths") (simp_all add: worker_move_def)
next
  case (Loading i)
  then show ?thesis using assms pool_step.loaded[of k p i load paths] pool_step.failed[of k p i load paths]
    by (cases "load (paths ! i)") (simp_all add: worker_move_def)
next
  case Finished
  then show ?thesis using assms by simp
qed

lemma worker_step_iff:
  "pool_step load paths p p' \<longleftrightarrow>
     (\<exists>k < length (pl_workers p). pl_workers p ! k \<noteq> Finished \<and> p' = worker_move load paths k p)"
proof
  assume "pool_step load paths p p'"
  then show "\<exists>k < length (pl_workers p). pl_workers p ! k \<noteq> Finished \<and> p' = worker_move load paths k p"
    by cases (auto simp: worker_move_def)
next
  assume "\<exists>k < length (pl_workers p). pl_workers p ! k \<noteq> Finished \<and> p' = worker_move load paths k p"
  then show "pool_step load paths p p'" using worker_move_step by blast
qed

section \<open>Progress and termination\<close>

lemma pool_progress: "\<not> pool_done p \<Longrightarrow> \<exists>p'. pool_step load paths p p'"
  unfolding pool_done_def worker_step_iff by (auto simp: list_all_length)

text \<open>
  Each step takes an index, finishes a file or finishes a worker: the measure
  weighs the indices not yet taken and the workers by what they have left to do.
\<close>

fun worker_left :: "Worker \<Rightarrow> nat" where
  "worker_left Idle = 1"
| "worker_left (Loading _) = 2"
| "worker_left Finished = 0"

definition pool_left :: "string list \<Rightarrow> Pool \<Rightarrow> nat" where
  "pool_left paths p = 2 * (length paths - pl_idx p) + sum_list (map worker_left (pl_workers p))"

lemma sum_list_map_update:
  "k < length ws \<Longrightarrow> sum_list (map f (ws[k := w])) + f (ws ! k) = sum_list (map f ws) + (f w :: nat)"
  by (induction ws arbitrary: k) (auto split: nat.splits)

lemma pool_step_decreases:
  assumes "pool_step load paths p p'"
  shows "pool_left paths p' < pool_left paths p"
  using assms
proof cases
  case (take_index k)
  then show ?thesis using sum_list_map_update[of k "pl_workers p" worker_left "Loading (pl_idx p)"]
    by (simp add: pool_left_def)
next
  case (exhausted k)
  then show ?thesis using sum_list_map_update[of k "pl_workers p" worker_left Finished]
    by (simp add: pool_left_def)
next
  case (loaded k i docs)
  then show ?thesis using sum_list_map_update[of k "pl_workers p" worker_left Idle]
    by (simp add: pool_left_def)
next
  case (failed k i err)
  then show ?thesis using sum_list_map_update[of k "pl_workers p" worker_left Finished]
    by (simp add: pool_left_def)
qed

lemma pool_terminates: "wfP (\<lambda>p' p. pool_step load paths p p')"
  by (rule wfp_if_convertible_to_nat[where f = "pool_left paths"]) (rule pool_step_decreases)

lemma pool_run_bound:
  "(pool_step load paths ^^ n) p p' \<Longrightarrow> n + pool_left paths p' \<le> pool_left paths p"
proof (induction n arbitrary: p')
  case (Suc n)
  then obtain q where q: "(pool_step load paths ^^ n) p q" "pool_step load paths q p'" by auto
  show ?case using Suc.IH[OF q(1)] pool_step_decreases[OF q(2)] by simp
qed simp

lemma pool_reaches_end: "\<exists>p'. (pool_step load paths)\<^sup>*\<^sup>* p p' \<and> pool_done p'"
proof (induction p rule: wfp_induct_rule[OF pool_terminates[of load paths]])
  case (1 p)
  show ?case
  proof (cases "pool_done p")
    case False
    then obtain q where "pool_step load paths p q" using pool_progress by blast
    then show ?thesis using 1 converse_rtranclp_into_rtranclp by metis
  qed auto
qed


section \<open>Invariant of the pool\<close>

definition failure :: "(string \<Rightarrow> string + LoadedDocument list) \<Rightarrow> string \<Rightarrow> string \<Rightarrow> bool" where
  "failure load path m \<longleftrightarrow> (\<exists>err. load path = Inl err \<and> m = ''loading '' @ path @ '': '' @ err)"

definition pool_inv :: "(string \<Rightarrow> string + LoadedDocument list) \<Rightarrow> string list \<Rightarrow> Pool \<Rightarrow> bool" where
  "pool_inv load paths p \<longleftrightarrow>
     length (pl_results p) = length paths \<and> pl_workers p \<noteq> [] \<and>
     (\<forall>i < length paths. i < pl_idx p \<longrightarrow>
        Loading i \<in> set (pl_workers p) \<or> load (paths ! i) = Inr (pl_results p ! i) \<or>
        (\<exists>err. load (paths ! i) = Inl err) \<and> pl_firstErr p \<noteq> None) \<and>
     (\<forall>i. Loading i \<in> set (pl_workers p) \<longrightarrow> i < pl_idx p \<and> i < length paths) \<and>
     (\<forall>m. pl_firstErr p = Some m \<longrightarrow> (\<exists>path \<in> set paths. failure load path m)) \<and>
     (pl_firstErr p = None \<longrightarrow> Finished \<in> set (pl_workers p) \<longrightarrow> length paths \<le> pl_idx p)"

lemma pool_inv_init: "pool_inv load paths (pool_init maxprocs paths)"
  by (auto simp: pool_inv_def pool_init_def pool_size_def)

lemma update_keeps:
  "x \<in> set ws \<Longrightarrow> k < length ws \<Longrightarrow> x \<noteq> ws ! k \<Longrightarrow> x \<in> set (ws[k := w])"
  by (metis in_set_conv_nth length_list_update nth_list_update_neq)

lemma pool_inv_step:
  assumes "pool_inv load paths p" "pool_step load paths p p'"
  shows "pool_inv load paths p'"
  using assms(2)
proof cases
  case (take_index k)
  note upd = update_keeps[OF _ take_index(2), of _ "Loading (pl_idx p)"]
  have new: "Loading (pl_idx p) \<in> set ((pl_workers p)[k := Loading (pl_idx p)])"
    using take_index(2) by (simp add: set_update_memI)
  show ?thesis
    using assms(1) take_index new upd set_update_subset_insert[of "pl_workers p" k "Loading (pl_idx p)"]
    by (auto simp: pool_inv_def less_Suc_eq dest: subsetD)
next
  case (exhausted k)
  show ?thesis
    using assms(1) exhausted update_keeps[OF _ exhausted(2), of _ Finished]
      set_update_subset_insert[of "pl_workers p" k Finished]
    by (auto simp: pool_inv_def dest: subsetD)
next
  case (loaded k i docs)
  then have i: "i < length paths" using assms(1) nth_mem[OF loaded(2)] by (auto simp: pool_inv_def)
  have sub: "set ((pl_workers p)[k := Idle]) \<subseteq> insert Idle (set (pl_workers p))"
    by (rule set_update_subset_insert)
  have keep: "Loading j \<in> set ((pl_workers p)[k := Idle])" if "Loading j \<in> set (pl_workers p)" "j \<noteq> i" for j
    using that loaded update_keeps[of "Loading j" "pl_workers p" k Idle] by simp
  have "Loading j \<in> set ((pl_workers p)[k := Idle]) \<or> load (paths ! j) = Inr ((pl_results p)[i := docs] ! j) \<or>
      (\<exists>err. load (paths ! j) = Inl err) \<and> pl_firstErr p \<noteq> None" if "j < length paths" "j < pl_idx p" for j
    using assms(1) that i loaded(4) keep by (cases "j = i") (auto simp: pool_inv_def)
  then show ?thesis
    using assms(1) loaded(1) sub by (auto simp: pool_inv_def dest: subsetD)
next
  case (failed k i err)
  then have i: "i < length paths" using assms(1) nth_mem[OF failed(2)] by (auto simp: pool_inv_def)
  have sub: "set ((pl_workers p)[k := Finished]) \<subseteq> insert Finished (set (pl_workers p))"
    by (rule set_update_subset_insert)
  have keep: "Loading j \<in> set ((pl_workers p)[k := Finished])" if "Loading j \<in> set (pl_workers p)" "j \<noteq> i" for j
    using that failed update_keeps[of "Loading j" "pl_workers p" k Finished] by simp
  have "Loading j \<in> set ((pl_workers p)[k := Finished]) \<or> load (paths ! j) = Inr (pl_results p ! j) \<or>
      (\<exists>err. load (paths ! j) = Inl err)" if "j < length paths" "j < pl_idx p" for j
    using assms(1) that failed(4) keep by (cases "j = i") (auto simp: pool_inv_def)
  moreover have "failure load (paths ! i) (''loading '' @ paths ! i @ '': '' @ err)"
    using failed(4) by (simp add: failure_def)
  ultimately show ?thesis
    using assms(1) failed(1) sub i nth_mem[OF i] by (auto simp: pool_inv_def dest: subsetD split: option.splits)
qed

lemma pool_inv_reach:
  "(pool_step load paths)\<^sup>*\<^sup>* p q \<Longrightarrow> pool_inv load paths p \<Longrightarrow> pool_inv load paths q"
  by (induction rule: rtranclp_induct) (auto intro: pool_inv_step)

section \<open>The result does not depend on the schedule\<close>

interpretation path_order: key_order "\<lambda>x y. fst x < fst y" "fst :: string \<times> LoadedDocument list \<Rightarrow> string"
  by unfold_locales simp

lemma sort_graph: "sort_key fst (map (\<lambda>p. (p, f p)) ps) = map (\<lambda>p. (p, f p)) (sort ps)"
proof (induction ps)
  case (Cons a ps)
  have "insort_key fst (a, f a) (map (\<lambda>p. (p, f p)) qs) = map (\<lambda>p. (p, f p)) (insort a qs)" for qs
    by (induction qs) auto
  then show ?case using Cons by simp
qed simp

lemma concat_filter_nonempty: "concat (map snd (filter (\<lambda>(p, docs). docs \<noteq> []) xs)) = concat (map snd xs)"
  by (induction xs) auto

lemma flatten_sorted: "flatten_results paths (map f paths) = concat (map f (sort paths))"
proof -
  have "zip paths (map f paths) = map (\<lambda>p. (p, f p)) paths" by (simp add: zip_map2 zip_same_conv_map)
  then show ?thesis
    unfolding flatten_results_def path_order.slice_is_sort_key
    by (simp add: filter_sort[symmetric] concat_filter_nonempty sort_graph comp_def)
qed

lemma pool_end:
  assumes inv: "pool_inv load paths p" and fin: "pool_done p"
  shows "(case pl_firstErr p of
            None \<Rightarrow> \<forall>path \<in> set paths. \<nexists>err. load path = Inl err
          | Some m \<Rightarrow> \<exists>path \<in> set paths. failure load path m) \<and>
         (pl_firstErr p = None \<longrightarrow> pl_results p = map (\<lambda>path. projr (load path)) paths)"
proof (cases "pl_firstErr p")
  case None
  have ws: "set (pl_workers p) \<subseteq> {Finished}" "Finished \<in> set (pl_workers p)"
    using fin inv by (auto simp: pool_done_def list_all_iff pool_inv_def neq_Nil_conv)
  then have "length paths \<le> pl_idx p" using inv None by (auto simp: pool_inv_def)
  then have all: "load (paths ! i) = Inr (pl_results p ! i)" if "i < length paths" for i
    using inv None ws(1) that by (fastforce simp: pool_inv_def)
  have none: "\<nexists>err. load path = Inl err" if "path \<in> set paths" for path
    using that all by (fastforce simp: in_set_conv_nth)
  have "pl_results p = map (\<lambda>path. projr (load path)) paths"
    using inv by (intro nth_equalityI) (auto simp: pool_inv_def all)
  then show ?thesis using None none by simp
next
  case (Some m)
  then show ?thesis using inv by (auto simp: pool_inv_def)
qed

text \<open>
  C28: \<open>LoadDirectory\<close> is deterministic up to the choice of the reported error.
  However the workers interleave, a run ends, and when every file decodes the
  result is the documents of the files in the order of their paths.  When some
  file does not decode, the run reports the failure of one of them, never
  success and never an error of its own making.
\<close>

theorem LoadDirectory_schedule_independent:
  assumes "walk_entry fs dir e = Inr paths"
  shows "(\<exists>r. LoadDirectory fs opn maxprocs dir e r) \<and>
         (\<forall>r. LoadDirectory fs opn maxprocs dir e r \<longrightarrow>
            (if \<forall>path \<in> set paths. \<nexists>err. LoadFile opn path = Inl err
             then r = Inr (concat (map (\<lambda>path. projr (LoadFile opn path)) (sort paths)))
             else \<exists>path \<in> set paths. \<exists>err. LoadFile opn path = Inl err \<and>
                    r = Inl (''loading '' @ path @ '': '' @ err)))"
proof (intro conjI allI impI)
  show "\<exists>r. LoadDirectory fs opn maxprocs dir e r"
    using pool_reaches_end[of "LoadFile opn" paths "pool_init maxprocs paths"] LoadDirectory.pool_ended[OF assms] by blast
next
  fix r assume "LoadDirectory fs opn maxprocs dir e r"
  then obtain p where p: "(pool_step (LoadFile opn) paths)\<^sup>*\<^sup>* (pool_init maxprocs paths) p" "pool_done p"
      and r: "r = pool_result paths p"
    using assms by (auto elim!: LoadDirectoryE)
  note fin = pool_end[OF pool_inv_reach[OF p(1) pool_inv_init] p(2)]
  show "if \<forall>path \<in> set paths. \<nexists>err. LoadFile opn path = Inl err
        then r = Inr (concat (map (\<lambda>path. projr (LoadFile opn path)) (sort paths)))
        else \<exists>path \<in> set paths. \<exists>err. LoadFile opn path = Inl err \<and>
               r = Inl (''loading '' @ path @ '': '' @ err)"
    using fin by (cases "pl_firstErr p") (auto simp: r pool_result_def flatten_sorted failure_def)
qed

definition demo_env :: FsEnv where
  "demo_env = \<lparr>fs_Getwd = None, fs_Stat = (\<lambda>_. None)\<rparr>"

definition demo_tree :: FsEntry where
  "demo_tree = EDir ''d'' None [EDir ''a'' None [EFile ''x.yaml''], EFile ''a.yaml'', EFile ''notes.txt'']"

definition demo_obj :: "string \<Rightarrow> obj" where
  "demo_obj path = [(''apiVersion'', JStr ''v1''), (''kind'', JStr path)]"

definition demo_open :: "string \<Rightarrow> string + YamlEvent list" where
  "demo_open path = Inr [OtherNode, Document (demo_obj path) 1 1]"

text \<open>The order of the walk is not the order of the paths: \<^verbatim>\<open>d/a/x.yaml\<close> is met before \<^verbatim>\<open>d/a.yaml\<close>.\<close>

lemma demo_walk: "walk_entry demo_env ''d'' demo_tree = Inr [''d/a/x.yaml'', ''d/a.yaml'']"
  by code_simp

theorem LoadDirectory_schedule_independent_witness:
  "Collect (LoadDirectory demo_env demo_open 2 ''d'' demo_tree) =
     {Inr [\<lparr>doc_Source = \<lparr>sl_File = ''d/a.yaml'', sl_Line = 1, sl_Column = 1\<rparr>, doc_APIVersion = ''v1'',
               doc_Kind = ''d/a.yaml'', doc_Raw = demo_obj ''d/a.yaml''\<rparr>,
              \<lparr>doc_Source = \<lparr>sl_File = ''d/a/x.yaml'', sl_Line = 1, sl_Column = 1\<rparr>, doc_APIVersion = ''v1'',
               doc_Kind = ''d/a/x.yaml'', doc_Raw = demo_obj ''d/a/x.yaml''\<rparr>]}"
proof -
  have sorted: "sort [''d/a/x.yaml'', ''d/a.yaml''] = [''d/a.yaml'', ''d/a/x.yaml'']" by code_simp
  have load: "LoadFile demo_open path = Inr [\<lparr>doc_Source = \<lparr>sl_File = path, sl_Line = 1, sl_Column = 1\<rparr>,
      doc_APIVersion = ''v1'', doc_Kind = path, doc_Raw = demo_obj path\<rparr>]" if "path \<noteq> []" for path
    using that by (simp add: LoadFile_def demo_open_def demo_obj_def str_field_def jget_def Let_def)
  show ?thesis
    using LoadDirectory_schedule_independent[OF demo_walk, of demo_open 2] unfolding sorted by (auto simp: load)
qed

text \<open>
  C29: a run of the pool takes at most two steps for each path and one for each
  worker, and from every state it can be in it goes on to the end: the pool
  neither deadlocks nor runs forever.
\<close>

theorem pool_run_bounded:
  assumes "(pool_step load paths ^^ n) (pool_init maxprocs paths) p"
  shows "n \<le> 2 * length paths + pool_size maxprocs paths \<and>
         (pool_done p \<or> (\<exists>p'. pool_step load paths p p')) \<and>
         (\<exists>p'. (pool_step load paths)\<^sup>*\<^sup>* p p' \<and> pool_done p')"
  using pool_run_bound[OF assms] pool_progress[of p load paths] pool_reaches_end[of load paths p]
  by (auto simp: pool_left_def pool_init_def sum_list_replicate)

theorem pool_run_bounded_witness:
  "\<exists>p'. (pool_step (LoadFile demo_open) [''d/a.yaml''])\<^sup>*\<^sup>*
      (worker_move (LoadFile demo_open) [''d/a.yaml''] 0 (pool_init 4 [''d/a.yaml''])) p' \<and> pool_done p'"
proof -
  have "(pool_step (LoadFile demo_open) [''d/a.yaml''] ^^ 1) (pool_init 4 [''d/a.yaml''])
      (worker_move (LoadFile demo_open) [''d/a.yaml''] 0 (pool_init 4 [''d/a.yaml'']))"
    using worker_move_step[of 0 "pool_init 4 [''d/a.yaml'']"]
    by (simp add: pool_init_def pool_size_def relcompp_apply)
  from pool_run_bounded[OF this] show ?thesis by blast
qed

end
