(* ===== verification/Violations.thy ===== *)
theory Violations
  imports Trajectory
begin

text \<open>
  The violation builders of \<^verbatim>\<open>pkg/checker/bridge.go\<close>: before the kernel is
  called, the bridge folds the World and the simulated trajectory into lists of
  violations for the rules R12, R14, R15, R16, R21, R31 to R36 and the three
  reference checks (secret stores, environment labels, provider configs).
  Sets keyed by NUL-joined strings are lists of such keys, as in the code; the
  theorems say when the joined keys stand for their components.
\<close>

section \<open>Violation structs\<close>

record r12Violation =
  r12_OwnerKind :: string
  r12_OwnerName :: string
  r12_OwnerNamespace :: string
  r12_TargetKind :: string
  r12_TargetName :: string
  r12_TargetNamespace :: string
  r12_MountKind :: string
  r12_Source :: SourceLocation

record r14Violation =
  r14_BindingKind :: string
  r14_BindingName :: string
  r14_BindingNamespace :: string
  r14_RoleKind :: string
  r14_RoleName :: string
  r14_RoleNamespace :: string
  r14_OwnerKind :: string
  r14_OwnerName :: string
  r14_Source :: SourceLocation
  r14_BindingSource :: SourceLocation

record r15Violation =
  r15_AppName :: string
  r15_ProjectName :: string
  r15_Group :: string
  r15_Kind :: string
  r15_Name :: string
  r15_WhitelistKey :: string
  r15_Source :: SourceLocation

record r16Violation =
  r16_Group :: string
  r16_Kind :: string
  r16_Name :: string
  r16_Namespace :: string
  r16_SelectorPath :: string
  r16_ResolvedPath :: string
  r16_Leaf :: string
  r16_Source :: SourceLocation

record esoStoreViolation =
  esv_Name :: string
  esv_Namespace :: string
  esv_StoreName :: string
  esv_Source :: SourceLocation

record fargateEnvLabelViolation =
  fev_Kind :: string
  fev_Name :: string
  fev_Namespace :: string
  fev_Reason :: string
  fev_Value :: string
  fev_Source :: SourceLocation

record providerConfigRefViolation =
  pcv_Group :: string
  pcv_Kind :: string
  pcv_Name :: string
  pcv_Namespace :: string
  pcv_RefName :: string
  pcv_Source :: SourceLocation

record r21Violation =
  r21_Group :: string
  r21_Kind :: string
  r21_Name :: string
  r21_Namespace :: string
  r21_FieldPath :: string
  r21_Leaf :: string
  r21_Source :: SourceLocation

record r31Violation =
  r31_Group :: string
  r31_Kind :: string
  r31_Name :: string
  r31_Namespace :: string
  r31_FieldPath :: string
  r31_Value :: string
  r31_Canonical :: string
  r31_Reason :: string
  r31_Heuristic :: bool
  r31_Source :: SourceLocation

record r32Violation =
  r32_Group :: string
  r32_Kind :: string
  r32_Name :: string
  r32_Namespace :: string
  r32_FieldPath :: string
  r32_Desired :: string
  r32_Observed :: string
  r32_Registered :: bool
  r32_Source :: SourceLocation

record r33Violation =
  r33_Composition :: string
  r33_EnvName :: string
  r33_Count :: string
  r33_Source :: SourceLocation

record r34Violation =
  r34_Composition :: string
  r34_Group :: string
  r34_Kind :: string
  r34_ActionType :: string
  r34_AliasField :: string
  r34_CanonicalBlock :: string
  r34_Reason :: string
  r34_Source :: SourceLocation

record r35Violation =
  r35_Group :: string
  r35_Kind :: string
  r35_Name :: string
  r35_Namespace :: string
  r35_Reason :: string
  r35_Source :: SourceLocation

record r36Violation =
  r36_Composition :: string
  r36_Group :: string
  r36_Kind :: string
  r36_RuleName :: string
  r36_AttachField :: string
  r36_RefField :: string
  r36_Reason :: string
  r36_Source :: SourceLocation

section \<open>Comparison functions\<close>

definition mountRefCmp :: "MountRef \<Rightarrow> MountRef \<Rightarrow> int" where
  "mountRefCmp a b =
     cmp_chain [Compare (mr_OwnerKind a) (mr_OwnerKind b),
                Compare (mr_OwnerName a) (mr_OwnerName b),
                Compare (mr_TargetKind a) (mr_TargetKind b),
                Compare (mr_TargetName a) (mr_TargetName b),
                Compare (mr_MountKind a) (mr_MountKind b)]"

definition saRefCmp :: "SARef \<Rightarrow> SARef \<Rightarrow> int" where
  "saRefCmp a b =
     cmp_chain [Compare (sar_OwnerKind a) (sar_OwnerKind b),
                Compare (sar_OwnerName a) (sar_OwnerName b),
                Compare (sar_SAName a) (sar_SAName b)]"

definition rbacBindingCmp :: "RBACBinding \<Rightarrow> RBACBinding \<Rightarrow> int" where
  "rbacBindingCmp a b =
     cmp_chain [Compare (rbb_BindingKind a) (rbb_BindingKind b),
                Compare (rbb_BindingName a) (rbb_BindingName b),
                Compare (rbb_SubjectKind a) (rbb_SubjectKind b),
                Compare (rbb_SubjectName a) (rbb_SubjectName b)]"

definition argoAppCmp :: "ArgoApplication \<Rightarrow> ArgoApplication \<Rightarrow> int" where
  "argoAppCmp a b =
     cmp_chain [Compare (app_Name a) (app_Name b)]"

definition resourceCmp :: "ResourceInfo \<Rightarrow> ResourceInfo \<Rightarrow> int" where
  "resourceCmp a b =
     cmp_chain [Compare (ri_Kind a) (ri_Kind b),
                Compare (ri_Name a) (ri_Name b)]"

definition selectorUsageCmp :: "SelectorUsage \<Rightarrow> SelectorUsage \<Rightarrow> int" where
  "selectorUsageCmp a b =
     cmp_chain [Compare (su_ResourceKind a) (su_ResourceKind b),
                Compare (su_ResourceName a) (su_ResourceName b),
                Compare (su_SelectorPath a) (su_SelectorPath b)]"

definition lateInitUsageCmp :: "LateInitUsage \<Rightarrow> LateInitUsage \<Rightarrow> int" where
  "lateInitUsageCmp a b =
     cmp_chain [Compare (liu_ResourceKind a) (liu_ResourceKind b),
                Compare (liu_ResourceName a) (liu_ResourceName b),
                Compare (liu_FieldPath a) (liu_FieldPath b)]"

definition r12ViolationCmp :: "r12Violation \<Rightarrow> r12Violation \<Rightarrow> int" where
  "r12ViolationCmp a b =
     cmp_chain [Compare (r12_OwnerKind a) (r12_OwnerKind b),
                Compare (r12_OwnerName a) (r12_OwnerName b),
                Compare (r12_TargetKind a) (r12_TargetKind b),
                Compare (r12_TargetName a) (r12_TargetName b)]"

definition r14ViolationCmp :: "r14Violation \<Rightarrow> r14Violation \<Rightarrow> int" where
  "r14ViolationCmp a b =
     cmp_chain [Compare (r14_OwnerKind a) (r14_OwnerKind b),
                Compare (r14_OwnerName a) (r14_OwnerName b),
                Compare (r14_BindingKind a) (r14_BindingKind b),
                Compare (r14_BindingName a) (r14_BindingName b)]"

definition r15ViolationCmp :: "r15Violation \<Rightarrow> r15Violation \<Rightarrow> int" where
  "r15ViolationCmp a b =
     cmp_chain [Compare (r15_AppName a) (r15_AppName b),
                Compare (r15_Kind a) (r15_Kind b),
                Compare (r15_Name a) (r15_Name b)]"

definition r16ViolationCmp :: "r16Violation \<Rightarrow> r16Violation \<Rightarrow> int" where
  "r16ViolationCmp a b =
     cmp_chain [Compare (r16_Kind a) (r16_Kind b),
                Compare (r16_Name a) (r16_Name b),
                Compare (r16_SelectorPath a) (r16_SelectorPath b)]"

definition r21ViolationCmp :: "r21Violation \<Rightarrow> r21Violation \<Rightarrow> int" where
  "r21ViolationCmp a b =
     cmp_chain [Compare (r21_Kind a) (r21_Kind b),
                Compare (r21_Name a) (r21_Name b),
                Compare (r21_FieldPath a) (r21_FieldPath b)]"

definition esoStoreViolationCmp :: "esoStoreViolation \<Rightarrow> esoStoreViolation \<Rightarrow> int" where
  "esoStoreViolationCmp a b =
     cmp_chain [Compare (esv_Namespace a) (esv_Namespace b),
                Compare (esv_Name a) (esv_Name b),
                Compare (esv_StoreName a) (esv_StoreName b)]"

definition fargateEnvLabelViolationCmp :: "fargateEnvLabelViolation \<Rightarrow> fargateEnvLabelViolation \<Rightarrow> int" where
  "fargateEnvLabelViolationCmp a b =
     cmp_chain [Compare (fev_Kind a) (fev_Kind b),
                Compare (fev_Name a) (fev_Name b),
                Compare (fev_Namespace a) (fev_Namespace b)]"

definition providerConfigRefViolationCmp :: "providerConfigRefViolation \<Rightarrow> providerConfigRefViolation \<Rightarrow> int" where
  "providerConfigRefViolationCmp a b =
     cmp_chain [Compare (pcv_Kind a) (pcv_Kind b),
                Compare (pcv_Name a) (pcv_Name b),
                Compare (pcv_RefName a) (pcv_RefName b)]"

definition r31ViolationCmp :: "r31Violation \<Rightarrow> r31Violation \<Rightarrow> int" where
  "r31ViolationCmp a b =
     cmp_chain [Compare (r31_Kind a) (r31_Kind b),
                Compare (r31_Name a) (r31_Name b),
                Compare (r31_FieldPath a) (r31_FieldPath b)]"

definition r32ViolationCmp :: "r32Violation \<Rightarrow> r32Violation \<Rightarrow> int" where
  "r32ViolationCmp a b =
     cmp_chain [Compare (r32_Kind a) (r32_Kind b),
                Compare (r32_Name a) (r32_Name b),
                Compare (r32_FieldPath a) (r32_FieldPath b)]"

definition r33ViolationCmp :: "r33Violation \<Rightarrow> r33Violation \<Rightarrow> int" where
  "r33ViolationCmp a b =
     cmp_chain [Compare (r33_Composition a) (r33_Composition b),
                Compare (r33_EnvName a) (r33_EnvName b)]"

definition r34ViolationCmp :: "r34Violation \<Rightarrow> r34Violation \<Rightarrow> int" where
  "r34ViolationCmp a b =
     cmp_chain [Compare (r34_Composition a) (r34_Composition b),
                Compare (r34_Kind a) (r34_Kind b),
                Compare (r34_AliasField a) (r34_AliasField b)]"

definition r35ViolationCmp :: "r35Violation \<Rightarrow> r35Violation \<Rightarrow> int" where
  "r35ViolationCmp a b =
     cmp_chain [Compare (r35_Kind a) (r35_Kind b),
                Compare (r35_Name a) (r35_Name b),
                Compare (r35_Namespace a) (r35_Namespace b)]"

definition r36ViolationCmp :: "r36Violation \<Rightarrow> r36Violation \<Rightarrow> int" where
  "r36ViolationCmp a b =
     cmp_chain [Compare (r36_Composition a) (r36_Composition b),
                Compare (r36_Kind a) (r36_Kind b),
                Compare (r36_RuleName a) (r36_RuleName b)]"

section \<open>Trajectory keys\<close>

definition stateKey :: "string \<Rightarrow> string \<Rightarrow> string \<Rightarrow> string" where
  "stateKey kind ns name = kind @ NUL @ ns @ NUL @ name"

definition buildStateKeySets :: "Step list \<Rightarrow> string list list" where
  "buildStateKeySets trajectories =
     map (\<lambda>step. map (\<lambda>k. stateKey (rk_Kind k) (rk_Namespace k) (rk_Name k)) (st_State step)) trajectories"

section \<open>R12: mounts\<close>

definition r12_key :: "MountRef \<Rightarrow> string" where
  "r12_key x = Join [mr_OwnerKind x, mr_OwnerName x, mr_OwnerNamespace x,
                     mr_TargetKind x, mr_TargetName x, mr_TargetNamespace x] NUL"

definition r12_violation :: "MountRef \<Rightarrow> r12Violation" where
  "r12_violation x =
     \<lparr>r12_OwnerKind = mr_OwnerKind x,
        r12_OwnerName = mr_OwnerName x,
        r12_OwnerNamespace = mr_OwnerNamespace x,
        r12_TargetKind = mr_TargetKind x,
        r12_TargetName = mr_TargetName x,
        r12_TargetNamespace = mr_TargetNamespace x,
        r12_MountKind = mr_MountKind x,
        r12_Source = mr_Source x\<rparr>"

text \<open>The inner loop over the steps stops at the first state that dangles.\<close>

fun r12_dangles :: "string list list \<Rightarrow> MountRef \<Rightarrow> bool" where
  "r12_dangles [] x = False"
| "r12_dangles (state # states) x =
     (if stateKey (mr_OwnerKind x) (mr_OwnerNamespace x) (mr_OwnerName x) \<notin> set state
      then r12_dangles states x
      else if stateKey (mr_TargetKind x) (mr_TargetNamespace x) (mr_TargetName x) \<in> set state
      then r12_dangles states x
      else True)"

fun r12_loop :: "string list list \<Rightarrow> string list \<Rightarrow> MountRef list \<Rightarrow> r12Violation list" where
  "r12_loop stateSets seen [] = []"
| "r12_loop stateSets seen (x # refs) =
     (if mr_Optional x then r12_loop stateSets seen refs
      else if r12_key x \<in> set seen then r12_loop stateSets seen refs
      else if r12_dangles stateSets x
      then r12_violation x # r12_loop stateSets (r12_key x # seen) refs
      else r12_loop stateSets seen refs)"

definition buildR12Violations :: "MountRef list \<Rightarrow> Step list \<Rightarrow> r12Violation list" where
  "buildR12Violations mountRefs trajectories =
     r12_loop (buildStateKeySets trajectories) [] (SortFunc mountRefs mountRefCmp)"

section \<open>R14: role bindings\<close>

definition r14_violation :: "SARef \<Rightarrow> RBACBinding \<Rightarrow> r14Violation" where
  "r14_violation sa x =
     \<lparr>r14_BindingKind = rbb_BindingKind x,
        r14_BindingName = rbb_BindingName x,
        r14_BindingNamespace = rbb_BindingNamespace x,
        r14_RoleKind = rbb_RoleKind x,
        r14_RoleName = rbb_RoleName x,
        r14_RoleNamespace = rbb_RoleNamespace x,
        r14_OwnerKind = sar_OwnerKind sa,
        r14_OwnerName = sar_OwnerName sa,
        r14_Source = sar_Source sa,
        r14_BindingSource = rbb_Source x\<rparr>"

definition sa_key :: "string \<Rightarrow> string \<Rightarrow> string" where
  "sa_key name ns = name @ NUL @ ns"

definition bindingsBySA :: "RBACBinding list \<Rightarrow> (string \<times> RBACBinding list) list" where
  "bindingsBySA bs =
     index_by (\<lambda>x. sa_key (rbb_SubjectName x) (rbb_SubjectNamespace x)) (\<lambda>x. x)
       (filter (\<lambda>x. rbb_SubjectKind x = ''ServiceAccount'') bs)"

definition binding_live :: "string list \<Rightarrow> RBACBinding \<Rightarrow> bool" where
  "binding_live state x =
     (stateKey (rbb_BindingKind x) (rbb_BindingNamespace x) (rbb_BindingName x) \<in> set state \<and>
      stateKey (rbb_RoleKind x) (rbb_RoleNamespace x) (rbb_RoleName x) \<in> set state)"

definition r14_of :: "(string \<times> RBACBinding list) list \<Rightarrow> string list \<Rightarrow> SARef \<Rightarrow> r14Violation list" where
  "r14_of index state sa =
     (if stateKey (sar_OwnerKind sa) (sar_OwnerNamespace sa) (sar_OwnerName sa) \<notin> set state then []
      else let myBindings = mgetl index (sa_key (sar_SAName sa) (sar_SANamespace sa)) in
        if myBindings = [] then []
        else if list_ex (binding_live state) myBindings then []
        else map (r14_violation sa) (filter (\<lambda>x. \<not> binding_live state x) myBindings))"

definition buildR14Violations ::
  "SARef list \<Rightarrow> RBACBinding list \<Rightarrow> Step list \<Rightarrow> r14Violation list" where
  "buildR14Violations saRefs bindings trajectories =
     (let sas = SortFunc saRefs saRefCmp;
          index = bindingsBySA (SortFunc bindings rbacBindingCmp)
      in concat (map (\<lambda>state. concat (map (r14_of index state) sas)) (buildStateKeySets trajectories)))"

section \<open>R15: project whitelists\<close>

definition apiVersionGroup :: "string \<Rightarrow> string" where
  "apiVersionGroup apiVersion =
     (case Index apiVersion ''/'' of Some i \<Rightarrow> take i apiVersion | None \<Rightarrow> [])"

definition projectWhitelistEntries :: "ArgoGroupKind list \<Rightarrow> bool \<Rightarrow> ArgoGroupKind list" where
  "projectWhitelistEntries entries isSet =
     (if \<not> isSet then [\<lparr>gk_Group = ''*'', gk_Kind = ''*''\<rparr>] else entries)"

definition groupKindWhitelisted :: "string \<Rightarrow> string \<Rightarrow> ArgoGroupKind list \<Rightarrow> bool" where
  "groupKindWhitelisted grp kind entries =
     list_ex (\<lambda>entry. (gk_Group entry = ''*'' \<or> gk_Group entry = grp) \<and>
                      (gk_Kind entry = ''*'' \<or> gk_Kind entry = kind)) entries"

definition app_project :: "ArgoApplication \<Rightarrow> string" where
  "app_project app = (if app_Project app = [] then ''default'' else app_Project app)"

definition r15_resource ::
  "(string \<times> bool) list \<Rightarrow> string \<Rightarrow> string \<Rightarrow> ArgoAppProject \<Rightarrow> ResourceInfo \<Rightarrow> r15Violation list" where
  "r15_resource clusterScoped appName projectName project res =
     (let grp = apiVersionGroup (ri_APIVersion res);
          isCluster = (map_of clusterScoped (grp @ NUL @ ri_Kind res) = Some True);
          whitelistKey = (if isCluster then ''clusterResourceWhitelist'' else ''namespaceResourceWhitelist'');
          whitelist = (if isCluster
            then projectWhitelistEntries (proj_ClusterResourceWhitelist project) (proj_ClusterResourceWhitelistSet project)
            else projectWhitelistEntries (proj_NamespaceResourceWhitelist project) (proj_NamespaceResourceWhitelistSet project))
      in if groupKindWhitelisted grp (ri_Kind res) whitelist then []
         else [\<lparr>r15_AppName = appName, r15_ProjectName = projectName, r15_Group = grp,
                r15_Kind = ri_Kind res, r15_Name = ri_Name res, r15_WhitelistKey = whitelistKey,
                r15_Source = ri_Source res\<rparr>])"

definition buildR15Violations :: "World \<Rightarrow> r15Violation list" where
  "buildR15Violations w =
     (if w_Resources w = [] then []
      else let apps = SortFunc (w_ArgoApps w) argoAppCmp;
               resources = SortFunc (w_Resources w) resourceCmp;
               resourcesByApp = index_by ri_OwningApp (\<lambda>r. r) (filter (\<lambda>r. ri_OwningApp r \<noteq> []) resources);
               appProject = mfill app_Name app_project (w_ArgoApps w);
               projects = mfill proj_Name (\<lambda>p. p) (w_ArgoProjects w);
               clusterScoped = mfill (\<lambda>c. crd_Group c @ NUL @ crd_Kind c) (\<lambda>c. crd_Scope c = ''Cluster'') (w_CRDs w)
           in concat (map (\<lambda>app.
                let p0 = mget appProject (app_Name app);
                    projectName = (if p0 = [] then ''default'' else p0)
                in case map_of projects projectName of
                     None \<Rightarrow> []
                   | Some project \<Rightarrow>
                       concat (map (r15_resource clusterScoped (app_Name app) projectName project)
                                   (mgetl resourcesByApp (app_Name app)))) apps))"

section \<open>Ignore-difference coverage\<close>

definition ignoreDiffScopeKey :: "string \<Rightarrow> string \<Rightarrow> string" where
  "ignoreDiffScopeKey grp kind = grp @ NUL @ kind"

definition newIgnoreDiffIndex :: "IgnoreDiffEntry list \<Rightarrow> (string \<times> IgnoreDiffEntry list) list" where
  "newIgnoreDiffIndex entries = index_by (\<lambda>e. ignoreDiffScopeKey (ide_Group e) (ide_Kind e)) (\<lambda>e. e) entries"

definition ignoreDiffScopeMatches :: "string \<Rightarrow> string \<Rightarrow> string \<Rightarrow> string \<Rightarrow> bool" where
  "ignoreDiffScopeMatches entryGroup entryKind grp kind =
     ((entryGroup = ''*'' \<or> entryGroup = [] \<or> entryGroup = grp) \<and>
      (entryKind = ''*'' \<or> entryKind = [] \<or> entryKind = kind))"

definition ignoreDiffEntryCovers :: "IgnoreDiffEntry \<Rightarrow> string \<Rightarrow> string \<Rightarrow> string \<Rightarrow> bool" where
  "ignoreDiffEntryCovers entry grp kind leaf =
     (if \<not> ignoreDiffScopeMatches (ide_Group entry) (ide_Kind entry) grp kind then False
      else if ''crossplane'' \<in> set (ide_ManagedFieldsManagers entry) then True
      else (ide_JSONPointer entry \<noteq> [] \<and> Contains (ide_JSONPointer entry) leaf) \<or>
           (ide_JQPath entry \<noteq> [] \<and> Contains (ide_JQPath entry) leaf))"

definition scope_candidates :: "string \<Rightarrow> string \<Rightarrow> (string \<times> string) list" where
  "scope_candidates grp kind =
     [(grp, kind), (grp, ''*''), (''*'', kind), (''*'', ''*''), ([], kind), (grp, []), ([], [])]"

definition covers :: "(string \<times> IgnoreDiffEntry list) list \<Rightarrow> string \<Rightarrow> string \<Rightarrow> string \<Rightarrow> bool" where
  "covers idx grp kind leaf =
     list_ex (\<lambda>key. list_ex (\<lambda>entry. ignoreDiffEntryCovers entry grp kind leaf) (mgetl idx key))
       (map (\<lambda>(g, k). ignoreDiffScopeKey g k) (scope_candidates grp kind))"

definition leafSegment :: "string \<Rightarrow> string" where
  "leafSegment path = (case LastIndexByte path (CHR ''.'') of Some i \<Rightarrow> drop (i + 1) path | None \<Rightarrow> path)"

section \<open>R16 and R21\<close>

definition r16_violation :: "SelectorUsage \<Rightarrow> r16Violation" where
  "r16_violation x =
     \<lparr>r16_Group = su_ResourceGroup x,
        r16_Kind = su_ResourceKind x,
        r16_Name = su_ResourceName x,
        r16_Namespace = su_ResourceNamespace x,
        r16_SelectorPath = su_SelectorPath x,
        r16_ResolvedPath = su_ResolvedPath x,
        r16_Leaf = leafSegment (su_ResolvedPath x),
        r16_Source = su_Source x\<rparr>"

definition buildR16Violations :: "SelectorUsage list \<Rightarrow> IgnoreDiffEntry list \<Rightarrow> r16Violation list" where
  "buildR16Violations usages entries =
     (let index = newIgnoreDiffIndex entries in
      map r16_violation
        (filter (\<lambda>x. \<not> covers index (su_ResourceGroup x) (su_ResourceKind x) (leafSegment (su_ResolvedPath x)))
          (SortFunc usages selectorUsageCmp)))"

definition r21_violation :: "LateInitUsage \<Rightarrow> r21Violation" where
  "r21_violation x =
     \<lparr>r21_Group = liu_ResourceGroup x,
        r21_Kind = liu_ResourceKind x,
        r21_Name = liu_ResourceName x,
        r21_Namespace = liu_ResourceNamespace x,
        r21_FieldPath = liu_FieldPath x,
        r21_Leaf = leafSegment (liu_FieldPath x),
        r21_Source = liu_Source x\<rparr>"

definition buildR21Violations :: "LateInitUsage list \<Rightarrow> IgnoreDiffEntry list \<Rightarrow> r21Violation list" where
  "buildR21Violations usages entries =
     (let index = newIgnoreDiffIndex entries in
      map r21_violation
        (filter (\<lambda>x. \<not> covers index (liu_ResourceGroup x) (liu_ResourceKind x) (leafSegment (liu_FieldPath x)))
          (SortFunc usages lateInitUsageCmp)))"

section \<open>Reference checks: secret stores, environment labels, provider configs\<close>

definition spec_ref_name :: "string \<Rightarrow> obj \<Rightarrow> string" where
  "spec_ref_name field raw =
     (case as_obj (jget raw ''spec'') of
        None \<Rightarrow> []
      | Some spec \<Rightarrow>
          (case as_obj (jget spec field) of
             None \<Rightarrow> []
           | Some ref \<Rightarrow> (case as_str (jget ref ''name'') of Some name \<Rightarrow> name | None \<Rightarrow> [])))"

definition secretStoreRefName :: "obj \<Rightarrow> string" where
  "secretStoreRefName raw = spec_ref_name ''secretStoreRef'' raw"

definition providerConfigRefName :: "obj \<Rightarrow> string" where
  "providerConfigRefName raw = spec_ref_name ''providerConfigRef'' raw"

definition eso_violation :: "string list \<Rightarrow> ResourceInfo \<Rightarrow> esoStoreViolation list" where
  "eso_violation allowed res =
     (if ri_Kind res \<noteq> ''ExternalSecret'' \<or> \<not> HasPrefix (ri_APIVersion res) ''external-secrets.io/'' then []
      else let store = secretStoreRefName (ri_Raw res) in
        if store = [] \<or> store \<in> set allowed then []
        else [\<lparr>esv_Name = ri_Name res, esv_Namespace = ri_Namespace res, esv_StoreName = store,
               esv_Source = ri_Source res\<rparr>])"

definition buildESOStoreViolations :: "World \<Rightarrow> esoStoreViolation list" where
  "buildESOStoreViolations w =
     (if w_Resources w = [] \<or> w_ESOAllowedStoreNames w = [] then []
      else concat (map (eso_violation (w_ESOAllowedStoreNames w)) (SortFunc (w_Resources w) resourceCmp)))"

definition env_violation :: "World \<Rightarrow> ResourceInfo \<Rightarrow> fargateEnvLabelViolation list" where
  "env_violation w res =
     (if ri_Kind res \<notin> set (w_EnvLabelClaimKinds w) then []
      else if ri_Name res = [] then []
      else (case map_of (ri_Labels res) (w_EnvLabelKey w) of
              None \<Rightarrow> [\<lparr>fev_Kind = ri_Kind res, fev_Name = ri_Name res, fev_Namespace = ri_Namespace res,
                        fev_Reason = ''missing'', fev_Value = [], fev_Source = ri_Source res\<rparr>]
            | Some val \<Rightarrow>
                if val = []
                then [\<lparr>fev_Kind = ri_Kind res, fev_Name = ri_Name res, fev_Namespace = ri_Namespace res,
                       fev_Reason = ''missing'', fev_Value = [], fev_Source = ri_Source res\<rparr>]
                else if val \<notin> set (w_EnvLabelAllowedValues w)
                then [\<lparr>fev_Kind = ri_Kind res, fev_Name = ri_Name res, fev_Namespace = ri_Namespace res,
                       fev_Reason = ''invalid'', fev_Value = val, fev_Source = ri_Source res\<rparr>]
                else []))"

definition buildFargateEnvLabelViolations :: "World \<Rightarrow> fargateEnvLabelViolation list" where
  "buildFargateEnvLabelViolations w =
     (if w_Resources w = [] \<or> w_EnvLabelClaimKinds w = [] then []
      else concat (map (env_violation w) (SortFunc (w_Resources w) resourceCmp)))"

definition known_provider_configs :: "World \<Rightarrow> string list" where
  "known_provider_configs w =
     map ri_Name (filter (\<lambda>r. ri_Kind r = ''ProviderConfig'' \<or> ri_Kind r = ''ClusterProviderConfig'') (w_Resources w))
     @ w_AllowedProviderConfigs w"

definition pc_violation :: "string list \<Rightarrow> ResourceInfo \<Rightarrow> providerConfigRefViolation list" where
  "pc_violation known res =
     (let ref = providerConfigRefName (ri_Raw res) in
      if ref = [] \<or> ref \<in> set known then []
      else [\<lparr>pcv_Group = apiVersionGroup (ri_APIVersion res), pcv_Kind = ri_Kind res, pcv_Name = ri_Name res,
             pcv_Namespace = ri_Namespace res, pcv_RefName = ref, pcv_Source = ri_Source res\<rparr>])"

definition buildProviderConfigRefViolations :: "World \<Rightarrow> providerConfigRefViolation list" where
  "buildProviderConfigRefViolations w =
     (if w_Resources w = [] then []
      else concat (map (pc_violation (known_provider_configs w)) (SortFunc (w_Resources w) resourceCmp)))"

section \<open>R31 to R36\<close>

definition buildCanonicalFormViolations :: "CanonicalFormUsage list \<Rightarrow> r31Violation list" where
  "buildCanonicalFormViolations usages =
     map (\<lambda>x. \<lparr>r31_Group = cfu_ResourceGroup x,
        r31_Kind = cfu_ResourceKind x,
        r31_Name = cfu_ResourceName x,
        r31_Namespace = cfu_ResourceNamespace x,
        r31_FieldPath = cfu_FieldPath x,
        r31_Value = cfu_Value x,
        r31_Canonical = cfu_Canonical x,
        r31_Reason = cfu_Reason x,
        r31_Heuristic = False,
        r31_Source = cfu_Source x\<rparr>)
       (filter (\<lambda>x. \<not> (\<not> cfu_NonCanonical x \<or> cfu_UpdateDisabled x \<or> cfu_Bypass x)) usages)"

definition buildCanonicalFormTemplateViolations :: "CanonicalFormTemplateFinding list \<Rightarrow> r31Violation list" where
  "buildCanonicalFormTemplateViolations findings =
     map (\<lambda>x. \<lparr>r31_Group = cft_Group x,
        r31_Kind = cft_Kind x,
        r31_Name = cft_Composition x,
        r31_Namespace = [],
        r31_FieldPath = cft_Field x,
        r31_Value = cft_RHS x,
        r31_Canonical = cft_Canonical x,
        r31_Reason = cft_Reason x,
        r31_Heuristic = True,
        r31_Source = cft_Source x\<rparr>) findings"

definition buildFixedPointViolations :: "FixedPointUsage list \<Rightarrow> r32Violation list" where
  "buildFixedPointViolations usages =
     map (\<lambda>x. \<lparr>r32_Group = fpu_ResourceGroup x,
        r32_Kind = fpu_ResourceKind x,
        r32_Name = fpu_ResourceName x,
        r32_Namespace = fpu_ResourceNamespace x,
        r32_FieldPath = fpu_FieldPath x,
        r32_Desired = fpu_Desired x,
        r32_Observed = fpu_Observed x,
        r32_Registered = fpu_Registered x,
        r32_Source = fpu_Source x\<rparr>)
       (filter (\<lambda>x. \<not> fpu_UpdateDisabled x) usages)"

definition buildDuplicateEnvViolations :: "DuplicateEnvFinding list \<Rightarrow> r33Violation list" where
  "buildDuplicateEnvViolations findings =
     map (\<lambda>x. \<lparr>r33_Composition = def_Composition x,
        r33_EnvName = def_EnvName x,
        r33_Count = Itoa (def_Count x),
        r33_Source = def_Source x\<rparr>) findings"

definition buildComputedBlockAliasViolations :: "ComputedBlockAliasFinding list \<Rightarrow> r34Violation list" where
  "buildComputedBlockAliasViolations findings =
     map (\<lambda>x. \<lparr>r34_Composition = cbaf_Composition x,
        r34_Group = cbaf_Group x,
        r34_Kind = cbaf_Kind x,
        r34_ActionType = cbaf_ActionType x,
        r34_AliasField = cbaf_AliasField x,
        r34_CanonicalBlock = cbaf_CanonicalBlock x,
        r34_Reason = cbaf_Reason x,
        r34_Source = cbaf_Source x\<rparr>) findings"

definition buildExternalNameAdoptViolations :: "ExternalNameAdoptFinding list \<Rightarrow> r35Violation list" where
  "buildExternalNameAdoptViolations findings =
     map (\<lambda>x. \<lparr>r35_Group = enaf_Group x,
        r35_Kind = enaf_Kind x,
        r35_Name = enaf_Name x,
        r35_Namespace = enaf_Namespace x,
        r35_Reason = enaf_Reason x,
        r35_Source = enaf_Source x\<rparr>) findings"

definition buildOrphanSGRefViolations :: "OrphanSGRefFinding list \<Rightarrow> r36Violation list" where
  "buildOrphanSGRefViolations findings =
     map (\<lambda>x. \<lparr>r36_Composition = osgf_Composition x,
        r36_Group = osgf_Group x,
        r36_Kind = osgf_Kind x,
        r36_RuleName = osgf_RuleName x,
        r36_AttachField = osgf_AttachField x,
        r36_RefField = osgf_RefField x,
        r36_Reason = osgf_Reason x,
        r36_Source = osgf_Source x\<rparr>) findings"

section \<open>Ignore-difference entries\<close>

definition entries_of_diff :: "string \<Rightarrow> ArgoIgnoreDiff \<Rightarrow> IgnoreDiffEntry list" where
  "entries_of_diff appName diff =
     (let mk = (\<lambda>jp jq. \<lparr>ide_AppName = appName, ide_Group = igd_Group diff, ide_Kind = igd_Kind diff,
                         ide_JSONPointer = jp, ide_JQPath = jq,
                         ide_ManagedFieldsManagers = igd_ManagedFieldsManagers diff\<rparr>);
          out = map (\<lambda>jp. mk jp []) (igd_JSONPointers diff) @ map (\<lambda>jq. mk [] jq) (igd_JQPathExpressions diff)
      in if out = [] then [mk [] []] else out)"

definition buildIgnoreDiffEntries :: "ArgoApplication list \<Rightarrow> IgnoreDiffEntry list" where
  "buildIgnoreDiffEntries apps =
     concat (map (\<lambda>app. concat (map (entries_of_diff (app_Name app)) (app_IgnoreDifferences app))) apps)"

text \<open>
  \<^verbatim>\<open>getIgnoreDiffEntries\<close> caches the list in the World.  A build that produces no entry
  leaves the nil slice in the cache, so the cache stays empty then.
\<close>

definition getIgnoreDiffEntries :: "World \<Rightarrow> IgnoreDiffEntry list \<times> World" where
  "getIgnoreDiffEntries w =
     (case w_IgnoreDiffEntries w of
        Some es \<Rightarrow> (es, w)
      | None \<Rightarrow>
          let es = buildIgnoreDiffEntries (w_ArgoApps w)
          in (es, w\<lparr>w_IgnoreDiffEntries := (if es = [] then None else Some es)\<rparr>))"

section \<open>Joined keys and live resources\<close>

text \<open>What a state key stands for: a resource of the given kind, namespace and name is in the step's state.\<close>

definition live :: "Step \<Rightarrow> string \<Rightarrow> string \<Rightarrow> string \<Rightarrow> bool" where
  "live step kind ns name =
     list_ex (\<lambda>k. rk_Kind k = kind \<and> rk_Namespace k = ns \<and> rk_Name k = name) (st_State step)"

definition step_nulfree :: "Step \<Rightarrow> bool" where
  "step_nulfree step =
     list_all (\<lambda>k. nulfree (rk_Kind k) \<and> nulfree (rk_Namespace k) \<and> nulfree (rk_Name k)) (st_State step)"

definition step_keys :: "Step \<Rightarrow> string list" where
  "step_keys step = map (\<lambda>k. stateKey (rk_Kind k) (rk_Namespace k) (rk_Name k)) (st_State step)"

lemma buildStateKeySets_map: "buildStateKeySets steps = map step_keys steps"
  by (simp add: buildStateKeySets_def step_keys_def[abs_def])

lemma stateKey_inj:
  assumes "nulfree a" "nulfree b" "nulfree c" "nulfree d" "nulfree e" "nulfree f"
  shows "stateKey a b c = stateKey d e f \<longleftrightarrow> a = d \<and> b = e \<and> c = f"
  using NUL_triple_inj[OF assms] by (simp add: stateKey_def)

lemma step_keys_live:
  assumes "step_nulfree step" "nulfree kind" "nulfree ns" "nulfree name"
  shows "stateKey kind ns name \<in> set (step_keys step) \<longleftrightarrow> live step kind ns name"
  using assms stateKey_inj
  by (fastforce simp: step_keys_def live_def step_nulfree_def list_ex_iff list_all_iff)

section \<open>R12 is exact\<close>

definition mount_subject :: "MountRef \<Rightarrow> string list" where
  "mount_subject x = [mr_OwnerKind x, mr_OwnerName x, mr_OwnerNamespace x,
                      mr_TargetKind x, mr_TargetName x, mr_TargetNamespace x]"

definition r12_subject :: "r12Violation \<Rightarrow> string list" where
  "r12_subject v = [r12_OwnerKind v, r12_OwnerName v, r12_OwnerNamespace v,
                    r12_TargetKind v, r12_TargetName v, r12_TargetNamespace v]"

definition dangling_at :: "MountRef \<Rightarrow> Step \<Rightarrow> bool" where
  "dangling_at x step =
     (live step (mr_OwnerKind x) (mr_OwnerNamespace x) (mr_OwnerName x) \<and>
      \<not> live step (mr_TargetKind x) (mr_TargetNamespace x) (mr_TargetName x))"

definition required_dangling :: "Step list \<Rightarrow> MountRef \<Rightarrow> bool" where
  "required_dangling steps x = (\<not> mr_Optional x \<and> list_ex (dangling_at x) steps)"

text \<open>Two keys that separate the same elements have the same images on a subset that covers one of them.\<close>

lemma image_transfer:
  assumes "f ` D = f ` S" "\<And>x y. x \<in> S \<Longrightarrow> y \<in> S \<Longrightarrow> f x = f y \<longleftrightarrow> g x = g y" "D \<subseteq> S"
  shows "g ` D = g ` S"
proof
  show "g ` S \<subseteq> g ` D"
  proof
    fix z assume "z \<in> g ` S"
    then obtain x where x: "x \<in> S" "z = g x" by auto
    then obtain y where "y \<in> D" "f y = f x" using assms(1) by (metis imageE imageI)
    then show "z \<in> g ` D" using assms(2,3) x by (metis imageI subsetD)
  qed
qed (use assms(3) in blast)

lemma r12_subject_violation [simp]: "r12_subject (r12_violation x) = mount_subject x"
  by (simp add: r12_subject_def r12_violation_def mount_subject_def)

lemma r12_key_subject: "r12_key x = Join (mount_subject x) NUL"
  by (simp add: r12_key_def mount_subject_def)

lemma r12_key_inj:
  assumes "\<forall>s \<in> set (mount_subject x). nulfree s" "\<forall>s \<in> set (mount_subject y). nulfree s"
  shows "r12_key x = r12_key y \<longleftrightarrow> mount_subject x = mount_subject y"
  unfolding r12_key_subject using assms
  by (intro NUL_Join_inj) (auto simp: mount_subject_def)

lemma r12_dangles_iff:
  assumes "\<forall>step \<in> set steps. step_nulfree step" "\<forall>s \<in> set (mount_subject x). nulfree s"
  shows "r12_dangles (map step_keys steps) x \<longleftrightarrow> list_ex (dangling_at x) steps"
  using assms(1)
proof (induction steps)
  case (Cons step steps)
  then show ?case using assms(2)
    by (simp add: step_keys_live dangling_at_def mount_subject_def)
qed simp

lemma r12_loop_dedup:
  "r12_loop sets seen refs =
     map r12_violation (dedup_on r12_key seen (filter (\<lambda>x. \<not> mr_Optional x \<and> r12_dangles sets x) refs))"
  by (induction refs arbitrary: seen) auto

lemma buildR12_dedup:
  assumes "\<forall>step \<in> set steps. step_nulfree step" "\<forall>x \<in> set refs. \<forall>s \<in> set (mount_subject x). nulfree s"
  shows "buildR12Violations refs steps =
     map r12_violation (dedup_on r12_key [] (filter (required_dangling steps) (SortFunc refs mountRefCmp)))"
proof -
  have "filter (\<lambda>x. \<not> mr_Optional x \<and> r12_dangles (map step_keys steps) x) (SortFunc refs mountRefCmp) =
        filter (required_dangling steps) (SortFunc refs mountRefCmp)"
    using assms by (intro filter_cong) (auto simp: r12_dangles_iff required_dangling_def)
  then show ?thesis by (simp add: buildR12Violations_def r12_loop_dedup buildStateKeySets_map)
qed

text \<open>
  R12 (XPC012) is exact.  Every violation comes from a non-optional mount
  whose owner is live in some simulated step while its target is not; every such
  mount is reported; and no owner/target pair is reported twice.  Kubernetes
  names cannot contain NUL, which is what the joined keys rely on.
\<close>

theorem R12_exact:
  assumes "\<forall>step \<in> set steps. step_nulfree step"
    and "\<forall>x \<in> set refs. \<forall>s \<in> set (mount_subject x). nulfree s"
  shows "(\<forall>v \<in> set (buildR12Violations refs steps).
            \<exists>x \<in> set refs. required_dangling steps x \<and> v = r12_violation x) \<and>
         r12_subject ` set (buildR12Violations refs steps) =
            mount_subject ` {x \<in> set refs. required_dangling steps x} \<and>
         distinct (map r12_subject (buildR12Violations refs steps))"
proof -
  define xs where "xs = filter (required_dangling steps) (SortFunc refs mountRefCmp)"
  define ds where "ds = dedup_on r12_key [] xs"
  have out: "buildR12Violations refs steps = map r12_violation ds"
    using buildR12_dedup[OF assms] by (simp add: ds_def xs_def)
  have xs: "set xs = {x \<in> set refs. required_dangling steps x}" by (auto simp: xs_def)
  have sub: "set ds \<subseteq> set xs" unfolding ds_def by (rule dedup_on_subset)
  have key: "r12_key x = r12_key y \<longleftrightarrow> mount_subject x = mount_subject y" if "x \<in> set xs" "y \<in> set xs" for x y
    using that assms(2) xs by (intro r12_key_inj) auto
  have "r12_key ` set ds = r12_key ` set xs" by (simp add: ds_def dedup_on_keys)
  then have subj: "mount_subject ` set ds = mount_subject ` set xs"
    using key sub by (rule image_transfer)
  have "distinct (map r12_key ds)" unfolding ds_def by (rule dedup_on_distinct)
  then have "distinct (map mount_subject ds)"
    using key sub unfolding distinct_map inj_on_def by (meson subsetD)
  moreover have "map r12_subject (map r12_violation ds) = map mount_subject ds" by simp
  ultimately show ?thesis
    unfolding out using sub xs subj by (auto simp: image_image o_def)
qed

definition ex_src :: SourceLocation where
  "ex_src = \<lparr>sl_File = ''a.yaml'', sl_Line = 1, sl_Column = 0\<rparr>"

definition ex_mount :: "string \<Rightarrow> MountRef" where
  "ex_mount target =
     \<lparr>mr_OwnerKind = ''Deployment'', mr_OwnerName = ''web'', mr_OwnerNamespace = ''ns'',
      mr_TargetKind = ''ConfigMap'', mr_TargetName = target, mr_TargetNamespace = ''ns'',
      mr_MountKind = ''volume'', mr_Optional = False, mr_Source = ex_src\<rparr>"

definition ex_rkey :: "string \<Rightarrow> string \<Rightarrow> ResourceKey" where
  "ex_rkey kind name = \<lparr>rk_APIVersion = ''v1'', rk_Kind = kind, rk_Namespace = ''ns'', rk_Name = name\<rparr>"

definition ex_step :: "ResourceKey list \<Rightarrow> Step" where
  "ex_step ks = \<lparr>st_AppName = ''app'', st_Wave = 0,
     st_Delta = \<lparr>d_Created = ks, d_Updated = [], d_Deleted = []\<rparr>, st_State = ks\<rparr>"

lemmas ex_defs = ex_src_def ex_mount_def ex_rkey_def ex_step_def

theorem R12_exact_witness:
  "r12_subject ` set (buildR12Violations [ex_mount ''cfg'', ex_mount ''gone'', ex_mount ''gone'']
       [ex_step [ex_rkey ''Deployment'' ''web'', ex_rkey ''ConfigMap'' ''cfg'']]) =
     {[''Deployment'', ''web'', ''ns'', ''ConfigMap'', ''gone'', ''ns'']}"
proof -
  let ?steps = "[ex_step [ex_rkey ''Deployment'' ''web'', ex_rkey ''ConfigMap'' ''cfg'']]"
  let ?refs = "[ex_mount ''cfg'', ex_mount ''gone'', ex_mount ''gone'']"
  have "\<forall>step \<in> set ?steps. step_nulfree step"
    by (simp add: ex_defs step_nulfree_def nulfree_def)
  moreover have "\<forall>x \<in> set ?refs. \<forall>s \<in> set (mount_subject x). nulfree s"
    by (simp add: ex_defs mount_subject_def nulfree_def)
  moreover have "{x \<in> set ?refs. required_dangling ?steps x} = {ex_mount ''gone''}"
    by (auto simp: required_dangling_def dangling_at_def live_def ex_defs)
  ultimately show ?thesis
    using R12_exact[of ?steps ?refs] by (simp add: mount_subject_def ex_defs)
qed

section \<open>R14 is exact\<close>

definition grants :: "RBACBinding \<Rightarrow> SARef \<Rightarrow> bool" where
  "grants x sa =
     (rbb_SubjectKind x = ''ServiceAccount'' \<and> rbb_SubjectName x = sar_SAName sa \<and>
      rbb_SubjectNamespace x = sar_SANamespace sa)"

definition effective_at :: "Step \<Rightarrow> RBACBinding \<Rightarrow> bool" where
  "effective_at step x =
     (live step (rbb_BindingKind x) (rbb_BindingNamespace x) (rbb_BindingName x) \<and>
      live step (rbb_RoleKind x) (rbb_RoleNamespace x) (rbb_RoleName x))"

definition binding_nulfree :: "RBACBinding \<Rightarrow> bool" where
  "binding_nulfree x =
     list_all nulfree [rbb_BindingKind x, rbb_BindingNamespace x, rbb_BindingName x,
                       rbb_RoleKind x, rbb_RoleNamespace x, rbb_RoleName x,
                       rbb_SubjectName x, rbb_SubjectNamespace x]"

definition sa_nulfree :: "SARef \<Rightarrow> bool" where
  "sa_nulfree sa =
     list_all nulfree [sar_OwnerKind sa, sar_OwnerNamespace sa, sar_OwnerName sa, sar_SAName sa, sar_SANamespace sa]"

lemma binding_live_iff:
  "step_nulfree step \<Longrightarrow> binding_nulfree x \<Longrightarrow> binding_live (step_keys step) x = effective_at step x"
  by (simp add: binding_live_def effective_at_def binding_nulfree_def step_keys_live)

lemma bindingsBySA_grants:
  assumes "\<forall>x \<in> set bs. binding_nulfree x" "sa_nulfree sa"
  shows "mgetl (bindingsBySA bs) (sa_key (sar_SAName sa) (sar_SANamespace sa)) = filter (\<lambda>x. grants x sa) bs"
proof -
  have "sa_key (rbb_SubjectName x) (rbb_SubjectNamespace x) = sa_key (sar_SAName sa) (sar_SANamespace sa) \<longleftrightarrow>
        rbb_SubjectName x = sar_SAName sa \<and> rbb_SubjectNamespace x = sar_SANamespace sa"
    if "x \<in> set bs" for x
    using assms that unfolding sa_key_def
    by (intro NUL_pair_inj) (auto simp: binding_nulfree_def sa_nulfree_def)
  then show ?thesis
    by (auto simp: bindingsBySA_def mgetl_index_by filter_filter grants_def intro!: filter_cong)
qed

lemma r14_of_iff:
  assumes "step_nulfree step" "\<forall>x \<in> set bs. binding_nulfree x" "sa_nulfree sa"
  shows "set (r14_of (bindingsBySA bs) (step_keys step) sa) =
     (if live step (sar_OwnerKind sa) (sar_OwnerNamespace sa) (sar_OwnerName sa) \<and>
         (\<forall>x \<in> set bs. grants x sa \<longrightarrow> \<not> effective_at step x)
      then r14_violation sa ` {x \<in> set bs. grants x sa} else {})"
proof -
  have owner: "stateKey (sar_OwnerKind sa) (sar_OwnerNamespace sa) (sar_OwnerName sa) \<in> set (step_keys step) \<longleftrightarrow>
        live step (sar_OwnerKind sa) (sar_OwnerNamespace sa) (sar_OwnerName sa)"
    using assms by (simp add: step_keys_live sa_nulfree_def)
  have lv: "binding_live (step_keys step) x = effective_at step x" if "x \<in> set bs" for x
    using that assms by (simp add: binding_live_iff)
  show ?thesis
    using lv unfolding r14_of_def owner Let_def bindingsBySA_grants[OF assms(2,3)]
    by (auto simp: filter_empty_conv list_ex_iff)
qed

text \<open>
  R14 (XPC014) is exact.  A violation is reported precisely for a step, a
  workload live in it and a binding of the workload's service account, when in
  that step no binding of that account is effective, that is has both itself and
  its role live.
\<close>

theorem R14_exact:
  assumes "\<forall>step \<in> set steps. step_nulfree step"
    and "\<forall>x \<in> set bindings. binding_nulfree x" and "\<forall>sa \<in> set sas. sa_nulfree sa"
  shows "set (buildR14Violations sas bindings steps) =
     {r14_violation sa x | step sa x.
        step \<in> set steps \<and> sa \<in> set sas \<and> x \<in> set bindings \<and> grants x sa \<and>
        live step (sar_OwnerKind sa) (sar_OwnerNamespace sa) (sar_OwnerName sa) \<and>
        (\<forall>y \<in> set bindings. grants y sa \<longrightarrow> \<not> effective_at step y)}"
proof -
  let ?bs = "SortFunc bindings rbacBindingCmp"
  have "set (r14_of (bindingsBySA ?bs) (step_keys step) sa) =
     (if live step (sar_OwnerKind sa) (sar_OwnerNamespace sa) (sar_OwnerName sa) \<and>
         (\<forall>x \<in> set bindings. grants x sa \<longrightarrow> \<not> effective_at step x)
      then r14_violation sa ` {x \<in> set bindings. grants x sa} else {})"
    if "step \<in> set steps" "sa \<in> set sas" for step sa
    using r14_of_iff[of step ?bs sa, unfolded sort_slice_set] that assms by blast
  then have "set (buildR14Violations sas bindings steps) =
     (\<Union>step \<in> set steps. \<Union>sa \<in> set sas.
       (if live step (sar_OwnerKind sa) (sar_OwnerNamespace sa) (sar_OwnerName sa) \<and>
           (\<forall>x \<in> set bindings. grants x sa \<longrightarrow> \<not> effective_at step x)
        then r14_violation sa ` {x \<in> set bindings. grants x sa} else {}))"
    by (simp add: buildR14Violations_def buildStateKeySets_map)
  then show ?thesis by (auto split: if_splits)
qed

definition ex_sa :: SARef where
  "ex_sa = \<lparr>sar_OwnerKind = ''Deployment'', sar_OwnerName = ''web'', sar_OwnerNamespace = ''ns'',
            sar_SAName = ''robot'', sar_SANamespace = ''ns'', sar_Source = ex_src\<rparr>"

definition ex_binding :: RBACBinding where
  "ex_binding =
     \<lparr>rbb_BindingKind = ''RoleBinding'', rbb_BindingName = ''rb'', rbb_BindingNamespace = ''ns'',
      rbb_SubjectKind = ''ServiceAccount'', rbb_SubjectName = ''robot'', rbb_SubjectNamespace = ''ns'',
      rbb_RoleKind = ''Role'', rbb_RoleName = ''r'', rbb_RoleNamespace = ''ns'', rbb_Source = ex_src\<rparr>"

theorem R14_exact_witness:
  "r14_violation ex_sa ex_binding \<in> set (buildR14Violations [ex_sa] [ex_binding]
     [ex_step [ex_rkey ''Deployment'' ''web'', ex_rkey ''RoleBinding'' ''rb'']])"
proof -
  let ?step = "ex_step [ex_rkey ''Deployment'' ''web'', ex_rkey ''RoleBinding'' ''rb'']"
  have "\<forall>step \<in> set [?step]. step_nulfree step" by (simp add: ex_defs step_nulfree_def nulfree_def)
  moreover have "\<forall>x \<in> set [ex_binding]. binding_nulfree x"
    by (simp add: ex_binding_def binding_nulfree_def nulfree_def)
  moreover have "\<forall>sa \<in> set [ex_sa]. sa_nulfree sa" by (simp add: ex_sa_def sa_nulfree_def nulfree_def)
  moreover have "live ?step (sar_OwnerKind ex_sa) (sar_OwnerNamespace ex_sa) (sar_OwnerName ex_sa)"
    and "grants ex_binding ex_sa" and "\<not> effective_at ?step ex_binding"
    by (simp_all add: ex_defs ex_sa_def ex_binding_def live_def grants_def effective_at_def)
  ultimately show ?thesis by (subst R14_exact) auto
qed

end
