(* ===== verification/Coverage.thy ===== *)
theory Coverage
  imports Violations
begin

text \<open>
  What the builders of \<^verbatim>\<open>Violations\<close> compute for the rules about permissions and
  ignored differences: R15 against the project whitelists, R16 and R21 against
  the \<^verbatim>\<open>ignoreDifferences\<close> of the applications, whose scope index is compared
  with a scan of all entries.
\<close>

section \<open>R15 is exact\<close>

definition is_cluster_scoped :: "World \<Rightarrow> ResourceInfo \<Rightarrow> bool" where
  "is_cluster_scoped w res =
     list_ex (\<lambda>c. crd_Group c = apiVersionGroup (ri_APIVersion res) \<and> crd_Kind c = ri_Kind res \<and>
                  crd_Scope c = ''Cluster'') (w_CRDs w)"

definition project_permits :: "World \<Rightarrow> ArgoAppProject \<Rightarrow> ResourceInfo \<Rightarrow> bool" where
  "project_permits w p res =
     (let (isSet, entries) = (if is_cluster_scoped w res
            then (proj_ClusterResourceWhitelistSet p, proj_ClusterResourceWhitelist p)
            else (proj_NamespaceResourceWhitelistSet p, proj_NamespaceResourceWhitelist p))
      in \<not> isSet \<or> list_ex (\<lambda>e. gk_Group e \<in> {''*'', apiVersionGroup (ri_APIVersion res)} \<and>
                               gk_Kind e \<in> {''*'', ri_Kind res}) entries)"

definition r15_of :: "World \<Rightarrow> ArgoApplication \<Rightarrow> ResourceInfo \<Rightarrow> r15Violation" where
  "r15_of w app res =
     \<lparr>r15_AppName = app_Name app, r15_ProjectName = app_project app,
      r15_Group = apiVersionGroup (ri_APIVersion res), r15_Kind = ri_Kind res, r15_Name = ri_Name res,
      r15_WhitelistKey = (if is_cluster_scoped w res then ''clusterResourceWhitelist''
                          else ''namespaceResourceWhitelist''),
      r15_Source = ri_Source res\<rparr>"

definition crd_ids_ok :: "World \<Rightarrow> bool" where
  "crd_ids_ok w =
     (distinct (map (\<lambda>c. (crd_Group c, crd_Kind c)) (w_CRDs w)) \<and>
      list_all (\<lambda>c. nulfree (crd_Group c) \<and> nulfree (crd_Kind c)) (w_CRDs w) \<and>
      list_all (\<lambda>r. nulfree (ri_APIVersion r) \<and> nulfree (ri_Kind r)) (w_Resources w))"

lemma app_project_ne [simp]: "app_project app \<noteq> []"
  by (simp add: app_project_def)

lemma nulfree_apiVersionGroup: "nulfree s \<Longrightarrow> nulfree (apiVersionGroup s)"
  by (auto simp: nulfree_def apiVersionGroup_def split: option.splits dest: in_set_takeD)

lemma cluster_lookup:
  assumes "crd_ids_ok w" "res \<in> set (w_Resources w)"
  shows "map_of (mfill (\<lambda>c. crd_Group c @ NUL @ crd_Kind c) (\<lambda>c. crd_Scope c = ''Cluster'') (w_CRDs w))
           (apiVersionGroup (ri_APIVersion res) @ NUL @ ri_Kind res) = Some True \<longleftrightarrow> is_cluster_scoped w res"
proof -
  have nf: "nulfree (apiVersionGroup (ri_APIVersion res))" "nulfree (ri_Kind res)"
    using assms by (auto simp: crd_ids_ok_def list_all_iff intro: nulfree_apiVersionGroup)
  have cf: "nulfree (crd_Group c)" "nulfree (crd_Kind c)" if "c \<in> set (w_CRDs w)" for c
    using that assms(1) by (auto simp: crd_ids_ok_def list_all_iff)
  have "distinct (map (\<lambda>c. crd_Group c @ NUL @ crd_Kind c) (w_CRDs w))"
    using assms(1) cf unfolding crd_ids_ok_def distinct_map inj_on_def by (metis NUL_pair_inj prod.inject)
  note mf = map_of_mfill_iff[OF this, of "\<lambda>c. crd_Scope c = ''Cluster''"]
  have "crd_Group c @ NUL @ crd_Kind c = apiVersionGroup (ri_APIVersion res) @ NUL @ ri_Kind res \<longleftrightarrow>
        crd_Group c = apiVersionGroup (ri_APIVersion res) \<and> crd_Kind c = ri_Kind res"
    if "c \<in> set (w_CRDs w)" for c
    using NUL_pair_inj cf[OF that] nf by blast
  then show ?thesis
    unfolding mf is_cluster_scoped_def list_ex_iff by blast
qed

lemma r15_resource_iff:
  assumes "crd_ids_ok w" "res \<in> set (w_Resources w)"
  shows "set (r15_resource (mfill (\<lambda>c. crd_Group c @ NUL @ crd_Kind c) (\<lambda>c. crd_Scope c = ''Cluster'') (w_CRDs w))
               (app_Name app) (app_project app) p res) =
         (if project_permits w p res then {} else {r15_of w app res})"
  unfolding r15_resource_def Let_def cluster_lookup[OF assms]
  by (simp add: project_permits_def r15_of_def projectWhitelistEntries_def groupKindWhitelisted_def)

lemma app_project_lookup:
  assumes "distinct (map app_Name (w_ArgoApps w))" "app \<in> set (w_ArgoApps w)"
  shows "mget (mfill app_Name app_project (w_ArgoApps w)) (app_Name app) = app_project app"
  using map_of_mfill_distinct[OF assms, of app_project] by (simp add: mget_def)

lemma owned_resources:
  "mgetl (index_by ri_OwningApp (\<lambda>r. r) (filter (\<lambda>r. ri_OwningApp r \<noteq> []) rs)) name =
     filter (\<lambda>r. ri_OwningApp r = name \<and> name \<noteq> []) rs"
  by (auto simp: mgetl_index_by filter_filter intro!: filter_cong)

lemma project_lookup:
  assumes "distinct (map proj_Name ps)"
  shows "set (case map_of (mfill proj_Name (\<lambda>p. p) ps) name of None \<Rightarrow> [] | Some p \<Rightarrow> f p) =
         (\<Union>p \<in> {p \<in> set ps. proj_Name p = name}. set (f p))"
proof -
  have lk: "map_of (mfill proj_Name (\<lambda>p. p) ps) name = Some p \<longleftrightarrow> p \<in> set ps \<and> proj_Name p = name" for p
    using map_of_mfill_iff[OF assms, of "\<lambda>p. p" name p] by blast
  show ?thesis
  proof (cases "map_of (mfill proj_Name (\<lambda>p. p) ps) name")
    case None
    then have "{p \<in> set ps. proj_Name p = name} = {}" using lk by auto
    then show ?thesis unfolding None by auto
  next
    case (Some p)
    have "q = p" if "q \<in> set ps" "proj_Name q = name" for q
      using lk[of q] Some that by (metis option.inject)
    moreover have "p \<in> set ps" "proj_Name p = name" using lk[of p] Some by (metis option.inject)+
    ultimately have "{p \<in> set ps. proj_Name p = name} = {p}" by blast
    then show ?thesis unfolding Some by auto
  qed
qed

text \<open>
  C19: R15 (XPC.D.kind-whitelisted) is exact.  When applications, projects and CRDs
  have unique names, a violation is reported precisely for an application with a
  known project and a resource the application owns whose kind the project does
  not permit; a whitelist that is absent permits everything, and cluster-scoped
  kinds are held against the cluster whitelist.
\<close>

theorem R15_exact:
  assumes "distinct (map app_Name (w_ArgoApps w))" "distinct (map proj_Name (w_ArgoProjects w))"
    and "crd_ids_ok w"
  shows "set (buildR15Violations w) =
     {r15_of w app res | app p res.
        app \<in> set (w_ArgoApps w) \<and> p \<in> set (w_ArgoProjects w) \<and> res \<in> set (w_Resources w) \<and>
        ri_OwningApp res = app_Name app \<and> app_Name app \<noteq> [] \<and> proj_Name p = app_project app \<and>
        \<not> project_permits w p res}"
proof (cases "w_Resources w = []")
  case False
  let ?cs = "mfill (\<lambda>c. crd_Group c @ NUL @ crd_Kind c) (\<lambda>c. crd_Scope c = ''Cluster'') (w_CRDs w)"
  let ?owned = "\<lambda>app. filter (\<lambda>r. ri_OwningApp r = app_Name app \<and> app_Name app \<noteq> []) (SortFunc (w_Resources w) resourceCmp)"
  let ?per = "\<lambda>app p. concat (map (r15_resource ?cs (app_Name app) (app_project app) p) (?owned app))"
  have "buildR15Violations w = concat (map (\<lambda>app.
      case map_of (mfill proj_Name (\<lambda>p. p) (w_ArgoProjects w)) (app_project app) of
        None \<Rightarrow> [] | Some p \<Rightarrow> ?per app p) (SortFunc (w_ArgoApps w) argoAppCmp))"
    using False unfolding buildR15Violations_def Let_def owned_resources
    by (auto simp: app_project_lookup[OF assms(1)] intro!: arg_cong[where f = concat] map_cong split: option.splits)
  then have out: "set (buildR15Violations w) =
      (\<Union>app \<in> set (w_ArgoApps w). \<Union>p \<in> {p \<in> set (w_ArgoProjects w). proj_Name p = app_project app}. set (?per app p))"
    by (simp only: set_concat set_map image_image sort_slice_set project_lookup[OF assms(2)])
  have per: "set (?per app p) = {r15_of w app res | res. res \<in> set (w_Resources w) \<and>
      ri_OwningApp res = app_Name app \<and> app_Name app \<noteq> [] \<and> \<not> project_permits w p res}" for app p
    using r15_resource_iff[OF assms(3)] by (auto split: if_splits)
  show ?thesis unfolding out per by blast
qed (simp add: buildR15Violations_def)

definition ex_project :: ArgoAppProject where
  "ex_project =
     \<lparr>proj_Name = ''team'', proj_Source = zero_SourceLocation, proj_SourceRepos = [], proj_Destinations = [],
      proj_ClusterResourceWhitelist = [], proj_ClusterResourceWhitelistSet = False,
      proj_ClusterResourceBlacklist = [],
      proj_NamespaceResourceWhitelist = [\<lparr>gk_Group = ''apps'', gk_Kind = ''*''\<rparr>],
      proj_NamespaceResourceWhitelistSet = True, proj_NamespaceResourceBlacklist = [],
      proj_SyncWindows = [], proj_SignatureKeys = []\<rparr>"

definition ex_app15 :: ArgoApplication where
  "ex_app15 = zero_ArgoApplication\<lparr>app_Name := ''web'', app_Project := ''team''\<rparr>"

definition ex_job :: ResourceInfo where
  "ex_job = zero_ResourceInfo\<lparr>ri_APIVersion := ''batch/v1'', ri_Kind := ''Job'', ri_Name := ''j'', ri_OwningApp := ''web''\<rparr>"

definition ex_world15 :: World where
  "ex_world15 = NewWorld\<lparr>w_ArgoApps := [ex_app15], w_ArgoProjects := [ex_project], w_Resources := [ex_job]\<rparr>"

theorem R15_exact_witness:
  "r15_of ex_world15 ex_app15 ex_job \<in> set (buildR15Violations ex_world15)"
proof -
  have "distinct (map app_Name (w_ArgoApps ex_world15))" "distinct (map proj_Name (w_ArgoProjects ex_world15))"
    and "crd_ids_ok ex_world15"
    by (simp_all add: ex_world15_def NewWorld_def ex_job_def zero_defs crd_ids_ok_def nulfree_def)
  note exact = R15_exact[OF this]
  have "ex_app15 \<in> set (w_ArgoApps ex_world15)" "ex_project \<in> set (w_ArgoProjects ex_world15)"
    and "ex_job \<in> set (w_Resources ex_world15)" "ri_OwningApp ex_job = app_Name ex_app15" "app_Name ex_app15 \<noteq> []"
    and "proj_Name ex_project = app_project ex_app15"
    by (simp_all add: ex_world15_def ex_app15_def ex_job_def ex_project_def app_project_def)
  moreover have "\<not> project_permits ex_world15 ex_project ex_job"
    by (simp add: project_permits_def is_cluster_scoped_def ex_world15_def ex_job_def ex_project_def NewWorld_def
        apiVersionGroup_def HasPrefix_def)
  ultimately show ?thesis unfolding exact by blast
qed

section \<open>The scope index against a scan\<close>

definition entry_nulfree :: "IgnoreDiffEntry \<Rightarrow> bool" where
  "entry_nulfree e = (nulfree (ide_Group e) \<and> nulfree (ide_Kind e))"

text \<open>The two scopes \<^verbatim>\<open>ignoreDiffScopeMatches\<close> accepts but \<^verbatim>\<open>covers\<close> never looks up.\<close>

definition half_wildcard :: "IgnoreDiffEntry \<Rightarrow> bool" where
  "half_wildcard e = ((ide_Group e = ''*'' \<and> ide_Kind e = []) \<or> (ide_Group e = [] \<and> ide_Kind e = ''*''))"

lemma nulfree_consts [simp]: "nulfree []" "nulfree ''*''"
  by (simp_all add: nulfree_def)

lemma scope_key_lookup:
  assumes "\<forall>e \<in> set es. entry_nulfree e" "nulfree g" "nulfree k"
  shows "set (mgetl (newIgnoreDiffIndex es) (ignoreDiffScopeKey g k)) =
         {e \<in> set es. ide_Group e = g \<and> ide_Kind e = k}"
  using assms NUL_pair_inj[of _ _ g k]
  by (auto simp: newIgnoreDiffIndex_def mgetl_index_by ignoreDiffScopeKey_def entry_nulfree_def
      simp del: append_Cons append_Nil)

lemma covers_candidates:
  assumes "\<forall>e \<in> set es. entry_nulfree e" "nulfree g" "nulfree k"
  shows "covers (newIgnoreDiffIndex es) g k leaf \<longleftrightarrow>
     (\<exists>e \<in> set es. (ide_Group e, ide_Kind e) \<in> set (scope_candidates g k) \<and> ignoreDiffEntryCovers e g k leaf)"
proof -
  have "nulfree (fst gk) \<and> nulfree (snd gk)" if "gk \<in> set (scope_candidates g k)" for gk
    using that assms by (auto simp: scope_candidates_def)
  then have "set (mgetl (newIgnoreDiffIndex es) (ignoreDiffScopeKey (fst gk) (snd gk))) =
         {e \<in> set es. (ide_Group e, ide_Kind e) = gk}" if "gk \<in> set (scope_candidates g k)" for gk
    using that scope_key_lookup[OF assms(1), of "fst gk" "snd gk"] by (cases gk) auto
  then show ?thesis
    by (auto simp: covers_def list_ex_iff case_prod_beta)
qed

lemma covers_is_scan:
  assumes "\<forall>e \<in> set es. entry_nulfree e" "nulfree g" "nulfree k" "g \<notin> {[], ''*''}" "k \<notin> {[], ''*''}"
  shows "covers (newIgnoreDiffIndex es) g k leaf \<longleftrightarrow>
     (\<exists>e \<in> set es. ignoreDiffEntryCovers e g k leaf \<and> \<not> half_wildcard e)"
proof -
  have "ignoreDiffEntryCovers e g k leaf \<Longrightarrow>
        (ide_Group e, ide_Kind e) \<in> set (scope_candidates g k) \<longleftrightarrow> \<not> half_wildcard e" for e
    using assms(4,5)
    by (auto simp: ignoreDiffEntryCovers_def ignoreDiffScopeMatches_def scope_candidates_def half_wildcard_def
        split: if_splits)
  then show ?thesis unfolding covers_candidates[OF assms(1-3)] by blast
qed

text \<open>
  C20: R16 and R21 report exactly the selector and late-initialised fields that no
  \<^verbatim>\<open>ignoreDifferences\<close> entry covers, where the scope index of the code stands for
  a scan of all entries except those whose scope is half a wildcard and half
  empty: such an entry matches every resource by \<^verbatim>\<open>ignoreDiffScopeMatches\<close>, yet
  the index never consults it.
\<close>

theorem ignore_diff_rules_exact:
  assumes "\<forall>e \<in> set entries. entry_nulfree e"
    and "\<forall>u \<in> set sels. nulfree (su_ResourceGroup u) \<and> nulfree (su_ResourceKind u) \<and>
                         su_ResourceGroup u \<notin> {[], ''*''} \<and> su_ResourceKind u \<notin> {[], ''*''}"
    and "\<forall>u \<in> set lates. nulfree (liu_ResourceGroup u) \<and> nulfree (liu_ResourceKind u) \<and>
                         liu_ResourceGroup u \<notin> {[], ''*''} \<and> liu_ResourceKind u \<notin> {[], ''*''}"
  shows "set (buildR16Violations sels entries) =
           r16_violation ` {u \<in> set sels. \<forall>e \<in> set entries. half_wildcard e \<or>
              \<not> ignoreDiffEntryCovers e (su_ResourceGroup u) (su_ResourceKind u) (leafSegment (su_ResolvedPath u))} \<and>
         set (buildR21Violations lates entries) =
           r21_violation ` {u \<in> set lates. \<forall>e \<in> set entries. half_wildcard e \<or>
              \<not> ignoreDiffEntryCovers e (liu_ResourceGroup u) (liu_ResourceKind u) (leafSegment (liu_FieldPath u))}"
proof -
  have "covers (newIgnoreDiffIndex entries) (su_ResourceGroup u) (su_ResourceKind u) leaf \<longleftrightarrow>
     (\<exists>e \<in> set entries. ignoreDiffEntryCovers e (su_ResourceGroup u) (su_ResourceKind u) leaf \<and> \<not> half_wildcard e)"
    if "u \<in> set sels" for u leaf
    using that assms by (intro covers_is_scan) auto
  moreover have "covers (newIgnoreDiffIndex entries) (liu_ResourceGroup u) (liu_ResourceKind u) leaf \<longleftrightarrow>
     (\<exists>e \<in> set entries. ignoreDiffEntryCovers e (liu_ResourceGroup u) (liu_ResourceKind u) leaf \<and> \<not> half_wildcard e)"
    if "u \<in> set lates" for u leaf
    using that assms by (intro covers_is_scan) auto
  ultimately show ?thesis
    unfolding buildR16Violations_def buildR21Violations_def Let_def
    by (auto intro!: image_cong simp del: One_nat_def)
qed

definition ex_usage :: SelectorUsage where
  "ex_usage =
     \<lparr>su_ResourceGroup = ''ec2.aws.upbound.io'', su_ResourceKind = ''Subnet'', su_ResourceName = ''s'',
      su_ResourceNamespace = [], su_SelectorPath = ''spec.forProvider.vpcIdSelector'',
      su_ResolvedPath = ''spec.forProvider.vpcId'', su_Source = ex_src\<rparr>"

definition ex_entry :: "string \<Rightarrow> string \<Rightarrow> IgnoreDiffEntry" where
  "ex_entry g k = \<lparr>ide_AppName = ''app'', ide_Group = g, ide_Kind = k, ide_JSONPointer = [], ide_JQPath = [],
                   ide_ManagedFieldsManagers = [''crossplane'']\<rparr>"

text \<open>
  Both entries below match every resource and are managed by crossplane; only the
  one spelled \<^verbatim>\<open>("*", "*")\<close> silences the finding.
\<close>

theorem ignore_diff_rules_exact_witness:
  "set (buildR16Violations [ex_usage] [ex_entry ''*'' ''*'']) = {} \<and>
   set (buildR16Violations [ex_usage] [ex_entry ''*'' []]) = {r16_violation ex_usage} \<and>
   ignoreDiffEntryCovers (ex_entry ''*'' []) ''ec2.aws.upbound.io'' ''Subnet'' ''vpcId''"
proof -
  have nf: "\<forall>e \<in> set [ex_entry ''*'' k]. entry_nulfree e" if "nulfree k" for k
    using that by (simp add: ex_entry_def entry_nulfree_def)
  have us: "\<forall>u \<in> set [ex_usage]. nulfree (su_ResourceGroup u) \<and> nulfree (su_ResourceKind u) \<and>
                   su_ResourceGroup u \<notin> {[], ''*''} \<and> su_ResourceKind u \<notin> {[], ''*''}"
    by (simp add: ex_usage_def nulfree_def)
  have ls: "\<forall>u \<in> set ([] :: LateInitUsage list). nulfree (liu_ResourceGroup u) \<and> nulfree (liu_ResourceKind u) \<and>
                   liu_ResourceGroup u \<notin> {[], ''*''} \<and> liu_ResourceKind u \<notin> {[], ''*''}"
    by simp
  have cov: "ignoreDiffEntryCovers (ex_entry ''*'' k) g kind leaf" if "k \<in> {[], ''*''}" for k g kind leaf
    using that by (auto simp: ignoreDiffEntryCovers_def ignoreDiffScopeMatches_def ex_entry_def)
  have hw: "half_wildcard (ex_entry ''*'' [])" "\<not> half_wildcard (ex_entry ''*'' ''*'')"
    by (simp_all add: half_wildcard_def ex_entry_def)
  show ?thesis
    using conjunct1[OF ignore_diff_rules_exact[OF nf us ls, of "''*''"]]
      conjunct1[OF ignore_diff_rules_exact[OF nf us ls, of "[]"]] cov hw
    by simp
qed

end
