(* ===== verification/Serialize.thy ===== *)
theory Serialize
  imports Coverage Enrich
begin

text \<open>
  The serialization half of \<^verbatim>\<open>pkg/checker/bridge.go\<close>: every fact of the World as
  an object of the Shen runtime.  The runtime package \<^verbatim>\<open>kl\<close> is not part of the
  repository; its constructors, recognisers and accessors are the fields of the
  parameter \<open>K\<close>, and what the decoder needs of them is the predicate \<open>kl_ok\<close>.
\<close>

section \<open>The runtime interface\<close>

record 'o kl =
  kl_MakeSymbol :: "string \<Rightarrow> 'o"
  kl_MakeString :: "string \<Rightarrow> 'o"
  kl_MakeInteger :: "int \<Rightarrow> 'o"
  kl_True :: 'o
  kl_False :: 'o
  kl_Nil :: 'o
  kl_Cons :: "'o \<Rightarrow> 'o \<Rightarrow> 'o"
  kl_ListToSlice :: "'o \<Rightarrow> 'o list"
  kl_IsSymbol :: "'o \<Rightarrow> bool"
  kl_GetSymbol :: "'o \<Rightarrow> string"
  kl_IsString :: "'o \<Rightarrow> bool"
  kl_GetString :: "'o \<Rightarrow> string"
  kl_IsNumber :: "'o \<Rightarrow> bool"
  kl_GetInteger :: "'o \<Rightarrow> int"
  kl_IsError :: "'o \<Rightarrow> bool"
  kl_ObjString :: "'o \<Rightarrow> string"

abbreviation sym :: "('o, 'b) kl_scheme \<Rightarrow> string \<Rightarrow> 'o" where "sym K s \<equiv> kl_MakeSymbol K s"
abbreviation str :: "('o, 'b) kl_scheme \<Rightarrow> string \<Rightarrow> 'o" where "str K s \<equiv> kl_MakeString K s"
abbreviation num :: "('o, 'b) kl_scheme \<Rightarrow> int \<Rightarrow> 'o" where "num K n \<equiv> kl_MakeInteger K n"

definition boolean :: "('o, 'b) kl_scheme \<Rightarrow> bool \<Rightarrow> 'o" where
  "boolean K b = (if b then kl_True K else kl_False K)"

definition makeList :: "('o, 'b) kl_scheme \<Rightarrow> 'o list \<Rightarrow> 'o" where
  "makeList K items = foldr (kl_Cons K) items (kl_Nil K)"

definition section_obj :: "('o, 'b) kl_scheme \<Rightarrow> string \<Rightarrow> 'o list \<Rightarrow> 'o" where
  "section_obj K tag facts = makeList K (sym K tag # facts)"

definition sortedSection ::
  "('o, 'b) kl_scheme \<Rightarrow> string \<Rightarrow> 'a list \<Rightarrow> ('a \<Rightarrow> 'a \<Rightarrow> int) \<Rightarrow> ('a \<Rightarrow> 'o) \<Rightarrow> 'o" where
  "sortedSection K tag src lt toObj = section_obj K tag (map toObj (SortFunc src lt))"

definition stringListSection :: "('o, 'b) kl_scheme \<Rightarrow> string \<Rightarrow> string list \<Rightarrow> 'o" where
  "stringListSection K tag items = makeList K (sym K tag # map (str K) items)"

definition stringsToList :: "('o, 'b) kl_scheme \<Rightarrow> string list \<Rightarrow> 'o" where
  "stringsToList K ss = makeList K (map (str K) ss)"

definition sourceToObj :: "('o, 'b) kl_scheme \<Rightarrow> SourceLocation \<Rightarrow> 'o" where
  "sourceToObj K src = makeList K [sym K ''source'', str K (sl_File src), num K (sl_Line src)]"

section \<open>Comparison functions\<close>

definition crdCmp :: "CRDInfo \<Rightarrow> CRDInfo \<Rightarrow> int" where
  "crdCmp a b =
     cmp_chain [Compare (crd_Group a) (crd_Group b),
                Compare (crd_Kind a) (crd_Kind b)]"

definition compositionCmp :: "CompositionInfo \<Rightarrow> CompositionInfo \<Rightarrow> int" where
  "compositionCmp a b =
     cmp_chain [Compare (comp_Name a) (comp_Name b)]"

definition functionCmp :: "FunctionInfo \<Rightarrow> FunctionInfo \<Rightarrow> int" where
  "functionCmp a b =
     cmp_chain [Compare (fn_Name a) (fn_Name b)]"

definition providerCmp :: "ProviderInfo \<Rightarrow> ProviderInfo \<Rightarrow> int" where
  "providerCmp a b =
     cmp_chain [Compare (prov_Name a) (prov_Name b)]"

definition configCmp :: "ConfigurationInfo \<Rightarrow> ConfigurationInfo \<Rightarrow> int" where
  "configCmp a b =
     cmp_chain [Compare (cfgn_Name a) (cfgn_Name b)]"

definition argoAppProjectCmp :: "ArgoAppProject \<Rightarrow> ArgoAppProject \<Rightarrow> int" where
  "argoAppProjectCmp a b =
     cmp_chain [Compare (sl_File (proj_Source a)) (sl_File (proj_Source b)),
                Compare (proj_Name a) (proj_Name b)]"

definition appSetFinalizerCmp :: "ArgoApplicationSet \<Rightarrow> ArgoApplicationSet \<Rightarrow> int" where
  "appSetFinalizerCmp a b =
     cmp_chain [Compare (sl_File (aset_Source a)) (sl_File (aset_Source b)),
                Compare (aset_Name a) (aset_Name b)]"

definition immutableFieldCmp :: "ImmutableField \<Rightarrow> ImmutableField \<Rightarrow> int" where
  "immutableFieldCmp a b =
     cmp_chain [Compare (imf_Group a) (imf_Group b),
                Compare (imf_Kind a) (imf_Kind b),
                Compare (imf_FieldPath a) (imf_FieldPath b)]"

definition selectorMappingCmp :: "SelectorMapping \<Rightarrow> SelectorMapping \<Rightarrow> int" where
  "selectorMappingCmp a b =
     cmp_chain [Compare (sm_Group a) (sm_Group b),
                Compare (sm_Kind a) (sm_Kind b),
                Compare (sm_SelectorPath a) (sm_SelectorPath b),
                Compare (sm_ResolvedPath a) (sm_ResolvedPath b)]"

definition lateInitMappingCmp :: "LateInitMapping \<Rightarrow> LateInitMapping \<Rightarrow> int" where
  "lateInitMappingCmp a b =
     cmp_chain [Compare (lim_Group a) (lim_Group b),
                Compare (lim_Kind a) (lim_Kind b),
                Compare (lim_FieldPath a) (lim_FieldPath b)]"

definition renderResultCmp :: "RenderResult \<Rightarrow> RenderResult \<Rightarrow> int" where
  "renderResultCmp a b =
     cmp_chain [Compare (rr_AppName a) (rr_AppName b),
                Compare (rr_ChartPath a) (rr_ChartPath b)]"

definition determinismResultCmp :: "DeterminismResult \<Rightarrow> DeterminismResult \<Rightarrow> int" where
  "determinismResultCmp a b =
     cmp_chain [Compare (det_AppName a) (det_AppName b),
                Compare (det_RendererKind a) (det_RendererKind b)]"

definition ssaMPConflictCmp :: "SSAMPConflict \<Rightarrow> SSAMPConflict \<Rightarrow> int" where
  "ssaMPConflictCmp a b =
     cmp_chain [Compare (ssamp_AppName a) (ssamp_AppName b),
                Compare (ssamp_ResourceKind a) (ssamp_ResourceKind b),
                Compare (ssamp_ResourceNamespace a) (ssamp_ResourceNamespace b),
                Compare (ssamp_ResourceName a) (ssamp_ResourceName b)]"

definition cpDeletionPolicyCmp :: "CPDeletionPolicyFact \<Rightarrow> CPDeletionPolicyFact \<Rightarrow> int" where
  "cpDeletionPolicyCmp a b =
     cmp_chain [Compare (cpd_Group a) (cpd_Group b),
                Compare (cpd_Kind a) (cpd_Kind b),
                Compare (cpd_Namespace a) (cpd_Namespace b),
                Compare (cpd_Name a) (cpd_Name b)]"

definition ignoreDiffEntryCmp :: "IgnoreDiffEntry \<Rightarrow> IgnoreDiffEntry \<Rightarrow> int" where
  "ignoreDiffEntryCmp a b =
     cmp_chain [Compare (ide_AppName a) (ide_AppName b),
                Compare (ide_JSONPointer a) (ide_JSONPointer b),
                Compare (ide_JQPath a) (ide_JQPath b)]"

definition resourceKeyCmp :: "ResourceKey \<Rightarrow> ResourceKey \<Rightarrow> int" where
  "resourceKeyCmp a b =
     cmp_chain [Compare (rk_Kind a) (rk_Kind b),
                Compare (rk_Namespace a) (rk_Namespace b),
                Compare (rk_Name a) (rk_Name b)]"

definition rbacRuleCmp :: "RBACRule \<Rightarrow> RBACRule \<Rightarrow> int" where
  "rbacRuleCmp a b =
     cmp_chain [Compare (rbr_OwnerKind a) (rbr_OwnerKind b),
                Compare (rbr_OwnerName a) (rbr_OwnerName b),
                Compare (length (rbr_Verbs a)) (length (rbr_Verbs b)),
                Compare (Join (rbr_Verbs a) '','') (Join (rbr_Verbs b) '','')]"

definition violation_string :: "ViolationKind \<Rightarrow> string" where
  "violation_string v =
     (case v of UnknownField \<Rightarrow> ''UnknownField'' | WrongType \<Rightarrow> ''WrongType''
              | MissingRequired \<Rightarrow> ''MissingRequired'' | InvalidEnum \<Rightarrow> ''InvalidEnum'')"

definition violationSym :: "ViolationKind \<Rightarrow> string" where
  "violationSym v =
     (case v of UnknownField \<Rightarrow> ''unknown-field'' | WrongType \<Rightarrow> ''wrong-type''
              | MissingRequired \<Rightarrow> ''missing-required'' | InvalidEnum \<Rightarrow> ''invalid-enum'')"

definition resourceFieldFactCmp :: "ResourceFieldFact \<Rightarrow> ResourceFieldFact \<Rightarrow> int" where
  "resourceFieldFactCmp a b =
     cmp_chain [Compare (rff_APIVersion a) (rff_APIVersion b),
                Compare (rff_Kind a) (rff_Kind b),
                Compare (rff_Namespace a) (rff_Namespace b),
                Compare (rff_Name a) (rff_Name b),
                Compare (rff_Path a) (rff_Path b),
                Compare (violation_string (rff_Violation a)) (violation_string (rff_Violation b))]"

section \<open>Facts\<close>

definition crdToObj :: "('o, 'b) kl_scheme \<Rightarrow> CRDInfo \<Rightarrow> 'o" where
  "crdToObj K x =
     makeList K [sym K ''crd-fact'',
       str K (crd_Group x),
       str K (crd_Kind x),
       str K (crd_Scope x),
       makeList K (map (\<lambda>v. makeList K [str K (cv_Name v), boolean K (cv_Served v), boolean K (cv_Storage v), str K (cv_SchemaDigest v)]) (crd_Versions x)),
       makeList K [str K (conv_Strategy (crd_Conversion x)), sym K (ToLower (conv_CostClass (crd_Conversion x))), str K (conv_WebhookService (crd_Conversion x))],
       sourceToObj K (crd_Source x)]"

definition xrdToObj :: "('o, 'b) kl_scheme \<Rightarrow> CRDInfo \<Rightarrow> 'o" where
  "xrdToObj K x =
     makeList K [sym K ''xrd-fact'',
       str K (crd_Group x),
       str K (crd_Kind x),
       str K (crd_Scope x),
       str K (crd_APIVersion x),
       makeList K (map (\<lambda>v. makeList K [str K (cv_Name v), boolean K (cv_Served v), boolean K (cv_Referenceable v), str K (cv_SchemaDigest v)]) (crd_Versions x)),
       sourceToObj K (crd_Source x),
       str K (crd_OwningApp x)]"

definition compositionToObj :: "('o, 'b) kl_scheme \<Rightarrow> CompositionInfo \<Rightarrow> 'o" where
  "compositionToObj K x =
     makeList K [sym K ''composition-fact'',
       str K (comp_Name x),
       makeList K [sym K ''gvk'', str K (gvk_Group (comp_CompositeTypeRef x)), str K (gvk_Version (comp_CompositeTypeRef x)), str K (gvk_Kind (comp_CompositeTypeRef x))],
       str K (comp_Mode x),
       makeList K (map (\<lambda>s. makeList K [str K (ps_Name s), str K (ps_FunctionRef s), str K (ps_InputAPIVersion s), str K (ps_InputKind s)]) (comp_Pipeline x)),
       sourceToObj K (comp_Source x),
       str K (comp_OwningApp x)]"

definition functionToObj :: "('o, 'b) kl_scheme \<Rightarrow> FunctionInfo \<Rightarrow> 'o" where
  "functionToObj K x =
     makeList K [sym K ''function-fact'',
       str K (fn_Name x),
       str K (fn_Package x),
       makeList K (map (str K) (fn_InputVersions x)),
       sourceToObj K (fn_Source x),
       str K (fn_OwningApp x)]"

definition providerToObj :: "('o, 'b) kl_scheme \<Rightarrow> ProviderInfo \<Rightarrow> 'o" where
  "providerToObj K x =
     makeList K [sym K ''provider-fact'',
       str K (prov_Name x),
       str K (prov_Package x),
       sourceToObj K (prov_Source x),
       str K (prov_OwningApp x)]"

definition configToObj :: "('o, 'b) kl_scheme \<Rightarrow> ConfigurationInfo \<Rightarrow> 'o" where
  "configToObj K x =
     makeList K [sym K ''configuration-fact'',
       str K (cfgn_Name x),
       str K (cfgn_Package x),
       sourceToObj K (cfgn_Source x)]"

definition resourceToObj :: "('o, 'b) kl_scheme \<Rightarrow> ResourceInfo \<Rightarrow> 'o" where
  "resourceToObj K x =
     makeList K [sym K ''resource-fact'',
       str K (ri_APIVersion x),
       str K (ri_Kind x),
       str K (ri_Name x),
       str K (ri_Namespace x),
       makeList K (map (\<lambda>k. makeList K [str K k, str K (mget (ri_Annotations x) k)]) (sort_slice (<) (map fst (ri_Annotations x)))),
       sourceToObj K (ri_Source x),
       str K (ri_OwningApp x)]"

definition argoAppToObj :: "('o, 'b) kl_scheme \<Rightarrow> ArgoApplication \<Rightarrow> 'o" where
  "argoAppToObj K x =
     makeList K [sym K ''argo-app-fact'',
       str K (app_Name x),
       str K (app_TrackingMode x),
       makeList K (map (\<lambda>sw. makeList K [str K (swe_Kind sw), str K (swe_Name sw), num K (swe_Wave sw)]) (app_SyncWaves x)),
       sourceToObj K (app_Source x)]"

definition argoGroupKindToObj :: "('o, 'b) kl_scheme \<Rightarrow> ArgoGroupKind \<Rightarrow> 'o" where
  "argoGroupKindToObj K x =
     makeList K [sym K ''group-kind'',
       str K (gk_Group x),
       str K (gk_Kind x)]"

definition projectWhitelist :: "('o, 'b) kl_scheme \<Rightarrow> ArgoGroupKind list \<Rightarrow> bool \<Rightarrow> 'o list" where
  "projectWhitelist K entries isSet =
     (if \<not> isSet then [argoGroupKindToObj K \<lparr>gk_Group = ''*'', gk_Kind = ''*''\<rparr>]
      else map (argoGroupKindToObj K) entries)"

definition argoAppProjectToObj :: "('o, 'b) kl_scheme \<Rightarrow> ArgoAppProject \<Rightarrow> 'o" where
  "argoAppProjectToObj K x =
     makeList K [sym K ''argo-appproject'',
       str K (proj_Name x),
       str K (sl_File (proj_Source x)),
       makeList K (projectWhitelist K (proj_ClusterResourceWhitelist x) (proj_ClusterResourceWhitelistSet x)),
       makeList K (projectWhitelist K (proj_NamespaceResourceWhitelist x) (proj_NamespaceResourceWhitelistSet x))]"

definition argoAppProjLinkToObj :: "('o, 'b) kl_scheme \<Rightarrow> ArgoApplication \<Rightarrow> 'o" where
  "argoAppProjLinkToObj K x =
     makeList K [sym K ''argo-app-proj-link'',
       str K (app_Name x),
       str K (app_project x)]"

definition appSetAutosyncToObj :: "('o, 'b) kl_scheme \<Rightarrow> ArgoApplicationSet \<Rightarrow> 'o" where
  "appSetAutosyncToObj K x =
     makeList K [sym K ''appset-autosync-fact'',
       str K (aset_Name x),
       sym K (if sp_Automated (tmpl_SyncPolicy (aset_Template x)) \<noteq> None then ''auto-yes'' else ''auto-no''),
       sourceToObj K (aset_Source x)]"

definition appSetFinalizerToObj :: "('o, 'b) kl_scheme \<Rightarrow> ArgoApplicationSet \<Rightarrow> 'o" where
  "appSetFinalizerToObj K x =
     makeList K [sym K ''appset-finalizer-fact'',
       str K (aset_Name x),
       makeList K (map (str K) (tmpl_Finalizers (aset_Template x))),
       sym K (if asp_PreserveResourcesOnDeletion (aset_SyncPolicy x) then ''preserve-yes'' else ''preserve-no''),
       sourceToObj K (aset_Source x)]"

definition mountRefToObj :: "('o, 'b) kl_scheme \<Rightarrow> MountRef \<Rightarrow> 'o" where
  "mountRefToObj K x =
     makeList K [sym K ''mount-ref-fact'',
       str K (mr_OwnerKind x),
       str K (mr_OwnerName x),
       str K (mr_OwnerNamespace x),
       str K (mr_TargetKind x),
       str K (mr_TargetName x),
       str K (mr_TargetNamespace x),
       str K (mr_MountKind x),
       boolean K (mr_Optional x),
       sourceToObj K (mr_Source x)]"

definition saRefToObj :: "('o, 'b) kl_scheme \<Rightarrow> SARef \<Rightarrow> 'o" where
  "saRefToObj K x =
     makeList K [sym K ''sa-ref-fact'',
       str K (sar_OwnerKind x),
       str K (sar_OwnerName x),
       str K (sar_OwnerNamespace x),
       str K (sar_SAName x),
       str K (sar_SANamespace x),
       sourceToObj K (sar_Source x)]"

definition rbacBindingToObj :: "('o, 'b) kl_scheme \<Rightarrow> RBACBinding \<Rightarrow> 'o" where
  "rbacBindingToObj K x =
     makeList K [sym K ''rbac-binding-fact'',
       str K (rbb_BindingKind x),
       str K (rbb_BindingName x),
       str K (rbb_BindingNamespace x),
       str K (rbb_SubjectKind x),
       str K (rbb_SubjectName x),
       str K (rbb_SubjectNamespace x),
       str K (rbb_RoleKind x),
       str K (rbb_RoleName x),
       str K (rbb_RoleNamespace x),
       sourceToObj K (rbb_Source x)]"

definition rbacRuleToObj :: "('o, 'b) kl_scheme \<Rightarrow> RBACRule \<Rightarrow> 'o" where
  "rbacRuleToObj K x =
     makeList K [sym K ''rbac-rule-fact'',
       str K (rbr_OwnerKind x),
       str K (rbr_OwnerName x),
       str K (rbr_OwnerNamespace x),
       stringsToList K (rbr_APIGroups x),
       stringsToList K (rbr_Resources x),
       stringsToList K (rbr_Verbs x),
       stringsToList K (rbr_ResourceNames x),
       sourceToObj K (rbr_Source x)]"

definition immutableFieldToObj :: "('o, 'b) kl_scheme \<Rightarrow> ImmutableField \<Rightarrow> 'o" where
  "immutableFieldToObj K x =
     makeList K [sym K ''immutable-field-fact'',
       str K (imf_Group x),
       str K (imf_Kind x),
       str K (imf_FieldPath x),
       str K (imf_Reason x)]"

definition selectorMappingToObj :: "('o, 'b) kl_scheme \<Rightarrow> SelectorMapping \<Rightarrow> 'o" where
  "selectorMappingToObj K x =
     makeList K [sym K ''selector-mapping-fact'',
       str K (sm_Group x),
       str K (sm_Kind x),
       str K (sm_SelectorPath x),
       str K (sm_ResolvedPath x),
       str K (sm_Reason x)]"

definition selectorUsageToObj :: "('o, 'b) kl_scheme \<Rightarrow> SelectorUsage \<Rightarrow> 'o" where
  "selectorUsageToObj K x =
     makeList K [sym K ''selector-usage-fact'',
       str K (su_ResourceGroup x),
       str K (su_ResourceKind x),
       str K (su_ResourceName x),
       str K (su_ResourceNamespace x),
       str K (su_SelectorPath x),
       str K (su_ResolvedPath x),
       sourceToObj K (su_Source x)]"

definition lateInitMappingToObj :: "('o, 'b) kl_scheme \<Rightarrow> LateInitMapping \<Rightarrow> 'o" where
  "lateInitMappingToObj K x =
     makeList K [sym K ''late-init-mapping-fact'',
       str K (lim_Group x),
       str K (lim_Kind x),
       str K (lim_FieldPath x),
       str K (lim_FixPattern x),
       str K (lim_Reason x)]"

definition lateInitUsageToObj :: "('o, 'b) kl_scheme \<Rightarrow> LateInitUsage \<Rightarrow> 'o" where
  "lateInitUsageToObj K x =
     makeList K [sym K ''late-init-usage-fact'',
       str K (liu_ResourceGroup x),
       str K (liu_ResourceKind x),
       str K (liu_ResourceName x),
       str K (liu_ResourceNamespace x),
       str K (liu_FieldPath x),
       sourceToObj K (liu_Source x)]"

definition resourceFieldFactToObj :: "('o, 'b) kl_scheme \<Rightarrow> ResourceFieldFact \<Rightarrow> 'o" where
  "resourceFieldFactToObj K x =
     makeList K [sym K ''resource-field-fact'',
       str K (rff_APIVersion x),
       str K (rff_Kind x),
       str K (rff_Namespace x),
       str K (rff_Name x),
       str K (rff_Path x),
       sym K (violationSym (rff_Violation x)),
       str K (rff_Message x),
       sourceToObj K (rff_Source x)]"

definition render_error_kind :: "RenderResult \<Rightarrow> string" where
  "render_error_kind x =
     (if rr_ErrorKind x = [] then (if rr_Success x then ''none'' else ''other'') else rr_ErrorKind x)"

definition renderResultToObj :: "('o, 'b) kl_scheme \<Rightarrow> RenderResult \<Rightarrow> 'o" where
  "renderResultToObj K x =
     makeList K [sym K ''render-result'',
       str K (rr_AppName x),
       str K (rr_ChartPath x),
       sym K (if rr_Success x then ''render-ok'' else ''render-failed''),
       sym K (render_error_kind x),
       str K (rr_Error x),
       makeList K (sym K ''values-issues'' # map (\<lambda>vi. makeList K [sym K ''values-issue'', str K (vi_Path vi), str K (vi_Message vi)]) (rr_ValuesIssues x)),
       sourceToObj K (rr_Source x)]"

definition determinismResultToObj :: "('o, 'b) kl_scheme \<Rightarrow> DeterminismResult \<Rightarrow> 'o" where
  "determinismResultToObj K x =
     makeList K [sym K ''determinism-result'',
       str K (det_AppName x),
       str K (det_RendererKind x),
       sym K (if det_Mismatch x then ''determ-mismatch'' else ''determ-match''),
       str K (det_DiffSummary x),
       sourceToObj K (det_Source x)]"

definition ssaMPConflictToObj :: "('o, 'b) kl_scheme \<Rightarrow> SSAMPConflict \<Rightarrow> 'o" where
  "ssaMPConflictToObj K x =
     makeList K [sym K ''ssa-mp-conflict-fact'',
       str K (ssamp_AppName x),
       sym K (if ssamp_ServerSideApply x then ''ssa-yes'' else ''ssa-no''),
       makeList K (map (str K) (ssamp_ManagementPolicies x)),
       str K (ssamp_ResourceGroup x),
       str K (ssamp_ResourceKind x),
       str K (ssamp_ResourceName x),
       str K (ssamp_ResourceNamespace x),
       sourceToObj K (ssamp_Source x)]"

definition cpDeletionPolicyToObj :: "('o, 'b) kl_scheme \<Rightarrow> CPDeletionPolicyFact \<Rightarrow> 'o" where
  "cpDeletionPolicyToObj K x =
     makeList K [sym K ''cp-deletion-policy-fact'',
       str K (cpd_Group x),
       str K (cpd_Kind x),
       str K (cpd_Name x),
       str K (cpd_Namespace x),
       str K (cpd_DeletionPolicy x),
       sym K (if cpd_Bypass x then ''bypass-yes'' else ''bypass-no''),
       sourceToObj K (cpd_Source x)]"

definition ssaMPModeSection :: "('o, 'b) kl_scheme \<Rightarrow> string \<Rightarrow> 'o" where
  "ssaMPModeSection K mode =
     makeList K [sym K ''ssa-mp-mode'', sym K (if mode \<in> {''observe'', ''partial'', ''any''} then mode else ''observe'')]"

definition prodPatternsSection :: "('o, 'b) kl_scheme \<Rightarrow> string list \<Rightarrow> 'o" where
  "prodPatternsSection K patterns = stringListSection K ''prod-patterns'' patterns"

definition ignoreDiffEntryToObj :: "('o, 'b) kl_scheme \<Rightarrow> IgnoreDiffEntry \<Rightarrow> 'o" where
  "ignoreDiffEntryToObj K x =
     makeList K [sym K ''ignore-diff-entry'',
       str K (ide_AppName x),
       str K (ide_Group x),
       str K (ide_Kind x),
       str K (ide_JSONPointer x),
       str K (ide_JQPath x),
       makeList K (map (str K) (ide_ManagedFieldsManagers x))]"

section \<open>Violations\<close>

definition r12ViolationToObj :: "('o, 'b) kl_scheme \<Rightarrow> r12Violation \<Rightarrow> 'o" where
  "r12ViolationToObj K x =
     makeList K [sym K ''r12-violation'',
       str K (r12_OwnerKind x),
       str K (r12_OwnerName x),
       str K (r12_OwnerNamespace x),
       str K (r12_TargetKind x),
       str K (r12_TargetName x),
       str K (r12_TargetNamespace x),
       str K (r12_MountKind x),
       sourceToObj K (r12_Source x)]"

definition r14ViolationToObj :: "('o, 'b) kl_scheme \<Rightarrow> r14Violation \<Rightarrow> 'o" where
  "r14ViolationToObj K x =
     makeList K [sym K ''r14-violation'',
       str K (r14_BindingKind x),
       str K (r14_BindingName x),
       str K (r14_BindingNamespace x),
       str K (r14_RoleKind x),
       str K (r14_RoleName x),
       str K (r14_RoleNamespace x),
       str K (r14_OwnerKind x),
       str K (r14_OwnerName x),
       sourceToObj K (r14_Source x),
       sourceToObj K (r14_BindingSource x)]"

definition r15ViolationToObj :: "('o, 'b) kl_scheme \<Rightarrow> r15Violation \<Rightarrow> 'o" where
  "r15ViolationToObj K x =
     makeList K [sym K ''r15-violation'',
       str K (r15_AppName x),
       str K (r15_ProjectName x),
       str K (r15_Group x),
       str K (r15_Kind x),
       str K (r15_Name x),
       str K (r15_WhitelistKey x),
       sourceToObj K (r15_Source x)]"

definition r16ViolationToObj :: "('o, 'b) kl_scheme \<Rightarrow> r16Violation \<Rightarrow> 'o" where
  "r16ViolationToObj K x =
     makeList K [sym K ''r16-violation'',
       str K (r16_Group x),
       str K (r16_Kind x),
       str K (r16_Name x),
       str K (r16_Namespace x),
       str K (r16_SelectorPath x),
       str K (r16_ResolvedPath x),
       str K (r16_Leaf x),
       sourceToObj K (r16_Source x)]"

definition r21ViolationToObj :: "('o, 'b) kl_scheme \<Rightarrow> r21Violation \<Rightarrow> 'o" where
  "r21ViolationToObj K x =
     makeList K [sym K ''r21-violation'',
       str K (r21_Group x),
       str K (r21_Kind x),
       str K (r21_Name x),
       str K (r21_Namespace x),
       str K (r21_FieldPath x),
       str K (r21_Leaf x),
       sourceToObj K (r21_Source x)]"

definition esoStoreViolationToObj :: "('o, 'b) kl_scheme \<Rightarrow> esoStoreViolation \<Rightarrow> 'o" where
  "esoStoreViolationToObj K x =
     makeList K [sym K ''eso-store-violation'',
       str K (esv_Name x),
       str K (esv_Namespace x),
       str K (esv_StoreName x),
       sourceToObj K (esv_Source x)]"

definition fargateEnvLabelViolationToObj :: "('o, 'b) kl_scheme \<Rightarrow> fargateEnvLabelViolation \<Rightarrow> 'o" where
  "fargateEnvLabelViolationToObj K x =
     makeList K [sym K ''fargate-env-label-violation'',
       str K (fev_Kind x),
       str K (fev_Name x),
       str K (fev_Namespace x),
       sym K (if fev_Reason x = ''invalid'' then ''env-invalid'' else ''env-missing''),
       str K (fev_Value x),
       sourceToObj K (fev_Source x)]"

definition providerConfigRefViolationToObj :: "('o, 'b) kl_scheme \<Rightarrow> providerConfigRefViolation \<Rightarrow> 'o" where
  "providerConfigRefViolationToObj K x =
     makeList K [sym K ''providerconfig-ref-violation'',
       str K (pcv_Group x),
       str K (pcv_Kind x),
       str K (pcv_Name x),
       str K (pcv_Namespace x),
       str K (pcv_RefName x),
       sourceToObj K (pcv_Source x)]"

definition r31ViolationToObj :: "('o, 'b) kl_scheme \<Rightarrow> r31Violation \<Rightarrow> 'o" where
  "r31ViolationToObj K x =
     makeList K [sym K ''r31-violation'',
       str K (r31_Group x),
       str K (r31_Kind x),
       str K (r31_Name x),
       str K (r31_Namespace x),
       str K (r31_FieldPath x),
       str K (r31_Value x),
       str K (r31_Canonical x),
       str K (r31_Reason x),
       sym K (if r31_Heuristic x then ''origin-template'' else ''origin-resource''),
       sourceToObj K (r31_Source x)]"

definition r32ViolationToObj :: "('o, 'b) kl_scheme \<Rightarrow> r32Violation \<Rightarrow> 'o" where
  "r32ViolationToObj K x =
     makeList K [sym K ''r32-violation'',
       str K (r32_Group x),
       str K (r32_Kind x),
       str K (r32_Name x),
       str K (r32_Namespace x),
       str K (r32_FieldPath x),
       str K (r32_Desired x),
       str K (r32_Observed x),
       sym K (if r32_Registered x then ''registered-yes'' else ''registered-no''),
       sourceToObj K (r32_Source x)]"

definition r33ViolationToObj :: "('o, 'b) kl_scheme \<Rightarrow> r33Violation \<Rightarrow> 'o" where
  "r33ViolationToObj K x =
     makeList K [sym K ''r33-violation'',
       str K (r33_Composition x),
       str K (r33_EnvName x),
       str K (r33_Count x),
       sourceToObj K (r33_Source x)]"

definition r34ViolationToObj :: "('o, 'b) kl_scheme \<Rightarrow> r34Violation \<Rightarrow> 'o" where
  "r34ViolationToObj K x =
     makeList K [sym K ''r34-violation'',
       str K (r34_Composition x),
       str K (r34_Group x),
       str K (r34_Kind x),
       str K (r34_ActionType x),
       str K (r34_AliasField x),
       str K (r34_CanonicalBlock x),
       str K (r34_Reason x),
       sourceToObj K (r34_Source x)]"

definition r35ViolationToObj :: "('o, 'b) kl_scheme \<Rightarrow> r35Violation \<Rightarrow> 'o" where
  "r35ViolationToObj K x =
     makeList K [sym K ''r35-violation'',
       str K (r35_Group x),
       str K (r35_Kind x),
       str K (r35_Name x),
       str K (r35_Namespace x),
       str K (r35_Reason x),
       sourceToObj K (r35_Source x)]"

definition r36ViolationToObj :: "('o, 'b) kl_scheme \<Rightarrow> r36Violation \<Rightarrow> 'o" where
  "r36ViolationToObj K x =
     makeList K [sym K ''r36-violation'',
       str K (r36_Composition x),
       str K (r36_Group x),
       str K (r36_Kind x),
       str K (r36_RuleName x),
       str K (r36_AttachField x),
       str K (r36_RefField x),
       str K (r36_Reason x),
       sourceToObj K (r36_Source x)]"

section \<open>Trajectory\<close>

definition resourceKeyToObj :: "('o, 'b) kl_scheme \<Rightarrow> ResourceKey \<Rightarrow> 'o" where
  "resourceKeyToObj K x =
     makeList K [sym K ''resource-key'',
       str K (rk_APIVersion x),
       str K (rk_Kind x),
       str K (rk_Namespace x),
       str K (rk_Name x)]"

definition resourceKeyObjs :: "('o, 'b) kl_scheme \<Rightarrow> ResourceKey list \<Rightarrow> 'o list" where
  "resourceKeyObjs K keys = map (resourceKeyToObj K) keys"

definition deltaToObj :: "('o, 'b) kl_scheme \<Rightarrow> Delta \<Rightarrow> 'o" where
  "deltaToObj K d =
     makeList K [sym K ''delta'', section_obj K ''created'' (resourceKeyObjs K (d_Created d)),
       section_obj K ''updated'' (resourceKeyObjs K (d_Updated d)),
       section_obj K ''deleted'' (resourceKeyObjs K (d_Deleted d))]"

definition sortResourceKeys :: "ResourceKey list \<Rightarrow> ResourceKey list" where
  "sortResourceKeys keys = SortFunc keys resourceKeyCmp"

definition stepToObj :: "('o, 'b) kl_scheme \<Rightarrow> Step \<Rightarrow> 'o" where
  "stepToObj K s =
     makeList K [sym K ''step'', str K (st_AppName s), num K (st_Wave s), deltaToObj K (st_Delta s),
       section_obj K ''state'' (resourceKeyObjs K (sortResourceKeys (st_State s)))]"

definition trajectoryToObj :: "('o, 'b) kl_scheme \<Rightarrow> Step list \<Rightarrow> 'o" where
  "trajectoryToObj K steps = section_obj K ''trajectory'' (map (stepToObj K) steps)"

section \<open>Resolved patches\<close>

definition SplitN2 :: "string \<Rightarrow> string \<Rightarrow> string list" where
  "SplitN2 s sep = (case Index s sep of None \<Rightarrow> [s] | Some i \<Rightarrow> [take i s, drop (i + length sep) s])"

definition resolved_types :: "TransformInfo list \<Rightarrow> string \<times> string" where
  "resolved_types ts =
     foldl (\<lambda>ft t. if ti_Type t = ''__resolved_types'' then
                     (case SplitN2 (ti_Convert t) types_arrow of [a, b] \<Rightarrow> (a, b) | _ \<Rightarrow> ft)
                   else ft) (''unknown'', ''unknown'') ts"

definition convert_type :: "string \<Rightarrow> TransformInfo list \<Rightarrow> string" where
  "convert_type ft ts =
     foldl (\<lambda>f t. if ti_Type t = ''convert'' \<and> ti_Convert t \<noteq> [] then ti_Convert t else f) ft ts"

definition patch_obj :: "('o, 'b) kl_scheme \<Rightarrow> CompositionInfo \<Rightarrow> PatchInfo \<Rightarrow> 'o list" where
  "patch_obj K c p =
     (if pi_Type p \<noteq> [] \<and> pi_Type p \<noteq> ''FromCompositeFieldPath'' then []
      else if pi_FromFieldPath p = [] \<or> pi_ToFieldPath p = [] then []
      else (case resolved_types (pi_Transforms p) of
              (fromType, toType) \<Rightarrow>
                [makeList K [sym K ''resolved-patch'', str K (comp_Name c), sourceToObj K (comp_Source c),
                   str K (pi_FromFieldPath p), str K (pi_ToFieldPath p),
                   str K (convert_type fromType (pi_Transforms p)), str K toType]]))"

definition patch_objs :: "('o, 'b) kl_scheme \<Rightarrow> CompositionInfo list \<Rightarrow> 'o list" where
  "patch_objs K comps =
     concat (map (\<lambda>c. concat (map (\<lambda>res. concat (map (patch_obj K c) (cr_Patches res))) (comp_Resources c))) comps)"

section \<open>The World\<close>

definition worldStaticSections :: "('o, 'b) kl_scheme \<Rightarrow> World \<Rightarrow> Step list \<Rightarrow> 'o list \<times> World" where
  "worldStaticSections K w0 trajectories =
     (case getIgnoreDiffEntries w0 of
        (ignoreDiffEntries, w) \<Rightarrow>
          let comps = SortFunc (w_Compositions w) compositionCmp
          in ([
       sortedSection K ''crds'' (w_CRDs w) crdCmp (crdToObj K),
       sortedSection K ''xrds'' (w_XRDs w) crdCmp (xrdToObj K),
       section_obj K ''compositions'' (map (compositionToObj K) comps),
       sortedSection K ''functions'' (w_Functions w) functionCmp (functionToObj K),
       sortedSection K ''providers'' (w_Providers w) providerCmp (providerToObj K),
       sortedSection K ''configurations'' (w_Configurations w) configCmp (configToObj K),
       sortedSection K ''resources'' (w_Resources w) resourceCmp (resourceToObj K),
       sortedSection K ''argo-apps'' (w_ArgoApps w) argoAppCmp (argoAppToObj K),
       sortedSection K ''argo-app-proj-links'' (w_ArgoApps w) argoAppCmp (argoAppProjLinkToObj K),
       sortedSection K ''argo-appprojects'' (w_ArgoProjects w) argoAppProjectCmp (argoAppProjectToObj K),
       sortedSection K ''appset-finalizer-facts'' (w_ArgoAppSets w) appSetFinalizerCmp (appSetFinalizerToObj K),
       sortedSection K ''appset-autosync-facts'' (w_ArgoAppSets w) appSetFinalizerCmp (appSetAutosyncToObj K),
       section_obj K ''schemas'' [],
       section_obj K ''resolved-patches'' (patch_objs K comps),
       sortedSection K ''mount-refs'' (w_MountRefs w) mountRefCmp (mountRefToObj K),
       sortedSection K ''sa-refs'' (w_SARefs w) saRefCmp (saRefToObj K),
       sortedSection K ''rbac-bindings'' (w_RBACBindings w) rbacBindingCmp (rbacBindingToObj K),
       sortedSection K ''rbac-rules'' (w_RBACRules w) rbacRuleCmp (rbacRuleToObj K),
       sortedSection K ''immutable-fields'' (case w_ImmutableFields w of Some xs \<Rightarrow> xs | None \<Rightarrow> []) immutableFieldCmp (immutableFieldToObj K),
       sortedSection K ''selector-mappings'' (w_SelectorMappings w) selectorMappingCmp (selectorMappingToObj K),
       sortedSection K ''selector-usages'' (w_SelectorUsages w) selectorUsageCmp (selectorUsageToObj K),
       sortedSection K ''late-init-mappings'' (w_LateInitMappings w) lateInitMappingCmp (lateInitMappingToObj K),
       sortedSection K ''late-init-usages'' (w_LateInitUsages w) lateInitUsageCmp (lateInitUsageToObj K),
       sortedSection K ''ignore-diff-entries'' (ignoreDiffEntries) ignoreDiffEntryCmp (ignoreDiffEntryToObj K),
       sortedSection K ''resource-field-facts'' (w_ResourceFieldFacts w) resourceFieldFactCmp (resourceFieldFactToObj K),
       sortedSection K ''render-results'' (w_RenderResults w) renderResultCmp (renderResultToObj K),
       sortedSection K ''determinism-results'' (w_DeterminismResults w) determinismResultCmp (determinismResultToObj K),
       sortedSection K ''ssa-mp-conflicts'' (w_SSAMPConflicts w) ssaMPConflictCmp (ssaMPConflictToObj K),
       ssaMPModeSection K (w_SSAMPMode w),
       sortedSection K ''crossplane-deletion-policy-facts'' (w_CPDeletionPolicyFacts w) cpDeletionPolicyCmp (cpDeletionPolicyToObj K),
       prodPatternsSection K (w_ProdPatterns w),
       stringListSection K ''crossplane-state-needs-orphan-carveouts''
         (mgetl (w_NameCarveouts w) ''crossplane-state-needs-orphan''),
       sortedSection K ''r12-violations'' (buildR12Violations (w_MountRefs w) trajectories) r12ViolationCmp (r12ViolationToObj K),
       sortedSection K ''r14-violations'' (buildR14Violations (w_SARefs w) (w_RBACBindings w) trajectories) r14ViolationCmp (r14ViolationToObj K),
       sortedSection K ''r15-violations'' (buildR15Violations w) r15ViolationCmp (r15ViolationToObj K),
       sortedSection K ''r16-violations'' (buildR16Violations (w_SelectorUsages w) ignoreDiffEntries) r16ViolationCmp (r16ViolationToObj K),
       sortedSection K ''r21-violations'' (buildR21Violations (w_LateInitUsages w) ignoreDiffEntries) r21ViolationCmp (r21ViolationToObj K),
       sortedSection K ''canonical-form-violations'' (buildCanonicalFormViolations (w_CanonicalFormUsages w) @ buildCanonicalFormTemplateViolations (w_CanonicalFormTemplateFindings w)) r31ViolationCmp (r31ViolationToObj K),
       sortedSection K ''fixed-point-violations'' (buildFixedPointViolations (w_FixedPointUsages w)) r32ViolationCmp (r32ViolationToObj K),
       sortedSection K ''duplicate-env-violations'' (buildDuplicateEnvViolations (w_DuplicateEnvFindings w)) r33ViolationCmp (r33ViolationToObj K),
       sortedSection K ''computed-block-alias-violations'' (buildComputedBlockAliasViolations (w_ComputedBlockAliasFindings w)) r34ViolationCmp (r34ViolationToObj K),
       sortedSection K ''external-name-adopt-violations'' (buildExternalNameAdoptViolations (w_ExternalNameAdoptFindings w)) r35ViolationCmp (r35ViolationToObj K),
       sortedSection K ''orphan-sgref-violations'' (buildOrphanSGRefViolations (w_OrphanSGRefFindings w)) r36ViolationCmp (r36ViolationToObj K),
       sortedSection K ''providerconfig-ref-violations'' (buildProviderConfigRefViolations w) providerConfigRefViolationCmp (providerConfigRefViolationToObj K),
       sortedSection K ''fargate-env-label-violations'' (buildFargateEnvLabelViolations w) fargateEnvLabelViolationCmp (fargateEnvLabelViolationToObj K),
       sortedSection K ''eso-store-violations'' (buildESOStoreViolations w) esoStoreViolationCmp (esoStoreViolationToObj K),
       trajectoryToObj K trajectories], w))"

definition worldObjFromSections :: "('o, 'b) kl_scheme \<Rightarrow> 'o list \<Rightarrow> string list \<Rightarrow> 'o" where
  "worldObjFromSections K staticSections ruleAllowlist =
     makeList K (sym K ''world'' # staticSections @ [stringListSection K ''rule-allowlist'' ruleAllowlist])"

definition worldToShenObj :: "('o, 'b) kl_scheme \<Rightarrow> World \<Rightarrow> Step list \<Rightarrow> string list \<Rightarrow> 'o \<times> World" where
  "worldToShenObj K w trajectories ruleAllowlist =
     (case worldStaticSections K w trajectories of
        (staticSections, w1) \<Rightarrow> (worldObjFromSections K staticSections ruleAllowlist, w1))"

end
