(* ===== verification/Shen.thy ===== *)
theory Shen
  imports Serialize "HOL-Library.Monad_Syntax"
begin

text \<open>
  The values of the Shen language the rules of the kernel compute with, the runtime interface
  of the theory Serialize on them, and the shared functions of \<^verbatim>\<open>kernel/prelude.shen\<close>.  An
  expression that raises an error in Shen (a primitive applied to a value of the wrong type, a
  function none of whose clauses matches) has the value None here.
\<close>

section \<open>Values\<close>

datatype sexp = SSym string | SStr string | SNum int | SBool bool | SNil | SCons sexp sexp | SErr string

fun sexp_list :: "sexp \<Rightarrow> sexp list" where
  "sexp_list (SCons a b) = a # sexp_list b"
| "sexp_list _ = []"

fun sexp_sym :: "sexp \<Rightarrow> string option" where
  "sexp_sym (SSym s) = Some s"
| "sexp_sym _ = None"

fun sexp_str :: "sexp \<Rightarrow> string option" where
  "sexp_str (SStr s) = Some s"
| "sexp_str _ = None"

fun sexp_num :: "sexp \<Rightarrow> int option" where
  "sexp_num (SNum n) = Some n"
| "sexp_num _ = None"

fun sexp_bool :: "sexp \<Rightarrow> bool option" where
  "sexp_bool (SBool b) = Some b"
| "sexp_bool _ = None"

fun sexp_err :: "sexp \<Rightarrow> string option" where
  "sexp_err (SErr e) = Some e"
| "sexp_err _ = None"

definition sexp_kl :: "sexp kl" where
  "sexp_kl =
     \<lparr>kl_MakeSymbol = SSym, kl_MakeString = SStr, kl_MakeInteger = SNum, kl_True = SBool True, kl_False = SBool False,
      kl_Nil = SNil, kl_Cons = SCons, kl_ListToSlice = sexp_list,
      kl_IsSymbol = (\<lambda>x. sexp_sym x \<noteq> None), kl_GetSymbol = (\<lambda>x. the (sexp_sym x)),
      kl_IsString = (\<lambda>x. sexp_str x \<noteq> None), kl_GetString = (\<lambda>x. the (sexp_str x)),
      kl_IsNumber = (\<lambda>x. sexp_num x \<noteq> None), kl_GetInteger = (\<lambda>x. the (sexp_num x)),
      kl_IsError = (\<lambda>x. sexp_err x \<noteq> None), kl_ObjString = (\<lambda>x. case sexp_err x of Some e \<Rightarrow> e | None \<Rightarrow> [])\<rparr>"

text \<open>Building the objects of this runtime, and reading a proper list back.\<close>

named_theorems sexp_simps \<open>the constructors of the runtime interface on Shen values\<close>

lemma sexp_kl_fields [sexp_simps]:
  "kl_MakeSymbol sexp_kl s = SSym s" "kl_MakeString sexp_kl s = SStr s" "kl_MakeInteger sexp_kl n = SNum n"
  "boolean sexp_kl b = SBool b" "kl_ListToSlice sexp_kl x = sexp_list x"
  "kl_IsSymbol sexp_kl x = (sexp_sym x \<noteq> None)" "kl_GetSymbol sexp_kl x = the (sexp_sym x)"
  "kl_IsString sexp_kl x = (sexp_str x \<noteq> None)" "kl_GetString sexp_kl x = the (sexp_str x)"
  "kl_IsNumber sexp_kl x = (sexp_num x \<noteq> None)" "kl_GetInteger sexp_kl x = the (sexp_num x)"
  "kl_IsError sexp_kl x = (sexp_err x \<noteq> None)"
  by (simp_all add: sexp_kl_def boolean_def)

abbreviation slst :: "sexp list \<Rightarrow> sexp" where "slst \<equiv> makeList sexp_kl"

lemma slst_Nil [sexp_simps]: "slst [] = SNil"
  and slst_Cons [sexp_simps]: "slst (x # xs) = SCons x (slst xs)"
  by (simp_all add: makeList_def sexp_kl_def)

lemma sexp_makeList [simp]: "sexp_list (slst items) = items"
  by (induction items) (simp_all add: sexp_simps)

text \<open>A pattern \<^verbatim>\<open>[A B C]\<close> matches a proper list of exactly three elements.\<close>

fun elems :: "sexp \<Rightarrow> sexp list option" where
  "elems SNil = Some []"
| "elems (SCons a b) = map_option ((#) a) (elems b)"
| "elems _ = None"

lemma elems_slst [simp]: "elems (slst xs) = Some xs"
  by (induction xs) (simp_all add: sexp_simps)

lemma slst_inject [simp]: "slst xs = slst ys \<longleftrightarrow> xs = ys"
  using elems_slst by (metis option.inject)

text \<open>The arguments of a tuple \<^verbatim>\<open>[tag A B ...]\<close>.\<close>

definition fact :: "string \<Rightarrow> sexp \<Rightarrow> sexp list option" where
  "fact tag x = (case x of SCons (SSym t) r \<Rightarrow> if t = tag then elems r else None | _ \<Rightarrow> None)"

lemma fact_slst [simp]: "fact tag (SCons (SSym t) (slst xs)) = (if t = tag then Some xs else None)"
  by (simp add: fact_def)

lemma fact_SCons: "fact tag (SCons (SSym t) r) = (if t = tag then elems r else None)"
  by (simp add: fact_def)

section \<open>Lists of results\<close>

text \<open>\<^verbatim>\<open>(map F Xs)\<close>, and \<^verbatim>\<open>(flatten (map F Xs))\<close>, for a function that may raise an error.\<close>

fun omap :: "('a \<Rightarrow> 'b option) \<Rightarrow> 'a list \<Rightarrow> 'b list option" where
  "omap f [] = Some []"
| "omap f (x # xs) = do { y \<leftarrow> f x; ys \<leftarrow> omap f xs; Some (y # ys) }"

fun flatten :: "'a list list \<Rightarrow> 'a list" where
  "flatten [] = []"
| "flatten (x # rest) = x @ flatten rest"

definition flat_map :: "('a \<Rightarrow> 'b list option) \<Rightarrow> 'a list \<Rightarrow> 'b list option" where
  "flat_map f xs = map_option flatten (omap f xs)"

lemma flatten_concat [simp]: "flatten xs = concat xs"
  by (induction xs) simp_all

lemma omap_Some: "(\<And>x. x \<in> set xs \<Longrightarrow> f x = Some (g x)) \<Longrightarrow> omap f xs = Some (map g xs)"
  by (induction xs) simp_all

lemma omap_None_iff: "omap f xs = None \<longleftrightarrow> (\<exists>x \<in> set xs. f x = None)"
  by (induction xs) (auto simp: bind_eq_None_conv)

lemma flat_map_Nil [simp]: "flat_map f [] = Some []"
  by (simp add: flat_map_def)

lemma flat_map_Some: "(\<And>x. x \<in> set xs \<Longrightarrow> f x = Some (g x)) \<Longrightarrow> flat_map f xs = Some (concat (map g xs))"
  by (simp add: flat_map_def omap_Some)

lemma flat_map_map:
  "(\<And>x. x \<in> set xs \<Longrightarrow> f (obj x) = Some (map J (g x))) \<Longrightarrow>
   flat_map f (map obj xs) = Some (map J (concat (map g xs)))"
proof -
  assume "\<And>x. x \<in> set xs \<Longrightarrow> f (obj x) = Some (map J (g x))"
  then have "omap f (map obj xs) = Some (map (\<lambda>x. map J (g x)) xs)" by (induction xs) simp_all
  then show ?thesis by (simp add: flat_map_def map_concat o_def)
qed

lemma omap_map:
  "(\<And>x. x \<in> set xs \<Longrightarrow> f (obj x) = Some (J (g x))) \<Longrightarrow> omap f (map obj xs) = Some (map J (map g xs))"
  by (induction xs) simp_all

section \<open>The shared functions of the kernel\<close>

fun shen_member :: "sexp \<Rightarrow> sexp list \<Rightarrow> bool" where
  "shen_member _ [] = False"
| "shen_member x (y # rest) = (x = y \<or> shen_member x rest)"

fun shen_filter :: "('a \<Rightarrow> bool) \<Rightarrow> 'a list \<Rightarrow> 'a list" where
  "shen_filter f [] = []"
| "shen_filter f (x # rest) = (if f x then x # shen_filter f rest else shen_filter f rest)"

fun count_if :: "('a \<Rightarrow> bool) \<Rightarrow> 'a list \<Rightarrow> int" where
  "count_if f [] = 0"
| "count_if f (x # rest) = (if f x then 1 + count_if f rest else count_if f rest)"

lemma shen_member_set [simp]: "shen_member x xs = (x \<in> set xs)"
  by (induction xs) auto

lemma shen_filter_filter [simp]: "shen_filter f xs = filter f xs"
  by (induction xs) simp_all

lemma count_if_length: "count_if f xs = int (length (filter f xs))"
  by (induction xs) simp_all

fun xpc_reverse_h :: "'a list \<Rightarrow> 'a list \<Rightarrow> 'a list" where
  "xpc_reverse_h [] acc = acc"
| "xpc_reverse_h (x # rest) acc = xpc_reverse_h rest (x # acc)"

definition xpc_reverse :: "'a list \<Rightarrow> 'a list" where
  "xpc_reverse xs = xpc_reverse_h xs []"

fun xpc_implode :: "string list \<Rightarrow> string" where
  "xpc_implode [] = []"
| "xpc_implode (s # rest) = s @ xpc_implode rest"

definition explode :: "string \<Rightarrow> string list" where
  "explode s = map (\<lambda>c. [c]) s"

lemma xpc_reverse_rev [simp]: "xpc_reverse xs = rev xs"
proof -
  have "xpc_reverse_h xs acc = rev xs @ acc" for acc by (induction xs arbitrary: acc) simp_all
  then show ?thesis by (simp add: xpc_reverse_def)
qed

lemma xpc_implode_concat [simp]: "xpc_implode ss = concat ss"
  by (induction ss) simp_all

lemma concat_explode [simp]: "concat (explode s) = s"
  by (induction s) (simp_all add: explode_def)

fun split_string_h :: "string list \<Rightarrow> string \<Rightarrow> string list \<Rightarrow> string list \<Rightarrow> string list" where
  "split_string_h [] _ acc result = xpc_reverse (xpc_implode (xpc_reverse acc) # result)"
| "split_string_h (c # rest) d acc result =
     (if c = d then split_string_h rest d [] (xpc_implode (xpc_reverse acc) # result)
      else split_string_h rest d (c # acc) result)"

definition split_string :: "string \<Rightarrow> string \<Rightarrow> string list" where
  "split_string s delim = split_string_h (explode s) delim [] []"

definition api_version_version :: "string \<Rightarrow> string" where
  "api_version_version av = (let parts = split_string av ''/'' in if length parts = 2 then hd (tl parts) else av)"

definition api_version_group :: "string \<Rightarrow> string" where
  "api_version_group av = (let parts = split_string av ''/'' in if length parts = 2 then hd parts else [])"

fun starts_with_p :: "string list \<Rightarrow> string list \<Rightarrow> bool" where
  "starts_with_p _ [] = True"
| "starts_with_p [] _ = False"
| "starts_with_p (h # hs) (n # ns) = (h = n \<and> starts_with_p hs ns)"

fun string_contains_h_p :: "string list \<Rightarrow> string list \<Rightarrow> bool" where
  "string_contains_h_p _ [] = True"
| "string_contains_h_p [] _ = False"
| "string_contains_h_p (h # hs) ns = (if starts_with_p (h # hs) ns then True else string_contains_h_p hs ns)"

definition string_contains_p :: "string \<Rightarrow> string \<Rightarrow> bool" where
  "string_contains_p haystack needle = string_contains_h_p (explode haystack) (explode needle)"

text \<open>The kernel's string functions are those of the Go side.\<close>

lemma starts_with_explode: "starts_with_p (explode s) (explode p) = HasPrefix s p"
proof (induction p arbitrary: s)
  case (Cons c p)
  show ?case
  proof (cases s)
    case (Cons d t)
    then show ?thesis using Cons.IH[of t] by (auto simp: explode_def HasPrefix_iff)
  qed (simp add: explode_def HasPrefix_iff)
qed (simp add: explode_def)

lemma string_contains_Contains: "string_contains_p s sub = Contains s sub"
proof -
  have "string_contains_h_p (explode s) (explode sub) = (\<exists>a b. s = a @ sub @ b)"
  proof (induction s)
    case Nil
    then show ?case by (cases sub) (simp_all add: explode_def)
  next
    case (Cons c s)
    show ?case
    proof (cases sub)
      case (Cons n ns)
      have "string_contains_h_p (explode (c # s)) (explode sub) =
          (HasPrefix (c # s) sub \<or> string_contains_h_p (explode s) (explode sub))"
        using starts_with_explode[of "c # s" sub] Cons by (simp add: explode_def)
      also have "\<dots> = ((\<exists>b. c # s = sub @ b) \<or> (\<exists>a b. s = a @ sub @ b))"
        by (simp add: Cons.IH HasPrefix_iff)
      also have "\<dots> = (\<exists>a b. c # s = a @ sub @ b)"
        by (metis (no_types, opaque_lifting) append_Cons append_Nil list.exhaust list.inject)
      finally show ?thesis .
    next
      case Nil
      have "c # s = [] @ sub @ (c # s)" using Nil by simp
      then show ?thesis using Nil by (auto simp: explode_def)
    qed
  qed
  then show ?thesis by (simp add: string_contains_p_def Contains_iff)
qed

lemma split_string_h_acc:
  "split_string_h cs d acc result = rev result @ split_string_h cs d acc []"
proof (induction cs arbitrary: acc result)
  case (Cons c cs)
  show ?case
    using Cons.IH[of "[]" "concat (rev acc) # result"] Cons.IH[of "[]" "[concat (rev acc)]"]
      Cons.IH[of "c # acc" result] by simp
qed simp

lemma Split_Cons:
  "Split (a # s) [c] = (if a = c then [] # Split s [c] else (a # hd (Split s [c])) # tl (Split s [c]))"
proof (cases "a = c")
  case True
  then show ?thesis using Split_append_sep[of c "[]" s] by simp
next
  case False
  show ?thesis
  proof (cases "c \<in> set s")
    case True
    then obtain u v where s: "s = u @ c # v" "c \<notin> set u" by (metis split_list_first)
    then show ?thesis using False Split_append_sep[of c u v] Split_append_sep[of c "a # u" v] by simp
  qed (use False in \<open>simp add: Split_no_sep\<close>)
qed

lemma split_string_h_Split:
  "split_string_h (explode s) [c] acc [] = (concat (rev acc) @ hd (Split s [c])) # tl (Split s [c])"
proof (induction s arbitrary: acc)
  case Nil
  then show ?case by (simp add: explode_def Split_no_sep)
next
  case (Cons a s)
  have ex: "explode (a # s) = [a] # explode s" by (simp add: explode_def)
  show ?case
    using Cons.IH[of "[]"] Cons.IH[of "[a] # acc"] split_string_h_acc[of "explode s" "[c]" "[]" "[concat (rev acc)]"]
    by (simp add: ex Split_Cons)
qed

lemma split_string_Split: "split_string s [c] = Split s [c]"
  by (simp add: split_string_def split_string_h_Split)

end
