(* ===== verification/Bridge.thy ===== *)
theory Bridge
  imports Shen
begin

text \<open>
  The decoding half of \<^verbatim>\<open>pkg/checker/bridge.go\<close> and its entry points: judgments
  returned by the kernel become diagnostics, and a check run enriches the World,
  simulates it, serializes it and calls the kernel, once or once per rule group.
  The kernel function \<^verbatim>\<open>check-world\<close> and the runtime's initialisation are parameters.
\<close>

section \<open>Decoding\<close>

definition objToString :: "('o, 'b) kl_scheme \<Rightarrow> 'o \<Rightarrow> string" where
  "objToString K x =
     (if kl_IsString K x then kl_GetString K x
      else if kl_IsSymbol K x then kl_GetSymbol K x
      else kl_ObjString K x)"

definition objToSeverity :: "('o, 'b) kl_scheme \<Rightarrow> 'o \<Rightarrow> Severity" where
  "objToSeverity K x =
     (if \<not> kl_IsSymbol K x then SeverityError
      else let s = kl_GetSymbol K x in
        if s = ''error'' then SeverityError
        else if s = ''warn'' \<or> s = ''warning'' then SeverityWarning
        else if s = ''info'' then SeverityInfo
        else if s = ''satisfied'' then severitySatisfied
        else SeverityError)"

definition objToSource :: "('o, 'b) kl_scheme \<Rightarrow> 'o \<Rightarrow> SourceLocation" where
  "objToSource K x =
     (let parts = kl_ListToSlice K x in
      if length parts < 3 then zero_SourceLocation
      else \<lparr>sl_File = objToString K (parts ! 1),
            sl_Line = (if kl_IsNumber K (parts ! 2) then kl_GetInteger K (parts ! 2) else 0),
            sl_Column = 0\<rparr>)"

definition objToRelatedList :: "('o, 'b) kl_scheme \<Rightarrow> 'o \<Rightarrow> SourceLocation list" where
  "objToRelatedList K x = map (objToSource K) (kl_ListToSlice K x)"

definition objToDiagnostic :: "('o, 'b) kl_scheme \<Rightarrow> 'o \<Rightarrow> Diagnostic list" where
  "objToDiagnostic K j =
     (let parts = kl_ListToSlice K j in
      if length parts < 8 then []
      else if \<not> kl_IsSymbol K (parts ! 0) \<or> kl_GetSymbol K (parts ! 0) \<noteq> ''judgment'' then []
      else let code = objToString K (parts ! 1) in
        [\<lparr>dg_Code = code, dg_Severity = objToSeverity K (parts ! 2),
          dg_Message = objToString K (parts ! 4), dg_Source = objToSource K (parts ! 3),
          dg_Detail = objToString K (parts ! 5), dg_Fix = objToString K (parts ! 6),
          dg_Related = objToRelatedList K (parts ! 7), dg_Obligation = obligationRefForCode code\<rparr>])"

definition objToDiagnostics :: "('o, 'b) kl_scheme \<Rightarrow> 'o \<Rightarrow> Diagnostic list" where
  "objToDiagnostics K x = concat (map (objToDiagnostic K) (kl_ListToSlice K x))"

section \<open>Runs\<close>

record CheckerConfig =
  ck_StrictConversions :: bool
  ck_KernelPath :: string
  ck_RuleAllowlist :: "string list"
  ck_ProfileRules :: bool

definition error_diag :: "string \<Rightarrow> Diagnostic" where
  "error_diag msg =
     \<lparr>dg_Code = ''XPC000'', dg_Severity = SeverityError, dg_Message = msg, dg_Source = zero_SourceLocation,
      dg_Detail = [], dg_Fix = [], dg_Related = [], dg_Obligation = None\<rparr>"

definition error_result :: "string \<Rightarrow> RunResult" where
  "error_result msg =
     \<lparr>run_Diagnostics = [error_diag msg], run_TotalObligations = 0, run_Satisfied = 0, run_Violated = 0,
      run_ObligationIDs = [], run_RuleTimings = []\<rparr>"

definition group_raw :: "('o, 'b) kl_scheme \<Rightarrow> ('o \<Rightarrow> 'o) \<Rightarrow> 'o list \<Rightarrow> ruleGroup \<Rightarrow> Diagnostic list" where
  "group_raw K checkWorld staticSections g =
     (let resultObj = checkWorld (worldObjFromSections K staticSections (rg_Codes g)) in
      if kl_IsError K resultObj
      then [error_diag (rg_Name g @ '': check-world: '' @ kl_ObjString K resultObj)]
      else objToDiagnostics K resultObj)"

definition profileRules ::
  "('o, 'b) kl_scheme \<Rightarrow> ('o \<Rightarrow> 'o) \<Rightarrow> World \<Rightarrow> Step list \<Rightarrow> string list \<Rightarrow> RunResult \<times> World" where
  "profileRules K checkWorld w trajectories allowlist =
     (case worldStaticSections K w trajectories of
        (staticSections, w1) \<Rightarrow>
          let groups = selectedRuleGroups allowlist;
              raws = map (\<lambda>g. (g, group_raw K checkWorld staticSections g)) groups
          in ((buildRunResult (concat (map snd raws)))
                \<lparr>run_RuleTimings := map (\<lambda>(g, raw). NewRuleTiming (rg_Name g) (rg_Codes g) (buildRunResult raw)) raws\<rparr>,
              w1))"

definition CheckWithObligations ::
  "('o, 'b) kl_scheme \<Rightarrow> (string \<Rightarrow> string option) \<Rightarrow> ('o \<Rightarrow> 'o) \<Rightarrow> World \<Rightarrow> CheckerConfig \<Rightarrow> RunResult \<times> World" where
  "CheckWithObligations K initShen checkWorld w cfg =
     (case initShen (ck_KernelPath cfg) of
        Some err \<Rightarrow> (error_result err, w)
      | None \<Rightarrow>
          let w1 = resolvePatchTypes (enrichSyncWaves w);
              trajectories = Simulate w1
          in if ck_ProfileRules cfg then profileRules K checkWorld w1 trajectories (ck_RuleAllowlist cfg)
             else (case worldToShenObj K w1 trajectories (ck_RuleAllowlist cfg) of
                     (worldObj, w2) \<Rightarrow>
                       let result = checkWorld worldObj in
                       if kl_IsError K result
                       then (error_result (''check-world: '' @ kl_ObjString K result), w2)
                       else (buildRunResult (objToDiagnostics K result), w2)))"

definition Check ::
  "('o, 'b) kl_scheme \<Rightarrow> (string \<Rightarrow> string option) \<Rightarrow> ('o \<Rightarrow> 'o) \<Rightarrow> World \<Rightarrow> CheckerConfig \<Rightarrow> Diagnostic list" where
  "Check K initShen checkWorld w cfg = run_Diagnostics (fst (CheckWithObligations K initShen checkWorld w cfg))"

section \<open>Judgments round-trip\<close>

text \<open>What the code relies on of the runtime: its recognisers and accessors invert its constructors.\<close>

definition kl_ok :: "('o, 'b) kl_scheme \<Rightarrow> bool" where
  "kl_ok K =
     ((\<forall>items. kl_ListToSlice K (makeList K items) = items) \<and>
      (\<forall>s. kl_IsSymbol K (sym K s) \<and> kl_GetSymbol K (sym K s) = s \<and> \<not> kl_IsString K (sym K s)) \<and>
      (\<forall>s. kl_IsString K (str K s) \<and> kl_GetString K (str K s) = s \<and> \<not> kl_IsSymbol K (str K s)) \<and>
      (\<forall>n. kl_IsNumber K (num K n) \<and> kl_GetInteger K (num K n) = n))"

text \<open>The tuple \<^verbatim>\<open>(judgment Code Sev Src Msg Detail Fix Related)\<close> the kernel returns.\<close>

definition severity_sym :: "Severity \<Rightarrow> string" where
  "severity_sym s = (if s = SeverityWarning then ''warn'' else s)"

definition judgment_obj :: "('o, 'b) kl_scheme \<Rightarrow> Diagnostic \<Rightarrow> 'o" where
  "judgment_obj K d =
     makeList K [sym K ''judgment'', str K (dg_Code d), sym K (severity_sym (dg_Severity d)),
       sourceToObj K (dg_Source d), str K (dg_Message d), str K (dg_Detail d), str K (dg_Fix d),
       makeList K (map (sourceToObj K) (dg_Related d))]"

definition kernel_diag :: "Diagnostic \<Rightarrow> bool" where
  "kernel_diag d =
     (dg_Severity d \<in> {SeverityError, SeverityWarning, SeverityInfo, severitySatisfied} \<and>
      sl_Column (dg_Source d) = 0 \<and> list_all (\<lambda>s. sl_Column s = 0) (dg_Related d) \<and>
      dg_Obligation d = obligationRefForCode (dg_Code d))"

lemma decode_source: "kl_ok K \<Longrightarrow> sl_Column s = 0 \<Longrightarrow> objToSource K (sourceToObj K s) = s"
  by (simp add: objToSource_def sourceToObj_def kl_ok_def objToString_def)

lemma decode_severity:
  "kl_ok K \<Longrightarrow> s \<in> {SeverityError, SeverityWarning, SeverityInfo, severitySatisfied} \<Longrightarrow>
     objToSeverity K (sym K (severity_sym s)) = s"
  by (auto simp: objToSeverity_def severity_sym_def kl_ok_def)

lemma decode_judgment:
  assumes "kl_ok K" "kernel_diag d"
  shows "objToDiagnostic K (judgment_obj K d) = [d]"
proof -
  have lst: "kl_ListToSlice K (makeList K items) = items" for items using assms(1) by (simp add: kl_ok_def)
  have strs: "objToString K (str K s) = s" for s using assms(1) by (simp add: kl_ok_def objToString_def)
  have head: "kl_IsSymbol K (sym K ''judgment'')" "kl_GetSymbol K (sym K ''judgment'') = ''judgment''"
    using assms(1) by (simp_all add: kl_ok_def)
  have rel: "objToRelatedList K (makeList K (map (sourceToObj K) (dg_Related d))) = dg_Related d"
    using assms by (simp add: objToRelatedList_def lst decode_source kernel_diag_def list_all_iff o_def map_idI)
  show ?thesis
    using assms
    by (simp add: objToDiagnostic_def judgment_obj_def lst strs head rel decode_source decode_severity kernel_diag_def Let_def)
qed

text \<open>
  C22: decoding inverts the judgment format.  Whatever list the kernel returns,
  each well-formed judgment in it yields exactly its diagnostic, with the
  obligation recomputed from the code, and every entry that is too short or is
  not tagged as a judgment is skipped without affecting the others.
\<close>

theorem objToDiagnostics_roundtrip:
  assumes "kl_ok K" "\<forall>d \<in> set (concat ds). kernel_diag d" "length junk = length ds"
    and "\<forall>j \<in> set junk. length (kl_ListToSlice K j) < 8 \<or> \<not> kl_IsSymbol K (hd (kl_ListToSlice K j)) \<or>
                        kl_GetSymbol K (hd (kl_ListToSlice K j)) \<noteq> ''judgment''"
  shows "objToDiagnostics K (makeList K (concat (map2 (\<lambda>j block. j # map (judgment_obj K) block) junk ds))) = concat ds"
proof -
  have skip: "objToDiagnostic K j = []" if "j \<in> set junk" for j
  proof (cases "kl_ListToSlice K j")
    case (Cons a list)
    then show ?thesis using assms(4) that by (auto simp: objToDiagnostic_def Let_def)
  qed (simp add: objToDiagnostic_def)
  have block: "concat (map (objToDiagnostic K) (map (judgment_obj K) b)) = b" if "\<forall>d \<in> set b. kernel_diag d" for b
    using that by (induction b) (simp_all add: decode_judgment[OF assms(1)])
  have "concat (map (objToDiagnostic K) (concat (map2 (\<lambda>j block. j # map (judgment_obj K) block) junk ds))) = concat ds"
    using assms(3,2) skip
  proof (induction junk ds rule: list_induct2)
    case (Cons j js b bs)
    have "concat (map (objToDiagnostic K) (map (judgment_obj K) b)) = b" using Cons.prems(1) by (intro block) auto
    moreover have "objToDiagnostic K j = []" using Cons.prems(2) by simp
    ultimately show ?case using Cons.IH Cons.prems by simp
  qed simp
  then show ?thesis using assms(1) by (simp add: objToDiagnostics_def kl_ok_def)
qed

text \<open>The Shen values are such a runtime.\<close>

lemma sexp_kl_ok: "kl_ok sexp_kl"
  by (simp add: kl_ok_def sexp_simps)

definition ex_finding :: "string \<Rightarrow> Diagnostic" where
  "ex_finding code =
     \<lparr>dg_Code = code, dg_Severity = SeverityWarning, dg_Message = ''m'', dg_Source = zero_SourceLocation\<lparr>sl_File := ''f''\<rparr>,
      dg_Detail = [], dg_Fix = [], dg_Related = [], dg_Obligation = obligationRefForCode code\<rparr>"

lemma ex_finding_ok: "kernel_diag (ex_finding code)"
  by (simp add: kernel_diag_def ex_finding_def zero_defs)

theorem objToDiagnostics_roundtrip_witness:
  "objToDiagnostics sexp_kl (makeList sexp_kl
     [SNil, judgment_obj sexp_kl (ex_finding ''XPC006''), SStr ''noise'', judgment_obj sexp_kl (ex_finding ''XPC012'')]) =
   [ex_finding ''XPC006'', ex_finding ''XPC012'']"
  using objToDiagnostics_roundtrip[of sexp_kl "[[ex_finding ''XPC006''], [ex_finding ''XPC012'']]" "[SNil, SStr ''noise'']"]
  by (simp add: sexp_kl_ok ex_finding_ok) (simp add: sexp_kl_def)

section \<open>Judgments of a run\<close>

lemma decode_judgments:
  assumes "kl_ok K" "\<forall>d \<in> set ds. kernel_diag d"
  shows "objToDiagnostics K (makeList K (map (judgment_obj K) ds)) = ds"
proof -
  have "concat (map (objToDiagnostic K) (map (judgment_obj K) ds)) = ds"
    using assms(2) by (induction ds) (simp_all add: decode_judgment[OF assms(1)])
  then show ?thesis using assms(1) by (simp add: objToDiagnostics_def kl_ok_def)
qed

lemma rule_group_codes_ne: "g \<in> set (selectedRuleGroups allow) \<Longrightarrow> rg_Codes g \<noteq> []"
proof -
  have "list_all (\<lambda>g. rg_Codes g \<noteq> []) allRuleGroups" by (simp add: rule_tables)
  then show "g \<in> set (selectedRuleGroups allow) \<Longrightarrow> rg_Codes g \<noteq> []"
    by (auto simp: selectedRuleGroups_def list_all_iff split: if_splits)
qed

lemma run_Diagnostics_build: "run_Diagnostics (buildRunResult ds) = visible ds"
  by (simp add: buildRunResult_def run_fold)

definition checked_world :: "World \<Rightarrow> World" where
  "checked_world w = resolvePatchTypes (enrichSyncWaves w)"

end
