(* ===== verification/Snapshot.thy ===== *)
theory Snapshot
  imports Types GoJson
begin

text \<open>
  \<^verbatim>\<open>pkg/snapshot\<close>: capturing the type environment of a World, its digest, and the way
  back; with \<^verbatim>\<open>mergeSnapshotIntoWorld\<close> of \<^verbatim>\<open>cmd/xpc/main.go\<close>, the operation that lays a
  snapshot under a World.  \<^verbatim>\<open>json.Marshal\<close> of the structs is a record of functions, and
  SHA-256 a function to the hexadecimal digest.
\<close>

section \<open>Data\<close>

record ProviderStatus =
  prs_Info :: ProviderInfo
  prs_Version :: string
  prs_Healthy :: bool

record FunctionStatus =
  fns_Info :: FunctionInfo
  fns_Version :: string
  fns_Healthy :: bool

record Snapshot =
  sn_Version :: int
  sn_Digest :: string
  sn_Timestamp :: Time
  sn_ClusterName :: string
  sn_KubernetesVersion :: string
  sn_CRDs :: "CRDInfo list"
  sn_XRDs :: "CRDInfo list"
  sn_Providers :: "ProviderStatus list"
  sn_Functions :: "FunctionStatus list"
  sn_Configurations :: "ConfigurationInfo list"
  sn_Compositions :: "CompositionInfo list"
  sn_ArgoTrackingMode :: string
  sn_Schemas :: "(string \<times> SchemaInfo) list"
  sn_Resources :: "ResourceInfo list"
  sn_ArgoApps :: "ArgoApplication list"
  sn_ArgoAppSets :: "ArgoApplicationSet list"
  sn_ArgoProjects :: "ArgoAppProject list"
  sn_SigningIdentity :: string
  sn_Signature :: string

record Marshal =
  ms_CRD :: "CRDInfo \<Rightarrow> string"
  ms_Provider :: "ProviderStatus \<Rightarrow> string"
  ms_Function :: "FunctionStatus \<Rightarrow> string"
  ms_Composition :: "CompositionInfo \<Rightarrow> string"
  ms_Resource :: "ResourceInfo \<Rightarrow> string"
  ms_App :: "ArgoApplication \<Rightarrow> string"
  ms_AppSet :: "ArgoApplicationSet \<Rightarrow> string"
  ms_Project :: "ArgoAppProject \<Rightarrow> string"

definition New :: "Time \<Rightarrow> string \<Rightarrow> Snapshot" where
  "New now clusterName =
     \<lparr>sn_Version = 1, sn_Digest = [], sn_Timestamp = now, sn_ClusterName = clusterName, sn_KubernetesVersion = [],
      sn_CRDs = [], sn_XRDs = [], sn_Providers = [], sn_Functions = [], sn_Configurations = [], sn_Compositions = [],
      sn_ArgoTrackingMode = [], sn_Schemas = [], sn_Resources = [], sn_ArgoApps = [], sn_ArgoAppSets = [],
      sn_ArgoProjects = [], sn_SigningIdentity = [], sn_Signature = []\<rparr>"

section \<open>The digest\<close>

definition crdKey :: "CRDInfo \<Rightarrow> string" where
  "crdKey c = crd_Group c @ ''/'' @ crd_Kind c"

definition crdByKey :: "CRDInfo \<Rightarrow> CRDInfo \<Rightarrow> int" where
  "crdByKey a b = Compare (crdKey a) (crdKey b)"

definition provider_cmp :: "ProviderStatus \<Rightarrow> ProviderStatus \<Rightarrow> int" where
  "provider_cmp a b = Compare (prov_Name (prs_Info a)) (prov_Name (prs_Info b))"

definition function_cmp :: "FunctionStatus \<Rightarrow> FunctionStatus \<Rightarrow> int" where
  "function_cmp a b = Compare (fn_Name (fns_Info a)) (fn_Name (fns_Info b))"

definition composition_cmp :: "CompositionInfo \<Rightarrow> CompositionInfo \<Rightarrow> int" where
  "composition_cmp a b = Compare (comp_Name a) (comp_Name b)"

definition resource_cmp :: "ResourceInfo \<Rightarrow> ResourceInfo \<Rightarrow> int" where
  "resource_cmp a b =
     cmp_chain [Compare (ri_APIVersion a) (ri_APIVersion b), Compare (ri_Kind a) (ri_Kind b),
                Compare (ri_Namespace a) (ri_Namespace b), Compare (ri_Name a) (ri_Name b)]"

definition app_cmp :: "ArgoApplication \<Rightarrow> ArgoApplication \<Rightarrow> int" where
  "app_cmp a b = cmp_chain [Compare (app_Namespace a) (app_Namespace b), Compare (app_Name a) (app_Name b)]"

definition appset_cmp :: "ArgoApplicationSet \<Rightarrow> ArgoApplicationSet \<Rightarrow> int" where
  "appset_cmp a b =
     cmp_chain [Compare (tmpl_Namespace (aset_Template a)) (tmpl_Namespace (aset_Template b)),
                Compare (aset_Name a) (aset_Name b)]"

definition project_cmp :: "ArgoAppProject \<Rightarrow> ArgoAppProject \<Rightarrow> int" where
  "project_cmp a b = Compare (proj_Name a) (proj_Name b)"

definition section_text :: "('a \<Rightarrow> 'a \<Rightarrow> int) \<Rightarrow> ('a \<Rightarrow> string) \<Rightarrow> 'a list \<Rightarrow> string" where
  "section_text cmp enc xs = concat (map enc (SortFunc xs cmp))"

definition digest_text :: "Marshal \<Rightarrow> Snapshot \<Rightarrow> string" where
  "digest_text M s =
     ''v'' @ Itoa (sn_Version s) @ sn_ClusterName s @ sn_KubernetesVersion s @
     section_text crdByKey (ms_CRD M) (sn_CRDs s) @
     section_text crdByKey (ms_CRD M) (sn_XRDs s) @
     section_text provider_cmp (ms_Provider M) (sn_Providers s) @
     section_text function_cmp (ms_Function M) (sn_Functions s) @
     section_text composition_cmp (ms_Composition M) (sn_Compositions s) @
     sn_ArgoTrackingMode s @
     section_text resource_cmp (ms_Resource M) (sn_Resources s) @
     section_text app_cmp (ms_App M) (sn_ArgoApps s) @
     section_text appset_cmp (ms_AppSet M) (sn_ArgoAppSets s) @
     section_text project_cmp (ms_Project M) (sn_ArgoProjects s)"

definition computeDigest :: "(string \<Rightarrow> string) \<Rightarrow> Marshal \<Rightarrow> Snapshot \<Rightarrow> string" where
  "computeDigest sha M s = ''sha256:'' @ sha (digest_text M s)"

definition ComputeDigest :: "(string \<Rightarrow> string) \<Rightarrow> Marshal \<Rightarrow> Snapshot \<Rightarrow> Snapshot" where
  "ComputeDigest sha M s = s\<lparr>sn_Digest := computeDigest sha M s\<rparr>"

definition snapshot_Verify :: "(string \<Rightarrow> string) \<Rightarrow> Marshal \<Rightarrow> Snapshot \<Rightarrow> bool" where
  "snapshot_Verify sha M s = (computeDigest sha M s = sn_Digest s)"

text \<open>\<^verbatim>\<open>Save\<close> digests a snapshot that has no digest yet; \<open>encode\<close> is \<^verbatim>\<open>json.MarshalIndent\<close>, \<open>write\<close> the file write.\<close>

definition Save ::
  "(string \<Rightarrow> string) \<Rightarrow> Marshal \<Rightarrow> (Snapshot \<Rightarrow> string + string) \<Rightarrow> (string \<Rightarrow> string \<Rightarrow> string option) \<Rightarrow>
   Snapshot \<Rightarrow> string \<Rightarrow> string option \<times> Snapshot" where
  "Save sha M encode write s path =
     (let s' = (if sn_Digest s = [] then ComputeDigest sha M s else s)
      in (case encode s' of Inl e \<Rightarrow> Some (''marshaling snapshot: '' @ e) | Inr data \<Rightarrow> write path data, s'))"

definition snapshot_Load ::
  "(string \<Rightarrow> string + string) \<Rightarrow> (string \<Rightarrow> string + Snapshot) \<Rightarrow> string \<Rightarrow> string + Snapshot" where
  "snapshot_Load read decode path =
     (case read path of
        Inl e \<Rightarrow> Inl (''reading snapshot: '' @ e)
      | Inr data \<Rightarrow> (case decode data of Inl e \<Rightarrow> Inl (''unmarshaling snapshot: '' @ e) | Inr s \<Rightarrow> Inr s))"

section \<open>To and from a World\<close>

record FromWorldOptions =
  fo_IncludeResources :: bool

definition FromWorldWithOptions ::
  "(string \<Rightarrow> string) \<Rightarrow> Marshal \<Rightarrow> Time \<Rightarrow> World \<Rightarrow> string \<Rightarrow> FromWorldOptions \<Rightarrow> Snapshot" where
  "FromWorldWithOptions sha M now w clusterName opts =
     (let s = (New now clusterName)\<lparr>
            sn_CRDs := w_CRDs w, sn_XRDs := w_XRDs w, sn_Compositions := w_Compositions w, sn_Schemas := w_Schemas w,
            sn_Providers := map (\<lambda>p. \<lparr>prs_Info = p, prs_Version = [], prs_Healthy = True\<rparr>) (w_Providers w),
            sn_Functions := map (\<lambda>f. \<lparr>fns_Info = f, fns_Version = [], fns_Healthy = True\<rparr>) (w_Functions w),
            sn_Configurations := w_Configurations w,
            sn_ArgoTrackingMode := (case w_ArgoApps w of [] \<Rightarrow> [] | a # _ \<Rightarrow> app_TrackingMode a)\<rparr>;
          s' = (if fo_IncludeResources opts
                then s\<lparr>sn_Resources := w_Resources w, sn_ArgoApps := w_ArgoApps w, sn_ArgoAppSets := w_ArgoAppSets w,
                       sn_ArgoProjects := w_ArgoProjects w\<rparr>
                else s)
      in ComputeDigest sha M s')"

definition FromWorld :: "(string \<Rightarrow> string) \<Rightarrow> Marshal \<Rightarrow> Time \<Rightarrow> World \<Rightarrow> string \<Rightarrow> Snapshot" where
  "FromWorld sha M now w clusterName = FromWorldWithOptions sha M now w clusterName \<lparr>fo_IncludeResources = False\<rparr>"

definition ToWorld :: "Snapshot \<Rightarrow> World" where
  "ToWorld s = NewWorld\<lparr>
     w_CRDs := sn_CRDs s, w_XRDs := sn_XRDs s, w_Compositions := sn_Compositions s, w_Schemas := sn_Schemas s,
     w_Providers := map prs_Info (sn_Providers s), w_Functions := map fns_Info (sn_Functions s),
     w_Configurations := sn_Configurations s, w_Resources := sn_Resources s, w_ArgoApps := sn_ArgoApps s,
     w_ArgoAppSets := sn_ArgoAppSets s, w_ArgoProjects := sn_ArgoProjects s\<rparr>"

text \<open>Durations are in nanoseconds; \<^verbatim>\<open>DefaultTTL\<close> is 15 minutes.\<close>

definition IsStale :: "Time \<Rightarrow> Snapshot \<Rightarrow> int \<Rightarrow> bool" where
  "IsStale now s ttl = (now - sn_Timestamp s > ttl)"

definition snapshotTTL :: int where
  "snapshotTTL = 15 * 60 * 1000000000"

section \<open>Differences\<close>

definition snapshot_trunc :: "string \<Rightarrow> string" where
  "snapshot_trunc s = (if length s > 20 then take 20 s else s)"

text \<open>
  The three pairs of loops walk Go maps: \<open>it k keys\<close> is the order in which the \<open>k\<close>th loop
  meets the keys.
\<close>

definition crd_diff :: "CRDInfo option \<Rightarrow> string \<Rightarrow> CRDInfo \<Rightarrow> string" where
  "crd_diff a key b =
     (case a of
        None \<Rightarrow> ''  + CRD '' @ key @ newline
      | Some c \<Rightarrow>
          (if StorageVersion c \<noteq> StorageVersion b
           then ''  ~ CRD '' @ key @ '' storage: '' @ StorageVersion c @ spaced_arrow @ StorageVersion b @ newline else []) @
          (if conv_CostClass (crd_Conversion c) \<noteq> conv_CostClass (crd_Conversion b)
           then ''  ~ CRD '' @ key @ '' conversion: '' @ conv_CostClass (crd_Conversion c) @ spaced_arrow @
                conv_CostClass (crd_Conversion b) @ newline else []))"

definition provider_diff :: "ProviderStatus option \<Rightarrow> string \<Rightarrow> ProviderStatus \<Rightarrow> string" where
  "provider_diff a name b =
     (case a of
        None \<Rightarrow> ''  + Provider '' @ name @ '' ('' @ prov_Package (prs_Info b) @ '')'' @ newline
      | Some p \<Rightarrow>
          (if prov_Package (prs_Info p) \<noteq> prov_Package (prs_Info b)
           then ''  ~ Provider '' @ name @ '': '' @ prov_Package (prs_Info p) @ spaced_arrow @ prov_Package (prs_Info b) @ newline else []) @
          (if prs_Healthy p \<noteq> prs_Healthy b
           then ''  ~ Provider '' @ name @ '' healthy: '' @ go_bool (prs_Healthy p) @ spaced_arrow @ go_bool (prs_Healthy b) @ newline else []))"

definition function_diff :: "FunctionStatus option \<Rightarrow> string \<Rightarrow> FunctionStatus \<Rightarrow> string" where
  "function_diff a name b =
     (case a of
        None \<Rightarrow> ''  + Function '' @ name @ '' ('' @ fn_Package (fns_Info b) @ '')'' @ newline
      | Some f \<Rightarrow>
          (if fn_Package (fns_Info f) \<noteq> fn_Package (fns_Info b)
           then ''  ~ Function '' @ name @ '': '' @ fn_Package (fns_Info f) @ spaced_arrow @ fn_Package (fns_Info b) @ newline else []))"

definition diff_section ::
  "string \<Rightarrow> ('v option \<Rightarrow> string \<Rightarrow> 'v \<Rightarrow> string) \<Rightarrow> (string list \<Rightarrow> string list) \<Rightarrow> (string list \<Rightarrow> string list) \<Rightarrow>
   (string \<times> 'v) list \<Rightarrow> (string \<times> 'v) list \<Rightarrow> string" where
  "diff_section what line it1 it2 as bs =
     concat (map (\<lambda>k. case map_of bs k of None \<Rightarrow> [] | Some b \<Rightarrow> line (map_of as k) k b) (it1 (map fst bs))) @
     concat (map (\<lambda>k. if mhas bs k then [] else ''  - '' @ what @ '' '' @ k @ newline) (it2 (map fst as)))"

definition snapshot_Diff :: "(nat \<Rightarrow> string list \<Rightarrow> string list) \<Rightarrow> Snapshot \<Rightarrow> Snapshot \<Rightarrow> string" where
  "snapshot_Diff it a b =
     ''Snapshot diff: '' @ snapshot_trunc (sn_Digest a) @ '' vs '' @ snapshot_trunc (sn_Digest b) @ newline @
     ''  Cluster: '' @ sn_ClusterName a @ spaced_arrow @ sn_ClusterName b @ newline @
     ''  Time: '' @ RFC3339 (sn_Timestamp a) @ spaced_arrow @ RFC3339 (sn_Timestamp b) @ newline @
     (if sn_KubernetesVersion a \<noteq> sn_KubernetesVersion b
      then ''  K8s version: '' @ sn_KubernetesVersion a @ spaced_arrow @ sn_KubernetesVersion b @ newline else []) @
     diff_section ''CRD'' crd_diff (it 0) (it 1)
       (mfill crdKey (\<lambda>c. c) (sn_CRDs a)) (mfill crdKey (\<lambda>c. c) (sn_CRDs b)) @
     diff_section ''Provider'' provider_diff (it 2) (it 3)
       (mfill (\<lambda>p. prov_Name (prs_Info p)) (\<lambda>p. p) (sn_Providers a)) (mfill (\<lambda>p. prov_Name (prs_Info p)) (\<lambda>p. p) (sn_Providers b)) @
     diff_section ''Function'' function_diff (it 4) (it 5)
       (mfill (\<lambda>f. fn_Name (fns_Info f)) (\<lambda>f. f) (sn_Functions a)) (mfill (\<lambda>f. fn_Name (fns_Info f)) (\<lambda>f. f) (sn_Functions b)) @
     (if sn_ArgoTrackingMode a \<noteq> sn_ArgoTrackingMode b
      then ''  Argo tracking: '' @ sn_ArgoTrackingMode a @ spaced_arrow @ sn_ArgoTrackingMode b @ newline else [])"

section \<open>Laying a snapshot under a World\<close>

definition merge_by :: "('a \<Rightarrow> 'k) \<Rightarrow> 'a list \<Rightarrow> 'a list \<Rightarrow> 'a list" where
  "merge_by key xs ys = xs @ filter (\<lambda>y. key y \<notin> key ` set xs) ys"

definition resource_key :: "ResourceInfo \<Rightarrow> string" where
  "resource_key r = ri_APIVersion r @ ''|'' @ ri_Kind r @ ''|'' @ ri_Namespace r @ ''|'' @ ri_Name r"

definition app_key :: "ArgoApplication \<Rightarrow> string" where
  "app_key a = app_Namespace a @ ''|'' @ app_Name a"

definition appset_key :: "ArgoApplicationSet \<Rightarrow> string" where
  "appset_key s = tmpl_Namespace (aset_Template s) @ ''|'' @ aset_Name s"

definition mergeSnapshotIntoWorld :: "World \<Rightarrow> Snapshot \<Rightarrow> World" where
  "mergeSnapshotIntoWorld w snap = w\<lparr>
     w_SchemaIndex := None,
     w_IgnoreDiffEntries := None,
     w_CRDs := merge_by crdKey (w_CRDs w) (sn_CRDs snap),
     w_XRDs := merge_by crdKey (w_XRDs w) (sn_XRDs snap),
     w_Functions := merge_by fn_Name (w_Functions w) (map fns_Info (sn_Functions snap)),
     w_Providers := merge_by prov_Name (w_Providers w) (map prs_Info (sn_Providers snap)),
     w_Schemas := merge_by fst (w_Schemas w) (sn_Schemas snap),
     w_Resources := merge_by resource_key (w_Resources w) (sn_Resources snap),
     w_ArgoApps := merge_by app_key (w_ArgoApps w) (sn_ArgoApps snap),
     w_ArgoAppSets := merge_by appset_key (w_ArgoAppSets w) (sn_ArgoAppSets snap),
     w_ArgoProjects := merge_by proj_Name (w_ArgoProjects w) (sn_ArgoProjects snap)\<rparr>"

section \<open>The digest does not see the order\<close>

interpretation crd_order: key_order "\<lambda>a b. crdByKey a b < 0" crdKey
  by unfold_locales (simp add: crdByKey_def)

interpretation provider_order: key_order "\<lambda>a b. provider_cmp a b < 0" "\<lambda>p. prov_Name (prs_Info p)"
  by unfold_locales (simp add: provider_cmp_def)

interpretation function_order: key_order "\<lambda>a b. function_cmp a b < 0" "\<lambda>f. fn_Name (fns_Info f)"
  by unfold_locales (simp add: function_cmp_def)

interpretation composition_order: key_order "\<lambda>a b. composition_cmp a b < 0" comp_Name
  by unfold_locales (simp add: composition_cmp_def)

interpretation resource_order: key_order "\<lambda>a b. resource_cmp a b < 0"
    "\<lambda>r. (ri_APIVersion r, ri_Kind r, ri_Namespace r, ri_Name r)"
  by unfold_locales (auto simp: resource_cmp_def cmp_chain_less cmp_chain_Nil simp del: cmp_chain.simps)

interpretation app_order: key_order "\<lambda>a b. app_cmp a b < 0" "\<lambda>a. (app_Namespace a, app_Name a)"
  by unfold_locales (auto simp: app_cmp_def cmp_chain_less cmp_chain_Nil simp del: cmp_chain.simps)

interpretation appset_order: key_order "\<lambda>a b. appset_cmp a b < 0"
    "\<lambda>a. (tmpl_Namespace (aset_Template a), aset_Name a)"
  by unfold_locales (auto simp: appset_cmp_def cmp_chain_less cmp_chain_Nil simp del: cmp_chain.simps)

interpretation project_order: key_order "\<lambda>a b. project_cmp a b < 0" proj_Name
  by unfold_locales (simp add: project_cmp_def)

context key_order
begin

lemma slice_perm: "mset ys = mset xs \<Longrightarrow> distinct (map key xs) \<Longrightarrow> sort_slice lt ys = sort_slice lt xs"
  using slice_unique[of "sort_slice lt ys" xs] slice_sorted[of ys] by simp

end

text \<open>The identities by which the code sorts are distinct within each section.\<close>

definition distinct_keys :: "Snapshot \<Rightarrow> bool" where
  "distinct_keys s =
     (distinct (map crdKey (sn_CRDs s)) \<and> distinct (map crdKey (sn_XRDs s)) \<and>
      distinct (map (\<lambda>p. prov_Name (prs_Info p)) (sn_Providers s)) \<and>
      distinct (map (\<lambda>f. fn_Name (fns_Info f)) (sn_Functions s)) \<and>
      distinct (map comp_Name (sn_Compositions s)) \<and>
      distinct (map (\<lambda>r. (ri_APIVersion r, ri_Kind r, ri_Namespace r, ri_Name r)) (sn_Resources s)) \<and>
      distinct (map (\<lambda>a. (app_Namespace a, app_Name a)) (sn_ArgoApps s)) \<and>
      distinct (map (\<lambda>a. (tmpl_Namespace (aset_Template a), aset_Name a)) (sn_ArgoAppSets s)) \<and>
      distinct (map proj_Name (sn_ArgoProjects s)))"

definition same_content :: "Snapshot \<Rightarrow> Snapshot \<Rightarrow> bool" where
  "same_content s t =
     (sn_Version s = sn_Version t \<and> sn_ClusterName s = sn_ClusterName t \<and>
      sn_KubernetesVersion s = sn_KubernetesVersion t \<and> sn_ArgoTrackingMode s = sn_ArgoTrackingMode t \<and>
      mset (sn_CRDs s) = mset (sn_CRDs t) \<and> mset (sn_XRDs s) = mset (sn_XRDs t) \<and>
      mset (sn_Providers s) = mset (sn_Providers t) \<and> mset (sn_Functions s) = mset (sn_Functions t) \<and>
      mset (sn_Compositions s) = mset (sn_Compositions t) \<and> mset (sn_Resources s) = mset (sn_Resources t) \<and>
      mset (sn_ArgoApps s) = mset (sn_ArgoApps t) \<and> mset (sn_ArgoAppSets s) = mset (sn_ArgoAppSets t) \<and>
      mset (sn_ArgoProjects s) = mset (sn_ArgoProjects t))"

text \<open>
  The digest of a snapshot is a function of its contents as sets: two snapshots with
  the same entries in any order have the same digest, and each verifies against the
  digest of the other.
\<close>

theorem computeDigest_order_independent:
  assumes "same_content s t" "distinct_keys t"
  shows "computeDigest sha M s = computeDigest sha M t"
proof -
  have m: "mset (sn_CRDs s) = mset (sn_CRDs t)" "mset (sn_XRDs s) = mset (sn_XRDs t)"
    "mset (sn_Providers s) = mset (sn_Providers t)" "mset (sn_Functions s) = mset (sn_Functions t)"
    "mset (sn_Compositions s) = mset (sn_Compositions t)" "mset (sn_Resources s) = mset (sn_Resources t)"
    "mset (sn_ArgoApps s) = mset (sn_ArgoApps t)" "mset (sn_ArgoAppSets s) = mset (sn_ArgoAppSets t)"
    "mset (sn_ArgoProjects s) = mset (sn_ArgoProjects t)"
    using assms(1) by (simp_all add: same_content_def)
  note k = assms(2)[unfolded distinct_keys_def]
  have "digest_text M s = digest_text M t"
    unfolding digest_text_def section_text_def
    using assms(1) k
    by (simp add: same_content_def crd_order.slice_perm[OF m(1)] crd_order.slice_perm[OF m(2)] provider_order.slice_perm[OF m(3)]
        function_order.slice_perm[OF m(4)] composition_order.slice_perm[OF m(5)] resource_order.slice_perm[OF m(6)]
        app_order.slice_perm[OF m(7)] appset_order.slice_perm[OF m(8)] project_order.slice_perm[OF m(9)])
  then show ?thesis by (simp add: computeDigest_def)
qed

text \<open>Two sections are not part of the digest.\<close>

lemma computeDigest_ignores:
  "computeDigest sha M (s\<lparr>sn_Configurations := cs, sn_Schemas := ss\<rparr>) = computeDigest sha M s"
  by (simp add: computeDigest_def digest_text_def)

section \<open>Capturing and restoring\<close>

lemma computeDigest_digest [simp]: "computeDigest sha M (s\<lparr>sn_Digest := d\<rparr>) = computeDigest sha M s"
  by (simp add: computeDigest_def digest_text_def)

lemma ComputeDigest_Verify: "snapshot_Verify sha M (ComputeDigest sha M s)"
  by (simp add: snapshot_Verify_def ComputeDigest_def)

lemma map_status_id [simp]:
  "map (prs_Info \<circ> (\<lambda>p. \<lparr>prs_Info = p, prs_Version = v, prs_Healthy = h\<rparr>)) ps = ps"
  "map (fns_Info \<circ> (\<lambda>f. \<lparr>fns_Info = f, fns_Version = v, fns_Healthy = h\<rparr>)) fs = fs"
  by (simp_all add: comp_def)

text \<open>
  C35: a snapshot taken with the live resources restores every section of the World it was
  taken from, verifies, and taking it again from the restored World gives the same
  snapshot, digest included.
\<close>

theorem snapshot_roundtrip:
  "let s = FromWorldWithOptions sha M now w cluster \<lparr>fo_IncludeResources = True\<rparr>
   in ToWorld s = NewWorld\<lparr>
        w_CRDs := w_CRDs w, w_XRDs := w_XRDs w, w_Compositions := w_Compositions w, w_Schemas := w_Schemas w,
        w_Providers := w_Providers w, w_Functions := w_Functions w, w_Configurations := w_Configurations w,
        w_Resources := w_Resources w, w_ArgoApps := w_ArgoApps w, w_ArgoAppSets := w_ArgoAppSets w,
        w_ArgoProjects := w_ArgoProjects w\<rparr> \<and>
      snapshot_Verify sha M s \<and>
      FromWorldWithOptions sha M now (ToWorld s) cluster \<lparr>fo_IncludeResources = True\<rparr> = s"
proof -
  let ?s = "FromWorldWithOptions sha M now w cluster \<lparr>fo_IncludeResources = True\<rparr>"
  have w: "ToWorld ?s = NewWorld\<lparr>
        w_CRDs := w_CRDs w, w_XRDs := w_XRDs w, w_Compositions := w_Compositions w, w_Schemas := w_Schemas w,
        w_Providers := w_Providers w, w_Functions := w_Functions w, w_Configurations := w_Configurations w,
        w_Resources := w_Resources w, w_ArgoApps := w_ArgoApps w, w_ArgoAppSets := w_ArgoAppSets w,
        w_ArgoProjects := w_ArgoProjects w\<rparr>"
    by (simp add: ToWorld_def FromWorldWithOptions_def ComputeDigest_def Let_def)
  have "snapshot_Verify sha M ?s" by (simp add: FromWorldWithOptions_def Let_def ComputeDigest_Verify)
  moreover have "FromWorldWithOptions sha M now (ToWorld ?s) cluster \<lparr>fo_IncludeResources = True\<rparr> = ?s"
    unfolding w by (simp add: FromWorldWithOptions_def Let_def)
  ultimately show ?thesis using w by (simp add: Let_def)
qed

text \<open>A snapshot taken without the live resources does not see them.\<close>

lemma FromWorld_ignores_resources:
  "FromWorld sha M now (w\<lparr>w_Resources := rs, w_ArgoAppSets := as, w_ArgoProjects := ps\<rparr>) cluster = FromWorld sha M now w cluster"
  by (simp add: FromWorld_def FromWorldWithOptions_def)

section \<open>The merge\<close>

lemma merge_by_find:
  "find (\<lambda>x. key x = k) (merge_by key xs ys) =
     (case find (\<lambda>x. key x = k) xs of Some x \<Rightarrow> Some x | None \<Rightarrow> find (\<lambda>y. key y = k) ys)"
proof (cases "find (\<lambda>x. key x = k) xs")
  case None
  then have "k \<notin> key ` set xs" by (auto simp: find_None_iff)
  then have "find (\<lambda>x. key x = k) (filter (\<lambda>y. key y \<notin> key ` set xs) ys) = find (\<lambda>y. key y = k) ys"
    by (induction ys) auto
  moreover have "find (\<lambda>x. key x = k) (xs @ zs) = find (\<lambda>x. key x = k) zs" for zs
    using None by (induction xs) (auto split: if_splits)
  ultimately show ?thesis using None by (simp add: merge_by_def)
next
  case (Some x)
  then have "find (\<lambda>x. key x = k) (xs @ zs) = Some x" for zs by (induction xs) (auto split: if_splits)
  then show ?thesis using Some by (simp add: merge_by_def)
qed

lemma merge_by_idem: "merge_by key (merge_by key xs ys) ys = merge_by key xs ys"
proof -
  have "key y \<in> key ` set (merge_by key xs ys)" if "y \<in> set ys" for y
    using that by (auto simp: merge_by_def)
  then have "filter (\<lambda>y. key y \<notin> key ` set (merge_by key xs ys)) ys = []" by (simp add: filter_empty_conv)
  then show ?thesis by (simp add: merge_by_def[of key "merge_by key xs ys"])
qed

text \<open>
  The manifests win: a lookup in the merged World finds what the World had under that
  identity, and the snapshot's entry only when it had none; and merging the same snapshot
  again changes nothing.
\<close>

theorem mergeSnapshot_manifest_wins:
  "let m = mergeSnapshotIntoWorld w snap
   in (\<forall>k. find (\<lambda>c. crdKey c = k) (w_CRDs m) =
             (case find (\<lambda>c. crdKey c = k) (w_CRDs w) of Some c \<Rightarrow> Some c | None \<Rightarrow> find (\<lambda>c. crdKey c = k) (sn_CRDs snap))) \<and>
      (\<forall>k. find (\<lambda>c. crdKey c = k) (w_XRDs m) =
             (case find (\<lambda>c. crdKey c = k) (w_XRDs w) of Some c \<Rightarrow> Some c | None \<Rightarrow> find (\<lambda>c. crdKey c = k) (sn_XRDs snap))) \<and>
      (\<forall>k. find (\<lambda>r. resource_key r = k) (w_Resources m) =
             (case find (\<lambda>r. resource_key r = k) (w_Resources w) of
                Some r \<Rightarrow> Some r | None \<Rightarrow> find (\<lambda>r. resource_key r = k) (sn_Resources snap))) \<and>
      (\<forall>k. find (\<lambda>a. app_key a = k) (w_ArgoApps m) =
             (case find (\<lambda>a. app_key a = k) (w_ArgoApps w) of
                Some a \<Rightarrow> Some a | None \<Rightarrow> find (\<lambda>a. app_key a = k) (sn_ArgoApps snap))) \<and>
      (\<forall>k. find (\<lambda>e. fst e = k) (w_Schemas m) =
             (case find (\<lambda>e. fst e = k) (w_Schemas w) of Some e \<Rightarrow> Some e | None \<Rightarrow> find (\<lambda>e. fst e = k) (sn_Schemas snap))) \<and>
      mergeSnapshotIntoWorld m snap = m"
  unfolding Let_def by (simp add: mergeSnapshotIntoWorld_def merge_by_find merge_by_idem)

text \<open>The merge takes neither the Compositions nor the Configurations of the snapshot.\<close>

lemma merge_drops:
  "w_Compositions (mergeSnapshotIntoWorld w snap) = w_Compositions w"
  "w_Configurations (mergeSnapshotIntoWorld w snap) = w_Configurations w"
  by (simp_all add: mergeSnapshotIntoWorld_def)

section \<open>Witness\<close>

definition demo_crd :: "string \<Rightarrow> CRDInfo" where
  "demo_crd k = \<lparr>crd_Group = ''g'', crd_Kind = k, crd_Scope = [], crd_Versions = [],
     crd_Conversion = \<lparr>conv_Strategy = [], conv_CostClass = [], conv_WebhookService = []\<rparr>, crd_Source = zero_SourceLocation,
     crd_IsXRD = False, crd_APIVersion = [], crd_OwningApp = []\<rparr>"

definition demo_marshal :: Marshal where
  "demo_marshal = \<lparr>ms_CRD = crd_Kind, ms_Provider = (\<lambda>_. []), ms_Function = (\<lambda>_. []), ms_Composition = comp_Name,
     ms_Resource = ri_Name, ms_App = app_Name, ms_AppSet = aset_Name, ms_Project = proj_Name\<rparr>"

theorem computeDigest_order_independent_witness:
  "computeDigest rev demo_marshal ((New 0 ''c'')\<lparr>sn_CRDs := [demo_crd ''B'', demo_crd ''A'']\<rparr>) =
   computeDigest rev demo_marshal ((New 0 ''c'')\<lparr>sn_CRDs := [demo_crd ''A'', demo_crd ''B'']\<rparr>)"
proof (rule computeDigest_order_independent)
  show "same_content ((New 0 ''c'')\<lparr>sn_CRDs := [demo_crd ''B'', demo_crd ''A'']\<rparr>)
     ((New 0 ''c'')\<lparr>sn_CRDs := [demo_crd ''A'', demo_crd ''B'']\<rparr>)"
    by (simp add: same_content_def New_def)
  show "distinct_keys ((New 0 ''c'')\<lparr>sn_CRDs := [demo_crd ''A'', demo_crd ''B'']\<rparr>)"
    by (simp add: distinct_keys_def New_def crdKey_def demo_crd_def)
qed

end
