(* ===== verification/PlanRun.thy ===== *)
theory PlanRun
  imports PlanOutput BuildWorld LoadDir Bridge Discover Snapshot
begin

text \<open>
  \<^verbatim>\<open>pkg/plan/runner.go\<close>: resolving the two variants of a plan, with the git worktrees made
  on the way, running the loader, the builder and the checker on each, and the plan
  itself.  The state is what a run leaves behind on the machine: the registered
  worktrees and the temporary directories.  What a run reads of the file system may
  depend on that state.
\<close>

section \<open>The machine\<close>

record PState =
  ps_worktrees :: "(string \<times> string) list"
  ps_dirs :: "string list"

text \<open>
  \<open>pe_load\<close> is one run of \<^const>\<open>LoadDirectory\<close>; \<open>pe_GitRemove\<close> and \<open>pe_RemoveAll\<close> tell whether the
  command succeeds (the code ignores their errors); \<open>pe_GitAdd\<close> and \<open>pe_MkdirAll\<close> give the error.
\<close>

record 'o PlanEnv =
  pe_ev :: "PState \<Rightarrow> ExeEnv"
  pe_NotExist :: "PState \<Rightarrow> string \<Rightarrow> bool"
  pe_load :: "PState \<Rightarrow> string \<Rightarrow> string + LoadedDocument list"
  pe_yaml :: Yaml
  pe_build :: BuildEnv
  pe_host :: HostState
  pe_kl :: "'o kl"
  pe_initShen :: "string \<Rightarrow> string option"
  pe_checkWorld :: "'o \<Rightarrow> 'o"
  pe_snapshot :: "string \<Rightarrow> string + Snapshot"
  pe_sha :: "string \<Rightarrow> string"
  pe_TempDir :: string
  pe_MkdirAll :: "string \<Rightarrow> string option"
  pe_GitAdd :: "string \<Rightarrow> string \<Rightarrow> string \<Rightarrow> string option"
  pe_GitRemove :: "PState \<Rightarrow> string \<Rightarrow> string \<Rightarrow> bool"
  pe_RemoveAll :: "string \<Rightarrow> bool"

record PlanConfig =
  pc_BaseRef :: string
  pc_HeadRef :: string
  pc_Path :: string
  pc_Checker :: CheckerConfig
  pc_SkipRender :: bool
  pc_HelmBin :: string
  pc_HelmCacheDir :: string
  pc_KustomizeBin :: string
  pc_CrossplaneBin :: string
  pc_SkipAppSetExpand :: bool
  pc_SSAMPMode :: string
  pc_AppSetFixtures :: "(string \<times> strmap list) list option"
  pc_ConfigOverride :: "Config.Config option"

section \<open>Worktrees\<close>

record Cleanup =
  cl_repo :: string
  cl_wtDir :: string
  cl_wtParent :: string

definition git_remove :: "'o PlanEnv \<Rightarrow> string \<Rightarrow> string \<Rightarrow> PState \<Rightarrow> PState" where
  "git_remove env repo d st =
     (if pe_GitRemove env st repo d then st\<lparr>ps_worktrees := filter (\<lambda>e. fst e \<noteq> d) (ps_worktrees st)\<rparr> else st)"

definition remove_all :: "'o PlanEnv \<Rightarrow> string \<Rightarrow> PState \<Rightarrow> PState" where
  "remove_all env d st =
     (if pe_RemoveAll env d then st\<lparr>ps_dirs := filter (\<lambda>x. x \<noteq> d \<and> \<not> HasPrefix x (d @ ''/'')) (ps_dirs st)\<rparr> else st)"

definition run_cleanup :: "'o PlanEnv \<Rightarrow> Cleanup \<Rightarrow> PState \<Rightarrow> PState" where
  "run_cleanup env c st = remove_all env (cl_wtParent c) (git_remove env (cl_repo c) (cl_wtDir c) st)"

text \<open>The returned closure runs the registered cleanups last first.\<close>

definition cleanup_all :: "'o PlanEnv \<Rightarrow> Cleanup list \<Rightarrow> PState \<Rightarrow> PState" where
  "cleanup_all env cs st = foldl (\<lambda>s c. run_cleanup env c s) st (rev cs)"

definition git_probe :: "('a FsEnv_scheme) \<Rightarrow> string \<Rightarrow> string option" where
  "git_probe fs dir = (if fs_Stat fs (JoinPath [dir, ''.git'']) \<noteq> None then Some dir else None)"

function search_git :: "('a FsEnv_scheme) \<Rightarrow> string \<Rightarrow> string option" where
  "search_git fs dir =
     (case git_probe fs dir of
        Some r \<Rightarrow> Some r
      | None \<Rightarrow> if Dir dir = dir then None else search_git fs (Dir dir))"
  by pat_completeness auto
termination
  by (relation "measure (\<lambda>(fs, dir). up_measure dir)") (auto intro: Dir_decreases)

declare search_git.simps [simp del]

interpretation plan_root: upward_search "git_probe fs" "search_git fs" for fs
  by unfold_locales (rule search_git.simps)

definition plan_findRepoRoot :: "('a FsEnv_scheme) \<Rightarrow> string \<Rightarrow> string + string" where
  "plan_findRepoRoot fs start =
     (case search_git fs start of Some r \<Rightarrow> Inr r | None \<Rightarrow> Inl (''no .git found above '' @ start))"

definition wt_parent :: "'o PlanEnv \<Rightarrow> string \<Rightarrow> string \<Rightarrow> string \<Rightarrow> string" where
  "wt_parent env repoRoot ref tag =
     JoinPath [pe_TempDir env, ''xpc-plan-'' @ take 16 (pe_sha env (repoRoot @ NUL @ ref @ NUL @ tag))]"

definition wt_dir :: "'o PlanEnv \<Rightarrow> string \<Rightarrow> string \<Rightarrow> string \<Rightarrow> string" where
  "wt_dir env repoRoot ref tag = JoinPath [wt_parent env repoRoot ref tag, tag]"

section \<open>Resolving a variant\<close>

definition abs_variant :: "'o PlanEnv \<Rightarrow> PState \<Rightarrow> string \<Rightarrow> string \<Rightarrow> string + VariantSource" where
  "abs_variant env st kind ref =
     (case ev_Abs (pe_ev env st) ref of
        None \<Rightarrow> Inl (''abs('' @ ref @ '')'')
      | Some a \<Rightarrow> Inr \<lparr>vs_Kind = kind, vs_Path = a\<rparr>)"

text \<open>A snapshot file or a directory on disk; anything else is a git ref.\<close>

definition variant_on_disk :: "'o PlanEnv \<Rightarrow> PState \<Rightarrow> string \<Rightarrow> (string + VariantSource) option" where
  "variant_on_disk env st ref =
     (case fs_Stat (pe_ev env st) ref of
        None \<Rightarrow> None
      | Some m \<Rightarrow>
          if m = ModeRegular \<and> HasSuffix ref ''.xpcsnap'' then Some (abs_variant env st ''snapshot'' ref)
          else if m = ModeDir then Some (abs_variant env st ''directory'' ref)
          else None)"

definition git_variant ::
  "'o PlanEnv \<Rightarrow> string \<Rightarrow> string \<Rightarrow> string \<Rightarrow> string \<Rightarrow> PState \<Rightarrow> (string + VariantSource \<times> Cleanup option) \<times> PState" where
  "git_variant env absPath repoRoot ref tag st =
     (let wtParent = wt_parent env repoRoot ref tag;
          wtDir = wt_dir env repoRoot ref tag;
          c = \<lparr>cl_repo = repoRoot, cl_wtDir = wtDir, cl_wtParent = wtParent\<rparr>
      in case pe_MkdirAll env wtParent of
           Some e \<Rightarrow> (Inl (''mkdir worktree parent: '' @ e), st)
         | None \<Rightarrow>
             let st1 = st\<lparr>ps_dirs := ps_dirs st @ [wtParent]\<rparr>;
                 st2 = (if fs_Stat (pe_ev env st1) wtDir \<noteq> None
                        then remove_all env wtDir (git_remove env repoRoot wtDir st1) else st1)
             in case pe_GitAdd env repoRoot wtDir ref of
                  Some e \<Rightarrow> (Inl (''git worktree add '' @ wtDir @ '' '' @ ref @ '': '' @ e), st2)
                | None \<Rightarrow>
                    let st3 = st2\<lparr>ps_worktrees := ps_worktrees st2 @ [(wtDir, ref)]\<rparr>
                    in case Rel repoRoot absPath of
                         None \<Rightarrow> (Inl (''rel('' @ repoRoot @ '', '' @ absPath @ '')''), run_cleanup env c st3)
                       | Some rel \<Rightarrow> (Inr (\<lparr>vs_Kind = ''directory'', vs_Path = JoinPath [wtDir, rel]\<rparr>, Some c), st3))"

definition resolveVariant ::
  "'o PlanEnv \<Rightarrow> string \<Rightarrow> string \<Rightarrow> string \<Rightarrow> PState \<Rightarrow> (string + VariantSource \<times> Cleanup option) \<times> PState" where
  "resolveVariant env ref path tag st =
     (if ref = [] then (Inl (''empty --'' @ tag), st)
      else case variant_on_disk env st ref of
        Some r \<Rightarrow> (map_sum id (\<lambda>v. (v, None)) r, st)
      | None \<Rightarrow>
          (case ev_Abs (pe_ev env st) path of
             None \<Rightarrow> (Inl (''abs('' @ path @ '')''), st)
           | Some absPath \<Rightarrow>
               (case plan_findRepoRoot (pe_ev env st) absPath of
                  Inl e \<Rightarrow> (Inl (''find repo root from '' @ absPath @ '': '' @ e), st)
                | Inr repoRoot \<Rightarrow> git_variant env absPath repoRoot ref tag st)))"

section \<open>Running a variant\<close>

definition resolveVariantConfig :: "'o PlanEnv \<Rightarrow> PState \<Rightarrow> Config.Config option \<Rightarrow> string \<Rightarrow> Config.Config" where
  "resolveVariantConfig env st override variantDir =
     (case override of
        Some c \<Rightarrow> c
      | None \<Rightarrow> (case fst (Resolve (pe_yaml env) (pe_ev env st) [] [] variantDir) of Inr c \<Rightarrow> c | Inl _ \<Rightarrow> Default))"

definition info_diag :: "string \<Rightarrow> string \<Rightarrow> string \<Rightarrow> string \<Rightarrow> Diagnostic" where
  "info_diag code msg detail fix =
     \<lparr>dg_Code = code, dg_Severity = SeverityInfo, dg_Message = msg, dg_Source = zero_SourceLocation, dg_Detail = detail,
      dg_Fix = fix, dg_Related = [], dg_Obligation = None\<rparr>"

definition path_missing_diag :: "string \<Rightarrow> Diagnostic" where
  "path_missing_diag dir =
     info_diag ''XPC.P.path-missing'' (''manifest path '' @ dir @ '' does not exist on this variant'')
       (''The directory was not present at the resolved ref. Likely cause: the manifest tree was added, renamed, or restructured after that point in history. '' @
        ''Treating this side as an empty World; resources on the other variant will appear as Added or Removed accordingly.'')
       ''If this is unexpected, double-check the --base / --head refs and the path argument.''"

definition snapshot_incomplete_diag :: "string \<Rightarrow> Diagnostic" where
  "snapshot_incomplete_diag snapPath =
     info_diag ''XPC.P.snapshot-incomplete'' (''snapshot '' @ snapPath @ '' has no resource instances'')
       (''The snapshot was captured without --include-resources, so the plan delta '' @
        ''cannot reflect cluster-side state. Type-environment diagnostics still flow through.'')
       (''Re-capture with `xpc snapshot --include-resources` to populate '' @ ''Resources/ArgoApps/AppSets/Projects.'')"

definition variant_opts :: "'o PlanEnv \<Rightarrow> PState \<Rightarrow> PlanConfig \<Rightarrow> string \<Rightarrow> BuilderOpts" where
  "variant_opts env st cfg dir =
     \<lparr>bo_SkipRender = pc_SkipRender cfg, bo_HelmBin = pc_HelmBin cfg, bo_KustomizeBin = pc_KustomizeBin cfg,
      bo_CrossplaneBin = pc_CrossplaneBin cfg, bo_SkipAppSetExpand = pc_SkipAppSetExpand cfg,
      bo_HelmCacheDir = pc_HelmCacheDir cfg,
      bo_AppSetContext = \<lparr>ctx_PRFixtures = (case pc_AppSetFixtures cfg of Some f \<Rightarrow> f | None \<Rightarrow> []), ctx_Root = []\<rparr>,
      bo_SSAMPMode = pc_SSAMPMode cfg,
      bo_Config = Some (resolveVariantConfig env st (pc_ConfigOverride cfg) dir)\<rparr>"

text \<open>The diagnostics the builder has collected when \<^verbatim>\<open>Build\<close> returns: only the documents and the expansion add to them.\<close>

definition expansion_diags :: "BuildEnv \<Rightarrow> BuilderOpts \<Rightarrow> HostState \<Rightarrow> LoadedDocument list \<Rightarrow> Diagnostic list" where
  "expansion_diags env opts st docs =
     (case build_docs env opts docs
             \<lparr>bs_world = build_init opts, bs_diags = [], bs_helm = None, bs_kustomize = None, bs_crossplane = None, bs_host = st\<rparr> of
        Some (Inr s) \<Rightarrow>
          (case (if bo_SkipAppSetExpand opts then Some s else expandAppSets env opts s) of Some s1 \<Rightarrow> bs_diags s1 | None \<Rightarrow> [])
      | _ \<Rightarrow> [])"

text \<open>The World of a result is the one the checker has enriched in place.\<close>

definition check_variant :: "'o PlanEnv \<Rightarrow> World \<Rightarrow> CheckerConfig \<Rightarrow> Diagnostic list \<times> World" where
  "check_variant env w cfg =
     (case CheckWithObligations (pe_kl env) (pe_initShen env) (pe_checkWorld env) w cfg of
        (r, w') \<Rightarrow> (run_Diagnostics r, w'))"

definition runVariant :: "'o PlanEnv \<Rightarrow> PState \<Rightarrow> PlanConfig \<Rightarrow> string \<Rightarrow> string \<Rightarrow> (string + VariantResult) option" where
  "runVariant env st cfg ref dir =
     (if pe_NotExist env st dir
      then Some (Inr \<lparr>vr_Ref = ref, vr_ResolvedDir = dir, vr_World = NewWorld, vr_Diagnostics = [path_missing_diag dir]\<rparr>)
      else case pe_load env st dir of
        Inl e \<Rightarrow> Some (Inl (''load '' @ dir @ '': '' @ e))
      | Inr docs \<Rightarrow>
          let opts = variant_opts env st cfg dir
          in case Build (pe_build env) opts (pe_host env) docs of
               None \<Rightarrow> None
             | Some (Inl e) \<Rightarrow> Some (Inl (''build IR: '' @ e))
             | Some (Inr world) \<Rightarrow>
                 (case check_variant env world (pc_Checker cfg) of
                    (diags, world') \<Rightarrow>
                      Some (Inr \<lparr>vr_Ref = ref, vr_ResolvedDir = dir, vr_World = world',
                                 vr_Diagnostics = diags @ expansion_diags (pe_build env) opts (pe_host env) docs\<rparr>)))"

definition no_instances :: "Snapshot \<Rightarrow> bool" where
  "no_instances s = (sn_Resources s = [] \<and> sn_ArgoApps s = [] \<and> sn_ArgoAppSets s = [] \<and> sn_ArgoProjects s = [])"

definition runVariantFromSnapshot :: "'o PlanEnv \<Rightarrow> PlanConfig \<Rightarrow> string \<Rightarrow> string \<Rightarrow> string + VariantResult" where
  "runVariantFromSnapshot env cfg ref snapPath =
     (case pe_snapshot env snapPath of
        Inl e \<Rightarrow> Inl (''loading snapshot '' @ snapPath @ '': '' @ e)
      | Inr snap \<Rightarrow>
          (case check_variant env (EnrichTrajectoryData (ToWorld snap)) (pc_Checker cfg) of
             (diags, world) \<Rightarrow>
               Inr \<lparr>vr_Ref = ref, vr_ResolvedDir = snapPath, vr_World = world,
                    vr_Diagnostics = diags @ (if no_instances snap then [snapshot_incomplete_diag snapPath] else [])\<rparr>))"

definition runVariantFromSource ::
  "'o PlanEnv \<Rightarrow> PState \<Rightarrow> PlanConfig \<Rightarrow> string \<Rightarrow> VariantSource \<Rightarrow> (string + VariantResult) option" where
  "runVariantFromSource env st cfg ref src =
     (if vs_Kind src = ''snapshot'' then Some (runVariantFromSnapshot env cfg ref (vs_Path src))
      else if vs_Kind src = ''directory'' \<or> vs_Kind src = [] then runVariant env st cfg ref (vs_Path src)
      else Some (Inl (''unknown variant source kind '' @ Quote (vs_Kind src) @ '' for '' @ ref)))"

section \<open>A plan\<close>

datatype RunRes = RunPanic | RunErr string | RunOk Plan "Cleanup list"

definition opt_list :: "'a option \<Rightarrow> 'a list" where
  "opt_list x = (case x of None \<Rightarrow> [] | Some a \<Rightarrow> [a])"

definition make_plan :: "(rat \<Rightarrow> string) \<Rightarrow> VariantResult \<Rightarrow> VariantResult \<Rightarrow> Plan" where
  "make_plan ff baseResult headResult =
     (let delta = Diff (vr_World baseResult) (vr_World headResult); w = vr_World baseResult
      in \<lparr>pn_Base = baseResult, pn_Head = headResult, pn_Delta = delta,
          pn_Diagnostics =
            R26DestructiveDelete delta (w_BypassKeys w) (w_StateBearingKinds w) @
            R27ImmutableChange ff delta (w_ImmutableFields w) (w_BypassKeys w)\<rparr>)"

definition run_variants ::
  "'o PlanEnv \<Rightarrow> PlanConfig \<Rightarrow> VariantSource \<Rightarrow> VariantSource \<Rightarrow> Cleanup list \<Rightarrow> PState \<Rightarrow> RunRes \<times> PState" where
  "run_variants env cfg baseSrc headSrc cleanups st =
     (case runVariantFromSource env st cfg (pc_BaseRef cfg) baseSrc of
        None \<Rightarrow> (RunPanic, st)
      | Some (Inl e) \<Rightarrow> (RunErr (''check base: '' @ e), cleanup_all env cleanups st)
      | Some (Inr baseResult) \<Rightarrow>
          (case runVariantFromSource env st cfg (pc_HeadRef cfg) headSrc of
             None \<Rightarrow> (RunPanic, st)
           | Some (Inl e) \<Rightarrow> (RunErr (''check head: '' @ e), cleanup_all env cleanups st)
           | Some (Inr headResult) \<Rightarrow> (RunOk (make_plan (be_ff (pe_build env)) baseResult headResult) cleanups, st)))"

definition plan_Run :: "'o PlanEnv \<Rightarrow> PlanConfig \<Rightarrow> PState \<Rightarrow> RunRes \<times> PState" where
  "plan_Run env cfg st =
     (case resolveVariant env (pc_BaseRef cfg) (pc_Path cfg) ''base'' st of
        (Inl e, st1) \<Rightarrow> (RunErr (''resolve base: '' @ e), cleanup_all env [] st1)
      | (Inr (baseSrc, baseCleanup), st1) \<Rightarrow>
          (case resolveVariant env (pc_HeadRef cfg) (pc_Path cfg) ''head'' st1 of
             (Inl e, st2) \<Rightarrow> (RunErr (''resolve head: '' @ e), cleanup_all env (opt_list baseCleanup) st2)
           | (Inr (headSrc, headCleanup), st2) \<Rightarrow>
               run_variants env cfg baseSrc headSrc (opt_list baseCleanup @ opt_list headCleanup) st2))"

section \<open>What a run leaves behind\<close>

lemma opt_list_simps [simp]: "opt_list None = []" "opt_list (Some a) = [a]"
  by (simp_all add: opt_list_def)

text \<open>The place of the worktree of a side, when the side is a git ref inside a repository.\<close>

definition git_place :: "'o PlanEnv \<Rightarrow> PState \<Rightarrow> string \<Rightarrow> string \<Rightarrow> string \<Rightarrow> string option" where
  "git_place env st ref path tag =
     (if ref = [] \<or> variant_on_disk env st ref \<noteq> None then None
      else case ev_Abs (pe_ev env st) path of
        None \<Rightarrow> None
      | Some absPath \<Rightarrow> (case plan_findRepoRoot (pe_ev env st) absPath of Inl _ \<Rightarrow> None | Inr repoRoot \<Rightarrow> Some (wt_dir env repoRoot ref tag)))"

text \<open>
  \<^verbatim>\<open>git worktree remove --force\<close> unregisters a registered worktree of the repository, unless it is
  locked; nothing is asked of it for any other directory.
\<close>

definition removals_ok :: "'o PlanEnv \<Rightarrow> PlanConfig \<Rightarrow> bool" where
  "removals_ok env cfg =
     (\<forall>st repo d. d \<in> fst ` set (ps_worktrees st) \<and>
        (d = wt_dir env repo (pc_BaseRef cfg) ''base'' \<or> d = wt_dir env repo (pc_HeadRef cfg) ''head'') \<longrightarrow>
        pe_GitRemove env st repo d)"

definition own_cleanup :: "'o PlanEnv \<Rightarrow> PlanConfig \<Rightarrow> Cleanup \<Rightarrow> bool" where
  "own_cleanup env cfg c =
     (cl_wtDir c = wt_dir env (cl_repo c) (pc_BaseRef cfg) ''base'' \<or> cl_wtDir c = wt_dir env (cl_repo c) (pc_HeadRef cfg) ''head'')"

definition without :: "string set \<Rightarrow> (string \<times> string) list \<Rightarrow> (string \<times> string) list" where
  "without D wts = filter (\<lambda>e. fst e \<notin> D) wts"

lemma without_simps [simp]:
  "without {} wts = wts" "without D (without E wts) = without (D \<union> E) wts" "without D (xs @ ys) = without D xs @ without D ys"
  by (auto simp: without_def intro: filter_cong)

lemma without_none: "d \<notin> fst ` set wts \<Longrightarrow> without {d} wts = wts"
  by (auto simp: without_def filter_id_conv)

lemma remove_all_worktrees [simp]: "ps_worktrees (remove_all env d st) = ps_worktrees st"
  by (simp add: remove_all_def)

lemma git_remove_own:
  assumes "removals_ok env cfg" "d = wt_dir env repo (pc_BaseRef cfg) ''base'' \<or> d = wt_dir env repo (pc_HeadRef cfg) ''head''"
  shows "ps_worktrees (git_remove env repo d st) = without {d} (ps_worktrees st)"
proof (cases "d \<in> fst ` set (ps_worktrees st)")
  case True
  then have "pe_GitRemove env st repo d" using assms unfolding removals_ok_def by blast
  then show ?thesis by (simp add: git_remove_def without_def)
next
  case False
  then show ?thesis by (auto simp: git_remove_def without_none filter_id_conv)
qed

lemma run_cleanup_own:
  "removals_ok env cfg \<Longrightarrow> own_cleanup env cfg c \<Longrightarrow> ps_worktrees (run_cleanup env c st) = without {cl_wtDir c} (ps_worktrees st)"
  by (simp add: run_cleanup_def own_cleanup_def git_remove_own)

lemma cleanup_all_worktrees:
  assumes "removals_ok env cfg" "\<forall>c \<in> set cs. own_cleanup env cfg c"
  shows "ps_worktrees (cleanup_all env cs st) = without (cl_wtDir ` set cs) (ps_worktrees st)"
  unfolding cleanup_all_def using assms(2)
proof (induction cs arbitrary: st rule: rev_induct)
  case (snoc c cs)
  then show ?case using run_cleanup_own[OF assms(1), of c st] by simp
qed simp

text \<open>
  Resolving a side: a failure has at most dropped what was registered at its place; a success
  drops that, may add a worktree there and hands back a cleanup for the place.
\<close>

definition side_done :: "string option \<Rightarrow> PState \<Rightarrow> (string + VariantSource \<times> Cleanup option) \<Rightarrow> PState \<Rightarrow> bool" where
  "side_done place st r st' =
     (case r of
        Inl _ \<Rightarrow> \<exists>D \<subseteq> set (opt_list place). ps_worktrees st' = without D (ps_worktrees st)
      | Inr (_, None) \<Rightarrow> place = None \<and> ps_worktrees st' = ps_worktrees st
      | Inr (_, Some c) \<Rightarrow> place = Some (cl_wtDir c) \<and>
          without {cl_wtDir c} (ps_worktrees st') = without {cl_wtDir c} (ps_worktrees st))"

lemma side_done_same: "r = Inl e \<Longrightarrow> st' = st \<Longrightarrow> side_done place st r st'"
  by (simp add: side_done_def) (rule exI[of _ "{}"], simp)

lemma git_variant_side:
  assumes "removals_ok env cfg" "(ref, tag) \<in> {(pc_BaseRef cfg, ''base''), (pc_HeadRef cfg, ''head'')}"
    and "git_variant env absPath repoRoot ref tag st = (r, st')"
  shows "side_done (Some (wt_dir env repoRoot ref tag)) st r st' \<and> (\<forall>v c. r = Inr (v, Some c) \<longrightarrow> own_cleanup env cfg c)"
proof (cases "pe_MkdirAll env (wt_parent env repoRoot ref tag)")
  case (Some e)
  then have "r = Inl (''mkdir worktree parent: '' @ e)" "st' = st" using assms(3) by (simp_all add: git_variant_def)
  then show ?thesis using side_done_same by blast
next
  case None
  let ?d = "wt_dir env repoRoot ref tag"
  let ?st1 = "st\<lparr>ps_dirs := ps_dirs st @ [wt_parent env repoRoot ref tag]\<rparr>"
  define st2 where "st2 = (if fs_Stat (pe_ev env ?st1) ?d \<noteq> None then remove_all env ?d (git_remove env repoRoot ?d ?st1) else ?st1)"
  have d: "?d = wt_dir env repoRoot (pc_BaseRef cfg) ''base'' \<or> ?d = wt_dir env repoRoot (pc_HeadRef cfg) ''head''"
    using assms(2) by auto
  obtain D where D: "D \<subseteq> {?d}" "ps_worktrees st2 = without D (ps_worktrees st)"
  proof (cases "fs_Stat (pe_ev env ?st1) ?d = None")
    case True
    then show thesis using that[of "{}"] by (simp add: st2_def)
  next
    case False
    then show thesis using that[of "{?d}"] by (simp add: st2_def git_remove_own[OF assms(1) d])
  qed
  have all: "insert ?d D = {?d}" using D(1) by auto
  show ?thesis
  proof (cases "pe_GitAdd env repoRoot ?d ref")
    case (Some e)
    then have "r = Inl (''git worktree add '' @ ?d @ '' '' @ ref @ '': '' @ e)" "st' = st2"
      using assms(3) None by (simp_all add: git_variant_def Let_def st2_def)
    then show ?thesis using D by (auto simp: side_done_def)
  next
    case None': None
    let ?c = "\<lparr>cl_repo = repoRoot, cl_wtDir = ?d, cl_wtParent = wt_parent env repoRoot ref tag\<rparr>"
    let ?st3 = "st2\<lparr>ps_worktrees := ps_worktrees st2 @ [(?d, ref)]\<rparr>"
    have own: "own_cleanup env cfg ?c" using d by (simp add: own_cleanup_def)
    have drop: "without {?d} (ps_worktrees st2 @ [(?d, ref)]) = without {?d} (ps_worktrees st)"
      by (simp add: D(2) all without_def[of _ "[_]"])
    show ?thesis
    proof (cases "Rel repoRoot absPath")
      case None'': None
      then have r: "r = Inl (''rel('' @ repoRoot @ '', '' @ absPath @ '')'')" "st' = run_cleanup env ?c ?st3"
        using assms(3) None None' by (auto simp: git_variant_def Let_def st2_def)
      have "ps_worktrees st' = without {?d} (ps_worktrees st)"
        unfolding r(2) run_cleanup_own[OF assms(1) own] using drop by simp
      then show ?thesis using r(1) by (auto simp: side_done_def)
    next
      case (Some rel)
      then have "r = Inr (\<lparr>vs_Kind = ''directory'', vs_Path = JoinPath [?d, rel]\<rparr>, Some ?c)" "st' = ?st3"
        using assms(3) None None' by (auto simp: git_variant_def Let_def st2_def)
      then show ?thesis using drop own by (auto simp: side_done_def)
    qed
  qed
qed

lemma resolveVariant_side:
  assumes "removals_ok env cfg" "(ref, tag) \<in> {(pc_BaseRef cfg, ''base''), (pc_HeadRef cfg, ''head'')}"
    and "resolveVariant env ref path tag st = (r, st')"
  shows "side_done (git_place env st ref path tag) st r st' \<and> (\<forall>v c. r = Inr (v, Some c) \<longrightarrow> own_cleanup env cfg c)"
proof (cases "git_place env st ref path tag")
  case None
  then have "st' = st" "\<And>v c. r \<noteq> Inr (v, Some c)"
    using assms(3) by (auto simp: git_place_def resolveVariant_def map_sum_eq_Inr split: if_splits option.splits sum.splits)
  then show ?thesis using None by (auto simp: side_done_def split: sum.splits option.splits)
next
  case (Some d)
  then obtain a repoRoot where "git_variant env a repoRoot ref tag st = (r, st')" "d = wt_dir env repoRoot ref tag"
    using assms(3) by (auto simp: git_place_def resolveVariant_def split: if_splits option.splits sum.splits)
  then show ?thesis using git_variant_side[OF assms(1,2)] Some by simp
qed

definition after_cleanup :: "'o PlanEnv \<Rightarrow> RunRes \<times> PState \<Rightarrow> PState" where
  "after_cleanup env r = (case r of (RunOk p cs, st) \<Rightarrow> cleanup_all env cs st | (_, st) \<Rightarrow> st)"

lemma run_variants_cleanup:
  "fst (run_variants env cfg b h cs st) \<noteq> RunPanic \<Longrightarrow>
   after_cleanup env (run_variants env cfg b h cs st) = cleanup_all env cs st"
  by (auto simp: run_variants_def after_cleanup_def split: option.splits sum.splits)

text \<open>The places of the worktrees a plan makes: of the base side, and of the head side after it.\<close>

definition base_place :: "'o PlanEnv \<Rightarrow> PlanConfig \<Rightarrow> PState \<Rightarrow> string set" where
  "base_place env cfg st = set (opt_list (git_place env st (pc_BaseRef cfg) (pc_Path cfg) ''base''))"

definition head_place :: "'o PlanEnv \<Rightarrow> PlanConfig \<Rightarrow> PState \<Rightarrow> string set" where
  "head_place env cfg st =
     set (opt_list (git_place env (snd (resolveVariant env (pc_BaseRef cfg) (pc_Path cfg) ''base'' st)) (pc_HeadRef cfg) (pc_Path cfg) ''head''))"

definition failed_resolving :: "string \<Rightarrow> RunRes \<Rightarrow> bool" where
  "failed_resolving side r = (case r of RunErr e \<Rightarrow> HasPrefix e (''resolve '' @ side) | _ \<Rightarrow> False)"

lemma side_done_Inr:
  assumes "side_done place st (Inr (v, c)) st'"
  shows "set (opt_list place) = cl_wtDir ` set (opt_list c)"
    "without (set (opt_list place)) (ps_worktrees st') = without (set (opt_list place)) (ps_worktrees st)"
  using assms by (cases c; auto simp: side_done_def opt_list_def)+

lemma run_variants_not_failed: "\<not> failed_resolving side (fst (run_variants env cfg b h cs st))"
  by (auto simp: run_variants_def failed_resolving_def HasPrefix_def split: option.splits sum.splits)

text \<open>
  C12: a plan leaves no worktree of its own behind and touches no other.  Whenever \<^verbatim>\<open>Run\<close> returns, with
  an error or with a plan whose cleanup is then run, the registered worktrees are those registered before,
  in order, without the ones at some of the plan's own places; the place of each side that was resolved from
  a git ref is free, even when a stale worktree of an aborted run was registered there.  Git is relied on
  to remove a registered worktree of the plan.
\<close>

theorem plan_Run_restores_worktrees:
  assumes "removals_ok env cfg" "fst (plan_Run env cfg st) \<noteq> RunPanic"
  shows "\<exists>D. ps_worktrees (after_cleanup env (plan_Run env cfg st)) = filter (\<lambda>e. fst e \<notin> D) (ps_worktrees st) \<and>
     D \<subseteq> base_place env cfg st \<union> head_place env cfg st \<and>
     (failed_resolving ''base'' (fst (plan_Run env cfg st)) \<or> base_place env cfg st \<subseteq> D) \<and>
     (failed_resolving ''base'' (fst (plan_Run env cfg st)) \<or> failed_resolving ''head'' (fst (plan_Run env cfg st)) \<or>
      head_place env cfg st \<subseteq> D)"
proof -
  obtain rb st1 where b: "resolveVariant env (pc_BaseRef cfg) (pc_Path cfg) ''base'' st = (rb, st1)" by fastforce
  have fb: "side_done (git_place env st (pc_BaseRef cfg) (pc_Path cfg) ''base'') st rb st1"
    and ob: "\<And>v c. rb = Inr (v, Some c) \<Longrightarrow> own_cleanup env cfg c"
    using resolveVariant_side[OF assms(1) _ b] by auto
  note places = base_place_def head_place_def
  show ?thesis
  proof (cases rb)
    case (Inl e)
    then obtain D where "D \<subseteq> base_place env cfg st" "ps_worktrees st1 = without D (ps_worktrees st)"
      using fb by (auto simp: side_done_def places)
    moreover have "failed_resolving ''base'' (fst (plan_Run env cfg st))"
      using b Inl by (simp add: plan_Run_def failed_resolving_def HasPrefix_def)
    ultimately show ?thesis using b Inl
      by (intro exI[of _ D]) (auto simp: plan_Run_def after_cleanup_def cleanup_all_def without_def)
  next
    case (Inr vb)
    obtain bsrc bc where vb: "vb = (bsrc, bc)" by fastforce
    obtain rh st2 where h: "resolveVariant env (pc_HeadRef cfg) (pc_Path cfg) ''head'' st1 = (rh, st2)" by fastforce
    have fh: "side_done (git_place env st1 (pc_HeadRef cfg) (pc_Path cfg) ''head'') st1 rh st2"
      and oh: "\<And>v c. rh = Inr (v, Some c) \<Longrightarrow> own_cleanup env cfg c"
      using resolveVariant_side[OF assms(1) _ h] by auto
    let ?B = "base_place env cfg st" and ?H = "head_place env cfg st"
    have B: "?B = cl_wtDir ` set (opt_list bc)" "without ?B (ps_worktrees st1) = without ?B (ps_worktrees st)"
      using side_done_Inr[OF fb[unfolded Inr vb]] by (simp_all add: places)
    have own_b: "\<forall>c \<in> set (opt_list bc). own_cleanup env cfg c" using ob Inr vb by (auto simp: opt_list_def split: option.splits)
    show ?thesis
    proof (cases rh)
      case (Inl e)
      then obtain D where D: "D \<subseteq> ?H" "ps_worktrees st2 = without D (ps_worktrees st1)"
        using fh b by (auto simp: side_done_def places)
      have "after_cleanup env (plan_Run env cfg st) = cleanup_all env (opt_list bc) st2"
        "failed_resolving ''head'' (fst (plan_Run env cfg st))"
        using b h Inr vb Inl by (simp_all add: plan_Run_def after_cleanup_def failed_resolving_def HasPrefix_def)
      moreover have "without ?B (without D (ps_worktrees st1)) = without (?B \<union> D) (ps_worktrees st)"
        using arg_cong[OF B(2), of "without D"] by (simp add: Un_commute)
      ultimately show ?thesis using D cleanup_all_worktrees[OF assms(1) own_b, of st2] B(1)
        by (intro exI[of _ "?B \<union> D"]) (auto simp: without_def)
    next
      case Inr': (Inr vh)
      obtain hsrc hc where vh: "vh = (hsrc, hc)" by fastforce
      have H: "?H = cl_wtDir ` set (opt_list hc)" "without ?H (ps_worktrees st2) = without ?H (ps_worktrees st1)"
        using side_done_Inr[OF fh[unfolded Inr' vh]] b by (simp_all add: places)
      have own: "\<forall>c \<in> set (opt_list bc @ opt_list hc). own_cleanup env cfg c"
        using own_b oh Inr' vh by (auto simp: opt_list_def split: option.splits)
      have run: "plan_Run env cfg st = run_variants env cfg bsrc hsrc (opt_list bc @ opt_list hc) st2"
        using b h Inr vb Inr' vh by (simp add: plan_Run_def)
      have "ps_worktrees (after_cleanup env (plan_Run env cfg st)) = without (?B \<union> ?H) (ps_worktrees st2)"
        using run_variants_cleanup[of env cfg bsrc hsrc _ st2] assms(2) cleanup_all_worktrees[OF assms(1) own, of st2]
        unfolding run B(1) H(1) by (simp add: image_Un)
      also have "\<dots> = without ?B (without ?H (ps_worktrees st2))" by simp
      also have "\<dots> = without ?H (without ?B (ps_worktrees st1))" unfolding H(2) by (simp add: Un_commute)
      also have "\<dots> = without (?B \<union> ?H) (ps_worktrees st)" unfolding B(2) by (simp add: Un_commute)
      finally show ?thesis by (intro exI[of _ "?B \<union> ?H"]) (auto simp: without_def)
    qed
  qed
qed

text \<open>A failed \<^verbatim>\<open>git worktree add\<close> leaves the directory that was made for the worktree.\<close>

lemma failed_add_leaves_directory:
  assumes "pe_MkdirAll env (wt_parent env repoRoot ref tag) = None" "pe_GitAdd env repoRoot (wt_dir env repoRoot ref tag) ref = Some e"
    "fs_Stat (pe_ev env (st\<lparr>ps_dirs := ps_dirs st @ [wt_parent env repoRoot ref tag]\<rparr>)) (wt_dir env repoRoot ref tag) = None"
  shows "wt_parent env repoRoot ref tag \<in> set (ps_dirs (snd (git_variant env absPath repoRoot ref tag st)))"
  using assms by (simp add: git_variant_def Let_def)

text \<open>A snapshot variant does not look at the configuration the caller asked for.\<close>

lemma snapshot_ignores_override:
  "runVariantFromSnapshot env (cfg\<lparr>pc_ConfigOverride := c\<rparr>) ref p = runVariantFromSnapshot env cfg ref p"
  by (cases "pe_snapshot env p") (simp_all add: runVariantFromSnapshot_def)

section \<open>A base without the manifests\<close>

lemma indexAll_NewWorld: "indexAll NewWorld = []"
  by (simp add: indexAll_def NewWorld_def indexByIdentity_def mfill_def)

lemma Diff_NewWorld:
  "dl_Removed (Diff NewWorld w) = [] \<and> dl_Modified (Diff NewWorld w) = []"
  by (simp add: Diff_def diff_maps_def indexAll_NewWorld sortChanges_def)

lemma plan_rules_silent:
  assumes "dl_Removed delta = []" "dl_Modified delta = []"
  shows "R26DestructiveDelete delta keys kinds = []" "R27ImmutableChange ff delta imf keys = []"
  using assms by (simp_all add: R26DestructiveDelete_def R27ImmutableChange_def)

text \<open>
  When the manifest path does not exist on the base side, a plan that succeeds reports
  nothing removed, nothing modified and no destructive change, and the base side carries
  only the informational diagnostic that says so.
\<close>

theorem Run_base_missing:
  assumes "fst (plan_Run env cfg st) = RunOk p cs"
    "resolveVariant env (pc_BaseRef cfg) (pc_Path cfg) ''base'' st = (Inr (\<lparr>vs_Kind = ''directory'', vs_Path = dir\<rparr>, bc), st1)"
    "\<And>s. pe_NotExist env s dir"
  shows "dl_Removed (pn_Delta p) = [] \<and> dl_Modified (pn_Delta p) = [] \<and> pn_Diagnostics p = [] \<and>
    vr_Diagnostics (pn_Base p) = [path_missing_diag dir] \<and> dl_Added (pn_Delta p) = dl_Added (Diff NewWorld (vr_World (pn_Head p)))"
proof -
  obtain rh st2 where h: "resolveVariant env (pc_HeadRef cfg) (pc_Path cfg) ''head'' st1 = (rh, st2)" by fastforce
  then obtain hsrc hc where rh: "rh = Inr (hsrc, hc)"
    using assms(1,2) by (cases rh) (auto simp: plan_Run_def)
  let ?b = "\<lparr>vr_Ref = pc_BaseRef cfg, vr_ResolvedDir = dir, vr_World = NewWorld, vr_Diagnostics = [path_missing_diag dir]\<rparr>"
  have "runVariantFromSource env st2 cfg (pc_BaseRef cfg) \<lparr>vs_Kind = ''directory'', vs_Path = dir\<rparr> = Some (Inr ?b)"
    using assms(3) by (simp add: runVariantFromSource_def runVariant_def)
  then obtain hr where "p = make_plan (be_ff (pe_build env)) ?b hr"
    using assms(1,2) h rh by (auto simp: plan_Run_def run_variants_def split: option.splits sum.splits)
  then show ?thesis using Diff_NewWorld[of "vr_World hr"] plan_rules_silent[of "Diff NewWorld (vr_World hr)"]
    by (simp add: make_plan_def Let_def)
qed

section \<open>Witnesses\<close>

definition demo_penv :: "sexp PlanEnv" where
  "demo_penv =
     \<lparr>pe_ev = (\<lambda>_. \<lparr>fs_Getwd = Some ''/r'', fs_Stat = (\<lambda>p. if p = ''/r/.git'' then Some ModeDir else None),
                    ev_Executable = None, ev_EvalSymlinks = (\<lambda>_. None), ev_ReadFile = (\<lambda>_. Inl [])\<rparr>),
      pe_NotExist = (\<lambda>_ _. True), pe_load = (\<lambda>_ _. Inr []), pe_yaml = demo_yaml, pe_build = demo_build_env,
      pe_host = \<lparr>hs_tick = 0, hs_disk = []\<rparr>, pe_kl = sexp_kl, pe_initShen = (\<lambda>_. None), pe_checkWorld = (\<lambda>x. x),
      pe_snapshot = (\<lambda>_. Inl []), pe_sha = rev, pe_TempDir = ''/tmp'', pe_MkdirAll = (\<lambda>_. None),
      pe_GitAdd = (\<lambda>_ _ _. None), pe_GitRemove = (\<lambda>st repo d. d \<in> fst ` set (ps_worktrees st)), pe_RemoveAll = (\<lambda>_. True)\<rparr>"

definition demo_pcfg :: PlanConfig where
  "demo_pcfg =
     \<lparr>pc_BaseRef = ''v1'', pc_HeadRef = ''v2'', pc_Path = ''app'',
      pc_Checker = \<lparr>ck_StrictConversions = False, ck_KernelPath = [], ck_RuleAllowlist = [], ck_ProfileRules = False\<rparr>,
      pc_SkipRender = True, pc_HelmBin = [], pc_HelmCacheDir = [], pc_KustomizeBin = [], pc_CrossplaneBin = [],
      pc_SkipAppSetExpand = False, pc_SSAMPMode = [], pc_AppSetFixtures = None, pc_ConfigOverride = None\<rparr>"

definition demo_pst :: PState where
  "demo_pst = \<lparr>ps_worktrees = [(''/w'', ''main'')], ps_dirs = []\<rparr>"

lemma demo_resolve:
  assumes "ref = ''v1'' \<or> ref = ''v2''"
  shows "\<exists>dir c st'. resolveVariant demo_penv ref ''app'' tag st = (Inr (\<lparr>vs_Kind = ''directory'', vs_Path = dir\<rparr>, c), st')"
proof -
  have env: "pe_ev demo_penv st = \<lparr>fs_Getwd = Some ''/r'', fs_Stat = (\<lambda>p. if p = ''/r/.git'' then Some ModeDir else None),
      ev_Executable = None, ev_EvalSymlinks = (\<lambda>_. None), ev_ReadFile = (\<lambda>_. Inl [])\<rparr>" for st
    by (simp add: demo_penv_def)
  have abs: "ev_Abs (pe_ev demo_penv st) ''app'' = Some ''/r/app''" for st unfolding env by code_simp
  have root: "plan_findRepoRoot (pe_ev demo_penv st) ''/r/app'' = Inr ''/r''" for st unfolding env by code_simp
  have rel: "Rel ''/r'' ''/r/app'' = Some ''app''" by code_simp
  have disk: "variant_on_disk demo_penv st ref = None" if "ref \<noteq> ''/r/.git''" for st ref
    using that by (simp add: variant_on_disk_def env)
  have mk: "pe_MkdirAll demo_penv d = None" and add: "pe_GitAdd demo_penv a d c = None" for a c d by (simp_all add: demo_penv_def)
  show ?thesis
    using assms disk[of ref st] by (auto simp: resolveVariant_def git_variant_def Let_def abs root rel mk add)
qed

lemma demo_missing: "pe_NotExist demo_penv st dir"
  by (simp add: demo_penv_def)

lemma demo_run:
  assumes "pc_BaseRef cfg = ''v1''" "pc_HeadRef cfg = ''v2''" "pc_Path cfg = ''app''"
  shows "\<exists>p cs. fst (plan_Run demo_penv cfg st) = RunOk p cs"
proof -
  obtain dir bc st1 where b: "resolveVariant demo_penv ''v1'' ''app'' ''base'' st =
     (Inr (\<lparr>vs_Kind = ''directory'', vs_Path = dir\<rparr>, bc), st1)" using demo_resolve by blast
  obtain dir' hc st2 where h: "resolveVariant demo_penv ''v2'' ''app'' ''head'' st1 =
     (Inr (\<lparr>vs_Kind = ''directory'', vs_Path = dir'\<rparr>, hc), st2)" using demo_resolve by blast
  show ?thesis by (simp add: plan_Run_def assms b h run_variants_def runVariantFromSource_def runVariant_def demo_missing)
qed

lemma demo_pcfg_refs [simp]: "pc_BaseRef demo_pcfg = ''v1''" "pc_HeadRef demo_pcfg = ''v2''" "pc_Path demo_pcfg = ''app''"
  by (simp_all add: demo_pcfg_def)

text \<open>An aborted run has left its base worktree registered.\<close>

definition demo_stale :: PState where
  "demo_stale = \<lparr>ps_worktrees = [(''/w'', ''main''), (wt_dir demo_penv ''/r'' ''v1'' ''base'', ''v1'')], ps_dirs = []\<rparr>"

theorem plan_Run_restores_worktrees_witness:
  "(''/w'', ''main'') \<in> set (ps_worktrees (after_cleanup demo_penv (plan_Run demo_penv demo_pcfg demo_stale))) \<and>
   (wt_dir demo_penv ''/r'' ''v1'' ''base'', ''v1'') \<notin> set (ps_worktrees (after_cleanup demo_penv (plan_Run demo_penv demo_pcfg demo_stale)))"
proof -
  have ok: "removals_ok demo_penv demo_pcfg" by (simp add: removals_ok_def demo_penv_def)
  obtain p cs where r: "fst (plan_Run demo_penv demo_pcfg demo_stale) = RunOk p cs" using demo_run[of demo_pcfg demo_stale] by auto
  have env: "pe_ev demo_penv st = \<lparr>fs_Getwd = Some ''/r'', fs_Stat = (\<lambda>p. if p = ''/r/.git'' then Some ModeDir else None),
      ev_Executable = None, ev_EvalSymlinks = (\<lambda>_. None), ev_ReadFile = (\<lambda>_. Inl [])\<rparr>" for st
    by (simp add: demo_penv_def)
  have abs: "ev_Abs (pe_ev demo_penv st) ''app'' = Some ''/r/app''" for st unfolding env by code_simp
  have root: "plan_findRepoRoot (pe_ev demo_penv st) ''/r/app'' = Inr ''/r''" for st unfolding env by code_simp
  have disk: "variant_on_disk demo_penv st ''v1'' = None" "variant_on_disk demo_penv st ''v2'' = None" for st
    by (simp_all add: variant_on_disk_def env)
  have places: "base_place demo_penv demo_pcfg demo_stale = {wt_dir demo_penv ''/r'' ''v1'' ''base''}"
    "head_place demo_penv demo_pcfg demo_stale = {wt_dir demo_penv ''/r'' ''v2'' ''head''}"
    by (simp_all add: base_place_def head_place_def git_place_def abs root disk)
  have other: "wt_dir demo_penv ''/r'' ''v1'' ''base'' \<noteq> ''/w''" "wt_dir demo_penv ''/r'' ''v2'' ''head'' \<noteq> ''/w''"
    by (code_simp)+
  obtain D where D: "ps_worktrees (after_cleanup demo_penv (plan_Run demo_penv demo_pcfg demo_stale)) =
      filter (\<lambda>e. fst e \<notin> D) (ps_worktrees demo_stale)"
    "D \<subseteq> {wt_dir demo_penv ''/r'' ''v1'' ''base'', wt_dir demo_penv ''/r'' ''v2'' ''head''}" "wt_dir demo_penv ''/r'' ''v1'' ''base'' \<in> D"
    using plan_Run_restores_worktrees[OF ok, of demo_stale, unfolded r failed_resolving_def places] by auto
  have "''/w'' \<notin> D" using D(2) other by auto
  then show ?thesis unfolding D(1) using D(3) by (simp add: demo_stale_def)
qed

theorem Run_base_missing_witness:
  "\<exists>p cs. fst (plan_Run demo_penv demo_pcfg demo_pst) = RunOk p cs \<and> pn_Diagnostics p = [] \<and> dl_Removed (pn_Delta p) = []"
proof -
  obtain dir bc st1 where b: "resolveVariant demo_penv (pc_BaseRef demo_pcfg) (pc_Path demo_pcfg) ''base'' demo_pst =
     (Inr (\<lparr>vs_Kind = ''directory'', vs_Path = dir\<rparr>, bc), st1)" using demo_resolve[of "''v1''" "''base''" demo_pst] by auto
  obtain p cs where r: "fst (plan_Run demo_penv demo_pcfg demo_pst) = RunOk p cs" using demo_run[of demo_pcfg demo_pst] by auto
  show ?thesis using Run_base_missing[OF r b demo_missing] r by blast
qed

end
