(* ===== verification/KernelDir.thy ===== *)
theory KernelDir
  imports Discover GoJson
begin

text \<open>
  \<^verbatim>\<open>resolveOrMaterialiseKernel\<close> of \<^verbatim>\<open>pkg/checker/bridge.go\<close>: the embedded kernel is
  published into a directory that every xpc process on the machine shares.  A process
  is a state machine whose steps are its file operations, each of which may fail; any
  number of processes interleave.
\<close>

section \<open>The embedded kernel\<close>

text \<open>\<^verbatim>\<open>kernel.FS\<close>: its directory listing (with the directory bit) and \<^verbatim>\<open>kernel.Read\<close>.\<close>

record Embed =
  em_ReadDir :: "string + (string \<times> bool) list"
  em_Read :: "string \<Rightarrow> string option"

definition kernel_files :: "Embed \<Rightarrow> (string \<times> bool) list \<Rightarrow> (string \<times> string) list" where
  "kernel_files em entries =
     concat (map (\<lambda>(n, isDir). if isDir then [] else case em_Read em n of None \<Rightarrow> [] | Some d \<Rightarrow> [(n, d)]) entries)"

definition kernel_digest :: "(string \<Rightarrow> string) \<Rightarrow> (string \<times> string) list \<Rightarrow> string" where
  "kernel_digest sha files =
     take 16 (sha (concat (map (\<lambda>(n, d). n @ NUL @ Itoa (int (length d)) @ NUL @ d) files)))"

definition kernel_dir :: "string \<Rightarrow> string \<Rightarrow> string" where
  "kernel_dir tempRoot digest = JoinPath [tempRoot, ''xpc-kernel-'' @ digest]"

definition kernel_marker :: string where
  "kernel_marker = ''.xpc-kernel-digest''"

text \<open>
  What a call comes to: an explicit path is taken as it is, an unreadable embedded
  directory is an error, and otherwise the files are published into the directory that
  their digest names.
\<close>

datatype KernelRequest = Explicit string | EmbedError string | Publish string string "(string \<times> string) list"

definition resolveOrMaterialiseKernel :: "(string \<Rightarrow> string) \<Rightarrow> Embed \<Rightarrow> string \<Rightarrow> string \<Rightarrow> KernelRequest" where
  "resolveOrMaterialiseKernel sha em tempRoot explicitPath =
     (if explicitPath \<noteq> [] then Explicit explicitPath
      else case em_ReadDir em of
        Inl e \<Rightarrow> EmbedError (''read embedded kernel: '' @ e)
      | Inr entries \<Rightarrow>
          let files = kernel_files em entries; digest = kernel_digest sha files
          in Publish (kernel_dir tempRoot digest) digest files)"

section \<open>One process\<close>

datatype Phase =
    PRead | PMkdir | PTemp | PStage nat | PPublish nat | PRecheck | PTruncate | PFill
  | PDone | PError string

text \<open>The shared directory is the map from the names in it to their contents; the staging directory is private.\<close>

type_synonym kdir = "(string \<times> string) list"

record KProc =
  kp_phase :: Phase
  kp_staging :: kdir

definition finish_extract :: "Phase \<Rightarrow> KProc" where
  "finish_extract ph = \<lparr>kp_phase = ph, kp_staging = []\<rparr>"

text \<open>
  The marker is written by \<^verbatim>\<open>os.WriteFile\<close>, which empties the file before it fills it and
  may fail after any part of the text.  Every return removes the staging directory.
\<close>

inductive kstep :: "(string \<times> string) list \<Rightarrow> string \<Rightarrow> kdir \<times> KProc \<Rightarrow> kdir \<times> KProc \<Rightarrow> bool"
  for files :: "(string \<times> string) list" and digest :: string where
  read_hit: "kp_phase p = PRead \<Longrightarrow> map_of d kernel_marker = Some digest \<Longrightarrow> kstep files digest (d, p) (d, finish_extract PDone)"
| read_miss: "kp_phase p = PRead \<Longrightarrow> map_of d kernel_marker \<noteq> Some digest \<Longrightarrow> kstep files digest (d, p) (d, p\<lparr>kp_phase := PMkdir\<rparr>)"
| mkdir: "kp_phase p = PMkdir \<Longrightarrow> kstep files digest (d, p) (d, p\<lparr>kp_phase := PTemp\<rparr>)"
| temp: "kp_phase p = PTemp \<Longrightarrow> kstep files digest (d, p) (d, \<lparr>kp_phase = PStage 0, kp_staging = []\<rparr>)"
| stage: "kp_phase p = PStage i \<Longrightarrow> i < length files \<Longrightarrow>
    kstep files digest (d, p)
      (d, \<lparr>kp_phase = PStage (Suc i), kp_staging = mput (fst (files ! i)) (snd (files ! i)) (kp_staging p)\<rparr>)"
| staged: "kp_phase p = PStage i \<Longrightarrow> i \<ge> length files \<Longrightarrow> kstep files digest (d, p) (d, p\<lparr>kp_phase := PPublish 0\<rparr>)"
| publish: "kp_phase p = PPublish i \<Longrightarrow> i < length files \<Longrightarrow> map_of (kp_staging p) (fst (files ! i)) = Some c \<Longrightarrow>
    kstep files digest (d, p)
      (mput (fst (files ! i)) c d, \<lparr>kp_phase = PPublish (Suc i), kp_staging = mdel (fst (files ! i)) (kp_staging p)\<rparr>)"
| published: "kp_phase p = PPublish i \<Longrightarrow> i \<ge> length files \<Longrightarrow> kstep files digest (d, p) (d, p\<lparr>kp_phase := PRecheck\<rparr>)"
| recheck_hit: "kp_phase p = PRecheck \<Longrightarrow> map_of d kernel_marker = Some digest \<Longrightarrow> kstep files digest (d, p) (d, finish_extract PDone)"
| recheck_miss: "kp_phase p = PRecheck \<Longrightarrow> map_of d kernel_marker \<noteq> Some digest \<Longrightarrow>
    kstep files digest (d, p) (d, p\<lparr>kp_phase := PTruncate\<rparr>)"
| truncate: "kp_phase p = PTruncate \<Longrightarrow> kstep files digest (d, p) (mput kernel_marker [] d, p\<lparr>kp_phase := PFill\<rparr>)"
| fill: "kp_phase p = PFill \<Longrightarrow> kstep files digest (d, p) (mput kernel_marker digest d, finish_extract PDone)"
| fill_error: "kp_phase p = PFill \<Longrightarrow>
    kstep files digest (d, p) (mput kernel_marker (take k digest) d, finish_extract (PError ''write digest kernel_marker''))"
| os_error: "kp_phase p \<in> {PMkdir, PTemp, PStage i, PPublish i, PTruncate} \<Longrightarrow>
    kstep files digest (d, p) (d, finish_extract (PError msg))"

inductive_cases kstepE: "kstep files digest (d, p) (d', p')"

section \<open>Any number of processes\<close>

record KSys =
  ky_dir :: kdir
  ky_procs :: "KProc list"

inductive sys_step :: "(string \<times> string) list \<Rightarrow> string \<Rightarrow> KSys \<Rightarrow> KSys \<Rightarrow> bool"
  for files :: "(string \<times> string) list" and digest :: string where
  "i < length (ky_procs s) \<Longrightarrow> kstep files digest (ky_dir s, ky_procs s ! i) (d', p') \<Longrightarrow>
   sys_step files digest s \<lparr>ky_dir = d', ky_procs = (ky_procs s)[i := p']\<rparr>"

definition start_proc :: KProc where
  "start_proc = \<lparr>kp_phase = PRead, kp_staging = []\<rparr>"

text \<open>What an earlier run, finished or aborted, may have left behind: anything, but no marker without its files.\<close>

definition complete :: "(string \<times> string) list \<Rightarrow> kdir \<Rightarrow> bool" where
  "complete files d = (\<forall>(n, c) \<in> set files. map_of d n = Some c)"

definition sound_dir :: "(string \<times> string) list \<Rightarrow> string \<Rightarrow> kdir \<Rightarrow> bool" where
  "sound_dir files digest d = (map_of d kernel_marker = Some digest \<longrightarrow> complete files d)"

definition start_sys :: "kdir \<Rightarrow> nat \<Rightarrow> KSys" where
  "start_sys d n = \<lparr>ky_dir = d, ky_procs = replicate n start_proc\<rparr>"

section \<open>The invariant\<close>

definition first_in :: "nat \<Rightarrow> (string \<times> string) list \<Rightarrow> kdir \<Rightarrow> bool" where
  "first_in i files d = (\<forall>(n, c) \<in> set (take i files). map_of d n = Some c)"

definition rest_in :: "nat \<Rightarrow> (string \<times> string) list \<Rightarrow> kdir \<Rightarrow> bool" where
  "rest_in i files d = (\<forall>(n, c) \<in> set (drop i files). map_of d n = Some c)"

fun proc_ok :: "(string \<times> string) list \<Rightarrow> kdir \<Rightarrow> Phase \<Rightarrow> kdir \<Rightarrow> bool" where
  "proc_ok files d (PStage i) st = first_in i files st"
| "proc_ok files d (PPublish i) st = (first_in i files d \<and> rest_in i files st)"
| "proc_ok files d PRecheck st = complete files d"
| "proc_ok files d PTruncate st = complete files d"
| "proc_ok files d PFill st = complete files d"
| "proc_ok files d PDone st = complete files d"
| "proc_ok files d _ st = True"

definition sys_ok :: "(string \<times> string) list \<Rightarrow> string \<Rightarrow> KSys \<Rightarrow> bool" where
  "sys_ok files digest s =
     (sound_dir files digest (ky_dir s) \<and>
      (\<forall>p \<in> set (ky_procs s). proc_ok files (ky_dir s) (kp_phase p) (kp_staging p)))"

definition wf_kernel :: "(string \<times> string) list \<Rightarrow> bool" where
  "wf_kernel files = (distinct (map fst files) \<and> kernel_marker \<notin> fst ` set files)"

lemma first_in_full: "i \<ge> length files \<Longrightarrow> first_in i files d \<longleftrightarrow> complete files d"
  by (simp add: first_in_def complete_def)

lemma take_Suc_files: "i < length files \<Longrightarrow> set (take (Suc i) files) = insert (files ! i) (set (take i files))"
  by (simp add: take_Suc_conv_app_nth)

lemma wf_content:
  "wf_kernel files \<Longrightarrow> i < length files \<Longrightarrow> (fst (files ! i), c) \<in> set files \<Longrightarrow> c = snd (files ! i)"
  by (metis (no_types) eq_key_imp_eq_value nth_mem prod.collapse wf_kernel_def)

text \<open>Writing a file's own contents keeps what is already in place.\<close>

lemma put_keeps:
  assumes "wf_kernel files" "i < length files" "S \<subseteq> set files" "\<forall>(n, c) \<in> S. map_of d n = Some c"
  shows "\<forall>(n, c) \<in> S. map_of (mput (fst (files ! i)) (snd (files ! i)) d) n = Some c"
proof (clarify)
  fix n c assume nc: "(n, c) \<in> S"
  show "map_of (mput (fst (files ! i)) (snd (files ! i)) d) n = Some c"
  proof (cases "n = fst (files ! i)")
    case True
    then show ?thesis using wf_content[OF assms(1,2), of c] nc assms(3) by auto
  next
    case False
    then show ?thesis using nc assms(4) by auto
  qed
qed

lemma marker_keeps:
  assumes "wf_kernel files" "S \<subseteq> set files" "\<forall>(n, c) \<in> S. map_of d n = Some c"
  shows "\<forall>(n, c) \<in> S. map_of (mput kernel_marker m d) n = Some c"
  using assms by (force simp: wf_kernel_def)

lemma take_drop_subset: "set (take i xs) \<subseteq> set xs" "set (drop i xs) \<subseteq> set xs"
  by (simp_all add: set_take_subset set_drop_subset)

text \<open>The ways a step changes the shared directory.\<close>

inductive grows :: "(string \<times> string) list \<Rightarrow> kdir \<Rightarrow> kdir \<Rightarrow> bool" for files where
  same: "grows files d d"
| file_put: "i < length files \<Longrightarrow> grows files d (mput (fst (files ! i)) (snd (files ! i)) d)"
| marker_put: "grows files d (mput kernel_marker m d)"

lemma grows_keeps:
  assumes "grows files d d'" "wf_kernel files" "S \<subseteq> set files" "\<forall>(n, c) \<in> S. map_of d n = Some c"
  shows "\<forall>(n, c) \<in> S. map_of d' n = Some c"
  using assms(1)
proof cases
  case (file_put i)
  then show ?thesis using put_keeps[OF assms(2) _ assms(3,4)] by simp
next
  case (marker_put m)
  then show ?thesis using marker_keeps[OF assms(2,3,4)] by simp
qed (use assms(4) in simp)

lemma grows_complete: "grows files d d' \<Longrightarrow> wf_kernel files \<Longrightarrow> complete files d \<Longrightarrow> complete files d'"
  unfolding complete_def by (rule grows_keeps) auto

lemma grows_first_in: "grows files d d' \<Longrightarrow> wf_kernel files \<Longrightarrow> first_in i files d \<Longrightarrow> first_in i files d'"
  unfolding first_in_def by (rule grows_keeps[OF _ _ take_drop_subset(1)])

lemma grows_proc_ok:
  "grows files d d' \<Longrightarrow> wf_kernel files \<Longrightarrow> proc_ok files d ph st \<Longrightarrow> proc_ok files d' ph st"
  by (cases ph) (auto intro: grows_complete grows_first_in)

lemma rest_in_nth: "rest_in i files st \<Longrightarrow> i < length files \<Longrightarrow> map_of st (fst (files ! i)) = Some (snd (files ! i))"
  by (force simp: rest_in_def Cons_nth_drop_Suc[symmetric])

lemma rest_in_mdel:
  assumes "wf_kernel files" "i < length files" "rest_in i files st"
  shows "rest_in (Suc i) files (mdel (fst (files ! i)) st)"
proof -
  have "fst (files ! i) \<notin> fst ` set (drop (Suc i) files)"
    using assms(1,2) by (metis distinct.simps(2) drop_map Cons_nth_drop_Suc distinct_drop length_map list.set_map nth_map wf_kernel_def)
  then show ?thesis using assms(2,3) by (force simp: rest_in_def Cons_nth_drop_Suc[symmetric])
qed

lemma first_in_Suc: "i < length files \<Longrightarrow>
  first_in (Suc i) files d \<longleftrightarrow> first_in i files d \<and> map_of d (fst (files ! i)) = Some (snd (files ! i))"
  by (auto simp: first_in_def take_Suc_files split: prod.splits)

lemma first_in_put:
  "wf_kernel files \<Longrightarrow> i < length files \<Longrightarrow> first_in i files d \<Longrightarrow> first_in (Suc i) files (mput (fst (files ! i)) (snd (files ! i)) d)"
  using grows_first_in[OF grows.file_put] by (simp add: first_in_Suc)

lemma rest_in_content:
  "rest_in i files st \<Longrightarrow> map_of st (fst (files ! i)) = Some c \<Longrightarrow> i < length files \<Longrightarrow> c = snd (files ! i)"
  using rest_in_nth by fastforce

lemma kstep_grows:
  "kstep files digest (d, p) (d', p') \<Longrightarrow> proc_ok files d (kp_phase p) (kp_staging p) \<Longrightarrow> grows files d d'"
  by (erule kstepE) (auto intro: grows.intros dest!: rest_in_content)

lemma kstep_proc_ok:
  assumes "kstep files digest (d, p) (d', p')" "wf_kernel files" "sound_dir files digest d"
    "proc_ok files d (kp_phase p) (kp_staging p)"
  shows "proc_ok files d' (kp_phase p') (kp_staging p')"
proof -
  have m: "complete files d \<Longrightarrow> complete files (mput kernel_marker x d)" for x
    by (rule grows_complete[OF grows.marker_put assms(2)])
  have z: "first_in 0 files st" and full: "first_in (length files) files st \<longleftrightarrow> complete files st" for st
    by (simp_all add: first_in_def complete_def)
  have start: "rest_in 0 files st \<longleftrightarrow> complete files st" for st by (simp add: rest_in_def complete_def)
  show ?thesis using assms(1,3,4)
    by (elim kstepE)
       (auto simp: finish_extract_def sound_dir_def first_in_full z start m first_in_put[OF assms(2)] rest_in_mdel[OF assms(2)]
         dest!: rest_in_content)
qed

lemma kstep_sound:
  assumes "kstep files digest (d, p) (d', p')" "wf_kernel files" "sound_dir files digest d"
    "proc_ok files d (kp_phase p) (kp_staging p)"
  shows "sound_dir files digest d'"
proof -
  have ok: "complete files d \<Longrightarrow> complete files d'"
    using grows_complete[OF kstep_grows[OF assms(1,4)] assms(2)] .
  have nm: "fst (files ! i) \<noteq> kernel_marker" if "i < length files" for i
    using assms(2) that by (metis image_eqI nth_mem wf_kernel_def)
  show ?thesis using assms(1,3,4) ok by (elim kstepE) (auto simp: sound_dir_def dest: nm split: if_splits)
qed

lemma sys_step_ok: "sys_step files digest s s' \<Longrightarrow> wf_kernel files \<Longrightarrow> sys_ok files digest s \<Longrightarrow> sys_ok files digest s'"
proof (induction rule: sys_step.induct)
  case (1 i s d' p')
  let ?p = "ky_procs s ! i"
  have p: "proc_ok files (ky_dir s) (kp_phase ?p) (kp_staging ?p)" "sound_dir files digest (ky_dir s)"
    using 1 by (auto simp: sys_ok_def)
  have g: "grows files (ky_dir s) d'" by (rule kstep_grows[OF 1(2) p(1)])
  have "proc_ok files d' (kp_phase q) (kp_staging q)" if "q \<in> set ((ky_procs s)[i := p'])" for q
  proof (cases "q = p'")
    case True
    then show ?thesis using kstep_proc_ok[OF 1(2) 1(3) p(2,1)] by simp
  next
    case False
    then have "q \<in> set (ky_procs s)" using that set_update_subset_insert by fastforce
    then show ?thesis using grows_proc_ok[OF g 1(3)] 1(4) by (simp add: sys_ok_def)
  qed
  then show ?case using kstep_sound[OF 1(2) 1(3) p(2,1)] by (simp add: sys_ok_def)
qed

lemma reachable_ok:
  "(sys_step files digest)\<^sup>*\<^sup>* s s' \<Longrightarrow> wf_kernel files \<Longrightarrow> sys_ok files digest s \<Longrightarrow> sys_ok files digest s'"
  by (induction rule: rtranclp_induct) (auto intro: sys_step_ok)

lemma start_ok: "sound_dir files digest d \<Longrightarrow> sys_ok files digest (start_sys d n)"
  by (auto simp: sys_ok_def start_sys_def start_proc_def)

text \<open>
  C34: however many processes publish the kernel at once, however their file operations
  interleave and wherever some of them fail, a process that returns the directory
  returns one in which every embedded file has exactly its embedded contents, and so
  does a later process that trusts the marker.
\<close>

theorem kernel_published_complete:
  assumes "wf_kernel files" "sound_dir files digest d"
    "(sys_step files digest)\<^sup>*\<^sup>* (start_sys d n) s"
  shows "(map_of (ky_dir s) kernel_marker = Some digest \<longrightarrow> complete files (ky_dir s)) \<and>
    (\<forall>p \<in> set (ky_procs s). kp_phase p = PDone \<longrightarrow> complete files (ky_dir s))"
proof -
  have "sys_ok files digest s" by (rule reachable_ok[OF assms(3,1) start_ok[OF assms(2)]])
  then show ?thesis by (force simp: sys_ok_def sound_dir_def)
qed

section \<open>A process finishes\<close>

fun phase_left :: "nat \<Rightarrow> Phase \<Rightarrow> nat" where
  "phase_left n PRead = 2 * n + 9"
| "phase_left n PMkdir = 2 * n + 8"
| "phase_left n PTemp = 2 * n + 7"
| "phase_left n (PStage i) = n + 6 + (n - i)"
| "phase_left n (PPublish i) = 5 + (n - i)"
| "phase_left n PRecheck = 3"
| "phase_left n PTruncate = 2"
| "phase_left n PFill = 1"
| "phase_left n _ = 0"

lemma kstep_decreases:
  "kstep files digest (d, p) (d', p') \<Longrightarrow> phase_left (length files) (kp_phase p') < phase_left (length files) (kp_phase p)"
  by (erule kstepE) (auto simp: finish_extract_def)

text \<open>A process that has not returned can always go on, and only a return stops it.\<close>

lemma progressI:
  "kstep files digest (d, p) (d', p') \<Longrightarrow> (\<And>m. kp_phase p' \<noteq> PError m) \<Longrightarrow>
   \<exists>d' p'. kstep files digest (d, p) (d', p') \<and> (\<forall>m. kp_phase p' \<noteq> PError m)"
  by blast

lemma kstep_progress:
  assumes "proc_ok files d (kp_phase p) (kp_staging p)" "phase_left (length files) (kp_phase p) > 0"
  shows "\<exists>d' p'. kstep files digest (d, p) (d', p') \<and> (\<forall>m. kp_phase p' \<noteq> PError m)"
proof (cases "kp_phase p")
  case (PStage i)
  show ?thesis
  proof (cases "i < length files")
    case True
    then show ?thesis by (intro progressI[OF kstep.stage[OF PStage]]) simp_all
  next
    case False
    then show ?thesis by (intro progressI[OF kstep.staged[OF PStage]]) simp_all
  qed
next
  case (PPublish i)
  show ?thesis
  proof (cases "i < length files")
    case True
    then have "map_of (kp_staging p) (fst (files ! i)) = Some (snd (files ! i))"
      using assms(1) PPublish rest_in_nth by simp
    then show ?thesis by (rule progressI[OF kstep.publish[OF PPublish True]]) simp
  next
    case False
    then show ?thesis by (intro progressI[OF kstep.published[OF PPublish]]) simp_all
  qed
next
  case PRead
  show ?thesis
  proof (cases "map_of d kernel_marker = Some digest")
    case True
    then show ?thesis by (intro progressI[OF kstep.read_hit[OF PRead]]) (simp_all add: finish_extract_def)
  next
    case False
    then show ?thesis by (intro progressI[OF kstep.read_miss[OF PRead]]) simp_all
  qed
next
  case PRecheck
  show ?thesis
  proof (cases "map_of d kernel_marker = Some digest")
    case True
    then show ?thesis by (intro progressI[OF kstep.recheck_hit[OF PRecheck]]) (simp_all add: finish_extract_def)
  next
    case False
    then show ?thesis by (intro progressI[OF kstep.recheck_miss[OF PRecheck]]) simp_all
  qed
next
  case PMkdir
  then show ?thesis by (intro progressI[OF kstep.mkdir]) simp_all
next
  case PTemp
  then show ?thesis by (intro progressI[OF kstep.temp]) simp_all
next
  case PTruncate
  then show ?thesis by (intro progressI[OF kstep.truncate]) simp_all
next
  case PFill
  then show ?thesis by (intro progressI[OF kstep.fill]) (simp_all add: finish_extract_def)
qed (use assms(2) in simp_all)

section \<open>A race\<close>

definition demo_kernel :: "(string \<times> string) list" where
  "demo_kernel = [(''check.shen'', ''k'')]"

definition demo_race :: KSys where
  "demo_race = \<lparr>ky_dir = [(''check.shen'', ''k''), (kernel_marker, ''d'')], ky_procs = [finish_extract PDone, finish_extract PDone]\<rparr>"

lemma run_step:
  assumes "kstep files digest (d, ps ! i) (d', p')" "i < length ps"
    "(sys_step files digest)\<^sup>*\<^sup>* \<lparr>ky_dir = d', ky_procs = ps[i := p']\<rparr> s"
  shows "(sys_step files digest)\<^sup>*\<^sup>* \<lparr>ky_dir = d, ky_procs = ps\<rparr> s"
  using sys_step.intros[of i "\<lparr>ky_dir = d, ky_procs = ps\<rparr>" files digest d' p'] assms
  by (simp add: converse_rtranclp_into_rtranclp)

lemma demo_race_reached: "(sys_step demo_kernel ''d'')\<^sup>*\<^sup>* (start_sys [(''check.shen'', ''old'')] 2) demo_race"
  unfolding start_sys_def start_proc_def demo_race_def demo_kernel_def
  apply (rule run_step[where i = 0, OF kstep.read_miss], (simp add: kernel_marker_def numeral_2_eq_2)+)
  apply (rule run_step[where i = 0, OF kstep.mkdir], (simp add: kernel_marker_def numeral_2_eq_2)+)
  apply (rule run_step[where i = 0, OF kstep.temp], (simp add: kernel_marker_def numeral_2_eq_2)+)
  apply (rule run_step[where i = 0, OF kstep.stage], (simp add: kernel_marker_def numeral_2_eq_2)+)
  apply (rule run_step[where i = 0, OF kstep.staged], (simp add: kernel_marker_def numeral_2_eq_2)+)
  apply (rule run_step[where i = 0, OF kstep.publish], (simp add: kernel_marker_def numeral_2_eq_2)+)
  apply (rule run_step[where i = 0, OF kstep.published], (simp add: kernel_marker_def numeral_2_eq_2)+)
  apply (rule run_step[where i = 0, OF kstep.recheck_miss], (simp add: kernel_marker_def numeral_2_eq_2)+)
  apply (rule run_step[where i = 0, OF kstep.truncate], (simp add: kernel_marker_def numeral_2_eq_2)+)
  apply (rule run_step[where i = 0, OF kstep.fill], (simp add: kernel_marker_def numeral_2_eq_2)+)
  apply (rule run_step[where i = 1, OF kstep.read_hit], (simp add: kernel_marker_def numeral_2_eq_2)+)
  done

theorem kernel_published_complete_witness:
  "complete demo_kernel (ky_dir demo_race) \<and> map_of (ky_dir demo_race) ''check.shen'' = Some ''k''"
proof -
  have "wf_kernel demo_kernel" "sound_dir demo_kernel ''d'' [(''check.shen'', ''old'')]"
    by (simp_all add: wf_kernel_def demo_kernel_def kernel_marker_def sound_dir_def)
  from kernel_published_complete[OF this demo_race_reached]
  have "complete demo_kernel (ky_dir demo_race)" by (simp add: demo_race_def finish_extract_def)
  then show ?thesis by (simp add: complete_def demo_kernel_def)
qed

end
