(* ===== verification/AuditLog.thy ===== *)
theory AuditLog
  imports KernelDir
begin

text \<open>
  \<^verbatim>\<open>pkg/audit\<close>: the Merkle tree over the judgments of a check run.  SHA-256 is a
  parameter \<open>sha\<close>, the hexadecimal digest of a text.  A Go map is an association list;
  what the code prints in the order of a map takes that order as an argument.
\<close>

section \<open>Data\<close>

record RunSummary =
  ru_TotalObligations :: int
  ru_Satisfied :: int
  ru_Violated :: int
  ru_ObligationIDs :: "string list"

record ProofMetadata =
  pm_IRDigest :: string
  pm_SnapshotDigest :: string
  pm_KernelVersion :: string
  pm_RulesetVersion :: string
  pm_RulesetDigest :: string
  pm_Timestamp :: Time
  pm_SigningIdentity :: string
  pm_Signature :: string
  pm_Repo :: string
  pm_Commit :: string
  pm_Cluster :: string

record Judgment =
  jd_Status :: string
  jd_RuleID :: string
  jd_Resource :: string
  jd_Message :: string
  jd_ObligationID :: string
  jd_Category :: string
  jd_Generator :: string
  jd_Digest :: string

record RuleSubtree =
  rs_RuleID :: string
  rs_Digest :: string
  rs_Judgments :: "Judgment list"

record ResourceSubtree =
  es_ResourceKey :: string
  es_Digest :: string
  es_Judgments :: "Judgment list"

record Proof =
  pf_Version :: int
  pf_RootDigest :: string
  pf_Metadata :: ProofMetadata
  pf_Run :: "RunSummary option"
  pf_RuleSubtrees :: "(string \<times> RuleSubtree) list"
  pf_ResourceSubtrees :: "(string \<times> ResourceSubtree) list"
  pf_Tree :: "string list"

definition KernelVersion :: string where
  "KernelVersion = ''0.1.0''"

definition RulesetVersion :: string where
  "RulesetVersion = ''2026.04''"

definition KnownRuleIDs :: "string list" where
  "KnownRuleIDs =
     [''XPC000'', ''XPC001'', ''XPC002'', ''XPC003'', ''XPC004'', ''XPC005'', ''XPC006'', ''XPC007'',
      ''XPC008'', ''XPC009'', ''XPC010'', ''XPC011'', ''XPC012'', ''XPC013'', ''XPC014'',
      ''XPC.A.resource-field-valid'',
      ''XPC.D.kind-whitelisted'',
      ''XPC.E.appset-finalizer-without-preserve'',
      ''XPC.E.late-init-needs-ignore-diff'',
      ''XPC.E.prod-appset-autosync'',
      ''XPC.E.selector-needs-ignore-diff'',
      ''XPC.E.ssa-managementpolicies-nondefault'',
      ''XPC.E.ssa-managementpolicies-observe'',
      ''XPC.E.ssa-managementpolicies-partial'',
      ''XPC.H.appset-unsupported-generator'',
      ''XPC.H.composition-renders'',
      ''XPC.H.helm-renders'',
      ''XPC.H.kustomize-renders'',
      ''XPC.H.render-deterministic'',
      ''XPC.H.values-ref-remote'',
      ''XPC.H.values-ref-unknown'',
      ''XPC.H.values-well-typed'',
      ''XPC.P.cascade-risk'',
      ''XPC.P.destructive-delete'',
      ''XPC.P.immutable-change'',
      ''XPC.S.crossplane-state-needs-orphan'']"

section \<open>Hashes\<close>

definition hashBytes :: "(string \<Rightarrow> string) \<Rightarrow> string \<Rightarrow> string" where
  "hashBytes sha data = ''sha256:'' @ sha data"

definition judgment_text :: "Judgment \<Rightarrow> string" where
  "judgment_text j =
     jd_Status j @ ''|'' @ jd_RuleID j @ ''|'' @ jd_Resource j @ ''|'' @ jd_Message j @ ''|'' @
     jd_ObligationID j @ ''|'' @ jd_Category j @ ''|'' @ jd_Generator j"

definition hashJudgment :: "(string \<Rightarrow> string) \<Rightarrow> Judgment \<Rightarrow> string" where
  "hashJudgment sha j = hashBytes sha (judgment_text j)"

text \<open>What is written to the hash of the run summary.\<close>

definition summary_text :: "RunSummary \<Rightarrow> string" where
  "summary_text s =
     Itoa (ru_TotalObligations s) @ ''|'' @ Itoa (ru_Satisfied s) @ ''|'' @ Itoa (ru_Violated s) @ ''|'' @
     concat (map (\<lambda>i. i @ ''|'') (sort (ru_ObligationIDs s)))"

definition hashRunSummary :: "(string \<Rightarrow> string) \<Rightarrow> RunSummary \<Rightarrow> string" where
  "hashRunSummary sha s = hashBytes sha (summary_text s)"

definition hashRuleSubtree :: "(string \<Rightarrow> string) \<Rightarrow> RuleSubtree \<Rightarrow> string" where
  "hashRuleSubtree sha st = hashBytes sha (rs_RuleID st @ concat (map jd_Digest (rs_Judgments st)))"

definition hashResourceSubtree :: "(string \<Rightarrow> string) \<Rightarrow> ResourceSubtree \<Rightarrow> string" where
  "hashResourceSubtree sha st = hashBytes sha (es_ResourceKey st @ concat (map jd_Digest (es_Judgments st)))"

text \<open>\<^verbatim>\<open>json.Marshal(p.Metadata)\<close>.\<close>

definition metadata_json :: "ProofMetadata \<Rightarrow> string" where
  "metadata_json m =
     json_object
       (str_member ''irDigest'' (pm_IRDigest m) @ str_member ''snapshotDigest'' (pm_SnapshotDigest m) @
        str_member ''kernelVersion'' (pm_KernelVersion m) @ str_member ''rulesetVersion'' (pm_RulesetVersion m) @
        str_member ''rulesetDigest'' (pm_RulesetDigest m) @ str_member ''timestamp'' (RFC3339Nano (pm_Timestamp m)) @
        omitempty ''signingIdentity'' (pm_SigningIdentity m) @ omitempty ''signature'' (pm_Signature m) @
        omitempty ''repo'' (pm_Repo m) @ omitempty ''commit'' (pm_Commit m) @ omitempty ''cluster'' (pm_Cluster m))"

section \<open>The Merkle tree\<close>

text \<open>One pass of the loop over a level: neighbours are hashed together, an odd last node with itself.\<close>

fun merkle_level :: "(string \<Rightarrow> string) \<Rightarrow> string list \<Rightarrow> string list" where
  "merkle_level sha [] = []"
| "merkle_level sha [a] = [hashBytes sha (a @ a)]"
| "merkle_level sha (a # b # rest) = hashBytes sha (a @ b) # merkle_level sha rest"

lemma merkle_level_length [simp]: "length (merkle_level sha xs) = (length xs + 1) div 2"
  by (induction sha xs rule: merkle_level.induct) auto

function merkle_loop :: "(string \<Rightarrow> string) \<Rightarrow> string list \<Rightarrow> string list" where
  "merkle_loop sha level = (if length level \<le> 1 then level else merkle_loop sha (merkle_level sha level))"
  by pat_completeness auto
termination
  by (relation "measure (\<lambda>(sha, level). length level)") auto

declare merkle_loop.simps [simp del]

definition computeMerkleRoot :: "(string \<Rightarrow> string) \<Rightarrow> string list \<Rightarrow> string" where
  "computeMerkleRoot sha leaves =
     (case leaves of [] \<Rightarrow> hashBytes sha ''empty'' | [l] \<Rightarrow> l | _ \<Rightarrow> hd (merkle_loop sha leaves))"

definition sorted_entries :: "(string \<times> 'v) list \<Rightarrow> 'v list" where
  "sorted_entries m = map (\<lambda>k. the (map_of m k)) (sort (map fst m))"

definition proof_leaves :: "(string \<Rightarrow> string) \<Rightarrow> Proof \<Rightarrow> string list" where
  "proof_leaves sha p =
     hashBytes sha (metadata_json (pf_Metadata p)) #
     (case pf_Run p of None \<Rightarrow> [] | Some r \<Rightarrow> [hashRunSummary sha r]) @
     map rs_Digest (sorted_entries (pf_RuleSubtrees p)) @
     map es_Digest (sorted_entries (pf_ResourceSubtrees p))"

definition merkleTree :: "(string \<Rightarrow> string) \<Rightarrow> Proof \<Rightarrow> string list \<times> string" where
  "merkleTree sha p = (proof_leaves sha p, computeMerkleRoot sha (proof_leaves sha p))"

definition buildMerkleTree :: "(string \<Rightarrow> string) \<Rightarrow> Proof \<Rightarrow> Proof" where
  "buildMerkleTree sha p =
     (let (leaves, r) = merkleTree sha p in p\<lparr>pf_Tree := leaves, pf_RootDigest := r\<rparr>)"

section \<open>Generation\<close>

definition judgment_status :: "Severity \<Rightarrow> string" where
  "judgment_status s = (if s = SeverityError then ''error'' else if s = SeverityWarning then ''warning'' else ''ok'')"

definition judgment_of :: "(string \<Rightarrow> string) \<Rightarrow> Diagnostic \<Rightarrow> Judgment" where
  "judgment_of sha d =
     (let (i, c, g) = (case dg_Obligation d of
                         None \<Rightarrow> ([], [], [])
                       | Some ob \<Rightarrow> (ob_ID ob, ob_Category ob, ob_Generator ob));
          j = \<lparr>jd_Status = judgment_status (dg_Severity d), jd_RuleID = dg_Code d,
               jd_Resource = sl_File (dg_Source d) @ '':'' @ Itoa (sl_Line (dg_Source d)),
               jd_Message = dg_Message d, jd_ObligationID = i, jd_Category = c, jd_Generator = g, jd_Digest = []\<rparr>
      in j\<lparr>jd_Digest := hashJudgment sha j\<rparr>)"

definition rule_subtree :: "(string \<Rightarrow> string) \<Rightarrow> (string \<times> Judgment list) list \<Rightarrow> string \<Rightarrow> RuleSubtree" where
  "rule_subtree sha groups r =
     (let st = \<lparr>rs_RuleID = r, rs_Digest = [], rs_Judgments = mgetl groups r\<rparr>
      in st\<lparr>rs_Digest := hashRuleSubtree sha st\<rparr>)"

definition resource_subtree :: "(string \<Rightarrow> string) \<Rightarrow> (string \<times> Judgment list) list \<Rightarrow> string \<Rightarrow> ResourceSubtree" where
  "resource_subtree sha groups k =
     (let st = \<lparr>es_ResourceKey = k, es_Digest = [], es_Judgments = mgetl groups k\<rparr>
      in st\<lparr>es_Digest := hashResourceSubtree sha st\<rparr>)"

text \<open>The known rules and the observed ones, sorted.\<close>

definition all_rule_ids :: "(string \<times> Judgment list) list \<Rightarrow> string list" where
  "all_rule_ids groups =
     sort (foldl (\<lambda>ids r. if r \<in> set ids then ids else ids @ [r]) KnownRuleIDs (map fst groups))"

definition GenerateWithRulesetDigest ::
  "(string \<Rightarrow> string) \<Rightarrow> Time \<Rightarrow> Diagnostic list \<Rightarrow> RunSummary option \<Rightarrow> string \<Rightarrow> string \<Rightarrow> string \<Rightarrow> Proof" where
  "GenerateWithRulesetDigest sha now diags summary irDigest snapshotDigest rulesetDigest =
     (let js = map (judgment_of sha) diags;
          ruleGroups = index_by jd_RuleID (\<lambda>j. j) js;
          resGroups = index_by jd_Resource (\<lambda>j. j) js
      in buildMerkleTree sha
           \<lparr>pf_Version = 4, pf_RootDigest = [],
            pf_Metadata = \<lparr>pm_IRDigest = irDigest, pm_SnapshotDigest = snapshotDigest, pm_KernelVersion = KernelVersion,
                           pm_RulesetVersion = RulesetVersion, pm_RulesetDigest = rulesetDigest, pm_Timestamp = now,
                           pm_SigningIdentity = [], pm_Signature = [], pm_Repo = [], pm_Commit = [], pm_Cluster = []\<rparr>,
            pf_Run = summary,
            pf_RuleSubtrees = map (\<lambda>r. (r, rule_subtree sha ruleGroups r)) (all_rule_ids ruleGroups),
            pf_ResourceSubtrees = map (\<lambda>k. (k, resource_subtree sha resGroups k)) (map fst resGroups),
            pf_Tree = []\<rparr>)"

section \<open>Verification and reports\<close>

definition Proof_Save :: "(Proof \<Rightarrow> string + string) \<Rightarrow> (string \<Rightarrow> string \<Rightarrow> string option) \<Rightarrow> Proof \<Rightarrow> string \<Rightarrow> string option" where
  "Proof_Save encode write p path =
     (case encode p of Inl e \<Rightarrow> Some (''marshaling proof: '' @ e) | Inr data \<Rightarrow> write path data)"

definition LoadProof :: "(string \<Rightarrow> string + string) \<Rightarrow> (string \<Rightarrow> string + Proof) \<Rightarrow> string \<Rightarrow> string + Proof" where
  "LoadProof read decode path =
     (case read path of
        Inl e \<Rightarrow> Inl (''reading proof: '' @ e)
      | Inr data \<Rightarrow> (case decode data of Inl e \<Rightarrow> Inl (''unmarshaling proof: '' @ e) | Inr p \<Rightarrow> Inr p))"

definition Verify :: "(string \<Rightarrow> string) \<Rightarrow> Proof \<Rightarrow> bool" where
  "Verify sha p = (snd (merkleTree sha p) = pf_RootDigest p)"

definition VerifyInclusion :: "Proof \<Rightarrow> string \<Rightarrow> string \<Rightarrow> bool" where
  "VerifyInclusion p ruleID resource =
     (case map_of (pf_RuleSubtrees p) ruleID of
        None \<Rightarrow> False
      | Some st \<Rightarrow> (\<exists>j \<in> set (rs_Judgments st). jd_Resource j = resource))"

definition countErrors :: "RuleSubtree option \<Rightarrow> nat" where
  "countErrors st =
     (case st of None \<Rightarrow> 0 | Some t \<Rightarrow> length (filter (\<lambda>j. jd_Status j = ''error'') (rs_Judgments t)))"

definition getErrorMessages :: "RuleSubtree option \<Rightarrow> string list" where
  "getErrorMessages st =
     (case st of
        None \<Rightarrow> []
      | Some t \<Rightarrow> map (\<lambda>j. jd_Resource j @ '': '' @ jd_Message j)
                    (filter (\<lambda>j. jd_Status j = ''error'') (rs_Judgments t)))"

definition truncDigest :: "string \<Rightarrow> string" where
  "truncDigest s = (if length s > 20 then take 20 s else s)"

text \<open>
  The two loops of \<^verbatim>\<open>Summary\<close> over the rule subtrees, in the orders \<open>it1\<close> and \<open>it2\<close>
  in which the map is walked.
\<close>

definition status_count :: "string \<Rightarrow> RuleSubtree list \<Rightarrow> nat" where
  "status_count s sts = sum_list (map (\<lambda>st. length (filter (\<lambda>j. jd_Status j = s) (rs_Judgments st))) sts)"

definition Proof_Summary :: "RuleSubtree list \<Rightarrow> RuleSubtree list \<Rightarrow> Proof \<Rightarrow> string" where
  "Proof_Summary it1 it2 p =
     (let total = sum_list (map (\<lambda>st. length (rs_Judgments st)) it1);
          errors = status_count ''error'' it1;
          m = pf_Metadata p
      in ''Proof: '' @ truncDigest (pf_RootDigest p) @ newline @
         ''  IR:       '' @ pm_IRDigest m @ newline @
         ''  Snapshot: '' @ pm_SnapshotDigest m @ newline @
         ''  Kernel:   '' @ pm_KernelVersion m @ newline @
         ''  Ruleset:  '' @ pm_RulesetVersion m @ '' ('' @ truncDigest (pm_RulesetDigest m) @ '')'' @ newline @
         ''  Time:     '' @ RFC3339 (pm_Timestamp m) @ newline @
         ''  Judgments: '' @ Itoa (int total) @ '' total ('' @ Itoa (int errors) @ '' errors, '' @
         Itoa (int (status_count ''warning'' it1)) @ '' warnings, '' @
         Itoa (int (status_count ''ok'' it1)) @ '' ok)'' @ newline @
         (if errors > 0
          then newline @ ''  Errors:'' @ newline @
               concat (map (\<lambda>st. concat (map (\<lambda>j. ''    '' @ jd_RuleID j @ '' '' @ jd_Resource j @ '': '' @ jd_Message j @ newline)
                                          (filter (\<lambda>j. jd_Status j = ''error'') (rs_Judgments st)))) it2)
          else []))"

datatype RuleDelta = Unchanged | NewlySatisfied | NewlyViolated | Changed

definition rule_delta :: "nat \<Rightarrow> nat \<Rightarrow> RuleDelta" where
  "rule_delta a b =
     (if a = b then Unchanged else if a > 0 \<and> b = 0 then NewlySatisfied
      else if a = 0 \<and> b > 0 then NewlyViolated else Changed)"

definition delta_of :: "Proof \<Rightarrow> Proof \<Rightarrow> string \<Rightarrow> RuleDelta" where
  "delta_of a b r =
     rule_delta (countErrors (map_of (pf_RuleSubtrees a) r)) (countErrors (map_of (pf_RuleSubtrees b) r))"

definition change_line :: "Proof \<Rightarrow> Proof \<Rightarrow> string \<Rightarrow> string" where
  "change_line a b r =
     (let bST = map_of (pf_RuleSubtrees b) r;
          aErrors = Itoa (int (countErrors (map_of (pf_RuleSubtrees a) r)));
          bErrors = Itoa (int (countErrors bST))
      in case delta_of a b r of
           NewlySatisfied \<Rightarrow> ''    '' @ r @ '': '' @ aErrors @ '' errors'' @ spaced_arrow @ ''0 (newly satisfied)''
         | NewlyViolated \<Rightarrow> ''    '' @ r @ '': 0'' @ spaced_arrow @ bErrors @ '' errors (newly violated)'' @ newline @ ''      '' @
             Join (getErrorMessages bST) (newline @ ''      '')
         | _ \<Rightarrow> ''    '' @ r @ '': '' @ aErrors @ '' errors'' @ spaced_arrow @ bErrors @ '' errors'')"

definition diff_rule_ids :: "Proof \<Rightarrow> Proof \<Rightarrow> string list" where
  "diff_rule_ids a b = sort (remdups (map fst (pf_RuleSubtrees a) @ map fst (pf_RuleSubtrees b)))"

definition delta_count :: "Proof \<Rightarrow> Proof \<Rightarrow> RuleDelta \<Rightarrow> nat" where
  "delta_count a b k = length (filter (\<lambda>r. delta_of a b r = k) (diff_rule_ids a b))"

definition DiffProofs :: "Proof \<Rightarrow> Proof \<Rightarrow> string" where
  "DiffProofs a b =
     (let ids = diff_rule_ids a b;
          changes = map (change_line a b) (filter (\<lambda>r. delta_of a b r \<noteq> Unchanged) ids);
          sa = pm_SnapshotDigest (pf_Metadata a); sb = pm_SnapshotDigest (pf_Metadata b)
      in ''Proof diff: '' @ truncDigest (pf_RootDigest a) @ spaced_arrow @ truncDigest (pf_RootDigest b) @ newline @
         (if sa \<noteq> sb then ''  Snapshot changed: '' @ truncDigest sa @ spaced_arrow @ truncDigest sb @ newline else []) @
         ''  '' @ Itoa (int (length ids)) @ '' judgments: '' @ Itoa (int (delta_count a b Unchanged)) @ '' unchanged, '' @
         Itoa (int (delta_count a b NewlySatisfied)) @ '' newly satisfied, '' @
         Itoa (int (delta_count a b NewlyViolated)) @ '' violated'' @ newline @
         (if changes \<noteq> [] then ''  Changes:'' @ newline @ concat (map (\<lambda>c. c @ newline) changes) else []))"

section \<open>The digest of the rule set\<close>

record rulesetPart =
  rp_Path :: string
  rp_Data :: string

definition part_text :: "rulesetPart \<Rightarrow> string" where
  "part_text part = ''kernel-file:'' @ rp_Path part @ newline @ rp_Data part @ NUL"

definition ruleset_header :: string where
  "ruleset_header =
     ''ruleset-version:'' @ RulesetVersion @ newline @
     concat (map (\<lambda>i. ''rule-id:'' @ i @ newline) (sort KnownRuleIDs))"

definition computeRulesetDigestFromParts :: "(string \<Rightarrow> string) \<Rightarrow> rulesetPart list \<Rightarrow> string" where
  "computeRulesetDigestFromParts sha parts = hashBytes sha (ruleset_header @ concat (map part_text parts))"

fun part_texts_read :: "(string \<Rightarrow> string + string) \<Rightarrow> (string \<Rightarrow> string) \<Rightarrow> string list \<Rightarrow> string + rulesetPart list" where
  "part_texts_read read rel [] = Inr []"
| "part_texts_read read rel (path # paths) =
     (case read path of
        Inl e \<Rightarrow> Inl e
      | Inr data \<Rightarrow> map_sum id (\<lambda>ps. \<lparr>rp_Path = rel path, rp_Data = data\<rparr> # ps) (part_texts_read read rel paths))"

definition ComputeEmbeddedRulesetDigest :: "(string \<Rightarrow> string) \<Rightarrow> Embed \<Rightarrow> string + string" where
  "ComputeEmbeddedRulesetDigest sha em =
     (case em_ReadDir em of
        Inl e \<Rightarrow> Inl (''read embedded kernel: '' @ e)
      | Inr entries \<Rightarrow>
          let names = sort (map fst (filter (\<lambda>(n, isDir). \<not> isDir \<and> Ext n = ''.shen'') entries));
              read = (\<lambda>n. case em_Read em n of Some d \<Rightarrow> Inr d | None \<Rightarrow> Inl (''read embedded kernel file '' @ n))
          in if names = [] then Inl ''no .shen files found in embedded kernel''
             else map_sum id (computeRulesetDigestFromParts sha) (part_texts_read read id names))"

text \<open>\<open>walk\<close> lists the files under a directory (\<^verbatim>\<open>filepath.WalkDir\<close>), or gives the error that stopped it.\<close>

definition ComputeRulesetDigest ::
  "(string \<Rightarrow> string) \<Rightarrow> ('a ExeEnv_scheme) \<Rightarrow> (string \<Rightarrow> string + string list) \<Rightarrow> string \<Rightarrow> string + string" where
  "ComputeRulesetDigest sha ev walk kernelPath =
     (case audit_resolveKernelPath ev kernelPath of
        Inl e \<Rightarrow> Inl ''could not locate kernel directory for ruleset digest''
      | Inr kernelDir \<Rightarrow>
          (case walk kernelDir of
             Inl e \<Rightarrow> Inl e
           | Inr all \<Rightarrow>
               let files = sort (filter (\<lambda>f. Ext f = ''.shen'') all);
                   rel = (\<lambda>f. case Rel kernelDir f of Some r \<Rightarrow> r | None \<Rightarrow> Base f)
               in if files = [] then Inl (''no .shen files found under '' @ kernelDir)
                  else map_sum id (computeRulesetDigestFromParts sha) (part_texts_read (ev_ReadFile ev) rel files)))"

definition Generate ::
  "(string \<Rightarrow> string) \<Rightarrow> Embed \<Rightarrow> Time \<Rightarrow> Diagnostic list \<Rightarrow> RunSummary option \<Rightarrow> string \<Rightarrow> string \<Rightarrow> Proof" where
  "Generate sha em now diags summary irDigest snapshotDigest =
     GenerateWithRulesetDigest sha now diags summary irDigest snapshotDigest
       (case ComputeEmbeddedRulesetDigest sha em of
          Inr d \<Rightarrow> d
        | Inl _ \<Rightarrow> computeRulesetDigestFromParts sha [])"

section \<open>What a root commits to\<close>

lemma hashBytes_eq: "hashBytes sha a = hashBytes sha b \<longleftrightarrow> sha a = sha b"
  by (simp add: hashBytes_def)

lemma merkle_level_Nil [simp]: "merkle_level sha xs = [] \<longleftrightarrow> xs = []"
  by (induction sha xs rule: merkle_level.induct) auto

text \<open>The texts a level hands to the hash, and all the texts hashed on the way to the root.\<close>

fun level_inputs :: "string list \<Rightarrow> string list" where
  "level_inputs [] = []"
| "level_inputs [a] = [a @ a]"
| "level_inputs (a # b # rest) = (a @ b) # level_inputs rest"

lemma merkle_level_inputs: "merkle_level sha xs = map (hashBytes sha) (level_inputs xs)"
  by (induction xs rule: level_inputs.induct) auto

function merkle_inputs :: "(string \<Rightarrow> string) \<Rightarrow> string list \<Rightarrow> string list" where
  "merkle_inputs sha level =
     (if length level \<le> 1 then [] else level_inputs level @ merkle_inputs sha (merkle_level sha level))"
  by pat_completeness auto
termination
  by (relation "measure (\<lambda>(sha, level). length level)") auto

declare merkle_inputs.simps [simp del]

definition collision :: "(string \<Rightarrow> string) \<Rightarrow> string list \<Rightarrow> string list \<Rightarrow> bool" where
  "collision sha as bs = (\<exists>a \<in> set as. \<exists>b \<in> set bs. a \<noteq> b \<and> sha a = sha b)"

lemma level_inputs_inj:
  assumes "length xs = length ys" "\<forall>x \<in> set xs. length x = n" "\<forall>y \<in> set ys. length y = n"
    "level_inputs xs = level_inputs ys"
  shows "xs = ys"
  using assms
proof (induction xs arbitrary: ys rule: level_inputs.induct)
  case (2 a)
  then show ?case by (cases ys) auto
next
  case (3 a b rest)
  then obtain c d r where ys: "ys = c # d # r" by (cases ys; cases "tl ys") auto
  with 3 show ?case by auto
qed simp

lemma map_hash_eq:
  assumes "map (hashBytes sha) as = map (hashBytes sha) bs"
  shows "as = bs \<or> collision sha as bs"
  using assms
proof (induction as arbitrary: bs)
  case (Cons a as)
  then obtain b bs' where b: "bs = b # bs'" "sha a = sha b" "map (hashBytes sha) as = map (hashBytes sha) bs'"
    by (cases bs) (auto simp: hashBytes_eq)
  then show ?case using Cons.IH[OF b(3)] by (auto simp: collision_def)
qed simp

lemma merkle_level_inj:
  assumes "length xs = length ys" "\<forall>x \<in> set xs. length x = n" "\<forall>y \<in> set ys. length y = n"
    "merkle_level sha xs = merkle_level sha ys"
  shows "xs = ys \<or> collision sha (level_inputs xs) (level_inputs ys)"
  using map_hash_eq[of sha "level_inputs xs" "level_inputs ys"] level_inputs_inj[OF assms(1-3)] assms(4)
  by (auto simp: merkle_level_inputs)

lemma collision_append:
  "collision sha as bs \<Longrightarrow> collision sha (as @ as') (bs @ bs')"
  "collision sha as' bs' \<Longrightarrow> collision sha (as @ as') (bs @ bs')"
  by (auto simp: collision_def)

lemma merkle_level_width: "\<forall>s. length (sha s) = n \<Longrightarrow> x \<in> set (merkle_level sha xs) \<Longrightarrow> length x = n + 7"
  by (auto simp: merkle_level_inputs hashBytes_def)

lemma merkle_loop_inj:
  assumes "length xs = length ys" "\<forall>x \<in> set xs. length x = n + 7" "\<forall>y \<in> set ys. length y = n + 7"
    "\<forall>s. length (sha s) = n" "merkle_loop sha xs = merkle_loop sha ys"
  shows "xs = ys \<or> collision sha (merkle_inputs sha xs) (merkle_inputs sha ys)"
  using assms
proof (induction sha xs arbitrary: ys rule: merkle_loop.induct)
  case (1 sha xs)
  show ?case
  proof (cases "length xs \<le> 1")
    case True
    then show ?thesis using 1(2,6) by (simp add: merkle_loop.simps[of sha])
  next
    case False
    let ?l = "merkle_level sha"
    have loop: "merkle_loop sha (?l xs) = merkle_loop sha (?l ys)" "length (?l xs) = length (?l ys)"
      using False 1(2,6) by (simp_all add: merkle_loop.simps[of sha xs] merkle_loop.simps[of sha ys])
    have inp: "merkle_inputs sha zs = level_inputs zs @ merkle_inputs sha (?l zs)" if "length zs = length xs" for zs
      using False that by (subst merkle_inputs.simps) simp
    have "?l xs = ?l ys \<or> collision sha (merkle_inputs sha (?l xs)) (merkle_inputs sha (?l ys))"
      using 1(1)[OF False loop(2) _ _ 1(5) loop(1)] merkle_level_width[OF 1(5)] by blast
    then show ?thesis
      using merkle_level_inj[OF 1(2-4)] collision_append inp[of xs] inp[of ys] 1(2) by metis
  qed
qed

lemma merkle_loop_length: "xs \<noteq> [] \<Longrightarrow> length (merkle_loop sha xs) = 1"
proof (induction sha xs rule: merkle_loop.induct)
  case (1 sha xs)
  show ?case
  proof (cases "length xs \<le> 1")
    case True
    then show ?thesis using 1(2) by (cases xs) (simp_all add: merkle_loop.simps[of sha])
  next
    case False
    then show ?thesis using 1 by (simp add: merkle_loop.simps[of sha xs])
  qed
qed

lemma computeMerkleRoot_loop: "xs \<noteq> [] \<Longrightarrow> merkle_loop sha xs = [computeMerkleRoot sha xs]"
  using merkle_loop_length[of xs sha]
  by (auto simp: computeMerkleRoot_def length_Suc_conv merkle_loop.simps[of sha "[_]"] split: list.splits)

lemma root_binds:
  assumes "length xs = length ys" "\<forall>x \<in> set xs. length x = n + 7" "\<forall>y \<in> set ys. length y = n + 7"
    "\<forall>s. length (sha s) = n" "computeMerkleRoot sha xs = computeMerkleRoot sha ys"
  shows "xs = ys \<or> collision sha (merkle_inputs sha xs) (merkle_inputs sha ys)"
proof (cases "xs = []")
  case False
  then have "ys \<noteq> []" using assms(1) by auto
  then show ?thesis using merkle_loop_inj[OF assms(1-4)] assms(5) False by (simp add: computeMerkleRoot_loop)
qed (use assms(1) in simp)

text \<open>
  The last node of an odd level is paired with itself, so the root does not fix the
  number of leaves.
\<close>

lemma root_duplicate: "computeMerkleRoot sha [a, b, c] = computeMerkleRoot sha [a, b, c, c]"
  by (simp add: computeMerkleRoot_def merkle_loop.simps)

text \<open>A run summary can be read off the text that is hashed, but for the order of its obligations.\<close>

lemma nat_digits_inj: "nat_digits a = nat_digits b \<Longrightarrow> a = b"
  by (metis nat_digits_props)

lemma Itoa_inj: "Itoa a = Itoa b \<Longrightarrow> a = b"
proof -
  assume e: "Itoa a = Itoa b"
  have no: "nat_digits n \<noteq> CHR ''-'' # s" for n s using nat_digits_hd[of n] by (auto simp: is_digit_def)
  show "a = b" using e no no[symmetric] by (auto simp: Itoa_def split: if_splits dest!: nat_digits_inj)
qed

lemma terminated_inj:
  assumes "\<forall>x \<in> set xs \<union> set ys. c \<notin> set x" "concat (map (\<lambda>x. x @ [c]) xs) = concat (map (\<lambda>x. x @ [c]) ys)"
  shows "xs = ys"
  using assms
proof (induction xs arbitrary: ys)
  case Nil
  then show ?case by (cases ys) auto
next
  case (Cons x xs)
  then obtain y ys' where ys: "ys = y # ys'" by (cases ys) auto
  have e: "x @ c # concat (map (\<lambda>x. x @ [c]) xs) = y @ c # concat (map (\<lambda>x. x @ [c]) ys')" using Cons.prems(2) ys by simp
  have "x = takeWhile (\<lambda>d. d \<noteq> c) (x @ c # r)" if "c \<notin> set x" for x r using that by (induction x) auto
  then have "x = y" using e Cons.prems(1) ys by (metis UnI1 UnI2 list.set_intros(1))
  then show ?case using e Cons.IH[of ys'] Cons.prems(1) ys by auto
qed

text \<open>The two summaries count the same and name the same obligations.\<close>

definition same_summary :: "RunSummary \<Rightarrow> RunSummary \<Rightarrow> bool" where
  "same_summary a b =
     (ru_TotalObligations a = ru_TotalObligations b \<and> ru_Satisfied a = ru_Satisfied b \<and> ru_Violated a = ru_Violated b \<and>
      mset (ru_ObligationIDs a) = mset (ru_ObligationIDs b))"

definition plain_ids :: "RunSummary \<Rightarrow> bool" where
  "plain_ids s = list_all (\<lambda>i. CHR ''|'' \<notin> set i) (ru_ObligationIDs s)"

lemma summary_text_binds:
  assumes "plain_ids a" "plain_ids b" "summary_text a = summary_text b"
  shows "same_summary a b"
proof -
  let ?parts = "\<lambda>s. [Itoa (ru_TotalObligations s), Itoa (ru_Satisfied s), Itoa (ru_Violated s)] @ sort (ru_ObligationIDs s)"
  have t: "summary_text s = concat (map (\<lambda>x. x @ ''|'') (?parts s))" for s by (simp add: summary_text_def)
  have "CHR ''|'' \<notin> set (Itoa i)" for i using Itoa_digits[of "CHR ''|''" i] by (auto simp: is_digit_def)
  then have "\<forall>x \<in> set (?parts a) \<union> set (?parts b). CHR ''|'' \<notin> set x" using assms(1,2) by (auto simp: plain_ids_def list_all_iff)
  then have "?parts a = ?parts b" using assms(3) unfolding t by (rule terminated_inj)
  moreover have "mset (sort xs) = mset (sort ys) \<Longrightarrow> mset xs = mset ys" for xs ys :: "string list" by simp
  ultimately show ?thesis unfolding same_summary_def by (auto dest!: Itoa_inj) (metis mset_sort)
qed

definition run_list :: "Proof \<Rightarrow> RunSummary list" where
  "run_list p = (case pf_Run p of None \<Rightarrow> [] | Some r \<Rightarrow> [r])"

text \<open>
  The shape of a proof is the presence of a run summary and the keys of its subtrees; a proof is
  well formed when its stored digests are as wide as those of the hash and no obligation
  identifier holds the separator.
\<close>

definition same_shape :: "Proof \<Rightarrow> Proof \<Rightarrow> bool" where
  "same_shape p q =
     ((pf_Run p = None) = (pf_Run q = None) \<and>
      mset (map fst (pf_RuleSubtrees p)) = mset (map fst (pf_RuleSubtrees q)) \<and>
      mset (map fst (pf_ResourceSubtrees p)) = mset (map fst (pf_ResourceSubtrees q)))"

definition wf_proof :: "nat \<Rightarrow> Proof \<Rightarrow> bool" where
  "wf_proof n p =
     (list_all (\<lambda>(k, st). length (rs_Digest st) = n + 7) (pf_RuleSubtrees p) \<and>
      list_all (\<lambda>(k, st). length (es_Digest st) = n + 7) (pf_ResourceSubtrees p) \<and>
      list_all plain_ids (run_list p))"

lemma same_shape_lengths:
  assumes "same_shape p q"
  shows "length (run_list p) = length (run_list q)" "length (pf_RuleSubtrees p) = length (pf_RuleSubtrees q)"
    "length (pf_ResourceSubtrees p) = length (pf_ResourceSubtrees q)"
  using assms unfolding same_shape_def by (auto simp: run_list_def split: option.splits) (metis length_map mset_eq_length mset_map)+

text \<open>The texts a proof is hashed from, leaf by leaf and then level by level.\<close>

definition hashed_texts :: "(string \<Rightarrow> string) \<Rightarrow> Proof \<Rightarrow> string list" where
  "hashed_texts sha p = metadata_json (pf_Metadata p) # map summary_text (run_list p) @ merkle_inputs sha (fst (merkleTree sha p))"

text \<open>What a root commits to: the metadata, the run summary, and the digest of the subtree under each key.\<close>

definition same_proof_content :: "Proof \<Rightarrow> Proof \<Rightarrow> bool" where
  "same_proof_content p q =
     (metadata_json (pf_Metadata p) = metadata_json (pf_Metadata q) \<and>
      rel_option same_summary (pf_Run p) (pf_Run q) \<and>
      (\<forall>r. map_option rs_Digest (map_of (pf_RuleSubtrees p) r) = map_option rs_Digest (map_of (pf_RuleSubtrees q) r)) \<and>
      (\<forall>k. map_option es_Digest (map_of (pf_ResourceSubtrees p) k) = map_option es_Digest (map_of (pf_ResourceSubtrees q) k)))"

lemma sorted_entries_length [simp]: "length (sorted_entries m) = length m"
  by (simp add: sorted_entries_def)

lemma sorted_entries_in: "v \<in> set (sorted_entries m) \<Longrightarrow> \<exists>k. (k, v) \<in> set m"
proof -
  assume "v \<in> set (sorted_entries m)"
  then obtain k where k: "k \<in> fst ` set m" "v = the (map_of m k)" by (auto simp: sorted_entries_def)
  then obtain w where "map_of m k = Some w" by (metis map_of_eq_None_iff not_Some_eq)
  then show ?thesis using k(2) map_of_SomeD by fastforce
qed

lemma sorted_entries_binds:
  assumes "mset (map fst a) = mset (map fst b)" "map f (sorted_entries a) = map f (sorted_entries b)"
  shows "map_option f (map_of a k) = map_option f (map_of b k)"
proof -
  have keys: "set (map fst a) = set (map fst b)" using assms(1) by (rule mset_eq_setD)
  have "sort (map fst b) = sort (map fst a)" using assms(1) by (metis sorted_list_of_multiset_mset)
  then have "map (\<lambda>k. f (the (map_of a k))) (sort (map fst a)) = map (\<lambda>k. f (the (map_of b k))) (sort (map fst a))"
    using assms(2) by (simp add: sorted_entries_def o_def)
  then have eq: "f (the (map_of a k)) = f (the (map_of b k))" if "k \<in> fst ` set a"
    using that bspec[of "set (sort (map fst a))" _ k] unfolding map_eq_conv by simp
  show ?thesis
  proof (cases "k \<in> fst ` set a")
    case True
    then show ?thesis using eq keys by (cases "map_of a k"; cases "map_of b k") (auto simp: map_of_eq_None_iff)
  next
    case False
    then have "map_of a k = None" "map_of b k = None" using keys by (auto simp: map_of_eq_None_iff)
    then show ?thesis by simp
  qed
qed

lemma leaves_bind:
  assumes "same_shape p q" "wf_proof n p" "wf_proof n q" "proof_leaves sha p = proof_leaves sha q"
  shows "same_proof_content p q \<or> collision sha (hashed_texts sha p) (hashed_texts sha q)"
proof -
  let ?run = "\<lambda>p. map (hashRunSummary sha) (run_list p)"
  have l: "proof_leaves sha p = hashBytes sha (metadata_json (pf_Metadata p)) # ?run p @
      map rs_Digest (sorted_entries (pf_RuleSubtrees p)) @ map es_Digest (sorted_entries (pf_ResourceSubtrees p))" for p
    by (simp add: proof_leaves_def run_list_def split: option.split)
  have len: "length (?run p) = length (?run q)" "length (pf_RuleSubtrees p) = length (pf_RuleSubtrees q)"
    using same_shape_lengths[OF assms(1)] by simp_all
  have e: "hashBytes sha (metadata_json (pf_Metadata p)) = hashBytes sha (metadata_json (pf_Metadata q))" "?run p = ?run q"
    "map rs_Digest (sorted_entries (pf_RuleSubtrees p)) = map rs_Digest (sorted_entries (pf_RuleSubtrees q))"
    "map es_Digest (sorted_entries (pf_ResourceSubtrees p)) = map es_Digest (sorted_entries (pf_ResourceSubtrees q))"
    using assms(4) len unfolding l by auto
  have rules: "map_option rs_Digest (map_of (pf_RuleSubtrees p) r) = map_option rs_Digest (map_of (pf_RuleSubtrees q) r)" for r
    using assms(1) e(3) by (intro sorted_entries_binds) (auto simp: same_shape_def)
  have resources: "map_option es_Digest (map_of (pf_ResourceSubtrees p) k) = map_option es_Digest (map_of (pf_ResourceSubtrees q) k)" for k
    using assms(1) e(4) by (intro sorted_entries_binds) (auto simp: same_shape_def)
  consider "metadata_json (pf_Metadata p) \<noteq> metadata_json (pf_Metadata q)" |
    "\<exists>a b. pf_Run p = Some a \<and> pf_Run q = Some b \<and> summary_text a \<noteq> summary_text b" |
    "metadata_json (pf_Metadata p) = metadata_json (pf_Metadata q)"
    "\<forall>a b. pf_Run p = Some a \<and> pf_Run q = Some b \<longrightarrow> summary_text a = summary_text b"
    by blast
  then show ?thesis
  proof cases
    case 1
    moreover have "sha (metadata_json (pf_Metadata p)) = sha (metadata_json (pf_Metadata q))" using e(1) by (simp add: hashBytes_eq)
    ultimately show ?thesis by (auto simp: collision_def hashed_texts_def)
  next
    case 2
    then obtain a b where ab: "pf_Run p = Some a" "pf_Run q = Some b" "summary_text a \<noteq> summary_text b" by blast
    moreover have "sha (summary_text a) = sha (summary_text b)"
      using e(2) by (simp add: ab(1,2) run_list_def hashRunSummary_def hashBytes_eq)
    ultimately show ?thesis by (auto simp: collision_def hashed_texts_def run_list_def)
  next
    case 3
    have "rel_option same_summary (pf_Run p) (pf_Run q)"
    proof (cases "pf_Run p")
      case None
      then show ?thesis using assms(1) by (simp add: same_shape_def)
    next
      case (Some a)
      then obtain b where b: "pf_Run q = Some b" using assms(1) by (auto simp: same_shape_def)
      have "plain_ids a" "plain_ids b" using assms(2,3) Some b by (simp_all add: wf_proof_def run_list_def)
      then have "same_summary a b" using 3(2) Some b by (intro summary_text_binds) auto
      then show ?thesis using Some b by simp
    qed
    then show ?thesis using 3(1) rules resources by (simp add: same_proof_content_def)
  qed
qed

lemma leaves_width:
  assumes "\<forall>s. length (sha s) = n" "wf_proof n p" "x \<in> set (proof_leaves sha p)"
  shows "length x = n + 7"
  using assms by (auto simp: proof_leaves_def hashBytes_def hashRunSummary_def wf_proof_def list_all_iff
      split: option.splits dest!: sorted_entries_in)

text \<open>
  C32: what a verified root commits to.  Two audit logs of the same shape that both verify and carry the
  same root have the same metadata, the same counts and obligations in the run summary, and the same
  digest of the subtree of every rule and of every resource, unless two different texts that were hashed
  on the way have the same SHA-256 digest.
\<close>

theorem Verify_binds:
  assumes "\<forall>s. length (sha s) = n" "Verify sha p" "Verify sha q" "pf_RootDigest p = pf_RootDigest q"
    and "same_shape p q" "wf_proof n p" "wf_proof n q"
  shows "same_proof_content p q \<or> collision sha (hashed_texts sha p) (hashed_texts sha q)"
proof -
  have root: "computeMerkleRoot sha (proof_leaves sha p) = computeMerkleRoot sha (proof_leaves sha q)"
    using assms(2-4) by (simp add: Verify_def merkleTree_def)
  have "length (proof_leaves sha p) = length (proof_leaves sha q)"
    using same_shape_lengths[OF assms(5)] by (auto simp: run_list_def proof_leaves_def split: option.splits)
  then consider "proof_leaves sha p = proof_leaves sha q" |
    "collision sha (merkle_inputs sha (proof_leaves sha p)) (merkle_inputs sha (proof_leaves sha q))"
    using root_binds[of "proof_leaves sha p" "proof_leaves sha q" n sha] leaves_width[OF assms(1)] assms(1,6,7) root by blast
  then show ?thesis
  proof cases
    case 1
    then show ?thesis by (rule leaves_bind[OF assms(5-7)])
  qed (auto simp: collision_def hashed_texts_def merkleTree_def)
qed

section \<open>What is generated\<close>

lemma insert_new_set: "set (foldl (\<lambda>ids r. if r \<in> set ids then ids else ids @ [r]) ids rs) = set ids \<union> set rs"
  by (induction rs arbitrary: ids) auto

lemma insert_new_distinct:
  "distinct ids \<Longrightarrow> distinct (foldl (\<lambda>ids r. if r \<in> set ids then ids else ids @ [r]) ids rs)"
  by (induction rs arbitrary: ids) auto

lemma KnownRuleIDs_distinct: "distinct KnownRuleIDs"
  unfolding KnownRuleIDs_def by simp

lemma all_rule_ids_set: "set (all_rule_ids groups) = set KnownRuleIDs \<union> fst ` set groups"
  by (simp add: all_rule_ids_def insert_new_set)

lemma all_rule_ids_distinct: "distinct (all_rule_ids groups)"
  by (simp add: all_rule_ids_def insert_new_distinct KnownRuleIDs_distinct)

lemma groups_partition:
  assumes "distinct ks" "key ` set xs \<subseteq> set ks"
  shows "mset (concat (map (\<lambda>k. filter (\<lambda>x. key x = k) xs) ks)) = mset xs"
  using assms
proof (induction xs)
  case (Cons x xs)
  have "mset (concat (map (\<lambda>k. filter (\<lambda>y. key y = k) (x # xs)) ks)) =
        mset (concat (map (\<lambda>k. filter (\<lambda>y. key y = k) xs) ks)) + mset (concat (map (\<lambda>k. if key x = k then [x] else []) ks))"
    by (induction ks) auto
  moreover have "distinct ks \<Longrightarrow> mset (concat (map (\<lambda>k. if key x = k then [x] else []) ks)) = (if key x \<in> set ks then {#x#} else {#})"
    by (induction ks) auto
  ultimately show ?case using Cons by simp
qed (induction ks; simp)

lemma map_of_keyed: "map_of (map (\<lambda>k. (k, f k)) ks) k = (if k \<in> set ks then Some (f k) else None)"
  by (induction ks) auto

lemma jd_judgment_of:
  "jd_RuleID (judgment_of sha d) = dg_Code d"
  "jd_Resource (judgment_of sha d) = sl_File (dg_Source d) @ '':'' @ Itoa (sl_Line (dg_Source d))"
  "jd_Digest (judgment_of sha d) = hashJudgment sha (judgment_of sha d)"
  by (auto simp: judgment_of_def hashJudgment_def judgment_text_def Let_def split: prod.splits)

lemma buildMerkleTree_simps [simp]:
  "pf_RuleSubtrees (buildMerkleTree sha p) = pf_RuleSubtrees p"
  "pf_ResourceSubtrees (buildMerkleTree sha p) = pf_ResourceSubtrees p"
  "pf_Metadata (buildMerkleTree sha p) = pf_Metadata p"
  "pf_Run (buildMerkleTree sha p) = pf_Run p"
  by (simp_all add: buildMerkleTree_def split: prod.splits)

lemma buildMerkleTree_Verify: "Verify sha (buildMerkleTree sha p)"
  by (simp add: buildMerkleTree_def Verify_def merkleTree_def proof_leaves_def)

lemma rs_rule_subtree: "rs_Judgments (rule_subtree sha groups r) = mgetl groups r"
  by (simp add: rule_subtree_def Let_def)

lemma es_resource_subtree: "es_Judgments (resource_subtree sha groups r) = mgetl groups r"
  by (simp add: resource_subtree_def Let_def)

lemma Generate_rule_subtrees:
  "pf_RuleSubtrees (GenerateWithRulesetDigest sha now diags summary ird snd' rd) =
     (let groups = index_by jd_RuleID (\<lambda>j. j) (map (judgment_of sha) diags)
      in map (\<lambda>r. (r, rule_subtree sha groups r)) (all_rule_ids groups))"
  by (simp add: GenerateWithRulesetDigest_def Let_def)

lemma Generate_resource_subtrees:
  "pf_ResourceSubtrees (GenerateWithRulesetDigest sha now diags summary ird snd' rd) =
     (let groups = index_by jd_Resource (\<lambda>j. j) (map (judgment_of sha) diags)
      in map (\<lambda>k. (k, resource_subtree sha groups k)) (map fst groups))"
  by (simp add: GenerateWithRulesetDigest_def Let_def)

lemma grouped_judgments:
  fixes key :: "Judgment \<Rightarrow> string" and js :: "Judgment list"
  assumes "distinct ks" "key ` set js \<subseteq> set ks"
  shows "mset (concat (map (mgetl (index_by key (\<lambda>j. j) js)) ks)) = mset js"
proof -
  have "mgetl (index_by key (\<lambda>j. j) js) = (\<lambda>k. filter (\<lambda>x. key x = k) js)" by (rule ext) (simp add: mgetl_index_by)
  then show ?thesis using groups_partition[OF assms] by simp
qed

lemma Generate_rules_partition:
  "mset (concat (map (\<lambda>e. rs_Judgments (snd e)) (pf_RuleSubtrees (GenerateWithRulesetDigest sha now diags summary ird snd' rd))))
     = mset (map (judgment_of sha) diags)"
proof -
  let ?js = "map (judgment_of sha) diags"
  let ?g = "index_by jd_RuleID (\<lambda>j. j) ?js"
  have "jd_RuleID ` set ?js \<subseteq> set (all_rule_ids ?g)" unfolding all_rule_ids_set index_by_keys by blast
  then show ?thesis
    using grouped_judgments[OF all_rule_ids_distinct[of ?g]]
    by (simp add: Generate_rule_subtrees Let_def rs_rule_subtree comp_def)
qed

lemma Generate_resources_partition:
  "mset (concat (map (\<lambda>e. es_Judgments (snd e)) (pf_ResourceSubtrees (GenerateWithRulesetDigest sha now diags summary ird snd' rd))))
     = mset (map (judgment_of sha) diags)"
proof -
  let ?js = "map (judgment_of sha) diags"
  let ?g = "index_by jd_Resource (\<lambda>j. j) ?js"
  have "jd_Resource ` set ?js \<subseteq> set (map fst ?g)" using index_by_keys[of jd_Resource "\<lambda>j. j" ?js] by simp
  then show ?thesis
    using grouped_judgments[OF index_by_distinct[of jd_Resource "\<lambda>j. j" ?js]]
    by (simp add: Generate_resource_subtrees Let_def es_resource_subtree comp_def)
qed

lemma Generate_inclusion:
  "VerifyInclusion (GenerateWithRulesetDigest sha now diags summary ird snd' rd) r res \<longleftrightarrow>
     (\<exists>d \<in> set diags. dg_Code d = r \<and> sl_File (dg_Source d) @ '':'' @ Itoa (sl_Line (dg_Source d)) = res)"
  by (auto simp: VerifyInclusion_def Generate_rule_subtrees Let_def map_of_keyed rs_rule_subtree mgetl_index_by
      all_rule_ids_set index_by_keys jd_judgment_of image_image)

text \<open>
  C33: a generated audit log verifies; every diagnostic of the run is in it exactly once
  under its rule and exactly once under its resource; inclusion holds of exactly the
  rule and place pairs that were reported; and every known rule has a subtree, even an
  empty one.
\<close>

theorem Generate_complete:
  "let p = GenerateWithRulesetDigest sha now diags summary ird snd' rd;
       js = map (judgment_of sha) diags
   in Verify sha p \<and>
      mset (concat (map (\<lambda>e. rs_Judgments (snd e)) (pf_RuleSubtrees p))) = mset js \<and>
      mset (concat (map (\<lambda>e. es_Judgments (snd e)) (pf_ResourceSubtrees p))) = mset js \<and>
      (\<forall>r res. VerifyInclusion p r res \<longleftrightarrow>
         (\<exists>d \<in> set diags. dg_Code d = r \<and> sl_File (dg_Source d) @ '':'' @ Itoa (sl_Line (dg_Source d)) = res)) \<and>
      set KnownRuleIDs \<subseteq> fst ` set (pf_RuleSubtrees p)"
proof -
  have "Verify sha (GenerateWithRulesetDigest sha now diags summary ird snd' rd)"
    by (simp add: GenerateWithRulesetDigest_def Let_def buildMerkleTree_Verify)
  moreover have "set KnownRuleIDs \<subseteq> fst ` set (pf_RuleSubtrees (GenerateWithRulesetDigest sha now diags summary ird snd' rd))"
    by (simp add: Generate_rule_subtrees Let_def image_image all_rule_ids_set)
  ultimately show ?thesis
    unfolding Let_def Generate_inclusion Generate_rules_partition Generate_resources_partition by blast
qed

text \<open>
  The root is computed over the digests stored in the subtrees: replacing the judgments
  below them does not disturb verification.
\<close>

lemma Verify_ignores_judgments:
  "Verify sha (p\<lparr>pf_RuleSubtrees := map (\<lambda>(k, st). (k, st\<lparr>rs_Judgments := f k\<rparr>)) (pf_RuleSubtrees p)\<rparr>) = Verify sha p"
proof -
  have keys: "map fst (map (\<lambda>(k, st). (k, st\<lparr>rs_Judgments := f k\<rparr>)) m) = map fst m" for m by (induction m) auto
  have look: "map_of (map (\<lambda>(k, st). (k, st\<lparr>rs_Judgments := f k\<rparr>)) m) k = map_option (\<lambda>st. st\<lparr>rs_Judgments := f k\<rparr>) (map_of m k)" for m k
    by (induction m) auto
  have "rs_Digest (the (map_option (\<lambda>st. st\<lparr>rs_Judgments := f k\<rparr>) (map_of m k))) = rs_Digest (the (map_of m k))"
    if "k \<in> set (sort (map fst m))" for m k
    using that by (cases "map_of m k") (auto simp: map_of_eq_None_iff image_iff)
  then have eq: "map rs_Digest (sorted_entries (map (\<lambda>(k, st). (k, st\<lparr>rs_Judgments := f k\<rparr>)) m)) = map rs_Digest (sorted_entries m)" for m
    unfolding sorted_entries_def keys look by auto
  have "proof_leaves sha (p\<lparr>pf_RuleSubtrees := map (\<lambda>(k, st). (k, st\<lparr>rs_Judgments := f k\<rparr>)) (pf_RuleSubtrees p)\<rparr>) = proof_leaves sha p"
    using eq[of "pf_RuleSubtrees p"] by (simp add: proof_leaves_def)
  then show ?thesis by (simp add: Verify_def merkleTree_def)
qed

section \<open>What the ruleset digest commits to\<close>

lemma first_sep: "c \<notin> set a \<Longrightarrow> c \<notin> set b \<Longrightarrow> a @ c # x = b @ c # y \<longleftrightarrow> a = b \<and> x = y"
  by (induction a arbitrary: b) (case_tac b; auto)+

definition wf_part :: "rulesetPart \<Rightarrow> bool" where
  "wf_part part = (CHR 0x0A \<notin> set (rp_Path part) \<and> nulfree (rp_Data part))"

lemma part_texts_inj:
  assumes "\<forall>a \<in> set ps. wf_part a" "\<forall>a \<in> set qs. wf_part a" "concat (map part_text ps) = concat (map part_text qs)"
  shows "ps = qs"
  using assms
proof (induction ps arbitrary: qs)
  case Nil
  then show ?case by (cases qs) (auto simp: part_text_def)
next
  case (Cons a ps)
  then obtain b qs' where qs: "qs = b # qs'" by (cases qs) (auto simp: part_text_def)
  have wf: "CHR 0x0A \<notin> set (rp_Path a)" "CHR 0x0A \<notin> set (rp_Path b)" "CHR 0x00 \<notin> set (rp_Data a)" "CHR 0x00 \<notin> set (rp_Data b)"
    using Cons.prems qs by (auto simp: wf_part_def nulfree_def)
  have "rp_Path a @ CHR 0x0A # (rp_Data a @ CHR 0x00 # concat (map part_text ps)) =
        rp_Path b @ CHR 0x0A # (rp_Data b @ CHR 0x00 # concat (map part_text qs'))"
    using Cons.prems(3) by (simp add: qs part_text_def[of a] part_text_def[of b])
  from first_sep[OF wf(1,2), THEN iffD1, OF this]
  have path: "rp_Path a = rp_Path b"
    and rest: "rp_Data a @ CHR 0x00 # concat (map part_text ps) = rp_Data b @ CHR 0x00 # concat (map part_text qs')"
    by (rule conjunct1, rule conjunct2)
  from first_sep[OF wf(3,4), THEN iffD1, OF rest]
  have data: "rp_Data a = rp_Data b" and "concat (map part_text ps) = concat (map part_text qs')"
    by (rule conjunct1, rule conjunct2)
  then have "ps = qs'" using Cons qs by simp
  with path data qs show ?case by simp
qed

text \<open>
  The ruleset digest commits to the kernel: two kernels with newline-free paths and
  NUL-free files that have the same digest are the same files in the same order, unless
  their two texts collide under SHA-256.
\<close>

theorem ruleset_digest_binds:
  assumes "\<forall>a \<in> set ps. wf_part a" "\<forall>a \<in> set qs. wf_part a"
    "computeRulesetDigestFromParts sha ps = computeRulesetDigestFromParts sha qs"
  shows "ps = qs \<or>
    (let s = ruleset_header @ concat (map part_text ps); t = ruleset_header @ concat (map part_text qs)
     in s \<noteq> t \<and> sha s = sha t)"
  using assms(3) part_texts_inj[OF assms(1,2)]
  by (auto simp: computeRulesetDigestFromParts_def hashBytes_eq Let_def)

section \<open>Comparing two logs\<close>

lemma delta_counts:
  "delta_count a b Unchanged + delta_count a b NewlySatisfied + delta_count a b NewlyViolated + delta_count a b Changed =
     length (diff_rule_ids a b)"
proof -
  have "length (filter (\<lambda>r. f r = Unchanged) xs) + length (filter (\<lambda>r. f r = NewlySatisfied) xs) +
        length (filter (\<lambda>r. f r = NewlyViolated) xs) + length (filter (\<lambda>r. f r = Changed) xs) = length xs"
    for f :: "string \<Rightarrow> RuleDelta" and xs
  proof (induction xs)
    case (Cons x xs)
    then show ?case by (cases "f x") auto
  qed simp
  then show ?thesis by (simp add: delta_count_def)
qed

lemma delta_swap: "delta_of b a r = (case delta_of a b r of NewlySatisfied \<Rightarrow> NewlyViolated | NewlyViolated \<Rightarrow> NewlySatisfied | k \<Rightarrow> k)"
  by (auto simp: delta_of_def rule_delta_def)

lemma delta_self: "delta_of a a r = Unchanged"
  by (simp add: delta_of_def rule_delta_def)

lemma status_count_perm: "mset it = mset it' \<Longrightarrow> status_count s it = status_count s it'"
  unfolding status_count_def by (metis mset_map sum_mset_sum_list)

section \<open>Witnesses\<close>

definition demo_sha :: "string \<Rightarrow> string" where
  "demo_sha s = take 4 (s @ ''0000'')"

definition demo_proof :: "int \<Rightarrow> Proof" where
  "demo_proof v = buildMerkleTree demo_sha
     \<lparr>pf_Version = v, pf_RootDigest = [],
      pf_Metadata = \<lparr>pm_IRDigest = [], pm_SnapshotDigest = [], pm_KernelVersion = KernelVersion,
                     pm_RulesetVersion = RulesetVersion, pm_RulesetDigest = [], pm_Timestamp = 0,
                     pm_SigningIdentity = [], pm_Signature = [], pm_Repo = [], pm_Commit = [], pm_Cluster = []\<rparr>,
      pf_Run = None, pf_RuleSubtrees = [],
      pf_ResourceSubtrees = [(''f:1'', resource_subtree demo_sha [] ''f:1''), (''e:2'', resource_subtree demo_sha [] ''e:2'')],
      pf_Tree = []\<rparr>"

lemma demo_sha_width: "length (demo_sha s) = 4"
  by (simp add: demo_sha_def del: take_append)

lemma buildMerkleTree_root: "pf_RootDigest (buildMerkleTree sha p) = computeMerkleRoot sha (proof_leaves sha p)"
  by (simp add: buildMerkleTree_def merkleTree_def)

text \<open>Two proofs that name the obligations of a run in different orders have one root.\<close>

definition demo_run :: "string list \<Rightarrow> Proof" where
  "demo_run ids = buildMerkleTree demo_sha ((demo_proof 4)\<lparr>pf_Run := Some \<lparr>ru_TotalObligations = 2, ru_Satisfied = 1, ru_Violated = 1,
     ru_ObligationIDs = ids\<rparr>\<rparr>)"

theorem Verify_binds_witness:
  "same_proof_content (demo_run [''a'', ''b'']) (demo_run [''b'', ''a'']) \<or>
   collision demo_sha (hashed_texts demo_sha (demo_run [''a'', ''b''])) (hashed_texts demo_sha (demo_run [''b'', ''a'']))"
proof (rule Verify_binds)
  show "\<forall>s. length (demo_sha s) = 4" by (simp add: demo_sha_width)
  show "Verify demo_sha (demo_run [''a'', ''b''])" "Verify demo_sha (demo_run [''b'', ''a''])"
    unfolding demo_run_def by (rule buildMerkleTree_Verify)+
  have "proof_leaves demo_sha ((demo_proof 4)\<lparr>pf_Run := Some \<lparr>ru_TotalObligations = 2, ru_Satisfied = 1, ru_Violated = 1,
      ru_ObligationIDs = ids\<rparr>\<rparr>) = proof_leaves demo_sha ((demo_proof 4)\<lparr>pf_Run := Some \<lparr>ru_TotalObligations = 2, ru_Satisfied = 1,
      ru_Violated = 1, ru_ObligationIDs = ids'\<rparr>\<rparr>)" if "sort ids = sort ids'" for ids ids'
    using that by (simp add: proof_leaves_def hashRunSummary_def summary_text_def)
  moreover have "sort [''a'', ''b''] = sort [''b'', ''a'']" by simp
  ultimately show "pf_RootDigest (demo_run [''a'', ''b'']) = pf_RootDigest (demo_run [''b'', ''a''])"
    unfolding demo_run_def buildMerkleTree_root by metis
  show "same_shape (demo_run [''a'', ''b'']) (demo_run [''b'', ''a''])" by (simp add: same_shape_def demo_run_def)
  show "wf_proof 4 (demo_run [''a'', ''b''])" "wf_proof 4 (demo_run [''b'', ''a''])"
    by (simp_all add: wf_proof_def demo_run_def demo_proof_def run_list_def plain_ids_def resource_subtree_def
        hashResourceSubtree_def hashBytes_def demo_sha_width Let_def)
qed

theorem ruleset_digest_binds_witness:
  "computeRulesetDigestFromParts demo_sha [\<lparr>rp_Path = ''a.shen'', rp_Data = ''x''\<rparr>] =
     computeRulesetDigestFromParts demo_sha [\<lparr>rp_Path = ''a.shen'', rp_Data = ''y''\<rparr>] \<and>
   (let s = ruleset_header @ concat (map part_text [\<lparr>rp_Path = ''a.shen'', rp_Data = ''x''\<rparr>]);
        t = ruleset_header @ concat (map part_text [\<lparr>rp_Path = ''a.shen'', rp_Data = ''y''\<rparr>])
    in s \<noteq> t \<and> demo_sha s = demo_sha t)"
proof -
  let ?p = "\<lambda>d. [\<lparr>rp_Path = ''a.shen'', rp_Data = d\<rparr>]"
  have "computeRulesetDigestFromParts demo_sha (?p ''x'') = computeRulesetDigestFromParts demo_sha (?p ''y'')"
    by (simp add: computeRulesetDigestFromParts_def hashBytes_def demo_sha_def ruleset_header_def)
  moreover have "\<forall>a \<in> set (?p ''x''). wf_part a" "\<forall>a \<in> set (?p ''y''). wf_part a"
    by (simp_all add: wf_part_def nulfree_def)
  ultimately show ?thesis using ruleset_digest_binds[of "?p ''x''" "?p ''y''" demo_sha] by auto
qed

end
