(* ===== verification/Report.thy ===== *)
theory Report
  imports Types GoJson
begin

text \<open>
  \<^verbatim>\<open>pkg/report\<close>: the output formats of a check, and the reading of one of them by the
  bisection detector (\<^verbatim>\<open>pkg/bisect/detector.go\<close>).  The text formats are modelled to the
  byte; for the structured ones the model is the value handed to the encoder.
\<close>

section \<open>Words\<close>

text \<open>\<^verbatim>\<open>strings.Fields\<close>\<close>

fun fields_loop :: "string \<Rightarrow> string \<Rightarrow> string list" where
  "fields_loop cur [] = (if cur = [] then [] else [cur])"
| "fields_loop cur (c # s) =
     (if is_space c then (if cur = [] then fields_loop [] s else cur # fields_loop [] s)
      else fields_loop (cur @ [c]) s)"

definition Fields :: "string \<Rightarrow> string list" where
  "Fields s = fields_loop [] s"

fun wrap_loop :: "nat \<Rightarrow> string \<Rightarrow> string list \<Rightarrow> string list" where
  "wrap_loop width current [] = [current]"
| "wrap_loop width current (word # words) =
     (if length current + 1 + length word > width then current # wrap_loop width word words
      else wrap_loop width (current @ '' '' @ word) words)"

definition wordWrap :: "string \<Rightarrow> nat \<Rightarrow> string list" where
  "wordWrap s width = (case Fields s of [] \<Rightarrow> [] | w # ws \<Rightarrow> wrap_loop width w ws)"

section \<open>Human-readable output\<close>

definition formatLocation :: "SourceLocation \<Rightarrow> string" where
  "formatLocation src =
     (if sl_File src = [] then ''<unknown>''
      else if sl_Column src > 0 then sl_File src @ '':'' @ Itoa (sl_Line src) @ '':'' @ Itoa (sl_Column src)
      else sl_File src @ '':'' @ Itoa (sl_Line src))"

text \<open>\<open>read\<close> is \<^verbatim>\<open>os.ReadFile\<close>; the underlined token runs from the column to the next blank.\<close>

definition token_length :: "string \<Rightarrow> nat \<Rightarrow> nat" where
  "token_length sourceLine col =
     length (takeWhile (\<lambda>c. c \<noteq> CHR '' '' \<and> c \<noteq> CHR 0x0A) (drop (col - 1) sourceLine))"

definition getSourceExcerpt :: "(string \<Rightarrow> string option) \<Rightarrow> string \<Rightarrow> int \<Rightarrow> int \<Rightarrow> string" where
  "getSourceExcerpt read fname line col =
     (case read fname of
        None \<Rightarrow> []
      | Some data \<Rightarrow>
          let lines = Split data newline
          in if line < 1 \<or> line > int (length lines) then []
             else let sourceLine = lines ! nat (line - 1); linePrefix = ''  '' @ Itoa line @ '' | ''
                  in linePrefix @ sourceLine @ newline @
                     (if col > 0 \<and> col \<le> int (length sourceLine)
                      then replicate (length linePrefix + nat col - 1) (CHR '' '') @
                           replicate (token_length sourceLine (nat col)) (CHR ''^'')
                      else []))"

definition count_severity :: "Severity \<Rightarrow> Diagnostic list \<Rightarrow> nat" where
  "count_severity s diags = length (filter (\<lambda>d. dg_Severity d = s) diags)"

definition human_diag :: "(string \<Rightarrow> string option) \<Rightarrow> Diagnostic \<Rightarrow> string" where
  "human_diag read d =
     formatLocation (dg_Source d) @ '': '' @ dg_Severity d @ '': '' @ dg_Code d @ '': '' @ dg_Message d @ newline @
     (let file = sl_File (dg_Source d);
          excerpt = getSourceExcerpt read file (sl_Line (dg_Source d)) (sl_Column (dg_Source d))
      in if file \<noteq> [] \<and> file \<noteq> ''<stdin>'' \<and> excerpt \<noteq> [] then newline @ excerpt @ newline else []) @
     (if dg_Detail d \<noteq> [] then newline @ concat (map (\<lambda>l. ''  '' @ l @ newline) (wordWrap (dg_Detail d) 78)) else []) @
     (if dg_Related d \<noteq> [] then newline @ concat (map (\<lambda>r. ''  Related: '' @ formatLocation r @ newline) (dg_Related d)) else []) @
     (if dg_Fix d \<noteq> []
      then newline @ ''  Fix:'' @ newline @ concat (map (\<lambda>l. ''    '' @ l @ newline) (Split (dg_Fix d) newline)) else []) @
     newline @ ''  Why this rule exists: https://xpc.dev/errors/'' @ dg_Code d @ newline"

definition reportHuman :: "(string \<Rightarrow> string option) \<Rightarrow> Diagnostic list \<Rightarrow> string" where
  "reportHuman read diags =
     (if diags = [] then ''No issues found.'' @ newline
      else Join (map (human_diag read) diags) newline @ newline @
           ''Found '' @ Itoa (int (count_severity SeverityError diags)) @ '' error(s), '' @
           Itoa (int (count_severity SeverityWarning diags)) @ '' warning(s).'' @ newline)"

section \<open>Agent output\<close>

definition compactString :: "string \<Rightarrow> string" where
  "compactString s = Join (filter (\<lambda>t. t \<noteq> []) (map TrimSpace (Split s newline))) '' ''"

definition fix_text :: "string \<Rightarrow> string" where
  "fix_text fix =
     (case Split (TrimSpace fix) newline of
        [] \<Rightarrow> []
      | l # ls \<Rightarrow>
          ''  fix:      '' @ l @ newline @
          concat (map (\<lambda>t. if t \<noteq> [] then ''            '' @ t @ newline else []) (map TrimSpace ls)))"

definition ack_text :: "string \<Rightarrow> string" where
  "ack_text fix =
     (if Contains fix ''xpc.dev/accept'' \<or> Contains fix ''xpc.dev/declassify''
      then (case Index fix ''xpc.dev/'' of
              None \<Rightarrow> []
            | Some ackStart \<Rightarrow>
                ''  ack:      add annotation '' @
                takeWhile (\<lambda>c. c \<noteq> CHR '' '' \<and> c \<noteq> CHR 0x0A \<and> c \<noteq> CHR 0x22) (drop ackStart fix) @ newline)
      else [])"

definition agent_diag :: "Diagnostic \<Rightarrow> string" where
  "agent_diag d =
     dg_Code d @ '' '' @ formatLocation (dg_Source d) @ newline @
     ''  rule:     '' @ dg_Message d @ newline @
     ''  severity: '' @ dg_Severity d @ newline @
     (if dg_Detail d \<noteq> [] then ''  problem:  '' @ compactString (dg_Detail d) @ newline else []) @
     concat (map (\<lambda>r. ''  source:   '' @ formatLocation r @ newline) (dg_Related d)) @
     (if dg_Fix d \<noteq> [] then fix_text (dg_Fix d) else []) @
     ack_text (dg_Fix d) @
     ''  docs:     https://xpc.dev/errors/'' @ dg_Code d @ newline"

definition reportAgent :: "Diagnostic list \<Rightarrow> string" where
  "reportAgent diags =
     (if diags = [] then ''xpc: ok (no issues)'' @ newline
      else Join (map agent_diag diags) newline @
           newline @ ''xpc: '' @ Itoa (int (count_severity SeverityError diags)) @ '' error(s), '' @
           Itoa (int (count_severity SeverityWarning diags)) @ '' warning(s)'' @ newline)"

section \<open>Structured output\<close>

record junitFailure =
  jf_Message :: string
  jf_Type :: string
  jf_Text :: string

record junitTestCase =
  jt_Name :: string
  jt_ClassName :: string
  jt_Failure :: "junitFailure option"

record junitTestSuite =
  js_Name :: string
  js_Tests :: nat
  js_Failures :: nat
  js_Cases :: "junitTestCase list"

definition junit_case :: "Diagnostic \<Rightarrow> junitTestCase" where
  "junit_case d =
     \<lparr>jt_Name = dg_Code d @ '': '' @ dg_Message d, jt_ClassName = sl_File (dg_Source d),
      jt_Failure = (if dg_Severity d = SeverityError
                    then Some \<lparr>jf_Message = dg_Message d, jf_Type = dg_Code d, jf_Text = dg_Detail d\<rparr> else None)\<rparr>"

definition reportJUnit :: "Diagnostic list \<Rightarrow> junitTestSuite list" where
  "reportJUnit diags =
     [\<lparr>js_Name = ''xpc'', js_Tests = length diags, js_Failures = count_severity SeverityError diags,
       js_Cases = map junit_case diags\<rparr>]"

record sarifRule =
  sr_ID :: string
  sr_ShortDescription :: string
  sr_HelpURI :: string

record sarifResult =
  sx_RuleID :: string
  sx_Level :: string
  sx_Message :: string
  sx_URI :: string
  sx_StartLine :: int
  sx_StartColumn :: int

record sarifReport =
  sf_Schema :: string
  sf_Version :: string
  sf_ToolName :: string
  sf_ToolVersion :: string
  sf_ToolURI :: string
  sf_Rules :: "sarifRule list"
  sf_Results :: "sarifResult list"

definition sarif_level :: "Severity \<Rightarrow> string" where
  "sarif_level s = (if s = SeverityWarning then ''warning'' else if s = SeverityInfo then ''note'' else ''error'')"

definition sarif_result :: "Diagnostic \<Rightarrow> sarifResult" where
  "sarif_result d =
     \<lparr>sx_RuleID = dg_Code d, sx_Level = sarif_level (dg_Severity d), sx_Message = dg_Message d @ newline @ newline @ dg_Detail d,
      sx_URI = sl_File (dg_Source d), sx_StartLine = sl_Line (dg_Source d), sx_StartColumn = sl_Column (dg_Source d)\<rparr>"

definition sarif_rule :: "string \<Rightarrow> sarifRule" where
  "sarif_rule code = \<lparr>sr_ID = code, sr_ShortDescription = code, sr_HelpURI = ''https://xpc.dev/errors/'' @ code\<rparr>"

definition reportSARIF :: "Diagnostic list \<Rightarrow> sarifReport" where
  "reportSARIF diags =
     \<lparr>sf_Schema = ''https://json.schemastore.org/sarif-2.1.0.json'', sf_Version = ''2.1.0'', sf_ToolName = ''xpc'',
      sf_ToolVersion = ''0.1.0'', sf_ToolURI = ''https://xpc.dev'',
      sf_Rules = map (\<lambda>d. sarif_rule (dg_Code d)) (dedup_on dg_Code [] diags),
      sf_Results = map sarif_result diags\<rparr>"

record lspDiag =
  ls_StartLine :: int
  ls_StartCharacter :: int
  ls_EndLine :: int
  ls_EndCharacter :: int
  ls_Severity :: int
  ls_Code :: string
  ls_Source :: string
  ls_Message :: string

definition lsp_diag :: "Diagnostic \<Rightarrow> lspDiag" where
  "lsp_diag d =
     (let startLine = sl_Line (dg_Source d) - 1; startCharacter = max 0 (sl_Column (dg_Source d) - 1)
      in \<lparr>ls_StartLine = startLine, ls_StartCharacter = startCharacter, ls_EndLine = startLine,
          ls_EndCharacter = startCharacter + 1,
          ls_Severity = (if dg_Severity d = SeverityError then 1 else if dg_Severity d = SeverityWarning then 2 else 3),
          ls_Code = dg_Code d, ls_Source = ''xpc'', ls_Message = dg_Message d @ newline @ dg_Detail d\<rparr>)"

definition reportLSP :: "Diagnostic list \<Rightarrow> (string \<times> lspDiag list) list" where
  "reportLSP diags = index_by (\<lambda>d. sl_File (dg_Source d)) lsp_diag diags"

datatype Output =
    OText string | OJson "Diagnostic list" | OJUnit "junitTestSuite list" | OSarif sarifReport
  | OLsp "(string \<times> lspDiag list) list"

definition Report :: "(string \<Rightarrow> string option) \<Rightarrow> Diagnostic list \<Rightarrow> string \<Rightarrow> string + Output" where
  "Report read diags format =
     (if format = ''human'' then Inr (OText (reportHuman read diags))
      else if format = ''agent'' then Inr (OText (reportAgent diags))
      else if format = ''json'' then Inr (OJson diags)
      else if format = ''junit'' then Inr (OJUnit (reportJUnit diags))
      else if format = ''sarif'' then Inr (OSarif (reportSARIF diags))
      else if format = ''lsp'' then Inr (OLsp (reportLSP diags))
      else Inl (''unknown format: '' @ format))"

section \<open>The detector\<close>

definition isBenignNoManifests :: "string \<Rightarrow> bool" where
  "isBenignNoManifests stderr =
     (let s = ToLower stderr in Contains s ''no yaml documents found'' \<or> Contains s ''no such file or directory'')"

text \<open>\<open>codes\<close> decodes the JSON array to the codes of its elements.\<close>

definition ScanDiagnostics :: "(string \<Rightarrow> string + string list) \<Rightarrow> string \<Rightarrow> string \<Rightarrow> string + bool" where
  "ScanDiagnostics codes jsonOut ruleCode =
     (if jsonOut = [] then Inr False
      else case codes jsonOut of
        Inl e \<Rightarrow> Inl (''parse xpc check JSON: '' @ e)
      | Inr cs \<Rightarrow> Inr (ruleCode \<in> set cs))"

text \<open>How the subprocess ended: its output, or the output, the status and the stderr of a non-zero exit, or no start at all.\<close>

datatype ProcRes = ExitOk string | ExitErr string string string | NoStart string

definition detector_args :: "string list \<Rightarrow> string \<Rightarrow> string list" where
  "detector_args extraArgs workdir = [''check'', ''--skip-render'', ''--format=json''] @ extraArgs @ [workdir]"

definition XPCCheckDetector ::
  "(string \<Rightarrow> string + string list) \<Rightarrow> (string \<Rightarrow> string list \<Rightarrow> ProcRes) \<Rightarrow> string \<Rightarrow> string \<Rightarrow> string list \<Rightarrow>
   string \<Rightarrow> string + bool" where
  "XPCCheckDetector codes run xpcBin ruleCode extraArgs workdir =
     (case run xpcBin (detector_args extraArgs workdir) of
        NoStart e \<Rightarrow> Inl (''invoke '' @ xpcBin @ '': '' @ e)
      | ExitOk out \<Rightarrow> ScanDiagnostics codes out ruleCode
      | ExitErr out status stderr \<Rightarrow>
          if out = []
          then (if isBenignNoManifests stderr then Inr False
                else Inl (''xpc check failed at '' @ workdir @ '': '' @ status @ newline @ stderr))
          else ScanDiagnostics codes out ruleCode)"

section \<open>Wrapping\<close>

lemma wrap_loop_groups:
  "g \<noteq> [] \<Longrightarrow> (length g = 1 \<or> length (Join g '' '') \<le> width) \<Longrightarrow>
   \<exists>groups. hd groups = g @ take (length (hd groups) - length g) words \<and> groups \<noteq> [] \<and> concat groups = g @ words \<and>
     wrap_loop width (Join g '' '') words = map (\<lambda>g. Join g '' '') groups \<and>
     list_all (\<lambda>g. g \<noteq> [] \<and> (length g = 1 \<or> length (Join g '' '') \<le> width)) groups \<and>
     (\<forall>i. Suc i < length groups \<longrightarrow> length (Join (groups ! i) '' '') + 1 + length (hd (groups ! Suc i)) > width)"
proof (induction words arbitrary: g)
  case Nil
  then show ?case by (intro exI[of _ "[g]"]) simp
next
  case (Cons w ws)
  show ?case
  proof (cases "length (Join g '' '') + 1 + length w > width")
    case True
    obtain groups where gr: "hd groups = [w] @ take (length (hd groups) - 1) ws" "groups \<noteq> []" "concat groups = [w] @ ws"
        "wrap_loop width w ws = map (\<lambda>g. Join g '' '') groups"
        "list_all (\<lambda>g. g \<noteq> [] \<and> (length g = 1 \<or> length (Join g '' '') \<le> width)) groups"
        "\<forall>i. Suc i < length groups \<longrightarrow> length (Join (groups ! i) '' '') + 1 + length (hd (groups ! Suc i)) > width"
      using Cons.IH[of "[w]"] by auto
    have hd: "hd (groups ! 0) = w" using gr(1,2) by (cases groups) (metis append_Cons list.sel(1) nth_Cons_0, metis append_Cons list.sel(1) nth_Cons_0)
    have "length (Join ((g # groups) ! i) '' '') + 1 + length (hd ((g # groups) ! Suc i)) > width"
      if "Suc i < length (g # groups)" for i
      using that gr(6) hd True by (cases i) auto
    then show ?thesis using gr True Cons.prems by (intro exI[of _ "g # groups"]) auto
  next
    case False
    have j: "Join (g @ [w]) '' '' = Join g '' '' @ '' '' @ w" using Cons.prems(1)
      by (induction g rule: induct_list012) auto
    obtain groups where gr: "hd groups = (g @ [w]) @ take (length (hd groups) - length (g @ [w])) ws" "groups \<noteq> []"
        "concat groups = (g @ [w]) @ ws" "wrap_loop width (Join (g @ [w]) '' '') ws = map (\<lambda>g. Join g '' '') groups"
        "list_all (\<lambda>g. g \<noteq> [] \<and> (length g = 1 \<or> length (Join g '' '') \<le> width)) groups"
        "\<forall>i. Suc i < length groups \<longrightarrow> length (Join (groups ! i) '' '') + 1 + length (hd (groups ! Suc i)) > width"
      using Cons.IH[of "g @ [w]"] False j by auto
    have "length g < length (hd groups)" using arg_cong[OF gr(1), of length] by simp
    then have "hd groups = g @ take (length (hd groups) - length g) (w # ws)"
      using gr(1) by (metis Suc_diff_Suc append.assoc append_Cons append_Nil length_append_singleton take_Suc_Cons)
    then show ?thesis using gr False j by (intro exI[of _ groups]) auto
  qed
qed

text \<open>
  Wrapping cuts the words of a text into consecutive groups and joins each by single
  blanks; a line longer than the width is a single word, and no line could have taken the
  first word of the next one.
\<close>

theorem wordWrap_greedy:
  "\<exists>groups. concat groups = Fields s \<and> wordWrap s width = map (\<lambda>g. Join g '' '') groups \<and>
     list_all (\<lambda>g. g \<noteq> [] \<and> (length g = 1 \<or> length (Join g '' '') \<le> width)) groups \<and>
     (\<forall>i. Suc i < length groups \<longrightarrow> length (Join (groups ! i) '' '') + 1 + length (hd (groups ! Suc i)) > width)"
proof (cases "Fields s")
  case Nil
  then show ?thesis by (intro exI[of _ "[]"]) (simp add: wordWrap_def)
next
  case (Cons w ws)
  then show ?thesis using wrap_loop_groups[of "[w]" width ws] by (auto simp: wordWrap_def)
qed

section \<open>What the reports carry\<close>

lemma lsp_file: "mgetl (reportLSP diags) f = map lsp_diag (filter (\<lambda>d. sl_File (dg_Source d) = f) diags)"
  by (simp add: reportLSP_def mgetl_index_by)

lemma lsp_start_line: "ls_StartLine (lsp_diag d) \<ge> 0 \<longleftrightarrow> sl_Line (dg_Source d) \<ge> 1"
  by (auto simp: lsp_diag_def Let_def)

lemma sarif_fields [simp]: "sr_ID (sarif_rule c) = c" "sx_RuleID (sarif_result d) = dg_Code d"
  by (simp_all add: sarif_rule_def sarif_result_def)

text \<open>
  No format drops a finding.  JUnit has one case for each diagnostic and a failure for
  each error; SARIF has one result for each diagnostic and declares every rule it uses
  exactly once; LSP lists under each file exactly the diagnostics of that file, in order.
\<close>

theorem reports_account:
  "(let suite = hd (reportJUnit diags)
    in js_Tests suite = length (js_Cases suite) \<and> length (js_Cases suite) = length diags \<and>
       js_Failures suite = length (filter (\<lambda>c. jt_Failure c \<noteq> None) (js_Cases suite))) \<and>
   (let sarif = reportSARIF diags
    in map sx_RuleID (sf_Results sarif) = map dg_Code diags \<and> distinct (map sr_ID (sf_Rules sarif)) \<and>
       set (map sr_ID (sf_Rules sarif)) = set (map sx_RuleID (sf_Results sarif))) \<and>
   (\<forall>f. mgetl (reportLSP diags) f = map lsp_diag (filter (\<lambda>d. sl_File (dg_Source d) = f) diags)) \<and>
   distinct (map fst (reportLSP diags))"
proof -
  have "length (filter (\<lambda>c. jt_Failure c \<noteq> None) (map junit_case diags)) = count_severity SeverityError diags"
    unfolding count_severity_def by (induction diags) (auto simp: junit_case_def)
  moreover have "distinct (map dg_Code (dedup_on dg_Code [] diags))" by (rule dedup_on_distinct)
  moreover have "dg_Code ` set (dedup_on dg_Code [] diags) = dg_Code ` set diags" by (simp add: dedup_on_keys)
  moreover have "distinct (map fst (reportLSP diags))" unfolding reportLSP_def by (rule index_by_distinct)
  ultimately show ?thesis by (simp add: reportJUnit_def reportSARIF_def lsp_file Let_def comp_def image_image)
qed

text \<open>The detector answers whether the rule is among the reported ones, whatever the exit status.\<close>

lemma detector_reads_report:
  assumes "run bin (detector_args extra dir) \<in> {ExitOk out, ExitErr out status err}" "out \<noteq> []"
    "codes out = Inr (map dg_Code diags)"
  shows "XPCCheckDetector codes run bin rule extra dir = Inr (\<exists>d \<in> set diags. dg_Code d = rule)"
  using assms by (auto simp: XPCCheckDetector_def ScanDiagnostics_def)

end
