(* ===== verification/Sexpr.thy ===== *)
theory Sexpr
  imports Schemas GoJson
begin

text \<open>
  \<^verbatim>\<open>pkg/ir/sexpr.go\<close>: the \<^verbatim>\<open>.xpcir\<close> text of a World and its digest.  Strings are written
  quoted, symbols and numbers bare.  Go maps are walked in the order of the association
  list.
\<close>

section \<open>The writers\<close>

definition indent :: "nat \<Rightarrow> string" where
  "indent n = concat (replicate n ''  '')"

definition writeSourceSExpr :: "SourceLocation \<Rightarrow> nat \<Rightarrow> string" where
  "writeSourceSExpr src n =
     indent n @ ''(source (file '' @ Quote (sl_File src) @ '') (line '' @ Itoa (sl_Line src) @ ''))'' @ newline"

definition version_sexpr :: "bool \<Rightarrow> CRDVersion \<Rightarrow> string" where
  "version_sexpr isXRD v =
     ''    (version (name '' @ Quote (cv_Name v) @ '') (served '' @ go_bool (cv_Served v) @ '') (storage '' @ go_bool (cv_Storage v) @ '')'' @
     (if isXRD then '' (referenceable '' @ go_bool (cv_Referenceable v) @ '')'' else []) @
     (if cv_SchemaDigest v \<noteq> [] then newline @ ''             (schema-ref '' @ Quote (cv_SchemaDigest v) @ '')'' else []) @
     '')'' @ newline"

definition conversion_sexpr :: "ConversionInfo \<Rightarrow> string" where
  "conversion_sexpr c =
     ''  (conversion'' @ newline @ ''    (strategy '' @ conv_Strategy c @ '')'' @ newline @
     ''    (cost-class '' @ conv_CostClass c @ '')'' @
     (if conv_WebhookService c \<noteq> [] then newline @ ''    (webhook-service '' @ Quote (conv_WebhookService c) @ '')'' else []) @
     '')'' @ newline"

definition writeCRDSExpr :: "bool \<Rightarrow> CRDInfo \<Rightarrow> string" where
  "writeCRDSExpr isXRD crd =
     ''('' @ (if isXRD then ''xrd'' else ''crd'') @ newline @
     ''  (group '' @ Quote (crd_Group crd) @ '')'' @ newline @
     ''  (kind '' @ Quote (crd_Kind crd) @ '')'' @ newline @
     ''  (scope '' @ crd_Scope crd @ '')'' @ newline @
     (if isXRD \<and> crd_APIVersion crd \<noteq> [] then ''  (api-version '' @ Quote (crd_APIVersion crd) @ '')'' @ newline else []) @
     ''  (versions'' @ newline @ concat (map (version_sexpr isXRD) (crd_Versions crd)) @ ''  )'' @ newline @
     (if \<not> isXRD then conversion_sexpr (crd_Conversion crd) else []) @
     writeSourceSExpr (crd_Source crd) 1 @
     '')'' @ newline @ newline"

definition step_sexpr :: "PipelineStep \<Rightarrow> string" where
  "step_sexpr s =
     ''    (step (name '' @ Quote (ps_Name s) @ '')'' @ newline @
     ''          (function-ref '' @ Quote (ps_FunctionRef s) @ '')'' @ newline @
     (if ps_InputAPIVersion s \<noteq> []
      then ''          (input-api-version '' @ Quote (ps_InputAPIVersion s) @ '')'' @ newline @
           ''          (input-kind '' @ Quote (ps_InputKind s) @ '')''
      else []) @
     '')'' @ newline"

definition writeCompositionSExpr :: "CompositionInfo \<Rightarrow> string" where
  "writeCompositionSExpr c =
     ''(composition'' @ newline @ ''  (name '' @ Quote (comp_Name c) @ '')'' @ newline @
     ''  (composite-type-ref (api-version '' @
     Quote (gvk_Group (comp_CompositeTypeRef c) @ ''/'' @ gvk_Version (comp_CompositeTypeRef c)) @
     '') (kind '' @ Quote (gvk_Kind (comp_CompositeTypeRef c)) @ ''))'' @ newline @
     ''  (mode '' @ comp_Mode c @ '')'' @ newline @
     (if comp_Mode c = ''Pipeline''
      then ''  (pipeline'' @ newline @ concat (map step_sexpr (comp_Pipeline c)) @ ''  )'' @ newline else []) @
     writeSourceSExpr (comp_Source c) 1 @
     '')'' @ newline @ newline"

text \<open>\<open>ff\<close> is the shortest decimal form of a float.\<close>

function writeSchemaValue :: "(rat \<Rightarrow> string) \<Rightarrow> obj \<Rightarrow> nat \<Rightarrow> string" where
  "writeSchemaValue ff [] n = []"
| "writeSchemaValue ff ((k, v) # m) n =
     indent n @ ''('' @ k @
     (case v of
        JObj val \<Rightarrow> newline @ writeSchemaValue ff val (n + 1) @ indent n @ '')''
      | JStr s \<Rightarrow> '' '' @ Quote s @ '')''
      | _ \<Rightarrow> '' '' @ fmt_v ff v @ '')'') @ newline @
     writeSchemaValue ff m n"
  by pat_completeness auto
termination
  by (relation "measure (\<lambda>(ff, m, n). size (JObj m))") auto

definition function_sexpr :: "FunctionInfo \<Rightarrow> string" where
  "function_sexpr f =
     ''(function'' @ newline @ ''  (name '' @ Quote (fn_Name f) @ '')'' @ newline @
     ''  (package '' @ Quote (fn_Package f) @ '')'' @ newline @
     (if fn_InputVersions f \<noteq> []
      then ''  (input-versions ('' @ Join (map Quote (fn_InputVersions f)) '' '' @ ''))'' @ newline else []) @
     writeSourceSExpr (fn_Source f) 1 @ '')'' @ newline @ newline"

definition named_sexpr :: "string \<Rightarrow> string \<Rightarrow> string \<Rightarrow> SourceLocation \<Rightarrow> string" where
  "named_sexpr tag name pkg src =
     ''('' @ tag @ newline @ ''  (name '' @ Quote name @ '')'' @ newline @ ''  (package '' @ Quote pkg @ '')'' @ newline @
     writeSourceSExpr src 1 @ '')'' @ newline @ newline"

definition resource_sexpr :: "ResourceInfo \<Rightarrow> string" where
  "resource_sexpr r =
     ''(resource'' @ newline @ ''  (api-version '' @ Quote (ri_APIVersion r) @ '')'' @ newline @
     ''  (kind '' @ Quote (ri_Kind r) @ '')'' @ newline @ ''  (name '' @ Quote (ri_Name r) @ '')'' @ newline @
     (if ri_Namespace r \<noteq> [] then ''  (namespace '' @ Quote (ri_Namespace r) @ '')'' @ newline else []) @
     (if ri_Annotations r \<noteq> []
      then ''  (annotations'' @ newline @
           concat (map (\<lambda>(k, v). ''    ('' @ Quote k @ '' '' @ Quote v @ '')'' @ newline) (ri_Annotations r)) @ ''  )'' @ newline
      else []) @
     writeSourceSExpr (ri_Source r) 1 @ '')'' @ newline @ newline"

definition wave_sexpr :: "SyncWaveEntry \<Rightarrow> string" where
  "wave_sexpr sw =
     ''    (resource (kind '' @ Quote (swe_Kind sw) @ '') (name '' @ Quote (swe_Name sw) @ '') (wave '' @ Itoa (swe_Wave sw) @ ''))'' @ newline"

definition app_sexpr :: "ArgoApplication \<Rightarrow> string" where
  "app_sexpr a =
     ''(argo-application'' @ newline @ ''  (name '' @ Quote (app_Name a) @ '')'' @ newline @
     ''  (tracking-mode '' @ app_TrackingMode a @ '')'' @ newline @
     (if app_SyncWaves a \<noteq> []
      then ''  (sync-waves'' @ newline @ concat (map wave_sexpr (app_SyncWaves a)) @ ''  )'' @ newline else []) @
     writeSourceSExpr (app_Source a) 1 @ '')'' @ newline @ newline"

definition schema_sexpr :: "(rat \<Rightarrow> string) \<Rightarrow> string \<times> SchemaInfo \<Rightarrow> string" where
  "schema_sexpr ff e =
     ''(schema '' @ Quote (fst e) @ newline @ writeSchemaValue ff (sch_Schema (snd e)) 1 @ '')'' @ newline @ newline"

definition ToSExpr :: "(rat \<Rightarrow> string) \<Rightarrow> World \<Rightarrow> string" where
  "ToSExpr ff w =
     ''(xpcir-version 1)'' @ newline @ newline @
     concat (map (writeCRDSExpr False) (w_CRDs w)) @
     concat (map (writeCRDSExpr True) (w_XRDs w)) @
     concat (map (schema_sexpr ff) (w_Schemas w)) @
     concat (map writeCompositionSExpr (w_Compositions w)) @
     concat (map function_sexpr (w_Functions w)) @
     concat (map (\<lambda>p. named_sexpr ''provider'' (prov_Name p) (prov_Package p) (prov_Source p)) (w_Providers w)) @
     concat (map (\<lambda>c. named_sexpr ''configuration'' (cfgn_Name c) (cfgn_Package c) (cfgn_Source c)) (w_Configurations w)) @
     concat (map resource_sexpr (w_Resources w)) @
     concat (map app_sexpr (w_ArgoApps w))"

definition DigestWorld :: "(string \<Rightarrow> string) \<Rightarrow> (rat \<Rightarrow> string) \<Rightarrow> World \<Rightarrow> string" where
  "DigestWorld sha ff w = ''sha256:'' @ sha (ToSExpr ff w)"

section \<open>Reading the text\<close>

text \<open>
  A reader that counts parentheses outside of quoted strings: \<^const>\<open>None\<close> when a
  parenthesis closes nothing.
\<close>

datatype Mode = Bare | InStr | Escaped

fun scan :: "Mode \<times> nat \<Rightarrow> string \<Rightarrow> (Mode \<times> nat) option" where
  "scan st [] = Some st"
| "scan (Bare, d) (c # s) =
     (if c = CHR ''('' then scan (Bare, Suc d) s
      else if c = CHR '')'' then (case d of 0 \<Rightarrow> None | Suc d' \<Rightarrow> scan (Bare, d') s)
      else if c = CHR 0x22 then scan (InStr, d) s
      else scan (Bare, d) s)"
| "scan (InStr, d) (c # s) =
     (if c = CHR 0x5C then scan (Escaped, d) s else if c = CHR 0x22 then scan (Bare, d) s else scan (InStr, d) s)"
| "scan (Escaped, d) (c # s) = scan (InStr, d) s"

definition balanced :: "string \<Rightarrow> bool" where
  "balanced s = (\<forall>d. scan (Bare, d) s = Some (Bare, d))"

definition plain :: "string \<Rightarrow> bool" where
  "plain s = list_all (\<lambda>c. c \<noteq> CHR ''('' \<and> c \<noteq> CHR '')'' \<and> c \<noteq> CHR 0x22) s"

lemma scan_append: "scan st (s @ t) = Option.bind (scan st s) (\<lambda>st'. scan st' t)"
  by (induction st s rule: scan.induct) (auto split: nat.splits)

lemma balanced_append [intro]: "balanced s \<Longrightarrow> balanced t \<Longrightarrow> balanced (s @ t)"
  by (simp add: balanced_def scan_append)

lemma balanced_Nil [simp, intro]: "balanced []"
  by (simp add: balanced_def)

lemma balanced_paren [intro]: "balanced s \<Longrightarrow> balanced (''('' @ s @ '')'')"
  by (simp add: balanced_def scan_append)

lemma balanced_plain: "plain s \<Longrightarrow> balanced s"
  unfolding balanced_def plain_def by (induction s) auto

lemma balanced_concat: "(\<And>x. x \<in> set xs \<Longrightarrow> balanced (f x)) \<Longrightarrow> balanced (concat (map f xs))"
  by (induction xs) auto

lemma scan_quote_char: "scan (InStr, d) (quote_char c @ s) = scan (InStr, d) s"
proof -
  have "Schemas.hex_digit n \<noteq> CHR 0x22 \<and> Schemas.hex_digit n \<noteq> CHR 0x5C" if "n < 16" for n
    using that by (simp add: Schemas.hex_digit_def less_Suc_eq numeral_nat) auto
  then show ?thesis by (auto simp: quote_char_def Let_def)
qed

lemma balanced_Quote [intro]: "balanced (Quote s)"
proof -
  have "scan (InStr, d) (concat (map quote_char s) @ [CHR 0x22]) = Some (Bare, d)" for d
    by (induction s) (simp_all add: scan_quote_char)
  then show ?thesis by (simp add: balanced_def Quote_def)
qed

section \<open>Every writer is balanced\<close>

lemma scan_skip: "balanced s \<Longrightarrow> scan (Bare, d) (s @ t) = scan (Bare, d) t"
  by (simp add: balanced_def scan_append)

lemma plain_Itoa: "plain (Itoa i)"
  using Itoa_digits[of "CHR ''(''" i] Itoa_digits[of "CHR '')''" i] Itoa_digits[of "CHR 0x22" i]
  by (auto simp: plain_def list_all_iff is_digit_def)

lemma plain_simple: "plain (go_bool b)" "plain (indent n)"
proof -
  show "plain (go_bool b)" by (simp add: go_bool_def plain_def)
  show "plain (indent n)" unfolding indent_def plain_def by (induction n) auto
qed

lemmas scan_pieces = scan_skip[OF balanced_Quote] scan_skip[OF balanced_plain[OF plain_Itoa]]
  scan_skip[OF balanced_plain[OF plain_simple(1)]] scan_skip[OF balanced_plain[OF plain_simple(2)]]

lemma balancedI: "(\<And>d. scan (Bare, d) s = Some (Bare, d)) \<Longrightarrow> balanced s"
  by (simp add: balanced_def)

lemma balanced_source: "balanced (writeSourceSExpr src n)"
  by (rule balancedI) (simp add: writeSourceSExpr_def scan_pieces)

lemma balanced_version: "balanced (version_sexpr x v)"
  by (rule balancedI) (simp add: version_sexpr_def scan_pieces)

lemma balanced_step: "balanced (step_sexpr s)"
  by (rule balancedI) (simp add: step_sexpr_def scan_pieces)

lemma balanced_wave: "balanced (wave_sexpr s)"
  by (rule balancedI) (simp add: wave_sexpr_def scan_pieces)

text \<open>The fields written bare: they have to be free of parentheses and quotes.\<close>

definition plain_crd :: "CRDInfo \<Rightarrow> bool" where
  "plain_crd c = (plain (crd_Scope c) \<and> plain (conv_Strategy (crd_Conversion c)) \<and> plain (conv_CostClass (crd_Conversion c)))"

lemma balanced_crd:
  assumes "plain_crd c"
  shows "balanced (writeCRDSExpr x c)"
proof (rule balancedI)
  note pl = assms[unfolded plain_crd_def, THEN conjunct1] assms[unfolded plain_crd_def, THEN conjunct2, THEN conjunct1]
    assms[unfolded plain_crd_def, THEN conjunct2, THEN conjunct2]
  note bare = pl[THEN balanced_plain, THEN scan_skip]
  have vs: "balanced (concat (map (version_sexpr y) (crd_Versions c)))" for y by (rule balanced_concat) (rule balanced_version)
  show "scan (Bare, d) (writeCRDSExpr x c) = Some (Bare, d)" for d
    by (cases x) (simp_all add: writeCRDSExpr_def conversion_sexpr_def scan_pieces bare scan_skip[OF vs] scan_skip[OF balanced_source])
qed

lemma balanced_composition:
  assumes "plain (comp_Mode c)"
  shows "balanced (writeCompositionSExpr c)"
proof (rule balancedI)
  have vs: "balanced (concat (map step_sexpr (comp_Pipeline c)))" by (rule balanced_concat) (rule balanced_step)
  show "scan (Bare, d) (writeCompositionSExpr c) = Some (Bare, d)" for d
    by (simp add: writeCompositionSExpr_def scan_pieces scan_skip[OF balanced_plain[OF assms]] scan_skip[OF vs] scan_skip[OF balanced_source])
qed

lemma balanced_Join_Quote: "balanced (Join (map Quote xs) '' '')"
proof (induction xs rule: induct_list012)
  case (3 x y zs)
  then show ?case by (intro balancedI) (simp add: scan_pieces balanced_def)
qed auto

lemma balanced_function: "balanced (function_sexpr f)"
  by (rule balancedI) (simp add: function_sexpr_def scan_pieces scan_skip[OF balanced_Join_Quote] scan_skip[OF balanced_source])

lemma balanced_named: "plain tag \<Longrightarrow> balanced (named_sexpr tag n p src)"
  by (rule balancedI) (simp add: named_sexpr_def scan_pieces scan_skip[OF balanced_source] scan_skip[OF balanced_plain])

lemma balanced_resource: "balanced (resource_sexpr r)"
proof (rule balancedI)
  have one: "balanced (case kv of (k, v) \<Rightarrow> ''    ('' @ Quote k @ '' '' @ Quote v @ '')'' @ newline)" for kv :: "string \<times> string"
    by (cases kv) (rule balancedI, simp add: scan_pieces)
  have ann: "balanced (concat (map (\<lambda>(k, v). ''    ('' @ Quote k @ '' '' @ Quote v @ '')'' @ newline) (ri_Annotations r)))"
    by (rule balanced_concat) (rule one)
  show "scan (Bare, d) (resource_sexpr r) = Some (Bare, d)" for d
    using scan_skip[OF ann] by (simp add: resource_sexpr_def scan_pieces scan_skip[OF balanced_source])
qed

lemma balanced_app: "plain (app_TrackingMode a) \<Longrightarrow> balanced (app_sexpr a)"
proof (rule balancedI)
  assume p: "plain (app_TrackingMode a)"
  have ws: "balanced (concat (map wave_sexpr (app_SyncWaves a)))" by (rule balanced_concat) (rule balanced_wave)
  show "scan (Bare, d) (app_sexpr a) = Some (Bare, d)" for d
    by (simp add: app_sexpr_def scan_pieces scan_skip[OF balanced_plain[OF p]] scan_skip[OF ws] scan_skip[OF balanced_source])
qed

text \<open>In a schema the keys are bare, and so is every value that is neither a map nor a string.\<close>

fun plain_schema :: "(rat \<Rightarrow> string) \<Rightarrow> json \<Rightarrow> bool" where
  "plain_schema ff (JObj m) = list_all (\<lambda>(k, v). plain k \<and> plain_schema ff v) m"
| "plain_schema ff (JStr s) = True"
| "plain_schema ff v = plain (fmt_v ff v)"

lemma balanced_schema: "plain_schema ff (JObj m) \<Longrightarrow> balanced (writeSchemaValue ff m n)"
proof (induction ff m n rule: writeSchemaValue.induct)
  case (2 ff k v m n)
  then have k: "plain k" "plain_schema ff v" and rest: "balanced (writeSchemaValue ff m n)" by auto
  have item: "balanced (''('' @ k @ (case v of JObj val \<Rightarrow> newline @ writeSchemaValue ff val (n + 1) @ indent n @ '')''
      | JStr s \<Rightarrow> '' '' @ Quote s @ '')'' | _ \<Rightarrow> '' '' @ fmt_v ff v @ '')''))"
    using k 2(1) by (cases v)
      (auto intro!: balancedI simp: scan_skip[OF balanced_plain[OF k(1)]] scan_pieces scan_skip[OF balanced_plain] scan_skip simp del: fmt_v.simps)
  show ?case
    by (rule balancedI) (use scan_skip[OF item] rest in \<open>simp add: scan_pieces balanced_def\<close>)
qed simp

definition plain_world :: "(rat \<Rightarrow> string) \<Rightarrow> World \<Rightarrow> bool" where
  "plain_world ff w =
     (list_all plain_crd (w_CRDs w) \<and> list_all plain_crd (w_XRDs w) \<and>
      list_all (\<lambda>c. plain (comp_Mode c)) (w_Compositions w) \<and>
      list_all (\<lambda>a. plain (app_TrackingMode a)) (w_ArgoApps w) \<and>
      list_all (\<lambda>(d, s). plain_schema ff (JObj (sch_Schema s))) (w_Schemas w))"

text \<open>
  The text of a World is a sequence of complete s-expressions, whatever the names,
  locations, annotations and quoted schema strings contain: outside of quoted strings every
  parenthesis is matched, provided the symbols written bare have none.
\<close>

theorem ToSExpr_balanced:
  assumes "plain_world ff w"
  shows "balanced (ToSExpr ff w)"
proof -
  have sch: "balanced (schema_sexpr ff e)" if "plain_schema ff (JObj (sch_Schema (snd e)))" for e
    using balanced_schema[OF that, of 1] by (intro balancedI) (simp add: schema_sexpr_def scan_pieces scan_skip)
  have head: "balanced ''(xpcir-version 1)''" "balanced newline" by (rule balancedI, simp)+
  have tags: "plain ''provider''" "plain ''configuration''" by (simp_all add: plain_def)
  have items: "balanced (concat (map (writeCRDSExpr False) (w_CRDs w)))" "balanced (concat (map (writeCRDSExpr True) (w_XRDs w)))"
    "balanced (concat (map (schema_sexpr ff) (w_Schemas w)))" "balanced (concat (map writeCompositionSExpr (w_Compositions w)))"
    "balanced (concat (map app_sexpr (w_ArgoApps w)))"
    using assms unfolding plain_world_def list_all_iff
    by (blast intro: balanced_concat balanced_crd, blast intro: balanced_concat balanced_crd,
        intro balanced_concat sch, force, blast intro: balanced_concat balanced_composition,
        blast intro: balanced_concat balanced_app)
  show ?thesis
    unfolding ToSExpr_def
    by (intro balanced_append head items balanced_concat balanced_function balanced_resource balanced_named tags)
qed

theorem ToSExpr_balanced_witness:
  "balanced (ToSExpr (\<lambda>_. []) (NewWorld\<lparr>w_Schemas := [(''d('', \<lparr>sch_Digest = [], sch_Schema = [(''a'', JStr ''))'')]\<rparr>)]\<rparr>))"
  by (rule ToSExpr_balanced) (simp add: plain_world_def NewWorld_def plain_def)

text \<open>The maps are walked as they come: the same World has several texts.\<close>

lemma ToSExpr_order:
  "ToSExpr ff (NewWorld\<lparr>w_Schemas := [(''a'', s), (''b'', s)]\<rparr>) \<noteq> ToSExpr ff (NewWorld\<lparr>w_Schemas := [(''b'', s), (''a'', s)]\<rparr>)"
  by (simp add: ToSExpr_def NewWorld_def schema_sexpr_def Quote_def quote_char_def Let_def)

end
