(* ===== verification/KernelText.thy ===== *)
theory KernelText
  imports Shen
begin

text \<open>
  The texts of the kernel's diagnostics: message, detail and fix of every judgment the rules of
  \<^verbatim>\<open>kernel/*.shen\<close> build, each with the strings and numbers it interpolates as arguments.
\<close>

definition quo :: string where "quo = [CHR 0x27]"

definition emdash :: string where "emdash = [CHR 0xE2, CHR 0x80, CHR 0x94]"

definition r1a_message :: "string \<Rightarrow> string \<Rightarrow> string \<Rightarrow> string" where
  "r1a_message name grp kind =
     ''version '' @ name @ '' of CRD '' @ grp @ ''/'' @ kind @ '' is not served''"

definition r1a_detail :: "string \<Rightarrow> string \<Rightarrow> string \<Rightarrow> string" where
  "r1a_detail grp kind name =
     ''CRD '' @ grp @ ''.'' @ kind @ '' declares version '' @ name @ '' but it is not marked as served. Clients cannot use this version.''"

definition r1a_fix :: "string \<Rightarrow> string" where
  "r1a_fix name =
     ''Set served: true for version '' @ name @ '' or remove the version entry.''"

definition r1b_storage_message :: "string \<Rightarrow> string \<Rightarrow> int \<Rightarrow> string" where
  "r1b_storage_message grp kind storageCount =
     ''CRD '' @ grp @ ''/'' @ kind @ '' has '' @ Itoa storageCount @ '' storage versions (expected exactly 1)''"

definition r1b_storage_detail :: "int \<Rightarrow> string" where
  "r1b_storage_detail storageCount =
     ''Every CRD must have exactly one version marked as the storage version. '' @ ''Found '' @ Itoa storageCount @ '' storage versions.''"

definition r1b_storage_fix :: "string" where
  "r1b_storage_fix =
     ''Mark exactly one version with storage: true.''"

definition r1b_ref_message :: "string \<Rightarrow> string \<Rightarrow> string" where
  "r1b_ref_message grp kind =
     ''XRD '' @ grp @ ''/'' @ kind @ '' has no referenceable version''"

definition r1b_ref_detail :: "string" where
  "r1b_ref_detail =
     ''Every XRD must have at least one version marked as referenceable for Compositions to reference.''"

definition r1b_ref_fix :: "string" where
  "r1b_ref_fix =
     ''Set referenceable: true on the version Compositions should use.''"

definition r2_message :: "string" where
  "r2_message =
     ''webhook conversion not acknowledged''"

definition r2_detail :: "string \<Rightarrow> string \<Rightarrow> string \<Rightarrow> string \<Rightarrow> string" where
  "r2_detail version grp kind storage =
     ''This resource is written at version '' @ version @ '', but the storage version of CRD '' @ grp @ ''.'' @ kind @ '' is '' @ storage @ ''. Reading or writing this resource will invoke a conversion webhook on every request, which is a network round-trip and a single point of failure.''"

definition r2_fix :: "string \<Rightarrow> string" where
  "r2_fix storage =
     ''Re-author the resource at the storage version '' @ storage @ ''. Or add annotation xpc.dev/accept-conversion-webhook: '' @ quo @ ''true'' @ quo @ '' to acknowledge.''"

definition r3a_message :: "string \<Rightarrow> string \<Rightarrow> string \<Rightarrow> string" where
  "r3a_message name grp kind =
     ''Composition '' @ name @ '' references unknown XRD '' @ grp @ ''/'' @ kind"

definition r3a_detail :: "string \<Rightarrow> string \<Rightarrow> string \<Rightarrow> string" where
  "r3a_detail grp version kind =
     ''compositeTypeRef references '' @ grp @ ''/'' @ version @ ''/'' @ kind @ '' but no CompositeResourceDefinition for this group/kind was found.''"

definition r3a_fix :: "string" where
  "r3a_fix =
     ''Ensure the XRD is defined and included in the checked manifests.''"

definition r3b_message :: "string \<Rightarrow> string \<Rightarrow> string \<Rightarrow> string \<Rightarrow> string" where
  "r3b_message compName version grp kind =
     ''Composition '' @ compName @ '' uses version '' @ version @ '' which is not referenceable on XRD '' @ grp @ ''/'' @ kind"

definition r3b_detail :: "string \<Rightarrow> string \<Rightarrow> string \<Rightarrow> string" where
  "r3b_detail grp version kind =
     ''The Composition references '' @ grp @ ''/'' @ version @ ''/'' @ kind @ '' but this version is not marked referenceable on the XRD. '' @ ''Only referenceable versions can be used by Compositions.''"

definition r3b_fix :: "string \<Rightarrow> string" where
  "r3b_fix version =
     ''Use a referenceable version, or set referenceable: true on version '' @ version @ '' in the XRD.''"

definition r4a_message :: "string \<Rightarrow> string \<Rightarrow> string \<Rightarrow> string" where
  "r4a_message compName stepName fnRef =
     ''Composition '' @ compName @ '' step '' @ stepName @ '' references unknown function '' @ fnRef"

definition r4a_detail :: "string \<Rightarrow> string \<Rightarrow> string" where
  "r4a_detail stepName fnRef =
     ''Pipeline step '' @ quo @ stepName @ quo @ '' references function '' @ quo @ fnRef @ quo @ '' but no Function resource with this name was found.''"

definition r4a_fix :: "string \<Rightarrow> string" where
  "r4a_fix fnRef =
     ''Ensure Function '' @ quo @ fnRef @ quo @ '' is defined and included in the checked manifests.''"

definition r4b_message :: "string \<Rightarrow> string \<Rightarrow> string \<Rightarrow> string" where
  "r4b_message compName stepName fnRef =
     ''Composition '' @ compName @ '' step '' @ stepName @ '' input version mismatch for function '' @ fnRef"

definition r4b_detail :: "string \<Rightarrow> string \<Rightarrow> string \<Rightarrow> string \<Rightarrow> string" where
  "r4b_detail stepName inputAV fnRef accepted =
     ''Pipeline step '' @ quo @ stepName @ quo @ '' passes input at '' @ inputAV @ '' but function '' @ quo @ fnRef @ quo @ '' accepts: '' @ accepted"

definition r4b_fix :: "string \<Rightarrow> string" where
  "r4b_fix accepted =
     ''Change the input apiVersion to one accepted by the function: '' @ accepted"

definition r5_message :: "string \<Rightarrow> string" where
  "r5_message compName =
     ''patch type mismatch in Composition '' @ compName"

definition r5_detail :: "string \<Rightarrow> string \<Rightarrow> string \<Rightarrow> string \<Rightarrow> string" where
  "r5_detail fromPath fromType toPath toType =
     ''Field '' @ fromPath @ '' has type '' @ fromType @ '' but target field '' @ toPath @ '' has type '' @ toType @ ''. These types are not compatible without an explicit transform.''"

definition r5_fix :: "string \<Rightarrow> string" where
  "r5_fix toType =
     ''Add a transform (e.g., convert: { toType: '' @ toType @ '' }) to the patch.''"

definition r6a_message :: "string \<Rightarrow> int \<Rightarrow> string \<Rightarrow> int \<Rightarrow> string" where
  "r6a_message kind xrdWave xrName xrWave =
     ''XRD '' @ kind @ '' (wave '' @ Itoa xrdWave @ '') must have a lower sync-wave than XR '' @ xrName @ '' (wave '' @ Itoa xrWave @ '')''"

definition r6a_detail :: "string \<Rightarrow> string" where
  "r6a_detail kind =
     ''CompositeResourceDefinition '' @ kind @ '' must be Established before any XR of this kind can be applied. '' @ ''The XRD sync-wave must be strictly less than the XR sync-wave.''"

definition r6a_fix :: "int \<Rightarrow> string" where
  "r6a_fix xrWave =
     ''Set sync-wave on the XRD to a value less than '' @ Itoa xrWave @ ''.''"

definition r6d_message :: "string \<Rightarrow> int \<Rightarrow> string \<Rightarrow> int \<Rightarrow> string" where
  "r6d_message compName compWave xrName xrWave =
     ''Composition '' @ compName @ '' (wave '' @ Itoa compWave @ '') must not have a higher sync-wave than XR '' @ xrName @ '' (wave '' @ Itoa xrWave @ '')''"

definition r6d_detail :: "string \<Rightarrow> string \<Rightarrow> string" where
  "r6d_detail compName xrName =
     ''Composition '' @ compName @ '' must exist before XR '' @ xrName @ '' of its referenced type can be applied.''"

definition r6d_fix :: "string \<Rightarrow> int \<Rightarrow> string" where
  "r6d_fix compName xrWave =
     ''Set sync-wave on Composition '' @ compName @ '' to a value <= '' @ Itoa xrWave @ ''.''"

definition r6c_message :: "string \<Rightarrow> int \<Rightarrow> string \<Rightarrow> string \<Rightarrow> int \<Rightarrow> string" where
  "r6c_message provName provWave mrKind mrName mrWave =
     ''Provider '' @ provName @ '' (wave '' @ Itoa provWave @ '') must have a lower sync-wave than managed resource '' @ mrKind @ ''/'' @ mrName @ '' (wave '' @ Itoa mrWave @ '')''"

definition r6c_detail :: "string \<Rightarrow> string" where
  "r6c_detail provName =
     ''R6c: Provider '' @ provName @ '' must be Healthy before any of its managed resources can reconcile. '' @ ''The Provider sync-wave must be strictly less than the MR sync-wave.''"

definition r6c_fix :: "string \<Rightarrow> int \<Rightarrow> string" where
  "r6c_fix provName mrWave =
     ''Set sync-wave on Provider '' @ provName @ '' to a value less than '' @ Itoa mrWave @ ''.''"

definition r7_message :: "string \<Rightarrow> string" where
  "r7_message compName =
     ''Argo CD label tracking conflicts with Crossplane Composition '' @ compName"

definition r7_detail :: "string \<Rightarrow> string \<Rightarrow> string" where
  "r7_detail appName compName =
     ''Argo Application '' @ quo @ appName @ quo @ '' uses label-based tracking, but Composition '' @ quo @ compName @ quo @ '' produces resources that Crossplane will label-propagate to. '' @ ''This causes Argo CD to either prune Crossplane-created resources or fight Crossplane for ownership (see crossplane/crossplane#2121).''"

definition r7_fix :: "string" where
  "r7_fix =
     ''Switch Argo CD tracking mode to annotation: set argocd.argoproj.io/tracking-method: annotation on the Application.''"

definition r9_message :: "string \<Rightarrow> string" where
  "r9_message name =
     ''required resource not bootstrappable for '' @ name"

definition r9_detail :: "string \<Rightarrow> string \<Rightarrow> string" where
  "r9_detail kind name =
     kind @ '' '' @ quo @ name @ quo @ '' references a required resource that may not exist on first reconcile. The Composition pipeline depends on a resource that isn'' @ quo @ ''t produced by an earlier step or known to exist at bootstrap time.''"

definition r9_fix :: "string" where
  "r9_fix =
     ''Ensure the required resource is produced by an earlier pipeline step, '' @ ''or add annotation xpc.dev/accept-bootstrap-gap: '' @ quo @ ''true'' @ quo @ '' to acknowledge.''"

definition r10_message :: "string \<Rightarrow> string" where
  "r10_message compName =
     ''secret taint leak in Composition '' @ compName"

definition r10_detail :: "string \<Rightarrow> string \<Rightarrow> string" where
  "r10_detail fromPath toPath =
     ''Patch source '' @ fromPath @ '' is tainted (secret/credential material) but destination '' @ toPath @ '' is not a secret sink. This may expose sensitive data in a non-secret field where it could be logged, displayed, or read by unprivileged controllers.''"

definition r10_fix :: "string \<Rightarrow> string" where
  "r10_fix fromPath =
     ''Route the secret through a SecretRef field, or add annotation xpc.dev/declassify: '' @ fromPath @ '' to acknowledge this is intentional.''"

definition r11_resource_message :: "string \<Rightarrow> string \<Rightarrow> string \<Rightarrow> string" where
  "r11_resource_message apiVersion kind name =
     ''deprecated API version '' @ apiVersion @ '' for '' @ kind @ ''/'' @ name"

definition r11_resource_fix :: "string" where
  "r11_resource_fix =
     ''Update to the recommended API version.''"

definition r11_composition_message :: "string \<Rightarrow> string \<Rightarrow> string" where
  "r11_composition_message compName apiVer =
     ''Composition '' @ compName @ '' references deprecated API version '' @ apiVer"

definition r11_composition_fix :: "string" where
  "r11_composition_fix =
     ''Update the compositeTypeRef to use a supported version.''"

definition r11_provider_message :: "string \<Rightarrow> string \<Rightarrow> string" where
  "r11_provider_message provName provVer =
     ''Provider '' @ provName @ '' at '' @ provVer @ '' may have known issues''"

definition r11_provider_fix :: "string \<Rightarrow> string" where
  "r11_provider_fix lowest =
     ''Upgrade to version '' @ lowest @ '' or later.''"

definition r11_crd_message :: "string \<Rightarrow> string \<Rightarrow> string \<Rightarrow> string" where
  "r11_crd_message grp kind vName =
     ''CRD '' @ grp @ ''.'' @ kind @ '' version '' @ vName @ '' is no longer served''"

definition r11_crd_detail :: "string \<Rightarrow> string \<Rightarrow> string \<Rightarrow> string" where
  "r11_crd_detail vName grp kind =
     ''Version '' @ vName @ '' of CRD '' @ grp @ ''.'' @ kind @ ''. Any resources still using this version will fail on next API server restart. This version will likely be removed in a future release.''"

definition r11_crd_fix :: "string \<Rightarrow> string" where
  "r11_crd_fix vName =
     ''Migrate resources from '' @ vName @ '' to a served version.''"

definition r12_message :: "string \<Rightarrow> string \<Rightarrow> string \<Rightarrow> string \<Rightarrow> string" where
  "r12_message tkind tname okind oname =
     tkind @ '' '' @ tname @ '' is absent from the trajectory state but still mounted by '' @ okind @ ''/'' @ oname"

definition r12_detail :: "string \<Rightarrow> string \<Rightarrow> string \<Rightarrow> string \<Rightarrow> string \<Rightarrow> string" where
  "r12_detail mkind tkind tname okind oname =
     ''Non-optional '' @ mkind @ '' mount of '' @ tkind @ '' '' @ tname @ '' by '' @ okind @ ''/'' @ oname @ '' would read from a ConfigMap/Secret that has already been pruned '' @ ''or was never applied. The mount is declared non-optional so the Pod will fail to start.''"

definition r12_fix :: "string \<Rightarrow> string \<Rightarrow> string" where
  "r12_fix tkind tname =
     ''Either delay pruning '' @ tkind @ '' '' @ tname @ '' until the dependent workload is gone, or mark the mount optional.''"

definition r14_message :: "string \<Rightarrow> string \<Rightarrow> string \<Rightarrow> string \<Rightarrow> string" where
  "r14_message bKind bName okind oname =
     ''RBAC regression: '' @ bKind @ ''/'' @ bName @ '' or its Role is absent from state while '' @ okind @ ''/'' @ oname @ '' still needs it''"

definition r14_detail :: "string \<Rightarrow> string \<Rightarrow> string \<Rightarrow> string" where
  "r14_detail okind oname bName =
     ''Pod-bearing resource '' @ okind @ ''/'' @ oname @ '' pins a ServiceAccount whose permissions flow through binding '' @ bName @ ''. The binding or its role is not present in the trajectory state at this step, so the workload loses the access it declared.''"

definition r14_fix :: "string \<Rightarrow> string" where
  "r14_fix bName =
     ''Order the deletion of '' @ bName @ '' to run after the dependent workload is torn down, or keep the binding in place.''"

definition r15_message :: "string \<Rightarrow> string \<Rightarrow> string \<Rightarrow> string" where
  "r15_message kind gDisplay projName =
     ''kind '' @ kind @ '' (group '' @ gDisplay @ '') not in AppProject '' @ projName @ '' whitelist''"

definition r15_detail :: "string \<Rightarrow> string \<Rightarrow> string \<Rightarrow> string \<Rightarrow> string \<Rightarrow> string" where
  "r15_detail appName projName kind gDisplay wlKey =
     ''Application '' @ quo @ appName @ quo @ '' is managed by AppProject '' @ quo @ projName @ quo @ '', but '' @ kind @ '' (group: '' @ gDisplay @ '') is not in the '' @ wlKey @ '' of that AppProject. Argo CD will refuse to sync this resource.''"

definition r15_fix :: "string \<Rightarrow> string \<Rightarrow> string" where
  "r15_fix gDisplay kind =
     ''Add {group: '' @ gDisplay @ '', kind: '' @ kind @ ''} to the whitelist in the AppProject.''"

definition r16_message :: "string \<Rightarrow> string \<Rightarrow> string \<Rightarrow> string \<Rightarrow> string" where
  "r16_message kind name selectorPath resolvedPath =
     kind @ ''/'' @ name @ '': selector '' @ selectorPath @ '' resolves to '' @ resolvedPath"

definition r16_detail :: "string \<Rightarrow> string \<Rightarrow> string \<Rightarrow> string \<Rightarrow> string" where
  "r16_detail selectorPath kind grp resolvedPath =
     ''The field '' @ selectorPath @ '' on '' @ kind @ '' (group: '' @ grp @ '') is a Crossplane selector that resolves via late-init. Crossplane writes '' @ resolvedPath @ '' after resolution. No ignoreDifferences entry covers this path. Argo CD will fight Crossplane.''"

definition r16_fix :: "string \<Rightarrow> string \<Rightarrow> string \<Rightarrow> string" where
  "r16_fix grp kind leaf =
     ''Add ignoreDifferences to the owning Application: group: '' @ grp @ '', kind: '' @ kind @ '', jsonPointers containing: '' @ leaf"

definition r17_message :: "string \<Rightarrow> string \<Rightarrow> string \<Rightarrow> string \<Rightarrow> string" where
  "r17_message kind name label pth =
     kind @ ''/'' @ name @ '': '' @ label @ '' at '' @ pth"

definition r18_message :: "string \<Rightarrow> string \<Rightarrow> string" where
  "r18_message appName label =
     appName @ '': '' @ label"

definition r18_detail :: "string \<Rightarrow> string \<Rightarrow> string" where
  "r18_detail chartPath err =
     chartPath @ '': '' @ err"

definition r19_message :: "string \<Rightarrow> string \<Rightarrow> string" where
  "r19_message appName pth =
     appName @ '': values.'' @ pth @ '' violates values.schema.json''"

definition r19_fix :: "string" where
  "r19_fix =
     ''Correct the value to match the chart'' @ quo @ ''s values.schema.json, or relax the schema.''"

definition r20_message :: "string \<Rightarrow> string \<Rightarrow> string" where
  "r20_message appName rendererKind =
     appName @ '': '' @ rendererKind @ '' render is non-deterministic''"

definition r21_message :: "string \<Rightarrow> string \<Rightarrow> string \<Rightarrow> string" where
  "r21_message kind name fieldPath =
     kind @ ''/'' @ name @ '': late-init field '' @ fieldPath"

definition r21_detail :: "string \<Rightarrow> string \<Rightarrow> string \<Rightarrow> string" where
  "r21_detail fieldPath kind grp =
     ''The field '' @ fieldPath @ '' on '' @ kind @ '' (group: '' @ grp @ '') is late-initialized by the Crossplane provider from observed cloud state. '' @ ''No ignoreDifferences entry covers this path. Argo CD will fight the provider.''"

definition r21_fix :: "string \<Rightarrow> string" where
  "r21_fix leaf =
     ''Either add ignoreDifferences on the owning Application covering '' @ leaf @ '', OR set managementPolicies to omit LateInitialize, OR use omitLateInitialize on the resource.''"

definition r22_observe_message :: "string \<Rightarrow> string \<Rightarrow> string \<Rightarrow> string" where
  "r22_observe_message kind name appName =
     kind @ ''/'' @ name @ '' on Application '' @ appName @ '' uses managementPolicies=[Observe] but owning Application has ServerSideApply=true''"

definition r22_observe_detail :: "string" where
  "r22_observe_detail =
     ''Crossplane will NOT write this resource'' @ quo @ ''s fields (managementPolicies is Observe-only) '' @ ''but Argo CD'' @ quo @ ''s ServerSideApply will continue to reconcile the spec against the git-declared '' @ ''manifest. The two tools are giving contradictory instructions for the same fields.''"

definition r22_observe_fix :: "string \<Rightarrow> string" where
  "r22_observe_fix appName =
     ''Either drop ServerSideApply from spec.syncPolicy.syncOptions on Application '' @ appName @ '', or widen managementPolicies to include the write ops (Create/Update/Delete) you want Argo to apply.''"

definition r22_partial_message :: "string \<Rightarrow> string \<Rightarrow> string \<Rightarrow> string" where
  "r22_partial_message kind name appName =
     kind @ ''/'' @ name @ '' on Application '' @ appName @ '' has managementPolicies that include writes but omit Update, with ServerSideApply=true''"

definition r22_partial_detail :: "string" where
  "r22_partial_detail =
     ''managementPolicies lists write operations (Create/LateInitialize/Delete) but not Update. '' @ ''Crossplane will create and delete, but won'' @ quo @ ''t reconcile field drift. '' @ ''Argo CD'' @ quo @ ''s ServerSideApply will still push Update events, violating the narrowed policy.''"

definition r22_partial_fix :: "string \<Rightarrow> string" where
  "r22_partial_fix appName =
     ''Add Update to managementPolicies on this resource, or drop ServerSideApply from '' @ appName @ quo @ ''s spec.syncPolicy.syncOptions.''"

definition r22_nondefault_message :: "string \<Rightarrow> string \<Rightarrow> string \<Rightarrow> string" where
  "r22_nondefault_message kind name appName =
     kind @ ''/'' @ name @ '' on Application '' @ appName @ '' has a non-default managementPolicies with ServerSideApply=true''"

definition r22_nondefault_detail :: "string" where
  "r22_nondefault_detail =
     ''Any narrowing of managementPolicies from the Crossplane default interacts with '' @ ''Argo CD'' @ quo @ ''s ServerSideApply in ways that are hard to reason about locally. '' @ ''This broad diagnostic catches residual skew after -observe and -partial have been audited.''"

definition r22_nondefault_fix :: "string \<Rightarrow> string" where
  "r22_nondefault_fix appName =
     ''Review whether ServerSideApply is truly needed on Application '' @ appName @ '' given the narrowed managementPolicies, or restore the default managementPolicies.''"

definition r23_message :: "string \<Rightarrow> string \<Rightarrow> string" where
  "r23_message kind name =
     kind @ ''/'' @ name @ '' is a state-bearing Crossplane managed resource without deletionPolicy: Orphan''"

definition r23_detail :: "string \<Rightarrow> string \<Rightarrow> string \<Rightarrow> string" where
  "r23_detail phrase grp kind =
     phrase @ ''. Group '' @ grp @ '', Kind '' @ kind @ '' is in the state-bearing allowlist (Aurora, DocDB, MySQL, KMS, S3, VPC). '' @ ''Default Crossplane deletion will run a real destructive call against the external object. This is the INC-6 failure mode.''"

definition r23_fix :: "string" where
  "r23_fix =
     ''Set spec.deletionPolicy: Orphan on this resource. '' @ ''If destruction is genuinely intended (e.g. throwaway test), '' @ ''add annotation xpc.io/allow-delete=true OR policy.facilitygrid.io/allow-delete=true to bypass.''"

definition r24_message :: "string \<Rightarrow> string" where
  "r24_message name =
     ''ApplicationSet '' @ name @ '' bakes the ArgoCD cascading finalizer into its template without preserveResourcesOnDeletion''"

definition r24_detail :: "string" where
  "r24_detail =
     ''spec.template.metadata.finalizers includes `resources-finalizer.argocd.argoproj.io`, '' @ ''so every generated Application will cascade-delete its owned resources on deletion. '' @ ''spec.syncPolicy.preserveResourcesOnDeletion is not set to true on this AppSet, '' @ ''so AppSet-level removal or a generator that stops producing a parameter set will trigger the cascade. This is the fg-synapse INC-6 failure mode.''"

definition r24_fix :: "string" where
  "r24_fix =
     ''Set spec.syncPolicy.preserveResourcesOnDeletion: true on the ApplicationSet, '' @ ''OR drop the resources-finalizer.argocd.argoproj.io entry from spec.template.metadata.finalizers.''"

definition r25_message :: "string \<Rightarrow> string" where
  "r25_message name =
     ''ApplicationSet '' @ name @ '' matches prod name pattern AND enables automated sync on generated Applications''"

definition r25_detail :: "string" where
  "r25_detail =
     ''spec.template.spec.syncPolicy.automated is present, so every generated '' @ ''Application auto-syncs any git change without human approval. For production '' @ ''ApplicationSets this is a force multiplier: a destructive commit (e.g. a generator that stops producing a parameter set, or a change that removes a state-bearing resource) lands in prod without a human click. fg-synapse INC-6 was exactly this shape.''"

definition r25_fix :: "string" where
  "r25_fix =
     ''Remove spec.template.spec.syncPolicy.automated from the ApplicationSet template, '' @ ''forcing manual sync for each generated Application. If automated sync is genuinely required for a prod AppSet, rename the AppSet so it does not match the prod pattern, or split into a non-prod-named sibling.''"

definition r28_message :: "string \<Rightarrow> string \<Rightarrow> string \<Rightarrow> string" where
  "r28_message kind name refName =
     kind @ ''/'' @ name @ '' references providerConfigRef.name '' @ quo @ refName @ quo @ '' which resolves to no declared ProviderConfig''"

definition r28_detail :: "string \<Rightarrow> string" where
  "r28_detail refName =
     ''spec.providerConfigRef.name is '' @ quo @ refName @ quo @ '' but no ProviderConfig or ClusterProviderConfig with that name is declared in the checked set. '' @ ''Crossplane cannot resolve the reference, so the resource never reconciles '' @ emdash @ '' the deploy appears healthy while the external object is silently never created.''"

definition r28_fix :: "string" where
  "r28_fix =
     ''Fix the providerConfigRef.name to match a declared ProviderConfig. '' @ ''If the ProviderConfig is created out-of-band (e.g. a separate bootstrap app), add its name to allowed-provider-configs in xpc.yaml.''"

definition r29_missing_message :: "string \<Rightarrow> string \<Rightarrow> string" where
  "r29_missing_message kind name =
     kind @ ''/'' @ name @ '' is missing the app.facilitygrid.io/environment label''"

definition r29_missing_detail :: "string \<Rightarrow> string \<Rightarrow> string" where
  "r29_missing_detail kind name =
     ''Crossplane claim '' @ kind @ ''/'' @ name @ '' carries no app.facilitygrid.io/environment label. The label drives blast-radius reasoning, monitoring escalation, and account scoping; without it the claim is invisible to that tooling.''"

definition r29_missing_fix :: "string" where
  "r29_missing_fix =
     ''Add label app.facilitygrid.io/environment with a value in {prod, preview, ops}.''"

definition r29_invalid_message :: "string \<Rightarrow> string \<Rightarrow> string \<Rightarrow> string" where
  "r29_invalid_message kind name value =
     kind @ ''/'' @ name @ '' has environment label value '' @ quo @ value @ quo @ '' which is not an allowed environment''"

definition r29_invalid_detail :: "string \<Rightarrow> string" where
  "r29_invalid_detail value =
     ''app.facilitygrid.io/environment is '' @ quo @ value @ quo @ '' but the allowed values are {prod, preview, ops}. A typo or non-existent env silently misroutes monitoring and account scoping.''"

definition r29_invalid_fix :: "string" where
  "r29_invalid_fix =
     ''Set app.facilitygrid.io/environment to one of {prod, preview, ops}, or extend env-label.allowed-values in xpc.yaml.''"

definition r30_message :: "string \<Rightarrow> string \<Rightarrow> string" where
  "r30_message name storeName =
     ''ExternalSecret '' @ name @ '' references secretStoreRef.name '' @ quo @ storeName @ quo @ '' which is not an allowed secret store''"

definition r30_detail :: "string \<Rightarrow> string" where
  "r30_detail storeName =
     ''spec.secretStoreRef.name is '' @ quo @ storeName @ quo @ '' but it is not in the configured allowlist (external-secret-stores.allowed-names). If the store does not exist, external-secrets fails to sync with SecretSyncedError and the target Secret is never created.''"

definition r30_fix :: "string" where
  "r30_fix =
     ''Reference an allowed (Cluster)SecretStore, or add this name to external-secret-stores.allowed-names in xpc.yaml if it is legitimate.''"

definition r31_resource_message :: "string \<Rightarrow> string \<Rightarrow> string \<Rightarrow> string" where
  "r31_resource_message kind name fieldPath =
     kind @ ''/'' @ name @ '': non-canonical forProvider field '' @ fieldPath"

definition r31_resource_detail :: "string \<Rightarrow> string \<Rightarrow> string \<Rightarrow> string \<Rightarrow> string \<Rightarrow> string" where
  "r31_resource_detail fieldPath kind grp value reason =
     ''The field '' @ fieldPath @ '' on '' @ kind @ '' (group: '' @ grp @ '') is set to '' @ value @ '', which the provider canonicalizes on read-back, so desired never equals observed. upjet re-issues the external Update on every reconcile and the status write conflicts with the poll loop '' @ emdash @ '' a reconcile storm. '' @ reason"

definition r31_template_message :: "string \<Rightarrow> string \<Rightarrow> string" where
  "r31_template_message name fieldPath =
     ''Composition '' @ name @ '': non-canonical '' @ fieldPath @ '' in template''"

definition r31_template_detail :: "string \<Rightarrow> string \<Rightarrow> string \<Rightarrow> string \<Rightarrow> string \<Rightarrow> string" where
  "r31_template_detail name fieldPath kind value reason =
     ''Composition '' @ name @ '' assigns '' @ fieldPath @ '' ('' @ kind @ '') to a hardcoded ARN literal '' @ value @ '', which the provider canonicalizes on read-back. The rendered resource is not in scope (the composite XR is synthesized at runtime), so this is a static template scan: verify the value resolves the versioned form from the observed resource. '' @ reason"

definition r32_divergence_message :: "string \<Rightarrow> string \<Rightarrow> string \<Rightarrow> string" where
  "r32_divergence_message kind name fieldPath =
     kind @ ''/'' @ name @ '': forProvider/atProvider divergence at '' @ fieldPath"

definition r33_message :: "string \<Rightarrow> string \<Rightarrow> string" where
  "r33_message composition envName =
     ''Composition '' @ composition @ '': duplicate env var '' @ envName"

definition r33_detail :: "string \<Rightarrow> string \<Rightarrow> string \<Rightarrow> string" where
  "r33_detail composition envName cnt =
     ''Composition '' @ composition @ '' emits the environment variable '' @ envName @ '' '' @ cnt @ '' times. AWS dedupes the ECS env array on registration, so the desired containerDefinitions never matches the stored task def '' @ emdash @ '' a permanent diff on the immutable container_definitions field, which upjet cannot update (ReconcileError). If the copies are in different containers of a multi-container task this is a false positive.''"

definition r33_fix :: "string \<Rightarrow> string" where
  "r33_fix envName =
     ''Emit '' @ envName @ '' exactly once (e.g. make a single entry'' @ quo @ ''s value conditional instead of appending an override, since ECS last-wins does not survive AWS env dedup).''"

definition r34_message :: "string \<Rightarrow> string \<Rightarrow> string \<Rightarrow> string \<Rightarrow> string" where
  "r34_message composition kind actionType aliasField =
     ''Composition '' @ composition @ '': '' @ kind @ '' '' @ actionType @ '' action uses the '' @ aliasField @ '' alias instead of the canonical block''"

definition r34_detail :: "string \<Rightarrow> string \<Rightarrow> string \<Rightarrow> string \<Rightarrow> string \<Rightarrow> string" where
  "r34_detail kind actionType composition aliasField canonicalBlock =
     kind @ '' '' @ actionType @ '' action in composition '' @ composition @ '' sets '' @ aliasField @ '' but has no '' @ canonicalBlock @ '' block. AWS always computes a full action.'' @ canonicalBlock @ '' block plus order 1 for a forward action, so forProvider perpetually diffs against the read-back, driving an upjet async-update storm on provider-aws-elbv2 (the unfixed RetryOnConflict status-409 bug amplifies it). If the alias and the canonical block live on different resources of the same template this is a false positive.''"

definition r34_fix :: "string \<Rightarrow> string" where
  "r34_fix reason =
     ''Emit the canonical forward target group via arn, arnRef, or arnSelector plus weight plus an explicit order, and leave stickiness unset (Optional+Computed; adding a disabled stickiness with a non-zero duration re-introduces a NEW perpetual diff). '' @ reason"

definition r35_message :: "string \<Rightarrow> string \<Rightarrow> string" where
  "r35_message kind name =
     kind @ '' '' @ name @ '' must adopt its existing external object via crossplane.io/external-name''"

definition r35_detail :: "string \<Rightarrow> string \<Rightarrow> string \<Rightarrow> string" where
  "r35_detail kind name reason =
     kind @ '' '' @ name @ '' is a kind whose provider Create path is broken or non-idempotent, but it has no crossplane.io/external-name annotation, so Crossplane will attempt a Create that fails (or duplicates a singleton) and the resource never reconciles cleanly. '' @ reason"

definition r35_fix :: "string" where
  "r35_fix =
     ''Adopt the existing external object: add the annotation crossplane.io/external-name: <external-id> so the provider observes/updates instead of creating. If a fresh object really should be created (e.g. the provider Create path is fixed), set xpc.io/allow-missing-external-name: true and retire the registry row.''"

definition r36_message :: "string \<Rightarrow> string \<Rightarrow> string \<Rightarrow> string" where
  "r36_message composition kind ruleName =
     ''Composition '' @ composition @ '': '' @ kind @ '' '' @ ruleName @ '' references a short-lived peer SG while attached to a long-lived/shared SG '' @ emdash @ '' dangles on teardown''"

definition r36_detail :: "string \<Rightarrow> string \<Rightarrow> string \<Rightarrow> string \<Rightarrow> string \<Rightarrow> string" where
  "r36_detail kind ruleName composition attachField refField =
     kind @ '' '' @ ruleName @ '' in composition '' @ composition @ '' is attached via '' @ attachField @ '' to a security group NOT created by this composition (long-lived/shared) but references a security group it DOES create (short-lived, per-env) via '' @ refField @ ''. On teardown the referenced SG is deleted while this rule on the shared SG survives, so the reference dangles and pins the deleted SG: DeleteSecurityGroup fails DependencyViolation even at zero ENIs, the SG sits stuck Terminating, and a recreate fails InvalidGroup.Duplicate. If the two SGs actually share a lifecycle this is a false positive.''"

definition r36_fix :: "string \<Rightarrow> string" where
  "r36_fix reason =
     ''Tear the cross-scope rule down WITH the short-lived SG (own it in the same scope / make its deletion revoke the rule first), or reap the dangling rule on teardown. To accept the risk add xpc.io/allow-orphan-sgref: true on the rule. '' @ reason"

definition r6b_msg :: "string \<Rightarrow> string \<Rightarrow> int \<Rightarrow> string \<Rightarrow> string \<Rightarrow> int \<Rightarrow> string" where
  "r6b_msg fnRef fnApp fnWave compName compApp compWave =
     ''Function '' @ fnRef @ '' in App '' @ fnApp @ '' (wave '' @ Itoa fnWave @ '') must have a lower sync-wave than Composition '' @ compName @ '' in App '' @ compApp @ '' (wave '' @ Itoa compWave @ '')''"

definition r6b_detail :: "string \<Rightarrow> string \<Rightarrow> string" where
  "r6b_detail fnRef compName =
     ''Function '' @ fnRef @ '' must be Healthy before Composition '' @ compName @ '' can use it. The Function sync-wave must be strictly less than the Composition sync-wave.''"

definition r6b_fix :: "string \<Rightarrow> int \<Rightarrow> string" where
  "r6b_fix fnRef compWave =
     ''Set sync-wave on Function '' @ fnRef @ '' to a value less than '' @ Itoa compWave @ ''.''"

definition r31_fix :: "string \<Rightarrow> string" where
  "r31_fix canonical =
     ''Set the field to its canonical form ('' @ canonical @ ''), or set spec.managementPolicies to omit Update so the provider stops fighting the cloud.''"

definition r32_message :: "string \<Rightarrow> string \<Rightarrow> string \<Rightarrow> string \<Rightarrow> string \<Rightarrow> string" where
  "r32_message grp kind fieldPath desired observed =
     ''The field '' @ fieldPath @ '' on '' @ kind @ '' (group: '' @ grp @ '') declares '' @ desired @ '' but the provider observes '' @ observed @ '' '' @ emdash @ '' desired never converges to observed. The provider re-issues the external Update on every reconcile (a reconcile storm).''"

definition r32_fix :: "string" where
  "r32_fix =
     ''Set forProvider to the provider'' @ quo @ ''s canonical read-back form (resolve it from status.atProvider), or set spec.managementPolicies to omit Update. If this is a transient mid-update value, confirm against a second snapshot before acting.''"

definition r20_fix_hint :: "string" where
  "r20_fix_hint =
     ''A second render produced different bytes. Check the chart or overlay for randAlphaNum, date-stamps, or other non-deterministic helpers. If the non-determinism is intentional, document it in an ADR.''"

definition r17_violation_label :: "sexp \<Rightarrow> string" where
  "r17_violation_label k =
     (case map_of
       [(SSym ''unknown-field'', ''unknown field''),
        (SSym ''wrong-type'', ''wrong type''),
        (SSym ''missing-required'', ''missing required field''),
        (SSym ''invalid-enum'', ''invalid enum value'')] k of
        Some t \<Rightarrow> t | None \<Rightarrow> ''schema violation'')"

definition r17_fix_hint :: "sexp \<Rightarrow> string" where
  "r17_fix_hint k =
     (case map_of
       [(SSym ''unknown-field'', ''Remove the field, or update the CRD schema to declare it.''),
        (SSym ''wrong-type'', ''Correct the value'' @ quo @ ''s type to match the schema.''),
        (SSym ''missing-required'', ''Add the required field to the manifest.''),
        (SSym ''invalid-enum'', ''Pick one of the schema'' @ quo @ ''s allowed enum values.'')] k of
        Some t \<Rightarrow> t | None \<Rightarrow> ''Fix the manifest to satisfy the CRD schema.'')"

definition r18_error_label :: "sexp \<Rightarrow> string" where
  "r18_error_label k =
     (case map_of
       [(SSym ''helm-absent'', ''helm binary absent''),
        (SSym ''helm-template-failed'', ''helm template failed''),
        (SSym ''helm-timeout'', ''helm template timed out''),
        (SSym ''kustomize-absent'', ''kustomize binary absent''),
        (SSym ''kustomize-build-failed'', ''kustomize build failed''),
        (SSym ''kustomize-timeout'', ''kustomize build timed out''),
        (SSym ''crossplane-absent'', ''crossplane binary absent''),
        (SSym ''crossplane-render-failed'', ''crossplane render failed''),
        (SSym ''crossplane-timeout'', ''crossplane render timed out''),
        (SSym ''other'', ''render failed''),
        (SSym ''none'', ''render failed'')] k of
        Some t \<Rightarrow> t | None \<Rightarrow> ''render failed'')"

definition r18_fix_hint :: "sexp \<Rightarrow> string" where
  "r18_fix_hint k =
     (case map_of
       [(SSym ''helm-absent'', ''Install helm or pass --helm-bin=<path> so xpc can render this Application'' @ quo @ ''s Helm sources.''),
        (SSym ''helm-template-failed'', ''Run '' @ quo @ ''helm template'' @ quo @ '' locally on the chart to reproduce and fix the template error.''),
        (SSym ''helm-timeout'', ''The chart takes >30s to render. Simplify the chart or raise the timeout.''),
        (SSym ''kustomize-absent'', ''Install kustomize or put it on PATH so xpc can render this Application'' @ quo @ ''s Kustomize sources.''),
        (SSym ''kustomize-build-failed'', ''Run '' @ quo @ ''kustomize build'' @ quo @ '' locally on the overlay to reproduce and fix the build error.''),
        (SSym ''kustomize-timeout'', ''The overlay takes >30s to render. Simplify the overlay tree or raise the timeout.''),
        (SSym ''crossplane-absent'', ''Install crossplane (https://docs.crossplane.io) or pass --crossplane-bin=<path> so xpc can render this Composition'' @ quo @ ''s pipeline.''),
        (SSym ''crossplane-render-failed'', ''Run '' @ quo @ ''crossplane render <xr.yaml> <composition.yaml> <functions.yaml>'' @ quo @ '' locally to reproduce and fix the render error.''),
        (SSym ''crossplane-timeout'', ''The Composition takes >30s to render. Check for function loops or heavy templating; simplify the pipeline.''),
        (SSym ''other'', ''Inspect the render error and fix the chart or values.''),
        (SSym ''none'', ''Inspect the render error and fix the chart or values.'')] k of
        Some t \<Rightarrow> t | None \<Rightarrow> ''Inspect the render error and fix the chart or values.'')"

definition deprecation_message :: "string \<Rightarrow> string" where
  "deprecation_message k =
     (case map_of
       [(''apiextensions.crossplane.io/v1alpha1'', ''apiextensions.crossplane.io/v1alpha1 is deprecated, use v1 or v2''),
        (''pkg.crossplane.io/v1alpha1'', ''pkg.crossplane.io/v1alpha1 is deprecated, use v1 or v1beta1''),
        (''s3.aws.m.upbound.io/v1alpha1'', ''v1alpha1 is deprecated for s3.aws.m.upbound.io, use v1beta1 or v1beta2''),
        (''ec2.aws.m.upbound.io/v1alpha1'', ''v1alpha1 is deprecated for ec2.aws.m.upbound.io, use v1beta1''),
        (''rds.aws.m.upbound.io/v1alpha1'', ''v1alpha1 is deprecated for rds.aws.m.upbound.io, use v1beta1'')] k of
        Some t \<Rightarrow> t | None \<Rightarrow> [])"

end
