(* ===== verification/KernelRules.thy ===== *)
theory KernelRules
  imports KernelText
begin

text \<open>
  The rules of the kernel that walk the facts of the World themselves,
  \<^verbatim>\<open>kernel/r1-versions.shen\<close> to \<^verbatim>\<open>kernel/r11-api-deprecation.shen\<close>, function by function.
  Their arguments are Shen values; the lists they map over have to be proper lists.
\<close>

section \<open>Judgments\<close>

definition make_judgment :: "string \<Rightarrow> string \<Rightarrow> sexp \<Rightarrow> string \<Rightarrow> string \<Rightarrow> string \<Rightarrow> sexp list \<Rightarrow> sexp" where
  "make_judgment code sev src msg detail fix related =
     slst [SSym ''judgment'', SStr code, SSym sev, src, SStr msg, SStr detail, SStr fix, slst related]"

definition make_error :: "string \<Rightarrow> sexp \<Rightarrow> string \<Rightarrow> string \<Rightarrow> string \<Rightarrow> sexp list \<Rightarrow> sexp" where
  "make_error code src msg detail fix related = make_judgment code ''error'' src msg detail fix related"

definition make_warning :: "string \<Rightarrow> sexp \<Rightarrow> string \<Rightarrow> string \<Rightarrow> string \<Rightarrow> sexp list \<Rightarrow> sexp" where
  "make_warning code src msg detail fix related = make_judgment code ''warn'' src msg detail fix related"

definition no_source :: sexp where
  "no_source = slst [SSym ''source'', SStr [], SNum 0]"

definition make_satisfied :: "string \<Rightarrow> sexp" where
  "make_satisfied code = make_judgment code ''satisfied'' no_source [] [] [] []"

definition mark_rule :: "string \<Rightarrow> sexp list \<Rightarrow> sexp list" where
  "mark_rule code js = (if js = [] then [make_satisfied code] else js)"

section \<open>R1: versions\<close>

fun version_served_p :: "sexp \<Rightarrow> bool" where
  "version_served_p (SCons _ (SCons (SBool True) _)) = True"
| "version_served_p _ = False"

fun version_storage_p :: "sexp \<Rightarrow> bool" where
  "version_storage_p (SCons _ (SCons _ (SCons (SBool True) _))) = True"
| "version_storage_p _ = False"

fun version_referenceable_p :: "sexp \<Rightarrow> bool" where
  "version_referenceable_p (SCons _ (SCons _ (SCons (SBool True) _))) = True"
| "version_referenceable_p _ = False"

definition make_r1a_error :: "sexp \<Rightarrow> sexp \<Rightarrow> sexp \<Rightarrow> sexp \<Rightarrow> sexp option" where
  "make_r1a_error Group Kind V Src =
     (case elems V of
        Some [Name, _, _, _] \<Rightarrow>
          do { name \<leftarrow> sexp_str Name; grp \<leftarrow> sexp_str Group; kind \<leftarrow> sexp_str Kind;
               Some (make_error ''XPC001'' Src (r1a_message name grp kind) (r1a_detail grp kind name) (r1a_fix name) []) }
      | _ \<Rightarrow> Some (make_error ''XPC001'' no_source ''version check failed'' [] [] []))"

definition check_r1a_versions :: "sexp \<Rightarrow> sexp \<Rightarrow> sexp list \<Rightarrow> sexp \<Rightarrow> sexp list option" where
  "check_r1a_versions Group Kind Versions Src =
     omap (\<lambda>V. make_r1a_error Group Kind V Src) (shen_filter (\<lambda>V. \<not> version_served_p V) Versions)"

definition check_r1b_storage :: "sexp \<Rightarrow> sexp \<Rightarrow> sexp list \<Rightarrow> sexp \<Rightarrow> sexp list option" where
  "check_r1b_storage Group Kind Versions Src =
     (let n = count_if version_storage_p Versions in
      if n = 1 then Some []
      else do { grp \<leftarrow> sexp_str Group; kind \<leftarrow> sexp_str Kind;
                Some [make_error ''XPC001'' Src (r1b_storage_message grp kind n) (r1b_storage_detail n) r1b_storage_fix []] })"

definition check_r1b_referenceable :: "sexp \<Rightarrow> sexp \<Rightarrow> sexp list \<Rightarrow> sexp \<Rightarrow> sexp list option" where
  "check_r1b_referenceable Group Kind Versions Src =
     (if count_if version_referenceable_p Versions = 0
      then do { grp \<leftarrow> sexp_str Group; kind \<leftarrow> sexp_str Kind;
                Some [make_error ''XPC001'' Src (r1b_ref_message grp kind) r1b_ref_detail r1b_ref_fix []] }
      else Some [])"

definition check_r1_crd :: "sexp \<Rightarrow> sexp list option" where
  "check_r1_crd c =
     (case fact ''crd-fact'' c of
        Some [Group, Kind, Scope, Versions, Conversion, Src] \<Rightarrow>
          do { vs \<leftarrow> elems Versions; a \<leftarrow> check_r1a_versions Group Kind vs Src;
               b \<leftarrow> check_r1b_storage Group Kind vs Src; Some (a @ b) }
      | _ \<Rightarrow> Some [])"

definition check_r1_xrd :: "sexp \<Rightarrow> sexp list option" where
  "check_r1_xrd x =
     (case fact ''xrd-fact'' x of
        Some [Group, Kind, Scope, APIVer, Versions, Src, _] \<Rightarrow>
          do { vs \<leftarrow> elems Versions; a \<leftarrow> check_r1a_versions Group Kind vs Src;
               b \<leftarrow> check_r1b_referenceable Group Kind vs Src; Some (a @ b) }
      | _ \<Rightarrow> Some [])"

definition check_r1 :: "sexp \<Rightarrow> sexp \<Rightarrow> sexp list option" where
  "check_r1 CRDs XRDs =
     do { cs \<leftarrow> elems CRDs; a \<leftarrow> flat_map check_r1_crd cs;
          xs \<leftarrow> elems XRDs; b \<leftarrow> flat_map check_r1_xrd xs; Some (a @ b) }"

section \<open>R2: conversion cost\<close>

fun crd_matches_gvk_p :: "sexp \<Rightarrow> sexp \<Rightarrow> sexp \<Rightarrow> bool" where
  "crd_matches_gvk_p (SCons (SSym t) (SCons g (SCons k _))) Group Kind = (t = ''crd-fact'' \<and> g = Group \<and> k = Kind)"
| "crd_matches_gvk_p _ _ _ = False"

fun find_storage_version :: "sexp list \<Rightarrow> sexp" where
  "find_storage_version [] = SStr []"
| "find_storage_version (SCons Name (SCons _ (SCons (SBool True) _)) # _) = Name"
| "find_storage_version (_ # rest) = find_storage_version rest"

fun has_annotation_p :: "sexp list \<Rightarrow> string \<Rightarrow> string \<Rightarrow> bool" where
  "has_annotation_p [] _ _ = False"
| "has_annotation_p (x # rest) key val = (elems x = Some [SStr key, SStr val] \<or> has_annotation_p rest key val)"

definition check_r2_against_crd :: "string \<Rightarrow> sexp \<Rightarrow> sexp \<Rightarrow> sexp \<Rightarrow> sexp list option" where
  "check_r2_against_crd version Annotations Src c =
     (case fact ''crd-fact'' c of
        Some [Group, Kind, Scope, Versions, Conversion, CrdSrc] \<Rightarrow>
          (case elems Conversion of
             Some [Strategy, CostClass, WebhookSvc] \<Rightarrow>
               if CostClass \<noteq> SSym ''webhook'' then Some []
               else do { vs \<leftarrow> elems Versions;
                    if SStr version = find_storage_version vs then Some []
                    else do { anns \<leftarrow> elems Annotations;
                      if has_annotation_p anns ''xpc.dev/accept-conversion-webhook'' ''true'' then Some []
                      else do { grp \<leftarrow> sexp_str Group; kind \<leftarrow> sexp_str Kind; storage \<leftarrow> sexp_str (find_storage_version vs);
                        Some [make_error ''XPC002'' Src r2_message (r2_detail version grp kind storage) (r2_fix storage) [CrdSrc]] }}}
           | _ \<Rightarrow> Some [])
      | _ \<Rightarrow> Some [])"

definition check_r2_resource :: "sexp list \<Rightarrow> sexp \<Rightarrow> sexp list option" where
  "check_r2_resource CRDs r =
     (case fact ''resource-fact'' r of
        Some [APIVersion, Kind, Name, Namespace, Annotations, Src, _] \<Rightarrow>
          do { av \<leftarrow> sexp_str APIVersion;
               flat_map (check_r2_against_crd (api_version_version av) Annotations Src)
                 (shen_filter (\<lambda>C. crd_matches_gvk_p C (SStr (api_version_group av)) Kind) CRDs) }
      | _ \<Rightarrow> Some [])"

definition check_r2 :: "sexp \<Rightarrow> sexp \<Rightarrow> sexp list option" where
  "check_r2 Resources CRDs = do { rs \<leftarrow> elems Resources; cs \<leftarrow> elems CRDs; flat_map (check_r2_resource cs) rs }"

section \<open>R3: compositions resolve\<close>

fun xrd_matches_gk_p :: "sexp \<Rightarrow> sexp \<Rightarrow> sexp \<Rightarrow> bool" where
  "xrd_matches_gk_p (SCons (SSym t) (SCons g (SCons k _))) Group Kind = (t = ''xrd-fact'' \<and> g = Group \<and> k = Kind)"
| "xrd_matches_gk_p _ _ _ = False"

fun member_version_p :: "sexp \<Rightarrow> sexp list \<Rightarrow> bool" where
  "member_version_p _ [] = False"
| "member_version_p V (SCons v _ # rest) = (v = V \<or> member_version_p V rest)"
| "member_version_p V (_ # rest) = member_version_p V rest"

definition check_r3b_version :: "sexp \<Rightarrow> sexp \<Rightarrow> sexp \<Rightarrow> sexp \<Rightarrow> sexp \<Rightarrow> sexp \<Rightarrow> sexp list option" where
  "check_r3b_version CompName Group Version Kind CompSrc x =
     (case fact ''xrd-fact'' x of
        Some [_, _, _, _, Versions, XrdSrc, _] \<Rightarrow>
          do { vs \<leftarrow> elems Versions;
               if member_version_p Version (shen_filter version_referenceable_p vs) then Some []
               else do { compName \<leftarrow> sexp_str CompName; grp \<leftarrow> sexp_str Group; version \<leftarrow> sexp_str Version; kind \<leftarrow> sexp_str Kind;
                 Some [make_error ''XPC003'' CompSrc (r3b_message compName version grp kind) (r3b_detail grp version kind)
                         (r3b_fix version) [XrdSrc]] }}
      | _ \<Rightarrow> Some [])"

definition check_r3_composition :: "sexp list \<Rightarrow> sexp \<Rightarrow> sexp list option" where
  "check_r3_composition XRDs c =
     (case fact ''composition-fact'' c of
        Some [Name, Ref, Mode, Pipeline, Src, _] \<Rightarrow>
          (case fact ''gvk'' Ref of
             Some [Group, Version, Kind] \<Rightarrow>
               let matching = shen_filter (\<lambda>X. xrd_matches_gk_p X Group Kind) XRDs in
               if matching = []
               then do { name \<leftarrow> sexp_str Name; grp \<leftarrow> sexp_str Group; version \<leftarrow> sexp_str Version; kind \<leftarrow> sexp_str Kind;
                      Some [make_error ''XPC003'' Src (r3a_message name grp kind) (r3a_detail grp version kind) r3a_fix []] }
               else flat_map (check_r3b_version Name Group Version Kind Src) matching
           | _ \<Rightarrow> Some [])
      | _ \<Rightarrow> Some [])"

definition check_r3 :: "sexp \<Rightarrow> sexp \<Rightarrow> sexp list option" where
  "check_r3 Compositions XRDs = do { cs \<leftarrow> elems Compositions; xs \<leftarrow> elems XRDs; flat_map (check_r3_composition xs) cs }"

section \<open>R4: pipeline functions\<close>

fun format_versions :: "string list \<Rightarrow> string" where
  "format_versions [] = ''(none)''"
| "format_versions [v] = v"
| "format_versions (v # rest) = v @ '', '' @ format_versions rest"

fun function_name_matches_p :: "sexp \<Rightarrow> sexp \<Rightarrow> bool" where
  "function_name_matches_p (SCons (SSym t) (SCons n _)) Name = (t = ''function-fact'' \<and> n = Name)"
| "function_name_matches_p _ _ = False"

definition check_r4b_input_version :: "sexp \<Rightarrow> sexp \<Rightarrow> sexp \<Rightarrow> sexp \<Rightarrow> sexp \<Rightarrow> sexp \<Rightarrow> sexp list option" where
  "check_r4b_input_version CompName StepName FnRef InputAV CompSrc f =
     (case fact ''function-fact'' f of
        Some [_, _, InputVersions, FnSrc, _] \<Rightarrow>
          if InputVersions = SNil then Some []
          else do { vs \<leftarrow> elems InputVersions;
               if shen_member InputAV vs then Some []
               else do { compName \<leftarrow> sexp_str CompName; stepName \<leftarrow> sexp_str StepName; fnRef \<leftarrow> sexp_str FnRef;
                    inputAV \<leftarrow> sexp_str InputAV; accepted \<leftarrow> omap sexp_str vs;
                    Some [make_error ''XPC004'' CompSrc (r4b_message compName stepName fnRef)
                            (r4b_detail stepName inputAV fnRef (format_versions accepted)) (r4b_fix (format_versions accepted)) [FnSrc]] }}
      | _ \<Rightarrow> Some [])"

definition check_r4_step :: "sexp \<Rightarrow> sexp \<Rightarrow> sexp list \<Rightarrow> sexp \<Rightarrow> sexp list option" where
  "check_r4_step CompName CompSrc Functions Step =
     (case elems Step of
        Some [StepName, FnRef, InputAV, InputKind] \<Rightarrow>
          let matching = shen_filter (\<lambda>F. function_name_matches_p F FnRef) Functions in
          if matching = []
          then do { compName \<leftarrow> sexp_str CompName; stepName \<leftarrow> sexp_str StepName; fnRef \<leftarrow> sexp_str FnRef;
                 Some [make_error ''XPC004'' CompSrc (r4a_message compName stepName fnRef) (r4a_detail stepName fnRef) (r4a_fix fnRef) []] }
          else if InputAV = SStr [] then Some []
          else flat_map (check_r4b_input_version CompName StepName FnRef InputAV CompSrc) matching
      | _ \<Rightarrow> Some [])"

definition check_r4_composition :: "sexp list \<Rightarrow> sexp \<Rightarrow> sexp list option" where
  "check_r4_composition Functions c =
     (case fact ''composition-fact'' c of
        Some [Name, CTR, Mode, Pipeline, Src, _] \<Rightarrow>
          if Mode = SStr ''Pipeline'' then do { steps \<leftarrow> elems Pipeline; flat_map (check_r4_step Name Src Functions) steps }
          else Some []
      | _ \<Rightarrow> Some [])"

definition check_r4 :: "sexp \<Rightarrow> sexp \<Rightarrow> sexp list option" where
  "check_r4 Compositions Functions =
     do { cs \<leftarrow> elems Compositions; fs \<leftarrow> elems Functions; flat_map (check_r4_composition fs) cs }"

section \<open>R5: patch types\<close>

definition type_assignable_p :: "sexp \<Rightarrow> sexp \<Rightarrow> bool" where
  "type_assignable_p x y =
     (x = y \<or> x = SStr ''unknown'' \<or> y = SStr ''unknown'' \<or> (x = SStr ''integer'' \<and> y = SStr ''number''))"

definition check_r5_patch :: "sexp \<Rightarrow> sexp list option" where
  "check_r5_patch p =
     (case fact ''resolved-patch'' p of
        Some [CompName, Src, FromPath, ToPath, FromType, ToType] \<Rightarrow>
          if type_assignable_p FromType ToType then Some []
          else do { compName \<leftarrow> sexp_str CompName; fromPath \<leftarrow> sexp_str FromPath; fromType \<leftarrow> sexp_str FromType;
                    toPath \<leftarrow> sexp_str ToPath; toType \<leftarrow> sexp_str ToType;
                    Some [make_error ''XPC005'' Src (r5_message compName) (r5_detail fromPath fromType toPath toType) (r5_fix toType) []] }
      | _ \<Rightarrow> Some [])"

definition check_r5 :: "sexp \<Rightarrow> sexp list option" where
  "check_r5 Patches = do { ps \<leftarrow> elems Patches; flat_map check_r5_patch ps }"

section \<open>R6: sync waves\<close>

definition xrd_owned_by_p :: "sexp \<Rightarrow> sexp \<Rightarrow> bool" where
  "xrd_owned_by_p AppName x =
     (case fact ''xrd-fact'' x of Some [_, _, _, _, _, _, OwningApp] \<Rightarrow> AppName = OwningApp | _ \<Rightarrow> False)"

definition composition_owned_by_p :: "sexp \<Rightarrow> sexp \<Rightarrow> bool" where
  "composition_owned_by_p AppName c =
     (case fact ''composition-fact'' c of Some [_, _, _, _, _, OwningApp] \<Rightarrow> AppName = OwningApp | _ \<Rightarrow> False)"

fun find_wave :: "sexp \<Rightarrow> sexp \<Rightarrow> sexp list \<Rightarrow> sexp" where
  "find_wave _ _ [] = SNum 0"
| "find_wave Kind Name (x # rest) =
     (case elems x of
        Some [k, n, Wave] \<Rightarrow> if k = Kind \<and> n = Name then Wave else find_wave Kind Name rest
      | _ \<Rightarrow> find_wave Kind Name rest)"

definition sync_wave_kind_matches_p :: "sexp \<Rightarrow> sexp \<Rightarrow> bool" where
  "sync_wave_kind_matches_p sw Kind = (case elems sw of Some [k, _, _] \<Rightarrow> k = Kind | _ \<Rightarrow> False)"

definition get_sync_wave :: "sexp \<Rightarrow> sexp" where
  "get_sync_wave sw = (case elems sw of Some [_, _, Wave] \<Rightarrow> Wave | _ \<Rightarrow> SNum 0)"

definition get_sync_name :: "sexp \<Rightarrow> sexp" where
  "get_sync_name sw = (case elems sw of Some [_, Name, _] \<Rightarrow> Name | _ \<Rightarrow> SStr [])"

fun extract_fn_refs :: "sexp list \<Rightarrow> sexp list" where
  "extract_fn_refs [] = []"
| "extract_fn_refs (SCons _ (SCons FnRef _) # rest) = FnRef # extract_fn_refs rest"
| "extract_fn_refs (_ # rest) = extract_fn_refs rest"

fun app_sync_waves :: "sexp \<Rightarrow> sexp list \<Rightarrow> sexp" where
  "app_sync_waves _ [] = SNil"
| "app_sync_waves AppName (a # rest) =
     (case fact ''argo-app-fact'' a of
        Some [n, _, SyncWaves, _] \<Rightarrow> if n = AppName then SyncWaves else app_sync_waves AppName rest
      | _ \<Rightarrow> app_sync_waves AppName rest)"

fun app_source :: "sexp \<Rightarrow> sexp list \<Rightarrow> sexp" where
  "app_source _ [] = no_source"
| "app_source AppName (a # rest) =
     (case fact ''argo-app-fact'' a of
        Some [n, _, _, AppSrc] \<Rightarrow> if n = AppName then AppSrc else app_source AppName rest
      | _ \<Rightarrow> app_source AppName rest)"

fun function_app :: "sexp \<Rightarrow> sexp list \<Rightarrow> sexp" where
  "function_app _ [] = SStr []"
| "function_app FnName (f # rest) =
     (case fact ''function-fact'' f of
        Some [n, _, _, _, OwningApp] \<Rightarrow> if n = FnName then OwningApp else function_app FnName rest
      | _ \<Rightarrow> function_app FnName rest)"

definition check_r6a_for_xrd :: "sexp list \<Rightarrow> sexp \<Rightarrow> sexp \<Rightarrow> sexp list option" where
  "check_r6a_for_xrd SyncWaves AppSrc x =
     (case fact ''xrd-fact'' x of
        Some [Group, Kind, _, _, _, XrdSrc, _] \<Rightarrow>
          flat_map (\<lambda>XrEntry. do {
              xrdWave \<leftarrow> sexp_num (find_wave (SStr ''CompositeResourceDefinition'') Kind SyncWaves);
              xrWave \<leftarrow> sexp_num (get_sync_wave XrEntry);
              if xrdWave < xrWave then Some []
              else do { kind \<leftarrow> sexp_str Kind; xrName \<leftarrow> sexp_str (get_sync_name XrEntry);
                Some [make_error ''XPC006'' AppSrc (r6a_message kind xrdWave xrName xrWave) (r6a_detail kind) (r6a_fix xrWave) [XrdSrc]] }})
            (shen_filter (\<lambda>SW. sync_wave_kind_matches_p SW Kind) SyncWaves)
      | _ \<Rightarrow> Some [])"

definition check_r6d_for_composition :: "sexp list \<Rightarrow> sexp \<Rightarrow> sexp \<Rightarrow> sexp list option" where
  "check_r6d_for_composition SyncWaves AppSrc c =
     (case fact ''composition-fact'' c of
        Some [CompName, Ref, _, _, CompSrc, _] \<Rightarrow>
          (case fact ''gvk'' Ref of
             Some [Group, Version, Kind] \<Rightarrow>
               flat_map (\<lambda>XrEntry. do {
                   compWave \<leftarrow> sexp_num (find_wave (SStr ''Composition'') CompName SyncWaves);
                   xrWave \<leftarrow> sexp_num (get_sync_wave XrEntry);
                   if compWave \<le> xrWave then Some []
                   else do { compName \<leftarrow> sexp_str CompName; xrName \<leftarrow> sexp_str (get_sync_name XrEntry);
                     Some [make_error ''XPC006'' AppSrc (r6d_message compName compWave xrName xrWave) (r6d_detail compName xrName)
                             (r6d_fix compName xrWave) [CompSrc]] }})
                 (shen_filter (\<lambda>SW. sync_wave_kind_matches_p SW Kind) SyncWaves)
           | _ \<Rightarrow> Some [])
      | _ \<Rightarrow> Some [])"

definition check_r6_app :: "sexp list \<Rightarrow> sexp list \<Rightarrow> sexp \<Rightarrow> sexp list option" where
  "check_r6_app Compositions XRDs a =
     (case fact ''argo-app-fact'' a of
        Some [AppName, TrackingMode, SyncWaves, AppSrc] \<Rightarrow>
          do { waves \<leftarrow> elems SyncWaves;
               r6a \<leftarrow> flat_map (check_r6a_for_xrd waves AppSrc) (shen_filter (xrd_owned_by_p AppName) XRDs);
               r6d \<leftarrow> flat_map (check_r6d_for_composition waves AppSrc) (shen_filter (composition_owned_by_p AppName) Compositions);
               Some (r6a @ r6d) }
      | _ \<Rightarrow> Some [])"

definition check_r6b_emit ::
  "sexp \<Rightarrow> sexp \<Rightarrow> int \<Rightarrow> sexp \<Rightarrow> sexp \<Rightarrow> sexp \<Rightarrow> sexp \<Rightarrow> int \<Rightarrow> sexp option" where
  "check_r6b_emit CompName CompApp compWave CompSrc CompSrcLoc FnRef FnApp fnWave =
     do { compName \<leftarrow> sexp_str CompName; compApp \<leftarrow> sexp_str CompApp; fnRef \<leftarrow> sexp_str FnRef; fnApp \<leftarrow> sexp_str FnApp;
          Some (make_error ''XPC006'' CompSrcLoc (r6b_msg fnRef fnApp fnWave compName compApp compWave)
                  (r6b_detail fnRef compName) (r6b_fix fnRef compWave) [CompSrc]) }"

definition check_r6b_pair ::
  "sexp \<Rightarrow> sexp \<Rightarrow> sexp \<Rightarrow> sexp \<Rightarrow> sexp \<Rightarrow> sexp list \<Rightarrow> sexp list \<Rightarrow> sexp \<Rightarrow> sexp list option" where
  "check_r6b_pair CompName CompApp CompWave CompSrc CompSrcLoc ArgoApps Functions FnRef =
     (let FnApp = function_app FnRef Functions in
      do { fnWaves \<leftarrow> elems (app_sync_waves FnApp ArgoApps);
           if FnApp = CompApp then Some []
           else if FnApp = SStr [] then Some []
           else do { fnWave \<leftarrow> sexp_num (find_wave (SStr ''Function'') FnRef fnWaves); compWave \<leftarrow> sexp_num CompWave;
                if fnWave < compWave then Some []
                else do { j \<leftarrow> check_r6b_emit CompName CompApp compWave CompSrc CompSrcLoc FnRef FnApp fnWave; Some [j] }}})"

definition check_r6b_for_composition :: "sexp list \<Rightarrow> sexp list \<Rightarrow> sexp \<Rightarrow> sexp list option" where
  "check_r6b_for_composition ArgoApps Functions c =
     (case fact ''composition-fact'' c of
        Some [CompName, _, _, Pipeline, CompSrc, CompApp] \<Rightarrow>
          do { compWaves \<leftarrow> elems (app_sync_waves CompApp ArgoApps); steps \<leftarrow> elems Pipeline;
               flat_map (check_r6b_pair CompName CompApp (find_wave (SStr ''Composition'') CompName compWaves) CompSrc
                           (app_source CompApp ArgoApps) ArgoApps Functions)
                 (extract_fn_refs steps) }
      | _ \<Rightarrow> Some [])"

definition check_r6 :: "sexp \<Rightarrow> sexp \<Rightarrow> sexp \<Rightarrow> sexp \<Rightarrow> sexp list option" where
  "check_r6 ArgoApps Compositions XRDs Functions =
     (if Compositions = SNil \<and> XRDs = SNil \<and> Functions = SNil then Some []
      else do { apps \<leftarrow> elems ArgoApps; cs \<leftarrow> elems Compositions; xs \<leftarrow> elems XRDs; fs \<leftarrow> elems Functions;
                a \<leftarrow> flat_map (check_r6_app cs xs) apps;
                b \<leftarrow> flat_map (check_r6b_for_composition apps fs) cs; Some (a @ b) })"

section \<open>R6c: providers before managed resources\<close>

fun kind_has_crd_p :: "sexp \<Rightarrow> sexp list \<Rightarrow> bool" where
  "kind_has_crd_p _ [] = False"
| "kind_has_crd_p Kind (SCons (SSym t) (SCons _ (SCons k _)) # rest) =
     ((t = ''crd-fact'' \<and> k = Kind) \<or> kind_has_crd_p Kind rest)"
| "kind_has_crd_p Kind (_ # rest) = kind_has_crd_p Kind rest"

definition sync_wave_is_mr_p :: "sexp list \<Rightarrow> sexp \<Rightarrow> bool" where
  "sync_wave_is_mr_p CRDs sw =
     (case elems sw of
        Some [Kind, _, _] \<Rightarrow>
          if Kind = SStr ''CompositeResourceDefinition'' \<or> Kind = SStr ''Composition'' \<or> Kind = SStr ''Function'' \<or> Kind = SStr ''Provider''
          then False else kind_has_crd_p Kind CRDs
      | _ \<Rightarrow> False)"

definition check_r6c_pair :: "sexp \<Rightarrow> sexp \<Rightarrow> sexp \<Rightarrow> sexp \<Rightarrow> sexp list option" where
  "check_r6c_pair ProvName ProvWave AppSrc mr =
     (case elems mr of
        Some [MRKind, MRName, MRWave] \<Rightarrow>
          do { provWave \<leftarrow> sexp_num ProvWave; mrWave \<leftarrow> sexp_num MRWave;
               if provWave < mrWave then Some []
               else do { provName \<leftarrow> sexp_str ProvName; mrKind \<leftarrow> sexp_str MRKind; mrName \<leftarrow> sexp_str MRName;
                 Some [make_error ''XPC006'' AppSrc (r6c_message provName provWave mrKind mrName mrWave) (r6c_detail provName)
                         (r6c_fix provName mrWave) []] }}
      | _ \<Rightarrow> Some [])"

definition check_r6c_for_provider :: "sexp list \<Rightarrow> sexp \<Rightarrow> sexp \<Rightarrow> sexp list option" where
  "check_r6c_for_provider MRs AppSrc p =
     (case elems p of
        Some [_, ProvName, ProvWave] \<Rightarrow> flat_map (check_r6c_pair ProvName ProvWave AppSrc) MRs
      | _ \<Rightarrow> Some [])"

definition check_r6c_app :: "sexp list \<Rightarrow> sexp \<Rightarrow> sexp list option" where
  "check_r6c_app CRDs a =
     (case fact ''argo-app-fact'' a of
        Some [AppName, TrackingMode, SyncWaves, AppSrc] \<Rightarrow>
          do { waves \<leftarrow> elems SyncWaves;
               flat_map (check_r6c_for_provider (shen_filter (sync_wave_is_mr_p CRDs) waves) AppSrc)
                 (shen_filter (\<lambda>SW. sync_wave_kind_matches_p SW (SStr ''Provider'')) waves) }
      | _ \<Rightarrow> Some [])"

definition check_r6c :: "sexp \<Rightarrow> sexp \<Rightarrow> sexp list option" where
  "check_r6c ArgoApps CRDs =
     (if CRDs = SNil then Some []
      else do { apps \<leftarrow> elems ArgoApps; cs \<leftarrow> elems CRDs; flat_map (check_r6c_app cs) apps })"

section \<open>R7: label tracking\<close>

definition check_r7_composition_conflict :: "sexp \<Rightarrow> sexp \<Rightarrow> sexp \<Rightarrow> sexp list option" where
  "check_r7_composition_conflict AppName AppSrc c =
     (case fact ''composition-fact'' c of
        Some [CompName, _, _, _, CompSrc, _] \<Rightarrow>
          do { appName \<leftarrow> sexp_str AppName; compName \<leftarrow> sexp_str CompName;
               Some [make_warning ''XPC007'' AppSrc (r7_message compName) (r7_detail appName compName) r7_fix [CompSrc]] }
      | _ \<Rightarrow> Some [])"

definition check_r7_app :: "sexp list \<Rightarrow> sexp \<Rightarrow> sexp list option" where
  "check_r7_app Compositions a =
     (case fact ''argo-app-fact'' a of
        Some [AppName, TrackingMode, _, AppSrc] \<Rightarrow>
          if TrackingMode = SStr ''label'' then flat_map (check_r7_composition_conflict AppName AppSrc) Compositions else Some []
      | _ \<Rightarrow> Some [])"

definition check_r7 :: "sexp \<Rightarrow> sexp \<Rightarrow> sexp list option" where
  "check_r7 ArgoApps Compositions =
     (if Compositions = SNil then Some []
      else do { apps \<leftarrow> elems ArgoApps; cs \<leftarrow> elems Compositions; flat_map (check_r7_app cs) apps })"

section \<open>R8: machinery fields\<close>

text \<open>
  The message of the judgment is \<^verbatim>\<open>(cn "Resource " (cn Name (cn " uses v1-style ...")))\<close>: the innermost
  \<^verbatim>\<open>cn\<close> has one argument, so its value is a function, and joining a string with a function raises an error.
\<close>

definition check_r8_resource_annotation :: "sexp \<Rightarrow> sexp list option" where
  "check_r8_resource_annotation r =
     (case fact ''resource-fact'' r of
        Some [APIVersion, Kind, Name, Namespace, Annotations, Src, _] \<Rightarrow>
          do { anns \<leftarrow> elems Annotations;
               if has_annotation_p anns ''xpc.dev/v1-machinery-on-v2-xrd'' ''true'' then None else Some [] }
      | _ \<Rightarrow> Some [])"

definition check_r8 :: "sexp \<Rightarrow> sexp \<Rightarrow> sexp list option" where
  "check_r8 Resources XRDs = do { rs \<leftarrow> elems Resources; flat_map check_r8_resource_annotation rs }"

section \<open>R9: bootstrap\<close>

definition check_r9_step :: "sexp \<Rightarrow> sexp list" where
  "check_r9_step Step = []"

definition check_r9_composition :: "sexp \<Rightarrow> sexp list option" where
  "check_r9_composition c =
     (case fact ''composition-fact'' c of
        Some [CompName, CTR, _, Pipeline, CompSrc, _] \<Rightarrow> do { steps \<leftarrow> elems Pipeline; Some (flatten (map check_r9_step steps)) }
      | _ \<Rightarrow> Some [])"

definition check_r9_annotations :: "sexp \<Rightarrow> sexp \<Rightarrow> sexp list \<Rightarrow> sexp \<Rightarrow> sexp list option" where
  "check_r9_annotations Name Kind Annotations Src =
     (if has_annotation_p Annotations ''xpc.dev/required-resource-missing'' ''true'' \<and>
         \<not> has_annotation_p Annotations ''xpc.dev/accept-bootstrap-gap'' ''true''
      then do { name \<leftarrow> sexp_str Name; kind \<leftarrow> sexp_str Kind;
                Some [make_error ''XPC009'' Src (r9_message name) (r9_detail kind name) r9_fix []] }
      else Some [])"

fun check_r9_annotated :: "sexp list \<Rightarrow> sexp list option" where
  "check_r9_annotated [] = Some []"
| "check_r9_annotated (r # rest) =
     (case fact ''resource-fact'' r of
        Some [APIVersion, Kind, Name, Namespace, Annotations, Src, _] \<Rightarrow>
          do { anns \<leftarrow> elems Annotations; issues \<leftarrow> check_r9_annotations Name Kind anns Src;
               more \<leftarrow> check_r9_annotated rest; Some (issues @ more) }
      | _ \<Rightarrow> check_r9_annotated rest)"

definition check_r9 :: "sexp \<Rightarrow> sexp \<Rightarrow> sexp list option" where
  "check_r9 Compositions Resources =
     do { cs \<leftarrow> elems Compositions; rs \<leftarrow> elems Resources;
          a \<leftarrow> flat_map check_r9_composition cs; b \<leftarrow> check_r9_annotated rs; Some (a @ b) }"

end
