(* ===== verification/KernelRules2.thy ===== *)
theory KernelRules2
  imports KernelRules
begin

text \<open>
  The rules \<^verbatim>\<open>kernel/r10-secret-taint.shen\<close> to \<^verbatim>\<open>kernel/r36-orphaned-sgref.shen\<close> that
  \<^verbatim>\<open>kernel/check.shen\<close> dispatches.  Those from R12 on mostly turn facts the Go side has computed into
  judgments; the functions of these files that the dispatch no longer reaches are not here.
\<close>

section \<open>R10: secret taint\<close>

definition secret_source_field_p :: "string \<Rightarrow> bool" where
  "secret_source_field_p s =
     (s \<in> set [''spec.writeConnectionSecretToRef'', ''spec.publishConnectionDetailsTo'', ''spec.connectionDetails'',
       ''spec.credentials'', ''spec.forProvider.credentials'', ''spec.forProvider.password'', ''spec.forProvider.secretKey'',
       ''spec.forProvider.accessKey'', ''spec.forProvider.masterPassword'', ''spec.forProvider.masterUsername'',
       ''spec.forProvider.adminPassword'', ''spec.forProvider.token'', ''spec.forProvider.apiKey'',
       ''spec.forProvider.connectionString'', ''spec.forProvider.privateKey'', ''spec.forProvider.clientSecret'',
       ''spec.forProvider.sslCertificate'', ''spec.forProvider.sslKey'', ''spec.forProvider.tlsCertificate'',
       ''spec.forProvider.tlsKey''])"

definition secret_sink_field_p :: "string \<Rightarrow> bool" where
  "secret_sink_field_p s =
     (s \<in> set [''spec.writeConnectionSecretToRef'', ''spec.publishConnectionDetailsTo'', ''spec.connectionDetails'',
       ''spec.forProvider.passwordSecretRef'', ''spec.forProvider.credentials'', ''spec.forProvider.credentialsSecretRef'',
       ''spec.forProvider.masterPasswordSecretRef'', ''spec.forProvider.tokenSecretRef'', ''spec.forProvider.apiKeySecretRef'',
       ''spec.forProvider.privateKeySecretRef'', ''spec.forProvider.connectionStringSecretRef''])"

definition lc_char :: "string \<Rightarrow> string" where
  "lc_char c =
     (case map_of (zip (explode ''ABCDEFGHIJKLMNOPQRSTUVWXYZ'') (explode ''abcdefghijklmnopqrstuvwxyz'')) c of
        Some l \<Rightarrow> l | None \<Rightarrow> c)"

fun lc_chars :: "string list \<Rightarrow> string list" where
  "lc_chars [] = []"
| "lc_chars (c # rest) = lc_char c # lc_chars rest"

definition string_lower :: "string \<Rightarrow> string" where
  "string_lower s = xpc_implode (lc_chars (explode s))"

fun contains_any_p :: "string \<Rightarrow> string list \<Rightarrow> bool" where
  "contains_any_p _ [] = False"
| "contains_any_p s (p # rest) = (if string_contains_p s p then True else contains_any_p s rest)"

definition tainted_source_p :: "string \<Rightarrow> bool" where
  "tainted_source_p path =
     (if secret_source_field_p path then True
      else contains_any_p (string_lower path)
        [''password'', ''secret'', ''credential'', ''token'', ''apikey'', ''privatekey'', ''accesskey'', ''secretkey'', ''connectionstring''])"

definition secret_sink_p :: "string \<Rightarrow> bool" where
  "secret_sink_p path =
     (if secret_sink_field_p path then True
      else let lower = string_lower path in
        if string_contains_p lower ''secretref'' then True else string_contains_p lower ''secret'')"

definition check_r10_patch :: "sexp \<Rightarrow> sexp list option" where
  "check_r10_patch p =
     (case fact ''resolved-patch'' p of
        Some [CompName, Src, FromPath, ToPath, FromType, ToType] \<Rightarrow>
          do { fromPath \<leftarrow> sexp_str FromPath;
               if \<not> tainted_source_p fromPath then Some []
               else do { toPath \<leftarrow> sexp_str ToPath;
                 if secret_sink_p toPath then Some []
                 else do { compName \<leftarrow> sexp_str CompName;
                   Some [make_error ''XPC010'' Src (r10_message compName) (r10_detail fromPath toPath) (r10_fix fromPath) []] }}}
      | _ \<Rightarrow> Some [])"

definition check_r10 :: "sexp \<Rightarrow> sexp list option" where
  "check_r10 Patches = do { ps \<leftarrow> elems Patches; flat_map check_r10_patch ps }"

section \<open>R11: deprecations\<close>

definition deprecated_api_p :: "sexp \<Rightarrow> bool" where
  "deprecated_api_p x =
     (x \<in> set [SStr ''apiextensions.crossplane.io/v1alpha1'', SStr ''pkg.crossplane.io/v1alpha1'',
        SStr ''s3.aws.m.upbound.io/v1alpha1'', SStr ''ec2.aws.m.upbound.io/v1alpha1'', SStr ''rds.aws.m.upbound.io/v1alpha1''])"

definition provider_deprecations :: "(string \<times> string \<times> string) list" where
  "provider_deprecations =
     [(''xpkg.crossplane.io/upbound/provider-aws'', ''v0.40.0'',
       ''provider-aws versions before v0.40.0 have known conversion webhook issues''),
      (''xpkg.crossplane.io/upbound/provider-family-aws'', ''v1.0.0'',
       ''provider-family-aws versions before v1.0.0 are pre-GA and may have breaking changes'')]"

definition check_r11_resource :: "sexp \<Rightarrow> sexp list option" where
  "check_r11_resource r =
     (case fact ''resource-fact'' r of
        Some [APIVersion, Kind, Name, Namespace, Annotations, Src, _] \<Rightarrow>
          if deprecated_api_p APIVersion
          then do { apiVersion \<leftarrow> sexp_str APIVersion; kind \<leftarrow> sexp_str Kind; name \<leftarrow> sexp_str Name;
                 Some [make_warning ''XPC011'' Src (r11_resource_message apiVersion kind name) (deprecation_message apiVersion)
                         r11_resource_fix []] }
          else Some []
      | _ \<Rightarrow> Some [])"

definition check_r11_composition :: "sexp \<Rightarrow> sexp list option" where
  "check_r11_composition c =
     (case fact ''composition-fact'' c of
        Some [CompName, Ref, Mode, Pipeline, Src, _] \<Rightarrow>
          (case fact ''gvk'' Ref of
             Some [Group, Version, Kind] \<Rightarrow>
               do { grp \<leftarrow> sexp_str Group; version \<leftarrow> sexp_str Version;
                    let apiVer = grp @ ''/'' @ version in
                    if deprecated_api_p (SStr apiVer)
                    then do { compName \<leftarrow> sexp_str CompName;
                           Some [make_warning ''XPC011'' Src (r11_composition_message compName apiVer) (deprecation_message apiVer)
                                   r11_composition_fix []] }
                    else Some [] }
           | _ \<Rightarrow> Some [])
      | _ \<Rightarrow> Some [])"

definition extract_provider_version :: "string \<Rightarrow> string" where
  "extract_provider_version pkg =
     (let parts = split_string pkg '':'' in if 2 \<le> length parts then hd (xpc_reverse parts) else [])"

definition string_digit :: "string \<Rightarrow> int" where
  "string_digit c =
     (case map_of (zip (explode ''0123456789'') [0, 1, 2, 3, 4, 5, 6, 7, 8, 9]) c of Some n \<Rightarrow> n | None \<Rightarrow> - 1)"

fun parse_digits_h :: "string list \<Rightarrow> int \<Rightarrow> int" where
  "parse_digits_h [] acc = acc"
| "parse_digits_h (c # rest) acc =
     (let n = string_digit c in if n = - 1 then acc else parse_digits_h rest (acc * 10 + n))"

definition parse_semver :: "string \<Rightarrow> int list" where
  "parse_semver v =
     (let chars = explode v;
          stripped = (if chars \<noteq> [] \<and> hd chars = ''v'' then tl chars else chars);
          parts = split_string (xpc_implode stripped) ''.''
      in if length parts = 3
         then [parse_digits_h (explode (hd parts)) 0, parse_digits_h (explode (hd (tl parts))) 0,
               parse_digits_h (explode (hd (tl (tl parts)))) 0]
         else [])"

fun version_before_h :: "int list \<Rightarrow> int list \<Rightarrow> bool" where
  "version_before_h [am, an, ap] [bm, bn, bp] =
     (if am < bm then True else if am > bm then False
      else if an < bn then True else if an > bn then False else ap < bp)"
| "version_before_h _ _ = False"

definition version_before_p :: "string \<Rightarrow> string \<Rightarrow> bool" where
  "version_before_p a b =
     (let pa = parse_semver a; pb = parse_semver b in if pa = [] \<or> pb = [] then False else version_before_h pa pb)"

fun check_r11_provider_entries :: "string \<Rightarrow> string \<Rightarrow> sexp \<Rightarrow> (string \<times> string \<times> string) list \<Rightarrow> sexp list" where
  "check_r11_provider_entries _ _ _ [] = []"
| "check_r11_provider_entries provName package Src ((pattern, lowest, msg) # rest) =
     (let provVer = extract_provider_version package;
          older = (if string_contains_p package pattern \<and> provVer \<noteq> [] then version_before_p provVer lowest else False)
      in if older
         then make_warning ''XPC011'' Src (r11_provider_message provName provVer) msg (r11_provider_fix lowest) []
              # check_r11_provider_entries provName package Src rest
         else check_r11_provider_entries provName package Src rest)"

definition check_r11_provider :: "sexp \<Rightarrow> sexp list option" where
  "check_r11_provider p =
     (case fact ''provider-fact'' p of
        Some [ProvName, Package, Src, _] \<Rightarrow>
          do { provName \<leftarrow> sexp_str ProvName; package \<leftarrow> sexp_str Package;
               Some (check_r11_provider_entries provName package Src provider_deprecations) }
      | _ \<Rightarrow> Some [])"

fun check_r11_crd_versions :: "sexp \<Rightarrow> sexp \<Rightarrow> sexp \<Rightarrow> sexp list \<Rightarrow> sexp list option" where
  "check_r11_crd_versions _ _ _ [] = Some []"
| "check_r11_crd_versions Group Kind Src (v # rest) =
     (case elems v of
        Some [VName, Served, Storage, SchemaRef] \<Rightarrow>
          do { served \<leftarrow> sexp_bool Served;
               if served then check_r11_crd_versions Group Kind Src rest
               else do { vName \<leftarrow> sexp_str VName; grp \<leftarrow> sexp_str Group; kind \<leftarrow> sexp_str Kind;
                 js \<leftarrow> check_r11_crd_versions Group Kind Src rest;
                 Some (make_warning ''XPC011'' Src (r11_crd_message grp kind vName) (r11_crd_detail vName grp kind) (r11_crd_fix vName) [] # js) }}
      | _ \<Rightarrow> None)"

definition check_r11_crd :: "sexp \<Rightarrow> sexp list option" where
  "check_r11_crd c =
     (case fact ''crd-fact'' c of
        Some [Group, Kind, Scope, Versions, Conversion, Src] \<Rightarrow> do { vs \<leftarrow> elems Versions; check_r11_crd_versions Group Kind Src vs }
      | _ \<Rightarrow> Some [])"

definition check_r11 :: "sexp \<Rightarrow> sexp \<Rightarrow> sexp \<Rightarrow> sexp \<Rightarrow> sexp list option" where
  "check_r11 Resources Compositions Providers CRDs =
     do { rs \<leftarrow> elems Resources; a \<leftarrow> flat_map check_r11_resource rs;
          cs \<leftarrow> elems Compositions; b \<leftarrow> flat_map check_r11_composition cs;
          ps \<leftarrow> elems Providers; c \<leftarrow> flat_map check_r11_provider ps;
          ds \<leftarrow> elems CRDs; d \<leftarrow> flat_map check_r11_crd ds; Some (a @ b @ c @ d) }"

section \<open>R12 to R16: precomputed violations\<close>

definition r12_cross_emit :: "sexp \<Rightarrow> sexp \<Rightarrow> sexp \<Rightarrow> sexp \<Rightarrow> sexp \<Rightarrow> sexp \<Rightarrow> sexp option" where
  "r12_cross_emit OKind OName TKind TName MKind Src =
     do { okind \<leftarrow> sexp_str OKind; oname \<leftarrow> sexp_str OName; tkind \<leftarrow> sexp_str TKind; tname \<leftarrow> sexp_str TName; mkind \<leftarrow> sexp_str MKind;
          Some (make_error ''XPC012'' Src (r12_message tkind tname okind oname) (r12_detail mkind tkind tname okind oname)
                  (r12_fix tkind tname) []) }"

definition r12_cross_violation_to_judgment :: "sexp \<Rightarrow> sexp option" where
  "r12_cross_violation_to_judgment v =
     (case fact ''r12-violation'' v of
        Some [OKind, OName, _, TKind, TName, _, MKind, Src] \<Rightarrow> r12_cross_emit OKind OName TKind TName MKind Src
      | _ \<Rightarrow> Some SNil)"

definition check_r12_cross :: "sexp \<Rightarrow> sexp list option" where
  "check_r12_cross Violations = do { vs \<leftarrow> elems Violations; omap r12_cross_violation_to_judgment vs }"

definition r14_cross_violation_to_judgment :: "sexp \<Rightarrow> sexp option" where
  "r14_cross_violation_to_judgment v =
     (case fact ''r14-violation'' v of
        Some [BKind, BName, _, _, _, _, OKind, OName, Src, BSrc] \<Rightarrow>
          do { bKind \<leftarrow> sexp_str BKind; bName \<leftarrow> sexp_str BName; okind \<leftarrow> sexp_str OKind; oname \<leftarrow> sexp_str OName;
               Some (make_error ''XPC014'' Src (r14_message bKind bName okind oname) (r14_detail okind oname bName) (r14_fix bName) [BSrc]) }
      | _ \<Rightarrow> Some SNil)"

definition check_r14_cross :: "sexp \<Rightarrow> sexp list option" where
  "check_r14_cross Violations = do { vs \<leftarrow> elems Violations; omap r14_cross_violation_to_judgment vs }"

definition r15_violation_to_judgment :: "sexp \<Rightarrow> sexp option" where
  "r15_violation_to_judgment v =
     (case fact ''r15-violation'' v of
        Some [AppName, ProjName, Group, Kind, _, WLKey, ResSrc] \<Rightarrow>
          do { appName \<leftarrow> sexp_str AppName; projName \<leftarrow> sexp_str ProjName; grp \<leftarrow> sexp_str Group; kind \<leftarrow> sexp_str Kind; wlKey \<leftarrow> sexp_str WLKey;
               let gDisplay = (if grp = [] then ''core'' else grp) in
               Some (make_error ''XPC.D.kind-whitelisted'' ResSrc (r15_message kind gDisplay projName)
                       (r15_detail appName projName kind gDisplay wlKey) (r15_fix gDisplay kind) []) }
      | _ \<Rightarrow> Some SNil)"

definition check_r15 :: "sexp \<Rightarrow> sexp list option" where
  "check_r15 Violations = do { vs \<leftarrow> elems Violations; omap r15_violation_to_judgment vs }"

definition r16_violation_to_judgment :: "sexp \<Rightarrow> sexp option" where
  "r16_violation_to_judgment v =
     (case fact ''r16-violation'' v of
        Some [Group, Kind, Name, _, SelectorPath, ResolvedPath, Leaf, Src] \<Rightarrow>
          do { grp \<leftarrow> sexp_str Group; kind \<leftarrow> sexp_str Kind; name \<leftarrow> sexp_str Name; selectorPath \<leftarrow> sexp_str SelectorPath;
               resolvedPath \<leftarrow> sexp_str ResolvedPath; leaf \<leftarrow> sexp_str Leaf;
               Some (make_error ''XPC.E.selector-needs-ignore-diff'' Src (r16_message kind name selectorPath resolvedPath)
                       (r16_detail selectorPath kind grp resolvedPath) (r16_fix grp kind leaf) []) }
      | _ \<Rightarrow> Some SNil)"

definition check_r16 :: "sexp \<Rightarrow> sexp list option" where
  "check_r16 Violations = do { vs \<leftarrow> elems Violations; omap r16_violation_to_judgment vs }"

section \<open>R17 to R21: fields, renders, late initialisation\<close>

definition r17_check_fact :: "sexp \<Rightarrow> sexp list option" where
  "r17_check_fact f =
     (case fact ''resource-field-fact'' f of
        Some [APIVersion, Kind, Namespace, Name, Path, Violation, Message, Src] \<Rightarrow>
          do { kind \<leftarrow> sexp_str Kind; name \<leftarrow> sexp_str Name; pth \<leftarrow> sexp_str Path; message \<leftarrow> sexp_str Message;
               Some [make_error ''XPC.A.resource-field-valid'' Src (r17_message kind name (r17_violation_label Violation) pth)
                       message (r17_fix_hint Violation) []] }
      | _ \<Rightarrow> Some [])"

definition check_r17 :: "sexp \<Rightarrow> sexp list option" where
  "check_r17 Facts = do { fs \<leftarrow> elems Facts; flat_map r17_check_fact fs }"

definition r18_is_kustomize_kind_p :: "sexp \<Rightarrow> bool" where
  "r18_is_kustomize_kind_p k = (k \<in> set [SSym ''kustomize-absent'', SSym ''kustomize-build-failed'', SSym ''kustomize-timeout''])"

definition r18_is_composition_kind_p :: "sexp \<Rightarrow> bool" where
  "r18_is_composition_kind_p k = (k \<in> set [SSym ''crossplane-absent'', SSym ''crossplane-render-failed'', SSym ''crossplane-timeout''])"

definition r18_code_for_kind :: "sexp \<Rightarrow> string" where
  "r18_code_for_kind k =
     (if r18_is_kustomize_kind_p k then ''XPC.H.kustomize-renders''
      else if r18_is_composition_kind_p k then ''XPC.H.composition-renders'' else ''XPC.H.helm-renders'')"

definition r18_emit :: "(string \<Rightarrow> sexp \<Rightarrow> string \<Rightarrow> string \<Rightarrow> string \<Rightarrow> sexp list \<Rightarrow> sexp) \<Rightarrow> string \<Rightarrow> sexp \<Rightarrow> sexp \<Rightarrow> sexp \<Rightarrow> sexp \<Rightarrow> sexp \<Rightarrow> sexp list option" where
  "r18_emit mk code AppName ChartPath ErrorKind Error Src =
     do { appName \<leftarrow> sexp_str AppName; chartPath \<leftarrow> sexp_str ChartPath; err \<leftarrow> sexp_str Error;
          Some [mk code Src (r18_message appName (r18_error_label ErrorKind)) (r18_detail chartPath err) (r18_fix_hint ErrorKind) []] }"

definition r18_check_result :: "sexp \<Rightarrow> sexp list option" where
  "r18_check_result r =
     (case fact ''render-result'' r of
        Some [AppName, ChartPath, Success, ErrorKind, Error, Issues, Src] \<Rightarrow>
          if Success = SSym ''render-ok'' then Some []
          else if Success = SSym ''render-failed'' then
            if ErrorKind = SSym ''helm-absent'' then r18_emit make_warning ''XPC.H.helm-renders'' AppName ChartPath ErrorKind Error Src
            else if ErrorKind = SSym ''kustomize-absent'' then r18_emit make_warning ''XPC.H.kustomize-renders'' AppName ChartPath ErrorKind Error Src
            else if ErrorKind = SSym ''crossplane-absent'' then r18_emit make_warning ''XPC.H.composition-renders'' AppName ChartPath ErrorKind Error Src
            else r18_emit make_error (r18_code_for_kind ErrorKind) AppName ChartPath ErrorKind Error Src
          else Some []
      | _ \<Rightarrow> Some [])"

definition check_r18 :: "sexp \<Rightarrow> sexp list option" where
  "check_r18 Results = do { rs \<leftarrow> elems Results; flat_map r18_check_result rs }"

definition r19_issue_judgment :: "sexp \<Rightarrow> sexp \<Rightarrow> sexp \<Rightarrow> sexp option" where
  "r19_issue_judgment AppName Src i =
     (case fact ''values-issue'' i of
        Some [Path, Msg] \<Rightarrow>
          do { appName \<leftarrow> sexp_str AppName; pth \<leftarrow> sexp_str Path; msg \<leftarrow> sexp_str Msg;
               Some (make_error ''XPC.H.values-well-typed'' Src (r19_message appName pth) msg r19_fix []) }
      | _ \<Rightarrow> Some (make_error ''XPC.H.values-well-typed'' no_source ''malformed values-issue'' [] [] []))"

fun r19_issue_list_of :: "sexp \<Rightarrow> sexp" where
  "r19_issue_list_of (SCons (SSym t) rest) = (if t = ''values-issues'' then rest else SNil)"
| "r19_issue_list_of _ = SNil"

definition r19_check_result :: "sexp \<Rightarrow> sexp list option" where
  "r19_check_result r =
     (case fact ''render-result'' r of
        Some [AppName, ChartPath, Success, ErrorKind, Error, Issues, Src] \<Rightarrow>
          do { is \<leftarrow> elems (r19_issue_list_of Issues); omap (r19_issue_judgment AppName Src) is }
      | _ \<Rightarrow> Some [])"

definition check_r19 :: "sexp \<Rightarrow> sexp list option" where
  "check_r19 Results = do { rs \<leftarrow> elems Results; flat_map r19_check_result rs }"

definition r20_check_result :: "sexp \<Rightarrow> sexp list option" where
  "r20_check_result r =
     (case fact ''determinism-result'' r of
        Some [AppName, RendererKind, Status, DiffSummary, Src] \<Rightarrow>
          if Status = SSym ''determ-mismatch''
          then do { appName \<leftarrow> sexp_str AppName; rendererKind \<leftarrow> sexp_str RendererKind; diffSummary \<leftarrow> sexp_str DiffSummary;
                 Some [make_warning ''XPC.H.render-deterministic'' Src (r20_message appName rendererKind) diffSummary r20_fix_hint []] }
          else Some []
      | _ \<Rightarrow> Some [])"

definition check_r20 :: "sexp \<Rightarrow> sexp list option" where
  "check_r20 Results = do { rs \<leftarrow> elems Results; flat_map r20_check_result rs }"

definition r21_violation_to_judgment :: "sexp \<Rightarrow> sexp option" where
  "r21_violation_to_judgment v =
     (case fact ''r21-violation'' v of
        Some [Group, Kind, Name, _, FieldPath, Leaf, Src] \<Rightarrow>
          do { grp \<leftarrow> sexp_str Group; kind \<leftarrow> sexp_str Kind; name \<leftarrow> sexp_str Name; fieldPath \<leftarrow> sexp_str FieldPath; leaf \<leftarrow> sexp_str Leaf;
               Some (make_error ''XPC.E.late-init-needs-ignore-diff'' Src (r21_message kind name fieldPath)
                       (r21_detail fieldPath kind grp) (r21_fix leaf) []) }
      | _ \<Rightarrow> Some SNil)"

definition check_r21 :: "sexp \<Rightarrow> sexp list option" where
  "check_r21 Violations = do { vs \<leftarrow> elems Violations; omap r21_violation_to_judgment vs }"

end
