(* ===== verification/KernelRules3.thy ===== *)
theory KernelRules3
  imports KernelRules2
begin

text \<open>
  The rules \<^verbatim>\<open>kernel/r22-ssa-managementpolicies-safety.shen\<close> to \<^verbatim>\<open>kernel/r36-orphaned-sgref.shen\<close>.
\<close>

section \<open>R22: server-side apply and management policies\<close>

fun r22_all_observe_p :: "sexp list \<Rightarrow> bool" where
  "r22_all_observe_p [] = True"
| "r22_all_observe_p (p # rest) = (if p = SStr ''Observe'' then r22_all_observe_p rest else False)"

definition r22_has_write_op_p :: "sexp list \<Rightarrow> bool" where
  "r22_has_write_op_p ps =
     (if shen_member (SStr ''Create'') ps then True
      else if shen_member (SStr ''LateInitialize'') ps then True else shen_member (SStr ''Delete'') ps)"

definition r22_has_update_p :: "sexp list \<Rightarrow> bool" where
  "r22_has_update_p ps = shen_member (SStr ''Update'') ps"

definition r22_is_default_p :: "sexp list \<Rightarrow> bool" where
  "r22_is_default_p ps =
     (if shen_member (SStr ''Observe'') ps
      then if shen_member (SStr ''Create'') ps
           then if shen_member (SStr ''Update'') ps then shen_member (SStr ''Delete'') ps else False
           else False
      else False)"

definition r22_mode_at_least_partial_p :: "sexp \<Rightarrow> bool" where
  "r22_mode_at_least_partial_p Mode = (if Mode = SSym ''partial'' then True else Mode = SSym ''any'')"

definition r22_mode_at_least_any_p :: "sexp \<Rightarrow> bool" where
  "r22_mode_at_least_any_p Mode = (Mode = SSym ''any'')"

fun r22_mode_of :: "sexp \<Rightarrow> sexp option" where
  "r22_mode_of SNil = Some (SSym ''observe'')"
| "r22_mode_of (SCons Mode _) = Some Mode"
| "r22_mode_of _ = None"

definition r22_emit :: "string \<Rightarrow> (string \<Rightarrow> string \<Rightarrow> string \<Rightarrow> string) \<Rightarrow> string \<Rightarrow> (string \<Rightarrow> string) \<Rightarrow> sexp \<Rightarrow> sexp \<Rightarrow> sexp \<Rightarrow> sexp \<Rightarrow> sexp option" where
  "r22_emit code message detail fix AppName Kind Name Src =
     do { appName \<leftarrow> sexp_str AppName; kind \<leftarrow> sexp_str Kind; name \<leftarrow> sexp_str Name;
          Some (make_error code Src (message kind name appName) detail (fix appName) []) }"

definition r22_emit_observe :: "sexp \<Rightarrow> sexp \<Rightarrow> sexp \<Rightarrow> sexp \<Rightarrow> sexp option" where
  "r22_emit_observe = r22_emit ''XPC.E.ssa-managementpolicies-observe'' r22_observe_message r22_observe_detail r22_observe_fix"

definition r22_emit_partial :: "sexp \<Rightarrow> sexp \<Rightarrow> sexp \<Rightarrow> sexp \<Rightarrow> sexp option" where
  "r22_emit_partial = r22_emit ''XPC.E.ssa-managementpolicies-partial'' r22_partial_message r22_partial_detail r22_partial_fix"

definition r22_emit_nondefault :: "sexp \<Rightarrow> sexp \<Rightarrow> sexp \<Rightarrow> sexp \<Rightarrow> sexp option" where
  "r22_emit_nondefault = r22_emit ''XPC.E.ssa-managementpolicies-nondefault'' r22_nondefault_message r22_nondefault_detail r22_nondefault_fix"

definition r22_check_row :: "sexp \<Rightarrow> sexp \<Rightarrow> sexp list option" where
  "r22_check_row Mode row =
     (case fact ''ssa-mp-conflict-fact'' row of
        Some [AppName, Ssa, Policies, Group, Kind, Name, Ns, Src] \<Rightarrow>
          if Ssa \<noteq> SSym ''ssa-yes'' then Some []
          else do { ps \<leftarrow> elems Policies;
               if r22_all_observe_p ps then do { j \<leftarrow> r22_emit_observe AppName Kind Name Src; Some [j] }
               else do {
                 acc1 \<leftarrow> (if r22_mode_at_least_partial_p Mode
                          then if r22_has_write_op_p ps
                               then if r22_has_update_p ps then Some []
                                    else do { j \<leftarrow> r22_emit_partial AppName Kind Name Src; Some [j] }
                               else Some []
                          else Some []);
                 if r22_mode_at_least_any_p Mode
                 then if r22_is_default_p ps then Some acc1
                      else do { j \<leftarrow> r22_emit_nondefault AppName Kind Name Src; Some (j # acc1) }
                 else Some acc1 }}
      | _ \<Rightarrow> Some [])"

fun r22_prepend_rev :: "sexp list \<Rightarrow> sexp list \<Rightarrow> sexp list" where
  "r22_prepend_rev [] acc = acc"
| "r22_prepend_rev (x # rest) acc = r22_prepend_rev rest (x # acc)"

fun r22_check_all :: "sexp list \<Rightarrow> sexp \<Rightarrow> sexp list \<Rightarrow> sexp list option" where
  "r22_check_all [] _ acc = Some (xpc_reverse acc)"
| "r22_check_all (row # rest) Mode acc =
     do { js \<leftarrow> r22_check_row Mode row; r22_check_all rest Mode (r22_prepend_rev js acc) }"

definition check_r22 :: "sexp \<Rightarrow> sexp \<Rightarrow> sexp list option" where
  "check_r22 SSAMPConflicts ModeList =
     do { Mode \<leftarrow> r22_mode_of ModeList; rows \<leftarrow> elems SSAMPConflicts; r22_check_all rows Mode [] }"

fun r22_filter_by_code :: "string \<Rightarrow> sexp list \<Rightarrow> sexp list" where
  "r22_filter_by_code _ [] = []"
| "r22_filter_by_code code (j # rest) =
     (case fact ''judgment'' j of
        Some [c, Sev, Src, Msg, Detail, Fix, Related] \<Rightarrow>
          if c = SStr code then j # r22_filter_by_code code rest else r22_filter_by_code code rest
      | _ \<Rightarrow> r22_filter_by_code code rest)"

definition mark_r22_rules :: "sexp list \<Rightarrow> sexp list" where
  "mark_r22_rules js =
     mark_rule ''XPC.E.ssa-managementpolicies-observe'' (r22_filter_by_code ''XPC.E.ssa-managementpolicies-observe'' js) @
     mark_rule ''XPC.E.ssa-managementpolicies-partial'' (r22_filter_by_code ''XPC.E.ssa-managementpolicies-partial'' js) @
     mark_rule ''XPC.E.ssa-managementpolicies-nondefault'' (r22_filter_by_code ''XPC.E.ssa-managementpolicies-nondefault'' js)"

section \<open>R23 to R25: deletion, finalizers, automated sync\<close>

fun r23_name_carved_out_p :: "string \<Rightarrow> string list \<Rightarrow> bool" where
  "r23_name_carved_out_p _ [] = False"
| "r23_name_carved_out_p name (c # rest) = (if string_contains_p name c then True else r23_name_carved_out_p name rest)"

definition r23_orphan_p :: "sexp \<Rightarrow> bool" where
  "r23_orphan_p Policy = (Policy = SStr ''Orphan'')"

definition r23_policy_phrase :: "string \<Rightarrow> string" where
  "r23_policy_phrase policy =
     (if policy = [] then ''spec.deletionPolicy is absent (Crossplane default is Delete)''
      else ''spec.deletionPolicy is '' @ policy @ '' (not Orphan)'')"

definition r23_emit :: "sexp \<Rightarrow> sexp \<Rightarrow> sexp \<Rightarrow> sexp \<Rightarrow> sexp \<Rightarrow> sexp option" where
  "r23_emit Group Kind Name Policy Src =
     do { grp \<leftarrow> sexp_str Group; kind \<leftarrow> sexp_str Kind; name \<leftarrow> sexp_str Name; policy \<leftarrow> sexp_str Policy;
          Some (make_error ''XPC.S.crossplane-state-needs-orphan'' Src (r23_message kind name)
                  (r23_detail (r23_policy_phrase policy) grp kind) r23_fix []) }"

definition r23_check_row :: "sexp list \<Rightarrow> sexp \<Rightarrow> sexp list option" where
  "r23_check_row Carveouts row =
     (case fact ''cp-deletion-policy-fact'' row of
        Some [Group, Kind, Name, Ns, Policy, Bypass, Src] \<Rightarrow>
          if Bypass = SSym ''bypass-no'' then
            if r23_orphan_p Policy then Some []
            else do { name \<leftarrow> sexp_str Name; carveouts \<leftarrow> omap sexp_str Carveouts;
                   if r23_name_carved_out_p name carveouts then Some []
                   else do { j \<leftarrow> r23_emit Group Kind Name Policy Src; Some [j] }}
          else Some []
      | _ \<Rightarrow> Some [])"

definition check_r23 :: "sexp \<Rightarrow> sexp \<Rightarrow> sexp list option" where
  "check_r23 Facts Carveouts = do { fs \<leftarrow> elems Facts; cs \<leftarrow> elems Carveouts; flat_map (r23_check_row cs) fs }"

definition r24_has_cascade_finalizer_p :: "sexp list \<Rightarrow> bool" where
  "r24_has_cascade_finalizer_p fs =
     (if shen_member (SStr ''resources-finalizer.argocd.argoproj.io'') fs then True
      else shen_member (SStr ''resources-finalizer.argocd.argoproj.io/foreground'') fs)"

definition r24_emit :: "sexp \<Rightarrow> sexp \<Rightarrow> sexp option" where
  "r24_emit Name Src =
     do { name \<leftarrow> sexp_str Name; Some (make_error ''XPC.E.appset-finalizer-without-preserve'' Src (r24_message name) r24_detail r24_fix []) }"

definition r24_check_row :: "sexp \<Rightarrow> sexp list option" where
  "r24_check_row row =
     (case fact ''appset-finalizer-fact'' row of
        Some [Name, Finalizers, Preserve, Src] \<Rightarrow>
          if Preserve = SSym ''preserve-no'' then do { fs \<leftarrow> elems Finalizers;
            if r24_has_cascade_finalizer_p fs then do { j \<leftarrow> r24_emit Name Src; Some [j] } else Some [] }
          else Some []
      | _ \<Rightarrow> Some [])"

definition check_r24 :: "sexp \<Rightarrow> sexp list option" where
  "check_r24 AppSetFacts = do { fs \<leftarrow> elems AppSetFacts; flat_map r24_check_row fs }"

fun r25_name_matches_any_p :: "string \<Rightarrow> string list \<Rightarrow> bool" where
  "r25_name_matches_any_p _ [] = False"
| "r25_name_matches_any_p name (p # rest) = (if string_contains_p name p then True else r25_name_matches_any_p name rest)"

definition r25_emit :: "sexp \<Rightarrow> sexp \<Rightarrow> sexp option" where
  "r25_emit Name Src =
     do { name \<leftarrow> sexp_str Name; Some (make_error ''XPC.E.prod-appset-autosync'' Src (r25_message name) r25_detail r25_fix []) }"

definition r25_check_row :: "sexp list \<Rightarrow> sexp \<Rightarrow> sexp list option" where
  "r25_check_row Patterns row =
     (case fact ''appset-autosync-fact'' row of
        Some [Name, Auto, Src] \<Rightarrow>
          if Auto = SSym ''auto-yes'' then do { name \<leftarrow> sexp_str Name; patterns \<leftarrow> omap sexp_str Patterns;
            if r25_name_matches_any_p name patterns then do { j \<leftarrow> r25_emit Name Src; Some [j] } else Some [] }
          else Some []
      | _ \<Rightarrow> Some [])"

definition check_r25 :: "sexp \<Rightarrow> sexp \<Rightarrow> sexp list option" where
  "check_r25 Facts Patterns = do { fs \<leftarrow> elems Facts; ps \<leftarrow> elems Patterns; flat_map (r25_check_row ps) fs }"

section \<open>R28 to R30: references, labels, stores\<close>

definition r28_emit :: "sexp \<Rightarrow> sexp \<Rightarrow> sexp \<Rightarrow> sexp \<Rightarrow> sexp \<Rightarrow> sexp option" where
  "r28_emit Group Kind Name RefName Src =
     do { kind \<leftarrow> sexp_str Kind; name \<leftarrow> sexp_str Name; refName \<leftarrow> sexp_str RefName;
          Some (make_error ''XPC.B.providerconfig-resolves'' Src (r28_message kind name refName) (r28_detail refName) r28_fix []) }"

definition r28_check_row :: "sexp \<Rightarrow> sexp list option" where
  "r28_check_row row =
     (case fact ''providerconfig-ref-violation'' row of
        Some [Group, Kind, Name, Ns, RefName, Src] \<Rightarrow> do { j \<leftarrow> r28_emit Group Kind Name RefName Src; Some [j] }
      | _ \<Rightarrow> Some [])"

definition check_r28 :: "sexp \<Rightarrow> sexp list option" where
  "check_r28 Violations = do { vs \<leftarrow> elems Violations; flat_map r28_check_row vs }"

definition r29_emit_missing :: "sexp \<Rightarrow> sexp \<Rightarrow> sexp \<Rightarrow> sexp option" where
  "r29_emit_missing Kind Name Src =
     do { kind \<leftarrow> sexp_str Kind; name \<leftarrow> sexp_str Name;
          Some (make_error ''XPC.E.fargate-claim-env-label'' Src (r29_missing_message kind name) (r29_missing_detail kind name)
                  r29_missing_fix []) }"

definition r29_emit_invalid :: "sexp \<Rightarrow> sexp \<Rightarrow> sexp \<Rightarrow> sexp \<Rightarrow> sexp option" where
  "r29_emit_invalid Kind Name Value Src =
     do { kind \<leftarrow> sexp_str Kind; name \<leftarrow> sexp_str Name; value \<leftarrow> sexp_str Value;
          Some (make_error ''XPC.E.fargate-claim-env-label'' Src (r29_invalid_message kind name value) (r29_invalid_detail value)
                  r29_invalid_fix []) }"

definition r29_check_row :: "sexp \<Rightarrow> sexp list option" where
  "r29_check_row row =
     (case fact ''fargate-env-label-violation'' row of
        Some [Kind, Name, Ns, Reason, Value, Src] \<Rightarrow>
          if Reason = SSym ''env-missing'' then do { j \<leftarrow> r29_emit_missing Kind Name Src; Some [j] }
          else if Reason = SSym ''env-invalid'' then do { j \<leftarrow> r29_emit_invalid Kind Name Value Src; Some [j] }
          else Some []
      | _ \<Rightarrow> Some [])"

definition check_r29 :: "sexp \<Rightarrow> sexp list option" where
  "check_r29 Violations = do { vs \<leftarrow> elems Violations; flat_map r29_check_row vs }"

definition r30_emit :: "sexp \<Rightarrow> sexp \<Rightarrow> sexp \<Rightarrow> sexp \<Rightarrow> sexp option" where
  "r30_emit Name Namespace StoreName Src =
     do { name \<leftarrow> sexp_str Name; storeName \<leftarrow> sexp_str StoreName;
          Some (make_error ''XPC.K.externalsecret-store'' Src (r30_message name storeName) (r30_detail storeName) r30_fix []) }"

definition r30_check_row :: "sexp \<Rightarrow> sexp list option" where
  "r30_check_row row =
     (case fact ''eso-store-violation'' row of
        Some [Name, Namespace, StoreName, Src] \<Rightarrow> do { j \<leftarrow> r30_emit Name Namespace StoreName Src; Some [j] }
      | _ \<Rightarrow> Some [])"

definition check_r30 :: "sexp \<Rightarrow> sexp list option" where
  "check_r30 Violations = do { vs \<leftarrow> elems Violations; flat_map r30_check_row vs }"

section \<open>R31 to R36: convergence\<close>

definition r31_violation_to_judgment :: "sexp \<Rightarrow> sexp option" where
  "r31_violation_to_judgment v =
     (case fact ''r31-violation'' v of
        Some [Group, Kind, Name, _, FieldPath, Value, Canonical, Reason, Origin, Src] \<Rightarrow>
          if Origin = SSym ''origin-resource'' then
            do { grp \<leftarrow> sexp_str Group; kind \<leftarrow> sexp_str Kind; name \<leftarrow> sexp_str Name; fieldPath \<leftarrow> sexp_str FieldPath;
                 value \<leftarrow> sexp_str Value; canonical \<leftarrow> sexp_str Canonical; reason \<leftarrow> sexp_str Reason;
                 Some (make_error ''XPC.M.forprovider-canonical-form'' Src (r31_resource_message kind name fieldPath)
                         (r31_resource_detail fieldPath kind grp value reason) (r31_fix canonical) []) }
          else if Origin = SSym ''origin-template'' then
            do { kind \<leftarrow> sexp_str Kind; name \<leftarrow> sexp_str Name; fieldPath \<leftarrow> sexp_str FieldPath;
                 value \<leftarrow> sexp_str Value; canonical \<leftarrow> sexp_str Canonical; reason \<leftarrow> sexp_str Reason;
                 Some (make_warning ''XPC.M.forprovider-canonical-form'' Src (r31_template_message name fieldPath)
                         (r31_template_detail name fieldPath kind value reason) (r31_fix canonical) []) }
          else Some SNil
      | _ \<Rightarrow> Some SNil)"

definition check_r31 :: "sexp \<Rightarrow> sexp list option" where
  "check_r31 Violations = do { vs \<leftarrow> elems Violations; omap r31_violation_to_judgment vs }"

definition r32_judgment :: "(string \<Rightarrow> sexp \<Rightarrow> string \<Rightarrow> string \<Rightarrow> string \<Rightarrow> sexp list \<Rightarrow> sexp) \<Rightarrow> sexp \<Rightarrow> sexp \<Rightarrow> sexp \<Rightarrow> sexp \<Rightarrow> sexp \<Rightarrow> sexp \<Rightarrow> sexp \<Rightarrow> sexp option" where
  "r32_judgment mk Group Kind Name FieldPath Desired Observed Src =
     do { grp \<leftarrow> sexp_str Group; kind \<leftarrow> sexp_str Kind; name \<leftarrow> sexp_str Name; fieldPath \<leftarrow> sexp_str FieldPath;
          desired \<leftarrow> sexp_str Desired; observed \<leftarrow> sexp_str Observed;
          Some (mk ''XPC.M.observed-desired-fixed-point'' Src (r32_divergence_message kind name fieldPath)
                  (r32_message grp kind fieldPath desired observed) r32_fix []) }"

definition r32_violation_to_judgment :: "sexp \<Rightarrow> sexp option" where
  "r32_violation_to_judgment v =
     (case fact ''r32-violation'' v of
        Some [Group, Kind, Name, _, FieldPath, Desired, Observed, Registered, Src] \<Rightarrow>
          if Registered = SSym ''registered-yes'' then r32_judgment make_error Group Kind Name FieldPath Desired Observed Src
          else if Registered = SSym ''registered-no'' then r32_judgment make_warning Group Kind Name FieldPath Desired Observed Src
          else Some SNil
      | _ \<Rightarrow> Some SNil)"

definition check_r32 :: "sexp \<Rightarrow> sexp list option" where
  "check_r32 Violations = do { vs \<leftarrow> elems Violations; omap r32_violation_to_judgment vs }"

definition r33_violation_to_judgment :: "sexp \<Rightarrow> sexp option" where
  "r33_violation_to_judgment v =
     (case fact ''r33-violation'' v of
        Some [Composition, EnvName, Count, Src] \<Rightarrow>
          do { composition \<leftarrow> sexp_str Composition; envName \<leftarrow> sexp_str EnvName; cnt \<leftarrow> sexp_str Count;
               Some (make_warning ''XPC.M.duplicate-env-key'' Src (r33_message composition envName)
                       (r33_detail composition envName cnt) (r33_fix envName) []) }
      | _ \<Rightarrow> Some SNil)"

definition check_r33 :: "sexp \<Rightarrow> sexp list option" where
  "check_r33 Violations = do { vs \<leftarrow> elems Violations; omap r33_violation_to_judgment vs }"

definition r34_violation_to_judgment :: "sexp \<Rightarrow> sexp option" where
  "r34_violation_to_judgment v =
     (case fact ''r34-violation'' v of
        Some [Composition, Group, Kind, ActionType, AliasField, CanonicalBlock, Reason, Src] \<Rightarrow>
          do { composition \<leftarrow> sexp_str Composition; kind \<leftarrow> sexp_str Kind; actionType \<leftarrow> sexp_str ActionType;
               aliasField \<leftarrow> sexp_str AliasField; canonicalBlock \<leftarrow> sexp_str CanonicalBlock; reason \<leftarrow> sexp_str Reason;
               Some (make_warning ''XPC.M.computed-block-alias'' Src (r34_message composition kind actionType aliasField)
                       (r34_detail kind actionType composition aliasField canonicalBlock) (r34_fix reason) []) }
      | _ \<Rightarrow> Some SNil)"

definition check_r34 :: "sexp \<Rightarrow> sexp list option" where
  "check_r34 Violations = do { vs \<leftarrow> elems Violations; omap r34_violation_to_judgment vs }"

definition r35_violation_to_judgment :: "sexp \<Rightarrow> sexp option" where
  "r35_violation_to_judgment v =
     (case fact ''r35-violation'' v of
        Some [Group, Kind, Name, Namespace, Reason, Src] \<Rightarrow>
          do { kind \<leftarrow> sexp_str Kind; name \<leftarrow> sexp_str Name; reason \<leftarrow> sexp_str Reason;
               Some (make_error ''XPC.I.must-adopt-external-name'' Src (r35_message kind name) (r35_detail kind name reason) r35_fix []) }
      | _ \<Rightarrow> Some SNil)"

definition check_r35 :: "sexp \<Rightarrow> sexp list option" where
  "check_r35 Violations = do { vs \<leftarrow> elems Violations; omap r35_violation_to_judgment vs }"

definition r36_violation_to_judgment :: "sexp \<Rightarrow> sexp option" where
  "r36_violation_to_judgment v =
     (case fact ''r36-violation'' v of
        Some [Composition, Group, Kind, RuleName, AttachField, RefField, Reason, Src] \<Rightarrow>
          do { composition \<leftarrow> sexp_str Composition; kind \<leftarrow> sexp_str Kind; ruleName \<leftarrow> sexp_str RuleName;
               attachField \<leftarrow> sexp_str AttachField; refField \<leftarrow> sexp_str RefField; reason \<leftarrow> sexp_str Reason;
               Some (make_warning ''XPC.S.orphaned-sgref'' Src (r36_message composition kind ruleName)
                       (r36_detail kind ruleName composition attachField refField) (r36_fix reason) []) }
      | _ \<Rightarrow> Some SNil)"

definition check_r36 :: "sexp \<Rightarrow> sexp list option" where
  "check_r36 Violations = do { vs \<leftarrow> elems Violations; omap r36_violation_to_judgment vs }"

end
