(* ===== verification/KernelSpec.thy ===== *)
theory KernelSpec
  imports KernelRules3 Bridge
begin

text \<open>
  What the rules R1 to R11 are to report, stated on the records of the World, and the proof that
  the rules of the kernel, applied to the serialized facts, return exactly the judgments of these
  findings and raise no error.  The one exception is R8, which cannot return its judgment.
\<close>

section \<open>Findings as judgments\<close>

definition line_of :: "SourceLocation \<Rightarrow> SourceLocation" where
  "line_of s = s\<lparr>sl_Column := 0\<rparr>"

definition finding :: "Severity \<Rightarrow> string \<Rightarrow> SourceLocation \<Rightarrow> string \<Rightarrow> string \<Rightarrow> string \<Rightarrow> SourceLocation list \<Rightarrow> Diagnostic" where
  "finding sev code src_obj msg detail fix related =
     \<lparr>dg_Code = code, dg_Severity = sev, dg_Message = msg, dg_Source = line_of src_obj, dg_Detail = detail, dg_Fix = fix,
      dg_Related = map line_of related, dg_Obligation = obligationRefForCode code\<rparr>"

abbreviation "error_finding \<equiv> finding SeverityError"
abbreviation "warn_finding \<equiv> finding SeverityWarning"

definition satisfied_marker :: "string \<Rightarrow> Diagnostic" where
  "satisfied_marker code = finding severitySatisfied code zero_SourceLocation [] [] [] []"

definition mark :: "string \<Rightarrow> Diagnostic list \<Rightarrow> Diagnostic list" where
  "mark code ds = (if ds = [] then [satisfied_marker code] else ds)"

abbreviation J :: "Diagnostic \<Rightarrow> sexp" where "J \<equiv> judgment_obj sexp_kl"
abbreviation src_obj :: "SourceLocation \<Rightarrow> sexp" where "src_obj \<equiv> sourceToObj sexp_kl"

lemma src_line_of [simp]: "src_obj (line_of s) = src_obj s"
  by (simp add: sourceToObj_def line_of_def)

lemma finding_sel [simp]:
  "dg_Code (finding sev code s msg detail fix related) = code"
  "dg_Severity (finding sev code s msg detail fix related) = sev"
  "dg_Source (finding sev code s msg detail fix related) = line_of s"
  by (simp_all add: finding_def)

lemma judgment_obj_finding:
  "J (finding sev code s msg detail fix related) = make_judgment code (severity_sym sev) (src_obj s) msg detail fix (map src_obj related)"
  by (simp add: judgment_obj_def finding_def make_judgment_def sexp_kl_fields o_def)

named_theorems judgments \<open>the judgments of findings\<close>

lemma J_error [judgments]: "J (error_finding code s msg detail fix related) = make_error code (src_obj s) msg detail fix (map src_obj related)"
  and J_warning [judgments]: "J (warn_finding code s msg detail fix related) = make_warning code (src_obj s) msg detail fix (map src_obj related)"
  by (simp_all add: judgment_obj_finding make_error_def make_warning_def severity_sym_def)

lemma no_source_src: "no_source = src_obj zero_SourceLocation"
  by (simp add: no_source_def sourceToObj_def sexp_kl_fields zero_defs)

lemma J_satisfied: "J (satisfied_marker code) = make_satisfied code"
  by (simp add: satisfied_marker_def judgment_obj_finding make_satisfied_def severity_sym_def no_source_src)

lemma mark_rule_mark: "mark_rule code (map J ds) = map J (mark code ds)"
  by (simp add: mark_rule_def mark_def J_satisfied)

lemma kernel_diag_finding:
  "sev \<in> {SeverityError, SeverityWarning, SeverityInfo, severitySatisfied} \<Longrightarrow>
   kernel_diag (finding sev code s msg detail fix related)"
  by (simp add: kernel_diag_def finding_def line_of_def list_all_iff)

text \<open>A rule that walks its facts one by one, and a rule that turns each fact into one judgment.\<close>

lemma rows: "(\<And>x. f (obj x) = Some (map J (g x))) \<Longrightarrow> flat_map f (map obj xs) = Some (map J (concat (map g xs)))"
  by (rule flat_map_map) simp

lemma each: "(\<And>x. f (obj x) = Some (J (g x))) \<Longrightarrow> omap f (map obj xs) = Some (map J (map g xs))"
  by (rule omap_map) simp

section \<open>R1\<close>

definition r1a_finding :: "string \<Rightarrow> string \<Rightarrow> SourceLocation \<Rightarrow> CRDVersion \<Rightarrow> Diagnostic" where
  "r1a_finding grp kind s v =
     error_finding ''XPC001'' s (r1a_message (cv_Name v) grp kind) (r1a_detail grp kind (cv_Name v)) (r1a_fix (cv_Name v)) []"

definition r1_unserved :: "CRDInfo \<Rightarrow> Diagnostic list" where
  "r1_unserved c = map (r1a_finding (crd_Group c) (crd_Kind c) (crd_Source c)) (filter (\<lambda>v. \<not> cv_Served v) (crd_Versions c))"

definition r1_crd_findings :: "CRDInfo \<Rightarrow> Diagnostic list" where
  "r1_crd_findings c =
     r1_unserved c @
     (let n = int (length (filter cv_Storage (crd_Versions c))) in
      if n = 1 then []
      else [error_finding ''XPC001'' (crd_Source c) (r1b_storage_message (crd_Group c) (crd_Kind c) n) (r1b_storage_detail n) r1b_storage_fix []])"

definition r1_xrd_findings :: "CRDInfo \<Rightarrow> Diagnostic list" where
  "r1_xrd_findings x =
     r1_unserved x @
     (if filter cv_Referenceable (crd_Versions x) = []
      then [error_finding ''XPC001'' (crd_Source x) (r1b_ref_message (crd_Group x) (crd_Kind x)) r1b_ref_detail r1b_ref_fix []]
      else [])"

text \<open>The two shapes in which the versions of a definition are serialized.\<close>

abbreviation crd_version :: "CRDVersion \<Rightarrow> sexp" where
  "crd_version v \<equiv> slst [SStr (cv_Name v), SBool (cv_Served v), SBool (cv_Storage v), SStr (cv_SchemaDigest v)]"

abbreviation xrd_version :: "CRDVersion \<Rightarrow> sexp" where
  "xrd_version v \<equiv> slst [SStr (cv_Name v), SBool (cv_Served v), SBool (cv_Referenceable v), SStr (cv_SchemaDigest v)]"

lemma version_flags:
  "version_served_p (slst [a, SBool b, c, d]) = b" "version_storage_p (slst [a, e, SBool b, d]) = b"
  "version_referenceable_p (slst [a, e, SBool b, d]) = b"
  by (cases b; simp add: sexp_simps)+

lemma r1a_versions:
  assumes "\<And>v. obj v = slst [SStr (cv_Name v), SBool (cv_Served v), third v, SStr (cv_SchemaDigest v)]"
  shows "check_r1a_versions (SStr (crd_Group c)) (SStr (crd_Kind c)) (map obj (crd_Versions c)) (src_obj (crd_Source c)) =
           Some (map J (r1_unserved c))"
proof -
  have "omap (\<lambda>V. make_r1a_error (SStr (crd_Group c)) (SStr (crd_Kind c)) V (src_obj (crd_Source c))) (map obj vs) =
          Some (map J (map (r1a_finding (crd_Group c) (crd_Kind c) (crd_Source c)) vs))" for vs
    by (rule omap_map) (simp add: assms make_r1a_error_def r1a_finding_def judgments)
  moreover have "filter (\<lambda>V. \<not> version_served_p V) (map obj (crd_Versions c)) = map obj (filter (\<lambda>v. \<not> cv_Served v) (crd_Versions c))"
    by (simp add: filter_map o_def assms version_flags)
  ultimately show ?thesis by (simp add: check_r1a_versions_def r1_unserved_def)
qed

lemma crd_obj:
  "crdToObj sexp_kl c =
     SCons (SSym ''crd-fact'') (slst [SStr (crd_Group c), SStr (crd_Kind c), SStr (crd_Scope c), slst (map crd_version (crd_Versions c)),
       slst [SStr (conv_Strategy (crd_Conversion c)), SSym (ToLower (conv_CostClass (crd_Conversion c))), SStr (conv_WebhookService (crd_Conversion c))],
       src_obj (crd_Source c)])"
  by (simp add: crdToObj_def sexp_kl_fields slst_Cons)

lemma xrd_obj:
  "xrdToObj sexp_kl c =
     SCons (SSym ''xrd-fact'') (slst [SStr (crd_Group c), SStr (crd_Kind c), SStr (crd_Scope c), SStr (crd_APIVersion c),
       slst (map xrd_version (crd_Versions c)), src_obj (crd_Source c), SStr (crd_OwningApp c)])"
  by (simp add: xrdToObj_def sexp_kl_fields slst_Cons)

lemma r1_crd: "check_r1_crd (crdToObj sexp_kl c) = Some (map J (r1_crd_findings c))"
proof -
  have cnt: "count_if version_storage_p (map crd_version vs) = int (length (filter cv_Storage vs))" for vs
    by (simp add: count_if_length filter_map o_def version_flags)
  show ?thesis
    using r1a_versions[of crd_version "\<lambda>v. SBool (cv_Storage v)" c]
    by (simp add: check_r1_crd_def crd_obj check_r1b_storage_def cnt r1_crd_findings_def judgments Let_def)
qed

lemma r1_xrd: "check_r1_xrd (xrdToObj sexp_kl x) = Some (map J (r1_xrd_findings x))"
proof -
  have cnt: "count_if version_referenceable_p (map xrd_version vs) = int (length (filter cv_Referenceable vs))" for vs
    by (simp add: count_if_length filter_map o_def version_flags)
  show ?thesis
    using r1a_versions[of xrd_version "\<lambda>v. SBool (cv_Referenceable v)" x]
    by (simp add: check_r1_xrd_def xrd_obj check_r1b_referenceable_def cnt r1_xrd_findings_def judgments)
qed

definition r1_findings :: "CRDInfo list \<Rightarrow> CRDInfo list \<Rightarrow> Diagnostic list" where
  "r1_findings crds xrds = concat (map r1_crd_findings crds) @ concat (map r1_xrd_findings xrds)"

lemma r1_refines:
  "check_r1 (slst (map (crdToObj sexp_kl) crds)) (slst (map (xrdToObj sexp_kl) xrds)) = Some (map J (r1_findings crds xrds))"
  by (simp add: check_r1_def r1_findings_def rows[of check_r1_crd "crdToObj sexp_kl", OF r1_crd] rows[of check_r1_xrd "xrdToObj sexp_kl", OF r1_xrd])

section \<open>R2\<close>

definition r2_finding :: "ResourceInfo \<Rightarrow> CRDInfo \<Rightarrow> Diagnostic" where
  "r2_finding r c =
     error_finding ''XPC002'' (ri_Source r) r2_message
       (r2_detail (api_version_version (ri_APIVersion r)) (crd_Group c) (crd_Kind c) (StorageVersion c))
       (r2_fix (StorageVersion c)) [crd_Source c]"

text \<open>The CRD serves the kind of the resource, converts by webhook, stores another version, and the resource does not accept it.\<close>

definition unaccepted_conversion :: "ResourceInfo \<Rightarrow> CRDInfo \<Rightarrow> bool" where
  "unaccepted_conversion r c =
     (crd_Group c = api_version_group (ri_APIVersion r) \<and> crd_Kind c = ri_Kind r \<and>
      ToLower (conv_CostClass (crd_Conversion c)) = ''webhook'' \<and>
      api_version_version (ri_APIVersion r) \<noteq> StorageVersion c \<and>
      mget (ri_Annotations r) ''xpc.dev/accept-conversion-webhook'' \<noteq> ''true'')"

definition r2_findings :: "ResourceInfo list \<Rightarrow> CRDInfo list \<Rightarrow> Diagnostic list" where
  "r2_findings rs crds = concat (map (\<lambda>r. map (r2_finding r) (filter (unaccepted_conversion r) crds)) rs)"

abbreviation annotation_objs :: "ResourceInfo \<Rightarrow> sexp list" where
  "annotation_objs r \<equiv> map (\<lambda>k. slst [SStr k, SStr (mget (ri_Annotations r) k)]) (sort_slice (<) (map fst (ri_Annotations r)))"

lemma resource_obj:
  "resourceToObj sexp_kl r =
     SCons (SSym ''resource-fact'') (slst [SStr (ri_APIVersion r), SStr (ri_Kind r), SStr (ri_Name r), SStr (ri_Namespace r),
       slst (annotation_objs r), src_obj (ri_Source r), SStr (ri_OwningApp r)])"
  by (simp add: resourceToObj_def sexp_kl_fields slst_Cons)

lemma has_annotation_set: "has_annotation_p xs key val \<longleftrightarrow> (\<exists>x \<in> set xs. elems x = Some [SStr key, SStr val])"
  by (induction xs) auto

lemma has_annotation_objs: "has_annotation_p (annotation_objs r) key ''true'' \<longleftrightarrow> mget (ri_Annotations r) key = ''true''"
proof -
  have "key \<in> fst ` set (ri_Annotations r)" if "mget (ri_Annotations r) key = ''true''"
    using that by (auto simp: mget_def image_iff split: option.splits dest!: map_of_SomeD) (metis fst_conv)
  then show ?thesis by (auto simp: has_annotation_set)
qed

lemma find_storage_version_obj: "find_storage_version (map crd_version vs) = SStr (StorageVersion_loop vs)"
  by (induction vs) (simp_all add: sexp_simps split: bool.splits)

lemma r2_crd:
  "check_r2_against_crd version (slst (annotation_objs r)) (src_obj (ri_Source r)) (crdToObj sexp_kl c) =
     Some (if ToLower (conv_CostClass (crd_Conversion c)) = ''webhook'' \<and> version \<noteq> StorageVersion c \<and>
              mget (ri_Annotations r) ''xpc.dev/accept-conversion-webhook'' \<noteq> ''true''
           then [make_error ''XPC002'' (src_obj (ri_Source r)) r2_message (r2_detail version (crd_Group c) (crd_Kind c) (StorageVersion c))
                   (r2_fix (StorageVersion c)) [src_obj (crd_Source c)]]
           else [])"
  by (simp add: check_r2_against_crd_def crd_obj has_annotation_objs find_storage_version_obj StorageVersion_def)

lemma crd_matches_obj: "crd_matches_gvk_p (crdToObj sexp_kl c) (SStr g) (SStr k) = (crd_Group c = g \<and> crd_Kind c = k)"
  by (simp add: crd_obj sexp_simps)

lemma concat_map_filter: "concat (map (\<lambda>x. if P x then [f x] else []) (filter Q xs)) = map f (filter (\<lambda>x. Q x \<and> P x) xs)"
  by (induction xs) auto

lemma r2_resource:
  "check_r2_resource (map (crdToObj sexp_kl) crds) (resourceToObj sexp_kl r) =
     Some (map J (map (r2_finding r) (filter (unaccepted_conversion r) crds)))"
proof -
  let ?v = "api_version_version (ri_APIVersion r)" and ?g = "api_version_group (ri_APIVersion r)"
  let ?P = "\<lambda>c. ToLower (conv_CostClass (crd_Conversion c)) = ''webhook'' \<and> ?v \<noteq> StorageVersion c \<and>
              mget (ri_Annotations r) ''xpc.dev/accept-conversion-webhook'' \<noteq> ''true''"
  have f: "filter (\<lambda>C. crd_matches_gvk_p C (SStr ?g) (SStr (ri_Kind r))) (map (crdToObj sexp_kl) crds) =
      map (crdToObj sexp_kl) (filter (\<lambda>c. crd_Group c = ?g \<and> crd_Kind c = ri_Kind r) crds)"
    by (simp add: filter_map o_def crd_matches_obj)
  have c: "flat_map (check_r2_against_crd ?v (slst (annotation_objs r)) (src_obj (ri_Source r))) (map (crdToObj sexp_kl) cs) =
      Some (map J (concat (map (\<lambda>c. if ?P c then [r2_finding r c] else []) cs)))" for cs
    by (rule flat_map_map) (simp add: r2_crd r2_finding_def judgments)
  show ?thesis
    by (simp add: check_r2_resource_def resource_obj f c concat_map_filter unaccepted_conversion_def[abs_def] conj_assoc)
qed

lemma r2_refines:
  "check_r2 (slst (map (resourceToObj sexp_kl) rs)) (slst (map (crdToObj sexp_kl) crds)) = Some (map J (r2_findings rs crds))"
  by (simp add: check_r2_def r2_findings_def 
      rows[of "check_r2_resource (map (crdToObj sexp_kl) crds)" "resourceToObj sexp_kl", OF r2_resource])

section \<open>R3\<close>

abbreviation step_obj :: "PipelineStep \<Rightarrow> sexp" where
  "step_obj s \<equiv> slst [SStr (ps_Name s), SStr (ps_FunctionRef s), SStr (ps_InputAPIVersion s), SStr (ps_InputKind s)]"

lemma composition_obj:
  "compositionToObj sexp_kl c =
     SCons (SSym ''composition-fact'') (slst [SStr (comp_Name c),
       SCons (SSym ''gvk'') (slst [SStr (gvk_Group (comp_CompositeTypeRef c)), SStr (gvk_Version (comp_CompositeTypeRef c)),
         SStr (gvk_Kind (comp_CompositeTypeRef c))]),
       SStr (comp_Mode c), slst (map step_obj (comp_Pipeline c)), src_obj (comp_Source c), SStr (comp_OwningApp c)])"
  by (simp add: compositionToObj_def sexp_kl_fields slst_Cons)

definition references_version :: "string \<Rightarrow> CRDInfo \<Rightarrow> bool" where
  "references_version version x = (\<exists>v \<in> set (crd_Versions x). cv_Referenceable v \<and> cv_Name v = version)"

definition xrds_of :: "GVK \<Rightarrow> CRDInfo list \<Rightarrow> CRDInfo list" where
  "xrds_of ref xrds = filter (\<lambda>x. crd_Group x = gvk_Group ref \<and> crd_Kind x = gvk_Kind ref) xrds"

definition r3a_finding :: "CompositionInfo \<Rightarrow> Diagnostic" where
  "r3a_finding c =
     (let ref = comp_CompositeTypeRef c in
      error_finding ''XPC003'' (comp_Source c) (r3a_message (comp_Name c) (gvk_Group ref) (gvk_Kind ref))
        (r3a_detail (gvk_Group ref) (gvk_Version ref) (gvk_Kind ref)) r3a_fix [])"

definition r3b_finding :: "CompositionInfo \<Rightarrow> CRDInfo \<Rightarrow> Diagnostic" where
  "r3b_finding c x =
     (let ref = comp_CompositeTypeRef c in
      error_finding ''XPC003'' (comp_Source c) (r3b_message (comp_Name c) (gvk_Version ref) (gvk_Group ref) (gvk_Kind ref))
        (r3b_detail (gvk_Group ref) (gvk_Version ref) (gvk_Kind ref)) (r3b_fix (gvk_Version ref)) [crd_Source x])"

definition r3_composition_findings :: "CRDInfo list \<Rightarrow> CompositionInfo \<Rightarrow> Diagnostic list" where
  "r3_composition_findings xrds c =
     (let ref = comp_CompositeTypeRef c; matching = xrds_of ref xrds in
      if matching = [] then [r3a_finding c]
      else map (r3b_finding c) (filter (\<lambda>x. \<not> references_version (gvk_Version ref) x) matching))"

definition r3_findings :: "CompositionInfo list \<Rightarrow> CRDInfo list \<Rightarrow> Diagnostic list" where
  "r3_findings comps xrds = concat (map (r3_composition_findings xrds) comps)"

lemma references_version_obj:
  "member_version_p (SStr version) (filter version_referenceable_p (map xrd_version (crd_Versions x))) = references_version version x"
proof -
  have "member_version_p (SStr version) (map xrd_version vs) = (\<exists>v \<in> set vs. cv_Name v = version)" for vs
    by (induction vs) (simp_all add: slst_Cons)
  moreover have "filter version_referenceable_p (map xrd_version vs) = map xrd_version (filter cv_Referenceable vs)" for vs
    by (simp add: filter_map o_def version_flags)
  ultimately show ?thesis by (auto simp: references_version_def)
qed

lemma concat_map_if: "concat (map (\<lambda>x. if P x then [] else [f x]) xs) = map f (filter (\<lambda>x. \<not> P x) xs)"
  by (induction xs) auto

lemma xrd_matches_objs:
  "filter (\<lambda>X. xrd_matches_gk_p X (SStr g) (SStr k)) (map (xrdToObj sexp_kl) xrds) =
     map (xrdToObj sexp_kl) (filter (\<lambda>x. crd_Group x = g \<and> crd_Kind x = k) xrds)"
  by (simp add: filter_map o_def xrd_obj sexp_simps)

lemma r3b_row:
  "check_r3b_version (SStr n) (SStr g) (SStr version) (SStr k) s (xrdToObj sexp_kl x) =
     Some (if references_version version x then []
           else [make_error ''XPC003'' s (r3b_message n version g k) (r3b_detail g version k) (r3b_fix version) [src_obj (crd_Source x)]])"
  by (simp add: check_r3b_version_def xrd_obj references_version_obj)

lemma r3_composition:
  "check_r3_composition (map (xrdToObj sexp_kl) xrds) (compositionToObj sexp_kl c) = Some (map J (r3_composition_findings xrds c))"
proof -
  let ?ref = "comp_CompositeTypeRef c"
  have b: "flat_map (check_r3b_version (SStr (comp_Name c)) (SStr (gvk_Group ?ref)) (SStr (gvk_Version ?ref)) (SStr (gvk_Kind ?ref)) (src_obj (comp_Source c)))
        (map (xrdToObj sexp_kl) xs) =
      Some (map J (concat (map (\<lambda>x. if references_version (gvk_Version ?ref) x then [] else [r3b_finding c x]) xs)))" for xs
    by (rule rows) (simp add: r3b_row r3b_finding_def judgments Let_def)
  show ?thesis
    by (simp add: check_r3_composition_def composition_obj xrd_matches_objs r3_composition_findings_def xrds_of_def b concat_map_if
        r3a_finding_def judgments Let_def)
qed

lemma r3_refines:
  "check_r3 (slst (map (compositionToObj sexp_kl) comps)) (slst (map (xrdToObj sexp_kl) xrds)) = Some (map J (r3_findings comps xrds))"
  by (simp add: check_r3_def r3_findings_def
      rows[of "check_r3_composition (map (xrdToObj sexp_kl) xrds)" "compositionToObj sexp_kl", OF r3_composition])

section \<open>R4\<close>

lemma function_obj:
  "functionToObj sexp_kl f =
     SCons (SSym ''function-fact'') (slst [SStr (fn_Name f), SStr (fn_Package f), slst (map SStr (fn_InputVersions f)),
       src_obj (fn_Source f), SStr (fn_OwningApp f)])"
  by (simp add: functionToObj_def sexp_kl_fields[abs_def] slst_Cons)

definition r4a_finding :: "CompositionInfo \<Rightarrow> PipelineStep \<Rightarrow> Diagnostic" where
  "r4a_finding c s =
     error_finding ''XPC004'' (comp_Source c) (r4a_message (comp_Name c) (ps_Name s) (ps_FunctionRef s))
       (r4a_detail (ps_Name s) (ps_FunctionRef s)) (r4a_fix (ps_FunctionRef s)) []"

definition r4b_finding :: "CompositionInfo \<Rightarrow> PipelineStep \<Rightarrow> FunctionInfo \<Rightarrow> Diagnostic" where
  "r4b_finding c s f =
     error_finding ''XPC004'' (comp_Source c) (r4b_message (comp_Name c) (ps_Name s) (ps_FunctionRef s))
       (r4b_detail (ps_Name s) (ps_InputAPIVersion s) (ps_FunctionRef s) (format_versions (fn_InputVersions f)))
       (r4b_fix (format_versions (fn_InputVersions f))) [fn_Source f]"

definition accepts_input :: "string \<Rightarrow> FunctionInfo \<Rightarrow> bool" where
  "accepts_input av f = (av = [] \<or> fn_InputVersions f = [] \<or> av \<in> set (fn_InputVersions f))"

definition r4_step_findings :: "FunctionInfo list \<Rightarrow> CompositionInfo \<Rightarrow> PipelineStep \<Rightarrow> Diagnostic list" where
  "r4_step_findings fns c s =
     (let matching = filter (\<lambda>f. fn_Name f = ps_FunctionRef s) fns in
      if matching = [] then [r4a_finding c s]
      else map (r4b_finding c s) (filter (\<lambda>f. \<not> accepts_input (ps_InputAPIVersion s) f) matching))"

definition r4_composition_findings :: "FunctionInfo list \<Rightarrow> CompositionInfo \<Rightarrow> Diagnostic list" where
  "r4_composition_findings fns c =
     (if comp_Mode c = ''Pipeline'' then concat (map (r4_step_findings fns c) (comp_Pipeline c)) else [])"

definition r4_findings :: "CompositionInfo list \<Rightarrow> FunctionInfo list \<Rightarrow> Diagnostic list" where
  "r4_findings comps fns = concat (map (r4_composition_findings fns) comps)"

lemma omap_str [simp]: "omap sexp_str (map SStr ss) = Some ss"
  by (induction ss) simp_all

lemma slst_SNil_iff [simp]: "slst xs = SNil \<longleftrightarrow> xs = []"
  by (cases xs) (simp_all add: sexp_simps)

lemma r4b_row:
  "ps_InputAPIVersion s \<noteq> [] \<Longrightarrow>
   check_r4b_input_version (SStr (comp_Name c)) (SStr (ps_Name s)) (SStr (ps_FunctionRef s)) (SStr (ps_InputAPIVersion s)) (src_obj (comp_Source c))
     (functionToObj sexp_kl f) =
   Some (map J (if accepts_input (ps_InputAPIVersion s) f then [] else [r4b_finding c s f]))"
  by (auto simp: check_r4b_input_version_def function_obj accepts_input_def r4b_finding_def judgments)

lemma r4_step:
  "check_r4_step (SStr (comp_Name c)) (src_obj (comp_Source c)) (map (functionToObj sexp_kl) fns) (step_obj s) = Some (map J (r4_step_findings fns c s))"
proof -
  have f: "filter (\<lambda>F. function_name_matches_p F (SStr n)) (map (functionToObj sexp_kl) fns) =
      map (functionToObj sexp_kl) (filter (\<lambda>f. fn_Name f = n) fns)" for n
    by (simp add: filter_map o_def function_obj sexp_simps)
  have b: "ps_InputAPIVersion s \<noteq> [] \<Longrightarrow>
      flat_map (check_r4b_input_version (SStr (comp_Name c)) (SStr (ps_Name s)) (SStr (ps_FunctionRef s)) (SStr (ps_InputAPIVersion s)) (src_obj (comp_Source c)))
        (map (functionToObj sexp_kl) fs) =
      Some (map J (concat (map (\<lambda>f. if accepts_input (ps_InputAPIVersion s) f then [] else [r4b_finding c s f]) fs)))" for fs
    by (rule rows) (rule r4b_row)
  show ?thesis
    by (simp add: check_r4_step_def f b concat_map_if r4_step_findings_def r4a_finding_def judgments Let_def)
      (simp add: accepts_input_def)
qed

lemma r4_composition:
  "check_r4_composition (map (functionToObj sexp_kl) fns) (compositionToObj sexp_kl c) = Some (map J (r4_composition_findings fns c))"
  by (simp add: check_r4_composition_def composition_obj r4_composition_findings_def
      rows[of "check_r4_step (SStr (comp_Name c)) (src_obj (comp_Source c)) (map (functionToObj sexp_kl) fns)" step_obj, OF r4_step])

lemma r4_refines:
  "check_r4 (slst (map (compositionToObj sexp_kl) comps)) (slst (map (functionToObj sexp_kl) fns)) = Some (map J (r4_findings comps fns))"
  by (simp add: check_r4_def r4_findings_def
      rows[of "check_r4_composition (map (functionToObj sexp_kl) fns)" "compositionToObj sexp_kl", OF r4_composition])

section \<open>R5 and R10: patches\<close>

text \<open>The patches that are serialized, with the two resolved types.\<close>

definition patch_fact :: "CompositionInfo \<Rightarrow> PatchInfo \<Rightarrow> (CompositionInfo \<times> PatchInfo \<times> string \<times> string) list" where
  "patch_fact c p =
     (if pi_Type p \<noteq> [] \<and> pi_Type p \<noteq> ''FromCompositeFieldPath'' then []
      else if pi_FromFieldPath p = [] \<or> pi_ToFieldPath p = [] then []
      else [(c, p, convert_type (fst (resolved_types (pi_Transforms p))) (pi_Transforms p), snd (resolved_types (pi_Transforms p)))])"

definition patch_facts :: "CompositionInfo list \<Rightarrow> (CompositionInfo \<times> PatchInfo \<times> string \<times> string) list" where
  "patch_facts comps =
     concat (map (\<lambda>c. concat (map (\<lambda>res. concat (map (patch_fact c) (cr_Patches res))) (comp_Resources c))) comps)"

abbreviation resolved_patch_obj :: "CompositionInfo \<times> PatchInfo \<times> string \<times> string \<Rightarrow> sexp" where
  "resolved_patch_obj f \<equiv> (case f of (c, p, fromType, toType) \<Rightarrow>
     SCons (SSym ''resolved-patch'') (slst [SStr (comp_Name c), src_obj (comp_Source c), SStr (pi_FromFieldPath p), SStr (pi_ToFieldPath p),
       SStr fromType, SStr toType]))"

lemma patch_objs_facts: "patch_objs sexp_kl comps = map resolved_patch_obj (patch_facts comps)"
proof -
  have "patch_obj sexp_kl c = (\<lambda>p. map resolved_patch_obj (patch_fact c p))" for c
    by (rule ext) (simp add: patch_obj_def patch_fact_def sexp_kl_fields slst_Cons split: prod.splits)
  then show ?thesis by (simp add: patch_objs_def patch_facts_def map_concat o_def)
qed

definition r5_row_findings :: "CompositionInfo \<times> PatchInfo \<times> string \<times> string \<Rightarrow> Diagnostic list" where
  "r5_row_findings f =
     (case f of (c, p, fromType, toType) \<Rightarrow>
        if TypeAssignable fromType toType then []
        else [error_finding ''XPC005'' (comp_Source c) (r5_message (comp_Name c))
                (r5_detail (pi_FromFieldPath p) fromType (pi_ToFieldPath p) toType) (r5_fix toType) []])"

definition r5_findings :: "CompositionInfo list \<Rightarrow> Diagnostic list" where
  "r5_findings comps = concat (map r5_row_findings (patch_facts comps))"

lemma type_assignable_TypeAssignable: "type_assignable_p (SStr a) (SStr b) = TypeAssignable a b"
  by (simp add: type_assignable_p_def TypeAssignable_def)

lemma r5_row: "check_r5_patch (resolved_patch_obj f) = Some (map J (r5_row_findings f))"
  by (simp add: check_r5_patch_def r5_row_findings_def type_assignable_TypeAssignable judgments split: prod.splits)

lemma r5_refines: "check_r5 (slst (patch_objs sexp_kl comps)) = Some (map J (r5_findings comps))"
  by (simp add: check_r5_def r5_findings_def patch_objs_facts rows[of check_r5_patch resolved_patch_obj, OF r5_row])

definition r10_row_findings :: "CompositionInfo \<times> PatchInfo \<times> string \<times> string \<Rightarrow> Diagnostic list" where
  "r10_row_findings f =
     (case f of (c, p, fromType, toType) \<Rightarrow>
        if tainted_source_p (pi_FromFieldPath p) \<and> \<not> secret_sink_p (pi_ToFieldPath p)
        then [error_finding ''XPC010'' (comp_Source c) (r10_message (comp_Name c))
                (r10_detail (pi_FromFieldPath p) (pi_ToFieldPath p)) (r10_fix (pi_FromFieldPath p)) []]
        else [])"

definition r10_findings :: "CompositionInfo list \<Rightarrow> Diagnostic list" where
  "r10_findings comps = concat (map r10_row_findings (patch_facts comps))"

lemma r10_row: "check_r10_patch (resolved_patch_obj f) = Some (map J (r10_row_findings f))"
  by (simp add: check_r10_patch_def r10_row_findings_def judgments split: prod.splits)

lemma r10_refines: "check_r10 (slst (patch_objs sexp_kl comps)) = Some (map J (r10_findings comps))"
  by (simp add: check_r10_def r10_findings_def patch_objs_facts rows[of check_r10_patch resolved_patch_obj, OF r10_row])

section \<open>R6\<close>

abbreviation wave_obj :: "SyncWaveEntry \<Rightarrow> sexp" where
  "wave_obj sw \<equiv> slst [SStr (swe_Kind sw), SStr (swe_Name sw), SNum (swe_Wave sw)]"

lemma app_obj:
  "argoAppToObj sexp_kl a =
     SCons (SSym ''argo-app-fact'') (slst [SStr (app_Name a), SStr (app_TrackingMode a), slst (map wave_obj (app_SyncWaves a)), src_obj (app_Source a)])"
  by (simp add: argoAppToObj_def sexp_kl_fields slst_Cons)

definition declared_wave :: "string \<Rightarrow> string \<Rightarrow> SyncWaveEntry list \<Rightarrow> int" where
  "declared_wave kind name ws =
     (case find (\<lambda>sw. swe_Kind sw = kind \<and> swe_Name sw = name) ws of Some sw \<Rightarrow> swe_Wave sw | None \<Rightarrow> 0)"

definition r6a_findings :: "ArgoApplication \<Rightarrow> CRDInfo \<Rightarrow> Diagnostic list" where
  "r6a_findings app x =
     (let kind = crd_Kind x; xrdWave = declared_wave ''CompositeResourceDefinition'' kind (app_SyncWaves app) in
      map (\<lambda>e. error_finding ''XPC006'' (app_Source app) (r6a_message kind xrdWave (swe_Name e) (swe_Wave e)) (r6a_detail kind)
                 (r6a_fix (swe_Wave e)) [crd_Source x])
        (filter (\<lambda>e. swe_Kind e = kind \<and> \<not> xrdWave < swe_Wave e) (app_SyncWaves app)))"

definition r6d_findings :: "ArgoApplication \<Rightarrow> CompositionInfo \<Rightarrow> Diagnostic list" where
  "r6d_findings app c =
     (let name = comp_Name c; compWave = declared_wave ''Composition'' name (app_SyncWaves app) in
      map (\<lambda>e. error_finding ''XPC006'' (app_Source app) (r6d_message name compWave (swe_Name e) (swe_Wave e)) (r6d_detail name (swe_Name e))
                 (r6d_fix name (swe_Wave e)) [comp_Source c])
        (filter (\<lambda>e. swe_Kind e = gvk_Kind (comp_CompositeTypeRef c) \<and> \<not> compWave \<le> swe_Wave e) (app_SyncWaves app)))"

definition r6_app_findings :: "CompositionInfo list \<Rightarrow> CRDInfo list \<Rightarrow> ArgoApplication \<Rightarrow> Diagnostic list" where
  "r6_app_findings comps xrds app =
     concat (map (r6a_findings app) (filter (\<lambda>x. app_Name app = crd_OwningApp x) xrds)) @
     concat (map (r6d_findings app) (filter (\<lambda>c. app_Name app = comp_OwningApp c) comps))"

definition app_named :: "string \<Rightarrow> ArgoApplication list \<Rightarrow> ArgoApplication option" where
  "app_named name apps = find (\<lambda>a. app_Name a = name) apps"

definition waves_of :: "string \<Rightarrow> ArgoApplication list \<Rightarrow> SyncWaveEntry list" where
  "waves_of name apps = (case app_named name apps of Some a \<Rightarrow> app_SyncWaves a | None \<Rightarrow> [])"

definition source_of :: "string \<Rightarrow> ArgoApplication list \<Rightarrow> SourceLocation" where
  "source_of name apps = (case app_named name apps of Some a \<Rightarrow> app_Source a | None \<Rightarrow> zero_SourceLocation)"

definition owner_of_function :: "string \<Rightarrow> FunctionInfo list \<Rightarrow> string" where
  "owner_of_function name fns = (case find (\<lambda>f. fn_Name f = name) fns of Some f \<Rightarrow> fn_OwningApp f | None \<Rightarrow> [])"

text \<open>A function of another application whose wave is not below that of the composition that uses it.\<close>

definition r6b_pair_findings :: "ArgoApplication list \<Rightarrow> FunctionInfo list \<Rightarrow> CompositionInfo \<Rightarrow> string \<Rightarrow> Diagnostic list" where
  "r6b_pair_findings apps fns c fnRef =
     (let fnApp = owner_of_function fnRef fns; fnWave = declared_wave ''Function'' fnRef (waves_of fnApp apps);
          compApp = comp_OwningApp c; compWave = declared_wave ''Composition'' (comp_Name c) (waves_of compApp apps)
      in if fnApp = compApp \<or> fnApp = [] \<or> fnWave < compWave then []
         else [error_finding ''XPC006'' (source_of compApp apps) (r6b_msg fnRef fnApp fnWave (comp_Name c) compApp compWave)
                 (r6b_detail fnRef (comp_Name c)) (r6b_fix fnRef compWave) [comp_Source c]])"

definition r6b_findings :: "ArgoApplication list \<Rightarrow> FunctionInfo list \<Rightarrow> CompositionInfo \<Rightarrow> Diagnostic list" where
  "r6b_findings apps fns c = concat (map (r6b_pair_findings apps fns c) (map ps_FunctionRef (comp_Pipeline c)))"

definition r6_findings :: "ArgoApplication list \<Rightarrow> CompositionInfo list \<Rightarrow> CRDInfo list \<Rightarrow> FunctionInfo list \<Rightarrow> Diagnostic list" where
  "r6_findings apps comps xrds fns =
     concat (map (r6_app_findings comps xrds) apps) @ concat (map (r6b_findings apps fns) comps)"

lemma wave_entry_objs:
  "find_wave (SStr kind) (SStr name) (map wave_obj ws) = SNum (declared_wave kind name ws)"
  "sync_wave_kind_matches_p (wave_obj e) (SStr kind) = (swe_Kind e = kind)"
  "get_sync_wave (wave_obj e) = SNum (swe_Wave e)" "get_sync_name (wave_obj e) = SStr (swe_Name e)"
proof -
  show "find_wave (SStr kind) (SStr name) (map wave_obj ws) = SNum (declared_wave kind name ws)"
    by (induction ws) (simp_all add: declared_wave_def)
qed (simp_all add: sync_wave_kind_matches_p_def get_sync_wave_def get_sync_name_def)

lemma kind_entries:
  "filter (\<lambda>SW. sync_wave_kind_matches_p SW (SStr kind)) (map wave_obj ws) = map wave_obj (filter (\<lambda>e. swe_Kind e = kind) ws)"
  by (simp add: filter_map o_def wave_entry_objs)

lemma concat_map_filter_if:
  "concat (map (\<lambda>x. if P x then [] else [f x]) (filter Q xs)) = map f (filter (\<lambda>x. Q x \<and> \<not> P x) xs)"
  by (induction xs) auto

lemma r6a_xrd:
  "check_r6a_for_xrd (map wave_obj (app_SyncWaves app)) (src_obj (app_Source app)) (xrdToObj sexp_kl x) = Some (map J (r6a_findings app x))"
proof -
  let ?w = "declared_wave ''CompositeResourceDefinition'' (crd_Kind x) (app_SyncWaves app)"
  let ?f = "\<lambda>e. error_finding ''XPC006'' (app_Source app) (r6a_message (crd_Kind x) ?w (swe_Name e) (swe_Wave e)) (r6a_detail (crd_Kind x))
                 (r6a_fix (swe_Wave e)) [crd_Source x]"
  show ?thesis
    by (simp add: check_r6a_for_xrd_def xrd_obj kind_entries wave_entry_objs r6a_findings_def Let_def judgments o_def
        flat_map_map[where J = J and g = "\<lambda>e. if ?w < swe_Wave e then [] else [?f e]"] concat_map_filter_if)
qed

lemma r6d_composition:
  "check_r6d_for_composition (map wave_obj (app_SyncWaves app)) (src_obj (app_Source app)) (compositionToObj sexp_kl c) = Some (map J (r6d_findings app c))"
proof -
  let ?w = "declared_wave ''Composition'' (comp_Name c) (app_SyncWaves app)"
  let ?f = "\<lambda>e. error_finding ''XPC006'' (app_Source app) (r6d_message (comp_Name c) ?w (swe_Name e) (swe_Wave e))
                 (r6d_detail (comp_Name c) (swe_Name e)) (r6d_fix (comp_Name c) (swe_Wave e)) [comp_Source c]"
  show ?thesis
    by (simp add: check_r6d_for_composition_def composition_obj kind_entries wave_entry_objs r6d_findings_def Let_def judgments o_def
        flat_map_map[where J = J and g = "\<lambda>e. if ?w \<le> swe_Wave e then [] else [?f e]"] concat_map_filter_if)
qed

lemma r6_app:
  "check_r6_app (map (compositionToObj sexp_kl) comps) (map (xrdToObj sexp_kl) xrds) (argoAppToObj sexp_kl app) =
     Some (map J (r6_app_findings comps xrds app))"
proof -
  have x: "filter (xrd_owned_by_p (SStr n)) (map (xrdToObj sexp_kl) xrds) = map (xrdToObj sexp_kl) (filter (\<lambda>x. n = crd_OwningApp x) xrds)"
    and c: "filter (composition_owned_by_p (SStr n)) (map (compositionToObj sexp_kl) comps) =
              map (compositionToObj sexp_kl) (filter (\<lambda>c. n = comp_OwningApp c) comps)" for n
    by (simp_all add: filter_map o_def xrd_owned_by_p_def composition_owned_by_p_def xrd_obj composition_obj)
  show ?thesis
    by (simp add: check_r6_app_def app_obj x c r6_app_findings_def
        rows[of "check_r6a_for_xrd (map wave_obj (app_SyncWaves app)) (src_obj (app_Source app))" "xrdToObj sexp_kl", OF r6a_xrd]
        rows[of "check_r6d_for_composition (map wave_obj (app_SyncWaves app)) (src_obj (app_Source app))" "compositionToObj sexp_kl", OF r6d_composition])
qed

lemma app_lookups:
  "app_sync_waves (SStr n) (map (argoAppToObj sexp_kl) apps) = slst (map wave_obj (waves_of n apps))"
  "app_source (SStr n) (map (argoAppToObj sexp_kl) apps) = src_obj (source_of n apps)"
  by (induction apps) (simp_all add: waves_of_def source_of_def app_named_def app_obj slst_Nil no_source_src)

lemma function_app_obj: "function_app (SStr n) (map (functionToObj sexp_kl) fns) = SStr (owner_of_function n fns)"
  by (induction fns) (simp_all add: owner_of_function_def function_obj)

lemma fn_refs_obj: "extract_fn_refs (map step_obj steps) = map SStr (map ps_FunctionRef steps)"
  by (induction steps) (simp_all add: slst_Cons)

lemma r6b_composition:
  "check_r6b_for_composition (map (argoAppToObj sexp_kl) apps) (map (functionToObj sexp_kl) fns) (compositionToObj sexp_kl c) =
     Some (map J (r6b_findings apps fns c))"
proof -
  let ?cw = "SNum (declared_wave ''Composition'' (comp_Name c) (waves_of (comp_OwningApp c) apps))"
  let ?pair = "check_r6b_pair (SStr (comp_Name c)) (SStr (comp_OwningApp c)) ?cw (src_obj (comp_Source c)) (src_obj (source_of (comp_OwningApp c) apps))
        (map (argoAppToObj sexp_kl) apps) (map (functionToObj sexp_kl) fns)"
  have pair: "?pair (SStr fnRef) = Some (map J (r6b_pair_findings apps fns c fnRef))" for fnRef
    by (simp add: check_r6b_pair_def check_r6b_emit_def function_app_obj app_lookups wave_entry_objs r6b_pair_findings_def Let_def judgments)
  show ?thesis
    by (simp add: check_r6b_for_composition_def composition_obj app_lookups wave_entry_objs fn_refs_obj r6b_findings_def
        rows[of ?pair SStr, OF pair] del: map_map)
qed

lemma r6_refines:
  "check_r6 (slst (map (argoAppToObj sexp_kl) apps)) (slst (map (compositionToObj sexp_kl) comps)) (slst (map (xrdToObj sexp_kl) xrds))
     (slst (map (functionToObj sexp_kl) fns)) = Some (map J (r6_findings apps comps xrds fns))"
proof (cases "comps = [] \<and> xrds = [] \<and> fns = []")
  case True
  then show ?thesis by (simp add: check_r6_def r6_findings_def r6_app_findings_def)
next
  case False
  then show ?thesis
    by (auto simp: check_r6_def r6_findings_def
        rows[of "check_r6_app (map (compositionToObj sexp_kl) comps) (map (xrdToObj sexp_kl) xrds)" "argoAppToObj sexp_kl", OF r6_app]
        rows[of "check_r6b_for_composition (map (argoAppToObj sexp_kl) apps) (map (functionToObj sexp_kl) fns)" "compositionToObj sexp_kl",
             OF r6b_composition])
qed

section \<open>R6c\<close>

definition managed_kind :: "CRDInfo list \<Rightarrow> string \<Rightarrow> bool" where
  "managed_kind crds kind =
     (kind \<notin> {''CompositeResourceDefinition'', ''Composition'', ''Function'', ''Provider''} \<and> (\<exists>c \<in> set crds. crd_Kind c = kind))"

definition r6c_finding :: "ArgoApplication \<Rightarrow> SyncWaveEntry \<Rightarrow> SyncWaveEntry \<Rightarrow> Diagnostic" where
  "r6c_finding app p m =
     error_finding ''XPC006'' (app_Source app) (r6c_message (swe_Name p) (swe_Wave p) (swe_Kind m) (swe_Name m) (swe_Wave m))
       (r6c_detail (swe_Name p)) (r6c_fix (swe_Name p) (swe_Wave m)) []"

definition r6c_app_findings :: "CRDInfo list \<Rightarrow> ArgoApplication \<Rightarrow> Diagnostic list" where
  "r6c_app_findings crds app =
     concat (map (\<lambda>p. map (r6c_finding app p)
                        (filter (\<lambda>m. managed_kind crds (swe_Kind m) \<and> \<not> swe_Wave p < swe_Wave m) (app_SyncWaves app)))
       (filter (\<lambda>p. swe_Kind p = ''Provider'') (app_SyncWaves app)))"

definition r6c_findings :: "ArgoApplication list \<Rightarrow> CRDInfo list \<Rightarrow> Diagnostic list" where
  "r6c_findings apps crds = concat (map (r6c_app_findings crds) apps)"

lemma kind_has_crd_obj: "kind_has_crd_p (SStr k) (map (crdToObj sexp_kl) crds) = (\<exists>c \<in> set crds. crd_Kind c = k)"
  by (induction crds) (simp_all add: crd_obj sexp_simps)

lemma r6c_app: "check_r6c_app (map (crdToObj sexp_kl) crds) (argoAppToObj sexp_kl app) = Some (map J (r6c_app_findings crds app))"
proof -
  let ?ws = "app_SyncWaves app"
  let ?ms = "filter (\<lambda>m. managed_kind crds (swe_Kind m)) ?ws"
  have mr: "sync_wave_is_mr_p (map (crdToObj sexp_kl) crds) (wave_obj m) = managed_kind crds (swe_Kind m)" for m
    by (auto simp: sync_wave_is_mr_p_def kind_has_crd_obj managed_kind_def)
  have mrs: "filter (sync_wave_is_mr_p (map (crdToObj sexp_kl) crds)) (map wave_obj ?ws) = map wave_obj ?ms"
    by (simp add: filter_map o_def mr)
  have pair: "check_r6c_pair (SStr (swe_Name p)) (SNum (swe_Wave p)) (src_obj (app_Source app)) (wave_obj m) =
      Some (map J (if swe_Wave p < swe_Wave m then [] else [r6c_finding app p m]))" for p m
    by (simp add: check_r6c_pair_def r6c_finding_def judgments)
  have prov: "check_r6c_for_provider (map wave_obj ?ms) (src_obj (app_Source app)) (wave_obj p) =
      Some (map J (map (r6c_finding app p) (filter (\<lambda>m. managed_kind crds (swe_Kind m) \<and> \<not> swe_Wave p < swe_Wave m) ?ws)))" for p
    using rows[of "check_r6c_pair (SStr (swe_Name p)) (SNum (swe_Wave p)) (src_obj (app_Source app))" wave_obj, OF pair]
    by (simp add: check_r6c_for_provider_def concat_map_filter_if)
  show ?thesis
    by (simp add: check_r6c_app_def app_obj kind_entries mrs r6c_app_findings_def
        rows[of "check_r6c_for_provider (map wave_obj ?ms) (src_obj (app_Source app))" wave_obj, OF prov])
qed

lemma r6c_refines:
  "check_r6c (slst (map (argoAppToObj sexp_kl) apps)) (slst (map (crdToObj sexp_kl) crds)) = Some (map J (r6c_findings apps crds))"
proof (cases "crds = []")
  case True
  then show ?thesis by (simp add: check_r6c_def r6c_findings_def r6c_app_findings_def managed_kind_def)
next
  case False
  then show ?thesis
    by (simp add: check_r6c_def r6c_findings_def rows[of "check_r6c_app (map (crdToObj sexp_kl) crds)" "argoAppToObj sexp_kl", OF r6c_app])
qed

section \<open>R7 to R9\<close>

definition r7_finding :: "ArgoApplication \<Rightarrow> CompositionInfo \<Rightarrow> Diagnostic" where
  "r7_finding app c =
     warn_finding ''XPC007'' (app_Source app) (r7_message (comp_Name c)) (r7_detail (app_Name app) (comp_Name c)) r7_fix [comp_Source c]"

definition r7_app_findings :: "CompositionInfo list \<Rightarrow> ArgoApplication \<Rightarrow> Diagnostic list" where
  "r7_app_findings comps app = (if app_TrackingMode app = ''label'' then map (r7_finding app) comps else [])"

definition r7_findings :: "ArgoApplication list \<Rightarrow> CompositionInfo list \<Rightarrow> Diagnostic list" where
  "r7_findings apps comps = concat (map (r7_app_findings comps) apps)"

lemma r7_app: "check_r7_app (map (compositionToObj sexp_kl) comps) (argoAppToObj sexp_kl app) = Some (map J (r7_app_findings comps app))"
proof -
  have "check_r7_composition_conflict (SStr (app_Name app)) (src_obj (app_Source app)) (compositionToObj sexp_kl c) = Some (map J [r7_finding app c])" for c
    by (simp add: check_r7_composition_conflict_def composition_obj r7_finding_def judgments)
  note rows[of "check_r7_composition_conflict (SStr (app_Name app)) (src_obj (app_Source app))" "compositionToObj sexp_kl", OF this]
  then show ?thesis by (simp add: check_r7_app_def app_obj r7_app_findings_def)
qed

lemma r7_refines:
  "check_r7 (slst (map (argoAppToObj sexp_kl) apps)) (slst (map (compositionToObj sexp_kl) comps)) = Some (map J (r7_findings apps comps))"
  by (cases "comps = []") (auto simp: check_r7_def r7_findings_def r7_app_findings_def[abs_def]
      rows[of "check_r7_app (map (compositionToObj sexp_kl) comps)" "argoAppToObj sexp_kl", OF r7_app])

text \<open>A resource that R8 is to report: the judgment cannot be built, and the whole check raises an error.\<close>

definition r8_trips :: "ResourceInfo list \<Rightarrow> bool" where
  "r8_trips rs = (\<exists>r \<in> set rs. mget (ri_Annotations r) ''xpc.dev/v1-machinery-on-v2-xrd'' = ''true'')"

lemma r8_exact: "check_r8 (slst (map (resourceToObj sexp_kl) rs)) xrds = (if r8_trips rs then None else Some [])"
proof -
  have row: "check_r8_resource_annotation (resourceToObj sexp_kl r) =
      (if mget (ri_Annotations r) ''xpc.dev/v1-machinery-on-v2-xrd'' = ''true'' then None else Some [])" for r
    by (simp add: check_r8_resource_annotation_def resource_obj has_annotation_objs)
  show ?thesis
  proof (cases "r8_trips rs")
    case True
    then have "omap check_r8_resource_annotation (map (resourceToObj sexp_kl) rs) = None"
      by (auto simp: omap_None_iff row r8_trips_def)
    then show ?thesis using True by (simp add: check_r8_def flat_map_def)
  next
    case False
    then have "omap check_r8_resource_annotation (map (resourceToObj sexp_kl) rs) = Some (map (\<lambda>r. []) (map (resourceToObj sexp_kl) rs))"
      by (intro omap_Some) (auto simp: row r8_trips_def)
    then show ?thesis using False by (simp add: check_r8_def flat_map_def)
  qed
qed

definition r9_finding :: "ResourceInfo \<Rightarrow> Diagnostic" where
  "r9_finding r = error_finding ''XPC009'' (ri_Source r) (r9_message (ri_Name r)) (r9_detail (ri_Kind r) (ri_Name r)) r9_fix []"

definition r9_findings :: "ResourceInfo list \<Rightarrow> Diagnostic list" where
  "r9_findings rs =
     map r9_finding (filter (\<lambda>r. mget (ri_Annotations r) ''xpc.dev/required-resource-missing'' = ''true'' \<and>
                                  mget (ri_Annotations r) ''xpc.dev/accept-bootstrap-gap'' \<noteq> ''true'') rs)"

lemma r9_refines:
  "check_r9 (slst (map (compositionToObj sexp_kl) comps)) (slst (map (resourceToObj sexp_kl) rs)) = Some (map J (r9_findings rs))"
proof -
  have comp: "check_r9_composition (compositionToObj sexp_kl c) = Some []" for c
    by (simp add: check_r9_composition_def composition_obj check_r9_step_def)
  have a: "flat_map check_r9_composition (map (compositionToObj sexp_kl) comps) = Some []"
    using rows[of check_r9_composition "compositionToObj sexp_kl" "\<lambda>_. []"] by (simp add: comp)
  have "check_r9_annotated (map (resourceToObj sexp_kl) rs) = Some (map J (r9_findings rs))"
    by (induction rs) (simp_all add: resource_obj check_r9_annotations_def has_annotation_objs r9_findings_def r9_finding_def judgments)
  then show ?thesis by (simp add: check_r9_def a)
qed

section \<open>R11\<close>

lemma provider_obj:
  "providerToObj sexp_kl p = SCons (SSym ''provider-fact'') (slst [SStr (prov_Name p), SStr (prov_Package p), src_obj (prov_Source p), SStr (prov_OwningApp p)])"
  by (simp add: providerToObj_def sexp_kl_fields slst_Cons)

definition r11_resource_findings :: "ResourceInfo \<Rightarrow> Diagnostic list" where
  "r11_resource_findings r =
     (if deprecated_api_p (SStr (ri_APIVersion r))
      then [warn_finding ''XPC011'' (ri_Source r) (r11_resource_message (ri_APIVersion r) (ri_Kind r) (ri_Name r))
              (deprecation_message (ri_APIVersion r)) r11_resource_fix []]
      else [])"

definition r11_composition_findings :: "CompositionInfo \<Rightarrow> Diagnostic list" where
  "r11_composition_findings c =
     (let apiVer = gvk_Group (comp_CompositeTypeRef c) @ ''/'' @ gvk_Version (comp_CompositeTypeRef c) in
      if deprecated_api_p (SStr apiVer)
      then [warn_finding ''XPC011'' (comp_Source c) (r11_composition_message (comp_Name c) apiVer) (deprecation_message apiVer)
              r11_composition_fix []]
      else [])"

text \<open>The pinned version of a package, and that it lies below a floor of the deprecation table.\<close>

definition older_than :: "string \<Rightarrow> string \<Rightarrow> string \<Rightarrow> bool" where
  "older_than pattern lowest package =
     (Contains package pattern \<and> extract_provider_version package \<noteq> [] \<and> version_before_p (extract_provider_version package) lowest)"

definition r11_provider_findings :: "ProviderInfo \<Rightarrow> Diagnostic list" where
  "r11_provider_findings p =
     map (\<lambda>(pattern, lowest, msg).
            warn_finding ''XPC011'' (prov_Source p) (r11_provider_message (prov_Name p) (extract_provider_version (prov_Package p))) msg
              (r11_provider_fix lowest) [])
       (filter (\<lambda>(pattern, lowest, msg). older_than pattern lowest (prov_Package p)) provider_deprecations)"

definition r11_crd_findings :: "CRDInfo \<Rightarrow> Diagnostic list" where
  "r11_crd_findings c =
     map (\<lambda>v. warn_finding ''XPC011'' (crd_Source c) (r11_crd_message (crd_Group c) (crd_Kind c) (cv_Name v))
                (r11_crd_detail (cv_Name v) (crd_Group c) (crd_Kind c)) (r11_crd_fix (cv_Name v)) [])
       (filter (\<lambda>v. \<not> cv_Served v) (crd_Versions c))"

definition r11_findings :: "ResourceInfo list \<Rightarrow> CompositionInfo list \<Rightarrow> ProviderInfo list \<Rightarrow> CRDInfo list \<Rightarrow> Diagnostic list" where
  "r11_findings rs comps provs crds =
     concat (map r11_resource_findings rs) @ concat (map r11_composition_findings comps) @
     concat (map r11_provider_findings provs) @ concat (map r11_crd_findings crds)"

lemma r11_resource: "check_r11_resource (resourceToObj sexp_kl r) = Some (map J (r11_resource_findings r))"
  by (simp add: check_r11_resource_def resource_obj r11_resource_findings_def judgments)

lemma r11_composition: "check_r11_composition (compositionToObj sexp_kl c) = Some (map J (r11_composition_findings c))"
  by (simp add: check_r11_composition_def composition_obj r11_composition_findings_def judgments Let_def)

lemma r11_provider: "check_r11_provider (providerToObj sexp_kl p) = Some (map J (r11_provider_findings p))"
proof -
  have "check_r11_provider_entries (prov_Name p) (prov_Package p) (src_obj (prov_Source p)) es =
      map J (map (\<lambda>(pattern, lowest, msg).
            warn_finding ''XPC011'' (prov_Source p) (r11_provider_message (prov_Name p) (extract_provider_version (prov_Package p))) msg
              (r11_provider_fix lowest) [])
       (filter (\<lambda>(pattern, lowest, msg). older_than pattern lowest (prov_Package p)) es))" for es
  proof (induction es)
    case (Cons e es)
    obtain pattern lowest msg where e: "e = (pattern, lowest, msg)" by (cases e) auto
    have "(if string_contains_p (prov_Package p) pattern \<and> extract_provider_version (prov_Package p) \<noteq> []
           then version_before_p (extract_provider_version (prov_Package p)) lowest else False) = older_than pattern lowest (prov_Package p)"
      by (simp add: older_than_def string_contains_Contains)
    then show ?case using Cons.IH by (simp add: e judgments Let_def)
  qed simp
  then show ?thesis by (simp add: check_r11_provider_def provider_obj r11_provider_findings_def)
qed

lemma r11_crd: "check_r11_crd (crdToObj sexp_kl c) = Some (map J (r11_crd_findings c))"
proof -
  have "check_r11_crd_versions (SStr g) (SStr k) (src_obj s) (map crd_version vs) =
      Some (map J (map (\<lambda>v. warn_finding ''XPC011'' s (r11_crd_message g k (cv_Name v)) (r11_crd_detail (cv_Name v) g k) (r11_crd_fix (cv_Name v)) [])
        (filter (\<lambda>v. \<not> cv_Served v) vs)))" for g k s vs
    by (induction vs) (simp_all add: judgments)
  then show ?thesis by (simp add: check_r11_crd_def crd_obj r11_crd_findings_def)
qed

lemma r11_refines:
  "check_r11 (slst (map (resourceToObj sexp_kl) rs)) (slst (map (compositionToObj sexp_kl) comps)) (slst (map (providerToObj sexp_kl) provs))
     (slst (map (crdToObj sexp_kl) crds)) = Some (map J (r11_findings rs comps provs crds))"
  by (simp add: check_r11_def r11_findings_def rows[of check_r11_resource "resourceToObj sexp_kl", OF r11_resource]
      rows[of check_r11_composition "compositionToObj sexp_kl", OF r11_composition]
      rows[of check_r11_provider "providerToObj sexp_kl", OF r11_provider] rows[of check_r11_crd "crdToObj sexp_kl", OF r11_crd])

end
