(* ===== verification/KernelSpec2.thy ===== *)
theory KernelSpec2
  imports KernelSpec
begin

text \<open>
  What the rules R12 to R36 are to report, and that the kernel reports it.  The rules that receive
  violations the Go side has computed have one finding for each; R17 to R25 decide themselves.
\<close>

section \<open>Precomputed violations\<close>

definition r12_finding :: "r12Violation \<Rightarrow> Diagnostic" where
  "r12_finding v =
     error_finding ''XPC012'' (r12_Source v) (r12_message (r12_TargetKind v) (r12_TargetName v) (r12_OwnerKind v) (r12_OwnerName v))
       (r12_detail (r12_MountKind v) (r12_TargetKind v) (r12_TargetName v) (r12_OwnerKind v) (r12_OwnerName v))
       (r12_fix (r12_TargetKind v) (r12_TargetName v)) []"

lemma r12_row: "r12_cross_violation_to_judgment (r12ViolationToObj sexp_kl v) = Some (J (r12_finding v))"
  by (simp add: r12_cross_violation_to_judgment_def r12ViolationToObj_def r12_finding_def r12_cross_emit_def fact_def sexp_simps judgments Let_def)

lemma r12_refines: "check_r12_cross (slst (map (r12ViolationToObj sexp_kl) vs)) = Some (map J (map r12_finding vs))"
  by (simp add: check_r12_cross_def each[of r12_cross_violation_to_judgment "r12ViolationToObj sexp_kl", OF r12_row] del: map_map)

definition r14_finding :: "r14Violation \<Rightarrow> Diagnostic" where
  "r14_finding v =
     error_finding ''XPC014'' (r14_Source v) (r14_message (r14_BindingKind v) (r14_BindingName v) (r14_OwnerKind v) (r14_OwnerName v))
       (r14_detail (r14_OwnerKind v) (r14_OwnerName v) (r14_BindingName v)) (r14_fix (r14_BindingName v)) [r14_BindingSource v]"

lemma r14_row: "r14_cross_violation_to_judgment (r14ViolationToObj sexp_kl v) = Some (J (r14_finding v))"
  by (simp add: r14_cross_violation_to_judgment_def r14ViolationToObj_def r14_finding_def fact_def sexp_simps judgments Let_def)

lemma r14_refines: "check_r14_cross (slst (map (r14ViolationToObj sexp_kl) vs)) = Some (map J (map r14_finding vs))"
  by (simp add: check_r14_cross_def each[of r14_cross_violation_to_judgment "r14ViolationToObj sexp_kl", OF r14_row] del: map_map)

definition r15_finding :: "r15Violation \<Rightarrow> Diagnostic" where
  "r15_finding v =
     (let gDisplay = (if r15_Group v = [] then ''core'' else r15_Group v) in
      error_finding ''XPC.D.kind-whitelisted'' (r15_Source v) (r15_message (r15_Kind v) gDisplay (r15_ProjectName v))
        (r15_detail (r15_AppName v) (r15_ProjectName v) (r15_Kind v) gDisplay (r15_WhitelistKey v)) (r15_fix gDisplay (r15_Kind v)) [])"

lemma r15_row: "r15_violation_to_judgment (r15ViolationToObj sexp_kl v) = Some (J (r15_finding v))"
  by (simp add: r15_violation_to_judgment_def r15ViolationToObj_def r15_finding_def fact_def sexp_simps judgments Let_def)

lemma r15_refines: "check_r15 (slst (map (r15ViolationToObj sexp_kl) vs)) = Some (map J (map r15_finding vs))"
  by (simp add: check_r15_def each[of r15_violation_to_judgment "r15ViolationToObj sexp_kl", OF r15_row] del: map_map)

definition r16_finding :: "r16Violation \<Rightarrow> Diagnostic" where
  "r16_finding v =
     error_finding ''XPC.E.selector-needs-ignore-diff'' (r16_Source v) (r16_message (r16_Kind v) (r16_Name v) (r16_SelectorPath v) (r16_ResolvedPath v))
       (r16_detail (r16_SelectorPath v) (r16_Kind v) (r16_Group v) (r16_ResolvedPath v)) (r16_fix (r16_Group v) (r16_Kind v) (r16_Leaf v)) []"

lemma r16_row: "r16_violation_to_judgment (r16ViolationToObj sexp_kl v) = Some (J (r16_finding v))"
  by (simp add: r16_violation_to_judgment_def r16ViolationToObj_def r16_finding_def fact_def sexp_simps judgments Let_def)

lemma r16_refines: "check_r16 (slst (map (r16ViolationToObj sexp_kl) vs)) = Some (map J (map r16_finding vs))"
  by (simp add: check_r16_def each[of r16_violation_to_judgment "r16ViolationToObj sexp_kl", OF r16_row] del: map_map)

definition r21_finding :: "r21Violation \<Rightarrow> Diagnostic" where
  "r21_finding v =
     error_finding ''XPC.E.late-init-needs-ignore-diff'' (r21_Source v) (r21_message (r21_Kind v) (r21_Name v) (r21_FieldPath v))
       (r21_detail (r21_FieldPath v) (r21_Kind v) (r21_Group v)) (r21_fix (r21_Leaf v)) []"

lemma r21_row: "r21_violation_to_judgment (r21ViolationToObj sexp_kl v) = Some (J (r21_finding v))"
  by (simp add: r21_violation_to_judgment_def r21ViolationToObj_def r21_finding_def fact_def sexp_simps judgments Let_def)

lemma r21_refines: "check_r21 (slst (map (r21ViolationToObj sexp_kl) vs)) = Some (map J (map r21_finding vs))"
  by (simp add: check_r21_def each[of r21_violation_to_judgment "r21ViolationToObj sexp_kl", OF r21_row] del: map_map)

definition r28_finding :: "providerConfigRefViolation \<Rightarrow> Diagnostic" where
  "r28_finding v =
     error_finding ''XPC.B.providerconfig-resolves'' (pcv_Source v) (r28_message (pcv_Kind v) (pcv_Name v) (pcv_RefName v)) (r28_detail (pcv_RefName v)) r28_fix []"

lemma r28_row: "r28_check_row (providerConfigRefViolationToObj sexp_kl v) = Some ([J (r28_finding v)])"
  by (simp add: r28_check_row_def providerConfigRefViolationToObj_def r28_finding_def r28_emit_def fact_def sexp_simps judgments Let_def)

lemma r28_refines: "check_r28 (slst (map (providerConfigRefViolationToObj sexp_kl) vs)) = Some (map J (map r28_finding vs))"
  using rows[of r28_check_row "providerConfigRefViolationToObj sexp_kl" "\<lambda>v. [r28_finding v]"] by (simp add: check_r28_def r28_row)

definition r29_finding :: "fargateEnvLabelViolation \<Rightarrow> Diagnostic" where
  "r29_finding v =
     (if fev_Reason v = ''invalid''
      then error_finding ''XPC.E.fargate-claim-env-label'' (fev_Source v) (r29_invalid_message (fev_Kind v) (fev_Name v) (fev_Value v))
             (r29_invalid_detail (fev_Value v)) r29_invalid_fix []
      else error_finding ''XPC.E.fargate-claim-env-label'' (fev_Source v) (r29_missing_message (fev_Kind v) (fev_Name v))
             (r29_missing_detail (fev_Kind v) (fev_Name v)) r29_missing_fix [])"

lemma r29_row: "r29_check_row (fargateEnvLabelViolationToObj sexp_kl v) = Some ([J (r29_finding v)])"
  by (simp add: r29_check_row_def fargateEnvLabelViolationToObj_def r29_finding_def r29_emit_missing_def r29_emit_invalid_def fact_def sexp_simps judgments Let_def)

lemma r29_refines: "check_r29 (slst (map (fargateEnvLabelViolationToObj sexp_kl) vs)) = Some (map J (map r29_finding vs))"
  using rows[of r29_check_row "fargateEnvLabelViolationToObj sexp_kl" "\<lambda>v. [r29_finding v]"] by (simp add: check_r29_def r29_row)

definition r30_finding :: "esoStoreViolation \<Rightarrow> Diagnostic" where
  "r30_finding v =
     error_finding ''XPC.K.externalsecret-store'' (esv_Source v) (r30_message (esv_Name v) (esv_StoreName v)) (r30_detail (esv_StoreName v)) r30_fix []"

lemma r30_row: "r30_check_row (esoStoreViolationToObj sexp_kl v) = Some ([J (r30_finding v)])"
  by (simp add: r30_check_row_def esoStoreViolationToObj_def r30_finding_def r30_emit_def fact_def sexp_simps judgments Let_def)

lemma r30_refines: "check_r30 (slst (map (esoStoreViolationToObj sexp_kl) vs)) = Some (map J (map r30_finding vs))"
  using rows[of r30_check_row "esoStoreViolationToObj sexp_kl" "\<lambda>v. [r30_finding v]"] by (simp add: check_r30_def r30_row)

definition r31_finding :: "r31Violation \<Rightarrow> Diagnostic" where
  "r31_finding v =
     (if r31_Heuristic v
      then warn_finding ''XPC.M.forprovider-canonical-form'' (r31_Source v) (r31_template_message (r31_Name v) (r31_FieldPath v))
             (r31_template_detail (r31_Name v) (r31_FieldPath v) (r31_Kind v) (r31_Value v) (r31_Reason v)) (r31_fix (r31_Canonical v)) []
      else error_finding ''XPC.M.forprovider-canonical-form'' (r31_Source v) (r31_resource_message (r31_Kind v) (r31_Name v) (r31_FieldPath v))
             (r31_resource_detail (r31_FieldPath v) (r31_Kind v) (r31_Group v) (r31_Value v) (r31_Reason v)) (r31_fix (r31_Canonical v)) [])"

lemma r31_row: "r31_violation_to_judgment (r31ViolationToObj sexp_kl v) = Some (J (r31_finding v))"
  by (simp add: r31_violation_to_judgment_def r31ViolationToObj_def r31_finding_def fact_def sexp_simps judgments Let_def)

lemma r31_refines: "check_r31 (slst (map (r31ViolationToObj sexp_kl) vs)) = Some (map J (map r31_finding vs))"
  by (simp add: check_r31_def each[of r31_violation_to_judgment "r31ViolationToObj sexp_kl", OF r31_row] del: map_map)

definition r32_finding :: "r32Violation \<Rightarrow> Diagnostic" where
  "r32_finding v =
     finding (if r32_Registered v then SeverityError else SeverityWarning) ''XPC.M.observed-desired-fixed-point'' (r32_Source v)
       (r32_divergence_message (r32_Kind v) (r32_Name v) (r32_FieldPath v))
       (r32_message (r32_Group v) (r32_Kind v) (r32_FieldPath v) (r32_Desired v) (r32_Observed v)) r32_fix []"

lemma r32_row: "r32_violation_to_judgment (r32ViolationToObj sexp_kl v) = Some (J (r32_finding v))"
  by (simp add: r32_violation_to_judgment_def r32ViolationToObj_def r32_finding_def r32_judgment_def fact_def sexp_simps judgments Let_def)

lemma r32_refines: "check_r32 (slst (map (r32ViolationToObj sexp_kl) vs)) = Some (map J (map r32_finding vs))"
  by (simp add: check_r32_def each[of r32_violation_to_judgment "r32ViolationToObj sexp_kl", OF r32_row] del: map_map)

definition r33_finding :: "r33Violation \<Rightarrow> Diagnostic" where
  "r33_finding v =
     warn_finding ''XPC.M.duplicate-env-key'' (r33_Source v) (r33_message (r33_Composition v) (r33_EnvName v))
       (r33_detail (r33_Composition v) (r33_EnvName v) (r33_Count v)) (r33_fix (r33_EnvName v)) []"

lemma r33_row: "r33_violation_to_judgment (r33ViolationToObj sexp_kl v) = Some (J (r33_finding v))"
  by (simp add: r33_violation_to_judgment_def r33ViolationToObj_def r33_finding_def fact_def sexp_simps judgments Let_def)

lemma r33_refines: "check_r33 (slst (map (r33ViolationToObj sexp_kl) vs)) = Some (map J (map r33_finding vs))"
  by (simp add: check_r33_def each[of r33_violation_to_judgment "r33ViolationToObj sexp_kl", OF r33_row] del: map_map)

definition r34_finding :: "r34Violation \<Rightarrow> Diagnostic" where
  "r34_finding v =
     warn_finding ''XPC.M.computed-block-alias'' (r34_Source v) (r34_message (r34_Composition v) (r34_Kind v) (r34_ActionType v) (r34_AliasField v))
       (r34_detail (r34_Kind v) (r34_ActionType v) (r34_Composition v) (r34_AliasField v) (r34_CanonicalBlock v)) (r34_fix (r34_Reason v)) []"

lemma r34_row: "r34_violation_to_judgment (r34ViolationToObj sexp_kl v) = Some (J (r34_finding v))"
  by (simp add: r34_violation_to_judgment_def r34ViolationToObj_def r34_finding_def fact_def sexp_simps judgments Let_def)

lemma r34_refines: "check_r34 (slst (map (r34ViolationToObj sexp_kl) vs)) = Some (map J (map r34_finding vs))"
  by (simp add: check_r34_def each[of r34_violation_to_judgment "r34ViolationToObj sexp_kl", OF r34_row] del: map_map)

definition r35_finding :: "r35Violation \<Rightarrow> Diagnostic" where
  "r35_finding v =
     error_finding ''XPC.I.must-adopt-external-name'' (r35_Source v) (r35_message (r35_Kind v) (r35_Name v)) (r35_detail (r35_Kind v) (r35_Name v) (r35_Reason v)) r35_fix []"

lemma r35_row: "r35_violation_to_judgment (r35ViolationToObj sexp_kl v) = Some (J (r35_finding v))"
  by (simp add: r35_violation_to_judgment_def r35ViolationToObj_def r35_finding_def fact_def sexp_simps judgments Let_def)

lemma r35_refines: "check_r35 (slst (map (r35ViolationToObj sexp_kl) vs)) = Some (map J (map r35_finding vs))"
  by (simp add: check_r35_def each[of r35_violation_to_judgment "r35ViolationToObj sexp_kl", OF r35_row] del: map_map)

definition r36_finding :: "r36Violation \<Rightarrow> Diagnostic" where
  "r36_finding v =
     warn_finding ''XPC.S.orphaned-sgref'' (r36_Source v) (r36_message (r36_Composition v) (r36_Kind v) (r36_RuleName v))
       (r36_detail (r36_Kind v) (r36_RuleName v) (r36_Composition v) (r36_AttachField v) (r36_RefField v)) (r36_fix (r36_Reason v)) []"

lemma r36_row: "r36_violation_to_judgment (r36ViolationToObj sexp_kl v) = Some (J (r36_finding v))"
  by (simp add: r36_violation_to_judgment_def r36ViolationToObj_def r36_finding_def fact_def sexp_simps judgments Let_def)

lemma r36_refines: "check_r36 (slst (map (r36ViolationToObj sexp_kl) vs)) = Some (map J (map r36_finding vs))"
  by (simp add: check_r36_def each[of r36_violation_to_judgment "r36ViolationToObj sexp_kl", OF r36_row] del: map_map)

section \<open>R17 to R20\<close>

definition r17_finding :: "ResourceFieldFact \<Rightarrow> Diagnostic" where
  "r17_finding f =
     (let v = SSym (violationSym (rff_Violation f)) in
      error_finding ''XPC.A.resource-field-valid'' (rff_Source f) (r17_message (rff_Kind f) (rff_Name f) (r17_violation_label v) (rff_Path f))
        (rff_Message f) (r17_fix_hint v) [])"

lemma r17_row: "r17_check_fact (resourceFieldFactToObj sexp_kl f) = Some (map J [r17_finding f])"
  by (simp add: r17_check_fact_def resourceFieldFactToObj_def r17_finding_def fact_def sexp_simps judgments Let_def)

lemma r17_refines: "check_r17 (slst (map (resourceFieldFactToObj sexp_kl) fs)) = Some (map J (map r17_finding fs))"
  using rows[of r17_check_fact "resourceFieldFactToObj sexp_kl", OF r17_row] by (simp add: check_r17_def)

text \<open>A failed render: a missing binary is a warning, every other failure an error, with a code for each renderer.\<close>

definition r18_finding :: "RenderResult \<Rightarrow> Diagnostic" where
  "r18_finding r =
     (let k = SSym (render_error_kind r) in
      finding (if render_error_kind r \<in> {''helm-absent'', ''kustomize-absent'', ''crossplane-absent''} then SeverityWarning else SeverityError)
        (r18_code_for_kind k) (rr_Source r) (r18_message (rr_AppName r) (r18_error_label k)) (r18_detail (rr_ChartPath r) (rr_Error r))
        (r18_fix_hint k) [])"

definition r18_findings :: "RenderResult list \<Rightarrow> Diagnostic list" where
  "r18_findings rs = map r18_finding (filter (\<lambda>r. \<not> rr_Success r) rs)"

lemma render_obj:
  "renderResultToObj sexp_kl r =
     SCons (SSym ''render-result'') (slst [SStr (rr_AppName r), SStr (rr_ChartPath r), SSym (if rr_Success r then ''render-ok'' else ''render-failed''),
       SSym (render_error_kind r), SStr (rr_Error r),
       SCons (SSym ''values-issues'') (slst (map (\<lambda>vi. SCons (SSym ''values-issue'') (slst [SStr (vi_Path vi), SStr (vi_Message vi)])) (rr_ValuesIssues r))),
       src_obj (rr_Source r)])"
  by (simp add: renderResultToObj_def sexp_kl_fields slst_Cons)

lemma r18_codes:
  "r18_code_for_kind (SSym ''helm-absent'') = ''XPC.H.helm-renders''" "r18_code_for_kind (SSym ''kustomize-absent'') = ''XPC.H.kustomize-renders''"
  "r18_code_for_kind (SSym ''crossplane-absent'') = ''XPC.H.composition-renders''"
  by (simp_all add: r18_code_for_kind_def r18_is_kustomize_kind_p_def r18_is_composition_kind_p_def)

lemma r18_row: "r18_check_result (renderResultToObj sexp_kl r) = Some (map J (if rr_Success r then [] else [r18_finding r]))"
  by (simp add: r18_check_result_def render_obj r18_finding_def r18_emit_def r18_codes judgments Let_def)

lemma r18_refines: "check_r18 (slst (map (renderResultToObj sexp_kl) rs)) = Some (map J (r18_findings rs))"
  using rows[of r18_check_result "renderResultToObj sexp_kl", OF r18_row]
  by (simp add: check_r18_def r18_findings_def concat_map_if)

definition r19_findings :: "RenderResult \<Rightarrow> Diagnostic list" where
  "r19_findings r =
     map (\<lambda>vi. error_finding ''XPC.H.values-well-typed'' (rr_Source r) (r19_message (rr_AppName r) (vi_Path vi)) (vi_Message vi) r19_fix [])
       (rr_ValuesIssues r)"

lemma r19_row: "r19_check_result (renderResultToObj sexp_kl r) = Some (map J (r19_findings r))"
proof -
  let ?obj = "\<lambda>vi. SCons (SSym ''values-issue'') (slst [SStr (vi_Path vi), SStr (vi_Message vi)])"
  have "omap (r19_issue_judgment (SStr (rr_AppName r)) (src_obj (rr_Source r))) (map ?obj vis) =
      Some (map J (map (\<lambda>vi. error_finding ''XPC.H.values-well-typed'' (rr_Source r) (r19_message (rr_AppName r) (vi_Path vi)) (vi_Message vi) r19_fix []) vis))" for vis
    by (rule each) (simp add: r19_issue_judgment_def judgments)
  then show ?thesis by (simp add: r19_check_result_def render_obj r19_findings_def del: map_map)
qed

lemma r19_refines: "check_r19 (slst (map (renderResultToObj sexp_kl) rs)) = Some (map J (concat (map r19_findings rs)))"
  by (simp add: check_r19_def rows[of r19_check_result "renderResultToObj sexp_kl", OF r19_row])

definition r20_findings :: "DeterminismResult list \<Rightarrow> Diagnostic list" where
  "r20_findings rs =
     map (\<lambda>r. warn_finding ''XPC.H.render-deterministic'' (det_Source r) (r20_message (det_AppName r) (det_RendererKind r)) (det_DiffSummary r) r20_fix_hint [])
       (filter det_Mismatch rs)"

lemma r20_refines: "check_r20 (slst (map (determinismResultToObj sexp_kl) rs)) = Some (map J (r20_findings rs))"
proof -
  let ?f = "\<lambda>r. warn_finding ''XPC.H.render-deterministic'' (det_Source r) (r20_message (det_AppName r) (det_RendererKind r)) (det_DiffSummary r) r20_fix_hint []"
  have "r20_check_result (determinismResultToObj sexp_kl r) = Some (map J (if \<not> det_Mismatch r then [] else [?f r]))" for r
    by (simp add: r20_check_result_def determinismResultToObj_def fact_def sexp_simps judgments)
  note rows[of r20_check_result "determinismResultToObj sexp_kl", OF this]
  then show ?thesis by (simp add: check_r20_def r20_findings_def concat_map_if del: if_not_P)
qed

section \<open>R22\<close>

abbreviation "r22_observe \<equiv> ''XPC.E.ssa-managementpolicies-observe''"
abbreviation "r22_partial \<equiv> ''XPC.E.ssa-managementpolicies-partial''"
abbreviation "r22_nondefault \<equiv> ''XPC.E.ssa-managementpolicies-nondefault''"

definition r22_finding :: "string \<Rightarrow> (string \<Rightarrow> string \<Rightarrow> string \<Rightarrow> string) \<Rightarrow> string \<Rightarrow> (string \<Rightarrow> string) \<Rightarrow> SSAMPConflict \<Rightarrow> Diagnostic" where
  "r22_finding code message detail fix c =
     error_finding code (ssamp_Source c) (message (ssamp_ResourceKind c) (ssamp_ResourceName c) (ssamp_AppName c)) detail (fix (ssamp_AppName c)) []"

definition writes_without_update :: "string list \<Rightarrow> bool" where
  "writes_without_update ps = (set ps \<inter> {''Create'', ''LateInitialize'', ''Delete''} \<noteq> {} \<and> ''Update'' \<notin> set ps)"

definition default_policies :: "string list \<Rightarrow> bool" where
  "default_policies ps = ({''Observe'', ''Create'', ''Update'', ''Delete''} \<subseteq> set ps)"

text \<open>Policies that only observe are reported in every mode; the other two cases depend on the mode.\<close>

definition r22_row_findings :: "string \<Rightarrow> SSAMPConflict \<Rightarrow> Diagnostic list" where
  "r22_row_findings mode c =
     (let ps = ssamp_ManagementPolicies c in
      if \<not> ssamp_ServerSideApply c then []
      else if set ps \<subseteq> {''Observe''} then [r22_finding r22_observe r22_observe_message r22_observe_detail r22_observe_fix c]
      else (if mode = ''any'' \<and> \<not> default_policies ps
            then [r22_finding r22_nondefault r22_nondefault_message r22_nondefault_detail r22_nondefault_fix c] else []) @
           (if mode \<in> {''partial'', ''any''} \<and> writes_without_update ps
            then [r22_finding r22_partial r22_partial_message r22_partial_detail r22_partial_fix c] else []))"

definition r22_findings :: "string \<Rightarrow> SSAMPConflict list \<Rightarrow> Diagnostic list" where
  "r22_findings mode cs = concat (map (r22_row_findings mode) cs)"

definition r22_marked :: "Diagnostic list \<Rightarrow> Diagnostic list" where
  "r22_marked ds =
     concat (map (\<lambda>code. mark code (filter (\<lambda>d. dg_Code d = code) ds)) [r22_observe, r22_partial, r22_nondefault])"

lemma r22_policies:
  "r22_all_observe_p (map SStr ps) = (set ps \<subseteq> {''Observe''})"
  "(r22_has_write_op_p (map SStr ps) \<and> \<not> r22_has_update_p (map SStr ps)) = writes_without_update ps"
  "r22_is_default_p (map SStr ps) = default_policies ps"
proof -
  show "r22_all_observe_p (map SStr ps) = (set ps \<subseteq> {''Observe''})" by (induction ps) auto
qed (auto simp: r22_has_write_op_p_def r22_has_update_p_def writes_without_update_def r22_is_default_p_def default_policies_def image_iff)

lemma conflict_obj:
  "ssaMPConflictToObj sexp_kl c =
     SCons (SSym ''ssa-mp-conflict-fact'') (slst [SStr (ssamp_AppName c), SSym (if ssamp_ServerSideApply c then ''ssa-yes'' else ''ssa-no''),
       slst (map SStr (ssamp_ManagementPolicies c)), SStr (ssamp_ResourceGroup c), SStr (ssamp_ResourceKind c), SStr (ssamp_ResourceName c),
       SStr (ssamp_ResourceNamespace c), src_obj (ssamp_Source c)])"
  by (simp add: ssaMPConflictToObj_def sexp_kl_fields[abs_def] slst_Cons)

lemma r22_row: "r22_check_row (SSym mode) (ssaMPConflictToObj sexp_kl c) = Some (map J (r22_row_findings mode c))"
proof -
  have e: "(if r22_has_write_op_p q then if r22_has_update_p q then Some [] else x else Some []) =
      (if r22_has_write_op_p q \<and> \<not> r22_has_update_p q then x else Some [])" for q and x :: "sexp list option"
    by auto
  show ?thesis
    by (simp add: r22_check_row_def conflict_obj r22_emit_observe_def r22_emit_partial_def r22_emit_nondefault_def r22_emit_def
        r22_mode_at_least_partial_p_def r22_mode_at_least_any_p_def e r22_policies r22_row_findings_def r22_finding_def judgments Let_def)
qed

lemma r22_check_all_alt:
  "r22_check_all rows mode acc = map_option (\<lambda>js. rev acc @ js) (flat_map (r22_check_row mode) rows)"
proof -
  have rev: "r22_prepend_rev js acc = rev js @ acc" for js acc by (induction js arbitrary: acc) simp_all
  show ?thesis
  proof (induction rows arbitrary: acc)
    case (Cons row rest)
    show ?case
      by (cases "r22_check_row mode row"; cases "omap (r22_check_row mode) rest")
        (simp_all add: Cons.IH flat_map_def rev)
  qed simp
qed

lemma r22_refines:
  "check_r22 (slst (map (ssaMPConflictToObj sexp_kl) cs)) (SCons (SSym mode) r) = Some (map J (r22_findings mode cs))"
  by (simp add: check_r22_def r22_check_all_alt r22_findings_def rows[of "r22_check_row (SSym mode)" "ssaMPConflictToObj sexp_kl", OF r22_row])

lemma r22_filter_objs: "r22_filter_by_code code (map J ds) = map J (filter (\<lambda>d. dg_Code d = code) ds)"
  by (induction ds) (simp_all add: judgment_obj_def sexp_kl_fields fact_def sexp_simps)

lemma mark_r22_marked: "mark_r22_rules (map J ds) = map J (r22_marked ds)"
  by (simp add: mark_r22_rules_def r22_marked_def r22_filter_objs mark_rule_mark)

section \<open>R23 to R25\<close>

definition r23_finding :: "CPDeletionPolicyFact \<Rightarrow> Diagnostic" where
  "r23_finding f =
     error_finding ''XPC.S.crossplane-state-needs-orphan'' (cpd_Source f) (r23_message (cpd_Kind f) (cpd_Name f))
       (r23_detail (r23_policy_phrase (cpd_DeletionPolicy f)) (cpd_Group f) (cpd_Kind f)) r23_fix []"

definition unprotected_state :: "string list \<Rightarrow> CPDeletionPolicyFact \<Rightarrow> bool" where
  "unprotected_state carveouts f =
     (\<not> cpd_Bypass f \<and> cpd_DeletionPolicy f \<noteq> ''Orphan'' \<and> \<not> (\<exists>c \<in> set carveouts. Contains (cpd_Name f) c))"

definition r23_findings :: "CPDeletionPolicyFact list \<Rightarrow> string list \<Rightarrow> Diagnostic list" where
  "r23_findings fs carveouts = map r23_finding (filter (unprotected_state carveouts) fs)"

lemma carved_out_Contains:
  "r23_name_carved_out_p name cs = (\<exists>c \<in> set cs. Contains name c)" "r25_name_matches_any_p name cs = (\<exists>c \<in> set cs. Contains name c)"
  by (induction cs) (simp_all add: string_contains_Contains)

lemma concat_map_keep: "concat (map (\<lambda>x. if P x then [f x] else []) xs) = map f (filter P xs)"
  by (induction xs) auto

lemma r23_refines:
  "check_r23 (slst (map (cpDeletionPolicyToObj sexp_kl) fs)) (slst (map SStr carveouts)) = Some (map J (r23_findings fs carveouts))"
proof -
  have "r23_check_row (map SStr carveouts) (cpDeletionPolicyToObj sexp_kl f) = Some (map J (if unprotected_state carveouts f then [r23_finding f] else []))" for f
    by (simp add: r23_check_row_def cpDeletionPolicyToObj_def fact_def sexp_simps r23_orphan_p_def r23_emit_def carved_out_Contains
        unprotected_state_def r23_finding_def judgments)
  note rows[of "r23_check_row (map SStr carveouts)" "cpDeletionPolicyToObj sexp_kl", OF this]
  then show ?thesis by (simp add: check_r23_def r23_findings_def concat_map_keep)
qed

definition r24_finding :: "ArgoApplicationSet \<Rightarrow> Diagnostic" where
  "r24_finding a = error_finding ''XPC.E.appset-finalizer-without-preserve'' (aset_Source a) (r24_message (aset_Name a)) r24_detail r24_fix []"

definition cascades :: "ArgoApplicationSet \<Rightarrow> bool" where
  "cascades a =
     (\<not> asp_PreserveResourcesOnDeletion (aset_SyncPolicy a) \<and>
      set (tmpl_Finalizers (aset_Template a)) \<inter>
        {''resources-finalizer.argocd.argoproj.io'', ''resources-finalizer.argocd.argoproj.io/foreground''} \<noteq> {})"

definition r24_findings :: "ArgoApplicationSet list \<Rightarrow> Diagnostic list" where
  "r24_findings sets = map r24_finding (filter cascades sets)"

lemma r24_refines: "check_r24 (slst (map (appSetFinalizerToObj sexp_kl) sets)) = Some (map J (r24_findings sets))"
proof -
  have fin: "r24_has_cascade_finalizer_p (map SStr fs) =
      (set fs \<inter> {''resources-finalizer.argocd.argoproj.io'', ''resources-finalizer.argocd.argoproj.io/foreground''} \<noteq> {})" for fs
    by (auto simp: r24_has_cascade_finalizer_p_def image_iff)
  have obj: "appSetFinalizerToObj sexp_kl a = SCons (SSym ''appset-finalizer-fact'') (slst [SStr (aset_Name a),
      slst (map SStr (tmpl_Finalizers (aset_Template a))),
      SSym (if asp_PreserveResourcesOnDeletion (aset_SyncPolicy a) then ''preserve-yes'' else ''preserve-no''), src_obj (aset_Source a)])" for a
    by (simp add: appSetFinalizerToObj_def sexp_kl_fields[abs_def] slst_Cons)
  have "r24_check_row (appSetFinalizerToObj sexp_kl a) = Some (map J (if cascades a then [r24_finding a] else []))" for a
    by (simp add: r24_check_row_def obj fin cascades_def r24_emit_def r24_finding_def judgments)
  note rows[of r24_check_row "appSetFinalizerToObj sexp_kl", OF this]
  then show ?thesis by (simp add: check_r24_def r24_findings_def concat_map_keep)
qed

definition r25_finding :: "ArgoApplicationSet \<Rightarrow> Diagnostic" where
  "r25_finding a = error_finding ''XPC.E.prod-appset-autosync'' (aset_Source a) (r25_message (aset_Name a)) r25_detail r25_fix []"

definition autosynced_prod :: "string list \<Rightarrow> ArgoApplicationSet \<Rightarrow> bool" where
  "autosynced_prod patterns a =
     (sp_Automated (tmpl_SyncPolicy (aset_Template a)) \<noteq> None \<and> (\<exists>p \<in> set patterns. Contains (aset_Name a) p))"

definition r25_findings :: "ArgoApplicationSet list \<Rightarrow> string list \<Rightarrow> Diagnostic list" where
  "r25_findings sets patterns = map r25_finding (filter (autosynced_prod patterns) sets)"

lemma r25_refines:
  "check_r25 (slst (map (appSetAutosyncToObj sexp_kl) sets)) (slst (map SStr patterns)) = Some (map J (r25_findings sets patterns))"
proof -
  have "r25_check_row (map SStr patterns) (appSetAutosyncToObj sexp_kl a) = Some (map J (if autosynced_prod patterns a then [r25_finding a] else []))" for a
    by (simp add: r25_check_row_def appSetAutosyncToObj_def fact_def sexp_simps carved_out_Contains autosynced_prod_def r25_emit_def
        r25_finding_def judgments)
  note rows[of "r25_check_row (map SStr patterns)" "appSetAutosyncToObj sexp_kl", OF this]
  then show ?thesis by (simp add: check_r25_def r25_findings_def concat_map_keep)
qed

end
