(* ===== verification/KernelCheck.thy ===== *)
theory KernelCheck
  imports KernelSpec2
begin

text \<open>
  \<^verbatim>\<open>kernel/check.shen\<close>: the sections of the World, the allowlist, and \<^verbatim>\<open>check-world\<close>, which dispatches
  every rule.  The kernel refines a specification on the World: a table of rules, each with the codes
  that let it run and the findings it reports.  Checks on the modelled kernel follow.
\<close>

section \<open>The entry point\<close>

fun extract_section :: "string \<Rightarrow> sexp list \<Rightarrow> sexp" where
  "extract_section _ [] = SNil"
| "extract_section tag (SCons (SSym t) content # rest) = (if t = tag then content else extract_section tag rest)"
| "extract_section tag (_ # rest) = extract_section tag rest"

fun rule_member_p :: "string \<Rightarrow> sexp list \<Rightarrow> bool" where
  "rule_member_p _ [] = False"
| "rule_member_p code (c # rest) = (c = SStr code \<or> rule_member_p code rest)"

definition rule_allowed_p :: "string \<Rightarrow> sexp list \<Rightarrow> bool" where
  "rule_allowed_p code allowlist = (if allowlist = [] then True else rule_member_p code allowlist)"

definition dispatch :: "string \<Rightarrow> sexp list \<Rightarrow> sexp list option \<Rightarrow> sexp list option" where
  "dispatch code allowlist js = (if rule_allowed_p code allowlist then map_option (mark_rule code) js else Some [])"

text \<open>The results \<^verbatim>\<open>R1\<close> to \<^verbatim>\<open>R36\<close> in the order in which they are appended.\<close>

definition kernel_runs :: "sexp list \<Rightarrow> sexp list \<Rightarrow> sexp list option list" where
  "kernel_runs Sections al =
     (let sec = (\<lambda>tag. extract_section tag Sections) in
      [dispatch ''XPC001'' al (check_r1 (sec ''crds'') (sec ''xrds'')),
       dispatch ''XPC002'' al (check_r2 (sec ''resources'') (sec ''crds'')),
       dispatch ''XPC003'' al (check_r3 (sec ''compositions'') (sec ''xrds'')),
       dispatch ''XPC004'' al (check_r4 (sec ''compositions'') (sec ''functions'')),
       dispatch ''XPC005'' al (check_r5 (sec ''resolved-patches'')),
       dispatch ''XPC006'' al (check_r6 (sec ''argo-apps'') (sec ''compositions'') (sec ''xrds'') (sec ''functions'')),
       dispatch ''XPC006'' al (check_r6c (sec ''argo-apps'') (sec ''crds'')),
       dispatch ''XPC007'' al (check_r7 (sec ''argo-apps'') (sec ''compositions'')),
       dispatch ''XPC008'' al (check_r8 (sec ''resources'') (sec ''xrds'')),
       dispatch ''XPC009'' al (check_r9 (sec ''compositions'') (sec ''resources'')),
       dispatch ''XPC010'' al (check_r10 (sec ''resolved-patches'')),
       dispatch ''XPC011'' al (check_r11 (sec ''resources'') (sec ''compositions'') (sec ''providers'') (sec ''crds'')),
       dispatch ''XPC012'' al (check_r12_cross (sec ''r12-violations'')),
       dispatch ''XPC014'' al (check_r14_cross (sec ''r14-violations'')),
       dispatch ''XPC.D.kind-whitelisted'' al (check_r15 (sec ''r15-violations'')),
       dispatch ''XPC.E.selector-needs-ignore-diff'' al (check_r16 (sec ''r16-violations'')),
       dispatch ''XPC.A.resource-field-valid'' al (check_r17 (sec ''resource-field-facts'')),
       dispatch ''XPC.H.helm-renders'' al (check_r18 (sec ''render-results'')),
       dispatch ''XPC.H.values-well-typed'' al (check_r19 (sec ''render-results'')),
       dispatch ''XPC.H.render-deterministic'' al (check_r20 (sec ''determinism-results'')),
       dispatch ''XPC.E.late-init-needs-ignore-diff'' al (check_r21 (sec ''r21-violations'')),
       (if rule_allowed_p ''XPC.E.ssa-managementpolicies-observe'' al \<or> rule_allowed_p ''XPC.E.ssa-managementpolicies-partial'' al \<or>
           rule_allowed_p ''XPC.E.ssa-managementpolicies-nondefault'' al
        then map_option mark_r22_rules (check_r22 (sec ''ssa-mp-conflicts'') (sec ''ssa-mp-mode'')) else Some []),
       dispatch ''XPC.S.crossplane-state-needs-orphan'' al
         (check_r23 (sec ''crossplane-deletion-policy-facts'') (sec ''crossplane-state-needs-orphan-carveouts'')),
       dispatch ''XPC.E.appset-finalizer-without-preserve'' al (check_r24 (sec ''appset-finalizer-facts'')),
       dispatch ''XPC.E.prod-appset-autosync'' al (check_r25 (sec ''appset-autosync-facts'') (sec ''prod-patterns'')),
       dispatch ''XPC.B.providerconfig-resolves'' al (check_r28 (sec ''providerconfig-ref-violations'')),
       dispatch ''XPC.E.fargate-claim-env-label'' al (check_r29 (sec ''fargate-env-label-violations'')),
       dispatch ''XPC.K.externalsecret-store'' al (check_r30 (sec ''eso-store-violations'')),
       dispatch ''XPC.M.forprovider-canonical-form'' al (check_r31 (sec ''canonical-form-violations'')),
       dispatch ''XPC.M.observed-desired-fixed-point'' al (check_r32 (sec ''fixed-point-violations'')),
       dispatch ''XPC.M.duplicate-env-key'' al (check_r33 (sec ''duplicate-env-violations'')),
       dispatch ''XPC.M.computed-block-alias'' al (check_r34 (sec ''computed-block-alias-violations'')),
       dispatch ''XPC.I.must-adopt-external-name'' al (check_r35 (sec ''external-name-adopt-violations'')),
       dispatch ''XPC.S.orphaned-sgref'' al (check_r36 (sec ''orphan-sgref-violations''))])"

definition check_world :: "sexp \<Rightarrow> sexp list option" where
  "check_world x =
     (case x of
        SCons (SSym t) secs \<Rightarrow>
          if t = ''world''
          then do { Sections \<leftarrow> elems secs; al \<leftarrow> elems (extract_section ''rule-allowlist'' Sections);
                    flat_map (\<lambda>r. r) (kernel_runs Sections al) }
          else None
      | _ \<Rightarrow> None)"

text \<open>The kernel as the Go side calls it; the text of an error is the runtime's.\<close>

definition shen_kernel :: "string \<Rightarrow> sexp \<Rightarrow> sexp" where
  "shen_kernel err x = (case check_world x of Some js \<Rightarrow> slst js | None \<Rightarrow> SErr err)"

section \<open>What a check is to report\<close>

definition lets_run :: "string list \<Rightarrow> string list \<Rightarrow> bool" where
  "lets_run al gates = (al = [] \<or> (\<exists>g \<in> set gates. g \<in> set al))"

text \<open>The rules in order: the codes any of which lets the rule run, and its marked findings.\<close>

definition kernel_entries :: "IgnoreDiffEntry list \<Rightarrow> World \<Rightarrow> Step list \<Rightarrow> (string list \<times> Diagnostic list) list" where
  "kernel_entries es w steps =
     (let crds = SortFunc (w_CRDs w) crdCmp; xrds = SortFunc (w_XRDs w) crdCmp; comps = SortFunc (w_Compositions w) compositionCmp;
          fns = SortFunc (w_Functions w) functionCmp; provs = SortFunc (w_Providers w) providerCmp;
          res = SortFunc (w_Resources w) resourceCmp; apps = SortFunc (w_ArgoApps w) argoAppCmp;
          sets = SortFunc (w_ArgoAppSets w) appSetFinalizerCmp; renders = SortFunc (w_RenderResults w) renderResultCmp;
          rule = (\<lambda>code ds. ([code], mark code ds))
      in [rule ''XPC001'' (r1_findings crds xrds), rule ''XPC002'' (r2_findings res crds), rule ''XPC003'' (r3_findings comps xrds),
          rule ''XPC004'' (r4_findings comps fns), rule ''XPC005'' (r5_findings comps), rule ''XPC006'' (r6_findings apps comps xrds fns),
          rule ''XPC006'' (r6c_findings apps crds), rule ''XPC007'' (r7_findings apps comps), rule ''XPC008'' [],
          rule ''XPC009'' (r9_findings res), rule ''XPC010'' (r10_findings comps), rule ''XPC011'' (r11_findings res comps provs crds),
          rule ''XPC012'' (map r12_finding (SortFunc (buildR12Violations (w_MountRefs w) steps) r12ViolationCmp)),
          rule ''XPC014'' (map r14_finding (SortFunc (buildR14Violations (w_SARefs w) (w_RBACBindings w) steps) r14ViolationCmp)),
          rule ''XPC.D.kind-whitelisted'' (map r15_finding (SortFunc (buildR15Violations w) r15ViolationCmp)),
          rule ''XPC.E.selector-needs-ignore-diff'' (map r16_finding (SortFunc (buildR16Violations (w_SelectorUsages w) es) r16ViolationCmp)),
          rule ''XPC.A.resource-field-valid'' (map r17_finding (SortFunc (w_ResourceFieldFacts w) resourceFieldFactCmp)),
          rule ''XPC.H.helm-renders'' (r18_findings renders), rule ''XPC.H.values-well-typed'' (concat (map r19_findings renders)),
          rule ''XPC.H.render-deterministic'' (r20_findings (SortFunc (w_DeterminismResults w) determinismResultCmp)),
          rule ''XPC.E.late-init-needs-ignore-diff'' (map r21_finding (SortFunc (buildR21Violations (w_LateInitUsages w) es) r21ViolationCmp)),
          ([r22_observe, r22_partial, r22_nondefault],
           r22_marked (r22_findings (if w_SSAMPMode w \<in> {''observe'', ''partial'', ''any''} then w_SSAMPMode w else ''observe'')
             (SortFunc (w_SSAMPConflicts w) ssaMPConflictCmp))),
          rule ''XPC.S.crossplane-state-needs-orphan''
            (r23_findings (SortFunc (w_CPDeletionPolicyFacts w) cpDeletionPolicyCmp) (mgetl (w_NameCarveouts w) ''crossplane-state-needs-orphan'')),
          rule ''XPC.E.appset-finalizer-without-preserve'' (r24_findings sets),
          rule ''XPC.E.prod-appset-autosync'' (r25_findings sets (w_ProdPatterns w)),
          rule ''XPC.B.providerconfig-resolves'' (map r28_finding (SortFunc (buildProviderConfigRefViolations w) providerConfigRefViolationCmp)),
          rule ''XPC.E.fargate-claim-env-label'' (map r29_finding (SortFunc (buildFargateEnvLabelViolations w) fargateEnvLabelViolationCmp)),
          rule ''XPC.K.externalsecret-store'' (map r30_finding (SortFunc (buildESOStoreViolations w) esoStoreViolationCmp)),
          rule ''XPC.M.forprovider-canonical-form''
            (map r31_finding (SortFunc (buildCanonicalFormViolations (w_CanonicalFormUsages w) @
               buildCanonicalFormTemplateViolations (w_CanonicalFormTemplateFindings w)) r31ViolationCmp)),
          rule ''XPC.M.observed-desired-fixed-point'' (map r32_finding (SortFunc (buildFixedPointViolations (w_FixedPointUsages w)) r32ViolationCmp)),
          rule ''XPC.M.duplicate-env-key'' (map r33_finding (SortFunc (buildDuplicateEnvViolations (w_DuplicateEnvFindings w)) r33ViolationCmp)),
          rule ''XPC.M.computed-block-alias'' (map r34_finding (SortFunc (buildComputedBlockAliasViolations (w_ComputedBlockAliasFindings w)) r34ViolationCmp)),
          rule ''XPC.I.must-adopt-external-name'' (map r35_finding (SortFunc (buildExternalNameAdoptViolations (w_ExternalNameAdoptFindings w)) r35ViolationCmp)),
          rule ''XPC.S.orphaned-sgref'' (map r36_finding (SortFunc (buildOrphanSGRefViolations (w_OrphanSGRefFindings w)) r36ViolationCmp))])"

definition world_entries :: "World \<Rightarrow> Step list \<Rightarrow> (string list \<times> Diagnostic list) list" where
  "world_entries w steps = (case getIgnoreDiffEntries w of (es, w1) \<Rightarrow> kernel_entries es w1 steps)"

definition kernel_findings :: "World \<Rightarrow> Step list \<Rightarrow> string list \<Rightarrow> Diagnostic list" where
  "kernel_findings w steps al = concat (map snd (filter (\<lambda>(gates, _). lets_run al gates) (world_entries w steps)))"

section \<open>The kernel refines it\<close>

lemma rule_allowed_obj: "rule_allowed_p code (map SStr al) = (al = [] \<or> code \<in> set al)"
proof -
  have "rule_member_p code (map SStr al) = (code \<in> set al)" by (induction al) auto
  then show ?thesis by (simp add: rule_allowed_p_def)
qed

lemma extract_section_section: "extract_section tag (SCons (SSym t) c # rest) = (if t = tag then c else extract_section tag rest)"
  by simp

lemma sections_objs:
  "section_obj sexp_kl t fs = SCons (SSym t) (slst fs)"
  "sortedSection sexp_kl t xs lt obj = SCons (SSym t) (slst (map obj (SortFunc xs lt)))"
  "stringListSection sexp_kl t ss = SCons (SSym t) (slst (map SStr ss))"
  "ssaMPModeSection sexp_kl m = SCons (SSym ''ssa-mp-mode'') (SCons (SSym (if m \<in> {''observe'', ''partial'', ''any''} then m else ''observe'')) SNil)"
  "prodPatternsSection sexp_kl ps = SCons (SSym ''prod-patterns'') (slst (map SStr ps))"
  "trajectoryToObj sexp_kl steps = SCons (SSym ''trajectory'') (slst (map (stepToObj sexp_kl) steps))"
  by (simp_all add: section_obj_def sortedSection_def stringListSection_def ssaMPModeSection_def prodPatternsSection_def
      trajectoryToObj_def sexp_kl_fields[abs_def] sexp_simps)

lemma dispatch_refines:
  "dispatch code (map SStr al) (Some (map J ds)) = Some (if lets_run al [code] then map J (mark code ds) else [])"
  by (simp add: dispatch_def rule_allowed_obj mark_rule_mark lets_run_def)

text \<open>The names of the sections the bridge writes, in its order, and what each name selects.\<close>

definition section_names :: "string list" where
  "section_names =
     [''crds'', ''xrds'', ''compositions'', ''functions'', ''providers'',
      ''configurations'', ''resources'', ''argo-apps'', ''argo-app-proj-links'', ''argo-appprojects'',
      ''appset-finalizer-facts'', ''appset-autosync-facts'', ''schemas'', ''resolved-patches'', ''mount-refs'',
      ''sa-refs'', ''rbac-bindings'', ''rbac-rules'', ''immutable-fields'', ''selector-mappings'',
      ''selector-usages'', ''late-init-mappings'', ''late-init-usages'', ''ignore-diff-entries'', ''resource-field-facts'',
      ''render-results'', ''determinism-results'', ''ssa-mp-conflicts'', ''ssa-mp-mode'', ''crossplane-deletion-policy-facts'',
      ''prod-patterns'', ''crossplane-state-needs-orphan-carveouts'', ''r12-violations'', ''r14-violations'', ''r15-violations'',
      ''r16-violations'', ''r21-violations'', ''canonical-form-violations'', ''fixed-point-violations'', ''duplicate-env-violations'',
      ''computed-block-alias-violations'', ''external-name-adopt-violations'', ''orphan-sgref-violations'', ''providerconfig-ref-violations'', ''fargate-env-label-violations'',
      ''eso-store-violations'', ''trajectory'', ''rule-allowlist'']"

definition named_sections :: "sexp list \<Rightarrow> sexp list" where
  "named_sections contents = map2 (\<lambda>t c. SCons (SSym t) c) section_names contents"

lemma named_section:
  assumes "C = named_sections
     [c0, c1, c2, c3, c4, c5, c6, c7, c8, c9, c10, c11, c12, c13, c14, c15,
      c16, c17, c18, c19, c20, c21, c22, c23, c24, c25, c26, c27, c28, c29, c30, c31,
      c32, c33, c34, c35, c36, c37, c38, c39, c40, c41, c42, c43, c44, c45, c46, c47]"
  shows
    "extract_section ''crds'' C = c0"
    "extract_section ''xrds'' C = c1"
    "extract_section ''compositions'' C = c2"
    "extract_section ''functions'' C = c3"
    "extract_section ''providers'' C = c4"
    "extract_section ''resources'' C = c6"
    "extract_section ''argo-apps'' C = c7"
    "extract_section ''appset-finalizer-facts'' C = c10"
    "extract_section ''appset-autosync-facts'' C = c11"
    "extract_section ''resolved-patches'' C = c13"
    "extract_section ''resource-field-facts'' C = c24"
    "extract_section ''render-results'' C = c25"
    "extract_section ''determinism-results'' C = c26"
    "extract_section ''ssa-mp-conflicts'' C = c27"
    "extract_section ''ssa-mp-mode'' C = c28"
    "extract_section ''crossplane-deletion-policy-facts'' C = c29"
    "extract_section ''prod-patterns'' C = c30"
    "extract_section ''crossplane-state-needs-orphan-carveouts'' C = c31"
    "extract_section ''r12-violations'' C = c32"
    "extract_section ''r14-violations'' C = c33"
    "extract_section ''r15-violations'' C = c34"
    "extract_section ''r16-violations'' C = c35"
    "extract_section ''r21-violations'' C = c36"
    "extract_section ''canonical-form-violations'' C = c37"
    "extract_section ''fixed-point-violations'' C = c38"
    "extract_section ''duplicate-env-violations'' C = c39"
    "extract_section ''computed-block-alias-violations'' C = c40"
    "extract_section ''external-name-adopt-violations'' C = c41"
    "extract_section ''orphan-sgref-violations'' C = c42"
    "extract_section ''providerconfig-ref-violations'' C = c43"
    "extract_section ''fargate-env-label-violations'' C = c44"
    "extract_section ''eso-store-violations'' C = c45"
    "extract_section ''rule-allowlist'' C = c47"
  by (simp_all add: assms named_sections_def section_names_def)

definition world_contents :: "IgnoreDiffEntry list \<Rightarrow> World \<Rightarrow> Step list \<Rightarrow> string list \<Rightarrow> sexp list" where
  "world_contents es w steps al =
     [slst (map (crdToObj sexp_kl) (SortFunc (w_CRDs w) crdCmp)),
      slst (map (xrdToObj sexp_kl) (SortFunc (w_XRDs w) crdCmp)),
      slst (map (compositionToObj sexp_kl) (SortFunc (w_Compositions w) compositionCmp)),
      slst (map (functionToObj sexp_kl) (SortFunc (w_Functions w) functionCmp)),
      slst (map (providerToObj sexp_kl) (SortFunc (w_Providers w) providerCmp)),
      slst (map (configToObj sexp_kl) (SortFunc (w_Configurations w) configCmp)),
      slst (map (resourceToObj sexp_kl) (SortFunc (w_Resources w) resourceCmp)),
      slst (map (argoAppToObj sexp_kl) (SortFunc (w_ArgoApps w) argoAppCmp)),
      slst (map (argoAppProjLinkToObj sexp_kl) (SortFunc (w_ArgoApps w) argoAppCmp)),
      slst (map (argoAppProjectToObj sexp_kl) (SortFunc (w_ArgoProjects w) argoAppProjectCmp)),
      slst (map (appSetFinalizerToObj sexp_kl) (SortFunc (w_ArgoAppSets w) appSetFinalizerCmp)),
      slst (map (appSetAutosyncToObj sexp_kl) (SortFunc (w_ArgoAppSets w) appSetFinalizerCmp)),
      slst [],
      slst (patch_objs sexp_kl (SortFunc (w_Compositions w) compositionCmp)),
      slst (map (mountRefToObj sexp_kl) (SortFunc (w_MountRefs w) mountRefCmp)),
      slst (map (saRefToObj sexp_kl) (SortFunc (w_SARefs w) saRefCmp)),
      slst (map (rbacBindingToObj sexp_kl) (SortFunc (w_RBACBindings w) rbacBindingCmp)),
      slst (map (rbacRuleToObj sexp_kl) (SortFunc (w_RBACRules w) rbacRuleCmp)),
      slst (map (immutableFieldToObj sexp_kl) (SortFunc (case w_ImmutableFields w of Some xs \<Rightarrow> xs | None \<Rightarrow> []) immutableFieldCmp)),
      slst (map (selectorMappingToObj sexp_kl) (SortFunc (w_SelectorMappings w) selectorMappingCmp)),
      slst (map (selectorUsageToObj sexp_kl) (SortFunc (w_SelectorUsages w) selectorUsageCmp)),
      slst (map (lateInitMappingToObj sexp_kl) (SortFunc (w_LateInitMappings w) lateInitMappingCmp)),
      slst (map (lateInitUsageToObj sexp_kl) (SortFunc (w_LateInitUsages w) lateInitUsageCmp)),
      slst (map (ignoreDiffEntryToObj sexp_kl) (SortFunc es ignoreDiffEntryCmp)),
      slst (map (resourceFieldFactToObj sexp_kl) (SortFunc (w_ResourceFieldFacts w) resourceFieldFactCmp)),
      slst (map (renderResultToObj sexp_kl) (SortFunc (w_RenderResults w) renderResultCmp)),
      slst (map (determinismResultToObj sexp_kl) (SortFunc (w_DeterminismResults w) determinismResultCmp)),
      slst (map (ssaMPConflictToObj sexp_kl) (SortFunc (w_SSAMPConflicts w) ssaMPConflictCmp)),
      SCons (SSym (if w_SSAMPMode w \<in> {''observe'', ''partial'', ''any''} then w_SSAMPMode w else ''observe'')) SNil,
      slst (map (cpDeletionPolicyToObj sexp_kl) (SortFunc (w_CPDeletionPolicyFacts w) cpDeletionPolicyCmp)),
      slst (map SStr (w_ProdPatterns w)),
      slst (map SStr (mgetl (w_NameCarveouts w) ''crossplane-state-needs-orphan'')),
      slst (map (r12ViolationToObj sexp_kl) (SortFunc (buildR12Violations (w_MountRefs w) steps) r12ViolationCmp)),
      slst (map (r14ViolationToObj sexp_kl) (SortFunc (buildR14Violations (w_SARefs w) (w_RBACBindings w) steps) r14ViolationCmp)),
      slst (map (r15ViolationToObj sexp_kl) (SortFunc (buildR15Violations w) r15ViolationCmp)),
      slst (map (r16ViolationToObj sexp_kl) (SortFunc (buildR16Violations (w_SelectorUsages w) es) r16ViolationCmp)),
      slst (map (r21ViolationToObj sexp_kl) (SortFunc (buildR21Violations (w_LateInitUsages w) es) r21ViolationCmp)),
      slst (map (r31ViolationToObj sexp_kl) (SortFunc (buildCanonicalFormViolations (w_CanonicalFormUsages w) @ buildCanonicalFormTemplateViolations (w_CanonicalFormTemplateFindings w)) r31ViolationCmp)),
      slst (map (r32ViolationToObj sexp_kl) (SortFunc (buildFixedPointViolations (w_FixedPointUsages w)) r32ViolationCmp)),
      slst (map (r33ViolationToObj sexp_kl) (SortFunc (buildDuplicateEnvViolations (w_DuplicateEnvFindings w)) r33ViolationCmp)),
      slst (map (r34ViolationToObj sexp_kl) (SortFunc (buildComputedBlockAliasViolations (w_ComputedBlockAliasFindings w)) r34ViolationCmp)),
      slst (map (r35ViolationToObj sexp_kl) (SortFunc (buildExternalNameAdoptViolations (w_ExternalNameAdoptFindings w)) r35ViolationCmp)),
      slst (map (r36ViolationToObj sexp_kl) (SortFunc (buildOrphanSGRefViolations (w_OrphanSGRefFindings w)) r36ViolationCmp)),
      slst (map (providerConfigRefViolationToObj sexp_kl) (SortFunc (buildProviderConfigRefViolations w) providerConfigRefViolationCmp)),
      slst (map (fargateEnvLabelViolationToObj sexp_kl) (SortFunc (buildFargateEnvLabelViolations w) fargateEnvLabelViolationCmp)),
      slst (map (esoStoreViolationToObj sexp_kl) (SortFunc (buildESOStoreViolations w) esoStoreViolationCmp)),
      slst (map (stepToObj sexp_kl) steps),
      slst (map SStr al)]"

lemma world_sections:
  assumes "getIgnoreDiffEntries w0 = (es, w)"
  shows "fst (worldStaticSections sexp_kl w0 steps) @ [stringListSection sexp_kl ''rule-allowlist'' al] = named_sections (world_contents es w steps al)"
  by (simp add: worldStaticSections_def assms sections_objs named_sections_def section_names_def world_contents_def Let_def)

lemma kernel_runs_refine:
  assumes "\<not> (r8_trips (SortFunc (w_Resources w) resourceCmp) \<and> lets_run al [''XPC008''])"
  shows "kernel_runs (named_sections (world_contents es w steps al)) (map SStr al) =
     map (\<lambda>(gates, ds). Some (if lets_run al gates then map J ds else [])) (kernel_entries es w steps)"
proof -
  have r8: "dispatch ''XPC008'' (map SStr al) (check_r8 (slst (map (resourceToObj sexp_kl) (SortFunc (w_Resources w) resourceCmp))) xs) =
      Some (if lets_run al [''XPC008''] then map J (mark ''XPC008'' []) else [])" for xs
    using assms dispatch_refines[of "''XPC008''" al "[]"] by (auto simp: r8_exact dispatch_def rule_allowed_obj lets_run_def)
  have r22: "(if rule_allowed_p r22_observe (map SStr al) \<or> rule_allowed_p r22_partial (map SStr al) \<or> rule_allowed_p r22_nondefault (map SStr al)
      then map_option mark_r22_rules (Some (map J ds)) else Some []) =
      Some (if lets_run al [r22_observe, r22_partial, r22_nondefault] then map J (r22_marked ds) else [])" for ds
    by (auto simp: rule_allowed_obj lets_run_def mark_r22_marked)
  show ?thesis
    unfolding kernel_runs_def world_contents_def Let_def named_section[OF refl] kernel_entries_def
      r1_refines r2_refines r3_refines r4_refines r5_refines r6_refines r6c_refines r7_refines r9_refines r10_refines r11_refines
      r12_refines r14_refines r15_refines r16_refines r17_refines r18_refines r19_refines r20_refines r21_refines r22_refines
      r23_refines r24_refines r25_refines r28_refines r29_refines r30_refines r31_refines r32_refines r33_refines r34_refines
      r35_refines r36_refines dispatch_refines r8 r22
    by (simp only: list.map prod.case)
qed

lemma getIgnoreDiff_Resources: "getIgnoreDiffEntries w = (es, w1) \<Longrightarrow> w_Resources w1 = w_Resources w"
  by (auto simp: getIgnoreDiffEntries_def Let_def split: option.splits)

lemma flat_map_results: "flat_map (\<lambda>r. r) (map (\<lambda>(gates, ds). Some (if lets_run al gates then map J ds else [])) es) =
    Some (map J (concat (map snd (filter (\<lambda>(gates, _). lets_run al gates) es))))"
  by (induction es) (auto simp: flat_map_def)

lemma world_obj_sections:
  assumes "getIgnoreDiffEntries w = (es, w1)"
  shows "worldObjFromSections sexp_kl (fst (worldStaticSections sexp_kl w steps)) al =
           SCons (SSym ''world'') (slst (named_sections (world_contents es w1 steps al)))"
  by (simp add: worldObjFromSections_def sexp_kl_fields slst_Cons world_sections[OF assms])

lemma allowlist_section: "elems (extract_section ''rule-allowlist'' (named_sections (world_contents es w steps al))) = Some (map SStr al)"
  unfolding world_contents_def named_section[OF refl] by simp

lemma kernel_runs_None:
  assumes "r8_trips (w_Resources w)" "lets_run al [''XPC008'']"
  shows "None \<in> set (kernel_runs (named_sections (world_contents es w steps al)) (map SStr al))"
proof -
  have "dispatch ''XPC008'' (map SStr al) (check_r8 (slst (map (resourceToObj sexp_kl) (SortFunc (w_Resources w) resourceCmp))) xs) = None" for xs
    using assms by (auto simp: r8_exact r8_trips_def dispatch_def rule_allowed_obj lets_run_def)
  then show ?thesis
    unfolding kernel_runs_def world_contents_def Let_def named_section[OF refl] by simp
qed

lemma check_world_exact:
  "check_world (worldObjFromSections sexp_kl (fst (worldStaticSections sexp_kl w steps)) al) =
     (if r8_trips (w_Resources w) \<and> lets_run al [''XPC008''] then None else Some (map J (kernel_findings w steps al)))"
proof -
  obtain es w1 where i: "getIgnoreDiffEntries w = (es, w1)" by fastforce
  have res: "w_Resources w1 = w_Resources w" by (rule getIgnoreDiff_Resources[OF i])
  have run: "check_world (worldObjFromSections sexp_kl (fst (worldStaticSections sexp_kl w steps)) al) =
      flat_map (\<lambda>r. r) (kernel_runs (named_sections (world_contents es w1 steps al)) (map SStr al))"
    by (simp add: check_world_def world_obj_sections[OF i] allowlist_section)
  show ?thesis
  proof (cases "r8_trips (w_Resources w) \<and> lets_run al [''XPC008'']")
    case True
    then have "omap (\<lambda>r. r) (kernel_runs (named_sections (world_contents es w1 steps al)) (map SStr al)) = None"
      using kernel_runs_None[of w1 al es steps] res by (auto simp: omap_None_iff)
    then show ?thesis using True by (simp add: run flat_map_def)
  next
    case False
    then have "\<not> (r8_trips (SortFunc (w_Resources w1) resourceCmp) \<and> lets_run al [''XPC008''])"
      by (simp add: r8_trips_def res)
    then show ?thesis
      using False by (simp add: run kernel_runs_refine flat_map_results kernel_findings_def world_entries_def i)
  qed
qed

text \<open>
  C1: the kernel computes what the World says it is to report.  On every World the Go side
  serializes, and for every allowlist, the Shen program \<^verbatim>\<open>check-world\<close> returns the judgments of the
  rules the allowlist lets run, in the order of the rules, each with exactly the findings
  stated on the World's records, and a marker for a rule that found nothing.  It raises an
  error in one case only: rule R8 is let run and a resource carries the annotation R8 looks for.
\<close>

theorem check_world_refines:
  "check_world (fst (worldToShenObj sexp_kl w steps al)) =
     (if r8_trips (w_Resources w) \<and> lets_run al [''XPC008''] then None else Some (map J (kernel_findings w steps al)))"
proof -
  have "fst (worldToShenObj sexp_kl w steps al) = worldObjFromSections sexp_kl (fst (worldStaticSections sexp_kl w steps)) al"
    by (simp add: worldToShenObj_def split: prod.splits)
  then show ?thesis by (simp only: check_world_exact)
qed

end
