(* ===== verification/KernelRun.thy ===== *)
theory KernelRun
  imports KernelCheck
begin

text \<open>
  Checks with the modelled kernel: which codes a rule reports, what an unprofiled and a profiled run
  report, and what single rules guarantee of the World from end to end.
\<close>

section \<open>Codes\<close>

definition reports :: "string list \<Rightarrow> Diagnostic list \<Rightarrow> bool" where
  "reports codes ds = (\<forall>d \<in> set ds. dg_Code d \<in> set codes \<and> kernel_diag d \<and> dg_Severity d \<in> {SeverityError, SeverityWarning})"

lemma reports_Nil [simp]: "reports codes []"
  and reports_append [simp]: "reports codes (xs @ ys) = (reports codes xs \<and> reports codes ys)"
  by (auto simp: reports_def)

lemma reports_concat: "reports codes (concat (map f xs)) = (\<forall>x \<in> set xs. reports codes (f x))"
  by (auto simp: reports_def)

lemma reports_map: "reports codes (map h ys) = (\<forall>y \<in> set ys. reports codes [h y])"
  by (auto simp: reports_def)

lemma reports_finding [simp]:
  "reports codes [error_finding code s msg detail fix related] = (code \<in> set codes)"
  "reports codes [warn_finding code s msg detail fix related] = (code \<in> set codes)"
  by (simp_all add: reports_def kernel_diag_finding)

named_theorems rule_codes \<open>the codes of the findings of each rule\<close>

lemma r1_codes [rule_codes]: "reports [''XPC001''] (r1_findings crds xrds)"
  by (simp add: r1_findings_def reports_concat r1_crd_findings_def r1_xrd_findings_def r1_unserved_def reports_map r1a_finding_def Let_def)

lemma r2_codes [rule_codes]: "reports [''XPC002''] (r2_findings rs crds)"
  by (auto simp: r2_findings_def reports_concat r2_finding_def reports_map)

lemma r3_codes [rule_codes]: "reports [''XPC003''] (r3_findings comps xrds)"
  by (auto simp: r3_findings_def reports_concat r3_composition_findings_def reports_map r3a_finding_def r3b_finding_def Let_def)

lemma r4_codes [rule_codes]: "reports [''XPC004''] (r4_findings comps fns)"
  by (auto simp: r4_findings_def reports_concat r4_composition_findings_def r4_step_findings_def reports_map r4a_finding_def r4b_finding_def Let_def)

lemma r5_codes [rule_codes]: "reports [''XPC005''] (r5_findings comps)"
  by (auto simp: r5_findings_def reports_concat r5_row_findings_def)

lemma r6_codes [rule_codes]: "reports [''XPC006''] (r6_findings apps comps xrds fns)"
  by (simp add: r6_findings_def reports_concat r6_app_findings_def r6a_findings_def r6d_findings_def r6b_findings_def reports_map
      r6b_pair_findings_def Let_def)

lemma r6c_codes [rule_codes]: "reports [''XPC006''] (r6c_findings apps crds)"
  by (simp add: r6c_findings_def reports_concat r6c_app_findings_def reports_map r6c_finding_def)

lemma r7_codes [rule_codes]: "reports [''XPC007''] (r7_findings apps comps)"
  by (simp add: r7_findings_def reports_concat r7_app_findings_def reports_map r7_finding_def)

lemma r9_codes [rule_codes]: "reports [''XPC009''] (r9_findings rs)"
  by (simp add: r9_findings_def reports_map r9_finding_def)

lemma r10_codes [rule_codes]: "reports [''XPC010''] (r10_findings comps)"
  by (auto simp: r10_findings_def reports_concat r10_row_findings_def)

lemma r11_codes [rule_codes]: "reports [''XPC011''] (r11_findings rs comps provs crds)"
  by (simp add: r11_findings_def reports_concat r11_resource_findings_def r11_composition_findings_def r11_provider_findings_def
      r11_crd_findings_def reports_map split_beta Let_def)

lemma violation_codes [rule_codes]:
  "reports [''XPC012''] (map r12_finding v12)" "reports [''XPC014''] (map r14_finding v14)"
  "reports [''XPC.D.kind-whitelisted''] (map r15_finding v15)" "reports [''XPC.E.selector-needs-ignore-diff''] (map r16_finding v16)"
  "reports [''XPC.A.resource-field-valid''] (map r17_finding v17)" "reports [''XPC.E.late-init-needs-ignore-diff''] (map r21_finding v21)"
  "reports [''XPC.B.providerconfig-resolves''] (map r28_finding v28)" "reports [''XPC.E.fargate-claim-env-label''] (map r29_finding v29)"
  "reports [''XPC.K.externalsecret-store''] (map r30_finding v30)" "reports [''XPC.M.forprovider-canonical-form''] (map r31_finding v31)"
  "reports [''XPC.M.observed-desired-fixed-point''] (map r32_finding v32)" "reports [''XPC.M.duplicate-env-key''] (map r33_finding v33)"
  "reports [''XPC.M.computed-block-alias''] (map r34_finding v34)" "reports [''XPC.I.must-adopt-external-name''] (map r35_finding v35)"
  "reports [''XPC.S.orphaned-sgref''] (map r36_finding v36)"
  by (simp_all add: reports_map r12_finding_def r14_finding_def r15_finding_def r16_finding_def r17_finding_def r21_finding_def
      r28_finding_def r29_finding_def r30_finding_def r31_finding_def r32_finding_def r33_finding_def r34_finding_def r35_finding_def
      r36_finding_def Let_def)

text \<open>The render rule reports under three codes, whichever of them let it run.\<close>

abbreviation "render_codes \<equiv> [''XPC.H.helm-renders'', ''XPC.H.kustomize-renders'', ''XPC.H.composition-renders'']"

lemma r18_codes_all [rule_codes]: "reports render_codes (r18_findings rs)"
  by (simp add: r18_findings_def reports_map r18_finding_def r18_code_for_kind_def Let_def)

lemma r19_codes [rule_codes]: "reports [''XPC.H.values-well-typed''] (concat (map r19_findings rs))"
  by (simp add: reports_concat r19_findings_def reports_map)

lemma r20_codes [rule_codes]: "reports [''XPC.H.render-deterministic''] (r20_findings rs)"
  by (simp add: r20_findings_def reports_map)

abbreviation "r22_all \<equiv> [r22_observe, r22_partial, r22_nondefault]"

lemma r22_codes_all [rule_codes]: "reports r22_all (r22_findings mode cs)"
  by (simp add: r22_findings_def reports_concat r22_row_findings_def r22_finding_def Let_def)

lemma floor_codes [rule_codes]:
  "reports [''XPC.S.crossplane-state-needs-orphan''] (r23_findings fs carve)"
  "reports [''XPC.E.appset-finalizer-without-preserve''] (r24_findings sets)"
  "reports [''XPC.E.prod-appset-autosync''] (r25_findings sets patterns)"
  by (simp_all add: r23_findings_def r24_findings_def r25_findings_def reports_map r23_finding_def r24_finding_def r25_finding_def)

section \<open>Marked findings\<close>

text \<open>An entry: its diagnostics decode, and what of them is visible has a code of the entry.\<close>

definition entry_codes :: "string list \<Rightarrow> string list" where
  "entry_codes gates = (if gates = [''XPC.H.helm-renders''] then render_codes else gates)"

definition entry_ok :: "string list \<times> Diagnostic list \<Rightarrow> bool" where
  "entry_ok e = (case e of (gates, ds) \<Rightarrow> ds \<noteq> [] \<and> (\<forall>d \<in> set ds. dg_Code d \<in> set (entry_codes gates) \<and> kernel_diag d))"

lemma satisfied_marker_ok [simp]: "dg_Code (satisfied_marker code) = code" "kernel_diag (satisfied_marker code)"
  "dg_Severity (satisfied_marker code) = severitySatisfied"
  by (simp_all add: satisfied_marker_def kernel_diag_finding)

lemma entry_ok_mark: "reports (entry_codes [code]) ds \<Longrightarrow> entry_ok ([code], mark code ds)"
  by (auto simp: entry_ok_def mark_def reports_def entry_codes_def)

lemma entry_ok_r22: "reports r22_all ds \<Longrightarrow> entry_ok (r22_all, r22_marked ds)"
  by (auto simp: entry_ok_def r22_marked_def mark_def reports_def entry_codes_def)

lemma kernel_entries_ok: "list_all entry_ok (kernel_entries es w steps)"
proof -
  have plain: "entry_ok ([code], mark code ds)" if "code \<noteq> ''XPC.H.helm-renders''" "reports [code] ds" for code ds
    using that by (intro entry_ok_mark) (simp add: entry_codes_def)
  have helm: "entry_ok ([''XPC.H.helm-renders''], mark ''XPC.H.helm-renders'' (r18_findings rs))" for rs
    by (intro entry_ok_mark) (simp add: entry_codes_def rule_codes)
  show ?thesis
    unfolding kernel_entries_def Let_def list.pred_inject(2)
    by (intro conjI; (rule list.pred_inject(1) | rule helm | (rule entry_ok_r22, rule rule_codes) |
        (rule plain, simp, (rule rule_codes | rule reports_Nil))))
qed

lemma entries_ok: "list_all entry_ok (world_entries w steps)"
  by (simp add: world_entries_def kernel_entries_ok split: prod.split)

lemma findings_ok:
  assumes "d \<in> set (kernel_findings w steps al)"
  obtains gates where "kernel_diag d" "lets_run al gates" "dg_Code d \<in> set (entry_codes gates)" "gates \<in> fst ` set (world_entries w steps)"
proof -
  from assms obtain gates ds where e: "(gates, ds) \<in> set (world_entries w steps)" "lets_run al gates" "d \<in> set ds"
    by (auto simp: kernel_findings_def)
  have "entry_ok (gates, ds)" using entries_ok[of w steps] e(1) unfolding list_all_iff by (rule bspec)
  then have "kernel_diag d" "dg_Code d \<in> set (entry_codes gates)" using e(3) unfolding entry_ok_def by auto
  moreover have "gates \<in> fst ` set (world_entries w steps)" using e(1) by (rule rev_image_eqI) simp
  ultimately show thesis using e(2) by (intro that)
qed

section \<open>Runs with the modelled kernel\<close>

lemma checked_world_Resources [simp]: "w_Resources (checked_world w) = w_Resources w"
  by (simp add: checked_world_def resolvePatchTypes_def BuildSchemaIndex_def enrichSyncWaves_def Let_def
      split: option.splits prod.splits)

text \<open>What one call of the kernel comes back as.\<close>

definition call_findings :: "string \<Rightarrow> World \<Rightarrow> Step list \<Rightarrow> string list \<Rightarrow> Diagnostic list" where
  "call_findings msg w steps al =
     (if r8_trips (w_Resources w) \<and> lets_run al [''XPC008''] then [error_diag msg] else kernel_findings w steps al)"

lemma kernel_call:
  assumes "result = shen_kernel err (worldObjFromSections sexp_kl (fst (worldStaticSections sexp_kl w steps)) al)"
  shows "(if kl_IsError sexp_kl result then [error_diag (msg @ kl_ObjString sexp_kl result)] else objToDiagnostics sexp_kl result) =
           call_findings (msg @ err) w steps al"
proof (cases "r8_trips (w_Resources w) \<and> lets_run al [''XPC008'']")
  case True
  then show ?thesis by (simp add: assms shen_kernel_def check_world_exact call_findings_def) (simp add: sexp_kl_def)
next
  case False
  have "\<forall>d \<in> set (kernel_findings w steps al). kernel_diag d" by (blast elim: findings_ok)
  then have "objToDiagnostics sexp_kl (slst (map J (kernel_findings w steps al))) = kernel_findings w steps al"
    by (rule decode_judgments[OF sexp_kl_ok])
  moreover have "\<not> kl_IsError sexp_kl (slst js)" for js
    by (cases js) (simp_all add: sexp_simps)
  moreover have "result = slst (map J (kernel_findings w steps al))"
    unfolding assms shen_kernel_def check_world_exact if_not_P[OF False] by simp
  ultimately show ?thesis unfolding call_findings_def if_not_P[OF False] by simp
qed

lemma error_result_diags: "run_Diagnostics (error_result msg) = visible [error_diag msg]"
  by (simp add: error_result_def visible_def error_diag_def)

lemma single_run:
  assumes "initShen (ck_KernelPath cfg) = None" "\<not> ck_ProfileRules cfg"
  shows "Check sexp_kl initShen (shen_kernel err) w cfg =
           visible (call_findings (''check-world: '' @ err) (checked_world w) (Simulate (checked_world w)) (ck_RuleAllowlist cfg))"
proof -
  obtain secs w2 where st: "worldStaticSections sexp_kl (checked_world w) (Simulate (checked_world w)) = (secs, w2)" by fastforce
  show ?thesis
    unfolding kernel_call[OF refl, symmetric] using assms
    by (simp add: Check_def CheckWithObligations_def checked_world_def[symmetric] worldToShenObj_def st Let_def
        run_Diagnostics_build error_result_diags)
qed

lemma profiled_run:
  assumes "initShen (ck_KernelPath cfg) = None" "ck_ProfileRules cfg"
  shows "Check sexp_kl initShen (shen_kernel err) w cfg =
           visible (concat (map (\<lambda>g. call_findings (rg_Name g @ '': check-world: '' @ err) (checked_world w) (Simulate (checked_world w)) (rg_Codes g))
             (selectedRuleGroups (ck_RuleAllowlist cfg))))"
proof -
  obtain secs w2 where st: "worldStaticSections sexp_kl (checked_world w) (Simulate (checked_world w)) = (secs, w2)" by fastforce
  have "group_raw sexp_kl (shen_kernel err) secs = (\<lambda>g. call_findings (rg_Name g @ '': check-world: '' @ err) (checked_world w) (Simulate (checked_world w)) (rg_Codes g))"
  proof
    show "group_raw sexp_kl (shen_kernel err) secs g =
      call_findings (rg_Name g @ '': check-world: '' @ err) (checked_world w) (Simulate (checked_world w)) (rg_Codes g)" for g
    using kernel_call[OF refl, of err "checked_world w" "Simulate (checked_world w)" "rg_Codes g" "rg_Name g @ '': check-world: ''"]
    by (simp only: group_raw_def st Let_def fst_conv append_assoc)
  qed
  then show ?thesis using assms
    by (simp add: Check_def CheckWithObligations_def checked_world_def[symmetric] profileRules_def st Let_def run_Diagnostics_build o_def)
qed

section \<open>The table of rules\<close>

definition entry_gates :: "string list list" where
  "entry_gates = [[''XPC001''], [''XPC002''], [''XPC003''], [''XPC004''], [''XPC005''], [''XPC006''], [''XPC006''], [''XPC007''],
     [''XPC008''], [''XPC009''], [''XPC010''], [''XPC011''], [''XPC012''], [''XPC014''], [''XPC.D.kind-whitelisted''],
     [''XPC.E.selector-needs-ignore-diff''], [''XPC.A.resource-field-valid''], [''XPC.H.helm-renders''],
     [''XPC.H.values-well-typed''], [''XPC.H.render-deterministic''], [''XPC.E.late-init-needs-ignore-diff''],
     [''XPC.E.ssa-managementpolicies-observe'', ''XPC.E.ssa-managementpolicies-partial'', ''XPC.E.ssa-managementpolicies-nondefault''],
     [''XPC.S.crossplane-state-needs-orphan''], [''XPC.E.appset-finalizer-without-preserve''], [''XPC.E.prod-appset-autosync''],
     [''XPC.B.providerconfig-resolves''], [''XPC.E.fargate-claim-env-label''], [''XPC.K.externalsecret-store''],
     [''XPC.M.forprovider-canonical-form''], [''XPC.M.observed-desired-fixed-point''], [''XPC.M.duplicate-env-key''],
     [''XPC.M.computed-block-alias''], [''XPC.I.must-adopt-external-name''], [''XPC.S.orphaned-sgref'']]"

lemma map_fst_entries: "map fst (world_entries w steps) = entry_gates"
proof -
  have "map fst (kernel_entries es w steps) = entry_gates" for es w
    unfolding kernel_entries_def Let_def list.map fst_conv entry_gates_def by (rule refl)
  then show ?thesis by (simp add: world_entries_def split: prod.split)
qed

lemma nth_of_gates:
  assumes "map fst es = pre @ g # post" "\<forall>h \<in> set (pre @ post). \<not> P h" "P g"
  shows "filter (P \<circ> fst) es = [es ! length pre]"
proof -
  have n: "length pre < length es" using arg_cong[OF assms(1), of length] by simp
  have e: "es = take (length pre) es @ es ! length pre # drop (Suc (length pre)) es" by (rule id_take_nth_drop[OF n])
  have m: "map fst (take (length pre) es) = pre" "fst (es ! length pre) = g" "map fst (drop (Suc (length pre)) es) = post"
    using assms(1) n by (simp_all add: take_map[symmetric] drop_map[symmetric] nth_map[OF n, symmetric] nth_append)
  have "filter (P \<circ> fst) (take (length pre) es) = []" "filter (P \<circ> fst) (drop (Suc (length pre)) es) = []"
    using assms(2) arg_cong[OF m(1), of set] arg_cong[OF m(3), of set] by (auto simp: filter_empty_conv)
  then show ?thesis using m(2) assms(3) by (subst e) simp
qed


lemma entry_diag:
  assumes "(gates, ds) \<in> set (world_entries w steps)" "d \<in> set ds"
  shows "dg_Code d \<in> set (entry_codes gates)"
proof -
  have "entry_ok (gates, ds)" using entries_ok[of w steps] assms(1) unfolding list_all_iff by (rule bspec)
  then show ?thesis using assms(2) by (simp add: entry_ok_def)
qed

lemma entry_gate: "(gates, ds) \<in> set (world_entries w steps) \<Longrightarrow> gates \<in> set entry_gates"
  unfolding map_fst_entries[of w steps, symmetric] by force

lemma kernel_findings_iff:
  "d \<in> set (kernel_findings w steps al) \<longleftrightarrow> (\<exists>gates ds. (gates, ds) \<in> set (world_entries w steps) \<and> lets_run al gates \<and> d \<in> set ds)"
  by (auto simp: kernel_findings_def)

section \<open>Profiling\<close>

text \<open>The rules that belong to no group of a profiled run.\<close>

definition ungrouped_codes :: "string list" where
  "ungrouped_codes = [''XPC.B.providerconfig-resolves'', ''XPC.E.fargate-claim-env-label'', ''XPC.K.externalsecret-store'']"

lemma gates_of_groups: "filter (\<lambda>g. hd g \<notin> set ungrouped_codes) (remdups_adj entry_gates) = map rg_Codes allRuleGroups"
  by (simp add: entry_gates_def ungrouped_codes_def allRuleGroups_def ruleGroup_def)

lemma gates_grouped:
  assumes "gates \<in> set entry_gates"
  shows "gates \<in> rg_Codes ` set allRuleGroups \<or> (\<exists>c \<in> set ungrouped_codes. gates = [c])"
proof (cases "hd gates \<in> set ungrouped_codes")
  case True
  have "filter (\<lambda>g. hd g \<in> set ungrouped_codes) entry_gates = map (\<lambda>c. [c]) ungrouped_codes"
    by (simp add: entry_gates_def ungrouped_codes_def)
  moreover have "gates \<in> set (filter (\<lambda>g. hd g \<in> set ungrouped_codes) entry_gates)" using True assms by simp
  ultimately have "gates \<in> set (map (\<lambda>c. [c]) ungrouped_codes)" by (simp only:)
  then show ?thesis by auto
next
  case False
  then have "gates \<in> set (map rg_Codes allRuleGroups)" using assms by (simp flip: gates_of_groups)
  then show ?thesis by simp
qed

lemma groups_disjoint:
  assumes "g \<in> set allRuleGroups" "h \<in> set allRuleGroups" "c \<in> set (rg_Codes g)" "c \<in> set (rg_Codes h)"
  shows "rg_Codes g = rg_Codes h"
proof -
  have "distinct (concat (map rg_Codes allRuleGroups))" by (simp add: rule_tables)
  then have "\<forall>ys zs. ys \<in> set (map rg_Codes allRuleGroups) \<and> zs \<in> set (map rg_Codes allRuleGroups) \<and> ys \<noteq> zs \<longrightarrow> set ys \<inter> set zs = {}"
    unfolding distinct_concat_iff by blast
  moreover have "rg_Codes g \<in> set (map rg_Codes allRuleGroups)" "rg_Codes h \<in> set (map rg_Codes allRuleGroups)"
    using assms(1,2) by (simp_all only: set_map imageI)
  ultimately show ?thesis using assms(3,4) by blast
qed

lemma group_codes_grouped:
  assumes "g \<in> set allRuleGroups"
  shows "set (entry_codes (rg_Codes g)) \<inter> set ungrouped_codes = {}" "set (rg_Codes g) \<inter> set ungrouped_codes = {}"
    "''XPC008'' \<in> set (rg_Codes g) \<longleftrightarrow> g = ruleGroup ''R8'' [''XPC008'']"
proof -
  have "list_all (\<lambda>g. list_all (\<lambda>c. c \<notin> set ungrouped_codes) (entry_codes (rg_Codes g) @ rg_Codes g) \<and>
      (''XPC008'' \<in> set (rg_Codes g) \<longleftrightarrow> g = ruleGroup ''R8'' [''XPC008''])) allRuleGroups"
    by (simp add: rule_tables ungrouped_codes_def entry_codes_def)
  then show "set (entry_codes (rg_Codes g)) \<inter> set ungrouped_codes = {}" "set (rg_Codes g) \<inter> set ungrouped_codes = {}"
    "''XPC008'' \<in> set (rg_Codes g) \<longleftrightarrow> g = ruleGroup ''R8'' [''XPC008'']"
    using assms by (auto simp: list_all_iff)
qed

lemma selected_iff: "g \<in> set (selectedRuleGroups al) \<longleftrightarrow> g \<in> set allRuleGroups \<and> lets_run al (rg_Codes g)"
  by (auto simp: selectedRuleGroups_def lets_run_def list_ex_iff)

lemma entry_in_group:
  assumes "gates \<in> set entry_gates" "g \<in> set allRuleGroups" "lets_run (rg_Codes g) gates"
  shows "gates = rg_Codes g"
proof -
  have "rg_Codes g \<noteq> []" using rule_group_codes_ne[of g "[]"] assms(2) by (simp add: selectedRuleGroups_def)
  then obtain c where c: "c \<in> set gates" "c \<in> set (rg_Codes g)" using assms(3) by (auto simp: lets_run_def)
  from gates_grouped[OF assms(1)] show ?thesis
  proof
    assume "gates \<in> rg_Codes ` set allRuleGroups"
    then show ?thesis using groups_disjoint[OF _ assms(2) _ c(2)] c(1) by auto
  next
    assume "\<exists>c \<in> set ungrouped_codes. gates = [c]"
    then show ?thesis using group_codes_grouped(2)[OF assms(2)] c by auto
  qed
qed

lemma grouped_findings:
  "(\<Union>g \<in> set (selectedRuleGroups al). set (kernel_findings w steps (rg_Codes g))) =
     {d \<in> set (kernel_findings w steps al). dg_Code d \<notin> set ungrouped_codes}" (is "?L = ?R")
proof
  show "?L \<subseteq> ?R"
  proof
    fix d assume "d \<in> ?L"
    then obtain g gates ds where g: "g \<in> set allRuleGroups" "lets_run al (rg_Codes g)" "(gates, ds) \<in> set (world_entries w steps)"
        "lets_run (rg_Codes g) gates" "d \<in> set ds" by (auto simp: selected_iff kernel_findings_iff)
    have "gates = rg_Codes g" by (rule entry_in_group[OF entry_gate[OF g(3)] g(1,4)])
    then show "d \<in> ?R" using g entry_diag[OF g(3,5)] group_codes_grouped(1)[OF g(1)] by (auto simp: kernel_findings_iff)
  qed
  show "?R \<subseteq> ?L"
  proof
    fix d assume "d \<in> ?R"
    then obtain gates ds where e: "(gates, ds) \<in> set (world_entries w steps)" "lets_run al gates" "d \<in> set ds" "dg_Code d \<notin> set ungrouped_codes"
      by (auto simp: kernel_findings_iff)
    have "\<not> (\<exists>c \<in> set ungrouped_codes. gates = [c])"
    proof
      assume "\<exists>c \<in> set ungrouped_codes. gates = [c]"
      then obtain c where c: "c \<in> set ungrouped_codes" "gates = [c]" by blast
      then have "entry_codes gates = [c]" by (auto simp: entry_codes_def ungrouped_codes_def)
      then show False using entry_diag[OF e(1,3)] e(4) c by simp
    qed
    then obtain g where g: "g \<in> set allRuleGroups" "gates = rg_Codes g" using gates_grouped[OF entry_gate[OF e(1)]] by blast
    have "rg_Codes g \<noteq> []" using rule_group_codes_ne[of g "[]"] g(1) by (simp add: selectedRuleGroups_def)
    then have "lets_run (rg_Codes g) (rg_Codes g)" by (cases "rg_Codes g") (auto simp: lets_run_def)
    then have "d \<in> set (kernel_findings w steps (rg_Codes g))" using g(2) e(1,3) unfolding kernel_findings_iff by blast
    moreover have "g \<in> set (selectedRuleGroups al)" using g e(2) by (simp add: selected_iff)
    ultimately show "d \<in> ?L" by blast
  qed
qed

lemma length_take_8: "length (take 8 entry_gates) = 8"
  by (simp add: entry_gates_def)

lemma r8_entry: "set (kernel_findings w steps [''XPC008'']) = {satisfied_marker ''XPC008''}"
proof -
  define c where "c = ''XPC008''"
  have split: "entry_gates = take 8 entry_gates @ [c] # drop 9 entry_gates"
    by (simp add: entry_gates_def c_def)
  have "\<forall>h \<in> set (take 8 entry_gates @ drop 9 entry_gates). \<not> c \<in> set h"
    by (simp add: entry_gates_def c_def)
  then have "filter ((\<lambda>h. c \<in> set h) \<circ> fst) (world_entries w steps) = [world_entries w steps ! 8]"
    using nth_of_gates[of "world_entries w steps" "take 8 entry_gates" "[c]" "drop 9 entry_gates" "\<lambda>h. c \<in> set h"] split
    by (simp only: map_fst_entries simp_thms list.set_intros length_take_8)
  moreover have "world_entries w steps ! 8 = ([c], mark c [])"
    by (simp add: world_entries_def kernel_entries_def Let_def c_def split: prod.split)
  moreover have "(\<lambda>(gates, ds :: Diagnostic list). lets_run [c] gates) = (\<lambda>h. c \<in> set h) \<circ> fst" by (auto simp: lets_run_def)
  ultimately have "kernel_findings w steps [c] = mark c []" by (simp only: kernel_findings_def list.map snd_conv concat.simps append_Nil2)
  then show ?thesis by (simp add: c_def mark_def)
qed

text \<open>
  C10: a run reports what the rules find, profiled or not.  Without profiling the diagnostics are the
  visible findings of the allowed rules, in rule order, unless R8 raises its error, which then
  is the only diagnostic.  With profiling the same findings come out except those of R28, R29 and R30,
  which belong to no group, and an error of R8 costs no other rule its findings.
\<close>

theorem profile_against_single_run:
  assumes "initShen (ck_KernelPath cfg) = None"
  shows "Check sexp_kl initShen (shen_kernel err) w (cfg\<lparr>ck_ProfileRules := False\<rparr>) =
           (if r8_trips (w_Resources w) \<and> lets_run (ck_RuleAllowlist cfg) [''XPC008''] then [error_diag (''check-world: '' @ err)]
            else visible (kernel_findings (checked_world w) (Simulate (checked_world w)) (ck_RuleAllowlist cfg))) \<and>
         set (Check sexp_kl initShen (shen_kernel err) w (cfg\<lparr>ck_ProfileRules := True\<rparr>)) =
           (if r8_trips (w_Resources w) \<and> lets_run (ck_RuleAllowlist cfg) [''XPC008''] then {error_diag (''R8: check-world: '' @ err)} else {}) \<union>
           {d \<in> set (visible (kernel_findings (checked_world w) (Simulate (checked_world w)) (ck_RuleAllowlist cfg))).
              dg_Code d \<notin> set ungrouped_codes}"
proof
  let ?cw = "checked_world w"
  let ?st = "Simulate ?cw"
  let ?al = "ck_RuleAllowlist cfg"
  let ?trip = "r8_trips (w_Resources w)"
  have vis: "visible [error_diag m] = [error_diag m]" for m by (simp add: visible_def error_diag_def)
  show "Check sexp_kl initShen (shen_kernel err) w (cfg\<lparr>ck_ProfileRules := False\<rparr>) =
     (if ?trip \<and> lets_run ?al [''XPC008''] then [error_diag (''check-world: '' @ err)] else visible (kernel_findings ?cw ?st ?al))"
    using assms by (simp add: single_run call_findings_def vis)
  let ?r8 = "ruleGroup ''R8'' [''XPC008'']"
  have r8: "?r8 \<in> set allRuleGroups" by (simp add: rule_tables)
  have sel: "?r8 \<in> set (selectedRuleGroups ?al) \<longleftrightarrow> lets_run ?al [''XPC008'']" using r8 by (simp add: selected_iff ruleGroup_def)
  have trips: "lets_run (rg_Codes g) [''XPC008''] \<longleftrightarrow> g = ?r8" if "g \<in> set (selectedRuleGroups ?al)" for g
    using group_codes_grouped(3)[of g] rule_group_codes_ne[OF that] that by (simp add: lets_run_def selected_iff)
  have quiet: "set (visible (kernel_findings ?cw ?st (rg_Codes ?r8))) = {}"
    using r8_entry[of ?cw ?st] by (simp add: visible_def ruleGroup_def)
  have each: "set (visible (call_findings (rg_Name g @ '': check-world: '' @ err) ?cw ?st (rg_Codes g))) =
      (if ?trip \<and> g = ?r8 then {error_diag (''R8: check-world: '' @ err)} else {}) \<union> set (visible (kernel_findings ?cw ?st (rg_Codes g)))"
    if "g \<in> set (selectedRuleGroups ?al)" for g
  proof (cases "?trip \<and> g = ?r8")
    case True
    have m: "rg_Name ?r8 @ '': check-world: '' @ err = ''R8: check-world: '' @ err" by (simp add: ruleGroup_def)
    have "call_findings (''R8: check-world: '' @ err) ?cw ?st (rg_Codes ?r8) = [error_diag (''R8: check-world: '' @ err)]"
      using True trips[OF that] unfolding call_findings_def by (simp only: checked_world_Resources simp_thms if_True)
    then show ?thesis unfolding conjunct2[OF True] m vis quiet using True by (simp only: vis list.set simp_thms if_True Un_empty_right)
  next
    case False
    then have "\<not> (?trip \<and> lets_run (rg_Codes g) [''XPC008''])" using trips[OF that] by blast
    then show ?thesis unfolding call_findings_def checked_world_Resources if_not_P[OF False] by (simp only: if_False Un_empty_left)
  qed
  have "set (Check sexp_kl initShen (shen_kernel err) w (cfg\<lparr>ck_ProfileRules := True\<rparr>)) =
      (\<Union>g \<in> set (selectedRuleGroups ?al). set (visible (call_findings (rg_Name g @ '': check-world: '' @ err) ?cw ?st (rg_Codes g))))"
    using assms by (simp add: profiled_run) (auto simp: visible_def)
  also have "\<dots> = (\<Union>g \<in> set (selectedRuleGroups ?al). (if ?trip \<and> g = ?r8 then {error_diag (''R8: check-world: '' @ err)} else {}) \<union>
      set (visible (kernel_findings ?cw ?st (rg_Codes g))))"
    by (rule SUP_cong[OF refl each])
  also have "\<dots> = (if ?trip \<and> ?r8 \<in> set (selectedRuleGroups ?al) then {error_diag (''R8: check-world: '' @ err)} else {}) \<union>
      {d \<in> (\<Union>g \<in> set (selectedRuleGroups ?al). set (kernel_findings ?cw ?st (rg_Codes g))). dg_Severity d \<noteq> severitySatisfied}"
    unfolding visible_def set_filter
    by (cases ?trip; cases "?r8 \<in> set (selectedRuleGroups ?al)") (auto split: if_splits)
  finally show "set (Check sexp_kl initShen (shen_kernel err) w (cfg\<lparr>ck_ProfileRules := True\<rparr>)) =
      (if ?trip \<and> lets_run ?al [''XPC008''] then {error_diag (''R8: check-world: '' @ err)} else {}) \<union>
      {d \<in> set (visible (kernel_findings ?cw ?st ?al)). dg_Code d \<notin> set ungrouped_codes}"
    unfolding grouped_findings sel by (auto simp: visible_def)
qed

text \<open>One annotated resource: the single run stops at R8's error, whatever else the World holds.\<close>

definition ex_annotated :: World where
  "ex_annotated = NewWorld\<lparr>w_Resources := [zero_ResourceInfo\<lparr>ri_Annotations := [(''xpc.dev/v1-machinery-on-v2-xrd'', ''true'')]\<rparr>]\<rparr>"

definition ex_cfg :: CheckerConfig where
  "ex_cfg = \<lparr>ck_StrictConversions = False, ck_KernelPath = [], ck_RuleAllowlist = [], ck_ProfileRules = False\<rparr>"

theorem profile_against_single_run_witness:
  "Check sexp_kl (\<lambda>_. None) (shen_kernel ''e'') ex_annotated (ex_cfg\<lparr>ck_ProfileRules := False\<rparr>) = [error_diag ''check-world: e''] \<and>
   error_diag ''R8: check-world: e'' \<in> set (Check sexp_kl (\<lambda>_. None) (shen_kernel ''e'') ex_annotated (ex_cfg\<lparr>ck_ProfileRules := True\<rparr>))"
proof -
  have t: "r8_trips (w_Resources ex_annotated) \<and> lets_run (ck_RuleAllowlist ex_cfg) [''XPC008'']"
    by (simp add: r8_trips_def ex_annotated_def ex_cfg_def lets_run_def mget_def)
  note run = profile_against_single_run[of "\<lambda>_. None" ex_cfg "''e''" ex_annotated, OF refl]
  have "error_diag (''R8: check-world: '' @ ''e'') \<in> set (Check sexp_kl (\<lambda>_. None) (shen_kernel ''e'') ex_annotated (ex_cfg\<lparr>ck_ProfileRules := True\<rparr>))"
    unfolding conjunct2[OF run] if_P[OF t] by blast
  then show ?thesis unfolding conjunct1[OF run] if_P[OF t] by simp
qed

section \<open>What a restricted run dispatches\<close>

text \<open>
  The findings that an allowlist lets through: the render rule runs for its first code alone, R22 for any
  of its three, every other rule for its own.
\<close>

definition dispatched :: "string list \<Rightarrow> string \<Rightarrow> bool" where
  "dispatched al code =
     (al = [] \<or>
      (if code \<in> set render_codes then ''XPC.H.helm-renders'' \<in> set al
       else if code \<in> set r22_all then set r22_all \<inter> set al \<noteq> {}
       else code \<in> set al))"

lemma meets_iff: "(A \<inter> B \<noteq> {}) = (\<exists>x\<in>A. x \<in> B)"
  by blast

lemma dispatched_entry:
  assumes "(gates, ds) \<in> set (world_entries w steps)" "d \<in> set ds"
  shows "dispatched al (dg_Code d) = lets_run al gates"
proof -
  have code: "dg_Code d \<in> set (entry_codes gates)" by (rule entry_diag[OF assms])
  have "list_all (\<lambda>gs. gs = r22_all \<or> gs = [''XPC.H.helm-renders''] \<or>
      (tl gs = [] \<and> gs \<noteq> [] \<and> hd gs \<notin> set r22_all \<and> hd gs \<notin> set render_codes)) entry_gates"
    by (simp add: entry_gates_def)
  then have "gates = r22_all \<or> gates = [''XPC.H.helm-renders''] \<or>
      (tl gates = [] \<and> gates \<noteq> [] \<and> hd gates \<notin> set r22_all \<and> hd gates \<notin> set render_codes)"
    using entry_gate[OF assms(1)] unfolding list_all_iff by blast
  then show ?thesis
  proof (elim disjE conjE)
    assume g: "gates = r22_all"
    then have "dg_Code d \<in> set r22_all" using code by (simp add: entry_codes_def)
    moreover have "list_all (\<lambda>c. c \<notin> set render_codes) r22_all" by simp
    ultimately have "dg_Code d \<notin> set render_codes" unfolding list_all_iff by (rule bspec[rotated])
    then show ?thesis unfolding dispatched_def lets_run_def g if_not_P[OF \<open>dg_Code d \<notin> set render_codes\<close>] if_P[OF \<open>dg_Code d \<in> set r22_all\<close>]
      by (simp only: meets_iff)
  next
    assume g: "gates = [''XPC.H.helm-renders'']"
    then have "dg_Code d \<in> set render_codes" using code by (simp only: entry_codes_def simp_thms if_True)
    then show ?thesis unfolding dispatched_def lets_run_def g by simp
  next
    assume one: "tl gates = []" "gates \<noteq> []" and g: "hd gates \<notin> set r22_all" "hd gates \<notin> set render_codes"
    then obtain c where c: "gates = [c]" by (cases gates) auto
    then have "c \<noteq> ''XPC.H.helm-renders''" using g(2) by auto
    then have "dg_Code d = c" using code by (simp add: c entry_codes_def)
    moreover have "c \<notin> set r22_all" "c \<notin> set render_codes" using g unfolding c list.sel .
    ultimately have "dispatched al (dg_Code d) = (al = [] \<or> c \<in> set al)" unfolding dispatched_def by (simp only: if_False)
    then show ?thesis by (simp add: lets_run_def c)
  qed
qed

lemma findings_dispatched: "kernel_findings w steps al = filter (\<lambda>d. dispatched al (dg_Code d)) (kernel_findings w steps [])"
proof -
  have "concat (map snd (filter (\<lambda>(gates, _). lets_run al gates) es)) = filter (\<lambda>d. dispatched al (dg_Code d)) (concat (map snd es))"
    if "\<And>gates ds d. (gates, ds) \<in> set es \<Longrightarrow> d \<in> set ds \<Longrightarrow> dispatched al (dg_Code d) = lets_run al gates"
    for es :: "(string list \<times> Diagnostic list) list"
    using that
  proof (induction es)
    case (Cons e es)
    obtain gates ds where e: "e = (gates, ds)" by (cases e)
    have "filter (\<lambda>d. dispatched al (dg_Code d)) ds = (if lets_run al gates then ds else [])"
      using Cons.prems[of gates ds] e by (auto simp: filter_id_conv filter_empty_conv)
    then show ?case using Cons.IH Cons.prems e by auto
  qed simp
  moreover have "filter (\<lambda>(gates, _). lets_run [] gates) es = es" for es :: "(string list \<times> Diagnostic list) list"
    by (simp add: lets_run_def split_beta)
  ultimately show ?thesis unfolding kernel_findings_def using dispatched_entry by metis
qed

text \<open>What of the findings of all rules a run reports: R8's error, if it is let run and trips, takes the place of all.\<close>

definition run_part :: "string \<Rightarrow> World \<Rightarrow> string list \<Rightarrow> Diagnostic list \<Rightarrow> Diagnostic list" where
  "run_part err w al ds =
     (if r8_trips (w_Resources w) \<and> lets_run al [''XPC008''] then [error_diag (''check-world: '' @ err)]
      else filter (\<lambda>d. dispatched al (dg_Code d)) ds)"

definition all_findings :: "World \<Rightarrow> Diagnostic list" where
  "all_findings w = visible (kernel_findings (checked_world w) (Simulate (checked_world w)) [])"

lemma restricted_run:
  assumes "initShen (ck_KernelPath cfg) = None" "\<not> ck_ProfileRules cfg"
  shows "Check sexp_kl initShen (shen_kernel err) w cfg = run_part err w (ck_RuleAllowlist cfg) (all_findings w)"
proof -
  have err: "visible [error_diag m] = [error_diag m]" for m by (simp add: visible_def error_diag_def)
  have vis: "visible (kernel_findings x y al) = filter (\<lambda>d. dispatched al (dg_Code d)) (visible (kernel_findings x y []))" for x y al
    unfolding visible_def filter_filter by (subst findings_dispatched) (simp only: filter_filter conj_commute)
  show ?thesis
  proof (cases "r8_trips (w_Resources w) \<and> lets_run (ck_RuleAllowlist cfg) [''XPC008'']")
    case True
    show ?thesis unfolding single_run[of initShen cfg, OF assms] call_findings_def checked_world_Resources run_part_def if_P[OF True]
      by (rule err)
  next
    case False
    show ?thesis unfolding single_run[of initShen cfg, OF assms] call_findings_def checked_world_Resources run_part_def all_findings_def if_not_P[OF False]
      by (rule vis)
  qed
qed

section \<open>Rules that stand alone\<close>

lemma rule_alone:
  assumes "entry_gates = take n entry_gates @ [c] # drop (Suc n) entry_gates"
    and "\<forall>h \<in> set (take n entry_gates @ drop (Suc n) entry_gates). c \<notin> set (entry_codes h)"
    and "world_entries w steps ! n = ([c], mark c ds)" "reports [c] ds" "n < 34"
  shows "{d \<in> set (visible (kernel_findings w steps al)). dg_Code d = c} = (if lets_run al [c] then set ds else {})"
proof -
  have "length (take n entry_gates) = n" using assms(5) by (simp add: entry_gates_def)
  have one: "e = ([c], mark c ds)" if "e \<in> set (world_entries w steps)" "c \<in> set (entry_codes (fst e))" for e
  proof -
    have "c \<in> set (entry_codes [c])" by (simp add: entry_codes_def)
    then have "filter ((\<lambda>h. c \<in> set (entry_codes h)) \<circ> fst) (world_entries w steps) = [world_entries w steps ! n]"
      using nth_of_gates[of "world_entries w steps" "take n entry_gates" "[c]" "drop (Suc n) entry_gates" "\<lambda>h. c \<in> set (entry_codes h)"]
        assms(1,2) \<open>length (take n entry_gates) = n\<close> by (simp only: map_fst_entries simp_thms)
    moreover have "e \<in> set (filter ((\<lambda>h. c \<in> set (entry_codes h)) \<circ> fst) (world_entries w steps))" using that by simp
    ultimately show ?thesis using assms(3) by simp
  qed
  have here: "([c], mark c ds) \<in> set (world_entries w steps)"
  proof -
    have "length (world_entries w steps) = length entry_gates" by (simp flip: map_fst_entries[of w steps])
    then have "n < length (world_entries w steps)" using assms(5) by (simp add: entry_gates_def)
    then show ?thesis using nth_mem assms(3) by fastforce
  qed
  have ds: "{d \<in> set (mark c ds). dg_Severity d \<noteq> severitySatisfied \<and> dg_Code d = c} = set ds"
    using assms(4) by (auto simp: mark_def reports_def)
  have "{d \<in> set (visible (kernel_findings w steps al)). dg_Code d = c} =
      {d. lets_run al [c] \<and> d \<in> set (mark c ds) \<and> dg_Severity d \<noteq> severitySatisfied \<and> dg_Code d = c}"
  proof (intro set_eqI iffI; clarsimp simp: visible_def kernel_findings_iff)
    fix d gates es assume e: "(gates, es) \<in> set (world_entries w steps)" "lets_run al gates" "d \<in> set es" "c = dg_Code d"
    then have "(gates, es) = ([c], mark c ds)" using entry_diag[OF e(1,3)] by (intro one) auto
    then show "lets_run al [dg_Code d] \<and> d \<in> set (mark (dg_Code d) ds)" using e by auto
  next
    fix d assume "lets_run al [dg_Code d]" "d \<in> set (mark (dg_Code d) ds)" "c = dg_Code d"
    then show "\<exists>gates es. (gates, es) \<in> set (world_entries w steps) \<and> lets_run al gates \<and> d \<in> set es" using here by auto
  qed
  then show ?thesis using ds by auto
qed

lemma checked_world_floor [simp]:
  "w_CPDeletionPolicyFacts (checked_world w) = w_CPDeletionPolicyFacts w" "w_NameCarveouts (checked_world w) = w_NameCarveouts w"
  "w_ArgoAppSets (checked_world w) = w_ArgoAppSets w" "w_ProdPatterns (checked_world w) = w_ProdPatterns w"
  by (simp_all add: checked_world_def resolvePatchTypes_def BuildSchemaIndex_def enrichSyncWaves_def Let_def
      split: option.splits prod.splits)

lemma getIgnoreDiff_floor:
  assumes "getIgnoreDiffEntries w = (es, w1)"
  shows "w_CPDeletionPolicyFacts w1 = w_CPDeletionPolicyFacts w" "w_NameCarveouts w1 = w_NameCarveouts w"
    "w_ArgoAppSets w1 = w_ArgoAppSets w" "w_ProdPatterns w1 = w_ProdPatterns w"
  using assms by (auto simp: getIgnoreDiffEntries_def Let_def split: option.splits)

abbreviation "floor_orphan \<equiv> ''XPC.S.crossplane-state-needs-orphan''"
abbreviation "floor_cascade \<equiv> ''XPC.E.appset-finalizer-without-preserve''"
abbreviation "floor_autosync \<equiv> ''XPC.E.prod-appset-autosync''"

lemma floor_entries:
  "world_entries w steps ! 22 = ([floor_orphan], mark floor_orphan
     (r23_findings (SortFunc (w_CPDeletionPolicyFacts w) cpDeletionPolicyCmp) (mgetl (w_NameCarveouts w) ''crossplane-state-needs-orphan'')))"
  "world_entries w steps ! 23 = ([floor_cascade], mark floor_cascade (r24_findings (SortFunc (w_ArgoAppSets w) appSetFinalizerCmp)))"
  "world_entries w steps ! 24 = ([floor_autosync], mark floor_autosync (r25_findings (SortFunc (w_ArgoAppSets w) appSetFinalizerCmp) (w_ProdPatterns w)))"
  by (simp_all add: world_entries_def kernel_entries_def Let_def getIgnoreDiff_floor split: prod.split)

lemma floor_places:
  "entry_gates = take 22 entry_gates @ [floor_orphan] # drop (Suc 22) entry_gates"
  "entry_gates = take 23 entry_gates @ [floor_cascade] # drop (Suc 23) entry_gates"
  "entry_gates = take 24 entry_gates @ [floor_autosync] # drop (Suc 24) entry_gates"
  by (simp_all add: entry_gates_def)

lemma floor_unique:
  "\<forall>h \<in> set (take 22 entry_gates @ drop (Suc 22) entry_gates). floor_orphan \<notin> set (entry_codes h)"
  "\<forall>h \<in> set (take 23 entry_gates @ drop (Suc 23) entry_gates). floor_cascade \<notin> set (entry_codes h)"
  "\<forall>h \<in> set (take 24 entry_gates @ drop (Suc 24) entry_gates). floor_autosync \<notin> set (entry_codes h)"
  by (simp_all add: entry_gates_def entry_codes_def)

text \<open>
  C5: the three rules that guard against mass deletion miss nothing and add nothing.  In an unprofiled run
  that R8 does not stop, the findings of each of them are exactly the World's offenders: the stateful
  resources that are neither orphaned, bypassed nor carved out; the application sets that cascade; and
  the application sets with a production name that sync by themselves.
\<close>

theorem floor_rules_exact:
  fixes err :: string
  assumes "initShen (ck_KernelPath cfg) = None" "\<not> ck_ProfileRules cfg"
    and "\<not> (r8_trips (w_Resources w) \<and> lets_run (ck_RuleAllowlist cfg) [''XPC008''])"
  defines "out \<equiv> set (Check sexp_kl initShen (shen_kernel err) w cfg)"
  shows "{d \<in> out. dg_Code d = floor_orphan} =
       (if lets_run (ck_RuleAllowlist cfg) [floor_orphan]
        then r23_finding ` {f \<in> set (w_CPDeletionPolicyFacts w). unprotected_state (mgetl (w_NameCarveouts w) ''crossplane-state-needs-orphan'') f}
        else {}) \<and>
     {d \<in> out. dg_Code d = floor_cascade} =
       (if lets_run (ck_RuleAllowlist cfg) [floor_cascade] then r24_finding ` {a \<in> set (w_ArgoAppSets w). cascades a} else {}) \<and>
     {d \<in> out. dg_Code d = floor_autosync} =
       (if lets_run (ck_RuleAllowlist cfg) [floor_autosync]
        then r25_finding ` {a \<in> set (w_ArgoAppSets w). autosynced_prod (w_ProdPatterns w) a} else {})"
proof -
  have out: "out = set (visible (kernel_findings (checked_world w) (Simulate (checked_world w)) (ck_RuleAllowlist cfg)))"
    unfolding out_def single_run[of initShen cfg, OF assms(1,2)] call_findings_def checked_world_Resources if_not_P[OF assms(3)] by (rule refl)
  note alone = rule_alone[OF floor_places(1) floor_unique(1) floor_entries(1) floor_codes(1)]
    rule_alone[OF floor_places(2) floor_unique(2) floor_entries(2) floor_codes(2)]
    rule_alone[OF floor_places(3) floor_unique(3) floor_entries(3) floor_codes(3)]
  show ?thesis unfolding out by (simp add: alone r23_findings_def r24_findings_def r25_findings_def)
qed

definition ex_state_fact :: CPDeletionPolicyFact where
  "ex_state_fact =
     \<lparr>cpd_Group = ''rds.aws.upbound.io'', cpd_Kind = ''Instance'', cpd_Name = ''db'', cpd_Namespace = [], cpd_DeletionPolicy = ''Delete'',
      cpd_Bypass = False, cpd_Source = zero_SourceLocation\<rparr>"

theorem floor_rules_exact_witness:
  "r23_finding ex_state_fact \<in> set (Check sexp_kl (\<lambda>_. None) (shen_kernel []) (NewWorld\<lparr>w_CPDeletionPolicyFacts := [ex_state_fact]\<rparr>) ex_cfg)"
proof -
  let ?w = "NewWorld\<lparr>w_CPDeletionPolicyFacts := [ex_state_fact]\<rparr>"
  have "\<not> (r8_trips (w_Resources ?w) \<and> lets_run (ck_RuleAllowlist ex_cfg) [''XPC008''])" by (simp add: r8_trips_def NewWorld_def)
  note run = conjunct1[OF floor_rules_exact[of "\<lambda>_. None" ex_cfg ?w "[]", OF refl _ this]]
  have "unprotected_state (mgetl (w_NameCarveouts ?w) ''crossplane-state-needs-orphan'') ex_state_fact"
    by (simp add: unprotected_state_def ex_state_fact_def NewWorld_def mgetl_def)
  moreover have "lets_run (ck_RuleAllowlist ex_cfg) [floor_orphan]" "\<not> ck_ProfileRules ex_cfg" by (simp_all add: ex_cfg_def lets_run_def)
  ultimately show ?thesis using run by auto
qed

end
