(* ===== verification/Cli.thy ===== *)
theory Cli
  imports RuleFilter WaiverFile PlanRun AuditLog Report Sexpr KernelRun
begin

text \<open>
  \<^verbatim>\<open>cmd/xpc/main.go\<close>: the subcommands, from their flags to their exit code.  A subcommand
  composes the other packages; what they need of the machine is one record of functions.
\<close>

section \<open>The machine\<close>

text \<open>
  \<open>ce_LoadDirectory\<close> is one run of the loader on a directory; \<open>ce_today\<close> is the calendar date of
  \<open>ce_now\<close>; \<open>ce_walk\<close> lists the files under a directory.  The encoders and decoders are those of
  \<^verbatim>\<open>encoding/json\<close> and \<^verbatim>\<open>gopkg.in/yaml.v3\<close>.
\<close>

record 'o CliEnv =
  ce_ev :: ExeEnv
  ce_LoadDirectory :: "string \<Rightarrow> string + LoadedDocument list"
  ce_open :: "string \<Rightarrow> string + YamlEvent list"
  ce_yaml :: Yaml
  ce_fixtureYaml :: "string \<Rightarrow> string + (string \<times> obj list) list"
  ce_waiverYaml :: "string \<Rightarrow> string + WaiverSet"
  ce_snapshotJson :: "string \<Rightarrow> string + Snapshot"
  ce_build :: BuildEnv
  ce_host :: HostState
  ce_kl :: "'o kl"
  ce_initShen :: "string \<Rightarrow> string option"
  ce_checkWorld :: "'o \<Rightarrow> 'o"
  ce_sha :: "string \<Rightarrow> string"
  ce_embed :: Embed
  ce_walk :: "string \<Rightarrow> string + string list"
  ce_proofJson :: "Proof \<Rightarrow> string + string"
  ce_profileJson :: "RunResult \<Rightarrow> string + string"
  ce_WriteFile :: "string \<Rightarrow> string \<Rightarrow> string option"
  ce_WriteStderr :: "string \<Rightarrow> string option"
  ce_Getenv :: "string \<Rightarrow> string"
  ce_now :: Time
  ce_today :: date

datatype CliError =
    UsageError string
  | NoCwd
  | BadConfig LoadError
  | NoSuchPath string
  | LoadFailed string string
  | BadSnapshot string
  | NoDocuments
  | BadFixtures string string
  | BuildFailed string
  | BadCategory string
  | BadWaivers string
  | InvalidWaiver nat WaiverProblem
  | BadReport string
  | BadProfile string
  | BadRuleset string
  | BadProof string

text \<open>A stage ends the run with a message (and exit code 1), panics, or goes on.\<close>

datatype 'a Stage = Panic | Fail CliError | Ok 'a

fun and_then :: "'a Stage \<Rightarrow> ('a \<Rightarrow> 'b Stage) \<Rightarrow> 'b Stage" where
  "and_then Panic f = Panic"
| "and_then (Fail e) f = Fail e"
| "and_then (Ok x) f = f x"

lemma and_then_Ok: "and_then s f = Ok y \<longleftrightarrow> (\<exists>x. s = Ok x \<and> f x = Ok y)"
  by (cases s) auto

definition of_sum :: "('e \<Rightarrow> CliError) \<Rightarrow> 'e + 'a \<Rightarrow> 'a Stage" where
  "of_sum g s = (case s of Inl e \<Rightarrow> Fail (g e) | Inr x \<Rightarrow> Ok x)"

lemma of_sum_Ok [simp]: "of_sum g s = Ok x \<longleftrightarrow> s = Inr x"
  by (cases s) (auto simp: of_sum_def)

definition of_error :: "('e \<Rightarrow> CliError) \<Rightarrow> 'e option \<Rightarrow> unit Stage" where
  "of_error g r = (case r of Some e \<Rightarrow> Fail (g e) | None \<Rightarrow> Ok ())"

section \<open>The flags of check\<close>

record CheckFlags =
  cf_format :: string
  cf_strictConversions :: bool
  cf_generateProof :: bool
  cf_snapshotPath :: string
  cf_skipRender :: bool
  cf_helmBin :: string
  cf_kustomizeBin :: string
  cf_crossplaneBin :: string
  cf_appsetFixturePath :: string
  cf_helmCacheDir :: string
  cf_skipAppSetExpand :: bool
  cf_kernelPath :: string
  cf_configPath :: string
  cf_ssaMPMode :: string
  cf_focusPreset :: string
  cf_profileRules :: bool
  cf_profileOut :: string
  cf_waiversPath :: string
  cf_showWaived :: bool
  cf_noWaivers :: bool
  cf_categories :: "string list"
  cf_rules :: "string list"
  cf_paths :: "string list"

definition check_defaults :: "'o CliEnv \<Rightarrow> CheckFlags" where
  "check_defaults env =
     \<lparr>cf_format = ''agent'', cf_strictConversions = False, cf_generateProof = False, cf_snapshotPath = [],
      cf_skipRender = False, cf_helmBin = [], cf_kustomizeBin = [], cf_crossplaneBin = [], cf_appsetFixturePath = [],
      cf_helmCacheDir = [], cf_skipAppSetExpand = False, cf_kernelPath = ce_Getenv env ''XPC_KERNEL_PATH'',
      cf_configPath = ce_Getenv env ''XPC_CONFIG_PATH'', cf_ssaMPMode = ''observe'', cf_focusPreset = ''all'',
      cf_profileRules = False, cf_profileOut = [], cf_waiversPath = ce_Getenv env ''XPC_WAIVERS_PATH'',
      cf_showWaived = False, cf_noWaivers = False, cf_categories = [], cf_rules = [], cf_paths = []\<rparr>"

datatype 'f FlagRes = FlagHelp | FlagError string | Flags 'f

text \<open>\<open>valued\<close> needs a value after the equals sign (\<^verbatim>\<open>len(arg) > n\<close>), \<^const>\<open>HasPrefix\<close> does not.\<close>

definition valued :: "string \<Rightarrow> string \<Rightarrow> bool" where
  "valued name arg = (length arg > length name \<and> take (length name) arg = name)"

definition check_flag :: "CheckFlags \<Rightarrow> string \<Rightarrow> CheckFlags FlagRes" where
  "check_flag f arg =
     (if arg = ''--strict-conversions'' then Flags (f\<lparr>cf_strictConversions := True\<rparr>)
      else if arg = ''--proof'' then Flags (f\<lparr>cf_generateProof := True\<rparr>)
      else if arg = ''--skip-render'' then Flags (f\<lparr>cf_skipRender := True\<rparr>)
      else if arg = ''--skip-appset-expand'' then Flags (f\<lparr>cf_skipAppSetExpand := True\<rparr>)
      else if arg = ''--profile-rules'' then Flags (f\<lparr>cf_profileRules := True\<rparr>)
      else if valued ''--format='' arg then Flags (f\<lparr>cf_format := drop 9 arg\<rparr>)
      else if valued ''--snapshot='' arg then Flags (f\<lparr>cf_snapshotPath := drop 11 arg\<rparr>)
      else if valued ''--helm-bin='' arg then Flags (f\<lparr>cf_helmBin := drop 11 arg\<rparr>)
      else if valued ''--kustomize-bin='' arg then Flags (f\<lparr>cf_kustomizeBin := drop 16 arg\<rparr>)
      else if HasPrefix arg ''--crossplane-bin='' then Flags (f\<lparr>cf_crossplaneBin := TrimPrefix arg ''--crossplane-bin=''\<rparr>)
      else if valued ''--appset-fixture='' arg then Flags (f\<lparr>cf_appsetFixturePath := drop 17 arg\<rparr>)
      else if HasPrefix arg ''--helm-cache-dir='' then Flags (f\<lparr>cf_helmCacheDir := TrimPrefix arg ''--helm-cache-dir=''\<rparr>)
      else if HasPrefix arg ''--kernel-path='' then Flags (f\<lparr>cf_kernelPath := TrimPrefix arg ''--kernel-path=''\<rparr>)
      else if HasPrefix arg ''--config='' then Flags (f\<lparr>cf_configPath := TrimPrefix arg ''--config=''\<rparr>)
      else if HasPrefix arg ''--profile-out='' then Flags (f\<lparr>cf_profileOut := TrimPrefix arg ''--profile-out=''\<rparr>)
      else if HasPrefix arg ''--waivers='' then Flags (f\<lparr>cf_waiversPath := TrimPrefix arg ''--waivers=''\<rparr>)
      else if arg = ''--show-waived'' then Flags (f\<lparr>cf_showWaived := True\<rparr>)
      else if arg = ''--no-waivers'' then Flags (f\<lparr>cf_noWaivers := True\<rparr>)
      else if HasPrefix arg ''--ssa-mp-mode='' then
        let val = TrimPrefix arg ''--ssa-mp-mode=''
        in if val \<in> set [''observe'', ''partial'', ''any''] then Flags (f\<lparr>cf_ssaMPMode := val\<rparr>)
           else FlagError (''invalid --ssa-mp-mode='' @ val @ '' (must be one of: observe, partial, any)'')
      else if HasPrefix arg ''--focus='' then
        let val = TrimPrefix arg ''--focus=''
        in if val \<in> set [''all'', ''inc6-floor'', ''render''] then Flags (f\<lparr>cf_focusPreset := val\<rparr>)
           else FlagError (''invalid --focus='' @ val @ '' (must be one of: all, inc6-floor, render)'')
      else if HasPrefix arg ''--category='' then
        Flags (f\<lparr>cf_categories := cf_categories f @ splitCSV (TrimPrefix arg ''--category='')\<rparr>)
      else if HasPrefix arg ''--rules='' then Flags (f\<lparr>cf_rules := cf_rules f @ splitCSV (TrimPrefix arg ''--rules='')\<rparr>)
      else if arg = ''--help'' \<or> arg = ''-h'' then FlagHelp
      else if arg \<noteq> [] \<and> hd arg = CHR ''-'' then FlagError (''unknown flag: '' @ arg)
      else Flags (f\<lparr>cf_paths := cf_paths f @ [arg]\<rparr>))"

fun parse_flags :: "('f \<Rightarrow> string \<Rightarrow> 'f FlagRes) \<Rightarrow> 'f \<Rightarrow> string list \<Rightarrow> 'f FlagRes" where
  "parse_flags step f [] = Flags f"
| "parse_flags step f (arg # args) = (case step f arg of Flags f' \<Rightarrow> parse_flags step f' args | r \<Rightarrow> r)"

definition default_paths :: "CheckFlags \<Rightarrow> string list" where
  "default_paths f = (if cf_paths f = [] \<and> cf_snapshotPath f = [] then [''.''] else cf_paths f)"

section \<open>The stages of check\<close>

definition load_path :: "'o CliEnv \<Rightarrow> string \<Rightarrow> LoadedDocument list Stage" where
  "load_path env path =
     (case fs_Stat (ce_ev env) path of
        None \<Rightarrow> Fail (NoSuchPath path)
      | Some m \<Rightarrow> of_sum (LoadFailed path) (if m = ModeDir then ce_LoadDirectory env path else LoadFile (ce_open env) path))"

fun load_paths :: "'o CliEnv \<Rightarrow> string list \<Rightarrow> LoadedDocument list Stage" where
  "load_paths env [] = Ok []"
| "load_paths env (p # ps) = and_then (load_path env p) (\<lambda>ds. and_then (load_paths env ps) (\<lambda>rest. Ok (ds @ rest)))"

definition load_snapshot :: "'o CliEnv \<Rightarrow> string \<Rightarrow> Snapshot option Stage" where
  "load_snapshot env path =
     (if path = [] then Ok None
      else of_sum BadSnapshot (map_sum id Some (snapshot_Load (ev_ReadFile (ce_ev env)) (ce_snapshotJson env) path)))"

text \<open>An ApplicationSet without entries gets no key: nothing is appended for it.\<close>

definition fixtures_of :: "(rat \<Rightarrow> string) \<Rightarrow> (string \<times> obj list) list \<Rightarrow> (string \<times> strmap list) list" where
  "fixtures_of ff raw =
     map (\<lambda>(appset, prs). (appset, map (map (\<lambda>(k, v). (k, fmt_v ff v))) prs)) (filter (\<lambda>(appset, prs). prs \<noteq> []) raw)"

definition loadAppSetFixtures :: "'o CliEnv \<Rightarrow> string \<Rightarrow> string + (string \<times> strmap list) list" where
  "loadAppSetFixtures env path =
     (case ev_ReadFile (ce_ev env) path of
        Inl e \<Rightarrow> Inl e
      | Inr data \<Rightarrow>
          (case ce_fixtureYaml env data of
             Inl e \<Rightarrow> Inl (''decoding YAML: '' @ e)
           | Inr raw \<Rightarrow> Inr (fixtures_of (be_ff (ce_build env)) raw)))"

definition load_fixtures :: "'o CliEnv \<Rightarrow> string \<Rightarrow> (string \<times> strmap list) list Stage" where
  "load_fixtures env path = (if path = [] then Ok [] else of_sum (BadFixtures path) (loadAppSetFixtures env path))"

definition check_opts :: "CheckFlags \<Rightarrow> Config.Config \<Rightarrow> (string \<times> strmap list) list \<Rightarrow> BuilderOpts" where
  "check_opts f cfg fixtures =
     \<lparr>bo_SkipRender = cf_skipRender f, bo_HelmBin = cf_helmBin f, bo_KustomizeBin = cf_kustomizeBin f,
      bo_CrossplaneBin = cf_crossplaneBin f, bo_SkipAppSetExpand = cf_skipAppSetExpand f,
      bo_HelmCacheDir = cf_helmCacheDir f, bo_AppSetContext = \<lparr>ctx_PRFixtures = fixtures, ctx_Root = []\<rparr>,
      bo_SSAMPMode = cf_ssaMPMode f, bo_Config = Some cfg\<rparr>"

definition build_world :: "'o CliEnv \<Rightarrow> BuilderOpts \<Rightarrow> LoadedDocument list \<Rightarrow> World Stage" where
  "build_world env opts docs =
     (case Build (ce_build env) opts (ce_host env) docs of
        None \<Rightarrow> Panic
      | Some r \<Rightarrow> of_sum BuildFailed r)"

definition merge_snapshot :: "'o CliEnv \<Rightarrow> Snapshot option \<Rightarrow> World \<Rightarrow> World Stage" where
  "merge_snapshot env snap w =
     (case snap of
        None \<Rightarrow> Ok w
      | Some s \<Rightarrow> (case ReEnrich (be_ff (ce_build env)) (mergeSnapshotIntoWorld w s) of None \<Rightarrow> Panic | Some w' \<Rightarrow> Ok w'))"

text \<open>The World, with the diagnostics of the expansion and the snapshot it was merged with.\<close>

definition check_input :: "'o CliEnv \<Rightarrow> CheckFlags \<Rightarrow> (World \<times> Diagnostic list \<times> Snapshot option) Stage" where
  "check_input env f =
     (case fs_Getwd (ce_ev env) of
        None \<Rightarrow> Fail NoCwd
      | Some cwd \<Rightarrow>
          and_then (of_sum BadConfig (fst (Resolve (ce_yaml env) (ce_ev env) (cf_configPath f) [] cwd))) (\<lambda>cfg.
          and_then (load_paths env (default_paths f)) (\<lambda>docs.
          and_then (load_snapshot env (cf_snapshotPath f)) (\<lambda>snap.
          if docs = [] \<and> snap = None then Fail NoDocuments
          else and_then (load_fixtures env (cf_appsetFixturePath f)) (\<lambda>fixtures.
               let opts = check_opts f cfg fixtures
               in and_then (build_world env opts docs) (\<lambda>w.
                  and_then (merge_snapshot env snap w) (\<lambda>w'.
                  Ok (w', expansion_diags (ce_build env) opts (ce_host env) docs, snap))))))))"

definition render_note :: "string \<Rightarrow> string \<Rightarrow> ArgoApplication \<Rightarrow> Diagnostic" where
  "render_note code tool app =
     \<lparr>dg_Code = code, dg_Severity = SeverityInfo,
      dg_Message = app_Name app @ '': '' @ tool @ '' render skipped (--skip-render set)'', dg_Source = app_Source app,
      dg_Detail = [], dg_Fix = [], dg_Related = [], dg_Obligation = None\<rparr>"

fun skip_notes :: "(string \<Rightarrow> bool) \<Rightarrow> ArgoApplication \<Rightarrow> bool \<Rightarrow> bool \<Rightarrow> ArgoSource list \<Rightarrow> Diagnostic list" where
  "skip_notes allowed app helmSeen kustSeen [] = []"
| "skip_notes allowed app helmSeen kustSeen (src # srcs) =
     (if src_Renderer src = RendererHelm then
        (if \<not> helmSeen \<and> allowed ''XPC.H.helm-renders''
         then render_note ''XPC.H.helm-renders'' ''helm'' app # skip_notes allowed app True kustSeen srcs
         else skip_notes allowed app helmSeen kustSeen srcs)
      else if src_Renderer src = RendererKustomize then
        (if \<not> kustSeen \<and> allowed ''XPC.H.kustomize-renders''
         then render_note ''XPC.H.kustomize-renders'' ''kustomize'' app # skip_notes allowed app helmSeen True srcs
         else skip_notes allowed app helmSeen kustSeen srcs)
      else skip_notes allowed app helmSeen kustSeen srcs)"

definition checker_config :: "CheckFlags \<Rightarrow> string list \<Rightarrow> CheckerConfig" where
  "checker_config f allowlist =
     \<lparr>ck_StrictConversions = cf_strictConversions f, ck_KernelPath = cf_kernelPath f, ck_RuleAllowlist = allowlist,
      ck_ProfileRules = cf_profileRules f\<rparr>"

text \<open>The findings before the waivers: the kernel's, then the ones the kernel never sees.\<close>

definition check_findings ::
  "'o CliEnv \<Rightarrow> CheckFlags \<Rightarrow> string list \<Rightarrow> World \<Rightarrow> Diagnostic list \<Rightarrow> Diagnostic list \<times> RunResult \<times> World" where
  "check_findings env f allowlist w expansion =
     (case CheckWithObligations (ce_kl env) (ce_initShen env) (ce_checkWorld env) w (checker_config f allowlist) of
        (result, w') \<Rightarrow>
          let allowed = postKernelAllowed allowlist (cf_categories f)
          in (run_Diagnostics result @ filter (\<lambda>d. allowed (dg_Code d)) expansion @
              (if cf_skipRender f then concat (map (\<lambda>app. skip_notes allowed app False False (app_Sources app)) (w_ArgoApps w'))
               else []),
              result, w'))"

text \<open>The findings that stay and the findings waived.\<close>

definition check_waivers ::
  "'o CliEnv \<Rightarrow> CheckFlags \<Rightarrow> string \<Rightarrow> Diagnostic list \<Rightarrow> (Diagnostic list \<times> Diagnostic list) Stage" where
  "check_waivers env f cwd diags =
     (if cf_noWaivers f then Ok (diags, [])
      else and_then (of_sum BadWaivers (waiver_Resolve (ce_waiverYaml env) (ce_ev env) (cf_waiversPath f) cwd)) (\<lambda>wv.
           and_then (of_error (\<lambda>(i, p). InvalidWaiver i p) (Validate wv)) (\<lambda>_.
           if ws_Waivers wv \<noteq> []
           then (let r = Apply wv diags (ce_today env) in Ok (wr_Active r, wr_Waived r))
           else Ok (diags, []))))"

definition writeProfile :: "'o CliEnv \<Rightarrow> string \<Rightarrow> RunResult \<Rightarrow> string option" where
  "writeProfile env path result =
     (case ce_profileJson env result of
        Inl e \<Rightarrow> Some e
      | Inr data \<Rightarrow> if path = [] then ce_WriteStderr env (data @ newline) else ce_WriteFile env path (data @ newline))"

definition write_profile :: "'o CliEnv \<Rightarrow> CheckFlags \<Rightarrow> RunResult \<Rightarrow> unit Stage" where
  "write_profile env f result =
     (if cf_profileRules f \<or> cf_profileOut f \<noteq> [] then of_error BadProfile (writeProfile env (cf_profileOut f) result) else Ok ())"

definition write_proof ::
  "'o CliEnv \<Rightarrow> CheckFlags \<Rightarrow> World \<Rightarrow> Snapshot option \<Rightarrow> RunResult \<Rightarrow> Diagnostic list \<Rightarrow> Proof option Stage" where
  "write_proof env f w snap result diags =
     (if \<not> cf_generateProof f then Ok None
      else let summary = \<lparr>ru_TotalObligations = int (run_TotalObligations result), ru_Satisfied = int (run_Satisfied result),
                          ru_Violated = int (run_Violated result), ru_ObligationIDs = run_ObligationIDs result\<rparr>;
               snapDigest = (case snap of Some s \<Rightarrow> sn_Digest s | None \<Rightarrow> [])
           in and_then (of_sum BadRuleset
                (if cf_kernelPath f \<noteq> [] then ComputeRulesetDigest (ce_sha env) (ce_ev env) (ce_walk env) (cf_kernelPath f)
                 else ComputeEmbeddedRulesetDigest (ce_sha env) (ce_embed env))) (\<lambda>rulesetDigest.
              let p = GenerateWithRulesetDigest (ce_sha env) (ce_now env) diags (Some summary)
                        (DigestWorld (ce_sha env) (be_ff (ce_build env)) w) snapDigest rulesetDigest
              in and_then (of_error BadProof (Proof_Save (ce_proofJson env) (ce_WriteFile env) p ''check.xpcproof'')) (\<lambda>_.
                 if length (pf_RootDigest p) < 20 then Panic else Ok (Some p))))"

section \<open>The check subcommand\<close>

record CheckOut =
  co_Diags :: "Diagnostic list"
  co_Waived :: "Diagnostic list"
  co_Output :: Output
  co_Proof :: "Proof option"

text \<open>\<open>Aborted\<close> is a failure after the report has been written.\<close>

datatype CheckRes = CheckHelp | CheckPanic | CheckFail CliError | Aborted Output CliError | CheckDone CheckOut

definition read_source :: "'o CliEnv \<Rightarrow> string \<Rightarrow> string option" where
  "read_source env path = (case ev_ReadFile (ce_ev env) path of Inr d \<Rightarrow> Some d | Inl _ \<Rightarrow> None)"

text \<open>What is known when the report is written.\<close>

definition check_report ::
  "'o CliEnv \<Rightarrow> CheckFlags \<Rightarrow>
   (World \<times> Snapshot option \<times> RunResult \<times> Diagnostic list \<times> Diagnostic list \<times> Output) Stage" where
  "check_report env f =
     and_then (check_input env f) (\<lambda>(w, expansion, snap).
     and_then (of_sum BadCategory (resolveRuleAllowlist (cf_focusPreset f) (cf_categories f) (cf_rules f))) (\<lambda>allowlist.
     case check_findings env f allowlist w expansion of
       (found, result, w') \<Rightarrow>
         and_then (check_waivers env f (the (fs_Getwd (ce_ev env))) found) (\<lambda>(diags, waived).
         and_then (of_sum BadReport (Report (read_source env) diags (cf_format f))) (\<lambda>out.
         Ok (w', snap, result, diags, waived, out)))))"

definition run_check :: "'o CliEnv \<Rightarrow> CheckFlags \<Rightarrow> CheckRes" where
  "run_check env f =
     (case check_report env f of
        Panic \<Rightarrow> CheckPanic
      | Fail e \<Rightarrow> CheckFail e
      | Ok (w, snap, result, diags, waived, out) \<Rightarrow>
          (case and_then (write_profile env f result) (\<lambda>_. write_proof env f w snap result diags) of
             Panic \<Rightarrow> CheckPanic
           | Fail e \<Rightarrow> Aborted out e
           | Ok p \<Rightarrow> CheckDone \<lparr>co_Diags = diags, co_Waived = waived, co_Output = out, co_Proof = p\<rparr>))"

definition runCheck :: "'o CliEnv \<Rightarrow> string list \<Rightarrow> CheckRes" where
  "runCheck env args =
     (case parse_flags check_flag (check_defaults env) args of
        FlagHelp \<Rightarrow> CheckHelp
      | FlagError e \<Rightarrow> CheckFail (UsageError e)
      | Flags f \<Rightarrow> run_check env f)"

text \<open>A panic exits with 2.\<close>

definition check_exit :: "CheckRes \<Rightarrow> nat" where
  "check_exit r =
     (case r of
        CheckHelp \<Rightarrow> 0
      | CheckPanic \<Rightarrow> 2
      | CheckFail _ \<Rightarrow> 1
      | Aborted _ _ \<Rightarrow> 1
      | CheckDone r \<Rightarrow> if (\<exists>d \<in> set (co_Diags r). dg_Severity d = SeverityError) then 1 else 0)"

section \<open>What a check reports\<close>

definition accepted :: "'o CliEnv \<Rightarrow> CheckFlags \<Rightarrow> Diagnostic \<Rightarrow> bool" where
  "accepted env f d =
     (\<not> cf_noWaivers f \<and>
      (case waiver_Resolve (ce_waiverYaml env) (ce_ev env) (cf_waiversPath f) (the (fs_Getwd (ce_ev env))) of
         Inr wv \<Rightarrow> is_waived wv (ce_today env) d
       | Inl _ \<Rightarrow> False))"

definition waiver_note :: "Diagnostic \<Rightarrow> bool" where
  "waiver_note d = (dg_Code d \<in> {CodeWaiverExpired, CodeWaiverUnused} \<and> dg_Severity d \<noteq> SeverityError)"

lemma is_waived_none: "ws_Waivers wv = [] \<Longrightarrow> \<not> is_waived wv now d"
  by (simp add: is_waived_def first_waiver_def)

lemma check_waivers_parts:
  assumes "check_waivers env f (the (fs_Getwd (ce_ev env))) found = Ok (diags, waived)"
  shows "waived = filter (accepted env f) found \<and>
    (\<exists>meta. diags = filter (\<lambda>d. \<not> accepted env f d) found @ meta \<and> (\<forall>d \<in> set meta. waiver_note d))"
proof (cases "cf_noWaivers f")
  case True
  then show ?thesis using assms by (auto simp: check_waivers_def accepted_def)
next
  case False
  then obtain wv where wv: "waiver_Resolve (ce_waiverYaml env) (ce_ev env) (cf_waiversPath f) (the (fs_Getwd (ce_ev env))) = Inr wv"
    and rest: "(if ws_Waivers wv \<noteq> [] then (let r = Apply wv found (ce_today env) in Ok (wr_Active r, wr_Waived r))
      else Ok (found, [])) = Ok (diags, waived)"
    using assms by (auto simp: check_waivers_def and_then_Ok)
  have acc: "accepted env f = is_waived wv (ce_today env)" using False wv by (auto simp: accepted_def fun_eq_iff)
  show ?thesis
    using rest Apply_parts(1)[of wv found "ce_today env"] Apply_parts(2)[of wv found "ce_today env"]
    by (cases "ws_Waivers wv = []") (auto simp: acc is_waived_none waiver_note_def Let_def)
qed

lemma check_report_Ok:
  assumes "check_report env f = Ok (w', snap, result, diags, waived, out)"
  obtains w expansion allowlist found where "check_input env f = Ok (w, expansion, snap)"
    "resolveRuleAllowlist (cf_focusPreset f) (cf_categories f) (cf_rules f) = Inr allowlist"
    "check_findings env f allowlist w expansion = (found, result, w')"
    "check_waivers env f (the (fs_Getwd (ce_ev env))) found = Ok (diags, waived)"
    "Report (read_source env) diags (cf_format f) = Inr out"
proof -
  obtain w expansion sn where i: "check_input env f = Ok (w, expansion, sn)"
    using assms by (auto simp: check_report_def and_then_Ok)
  obtain al where r: "resolveRuleAllowlist (cf_focusPreset f) (cf_categories f) (cf_rules f) = Inr al"
    using assms i by (auto simp: check_report_def and_then_Ok)
  obtain found rr ww where cf: "check_findings env f al w expansion = (found, rr, ww)" by (metis prod_cases3)
  have sel: "of_sum BadCategory (Inr al) = Ok al" by simp
  have "sn = snap \<and> rr = result \<and> ww = w' \<and>
      check_waivers env f (the (fs_Getwd (ce_ev env))) found = Ok (diags, waived) \<and>
      Report (read_source env) diags (cf_format f) = Inr out"
    using assms by (simp add: check_report_def i r cf sel and_then_Ok del: of_sum_Ok) auto
  then show ?thesis using that i r cf by blast
qed

lemma run_check_Done:
  assumes "run_check env f = CheckDone r"
  obtains w' snap result where "check_report env f = Ok (w', snap, result, co_Diags r, co_Waived r, co_Output r)"
    "and_then (write_profile env f result) (\<lambda>_. write_proof env f w' snap result (co_Diags r)) = Ok (co_Proof r)"
  using assms by (auto simp: run_check_def split: Stage.splits prod.splits)

lemma runCheck_Done:
  assumes "runCheck env args = CheckDone r"
  obtains f where "parse_flags check_flag (check_defaults env) args = Flags f" "run_check env f = CheckDone r"
  using assms by (auto simp: runCheck_def split: FlagRes.splits)

text \<open>
  C3: what a finished check reports and exits with.  The report is written of every finding
  of the World that the register does not accept, in order, followed only by notes on the
  register, none of which is an error; the findings left out are exactly the accepted
  ones, and with \<^verbatim>\<open>--no-waivers\<close> there are none.  The exit code is 0 exactly when every error
  found is accepted by a waiver that is still live.
\<close>

theorem runCheck_accounts:
  assumes "runCheck env args = CheckDone r"
  shows "\<exists>f w expansion snap allowlist found result w' meta.
     parse_flags check_flag (check_defaults env) args = Flags f \<and>
     check_input env f = Ok (w, expansion, snap) \<and>
     resolveRuleAllowlist (cf_focusPreset f) (cf_categories f) (cf_rules f) = Inr allowlist \<and>
     check_findings env f allowlist w expansion = (found, result, w') \<and>
     co_Diags r = filter (\<lambda>d. \<not> accepted env f d) found @ meta \<and> list_all waiver_note meta \<and>
     co_Waived r = filter (accepted env f) found \<and>
     Report (read_source env) (co_Diags r) (cf_format f) = Inr (co_Output r) \<and>
     check_exit (CheckDone r) = (if list_ex (\<lambda>d. dg_Severity d = SeverityError \<and> \<not> accepted env f d) found then 1 else 0)"
proof -
  obtain f where f: "parse_flags check_flag (check_defaults env) args = Flags f" "run_check env f = CheckDone r"
    by (rule runCheck_Done[OF assms])
  obtain w' snap result where cr: "check_report env f = Ok (w', snap, result, co_Diags r, co_Waived r, co_Output r)"
    by (rule run_check_Done[OF f(2)])
  obtain w expansion allowlist found where c: "check_input env f = Ok (w, expansion, snap)"
    "resolveRuleAllowlist (cf_focusPreset f) (cf_categories f) (cf_rules f) = Inr allowlist"
    "check_findings env f allowlist w expansion = (found, result, w')"
    "check_waivers env f (the (fs_Getwd (ce_ev env))) found = Ok (co_Diags r, co_Waived r)"
    "Report (read_source env) (co_Diags r) (cf_format f) = Inr (co_Output r)"
    by (rule check_report_Ok[OF cr])
  obtain meta where n: "co_Diags r = filter (\<lambda>d. \<not> accepted env f d) found @ meta" "\<forall>d \<in> set meta. waiver_note d"
    "co_Waived r = filter (accepted env f) found"
    using check_waivers_parts[OF c(4)] by blast
  have "check_exit (CheckDone r) = (if list_ex (\<lambda>d. dg_Severity d = SeverityError \<and> \<not> accepted env f d) found then 1 else 0)"
    using n(2) by (auto simp: check_exit_def n(1) waiver_note_def list_ex_iff)
  then show ?thesis using f(1) c n by (auto simp: list_all_iff intro!: exI)
qed

section \<open>What a restricted check selects\<close>

text \<open>The findings the kernel never sees, before the selection: of the expansion, and of the skipped renderings.\<close>

definition other_findings :: "CheckFlags \<Rightarrow> World \<Rightarrow> Diagnostic list \<Rightarrow> Diagnostic list" where
  "other_findings f w expansion =
     expansion @
     (if cf_skipRender f then concat (map (\<lambda>app. skip_notes (\<lambda>_. True) app False False (app_Sources app)) (w_ArgoApps w)) else [])"

lemma skip_notes_select:
  assumes "allowed ''XPC.H.helm-renders'' \<longrightarrow> h' = h" "allowed ''XPC.H.kustomize-renders'' \<longrightarrow> k' = k"
  shows "skip_notes allowed app h k srcs = filter (\<lambda>d. allowed (dg_Code d)) (skip_notes (\<lambda>_. True) app h' k' srcs)"
  using assms
proof (induction srcs arbitrary: h k h' k')
  case (Cons src srcs)
  let ?p = "\<lambda>d. allowed (dg_Code d)" and ?notes = "skip_notes (\<lambda>_. True) app"
  have coded: "dg_Code (render_note code tool app) = code" for code tool by (simp add: render_note_def)
  have rest: "skip_notes allowed app i j srcs = filter ?p (?notes i' j' srcs)"
    if "allowed ''XPC.H.helm-renders'' \<longrightarrow> i' = i" "allowed ''XPC.H.kustomize-renders'' \<longrightarrow> j' = j" for i i' j j'
    by (rule Cons.IH[OF that])
  consider (helm) "src_Renderer src = RendererHelm" | (kust) "src_Renderer src = RendererKustomize" "src_Renderer src \<noteq> RendererHelm"
    | (other) "src_Renderer src \<noteq> RendererHelm" "src_Renderer src \<noteq> RendererKustomize" by blast
  then show ?case
  proof cases
    case helm
    show ?thesis
      using helm Cons.prems rest[of True True k' k] rest[of h' h k' k] rest[of True h k' k]
      by (cases "allowed ''XPC.H.helm-renders''"; cases h'; cases h) (simp_all add: coded)
  next
    case kust
    show ?thesis
      using kust Cons.prems rest[of h' h True True] rest[of h' h k' k] rest[of h' h True k]
      by (cases "allowed ''XPC.H.kustomize-renders''"; cases k'; cases k) (simp_all add: coded)
  next
    case other
    then show ?thesis using rest[OF Cons.prems] by simp
  qed
qed simp

lemma check_world_result:
  assumes "initShen (ck_KernelPath cfg) = None" "\<not> ck_ProfileRules cfg"
  shows "snd (CheckWithObligations K initShen checkWorld w cfg) =
     snd (worldStaticSections K (checked_world w) (Simulate (checked_world w)))"
  using assms
  by (simp add: CheckWithObligations_def checked_world_def[symmetric] worldToShenObj_def Let_def split: prod.split)

lemma check_findings_select:
  assumes "ce_kl env = sexp_kl" "ce_checkWorld env = shen_kernel err" "ce_initShen env (cf_kernelPath f) = None" "\<not> cf_profileRules f"
  shows "\<exists>result. check_findings env f al w expansion =
     (run_part err w al (all_findings w) @
        filter (\<lambda>d. postKernelAllowed al (cf_categories f) (dg_Code d))
          (other_findings f (snd (worldStaticSections sexp_kl (checked_world w) (Simulate (checked_world w)))) expansion),
      result, snd (worldStaticSections sexp_kl (checked_world w) (Simulate (checked_world w))))"
proof -
  let ?cfg = "checker_config f al"
  let ?run = "CheckWithObligations sexp_kl (ce_initShen env) (shen_kernel err) w ?cfg"
  have cfg: "ce_initShen env (ck_KernelPath ?cfg) = None" "\<not> ck_ProfileRules ?cfg" "ck_RuleAllowlist ?cfg = al"
    using assms(3,4) by (simp_all add: checker_config_def)
  have kernel: "run_Diagnostics (fst ?run) = run_part err w al (all_findings w)"
    using restricted_run[of "ce_initShen env" ?cfg err w, OF cfg(1,2)] by (simp add: Check_def cfg(3))
  have world: "snd ?run = snd (worldStaticSections sexp_kl (checked_world w) (Simulate (checked_world w)))"
    by (rule check_world_result[of "ce_initShen env" ?cfg, OF cfg(1,2)])
  let ?p = "postKernelAllowed al (cf_categories f)"
  obtain rr ww where run: "?run = (rr, ww)" by fastforce
  have "skip_notes ?p app False False (app_Sources app) =
      filter (\<lambda>d. ?p (dg_Code d)) (skip_notes (\<lambda>_. True) app False False (app_Sources app))" for app
    by (rule skip_notes_select) simp_all
  then have "concat (map (\<lambda>app. skip_notes ?p app False False (app_Sources app)) (w_ArgoApps ww)) =
      filter (\<lambda>d. ?p (dg_Code d)) (concat (map (\<lambda>app. skip_notes (\<lambda>_. True) app False False (app_Sources app)) (w_ArgoApps ww)))"
    unfolding filter_concat map_map o_def by (simp only:)
  then have "check_findings env f al w expansion =
      (run_Diagnostics rr @ filter (\<lambda>d. ?p (dg_Code d)) (other_findings f ww expansion), rr, ww)"
    unfolding check_findings_def assms(1,2) run other_findings_def by (simp add: Let_def)
  then show ?thesis using kernel world unfolding run by simp
qed

text \<open>
  C9: what a check restricted by \<^verbatim>\<open>--category\<close>, \<^verbatim>\<open>--rules\<close> or a preset reports, with the modelled kernel
  and without profiling.  Take all the findings of the World, those of every rule and then those the
  kernel never sees, as a check without a restriction reports them.  The restricted check reports, but
  for the waivers, exactly the kernel's findings whose code the selection dispatches and the others whose
  code, or the category of whose code, was asked for, in the same order, and then notes on the register.
  Two families do not follow their own code: the three codes of R22 come together when one of them is
  selected, and the three of the render rule come when \<^verbatim>\<open>XPC.H.helm-renders\<close> is and never otherwise.  If
  R8 is let run and trips, its error XPC000 is all the kernel reports, selected or not.
\<close>

theorem runCheck_selects:
  assumes "runCheck env args = CheckDone r" "parse_flags check_flag (check_defaults env) args = Flags f"
    and "ce_kl env = sexp_kl" "ce_checkWorld env = shen_kernel err" "ce_initShen env (cf_kernelPath f) = None" "\<not> cf_profileRules f"
  shows "\<exists>w expansion snap allowlist others result w' meta.
     check_input env f = Ok (w, expansion, snap) \<and>
     resolveRuleAllowlist (cf_focusPreset f) (cf_categories f) (cf_rules f) = Inr allowlist \<and>
     check_findings env f [] w expansion = (run_part err w [] (all_findings w) @ others, result, w') \<and>
     co_Diags r =
       filter (\<lambda>d. \<not> accepted env f d)
         (run_part err w allowlist (all_findings w) @
          filter (\<lambda>d. postKernelAllowed allowlist (cf_categories f) (dg_Code d)) others) @ meta \<and>
     list_all waiver_note meta"
proof -
  have run: "run_check env f = CheckDone r" using assms(1,2) by (simp add: runCheck_def)
  obtain w' snap result where cr: "check_report env f = Ok (w', snap, result, co_Diags r, co_Waived r, co_Output r)"
    by (rule run_check_Done[OF run])
  obtain w expansion allowlist found where c: "check_input env f = Ok (w, expansion, snap)"
    "resolveRuleAllowlist (cf_focusPreset f) (cf_categories f) (cf_rules f) = Inr allowlist"
    "check_findings env f allowlist w expansion = (found, result, w')"
    "check_waivers env f (the (fs_Getwd (ce_ev env))) found = Ok (co_Diags r, co_Waived r)"
    by (rule check_report_Ok[OF cr])
  let ?w = "snd (worldStaticSections sexp_kl (checked_world w) (Simulate (checked_world w)))"
  note select = check_findings_select[OF assms(3-6), of _ w expansion]
  have found: "found = run_part err w allowlist (all_findings w) @
      filter (\<lambda>d. postKernelAllowed allowlist (cf_categories f) (dg_Code d)) (other_findings f ?w expansion)"
    using select[of allowlist] c(3) by auto
  have "postKernelAllowed [] cats code" for cats code by (simp add: postKernelAllowed_def)
  then obtain result0 where "check_findings env f [] w expansion =
      (run_part err w [] (all_findings w) @ other_findings f ?w expansion, result0, ?w)"
    using select[of "[]"] by auto
  moreover obtain meta where "co_Diags r = filter (\<lambda>d. \<not> accepted env f d) found @ meta" "list_all waiver_note meta"
    using check_waivers_parts[OF c(4)] by (auto simp: list_all_iff)
  ultimately show ?thesis using c(1,2) unfolding found by blast
qed

section \<open>A check on a machine without a kernel\<close>

text \<open>The machine, by what starting the runtime comes back with.\<close>

definition demo_on :: "(string \<Rightarrow> string option) \<Rightarrow> sexp CliEnv" where
  "demo_on start =
     \<lparr>ce_ev = \<lparr>fs_Getwd = Some ''/r'', fs_Stat = (\<lambda>p. if p = ''.'' then Some ModeDir else None), ev_Executable = None,
               ev_EvalSymlinks = (\<lambda>_. None), ev_ReadFile = (\<lambda>_. Inl [])\<rparr>,
      ce_LoadDirectory = (\<lambda>_. Inr [demo_doc]), ce_open = (\<lambda>_. Inl []), ce_yaml = demo_yaml, ce_fixtureYaml = (\<lambda>_. Inr []),
      ce_waiverYaml = (\<lambda>_. Inl []), ce_snapshotJson = (\<lambda>_. Inl []), ce_build = demo_build_env,
      ce_host = \<lparr>hs_tick = 0, hs_disk = []\<rparr>, ce_kl = sexp_kl, ce_initShen = start, ce_checkWorld = shen_kernel [],
      ce_sha = rev, ce_embed = \<lparr>em_ReadDir = Inl [], em_Read = (\<lambda>_. None)\<rparr>, ce_walk = (\<lambda>_. Inl []),
      ce_proofJson = (\<lambda>_. Inl []), ce_profileJson = (\<lambda>_. Inl []), ce_WriteFile = (\<lambda>_ _. None), ce_WriteStderr = (\<lambda>_. None),
      ce_Getenv = (\<lambda>_. []), ce_now = 0, ce_today = (2026, 1, 1)\<rparr>"

abbreviation demo_cli :: "sexp CliEnv" where
  "demo_cli \<equiv> demo_on (\<lambda>_. Some ''no kernel'')"

lemmas demo_cli_def = demo_on_def

definition demo_args :: "string list" where
  "demo_args = [''--rules=XPC002'', ''--skip-render'', ''--no-waivers'']"

definition demo_flags :: CheckFlags where
  "demo_flags = (check_defaults demo_cli)\<lparr>cf_rules := [''XPC002''], cf_skipRender := True, cf_noWaivers := True\<rparr>"

lemma demo_parse: "parse_flags check_flag (check_defaults (demo_on start)) demo_args = Flags demo_flags"
proof -
  have "splitCSV ''XPC002'' = [''XPC002'']" by code_simp
  then show ?thesis
    by (simp add: demo_args_def demo_flags_def check_flag_def valued_def HasPrefix_def TrimPrefix_def check_defaults_def demo_on_def)
qed

lemma demo_flag_values [simp]:
  "cf_configPath demo_flags = []" "default_paths demo_flags = [''.'']" "cf_snapshotPath demo_flags = []"
  "cf_appsetFixturePath demo_flags = []" "cf_focusPreset demo_flags = ''all''" "cf_categories demo_flags = []"
  "cf_rules demo_flags = [''XPC002'']" "cf_noWaivers demo_flags" "\<not> cf_profileRules demo_flags" "cf_profileOut demo_flags = []"
  "\<not> cf_generateProof demo_flags" "cf_format demo_flags = ''agent''" "cf_skipRender demo_flags"
  by (simp_all add: demo_flags_def check_defaults_def demo_on_def default_paths_def)

lemma demo_env_values [simp]:
  "ce_build (demo_on start) = demo_build_env" "ce_initShen (demo_on start) = start" "ce_kl (demo_on start) = sexp_kl"
  "ce_checkWorld (demo_on start) = shen_kernel []" "fs_Getwd (ce_ev (demo_on start)) = Some ''/r''"
  by (simp_all add: demo_on_def)

lemma demo_config: "fst (Resolve (ce_yaml (demo_on start)) (ce_ev (demo_on start)) [] [] ''/r'') = Inr Default"
proof -
  have "is_file (ce_ev (demo_on start)) p = False" if "p \<noteq> ''.''" for p using that by (simp add: is_file_def demo_on_def)
  moreover have "JoinPath [d, CanonicalFileName] \<noteq> ''.''" if "d = ''/r'' \<or> d = ''/''" for d
    using that by (auto simp: CanonicalFileName_def) code_simp+
  moreover have "Dir ''/r'' = ''/''" "Dir ''/'' = ''/''" "ev_Abs (ce_ev (demo_on start)) ''/r'' = Some ''/r''" by code_simp+
  moreover have "exe_dir (ce_ev (demo_on start)) = None" by (simp add: exe_dir_def demo_on_def)
  ultimately show ?thesis
    by (simp add: Resolve_def Discover_def searchUpward.simps[of _ "''/r''"] searchUpward.simps[of _ "''/''"] config_probe_def Let_def)
qed

lemma demo_docs: "load_paths (demo_on start) [''.''] = Ok [demo_doc]"
  by (simp add: load_path_def demo_on_def of_sum_def)

lemma demo_allowlist: "resolveRuleAllowlist ''all'' [] [''XPC002''] = Inr [''XPC002'']"
  by (simp add: resolveRuleAllowlist_def)

lemma demo_done: "\<exists>r. runCheck (demo_on start) demo_args = CheckDone r"
proof -
  let ?opts = "check_opts demo_flags Default []"
  have skip: "bo_SkipRender ?opts" by (simp add: check_opts_def)
  obtain w where w: "Build demo_build_env ?opts (ce_host (demo_on start)) [demo_doc] = Some (Inr w)"
    using demo_builds[OF skip] by blast
  have "check_input (demo_on start) demo_flags = Ok (w, expansion_diags demo_build_env ?opts (ce_host (demo_on start)) [demo_doc], None)"
    using w demo_config demo_docs
    by (simp add: check_input_def load_snapshot_def load_fixtures_def build_world_def merge_snapshot_def of_sum_def Let_def)
  then have "\<exists>x. check_report (demo_on start) demo_flags = Ok x"
    by (simp add: check_report_def demo_allowlist of_sum_def check_waivers_def Report_def split: prod.splits)
  then obtain w' snap result diags waived out where "check_report (demo_on start) demo_flags = Ok (w', snap, result, diags, waived, out)"
    by (metis prod_cases6)
  then show ?thesis by (simp add: runCheck_def demo_parse run_check_def write_profile_def write_proof_def)
qed

theorem runCheck_accounts_witness:
  "\<exists>r. runCheck demo_cli demo_args = CheckDone r \<and> check_exit (CheckDone r) = 1 \<and> co_Waived r = []"
proof -
  obtain r where r: "runCheck demo_cli demo_args = CheckDone r" using demo_done by blast
  have acc: "accepted demo_cli demo_flags d = False" for d by (simp add: accepted_def)
  have err: "list_ex (\<lambda>d. dg_Severity d = SeverityError) found"
    if "check_findings demo_cli demo_flags al w ex = (found, result, w')" for al w ex found result w'
    using that by (auto simp: check_findings_def CheckWithObligations_def error_result_def error_diag_def Let_def)
  show ?thesis using runCheck_accounts[OF r] r by (auto simp: demo_parse acc dest!: err)
qed

theorem runCheck_selects_witness:
  "\<exists>r. runCheck (demo_on (\<lambda>_. None)) demo_args = CheckDone r \<and> list_all (\<lambda>d. dg_Code d = ''XPC002'' \<or> waiver_note d) (co_Diags r)"
proof -
  let ?env = "demo_on (\<lambda>_. None)"
  obtain r where r: "runCheck ?env demo_args = CheckDone r" using demo_done by blast
  have sel: "resolveRuleAllowlist (cf_focusPreset demo_flags) (cf_categories demo_flags) (cf_rules demo_flags) = Inr [''XPC002'']"
    by (simp add: demo_allowlist)
  have kernel: "dg_Code d = ''XPC002''" if "d \<in> set (run_part [] w [''XPC002''] ds)" for d w ds
    using that by (simp add: run_part_def lets_run_def dispatched_def split: if_splits)
  have others: "code = ''XPC002''" if "postKernelAllowed [''XPC002''] (cf_categories demo_flags) code" for code
    using that by (simp add: postKernelAllowed_def)
  obtain w expansion snap allowlist others result w' meta where s:
    "resolveRuleAllowlist (cf_focusPreset demo_flags) (cf_categories demo_flags) (cf_rules demo_flags) = Inr allowlist"
    "co_Diags r = filter (\<lambda>d. \<not> accepted ?env demo_flags d) (run_part [] w allowlist (all_findings w) @
       filter (\<lambda>d. postKernelAllowed allowlist (cf_categories demo_flags) (dg_Code d)) others) @ meta"
    "list_all waiver_note meta"
    using runCheck_selects[OF r demo_parse, of "[]"] by (auto simp: demo_env_values)
  have al: "allowlist = [''XPC002'']" using s(1) unfolding sel by simp
  have "dg_Code d = ''XPC002'' \<or> waiver_note d" if "d \<in> set (co_Diags r)" for d
    using that s(3) kernel others unfolding s(2) al by (auto simp: list_all_iff simp del: demo_flag_values)
  then show ?thesis using r unfolding list_all_iff by blast
qed

end
