(* ===== verification/Cluster.thy ===== *)
theory Cluster
  imports Snapshot BuildWorld Report Discover
begin

text \<open>
  \<^verbatim>\<open>pkg/clustersrc/kubectl.go\<close>: a snapshot captured from a live cluster.  The process that runs
  kubectl, the YAML decoder and encoder and the JSON decoder are parameters; the time limits
  are part of the process.
\<close>

section \<open>Targets\<close>

record target =
  tg_selector :: string
  tg_namespaced :: bool
  tg_label :: string
  tg_optional :: bool

definition providerGroupSuffixes :: "string list" where
  "providerGroupSuffixes =
     [''.aws.upbound.io'', ''aws.upbound.io'', ''.sql.crossplane.io'', ''.m.crossplane.io'', ''.signoz.crossplane.io'',
      ''signoz.crossplane.io'', ''external-secrets.io'', ''generators.external-secrets.io'']"

definition fixedTargets :: "target list" where
  "fixedTargets =
     [\<lparr>tg_selector = ''customresourcedefinitions'', tg_namespaced = False, tg_label = ''CRD'', tg_optional = False\<rparr>,
      \<lparr>tg_selector = ''compositeresourcedefinitions'', tg_namespaced = False, tg_label = ''XRD'', tg_optional = True\<rparr>,
      \<lparr>tg_selector = ''compositions'', tg_namespaced = False, tg_label = ''Composition'', tg_optional = True\<rparr>,
      \<lparr>tg_selector = ''providers.pkg.crossplane.io'', tg_namespaced = False, tg_label = ''Crossplane Provider'', tg_optional = True\<rparr>,
      \<lparr>tg_selector = ''functions.pkg.crossplane.io'', tg_namespaced = False, tg_label = ''Crossplane Function'', tg_optional = True\<rparr>,
      \<lparr>tg_selector = ''configurations.pkg.crossplane.io'', tg_namespaced = False, tg_label = ''Crossplane Configuration'', tg_optional = True\<rparr>,
      \<lparr>tg_selector = ''applications.argoproj.io'', tg_namespaced = True, tg_label = ''Argo Application'', tg_optional = True\<rparr>,
      \<lparr>tg_selector = ''applicationsets.argoproj.io'', tg_namespaced = True, tg_label = ''Argo ApplicationSet'', tg_optional = True\<rparr>,
      \<lparr>tg_selector = ''appprojects.argoproj.io'', tg_namespaced = True, tg_label = ''Argo AppProject'', tg_optional = True\<rparr>]"

definition matchesProviderGroup :: "string \<Rightarrow> bool" where
  "matchesProviderGroup grp = list_ex (\<lambda>suffix. grp = suffix \<or> HasSuffix grp suffix) providerGroupSuffixes"

text \<open>\<^verbatim>\<open>strings.EqualFold\<close> on the ASCII words the API server prints for a scope.\<close>

definition EqualFold :: "string \<Rightarrow> string \<Rightarrow> bool" where
  "EqualFold a b = (ToLower a = ToLower b)"

definition crd_target :: "string \<Rightarrow> target list" where
  "crd_target line =
     (case Fields line of
        plural # grp # rest \<Rightarrow>
          if \<not> matchesProviderGroup grp then []
          else let namespaced = (case rest of [] \<Rightarrow> True | scope # _ \<Rightarrow> \<not> EqualFold scope ''Cluster'');
                   selector = (case rest of
                                 _ # ver # _ \<Rightarrow> if ver \<noteq> [] then plural @ ''.'' @ ver @ ''.'' @ grp else plural @ ''.'' @ grp
                               | _ \<Rightarrow> plural @ ''.'' @ grp)
               in [\<lparr>tg_selector = selector, tg_namespaced = namespaced, tg_label = selector, tg_optional = False\<rparr>]
      | _ \<Rightarrow> [])"

definition parseManagedCRDs :: "string \<Rightarrow> target list" where
  "parseManagedCRDs s = concat (map crd_target (Split s newline))"

section \<open>Running kubectl\<close>

datatype KubectlRes = TimedOut | ExitedWith string string | Stdout string

record Kubectl =
  kc_LookPath :: "string \<Rightarrow> string + string"
  kc_exec :: "string \<Rightarrow> string list \<Rightarrow> KubectlRes"
  kc_events :: "string \<Rightarrow> YamlEvent list"
  kc_Marshal :: "obj \<Rightarrow> string + string"
  kc_version :: "string \<Rightarrow> string option"

record Capturer =
  ca_KubectlBin :: string
  ca_Context :: string
  ca_resolved :: string
  ca_probed :: bool

datatype CaptureError = KubectlAbsent string | CaptureFailed string

definition IsKubectlAbsent :: "CaptureError \<Rightarrow> bool" where
  "IsKubectlAbsent e = (case e of KubectlAbsent _ \<Rightarrow> True | CaptureFailed _ \<Rightarrow> False)"

definition cluster_probe :: "Kubectl \<Rightarrow> Capturer \<Rightarrow> CaptureError option \<times> Capturer" where
  "cluster_probe kc c =
     (if ca_probed c then (None, c)
      else let c1 = c\<lparr>ca_probed := True\<rparr>;
               bin = (if ca_KubectlBin c = [] then ''kubectl'' else ca_KubectlBin c)
           in case kc_LookPath kc bin of
                Inl e \<Rightarrow> (Some (KubectlAbsent e), c1)
              | Inr resolved \<Rightarrow> (None, c1\<lparr>ca_resolved := resolved\<rparr>))"

definition baseArgs :: "Capturer \<Rightarrow> string list \<Rightarrow> string list" where
  "baseArgs c args = (if ca_Context c \<noteq> [] then [''--context='' @ ca_Context c] else []) @ args"

definition execRun :: "Kubectl \<Rightarrow> string \<Rightarrow> string list \<Rightarrow> string + string" where
  "execRun kc bin args =
     (case kc_exec kc bin args of
        Stdout out \<Rightarrow> Inr out
      | TimedOut \<Rightarrow> Inl (''kubectl '' @ Join args '' '' @ '': timed out'')
      | ExitedWith e stderr \<Rightarrow> Inl (''kubectl '' @ Join args '' '' @ '': '' @ e @ '': '' @ TrimSpace stderr))"

definition cluster_get :: "Kubectl \<Rightarrow> Capturer \<Rightarrow> target \<Rightarrow> string + string" where
  "cluster_get kc c t =
     execRun kc (ca_resolved c)
       (baseArgs c ([''get'', tg_selector t] @ (if tg_namespaced t then [''-A''] else []) @ [''-o'', ''yaml'']))"

text \<open>\<open>kc_version\<close> decodes the JSON and gives \<^verbatim>\<open>serverVersion.gitVersion\<close>, empty when absent.\<close>

definition parseServerVersion :: "Kubectl \<Rightarrow> string \<Rightarrow> string" where
  "parseServerVersion kc out = (case kc_version kc out of None \<Rightarrow> [] | Some v \<Rightarrow> v)"

definition serverVersion :: "Kubectl \<Rightarrow> Capturer \<Rightarrow> string" where
  "serverVersion kc c =
     (case execRun kc (ca_resolved c) (baseArgs c [''version'', ''-o'', ''json'']) of
        Inl _ \<Rightarrow> []
      | Inr out \<Rightarrow> parseServerVersion kc out)"

definition crd_jsonpath :: string where
  "crd_jsonpath =
     ''{range .items[*]}{.spec.names.plural}{'' @ [CHR 0x22, CHR 0x20, CHR 0x22] @ ''}{.spec.group}{'' @ [CHR 0x22, CHR 0x20, CHR 0x22] @
     ''}{.spec.scope}{'' @ [CHR 0x22, CHR 0x20, CHR 0x22] @ ''}{.spec.versions[?(@.storage==true)].name}{'' @
     [CHR 0x22, CHR 0x5C] @ ''n'' @ [CHR 0x22] @ ''}{end}''"

definition discoverManagedCRDs :: "Kubectl \<Rightarrow> Capturer \<Rightarrow> string + target list" where
  "discoverManagedCRDs kc c =
     (case execRun kc (ca_resolved c)
             (baseArgs c [''get'', ''customresourcedefinitions'', ''-o'', ''jsonpath='' @ crd_jsonpath]) of
        Inl e \<Rightarrow> Inl (''discover CRDs: '' @ e)
      | Inr out \<Rightarrow> Inr (parseManagedCRDs out))"

definition isMissingResourceType :: "string \<Rightarrow> bool" where
  "isMissingResourceType msg =
     (Contains msg (''doesn'' @ [CHR 0x27] @ ''t have a resource type'') \<or>
      Contains msg ''the server could not find the requested resource'' \<or>
      Contains msg ''could not find the requested resource'')"

section \<open>Lists\<close>

definition listItems :: "LoadedDocument \<Rightarrow> json list option" where
  "listItems d =
     (if \<not> HasSuffix (doc_Kind d) ''List'' then None
      else Option.bind (map_of (doc_Raw d) ''items'') as_arr)"

fun expand_items :: "Kubectl \<Rightarrow> string \<Rightarrow> json list \<Rightarrow> string + LoadedDocument list" where
  "expand_items kc sourcePath [] = Inr []"
| "expand_items kc sourcePath (item # items) =
     (case as_obj item of
        None \<Rightarrow> expand_items kc sourcePath items
      | Some m \<Rightarrow>
          (case kc_Marshal kc m of
             Inl e \<Rightarrow> Inl (''re-marshal list item: '' @ e)
           | Inr raw \<Rightarrow>
               (case LoadReader sourcePath (kc_events kc raw) of
                  Inl e \<Rightarrow> Inl (''re-parse list item: '' @ e)
                | Inr expanded \<Rightarrow> map_sum id (\<lambda>rest. expanded @ rest) (expand_items kc sourcePath items))))"

fun expandLists :: "Kubectl \<Rightarrow> string \<Rightarrow> LoadedDocument list \<Rightarrow> string + LoadedDocument list" where
  "expandLists kc sourcePath [] = Inr []"
| "expandLists kc sourcePath (d # ds) =
     (case (case listItems d of None \<Rightarrow> Inr [d] | Some items \<Rightarrow> expand_items kc sourcePath items) of
        Inl e \<Rightarrow> Inl e
      | Inr out \<Rightarrow> map_sum id (\<lambda>rest. out @ rest) (expandLists kc sourcePath ds))"

section \<open>Capture\<close>

text \<open>The documents of one target: \<^const>\<open>None\<close> when the target is skipped.\<close>

definition fetch :: "Kubectl \<Rightarrow> Capturer \<Rightarrow> target \<Rightarrow> string + LoadedDocument list option" where
  "fetch kc c t =
     (let src = ''kubectl://'' @ tg_selector t
      in case cluster_get kc c t of
           Inl e \<Rightarrow>
             if tg_optional t \<and> isMissingResourceType e then Inr None
             else Inl (''kubectl get '' @ tg_selector t @ '': '' @ e)
         | Inr out \<Rightarrow>
             (case LoadReader src (kc_events kc out) of
                Inl e \<Rightarrow> Inl (''parse '' @ tg_selector t @ '': '' @ e)
              | Inr docs \<Rightarrow>
                  (case expandLists kc src docs of
                     Inl e \<Rightarrow> Inl (''unwrap '' @ tg_selector t @ '': '' @ e)
                   | Inr docs' \<Rightarrow> Inr (Some docs'))))"

text \<open>All documents, and the log of the targets captured with the number of documents of each.\<close>

fun fetch_all :: "Kubectl \<Rightarrow> Capturer \<Rightarrow> target list \<Rightarrow> string + LoadedDocument list \<times> (string \<times> nat) list" where
  "fetch_all kc c [] = Inr ([], [])"
| "fetch_all kc c (t # ts) =
     (case fetch kc c t of
        Inl e \<Rightarrow> Inl e
      | Inr None \<Rightarrow> fetch_all kc c ts
      | Inr (Some docs) \<Rightarrow>
          map_sum id (\<lambda>(rest, captured). (docs @ rest, (tg_selector t, length docs) # captured)) (fetch_all kc c ts))"

definition capture_opts :: BuilderOpts where
  "capture_opts =
     \<lparr>bo_SkipRender = True, bo_HelmBin = [], bo_KustomizeBin = [], bo_CrossplaneBin = [], bo_SkipAppSetExpand = True,
      bo_HelmCacheDir = [], bo_AppSetContext = \<lparr>ctx_PRFixtures = [], ctx_Root = []\<rparr>, bo_SSAMPMode = [], bo_Config = None\<rparr>"

text \<open>The snapshot of the documents; \<^const>\<open>None\<close> is a panic of the builder.\<close>

definition capture_snapshot ::
  "(string \<Rightarrow> string) \<Rightarrow> Marshal \<Rightarrow> BuildEnv \<Rightarrow> HostState \<Rightarrow> Time \<Rightarrow> string \<Rightarrow> string \<Rightarrow> LoadedDocument list \<Rightarrow>
   (CaptureError + Snapshot) option" where
  "capture_snapshot sha M benv st now clusterName k8sVersion docs =
     (case Build benv capture_opts st docs of
        None \<Rightarrow> None
      | Some (Inl e) \<Rightarrow> Some (Inl (CaptureFailed (''build IR from cluster: '' @ e)))
      | Some (Inr world) \<Rightarrow>
          Some (Inr (ComputeDigest sha M
            ((FromWorldWithOptions sha M now world clusterName \<lparr>fo_IncludeResources = True\<rparr>)\<lparr>sn_KubernetesVersion := k8sVersion\<rparr>))))"

definition Capture ::
  "(string \<Rightarrow> string) \<Rightarrow> Marshal \<Rightarrow> Kubectl \<Rightarrow> BuildEnv \<Rightarrow> HostState \<Rightarrow> Time \<Rightarrow> Capturer \<Rightarrow> string \<Rightarrow>
   (CaptureError + Snapshot) option \<times> Capturer" where
  "Capture sha M kc benv st now c clusterName =
     (case cluster_probe kc c of
        (Some e, c1) \<Rightarrow> (Some (Inl e), c1)
      | (None, c1) \<Rightarrow>
          (case discoverManagedCRDs kc c1 of
             Inl e \<Rightarrow> (Some (Inl (CaptureFailed e)), c1)
           | Inr managed \<Rightarrow>
               (case fetch_all kc c1 (fixedTargets @ managed) of
                  Inl e \<Rightarrow> (Some (Inl (CaptureFailed e)), c1)
                | Inr (docs, captured) \<Rightarrow>
                    (capture_snapshot sha M benv st now clusterName (serverVersion kc c1) docs, c1))))"

section \<open>What a capture is to hold\<close>

text \<open>The command line for a kind, in the context asked for.\<close>

definition in_context :: "Capturer \<Rightarrow> string list \<Rightarrow> string list" where
  "in_context c args = (if ca_Context c = [] then args else (''--context='' @ ca_Context c) # args)"

definition get_argv :: "Capturer \<Rightarrow> target \<Rightarrow> string list" where
  "get_argv c t = in_context c (''get'' # tg_selector t # (if tg_namespaced t then [''-A'', ''-o'', ''yaml''] else [''-o'', ''yaml'']))"

text \<open>The documents an item of a list stands for, a document, and all that kubectl lists of a kind.\<close>

inductive item_docs :: "Kubectl \<Rightarrow> string \<Rightarrow> json \<Rightarrow> LoadedDocument list \<Rightarrow> bool" for kc src where
  object: "kc_Marshal kc m = Inr raw \<Longrightarrow> LoadReader src (kc_events kc raw) = Inr ds \<Longrightarrow> item_docs kc src (JObj m) ds"
| no_object: "as_obj item = None \<Longrightarrow> item_docs kc src item []"

inductive doc_unwrapped :: "Kubectl \<Rightarrow> string \<Rightarrow> LoadedDocument \<Rightarrow> LoadedDocument list \<Rightarrow> bool" for kc src where
  is_list: "HasSuffix (doc_Kind d) ''List'' \<Longrightarrow> map_of (doc_Raw d) ''items'' = Some (JArr items) \<Longrightarrow>
    list_all2 (item_docs kc src) items dss \<Longrightarrow> doc_unwrapped kc src d (concat dss)"
| no_list: "\<not> (HasSuffix (doc_Kind d) ''List'' \<and> (\<exists>items. map_of (doc_Raw d) ''items'' = Some (JArr items))) \<Longrightarrow> doc_unwrapped kc src d [d]"

inductive target_docs :: "Kubectl \<Rightarrow> string \<Rightarrow> Capturer \<Rightarrow> target \<Rightarrow> LoadedDocument list \<Rightarrow> bool" for kc bin c where
  listed: "kc_exec kc bin (get_argv c t) = Stdout out \<Longrightarrow> LoadReader (''kubectl://'' @ tg_selector t) (kc_events kc out) = Inr docs \<Longrightarrow>
    list_all2 (doc_unwrapped kc (''kubectl://'' @ tg_selector t)) docs dss \<Longrightarrow> target_docs kc bin c t (concat dss)"
| not_installed: "tg_optional t \<Longrightarrow> execRun kc bin (get_argv c t) = Inl msg \<Longrightarrow> isMissingResourceType msg \<Longrightarrow> target_docs kc bin c t []"

text \<open>The target of a kind with its plural, its group, and the scope and storage version after them.\<close>

definition kind_target :: "string \<Rightarrow> string \<Rightarrow> string list \<Rightarrow> target \<Rightarrow> bool" where
  "kind_target plural grp rest t =
     (tg_selector t = plural @ ''.'' @ (case rest of _ # ver # _ \<Rightarrow> if ver = [] then [] else ver @ ''.'' | _ \<Rightarrow> []) @ grp \<and>
      \<not> tg_optional t \<and> (tg_namespaced t = (case rest of [] \<Rightarrow> True | scope # _ \<Rightarrow> ToLower scope \<noteq> ''cluster'')))"

definition every_managed_kind :: "string \<Rightarrow> target list \<Rightarrow> bool" where
  "every_managed_kind out managed =
     (\<forall>line \<in> set (Split out newline). \<forall>plural grp rest.
        Fields line = plural # grp # rest \<and> list_ex (HasSuffix grp) providerGroupSuffixes \<longrightarrow> list_ex (kind_target plural grp rest) managed)"

text \<open>The snapshot of a World: every section, and the providers and functions taken to be healthy.\<close>

definition snapshot_holds :: "World \<Rightarrow> Snapshot \<Rightarrow> bool" where
  "snapshot_holds w s =
     (sn_CRDs s = w_CRDs w \<and> sn_XRDs s = w_XRDs w \<and> sn_Compositions s = w_Compositions w \<and> sn_Schemas s = w_Schemas w \<and>
      map prs_Info (sn_Providers s) = w_Providers w \<and> list_all prs_Healthy (sn_Providers s) \<and>
      map fns_Info (sn_Functions s) = w_Functions w \<and> list_all fns_Healthy (sn_Functions s) \<and>
      sn_Configurations s = w_Configurations w \<and> sn_Resources s = w_Resources w \<and> sn_ArgoApps s = w_ArgoApps w \<and>
      sn_ArgoAppSets s = w_ArgoAppSets w \<and> sn_ArgoProjects s = w_ArgoProjects w \<and>
      sn_ArgoTrackingMode s = (if w_ArgoApps w = [] then [] else app_TrackingMode (hd (w_ArgoApps w))))"

definition server_version :: "Kubectl \<Rightarrow> string \<Rightarrow> Capturer \<Rightarrow> string" where
  "server_version kc bin c =
     (case kc_exec kc bin (in_context c [''version'', ''-o'', ''json'']) of
        Stdout out \<Rightarrow> (case kc_version kc out of Some v \<Rightarrow> v | None \<Rightarrow> [])
      | _ \<Rightarrow> [])"

section \<open>What a capture holds\<close>

lemma baseArgs_in_context: "baseArgs c args = in_context c args"
  by (simp add: baseArgs_def in_context_def)

lemma execRun_Inr [simp]: "execRun kc bin args = Inr out \<longleftrightarrow> kc_exec kc bin args = Stdout out"
  by (auto simp: execRun_def split: KubectlRes.split)

lemma cluster_get_run: "cluster_get kc c t = execRun kc (ca_resolved c) (get_argv c t)"
  by (simp add: cluster_get_def baseArgs_in_context get_argv_def)

lemma serverVersion_spec: "serverVersion kc c = server_version kc (ca_resolved c) c"
  by (simp add: serverVersion_def server_version_def baseArgs_in_context execRun_def parseServerVersion_def
      split: KubectlRes.split option.split)

lemma expand_items_docs: "expand_items kc src items = Inr ds \<Longrightarrow> \<exists>dss. list_all2 (item_docs kc src) items dss \<and> ds = concat dss"
proof (induction items arbitrary: ds)
  case (Cons item items)
  show ?case
  proof (cases "as_obj item")
    case None
    then have "expand_items kc src items = Inr ds" using Cons.prems by simp
    then obtain dss where "list_all2 (item_docs kc src) items dss" "ds = concat dss" using Cons.IH by blast
    then show ?thesis using no_object[OF None] by (intro exI[of _ "[] # dss"]) simp
  next
    case (Some m)
    then obtain raw d rest where o: "item = JObj m" "kc_Marshal kc m = Inr raw" "LoadReader src (kc_events kc raw) = Inr d"
      "expand_items kc src items = Inr rest" "ds = d @ rest"
      using Cons.prems by (auto simp: map_sum_eq_Inr split: sum.splits)
    then obtain dss where "list_all2 (item_docs kc src) items dss" "rest = concat dss" using Cons.IH by blast
    then show ?thesis using o by (intro exI[of _ "d # dss"]) (auto intro: object)
  qed
qed simp

lemma expandLists_docs: "expandLists kc src docs = Inr ds \<Longrightarrow> \<exists>dss. list_all2 (doc_unwrapped kc src) docs dss \<and> ds = concat dss"
proof (induction docs arbitrary: ds)
  case (Cons d docs)
  obtain out rest where r: "(case listItems d of None \<Rightarrow> Inr [d] | Some items \<Rightarrow> expand_items kc src items) = Inr out"
    "expandLists kc src docs = Inr rest" "ds = out @ rest"
    using Cons.prems by (auto simp: map_sum_eq_Inr split: sum.splits)
  have "doc_unwrapped kc src d out"
  proof (cases "listItems d")
    case None
    then have "\<not> (HasSuffix (doc_Kind d) ''List'' \<and> (\<exists>items. map_of (doc_Raw d) ''items'' = Some (JArr items)))"
      by (auto simp: listItems_def split: if_splits)
    then show ?thesis using r(1) None by (auto intro: no_list)
  next
    case (Some items)
    then have "HasSuffix (doc_Kind d) ''List''" "map_of (doc_Raw d) ''items'' = Some (JArr items)"
      by (auto simp: listItems_def bind_eq_Some_conv split: if_splits)
    moreover obtain dss where "list_all2 (item_docs kc src) items dss" "out = concat dss"
      using r(1) Some expand_items_docs[of kc src items out] by auto
    ultimately show ?thesis by (auto intro: is_list)
  qed
  then show ?case using Cons.IH[OF r(2)] r(3) by auto
qed simp

lemma fetch_docs:
  assumes "fetch kc c t = Inr r"
  shows "target_docs kc (ca_resolved c) c t (case r of None \<Rightarrow> [] | Some docs \<Rightarrow> docs)"
proof (cases "cluster_get kc c t")
  case (Inl e)
  then show ?thesis using assms by (auto simp: fetch_def cluster_get_run Let_def split: if_splits intro: not_installed)
next
  case (Inr out)
  then obtain docs docs' where "LoadReader (''kubectl://'' @ tg_selector t) (kc_events kc out) = Inr docs"
    "expandLists kc (''kubectl://'' @ tg_selector t) docs = Inr docs'" "r = Some docs'"
    using assms by (auto simp: fetch_def Let_def split: sum.splits)
  then show ?thesis using Inr expandLists_docs by (fastforce simp: cluster_get_run intro: listed)
qed

lemma fetch_all_docs:
  "fetch_all kc c ts = Inr (docs, captured) \<Longrightarrow> \<exists>dss. list_all2 (target_docs kc (ca_resolved c) c) ts dss \<and> docs = concat dss"
proof (induction ts arbitrary: docs captured)
  case (Cons t ts)
  show ?case
  proof (cases "fetch kc c t")
    case (Inl e)
    then show ?thesis using Cons.prems by simp
  next
    case (Inr r)
    then obtain rest cap where "fetch_all kc c ts = Inr (rest, cap)" "docs = (case r of None \<Rightarrow> [] | Some ds \<Rightarrow> ds) @ rest"
      using Cons.prems by (auto simp: map_sum_eq_Inr split: option.splits)
    then show ?thesis using Cons.IH[of rest cap] fetch_docs[OF Inr] by auto
  qed
qed simp

lemma ToLower_cluster: "ToLower ''Cluster'' = ''cluster''"
  by code_simp

lemma managed_every_kind: "every_managed_kind out (parseManagedCRDs out)"
  unfolding every_managed_kind_def
proof (intro ballI allI impI)
  fix line plural grp rest
  assume line: "line \<in> set (Split out newline)" and f: "Fields line = plural # grp # rest \<and> list_ex (HasSuffix grp) providerGroupSuffixes"
  have m: "matchesProviderGroup grp" using f by (auto simp: matchesProviderGroup_def list_ex_iff)
  have "list_ex (kind_target plural grp rest) (crd_target line)"
    using f m by (cases rest; cases "tl rest") (auto simp: crd_target_def kind_target_def EqualFold_def ToLower_cluster Let_def)
  then show "list_ex (kind_target plural grp rest) (parseManagedCRDs out)"
    using line by (auto simp: parseManagedCRDs_def list_ex_iff)
qed

lemma FromWorld_holds: "snapshot_holds w (FromWorldWithOptions sha M now w n \<lparr>fo_IncludeResources = True\<rparr>)"
  by (cases "w_ArgoApps w") (simp_all add: snapshot_holds_def FromWorldWithOptions_def ComputeDigest_def Let_def list_all_iff)

text \<open>
  C36: a capture never loses a kind silently.  When the first capture returns a snapshot, kubectl was
  found, the managed kinds were discovered with one target for every line of a provider's group, and for
  each target, in order, either kubectl listed it in the context asked for and its documents are those
  of the listing, every list unwrapped into its items, or the target is optional and kubectl reported
  that its type is not installed.  The snapshot holds every section of the World built from exactly
  these documents and the version of the server, and its digest covers it.
\<close>

theorem Capture_complete:
  assumes "Capture sha M kc benv st now c name = (Some (Inr snap), c1)" "\<not> ca_probed c"
  shows "\<exists>bin out managed docss w.
     kc_LookPath kc (if ca_KubectlBin c = [] then ''kubectl'' else ca_KubectlBin c) = Inr bin \<and>
     kc_exec kc bin (in_context c [''get'', ''customresourcedefinitions'', ''-o'', ''jsonpath='' @ crd_jsonpath]) = Stdout out \<and>
     every_managed_kind out managed \<and>
     list_all2 (target_docs kc bin c) (fixedTargets @ managed) docss \<and>
     Build benv capture_opts st (concat docss) = Some (Inr w) \<and>
     snapshot_holds w snap \<and> sn_KubernetesVersion snap = server_version kc bin c \<and> snapshot_Verify sha M snap"
proof -
  obtain bin where probe: "kc_LookPath kc (if ca_KubectlBin c = [] then ''kubectl'' else ca_KubectlBin c) = Inr bin"
    "cluster_probe kc c = (None, c1)" "ca_resolved c1 = bin" "ca_Context c1 = ca_Context c"
    using assms by (auto simp: Capture_def cluster_probe_def Let_def split: sum.splits prod.splits option.splits if_splits)
  obtain managed docs captured where d: "discoverManagedCRDs kc c1 = Inr managed" "fetch_all kc c1 (fixedTargets @ managed) = Inr (docs, captured)"
    "capture_snapshot sha M benv st now name (serverVersion kc c1) docs = Some (Inr snap)"
    using assms(1) probe(2) by (auto simp: Capture_def split: sum.splits prod.splits)
  have ctx: "in_context c1 = in_context c" by (simp add: in_context_def probe(4) fun_eq_iff)
  obtain out where out: "kc_exec kc bin (in_context c [''get'', ''customresourcedefinitions'', ''-o'', ''jsonpath='' @ crd_jsonpath]) = Stdout out"
    "managed = parseManagedCRDs out"
    using d(1) by (auto simp: discoverManagedCRDs_def baseArgs_in_context ctx probe(3) split: sum.splits)
  have "target_docs kc bin c1 = target_docs kc bin c"
    by (auto simp: fun_eq_iff target_docs.simps get_argv_def ctx)
  then obtain docss where docs: "list_all2 (target_docs kc bin c) (fixedTargets @ managed) docss" "docs = concat docss"
    using fetch_all_docs[OF d(2)] probe(3) by auto
  obtain w where w: "Build benv capture_opts st docs = Some (Inr w)"
    "snap = ComputeDigest sha M
       ((FromWorldWithOptions sha M now w name \<lparr>fo_IncludeResources = True\<rparr>)\<lparr>sn_KubernetesVersion := serverVersion kc c1\<rparr>)"
    using d(3) by (auto simp: capture_snapshot_def split: option.splits sum.splits)
  have "snapshot_holds w snap" using FromWorld_holds[of w sha M now name] by (simp add: w(2) snapshot_holds_def ComputeDigest_def)
  moreover have "sn_KubernetesVersion snap = server_version kc bin c"
    by (simp add: w(2) ComputeDigest_def serverVersion_spec probe(3) server_version_def ctx)
  moreover have "snapshot_Verify sha M snap" unfolding w(2) by (rule ComputeDigest_Verify)
  ultimately show ?thesis using probe(1) out managed_every_kind w(1) docs by blast
qed

text \<open>A storage version is pinned whenever the API server prints one.\<close>

lemma crd_target_pins:
  "Fields line = [plural, grp, scope, ver] \<Longrightarrow> ver \<noteq> [] \<Longrightarrow> matchesProviderGroup grp \<Longrightarrow>
   map tg_selector (crd_target line) = [plural @ ''.'' @ ver @ ''.'' @ grp]"
  by (simp add: crd_target_def Let_def)

text \<open>The probe remembers that it ran, not that it failed: a second capture does not report the missing binary.\<close>

lemma probe_forgets_failure:
  "kc_LookPath kc (if ca_KubectlBin c = [] then ''kubectl'' else ca_KubectlBin c) = Inl e \<Longrightarrow> \<not> ca_probed c \<Longrightarrow>
   fst (cluster_probe kc c) = Some (KubectlAbsent e) \<and> fst (cluster_probe kc (snd (cluster_probe kc c))) = None"
  by (auto simp: cluster_probe_def Let_def)

section \<open>A cluster without compositions and with one managed resource\<close>

definition demo_vpc :: obj where
  "demo_vpc = [(''apiVersion'', JStr ''ec2.aws.upbound.io/v1beta1''), (''kind'', JStr ''VPC'')]"

definition demo_kubectl :: Kubectl where
  "demo_kubectl =
     \<lparr>kc_LookPath = (\<lambda>b. Inr (''/bin/'' @ b)),
      kc_exec = (\<lambda>b args.
        if ''compositions'' \<in> set args then ExitedWith ''exit status 1'' ''the server could not find the requested resource''
        else if ''customresourcedefinitions'' \<in> set args \<and> ''yaml'' \<notin> set args then Stdout ''vpcs ec2.aws.upbound.io Cluster v1beta1''
        else if ''vpcs.v1beta1.ec2.aws.upbound.io'' \<in> set args then Stdout ''list'' else Stdout []),
      kc_events = (\<lambda>s. if s = ''list'' then [Document [(''apiVersion'', JStr ''v1''), (''kind'', JStr ''List''), (''items'', JArr [JObj demo_vpc])] 1 1]
        else if s = ''vpc'' then [Document demo_vpc 1 1] else []),
      kc_Marshal = (\<lambda>m. if m = demo_vpc then Inr ''vpc'' else Inl []), kc_version = (\<lambda>_. Some ''v1.30'')\<rparr>"

definition demo_capturer :: Capturer where
  "demo_capturer = \<lparr>ca_KubectlBin = [], ca_Context = ''prod'', ca_resolved = [], ca_probed = False\<rparr>"

definition demo_vpc_doc :: LoadedDocument where
  "demo_vpc_doc =
     \<lparr>doc_Source = \<lparr>sl_File = ''kubectl://vpcs.v1beta1.ec2.aws.upbound.io'', sl_Line = 1, sl_Column = 1\<rparr>,
      doc_APIVersion = ''ec2.aws.upbound.io/v1beta1'', doc_Kind = ''VPC'', doc_Raw = demo_vpc\<rparr>"

definition demo_c1 :: Capturer where
  "demo_c1 = demo_capturer\<lparr>ca_probed := True, ca_resolved := ''/bin/kubectl''\<rparr>"

definition demo_targets :: "target list" where
  "demo_targets = [\<lparr>tg_selector = ''vpcs.v1beta1.ec2.aws.upbound.io'', tg_namespaced = False,
     tg_label = ''vpcs.v1beta1.ec2.aws.upbound.io'', tg_optional = False\<rparr>]"

lemma demo_parse_crds: "parseManagedCRDs ''vpcs ec2.aws.upbound.io Cluster v1beta1'' = demo_targets"
  unfolding demo_targets_def by code_simp

lemma demo_discover: "discoverManagedCRDs demo_kubectl demo_c1 = Inr demo_targets"
  using demo_parse_crds by (simp add: discoverManagedCRDs_def execRun_def baseArgs_def demo_kubectl_def demo_c1_def demo_capturer_def)

lemma demo_fetch_all: "\<exists>captured. fetch_all demo_kubectl demo_c1 (fixedTargets @ demo_targets) = Inr ([demo_vpc_doc], captured)"
proof -
  have "map_sum id fst (fetch_all demo_kubectl demo_c1 (fixedTargets @ demo_targets)) = Inr [demo_vpc_doc]" by code_simp
  then show ?thesis by (auto simp: map_sum_eq_Inr)
qed

lemma demo_captures:
  "\<exists>snap. Capture rev demo_marshal demo_kubectl demo_build_env \<lparr>hs_tick = 0, hs_disk = []\<rparr> 0 demo_capturer ''prod'' = (Some (Inr snap), demo_c1)"
proof -
  have "ClassifyDocument demo_vpc_doc = CatResource" by code_simp
  then obtain w where w: "Build demo_build_env capture_opts \<lparr>hs_tick = 0, hs_disk = []\<rparr> [demo_vpc_doc] = Some (Inr w)"
    using resource_builds[of capture_opts] by (auto simp: capture_opts_def)
  have p: "cluster_probe demo_kubectl demo_capturer = (None, demo_c1)"
    by (simp add: cluster_probe_def demo_kubectl_def demo_capturer_def demo_c1_def)
  show ?thesis using demo_fetch_all by (auto simp: Capture_def p demo_discover capture_snapshot_def w)
qed

theorem Capture_complete_witness:
  "\<exists>snap. Capture rev demo_marshal demo_kubectl demo_build_env \<lparr>hs_tick = 0, hs_disk = []\<rparr> 0 demo_capturer ''prod'' = (Some (Inr snap), demo_c1) \<and>
     sn_KubernetesVersion snap = ''v1.30'' \<and> snapshot_Verify rev demo_marshal snap"
proof -
  obtain snap where s: "Capture rev demo_marshal demo_kubectl demo_build_env \<lparr>hs_tick = 0, hs_disk = []\<rparr> 0 demo_capturer ''prod'' = (Some (Inr snap), demo_c1)"
    using demo_captures by blast
  have "\<not> ca_probed demo_capturer" by (simp add: demo_capturer_def)
  moreover have "server_version demo_kubectl bin demo_capturer = ''v1.30''" for bin
    by (simp add: server_version_def demo_kubectl_def in_context_def demo_capturer_def)
  ultimately show ?thesis using Capture_complete[OF s] s by auto
qed

end
