(* ===== verification/Bisect.thy ===== *)
theory Bisect
  imports GoPath
begin

text \<open>
  \<^verbatim>\<open>pkg/bisect\<close>: the binary search over the commits of \<^verbatim>\<open>good..bad\<close> for the
  commit at which a rule's firing state flips.  The git binary, the working
  directory and the temporary directories are the parameter \<open>BisectEnv\<close>; the
  state threaded through the run is the list of materialised worktrees, each
  with the commit checked out in it, so that the deferred removal of worktrees
  is part of the model.  Errors are a sum: one constructor per return of
  \<^verbatim>\<open>Run\<close>.
\<close>

section \<open>Data\<close>

datatype Direction = StartedFiring | StoppedFiring

record BisectResult =
  res_Commit :: string
  res_Subject :: string
  res_Direction :: Direction
  res_GoodSHA :: string
  res_BadSHA :: string
  res_Steps :: nat

type_synonym worktrees = "(string \<times> string) list"

text \<open>
  \<open>bopt_CheckRule\<close> decides whether the rule fires in a directory; it sees the
  worktrees because it reads the files in them.
\<close>

record BisectOptions =
  bopt_RuleCode :: string
  bopt_GoodRef :: string
  bopt_BadRef :: string
  bopt_RepoRoot :: string
  bopt_ManifestPath :: string
  bopt_CheckRule :: "(worktrees \<Rightarrow> string \<Rightarrow> string + bool) option"
  bopt_GitBin :: string

record BisectEnv =
  be_Getwd :: "string option"
  be_git :: "string \<Rightarrow> string list \<Rightarrow> string + string"
  be_MkdirTemp :: "string list \<Rightarrow> string \<Rightarrow> string + string"
  be_RemoveAll :: "string \<Rightarrow> string option"

datatype BisectError =
    CheckRuleRequired
  | RuleCodeEmpty
  | RuleCodeMalformed string
  | GoodRefRequired
  | BadRefRequired
  | GetwdFailed
  | AbsFailed string
  | ResolveGoodFailed string string
  | ResolveBadFailed string string
  | ErrSameCommit
  | CheckGoodFailed string string
  | CheckBadFailed string string
  | ErrRuleNeverChanged
  | RevListFailed string
  | NoCommitsInRange string string
  | CheckCommitFailed string string
  | SearchNotConverged
  | SubjectFailed string string

section \<open>Rule codes\<close>

definition is_upper :: "char \<Rightarrow> bool" where
  "is_upper c = (65 \<le> (of_char c :: nat) \<and> (of_char c :: nat) \<le> 90)"

definition is_lower :: "char \<Rightarrow> bool" where
  "is_lower c = (97 \<le> (of_char c :: nat) \<and> (of_char c :: nat) \<le> 122)"

definition is_code_char :: "char \<Rightarrow> bool" where
  "is_code_char c =
     (is_lower c \<or> is_upper c \<or> is_digit c \<or>
      c = CHR ''.'' \<or> c = CHR ''_'' \<or> c = CHR ''-'')"

text \<open>The regular expression \<^verbatim>\<open>^XPC(?:\d{3,}|\.[A-Z]\.[a-zA-Z0-9._-]+)$\<close>.\<close>

definition ruleCodePattern :: "string \<Rightarrow> bool" where
  "ruleCodePattern code =
     (HasPrefix code ''XPC'' \<and>
      (let r = drop 3 code in
         (3 \<le> length r \<and> list_all is_digit r) \<or>
         (case r of
            d1 # l # d2 # name \<Rightarrow>
              d1 = CHR ''.'' \<and> is_upper l \<and> d2 = CHR ''.'' \<and> name \<noteq> [] \<and> list_all is_code_char name
          | _ \<Rightarrow> False)))"

definition ValidateRuleCode :: "string \<Rightarrow> BisectError option" where
  "ValidateRuleCode code =
     (if code = [] then Some RuleCodeEmpty
      else if \<not> ruleCodePattern code then Some (RuleCodeMalformed code)
      else None)"

section \<open>Git commands and worktrees\<close>

definition short :: "string \<Rightarrow> string" where
  "short sha = (if length sha \<le> 12 then sha else take 12 sha)"

definition AbsPath :: "BisectEnv \<Rightarrow> string \<Rightarrow> string option" where
  "AbsPath env p =
     (if IsAbs p then Some (Clean p)
      else (case be_Getwd env of None \<Rightarrow> None | Some wd \<Rightarrow> Some (JoinPath [wd, p])))"

definition revParse :: "BisectEnv \<Rightarrow> string \<Rightarrow> string \<Rightarrow> string \<Rightarrow> string + string" where
  "revParse env gitBin repoRoot ref =
     (case be_git env gitBin [''-C'', repoRoot, ''rev-parse'', ''--verify'', ref @ ''^{commit}''] of
        Inl e \<Rightarrow> Inl e
      | Inr out \<Rightarrow> Inr (TrimSpace out))"

definition newline :: string where
  "newline = [CHR 0x0A]"

definition revList :: "BisectEnv \<Rightarrow> string \<Rightarrow> string \<Rightarrow> string \<Rightarrow> string \<Rightarrow> string + string list" where
  "revList env gitBin repoRoot goodSHA badSHA =
     (case be_git env gitBin
             [''-C'', repoRoot, ''rev-list'', ''--reverse'', goodSHA @ ''..'' @ badSHA] of
        Inl e \<Rightarrow> Inl e
      | Inr out \<Rightarrow>
          let trimmed = TrimSpace out
          in if trimmed = [] then Inr [] else Inr (Split trimmed newline))"

definition commitSubject :: "BisectEnv \<Rightarrow> string \<Rightarrow> string \<Rightarrow> string \<Rightarrow> string + string" where
  "commitSubject env gitBin repoRoot sha =
     (case be_git env gitBin [''-C'', repoRoot, ''log'', ''-1'', ''--format=%s'', sha] of
        Inl e \<Rightarrow> Inl e
      | Inr out \<Rightarrow> Inr (TrimSpace out))"

definition addWorktree ::
  "BisectEnv \<Rightarrow> string \<Rightarrow> string \<Rightarrow> string \<Rightarrow> worktrees \<Rightarrow> (string + string) \<times> worktrees" where
  "addWorktree env gitBin repoRoot sha st =
     (case be_MkdirTemp env (map fst st) (''xpc-bisect-'' @ short sha @ ''-'') of
        Inl e \<Rightarrow> (Inl e, st)
      | Inr wtDir \<Rightarrow>
          (case be_RemoveAll env wtDir of
             Some e \<Rightarrow> (Inl e, st)
           | None \<Rightarrow>
               (case be_git env gitBin
                       [''-C'', repoRoot, ''worktree'', ''add'', ''--detach'', ''--quiet'', wtDir, sha] of
                  Inl e \<Rightarrow> (Inl e, st)
                | Inr _ \<Rightarrow> (Inr wtDir, (wtDir, sha) # st))))"

text \<open>The cleanup closure: \<^verbatim>\<open>git worktree remove --force\<close>, then \<^verbatim>\<open>os.RemoveAll\<close>.\<close>

definition cleanup :: "string \<Rightarrow> worktrees \<Rightarrow> worktrees" where
  "cleanup wtDir st = filter (\<lambda>(d, _). d \<noteq> wtDir) st"

text \<open>
  A successful check returns the directory its cleanup closure removes; a failed
  one has already cleaned up.
\<close>

definition checkAtCommit ::
  "BisectEnv \<Rightarrow> string \<Rightarrow> string \<Rightarrow> string \<Rightarrow> string \<Rightarrow>
   (worktrees \<Rightarrow> string \<Rightarrow> string + bool) \<Rightarrow> worktrees \<Rightarrow> (string + bool \<times> string) \<times> worktrees" where
  "checkAtCommit env gitBin repoRoot sha manifestPath check st =
     (case addWorktree env gitBin repoRoot sha st of
        (Inl e, st1) \<Rightarrow> (Inl e, st1)
      | (Inr wtDir, st1) \<Rightarrow>
          let rel = (if manifestPath = [] then Some []
                     else if IsAbs manifestPath then Rel repoRoot manifestPath
                     else Some manifestPath)
          in (case rel of
                None \<Rightarrow> (Inl (''manifest path not under repo absRepoRoot''), cleanup wtDir st1)
              | Some r \<Rightarrow>
                  let checkDir = (if manifestPath = [] then wtDir else JoinPath [wtDir, r])
                  in (case check st1 checkDir of
                        Inl e \<Rightarrow> (Inl e, cleanup wtDir st1)
                      | Inr fires \<Rightarrow> (Inr (fires, wtDir), st1))))"

text \<open>Every caller runs the closure as soon as the check has returned.\<close>

definition checkThenCleanup ::
  "BisectEnv \<Rightarrow> string \<Rightarrow> string \<Rightarrow> string \<Rightarrow>
   (worktrees \<Rightarrow> string \<Rightarrow> string + bool) \<Rightarrow> string \<Rightarrow> worktrees \<Rightarrow> (string + bool) \<times> worktrees" where
  "checkThenCleanup env gitBin repoRoot manifestPath check sha st =
     (case checkAtCommit env gitBin repoRoot sha manifestPath check st of
        (Inl e, st1) \<Rightarrow> (Inl e, st1)
      | (Inr (fires, wtDir), st1) \<Rightarrow> (Inr fires, cleanup wtDir st1))"

section \<open>The search\<close>

function search_loop ::
  "(string \<Rightarrow> worktrees \<Rightarrow> (string + bool) \<times> worktrees) \<Rightarrow> string list \<Rightarrow> bool \<Rightarrow>
   nat \<Rightarrow> nat \<Rightarrow> nat \<Rightarrow> worktrees \<Rightarrow> (BisectError + nat \<times> nat) \<times> worktrees" where
  "search_loop chk commits badFires lo hi steps st =
     (if lo < hi then
        let mid = lo + (hi - lo) div 2
        in (case chk (commits ! mid) st of
              (Inl e, st1) \<Rightarrow> (Inl (CheckCommitFailed (short (commits ! mid)) e), st1)
            | (Inr fires, st1) \<Rightarrow>
                if fires = badFires
                then search_loop chk commits badFires lo mid (steps + 1) st1
                else search_loop chk commits badFires (mid + 1) hi (steps + 1) st1)
      else (Inr (lo, steps), st))"
  by pat_completeness auto
termination
  by (relation "measure (\<lambda>(chk, commits, badFires, lo, hi, steps, st). hi - lo)") auto

declare search_loop.simps [simp del]

definition finish ::
  "BisectEnv \<Rightarrow> string \<Rightarrow> string \<Rightarrow> string \<Rightarrow> string \<Rightarrow> bool \<Rightarrow> string list \<Rightarrow> nat \<Rightarrow> nat \<Rightarrow>
   BisectError + BisectResult" where
  "finish env gitBin absRepoRoot goodSHA badSHA badFires commits lo steps =
     (if length commits \<le> lo then Inl SearchNotConverged
      else (case commitSubject env gitBin absRepoRoot (commits ! lo) of
              Inl e \<Rightarrow> Inl (SubjectFailed (short (commits ! lo)) e)
            | Inr subject \<Rightarrow>
                Inr \<lparr>res_Commit = commits ! lo, res_Subject = subject,
                     res_Direction = (if \<not> badFires then StoppedFiring else StartedFiring),
                     res_GoodSHA = goodSHA, res_BadSHA = badSHA, res_Steps = steps\<rparr>))"

text \<open>Steps 1 to 5 of \<^verbatim>\<open>Run\<close>, once the options are validated and the absRepoRoot is absolute.\<close>

definition run_range ::
  "BisectEnv \<Rightarrow> string \<Rightarrow> string \<Rightarrow> BisectOptions \<Rightarrow> (worktrees \<Rightarrow> string \<Rightarrow> string + bool) \<Rightarrow>
   worktrees \<Rightarrow> (BisectError + BisectResult) \<times> worktrees" where
  "run_range env gitBin absRepoRoot opts check st =
     (let chk = checkThenCleanup env gitBin absRepoRoot (bopt_ManifestPath opts) check in
      case revParse env gitBin absRepoRoot (bopt_GoodRef opts) of
        Inl e \<Rightarrow> (Inl (ResolveGoodFailed (bopt_GoodRef opts) e), st)
      | Inr goodSHA \<Rightarrow>
      (case revParse env gitBin absRepoRoot (bopt_BadRef opts) of
        Inl e \<Rightarrow> (Inl (ResolveBadFailed (bopt_BadRef opts) e), st)
      | Inr badSHA \<Rightarrow>
      if goodSHA = badSHA then (Inl ErrSameCommit, st) else
      (case chk goodSHA st of
        (Inl e, st1) \<Rightarrow> (Inl (CheckGoodFailed (short goodSHA) e), st1)
      | (Inr goodFires, st1) \<Rightarrow>
      (case chk badSHA st1 of
        (Inl e, st2) \<Rightarrow> (Inl (CheckBadFailed (short badSHA) e), st2)
      | (Inr badFires, st2) \<Rightarrow>
      if goodFires = badFires then (Inl ErrRuleNeverChanged, st2) else
      (case revList env gitBin absRepoRoot goodSHA badSHA of
        Inl e \<Rightarrow> (Inl (RevListFailed e), st2)
      | Inr commits \<Rightarrow>
      if commits = [] then (Inl (NoCommitsInRange (short goodSHA) (short badSHA)), st2) else
      (case search_loop chk commits badFires 0 (length commits) 0 st2 of
        (Inl e, st3) \<Rightarrow> (Inl e, st3)
      | (Inr (lo, steps), st3) \<Rightarrow>
          (finish env gitBin absRepoRoot goodSHA badSHA badFires commits lo steps, st3)))))))"

text \<open>The git binary and the absolute repository root \<^verbatim>\<open>Run\<close> works with.\<close>

definition bisect_gitBin :: "BisectOptions \<Rightarrow> string" where
  "bisect_gitBin opts = (if bopt_GitBin opts = [] then ''git'' else bopt_GitBin opts)"

definition bisect_root :: "BisectEnv \<Rightarrow> BisectOptions \<Rightarrow> BisectError + string" where
  "bisect_root env opts =
     (case (if bopt_RepoRoot opts = [] then be_Getwd env else Some (bopt_RepoRoot opts)) of
        None \<Rightarrow> Inl GetwdFailed
      | Some repoRoot \<Rightarrow>
          (case AbsPath env repoRoot of
             None \<Rightarrow> Inl (AbsFailed repoRoot)
           | Some absRepoRoot \<Rightarrow> Inr absRepoRoot))"

definition Run ::
  "BisectEnv \<Rightarrow> BisectOptions \<Rightarrow> worktrees \<Rightarrow> (BisectError + BisectResult) \<times> worktrees" where
  "Run env opts st =
     (case bopt_CheckRule opts of
        None \<Rightarrow> (Inl CheckRuleRequired, st)
      | Some check \<Rightarrow>
      (case ValidateRuleCode (bopt_RuleCode opts) of
        Some e \<Rightarrow> (Inl e, st)
      | None \<Rightarrow>
      if bopt_GoodRef opts = [] then (Inl GoodRefRequired, st) else
      if bopt_BadRef opts = [] then (Inl BadRefRequired, st) else
      (case bisect_root env opts of
        Inl e \<Rightarrow> (Inl e, st)
      | Inr absRepoRoot \<Rightarrow> run_range env (bisect_gitBin opts) absRepoRoot opts check st)))"

section \<open>Worktrees are torn down\<close>

text \<open>\<^verbatim>\<open>os.MkdirTemp\<close> never returns a directory that exists.\<close>

definition fresh_dirs :: "BisectEnv \<Rightarrow> bool" where
  "fresh_dirs env = (\<forall>ds pat d. be_MkdirTemp env ds pat = Inr d \<longrightarrow> d \<notin> set ds)"

lemma cleanup_fresh: "d \<notin> fst ` set st \<Longrightarrow> cleanup d ((d, sha) # st) = st"
  by (induction st) (auto simp: cleanup_def)

lemma fresh_dirsD:
  "fresh_dirs env \<Longrightarrow> be_MkdirTemp env (map fst st) pat = Inr d \<Longrightarrow> d \<notin> fst ` set st"
  unfolding fresh_dirs_def by (metis list.set_map)

lemma addWorktree_cases:
  assumes "fresh_dirs env"
  shows "(\<exists>e. addWorktree env g r sha st = (Inl e, st)) \<or>
         (\<exists>d. addWorktree env g r sha st = (Inr d, (d, sha) # st) \<and> d \<notin> fst ` set st)"
  unfolding addWorktree_def
  using fresh_dirsD[OF assms, of st "''xpc-bisect-'' @ short sha @ ''-''"]
  by (simp split: sum.split option.split)

lemma checkThenCleanup_restores:
  assumes "fresh_dirs env"
  shows "snd (checkThenCleanup env g r mp check sha st) = st"
  using addWorktree_cases[OF assms, of g r sha st]
  by (auto simp: checkThenCleanup_def checkAtCommit_def cleanup_fresh Let_def
      split: sum.splits option.splits)

lemma search_loop_restores:
  assumes "\<And>sha st. snd (chk sha st) = st"
  shows "snd (search_loop chk commits b lo hi steps st) = st"
  using assms
proof (induction chk commits b lo hi steps st rule: search_loop.induct)
  case (1 chk commits b lo hi steps st)
  show ?case
  proof (cases "lo < hi")
    case True
    define mid where "mid = lo + (hi - lo) div 2"
    obtain r where r: "chk (commits ! mid) st = (r, st)"
      using 1(3) by (metis prod.collapse)
    show ?thesis
      using True r 1(1)[OF True mid_def r[symmetric]] 1(2)[OF True mid_def r[symmetric]] 1(3)
      by (subst search_loop.simps) (auto simp: Let_def mid_def[symmetric] split: sum.splits)
  qed (subst search_loop.simps, simp)
qed

lemma run_range_restores:
  assumes "fresh_dirs env"
  shows "snd (run_range env g r opts check st) = st"
proof -
  let ?chk = "checkThenCleanup env g r (bopt_ManifestPath opts) check"
  have chk: "snd (?chk sha st) = st" for sha st
    using checkThenCleanup_restores[OF assms] .
  have chkD: "?chk sha st = (x, st') \<Longrightarrow> st' = st" for sha st x st'
    using chk[of sha st] by simp
  have loopD: "search_loop ?chk cs b lo hi n st = (x, st') \<Longrightarrow> st' = st" for cs b lo hi n st x st'
    using search_loop_restores[of ?chk cs b lo hi n st, OF chk] by simp
  show ?thesis
    unfolding run_range_def Let_def
    by (auto split: sum.split prod.split dest: chkD loopD)
qed

section \<open>What the search finds\<close>

lemma search_loop_spec:
  assumes "\<And>i. i < length commits \<Longrightarrow> chk (commits ! i) st = (Inr (F (commits ! i)), st)"
    and "lo \<le> hi" "hi \<le> length commits"
    and "lo = 0 \<or> F (commits ! (lo - 1)) \<noteq> b"
    and "hi = length commits \<or> F (commits ! hi) = b"
  shows "\<exists>i s. search_loop chk commits b lo hi steps st = (Inr (i, steps + s), st) \<and>
           i \<le> length commits \<and>
           (i = 0 \<or> F (commits ! (i - 1)) \<noteq> b) \<and>
           (i = length commits \<or> F (commits ! i) = b) \<and>
           (s = 0 \<or> 2 ^ s \<le> 2 * (hi - lo))"
  using assms(2-)
proof (induction "hi - lo" arbitrary: lo hi steps rule: less_induct)
  case less
  show ?case
  proof (cases "lo < hi")
    case False
    then show ?thesis using less.prems
      by (intro exI[of _ lo] exI[of _ 0]) (subst search_loop.simps, simp)
  next
    case True
    define mid where "mid = lo + (hi - lo) div 2"
    have m: "lo \<le> mid" "mid < hi" using True by (auto simp: mid_def)
    have chk: "chk (commits ! mid) st = (Inr (F (commits ! mid)), st)" using m less.prems(2) by (intro assms(1)) simp
    show ?thesis
    proof (cases "F (commits ! mid) = b")
      case True': True
      have "mid - lo < hi - lo" using m by simp
      from less.hyps[OF this, of "steps + 1"] obtain i s where
        i: "search_loop chk commits b lo mid (steps + 1) st = (Inr (i, steps + 1 + s), st)"
        and P: "i \<le> length commits" "i = 0 \<or> F (commits ! (i - 1)) \<noteq> b"
          "i = length commits \<or> F (commits ! i) = b" and s: "s = 0 \<or> 2 ^ s \<le> 2 * (mid - lo)"
        using True' m less.prems by auto
      have "2 ^ Suc s \<le> 2 * (hi - lo)"
        using s True by (auto simp: mid_def)
      with i P True True' show ?thesis
        by (intro exI[of _ i] exI[of _ "Suc s"])
          (subst search_loop.simps, simp add: chk mid_def[symmetric])
    next
      case False': False
      have "hi - (mid + 1) < hi - lo" using m by simp
      from less.hyps[OF this, of "steps + 1"] obtain i s where
        i: "search_loop chk commits b (mid + 1) hi (steps + 1) st = (Inr (i, steps + 1 + s), st)"
        and P: "i \<le> length commits" "i = 0 \<or> F (commits ! (i - 1)) \<noteq> b"
          "i = length commits \<or> F (commits ! i) = b" and s: "s = 0 \<or> 2 ^ s \<le> 2 * (hi - (mid + 1))"
        using False' m less.prems by auto
      have "2 ^ Suc s \<le> 2 * (hi - lo)"
        using s True by (auto simp: mid_def)
      with i P True False' show ?thesis
        by (intro exI[of _ i] exI[of _ "Suc s"])
          (subst search_loop.simps, simp add: chk mid_def[symmetric])
    qed
  qed
qed

text \<open>
  A repository the search can walk: the options are complete, both refs resolve
  to different commits, \<^verbatim>\<open>git rev-list --reverse good..bad\<close> lists \<open>commits\<close> and ends in the
  bad commit, and for the good commit and those listed, and for no others, the check
  succeeds with the verdict \<open>F\<close> of the commit and the commit has a subject.
\<close>

definition walkable ::
  "BisectEnv \<Rightarrow> BisectOptions \<Rightarrow> (worktrees \<Rightarrow> string \<Rightarrow> string + bool) \<Rightarrow> string \<Rightarrow>
   (string \<Rightarrow> bool) \<Rightarrow> string \<Rightarrow> string \<Rightarrow> string list \<Rightarrow> worktrees \<Rightarrow> bool" where
  "walkable env opts check absRepoRoot F good bad commits st =
     (fresh_dirs env \<and>
      bopt_CheckRule opts = Some check \<and> ValidateRuleCode (bopt_RuleCode opts) = None \<and>
      bopt_GoodRef opts \<noteq> [] \<and> bopt_BadRef opts \<noteq> [] \<and>
      bisect_root env opts = Inr absRepoRoot \<and>
      revParse env (bisect_gitBin opts) absRepoRoot (bopt_GoodRef opts) = Inr good \<and>
      revParse env (bisect_gitBin opts) absRepoRoot (bopt_BadRef opts) = Inr bad \<and>
      good \<noteq> bad \<and>
      (\<forall>sha \<in> insert good (set commits). fst (checkThenCleanup env (bisect_gitBin opts) absRepoRoot
                     (bopt_ManifestPath opts) check sha st) = Inr (F sha)) \<and>
      revList env (bisect_gitBin opts) absRepoRoot good bad = Inr commits \<and>
      commits \<noteq> [] \<and> last commits = bad \<and>
      (\<forall>sha \<in> set commits. \<exists>subj. commitSubject env (bisect_gitBin opts) absRepoRoot sha = Inr subj))"

lemma walkable_run:
  assumes w: "walkable env opts check r F good bad commits st" and diff: "F good \<noteq> F bad"
  shows "\<exists>res i. Run env opts st = (Inr res, st) \<and> i < length commits \<and>
           res_Commit res = commits ! i \<and> F (commits ! i) = F bad \<and>
           (i = 0 \<or> F (commits ! (i - 1)) \<noteq> F bad) \<and>
           res_Direction res = (if F bad then StartedFiring else StoppedFiring) \<and>
           res_GoodSHA res = good \<and> res_BadSHA res = bad \<and>
           2 ^ res_Steps res \<le> 2 * length commits"
proof -
  let ?g = "bisect_gitBin opts"
  let ?chk = "checkThenCleanup env ?g r (bopt_ManifestPath opts) check"
  have ne: "commits \<noteq> []" "last commits = bad" using w by (auto simp: walkable_def)
  have chk: "?chk sha st = (Inr (F sha), st)" if "sha \<in> insert good (set commits)" for sha
    using w that checkThenCleanup_restores[of env ?g r "bopt_ManifestPath opts" check sha st]
    unfolding walkable_def by (metis prod.collapse)
  have ends: "?chk good st = (Inr (F good), st)" "?chk bad st = (Inr (F bad), st)"
    using chk[of good] chk[of bad] ne last_in_set[of commits] by auto
  obtain i s where i: "search_loop ?chk commits (F bad) 0 (length commits) 0 st = (Inr (i, s), st)"
    and P: "i \<le> length commits" "i = 0 \<or> F (commits ! (i - 1)) \<noteq> F bad"
      "i = length commits \<or> F (commits ! i) = F bad" "s = 0 \<or> 2 ^ s \<le> 2 * length commits"
    using search_loop_spec[of commits ?chk st F 0 "length commits" "F bad" 0] chk by auto
  have lt: "i < length commits"
    using P(1,2) ne by (metis last_conv_nth le_neq_implies_less length_0_conv)
  obtain subj where subj: "commitSubject env ?g r (commits ! i) = Inr subj"
    using w lt unfolding walkable_def by (metis nth_mem)
  have "Run env opts st = (finish env ?g r good bad (F bad) commits i s, st)"
    using w diff ends i unfolding walkable_def by (simp add: Run_def run_range_def Let_def)
  moreover have "2 ^ s \<le> 2 * length commits" using P(4) lt by (cases s) auto
  ultimately show ?thesis using lt subj P(2,3)
    by (intro exI conjI) (auto simp: finish_def)
qed

text \<open>
  A three-commit repository: the rule starts to fire at commit \<^verbatim>\<open>b\<close>.  Git fails on any other
  name, as it does on one that is not a commit.
\<close>

definition demo_git :: "string \<Rightarrow> string list \<Rightarrow> string + string" where
  "demo_git bin args =
     (if last args \<notin> {''a'', ''b'', ''c''} \<and> args ! 2 \<in> {''worktree'', ''log''} then Inl ''fatal: invalid reference''
      else if args ! 2 = ''rev-parse''
      then Inr (if args ! 4 = ''main~2^{commit}'' then ''a'' else ''c'')
      else if args ! 2 = ''rev-list'' then Inr (''b'' @ newline @ ''c'' @ newline)
      else Inr [])"

definition demo_env :: BisectEnv where
  "demo_env = \<lparr>be_Getwd = Some ''/repo'', be_git = demo_git,
     be_MkdirTemp = (\<lambda>ds pat. Inr (CHR ''t'' # concat ds)), be_RemoveAll = (\<lambda>d. None)\<rparr>"

definition demo_check :: "worktrees \<Rightarrow> string \<Rightarrow> string + bool" where
  "demo_check st dir =
     (case map_of st dir of None \<Rightarrow> Inl ''no worktree'' | Some sha \<Rightarrow> Inr (sha \<noteq> ''a''))"

definition demo_opts :: BisectOptions where
  "demo_opts = \<lparr>bopt_RuleCode = ''XPC002'', bopt_GoodRef = ''main~2'', bopt_BadRef = ''main'',
     bopt_RepoRoot = [], bopt_ManifestPath = [], bopt_CheckRule = Some demo_check,
     bopt_GitBin = []\<rparr>"

lemma demo_fresh: "fresh_dirs demo_env"
proof -
  have "length d \<le> length (concat ds)" if "d \<in> set ds" for d ds
    using that by (induction ds) auto
  then show ?thesis
    unfolding fresh_dirs_def demo_env_def by fastforce
qed

lemma demo_walkable:
  "walkable demo_env demo_opts demo_check ''/repo'' (\<lambda>sha. sha \<noteq> ''a'') ''a'' ''c'' [''b'', ''c''] []"
proof -
  have v: "ValidateRuleCode ''XPC002'' = None" by code_simp
  have root: "bisect_root demo_env demo_opts = Inr ''/repo''" by code_simp
  have g: "revParse demo_env ''git'' ''/repo'' ''main~2'' = Inr ''a''"
    and b: "revParse demo_env ''git'' ''/repo'' ''main'' = Inr ''c''" by code_simp+
  have l: "revList demo_env ''git'' ''/repo'' ''a'' ''c'' = Inr [''b'', ''c'']" by code_simp
  have c: "fst (checkThenCleanup demo_env ''git'' ''/repo'' [] demo_check sha []) = Inr (sha \<noteq> ''a'')"
    if "sha \<in> {''a'', ''b'', ''c''}" for sha
    using that by (simp add: checkThenCleanup_def checkAtCommit_def addWorktree_def demo_env_def
        demo_git_def demo_check_def)
  have s: "\<exists>subj. commitSubject demo_env ''git'' ''/repo'' sha = Inr subj"
    if "sha \<in> {''a'', ''b'', ''c''}" for sha
    using that by (simp add: commitSubject_def demo_env_def demo_git_def)
  have bin: "bisect_gitBin demo_opts = ''git''" by code_simp
  show ?thesis
    unfolding walkable_def bin using demo_fresh v root g b l c s
    by (simp add: demo_opts_def)
qed

section \<open>Properties\<close>

text \<open>
  C2.  When git can check out the good commit and every commit it lists between the refs, the
  check decides each of them, and the end points have different firing states,
  bisect returns a result, and the commit it names is a flip: it has the bad
  ref's state while its predecessor in the list (the good ref itself when it is the first
  commit of the range) has the good ref's state.  No monotonicity is assumed.
  The direction is \<open>StartedFiring\<close> exactly when the rule fires at the bad ref.
\<close>

theorem Run_returns_transition:
  assumes "walkable env opts check r F good bad commits st" "F good \<noteq> F bad"
  shows "\<exists>res i. fst (Run env opts st) = Inr res \<and> i < length commits \<and>
           res_Commit res = commits ! i \<and> F (commits ! i) = F bad \<and>
           F (if i = 0 then good else commits ! (i - 1)) = F good \<and>
           res_Direction res = (if F bad then StartedFiring else StoppedFiring)"
proof -
  from walkable_run[OF assms] obtain res i where
    r: "Run env opts st = (Inr res, st)" "i < length commits" "res_Commit res = commits ! i"
      "F (commits ! i) = F bad" "i = 0 \<or> F (commits ! (i - 1)) \<noteq> F bad"
      "res_Direction res = (if F bad then StartedFiring else StoppedFiring)"
    by blast
  moreover have "F (if i = 0 then good else commits ! (i - 1)) = F good"
    using r(5) assms(2) by auto
  ultimately show ?thesis by (intro exI[of _ res] exI[of _ i]) simp
qed

theorem Run_returns_transition_witness:
  "\<exists>res. fst (Run demo_env demo_opts []) = Inr res \<and>
     res_Commit res = ''b'' \<and> res_Direction res = StartedFiring"
  using Run_returns_transition[OF demo_walkable] by (auto simp: less_Suc_eq numeral_2_eq_2)

text \<open>
  When the state flips once (every commit after one with the bad state has
  the bad state), the commit named is the first of the range with the bad state.
\<close>

theorem Run_returns_first_bad:
  assumes "walkable env opts check r F good bad commits st" "F good \<noteq> F bad"
    and "\<And>j k. j < k \<Longrightarrow> k < length commits \<Longrightarrow> F (commits ! j) = F bad \<Longrightarrow> F (commits ! k) = F bad"
  shows "\<exists>res i. fst (Run env opts st) = Inr res \<and> i < length commits \<and>
           res_Commit res = commits ! i \<and> F (commits ! i) = F bad \<and>
           (\<forall>j < i. F (commits ! j) = F good)"
proof -
  from walkable_run[OF assms(1,2)] obtain res i where
    r: "Run env opts st = (Inr res, st)" "i < length commits" "res_Commit res = commits ! i"
      "F (commits ! i) = F bad" "i = 0 \<or> F (commits ! (i - 1)) \<noteq> F bad"
    by blast
  have "F (commits ! j) \<noteq> F bad" if "j < i" for j
    using that r(2,5) assms(3)[of j "i - 1"]
    by (cases "j = i - 1") (force, metis One_nat_def Suc_pred less_Suc_eq less_imp_diff_less not_less0 not_gr_zero)
  then show ?thesis using r assms(2) by (intro exI[of _ res] exI[of _ i]) auto
qed

theorem Run_returns_first_bad_witness:
  "\<exists>res. fst (Run demo_env demo_opts []) = Inr res \<and> res_Commit res = ''b''"
proof -
  have mono: "([''b'', ''c''] ! k \<noteq> ''a'') = (''c'' \<noteq> ''a'')" if "k < length [''b'', ''c'']" for k
    using that by (cases k) auto
  show ?thesis
    using Run_returns_first_bad[OF demo_walkable _ mono]
    by (auto simp: less_Suc_eq numeral_2_eq_2)
qed

text \<open>
  C15.  The number of commits checked inside the range is logarithmic: with \<open>n\<close>
  commits, at most \<open>log2 n + 1\<close> worktrees are materialised by the loop.
\<close>

theorem Run_steps_logarithmic:
  assumes "walkable env opts check r F good bad commits st" "F good \<noteq> F bad"
  shows "\<exists>res. fst (Run env opts st) = Inr res \<and> 2 ^ res_Steps res \<le> 2 * length commits"
  using walkable_run[OF assms] by fastforce

theorem Run_steps_logarithmic_witness:
  "\<exists>res. fst (Run demo_env demo_opts []) = Inr res \<and> 2 ^ res_Steps res \<le> (4::nat)"
  using Run_steps_logarithmic[OF demo_walkable] by simp

text \<open>
  Whatever the run returns, a result or any of its errors, no worktree is
  left behind and none that existed before is removed.
\<close>

theorem Run_restores_worktrees:
  assumes "fresh_dirs env"
  shows "snd (Run env opts st) = st"
  using run_range_restores[OF assms]
  by (auto simp: Run_def split: option.split sum.split)

theorem Run_restores_worktrees_witness:
  "fresh_dirs demo_env \<and> snd (Run demo_env demo_opts [(''t'', ''x'')]) = [(''t'', ''x'')]"
  using Run_restores_worktrees[OF demo_fresh] demo_fresh by simp

end
