(* ===== verification/Commands.thy ===== *)
theory Commands
  imports Cli Cluster Bisect
begin

text \<open>
  The other subcommands of \<^verbatim>\<open>cmd/xpc/main.go\<close>: \<^verbatim>\<open>dump-ir\<close>, \<^verbatim>\<open>snapshot\<close>, \<^verbatim>\<open>verify\<close>, \<^verbatim>\<open>proof\<close>,
  \<^verbatim>\<open>bisect\<close> and \<^verbatim>\<open>plan\<close>.
\<close>

datatype CmdError = CmdCli CliError | CmdMsg string | CmdCapture CaptureError | CmdBisect BisectError

datatype 'a CmdRes = CmdHelp | CmdPanic | CmdFail CmdError | CmdOk 'a

fun of_stage :: "'a Stage \<Rightarrow> ('a \<Rightarrow> 'b CmdRes) \<Rightarrow> 'b CmdRes" where
  "of_stage Panic f = CmdPanic"
| "of_stage (Fail e) f = CmdFail (CmdCli e)"
| "of_stage (Ok x) f = f x"

definition msg_stage :: "string + 'a \<Rightarrow> ('a \<Rightarrow> 'b CmdRes) \<Rightarrow> 'b CmdRes" where
  "msg_stage s f = (case s of Inl e \<Rightarrow> CmdFail (CmdMsg e) | Inr x \<Rightarrow> f x)"

section \<open>dump-ir\<close>

text \<open>The options of \<^verbatim>\<open>NewBuilder\<close>.\<close>

definition new_builder :: BuilderOpts where
  "new_builder =
     \<lparr>bo_SkipRender = False, bo_HelmBin = [], bo_KustomizeBin = [], bo_CrossplaneBin = [], bo_SkipAppSetExpand = False,
      bo_HelmCacheDir = [], bo_AppSetContext = \<lparr>ctx_PRFixtures = [], ctx_Root = []\<rparr>, bo_SSAMPMode = [], bo_Config = None\<rparr>"

definition runDumpIR :: "'o CliEnv \<Rightarrow> string list \<Rightarrow> string CmdRes" where
  "runDumpIR env args =
     (case args of
        [] \<Rightarrow> CmdFail (CmdMsg ''error: no path specified'')
      | path # _ \<Rightarrow>
          of_stage (and_then (load_path env path) (build_world env new_builder))
            (\<lambda>w. CmdOk (ToSExpr (be_ff (ce_build env)) w)))"

section \<open>snapshot\<close>

record SnapFlags =
  sf_outputPath :: string
  sf_clusterName :: string
  sf_diffPaths :: string
  sf_includeResources :: bool
  sf_fromCluster :: bool
  sf_kubeContext :: string
  sf_kubectlBin :: string
  sf_paths :: "string list"

definition snap_defaults :: SnapFlags where
  "snap_defaults =
     \<lparr>sf_outputPath = [], sf_clusterName = ''local'', sf_diffPaths = [], sf_includeResources = False, sf_fromCluster = False,
      sf_kubeContext = [], sf_kubectlBin = [], sf_paths = []\<rparr>"

definition snap_flag :: "SnapFlags \<Rightarrow> string \<Rightarrow> SnapFlags FlagRes" where
  "snap_flag f arg =
     (if valued ''--output='' arg then Flags (f\<lparr>sf_outputPath := drop 9 arg\<rparr>)
      else if valued ''--cluster='' arg then Flags (f\<lparr>sf_clusterName := drop 10 arg\<rparr>)
      else if valued ''--diff='' arg then Flags (f\<lparr>sf_diffPaths := drop 7 arg\<rparr>)
      else if arg = ''--from-cluster'' then Flags (f\<lparr>sf_fromCluster := True\<rparr>)
      else if valued ''--context='' arg then Flags (f\<lparr>sf_kubeContext := drop 10 arg\<rparr>)
      else if valued ''--kubectl-bin='' arg then Flags (f\<lparr>sf_kubectlBin := drop 14 arg\<rparr>)
      else if arg = ''--include-resources'' then Flags (f\<lparr>sf_includeResources := True\<rparr>)
      else if arg = ''--help'' \<or> arg = ''-h'' then FlagHelp
      else if arg \<noteq> [] \<and> hd arg = CHR ''-'' then FlagError (''unknown flag: '' @ arg)
      else Flags (f\<lparr>sf_paths := sf_paths f @ [arg]\<rparr>))"

text \<open>\<open>sp_it\<close> gives the iteration orders of the maps the difference walks.\<close>

record SnapEnv =
  sp_kubectl :: Kubectl
  sp_marshal :: Marshal
  sp_encode :: "Snapshot \<Rightarrow> string + string"
  sp_it :: "nat \<Rightarrow> string list \<Rightarrow> string list"

definition load_snap :: "'o CliEnv \<Rightarrow> string \<Rightarrow> (Snapshot \<Rightarrow> 'b CmdRes) \<Rightarrow> 'b CmdRes" where
  "load_snap env path f =
     (case snapshot_Load (ev_ReadFile (ce_ev env)) (ce_snapshotJson env) path of
        Inl e \<Rightarrow> CmdFail (CmdMsg (''error loading snapshot '' @ path @ '': '' @ e))
      | Inr s \<Rightarrow> f s)"

definition snap_diff :: "'o CliEnv \<Rightarrow> SnapEnv \<Rightarrow> string \<Rightarrow> string CmdRes" where
  "snap_diff env sp diffPaths =
     (case SplitN2 diffPaths '','' of
        [a, b] \<Rightarrow> load_snap env a (\<lambda>sa. load_snap env b (\<lambda>sb. CmdOk (snapshot_Diff (sp_it sp) sa sb)))
      | _ \<Rightarrow> CmdFail (CmdMsg ''error: --diff requires two comma-separated paths''))"

definition capture_cluster :: "'o CliEnv \<Rightarrow> SnapEnv \<Rightarrow> SnapFlags \<Rightarrow> Snapshot CmdRes" where
  "capture_cluster env sp f =
     (if sf_paths f \<noteq> [] then CmdFail (CmdMsg ''error: --from-cluster does not take path arguments'')
      else case fst (Capture (ce_sha env) (sp_marshal sp) (sp_kubectl sp) (ce_build env) (ce_host env) (ce_now env)
                       \<lparr>ca_KubectlBin = sf_kubectlBin f, ca_Context = sf_kubeContext f, ca_resolved = [], ca_probed = False\<rparr>
                       (sf_clusterName f)) of
             None \<Rightarrow> CmdPanic
           | Some (Inl e) \<Rightarrow> CmdFail (CmdCapture e)
           | Some (Inr s) \<Rightarrow> CmdOk s)"

definition capture_files :: "'o CliEnv \<Rightarrow> SnapEnv \<Rightarrow> SnapFlags \<Rightarrow> Snapshot CmdRes" where
  "capture_files env sp f =
     of_stage (and_then (load_paths env (if sf_paths f = [] then [''.''] else sf_paths f)) (build_world env new_builder))
       (\<lambda>w. CmdOk (FromWorldWithOptions (ce_sha env) (sp_marshal sp) (ce_now env) w (sf_clusterName f)
                     \<lparr>fo_IncludeResources = sf_includeResources f\<rparr>))"

definition save_snapshot :: "'o CliEnv \<Rightarrow> SnapEnv \<Rightarrow> string \<Rightarrow> Snapshot \<Rightarrow> string CmdRes" where
  "save_snapshot env sp outputPath snap =
     (if outputPath = [] then CmdOk (sn_Digest snap @ eol)
      else case Save (ce_sha env) (sp_marshal sp) (sp_encode sp) (ce_WriteFile env) snap outputPath of
             (Some e, _) \<Rightarrow> CmdFail (CmdMsg (''error saving snapshot: '' @ e))
           | (None, s) \<Rightarrow> CmdOk (sn_Digest s @ eol))"

definition runSnapshot :: "'o CliEnv \<Rightarrow> SnapEnv \<Rightarrow> string list \<Rightarrow> string CmdRes" where
  "runSnapshot env sp args =
     (case parse_flags snap_flag snap_defaults args of
        FlagHelp \<Rightarrow> CmdHelp
      | FlagError e \<Rightarrow> CmdFail (CmdMsg e)
      | Flags f \<Rightarrow>
          if sf_diffPaths f \<noteq> [] then snap_diff env sp (sf_diffPaths f)
          else case (if sf_fromCluster f then capture_cluster env sp f else capture_files env sp f) of
                 CmdOk snap \<Rightarrow> save_snapshot env sp (sf_outputPath f) snap
               | CmdHelp \<Rightarrow> CmdHelp
               | CmdPanic \<Rightarrow> CmdPanic
               | CmdFail e \<Rightarrow> CmdFail e)"

section \<open>verify and proof\<close>

definition load_proof :: "'o CliEnv \<Rightarrow> (string \<Rightarrow> string + Proof) \<Rightarrow> string \<Rightarrow> string \<Rightarrow> (Proof \<Rightarrow> 'b CmdRes) \<Rightarrow> 'b CmdRes" where
  "load_proof env decode what path f =
     (case LoadProof (ev_ReadFile (ce_ev env)) decode path of
        Inl e \<Rightarrow> CmdFail (CmdMsg (what @ '': '' @ e))
      | Inr p \<Rightarrow> f p)"

definition first_20 :: "string \<Rightarrow> (string \<Rightarrow> 'b CmdRes) \<Rightarrow> 'b CmdRes" where
  "first_20 s f = (if length s < 20 then CmdPanic else f (take 20 s))"

definition runVerify :: "'o CliEnv \<Rightarrow> (string \<Rightarrow> string + Proof) \<Rightarrow> string list \<Rightarrow> string CmdRes" where
  "runVerify env decode args =
     (case args of
        [] \<Rightarrow> CmdFail (CmdMsg ''error: no proof file specified'')
      | path # _ \<Rightarrow>
          load_proof env decode ''error loading proof'' path (\<lambda>p.
            if \<not> Verify (ce_sha env) p then CmdFail (CmdMsg ''proof verification FAILED: Merkle root mismatch'')
            else let m = pf_Metadata p
                 in first_20 (pf_RootDigest p) (\<lambda>root.
                      CmdOk (''proof verified: '' @ root @ eol @
                             ''  IR digest:       '' @ pm_IRDigest m @ eol @
                             ''  Snapshot digest:  '' @ pm_SnapshotDigest m @ eol @
                             ''  Kernel version:   '' @ pm_KernelVersion m @ eol @
                             ''  Ruleset version:  '' @ pm_RulesetVersion m @ eol @
                             ''  Timestamp:        '' @ RFC3339 (pm_Timestamp m) @ eol))))"

record ShowFlags =
  sh_rule :: string
  sh_path :: string

definition show_flag :: "ShowFlags \<Rightarrow> string \<Rightarrow> ShowFlags FlagRes" where
  "show_flag f arg =
     (if valued ''--rule='' arg then Flags (f\<lparr>sh_rule := drop 7 arg\<rparr>)
      else if arg \<noteq> [] \<and> hd arg = CHR ''-'' then FlagError (''unknown flag: '' @ arg)
      else Flags (f\<lparr>sh_path := arg\<rparr>))"

definition judgment_line :: "Judgment \<Rightarrow> string" where
  "judgment_line j = ''  ['' @ jd_Status j @ ''] '' @ jd_Resource j @ '': '' @ jd_Message j @ eol"

definition show_rule :: "Proof \<Rightarrow> string \<Rightarrow> string CmdRes" where
  "show_rule p rule =
     (case map_of (pf_RuleSubtrees p) rule of
        None \<Rightarrow> CmdFail (CmdMsg (''rule '' @ rule @ '' not found in proof''))
      | Some st \<Rightarrow>
          first_20 (rs_Digest st) (\<lambda>d.
            CmdOk (''Rule '' @ rs_RuleID st @ '' (digest: '' @ d @ '')'' @ eol @
                   (if rs_Judgments st = [] then ''  No judgments (all resources satisfy this rule)'' @ eol
                    else concat (map judgment_line (rs_Judgments st))))))"

text \<open>\<open>it1\<close> and \<open>it2\<close> are the orders in which the summary walks the map of rules.\<close>

definition runProofShow ::
  "'o CliEnv \<Rightarrow> (string \<Rightarrow> string + Proof) \<Rightarrow> (Proof \<Rightarrow> RuleSubtree list) \<Rightarrow> (Proof \<Rightarrow> RuleSubtree list) \<Rightarrow> string list \<Rightarrow> string CmdRes" where
  "runProofShow env decode it1 it2 args =
     (case parse_flags show_flag \<lparr>sh_rule = [], sh_path = []\<rparr> args of
        FlagHelp \<Rightarrow> CmdHelp
      | FlagError e \<Rightarrow> CmdFail (CmdMsg e)
      | Flags f \<Rightarrow>
          if sh_path f = [] then CmdFail (CmdMsg ''error: no proof file specified'')
          else load_proof env decode ''error loading proof'' (sh_path f) (\<lambda>p.
                 if sh_rule f \<noteq> [] then show_rule p (sh_rule f) else CmdOk (Proof_Summary (it1 p) (it2 p) p)))"

definition runProofDiff :: "'o CliEnv \<Rightarrow> (string \<Rightarrow> string + Proof) \<Rightarrow> string list \<Rightarrow> string CmdRes" where
  "runProofDiff env decode args =
     (case args of
        a # b # _ \<Rightarrow>
          load_proof env decode (''error loading proof '' @ a) a (\<lambda>pa.
          load_proof env decode (''error loading proof '' @ b) b (\<lambda>pb. CmdOk (DiffProofs pa pb)))
      | _ \<Rightarrow> CmdFail (CmdMsg ''error: two proof files required''))"

definition runProof ::
  "'o CliEnv \<Rightarrow> (string \<Rightarrow> string + Proof) \<Rightarrow> (Proof \<Rightarrow> RuleSubtree list) \<Rightarrow> (Proof \<Rightarrow> RuleSubtree list) \<Rightarrow> string list \<Rightarrow> string CmdRes" where
  "runProof env decode it1 it2 args =
     (case args of
        [] \<Rightarrow> CmdFail (CmdMsg ''error: proof subcommand required (show, diff)'')
      | cmd # rest \<Rightarrow>
          if cmd = ''show'' then runProofShow env decode it1 it2 rest
          else if cmd = ''diff'' then runProofDiff env decode rest
          else CmdFail (CmdMsg (''unknown proof subcommand: '' @ cmd)))"

section \<open>bisect\<close>

record BisectFlags =
  bf_ruleCode :: string
  bf_goodRef :: string
  bf_badRef :: string
  bf_manifestPath :: string
  bf_xpcBin :: string
  bf_kernelPath :: string
  bf_configPath :: string

definition bisect_defaults :: "'o CliEnv \<Rightarrow> BisectFlags" where
  "bisect_defaults env =
     \<lparr>bf_ruleCode = [], bf_goodRef = [], bf_badRef = ''HEAD'', bf_manifestPath = [], bf_xpcBin = [],
      bf_kernelPath = ce_Getenv env ''XPC_KERNEL_PATH'', bf_configPath = ce_Getenv env ''XPC_CONFIG_PATH''\<rparr>"

definition bisect_flag :: "BisectFlags \<Rightarrow> string \<Rightarrow> BisectFlags FlagRes" where
  "bisect_flag f arg =
     (if HasPrefix arg ''--rule='' then Flags (f\<lparr>bf_ruleCode := TrimPrefix arg ''--rule=''\<rparr>)
      else if HasPrefix arg ''--good='' then Flags (f\<lparr>bf_goodRef := TrimPrefix arg ''--good=''\<rparr>)
      else if HasPrefix arg ''--bad='' then Flags (f\<lparr>bf_badRef := TrimPrefix arg ''--bad=''\<rparr>)
      else if HasPrefix arg ''--xpc-bin='' then Flags (f\<lparr>bf_xpcBin := TrimPrefix arg ''--xpc-bin=''\<rparr>)
      else if HasPrefix arg ''--kernel-path='' then Flags (f\<lparr>bf_kernelPath := TrimPrefix arg ''--kernel-path=''\<rparr>)
      else if HasPrefix arg ''--config='' then Flags (f\<lparr>bf_configPath := TrimPrefix arg ''--config=''\<rparr>)
      else if arg = ''--help'' \<or> arg = ''-h'' then FlagHelp
      else if arg \<noteq> [] \<and> hd arg = CHR ''-'' then FlagError (''unknown flag: '' @ arg)
      else if bf_manifestPath f \<noteq> [] then FlagError ''error: xpc bisect accepts at most one path''
      else Flags (f\<lparr>bf_manifestPath := arg\<rparr>))"

definition bisect_extra :: "BisectFlags \<Rightarrow> string list" where
  "bisect_extra f =
     (if bf_kernelPath f \<noteq> [] then [''--kernel-path='' @ bf_kernelPath f] else []) @
     (if bf_configPath f \<noteq> [] then [''--config='' @ bf_configPath f] else [])"

text \<open>
  \<open>codes\<close> decodes the JSON of a check, \<open>proc\<close> runs a process; what a process prints may depend on
  the worktrees.
\<close>

definition bisect_options ::
  "(string \<Rightarrow> string + string list) \<Rightarrow> (worktrees \<Rightarrow> string \<Rightarrow> string list \<Rightarrow> ProcRes) \<Rightarrow> BisectFlags \<Rightarrow> string \<Rightarrow> string \<Rightarrow> BisectOptions" where
  "bisect_options codes proc f xpcBin cwd =
     \<lparr>bopt_RuleCode = bf_ruleCode f, bopt_GoodRef = bf_goodRef f, bopt_BadRef = bf_badRef f, bopt_RepoRoot = cwd,
      bopt_ManifestPath = bf_manifestPath f,
      bopt_CheckRule = Some (\<lambda>st. XPCCheckDetector codes (proc st) xpcBin (bf_ruleCode f) (bisect_extra f)),
      bopt_GitBin = []\<rparr>"

definition bisect_text :: "BisectFlags \<Rightarrow> BisectResult \<Rightarrow> string CmdRes" where
  "bisect_text f res =
     (if length (res_GoodSHA res) < 12 \<or> length (res_BadSHA res) < 12 then CmdPanic
      else CmdOk
        (''rule '' @ bf_ruleCode f @ '' '' @ (if res_Direction res = StoppedFiring then ''stopped firing'' else ''started firing'') @ '' at:'' @ eol @
         ''  commit:  '' @ res_Commit res @ eol @
         ''  subject: '' @ res_Subject res @ eol @
         ''  good:    '' @ bf_goodRef f @ '' ('' @ take 12 (res_GoodSHA res) @ '')'' @ eol @
         ''  bad:     '' @ bf_badRef f @ '' ('' @ take 12 (res_BadSHA res) @ '')'' @ eol @
         ''  steps:   '' @ Itoa (int (res_Steps res)) @ eol))"

definition run_bisect ::
  "'o CliEnv \<Rightarrow> BisectEnv \<Rightarrow> (string \<Rightarrow> string + string list) \<Rightarrow> (worktrees \<Rightarrow> string \<Rightarrow> string list \<Rightarrow> ProcRes) \<Rightarrow>
   BisectFlags \<Rightarrow> worktrees \<Rightarrow> string CmdRes \<times> worktrees" where
  "run_bisect env benv codes proc f st =
     (if bf_ruleCode f = [] then (CmdFail (CmdMsg ''error: --rule is required''), st)
      else if bf_goodRef f = [] then (CmdFail (CmdMsg ''error: --good is required''), st)
      else case ValidateRuleCode (bf_ruleCode f) of
        Some e \<Rightarrow> (CmdFail (CmdBisect e), st)
      | None \<Rightarrow>
          (case (if bf_xpcBin f = [] then ev_Executable (ce_ev env) else Some (bf_xpcBin f)) of
             None \<Rightarrow> (CmdFail (CmdMsg ''error: resolve xpc binary''), st)
           | Some xpcBin \<Rightarrow>
               (case fs_Getwd (ce_ev env) of
                  None \<Rightarrow> (CmdFail (CmdMsg ''error: getwd''), st)
                | Some cwd \<Rightarrow>
                    (case Run benv (bisect_options codes proc f xpcBin cwd) st of
                       (Inl e, st') \<Rightarrow> (CmdFail (CmdBisect e), st')
                     | (Inr res, st') \<Rightarrow> (bisect_text f res, st')))))"

definition runBisect ::
  "'o CliEnv \<Rightarrow> BisectEnv \<Rightarrow> (string \<Rightarrow> string + string list) \<Rightarrow> (worktrees \<Rightarrow> string \<Rightarrow> string list \<Rightarrow> ProcRes) \<Rightarrow>
   string list \<Rightarrow> worktrees \<Rightarrow> string CmdRes \<times> worktrees" where
  "runBisect env benv codes proc args st =
     (case parse_flags bisect_flag (bisect_defaults env) args of
        FlagHelp \<Rightarrow> (CmdHelp, st)
      | FlagError e \<Rightarrow> (CmdFail (CmdMsg e), st)
      | Flags f \<Rightarrow> run_bisect env benv codes proc f st)"

section \<open>plan\<close>

datatype PlanFormat = FormatJSON | FormatMarkdown | FormatSARIF

record PlanFlags =
  pf_baseRef :: string
  pf_headRef :: string
  pf_format :: PlanFormat
  pf_skipRender :: bool
  pf_enableRender :: bool
  pf_helmBin :: string
  pf_helmCacheDir :: string
  pf_kustomizeBin :: string
  pf_crossplaneBin :: string
  pf_appsetFixturePath :: string
  pf_skipAppSetExpand :: bool
  pf_ssaMPMode :: string
  pf_kernelPath :: string
  pf_configPath :: string
  pf_strictConversions :: bool
  pf_postCommentSpec :: string
  pf_dryRun :: bool
  pf_postCommentRequired :: bool
  pf_paths :: "string list"

definition plan_defaults :: "'o CliEnv \<Rightarrow> PlanFlags" where
  "plan_defaults env =
     \<lparr>pf_baseRef = [], pf_headRef = ''HEAD'', pf_format = FormatMarkdown, pf_skipRender = True, pf_enableRender = False,
      pf_helmBin = [], pf_helmCacheDir = [], pf_kustomizeBin = [], pf_crossplaneBin = [], pf_appsetFixturePath = [],
      pf_skipAppSetExpand = False, pf_ssaMPMode = ''observe'', pf_kernelPath = ce_Getenv env ''XPC_KERNEL_PATH'',
      pf_configPath = ce_Getenv env ''XPC_CONFIG_PATH'', pf_strictConversions = False, pf_postCommentSpec = [],
      pf_dryRun = False, pf_postCommentRequired = False, pf_paths = []\<rparr>"

definition plan_format :: "string \<Rightarrow> PlanFormat option" where
  "plan_format f =
     (if f = ''json'' then Some FormatJSON
      else if f = ''markdown'' \<or> f = ''md'' then Some FormatMarkdown
      else if f = ''sarif'' then Some FormatSARIF
      else None)"

definition plan_flag :: "PlanFlags \<Rightarrow> string \<Rightarrow> PlanFlags FlagRes" where
  "plan_flag f arg =
     (if HasPrefix arg ''--base='' then Flags (f\<lparr>pf_baseRef := TrimPrefix arg ''--base=''\<rparr>)
      else if HasPrefix arg ''--head='' then Flags (f\<lparr>pf_headRef := TrimPrefix arg ''--head=''\<rparr>)
      else if HasPrefix arg ''--format='' then
        (case plan_format (TrimPrefix arg ''--format='') of
           Some fm \<Rightarrow> Flags (f\<lparr>pf_format := fm\<rparr>)
         | None \<Rightarrow> FlagError (''unknown --format='' @ TrimPrefix arg ''--format='' @ '' (want json, markdown, or sarif)''))
      else if arg = ''--render'' then Flags (f\<lparr>pf_enableRender := True\<rparr>)
      else if arg = ''--skip-render'' then Flags (f\<lparr>pf_skipRender := True\<rparr>)
      else if HasPrefix arg ''--helm-bin='' then Flags (f\<lparr>pf_helmBin := TrimPrefix arg ''--helm-bin=''\<rparr>)
      else if HasPrefix arg ''--helm-cache-dir='' then Flags (f\<lparr>pf_helmCacheDir := TrimPrefix arg ''--helm-cache-dir=''\<rparr>)
      else if HasPrefix arg ''--kustomize-bin='' then Flags (f\<lparr>pf_kustomizeBin := TrimPrefix arg ''--kustomize-bin=''\<rparr>)
      else if HasPrefix arg ''--crossplane-bin='' then Flags (f\<lparr>pf_crossplaneBin := TrimPrefix arg ''--crossplane-bin=''\<rparr>)
      else if HasPrefix arg ''--appset-fixture='' then Flags (f\<lparr>pf_appsetFixturePath := TrimPrefix arg ''--appset-fixture=''\<rparr>)
      else if arg = ''--skip-appset-expand'' then Flags (f\<lparr>pf_skipAppSetExpand := True\<rparr>)
      else if HasPrefix arg ''--ssa-mp-mode='' then
        let val = TrimPrefix arg ''--ssa-mp-mode=''
        in if val \<in> set [''observe'', ''partial'', ''any''] then Flags (f\<lparr>pf_ssaMPMode := val\<rparr>)
           else FlagError (''invalid --ssa-mp-mode='' @ val)
      else if HasPrefix arg ''--kernel-path='' then Flags (f\<lparr>pf_kernelPath := TrimPrefix arg ''--kernel-path=''\<rparr>)
      else if HasPrefix arg ''--config='' then Flags (f\<lparr>pf_configPath := TrimPrefix arg ''--config=''\<rparr>)
      else if arg = ''--strict-conversions'' then Flags (f\<lparr>pf_strictConversions := True\<rparr>)
      else if HasPrefix arg ''--post-comment='' then Flags (f\<lparr>pf_postCommentSpec := drop (length ''--post-comment='') arg\<rparr>)
      else if arg = ''--dry-run'' then Flags (f\<lparr>pf_dryRun := True\<rparr>)
      else if arg = ''--post-comment-required'' then Flags (f\<lparr>pf_postCommentRequired := True\<rparr>)
      else if arg = ''--help'' \<or> arg = ''-h'' then FlagHelp
      else if arg \<noteq> [] \<and> hd arg = CHR ''-'' then FlagError (''unknown flag: '' @ arg)
      else Flags (f\<lparr>pf_paths := pf_paths f @ [arg]\<rparr>))"

datatype PlanBody = BodyJSON jsonPlan | BodyMarkdown string | BodySARIF Output

definition WriteSARIF :: "Plan \<Rightarrow> string + Output" where
  "WriteSARIF p = Report (\<lambda>_. None) (filterPlanDiagnostics (pn_Diagnostics p) ''XPC.P.'') ''sarif''"

definition plan_body :: "PlanFormat \<Rightarrow> Plan \<Rightarrow> string + PlanBody" where
  "plan_body fm p =
     (case fm of
        FormatJSON \<Rightarrow> Inr (BodyJSON (WriteJSON p))
      | FormatMarkdown \<Rightarrow> Inr (BodyMarkdown (WriteMarkdown p))
      | FormatSARIF \<Rightarrow> map_sum (\<lambda>e. ''write sarif: '' @ e) BodySARIF (WriteSARIF p))"

definition plan_cfg :: "PlanFlags \<Rightarrow> string \<Rightarrow> Config.Config option \<Rightarrow> (string \<times> strmap list) list option \<Rightarrow> PlanConfig" where
  "plan_cfg f path explicitCfg fixtures =
     \<lparr>pc_BaseRef = pf_baseRef f, pc_HeadRef = pf_headRef f, pc_Path = path,
      pc_Checker = \<lparr>ck_StrictConversions = pf_strictConversions f, ck_KernelPath = pf_kernelPath f, ck_RuleAllowlist = [],
                     ck_ProfileRules = False\<rparr>,
      pc_SkipRender = (if pf_enableRender f then False else pf_skipRender f), pc_HelmBin = pf_helmBin f,
      pc_HelmCacheDir = pf_helmCacheDir f, pc_KustomizeBin = pf_kustomizeBin f, pc_CrossplaneBin = pf_crossplaneBin f,
      pc_SkipAppSetExpand = pf_skipAppSetExpand f, pc_SSAMPMode = pf_ssaMPMode f, pc_AppSetFixtures = fixtures,
      pc_ConfigOverride = explicitCfg\<rparr>"

text \<open>What has to be read before the plan can run: the comment target, the configuration and the fixtures.\<close>

definition plan_setup :: "'o CliEnv \<Rightarrow> PlanFlags \<Rightarrow> (CommentTarget option \<times> PlanConfig) CmdRes" where
  "plan_setup env f =
     (case (if pf_postCommentSpec f = [] then Inr None else map_sum id Some (ParseCommentSpec (ce_Getenv env) (pf_postCommentSpec f))) of
        Inl e \<Rightarrow> CmdFail (CmdMsg ''error: --post-comment'')
      | Inr commentTarget \<Rightarrow>
          if pf_baseRef f = [] then CmdFail (CmdMsg ''error: --base is required'')
          else let paths = (if pf_paths f = [] then [''.''] else pf_paths f)
               in if length paths > 1 then CmdFail (CmdMsg ''error: xpc plan accepts at most one path'')
                  else case (if pf_configPath f = [] then Inr None
                             else map_sum id Some (Load (ce_yaml env) (ce_ev env) (pf_configPath f))) of
                         Inl e \<Rightarrow> CmdFail (CmdCli (BadConfig e))
                       | Inr explicitCfg \<Rightarrow>
                           (case (if pf_appsetFixturePath f = [] then Inr None
                                  else map_sum id Some (loadAppSetFixtures env (pf_appsetFixturePath f))) of
                              Inl e \<Rightarrow> CmdFail (CmdCli (BadFixtures (pf_appsetFixturePath f) e))
                            | Inr fixtures \<Rightarrow> CmdOk (commentTarget, plan_cfg f (hd paths) explicitCfg fixtures)))"

definition post_plan :: "Poster \<Rightarrow> (PlanBody \<Rightarrow> string) \<Rightarrow> PlanFlags \<Rightarrow> CommentTarget option \<Rightarrow> PlanBody \<Rightarrow> CommentError option" where
  "post_plan P bytes f commentTarget body =
     (case commentTarget of
        None \<Rightarrow> None
      | Some t \<Rightarrow> if pf_dryRun f then None else PostComment P t (bytes body))"

record PlanOut =
  po_Plan :: Plan
  po_Body :: PlanBody
  po_PostError :: "CommentError option"
  po_Exit :: nat

definition finish_plan :: "Poster \<Rightarrow> (PlanBody \<Rightarrow> string) \<Rightarrow> PlanFlags \<Rightarrow> CommentTarget option \<Rightarrow> Plan \<Rightarrow> PlanOut CmdRes" where
  "finish_plan P bytes f commentTarget p =
     (case plan_body (pf_format f) p of
        Inl e \<Rightarrow> CmdFail (CmdMsg e)
      | Inr body \<Rightarrow>
          let e = post_plan P bytes f commentTarget body;
              code = (if e \<noteq> None \<and> pf_postCommentRequired f then 1
                      else if list_ex (\<lambda>d. HasPrefix (dg_Code d) ''XPC.P.'' \<and> dg_Severity d = SeverityError) (pn_Diagnostics p) then 1
                      else 0)
          in CmdOk \<lparr>po_Plan = p, po_Body = body, po_PostError = e, po_Exit = code\<rparr>)"

text \<open>The cleanups of a plan that succeeded run when the command returns.\<close>

definition run_plan ::
  "'o CliEnv \<Rightarrow> 'o PlanEnv \<Rightarrow> Poster \<Rightarrow> (PlanBody \<Rightarrow> string) \<Rightarrow> PlanFlags \<Rightarrow> PState \<Rightarrow> PlanOut CmdRes \<times> PState" where
  "run_plan env penv P bytes f st =
     (case plan_setup env f of
        CmdHelp \<Rightarrow> (CmdHelp, st)
      | CmdPanic \<Rightarrow> (CmdPanic, st)
      | CmdFail e \<Rightarrow> (CmdFail e, st)
      | CmdOk (commentTarget, cfg) \<Rightarrow>
          (case plan_Run penv cfg st of
             (RunPanic, st1) \<Rightarrow> (CmdPanic, st1)
           | (RunErr e, st1) \<Rightarrow> (CmdFail (CmdMsg (''plan failed: '' @ e)), st1)
           | (RunOk p cs, st1) \<Rightarrow> (finish_plan P bytes f commentTarget p, cleanup_all penv cs st1)))"

definition runPlan ::
  "'o CliEnv \<Rightarrow> 'o PlanEnv \<Rightarrow> Poster \<Rightarrow> (PlanBody \<Rightarrow> string) \<Rightarrow> string list \<Rightarrow> PState \<Rightarrow> PlanOut CmdRes \<times> PState" where
  "runPlan env penv P bytes args st =
     (case parse_flags plan_flag (plan_defaults env) args of
        FlagHelp \<Rightarrow> (CmdHelp, st)
      | FlagError e \<Rightarrow> (CmdFail (CmdMsg e), st)
      | Flags f \<Rightarrow> run_plan env penv P bytes f st)"

section \<open>What a plan lets pass\<close>

text \<open>
  A removed resource is safe when its base side carries the bypass annotation; else a state-bearing
  one has to be orphaned, and an Application must not cascade.
\<close>

definition safe_removal :: "World \<Rightarrow> ResourceChange \<Rightarrow> bool" where
  "safe_removal w c =
     (let raw = ch_BaseRaw c; rid = ch_Identity c
      in hasBypassAnnotation raw (w_BypassKeys w) \<or>
         (if groupFromAPIVersion (id_APIVersion rid) @ ''/'' @ id_Kind rid \<in> set (buildStateBearingSet (w_StateBearingKinds w))
          then readDeletionPolicy raw = ''Orphan''
          else is_application rid \<longrightarrow> \<not> hasCascadeFinalizer raw \<or> preserveResourcesOnDeletion raw))"

text \<open>A modified resource is safe when it is bypassed, or no registered immutable field differs.\<close>

definition same_field :: "ResourceChange \<Rightarrow> ImmutableField \<Rightarrow> bool" where
  "same_field c e =
     (imf_Group e = groupFromAPIVersion (id_APIVersion (ch_Identity c)) \<and> imf_Kind e = id_Kind (ch_Identity c) \<longrightarrow>
      (case (ReadPath (ch_BaseRaw c) (imf_FieldPath e), ReadPath (ch_HeadRaw c) (imf_FieldPath e)) of
         (Some a, Some b) \<Rightarrow> deepEqual a b
       | _ \<Rightarrow> True))"

definition safe_change :: "World \<Rightarrow> ResourceChange \<Rightarrow> bool" where
  "safe_change w c =
     (hasImmutableChangeBypass (ch_HeadRaw c) (r27_keys (w_BypassKeys w)) \<or>
      list_all (same_field c) (r27_registry (w_ImmutableFields w)))"

lemma r26_safe: "r26_change (buildStateBearingSet (w_StateBearingKinds w)) (w_BypassKeys w) c = [] \<longleftrightarrow> safe_removal w c"
  by (auto simp: r26_change_def safe_removal_def Let_def)

lemma r27_safe: "r27_entry ff keys c e = [] \<longleftrightarrow> same_field c e"
  by (auto simp: r27_entry_def same_field_def split: option.splits)

lemma concat_map_Nil: "concat (map f xs) = [] \<longleftrightarrow> list_all (\<lambda>x. f x = []) xs"
  by (simp add: list_all_iff)

lemma R27_safe:
  "R27ImmutableChange ff delta (w_ImmutableFields w) (w_BypassKeys w) = [] \<longleftrightarrow> list_all (safe_change w) (dl_Modified delta)"
  unfolding R27ImmutableChange_def Let_def concat_map_Nil
  by (intro arg_cong[where f = "\<lambda>p. list_all p (dl_Modified delta)"] ext)
     (simp add: safe_change_def concat_map_Nil r27_safe del: concat_eq_Nil_conv)

lemma plan_findings_empty:
  "pn_Diagnostics (make_plan ff b h) = [] \<longleftrightarrow>
     list_all (safe_removal (vr_World b)) (dl_Removed (Diff (vr_World b) (vr_World h))) \<and>
     list_all (safe_change (vr_World b)) (dl_Modified (Diff (vr_World b) (vr_World h)))"
  by (simp add: make_plan_def Let_def R26DestructiveDelete_def R27_safe concat_map_Nil r26_safe del: concat_eq_Nil_conv)

lemma plan_findings_gate:
  assumes "d \<in> set (pn_Diagnostics (make_plan ff b h))"
  shows "HasPrefix (dg_Code d) ''XPC.P.'' \<and> dg_Severity d = SeverityError"
proof -
  have c: "HasPrefix ''XPC.P.destructive-delete'' ''XPC.P.''" "HasPrefix ''XPC.P.cascade-risk'' ''XPC.P.''"
    "HasPrefix ''XPC.P.immutable-change'' ''XPC.P.''" by (simp_all add: HasPrefix_def)
  have a: "HasPrefix (dg_Code x) ''XPC.P.'' \<and> dg_Severity x = SeverityError" if "x \<in> set (r26_change sb bk ch)" for x sb bk ch
    using that c by (auto simp: r26_change_def destructive_diag_def cascade_diag_def plan_diag_def Let_def split: if_splits)
  have b: "HasPrefix (dg_Code x) ''XPC.P.'' \<and> dg_Severity x = SeverityError" if "x \<in> set (r27_entry ff bk ch e)" for x bk ch e
    using that c by (auto simp: r27_entry_def immutable_diag_def plan_diag_def Let_def split: if_splits option.splits)
  show ?thesis
    using assms a b
    by (auto simp: make_plan_def Let_def R26DestructiveDelete_def R27ImmutableChange_def split: if_splits)
qed

lemma plan_Run_ok:
  assumes "plan_Run penv cfg st = (RunOk p cs, st1)"
  shows "\<exists>b h. p = make_plan (be_ff (pe_build penv)) b h"
  using assms by (auto simp: plan_Run_def run_variants_def split: sum.splits prod.splits option.splits)

lemma finish_plan_exit:
  assumes "finish_plan P bytes f t p = CmdOk out" "p = make_plan ff b h"
  shows "po_Plan out = p \<and> (po_Exit out = 0 \<longleftrightarrow>
    pn_Diagnostics p = [] \<and> \<not> (pf_postCommentRequired f \<and> po_PostError out \<noteq> None))"
proof -
  have "list_ex (\<lambda>d. HasPrefix (dg_Code d) ''XPC.P.'' \<and> dg_Severity d = SeverityError) (pn_Diagnostics p) \<longleftrightarrow> pn_Diagnostics p \<noteq> []"
    using plan_findings_gate[of _ ff b h] unfolding assms(2) list_ex_iff by (cases "pn_Diagnostics (make_plan ff b h)") auto
  then show ?thesis using assms(1) by (auto simp: finish_plan_def Let_def split: sum.splits if_splits)
qed

text \<open>
  C6: the gate of \<^verbatim>\<open>xpc plan\<close>.  A plan that completes exits with 0 exactly when every resource
  removed between the two variants is safe to remove, no registered immutable field of a
  modified resource changes (bypass annotations aside), and no required comment failed to be
  posted.
\<close>

theorem runPlan_gate:
  assumes "runPlan env penv P bytes args st = (CmdOk out, st')" "parse_flags plan_flag (plan_defaults env) args = Flags f"
  shows "\<exists>b h. po_Plan out = make_plan (be_ff (pe_build penv)) b h \<and>
     (po_Exit out = 0 \<longleftrightarrow>
        list_all (safe_removal (vr_World b)) (dl_Removed (Diff (vr_World b) (vr_World h))) \<and>
        list_all (safe_change (vr_World b)) (dl_Modified (Diff (vr_World b) (vr_World h))) \<and>
        \<not> (pf_postCommentRequired f \<and> po_PostError out \<noteq> None))"
proof -
  obtain t cfg p cs st1 where r: "plan_Run penv cfg st = (RunOk p cs, st1)" "finish_plan P bytes f t p = CmdOk out"
    using assms by (auto simp: runPlan_def run_plan_def split: CmdRes.splits prod.splits RunRes.splits)
  obtain b h where p: "p = make_plan (be_ff (pe_build penv)) b h" using plan_Run_ok[OF r(1)] by blast
  show ?thesis using finish_plan_exit[OF r(2) p] plan_findings_empty[of "be_ff (pe_build penv)" b h] p by auto
qed

section \<open>A plan between two empty trees\<close>

definition demo_plan_args :: "string list" where
  "demo_plan_args = [''--base=v1'', ''--head=v2'', ''app'']"

definition demo_poster :: Poster where
  "demo_poster = \<lparr>po_LookPath = (\<lambda>_. Inl []), po_Run = (\<lambda>_ _ _. (None, []))\<rparr>"

definition demo_plan_flags :: PlanFlags where
  "demo_plan_flags = (plan_defaults demo_cli)\<lparr>pf_baseRef := ''v1'', pf_headRef := ''v2'', pf_paths := [''app'']\<rparr>"

lemma demo_plan_parse: "parse_flags plan_flag (plan_defaults demo_cli) demo_plan_args = Flags demo_plan_flags"
  by (simp add: demo_plan_args_def demo_plan_flags_def plan_flag_def HasPrefix_def TrimPrefix_def plan_defaults_def)

lemma demo_plan_done:
  "\<exists>out st'. runPlan demo_cli demo_penv demo_poster (\<lambda>_. []) demo_plan_args demo_pst = (CmdOk out, st')"
proof -
  let ?cfg = "plan_cfg demo_plan_flags ''app'' None None"
  have f: "pf_postCommentSpec demo_plan_flags = []" "pf_baseRef demo_plan_flags = ''v1''" "pf_paths demo_plan_flags = [''app'']"
    "pf_configPath demo_plan_flags = []" "pf_appsetFixturePath demo_plan_flags = []" "pf_format demo_plan_flags = FormatMarkdown"
    by (simp_all add: demo_plan_flags_def plan_defaults_def demo_cli_def)
  have s: "plan_setup demo_cli demo_plan_flags = CmdOk (None, ?cfg)" by (simp add: plan_setup_def f Let_def)
  obtain p cs st1 where r: "plan_Run demo_penv ?cfg demo_pst = (RunOk p cs, st1)"
    using demo_run[of ?cfg demo_pst] by (cases "plan_Run demo_penv ?cfg demo_pst") (auto simp: plan_cfg_def demo_plan_flags_def)
  show ?thesis by (simp add: runPlan_def demo_plan_parse run_plan_def s r finish_plan_def plan_body_def f Let_def)
qed

theorem runPlan_gate_witness:
  "\<exists>out st' b h. runPlan demo_cli demo_penv demo_poster (\<lambda>_. []) demo_plan_args demo_pst = (CmdOk out, st') \<and>
     po_Plan out = make_plan (be_ff (pe_build demo_penv)) b h"
proof -
  obtain out st' where r: "runPlan demo_cli demo_penv demo_poster (\<lambda>_. []) demo_plan_args demo_pst = (CmdOk out, st')"
    using demo_plan_done by blast
  show ?thesis using runPlan_gate[OF r demo_plan_parse] r by blast
qed

section \<open>Digests of a file that was edited\<close>

text \<open>\<^verbatim>\<open>proof show --rule\<close> cuts the digest of the file unchecked: a short one makes it panic.\<close>

lemma show_rule_panics:
  "map_of (pf_RuleSubtrees p) rule = Some st \<Longrightarrow> length (rs_Digest st) < 20 \<Longrightarrow> show_rule p rule = CmdPanic"
  by (simp add: show_rule_def first_20_def)

end
