(* ===== verification/Skill.thy ===== *)
theory Skill
  imports Discover
begin

text \<open>
  \<^verbatim>\<open>cmd/xpc/skill.go\<close>: installing the skill embedded in the binary below a directory, and the link
  to it.  The operations of the disk are an interface, stated as a locale with the laws the
  installation relies on, and interpreted on a disk kept as a list of paths.
\<close>

section \<open>The installation\<close>

datatype LinkRes = LinkTo string | NoLink

text \<open>\<^verbatim>\<open>os.MkdirAll\<close>, \<^verbatim>\<open>os.WriteFile\<close>, \<^verbatim>\<open>os.Readlink\<close>, \<^verbatim>\<open>os.Lstat\<close>, \<^verbatim>\<open>os.Remove\<close> and \<^verbatim>\<open>os.Symlink\<close> on states of the disk.\<close>

record 's SkillDisk =
  sd_MkdirAll :: "string \<Rightarrow> 's \<Rightarrow> string option \<times> 's"
  sd_WriteFile :: "string \<Rightarrow> string \<Rightarrow> 's \<Rightarrow> string option \<times> 's"
  sd_Readlink :: "'s \<Rightarrow> string \<Rightarrow> LinkRes"
  sd_Lstat :: "'s \<Rightarrow> string \<Rightarrow> bool"
  sd_Remove :: "string \<Rightarrow> 's \<Rightarrow> string option \<times> 's"
  sd_Symlink :: "string \<Rightarrow> string \<Rightarrow> 's \<Rightarrow> string option \<times> 's"

text \<open>What \<^verbatim>\<open>fs.WalkDir\<close> visits in the embedded files.\<close>

datatype WalkEntry = WalkError string | WalkDirectory string | WalkFile string "string + string"

datatype SkillError =
    SkillNotFound string
  | CanonicalDirFailed string
  | SkillFilesFailed string
  | ClaudeDirFailed string
  | LinkElsewhere string string
  | NotALink string
  | RemoveFailed string
  | SymlinkFailed string

definition installableRoot :: string where
  "installableRoot = ''embedded-skills''"

definition skillName :: string where
  "skillName = ''xpc''"

definition skill_dst :: "string \<Rightarrow> string \<Rightarrow> string \<Rightarrow> string" where
  "skill_dst canonicalDir srcRoot p = JoinPath [canonicalDir, TrimPrefix p (srcRoot @ ''/'')]"

fun write_skill :: "'s SkillDisk \<Rightarrow> string \<Rightarrow> string \<Rightarrow> WalkEntry list \<Rightarrow> 's \<Rightarrow> string option \<times> 's" where
  "write_skill D canonicalDir srcRoot [] s = (None, s)"
| "write_skill D canonicalDir srcRoot (WalkError e # _) s = (Some e, s)"
| "write_skill D canonicalDir srcRoot (WalkDirectory _ # es) s = write_skill D canonicalDir srcRoot es s"
| "write_skill D canonicalDir srcRoot (WalkFile p data # es) s =
     (let dst = skill_dst canonicalDir srcRoot p in
      case sd_MkdirAll D (Dir dst) s of
        (Some e, s1) \<Rightarrow> (Some e, s1)
      | (None, s1) \<Rightarrow>
          (case data of
             Inl e \<Rightarrow> (Some e, s1)
           | Inr content \<Rightarrow>
               (case sd_WriteFile D dst content s1 of
                  (Some e, s2) \<Rightarrow> (Some e, s2)
                | (None, s2) \<Rightarrow> write_skill D canonicalDir srcRoot es s2)))"

definition skill_canonical :: "string \<Rightarrow> string \<Rightarrow> string" where
  "skill_canonical target name = JoinPath [target, ''.agents'', ''skills'', name]"

definition claude_dir :: "string \<Rightarrow> string" where
  "claude_dir target = JoinPath [target, ''.claude'', ''skills'']"

definition skill_link :: "string \<Rightarrow> string \<Rightarrow> string" where
  "skill_link target name = JoinPath [claude_dir target, name]"

definition skill_rel_target :: "string \<Rightarrow> string" where
  "skill_rel_target name = JoinPath [''..'', ''..'', ''.agents'', ''skills'', name]"

definition skill_root :: "string \<Rightarrow> string" where
  "skill_root name = installableRoot @ ''/'' @ name"

definition make_link :: "'s SkillDisk \<Rightarrow> string \<Rightarrow> string \<Rightarrow> 's \<Rightarrow> (SkillError + string \<times> string) \<times> 's" where
  "make_link D target name s =
     (case sd_Symlink D (skill_rel_target name) (skill_link target name) s of
        (Some e, s1) \<Rightarrow> (Inl (SymlinkFailed e), s1)
      | (None, s1) \<Rightarrow> (Inr (skill_canonical target name, skill_link target name), s1))"

text \<open>Whatever stands where the link should be is only removed by force.\<close>

definition replace_link ::
  "'s SkillDisk \<Rightarrow> string \<Rightarrow> string \<Rightarrow> bool \<Rightarrow> SkillError \<Rightarrow> 's \<Rightarrow> (SkillError + string \<times> string) \<times> 's" where
  "replace_link D target name force refusal s =
     (if \<not> force then (Inl refusal, s)
      else case sd_Remove D (skill_link target name) s of
        (Some e, s1) \<Rightarrow> (Inl (RemoveFailed e), s1)
      | (None, s1) \<Rightarrow> make_link D target name s1)"

definition link_skill :: "'s SkillDisk \<Rightarrow> string \<Rightarrow> string \<Rightarrow> bool \<Rightarrow> 's \<Rightarrow> (SkillError + string \<times> string) \<times> 's" where
  "link_skill D target name force s =
     (let symlinkPath = skill_link target name in
      case sd_Readlink D s symlinkPath of
        LinkTo existing \<Rightarrow>
          if existing = skill_rel_target name then (Inr (skill_canonical target name, symlinkPath), s)
          else replace_link D target name force (LinkElsewhere symlinkPath existing) s
      | NoLink \<Rightarrow>
          if sd_Lstat D s symlinkPath then replace_link D target name force (NotALink symlinkPath) s
          else make_link D target name s)"

text \<open>The embedded files are None when the skill is not among them.\<close>

definition installSkill ::
  "'s SkillDisk \<Rightarrow> (string \<Rightarrow> WalkEntry list option) \<Rightarrow> string \<Rightarrow> string \<Rightarrow> bool \<Rightarrow> 's \<Rightarrow> (SkillError + string \<times> string) \<times> 's" where
  "installSkill D embedded target name force s =
     (case embedded (skill_root name) of
        None \<Rightarrow> (Inl (SkillNotFound name), s)
      | Some files \<Rightarrow>
          (case sd_MkdirAll D (skill_canonical target name) s of
             (Some e, s1) \<Rightarrow> (Inl (CanonicalDirFailed e), s1)
           | (None, s1) \<Rightarrow>
               (case write_skill D (skill_canonical target name) (skill_root name) files s1 of
                  (Some e, s2) \<Rightarrow> (Inl (SkillFilesFailed e), s2)
                | (None, s2) \<Rightarrow>
                    (case sd_MkdirAll D (claude_dir target) s2 of
                       (Some e, s3) \<Rightarrow> (Inl (ClaudeDirFailed e), s3)
                     | (None, s3) \<Rightarrow> link_skill D target name force s3))))"

section \<open>The command\<close>

datatype SkillArgs = SkillHelp | UnknownFlag string | TooManyArgs | SkillTarget bool string

fun parse_skill_args :: "bool \<Rightarrow> string \<Rightarrow> string list \<Rightarrow> SkillArgs" where
  "parse_skill_args force target [] = SkillTarget force target"
| "parse_skill_args force target (a # args) =
     (if a = ''--force'' \<or> a = ''-f'' then parse_skill_args True target args
      else if a = ''--help'' \<or> a = ''-h'' then SkillHelp
      else if HasPrefix a ''-'' then UnknownFlag a
      else if target \<noteq> [] then TooManyArgs
      else parse_skill_args force a args)"

datatype SkillOut =
    SkillUsage
  | UnknownSubcommand string
  | BadArgs SkillArgs
  | NoCwdForSkill
  | TargetUnresolved
  | TargetMissing string
  | TargetNotDir string
  | SkillFailed SkillError
  | SkillInstalled string string

definition runSkillInstall ::
  "ExeEnv \<Rightarrow> 's SkillDisk \<Rightarrow> (string \<Rightarrow> WalkEntry list option) \<Rightarrow> string list \<Rightarrow> 's \<Rightarrow> (nat \<times> SkillOut) \<times> 's" where
  "runSkillInstall ev D embedded args s =
     (case parse_skill_args False [] args of
        SkillHelp \<Rightarrow> ((0, SkillUsage), s)
      | SkillTarget force target \<Rightarrow>
          (case (if target = [] then fs_Getwd ev else Some target) of
             None \<Rightarrow> ((1, NoCwdForSkill), s)
           | Some target \<Rightarrow>
               (case ev_Abs ev target of
                  None \<Rightarrow> ((1, TargetUnresolved), s)
                | Some dir \<Rightarrow>
                    (case fs_Stat ev dir of
                       None \<Rightarrow> ((1, TargetMissing dir), s)
                     | Some mode \<Rightarrow>
                         if mode \<noteq> ModeDir then ((1, TargetNotDir dir), s)
                         else (case installSkill D embedded dir skillName force s of
                                 (Inl e, s1) \<Rightarrow> ((1, SkillFailed e), s1)
                               | (Inr (canonical, link), s1) \<Rightarrow> ((0, SkillInstalled canonical link), s1)))))
      | bad \<Rightarrow> ((1, BadArgs bad), s))"

definition runSkill ::
  "ExeEnv \<Rightarrow> 's SkillDisk \<Rightarrow> (string \<Rightarrow> WalkEntry list option) \<Rightarrow> string list \<Rightarrow> 's \<Rightarrow> (nat \<times> SkillOut) \<times> 's" where
  "runSkill ev D embedded args s =
     (case args of
        [] \<Rightarrow> ((1, SkillUsage), s)
      | sub # rest \<Rightarrow>
          if sub = ''install'' then runSkillInstall ev D embedded rest s
          else if sub = ''help'' \<or> sub = ''--help'' \<or> sub = ''-h'' then ((0, SkillUsage), s)
          else ((1, UnknownSubcommand sub), s))"

section \<open>What an installation relies on\<close>

text \<open>The files an installation writes, with their contents, and the paths it needs to keep.\<close>

fun skill_files :: "string \<Rightarrow> string \<Rightarrow> WalkEntry list \<Rightarrow> (string \<times> string) list" where
  "skill_files can rt [] = []"
| "skill_files can rt (WalkFile p (Inr c) # es) = (skill_dst can rt p, c) # skill_files can rt es"
| "skill_files can rt (_ # es) = skill_files can rt es"

definition skill_paths :: "string \<Rightarrow> string \<Rightarrow> WalkEntry list \<Rightarrow> string list" where
  "skill_paths target name files =
     (let dsts = map fst (skill_files (skill_canonical target name) (skill_root name) files)
      in skill_canonical target name # claude_dir target # dsts @ map Dir dsts)"

locale skill_disk =
  fixes D :: "'s SkillDisk" and is_dir :: "'s \<Rightarrow> string \<Rightarrow> bool" and content_of :: "'s \<Rightarrow> string \<Rightarrow> string option"
  assumes mkdir_noop: "is_dir s p \<Longrightarrow> sd_MkdirAll D p s = (None, s)"
    and mkdir_dir: "sd_MkdirAll D p s = (None, s') \<Longrightarrow> is_dir s' p"
    and mkdir_keeps: "sd_MkdirAll D p s = (e, s') \<Longrightarrow> (is_dir s q \<longrightarrow> is_dir s' q) \<and> (content_of s r \<noteq> None \<longrightarrow> content_of s' r = content_of s r)"
    and write_noop: "content_of s p = Some c \<Longrightarrow> sd_WriteFile D p c s = (None, s)"
    and write_file: "sd_WriteFile D p c s = (None, s') \<Longrightarrow> content_of s' p = Some c"
    and write_keeps: "sd_WriteFile D p c s = (e, s') \<Longrightarrow> (is_dir s q \<longrightarrow> is_dir s' q) \<and> (r \<noteq> p \<longrightarrow> content_of s r \<noteq> None \<longrightarrow> content_of s' r = content_of s r)"
    and symlink_link: "sd_Symlink D t p s = (None, s') \<Longrightarrow> sd_Readlink D s' p = LinkTo t"
    and symlink_keeps: "sd_Symlink D t p s = (None, s') \<Longrightarrow> (is_dir s q \<longrightarrow> is_dir s' q) \<and> (content_of s r \<noteq> None \<longrightarrow> content_of s' r = content_of s r)"
    and remove_keeps: "sd_Remove D p s = (None, s') \<Longrightarrow> (q \<noteq> p \<longrightarrow> is_dir s q \<longrightarrow> is_dir s' q) \<and> (r \<noteq> p \<longrightarrow> content_of s r \<noteq> None \<longrightarrow> content_of s' r = content_of s r)"
begin

lemma write_skill_noop:
  assumes "\<forall>en \<in> set files. \<exists>p c. en = WalkDirectory p \<or> en = WalkFile p (Inr c)"
    and "\<forall>(dst, c) \<in> set (skill_files can rt files). is_dir s (Dir dst) \<and> content_of s dst = Some c"
  shows "write_skill D can rt files s = (None, s)"
  using assms
proof (induction can rt files rule: skill_files.induct)
  case (2 can rt p c es)
  then show ?case by (auto simp: Let_def mkdir_noop write_noop)
qed auto

lemma write_skill_ok:
  assumes "write_skill D can rt files s = (None, s')" "distinct (map fst (skill_files can rt files))"
  shows "(\<forall>en \<in> set files. \<exists>p c. en = WalkDirectory p \<or> en = WalkFile p (Inr c)) \<and>
     (\<forall>(dst, c) \<in> set (skill_files can rt files). is_dir s' (Dir dst) \<and> content_of s' dst = Some c) \<and>
     (\<forall>q. is_dir s q \<longrightarrow> is_dir s' q) \<and>
     (\<forall>r. r \<notin> fst ` set (skill_files can rt files) \<longrightarrow> content_of s r \<noteq> None \<longrightarrow> content_of s' r = content_of s r)"
  using assms
proof (induction can rt files arbitrary: s rule: skill_files.induct)
  case (2 can rt p c es)
  let ?dst = "skill_dst can rt p"
  obtain s1 where s1: "sd_MkdirAll D (Dir ?dst) s = (None, s1)"
    using 2(2) by (auto simp: Let_def split: prod.splits option.splits)
  obtain s2 where s2: "sd_WriteFile D ?dst c s1 = (None, s2)"
    using 2(2) s1 by (auto simp: Let_def split: prod.splits option.splits)
  have rec: "write_skill D can rt es s2 = (None, s')" using 2(2) s1 s2 by (simp add: Let_def)
  note ih = 2(1)[OF rec]
  have d: "is_dir s2 (Dir ?dst)" using mkdir_dir[OF s1] write_keeps[OF s2] by blast
  have f: "content_of s2 ?dst = Some c" by (rule write_file[OF s2])
  have k: "is_dir s q \<Longrightarrow> is_dir s2 q" "r \<noteq> ?dst \<Longrightarrow> content_of s r \<noteq> None \<Longrightarrow> content_of s2 r = content_of s r" for q r
    using mkdir_keeps[OF s1, of q r] write_keeps[OF s2, of q r] by auto
  have fresh: "?dst \<notin> fst ` set (skill_files can rt es)" using 2(3) by simp
  show ?case using ih 2(3) d f k fresh by auto
qed (auto simp: Let_def split: prod.splits option.splits)

lemma make_link_ok:
  assumes "make_link D target name s = (Inr r, s')"
  shows "r = (skill_canonical target name, skill_link target name) \<and> sd_Readlink D s' (skill_link target name) = LinkTo (skill_rel_target name) \<and>
    (is_dir s q \<longrightarrow> is_dir s' q) \<and> (content_of s f \<noteq> None \<longrightarrow> content_of s' f = content_of s f)"
  using assms symlink_link symlink_keeps by (auto simp: make_link_def split: prod.splits option.splits)

lemma link_skill_ok:
  assumes "link_skill D target name force s = (Inr r, s')"
  shows "r = (skill_canonical target name, skill_link target name) \<and> sd_Readlink D s' (skill_link target name) = LinkTo (skill_rel_target name) \<and>
    (q \<noteq> skill_link target name \<longrightarrow> is_dir s q \<longrightarrow> is_dir s' q) \<and>
    (f \<noteq> skill_link target name \<longrightarrow> content_of s f \<noteq> None \<longrightarrow> content_of s' f = content_of s f)"
proof -
  have rep: ?thesis if rp: "replace_link D target name force e s = (Inr r, s')" for e
  proof -
    obtain s1 where s1: "sd_Remove D (skill_link target name) s = (None, s1)" "make_link D target name s1 = (Inr r, s')"
      using rp by (auto simp: replace_link_def split: if_splits prod.splits option.splits)
    show ?thesis using make_link_ok[OF s1(2), of q f] remove_keeps[OF s1(1), of q f] by auto
  qed
  show ?thesis
  proof (cases "sd_Readlink D s (skill_link target name)")
    case (LinkTo existing)
    then show ?thesis using assms rep by (auto simp: link_skill_def Let_def split: if_splits)
  next
    case NoLink
    then show ?thesis using assms rep make_link_ok[of target name s r s' q f] by (auto simp: link_skill_def Let_def split: if_splits)
  qed
qed

lemma install_twice:
  assumes "installSkill D embedded target name force s = (Inr r, s')" and "embedded (skill_root name) = Some files"
    and "distinct (map fst (skill_files (skill_canonical target name) (skill_root name) files))"
    and "skill_link target name \<notin> set (skill_paths target name files)"
  shows "r = (skill_canonical target name, skill_link target name) \<and>
     sd_Readlink D s' (skill_link target name) = LinkTo (skill_rel_target name) \<and>
     (\<forall>(dst, c) \<in> set (skill_files (skill_canonical target name) (skill_root name) files). content_of s' dst = Some c) \<and>
     installSkill D embedded target name again s' = (Inr r, s')"
proof -
  let ?can = "skill_canonical target name"
  let ?files = "skill_files ?can (skill_root name) files"
  let ?link = "skill_link target name"
  obtain s1 where s1: "sd_MkdirAll D ?can s = (None, s1)"
    using assms(1,2) by (auto simp: installSkill_def split: prod.splits option.splits)
  obtain s2 where s2: "write_skill D ?can (skill_root name) files s1 = (None, s2)"
    using assms(1,2) s1 by (auto simp: installSkill_def split: prod.splits option.splits)
  obtain s3 where s3: "sd_MkdirAll D (claude_dir target) s2 = (None, s3)" "link_skill D target name force s3 = (Inr r, s')"
    using assms(1,2) s1 s2 by (auto simp: installSkill_def split: prod.splits option.splits)
  note wrote = write_skill_ok[OF s2 assms(3)]
  note linked = link_skill_ok[OF s3(2)]
  have apart: "?can \<noteq> ?link" "claude_dir target \<noteq> ?link" "dst \<noteq> ?link \<and> Dir dst \<noteq> ?link" if "(dst, c) \<in> set ?files" for dst c
    using assms(4) that by (auto simp: skill_paths_def Let_def image_iff)
  have can: "is_dir s' ?can"
    using mkdir_dir[OF s1] wrote mkdir_keeps[OF s3(1)] linked[of ?can] assms(4) by (auto simp: skill_paths_def Let_def)
  have cl: "is_dir s' (claude_dir target)"
    using mkdir_dir[OF s3(1)] linked[of "claude_dir target"] assms(4) by (auto simp: skill_paths_def Let_def)
  have files: "is_dir s' (Dir dst) \<and> content_of s' dst = Some c" if f: "(dst, c) \<in> set ?files" for dst c
  proof -
    have "is_dir s2 (Dir dst)" "content_of s2 dst = Some c" using wrote f by blast+
    then have "is_dir s3 (Dir dst)" "content_of s3 dst = Some c"
      using mkdir_keeps[OF s3(1), of "Dir dst" dst] by auto
    then show ?thesis using linked[of "Dir dst" dst] apart[OF f] by auto
  qed
  have "write_skill D ?can (skill_root name) files s' = (None, s')"
    using wrote files by (intro write_skill_noop) auto
  then have "installSkill D embedded target name again s' = (Inr r, s')"
    using assms(2) mkdir_noop[OF can] mkdir_noop[OF cl] linked[of "[]" "[]"] by (simp add: installSkill_def link_skill_def Let_def)
  then show ?thesis using linked[of "[]" "[]"] files by blast
qed

end

section \<open>A disk\<close>

text \<open>A disk as the list of its paths; a link on the way to a file is not followed.\<close>

datatype node = DirNode | FileNode string | LinkNode string

type_synonym disk = "(string \<times> node) list"

definition put :: "string \<Rightarrow> node \<Rightarrow> disk \<Rightarrow> disk" where
  "put p n t = (if map_of t p = Some n then t else (p, n) # t)"

definition disk_dir :: "disk \<Rightarrow> string \<Rightarrow> bool" where
  "disk_dir t p \<longleftrightarrow> map_of t p = Some DirNode"

definition disk_content :: "disk \<Rightarrow> string \<Rightarrow> string option" where
  "disk_content t p = (case map_of t p of Some (FileNode c) \<Rightarrow> Some c | _ \<Rightarrow> None)"

function disk_MkdirAll :: "string \<Rightarrow> disk \<Rightarrow> string option \<times> disk" where
  "disk_MkdirAll p t =
     (case map_of t p of
        Some DirNode \<Rightarrow> (None, t)
      | Some _ \<Rightarrow> (Some ''not a directory'', t)
      | None \<Rightarrow>
          if Dir p = p then (None, put p DirNode t)
          else (case disk_MkdirAll (Dir p) t of
                  (Some e, t') \<Rightarrow> (Some e, t')
                | (None, t') \<Rightarrow> if map_of t' p = None then (None, put p DirNode t') else (Some ''exists'', t')))"
  by pat_completeness auto
termination
  by (relation "measure (\<lambda>(p, t). up_measure p)") (auto intro: Dir_decreases)

declare disk_MkdirAll.simps [simp del]

definition disk_WriteFile :: "string \<Rightarrow> string \<Rightarrow> disk \<Rightarrow> string option \<times> disk" where
  "disk_WriteFile p c t =
     (case map_of t p of
        Some DirNode \<Rightarrow> (Some ''is a directory'', t)
      | Some (LinkNode _) \<Rightarrow> (Some ''is a link'', t)
      | Some (FileNode _) \<Rightarrow> (None, put p (FileNode c) t)
      | None \<Rightarrow> if disk_dir t (Dir p) then (None, put p (FileNode c) t) else (Some ''no such directory'', t))"

definition disk_Readlink :: "disk \<Rightarrow> string \<Rightarrow> LinkRes" where
  "disk_Readlink t p = (case map_of t p of Some (LinkNode l) \<Rightarrow> LinkTo l | _ \<Rightarrow> NoLink)"

definition disk_Remove :: "string \<Rightarrow> disk \<Rightarrow> string option \<times> disk" where
  "disk_Remove p t =
     (if map_of t p = None then (Some ''not found'', t)
      else if map_of t p = Some DirNode \<and> list_ex (\<lambda>(q, _). q \<noteq> p \<and> Dir q = p) t then (Some ''not empty'', t)
      else (None, filter (\<lambda>(q, _). q \<noteq> p) t))"

definition disk_Symlink :: "string \<Rightarrow> string \<Rightarrow> disk \<Rightarrow> string option \<times> disk" where
  "disk_Symlink l p t =
     (if map_of t p \<noteq> None then (Some ''exists'', t)
      else if disk_dir t (Dir p) then (None, put p (LinkNode l) t) else (Some ''no such directory'', t))"

definition list_disk :: "disk SkillDisk" where
  "list_disk =
     \<lparr>sd_MkdirAll = disk_MkdirAll, sd_WriteFile = disk_WriteFile, sd_Readlink = disk_Readlink,
      sd_Lstat = (\<lambda>t p. map_of t p \<noteq> None), sd_Remove = disk_Remove, sd_Symlink = disk_Symlink\<rparr>"

lemma map_of_put [simp]: "map_of (put p n t) q = (if q = p then Some n else map_of t q)"
  by (simp add: put_def)

lemma map_of_remove: "map_of (filter (\<lambda>(q, _). q \<noteq> p) t) r = (if r = p then None else map_of t r)"
  by (induction t) auto

lemma disk_MkdirAll_keeps:
  "disk_MkdirAll p t = (e, t') \<Longrightarrow> map_of t q \<noteq> None \<Longrightarrow> map_of t' q = map_of t q"
proof (induction p t arbitrary: e t' rule: disk_MkdirAll.induct)
  case (1 p t)
  then show ?case
    by (subst (asm) (2) disk_MkdirAll.simps) (auto split: option.splits node.splits if_splits prod.splits)
qed

lemma disk_MkdirAll_dir: "disk_MkdirAll p t = (None, t') \<Longrightarrow> map_of t' p = Some DirNode"
  by (subst (asm) disk_MkdirAll.simps) (auto split: option.splits node.splits if_splits prod.splits)

interpretation skills: skill_disk list_disk disk_dir disk_content
proof (unfold_locales, goal_cases)
  case (1 s p)
  then show ?case by (simp add: list_disk_def disk_dir_def disk_MkdirAll.simps)
next
  case (2 p s s')
  then show ?case by (simp add: list_disk_def disk_dir_def disk_MkdirAll_dir)
next
  case (3 p s e s' q r)
  then show ?case using disk_MkdirAll_keeps[of p s e s' q] disk_MkdirAll_keeps[of p s e s' r]
    by (auto simp: list_disk_def disk_dir_def disk_content_def split: option.splits)
qed (auto simp: list_disk_def disk_dir_def disk_content_def disk_WriteFile_def disk_Readlink_def disk_Remove_def disk_Symlink_def
       map_of_remove put_def split: option.splits node.splits if_splits)

section \<open>Installing a skill\<close>

lemma forceless:
  "replace_link D target name False e s = replace_link (D\<lparr>sd_Remove := rm\<rparr>) target name False e s"
  "make_link (D\<lparr>sd_Remove := rm\<rparr>) = make_link D" "write_skill (D\<lparr>sd_Remove := rm\<rparr>) can rt files s = write_skill D can rt files s"
proof -
  show "replace_link D target name False e s = replace_link (D\<lparr>sd_Remove := rm\<rparr>) target name False e s" by (simp add: replace_link_def)
  show "make_link (D\<lparr>sd_Remove := rm\<rparr>) = make_link D" by (intro ext) (simp add: make_link_def)
  show "write_skill (D\<lparr>sd_Remove := rm\<rparr>) can rt files s = write_skill D can rt files s"
    by (induction D can rt files s rule: write_skill.induct) (auto simp: Let_def split: prod.split option.split sum.split)
qed

text \<open>
  C40: installing the skill is safe and idempotent.  Without \<^verbatim>\<open>--force\<close> an installation removes nothing,
  whatever the disk: it is the same on a disk that cannot remove.  An installation that succeeds
  leaves every embedded file in place with its content and the link pointing at the skill, and
  installing again, forced or not, succeeds and changes nothing on the disk.
\<close>

theorem installSkill_idempotent:
  fixes D :: "'s SkillDisk" and t t' :: disk
  assumes "installSkill list_disk embedded target name force t = (Inr r, t')" and "embedded (skill_root name) = Some files"
    and "distinct (map fst (skill_files (skill_canonical target name) (skill_root name) files))"
    and "skill_link target name \<notin> set (skill_paths target name files)"
  shows "installSkill D embedded target name False s = installSkill (D\<lparr>sd_Remove := rm\<rparr>) embedded target name False s \<and>
     disk_Readlink t' (skill_link target name) = LinkTo (skill_rel_target name) \<and>
     (\<forall>(dst, c) \<in> set (skill_files (skill_canonical target name) (skill_root name) files). disk_content t' dst = Some c) \<and>
     installSkill list_disk embedded target name again t' = (Inr r, t')"
proof
  show "installSkill D embedded target name False s = installSkill (D\<lparr>sd_Remove := rm\<rparr>) embedded target name False s"
  proof -
    have ops: "sd_MkdirAll (D\<lparr>sd_Remove := rm\<rparr>) = sd_MkdirAll D" "sd_Readlink (D\<lparr>sd_Remove := rm\<rparr>) = sd_Readlink D"
      "sd_Lstat (D\<lparr>sd_Remove := rm\<rparr>) = sd_Lstat D" by simp_all
    show ?thesis unfolding installSkill_def link_skill_def Let_def forceless(2,3) forceless(1)[of D _ _ _ _ rm] ops by (rule refl)
  qed
next
  show "disk_Readlink t' (skill_link target name) = LinkTo (skill_rel_target name) \<and>
     (\<forall>(dst, c) \<in> set (skill_files (skill_canonical target name) (skill_root name) files). disk_content t' dst = Some c) \<and>
     installSkill list_disk embedded target name again t' = (Inr r, t')"
    using skills.install_twice[OF assms] by (simp add: list_disk_def)
qed

definition demo_embedded :: "string \<Rightarrow> WalkEntry list option" where
  "demo_embedded p =
     (if p = ''embedded-skills/xpc''
      then Some [WalkDirectory p, WalkFile (p @ ''/SKILL.md'') (Inr ''text'')] else None)"

definition demo_installed :: disk where
  "demo_installed = snd (installSkill list_disk demo_embedded ''/w'' ''xpc'' False [(''/w'', DirNode)])"

theorem installSkill_idempotent_witness:
  "disk_Readlink demo_installed ''/w/.claude/skills/xpc'' = LinkTo ''../../.agents/skills/xpc'' \<and>
   installSkill list_disk demo_embedded ''/w'' ''xpc'' True demo_installed =
     (Inr (''/w/.agents/skills/xpc'', ''/w/.claude/skills/xpc''), demo_installed)"
proof -
  let ?files = "[WalkDirectory ''embedded-skills/xpc'', WalkFile ''embedded-skills/xpc/SKILL.md'' (Inr ''text'')]"
  have run: "installSkill list_disk demo_embedded ''/w'' ''xpc'' False [(''/w'', DirNode)] =
      (Inr (''/w/.agents/skills/xpc'', ''/w/.claude/skills/xpc''), demo_installed)"
    by code_simp
  have em: "demo_embedded (skill_root ''xpc'') = Some ?files"
    by (simp add: demo_embedded_def skill_root_def installableRoot_def)
  have paths: "skill_link ''/w'' ''xpc'' = ''/w/.claude/skills/xpc''" "skill_rel_target ''xpc'' = ''../../.agents/skills/xpc''"
    by code_simp+
  have apart: "skill_link ''/w'' ''xpc'' \<notin> set (skill_paths ''/w'' ''xpc'' ?files)" by code_simp
  have dist: "distinct (map fst (skill_files (skill_canonical ''/w'' ''xpc'') (skill_root ''xpc'') ?files))" by simp
  note all = installSkill_idempotent[OF run em dist apart, of list_disk "[]" "\<lambda>_ t. (None, t)" True]
  show ?thesis
    using conjI[OF conjunct1[OF conjunct2[OF all]] conjunct2[OF conjunct2[OF conjunct2[OF all]]]] unfolding paths .
qed

end
