(* ===== verification/Xpc.thy ===== *)
theory Xpc
  imports Commands Skill KernelRun
begin

text \<open>
  \<^verbatim>\<open>main\<close> of \<^verbatim>\<open>cmd/xpc/main.go\<close>: the dispatch of the subcommands, and \<^verbatim>\<open>xpc explain\<close> with the codes it
  knows.  The texts of the explanations are a parameter, profiling is left out.
\<close>

section \<open>explain\<close>

text \<open>The keys of \<^verbatim>\<open>errorExplanations\<close>, in the order of the source, and the codes the error message lists.\<close>

definition explained_codes :: "string list" where
  "explained_codes =
     [''XPC.W.waiver-expired'', ''XPC.W.waiver-unused'', ''XPC.K.externalsecret-store'', ''XPC.E.fargate-claim-env-label'',
      ''XPC.B.providerconfig-resolves'', ''XPC001'', ''XPC002'', ''XPC003'', ''XPC004'', ''XPC005'', ''XPC006'', ''XPC007'',
      ''XPC008'', ''XPC009'', ''XPC010'', ''XPC011'', ''XPC.E.selector-needs-ignore-diff'', ''XPC.D.kind-whitelisted'',
      ''XPC.H.helm-renders'', ''XPC.P.destructive-delete'', ''XPC.P.immutable-change'', ''XPC.P.cascade-risk'',
      ''XPC.S.crossplane-state-needs-orphan'', ''XPC.E.prod-appset-autosync'', ''XPC.E.appset-finalizer-without-preserve'',
      ''XPC.H.composition-renders'', ''XPC.H.values-well-typed'']"

definition listed_codes :: "string list" where
  "listed_codes =
     [''XPC001'', ''XPC002'', ''XPC003'', ''XPC004'', ''XPC005'', ''XPC006'', ''XPC007'', ''XPC008'', ''XPC009'', ''XPC010'', ''XPC011'',
      ''XPC.A.resource-field-valid'', ''XPC.B.providerconfig-resolves'', ''XPC.D.kind-whitelisted'',
      ''XPC.E.appset-finalizer-without-preserve'', ''XPC.E.fargate-claim-env-label'', ''XPC.E.prod-appset-autosync'',
      ''XPC.E.selector-needs-ignore-diff'', ''XPC.H.composition-renders'', ''XPC.H.helm-renders'', ''XPC.H.values-well-typed'',
      ''XPC.K.externalsecret-store'', ''XPC.P.cascade-risk'', ''XPC.P.destructive-delete'', ''XPC.P.immutable-change'',
      ''XPC.S.crossplane-state-needs-orphan'', ''XPC.W.waiver-expired'', ''XPC.W.waiver-unused'']"

definition runExplain :: "(string \<Rightarrow> string) \<Rightarrow> string list \<Rightarrow> string CmdRes" where
  "runExplain explanation args =
     (case args of
        [] \<Rightarrow> CmdFail (CmdMsg ''error: no error code specified'')
      | code # _ \<Rightarrow>
          if code \<in> set explained_codes then CmdOk (explanation code)
          else CmdFail (CmdMsg (''unknown error code: '' @ code)))"

text \<open>
  One code the message lists as known is not, and fourteen codes of the kernel's rules have no explanation.
\<close>

lemma explain_unknown_listed: "filter (\<lambda>c. c \<notin> set explained_codes) listed_codes = [''XPC.A.resource-field-valid'']"
  by (simp add: listed_codes_def explained_codes_def)

lemma explain_unknown_rules:
  "filter (\<lambda>c. c \<notin> set explained_codes) (concat entry_gates) =
     [''XPC012'', ''XPC014'', ''XPC.A.resource-field-valid'', ''XPC.H.render-deterministic'', ''XPC.E.late-init-needs-ignore-diff'',
      ''XPC.E.ssa-managementpolicies-observe'', ''XPC.E.ssa-managementpolicies-partial'', ''XPC.E.ssa-managementpolicies-nondefault'',
      ''XPC.M.forprovider-canonical-form'', ''XPC.M.observed-desired-fixed-point'', ''XPC.M.duplicate-env-key'',
      ''XPC.M.computed-block-alias'', ''XPC.I.must-adopt-external-name'', ''XPC.S.orphaned-sgref'']"
  by (simp add: entry_gates_def explained_codes_def)

section \<open>main\<close>

definition xpc_version :: string where
  "xpc_version = ''0.2.8''"

text \<open>What the subcommands need besides the machine, and what outlives them.\<close>

record ('o, 's) MainEnv =
  me_cli :: "'o CliEnv"
  me_snap :: SnapEnv
  me_proof :: "string \<Rightarrow> string + Proof"
  me_order1 :: "Proof \<Rightarrow> RuleSubtree list"
  me_order2 :: "Proof \<Rightarrow> RuleSubtree list"
  me_bisect :: BisectEnv
  me_codes :: "string \<Rightarrow> string + string list"
  me_process :: "worktrees \<Rightarrow> string \<Rightarrow> string list \<Rightarrow> ProcRes"
  me_plan :: "'o PlanEnv"
  me_poster :: Poster
  me_bytes :: "PlanBody \<Rightarrow> string"
  me_explanation :: "string \<Rightarrow> string"
  me_disk :: "'s SkillDisk"
  me_embedded :: "string \<Rightarrow> WalkEntry list option"

record 's MainState =
  ms_worktrees :: worktrees
  ms_plan :: PState
  ms_disk :: 's

definition cmd_exit :: "'a CmdRes \<Rightarrow> nat" where
  "cmd_exit r = (case r of CmdHelp \<Rightarrow> 0 | CmdPanic \<Rightarrow> 2 | CmdFail _ \<Rightarrow> 1 | CmdOk _ \<Rightarrow> 0)"

definition plan_exit :: "PlanOut CmdRes \<Rightarrow> nat" where
  "plan_exit r = (case r of CmdOk out \<Rightarrow> po_Exit out | _ \<Rightarrow> cmd_exit r)"

definition xpc_main :: "('o, 's) MainEnv \<Rightarrow> string list \<Rightarrow> 's MainState \<Rightarrow> nat \<times> 's MainState" where
  "xpc_main e args s =
     (case args of
        [] \<Rightarrow> (1, s)
      | cmd # rest \<Rightarrow>
          if cmd = ''check'' then (check_exit (runCheck (me_cli e) rest), s)
          else if cmd = ''dump-ir'' then (cmd_exit (runDumpIR (me_cli e) rest), s)
          else if cmd = ''snapshot'' then (cmd_exit (runSnapshot (me_cli e) (me_snap e) rest), s)
          else if cmd = ''verify'' then (cmd_exit (runVerify (me_cli e) (me_proof e) rest), s)
          else if cmd = ''proof'' then (cmd_exit (runProof (me_cli e) (me_proof e) (me_order1 e) (me_order2 e) rest), s)
          else if cmd = ''bisect''
          then (case runBisect (me_cli e) (me_bisect e) (me_codes e) (me_process e) rest (ms_worktrees s) of
                  (r, wt) \<Rightarrow> (cmd_exit r, s\<lparr>ms_worktrees := wt\<rparr>))
          else if cmd = ''plan''
          then (case runPlan (me_cli e) (me_plan e) (me_poster e) (me_bytes e) rest (ms_plan s) of
                  (r, p) \<Rightarrow> (plan_exit r, s\<lparr>ms_plan := p\<rparr>))
          else if cmd = ''explain'' then (cmd_exit (runExplain (me_explanation e) rest), s)
          else if cmd = ''skill''
          then (case runSkill (ce_ev (me_cli e)) (me_disk e) (me_embedded e) rest (ms_disk s) of
                  ((code, _), d) \<Rightarrow> (code, s\<lparr>ms_disk := d\<rparr>))
          else if cmd = ''version'' then (0, s)
          else if cmd \<in> {''help'', ''--help'', ''-h''} then (0, s)
          else (1, s))"

text \<open>A code that is listed but not explained, from the command line to the exit code.\<close>

lemma explain_exit:
  "xpc_main e [''explain'', code] s = (if code \<in> set explained_codes then 0 else 1, s)"
  by (simp add: xpc_main_def runExplain_def cmd_exit_def)

end
