(* ===== verification/SchemaCache.thy ===== *)
theory SchemaCache
  imports Schemas GoPath
begin

text \<open>
  The cache of \<^verbatim>\<open>pkg/schemas/fetcher.go\<close>: an in-memory map in front of one file for each digest.
  The JSON encoder and decoder, SHA-256 and the file writes are parameters; \<open>disk\<close> holds the
  files by path.
\<close>

record SchemaCache =
  sc_dir :: string
  sc_entries :: "(string \<times> string) list"

record CacheEnv =
  sv_UserHomeDir :: "string + string"
  sv_MkdirAll :: "string \<Rightarrow> string option"
  sv_Marshal :: "obj \<Rightarrow> string + string"
  sv_Unmarshal :: "string \<Rightarrow> obj option"
  sv_WriteFile :: "string \<Rightarrow> string option"

definition NewSchemaCache :: "CacheEnv \<Rightarrow> string \<Rightarrow> string + SchemaCache" where
  "NewSchemaCache env dir =
     (case (if dir = [] then map_sum (\<lambda>e. ''finding home directory: '' @ e) (\<lambda>home. JoinPath [home, ''.cache'', ''xpc'', ''schemas'']) (sv_UserHomeDir env)
            else Inr dir) of
        Inl e \<Rightarrow> Inl e
      | Inr d \<Rightarrow>
          (case sv_MkdirAll env d of
             Some e \<Rightarrow> Inl (''creating cache directory: '' @ e)
           | None \<Rightarrow> Inr \<lparr>sc_dir = d, sc_entries = []\<rparr>))"

definition schema_path :: "SchemaCache \<Rightarrow> string \<Rightarrow> string" where
  "schema_path c digest =
     JoinPath [sc_dir c, map (\<lambda>ch. if ch = CHR '':'' then CHR ''-'' else ch) digest @ ''.json'']"

definition schema_from_disk ::
  "CacheEnv \<Rightarrow> (string \<times> string) list \<Rightarrow> SchemaCache \<Rightarrow> string \<Rightarrow> obj option \<times> SchemaCache" where
  "schema_from_disk env disk c digest =
     (case map_of disk (schema_path c digest) of
        None \<Rightarrow> (None, c)
      | Some data \<Rightarrow> (sv_Unmarshal env data, c\<lparr>sc_entries := mput digest data (sc_entries c)\<rparr>))"

definition schema_Get :: "CacheEnv \<Rightarrow> (string \<times> string) list \<Rightarrow> SchemaCache \<Rightarrow> string \<Rightarrow> obj option \<times> SchemaCache" where
  "schema_Get env disk c digest =
     (case Option.bind (map_of (sc_entries c) digest) (sv_Unmarshal env) of
        Some schema \<Rightarrow> (Some schema, c)
      | None \<Rightarrow> schema_from_disk env disk c digest)"

text \<open>The entry is in memory even when the file could not be written.\<close>

definition schema_Put ::
  "CacheEnv \<Rightarrow> (string \<times> string) list \<Rightarrow> SchemaCache \<Rightarrow> string \<Rightarrow> obj \<Rightarrow> string option \<times> SchemaCache \<times> (string \<times> string) list" where
  "schema_Put env disk c digest schema =
     (case sv_Marshal env schema of
        Inl e \<Rightarrow> (Some e, c, disk)
      | Inr data \<Rightarrow>
          let c' = c\<lparr>sc_entries := mput digest data (sc_entries c)\<rparr>
          in case sv_WriteFile env (schema_path c digest) of
               Some e \<Rightarrow> (Some e, c', disk)
             | None \<Rightarrow> (None, c', mput (schema_path c digest) data disk))"

definition schema_Digest :: "(string \<Rightarrow> string) \<Rightarrow> CacheEnv \<Rightarrow> obj \<Rightarrow> string" where
  "schema_Digest sha env schema =
     ''sha256:'' @ take 32 (sha (case sv_Marshal env schema of Inr d \<Rightarrow> d | Inl _ \<Rightarrow> []))"

section \<open>What a cache returns\<close>

definition codec_ok :: "CacheEnv \<Rightarrow> bool" where
  "codec_ok env = (\<forall>m d. sv_Marshal env m = Inr d \<longrightarrow> sv_Unmarshal env d = Some m)"

lemma schema_path_dir: "schema_path (c\<lparr>sc_entries := es\<rparr>) d = schema_path c d"
  by (simp add: schema_path_def)

lemma schema_Get_after_Put:
  assumes "codec_ok env" "schema_Put env disk c digest schema = (None, c', disk')"
  shows "schema_Get env disk' c' digest = (Some schema, c')"
    "fst (schema_Get env disk' (c'\<lparr>sc_entries := []\<rparr>) digest) = Some schema"
    "digest' \<noteq> digest \<Longrightarrow> schema_path c digest' \<noteq> schema_path c digest \<Longrightarrow>
       fst (schema_Get env disk' c' digest') = fst (schema_Get env disk c digest')"
  using assms
  by (auto simp: schema_Put_def schema_Get_def schema_from_disk_def codec_ok_def Let_def schema_path_dir
      split: sum.splits option.splits)

text \<open>
  The schema cache is a faithful store.  What was put is returned by the same cache and, from
  the file, by any later cache on the same directory; other digests are not disturbed as long
  as their file names differ, and a lookup never changes what later lookups return.
\<close>

theorem schema_cache_roundtrip:
  assumes "codec_ok env" "schema_Put env disk c digest schema = (None, c', disk')"
  shows "fst (schema_Get env disk' c' digest) = Some schema \<and>
    fst (schema_Get env disk' \<lparr>sc_dir = sc_dir c, sc_entries = []\<rparr> digest) = Some schema \<and>
    (schema_path c other \<noteq> schema_path c digest \<longrightarrow>
       fst (schema_Get env disk' c' other) = fst (schema_Get env disk c other)) \<and>
    fst (schema_Get env disk' (snd (schema_Get env disk' c' other)) other) = fst (schema_Get env disk' c' other)"
proof -
  have "sc_dir c' = sc_dir c"
    using assms(2) by (auto simp: schema_Put_def Let_def split: sum.splits option.splits)
  then have c: "\<lparr>sc_dir = sc_dir c, sc_entries = []\<rparr> = c'\<lparr>sc_entries := []\<rparr>" by simp
  have again: "fst (schema_Get env disk' (snd (schema_Get env disk' c' other)) other) = fst (schema_Get env disk' c' other)"
    by (auto simp: schema_Get_def schema_from_disk_def schema_path_dir split: option.splits bind_splits)
  show ?thesis unfolding c using schema_Get_after_Put[OF assms] again by (cases "other = digest") auto
qed

definition demo_cache_env :: CacheEnv where
  "demo_cache_env =
     \<lparr>sv_UserHomeDir = Inr ''/h'', sv_MkdirAll = (\<lambda>_. None), sv_Marshal = (\<lambda>m. if m = [] then Inr ''{}'' else Inl ''e''),
      sv_Unmarshal = (\<lambda>d. if d = ''{}'' then Some [] else None), sv_WriteFile = (\<lambda>_. None)\<rparr>"

theorem schema_cache_roundtrip_witness:
  "fst (schema_Get demo_cache_env [(''/h/d.json'', ''{}'')] \<lparr>sc_dir = ''/h'', sc_entries = []\<rparr> ''d'') = Some []"
proof -
  let ?c = "\<lparr>sc_dir = ''/h'', sc_entries = []\<rparr>"
  have p: "schema_path ?c ''d'' = ''/h/d.json''" by (simp add: schema_path_def) code_simp
  have "codec_ok demo_cache_env" by (simp add: codec_ok_def demo_cache_env_def)
  moreover have "schema_Put demo_cache_env [] ?c ''d'' [] =
      (None, ?c\<lparr>sc_entries := [(''d'', ''{}'')]\<rparr>, [(''/h/d.json'', ''{}'')])"
    by (simp add: schema_Put_def demo_cache_env_def p)
  ultimately show ?thesis using schema_cache_roundtrip[of demo_cache_env "[]" ?c "''d''" "[]"] by fastforce
qed

end
