(* ===== verification/ShenInit.thy ===== *)
theory ShenInit
  imports KernelDir
begin

text \<open>
  \<^verbatim>\<open>initShen\<close> of \<^verbatim>\<open>pkg/checker/bridge.go\<close>: the runtime is started and the kernel loaded once
  for each process, with the working directory set to the kernel while it loads.
\<close>

text \<open>
  \<open>sm_resolve\<close> is \<^verbatim>\<open>resolveOrMaterialiseKernel\<close>; \<open>sm_load\<close> evaluates \<^verbatim>\<open>(load "check.shen")\<close> in the
  working directory it is given; \<open>sm_Chdir\<close> gives the error of a change of directory.
\<close>

record ShenMachine =
  sm_Init :: "string option"
  sm_resolve :: "string \<Rightarrow> string + string"
  sm_Getwd :: bool
  sm_Chdir :: "string \<Rightarrow> string option"
  sm_load :: "string \<Rightarrow> string option"

text \<open>The package variables \<^verbatim>\<open>shenOnce\<close> and \<^verbatim>\<open>shenErr\<close>, the working directory, and where the kernel was loaded from.\<close>

record ShenState =
  ss_done :: bool
  ss_err :: "string option"
  ss_cwd :: string
  ss_loads :: "string list"

definition abs_from :: "bool \<Rightarrow> string \<Rightarrow> string \<Rightarrow> string option" where
  "abs_from getwd cwd p = FsAbs \<lparr>fs_Getwd = (if getwd then Some cwd else None), fs_Stat = (\<lambda>_. None)\<rparr> p"

definition load_kernel :: "ShenMachine \<Rightarrow> string \<Rightarrow> ShenState \<Rightarrow> ShenState" where
  "load_kernel sm absKernel s =
     (case sm_Chdir sm absKernel of
        Some e \<Rightarrow> s\<lparr>ss_err := Some (''chdir kernel: '' @ e)\<rparr>
      | None \<Rightarrow>
          let s1 = s\<lparr>ss_cwd := absKernel, ss_loads := ss_loads s @ [absKernel],
                     ss_err := (case sm_load sm absKernel of Some e \<Rightarrow> Some (''load check.shen: '' @ e) | None \<Rightarrow> ss_err s)\<rparr>
          in if sm_Chdir sm (ss_cwd s) = None then s1\<lparr>ss_cwd := ss_cwd s\<rparr> else s1)"

definition init_once :: "ShenMachine \<Rightarrow> string \<Rightarrow> ShenState \<Rightarrow> ShenState" where
  "init_once sm kernelPath s =
     (case sm_Init sm of
        Some e \<Rightarrow> s\<lparr>ss_err := Some (''shenfull.Init: '' @ e)\<rparr>
      | None \<Rightarrow>
          (case sm_resolve sm kernelPath of
             Inl e \<Rightarrow> s\<lparr>ss_err := Some e\<rparr>
           | Inr resolved \<Rightarrow>
               (case abs_from (sm_Getwd sm) (ss_cwd s) resolved of
                  None \<Rightarrow> s\<lparr>ss_err := Some ''resolve kernel path''\<rparr>
                | Some absKernel \<Rightarrow>
                    if \<not> sm_Getwd sm then s\<lparr>ss_err := Some ''getwd''\<rparr> else load_kernel sm absKernel s)))"

definition initShen :: "ShenMachine \<Rightarrow> string \<Rightarrow> ShenState \<Rightarrow> string option \<times> ShenState" where
  "initShen sm kernelPath s =
     (let s' = (if ss_done s then s else (init_once sm kernelPath s)\<lparr>ss_done := True\<rparr>) in (ss_err s', s'))"

section \<open>Once, and back\<close>

lemma init_once_frame:
  assumes "sm_Chdir sm (ss_cwd s) = None"
  shows "ss_cwd (init_once sm p s) = ss_cwd s"
  using assms by (auto simp: init_once_def load_kernel_def Let_def split: option.splits sum.splits)

lemma init_once_loads:
  "ss_err s = None \<Longrightarrow> ss_err (init_once sm p s) = None \<Longrightarrow>
   \<exists>k r. sm_resolve sm p = Inr r \<and> abs_from True (ss_cwd s) r = Some k \<and>
     ss_loads (init_once sm p s) = ss_loads s @ [k] \<and> sm_load sm k = None"
  by (auto simp: init_once_def load_kernel_def Let_def split: option.splits sum.splits if_splits)

text \<open>
  C37: starting the kernel.  Whatever fails on the way, the working directory is afterwards what it
  was, provided the process may return to it; when the start succeeds the kernel was loaded
  once, from the absolute path of the directory the first call resolved; and every later
  call, whatever kernel it names, loads nothing and repeats the outcome of the first.
\<close>

theorem initShen_once:
  assumes "\<not> ss_done s" "ss_err s = None" "sm_Chdir sm (ss_cwd s) = None"
    and "initShen sm p s = (r, s1)"
  shows "ss_cwd s1 = ss_cwd s \<and>
    (r = None \<longrightarrow> (\<exists>k d. sm_resolve sm p = Inr d \<and> abs_from True (ss_cwd s) d = Some k \<and> ss_loads s1 = ss_loads s @ [k] \<and>
                          sm_load sm k = None)) \<and>
    initShen sm q s1 = (r, s1)"
  using assms init_once_frame[OF assms(3), of p] init_once_loads[OF assms(2), of sm p]
  by (auto simp: initShen_def Let_def)

definition demo_machine :: ShenMachine where
  "demo_machine = \<lparr>sm_Init = None, sm_resolve = (\<lambda>p. Inr p), sm_Getwd = True, sm_Chdir = (\<lambda>_. None), sm_load = (\<lambda>_. None)\<rparr>"

definition demo_shen :: ShenState where
  "demo_shen = \<lparr>ss_done = False, ss_err = None, ss_cwd = ''/r'', ss_loads = []\<rparr>"

theorem initShen_once_witness:
  "\<exists>s1. initShen demo_machine ''k'' demo_shen = (None, s1) \<and> ss_cwd s1 = ''/r'' \<and> ss_loads s1 = [''/r/k''] \<and>
     initShen demo_machine ''other'' s1 = (None, s1)"
proof -
  have a: "abs_from True ''/r'' ''k'' = Some ''/r/k''" by code_simp
  obtain s1 where s: "initShen demo_machine ''k'' demo_shen = (None, s1)"
    by (simp add: initShen_def init_once_def load_kernel_def demo_machine_def demo_shen_def a)
  have "\<not> ss_done demo_shen" "ss_err demo_shen = None" "sm_Chdir demo_machine (ss_cwd demo_shen) = None"
    by (simp_all add: demo_shen_def demo_machine_def)
  note first = initShen_once[OF this s]
  show ?thesis using first[of "''other''"] s by (auto simp: demo_shen_def demo_machine_def a)
qed

end
