(* ===== verification/NativeReader.thy ===== *)
theory NativeReader
  imports KernelDir
begin

text \<open>
  \<^verbatim>\<open>internal/shenfull/native_reader.go\<close>: the reader of Shen source files that replaces the
  parser combinators of the Shen runtime.  The text still to be read is the state of the reader; a
  number that is not an integer is what \<^verbatim>\<open>strconv.ParseFloat\<close>, a parameter, makes of its text.
\<close>

section \<open>Forms and errors\<close>

datatype 'f form = FSym string | FInt int | FFloat 'f | FStr string | FBool bool | FNil | FCons "'f form" "'f form"

datatype ReaderError =
    errReaderUnsupported
  | UnexpectedEOF
  | UnexpectedCloser char
  | UnexpectedCharacter char
  | UnterminatedString
  | UnterminatedComment
  | MisappliedBar

definition sliceToShenList :: "'f form list \<Rightarrow> 'f form" where
  "sliceToShenList forms = foldr FCons forms FNil"

fun form_slice :: "'f form \<Rightarrow> 'f form list" where
  "form_slice (FCons a b) = a # form_slice b"
| "form_slice _ = []"

lemma form_slice_list [simp]: "form_slice (sliceToShenList fs) = fs"
  by (induction fs) (simp_all add: sliceToShenList_def)

lemma sliceToShenList_simps [simp]:
  "sliceToShenList [] = FNil" "sliceToShenList (f # fs) = FCons f (sliceToShenList fs)" "sliceToShenList fs = FNil \<longleftrightarrow> fs = []"
  by (auto simp: sliceToShenList_def) (cases fs; simp)+

section \<open>Space and comments\<close>

definition is_shen_space :: "char \<Rightarrow> bool" where
  "is_shen_space b \<longleftrightarrow> b \<in> {CHR '' '', CHR 0x09, CHR 0x0A, CHR 0x0D}"

definition backslash :: char where
  "backslash = CHR 0x5C"

lemma backslash_not_space [simp]: "\<not> is_shen_space backslash"
  by (simp add: is_shen_space_def backslash_def)

definition isShenDelim :: "char \<Rightarrow> bool" where
  "isShenDelim b \<longleftrightarrow> is_shen_space b \<or> b \<in> {CHR ''('', CHR '')'', CHR ''['', CHR '']'', CHR 0x22, CHR ''{'', CHR ''}'', CHR ''|'',
     CHR '':'', CHR '';'', CHR '','', backslash}"

fun skipBlockComment :: "nat \<Rightarrow> string \<Rightarrow> ReaderError + string" where
  "skipBlockComment depth (a # b # rest) =
     (if a = backslash \<and> b = CHR ''*'' then skipBlockComment (depth + 1) rest
      else if a = CHR ''*'' \<and> b = backslash
      then (if depth - 1 = 0 then Inr rest else skipBlockComment (depth - 1) rest)
      else skipBlockComment depth (b # rest))"
| "skipBlockComment depth _ = Inl UnterminatedComment"

definition skip_line :: "string \<Rightarrow> string" where
  "skip_line s = dropWhile (\<lambda>b. b \<noteq> CHR 0x0A \<and> b \<noteq> CHR 0x0D) s"

lemma skip_line_length: "length (skip_line s) \<le> length s"
  by (simp add: skip_line_def length_dropWhile_le)

lemma skipBlockComment_length: "skipBlockComment d s = Inr r \<Longrightarrow> length r < length s"
  by (induction d s rule: skipBlockComment.induct) (fastforce split: if_splits)+

function (sequential) skipSpaceAndComments :: "string \<Rightarrow> ReaderError + string" where
  "skipSpaceAndComments [] = Inr []"
| "skipSpaceAndComments (b # s) =
     (if is_shen_space b then skipSpaceAndComments s
      else if b = backslash
      then (case s of
              n # t \<Rightarrow>
                if n = backslash then skipSpaceAndComments (skip_line t)
                else if n = CHR ''*''
                then (case skipBlockComment 1 t of Inl e \<Rightarrow> Inl e | Inr r \<Rightarrow> skipSpaceAndComments r)
                else Inr (b # s)
            | [] \<Rightarrow> Inr (b # s))
      else Inr (b # s))"
  by pat_completeness auto

termination
  by (relation "measure length") (auto dest: skipBlockComment_length simp: le_imp_less_Suc intro: le_less_trans[OF skip_line_length])

lemma skipSpace_length: "skipSpaceAndComments s = Inr r \<Longrightarrow> length r \<le> length s"
proof (induction s rule: skipSpaceAndComments.induct)
  case (2 b s)
  show ?case
  proof (cases "is_shen_space b \<or> b \<noteq> backslash \<or> s = []")
    case True
    then show ?thesis using 2 by (auto split: if_splits list.splits)
  next
    case False
    then obtain n t where s: "s = n # t" by (cases s) auto
    consider "n = backslash" | "n = CHR ''*''" "n \<noteq> backslash" | "n \<noteq> backslash" "n \<noteq> CHR ''*''" by blast
    then show ?thesis
    proof cases
      case 1
      then have "length r \<le> length (skip_line t)" using 2 False s by auto
      then show ?thesis using skip_line_length[of t] s by simp
    next
      case c: 2
      then obtain u where u: "skipBlockComment 1 t = Inr u" "skipSpaceAndComments u = Inr r"
        using 2 False s by (auto split: sum.splits)
      then have "length r \<le> length u" using 2 False s c by auto
      then show ?thesis using skipBlockComment_length[OF u(1)] s by simp
    next
      case 3
      then show ?thesis using 2 False s by simp
    qed
  qed
qed simp

section \<open>Atoms, strings and bracketed lists\<close>

definition read_atom_text :: "(string \<Rightarrow> 'f option) \<Rightarrow> string \<Rightarrow> 'f form" where
  "read_atom_text parseFloat s =
     (if s = ''<>'' then FCons (FSym ''vector'') (FCons (FInt 0) FNil)
      else case Atoi s of
        Some i \<Rightarrow> FInt i
      | None \<Rightarrow>
          (case parseFloat s of
             Some f \<Rightarrow> FFloat f
           | None \<Rightarrow> if s = ''true'' then FBool True else if s = ''false'' then FBool False else FSym s))"

definition readAtom :: "(string \<Rightarrow> 'f option) \<Rightarrow> string \<Rightarrow> ReaderError + 'f form \<times> string" where
  "readAtom parseFloat s =
     (let a = takeWhile (\<lambda>b. \<not> isShenDelim b) s in
      if a = [] then Inl (UnexpectedCharacter (hd s))
      else Inr (read_atom_text parseFloat a, dropWhile (\<lambda>b. \<not> isShenDelim b) s))"

text \<open>The escape \<^verbatim>\<open>c#N;\<close> of the control character \<open>N\<close>, and what follows it.\<close>

definition char_escape :: "string \<Rightarrow> (char \<times> string) option" where
  "char_escape s =
     (case s of
        c # h # t \<Rightarrow>
          let ds = takeWhile is_digit t; r = dropWhile is_digit t in
          if c = CHR ''c'' \<and> h = CHR ''#'' \<and> ds \<noteq> [] \<and> r \<noteq> [] \<and> hd r = CHR '';''
          then (case Atoi ds of
                  Some n \<Rightarrow> if 0 \<le> n \<and> n \<le> 255 then Some (char_of (nat n), tl r) else None
                | None \<Rightarrow> None)
          else None
      | _ \<Rightarrow> None)"

lemma char_escape_length: "char_escape s = Some (c, r) \<Longrightarrow> length r < length s"
  using length_dropWhile_le[of is_digit "tl (tl s)"]
  by (auto simp: char_escape_def Let_def split: list.splits if_splits option.splits)

function (sequential) read_string_body :: "string \<Rightarrow> ReaderError + string \<times> string" where
  "read_string_body [] = Inl UnterminatedString"
| "read_string_body (c # s) =
     (if c = CHR 0x22 then Inr ([], s)
      else (case char_escape (c # s) of
              Some (x, r) \<Rightarrow> (case read_string_body r of Inl e \<Rightarrow> Inl e | Inr (t, r') \<Rightarrow> Inr (x # t, r'))
            | None \<Rightarrow> (case read_string_body s of Inl e \<Rightarrow> Inl e | Inr (t, r') \<Rightarrow> Inr (c # t, r'))))"
  by pat_completeness auto

termination
  by (relation "measure length") (auto dest: char_escape_length)

lemma read_string_length: "read_string_body s = Inr (t, r) \<Longrightarrow> length r < length s"
proof (induction s arbitrary: t r rule: read_string_body.induct)
  case (2 c s)
  then show ?case
    by (auto split: if_splits option.splits sum.splits prod.splits dest!: char_escape_length) (meson less_SucI less_trans not_less_eq)+
qed simp

definition readString :: "string \<Rightarrow> ReaderError + 'f form \<times> string" where
  "readString s = (case read_string_body s of Inl e \<Rightarrow> Inl e | Inr (t, r) \<Rightarrow> Inr (FStr t, r))"

definition bar_bang :: "'f form" where
  "bar_bang = FSym ''bar!''"

text \<open>The chain of \<^verbatim>\<open>cons\<close> calls a list in brackets stands for.\<close>

definition cons_call :: "'f form \<Rightarrow> 'f form \<Rightarrow> 'f form" where
  "cons_call a b = sliceToShenList [FSym ''cons'', a, b]"

fun consFormSlice :: "'f form list \<Rightarrow> ReaderError + 'f form" where
  "consFormSlice [] = Inr FNil"
| "consFormSlice (e # elts) =
     (if elts \<noteq> [] \<and> hd elts = bar_bang
      then (if length (e # elts) \<noteq> 3 then Inl MisappliedBar else Inr (cons_call e (elts ! 1)))
      else (case consFormSlice elts of Inl err \<Rightarrow> Inl err | Inr rest \<Rightarrow> Inr (cons_call e rest)))"

definition consForm :: "'f form \<Rightarrow> ReaderError + 'f form" where
  "consForm forms = (if forms = FNil then Inr FNil else consFormSlice (form_slice forms))"

definition isDollarSplice :: "'f form \<Rightarrow> bool" where
  "isDollarSplice forms = (case forms of FCons (FSym s) _ \<Rightarrow> s = ''$'' | _ \<Rightarrow> False)"

section \<open>The reader\<close>

definition colon_token :: "string \<Rightarrow> 'f form \<times> string" where
  "colon_token t = (case t of CHR ''='' # r \<Rightarrow> (FSym '':='', r) | _ \<Rightarrow> (FSym '':'', t))"

definition round_form :: "'f form \<Rightarrow> ReaderError + 'f form" where
  "round_form forms = (if isDollarSplice forms then Inl errReaderUnsupported else Inr forms)"

text \<open>The forms up to the closer (None at the top level), and one token.\<close>

function (sequential) readForms :: "(string \<Rightarrow> 'f option) \<Rightarrow> char option \<Rightarrow> string \<Rightarrow> ReaderError + 'f form list \<times> string" and
  readToken :: "(string \<Rightarrow> 'f option) \<Rightarrow> string \<Rightarrow> ReaderError + 'f form \<times> string"
where
  "readForms pf closer s =
     (case skipSpaceAndComments s of
        Inl e \<Rightarrow> Inl e
      | Inr [] \<Rightarrow> if closer \<noteq> None then Inl UnexpectedEOF else Inr ([], [])
      | Inr (b # t) \<Rightarrow>
          if closer = Some b then Inr ([], t)
          else if b = CHR '')'' \<or> b = CHR '']'' then Inl (UnexpectedCloser b)
          else (case readToken pf (b # t) of
                  Inl e \<Rightarrow> Inl e
                | Inr (f, r) \<Rightarrow> (case readForms pf closer r of Inl e \<Rightarrow> Inl e | Inr (fs, r') \<Rightarrow> Inr (f # fs, r'))))"
| "readToken pf [] = Inl UnexpectedEOF"
| "readToken pf (b # t) =
     (if b = CHR ''('' then
        (case readForms pf (Some (CHR '')'')) t of
           Inl e \<Rightarrow> Inl e
         | Inr (fs, r) \<Rightarrow> (case round_form (sliceToShenList fs) of Inl e \<Rightarrow> Inl e | Inr f \<Rightarrow> Inr (f, r)))
      else if b = CHR ''['' then
        (case readForms pf (Some (CHR '']'')) t of
           Inl e \<Rightarrow> Inl e
         | Inr (fs, r) \<Rightarrow> (case consForm (sliceToShenList fs) of Inl e \<Rightarrow> Inl e | Inr f \<Rightarrow> Inr (f, r)))
      else if b = CHR 0x22 then readString t
      else if b = CHR ''{'' then Inr (FSym ''{'', t)
      else if b = CHR ''}'' then Inr (FSym ''}'', t)
      else if b = CHR ''|'' then Inr (bar_bang, t)
      else if b = CHR '';'' then Inr (FSym '';'', t)
      else if b = CHR '':'' then Inr (colon_token t)
      else if b = CHR '','' then Inr (FSym '','', t)
      else readAtom pf (b # t))"
  by pat_completeness auto

lemma readAtom_length: "readAtom pf s = Inr (f, r) \<Longrightarrow> length r < length s"
proof -
  have "length s = length (takeWhile (\<lambda>b. \<not> isShenDelim b) s) + length (dropWhile (\<lambda>b. \<not> isShenDelim b) s)"
    by (simp flip: length_append)
  then show "readAtom pf s = Inr (f, r) \<Longrightarrow> length r < length s"
    by (auto simp: readAtom_def Let_def split: if_splits)
qed

lemma readString_length: "readString s = Inr (f, r) \<Longrightarrow> length r < length s"
  by (auto simp: readString_def split: sum.splits dest: read_string_length)

lemma colon_token_length: "colon_token t = (f, r) \<Longrightarrow> length r \<le> length t"
  by (auto simp: colon_token_def split: list.splits char.splits bool.splits if_splits)

text \<open>Every token takes at least one character, which is why the reader ends.\<close>

lemma reader_shortens:
  "readForms_readToken_dom (Inl (pf, closer, s)) \<Longrightarrow> readForms pf closer s = Inr (fs, r) \<Longrightarrow> length r \<le> length s"
  "readForms_readToken_dom (Inr (pf, t)) \<Longrightarrow> readToken pf t = Inr (f, r) \<Longrightarrow> length r < length t"
proof (induction pf closer s and pf t arbitrary: fs r and f r rule: readForms_readToken.pinduct)
  case (1 pf closer s)
  then obtain u where u: "skipSpaceAndComments s = Inr u" by (auto simp: readForms.psimps split: sum.splits)
  note short = skipSpace_length[OF u]
  show ?case
  proof (cases u)
    case Nil
    then show ?thesis using 1 u by (auto simp: readForms.psimps split: if_splits)
  next
    case (Cons b t)
    show ?thesis
    proof (cases "closer = Some b \<or> b = CHR '')'' \<or> b = CHR '']''")
      case True
      then show ?thesis using 1(1,4) u Cons short by (auto simp: readForms.psimps split: if_splits)
    next
      case False
      then obtain f v gs where v: "readToken pf (b # t) = Inr (f, v)" "readForms pf closer v = Inr (gs, r)"
        using 1(1,4) u Cons by (auto simp: readForms.psimps split: if_splits sum.splits prod.splits)
      have "length v < length (b # t)" using 1(2)[OF u Cons _ _ v(1)] False by blast
      moreover have "length r \<le> length v" using 1(3)[OF u Cons _ _ v(1) refl v(2)] False by blast
      ultimately show ?thesis using short Cons by simp
    qed
  qed
next
  case (2 pf)
  then show ?case by (simp add: readToken.psimps)
next
  case (3 pf b t)
  show ?case
  proof (cases "b = CHR ''('' \<or> b = CHR ''[''")
    case True
    then show ?thesis using 3 by (fastforce simp: readToken.psimps split: if_splits sum.splits)
  next
    case False
    then show ?thesis using 3(1,4) readString_length[of t f r] readAtom_length[of pf "b # t" f r] colon_token_length[of t f r]
      by (auto simp: readToken.psimps split: if_splits)
  qed
qed

termination readForms
proof (relation "measure (\<lambda>x. case x of Inl (pf, c, s) \<Rightarrow> 2 * length s + 1 | Inr (pf, s) \<Rightarrow> 2 * length s)", goal_cases)
  case (2 pf closer s u b t)
  then show ?case using skipSpace_length[of s "b # t"] by simp
next
  case (3 pf closer s u b t x f r)
  then show ?case using skipSpace_length[of s "b # t"] reader_shortens(2)[of pf "b # t" f r] by fastforce
qed auto

declare readForms.simps [simp del] readToken.simps(2) [simp del]

section \<open>What a text means\<close>

text \<open>
  The rest of a block comment with \<open>d\<close> comments open: comments nest, and the text ends with the marker
  that closes the outermost one.
\<close>

inductive comment_rest :: "nat \<Rightarrow> string \<Rightarrow> bool" where
  close_last: "comment_rest 1 [CHR ''*'', backslash]"
| close_one: "comment_rest d t \<Longrightarrow> 0 < d \<Longrightarrow> comment_rest (d + 1) ([CHR ''*'', backslash] @ t)"
| open_one: "comment_rest (d + 1) t \<Longrightarrow> comment_rest d ([backslash, CHR ''*''] @ t)"
| other: "comment_rest d t \<Longrightarrow> (c, hd t) \<noteq> (backslash, CHR ''*'') \<Longrightarrow> (c, hd t) \<noteq> (CHR ''*'', backslash) \<Longrightarrow> comment_rest d (c # t)"

text \<open>The layout between tokens: spaces, comments to the end of the line, and block comments.\<close>

inductive gap :: "string \<Rightarrow> bool" where
  space: "b \<in> {CHR '' '', CHR 0x09, CHR 0x0A, CHR 0x0D} \<Longrightarrow> gap [b]"
| line_comment: "list_all (\<lambda>b. b \<noteq> CHR 0x0A \<and> b \<noteq> CHR 0x0D) t \<Longrightarrow> e \<in> {CHR 0x0A, CHR 0x0D} \<Longrightarrow> gap ([backslash, backslash] @ t @ [e])"
| block_comment: "comment_rest 1 t \<Longrightarrow> gap ([backslash, CHR ''*''] @ t)"

inductive layout :: "string \<Rightarrow> bool" where
  no_gap: "layout []"
| more_gap: "gap g \<Longrightarrow> layout l \<Longrightarrow> layout (g @ l)"

lemma backslash_star [simp]: "backslash \<noteq> CHR ''*''" "CHR ''*'' \<noteq> backslash"
  by (simp_all add: backslash_def)

lemma comment_rest_ne: "comment_rest d t \<Longrightarrow> t \<noteq> []"
  by (induction rule: comment_rest.induct) auto

lemma skip_comment_rest: "comment_rest d t \<Longrightarrow> skipBlockComment d (t @ x) = Inr x"
proof (induction rule: comment_rest.induct)
  case (other d t c)
  then obtain b u where "t = b # u" using comment_rest_ne by (cases t) auto
  then show ?case using other by auto
qed simp_all

lemma skip_gap:
  assumes "gap g"
  shows "skipSpaceAndComments (g @ x) = skipSpaceAndComments x"
  using assms
proof cases
  case (line_comment t e)
  have "skip_line (t @ e # x) = e # x"
    using line_comment unfolding skip_line_def by (subst dropWhile_append2) (auto simp: list_all_iff)
  moreover have "is_shen_space e" using line_comment by (auto simp: is_shen_space_def)
  ultimately show ?thesis using line_comment by simp
next
  case (block_comment t)
  then show ?thesis by (simp add: skip_comment_rest)
qed (auto simp: is_shen_space_def)

lemma skip_layout: "layout l \<Longrightarrow> skipSpaceAndComments (l @ x) = skipSpaceAndComments x"
  by (induction rule: layout.induct) (simp_all add: skip_gap)

text \<open>The text between the quotes of a string: a character stands for itself unless it begins an escape.\<close>

definition begins_escape :: "string \<Rightarrow> bool" where
  "begins_escape txt \<longleftrightarrow>
     (\<exists>ds n r. txt = ''c#'' @ ds @ '';'' @ r \<and> ds \<noteq> [] \<and> list_all is_digit ds \<and> Atoi ds = Some n \<and> 0 \<le> n \<and> n \<le> 255)"

inductive string_text :: "string \<Rightarrow> string \<Rightarrow> bool" where
  no_text: "string_text [] []"
| plain: "string_text t txt \<Longrightarrow> c \<noteq> CHR 0x22 \<Longrightarrow> \<not> begins_escape (c # txt) \<Longrightarrow> string_text (c # t) (c # txt)"
| escape: "string_text t txt \<Longrightarrow> ds \<noteq> [] \<Longrightarrow> list_all is_digit ds \<Longrightarrow> Atoi ds = Some n \<Longrightarrow> 0 \<le> n \<Longrightarrow> n \<le> 255 \<Longrightarrow>
    string_text (char_of (nat n) # t) (''c#'' @ ds @ '';'' @ txt)"

text \<open>
  Syntax trees and the texts that spell them.  Two tokens may touch unless they would read as one: an
  atom ends before a delimiter, and a colon is not followed by an equals sign.
\<close>

datatype syn = Atom string | Quoted string | Mark string | Round "syn list" | Square "syn list"

fun apart :: "syn \<Rightarrow> string \<Rightarrow> bool" where
  "apart (Atom a) rest = (rest = [] \<or> isShenDelim (hd rest))"
| "apart (Mark m) rest = (m = '':'' \<longrightarrow> rest = [] \<or> hd rest \<noteq> CHR ''='')"
| "apart _ rest = True"

inductive spells :: "syn \<Rightarrow> string \<Rightarrow> bool" and spells_all :: "syn list \<Rightarrow> string \<Rightarrow> bool" where
  atom: "a \<noteq> [] \<Longrightarrow> list_all (\<lambda>b. \<not> isShenDelim b) a \<Longrightarrow> spells (Atom a) a"
| quoted: "string_text t txt \<Longrightarrow> spells (Quoted t) ([CHR 0x22] @ txt @ [CHR 0x22])"
| mark: "m \<in> {''{'', ''}'', ''|'', '';'', '':'', '':='', '',''} \<Longrightarrow> spells (Mark m) m"
| round: "spells_all ss body \<Longrightarrow> spells (Round ss) (''('' @ body @ '')'')"
| square: "spells_all ss body \<Longrightarrow> spells (Square ss) (''['' @ body @ '']'')"
| end_of_forms: "layout l \<Longrightarrow> spells_all [] l"
| next_form: "layout l \<Longrightarrow> spells s txt \<Longrightarrow> spells_all ss rest \<Longrightarrow> apart s rest \<Longrightarrow> spells_all (s # ss) (l @ txt @ rest)"

fun sequence_sum :: "('e + 'a) list \<Rightarrow> 'e + 'a list" where
  "sequence_sum [] = Inr []"
| "sequence_sum (Inl e # _) = Inl e"
| "sequence_sum (Inr x # xs) = (case sequence_sum xs of Inl e \<Rightarrow> Inl e | Inr ys \<Rightarrow> Inr (x # ys))"

definition bind_sum :: "'e + 'a \<Rightarrow> ('a \<Rightarrow> 'e + 'b) \<Rightarrow> 'e + 'b" where
  "bind_sum x k = (case x of Inl e \<Rightarrow> Inl e | Inr a \<Rightarrow> k a)"

fun meaning :: "(string \<Rightarrow> 'f option) \<Rightarrow> syn \<Rightarrow> ReaderError + 'f form" where
  "meaning pf (Atom a) = Inr (read_atom_text pf a)"
| "meaning pf (Quoted t) = Inr (FStr t)"
| "meaning pf (Mark m) = Inr (if m = ''|'' then bar_bang else FSym m)"
| "meaning pf (Round ss) = bind_sum (sequence_sum (map (meaning pf) ss)) (\<lambda>fs. round_form (sliceToShenList fs))"
| "meaning pf (Square ss) = bind_sum (sequence_sum (map (meaning pf) ss)) (\<lambda>fs. consForm (sliceToShenList fs))"

definition attach :: "'x \<Rightarrow> 'e + 'a \<Rightarrow> 'e + 'a \<times> 'x" where
  "attach x res = (case res of Inl e \<Rightarrow> Inl e | Inr a \<Rightarrow> Inr (a, x))"

lemma sum_simps [simp]:
  "bind_sum (Inl e) k = Inl e" "bind_sum (Inr a) k = k a" "attach x (Inl e) = Inl e" "attach x (Inr a) = Inr (a, x)"
  by (simp_all add: bind_sum_def attach_def)

section \<open>The reader reads what is spelt\<close>

lemma takeWhile_stops: "list_all P ds \<Longrightarrow> \<not> P e \<Longrightarrow> takeWhile P (ds @ e # r) = ds \<and> dropWhile P (ds @ e # r) = e # r"
  by (induction ds) auto

lemma no_digit: "\<not> is_digit (CHR '';'')" "\<not> is_digit (CHR 0x22)"
  by (simp_all add: is_digit_def)

lemma char_escape_read:
  assumes "ds \<noteq> []" "list_all is_digit ds" "Atoi ds = Some n" "0 \<le> n" "n \<le> 255"
  shows "char_escape (''c#'' @ ds @ '';'' @ r) = Some (char_of (nat n), r)"
  using takeWhile_stops[of is_digit ds "CHR '';''" r] assms no_digit by (simp add: char_escape_def)

lemma char_escape_none:
  assumes "\<not> begins_escape (c # txt)"
  shows "char_escape (c # txt @ CHR 0x22 # x) = None"
proof (rule ccontr)
  assume "char_escape (c # txt @ CHR 0x22 # x) \<noteq> None"
  then obtain ds t r n where e: "c = CHR ''c''" "txt @ CHR 0x22 # x = CHR ''#'' # t" "ds = takeWhile is_digit t"
    "dropWhile is_digit t = CHR '';'' # r" "ds \<noteq> []" "Atoi ds = Some n" "0 \<le> n" "n \<le> 255"
    by (auto simp: char_escape_def Let_def neq_Nil_conv split: list.splits if_splits option.splits)
  have t: "t = ds @ CHR '';'' # r" using e(3,4) by (metis takeWhile_dropWhile_id)
  have digits: "list_all is_digit ds" using e(3) by (auto simp: list_all_iff dest: set_takeWhileD)
  obtain u where u: "txt = CHR ''#'' # u" "u @ CHR 0x22 # x = ds @ CHR '';'' # r"
    using e(2) t by (cases "txt") auto
  have "CHR 0x22 \<notin> set (ds @ '';'')" using digits no_digit by (auto simp: list_all_iff)
  moreover have "u @ CHR 0x22 # x = (ds @ '';'') @ r" using u(2) by simp
  then obtain us where "u = (ds @ '';'') @ us \<or> (ds @ '';'' = u @ us \<and> CHR 0x22 # x = us @ r)"
    unfolding append_eq_append_conv2 by metis
  moreover have "CHR 0x22 \<in> set (u @ us)" if "us \<noteq> []" "CHR 0x22 # x = us @ r" using that by (cases us) auto
  ultimately obtain v where "u = (ds @ '';'') @ v" by (metis append_Nil2)
  then have "begins_escape (c # txt)" using e digits u(1) by (auto simp: begins_escape_def)
  then show False using assms by simp
qed

lemma string_text_no_quote: "string_text t txt \<Longrightarrow> CHR 0x22 \<notin> set txt"
  by (induction rule: string_text.induct) (auto simp: list_all_iff is_digit_def)

lemma read_quoted: "string_text t txt \<Longrightarrow> read_string_body (txt @ CHR 0x22 # x) = Inr (t, x)"
proof (induction rule: string_text.induct)
  case (plain t w c)
  then show ?case by (simp add: char_escape_none)
next
  case (escape t w ds n)
  then show ?case using char_escape_read[of ds n "w @ CHR 0x22 # x"] by simp
qed simp

lemma skip_token: "\<not> is_shen_space b \<Longrightarrow> b \<noteq> backslash \<Longrightarrow> skipSpaceAndComments (b # s) = Inr (b # s)"
  by simp

lemma spells_starts:
  assumes "spells s txt"
  obtains b t where "txt = b # t" "\<not> is_shen_space b" "b \<noteq> backslash" "b \<noteq> CHR '')''" "b \<noteq> CHR '']''"
  using assms
proof cases
  case atom
  then obtain b t where "txt = b # t" "\<not> isShenDelim b" by (cases "txt") auto
  then show thesis using that by (auto simp: isShenDelim_def)
qed (use that in \<open>auto simp: is_shen_space_def backslash_def\<close>)

lemma readForms_layout: "layout l \<Longrightarrow> readForms pf closer (l @ y) = readForms pf closer y"
  by (simp add: readForms.simps skip_layout)

lemma stops_at_closer: "c = CHR '')'' \<or> c = CHR '']'' \<Longrightarrow> readForms pf (Some c) (c # x) = Inr ([], x)"
  by (auto simp: readForms.simps skip_token is_shen_space_def backslash_def)

lemma read_atom:
  assumes "a \<noteq> []" "list_all (\<lambda>b. \<not> isShenDelim b) a" "x = [] \<or> isShenDelim (hd x)"
  shows "readToken pf (a @ x) = Inr (read_atom_text pf a, x)"
proof -
  have "takeWhile (\<lambda>b. \<not> isShenDelim b) (a @ x) = a" "dropWhile (\<lambda>b. \<not> isShenDelim b) (a @ x) = x"
    using assms by (auto simp: takeWhile_append dropWhile_append list_all_iff takeWhile_eq_Nil_iff dropWhile_eq_self_iff hd_append split: if_splits)
  moreover obtain b t where "a = b # t" "\<not> isShenDelim b" using assms(1,2) by (cases a) auto
  ultimately show ?thesis by (auto simp: readToken.simps(2) readAtom_def isShenDelim_def Let_def)
qed

lemma colon_alone: "x = [] \<or> hd x \<noteq> CHR ''='' \<Longrightarrow> colon_token x = (FSym '':'', x)"
  by (cases x) (auto simp: colon_token_def split: char.splits bool.splits)

lemma read_spelt:
  "spells s txt \<Longrightarrow> apart s x \<Longrightarrow> readToken pf (txt @ x) = attach x (meaning pf s)"
  "spells_all ss body \<Longrightarrow> closer = None \<or> closer = Some (CHR '')'') \<or> closer = Some (CHR '']'') \<Longrightarrow>
     rest = [] \<or> isShenDelim (hd rest) \<Longrightarrow> readForms pf closer rest = Inr ([], y) \<Longrightarrow>
     readForms pf closer (body @ rest) = attach y (sequence_sum (map (meaning pf) ss))"
proof (induction arbitrary: x and closer rest y rule: spells_spells_all.inducts)
  case (atom a)
  then show ?case by (simp add: read_atom)
next
  case (quoted t w)
  then show ?case by (simp add: readToken.simps(2) readString_def read_quoted)
next
  case (mark m)
  then show ?case using colon_alone[of x] by (auto simp: readToken.simps(2) bar_bang_def colon_token_def)
next
  case (round ss body)
  have "readForms pf (Some (CHR '')'')) (body @ CHR '')'' # x) = attach x (sequence_sum (map (meaning pf) ss))"
    by (rule round.IH) (simp_all add: stops_at_closer isShenDelim_def)
  then show ?case
    by (cases "sequence_sum (map (meaning pf) ss)") (simp_all add: readToken.simps(2) attach_def split: sum.splits)
next
  case (square ss body)
  have "readForms pf (Some (CHR '']'')) (body @ CHR '']'' # x) = attach x (sequence_sum (map (meaning pf) ss))"
    by (rule square.IH) (simp_all add: stops_at_closer isShenDelim_def)
  then show ?case
    by (cases "sequence_sum (map (meaning pf) ss)") (simp_all add: readToken.simps(2) attach_def split: sum.splits)
next
  case (end_of_forms l)
  then show ?case by (simp add: readForms_layout)
next
  case (next_form l s w ss rest')
  let ?more = "rest' @ rest"
  obtain b t where b: "w = b # t" "\<not> is_shen_space b" "b \<noteq> backslash" "b \<noteq> CHR '')''" "b \<noteq> CHR '']''"
    using spells_starts[OF next_form.hyps(2)] by blast
  have "\<not> isShenDelim (CHR ''='')" by (simp add: isShenDelim_def is_shen_space_def backslash_def)
  then have "apart s ?more" using next_form.hyps(4) next_form.prems(2) by (cases s; cases rest'; cases rest) auto
  then have token: "readToken pf (w @ ?more) = attach ?more (meaning pf s)" by (rule next_form.IH(1))
  have rec: "readForms pf closer ?more = attach y (sequence_sum (map (meaning pf) ss))"
    by (rule next_form.IH(2)[OF next_form.prems])
  have "closer \<noteq> Some b" using next_form.prems(1) b by auto
  then have "readForms pf closer (w @ ?more) =
      (case attach ?more (meaning pf s) of Inl e \<Rightarrow> Inl e
       | Inr (f, r) \<Rightarrow> (case readForms pf closer r of Inl e \<Rightarrow> Inl e | Inr (fs, r') \<Rightarrow> Inr (f # fs, r')))"
    using token b unfolding readForms.simps[of pf closer "w @ ?more"] by (simp add: skip_token)
  also have "\<dots> = attach y (sequence_sum (map (meaning pf) (s # ss)))"
    by (cases "meaning pf s"; cases "sequence_sum (map (meaning pf) ss)") (simp_all add: rec)
  finally show ?case using readForms_layout[OF next_form.hyps(1), of pf closer "w @ ?more"] by simp
qed

section \<open>Files\<close>

datatype ParseError = FileError string | SyntaxError ReaderError

definition parse_text :: "(string \<Rightarrow> 'f option) \<Rightarrow> string \<Rightarrow> ReaderError + 'f form" where
  "parse_text pf data = (case readForms pf None data of Inl e \<Rightarrow> Inl e | Inr (fs, _) \<Rightarrow> Inr (sliceToShenList fs))"

definition parseShenFile :: "(string \<Rightarrow> 'f option) \<Rightarrow> (string \<Rightarrow> string + string) \<Rightarrow> string \<Rightarrow> ParseError + 'f form" where
  "parseShenFile pf ReadFile path =
     (case ReadFile path of
        Inl e \<Rightarrow> Inl (FileError e)
      | Inr data \<Rightarrow> (case parse_text pf data of Inl e \<Rightarrow> Inl (SyntaxError e) | Inr f \<Rightarrow> Inr f))"



end
