(* ===== verification/LoadCache.thy ===== *)
theory LoadCache
  imports NativeReader Discover
begin

text \<open>
  \<^verbatim>\<open>internal/shenfull/load_cache.go\<close> and \<^verbatim>\<open>loader.go\<close>: loading a Shen file through a cache of parsed
  forms, and the start of the runtime.  What the runtime does with the forms (macro expansion, its own
  reader, evaluation) is a parameter; printing the run time is left out.
\<close>

section \<open>The file system and the cache\<close>

record LoadFs = ExeEnv +
  lf_Info :: "string \<Rightarrow> (int \<times> Time) option"

record loadCacheKey =
  lk_path :: string
  lk_typecheck :: bool

record loadCacheFreshness =
  lf_size :: int
  lf_modTime :: Time
  lf_hash :: string

record 'v loadCacheEntry =
  le_freshness :: loadCacheFreshness
  le_parsed :: 'v
  le_typecheck :: bool
  le_sourcePath :: string

record 'v LoadCacheState =
  lc_cache :: "loadCacheKey \<rightharpoonup> 'v loadCacheEntry"
  lc_hits :: nat
  lc_misses :: nat

definition resetLoadCache :: "'v LoadCacheState" where
  "resetLoadCache = \<lparr>lc_cache = Map.empty, lc_hits = 0, lc_misses = 0\<rparr>"

definition loadCacheStats :: "'v LoadCacheState \<Rightarrow> nat \<times> nat" where
  "loadCacheStats c = (lc_hits c, lc_misses c)"

datatype LoadCacheError = AbsError | SymlinkError | InfoError | ContentError string | RaisedError string

definition statLoadCacheFile :: "LoadFs \<Rightarrow> (string \<Rightarrow> string) \<Rightarrow> string \<Rightarrow> LoadCacheError + string \<times> loadCacheFreshness" where
  "statLoadCacheFile fs sha file =
     (case ev_Abs fs file of
        None \<Rightarrow> Inl AbsError
      | Some absPath \<Rightarrow>
          (case ev_EvalSymlinks fs absPath of
             None \<Rightarrow> Inl SymlinkError
           | Some sourcePath \<Rightarrow>
               (case lf_Info fs sourcePath of
                  None \<Rightarrow> Inl InfoError
                | Some (len, mtime) \<Rightarrow>
                    (case ev_ReadFile fs sourcePath of
                       Inl e \<Rightarrow> Inl (ContentError e)
                     | Inr content \<Rightarrow> Inr (sourcePath, \<lparr>lf_size = len, lf_modTime = mtime, lf_hash = sha content\<rparr>)))))"

text \<open>The entry and whether it was found; one that was not still lacks its forms.\<close>

definition lookupLoadCache ::
  "LoadFs \<Rightarrow> (string \<Rightarrow> string) \<Rightarrow> string \<Rightarrow> bool \<Rightarrow> 'v LoadCacheState \<Rightarrow>
     LoadCacheError + ((string \<times> loadCacheFreshness) \<times> 'v option) \<times> 'v LoadCacheState" where
  "lookupLoadCache fs sha file typecheck c =
     (case statLoadCacheFile fs sha file of
        Inl e \<Rightarrow> Inl e
      | Inr (sourcePath, freshness) \<Rightarrow>
          (case lc_cache c \<lparr>lk_path = sourcePath, lk_typecheck = typecheck\<rparr> of
             Some entry \<Rightarrow>
               if le_freshness entry = freshness
               then Inr (((sourcePath, freshness), Some (le_parsed entry)), c\<lparr>lc_hits := lc_hits c + 1\<rparr>)
               else Inr (((sourcePath, freshness), None), c\<lparr>lc_misses := lc_misses c + 1\<rparr>)
           | None \<Rightarrow> Inr (((sourcePath, freshness), None), c\<lparr>lc_misses := lc_misses c + 1\<rparr>)))"

definition storeLoadCache :: "'v loadCacheEntry \<Rightarrow> 'v LoadCacheState \<Rightarrow> 'v LoadCacheState" where
  "storeLoadCache entry c =
     c\<lparr>lc_cache := (lc_cache c)(\<lparr>lk_path = le_sourcePath entry, lk_typecheck = le_typecheck entry\<rparr> \<mapsto> entry)\<rparr>"

text \<open>
  The runtime: \<^verbatim>\<open>shen.process-sexprs\<close> and \<^verbatim>\<open>read-file\<close>.  Both work on the state of the runtime: they
  expand the macros that are defined then, store the arities they find, and may raise an error.
\<close>

record ('f, 's, 'v) Runtime =
  rt_parseFloat :: "string \<Rightarrow> 'f option"
  rt_process :: "'f form \<Rightarrow> 's \<Rightarrow> (string + 'v) \<times> 's"
  rt_read_file :: "(string \<Rightarrow> string + string) \<Rightarrow> string \<Rightarrow> 's \<Rightarrow> (string + 'v) \<times> 's"

definition readShenForms :: "('f, 's, 'v) Runtime \<Rightarrow> LoadFs \<Rightarrow> string \<Rightarrow> 's \<Rightarrow> (string + 'v) \<times> 's" where
  "readShenForms rt fs path s =
     (case parseShenFile (rt_parseFloat rt) (ev_ReadFile fs) path of
        Inl _ \<Rightarrow> rt_read_file rt (ev_ReadFile fs) path s
      | Inr sexprs \<Rightarrow> rt_process rt sexprs s)"

text \<open>
  A call of \<^verbatim>\<open>load\<close>: the files when it looks the entry up, the files when it reads the forms (the source
  reads the file twice), and the state of the runtime when it is called.
\<close>

record 's LoadCall =
  ld_found :: LoadFs
  ld_read :: LoadFs
  ld_file :: string
  ld_typecheck :: bool
  ld_state :: 's

text \<open>
  The forms handed to \<^verbatim>\<open>shen.load-help\<close>, the state of the runtime then, and the cache; every error is a
  panic.  What the evaluation does to the state is seen in the state of the next call.
\<close>

definition primCachedLoad ::
  "('f, 's, 'v) Runtime \<Rightarrow> (string \<Rightarrow> string) \<Rightarrow> 's LoadCall \<Rightarrow> 'v LoadCacheState \<Rightarrow> ((LoadCacheError + 'v) \<times> 's) \<times> 'v LoadCacheState" where
  "primCachedLoad rt sha l c =
     (case lookupLoadCache (ld_found l) sha (ld_file l) (ld_typecheck l) c of
        Inl e \<Rightarrow> ((Inl e, ld_state l), c)
      | Inr ((_, Some forms), c1) \<Rightarrow> ((Inr forms, ld_state l), c1)
      | Inr (((sourcePath, freshness), None), c1) \<Rightarrow>
          (case readShenForms rt (ld_read l) sourcePath (ld_state l) of
             (Inl e, s) \<Rightarrow> ((Inl (RaisedError e), s), c1)
           | (Inr forms, s) \<Rightarrow>
               ((Inr forms, s),
                storeLoadCache \<lparr>le_freshness = freshness, le_parsed = forms, le_typecheck = ld_typecheck l, le_sourcePath = sourcePath\<rparr> c1)))"

text \<open>A history of loads, over files and a runtime that change between them.\<close>

definition run_loads :: "('f, 's, 'v) Runtime \<Rightarrow> (string \<Rightarrow> string) \<Rightarrow> 's LoadCall list \<Rightarrow> 'v LoadCacheState \<Rightarrow> 'v LoadCacheState" where
  "run_loads rt sha loads c = foldl (\<lambda>c l. snd (primCachedLoad rt sha l c)) c loads"

lemma run_loads_simps [simp]:
  "run_loads rt sha [] c = c"
  "run_loads rt sha (l # loads) c = run_loads rt sha loads (snd (primCachedLoad rt sha l c))"
  "run_loads rt sha (loads @ later) c = run_loads rt sha later (run_loads rt sha loads c)"
  by (simp_all add: run_loads_def)

section \<open>Where the forms of a load come from\<close>

text \<open>A load finds its file with a size, time and hash; reading it there and then gives some forms.\<close>

definition finds :: "(string \<Rightarrow> string) \<Rightarrow> 's LoadCall \<Rightarrow> string \<Rightarrow> bool \<Rightarrow> loadCacheFreshness \<Rightarrow> bool" where
  "finds sha l path typecheck fresh =
     (statLoadCacheFile (ld_found l) sha (ld_file l) = Inr (path, fresh) \<and> ld_typecheck l = typecheck)"

definition reads_as :: "('f, 's, 'v) Runtime \<Rightarrow> 's LoadCall \<Rightarrow> string \<Rightarrow> 'v \<Rightarrow> 's \<Rightarrow> bool" where
  "reads_as rt l path v s = (readShenForms rt (ld_read l) path (ld_state l) = (Inr v, s))"

text \<open>
  Some load read these forms from a file found with this size, time and hash, and no load after it read
  the file found with another one.
\<close>

definition last_read ::
  "('f, 's, 'v) Runtime \<Rightarrow> (string \<Rightarrow> string) \<Rightarrow> 's LoadCall list \<Rightarrow> string \<Rightarrow> bool \<Rightarrow> loadCacheFreshness \<Rightarrow> 'v \<Rightarrow> bool" where
  "last_read rt sha loads path typecheck fresh v =
     (\<exists>before l0 after s. loads = before @ l0 # after \<and> finds sha l0 path typecheck fresh \<and> reads_as rt l0 path v s \<and>
        (\<exists>content. ev_ReadFile (ld_found l0) path = Inr content \<and> sha content = lf_hash fresh) \<and>
        (\<forall>m\<in>set after. \<forall>fr w s. finds sha m path typecheck fr \<and> reads_as rt m path w s \<longrightarrow> fr = fresh))"

definition entries_read :: "('f, 's, 'v) Runtime \<Rightarrow> (string \<Rightarrow> string) \<Rightarrow> 's LoadCall list \<Rightarrow> 'v LoadCacheState \<Rightarrow> bool" where
  "entries_read rt sha loads c =
     (\<forall>path typecheck entry. lc_cache c \<lparr>lk_path = path, lk_typecheck = typecheck\<rparr> = Some entry \<longrightarrow>
        last_read rt sha loads path typecheck (le_freshness entry) (le_parsed entry))"

lemma stat_source:
  assumes "statLoadCacheFile fs sha file = Inr (path, fresh)"
  obtains content where "ev_ReadFile fs path = Inr content" "lf_hash fresh = sha content"
  using assms by (auto simp: statLoadCacheFile_def split: option.splits sum.splits)

text \<open>The four ways a load ends.\<close>

lemma primCachedLoad_cases:
  obtains (missing) e where "statLoadCacheFile (ld_found l) sha (ld_file l) = Inl e" "primCachedLoad rt sha l c = ((Inl e, ld_state l), c)"
  | (hit) path entry where "finds sha l path (ld_typecheck l) (le_freshness entry)"
      "lc_cache c \<lparr>lk_path = path, lk_typecheck = ld_typecheck l\<rparr> = Some entry"
      "primCachedLoad rt sha l c = ((Inr (le_parsed entry), ld_state l), c\<lparr>lc_hits := lc_hits c + 1\<rparr>)"
  | (raised) path fresh e s where "finds sha l path (ld_typecheck l) fresh" "readShenForms rt (ld_read l) path (ld_state l) = (Inl e, s)"
      "\<nexists>entry. lc_cache c \<lparr>lk_path = path, lk_typecheck = ld_typecheck l\<rparr> = Some entry \<and> le_freshness entry = fresh"
      "primCachedLoad rt sha l c = ((Inl (RaisedError e), s), c\<lparr>lc_misses := lc_misses c + 1\<rparr>)"
  | (miss) path fresh v s where "finds sha l path (ld_typecheck l) fresh" "reads_as rt l path v s"
      "\<nexists>entry. lc_cache c \<lparr>lk_path = path, lk_typecheck = ld_typecheck l\<rparr> = Some entry \<and> le_freshness entry = fresh"
      "primCachedLoad rt sha l c =
         ((Inr v, s), c\<lparr>lc_misses := lc_misses c + 1, lc_cache := (lc_cache c)(\<lparr>lk_path = path, lk_typecheck = ld_typecheck l\<rparr> \<mapsto>
            \<lparr>le_freshness = fresh, le_parsed = v, le_typecheck = ld_typecheck l, le_sourcePath = path\<rparr>)\<rparr>)"
proof (cases "statLoadCacheFile (ld_found l) sha (ld_file l)")
  case (Inl e)
  then show thesis by (intro missing[of e]) (auto simp: primCachedLoad_def lookupLoadCache_def)
next
  case (Inr found)
  obtain path fresh where found: "found = (path, fresh)" by (cases found)
  let ?key = "\<lparr>lk_path = path, lk_typecheck = ld_typecheck l\<rparr>"
  have f: "finds sha l path (ld_typecheck l) fresh" using Inr found by (simp add: finds_def)
  show thesis
  proof (cases "\<exists>entry. lc_cache c ?key = Some entry \<and> le_freshness entry = fresh")
    case True
    then obtain entry where e: "lc_cache c ?key = Some entry" "le_freshness entry = fresh" by blast
    show thesis using f e Inr found by (intro hit[of path entry]) (auto simp: primCachedLoad_def lookupLoadCache_def)
  next
    case False
    then have look: "lookupLoadCache (ld_found l) sha (ld_file l) (ld_typecheck l) c =
        Inr (((path, fresh), None), c\<lparr>lc_misses := lc_misses c + 1\<rparr>)"
      using Inr found by (auto simp: lookupLoadCache_def split: option.splits)
    obtain r s where r: "readShenForms rt (ld_read l) path (ld_state l) = (r, s)" by (cases "readShenForms rt (ld_read l) path (ld_state l)")
    show thesis
    proof (cases r)
      case (Inl e)
      then show thesis using f r False look by (intro raised[of path fresh e s]) (auto simp: primCachedLoad_def)
    next
      case (Inr v)
      then show thesis using f r False look
        by (intro miss[of path fresh v s]) (auto simp: primCachedLoad_def storeLoadCache_def reads_as_def)
    qed
  qed
qed

lemma last_read_new:
  assumes "finds sha l path typecheck fresh" "reads_as rt l path v s"
  shows "last_read rt sha (loads @ [l]) path typecheck fresh v"
proof -
  obtain content where "ev_ReadFile (ld_found l) path = Inr content" "lf_hash fresh = sha content"
    using assms(1) stat_source unfolding finds_def by metis
  then have "loads @ [l] = loads @ l # [] \<and> finds sha l path typecheck fresh \<and> reads_as rt l path v s \<and>
      (\<exists>content. ev_ReadFile (ld_found l) path = Inr content \<and> sha content = lf_hash fresh) \<and>
      (\<forall>m\<in>set []. \<forall>fr w s. finds sha m path typecheck fr \<and> reads_as rt m path w s \<longrightarrow> fr = fresh)"
    using assms by simp
  then show ?thesis unfolding last_read_def by blast
qed

lemma last_read_keep:
  assumes "last_read rt sha loads path typecheck fresh v"
    and "\<And>fr w s. finds sha l path typecheck fr \<Longrightarrow> reads_as rt l path w s \<Longrightarrow> fr = fresh"
  shows "last_read rt sha (loads @ [l]) path typecheck fresh v"
proof -
  obtain before l0 after s where l0: "loads = before @ l0 # after" "finds sha l0 path typecheck fresh" "reads_as rt l0 path v s"
      "\<exists>content. ev_ReadFile (ld_found l0) path = Inr content \<and> sha content = lf_hash fresh"
      "\<forall>m\<in>set after. \<forall>fr w s. finds sha m path typecheck fr \<and> reads_as rt m path w s \<longrightarrow> fr = fresh"
    using assms(1) unfolding last_read_def by blast
  have "loads @ [l] = before @ l0 # (after @ [l])" using l0(1) by simp
  moreover have "\<forall>m\<in>set (after @ [l]). \<forall>fr w s. finds sha m path typecheck fr \<and> reads_as rt m path w s \<longrightarrow> fr = fresh"
    using l0(5) assms(2) by auto
  ultimately show ?thesis unfolding last_read_def using l0(2,3,4) by blast
qed

lemma finds_unique: "finds sha l path t fr \<Longrightarrow> finds sha l path' t' fr' \<Longrightarrow> path' = path \<and> t' = t \<and> fr' = fr"
  by (auto simp: finds_def)

lemma entries_read_step:
  assumes "entries_read rt sha loads c"
  shows "entries_read rt sha (loads @ [l]) (snd (primCachedLoad rt sha l c))"
  unfolding entries_read_def
proof (intro allI impI)
  fix path typecheck entry
  let ?key = "\<lparr>lk_path = path, lk_typecheck = typecheck\<rparr>"
  assume e: "lc_cache (snd (primCachedLoad rt sha l c)) ?key = Some entry"
  have old: "last_read rt sha loads path typecheck (le_freshness entry) (le_parsed entry)" if "lc_cache c ?key = Some entry"
    using assms that unfolding entries_read_def by blast
  show "last_read rt sha (loads @ [l]) path typecheck (le_freshness entry) (le_parsed entry)"
  proof (cases rule: primCachedLoad_cases[where l = l and sha = sha and c = c and rt = rt])
    case missing
    then have "lc_cache c ?key = Some entry" using e by simp
    from old[OF this] show ?thesis by (rule last_read_keep) (use missing in \<open>auto simp: finds_def\<close>)
  next
    case (hit p en)
    then have en: "lc_cache c ?key = Some entry" using e by simp
    from old[OF en] show ?thesis by (rule last_read_keep) (use hit en in \<open>auto dest: finds_unique\<close>)
  next
    case (raised p fresh er s)
    then have "lc_cache c ?key = Some entry" using e by simp
    from old[OF this] show ?thesis by (rule last_read_keep) (use raised in \<open>auto simp: reads_as_def dest: finds_unique\<close>)
  next
    case (miss p fresh v s)
    show ?thesis
    proof (cases "p = path \<and> ld_typecheck l = typecheck")
      case True
      then have "le_freshness entry = fresh" "le_parsed entry = v" using e miss(4) by auto
      then show ?thesis using last_read_new[OF miss(1,2)] True by simp
    next
      case False
      then have "lc_cache c ?key = Some entry" using e miss(4) by auto
      from old[OF this] show ?thesis by (rule last_read_keep) (use False miss(1) in \<open>auto dest: finds_unique\<close>)
    qed
  qed
qed

lemma entries_read_run: "entries_read rt sha loads (run_loads rt sha loads resetLoadCache)"
proof (induction loads rule: rev_induct)
  case Nil
  show ?case by (simp add: entries_read_def resetLoadCache_def)
next
  case (snoc l loads)
  then show ?case using entries_read_step by fastforce
qed

text \<open>A load leaves the entry of the file it handed out, and loads that find the file so keep it.\<close>

definition holds_entry :: "string \<Rightarrow> bool \<Rightarrow> loadCacheFreshness \<Rightarrow> 'v \<Rightarrow> 'v LoadCacheState \<Rightarrow> bool" where
  "holds_entry path typecheck fresh v c =
     (\<exists>entry. lc_cache c \<lparr>lk_path = path, lk_typecheck = typecheck\<rparr> = Some entry \<and> le_freshness entry = fresh \<and> le_parsed entry = v)"

lemma load_leaves_entry:
  assumes "finds sha l path typecheck fresh" "primCachedLoad rt sha l c = ((Inr v, s), c')"
  shows "holds_entry path typecheck fresh v c'"
proof (cases rule: primCachedLoad_cases[where l = l and sha = sha and c = c and rt = rt])
  case missing
  then show ?thesis using assms(2) by simp
next
  case raised
  then show ?thesis using assms(2) by simp
next
  case (hit p en)
  then show ?thesis using assms finds_unique[OF assms(1) hit(1)] by (auto simp: holds_entry_def)
next
  case (miss p fr w st)
  then show ?thesis using assms finds_unique[OF assms(1) miss(1)] by (auto simp: holds_entry_def)
qed

lemma load_keeps_entry:
  assumes "holds_entry path typecheck fresh v c" "\<And>fr. finds sha l path typecheck fr \<Longrightarrow> fr = fresh"
  shows "holds_entry path typecheck fresh v (snd (primCachedLoad rt sha l c))"
proof (cases rule: primCachedLoad_cases[where l = l and sha = sha and c = c and rt = rt])
  case (miss p fr w st)
  have "\<not> (p = path \<and> ld_typecheck l = typecheck)"
  proof
    assume same: "p = path \<and> ld_typecheck l = typecheck"
    then have "fr = fresh" using assms(2) miss(1) by simp
    then show False using assms(1) miss(3) unfolding holds_entry_def conjunct1[OF same] conjunct2[OF same] by blast
  qed
  then have other: "path = p \<longrightarrow> typecheck \<noteq> ld_typecheck l" by blast
  show ?thesis using assms(1) other unfolding holds_entry_def miss(4) by (cases "path = p") simp_all
qed (use assms(1) in \<open>auto simp: holds_entry_def\<close>)

lemma run_keeps_entry:
  assumes "holds_entry path typecheck fresh v c" "\<And>m fr. m \<in> set loads \<Longrightarrow> finds sha m path typecheck fr \<Longrightarrow> fr = fresh"
  shows "holds_entry path typecheck fresh v (run_loads rt sha loads c)"
  using assms
proof (induction loads arbitrary: c)
  case (Cons l loads)
  have "holds_entry path typecheck fresh v (snd (primCachedLoad rt sha l c))"
    using load_keeps_entry[OF Cons.prems(1)] Cons.prems(2)[of l] by auto
  then show ?case using Cons.IH Cons.prems(2) by auto
qed simp

lemma entry_hits:
  assumes "holds_entry path typecheck fresh v c" "finds sha l path typecheck fresh"
  shows "primCachedLoad rt sha l c = ((Inr v, ld_state l), c\<lparr>lc_hits := lc_hits c + 1\<rparr>)"
  using assms by (auto simp: holds_entry_def finds_def primCachedLoad_def lookupLoadCache_def)

text \<open>The forms of a load were read now, or by the last load that read its file.\<close>

lemma load_source:
  assumes "primCachedLoad rt sha l (run_loads rt sha loads resetLoadCache) = ((Inr v, s), c')"
  obtains path fresh content where "finds sha l path (ld_typecheck l) fresh" "ev_ReadFile (ld_found l) path = Inr content"
    "sha content = lf_hash fresh"
    "reads_as rt l path v s \<or> s = ld_state l \<and> last_read rt sha loads path (ld_typecheck l) fresh v"
proof (cases rule: primCachedLoad_cases[where l = l and sha = sha and c = "run_loads rt sha loads resetLoadCache" and rt = rt])
  case (hit p en)
  obtain content where "ev_ReadFile (ld_found l) p = Inr content" "lf_hash (le_freshness en) = sha content"
    using hit(1) stat_source unfolding finds_def by metis
  then show thesis using hit assms entries_read_run that unfolding entries_read_def by fastforce
next
  case (miss p fr w st)
  obtain content where "ev_ReadFile (ld_found l) p = Inr content" "lf_hash fr = sha content"
    using miss(1) stat_source unfolding finds_def by metis
  then show thesis using miss assms that by auto
qed (use assms in auto)

text \<open>
  C39: where the forms of a load come from.  After any history of loads, over files and a state of the
  runtime that change between them, a load that succeeds hands out forms that it reads itself, in its own
  state; or it leaves the state alone and hands out those that an earlier load read, when it found the
  same path and type-check flag with the same size, time and hash, so a content of the same hash as the
  one found now, and no load after that one read the file found otherwise.  In between, the file is not
  read again: a load that finds the file as an earlier successful one did, and as every load of it since,
  hands out the same forms and does not touch the state.
\<close>

theorem primCachedLoad_serves:
  assumes "primCachedLoad rt sha l (run_loads rt sha loads resetLoadCache) = ((Inr v, s), c')"
  shows "\<exists>path fresh content.
     finds sha l path (ld_typecheck l) fresh \<and> ev_ReadFile (ld_found l) path = Inr content \<and> sha content = lf_hash fresh \<and>
     (reads_as rt l path v s \<or> s = ld_state l \<and> last_read rt sha loads path (ld_typecheck l) fresh v) \<and>
     (\<forall>before l0 after w s0 c0. loads = before @ l0 # after \<and> finds sha l0 path (ld_typecheck l) fresh \<and>
        primCachedLoad rt sha l0 (run_loads rt sha before resetLoadCache) = ((Inr w, s0), c0) \<and>
        (\<forall>m\<in>set after. \<forall>fr. finds sha m path (ld_typecheck l) fr \<longrightarrow> fr = fresh) \<longrightarrow> v = w \<and> s = ld_state l)"
proof -
  obtain path fresh content where p: "finds sha l path (ld_typecheck l) fresh" "ev_ReadFile (ld_found l) path = Inr content"
      "sha content = lf_hash fresh"
      "reads_as rt l path v s \<or> s = ld_state l \<and> last_read rt sha loads path (ld_typecheck l) fresh v"
    using load_source[OF assms] .
  have "v = w \<and> s = ld_state l"
    if "loads = before @ l0 # after" "finds sha l0 path (ld_typecheck l) fresh"
      "primCachedLoad rt sha l0 (run_loads rt sha before resetLoadCache) = ((Inr w, s0), c0)"
      "\<forall>m\<in>set after. \<forall>fr. finds sha m path (ld_typecheck l) fr \<longrightarrow> fr = fresh" for before l0 after w s0 c0
  proof -
    have "holds_entry path (ld_typecheck l) fresh w (run_loads rt sha loads resetLoadCache)"
      unfolding that(1) run_loads_simps that(3) snd_conv
      by (rule run_keeps_entry[OF load_leaves_entry[OF that(2,3)]]) (use that(4) in blast)
    from entry_hits[OF this p(1), where rt = rt] show ?thesis using assms by simp
  qed
  then show ?thesis using p by blast
qed

text \<open>
  A file that is loaded, rewritten, and loaded twice: the second load reads the new content in state 4,
  and the third, in state 9, hands out what the second one read.  The forms are the state they were made in.
\<close>

definition demo_fs :: "string \<Rightarrow> LoadFs" where
  "demo_fs content =
     \<lparr>fs_Getwd = Some ''/'', fs_Stat = (\<lambda>_. None), ev_Executable = None, ev_EvalSymlinks = Some, ev_ReadFile = (\<lambda>_. Inr content),
      lf_Info = (\<lambda>_. Some (1, 0))\<rparr>"

definition demo_rt :: "(unit, nat, nat) Runtime" where
  "demo_rt = \<lparr>rt_parseFloat = (\<lambda>_. None), rt_process = (\<lambda>_ s. (Inr s, s + 1)), rt_read_file = (\<lambda>_ _ s. (Inr s, s + 1))\<rparr>"

definition demo_load :: "string \<Rightarrow> nat \<Rightarrow> nat LoadCall" where
  "demo_load content s =
     \<lparr>ld_found = demo_fs content, ld_read = demo_fs content, ld_file = ''/f'', ld_typecheck = False, ld_state = s\<rparr>"


lemma demo_reads: "readShenForms demo_rt fs path s = (Inr s, s + 1)"
  by (simp add: readShenForms_def demo_rt_def split: sum.split)

lemma demo_stat:
  obtains path where "\<And>content. statLoadCacheFile (demo_fs content) id ''/f'' = Inr (path, \<lparr>lf_size = 1, lf_modTime = 0, lf_hash = content\<rparr>)"
proof -
  have "ev_Abs (demo_fs content) ''/f'' = ev_Abs (demo_fs []) ''/f''" for content by (simp add: ev_Abs_def FsAbs_def demo_fs_def)
  moreover obtain path where "ev_Abs (demo_fs []) ''/f'' = Some path" by (simp add: ev_Abs_def FsAbs_def IsAbs_def)
  ultimately show thesis using that[of path] by (simp add: statLoadCacheFile_def demo_fs_def)
qed

theorem primCachedLoad_serves_witness:
  "\<exists>path fresh.
     finds id (demo_load ''b'' 9) path False fresh \<and> lf_hash fresh = ''b'' \<and>
     last_read demo_rt id [demo_load ''a'' 1, demo_load ''b'' 4] path False fresh 4 \<and> \<not> reads_as demo_rt (demo_load ''b'' 9) path 4 9"
proof -
  let ?loads = "[demo_load ''a'' 1, demo_load ''b'' 4]"
  obtain path where stat: "\<And>content. statLoadCacheFile (demo_fs content) id ''/f'' = Inr (path, \<lparr>lf_size = 1, lf_modTime = 0, lf_hash = content\<rparr>)"
    by (rule demo_stat) blast
  have "\<exists>c'. primCachedLoad demo_rt id (demo_load ''b'' 9) (run_loads demo_rt id ?loads resetLoadCache) = ((Inr 4, 9), c')"
    by (simp add: primCachedLoad_def lookupLoadCache_def demo_load_def stat demo_reads resetLoadCache_def storeLoadCache_def)
  then obtain c' where "primCachedLoad demo_rt id (demo_load ''b'' 9) (run_loads demo_rt id ?loads resetLoadCache) = ((Inr 4, 9), c')" ..
  note served = primCachedLoad_serves[OF this]
  have off: "ld_typecheck (demo_load ''b'' 9) = False" by (simp add: demo_load_def)
  have read: "\<not> reads_as demo_rt (demo_load ''b'' 9) p 4 9" for p by (simp add: reads_as_def demo_reads demo_load_def)
  from served obtain p fresh content where p: "finds id (demo_load ''b'' 9) p False fresh" "ev_ReadFile (ld_found (demo_load ''b'' 9)) p = Inr content"
    "id content = lf_hash fresh" "last_read demo_rt id ?loads p False fresh 4"
    using read unfolding off by blast
  moreover have "content = ''b''" using p(2) by (simp add: demo_load_def demo_fs_def)
  ultimately show ?thesis using read by auto
qed

section \<open>The start of the runtime\<close>

definition loader_names :: "string list" where
  "loader_names =
     [''TopLevelMain'', ''CoreMain'', ''SysMain'', ''SequentMain'', ''YaccMain'', ''ReaderMain'', ''PrologMain'', ''TrackMain'',
      ''LoadMain'', ''WriterMain'', ''MacrosMain'', ''DeclarationsMain'', ''TStarMain'', ''TypesMain'', ''DictMain'', ''InitMain'']"

fun run_loaders :: "(string \<Rightarrow> 's \<Rightarrow> string option \<times> 's) \<Rightarrow> string list \<Rightarrow> 's \<Rightarrow> string option \<times> 's" where
  "run_loaders call [] s = (None, s)"
| "run_loaders call (l # ls) s =
     (case call l s of
        (Some e, s') \<Rightarrow> (Some (''shenfull.Init: '' @ l @ '' returned error: '' @ e), s')
      | (None, s') \<Rightarrow> run_loaders call ls s')"

definition Init ::
  "(string \<Rightarrow> 's \<Rightarrow> string option \<times> 's) \<Rightarrow> ('s \<Rightarrow> 's) \<Rightarrow> ('s \<Rightarrow> string option \<times> 's) \<Rightarrow> 's \<Rightarrow> string option \<times> 's" where
  "Init call installLoadCache initialise s =
     (case run_loaders call loader_names s of
        (Some e, s') \<Rightarrow> (Some e, s')
      | (None, s') \<Rightarrow>
          (case initialise (installLoadCache s') of
             (Some e, s'') \<Rightarrow> (Some (''shenfull.Init: shen.initialise returned error: '' @ e), s'')
           | (None, s'') \<Rightarrow> (None, s'')))"

lemma run_loaders_None: "run_loaders call ls s = (None, s') \<Longrightarrow> s' = foldl (\<lambda>st l. snd (call l st)) s ls"
  by (induction call ls s rule: run_loaders.induct) (auto split: prod.splits option.splits)

text \<open>A runtime that starts has loaded every module in order, then the cache, then its tables.\<close>

lemma Init_ok:
  assumes "Init call installLoadCache initialise s = (None, s')"
  shows "s' = snd (initialise (installLoadCache (foldl (\<lambda>st l. snd (call l st)) s loader_names)))"
  using assms by (auto simp: Init_def dest!: run_loaders_None split: prod.splits option.splits)

end
