(* ===== verification/KernelReference.thy ===== *)
theory KernelReference
  imports KernelSpec2 Coverage
begin

text \<open>
  The joins of R12, R14, R16 and R21 as the kernel still states them in Shen, and the proof that the
  indexed computations of the Go side, which have replaced them, report the same.  The Shen functions
  are the reference: nothing calls them any more, but their comments define the rules.
\<close>

section \<open>Resource keys and steps\<close>

fun key_in_p :: "sexp \<Rightarrow> sexp \<Rightarrow> sexp \<Rightarrow> sexp list \<Rightarrow> bool" where
  "key_in_p Kind Name Ns [] = False"
| "key_in_p Kind Name Ns (k # rest) =
     ((case fact ''resource-key'' k of Some [_, kk, kns, kn] \<Rightarrow> kk = Kind \<and> kns = Ns \<and> kn = Name | _ \<Rightarrow> False) \<or>
      key_in_p Kind Name Ns rest)"

definition state_keys :: "sexp \<Rightarrow> sexp list option" where
  "state_keys x = (case x of SCons (SSym t) keys \<Rightarrow> if t = ''state'' then elems keys else Some [] | _ \<Rightarrow> Some [])"

lemma key_in_objs:
  "key_in_p (SStr kind) (SStr name) (SStr ns) (map (resourceKeyToObj sexp_kl) ks) =
     list_ex (\<lambda>k. rk_Kind k = kind \<and> rk_Namespace k = ns \<and> rk_Name k = name) ks"
  by (induction ks) (auto simp: resourceKeyToObj_def fact_def sexp_simps)

definition step_state :: "Step \<Rightarrow> sexp list" where
  "step_state s = map (resourceKeyToObj sexp_kl) (sortResourceKeys (st_State s))"

lemma key_in_step: "key_in_p (SStr kind) (SStr name) (SStr ns) (step_state s) = live s kind ns name"
  by (simp add: step_state_def key_in_objs live_def list_ex_iff sortResourceKeys_def)

lemma fact_step:
  "\<exists>a b c sec. fact ''step'' (stepToObj sexp_kl s) = Some [a, b, c, sec] \<and> state_keys sec = Some (step_state s)"
  by (simp add: stepToObj_def fact_def sexp_simps section_obj_def state_keys_def step_state_def resourceKeyObjs_def)

section \<open>R12\<close>

definition violates_at_step_p :: "sexp \<Rightarrow> sexp \<Rightarrow> sexp \<Rightarrow> sexp \<Rightarrow> sexp \<Rightarrow> sexp \<Rightarrow> sexp \<Rightarrow> bool option" where
  "violates_at_step_p OKind OName ONs TKind TName TNs s =
     (case fact ''step'' s of
        Some [_, _, _, StateSec] \<Rightarrow>
          do { State \<leftarrow> state_keys StateSec; Some (key_in_p OKind OName ONs State \<and> \<not> key_in_p TKind TName TNs State) }
      | _ \<Rightarrow> Some False)"

fun mount_ref_violates_p :: "sexp \<Rightarrow> sexp \<Rightarrow> sexp \<Rightarrow> sexp \<Rightarrow> sexp \<Rightarrow> sexp \<Rightarrow> sexp list \<Rightarrow> bool option" where
  "mount_ref_violates_p OKind OName ONs TKind TName TNs [] = Some False"
| "mount_ref_violates_p OKind OName ONs TKind TName TNs (s # rest) =
     do { v \<leftarrow> violates_at_step_p OKind OName ONs TKind TName TNs s;
          if v then Some True else mount_ref_violates_p OKind OName ONs TKind TName TNs rest }"

fun dedup_key_seen_p :: "sexp list \<Rightarrow> sexp list list \<Rightarrow> bool" where
  "dedup_key_seen_p key [] = False"
| "dedup_key_seen_p key (k # rest) = (k = key \<or> dedup_key_seen_p key rest)"

fun check_r12_cross_fold :: "sexp list \<Rightarrow> sexp list \<Rightarrow> sexp list list \<Rightarrow> sexp list \<Rightarrow> (sexp list list \<times> sexp list) option" where
  "check_r12_cross_fold Trajectory [] Seen Acc = Some (Seen, Acc)"
| "check_r12_cross_fold Trajectory (m # rest) Seen Acc =
     (case fact ''mount-ref-fact'' m of
        Some [OKind, OName, ONs, TKind, TName, TNs, MKind, Optional, Src] \<Rightarrow>
          do { optional \<leftarrow> sexp_bool Optional;
               if optional then check_r12_cross_fold Trajectory rest Seen Acc
               else do { v \<leftarrow> mount_ref_violates_p OKind OName ONs TKind TName TNs Trajectory;
                         if \<not> v then check_r12_cross_fold Trajectory rest Seen Acc
                         else if dedup_key_seen_p [OKind, OName, ONs, TKind, TName, TNs] Seen
                         then check_r12_cross_fold Trajectory rest Seen Acc
                         else do { j \<leftarrow> r12_cross_emit OKind OName TKind TName MKind Src;
                                   check_r12_cross_fold Trajectory rest ([OKind, OName, ONs, TKind, TName, TNs] # Seen) (Acc @ [j]) } } }
      | _ \<Rightarrow> check_r12_cross_fold Trajectory rest Seen Acc)"

lemma dedup_key_seen_set [simp]: "dedup_key_seen_p key seen = (key \<in> set seen)"
  by (induction seen) auto

lemma violates_at_step_obj:
  "violates_at_step_p (SStr (mr_OwnerKind x)) (SStr (mr_OwnerName x)) (SStr (mr_OwnerNamespace x))
     (SStr (mr_TargetKind x)) (SStr (mr_TargetName x)) (SStr (mr_TargetNamespace x)) (stepToObj sexp_kl s) = Some (dangling_at x s)"
proof -
  obtain a b c sec where s: "fact ''step'' (stepToObj sexp_kl s) = Some [a, b, c, sec]" "state_keys sec = Some (step_state s)"
    using fact_step by blast
  show ?thesis by (simp add: violates_at_step_p_def s key_in_step dangling_at_def)
qed

lemma mount_ref_violates_obj:
  "mount_ref_violates_p (SStr (mr_OwnerKind x)) (SStr (mr_OwnerName x)) (SStr (mr_OwnerNamespace x))
     (SStr (mr_TargetKind x)) (SStr (mr_TargetName x)) (SStr (mr_TargetNamespace x)) (map (stepToObj sexp_kl) steps) =
   Some (list_ex (dangling_at x) steps)"
  by (induction steps) (simp_all add: violates_at_step_obj)

lemma fact_mount:
  "fact ''mount-ref-fact'' (mountRefToObj sexp_kl x) =
     Some [SStr (mr_OwnerKind x), SStr (mr_OwnerName x), SStr (mr_OwnerNamespace x), SStr (mr_TargetKind x), SStr (mr_TargetName x),
       SStr (mr_TargetNamespace x), SStr (mr_MountKind x), SBool (mr_Optional x), src_obj (mr_Source x)]"
  by (simp add: mountRefToObj_def fact_def sexp_simps)

lemma emit_mount:
  "r12_cross_emit (SStr (mr_OwnerKind x)) (SStr (mr_OwnerName x)) (SStr (mr_TargetKind x)) (SStr (mr_TargetName x)) (SStr (mr_MountKind x)) (src_obj (mr_Source x)) =
     Some (J (r12_finding (r12_violation x)))"
  by (simp add: r12_cross_emit_def r12_finding_def r12_violation_def judgments)

lemma map_SStr_inj: "map SStr a = map SStr b \<longleftrightarrow> a = b"
  by (metis inj_map_eq_map inj_def sexp.inject(2))

lemma r12_reference:
  "check_r12_cross_fold (map (stepToObj sexp_kl) steps) (map (mountRefToObj sexp_kl) refs) (map (map SStr) seen) acc =
     Some (map (map SStr) (rev (map mount_subject (dedup_on mount_subject seen (filter (required_dangling steps) refs))) @ seen),
       acc @ map J (map r12_finding (map r12_violation (dedup_on mount_subject seen (filter (required_dangling steps) refs)))))"
proof (induction refs arbitrary: seen acc)
  case (Cons x refs)
  let ?subject = "[SStr (mr_OwnerKind x), SStr (mr_OwnerName x), SStr (mr_OwnerNamespace x),
      SStr (mr_TargetKind x), SStr (mr_TargetName x), SStr (mr_TargetNamespace x)]"
  have subject: "?subject = map SStr (mount_subject x)" by (simp add: mount_subject_def)
  have seen: "?subject \<in> set (map (map SStr) seen) \<longleftrightarrow> mount_subject x \<in> set seen"
    unfolding subject by (auto simp: map_SStr_inj image_iff)
  have new: "?subject # map (map SStr) seen = map (map SStr) (mount_subject x # seen)" by (simp add: subject)
  show ?case
  proof (cases "required_dangling steps x \<and> mount_subject x \<notin> set seen")
    case True
    then show ?thesis
      using Cons.IH[of "mount_subject x # seen" "acc @ [J (r12_finding (r12_violation x))]"] seen
      by (simp add: fact_mount mount_ref_violates_obj emit_mount required_dangling_def new del: set_map)
  next
    case False
    then show ?thesis using Cons.IH[of seen acc] seen
      by (auto simp: fact_mount mount_ref_violates_obj required_dangling_def simp del: set_map)
  qed
qed simp

section \<open>R14\<close>

definition binding_uses_sa_p :: "sexp \<Rightarrow> sexp \<Rightarrow> sexp \<Rightarrow> bool" where
  "binding_uses_sa_p b SAName SANs =
     (case fact ''rbac-binding-fact'' b of
        Some [_, _, _, SKind, SName, SNs, _, _, _, _] \<Rightarrow> SKind = SStr ''ServiceAccount'' \<and> SName = SAName \<and> SNs = SANs
      | _ \<Rightarrow> False)"

definition binding_live_p :: "sexp \<Rightarrow> sexp list \<Rightarrow> bool" where
  "binding_live_p b State =
     (case fact ''rbac-binding-fact'' b of
        Some [BKind, BName, BNs, _, _, _, RoleKind, RoleName, RoleNs, _] \<Rightarrow>
          key_in_p BKind BName BNs State \<and> key_in_p RoleKind RoleName RoleNs State
      | _ \<Rightarrow> False)"

fun any_binding_live_p :: "sexp list \<Rightarrow> sexp list \<Rightarrow> bool" where
  "any_binding_live_p [] State = False"
| "any_binding_live_p (b # rest) State = (binding_live_p b State \<or> any_binding_live_p rest State)"

definition check_r14_cross_binding :: "sexp \<Rightarrow> sexp \<Rightarrow> sexp \<Rightarrow> sexp \<Rightarrow> sexp list option" where
  "check_r14_cross_binding b OKind OName Src =
     (case fact ''rbac-binding-fact'' b of
        Some [BKind, BName, BNs, _, _, _, RoleKind, RoleName, _, BSrc] \<Rightarrow>
          do { bKind \<leftarrow> sexp_str BKind; bName \<leftarrow> sexp_str BName; okind \<leftarrow> sexp_str OKind; oname \<leftarrow> sexp_str OName;
               Some [make_error ''XPC014'' Src (r14_message bKind bName okind oname) (r14_detail okind oname bName) (r14_fix bName) [BSrc]] }
      | _ \<Rightarrow> Some [])"

fun r14_cross_emit_all :: "sexp list \<Rightarrow> sexp \<Rightarrow> sexp \<Rightarrow> sexp \<Rightarrow> sexp list option" where
  "r14_cross_emit_all [] OKind OName Src = Some []"
| "r14_cross_emit_all (b # rest) OKind OName Src =
     do { js \<leftarrow> check_r14_cross_binding b OKind OName Src; more \<leftarrow> r14_cross_emit_all rest OKind OName Src; Some (js @ more) }"

definition check_r14_cross_sa :: "sexp \<Rightarrow> sexp list \<Rightarrow> sexp list \<Rightarrow> sexp list option" where
  "check_r14_cross_sa sa State Bindings =
     (case fact ''sa-ref-fact'' sa of
        Some [OKind, OName, ONs, SAName, SANs, Src] \<Rightarrow>
          if key_in_p OKind OName ONs State
          then let MyBindings = shen_filter (\<lambda>b. binding_uses_sa_p b SAName SANs) Bindings in
               if any_binding_live_p MyBindings State then Some [] else r14_cross_emit_all MyBindings OKind OName Src
          else Some []
      | _ \<Rightarrow> Some [])"

definition check_r14_cross_step :: "sexp \<Rightarrow> sexp list \<Rightarrow> sexp list \<Rightarrow> sexp list option" where
  "check_r14_cross_step s SARefs Bindings =
     (case fact ''step'' s of
        Some [_, _, _, StateSec] \<Rightarrow>
          do { State \<leftarrow> state_keys StateSec; flat_map (\<lambda>sa. check_r14_cross_sa sa State Bindings) SARefs }
      | _ \<Rightarrow> Some [])"

lemma fact_binding:
  "fact ''rbac-binding-fact'' (rbacBindingToObj sexp_kl x) =
     Some [SStr (rbb_BindingKind x), SStr (rbb_BindingName x), SStr (rbb_BindingNamespace x), SStr (rbb_SubjectKind x),
       SStr (rbb_SubjectName x), SStr (rbb_SubjectNamespace x), SStr (rbb_RoleKind x), SStr (rbb_RoleName x),
       SStr (rbb_RoleNamespace x), src_obj (rbb_Source x)]"
  by (simp add: rbacBindingToObj_def fact_def sexp_simps)

lemma fact_sa:
  "fact ''sa-ref-fact'' (saRefToObj sexp_kl sa) =
     Some [SStr (sar_OwnerKind sa), SStr (sar_OwnerName sa), SStr (sar_OwnerNamespace sa), SStr (sar_SAName sa), SStr (sar_SANamespace sa),
       src_obj (sar_Source sa)]"
  by (simp add: saRefToObj_def fact_def sexp_simps)

lemma any_binding_live_objs:
  "any_binding_live_p (map (rbacBindingToObj sexp_kl) bs) (step_state s) = list_ex (effective_at s) bs"
  by (induction bs) (simp_all add: binding_live_p_def fact_binding key_in_step effective_at_def)

lemma binding_uses_sa_objs:
  "filter (\<lambda>b. binding_uses_sa_p b (SStr (sar_SAName sa)) (SStr (sar_SANamespace sa))) (map (rbacBindingToObj sexp_kl) bs) =
     map (rbacBindingToObj sexp_kl) (filter (\<lambda>x. grants x sa) bs)"
  by (induction bs) (auto simp: binding_uses_sa_p_def fact_binding grants_def)

lemma emit_all_objs:
  "r14_cross_emit_all (map (rbacBindingToObj sexp_kl) bs) (SStr (sar_OwnerKind sa)) (SStr (sar_OwnerName sa)) (src_obj (sar_Source sa)) =
     Some (map J (map r14_finding (map (r14_violation sa) bs)))"
  by (induction bs) (simp_all add: check_r14_cross_binding_def fact_binding r14_finding_def r14_violation_def judgments)

text \<open>The violations of one workload in one step.\<close>

definition r14_regressions :: "RBACBinding list \<Rightarrow> Step \<Rightarrow> SARef \<Rightarrow> r14Violation list" where
  "r14_regressions bs s sa =
     (if live s (sar_OwnerKind sa) (sar_OwnerNamespace sa) (sar_OwnerName sa) \<and>
         \<not> list_ex (effective_at s) (filter (\<lambda>x. grants x sa) bs)
      then map (r14_violation sa) (filter (\<lambda>x. grants x sa) bs) else [])"

lemma check_r14_cross_sa_obj:
  "check_r14_cross_sa (saRefToObj sexp_kl sa) (step_state s) (map (rbacBindingToObj sexp_kl) bs) =
     Some (map J (map r14_finding (r14_regressions bs s sa)))"
  by (simp add: check_r14_cross_sa_def fact_sa key_in_step Let_def binding_uses_sa_objs any_binding_live_objs emit_all_objs
      r14_regressions_def del: map_map)

lemma r14_reference:
  "flat_map (\<lambda>s. check_r14_cross_step s (map (saRefToObj sexp_kl) sas) (map (rbacBindingToObj sexp_kl) bs)) (map (stepToObj sexp_kl) steps) =
     Some (map J (map r14_finding (concat (map (\<lambda>s. concat (map (r14_regressions bs s) sas)) steps))))"
proof -
  have one: "check_r14_cross_step (stepToObj sexp_kl s) (map (saRefToObj sexp_kl) sas) (map (rbacBindingToObj sexp_kl) bs) =
      Some (map J (concat (map (\<lambda>sa. map r14_finding (r14_regressions bs s sa)) sas)))" for s
  proof -
    obtain a b c sec where s: "fact ''step'' (stepToObj sexp_kl s) = Some [a, b, c, sec]" "state_keys sec = Some (step_state s)"
      using fact_step by blast
    show ?thesis
      using rows[of "\<lambda>sa. check_r14_cross_sa sa (step_state s) (map (rbacBindingToObj sexp_kl) bs)" "saRefToObj sexp_kl",
          OF check_r14_cross_sa_obj]
      by (simp add: check_r14_cross_step_def s)
  qed
  show ?thesis
    using rows[of "\<lambda>s. check_r14_cross_step s (map (saRefToObj sexp_kl) sas) (map (rbacBindingToObj sexp_kl) bs)" "stepToObj sexp_kl", OF one]
    by (simp add: map_concat o_def)
qed

lemma r14_of_list:
  assumes "step_nulfree s" "\<forall>x \<in> set bs. binding_nulfree x" "sa_nulfree sa"
  shows "r14_of (bindingsBySA bs) (step_keys s) sa = r14_regressions bs s sa"
proof -
  have owner: "stateKey (sar_OwnerKind sa) (sar_OwnerNamespace sa) (sar_OwnerName sa) \<in> set (step_keys s) \<longleftrightarrow>
        live s (sar_OwnerKind sa) (sar_OwnerNamespace sa) (sar_OwnerName sa)"
    using assms by (simp add: step_keys_live sa_nulfree_def)
  let ?mine = "filter (\<lambda>x. grants x sa) bs"
  have lv: "list_ex (binding_live (step_keys s)) ?mine = list_ex (effective_at s) ?mine"
    using assms by (auto simp: list_ex_iff binding_live_iff)
  have dead: "filter (\<lambda>x. \<not> binding_live (step_keys s) x) ?mine = ?mine" if "\<not> list_ex (effective_at s) ?mine"
    using that lv by (auto simp: list_ex_iff intro!: filter_cong)
  show ?thesis
    using dead unfolding r14_of_def owner Let_def bindingsBySA_grants[OF assms(2,3)] lv r14_regressions_def by simp
qed

section \<open>R16 and R21\<close>

fun r16_last_seg :: "string list \<Rightarrow> string list \<Rightarrow> string" where
  "r16_last_seg [] acc = xpc_implode (xpc_reverse acc)"
| "r16_last_seg (c # rest) acc = (if c = ''.'' then r16_last_seg rest [] else r16_last_seg rest (c # acc))"

definition r16_leaf_of :: "string \<Rightarrow> string" where
  "r16_leaf_of pth = r16_last_seg (explode pth) []"

fun r16_string_list_member_p :: "sexp \<Rightarrow> sexp list \<Rightarrow> bool" where
  "r16_string_list_member_p s [] = False"
| "r16_string_list_member_p s (x # rest) = (if s = x then True else r16_string_list_member_p s rest)"

definition r16_scope_matches_p :: "sexp \<Rightarrow> sexp \<Rightarrow> sexp \<Rightarrow> sexp \<Rightarrow> bool" where
  "r16_scope_matches_p EntryG EntryK ResG ResK =
     ((EntryG = SStr ''*'' \<or> EntryG = SStr [] \<or> EntryG = ResG) \<and> (EntryK = SStr ''*'' \<or> EntryK = SStr [] \<or> EntryK = ResK))"

text \<open>A path that is not empty and contains the leaf; \<^verbatim>\<open>string-contains?\<close> needs a string.\<close>

definition path_contains :: "sexp \<Rightarrow> string \<Rightarrow> bool option" where
  "path_contains p leaf = (if p = SStr [] then Some False else map_option (\<lambda>s. string_contains_p s leaf) (sexp_str p))"

definition r16_entry_covers_p :: "string \<Rightarrow> sexp \<Rightarrow> sexp \<Rightarrow> sexp \<Rightarrow> bool option" where
  "r16_entry_covers_p leaf ResG ResK e =
     (case fact ''ignore-diff-entry'' e of
        Some [_, EntryG, EntryK, JSONPointer, JQPath, MFM] \<Rightarrow>
          if r16_scope_matches_p EntryG EntryK ResG ResK
          then do { managers \<leftarrow> elems MFM;
                    if r16_string_list_member_p (SStr ''crossplane'') managers then Some True
                    else do { j \<leftarrow> path_contains JSONPointer leaf; if j then Some True else path_contains JQPath leaf } }
          else Some False
      | _ \<Rightarrow> Some False)"

fun r16_covered_p :: "string \<Rightarrow> sexp \<Rightarrow> sexp \<Rightarrow> sexp list \<Rightarrow> bool option" where
  "r16_covered_p leaf ResG ResK [] = Some False"
| "r16_covered_p leaf ResG ResK (e # rest) =
     do { b \<leftarrow> r16_entry_covers_p leaf ResG ResK e; if b then Some True else r16_covered_p leaf ResG ResK rest }"

definition r16_check_usage :: "sexp \<Rightarrow> sexp list \<Rightarrow> sexp list option" where
  "r16_check_usage u IgnoreDiffEntries =
     (case fact ''selector-usage-fact'' u of
        Some [Group, Kind, Name, Namespace, SelectorPath, ResolvedPath, Src] \<Rightarrow>
          do { resolvedPath \<leftarrow> sexp_str ResolvedPath;
               let leaf = r16_leaf_of resolvedPath in
               do { c \<leftarrow> r16_covered_p leaf Group Kind IgnoreDiffEntries;
                    if c then Some []
                    else do { grp \<leftarrow> sexp_str Group; kind \<leftarrow> sexp_str Kind; name \<leftarrow> sexp_str Name; selectorPath \<leftarrow> sexp_str SelectorPath;
                              Some [make_error ''XPC.E.selector-needs-ignore-diff'' Src (r16_message kind name selectorPath resolvedPath)
                                      (r16_detail selectorPath kind grp resolvedPath) (r16_fix grp kind leaf) []] } } }
      | _ \<Rightarrow> Some [])"

text \<open>The helpers of R21 are those of R16 under other names, clause for clause.\<close>

definition r21_leaf_of :: "string \<Rightarrow> string" where
  "r21_leaf_of pth = r16_last_seg (explode pth) []"

definition r21_covered_p :: "string \<Rightarrow> sexp \<Rightarrow> sexp \<Rightarrow> sexp list \<Rightarrow> bool option" where
  "r21_covered_p leaf ResG ResK entries = r16_covered_p leaf ResG ResK entries"

definition r21_check_usage :: "sexp \<Rightarrow> sexp list \<Rightarrow> sexp list option" where
  "r21_check_usage u IgnoreDiffEntries =
     (case fact ''late-init-usage-fact'' u of
        Some [Group, Kind, Name, Namespace, FieldPath, Src] \<Rightarrow>
          do { fieldPath \<leftarrow> sexp_str FieldPath;
               let leaf = r21_leaf_of fieldPath in
               do { c \<leftarrow> r21_covered_p leaf Group Kind IgnoreDiffEntries;
                    if c then Some []
                    else do { grp \<leftarrow> sexp_str Group; kind \<leftarrow> sexp_str Kind; name \<leftarrow> sexp_str Name;
                              Some [make_error ''XPC.E.late-init-needs-ignore-diff'' Src (r21_message kind name fieldPath)
                                      (r21_detail fieldPath kind grp) (r21_fix leaf) []] } } }
      | _ \<Rightarrow> Some [])"

lemma last_seg_leaf:
  "r16_last_seg (explode s) acc = (if CHR ''.'' \<in> set s then leafSegment s else concat (rev acc) @ s)"
proof (induction s arbitrary: acc)
  case (Cons c s)
  then show ?case
    using LastIndexByte_None[of s "CHR ''.''"]
    by (cases "LastIndexByte s (CHR ''.'')") (auto simp: explode_def leafSegment_def simp del: LastIndexByte_None split: option.splits)
qed (simp add: explode_def leafSegment_def)

lemma leaf_of: "r16_leaf_of s = leafSegment s" "r21_leaf_of s = leafSegment s"
  using last_seg_leaf[of s "[]"] LastIndexByte_None[of s "CHR ''.''"]
  by (auto simp: r16_leaf_of_def r21_leaf_of_def leafSegment_def simp del: LastIndexByte_None split: option.splits)

lemma string_list_member_objs: "r16_string_list_member_p (SStr s) (map SStr ss) = (s \<in> set ss)"
  by (induction ss) auto

lemma entry_covers_obj:
  "r16_entry_covers_p leaf (SStr g) (SStr k) (ignoreDiffEntryToObj sexp_kl e) = Some (ignoreDiffEntryCovers e g k leaf)"
proof -
  have f: "fact ''ignore-diff-entry'' (ignoreDiffEntryToObj sexp_kl e) =
      Some [SStr (ide_AppName e), SStr (ide_Group e), SStr (ide_Kind e), SStr (ide_JSONPointer e), SStr (ide_JQPath e),
        slst (map SStr (ide_ManagedFieldsManagers e))]"
    by (simp add: ignoreDiffEntryToObj_def fact_def sexp_simps sexp_kl_fields[abs_def])
  have p: "path_contains (SStr p) leaf = Some (p \<noteq> [] \<and> Contains p leaf)" for p
    by (simp add: path_contains_def string_contains_Contains)
  have m: "r16_scope_matches_p (SStr (ide_Group e)) (SStr (ide_Kind e)) (SStr g) (SStr k) = ignoreDiffScopeMatches (ide_Group e) (ide_Kind e) g k"
    by (simp add: r16_scope_matches_p_def ignoreDiffScopeMatches_def)
  show ?thesis by (simp add: r16_entry_covers_p_def f p m string_list_member_objs ignoreDiffEntryCovers_def)
qed

lemma covered_objs:
  "r16_covered_p leaf (SStr g) (SStr k) (map (ignoreDiffEntryToObj sexp_kl) es) = Some (list_ex (\<lambda>e. ignoreDiffEntryCovers e g k leaf) es)"
  by (induction es) (simp_all add: entry_covers_obj)

definition uncovered :: "IgnoreDiffEntry list \<Rightarrow> string \<Rightarrow> string \<Rightarrow> string \<Rightarrow> bool" where
  "uncovered es g k pth = (\<not> list_ex (\<lambda>e. ignoreDiffEntryCovers e g k (leafSegment pth)) es)"

lemma r16_reference:
  "flat_map (\<lambda>u. r16_check_usage u (map (ignoreDiffEntryToObj sexp_kl) es)) (map (selectorUsageToObj sexp_kl) us) =
     Some (map J (map r16_finding (map r16_violation (filter (\<lambda>u. uncovered es (su_ResourceGroup u) (su_ResourceKind u) (su_ResolvedPath u)) us))))"
proof -
  have "r16_check_usage (selectorUsageToObj sexp_kl u) (map (ignoreDiffEntryToObj sexp_kl) es) =
      Some (map J (if uncovered es (su_ResourceGroup u) (su_ResourceKind u) (su_ResolvedPath u) then [r16_finding (r16_violation u)] else []))" for u
    by (simp add: r16_check_usage_def selectorUsageToObj_def fact_def sexp_simps leaf_of covered_objs uncovered_def r16_finding_def
        r16_violation_def judgments Let_def)
  note rows[of "\<lambda>u. r16_check_usage u (map (ignoreDiffEntryToObj sexp_kl) es)" "selectorUsageToObj sexp_kl", OF this]
  then show ?thesis by (simp add: concat_map_keep)
qed

lemma r21_reference:
  "flat_map (\<lambda>u. r21_check_usage u (map (ignoreDiffEntryToObj sexp_kl) es)) (map (lateInitUsageToObj sexp_kl) us) =
     Some (map J (map r21_finding (map r21_violation (filter (\<lambda>u. uncovered es (liu_ResourceGroup u) (liu_ResourceKind u) (liu_FieldPath u)) us))))"
proof -
  have "r21_check_usage (lateInitUsageToObj sexp_kl u) (map (ignoreDiffEntryToObj sexp_kl) es) =
      Some (map J (if uncovered es (liu_ResourceGroup u) (liu_ResourceKind u) (liu_FieldPath u) then [r21_finding (r21_violation u)] else []))" for u
    by (simp add: r21_check_usage_def r21_covered_p_def lateInitUsageToObj_def fact_def sexp_simps leaf_of covered_objs uncovered_def
        r21_finding_def r21_violation_def judgments Let_def)
  note rows[of "\<lambda>u. r21_check_usage u (map (ignoreDiffEntryToObj sexp_kl) es)" "lateInitUsageToObj sexp_kl", OF this]
  then show ?thesis by (simp add: concat_map_keep)
qed

section \<open>The reference and the code\<close>

text \<open>No field of a key holds the NUL character the code joins keys with; Kubernetes names cannot.\<close>

definition keys_nulfree :: "Step list \<Rightarrow> MountRef list \<Rightarrow> SARef list \<Rightarrow> RBACBinding list \<Rightarrow> bool" where
  "keys_nulfree steps refs sas bindings =
     (list_all step_nulfree steps \<and> list_all (\<lambda>x. list_all nulfree (mount_subject x)) refs \<and>
      list_all sa_nulfree sas \<and> list_all binding_nulfree bindings)"

text \<open>A scope that the index of the code can look up: its group and kind are names.\<close>

definition scope_ok :: "string \<Rightarrow> string \<Rightarrow> bool" where
  "scope_ok g k = (nulfree g \<and> nulfree k \<and> g \<notin> {[], ''*''} \<and> k \<notin> {[], ''*''})"

lemma dedup_on_cong:
  assumes "\<forall>x \<in> set xs. \<forall>y \<in> set ys. f x = f y \<longleftrightarrow> g x = g y" "\<forall>x \<in> set xs. \<forall>y \<in> set xs. f x = f y \<longleftrightarrow> g x = g y"
  shows "dedup_on f (map f ys) xs = dedup_on g (map g ys) xs"
  using assms
proof (induction xs arbitrary: ys)
  case (Cons x xs)
  have "f x \<in> set (map f ys) \<longleftrightarrow> g x \<in> set (map g ys)" using Cons.prems(1) by auto
  moreover have "dedup_on f (map f (x # ys)) xs = dedup_on g (map g (x # ys)) xs"
    using Cons.prems by (intro Cons.IH) (auto dest!: bspec)
  moreover have "dedup_on f (map f ys) xs = dedup_on g (map g ys) xs" using Cons.prems by (intro Cons.IH) auto
  ultimately show ?case by simp
qed simp

lemma covers_uncovered:
  assumes "list_all (\<lambda>e. entry_nulfree e \<and> \<not> half_wildcard e) es" "scope_ok g k"
  shows "(\<not> covers (newIgnoreDiffIndex es) g k (leafSegment pth)) = uncovered es g k pth"
proof -
  have "\<forall>e \<in> set es. entry_nulfree e" "\<forall>e \<in> set es. \<not> half_wildcard e" using assms(1) by (auto simp: list_all_iff)
  then show ?thesis
    using covers_is_scan[of es g k "leafSegment pth"] assms(2) by (auto simp: scope_ok_def uncovered_def list_ex_iff)
qed

text \<open>
  C11: the joins computed by the Go side agree with the rules as the kernel states them.  When no key
  holds a NUL and no ignored difference has a scope that is half a wildcard and half empty, the
  violations of R12, R14, R16 and R21 that the code computes with its indexes and sends to the kernel
  become the very judgments, in the same order, that the Shen reference computes from the trajectory,
  the mounts, the service accounts and bindings, and the field usages.
\<close>

theorem precomputation_agrees:
  assumes "keys_nulfree steps refs sas bindings"
    and "list_all (\<lambda>e. entry_nulfree e \<and> \<not> half_wildcard e) entries"
    and "list_all (\<lambda>u. scope_ok (su_ResourceGroup u) (su_ResourceKind u)) sels"
    and "list_all (\<lambda>u. scope_ok (liu_ResourceGroup u) (liu_ResourceKind u)) lates"
  shows "check_r12_cross (slst (map (r12ViolationToObj sexp_kl) (buildR12Violations refs steps))) =
       map_option snd (check_r12_cross_fold (map (stepToObj sexp_kl) steps) (map (mountRefToObj sexp_kl) (SortFunc refs mountRefCmp)) [] []) \<and>
     check_r14_cross (slst (map (r14ViolationToObj sexp_kl) (buildR14Violations sas bindings steps))) =
       flat_map (\<lambda>s. check_r14_cross_step s (map (saRefToObj sexp_kl) (SortFunc sas saRefCmp))
           (map (rbacBindingToObj sexp_kl) (SortFunc bindings rbacBindingCmp))) (map (stepToObj sexp_kl) steps) \<and>
     check_r16 (slst (map (r16ViolationToObj sexp_kl) (buildR16Violations sels entries))) =
       flat_map (\<lambda>u. r16_check_usage u (map (ignoreDiffEntryToObj sexp_kl) entries)) (map (selectorUsageToObj sexp_kl) (SortFunc sels selectorUsageCmp)) \<and>
     check_r21 (slst (map (r21ViolationToObj sexp_kl) (buildR21Violations lates entries))) =
       flat_map (\<lambda>u. r21_check_usage u (map (ignoreDiffEntryToObj sexp_kl) entries)) (map (lateInitUsageToObj sexp_kl) (SortFunc lates lateInitUsageCmp))"
proof (intro conjI)
  have steps: "\<forall>s \<in> set steps. step_nulfree s" and refs: "\<forall>x \<in> set refs. \<forall>s \<in> set (mount_subject x). nulfree s"
    and sas: "\<forall>sa \<in> set sas. sa_nulfree sa" and bindings: "\<forall>x \<in> set bindings. binding_nulfree x"
    using assms(1) by (auto simp: keys_nulfree_def list_all_iff)
  let ?refs = "filter (required_dangling steps) (SortFunc refs mountRefCmp)"
  have "dedup_on r12_key (map r12_key []) ?refs = dedup_on mount_subject (map mount_subject []) ?refs"
    using refs by (intro dedup_on_cong) (auto simp: r12_key_inj)
  then have "buildR12Violations refs steps = map r12_violation (dedup_on mount_subject [] ?refs)"
    using buildR12_dedup[OF steps refs] by simp
  then show "check_r12_cross (slst (map (r12ViolationToObj sexp_kl) (buildR12Violations refs steps))) =
       map_option snd (check_r12_cross_fold (map (stepToObj sexp_kl) steps) (map (mountRefToObj sexp_kl) (SortFunc refs mountRefCmp)) [] [])"
    using r12_reference[of steps "SortFunc refs mountRefCmp" "[]" "[]"] by (simp only: r12_refines list.map option.map snd_conv append_Nil)
next
  have steps: "\<forall>s \<in> set steps. step_nulfree s" and sas: "\<forall>sa \<in> set (SortFunc sas saRefCmp). sa_nulfree sa"
    and bindings: "\<forall>x \<in> set (SortFunc bindings rbacBindingCmp). binding_nulfree x"
    using assms(1) by (auto simp: keys_nulfree_def list_all_iff)
  have "buildR14Violations sas bindings steps =
      concat (map (\<lambda>s. concat (map (r14_regressions (SortFunc bindings rbacBindingCmp) s) (SortFunc sas saRefCmp))) steps)"
    unfolding buildR14Violations_def Let_def buildStateKeySets_map map_map o_def
    using steps sas bindings by (intro arg_cong[of _ _ concat] map_cong refl) (auto simp: r14_of_list)
  then show "check_r14_cross (slst (map (r14ViolationToObj sexp_kl) (buildR14Violations sas bindings steps))) =
       flat_map (\<lambda>s. check_r14_cross_step s (map (saRefToObj sexp_kl) (SortFunc sas saRefCmp))
           (map (rbacBindingToObj sexp_kl) (SortFunc bindings rbacBindingCmp))) (map (stepToObj sexp_kl) steps)"
    by (simp only: r14_refines r14_reference)
next
  have "buildR16Violations sels entries =
      map r16_violation (filter (\<lambda>u. uncovered entries (su_ResourceGroup u) (su_ResourceKind u) (su_ResolvedPath u)) (SortFunc sels selectorUsageCmp))"
    using assms(3) unfolding buildR16Violations_def Let_def
    by (intro arg_cong[of _ _ "map r16_violation"] filter_cong) (auto simp: covers_uncovered[OF assms(2)] list_all_iff simp flip: not_ex)
  then show "check_r16 (slst (map (r16ViolationToObj sexp_kl) (buildR16Violations sels entries))) =
       flat_map (\<lambda>u. r16_check_usage u (map (ignoreDiffEntryToObj sexp_kl) entries)) (map (selectorUsageToObj sexp_kl) (SortFunc sels selectorUsageCmp))"
    by (simp only: r16_refines r16_reference)
next
  have "buildR21Violations lates entries =
      map r21_violation (filter (\<lambda>u. uncovered entries (liu_ResourceGroup u) (liu_ResourceKind u) (liu_FieldPath u)) (SortFunc lates lateInitUsageCmp))"
    using assms(4) unfolding buildR21Violations_def Let_def
    by (intro arg_cong[of _ _ "map r21_violation"] filter_cong) (auto simp: covers_uncovered[OF assms(2)] list_all_iff simp flip: not_ex)
  then show "check_r21 (slst (map (r21ViolationToObj sexp_kl) (buildR21Violations lates entries))) =
       flat_map (\<lambda>u. r21_check_usage u (map (ignoreDiffEntryToObj sexp_kl) entries)) (map (lateInitUsageToObj sexp_kl) (SortFunc lates lateInitUsageCmp))"
    by (simp only: r21_refines r21_reference)
qed

theorem precomputation_agrees_witness:
  "check_r12_cross (slst (map (r12ViolationToObj sexp_kl) (buildR12Violations [ex_mount ''gone''] [ex_step [ex_rkey ''Deployment'' ''web'']]))) =
     map_option snd (check_r12_cross_fold (map (stepToObj sexp_kl) [ex_step [ex_rkey ''Deployment'' ''web'']])
       (map (mountRefToObj sexp_kl) (SortFunc [ex_mount ''gone''] mountRefCmp)) [] []) \<and>
   check_r16 (slst (map (r16ViolationToObj sexp_kl) (buildR16Violations [ex_usage] [ex_entry ''*'' ''*'']))) =
     flat_map (\<lambda>u. r16_check_usage u (map (ignoreDiffEntryToObj sexp_kl) [ex_entry ''*'' ''*'']))
       (map (selectorUsageToObj sexp_kl) (SortFunc [ex_usage] selectorUsageCmp))"
proof -
  have "keys_nulfree [ex_step [ex_rkey ''Deployment'' ''web'']] [ex_mount ''gone''] [ex_sa] [ex_binding]"
    by (simp add: keys_nulfree_def ex_defs ex_sa_def ex_binding_def step_nulfree_def mount_subject_def sa_nulfree_def
        binding_nulfree_def nulfree_def)
  moreover have "list_all (\<lambda>e. entry_nulfree e \<and> \<not> half_wildcard e) [ex_entry ''*'' ''*'']"
    by (simp add: ex_entry_def entry_nulfree_def half_wildcard_def nulfree_def)
  moreover have "list_all (\<lambda>u. scope_ok (su_ResourceGroup u) (su_ResourceKind u)) [ex_usage]"
    by (simp add: ex_usage_def scope_ok_def nulfree_def)
  moreover have "list_all (\<lambda>u. scope_ok (liu_ResourceGroup u) (liu_ResourceKind u)) []" by simp
  ultimately show ?thesis using precomputation_agrees by blast
qed

end
