(* ===== verification/Spec2Isabelle.thy ===== *)
theory Spec2Isabelle
  imports WorldTypes Xpc SchemaCache ShenInit LoadCache KernelReference
begin

text \<open>
  \<^bold>\<open>A verification library for xpc, the Crossplane and Argo CD cross-validator.\<close>

  \<^bold>\<open>The program.\<close>  xpc loads Kubernetes manifests (\<^verbatim>\<open>pkg/loader\<close>), builds an
  intermediate representation of the whole deployment, the World (\<^verbatim>\<open>pkg/ir\<close>,
  \<^verbatim>\<open>pkg/types\<close>), rendering charts, overlays and compositions on the way
  (\<^verbatim>\<open>pkg/renderer\<close>), enriches it with facts from built-in registries and schemas
  (\<^verbatim>\<open>pkg/ir\<close>, \<^verbatim>\<open>pkg/schemas\<close>), simulates the sync waves of every Argo CD
  application (\<^verbatim>\<open>pkg/trajectory\<close>), folds all of it into violation lists and
  serializes them for a rule kernel written in Shen (\<^verbatim>\<open>pkg/checker\<close>), drops the findings
  a register accepts (\<^verbatim>\<open>pkg/waiver\<close>), reports the rest (\<^verbatim>\<open>pkg/report\<close>) and commits to
  them in a Merkle tree (\<^verbatim>\<open>pkg/audit\<close>).  Beside the check stand the comparison of two
  variants of a repository (\<^verbatim>\<open>pkg/plan\<close>), the search for the commit that introduced a
  finding (\<^verbatim>\<open>pkg/bisect\<close>), snapshots of manifests or of a live cluster
  (\<^verbatim>\<open>pkg/snapshot\<close>, \<^verbatim>\<open>pkg/clustersrc\<close>) and the configuration file (\<^verbatim>\<open>pkg/config\<close>).
  \<^verbatim>\<open>cmd/xpc\<close> puts the packages together.

  \<^bold>\<open>Shared theories.\<close>
  \<^item> \<open>Prelude\<close>: the functions of Go's \<^verbatim>\<open>strings\<close> and \<^verbatim>\<open>strconv\<close> the code calls, with
    their inverse laws; the collections \<open>go_str\<close>, \<open>go_map\<close>, \<open>go_sort\<close>.
  \<^item> \<open>GoData\<close>: decoded YAML and JSON values, Go maps as association lists, the seen-set
    loop, indexes built by appending, comparison chains, NUL-joined keys, and sorting, whose
    contract is the locale \<open>key_order\<close> (sorted, a permutation, idempotent, and independent
    of the algorithm when keys are distinct).
  \<^item> \<open>GoPath\<close>: \<^verbatim>\<open>path/filepath\<close> on slash-separated paths.  \<open>GoJson\<close>: the JSON text
    of strings and objects, and time stamps.  \<open>Regexp\<close>: matching with captures, for the
    regular expressions the code compiles.

  \<^bold>\<open>The World and its construction.\<close>
  \<^item> \<open>Types\<close>: \<^verbatim>\<open>pkg/types/types.go\<close>, every struct as a record, with its methods.
  \<^item> \<open>IrBase\<close>, \<open>LoadDir\<close>: the accessors of \<^verbatim>\<open>pkg/ir/builder.go\<close>; \<^verbatim>\<open>pkg/loader\<close> with its
    directory walk and its worker pool as a step relation: whatever the schedule, a load
    ends and gives the documents in path order.
  \<^item> \<open>PathWalk\<close>, \<open>JsonEq\<close>: \<^verbatim>\<open>pkg/ir/path_walk.go\<close>, deep equality and \<^verbatim>\<open>%v\<close>; walking a
    hit's own path returns that hit, hits have distinct paths, the two readers agree.
  \<^item> \<open>Registries\<close>: the eight registries of \<^verbatim>\<open>pkg/ir\<close>, row for row.
  \<^item> \<open>ArgoParse\<close>, \<open>AppSet\<close>: the Argo CD parsers of \<^verbatim>\<open>pkg/ir/builder.go\<close>;
    \<^verbatim>\<open>appset_expand.go\<close> and \<^verbatim>\<open>appset_template.go\<close>: one Application or one diagnostic for each
    parameter set, and what substitution renders.
  \<^item> \<open>Owner\<close>: ownership of a file by Applications, against the deepest containing directory;
    the locale \<open>upward_search\<close> of every walk towards the root, interpreted for the
    repository, the configuration, the kernel and the register of waivers.
  \<^item> \<open>CompCheck\<close>: the five checks of composition templates; the retry loop on unknown
    functions always reaches a verdict.
  \<^item> \<open>Extract\<close>: \<^verbatim>\<open>trajectory_extract.go\<close>; re-enriching replaced contents equals their first
    enrichment.
  \<^item> \<open>Schemas\<close>: \<^verbatim>\<open>pkg/schemas\<close> and \<^verbatim>\<open>field_validation.go\<close>; the validator is total on
    scalar enums and refines an inductive specification of violations.  \<open>SchemaCache\<close>: the
    cache of schemas returns what was put, from memory or from disk.
  \<^item> \<open>Renderer\<close>, \<open>RenderPass\<close>: \<^verbatim>\<open>pkg/renderer\<close> with its caches as state, and the passes of
    the builder that call it: merged values, cache keys, what a cached render reuses.
  \<^item> \<open>Builder\<close>, \<open>BuildWorld\<close>, \<open>WorldTypes\<close>: the handlers of \<^verbatim>\<open>pkg/ir/builder.go\<close> and the whole
    build: it accounts for every document, fails exactly on the first document without a
    required specification, and every digest it mentions resolves.
  \<^item> \<open>Sexpr\<close>: \<^verbatim>\<open>pkg/ir/sexpr.go\<close>; the text of a World is balanced.

  \<^bold>\<open>The check.\<close>
  \<^item> \<open>Config\<close>, \<open>Discover\<close>: \<^verbatim>\<open>pkg/config\<close>; exact contents of every resolved registry, through
    the locale \<open>overlay_registry\<close> interpreted for both overlay mechanisms; the file in
    force is the nearest one.
  \<^item> \<open>Trajectory\<close>: \<^verbatim>\<open>pkg/trajectory\<close>; the simulated state refines the specification by
    latest wave, steps are ordered, deltas account for state changes.
  \<^item> \<open>Violations\<close>, \<open>Coverage\<close>: the violation builders of \<^verbatim>\<open>pkg/checker/bridge.go\<close>;
    R12, R14, R15, R16 and R21 are exact, the scope index against a scan.
  \<^item> \<open>Enrich\<close>, \<open>Serialize\<close>, \<open>Bridge\<close>: the rest of \<^verbatim>\<open>pkg/checker\<close>: enrichment passes, rule
    tables, every converter to runtime objects, decoding, single and profiled runs.
  \<^item> \<open>Shen\<close>, \<open>KernelText\<close>, \<open>KernelRules\<close>, \<open>KernelRules2\<close>, \<open>KernelRules3\<close>: the rule kernel
    (\<^verbatim>\<open>kernel/*.shen\<close>), function by function, on the values of the Shen language; the texts
    of the findings.  \<open>KernelSpec\<close>, \<open>KernelSpec2\<close>: what each rule finds, on the records of the
    World, and that the Shen function computes it.  \<open>KernelCheck\<close>: \<^verbatim>\<open>check-world\<close> refines the table
    of these findings on every World and allowlist.  \<open>KernelRun\<close>: what runs with this kernel
    report, profiled or not, which findings a restricted run dispatches, and three rules from the
    World to the diagnostics.  \<open>KernelReference\<close>: the joins of R12, R14, R16 and R21 as the kernel
    still states them; what the Go side computes with its indexes agrees with them.
  \<^item> \<open>KernelDir\<close>: the extraction of the embedded kernel by processes that race and die; a
    published directory is complete.  \<open>ShenInit\<close>: the runtime is started once and the working
    directory is restored.  \<open>NativeReader\<close>, \<open>LoadCache\<close>: \<^verbatim>\<open>internal/shenfull/native_reader.go\<close>,
    \<^verbatim>\<open>load_cache.go\<close> and \<^verbatim>\<open>loader.go\<close>: the reader gives the forms a source file spells, whatever its
    layout and escapes; a cached load hands out forms that an earlier load read from the file when it
    had the same size, time and hash, processed in the state the runtime had then.
  \<^item> \<open>Waiver\<close>, \<open>WaiverFile\<close>: \<^verbatim>\<open>pkg/waiver\<close>; findings are partitioned, only live and specific
    waivers silence anything, counters are exact.
  \<^item> \<open>Report\<close>: \<^verbatim>\<open>pkg/report\<close> and \<^verbatim>\<open>pkg/bisect/detector.go\<close>; every format accounts for every
    diagnostic.
  \<^item> \<open>AuditLog\<close>: \<^verbatim>\<open>pkg/audit\<close>; what a root commits to (metadata, run summary and the digest
    of every subtree), up to a collision of the hash that the theorem exhibits, and what a generated proof contains.

  \<^bold>\<open>The other commands.\<close>
  \<^item> \<open>Bisect\<close>: \<^verbatim>\<open>pkg/bisect/bisect.go\<close>; if git can check out the commits of the range, the search
    returns one at which the finding flips, the first bad one of a history that flips once, in
    logarithmically many checks; it restores the worktrees on every path.
  \<^item> \<open>Plan\<close>, \<open>PlanOutput\<close>, \<open>PlanRun\<close>: \<^verbatim>\<open>pkg/plan\<close>; the delta partitions the identities, each
    rule reports exactly what its definition says, a run removes exactly the worktrees
    at its own places, stale ones included.
  \<^item> \<open>Snapshot\<close>, \<open>Cluster\<close>: \<^verbatim>\<open>pkg/snapshot\<close> and \<^verbatim>\<open>pkg/clustersrc\<close>; digests do not depend
    on the order, capture and materialisation are inverse, the merge lets manifests win, and
    a capture from a cluster loses no kind silently.
  \<^item> \<open>RuleFilter\<close>, \<open>Cli\<close>, \<open>Commands\<close>: \<^verbatim>\<open>cmd/xpc/main.go\<close>, every subcommand from its flags to
    its exit code: a check reports every finding that no live waiver accepts and exits
    accordingly, a restricted check reports exactly the findings of the unrestricted one that
    its selection dispatches, a plan passes only safe changes.  \<open>Skill\<close>:
    \<^verbatim>\<open>cmd/xpc/skill.go\<close> over the locale \<open>skill_disk\<close> of the operations of a disk, interpreted on a
    list of paths; installing is idempotent.  \<open>Xpc\<close>: the dispatch of \<^verbatim>\<open>main\<close>, and \<^verbatim>\<open>explain\<close>.

  \<^bold>\<open>Conventions.\<close>  A struct field \<^verbatim>\<open>F\<close> of a type \<^verbatim>\<open>T\<close> is a record selector with a
  prefix naming \<^verbatim>\<open>T\<close>.  Pointers are options, errors are the left summand or
  \<open>None\<close>, a panic is \<open>None\<close> or a constructor of its own.  Loops over Go maps take the map's
  entries in one iteration order; where the order matters for the result this is a
  theorem's hypothesis or conclusion.  Git, the file system, subprocesses, SHA-256, the YAML
  and JSON libraries, the parser of \<^verbatim>\<open>text/template\<close>, the runtime package of Shen and the
  float formatter are parameters; what the code relies on of them is a named predicate.  The
  rules of the kernel compute with the datatype \<open>sexp\<close>, for which the runtime's interface is
  instantiated as \<open>sexp_kl\<close>; an expression that raises an error in Shen is \<open>None\<close>, and a
  symbol, a string and a number are told apart as the language does.  No definition uses
  fuel: every loop is structural or has a termination proof.

  \<^bold>\<open>Not modelled.\<close>
  \<^item> \<^verbatim>\<open>internal/shenfull\<close> but for the three files above: the compiled Shen runtime, generated code.
    The model of the kernel reads the sources of the rules as the language defines them.
  \<^item> Of the functions of the kernel that nothing calls any more: R13, the folds of R12 and R14 over
    the resources of a step, the matchers of R15 and the printers of judgments.
  \<^item> The usage texts, the texts of the explanations and CPU profiling.
  \<^item> Measured durations and time limits; the in-place update of a map that two Applications
    share when values are merged (\<^verbatim>\<open>deepMerge\<close>): decoded values are values here.
\<close>

end
